(* ===== verification/Prelude.thy ===== *)
theory Prelude
  imports
    Complex_Main
    "HOL-Library.AList"
    "HOL-Library.Multiset"
    "HOL-Library.Product_Lexorder"
    "HOL-Library.List_Lexorder"
    "HOL-Library.Char_ord"
    "HOL-Library.Monad_Syntax"
begin

text \<open>
  Shared vocabulary of the development.

  \<^item> Python dictionaries are association lists in insertion order: \<open>dict_set\<close> overwrites the
    value of a present key in place and appends a new key at the end, as CPython does.
  \<^item> \<open>uniq\<close> is \<open>list(dict.fromkeys(xs))\<close>: duplicates removed, first occurrences kept in order.
  \<^item> Python's truth value of an optional string is \<open>truthy\<close>; \<open>x or y\<close> on optional strings is
    \<open>or_str\<close>.
  \<^item> Strings are lists of \<open>char\<close>, read as the UTF-8 bytes of the Python string.  UTF-8 keeps
    equality, concatenation, substring search and the code-point order of strings.
  \<^item> The locales \<open>draw_source\<close> and \<open>independent_pool\<close> are the interface of a pool of quantities from
    which needs are served greedily; their client lemmas are proved once, here, and each component
    that owns such a pool interprets them on its own state.
\<close>

named_theorems dict_simps \<open>lookup laws of association lists\<close>
named_theorems decimal_simps \<open>facts about exact decimals\<close>

section \<open>Dictionaries\<close>

type_synonym ('k, 'v) dict = "('k \<times> 'v) list"

definition dict_get :: "('k, 'v) dict \<Rightarrow> 'k \<Rightarrow> 'v option" where
  "dict_get d k = map_of d k"

definition dict_get_or :: "('k, 'v) dict \<Rightarrow> 'k \<Rightarrow> 'v \<Rightarrow> 'v" where
  "dict_get_or d k v = (case dict_get d k of None \<Rightarrow> v | Some w \<Rightarrow> w)"

definition dict_set :: "'k \<Rightarrow> 'v \<Rightarrow> ('k, 'v) dict \<Rightarrow> ('k, 'v) dict" where
  "dict_set k v d = AList.update k v d"

abbreviation dict_keys :: "('k, 'v) dict \<Rightarrow> 'k list" where
  "dict_keys d \<equiv> map fst d"

abbreviation dict_values :: "('k, 'v) dict \<Rightarrow> 'v list" where
  "dict_values d \<equiv> map snd d"

lemma dict_get_nil [simp, dict_simps]: "dict_get [] k = None"
  by (simp add: dict_get_def)

lemma dict_get_set [simp, dict_simps]:
  "dict_get (dict_set k v d) j = (if j = k then Some v else dict_get d j)"
  by (simp add: dict_get_def dict_set_def update_conv')

lemma dict_get_or_set [simp, dict_simps]:
  "dict_get_or (dict_set k v d) j w = (if j = k then v else dict_get_or d j w)"
  by (simp add: dict_get_or_def)

lemma dict_get_or_nil [simp, dict_simps]: "dict_get_or [] j w = w"
  by (simp add: dict_get_or_def)

lemma dict_keys_set:
  "dict_keys (dict_set k v d) = (if k \<in> set (dict_keys d) then dict_keys d else dict_keys d @ [k])"
  by (simp add: dict_set_def update_keys)

lemma distinct_dict_set [intro]: "distinct (dict_keys d) \<Longrightarrow> distinct (dict_keys (dict_set k v d))"
  by (simp add: dict_keys_set)

lemma dict_get_Some_in: "dict_get d k = Some v \<Longrightarrow> (k, v) \<in> set d"
  by (simp add: dict_get_def map_of_SomeD)

lemma dict_get_absent: "k \<notin> set (dict_keys d) \<Longrightarrow> dict_get d k = None"
  by (simp add: dict_get_def map_of_eq_None_iff)

lemma dict_get_or_absent: "k \<notin> set (dict_keys d) \<Longrightarrow> dict_get_or d k v = v"
  by (simp add: dict_get_or_def dict_get_absent)

lemma dict_get_iff: "distinct (dict_keys d) \<Longrightarrow> dict_get d k = Some v \<longleftrightarrow> (k, v) \<in> set d"
  by (simp add: dict_get_def)

section \<open>Lists\<close>

fun uniq :: "'a list \<Rightarrow> 'a list" where
  "uniq [] = []"
| "uniq (x # xs) = x # removeAll x (uniq xs)"

lemma set_uniq [simp]: "set (uniq xs) = set xs"
  by (induction xs) auto

lemma distinct_uniq [simp]: "distinct (uniq xs)"
  by (induction xs) (auto intro: distinct_filter simp: distinct_removeAll)

lemma uniq_id: "distinct xs \<Longrightarrow> uniq xs = xs"
  by (induction xs) auto

lemma set_map_filter: "set (List.map_filter f xs) = {y. \<exists>x \<in> set xs. f x = Some y}"
  by (induction xs) (auto simp: List.map_filter_simps split: option.split)

text \<open>The running sum of Python's \<open>sum\<close> is \<open>sum_list\<close>; a sum over a filter never exceeds the sum
  of non-negative terms.\<close>

lemma sum_list_filter_le:
  fixes f :: "'a \<Rightarrow> 'b::ordered_comm_monoid_add"
  assumes "\<And>x. x \<in> set xs \<Longrightarrow> 0 \<le> f x"
  shows "sum_list (map f (filter P xs)) \<le> sum_list (map f xs)"
  using assms
proof (induction xs)
  case Nil
  then show ?case by simp
next
  case (Cons x xs)
  then have IH: "sum_list (map f (filter P xs)) \<le> sum_list (map f xs)" and "0 \<le> f x" by auto
  then show ?case by (auto intro: add_mono add_increasing)
qed

lemma sum_list_mset_eq: "mset xs = mset ys \<Longrightarrow> sum_list (map f xs) = (sum_list (map f ys) :: rat)"
  by (metis mset_map sum_mset_sum_list)

lemma sum_list_map_nonneg:
  fixes f :: "'a \<Rightarrow> 'b::ordered_comm_monoid_add"
  shows "(\<And>x. x \<in> set xs \<Longrightarrow> 0 \<le> f x) \<Longrightarrow> 0 \<le> sum_list (map f xs)"
  by (induction xs) auto

section \<open>Optional strings\<close>

definition truthy :: "string option \<Rightarrow> bool" where
  "truthy s = (case s of None \<Rightarrow> False | Some t \<Rightarrow> t \<noteq> [])"

definition or_str :: "string option \<Rightarrow> string option \<Rightarrow> string option" where
  "or_str a b = (if truthy a then a else b)"

lemma truthy_simps [simp]: "truthy None = False" "truthy (Some t) = (t \<noteq> [])"
  by (simp_all add: truthy_def)

section \<open>Greedy draws from a pool\<close>

text \<open>
  The loops of the procurement code that serve a need from an ordered list of sources have one
  shape: stop when nothing is left to serve, skip an empty source, otherwise take
  \<open>min(left, available)\<close> and write the residue back.  \<open>draw_all\<close> is that loop over an abstract
  operation \<open>draw\<close>; it returns the non-empty parts taken, what is left, and the new state.
\<close>

fun draw_all ::
  "('k \<Rightarrow> rat \<Rightarrow> 's \<Rightarrow> rat \<times> 's) \<Rightarrow> 'k list \<Rightarrow> rat \<Rightarrow> 's \<Rightarrow> ('k \<times> rat) list \<times> rat \<times> 's" where
  "draw_all draw [] left s = ([], left, s)"
| "draw_all draw (k # ks) left s =
     (if left \<le> 0 then ([], left, s)
      else (case draw k left s of (t, s1) \<Rightarrow>
        (if t \<le> 0 then draw_all draw ks left s1
         else (case draw_all draw ks (left - t) s1 of (ps, l, s2) \<Rightarrow> ((k, t) # ps, l, s2)))))"

definition parts_total :: "('k \<times> rat) list \<Rightarrow> rat" where
  "parts_total ps = sum_list (map snd ps)"

lemma parts_total_simps [simp]:
  "parts_total [] = 0" "parts_total (p # ps) = snd p + parts_total ps"
  "parts_total (ps @ qs) = parts_total ps + parts_total qs"
  by (simp_all add: parts_total_def)

text \<open>
  The contract of one draw: what it takes is what the source holds, capped by what is left; the
  source drawn from loses exactly that, and no other source gains.
\<close>

locale draw_source =
  fixes draw :: "'k \<Rightarrow> rat \<Rightarrow> 's \<Rightarrow> rat \<times> 's"
    and avail :: "'s \<Rightarrow> 'k \<Rightarrow> rat"
  assumes draw_amount: "0 < left \<Longrightarrow> fst (draw k left s) = max 0 (min left (avail s k))"
    and draw_self: "0 < left \<Longrightarrow> avail (snd (draw k left s)) k = avail s k - fst (draw k left s)"
    and draw_mono: "0 < left \<Longrightarrow> avail (snd (draw k left s)) j \<le> avail s j"
begin

lemma draw_all_conserves:
  "draw_all draw ks left s = (ps, l, s') \<Longrightarrow> parts_total ps + l = left"
proof (induction ks arbitrary: left s ps l s')
  case Nil
  then show ?case by simp
next
  case (Cons k ks)
  then show ?case by (fastforce split: if_splits prod.splits)
qed

lemma draw_all_left_bounds:
  "draw_all draw ks left s = (ps, l, s') \<Longrightarrow> 0 \<le> left \<Longrightarrow> 0 \<le> l \<and> l \<le> left"
proof (induction ks arbitrary: left s ps l s')
  case Nil
  then show ?case by simp
next
  case (Cons k ks)
  show ?case
  proof (cases "left \<le> 0")
    case True
    with Cons.prems show ?thesis by auto
  next
    case False
    obtain t s1 where d: "draw k left s = (t, s1)" by fastforce
    have t: "t = max 0 (min left (avail s k))" using draw_amount[of left k s] d False by simp
    show ?thesis
    proof (cases "t \<le> 0")
      case True
      with Cons.IH[of left s1 ps l s'] Cons.prems False d show ?thesis by auto
    next
      case tpos: False
      with Cons.prems False d obtain qs where
        "draw_all draw ks (left - t) s1 = (qs, l, s')" by (auto split: prod.splits)
      from Cons.IH[OF this] t tpos False show ?thesis by auto
    qed
  qed
qed

lemma draw_all_parts_pos:
  "draw_all draw ks left s = (ps, l, s') \<Longrightarrow> p \<in> set ps \<Longrightarrow> 0 < snd p \<and> fst p \<in> set ks"
proof (induction ks arbitrary: left s ps l s')
  case Nil
  then show ?case by simp
next
  case (Cons k ks)
  then show ?case by (fastforce split: if_splits prod.splits)
qed

lemma draw_all_mono:
  "draw_all draw ks left s = (ps, l, s') \<Longrightarrow> avail s' j \<le> avail s j"
proof (induction ks arbitrary: left s ps l s')
  case Nil
  then show ?case by simp
next
  case (Cons k ks)
  obtain t s1 where d: "draw k left s = (t, s1)" by fastforce
  show ?case
  proof (cases "left \<le> 0")
    case True
    with Cons.prems show ?thesis by auto
  next
    case False
    then have m: "avail s1 j \<le> avail s j" using draw_mono[of left k s j] d by simp
    show ?thesis
    proof (cases "t \<le> 0")
      case True
      with Cons.IH[of left s1 ps l s'] Cons.prems False d m show ?thesis by auto
    next
      case tpos: False
      with Cons.prems False d obtain qs where
        "draw_all draw ks (left - t) s1 = (qs, l, s')" by (auto split: prod.splits)
      from Cons.IH[OF this] m show ?thesis by simp
    qed
  qed
qed

text \<open>A need stays partly unserved only when every source of the list is exhausted.\<close>

lemma draw_all_exhausts:
  "draw_all draw ks left s = (ps, l, s') \<Longrightarrow> 0 < l \<Longrightarrow> 0 \<le> left \<Longrightarrow> \<forall>k \<in> set ks. avail s' k \<le> 0"
proof (induction ks arbitrary: left s ps l s')
  case Nil
  then show ?case by simp
next
  case (Cons k ks)
  from draw_all_left_bounds[OF Cons.prems(1,3)] Cons.prems(2) have lp: "0 < left" by simp
  obtain t s1 where d: "draw k left s = (t, s1)" by fastforce
  have t: "t = max 0 (min left (avail s k))" using draw_amount[of left k s] d lp by simp
  have self: "avail s1 k = avail s k - t" using draw_self[of left k s] d lp by simp
  show ?case
  proof (cases "t \<le> 0")
    case True
    with Cons.prems(1) lp d have r: "draw_all draw ks left s1 = (ps, l, s')" by simp
    from True t lp have "avail s k \<le> 0" by auto
    with self True t have "avail s1 k \<le> 0" by auto
    with draw_all_mono[OF r, of k] Cons.IH[OF r Cons.prems(2,3)] show ?thesis by auto
  next
    case tpos: False
    with Cons.prems(1) lp d obtain qs where
      r: "draw_all draw ks (left - t) s1 = (qs, l, s')" by (auto split: prod.splits)
    have ge: "0 \<le> left - t" using t lp by auto
    from draw_all_left_bounds[OF r ge] Cons.prems(2) have "t < left" by simp
    with t tpos have "t = avail s k" by auto
    with self have "avail s1 k \<le> 0" by simp
    with draw_all_mono[OF r, of k] Cons.IH[OF r Cons.prems(2) ge] show ?thesis by auto
  qed
qed

end

text \<open>What a list of parts takes from one source.\<close>

definition taken_from :: "('k \<times> rat) list \<Rightarrow> 'k \<Rightarrow> rat" where
  "taken_from ps j = parts_total (filter (\<lambda>p. fst p = j) ps)"

lemma taken_from_simps [simp]:
  "taken_from [] j = 0" "taken_from (p # ps) j = (if fst p = j then snd p else 0) + taken_from ps j"
  "taken_from (ps @ qs) j = taken_from ps j + taken_from qs j"
  by (simp_all add: taken_from_def)

text \<open>In an independent pool a draw leaves every other source untouched.\<close>

locale independent_pool = draw_source +
  assumes draw_frame: "0 < left \<Longrightarrow> j \<noteq> k \<Longrightarrow> avail (snd (draw k left s)) j = avail s j"
begin

lemma draw_all_frame:
  "draw_all draw ks left s = (ps, l, s') \<Longrightarrow> j \<notin> set ks \<Longrightarrow> avail s' j = avail s j"
proof (induction ks arbitrary: left s ps l s')
  case Nil
  then show ?case by simp
next
  case (Cons k ks)
  obtain t s1 where d: "draw k left s = (t, s1)" by fastforce
  show ?case
  proof (cases "left \<le> 0")
    case True
    with Cons.prems show ?thesis by auto
  next
    case False
    then have m: "avail s1 j = avail s j" using draw_frame[of left j k s] d Cons.prems(2) by simp
    show ?thesis
    proof (cases "t \<le> 0")
      case True
      with Cons.IH[of left s1 ps l s'] Cons.prems False d m show ?thesis by auto
    next
      case tpos: False
      with Cons.prems False d obtain qs where
        "draw_all draw ks (left - t) s1 = (qs, l, s')" by (auto split: prod.splits)
      from Cons.IH[OF this] m Cons.prems(2) show ?thesis by simp
    qed
  qed
qed

text \<open>What a source loses is what the parts take from it, and no source goes below zero.\<close>

lemma draw_all_accounts:
  "draw_all draw ks left s = (ps, l, s') \<Longrightarrow>
   avail s' j + taken_from ps j = avail s j \<and> (0 \<le> avail s j \<longrightarrow> 0 \<le> avail s' j)"
proof (induction ks arbitrary: left s ps l s')
  case Nil
  then show ?case by simp
next
  case (Cons k ks)
  obtain t s1 where d: "draw k left s = (t, s1)" by fastforce
  show ?case
  proof (cases "left \<le> 0")
    case True
    with Cons.prems show ?thesis by auto
  next
    case False
    have t: "t = max 0 (min left (avail s k))" using draw_amount[of left k s] d False by simp
    have m: "avail s1 j + (if j = k then t else 0) = avail s j" "0 \<le> avail s j \<longrightarrow> 0 \<le> avail s1 j"
      using draw_self[of left k s] draw_frame[of left j k s] d False t by (cases "j = k"; auto simp: min_def max_def)+
    show ?thesis
    proof (cases "t \<le> 0")
      case True
      with t have "t = 0" by auto
      with Cons.IH[of left s1 ps l s'] Cons.prems True False d m show ?thesis by (auto split: if_splits)
    next
      case tpos: False
      with Cons.prems False d obtain qs where
        r: "draw_all draw ks (left - t) s1 = (qs, l, s')" and ps: "ps = (k, t) # qs"
        by (auto split: prod.splits)
      from Cons.IH[OF r] m show ?thesis by (auto simp: ps)
    qed
  qed
qed

lemma draw_all_empty:
  "\<forall>k \<in> set ks. avail s k \<le> 0 \<Longrightarrow> fst (draw_all draw ks left s) = [] \<and> fst (snd (draw_all draw ks left s)) = left"
proof (induction ks arbitrary: s)
  case Nil
  then show ?case by simp
next
  case (Cons k ks)
  obtain t s1 where d: "draw k left s = (t, s1)" by fastforce
  show ?case
  proof (cases "left \<le> 0")
    case False
    have "t \<le> 0" using draw_amount[of left k s] d False Cons.prems by simp
    moreover have "\<forall>j \<in> set ks. avail s1 j \<le> 0"
      using draw_mono[of left k s] d False Cons.prems by (auto intro: order_trans)
    ultimately show ?thesis using Cons.IH[of s1] False d by simp
  qed simp
qed

text \<open>Over distinct sources the greedy draw serves exactly the minimum of the need and the pool.\<close>

lemma draw_all_total:
  "draw_all draw ks left s = (ps, l, s') \<Longrightarrow> distinct ks \<Longrightarrow> 0 \<le> left \<Longrightarrow>
   parts_total ps = min left (\<Sum>k\<leftarrow>ks. max 0 (avail s k))"
proof (induction ks arbitrary: left s ps l s')
  case Nil
  then show ?case by (auto simp: min_def)
next
  case (Cons k ks)
  have nn: "0 \<le> (\<Sum>k\<leftarrow>ks. max 0 (avail s k))" by (rule sum_list_map_nonneg) simp
  show ?case
  proof (cases "left \<le> 0")
    case True
    with Cons.prems nn show ?thesis by (auto simp: min_def)
  next
    case False
    obtain t s1 where d: "draw k left s = (t, s1)" by fastforce
    have t: "t = max 0 (min left (avail s k))" using draw_amount[of left k s] d False by simp
    have same: "(\<Sum>k\<leftarrow>ks. max 0 (avail s1 k)) = (\<Sum>k\<leftarrow>ks. max 0 (avail s k))"
      using draw_frame[of left _ k s] d Cons.prems(2) False
      by (intro arg_cong[where f = sum_list] map_cong) (auto, metis)
    show ?thesis
    proof (cases "t \<le> 0")
      case True
      with t False have "avail s k \<le> 0" by auto
      with Cons.IH[of left s1 ps l s'] Cons.prems True False d same show ?thesis by auto
    next
      case tpos: False
      with Cons.prems False d obtain qs where
        r: "draw_all draw ks (left - t) s1 = (qs, l, s')" and ps: "ps = (k, t) # qs"
        by (auto split: prod.splits)
      have "0 \<le> left - t" using t False by auto
      from Cons.IH[OF r _ this] Cons.prems(2) same
      have "parts_total qs = min (left - t) (\<Sum>k\<leftarrow>ks. max 0 (avail s k))" by simp
      with ps t tpos nn False show ?thesis by (auto simp: min_def max_def split: if_splits)
    qed
  qed
qed

end

end
