(* ===== verification/Slot_Rules.thy ===== *)
theory Slot_Rules
  imports Prelude
begin

text \<open>
  Working-time rules of the Outlook slot search
  (\<open>app/tools/Outlook/slot_search/rules.py\<close>, constants from \<open>constants.py\<close>).

  A \<open>datetime\<close> is an instant: integer microseconds since the epoch in UTC.  Comparison, addition
  of a \<open>timedelta\<close> and \<open>max\<close>/\<open>min\<close> of aware datetimes are those of the instants.  \<open>to_local\<close> does
  not move the instant; what it decides is the wall clock that \<open>weekday()\<close>, \<open>date()\<close>, \<open>time()\<close>
  and \<open>replace(...)\<close> read, which is \<open>local_wall\<close>: the instant shifted by the configured zone's
  offset.  The zone is taken with one fixed offset, as the default \<open>Europe/Moscow\<close> has.
\<close>

named_theorems slot_defs \<open>definitions of the calendar arithmetic\<close>

section \<open>Instants and the local wall clock\<close>

type_synonym instant = int
type_synonym timedelta = int

definition MINUTE :: timedelta where "MINUTE = 60000000"
definition HOUR :: timedelta where "HOUR = 3600000000"
definition DAY :: timedelta where "DAY = 86400000000"

lemmas time_units = MINUTE_def HOUR_def DAY_def

record outlook_config =
  zone_offset :: timedelta
  company_calendar :: string

definition local_wall :: "outlook_config \<Rightarrow> instant \<Rightarrow> int" where
  "local_wall cfg dt = dt + zone_offset cfg"

definition local_date :: "outlook_config \<Rightarrow> instant \<Rightarrow> int" where
  "local_date cfg dt = local_wall cfg dt div DAY"

definition local_time :: "outlook_config \<Rightarrow> instant \<Rightarrow> timedelta" where
  "local_time cfg dt = local_wall cfg dt mod DAY"

text \<open>\<open>weekday()\<close>: Monday is 0; the epoch fell on a Thursday.\<close>

definition weekday :: "outlook_config \<Rightarrow> instant \<Rightarrow> int" where
  "weekday cfg dt = (local_date cfg dt + 3) mod 7"

text \<open>\<open>to_local(dt).replace(second=0, microsecond=0)\<close>\<close>

definition trunc_minute :: "outlook_config \<Rightarrow> instant \<Rightarrow> instant" where
  "trunc_minute cfg dt = dt - local_wall cfg dt mod MINUTE"

definition WORK_START :: timedelta where "WORK_START = 8 * HOUR"
definition WORK_END :: timedelta where "WORK_END = 17 * HOUR"

definition FORBIDDEN_BLOCKS :: "(timedelta \<times> timedelta) list" where
  "FORBIDDEN_BLOCKS = [(12 * HOUR, 13 * HOUR)]"

section \<open>The rules\<close>

definition combine :: "outlook_config \<Rightarrow> instant \<Rightarrow> timedelta \<Rightarrow> instant" where
  "combine cfg day clock = day - local_time cfg day + clock"

definition is_workday :: "outlook_config \<Rightarrow> instant \<Rightarrow> bool" where
  "is_workday cfg dt \<longleftrightarrow> weekday cfg dt < 5"

text \<open>\<open>while not is_workday(c): c += timedelta(days=1)\<close>\<close>

function skip_weekend :: "outlook_config \<Rightarrow> instant \<Rightarrow> instant" where
  "skip_weekend cfg c = (if is_workday cfg c then c else skip_weekend cfg (c + DAY))"
  by pat_completeness auto
termination
proof (relation "measure (\<lambda>(cfg, c). nat ((7 - weekday cfg c) mod 7))")
  show "wf (measure (\<lambda>(cfg, c). nat ((7 - weekday cfg c) mod 7)))" by simp
next
  fix cfg c
  assume "\<not> is_workday cfg c"
  then have ge: "5 \<le> weekday cfg c" by (simp add: is_workday_def)
  have lt: "weekday cfg c < 7" by (simp add: weekday_def)
  have "local_date cfg (c + DAY) = local_date cfg c + 1"
    by (simp add: local_date_def local_wall_def DAY_def)
  then have nx: "weekday cfg (c + DAY) = (weekday cfg c + 1) mod 7"
    by (simp add: weekday_def) presburger
  from ge lt have "weekday cfg c = 5 \<or> weekday cfg c = 6" by linarith
  with nx show "((cfg, c + DAY), (cfg, c)) \<in> measure (\<lambda>(cfg, c). nat ((7 - weekday cfg c) mod 7))"
    by auto
qed

declare skip_weekend.simps [simp del]

definition next_workday_start :: "outlook_config \<Rightarrow> instant \<Rightarrow> instant" where
  "next_workday_start cfg dt =
     (let candidate = combine cfg dt WORK_START;
          candidate = (if candidate \<le> dt then candidate + DAY else candidate)
      in skip_weekend cfg candidate)"

definition align_preferred :: "outlook_config \<Rightarrow> instant \<Rightarrow> instant" where
  "align_preferred cfg preferred =
     (let current = trunc_minute cfg preferred
      in if \<not> is_workday cfg current then combine cfg (skip_weekend cfg current) WORK_START
         else if local_time cfg current < WORK_START then combine cfg current WORK_START
         else if current > combine cfg current WORK_END - MINUTE then next_workday_start cfg current
         else current)"

text \<open>\<open>datetime.now(...)\<close> is the argument \<open>now\<close>.\<close>

definition not_before_now :: "outlook_config \<Rightarrow> instant \<Rightarrow> instant" where
  "not_before_now cfg now = align_preferred cfg (trunc_minute cfg now)"

definition minute_of_hour :: "outlook_config \<Rightarrow> instant \<Rightarrow> int" where
  "minute_of_hour cfg dt = local_wall cfg dt div MINUTE mod 60"

definition snap_to_step :: "outlook_config \<Rightarrow> instant \<Rightarrow> timedelta \<Rightarrow> instant" where
  "snap_to_step cfg dt step =
     (let dt = trunc_minute cfg dt;
          step_minutes = max (step div MINUTE) 1;
          remainder = minute_of_hour cfg dt mod step_minutes
      in if remainder = 0 then dt else dt + (step_minutes - remainder) * MINUTE)"

definition intervals_overlap :: "instant \<Rightarrow> instant \<Rightarrow> instant \<Rightarrow> instant \<Rightarrow> bool" where
  "intervals_overlap a_start a_end b_start b_end \<longleftrightarrow> a_start < b_end \<and> a_end > b_start"

definition slot_respects_rules :: "outlook_config \<Rightarrow> instant \<Rightarrow> timedelta \<Rightarrow> bool" where
  "slot_respects_rules cfg start duration =
     (let stop = start + duration
      in if \<not> is_workday cfg start then False
         else if local_date cfg start \<noteq> local_date cfg stop then False
         else if local_time cfg start < WORK_START \<or> local_time cfg stop > WORK_END then False
         else \<not> list_ex (\<lambda>(b_start, b_end).
                  intervals_overlap start stop (combine cfg start b_start) (combine cfg start b_end))
                FORBIDDEN_BLOCKS)"

text \<open>
  \<open>advance_candidate\<close> is a \<open>while True\<close> loop that a long enough duration never leaves; \<open>None\<close> is
  "does not return".
\<close>

partial_function (option) advance_loop ::
  "outlook_config \<Rightarrow> timedelta \<Rightarrow> instant \<Rightarrow> instant option" where
  "advance_loop cfg duration current =
     (if \<not> is_workday cfg current then
        advance_loop cfg duration (next_workday_start cfg (current - DAY))
      else if local_time cfg current < WORK_START then
        advance_loop cfg duration (combine cfg current WORK_START)
      else if current > combine cfg current WORK_END - duration then
        advance_loop cfg duration (next_workday_start cfg current)
      else Some current)"

definition advance_candidate ::
  "outlook_config \<Rightarrow> instant \<Rightarrow> timedelta \<Rightarrow> timedelta \<Rightarrow> instant option" where
  "advance_candidate cfg current step duration = advance_loop cfg duration (current + step)"


section \<open>Coordinates: date and time of day\<close>

text \<open>
  Every instant is \<open>at_local n t\<close> for its local date \<open>n\<close> and time of day \<open>t\<close>; in these
  coordinates the calendar operations compute.
\<close>

definition at_local :: "outlook_config \<Rightarrow> int \<Rightarrow> timedelta \<Rightarrow> instant" where
  "at_local cfg n t = n * DAY + t - zone_offset cfg"

lemma at_local_exists:
  obtains n t where "dt = at_local cfg n t" "0 \<le> t" "t < DAY"
proof
  show "dt = at_local cfg (local_date cfg dt) (local_time cfg dt)"
    by (simp add: at_local_def local_date_def local_time_def local_wall_def)
qed (simp_all add: local_time_def DAY_def)

lemma at_local_coords [simp]:
  assumes "0 \<le> t" "t < DAY"
  shows "local_date cfg (at_local cfg n t) = n" "local_time cfg (at_local cfg n t) = t"
  using assms by (simp_all add: local_date_def local_time_def local_wall_def at_local_def)

lemma at_local_weekday [simp]:
  "0 \<le> t \<Longrightarrow> t < DAY \<Longrightarrow> weekday cfg (at_local cfg n t) = (n + 3) mod 7"
  by (simp add: weekday_def)

lemma combine_at_local [simp]:
  "0 \<le> t \<Longrightarrow> t < DAY \<Longrightarrow> combine cfg (at_local cfg n t) c = at_local cfg n c"
  by (simp add: combine_def) (simp add: at_local_def)

lemma at_local_add_day [simp]: "at_local cfg n t + DAY = at_local cfg (n + 1) t"
  by (simp add: at_local_def algebra_simps)

lemma at_local_sub_day [simp]: "at_local cfg n t - DAY = at_local cfg (n - 1) t"
  by (simp add: at_local_def algebra_simps)

lemma at_local_add: "at_local cfg n t + d = at_local cfg n (t + d)"
  by (simp add: at_local_def)

lemma at_local_le_same [simp]: "at_local cfg n t \<le> at_local cfg n u \<longleftrightarrow> t \<le> u"
  by (simp add: at_local_def)

lemma at_local_less_same [simp]: "at_local cfg n t < at_local cfg n u \<longleftrightarrow> t < u"
  by (simp add: at_local_def)

lemma at_local_less_day:
  assumes "n < m" "t < DAY" "0 \<le> u"
  shows "at_local cfg n t < at_local cfg m u"
proof -
  have "(n + 1) * DAY \<le> m * DAY" using assms(1) by (intro mult_right_mono) (auto simp: DAY_def)
  with assms(2,3) show ?thesis by (simp add: at_local_def algebra_simps)
qed

lemma at_local_le_day:
  "at_local cfg n t \<le> at_local cfg m u \<Longrightarrow> 0 \<le> t \<Longrightarrow> u < DAY \<Longrightarrow> n \<le> m"
  using at_local_less_day[of m n u t cfg] by linarith

lemma work_hours [simp]: "0 < WORK_START" "0 \<le> WORK_START" "WORK_START < DAY" "0 \<le> WORK_END" "WORK_END < DAY"
  "WORK_START < WORK_END" "0 < DAY" "0 < MINUTE" "0 \<le> MINUTE" "MINUTE \<noteq> 0"
  by (simp_all add: WORK_START_def WORK_END_def time_units)

section \<open>Moving to the next working day\<close>

lemma skip_weekend_workday: "is_workday cfg (skip_weekend cfg c)"
  by (induction cfg c rule: skip_weekend.induct) (subst skip_weekend.simps, simp)

lemma skip_weekend_id [simp]: "is_workday cfg c \<Longrightarrow> skip_weekend cfg c = c"
  by (simp add: skip_weekend.simps)

lemma skip_weekend_ge: "c \<le> skip_weekend cfg c"
proof (induction cfg c rule: skip_weekend.induct)
  case (1 cfg c)
  then show ?case by (subst skip_weekend.simps) (auto simp: DAY_def)
qed

text \<open>The skip keeps the time of day and stops at the first working day.\<close>

lemma skip_weekend_at:
  assumes "0 \<le> t" "t < DAY"
  shows "\<exists>m \<ge> n. skip_weekend cfg (at_local cfg n t) = at_local cfg m t \<and>
    (m + 3) mod 7 < 5 \<and> (\<forall>k. n \<le> k \<and> k < m \<longrightarrow> 5 \<le> (k + 3) mod 7)"
proof -
  have "\<forall>n. c = at_local cfg n t \<longrightarrow> (\<exists>m \<ge> n. skip_weekend cfg c = at_local cfg m t \<and>
    (m + 3) mod 7 < 5 \<and> (\<forall>k. n \<le> k \<and> k < m \<longrightarrow> 5 \<le> (k + 3) mod 7))" for c
  proof (induction cfg c rule: skip_weekend.induct)
    case (1 cfg c)
    show ?case
    proof (intro allI impI)
      fix n assume c: "c = at_local cfg n t"
      show "\<exists>m \<ge> n. skip_weekend cfg c = at_local cfg m t \<and>
        (m + 3) mod 7 < 5 \<and> (\<forall>k. n \<le> k \<and> k < m \<longrightarrow> 5 \<le> (k + 3) mod 7)"
      proof (cases "is_workday cfg c")
        case True
        with c assms show ?thesis by (intro exI[of _ n]) (auto simp: is_workday_def)
      next
        case False
        from 1[OF False, rule_format, of "n + 1"] c obtain m where m: "n + 1 \<le> m"
          "skip_weekend cfg (c + DAY) = at_local cfg m t" "(m + 3) mod 7 < 5"
          "\<forall>k. n + 1 \<le> k \<and> k < m \<longrightarrow> 5 \<le> (k + 3) mod 7" by auto
        from False c assms have "5 \<le> (n + 3) mod 7" by (auto simp: is_workday_def)
        with m(4) have "\<forall>k. n \<le> k \<and> k < m \<longrightarrow> 5 \<le> (k + 3) mod 7"
          by (metis add1_zle_eq order_le_less)
        with m False show ?thesis
          by (intro exI[of _ m]) (auto simp: skip_weekend.simps[of cfg c])
      qed
    qed
  qed
  then show ?thesis by blast
qed

lemma next_workday_start_at:
  assumes "0 \<le> t" "t < DAY"
  shows "next_workday_start cfg (at_local cfg n t) =
    skip_weekend cfg (at_local cfg (if WORK_START \<le> t then n + 1 else n) WORK_START)"
  using assms by (simp add: next_workday_start_def Let_def)

text \<open>\<open>next_workday_start\<close> is the opening of the first working day that opens after the instant.\<close>

lemma next_workday_start_least:
  assumes "is_workday cfg x" "local_time cfg x = WORK_START" "dt < x"
  shows "next_workday_start cfg dt \<le> x"
proof -
  obtain n t where dt: "dt = at_local cfg n t" "0 \<le> t" "t < DAY" by (rule at_local_exists)
  obtain k u where x: "x = at_local cfg k u" "0 \<le> u" "u < DAY" by (rule at_local_exists)
  with assms(1,2) have k: "(k + 3) mod 7 < 5" "u = WORK_START" by (auto simp: is_workday_def)
  let ?n = "if WORK_START \<le> t then n + 1 else n"
  from assms(3) dt x k have "n \<le> k" using at_local_le_day[of cfg n t k u] by simp
  with assms(3) dt x k have nk: "?n \<le> k" by (cases "n = k") auto
  from skip_weekend_at[of WORK_START ?n cfg] obtain m where m: "?n \<le> m"
    "skip_weekend cfg (at_local cfg ?n WORK_START) = at_local cfg m WORK_START"
    "\<forall>j. ?n \<le> j \<and> j < m \<longrightarrow> 5 \<le> (j + 3) mod 7" by auto
  from m(3) nk k have "m \<le> k" by force
  then have "at_local cfg m WORK_START \<le> at_local cfg k WORK_START"
    by (cases "m = k") (auto intro!: less_imp_le[OF at_local_less_day])
  with m(2) dt x k show ?thesis by (simp add: next_workday_start_at)
qed

lemma next_workday_start_props:
  shows "is_workday cfg (next_workday_start cfg dt)"
    and "local_time cfg (next_workday_start cfg dt) = WORK_START"
    and "dt < next_workday_start cfg dt"
proof -
  obtain n t where dt: "dt = at_local cfg n t" "0 \<le> t" "t < DAY" by (rule at_local_exists)
  let ?n = "if WORK_START \<le> t then n + 1 else n"
  from skip_weekend_at[of WORK_START ?n cfg] obtain m where m: "?n \<le> m"
    "skip_weekend cfg (at_local cfg ?n WORK_START) = at_local cfg m WORK_START" by auto
  show "is_workday cfg (next_workday_start cfg dt)"
    by (simp add: next_workday_start_def Let_def skip_weekend_workday)
  show "local_time cfg (next_workday_start cfg dt) = WORK_START"
    using dt m by (simp add: next_workday_start_at)
  have "at_local cfg n t < at_local cfg m WORK_START"
    using m(1) dt by (cases "n = m") (auto intro!: at_local_less_day split: if_splits)
  then show "dt < next_workday_start cfg dt" using dt m by (simp add: next_workday_start_at)
qed


section \<open>Advancing a candidate\<close>

text \<open>
  The starts that the loop of \<open>advance_candidate\<close> accepts: a working day, not before opening, and
  the whole meeting before closing time.
\<close>

definition start_feasible :: "outlook_config \<Rightarrow> timedelta \<Rightarrow> instant \<Rightarrow> bool" where
  "start_feasible cfg duration x \<longleftrightarrow>
     is_workday cfg x \<and> WORK_START \<le> local_time cfg x \<and> local_time cfg x + duration \<le> WORK_END"

lemma past_latest_start_iff:
  "combine cfg x WORK_END - duration < x \<longleftrightarrow> WORK_END < local_time cfg x + duration"
  by (auto simp: combine_def)

lemma advance_loop_feasible: "start_feasible cfg duration x \<Longrightarrow> advance_loop cfg duration x = Some x"
  by (subst advance_loop.simps) (auto simp: start_feasible_def past_latest_start_iff)

lemma opening_feasible:
  "is_workday cfg x \<Longrightarrow> local_time cfg x = WORK_START \<Longrightarrow> duration \<le> WORK_END - WORK_START \<Longrightarrow>
   start_feasible cfg duration x"
  by (simp add: start_feasible_def)

lemma combine_opening:
  "is_workday cfg (combine cfg x WORK_START) = is_workday cfg x"
  "local_time cfg (combine cfg x WORK_START) = WORK_START"
proof -
  obtain n t where x: "x = at_local cfg n t" "0 \<le> t" "t < DAY" by (rule at_local_exists)
  then show "is_workday cfg (combine cfg x WORK_START) = is_workday cfg x"
    by (simp add: is_workday_def)
  from x show "local_time cfg (combine cfg x WORK_START) = WORK_START" by simp
qed

text \<open>The four branches of one pass through the loop, for a duration that fits a working day.\<close>

lemma advance_loop_early:
  assumes "is_workday cfg x" "local_time cfg x < WORK_START" "duration \<le> WORK_END - WORK_START"
  shows "advance_loop cfg duration x = Some (combine cfg x WORK_START)"
  using assms by (subst advance_loop.simps)
    (auto intro!: advance_loop_feasible opening_feasible simp: combine_opening)

lemma advance_loop_late:
  assumes "is_workday cfg x" "WORK_START \<le> local_time cfg x" "WORK_END < local_time cfg x + duration"
    "duration \<le> WORK_END - WORK_START"
  shows "advance_loop cfg duration x = Some (next_workday_start cfg x)"
  using assms by (subst advance_loop.simps)
    (auto intro!: advance_loop_feasible opening_feasible
      simp: next_workday_start_props past_latest_start_iff)

lemma advance_loop_weekend:
  assumes "\<not> is_workday cfg x" "duration \<le> WORK_END - WORK_START"
  shows "advance_loop cfg duration x = Some (next_workday_start cfg (x - DAY))"
  using assms by (subst advance_loop.simps)
    (auto intro!: advance_loop_feasible opening_feasible simp: next_workday_start_props)

lemmas advance_loop_cases = advance_loop_early advance_loop_late advance_loop_weekend

text \<open>A Saturday morning before opening is the one place from which the loop goes backwards.\<close>

definition saturday_before_opening :: "outlook_config \<Rightarrow> instant \<Rightarrow> bool" where
  "saturday_before_opening cfg x \<longleftrightarrow> weekday cfg x = 5 \<and> local_time cfg x < WORK_START"

lemma weekend_back_step:
  assumes "\<not> is_workday cfg x" "\<not> saturday_before_opening cfg x" "is_workday cfg y"
    "local_time cfg y = WORK_START" "x - DAY < y"
  shows "x < y"
proof -
  obtain n t where x: "x = at_local cfg n t" "0 \<le> t" "t < DAY" by (rule at_local_exists)
  obtain k u where y: "y = at_local cfg k u" "0 \<le> u" "u < DAY" by (rule at_local_exists)
  from assms x y have n: "5 \<le> (n + 3) mod 7" "(n + 3) mod 7 = 5 \<longrightarrow> WORK_START \<le> t"
    and k: "(k + 3) mod 7 < 5" "u = WORK_START"
    by (auto simp: is_workday_def saturday_before_opening_def)
  from assms(5) x y have lt: "at_local cfg (n - 1) t < at_local cfg k u" by simp
  then have "n - 1 \<le> k" using at_local_le_day[of cfg "n - 1" t k u] x y by simp
  moreover have "n - 1 \<noteq> k"
  proof
    assume eq: "n - 1 = k"
    with n(1) k(1) have "(n + 3) mod 7 = 5" by presburger
    with n(2) k(2) lt eq show False by simp
  qed
  moreover have "n \<noteq> k" using n(1) k(1) by auto
  ultimately have "n < k" by simp
  then show ?thesis using x y by (auto intro!: at_local_less_day)
qed

text \<open>What the loop returns: the least feasible start that is not earlier.\<close>

lemma advance_loop_least:
  assumes "duration \<le> WORK_END - WORK_START" "\<not> saturday_before_opening cfg x"
  shows "\<exists>r. advance_loop cfg duration x = Some r \<and> x \<le> r \<and> start_feasible cfg duration r \<and>
    (\<forall>y. x \<le> y \<and> start_feasible cfg duration y \<longrightarrow> r \<le> y)"
proof -
  have later: "next_workday_start cfg x \<le> y"
    if y: "x \<le> y" "start_feasible cfg duration y" and "\<not> (is_workday cfg x \<and> local_time cfg x + duration \<le> WORK_END)"
      and "\<not> (is_workday cfg x \<and> local_time cfg x < WORK_START)" for y
  proof -
    obtain n t where x: "x = at_local cfg n t" "0 \<le> t" "t < DAY" by (rule at_local_exists)
    obtain k u where y': "y = at_local cfg k u" "0 \<le> u" "u < DAY" by (rule at_local_exists)
    from y y' have k: "(k + 3) mod 7 < 5" "WORK_START \<le> u" "u + duration \<le> WORK_END"
      by (auto simp: start_feasible_def is_workday_def)
    from y(1) x y' have "n \<le> k" using at_local_le_day by blast
    moreover have "n \<noteq> k" using that(3,4) k y(1) x y' by (auto simp: is_workday_def)
    ultimately have "at_local cfg n t < at_local cfg k WORK_START" using x by (auto intro!: at_local_less_day)
    then have "next_workday_start cfg x \<le> at_local cfg k WORK_START"
      using x k(1) by (intro next_workday_start_least) (auto simp: is_workday_def)
    also have "\<dots> \<le> y" using y' k by simp
    finally show ?thesis .
  qed
  note ns = next_workday_start_props[where cfg = cfg]
  consider (ok) "start_feasible cfg duration x"
    | (early) "is_workday cfg x" "local_time cfg x < WORK_START"
    | (late) "is_workday cfg x" "WORK_START \<le> local_time cfg x" "WORK_END < local_time cfg x + duration"
    | (weekend) "\<not> is_workday cfg x"
    unfolding start_feasible_def by linarith
  then show ?thesis
  proof cases
    case ok
    then show ?thesis by (auto simp: advance_loop_feasible)
  next
    case early
    have "x \<le> combine cfg x WORK_START" using early(2) by (simp add: combine_def)
    moreover have "combine cfg x WORK_START \<le> y" if "x \<le> y" "start_feasible cfg duration y" for y
    proof -
      obtain n t where x: "x = at_local cfg n t" "0 \<le> t" "t < DAY" by (rule at_local_exists)
      obtain k u where y': "y = at_local cfg k u" "0 \<le> u" "u < DAY" by (rule at_local_exists)
      from that x y' have "n \<le> k" "WORK_START \<le> u"
        by (auto simp: start_feasible_def dest: at_local_le_day)
      with x y' show ?thesis by (cases "n = k") (auto intro!: less_imp_le[OF at_local_less_day])
    qed
    ultimately show ?thesis
      using early assms(1) by (auto simp: advance_loop_early combine_opening intro!: opening_feasible)
  next
    case late
    have "start_feasible cfg duration (next_workday_start cfg x)"
      using assms(1) ns by (simp add: opening_feasible)
    moreover have "\<forall>y. x \<le> y \<and> start_feasible cfg duration y \<longrightarrow> next_workday_start cfg x \<le> y"
      using later late by (meson not_less)
    ultimately show ?thesis using advance_loop_late[OF late assms(1)] ns(3)[of x] by auto
  next
    case weekend
    let ?r = "next_workday_start cfg (x - DAY)"
    have "x < ?r" by (rule weekend_back_step[OF weekend assms(2) ns(1,2,3)])
    have "x - DAY < next_workday_start cfg x" using ns(3)[of x] by (simp add: DAY_def)
    then have le: "?r \<le> next_workday_start cfg x"
      by (intro next_workday_start_least) (simp_all add: ns)
    have "\<forall>y. x \<le> y \<and> start_feasible cfg duration y \<longrightarrow> ?r \<le> y"
      using later weekend order_trans[OF le] by blast
    moreover have "start_feasible cfg duration ?r" using assms(1) ns by (simp add: opening_feasible)
    ultimately show ?thesis using \<open>x < ?r\<close> advance_loop_weekend[OF weekend assms(1)] by auto
  qed
qed

text \<open>
  For a meeting longer than the working day the loop has no exit: any value it could return would
  start at or after opening and end by closing.
\<close>

lemma advance_loop_result_feasible:
  assumes ret: "advance_loop cfg duration x = Some r"
  shows "start_feasible cfg duration r"
proof (rule advance_loop.raw_induct[where P = "\<lambda>cfg duration x r. start_feasible cfg duration r", OF _ ret])
  fix f cfg duration x r
  assume IH: "\<And>cfg duration x r. f cfg duration x = Some r \<Longrightarrow> start_feasible cfg duration r"
    and eq: "(if \<not> is_workday cfg x then f cfg duration (next_workday_start cfg (x - DAY))
      else if local_time cfg x < WORK_START then f cfg duration (combine cfg x WORK_START)
      else if combine cfg x WORK_END - duration < x then f cfg duration (next_workday_start cfg x)
      else Some x) = Some r"
  show "start_feasible cfg duration r"
    using eq by (auto split: if_splits dest: IH simp: start_feasible_def past_latest_start_iff)
qed

lemma advance_loop_diverges:
  "WORK_END - WORK_START < duration \<Longrightarrow> advance_loop cfg duration x = None"
  using advance_loop_result_feasible[of cfg duration x]
  by (cases "advance_loop cfg duration x") (auto simp: start_feasible_def)


section \<open>Whole minutes\<close>

definition minute_aligned :: "outlook_config \<Rightarrow> instant \<Rightarrow> bool" where
  "minute_aligned cfg x \<longleftrightarrow> local_wall cfg x mod MINUTE = 0"

lemma trunc_minute_aligned [simp]: "minute_aligned cfg (trunc_minute cfg x)"
proof -
  have "local_wall cfg (trunc_minute cfg x) = local_wall cfg x - local_wall cfg x mod MINUTE"
    by (simp add: trunc_minute_def local_wall_def)
  then show ?thesis by (simp add: minute_aligned_def minus_mod_eq_mult_div)
qed

lemma trunc_minute_id [simp]: "minute_aligned cfg x \<Longrightarrow> trunc_minute cfg x = x"
  by (simp add: minute_aligned_def trunc_minute_def)

lemma trunc_minute_bounds: "trunc_minute cfg x \<le> x" "x < trunc_minute cfg x + MINUTE"
  by (simp_all add: trunc_minute_def)

lemma minute_aligned_add: "minute_aligned cfg x \<Longrightarrow> minute_aligned cfg (x + k * MINUTE)"
proof -
  have "local_wall cfg (x + k * MINUTE) = local_wall cfg x + k * MINUTE"
    by (simp add: local_wall_def)
  then show "minute_aligned cfg x \<Longrightarrow> ?thesis" by (simp add: minute_aligned_def)
qed

lemma minute_aligned_day: "minute_aligned cfg x \<Longrightarrow> minute_aligned cfg (x + DAY)"
  using minute_aligned_add[of cfg x 1440] by (simp add: time_units)

lemma minute_aligned_opening: "minute_aligned cfg (combine cfg x WORK_START)"
proof -
  have "local_wall cfg (combine cfg x WORK_START) = local_date cfg x * DAY + WORK_START"
    by (simp add: combine_def local_wall_def local_date_def local_time_def minus_mod_eq_div_mult [symmetric])
  also have "\<dots> = (local_date cfg x * 1440 + 480) * MINUTE"
    by (simp add: WORK_START_def time_units)
  finally show ?thesis by (simp add: minute_aligned_def)
qed

lemma skip_weekend_minute_aligned: "minute_aligned cfg c \<Longrightarrow> minute_aligned cfg (skip_weekend cfg c)"
  by (induction cfg c rule: skip_weekend.induct)
     (subst skip_weekend.simps, auto intro: minute_aligned_day)

lemma next_workday_start_minute_aligned: "minute_aligned cfg (next_workday_start cfg x)"
  by (auto simp: next_workday_start_def Let_def
    intro!: skip_weekend_minute_aligned minute_aligned_day minute_aligned_opening)

lemma snap_to_step_props:
  assumes "0 \<le> step"
  shows "trunc_minute cfg x \<le> snap_to_step cfg x step"
    and "minute_aligned cfg (snap_to_step cfg x step)"
    and "snap_to_step cfg x step - trunc_minute cfg x < max step MINUTE"
proof -
  define m where "m = max (step div MINUTE) 1"
  define r where "r = minute_of_hour cfg (trunc_minute cfg x) mod m"
  have m: "1 \<le> m" by (simp add: m_def)
  then have r: "0 \<le> r" "r < m" by (simp_all add: r_def)
  have eq: "snap_to_step cfg x step =
      (if r = 0 then trunc_minute cfg x else trunc_minute cfg x + (m - r) * MINUTE)"
    by (simp add: snap_to_step_def Let_def m_def r_def)
  show "trunc_minute cfg x \<le> snap_to_step cfg x step" using r by (simp add: eq zero_le_mult_iff)
  show "minute_aligned cfg (snap_to_step cfg x step)" by (simp add: eq minute_aligned_add)
  show "snap_to_step cfg x step - trunc_minute cfg x < max step MINUTE"
  proof (cases "r = 0")
    case True
    then show ?thesis by (simp add: eq less_max_iff_disj)
  next
    case False
    with r have m2: "1 < m" by linarith
    then have "m = step div MINUTE" by (simp add: m_def split: if_splits)
    then have "m * MINUTE \<le> step" by (simp add: MINUTE_def)
    moreover have "(m - r) * MINUTE < m * MINUTE" using False r by (simp add: MINUTE_def)
    ultimately have "(m - r) * MINUTE < step" by linarith
    then show ?thesis using False by (simp add: eq less_max_iff_disj)
  qed
qed

text \<open>On a grid that divides the hour the snapped minute lies on the grid.\<close>

lemma snap_to_step_on_grid:
  assumes "0 < m" "60 mod m = 0" "step = m * MINUTE"
  shows "minute_of_hour cfg (snap_to_step cfg x step) mod m = 0"
proof -
  let ?t = "trunc_minute cfg x"
  have sm: "max (step div MINUTE) 1 = m" using assms by (simp add: MINUTE_def)
  define q where "q = local_wall cfg ?t div MINUTE"
  have moh: "minute_of_hour cfg ?t = q mod 60" by (simp add: minute_of_hour_def q_def)
  have m60: "(a mod 60) mod m = a mod m" for a :: int
    using assms(2) by (metis mod_mod_cancel mod_0_imp_dvd)
  have sh: "minute_of_hour cfg (?t + k * MINUTE) = (q + k) mod 60" for k
  proof -
    have "local_wall cfg (?t + k * MINUTE) = local_wall cfg ?t + k * MINUTE" by (simp add: local_wall_def)
    then show ?thesis by (simp add: minute_of_hour_def q_def add.commute)
  qed
  have "q + (m - q mod m) = m * (q div m + 1)"
    using mult_div_mod_eq[of m q] by (simp add: algebra_simps)
  then have "(q + (m - q mod m)) mod m = 0" by simp
  then show ?thesis
    by (simp add: snap_to_step_def Let_def sm moh m60 sh)
qed

section \<open>The acceptance test of a slot in closed form\<close>

lemma slot_respects_rules_iff:
  assumes "0 \<le> duration"
  shows "slot_respects_rules cfg s duration \<longleftrightarrow> start_feasible cfg duration s \<and>
    (local_time cfg s + duration \<le> 12 * HOUR \<or> 13 * HOUR \<le> local_time cfg s)"
proof -
  obtain n t where s: "s = at_local cfg n t" "0 \<le> t" "t < DAY" by (rule at_local_exists)
  have stop: "s + duration = at_local cfg n (t + duration)" using s by (simp add: at_local_add)
  show ?thesis
  proof (cases "t + duration < DAY")
    case True
    with s assms stop show ?thesis
      by (auto simp: slot_respects_rules_def Let_def start_feasible_def FORBIDDEN_BLOCKS_def
        intervals_overlap_def not_less)
  next
    case False
    then have gt: "WORK_END < t + duration" using order_less_le_trans[of WORK_END DAY "t + duration"] by simp
    have "local_date cfg (s + duration) \<noteq> n"
    proof
      assume eq: "local_date cfg (s + duration) = n"
      have "local_wall cfg (s + duration) = n * DAY + (t + duration)"
        by (simp add: stop local_wall_def at_local_def)
      with False have "n + 1 \<le> local_wall cfg (s + duration) div DAY"
        by (simp add: DAY_def)
      with eq show False by (simp add: local_date_def)
    qed
    with s gt show ?thesis
      by (auto simp: slot_respects_rules_def Let_def start_feasible_def)
  qed
qed

section \<open>Alignment of the preferred instant\<close>

text \<open>\<open>align_preferred\<close> is the least minute, not before the truncated input, at which a one-minute
  meeting fits the working hours.\<close>

lemma opening_le_feasible:
  assumes "x \<le> y" "start_feasible cfg d y" "0 \<le> d"
    and "is_workday cfg x \<Longrightarrow> local_time cfg x < WORK_START"
  shows "skip_weekend cfg (combine cfg x WORK_START) \<le> y"
proof -
  obtain n t where x: "x = at_local cfg n t" "0 \<le> t" "t < DAY" by (rule at_local_exists)
  obtain k u where y: "y = at_local cfg k u" "0 \<le> u" "u < DAY" by (rule at_local_exists)
  from assms(2) y have k: "(k + 3) mod 7 < 5" "WORK_START \<le> u"
    by (auto simp: start_feasible_def is_workday_def)
  from assms(1) x y have nk: "n \<le> k" using at_local_le_day by blast
  from skip_weekend_at[of WORK_START n cfg] obtain m where m: "n \<le> m"
    "skip_weekend cfg (at_local cfg n WORK_START) = at_local cfg m WORK_START"
    "\<forall>j. n \<le> j \<and> j < m \<longrightarrow> 5 \<le> (j + 3) mod 7" by auto
  from m(3) nk k have "m \<le> k" by force
  then have "at_local cfg m WORK_START \<le> at_local cfg k u"
    using k y(2) by (cases "m = k") (auto intro!: less_imp_le[OF at_local_less_day])
  with m x y show ?thesis by simp
qed

lemma combine_skip_weekend:
  "combine cfg (skip_weekend cfg x) WORK_START = skip_weekend cfg (combine cfg x WORK_START)"
proof -
  obtain n t where x: "x = at_local cfg n t" "0 \<le> t" "t < DAY" by (rule at_local_exists)
  from skip_weekend_at[of t n cfg] x obtain m where m: "n \<le> m"
    "skip_weekend cfg (at_local cfg n t) = at_local cfg m t" "(m + 3) mod 7 < 5"
    "\<forall>j. n \<le> j \<and> j < m \<longrightarrow> 5 \<le> (j + 3) mod 7" by auto
  from skip_weekend_at[of WORK_START n cfg] obtain m' where m': "n \<le> m'"
    "skip_weekend cfg (at_local cfg n WORK_START) = at_local cfg m' WORK_START" "(m' + 3) mod 7 < 5"
    "\<forall>j. n \<le> j \<and> j < m' \<longrightarrow> 5 \<le> (j + 3) mod 7" by auto
  have "m = m'" using m m' by (metis linorder_neqE linorder_not_less)
  with x m m' show ?thesis by simp
qed

lemma align_preferred_least:
  shows "trunc_minute cfg p \<le> align_preferred cfg p"
    and "start_feasible cfg MINUTE (align_preferred cfg p)"
    and "minute_aligned cfg (align_preferred cfg p)"
    and "\<And>y. trunc_minute cfg p \<le> y \<Longrightarrow> start_feasible cfg MINUTE y \<Longrightarrow> align_preferred cfg p \<le> y"
proof -
  define c where "c = trunc_minute cfg p"
  have al: "minute_aligned cfg c" by (simp add: c_def)
  have fit: "MINUTE \<le> WORK_END - WORK_START" by (simp add: WORK_START_def WORK_END_def time_units)
  have eq: "align_preferred cfg p =
      (if \<not> is_workday cfg c then skip_weekend cfg (combine cfg c WORK_START)
       else if local_time cfg c < WORK_START then combine cfg c WORK_START
       else if combine cfg c WORK_END - MINUTE < c then next_workday_start cfg c else c)"
    by (simp add: align_preferred_def Let_def c_def combine_skip_weekend)
  let ?A = "align_preferred cfg p"
  have G: "c \<le> ?A \<and> start_feasible cfg MINUTE ?A \<and> minute_aligned cfg ?A \<and>
    (\<forall>y. c \<le> y \<longrightarrow> start_feasible cfg MINUTE y \<longrightarrow> ?A \<le> y)"
  proof (cases "is_workday cfg c")
    case False
    let ?s = "skip_weekend cfg (combine cfg c WORK_START)"
    have A: "?A = ?s" using False by (simp add: eq)
    have "local_time cfg ?s = WORK_START" by (simp add: combine_skip_weekend [symmetric] combine_opening)
    then have "start_feasible cfg MINUTE ?s" using fit by (intro opening_feasible skip_weekend_workday)
    moreover have "c \<le> ?s"
    proof -
      obtain n t where x: "c = at_local cfg n t" "0 \<le> t" "t < DAY" by (rule at_local_exists)
      from skip_weekend_at[of WORK_START n cfg] obtain m where m: "n \<le> m"
        "skip_weekend cfg (at_local cfg n WORK_START) = at_local cfg m WORK_START" "(m + 3) mod 7 < 5"
        by auto
      have "n \<noteq> m" using m False x by (auto simp: is_workday_def)
      then have "at_local cfg n t < at_local cfg m WORK_START" using m(1) x
        by (auto intro!: at_local_less_day)
      with m x show ?thesis by simp
    qed
    moreover have "\<forall>y. c \<le> y \<longrightarrow> start_feasible cfg MINUTE y \<longrightarrow> ?s \<le> y"
      using opening_le_feasible[of c _ cfg MINUTE] False by auto
    ultimately show ?thesis
      using A by (auto intro!: skip_weekend_minute_aligned minute_aligned_opening)
  next
    case wd: True
    have "\<not> saturday_before_opening cfg c" using wd by (auto simp: is_workday_def saturday_before_opening_def)
    from advance_loop_least[OF fit this] obtain r where r: "advance_loop cfg MINUTE c = Some r" "c \<le> r"
      "start_feasible cfg MINUTE r" "\<forall>y. c \<le> y \<and> start_feasible cfg MINUTE y \<longrightarrow> r \<le> y" by auto
    have "?A = r"
      using wd r(1) fit advance_loop_feasible[of cfg MINUTE c] advance_loop_late[of cfg c MINUTE]
        advance_loop_early[of cfg c MINUTE] unfolding eq
      by (auto simp: past_latest_start_iff start_feasible_def not_less)
    moreover have "minute_aligned cfg ?A"
      using al wd unfolding eq by (auto intro: minute_aligned_opening next_workday_start_minute_aligned)
    ultimately show ?thesis using r by auto
  qed
  then show "trunc_minute cfg p \<le> ?A" "start_feasible cfg MINUTE ?A" "minute_aligned cfg ?A"
    and "\<And>y. trunc_minute cfg p \<le> y \<Longrightarrow> start_feasible cfg MINUTE y \<Longrightarrow> ?A \<le> y"
    by (auto simp: c_def)
qed

section \<open>Properties\<close>

text \<open>A calendar in the time zone UTC+3.\<close>

definition demo_config :: outlook_config where
  "demo_config = \<lparr>zone_offset = 3 * HOUR, company_calendar = []\<rparr>"



text \<open>The excluded input, and the meeting that is longer than the working day.\<close>

lemma advance_candidate_goes_back:
  "advance_candidate demo_config (2 * DAY - 3 * HOUR - 15 * MINUTE) (15 * MINUTE) (30 * MINUTE) =
   Some (DAY + 5 * HOUR)"
proof -
  let ?x = "2 * DAY - 3 * HOUR"
  have nw: "\<not> is_workday demo_config ?x" by code_simp
  have d: "30 * MINUTE \<le> WORK_END - WORK_START" by (simp add: WORK_END_def WORK_START_def time_units)
  have n: "next_workday_start demo_config (?x - DAY) = DAY + 5 * HOUR" by code_simp
  show ?thesis unfolding advance_candidate_def
    using advance_loop_weekend[OF nw d] n by simp
qed

lemma advance_candidate_never_returns:
  "advance_candidate demo_config 0 (15 * MINUTE) (10 * HOUR) = None"
  unfolding advance_candidate_def
  by (rule advance_loop_diverges) (simp add: WORK_END_def WORK_START_def time_units)

text \<open>
  \<open>align_preferred\<close> is the least start of a one-minute meeting within working hours that is not
  before the preferred time (seconds dropped), and it is a whole minute.
\<close>

lemma align_preferred_correct:
  "trunc_minute cfg p \<le> align_preferred cfg p \<and> start_feasible cfg MINUTE (align_preferred cfg p) \<and>
   minute_aligned cfg (align_preferred cfg p) \<and>
   (\<forall>y. trunc_minute cfg p \<le> y \<and> start_feasible cfg MINUTE y \<longrightarrow> align_preferred cfg p \<le> y)"
  using align_preferred_least by blast

end
