(* ===== verification/Slot_Intervals.thy ===== *)
theory Slot_Intervals
  imports Slot_Rules
begin

text \<open>
  Lists of busy intervals and what they denote: half-open intervals \<open>[start, end)\<close> of instants.
  A list is \<open>separated\<close> when its intervals are non-empty, in order and with a gap between
  neighbours; a set of instants has at most one separated list.  The locale \<open>normaliser\<close> is the
  contract the slot search relies on from the routine that merges busy intervals.
\<close>

type_synonym interval = "instant \<times> instant"

definition covered :: "interval list \<Rightarrow> instant set" where
  "covered xs = (\<Union>i \<in> set xs. {fst i..<snd i})"

lemma covered_simps [simp]:
  "covered [] = {}" "covered (i # xs) = {fst i..<snd i} \<union> covered xs"
  "covered (xs @ ys) = covered xs \<union> covered ys"
  by (simp_all add: covered_def Un_assoc)

lemma covered_perm: "set xs = set ys \<Longrightarrow> covered xs = covered ys"
  by (simp only: covered_def)

lemma covered_filter_nonempty: "covered (filter (\<lambda>(a, b). a < b) xs) = covered xs"
  by (induction xs) (simp_all split: prod.split)

fun separated :: "interval list \<Rightarrow> bool" where
  "separated [] = True"
| "separated [(a, b)] = (a < b)"
| "separated ((a, b) # (c, d) # xs) = (a < b \<and> b < c \<and> separated ((c, d) # xs))"

lemma separated_tl: "separated (i # xs) \<Longrightarrow> separated xs"
  by (cases "(i # xs)" rule: separated.cases) auto

lemma separated_hd_less: "separated ((a, b) # xs) \<Longrightarrow> a < b"
  by (cases xs) auto

lemma separated_later: "separated ((a, b) # xs) \<Longrightarrow> (c, d) \<in> set xs \<Longrightarrow> b < c \<and> c < d"
proof (induction xs arbitrary: a b)
  case Nil
  then show ?case by simp
next
  case (Cons i xs)
  obtain e f where i: "i = (e, f)" by fastforce
  from Cons.prems(1) i have s: "b < e" "separated ((e, f) # xs)" by auto
  then have ef: "e < f" by (auto dest: separated_hd_less)
  show ?case
  proof (cases "(c, d) = i")
    case True
    with i s ef show ?thesis by simp
  next
    case False
    with Cons.prems(2) have "(c, d) \<in> set xs" by auto
    from Cons.IH[OF s(2) this] s(1) ef show ?thesis by simp
  qed
qed

lemma separated_covered_gt: "separated ((a, b) # xs) \<Longrightarrow> x \<in> covered xs \<Longrightarrow> b < x"
  using separated_later by (fastforce simp: covered_def)

lemma separated_nonempty: "separated xs \<Longrightarrow> (a, b) \<in> set xs \<Longrightarrow> a < b"
  by (induction xs) (auto dest: separated_hd_less separated_tl)

lemma covered_empty_iff: "separated xs \<Longrightarrow> covered xs = {} \<longleftrightarrow> xs = []"
  by (cases xs) (auto dest: separated_hd_less)

text \<open>Uniqueness of the separated form.\<close>

lemma separated_head:
  assumes s: "separated ((a, b) # xs)"
  shows "a \<in> covered ((a, b) # xs)" and "\<And>x. x \<in> covered ((a, b) # xs) \<Longrightarrow> a \<le> x"
    and "b \<notin> covered ((a, b) # xs)" and "\<And>x. a \<le> x \<Longrightarrow> x < b \<Longrightarrow> x \<in> covered ((a, b) # xs)"
  using separated_hd_less[OF s] separated_covered_gt[OF s] by force+

theorem separated_unique:
  "separated xs \<Longrightarrow> separated ys \<Longrightarrow> covered xs = covered ys \<Longrightarrow> xs = ys"
proof (induction xs arbitrary: ys)
  case Nil
  then show ?case using covered_empty_iff[of ys] by simp
next
  case (Cons i xs)
  obtain a b where i: "i = (a, b)" by fastforce
  from Cons.prems have "covered ys \<noteq> {}" using covered_empty_iff[of "i # xs"] by simp
  then obtain c d zs where ys: "ys = (c, d) # zs" by (cases ys) auto
  note sx = Cons.prems(1)[unfolded i] and sy = Cons.prems(2)[unfolded ys]
  note eq = Cons.prems(3)[unfolded i ys]
  have "a \<le> c" by (rule separated_head(2)[OF sx]) (simp only: eq separated_head(1)[OF sy])
  moreover have "c \<le> a" by (rule separated_head(2)[OF sy]) (simp only: eq[symmetric] separated_head(1)[OF sx])
  ultimately have ac: "a = c" by simp
  have "\<not> b < d" using separated_head(4)[OF sy, of b] separated_head(3)[OF sx] eq ac
    separated_hd_less[OF sx] by auto
  moreover have "\<not> d < b" using separated_head(4)[OF sx, of d] separated_head(3)[OF sy] eq ac
    separated_hd_less[OF sy] by auto
  ultimately have bd: "b = d" by simp
  have "covered us = covered ((p, q) # us) - {p..<q}" if "separated ((p, q) # us)" for p q us
    using separated_covered_gt[OF that] by force
  from this[OF sx] this[OF sy] eq ac bd have "covered xs = covered zs" by simp
  with Cons.IH[of zs] separated_tl[OF sx] separated_tl[OF sy] i ys ac bd show ?case by simp
qed

text \<open>A non-empty meeting overlaps no busy interval exactly when it meets no busy instant.\<close>

definition free_of :: "interval list \<Rightarrow> instant \<Rightarrow> instant \<Rightarrow> bool" where
  "free_of xs s e \<longleftrightarrow> \<not> list_ex (\<lambda>(a, b). intervals_overlap s e a b) xs"

lemma free_of_simps [simp]:
  "free_of [] s e" "free_of (i # xs) s e \<longleftrightarrow> \<not> intervals_overlap s e (fst i) (snd i) \<and> free_of xs s e"
  "free_of (xs @ ys) s e \<longleftrightarrow> free_of xs s e \<and> free_of ys s e"
  by (auto simp: free_of_def split: prod.splits)

lemma free_of_covered:
  assumes "s < e"
  shows "{s..<e} \<inter> covered xs = {} \<longleftrightarrow> free_of (filter (\<lambda>(a, b). a < b) xs) s e"
proof -
  have one: "{s..<e} \<inter> {a..<b} = {} \<longleftrightarrow> \<not> (a < b \<and> intervals_overlap s e a b)" for a b
    using assms by (auto simp: intervals_overlap_def not_less)
  have "{s..<e} \<inter> covered xs = {} \<longleftrightarrow> (\<forall>i \<in> set xs. {s..<e} \<inter> {fst i..<snd i} = {})"
    unfolding covered_def by blast
  also have "\<dots> \<longleftrightarrow> (\<forall>i \<in> set xs. \<not> (fst i < snd i \<and> intervals_overlap s e (fst i) (snd i)))"
    by (simp only: one)
  also have "\<dots> \<longleftrightarrow> free_of (filter (\<lambda>(a, b). a < b) xs) s e"
    unfolding free_of_def list_ex_iff by auto
  finally show ?thesis .
qed

lemma free_of_separated: "separated xs \<Longrightarrow> s < e \<Longrightarrow> free_of xs s e \<longleftrightarrow> {s..<e} \<inter> covered xs = {}"
proof -
  assume s: "separated xs" and lt: "s < e"
  have "filter (\<lambda>(a, b). a < b) xs = xs" using separated_nonempty[OF s] by (auto intro!: filter_True)
  then show ?thesis using free_of_covered[OF lt, of xs] by simp
qed

section \<open>The contract of a merging routine\<close>

locale normaliser =
  fixes norm :: "interval list \<Rightarrow> interval list"
    and window :: "instant set"
  assumes covered_norm: "covered (norm xs) = covered xs \<inter> window"
    and separated_norm: "separated (norm xs)"
begin

lemma norm_canonical: "covered xs \<inter> window = covered ys \<inter> window \<Longrightarrow> norm xs = norm ys"
  by (rule separated_unique) (simp_all add: covered_norm separated_norm)

lemma norm_idem: "norm (norm xs) = norm xs"
  by (rule norm_canonical) (simp add: covered_norm Int_assoc)

lemma norm_append_norm: "norm (norm xs @ ys) = norm (xs @ ys)"
  by (rule norm_canonical) (simp add: covered_norm Int_Un_distrib2 Int_assoc)

lemma norm_perm: "set xs = set ys \<Longrightarrow> norm xs = norm ys"
  by (rule norm_canonical) (simp only: covered_perm[of xs ys])

lemma norm_free:
  assumes "s < e" "{s..<e} \<subseteq> window"
  shows "free_of (norm xs) s e \<longleftrightarrow> {s..<e} \<inter> covered xs = {}"
  using assms by (auto simp: free_of_separated separated_norm covered_norm)

end

end
