(* ===== verification/Py_Strings.thy ===== *)
theory Py_Strings
  imports Prelude
begin

text \<open>
  The string methods the modelled code uses, on UTF-8 bytes: \<open>strip()\<close> removes ASCII white space,
  \<open>lower()\<close>/\<open>casefold()\<close> map the ASCII and the Cyrillic capitals (the alphabets of the data),
  \<open>in\<close> is substring search.  White space and letters of other scripts are outside the model.
\<close>

definition py_space :: "char \<Rightarrow> bool" where
  "py_space c \<longleftrightarrow> (let n = (of_char c :: nat) in 9 \<le> n \<and> n \<le> 13 \<or> 28 \<le> n \<and> n \<le> 32)"

definition py_strip :: "string \<Rightarrow> string" where
  "py_strip s = rev (dropWhile py_space (rev (dropWhile py_space s)))"

definition ascii_lower :: "char \<Rightarrow> char" where
  "ascii_lower c = (let n = (of_char c :: nat) in if 65 \<le> n \<and> n \<le> 90 then char_of (n + 32) else c)"

fun py_lower :: "string \<Rightarrow> string" where
  "py_lower [] = []"
| "py_lower [c] = [ascii_lower c]"
| "py_lower (c # d # cs) =
     (let n = (of_char d :: nat) in
      if c = CHR 0xD0 \<and> 0x90 \<le> n \<and> n \<le> 0x9F then CHR 0xD0 # char_of (n + 0x20) # py_lower cs
      else if c = CHR 0xD0 \<and> 0xA0 \<le> n \<and> n \<le> 0xAF then CHR 0xD1 # char_of (n - 0x20) # py_lower cs
      else if c = CHR 0xD0 \<and> 0x80 \<le> n \<and> n \<le> 0x8F then CHR 0xD1 # char_of (n + 0x10) # py_lower cs
      else ascii_lower c # py_lower (d # cs))"

abbreviation casefold :: "string \<Rightarrow> string" where
  "casefold \<equiv> py_lower"

text \<open>\<open>needle in haystack\<close>\<close>

fun is_prefix :: "string \<Rightarrow> string \<Rightarrow> bool" where
  "is_prefix [] ys = True"
| "is_prefix (x # xs) [] = False"
| "is_prefix (x # xs) (y # ys) = (x = y \<and> is_prefix xs ys)"

fun is_substring :: "string \<Rightarrow> string \<Rightarrow> bool" where
  "is_substring xs [] = (xs = [])"
| "is_substring xs (y # ys) = (is_prefix xs (y # ys) \<or> is_substring xs ys)"

definition opt_str :: "string option \<Rightarrow> string" where
  "opt_str s = (case s of None \<Rightarrow> [] | Some t \<Rightarrow> t)"

lemma opt_str_simps [simp]: "opt_str None = []" "opt_str (Some t) = t"
  by (simp_all add: opt_str_def)

lemma dropWhile_idem: "dropWhile P (dropWhile P xs) = dropWhile P xs"
  by (induction xs) auto

lemma strip_ends:
  "py_strip s \<noteq> [] \<Longrightarrow> \<not> py_space (last (py_strip s))"
proof -
  assume "py_strip s \<noteq> []"
  then have "dropWhile py_space (rev (dropWhile py_space s)) \<noteq> []" by (simp add: py_strip_def)
  then have "\<not> py_space (hd (dropWhile py_space (rev (dropWhile py_space s))))"
    by (rule hd_dropWhile)
  then show ?thesis by (simp add: py_strip_def last_rev)
qed

lemma is_prefix_iff: "is_prefix xs ys \<longleftrightarrow> (\<exists>zs. ys = xs @ zs)"
  by (induction xs ys rule: is_prefix.induct) auto

lemma is_substring_iff: "is_substring xs ys \<longleftrightarrow> (\<exists>us vs. ys = us @ xs @ vs)"
proof (induction ys)
  case Nil
  then show ?case by simp
next
  case (Cons y ys)
  have "(\<exists>us vs. y # ys = us @ xs @ vs) \<longleftrightarrow>
    (\<exists>vs. y # ys = xs @ vs) \<or> (\<exists>us vs. ys = us @ xs @ vs)" (is "?l = ?r")
  proof
    assume ?l
    then obtain us vs where "y # ys = us @ xs @ vs" by blast
    then show ?r by (cases us) auto
  next
    assume ?r
    then show ?l by (metis append_Cons append_Nil)
  qed
  with Cons.IH show ?case by (simp add: is_prefix_iff)
qed

text \<open>Normal forms: \<open>email.strip().lower()\<close> is idempotent.\<close>

lemma py_strip_id: "s = [] \<or> \<not> py_space (hd s) \<and> \<not> py_space (last s) \<Longrightarrow> py_strip s = s"
proof -
  assume a: "s = [] \<or> \<not> py_space (hd s) \<and> \<not> py_space (last s)"
  then have 1: "dropWhile py_space s = s" by (cases s) auto
  from a have 2: "dropWhile py_space (rev s) = rev s" by (cases s rule: rev_cases) auto
  show ?thesis by (simp add: py_strip_def 1 2)
qed

lemma strip_start: "py_strip s \<noteq> [] \<Longrightarrow> \<not> py_space (hd (py_strip s))"
proof -
  let ?d = "dropWhile py_space s"
  assume ne: "py_strip s \<noteq> []"
  obtain ys where ys: "rev ?d = ys @ dropWhile py_space (rev ?d)"
    by (metis takeWhile_dropWhile_id)
  then have d: "?d = py_strip s @ rev ys"
    by (metis py_strip_def rev_append rev_rev_ident)
  with ne have "hd ?d = hd (py_strip s)" "?d \<noteq> []" by auto
  then show ?thesis using hd_dropWhile[of py_space s] by simp
qed

lemma py_strip_idem [simp]: "py_strip (py_strip s) = py_strip s"
  by (rule py_strip_id) (auto simp: strip_start strip_ends)

definition cyr_tail :: "char \<Rightarrow> bool" where
  "cyr_tail d \<longleftrightarrow> 0x80 \<le> (of_char d :: nat) \<and> (of_char d :: nat) \<le> 0xAF"

lemma ascii_lower_code:
  "(of_char (ascii_lower c) :: nat) =
     (if 65 \<le> (of_char c :: nat) \<and> (of_char c :: nat) \<le> 90 then of_char c + 32 else of_char c)"
  by (simp add: ascii_lower_def Let_def)

lemma char_code_eq: "c = d \<longleftrightarrow> (of_char c :: nat) = of_char d"
  by simp

lemma ascii_lower_facts [simp]:
  "ascii_lower (ascii_lower c) = ascii_lower c" "cyr_tail (ascii_lower c) = cyr_tail c"
  "py_space (ascii_lower c) = py_space c"
  by (auto simp: char_code_eq ascii_lower_code cyr_tail_def py_space_def Let_def simp del: of_char_eq_iff)

lemma ascii_lower_D0 [simp]: "ascii_lower c = CHR 0xD0 \<longleftrightarrow> c = CHR 0xD0"
  by (auto simp: char_code_eq ascii_lower_code simp del: of_char_eq_iff)

text \<open>The two bytes \<open>lower\<close> puts for a Cyrillic capital.\<close>

definition cyr_pair :: "char \<Rightarrow> char \<Rightarrow> bool" where
  "cyr_pair e f \<longleftrightarrow> (e = CHR 0xD0 \<or> e = CHR 0xD1) \<and> \<not> (e = CHR 0xD0 \<and> cyr_tail f) \<and>
     0x80 \<le> (of_char f :: nat) \<and> (of_char f :: nat) \<le> 0xBF"

lemma py_lower_cyr:
  assumes "cyr_tail d"
  shows "\<exists>e f. py_lower (CHR 0xD0 # d # cs) = e # f # py_lower cs \<and> cyr_pair e f"
proof -
  let ?k = "of_char d :: nat"
  from assms consider "0x80 \<le> ?k \<and> ?k \<le> 0x8F" | "0x90 \<le> ?k \<and> ?k \<le> 0x9F" | "0xA0 \<le> ?k \<and> ?k \<le> 0xAF"
    unfolding cyr_tail_def by linarith
  then show ?thesis
  proof cases
    case 1
    then have "py_lower (CHR 0xD0 # d # cs) = CHR 0xD1 # char_of (?k + 0x10) # py_lower cs"
      by (simp add: Let_def)
    moreover have "cyr_pair (CHR 0xD1) (char_of (?k + 0x10))" using 1 by (simp add: cyr_pair_def)
    ultimately show ?thesis by blast
  next
    case 2
    then have "py_lower (CHR 0xD0 # d # cs) = CHR 0xD0 # char_of (?k + 0x20) # py_lower cs"
      by (simp add: Let_def)
    moreover have "cyr_pair (CHR 0xD0) (char_of (?k + 0x20))" using 2 by (simp add: cyr_pair_def cyr_tail_def)
    ultimately show ?thesis by blast
  next
    case 3
    then have "py_lower (CHR 0xD0 # d # cs) = CHR 0xD1 # char_of (?k - 0x20) # py_lower cs"
      by (simp add: Let_def)
    moreover have "(?k - 0x20) mod 256 = ?k - 0x20" using 3 by (intro mod_less) linarith
    then have "cyr_pair (CHR 0xD1) (char_of (?k - 0x20))" using 3 by (auto simp: cyr_pair_def)
    ultimately show ?thesis by blast
  qed
qed

lemma py_lower_other:
  "\<not> (c = CHR 0xD0 \<and> cyr_tail d) \<Longrightarrow> py_lower (c # d # cs) = ascii_lower c # py_lower (d # cs)"
  by (auto simp: cyr_tail_def Let_def)

lemma cyr_pair_facts:
  assumes "cyr_pair e f"
  shows "ascii_lower e = e" "ascii_lower f = f" "f \<noteq> CHR 0xD0" "\<not> py_space e" "\<not> py_space f"
    "\<not> (e = CHR 0xD0 \<and> cyr_tail f)" "\<not> cyr_tail e"
  using assms
  by (auto simp: cyr_pair_def cyr_tail_def py_space_def Let_def char_code_eq ascii_lower_code simp del: of_char_eq_iff)

lemma py_lower_induct [case_names Nil Single Cyr Other]:
  assumes "P []" "\<And>c. P [c]" "\<And>d cs. cyr_tail d \<Longrightarrow> P cs \<Longrightarrow> P (CHR 0xD0 # d # cs)"
    "\<And>c d cs. \<not> (c = CHR 0xD0 \<and> cyr_tail d) \<Longrightarrow> P (d # cs) \<Longrightarrow> P (c # d # cs)"
  shows "P s"
proof (induction "length s" arbitrary: s rule: less_induct)
  case less
  consider "s = []" | c where "s = [c]" | c d cs where "s = c # d # cs" by (metis list.exhaust)
  then show ?case
  proof cases
    case 3
    with less assms(3,4) show ?thesis by (cases "c = CHR 0xD0 \<and> cyr_tail d") auto
  qed (use assms(1,2) in auto)
qed

lemma py_lower_facts:
  "py_lower (py_lower s) = py_lower s \<and> (py_lower s = [] \<longleftrightarrow> s = []) \<and>
   (s \<noteq> [] \<longrightarrow> (cyr_tail (hd (py_lower s)) \<longrightarrow> cyr_tail (hd s)) \<and>
     (py_space (hd (py_lower s)) \<longleftrightarrow> py_space (hd s)) \<and> (py_space (last (py_lower s)) \<longleftrightarrow> py_space (last s)))"
proof (induction s rule: py_lower_induct)
  case (Cyr d cs)
  from py_lower_cyr[OF Cyr(1)] obtain e f where
    ef: "py_lower (CHR 0xD0 # d # cs) = e # f # py_lower cs" "cyr_pair e f" by blast
  note F = cyr_pair_facts[OF ef(2)]
  have 1: "py_lower (e # f # py_lower cs) = e # py_lower (f # py_lower cs)"
    using py_lower_other[of e f] F by auto
  have 2: "py_lower (f # py_lower cs) = f # py_lower cs"
    using Cyr.IH F py_lower_other[of f] by (cases "py_lower cs") auto
  have "\<not> py_space (CHR 0xD0)" "\<not> py_space d"
    using Cyr(1) by (auto simp: py_space_def cyr_tail_def)
  then show ?case unfolding ef(1) 1 2 using Cyr.IH F by auto
next
  case (Other c d cs)
  obtain d' ys where d': "py_lower (d # cs) = d' # ys" using Other.IH by (cases "py_lower (d # cs)") auto
  have "\<not> (ascii_lower c = CHR 0xD0 \<and> cyr_tail d')" using Other d' by auto
  from py_lower_other[OF this, of ys] Other.IH have
    "py_lower (ascii_lower c # d' # ys) = ascii_lower c # d' # ys" by (simp add: d')
  then show ?case unfolding py_lower_other[OF Other(1)] d' using Other.IH d' by auto
qed simp_all

definition norm_email :: "string \<Rightarrow> string" where
  "norm_email s = py_lower (py_strip s)"

lemma py_strip_lower: "py_strip (py_lower (py_strip s)) = py_lower (py_strip s)"
  using py_lower_facts[of "py_strip s"] strip_start[of s] strip_ends[of s]
  by (intro py_strip_id) (cases "py_strip s = []"; simp)

lemma norm_email_idem [simp]: "norm_email (norm_email s) = norm_email s"
  using py_lower_facts[of "py_strip s"] by (simp add: norm_email_def py_strip_lower)

lemma py_strip_norm_email [simp]: "py_strip (norm_email s) = norm_email s"
  by (simp add: norm_email_def py_strip_lower)

lemma norm_email_empty: "norm_email s = [] \<longleftrightarrow> py_strip s = []"
  using py_lower_facts[of "py_strip s"] by (simp add: norm_email_def)

end
