(* ===== verification/Slot_Busy.thy ===== *)
theory Slot_Busy
  imports Slot_Intervals Py_Strings
begin

text \<open>
  Busy intervals (\<open>app/tools/Outlook/slot_search/busy.py\<close>): reading calendar items and free/busy
  views, parsing the merged free/busy string, merging and clipping intervals, merging sources per
  attendee.  What Exchange answers (\<open>GetUserAvailability\<close>) is an argument of the fetchers.
\<close>

section \<open>What Exchange returns\<close>

record calendar_item =
  is_cancelled :: bool
  legacy_free_busy_status :: "string option"
  item_start :: instant
  item_end :: instant

record freebusy_event =
  fb_type :: "string option"
  fb_subject :: "string option"
  fb_start :: instant
  fb_end :: instant

record freebusy_view =
  view_merged :: "string option"
  view_events :: "freebusy_event list option"
  view_message :: "string option"

datatype fetch_error =
    Exchange_Message string string
  | Empty_View string
  | View_Count_Mismatch nat nat

definition BUSY_STATUSES :: "string list" where
  "BUSY_STATUSES = [''Busy'', ''Tentative'', ''OOF'', ''WorkingElsewhere'']"

definition FREE_BUSY_MERGED_INTERVAL_MINUTES :: int where
  "FREE_BUSY_MERGED_INTERVAL_MINUTES = 30"

text \<open>\<open>MERGED_FREE_CHARS\<close> also holds the empty string, which no character equals.\<close>

definition merged_free_char :: "char \<Rightarrow> bool" where
  "merged_free_char c \<longleftrightarrow> c = CHR ''0''"

section \<open>Reading events\<close>

definition event_interval :: "calendar_item \<Rightarrow> interval option" where
  "event_interval item =
     (if is_cancelled item then None
      else let status = opt_str (legacy_free_busy_status item)
        in if status \<noteq> [] \<and> status \<notin> set BUSY_STATUSES then None
           else let start = item_start item; stop = item_end item
             in if stop \<le> start then None else Some (start, stop))"

definition freebusy_event_interval :: "freebusy_event \<Rightarrow> interval option" where
  "freebusy_event_interval event =
     (let status = opt_str (fb_type event)
      in if status = ''Free'' then None
         else if status = [] \<or> status \<notin> set BUSY_STATUSES then None
         else let start = fb_start event; stop = fb_end event
           in if stop \<le> start then None else Some (start, stop))"

fun parse_freebusy_events :: "freebusy_event list \<Rightarrow> interval list" where
  "parse_freebusy_events [] = []"
| "parse_freebusy_events (e # es) =
     (case freebusy_event_interval e of
        Some i \<Rightarrow> i # parse_freebusy_events es
      | None \<Rightarrow> parse_freebusy_events es)"

section \<open>The merged free/busy string\<close>

text \<open>The loop carries the start of the current slot and the start of the open busy run.\<close>

fun merged_loop ::
  "timedelta \<Rightarrow> instant \<Rightarrow> string \<Rightarrow> instant \<Rightarrow> instant option \<Rightarrow> interval list" where
  "merged_loop step local_end [] slot_start busy_start =
     (case busy_start of None \<Rightarrow> [] | Some b \<Rightarrow> [(b, min slot_start local_end)])"
| "merged_loop step local_end (c # cs) slot_start busy_start =
     (if slot_start \<ge> local_end then
        (case busy_start of None \<Rightarrow> [] | Some b \<Rightarrow> [(b, min slot_start local_end)])
      else if \<not> merged_free_char c then
        merged_loop step local_end cs (slot_start + step)
          (case busy_start of None \<Rightarrow> Some slot_start | Some b \<Rightarrow> Some b)
      else (case busy_start of
        Some b \<Rightarrow> (b, slot_start) # merged_loop step local_end cs (slot_start + step) None
      | None \<Rightarrow> merged_loop step local_end cs (slot_start + step) None))"

definition busy_intervals_from_merged_string ::
  "outlook_config \<Rightarrow> string \<Rightarrow> instant \<Rightarrow> instant \<Rightarrow> int \<Rightarrow> interval list" where
  "busy_intervals_from_merged_string cfg text range_start range_end interval_minutes =
     (if text = [] then []
      else merged_loop (interval_minutes * MINUTE) (trunc_minute cfg range_end) text
             (trunc_minute cfg range_start) None)"

section \<open>From views to intervals\<close>

definition freebusy_busy_intervals ::
  "outlook_config \<Rightarrow> string \<Rightarrow> instant \<Rightarrow> instant \<Rightarrow> freebusy_view \<Rightarrow> fetch_error + interval list" where
  "freebusy_busy_intervals cfg attendee range_start range_end view =
     (if truthy (view_merged view) then
        Inr (busy_intervals_from_merged_string cfg (opt_str (view_merged view)) range_start range_end
               FREE_BUSY_MERGED_INTERVAL_MINUTES)
      else (case view_events view of
        Some (e # es) \<Rightarrow> Inr (parse_freebusy_events (e # es))
      | _ \<Rightarrow> (if truthy (view_message view)
              then Inl (Exchange_Message attendee (opt_str (view_message view)))
              else Inl (Empty_View attendee))))"

definition freebusy_events_busy_intervals ::
  "outlook_config \<Rightarrow> string \<Rightarrow> instant \<Rightarrow> instant \<Rightarrow> freebusy_view \<Rightarrow> fetch_error + interval list" where
  "freebusy_events_busy_intervals cfg attendee range_start range_end view =
     (let intervals = (case view_events view of None \<Rightarrow> [] | Some es \<Rightarrow> parse_freebusy_events es)
      in if intervals \<noteq> [] then Inr intervals
         else if truthy (view_merged view) then
           Inr (busy_intervals_from_merged_string cfg (opt_str (view_merged view)) range_start range_end
                  FREE_BUSY_MERGED_INTERVAL_MINUTES)
         else if truthy (view_message view)
         then Inl (Exchange_Message attendee (opt_str (view_message view)))
         else Inr [])"

text \<open>\<open>dict(zip(keys, values))\<close>: a repeated key keeps its place and takes the last value.\<close>

fun dict_zip :: "'k list \<Rightarrow> 'v list \<Rightarrow> ('k, 'v) dict \<Rightarrow> ('k, 'v) dict" where
  "dict_zip (k # ks) (v # vs) d = dict_zip ks vs (dict_set k v d)"
| "dict_zip _ _ d = d"

text \<open>\<open>get_info\<close> stands for \<open>protocol.get_free_busy_info\<close> on the service account.\<close>

type_synonym exchange = "string list \<Rightarrow> instant \<Rightarrow> instant \<Rightarrow> freebusy_view list"

definition fetch_free_busy_views ::
  "exchange \<Rightarrow> string list \<Rightarrow> instant \<Rightarrow> instant \<Rightarrow> fetch_error + (string, freebusy_view) dict" where
  "fetch_free_busy_views get_info attendees range_start range_end =
     (let attendee_list = map py_strip attendees;
          views = get_info attendee_list range_start range_end
      in if length views \<noteq> length attendee_list
         then Inl (View_Count_Mismatch (length views) (length attendee_list))
         else Inr (dict_zip attendee_list views []))"

definition or_empty :: "fetch_error + interval list \<Rightarrow> interval list" where
  "or_empty r = (case r of Inl _ \<Rightarrow> [] | Inr xs \<Rightarrow> xs)"

fun intervals_by_email ::
  "(string \<Rightarrow> freebusy_view \<Rightarrow> interval list) \<Rightarrow> (string, freebusy_view) dict \<Rightarrow>
   (string, interval list) dict \<Rightarrow> (string, interval list) dict" where
  "intervals_by_email parse [] acc = acc"
| "intervals_by_email parse ((email, view) # vs) acc =
     intervals_by_email parse vs (dict_set email (parse email view) acc)"

definition fetch_busy_intervals_freebusy ::
  "outlook_config \<Rightarrow> exchange \<Rightarrow> string list \<Rightarrow> instant \<Rightarrow> instant \<Rightarrow>
   fetch_error + (string, interval list) dict" where
  "fetch_busy_intervals_freebusy cfg get_info attendees range_start range_end =
     (case fetch_free_busy_views get_info attendees range_start range_end of
        Inl e \<Rightarrow> Inl e
      | Inr views \<Rightarrow> Inr (intervals_by_email
          (\<lambda>email view. or_empty (freebusy_busy_intervals cfg email range_start range_end view)) views []))"

text \<open>The events variant does not catch the parser's error.\<close>

fun events_by_email ::
  "(string \<Rightarrow> freebusy_view \<Rightarrow> fetch_error + interval list) \<Rightarrow> (string, freebusy_view) dict \<Rightarrow>
   (string, interval list) dict \<Rightarrow> fetch_error + (string, interval list) dict" where
  "events_by_email parse [] acc = Inr acc"
| "events_by_email parse ((email, view) # vs) acc =
     (case parse email view of
        Inl e \<Rightarrow> Inl e
      | Inr xs \<Rightarrow> events_by_email parse vs (dict_set email xs acc))"

definition fetch_busy_intervals_freebusy_events ::
  "outlook_config \<Rightarrow> exchange \<Rightarrow> string list \<Rightarrow> instant \<Rightarrow> instant \<Rightarrow>
   fetch_error + (string, interval list) dict" where
  "fetch_busy_intervals_freebusy_events cfg get_info attendees range_start range_end =
     (case fetch_free_busy_views get_info attendees range_start range_end of
        Inl e \<Rightarrow> Inl e
      | Inr views \<Rightarrow>
          events_by_email (\<lambda>email. freebusy_events_busy_intervals cfg email range_start range_end) views [])"

text \<open>\<open>_busy_intervals_from_views\<close> keys the result by the stripped, lower-cased address.\<close>

fun busy_intervals_from_views ::
  "(string \<Rightarrow> freebusy_view \<Rightarrow> fetch_error + interval list) \<Rightarrow> (string, freebusy_view) dict \<Rightarrow>
   (string, interval list) dict \<Rightarrow> (string, interval list) dict" where
  "busy_intervals_from_views parser [] acc = acc"
| "busy_intervals_from_views parser ((email, view) # vs) acc =
     busy_intervals_from_views parser vs
       (dict_set (norm_email email) (or_empty (parser email view)) acc)"

definition fetch_busy_intervals_freebusy_dual ::
  "outlook_config \<Rightarrow> exchange \<Rightarrow> string list \<Rightarrow> instant \<Rightarrow> instant \<Rightarrow>
   fetch_error + (string, interval list) dict \<times> (string, interval list) dict" where
  "fetch_busy_intervals_freebusy_dual cfg get_info attendees range_start range_end =
     (case fetch_free_busy_views get_info attendees range_start range_end of
        Inl e \<Rightarrow> Inl e
      | Inr views \<Rightarrow> Inr
          (busy_intervals_from_views
             (\<lambda>email. freebusy_busy_intervals cfg email range_start range_end) views [],
           busy_intervals_from_views
             (\<lambda>email. freebusy_events_busy_intervals cfg email range_start range_end) views []))"

definition fetch_freebusy_calendar_events ::
  "exchange \<Rightarrow> string list \<Rightarrow> instant \<Rightarrow> instant \<Rightarrow> fetch_error + (string, freebusy_event list) dict" where
  "fetch_freebusy_calendar_events get_info attendees range_start range_end =
     (case fetch_free_busy_views get_info attendees range_start range_end of
        Inl e \<Rightarrow> Inl e
      | Inr views \<Rightarrow> Inr (map (\<lambda>(email, view).
          (email, case view_events view of None \<Rightarrow> [] | Some es \<Rightarrow> es)) views))"

section \<open>Merging intervals\<close>

fun clip_intervals :: "instant option \<Rightarrow> instant option \<Rightarrow> interval list \<Rightarrow> interval list" where
  "clip_intervals clip_start clip_end [] = []"
| "clip_intervals clip_start clip_end ((start, stop) # xs) =
     (if stop \<le> start then clip_intervals clip_start clip_end xs
      else let local_start = (case clip_start of None \<Rightarrow> start | Some c \<Rightarrow> max start c);
               local_end = (case clip_end of None \<Rightarrow> stop | Some c \<Rightarrow> min stop c)
           in if local_end \<le> local_start then clip_intervals clip_start clip_end xs
              else (local_start, local_end) # clip_intervals clip_start clip_end xs)"

text \<open>The merging loop over the sorted list; the first arguments are \<open>merged[-1]\<close>.\<close>

fun coalesce_sorted :: "instant \<Rightarrow> instant \<Rightarrow> interval list \<Rightarrow> interval list" where
  "coalesce_sorted last_start last_end [] = [(last_start, last_end)]"
| "coalesce_sorted last_start last_end ((start, stop) # xs) =
     (if start \<le> last_end then coalesce_sorted last_start (max last_end stop) xs
      else (last_start, last_end) # coalesce_sorted start stop xs)"

definition coalesce_intervals ::
  "instant option \<Rightarrow> instant option \<Rightarrow> interval list \<Rightarrow> interval list" where
  "coalesce_intervals clip_start clip_end intervals =
     (case sort_key fst (clip_intervals clip_start clip_end intervals) of
        [] \<Rightarrow> []
      | (s, e) # xs \<Rightarrow> coalesce_sorted s e xs)"

text \<open>\<open>merge_busy_intervals(*sources)\<close>: the lists of one attendee are concatenated in source order.\<close>

fun merge_source ::
  "(string, interval list) dict \<Rightarrow> (string, interval list) dict \<Rightarrow> (string, interval list) dict" where
  "merge_source [] acc = acc"
| "merge_source ((email, xs) # src) acc =
     merge_source src (dict_set email (dict_get_or acc email [] @ xs) acc)"

definition merge_busy_intervals ::
  "(string, interval list) dict list \<Rightarrow> (string, interval list) dict" where
  "merge_busy_intervals sources = fold merge_source sources []"


section \<open>Merging: what the result covers\<close>

definition clip_window :: "instant option \<Rightarrow> instant option \<Rightarrow> instant set" where
  "clip_window clip_start clip_end =
     {x. (case clip_start of None \<Rightarrow> True | Some c \<Rightarrow> c \<le> x) \<and>
         (case clip_end of None \<Rightarrow> True | Some c \<Rightarrow> x < c)}"

lemma clip_window_simps [simp]:
  "clip_window None None = UNIV" "clip_window (Some a) (Some b) = {a..<b}"
  by (auto simp: clip_window_def)

lemma covered_clip_intervals:
  "covered (clip_intervals cs ce xs) = covered xs \<inter> clip_window cs ce"
proof (induction cs ce xs rule: clip_intervals.induct)
  case (1 cs ce)
  then show ?case by simp
next
  case (2 cs ce start stop xs)
  let ?s = "case cs of None \<Rightarrow> start | Some c \<Rightarrow> max start c"
  let ?e = "case ce of None \<Rightarrow> stop | Some c \<Rightarrow> min stop c"
  have w: "{start..<stop} \<inter> clip_window cs ce = {?s..<?e}"
    by (auto simp: clip_window_def split: option.splits)
  show ?case
  proof (cases "stop \<le> start \<or> ?e \<le> ?s")
    case True
    then have "{start..<stop} \<inter> clip_window cs ce = {}" unfolding w
      by (auto split: option.splits)
    with True 2 show ?thesis by (auto simp: Let_def)
  next
    case False
    with 2 w show ?thesis by (auto simp: Let_def)
  qed
qed

lemma clip_intervals_nonempty: "(a, b) \<in> set (clip_intervals cs ce xs) \<Longrightarrow> a < b"
  by (induction cs ce xs rule: clip_intervals.induct) (auto simp: Let_def split: if_splits)

lemma covered_coalesce_sorted:
  assumes "ls \<le> le" "sorted (map fst xs)" "\<forall>i \<in> set xs. ls \<le> fst i \<and> fst i < snd i"
  shows "covered (coalesce_sorted ls le xs) = {ls..<le} \<union> covered xs"
  using assms
proof (induction ls le xs rule: coalesce_sorted.induct)
  case (1 ls le)
  then show ?case by simp
next
  case (2 ls le start stop xs)
  show ?case
  proof (cases "start \<le> le")
    case True
    then have "{ls..<le} \<union> {start..<stop} = {ls..<max le stop}" using 2(4,5) by auto
    moreover have "covered (coalesce_sorted ls (max le stop) xs) = {ls..<max le stop} \<union> covered xs"
      using True "2.IH"(1) "2.prems" by auto
    ultimately show ?thesis using True by (simp add: Un_assoc [symmetric])
  next
    case False
    then have "covered (coalesce_sorted start stop xs) = {start..<stop} \<union> covered xs"
      using "2.IH"(2) "2.prems" by auto
    with False show ?thesis by simp
  qed
qed

lemma separated_coalesce_sorted:
  assumes "ls < le" "sorted (map fst xs)" "\<forall>i \<in> set xs. ls \<le> fst i \<and> fst i < snd i"
  shows "separated (coalesce_sorted ls le xs) \<and>
    (\<exists>e ys. coalesce_sorted ls le xs = (ls, e) # ys)"
  using assms
proof (induction ls le xs rule: coalesce_sorted.induct)
  case (1 ls le)
  then show ?case by simp
next
  case (2 ls le start stop xs)
  show ?case
  proof (cases "start \<le> le")
    case True
    with "2.IH"(1) "2.prems" show ?thesis by auto
  next
    case False
    with "2.IH"(2) "2.prems" obtain e ys where
      "coalesce_sorted start stop xs = (start, e) # ys" "separated ((start, e) # ys)" by auto
    with False "2.prems"(1) show ?thesis by simp
  qed
qed

lemma coalesce_normal_form:
  "covered (coalesce_intervals cs ce xs) = covered xs \<inter> clip_window cs ce \<and>
   separated (coalesce_intervals cs ce xs)"
proof -
  define ys where "ys = sort_key fst (clip_intervals cs ce xs)"
  have cov: "covered ys = covered xs \<inter> clip_window cs ce"
    unfolding covered_clip_intervals [symmetric] by (rule covered_perm) (simp add: ys_def)
  have srt: "sorted (map fst ys)" by (simp add: ys_def)
  have ne: "\<forall>i \<in> set ys. fst i < snd i" by (auto simp: ys_def clip_intervals_nonempty)
  show ?thesis
  proof (cases ys)
    case Nil
    with cov show ?thesis by (simp add: coalesce_intervals_def ys_def [symmetric])
  next
    case (Cons i zs)
    obtain s e where i: "i = (s, e)" by fastforce
    from srt ne Cons i have "s < e" "sorted (map fst zs)" "\<forall>i \<in> set zs. s \<le> fst i \<and> fst i < snd i"
      by auto
    with covered_coalesce_sorted[of s e zs] separated_coalesce_sorted[of s e zs] cov Cons i
    show ?thesis by (simp add: coalesce_intervals_def ys_def [symmetric])
  qed
qed

text \<open>Merging invents no end point: an end is an end of the input or the end of the window.\<close>

lemma clip_intervals_ends:
  "(a, b) \<in> set (clip_intervals cs ce xs) \<Longrightarrow> b \<in> snd ` set xs \<or> ce = Some b"
proof (induction cs ce xs rule: clip_intervals.induct)
  case (1 cs ce)
  then show ?case by simp
next
  case (2 cs ce start stop xs)
  then show ?case by (auto simp: Let_def min_def split: if_splits option.splits)
qed

lemma coalesce_sorted_ends:
  "(a, b) \<in> set (coalesce_sorted ls le xs) \<Longrightarrow> b = le \<or> b \<in> snd ` set xs"
  by (induction ls le xs rule: coalesce_sorted.induct)
     (auto simp: max_def split: if_splits)

lemma coalesce_ends:
  assumes "(a, b) \<in> set (coalesce_intervals cs ce xs)"
  shows "b \<in> snd ` set xs \<or> ce = Some b"
proof -
  define ys where "ys = sort_key fst (clip_intervals cs ce xs)"
  have "b \<in> snd ` set ys"
  proof (cases ys)
    case Nil
    with assms show ?thesis by (simp add: coalesce_intervals_def ys_def [symmetric])
  next
    case (Cons i zs)
    with assms show ?thesis
      by (cases i) (auto simp: coalesce_intervals_def ys_def [symmetric] dest: coalesce_sorted_ends)
  qed
  then show ?thesis using clip_intervals_ends by (fastforce simp: ys_def)
qed

interpretation coalesce_all: normaliser "coalesce_intervals None None" UNIV
  using coalesce_normal_form[of None None] by unfold_locales simp_all

interpretation coalesce_clip: normaliser "coalesce_intervals (Some a) (Some b)" "{a..<b}" for a b
  using coalesce_normal_form[of "Some a" "Some b"] by unfold_locales simp_all

section \<open>The merged string: what the result covers\<close>

text \<open>Slot \<open>i\<close> of the string covers \<open>[start + i * step, start + (i + 1) * step)\<close>, cut at the end of
  the range.\<close>

fun slots_covered :: "timedelta \<Rightarrow> instant \<Rightarrow> string \<Rightarrow> instant \<Rightarrow> instant set" where
  "slots_covered step local_end [] start = {}"
| "slots_covered step local_end (c # cs) start =
     (if merged_free_char c then {} else {start..<min (start + step) local_end}) \<union>
     slots_covered step local_end cs (start + step)"

lemma slots_covered_past_end:
  "0 < step \<Longrightarrow> local_end \<le> start \<Longrightarrow> slots_covered step local_end cs start = {}"
  by (induction cs arbitrary: start) auto

lemma covered_merged_loop:
  assumes "0 < step" "\<And>b. busy_start = Some b \<Longrightarrow> b < start \<and> b < local_end"
  shows "covered (merged_loop step local_end cs start busy_start) =
    (case busy_start of None \<Rightarrow> {} | Some b \<Rightarrow> {b..<min start local_end}) \<union>
    slots_covered step local_end cs start"
  using assms
proof (induction cs arbitrary: start busy_start)
  case Nil
  then show ?case by (cases busy_start) auto
next
  case (Cons c cs)
  show ?case
  proof (cases "local_end \<le> start")
    case True
    then show ?thesis using slots_covered_past_end[of step local_end start "c # cs"] Cons.prems(1)
      by (cases busy_start) auto
  next
    case False
    show ?thesis
    proof (cases "merged_free_char c")
      case True
      with False Cons.IH[of None "start + step"] Cons.prems show ?thesis
        by (cases busy_start) auto
    next
      case busy: False
      let ?b = "case busy_start of None \<Rightarrow> start | Some b \<Rightarrow> b"
      have b: "?b \<le> start" "?b < start + step" "?b < local_end"
        using Cons.prems False by (fastforce split: option.splits)+
      have ext: "{?b..<min (start + step) local_end} = (case busy_start of None \<Rightarrow> {} | Some b \<Rightarrow> {b..<min start local_end})
          \<union> {start..<min (start + step) local_end}"
        using b False Cons.prems(1) by (auto split: option.splits)
      have "covered (merged_loop step local_end cs (start + step) (Some ?b)) =
          {?b..<min (start + step) local_end} \<union> slots_covered step local_end cs (start + step)"
        using Cons.IH[of "Some ?b" "start + step"] Cons.prems(1) b by simp
      with ext busy False show ?thesis by (cases busy_start) auto
    qed
  qed
qed

lemma slots_covered_iff:
  assumes "0 < step"
  shows "x \<in> slots_covered step local_end cs start \<longleftrightarrow>
    (\<exists>i < length cs. \<not> merged_free_char (cs ! i) \<and>
       start + int i * step \<le> x \<and> x < start + (int i + 1) * step \<and> x < local_end)"
proof (induction cs arbitrary: start)
  case Nil
  then show ?case by simp
next
  case (Cons c cs)
  have "(\<exists>i < length (c # cs). \<not> merged_free_char ((c # cs) ! i) \<and>
       start + int i * step \<le> x \<and> x < start + (int i + 1) * step \<and> x < local_end) \<longleftrightarrow>
    (\<not> merged_free_char c \<and> start \<le> x \<and> x < start + step \<and> x < local_end) \<or>
    (\<exists>i < length cs. \<not> merged_free_char (cs ! i) \<and>
       start + step + int i * step \<le> x \<and> x < start + step + (int i + 1) * step \<and> x < local_end)"
    by (auto simp: less_Suc_eq_0_disj algebra_simps)
  with Cons.IH[of "start + step"] show ?case by auto
qed

section \<open>Merging sources\<close>

lemma dict_get_or_merge_source:
  "dict_get_or (merge_source src acc) email [] =
   dict_get_or acc email [] @ concat (map snd (filter (\<lambda>p. fst p = email) src))"
  by (induction src acc rule: merge_source.induct) auto

lemma dict_get_or_merge_busy:
  "dict_get_or (merge_busy_intervals sources) email [] =
   concat (map (\<lambda>src. concat (map snd (filter (\<lambda>p. fst p = email) src))) sources)"
proof -
  have "dict_get_or (fold merge_source sources acc) email [] = dict_get_or acc email [] @
    concat (map (\<lambda>src. concat (map snd (filter (\<lambda>p. fst p = email) src))) sources)" for acc
    by (induction sources arbitrary: acc) (simp_all add: dict_get_or_merge_source)
  then show ?thesis by (simp add: merge_busy_intervals_def)
qed

section \<open>Properties\<close>

text \<open>
  C27: Coalescing a list of intervals, in any order and overlapping in any way, gives sorted, non-empty,
  pairwise separated intervals (a gap between neighbours) that cover exactly the instants of the
  input inside the clip window; lists that cover the same instants give the same result.
\<close>

lemma coalesce_intervals_canonical:
  "separated (coalesce_intervals clip_start clip_end xs) \<and>
   covered (coalesce_intervals clip_start clip_end xs) = covered xs \<inter> clip_window clip_start clip_end \<and>
   (\<forall>ys. covered ys = covered xs \<longrightarrow>
      coalesce_intervals clip_start clip_end ys = coalesce_intervals clip_start clip_end xs)"
  using coalesce_normal_form[of clip_start clip_end] by (auto intro: separated_unique)

lemma coalesce_intervals_canonical_witness:
  "coalesce_intervals None None [(0, 2), (1, 3)] = coalesce_intervals None None [(0, 3)]"
proof -
  have "covered [(0, 2), (1, 3)] = covered [(0, 3)]" by auto
  then show ?thesis using coalesce_intervals_canonical[of None None "[(0, 3)]"] by blast
qed

text \<open>
  The parser of Exchange's merged free/busy string reports busy exactly the slots whose character
  is not a free one: an instant is covered by the result precisely when it lies in the slot of such a
  character, before the end of the range.
\<close>

lemma merged_string_covers:
  assumes "0 < interval_minutes"
  shows "x \<in> covered (busy_intervals_from_merged_string cfg text range_start range_end interval_minutes) \<longleftrightarrow>
    (\<exists>i < length text. \<not> merged_free_char (text ! i) \<and>
       trunc_minute cfg range_start + int i * (interval_minutes * MINUTE) \<le> x \<and>
       x < trunc_minute cfg range_start + (int i + 1) * (interval_minutes * MINUTE) \<and>
       x < trunc_minute cfg range_end)"
proof -
  have "0 < interval_minutes * MINUTE" using assms by (simp add: time_units)
  from covered_merged_loop[OF this, of None] slots_covered_iff[OF this] show ?thesis
    by (simp add: busy_intervals_from_merged_string_def)
qed

end
