(* ===== verification/Slot_Availability.thy ===== *)
theory Slot_Availability
  imports Slot_Busy
begin

text \<open>
  Who is free at a slot (\<open>app/tools/Outlook/slot_search/availability.py\<close>): the test for one
  attendee and for all, the split of the attendees, the union of everyone's busy time, and the
  check of a slot against the calendar events.
\<close>

section \<open>The operations\<close>

fun is_free_for_attendee :: "instant \<Rightarrow> timedelta \<Rightarrow> interval list \<Rightarrow> bool" where
  "is_free_for_attendee start duration [] = True"
| "is_free_for_attendee start duration ((busy_start, busy_end) # xs) =
     (if intervals_overlap start (start + duration) busy_start busy_end then False
      else is_free_for_attendee start duration xs)"

fun is_free_for_all :: "instant \<Rightarrow> timedelta \<Rightarrow> (string, interval list) dict \<Rightarrow> bool" where
  "is_free_for_all start duration [] = True"
| "is_free_for_all start duration ((email, intervals) # d) =
     (if \<not> is_free_for_attendee start duration intervals then False
      else is_free_for_all start duration d)"

fun partition_attendees_at_slot ::
  "instant \<Rightarrow> timedelta \<Rightarrow> string list \<Rightarrow> (string, interval list) dict \<Rightarrow> string list \<times> string list" where
  "partition_attendees_at_slot slot_start duration [] busy = ([], [])"
| "partition_attendees_at_slot slot_start duration (email # es) busy =
     (case partition_attendees_at_slot slot_start duration es busy of (free, occupied) \<Rightarrow>
        if is_free_for_attendee slot_start duration (dict_get_or busy email [])
        then (email # free, occupied) else (free, email # occupied))"

definition union_busy_for_all ::
  "(string, interval list) dict \<Rightarrow> instant \<Rightarrow> instant \<Rightarrow> interval list" where
  "union_busy_for_all busy_by_attendee range_start range_end =
     coalesce_intervals (Some range_start) (Some range_end) (concat (dict_values busy_by_attendee))"

definition verify_slot_with_calendar ::
  "outlook_config \<Rightarrow> exchange \<Rightarrow> string list \<Rightarrow> instant \<Rightarrow> timedelta \<Rightarrow>
   fetch_error + bool \<times> (string, interval list) dict" where
  "verify_slot_with_calendar cfg get_info attendees slot_start duration =
     (case fetch_busy_intervals_freebusy_events cfg get_info attendees
             (slot_start - 2 * HOUR) (slot_start + duration + 2 * HOUR) of
        Inl e \<Rightarrow> Inl e
      | Inr busy \<Rightarrow> Inr (is_free_for_all slot_start duration busy, busy))"

section \<open>Facts\<close>

lemma is_free_for_attendee_iff:
  "is_free_for_attendee s d xs \<longleftrightarrow> free_of xs s (s + d)"
  by (induction s d xs rule: is_free_for_attendee.induct) (auto simp: free_of_def)

lemma free_of_concat: "free_of (concat xss) s e \<longleftrightarrow> (\<forall>xs \<in> set xss. free_of xs s e)"
  by (induction xss) auto

lemma is_free_for_all_iff:
  "is_free_for_all s d busy \<longleftrightarrow> (\<forall>xs \<in> set (dict_values busy). is_free_for_attendee s d xs)"
  by (induction s d busy rule: is_free_for_all.induct) auto

lemma is_free_for_all_concat:
  "is_free_for_all s d busy \<longleftrightarrow> free_of (concat (dict_values busy)) s (s + d)"
  by (simp add: is_free_for_all_iff free_of_concat is_free_for_attendee_iff)

lemma partition_attendees_filter:
  "partition_attendees_at_slot s d es busy =
     (filter (\<lambda>e. is_free_for_attendee s d (dict_get_or busy e [])) es,
      filter (\<lambda>e. \<not> is_free_for_attendee s d (dict_get_or busy e [])) es)"
  by (induction es) auto

text \<open>Intervals that are not empty: what the parsers deliver.\<close>

definition proper_intervals :: "interval list \<Rightarrow> bool" where
  "proper_intervals xs \<longleftrightarrow> (\<forall>(a, b) \<in> set xs. a < b)"

lemma free_of_proper:
  "proper_intervals xs \<Longrightarrow> s < e \<Longrightarrow> free_of xs s e \<longleftrightarrow> {s..<e} \<inter> covered xs = {}"
proof -
  assume p: "proper_intervals xs" and "s < e"
  have "filter (\<lambda>(a, b). a < b) xs = xs" using p by (auto simp: proper_intervals_def intro!: filter_True)
  with \<open>s < e\<close> show ?thesis using free_of_covered[of s e xs] by simp
qed

section \<open>Properties\<close>

text \<open>
  C34: The union of everyone's busy time is an exact summary of the attendees: for a slot inside the
  search range, it meets no busy instant of the union precisely when \<open>is_free_for_all\<close> holds, that
  is, when no attendee has an overlapping busy interval.
\<close>

lemma union_busy_exact:
  assumes "0 < duration" "lo \<le> s" "s + duration \<le> hi" "proper_intervals (concat (dict_values busy))"
  shows "{s..<s + duration} \<inter> covered (union_busy_for_all busy lo hi) = {} \<longleftrightarrow> is_free_for_all s duration busy"
proof -
  have "is_free_for_all s duration busy \<longleftrightarrow> {s..<s + duration} \<inter> covered (concat (dict_values busy)) = {}"
    using assms(1) free_of_proper[OF assms(4)] by (simp add: is_free_for_all_concat)
  also have "\<dots> \<longleftrightarrow> {s..<s + duration} \<inter> (covered (concat (dict_values busy)) \<inter> {lo..<hi}) = {}"
    using assms(2,3) by (auto simp: disjoint_iff)
  finally show ?thesis by (simp add: union_busy_for_all_def coalesce_clip.covered_norm)
qed

lemma union_busy_exact_witness:
  "{3..<5} \<inter> covered (union_busy_for_all [(''a'', [(0, 2)]), (''b'', [(1, 3)])] 0 10) = {}"
proof -
  have "proper_intervals (concat (dict_values [(''a'', [(0, 2)]), (''b'', [(1, 3)])]))"
    by (simp add: proper_intervals_def)
  moreover have "is_free_for_all 3 2 [(''a'', [(0, 2)]), (''b'', [(1, 3)])]" by code_simp
  ultimately show ?thesis using union_busy_exact[of 2 0 3 10] by simp
qed

text \<open>
  The split of the attendees at a slot is a partition in order: the free list holds exactly the
  attendees none of whose busy intervals overlaps the slot, the other list exactly the rest, and
  nobody is lost or listed in both.
\<close>

lemma partition_attendees_correct:
  "(free, occupied) = partition_attendees_at_slot s d es busy \<Longrightarrow>
   free = filter (\<lambda>e. \<forall>(a, b) \<in> set (dict_get_or busy e []). \<not> (s < b \<and> a < s + d)) es \<and>
   occupied = filter (\<lambda>e. \<exists>(a, b) \<in> set (dict_get_or busy e []). s < b \<and> a < s + d) es \<and>
   mset free + mset occupied = mset es"
proof -
  assume p: "(free, occupied) = partition_attendees_at_slot s d es busy"
  let ?P = "\<lambda>e. is_free_for_attendee s d (dict_get_or busy e [])"
  have f: "is_free_for_attendee s d xs \<longleftrightarrow> (\<forall>(a, b) \<in> set xs. \<not> (s < b \<and> a < s + d))" for xs
    by (induction s d xs rule: is_free_for_attendee.induct) (auto simp: intervals_overlap_def)
  have n: "\<not> is_free_for_attendee s d xs \<longleftrightarrow> (\<exists>(a, b) \<in> set xs. s < b \<and> a < s + d)" for xs
    by (auto simp: f)
  have fo: "free = filter ?P es" "occupied = filter (\<lambda>e. \<not> ?P e) es"
    using p by (simp_all add: partition_attendees_filter)
  then have "mset free + mset occupied = mset es"
    by (simp only: mset_filter multiset_partition[symmetric])
  with fo(1)[unfolded f] fo(2)[unfolded n] show ?thesis by blast
qed

end
