(* ===== verification/Slot_Iteration.thy ===== *)
theory Slot_Iteration
  imports Slot_Availability
begin

text \<open>
  The search loops (\<open>app/tools/Outlook/slot_search/iteration.py\<close>): the candidate generator, the
  start of the quorum search, the first slot of a free window, and the scan of the gaps between
  busy blocks.  The loops advance with \<open>advance_candidate\<close>, which may not return, so they are
  partial functions into \<open>option\<close>.
\<close>

section \<open>The loops\<close>

partial_function (option) candidates_loop ::
  "outlook_config \<Rightarrow> timedelta \<Rightarrow> timedelta \<Rightarrow> instant \<Rightarrow> int \<Rightarrow> int \<Rightarrow> instant \<Rightarrow> instant list option" where
  "candidates_loop cfg duration step search_end safety_limit emitted candidate =
     (if candidate < search_end \<and> emitted < safety_limit then
        (if slot_respects_rules cfg candidate duration then
           Option.bind (advance_candidate cfg candidate step duration) (\<lambda>c.
             Option.bind (candidates_loop cfg duration step search_end safety_limit (emitted + 1) c)
               (\<lambda>rest. Some (candidate # rest)))
         else
           Option.bind (advance_candidate cfg candidate step duration) (\<lambda>c.
             candidates_loop cfg duration step search_end safety_limit emitted c))
      else Some [])"

definition iterate_slot_candidates ::
  "outlook_config \<Rightarrow> instant \<Rightarrow> instant \<Rightarrow> timedelta \<Rightarrow> timedelta \<Rightarrow> instant list option" where
  "iterate_slot_candidates cfg earliest_allowed search_end duration step =
     candidates_loop cfg duration step search_end
       (max 1000 ((search_end - earliest_allowed) div max step MINUTE + 50)) 0
       (max earliest_allowed (align_preferred cfg earliest_allowed))"

definition quorum_search_start :: "outlook_config \<Rightarrow> instant \<Rightarrow> instant \<Rightarrow> instant" where
  "quorum_search_start cfg now preferred =
     (let requested = trunc_minute cfg preferred
      in if \<not> is_workday cfg requested
         then max (align_preferred cfg requested) (not_before_now cfg now)
         else max (combine cfg requested WORK_START) (not_before_now cfg now))"

partial_function (option) window_loop ::
  "outlook_config \<Rightarrow> timedelta \<Rightarrow> timedelta \<Rightarrow> instant \<Rightarrow> instant \<Rightarrow> instant \<Rightarrow> nat \<Rightarrow>
   (instant option \<times> nat) option" where
  "window_loop cfg duration step local_start local_end candidate checked =
     (if candidate < local_end \<and> candidate + duration \<le> local_end then
        (if candidate < local_start then
           window_loop cfg duration step local_start local_end
             (max local_start (align_preferred cfg local_start)) checked
         else if slot_respects_rules cfg candidate duration then Some (Some candidate, checked + 1)
         else Option.bind (advance_candidate cfg candidate step duration) (\<lambda>c.
           window_loop cfg duration step local_start local_end c (checked + 1)))
      else Some (None, checked))"

definition first_valid_slot_in_window ::
  "outlook_config \<Rightarrow> instant \<Rightarrow> instant \<Rightarrow> timedelta \<Rightarrow> timedelta \<Rightarrow> (instant option \<times> nat) option" where
  "first_valid_slot_in_window cfg local_start local_end duration step =
     (if local_end \<le> local_start then Some (None, 0)
      else window_loop cfg duration step local_start local_end
             (snap_to_step cfg (max local_start (align_preferred cfg local_start)) step) 0)"

text \<open>The scan of \<open>union_busy\<close>; the first equation is also the code after a \<open>break\<close>.\<close>

fun gaps_loop ::
  "outlook_config \<Rightarrow> instant \<Rightarrow> timedelta \<Rightarrow> timedelta \<Rightarrow> interval list \<Rightarrow> instant \<Rightarrow> nat \<Rightarrow>
   (instant option \<times> nat) option" where
  "gaps_loop cfg search_end duration step [] window_start checked =
     (if window_start < search_end then
        Option.bind (first_valid_slot_in_window cfg window_start search_end duration step)
          (\<lambda>(slot, window_checked). Some (slot, checked + window_checked))
      else Some (None, checked))"
| "gaps_loop cfg search_end duration step ((busy_start, busy_end) # rest) window_start checked =
     (if busy_start > search_end then gaps_loop cfg search_end duration step [] window_start checked
      else if busy_start > window_start then
        Option.bind (first_valid_slot_in_window cfg window_start (min busy_start search_end) duration step)
          (\<lambda>(slot, window_checked).
             case slot of
               Some s \<Rightarrow> Some (Some s, checked + window_checked)
             | None \<Rightarrow> gaps_loop cfg search_end duration step rest
                 (snap_to_step cfg (max window_start busy_end) step) (checked + window_checked))
      else gaps_loop cfg search_end duration step rest
             (snap_to_step cfg (max window_start busy_end) step) checked)"

definition find_slot_via_busy_gaps ::
  "outlook_config \<Rightarrow> instant \<Rightarrow> instant \<Rightarrow> timedelta \<Rightarrow> timedelta \<Rightarrow> interval list \<Rightarrow>
   (instant option \<times> nat) option" where
  "find_slot_via_busy_gaps cfg earliest_allowed search_end duration step union_busy =
     gaps_loop cfg search_end duration step union_busy earliest_allowed 0"

section \<open>The grid of starts\<close>

text \<open>A step of \<open>m\<close> minutes with \<open>m\<close> dividing 60 puts the candidates on a grid of the wall clock.\<close>

definition grid_step :: "timedelta \<Rightarrow> bool" where
  "grid_step step \<longleftrightarrow> (\<exists>m > 0. 60 mod m = 0 \<and> step = m * MINUTE)"

definition on_grid :: "outlook_config \<Rightarrow> timedelta \<Rightarrow> instant \<Rightarrow> bool" where
  "on_grid cfg step x \<longleftrightarrow> local_wall cfg x mod step = 0"

lemma grid_stepE:
  assumes "grid_step step"
  obtains m where "0 < m" "60 mod m = 0" "step = m * MINUTE" "m \<le> 60"
  using assms zdvd_imp_le[of _ 60] by (fastforce simp: grid_step_def mod_0_imp_dvd)

lemma grid_step_bounds: "grid_step step \<Longrightarrow> MINUTE \<le> step \<and> step \<le> HOUR \<and> 0 < step"
  by (erule grid_stepE) (auto simp: time_units)

lemma on_grid_minute_aligned: "grid_step step \<Longrightarrow> on_grid cfg step x \<Longrightarrow> minute_aligned cfg x"
proof (erule grid_stepE)
  fix m assume "on_grid cfg step x" "step = m * MINUTE"
  then have "m * MINUTE dvd local_wall cfg x" by (auto simp: on_grid_def)
  then have "MINUTE dvd local_wall cfg x" using dvd_mult_right by blast
  then show ?thesis by (simp add: minute_aligned_def)
qed

lemma on_grid_add: "on_grid cfg step x \<Longrightarrow> on_grid cfg step (x + step)"
proof -
  have "local_wall cfg (x + step) = local_wall cfg x + step" by (simp add: local_wall_def)
  then show "on_grid cfg step x \<Longrightarrow> ?thesis" by (simp add: on_grid_def)
qed

lemma on_grid_gap:
  assumes "on_grid cfg step x" "on_grid cfg step y" "x < y" "0 < step"
  shows "x + step \<le> y"
proof -
  have "y - x = local_wall cfg y - local_wall cfg x" by (simp add: local_wall_def)
  with assms(1,2) have "step dvd y - x" by (simp add: on_grid_def dvd_eq_mod_eq_0[symmetric] dvd_diff)
  with assms(3) have "step \<le> y - x" by (intro zdvd_imp_le) auto
  then show ?thesis by simp
qed

lemma on_grid_hour:
  assumes "grid_step step" "HOUR dvd local_wall cfg x"
  shows "on_grid cfg step x"
proof -
  from assms(1) obtain m where m: "60 mod m = 0" "step = m * MINUTE" by (rule grid_stepE)
  have "m * MINUTE dvd 60 * MINUTE" using m(1) by (intro mult_dvd_mono) auto
  also have "60 * MINUTE = HOUR" by (simp add: time_units)
  finally show ?thesis using assms(2) m(2) by (auto simp: on_grid_def dvd_trans)
qed

lemma on_grid_opening:
  "grid_step step \<Longrightarrow> local_time cfg x = WORK_START \<Longrightarrow> on_grid cfg step x"
proof (rule on_grid_hour)
  assume "local_time cfg x = WORK_START"
  then have "local_wall cfg x = local_date cfg x * DAY + WORK_START"
    using div_mult_mod_eq[of "local_wall cfg x" DAY] by (simp add: local_date_def local_time_def)
  also have "\<dots> = (local_date cfg x * 24 + 8) * HOUR" by (simp add: WORK_START_def time_units)
  finally show "HOUR dvd local_wall cfg x" by simp
qed

text \<open>Snapping finds the first grid point that is not before the truncated instant.\<close>

lemma snap_to_step_least:
  assumes "grid_step step"
  shows "on_grid cfg step (snap_to_step cfg x step)"
    and "\<And>y. on_grid cfg step y \<Longrightarrow> trunc_minute cfg x \<le> y \<Longrightarrow> snap_to_step cfg x step \<le> y"
proof -
  from assms obtain m where m: "0 < m" "60 mod m = 0" "step = m * MINUTE" by (rule grid_stepE)
  let ?t = "trunc_minute cfg x"
  have sm: "max (step div MINUTE) 1 = m" using m by simp
  define q where "q = local_wall cfg ?t div MINUTE"
  have wall: "local_wall cfg ?t = q * MINUTE"
    using trunc_minute_aligned[of cfg x] by (auto simp: q_def minute_aligned_def)
  have "minute_of_hour cfg ?t mod m = q mod m"
    using m(2) by (simp add: minute_of_hour_def q_def mod_mod_cancel mod_0_imp_dvd)
  then have eq: "snap_to_step cfg x step = (if q mod m = 0 then ?t else ?t + (m - q mod m) * MINUTE)"
    by (simp add: snap_to_step_def Let_def sm)
  have wsnap: "local_wall cfg (snap_to_step cfg x step) =
      (if q mod m = 0 then q else m * (q div m + 1)) * MINUTE"
  proof -
    have "q + (m - q mod m) = m * (q div m + 1)"
      using mult_div_mod_eq[of m q] by (simp add: algebra_simps)
    then have "q * MINUTE + (m - q mod m) * MINUTE = m * (q div m + 1) * MINUTE"
      by (metis distrib_right)
    then show ?thesis using wall by (simp add: eq local_wall_def)
  qed
  then show g: "on_grid cfg step (snap_to_step cfg x step)"
    by (auto simp: on_grid_def m(3))
  fix y assume y: "on_grid cfg step y" "?t \<le> y"
  show "snap_to_step cfg x step \<le> y"
  proof (rule ccontr)
    assume "\<not> ?thesis"
    then have lt: "y < snap_to_step cfg x step" by simp
    have "step = MINUTE * m" by (simp add: m(3))
    have "snap_to_step cfg x step < ?t + step"
    proof (cases "q mod m = 0")
      case True
      have "0 < step" using m by simp
      then show ?thesis unfolding eq using True by simp
    next
      case False
      then have "0 < q mod m" using m(1) by (simp add: order_less_le)
      then have "(m - q mod m) * MINUTE < m * MINUTE" by simp
      then show ?thesis unfolding eq using False m(3) by simp
    qed
    moreover have "y + step \<le> snap_to_step cfg x step"
      using on_grid_gap[OF y(1) g lt] m by simp
    ultimately show False using y(2) by linarith
  qed
qed


section \<open>What the searches return\<close>

text \<open>
  A valid slot of a window: on the grid, inside the window, accepted by the rules, and meeting no
  busy instant.  \<open>least_such\<close> says that a search result is the least element with a property, and
  that a negative result means there is none.
\<close>

definition valid_slot ::
  "outlook_config \<Rightarrow> timedelta \<Rightarrow> timedelta \<Rightarrow> instant \<Rightarrow> instant \<Rightarrow> interval list \<Rightarrow> instant \<Rightarrow> bool" where
  "valid_slot cfg duration step lo hi busy s \<longleftrightarrow>
     on_grid cfg step s \<and> lo \<le> s \<and> s + duration \<le> hi \<and> slot_respects_rules cfg s duration \<and>
     {s..<s + duration} \<inter> covered busy = {}"

definition least_such :: "(instant \<Rightarrow> bool) \<Rightarrow> instant option \<Rightarrow> bool" where
  "least_such P r \<longleftrightarrow> (case r of None \<Rightarrow> \<forall>s. \<not> P s | Some s \<Rightarrow> P s \<and> (\<forall>y. P y \<longrightarrow> s \<le> y))"

lemma least_such_cong: "(\<And>y. P y \<longleftrightarrow> Q y) \<Longrightarrow> least_such P r = least_such Q r"
  by (rule arg_cong2[where f = least_such]) auto

text \<open>A candidate from which one more step stays on the same day.\<close>

definition good_candidate :: "outlook_config \<Rightarrow> timedelta \<Rightarrow> instant \<Rightarrow> bool" where
  "good_candidate cfg step c \<longleftrightarrow> on_grid cfg step c \<and> is_workday cfg c \<and> local_time cfg c < 18 * HOUR"

lemma good_candidate_step:
  assumes "good_candidate cfg step c" "grid_step step"
  shows "\<not> saturday_before_opening cfg (c + step)"
proof -
  obtain n t where c: "c = at_local cfg n t" "0 \<le> t" "t < DAY" by (rule at_local_exists)
  from grid_step_bounds[OF assms(2)] have st: "0 < step" "step \<le> HOUR" by auto
  have t: "0 \<le> t + step" "t + step < DAY"
    using assms(1) c st by (auto simp: good_candidate_def time_units)
  have "c + step = at_local cfg n (t + step)" using c by (simp add: at_local_add)
  moreover have "(n + 3) mod 7 < 5" using assms(1) c by (simp add: good_candidate_def is_workday_def)
  ultimately show ?thesis using t by (simp add: saturday_before_opening_def)
qed

text \<open>The contract of one advance: the next grid point at which the meeting fits a working day.\<close>

lemma advance_candidate_next:
  assumes "good_candidate cfg step c" "grid_step step" "0 < duration" "duration \<le> WORK_END - WORK_START"
  shows "\<exists>r. advance_candidate cfg c step duration = Some r \<and> c < r \<and> good_candidate cfg step r \<and>
    (\<forall>y. on_grid cfg step y \<and> c < y \<and> start_feasible cfg duration y \<longrightarrow> r \<le> y)"
proof -
  from grid_step_bounds[OF assms(2)] have st: "0 < step" by simp
  have g: "on_grid cfg step (c + step)" using assms(1) by (simp add: good_candidate_def on_grid_add)
  note ns = good_candidate_step[OF assms(1,2)]
  from advance_loop_least[OF assms(4) ns] obtain r where
    r: "advance_loop cfg duration (c + step) = Some r" "c + step \<le> r" "start_feasible cfg duration r"
      "\<forall>y. c + step \<le> y \<and> start_feasible cfg duration y \<longrightarrow> r \<le> y" by blast
  have "on_grid cfg step r"
  proof (cases "start_feasible cfg duration (c + step)")
    case True
    with r(1) g show ?thesis by (simp add: advance_loop_feasible)
  next
    case False
    have "r = combine cfg (c + step) WORK_START \<or> r = next_workday_start cfg (c + step)
        \<or> r = next_workday_start cfg (c + step - DAY)"
      using False r(1) assms(4) advance_loop_early[of cfg "c + step" duration]
        advance_loop_late[of cfg "c + step" duration] advance_loop_weekend[of cfg "c + step" duration]
      unfolding start_feasible_def by fastforce
    then have "local_time cfg r = WORK_START"
      by (auto simp: combine_opening next_workday_start_props)
    with assms(2) show ?thesis by (rule on_grid_opening)
  qed
  moreover have "local_time cfg r < 18 * HOUR"
    using r(3) assms(3) by (auto simp: start_feasible_def WORK_END_def time_units)
  moreover have "\<forall>y. on_grid cfg step y \<and> c < y \<and> start_feasible cfg duration y \<longrightarrow> r \<le> y"
    using r(4) on_grid_gap[OF _ _ _ st] assms(1) by (auto simp: good_candidate_def)
  ultimately show ?thesis
    using r st by (auto simp: advance_candidate_def good_candidate_def start_feasible_def)
qed

lemma valid_slot_feasible:
  "valid_slot cfg duration step lo hi busy s \<Longrightarrow> 0 \<le> duration \<Longrightarrow> start_feasible cfg duration s"
  by (simp add: valid_slot_def slot_respects_rules_iff)

lemma window_loop_least:
  assumes "grid_step step" "0 < duration" "duration \<le> WORK_END - WORK_START"
    and "good_candidate cfg step c" "lo \<le> c"
  shows "\<exists>r k. window_loop cfg duration step lo hi c checked = Some (r, k) \<and>
    least_such (\<lambda>s. c \<le> s \<and> valid_slot cfg duration step lo hi [] s) r"
  using assms(4,5)
proof (induction "nat (hi - c)" arbitrary: c checked rule: less_induct)
  case less
  note wl = window_loop.simps[of cfg duration step lo hi c checked]
  show ?case
  proof (cases "c < hi \<and> c + duration \<le> hi")
    case False
    then have "\<not> valid_slot cfg duration step lo hi [] s" if "c \<le> s" for s
      using that assms(2) by (auto simp: valid_slot_def)
    with False show ?thesis by (subst wl) (auto simp: least_such_def)
  next
    case True
    show ?thesis
    proof (cases "slot_respects_rules cfg c duration")
      case ok: True
      then have "valid_slot cfg duration step lo hi [] c"
        using True less.prems by (simp add: valid_slot_def good_candidate_def)
      with True ok less.prems(2) show ?thesis by (subst wl) (auto simp: least_such_def)
    next
      case no: False
      from advance_candidate_next[OF less.prems(1) assms(1-3)] obtain r where
        r: "advance_candidate cfg c step duration = Some r" "c < r" "good_candidate cfg step r"
          "\<forall>y. on_grid cfg step y \<and> c < y \<and> start_feasible cfg duration y \<longrightarrow> r \<le> y" by blast
      have "nat (hi - r) < nat (hi - c)" using r(2) True by linarith
      moreover have "lo \<le> r" using r(2) less.prems(2) by simp
      ultimately obtain r' k' where
        r': "window_loop cfg duration step lo hi r (checked + 1) = Some (r', k')"
          "least_such (\<lambda>s. r \<le> s \<and> valid_slot cfg duration step lo hi [] s) r'"
        using less.hyps[of r "checked + 1"] r(3) by blast
      have "c \<le> s \<and> valid_slot cfg duration step lo hi [] s \<longleftrightarrow>
          r \<le> s \<and> valid_slot cfg duration step lo hi [] s" for s
      proof -
        have "r \<le> s" if "c \<le> s" "valid_slot cfg duration step lo hi [] s"
        proof -
          have "s \<noteq> c" using that no by (auto simp: valid_slot_def)
          with that r(4) valid_slot_feasible[OF that(2)] assms(2) show ?thesis
            by (auto simp: valid_slot_def)
        qed
        then show ?thesis using r(2) by auto
      qed
      with r'(2) have "least_such (\<lambda>s. c \<le> s \<and> valid_slot cfg duration step lo hi [] s) r'"
        by (simp add: least_such_def)
      with r' r True no less.prems(2) show ?thesis by (subst wl) auto
    qed
  qed
qed

lemma feasible_minute:
  assumes "start_feasible cfg duration y" "0 < duration" "minute_aligned cfg y"
  shows "start_feasible cfg MINUTE y"
proof -
  have "local_time cfg y mod MINUTE = 0"
  proof -
    have "MINUTE dvd DAY" by (simp add: time_units)
    then have "local_time cfg y mod MINUTE = local_wall cfg y mod MINUTE"
      by (simp add: local_time_def mod_mod_cancel)
    then show ?thesis using assms(3) by (simp add: minute_aligned_def)
  qed
  then obtain k where k: "local_time cfg y = k * MINUTE" by (metis mod_0_imp_dvd dvdE mult.commute)
  have we: "WORK_END = 1020 * MINUTE" by (simp add: WORK_END_def time_units)
  have "local_time cfg y < WORK_END" using assms(1,2) by (auto simp: start_feasible_def)
  then have "k + 1 \<le> 1020" unfolding k we by simp
  then have "(k + 1) * MINUTE \<le> 1020 * MINUTE" by (rule mult_right_mono) simp
  then have "local_time cfg y + MINUTE \<le> WORK_END" by (simp add: k we distrib_right)
  then show ?thesis using assms(1) by (simp add: start_feasible_def)
qed

lemma first_candidate_good:
  assumes "grid_step step" "minute_aligned cfg lo"
  defines "c \<equiv> snap_to_step cfg (max lo (align_preferred cfg lo)) step"
  shows "good_candidate cfg step c" "lo \<le> c"
    and "\<And>y d. on_grid cfg step y \<Longrightarrow> lo \<le> y \<Longrightarrow> 0 < d \<Longrightarrow> start_feasible cfg d y \<Longrightarrow> c \<le> y"
proof -
  let ?a = "align_preferred cfg lo"
  have tl: "trunc_minute cfg lo = lo" using assms(2) by simp
  note al = align_preferred_least[of cfg lo, unfolded tl]
  have m: "max lo ?a = ?a" using al(1) by simp
  have ta: "trunc_minute cfg ?a = ?a" using al(3) by simp
  note sn = snap_to_step_least[OF assms(1), where cfg = cfg and x = ?a, unfolded ta]
  from grid_step_bounds[OF assms(1)] have st: "MINUTE \<le> step" "step \<le> HOUR" "0 \<le> step" by auto
  have ca: "c = snap_to_step cfg ?a step" by (simp add: c_def m)
  have d: "?a \<le> c" "c < ?a + step"
    using snap_to_step_props[of step cfg ?a] st ta by (auto simp: ca)
  obtain n t where a: "?a = at_local cfg n t" "0 \<le> t" "t < DAY" by (rule at_local_exists)
  from al(2) a have t: "t + MINUTE \<le> WORK_END" and wd: "(n + 3) mod 7 < 5"
    by (auto simp: start_feasible_def is_workday_def)
  define u where "u = t + (c - ?a)"
  have u: "c = at_local cfg n u" using a by (simp add: u_def at_local_def)
  have ub: "0 \<le> u" "u < 18 * HOUR" "u < DAY"
    using d t st a by (auto simp: u_def WORK_END_def time_units)
  with u wd sn(1) show "good_candidate cfg step c"
    by (simp add: good_candidate_def is_workday_def ca)
  show "lo \<le> c" using d al(1) by simp
  fix y d assume y: "on_grid cfg step y" "lo \<le> y" "0 < d" "start_feasible cfg d y"
  then have "start_feasible cfg MINUTE y"
    using feasible_minute on_grid_minute_aligned[OF assms(1)] by blast
  then have "?a \<le> y" using al(4) y(2) by blast
  then show "c \<le> y" using sn(2) y(1) by (simp add: ca)
qed

lemma first_valid_slot_least:
  assumes "grid_step step" "0 < duration" "duration \<le> WORK_END - WORK_START" "minute_aligned cfg lo"
  shows "\<exists>r k. first_valid_slot_in_window cfg lo hi duration step = Some (r, k) \<and>
    least_such (valid_slot cfg duration step lo hi []) r"
proof (cases "hi \<le> lo")
  case True
  with assms(2) show ?thesis
    by (auto simp: first_valid_slot_in_window_def least_such_def valid_slot_def)
next
  case False
  let ?c = "snap_to_step cfg (max lo (align_preferred cfg lo)) step"
  note fc = first_candidate_good[OF assms(1,4)]
  from window_loop_least[OF assms(1-3) fc(1,2)] obtain r k where
    r: "window_loop cfg duration step lo hi ?c 0 = Some (r, k)"
      "least_such (\<lambda>s. ?c \<le> s \<and> valid_slot cfg duration step lo hi [] s) r" by blast
  have "?c \<le> s" if "valid_slot cfg duration step lo hi [] s" for s
    using fc(3)[of s duration] valid_slot_feasible[OF that] assms(2) that by (auto simp: valid_slot_def)
  then have "?c \<le> s \<and> valid_slot cfg duration step lo hi [] s \<longleftrightarrow> valid_slot cfg duration step lo hi [] s" for s
    by auto
  with r False show ?thesis by (simp add: first_valid_slot_in_window_def)
qed


text \<open>
  The scan of the gaps.  It starts a window at \<open>ws\<close> with everything up to \<open>ws\<close> already decided:
  no valid slot begins before \<open>ws\<close>, and the blocks still to come are separated and end on whole
  minutes.
\<close>

lemma valid_slot_split:
  assumes "0 < duration" "separated ((a, b) # rest)"
  shows "valid_slot cfg duration step ws hi ((a, b) # rest) s \<longleftrightarrow>
    valid_slot cfg duration step ws (min a hi) [] s \<or> (b \<le> s \<and> valid_slot cfg duration step ws hi rest s)"
proof -
  have ab: "a < b" using assms(2) by (rule separated_hd_less)
  have "{s..<s + duration} \<inter> covered ((a, b) # rest) = {} \<longleftrightarrow>
      s + duration \<le> a \<or> (b \<le> s \<and> {s..<s + duration} \<inter> covered rest = {})"
  proof
    assume d: "{s..<s + duration} \<inter> covered ((a, b) # rest) = {}"
    have "s + duration \<le> a \<or> b \<le> s"
    proof (rule ccontr)
      assume "\<not> ?thesis"
      then have "max s a \<in> {s..<s + duration} \<inter> covered ((a, b) # rest)" using ab assms(1) by auto
      with d show False by blast
    qed
    with d show "s + duration \<le> a \<or> (b \<le> s \<and> {s..<s + duration} \<inter> covered rest = {})" by auto
  next
    assume r: "s + duration \<le> a \<or> (b \<le> s \<and> {s..<s + duration} \<inter> covered rest = {})"
    then show "{s..<s + duration} \<inter> covered ((a, b) # rest) = {}"
    proof
      assume "s + duration \<le> a"
      then show ?thesis using separated_covered_gt[OF assms(2)] ab by fastforce
    qed auto
  qed
  then show ?thesis by (auto simp: valid_slot_def)
qed

lemma gaps_loop_least:
  assumes "grid_step step" "0 < duration" "duration \<le> WORK_END - WORK_START"
    and "separated busy" "\<forall>i \<in> set busy. minute_aligned cfg (snd i)" "minute_aligned cfg ws"
  shows "\<exists>r k. gaps_loop cfg hi duration step busy ws checked = Some (r, k) \<and>
    least_such (valid_slot cfg duration step ws hi busy) r"
  using assms(4-6)
proof (induction busy arbitrary: ws checked)
  case Nil
  show ?case
  proof (cases "ws < hi")
    case True
    with first_valid_slot_least[OF assms(1-3) Nil(3), of hi] show ?thesis by auto
  next
    case False
    with assms(2) show ?thesis by (auto simp: least_such_def valid_slot_def)
  qed
next
  case (Cons i rest)
  obtain a b where i: "i = (a, b)" by fastforce
  note sep = Cons.prems(1)[unfolded i]
  let ?ws = "snap_to_step cfg (max ws b) step"
  let ?V = "valid_slot cfg duration step"
  have al: "minute_aligned cfg (max ws b)" using Cons.prems(2,3) i by (simp add: max_def)
  have "0 \<le> step" using grid_step_bounds[OF assms(1)] by simp
  from snap_to_step_props(1,2)[OF this, of cfg "max ws b"] al
  have sn: "max ws b \<le> ?ws" "minute_aligned cfg ?ws" by auto
  have rest: "b \<le> s \<and> ?V ws hi rest s \<longleftrightarrow> ?V ?ws hi rest s" for s
  proof -
    have "?ws \<le> s" if "b \<le> s" "?V ws hi rest s"
      using snap_to_step_least(2)[OF assms(1), of cfg s "max ws b"] that al
      by (simp add: valid_slot_def)
    then show ?thesis using sn(1) by (auto simp: valid_slot_def)
  qed
  have split: "?V ws hi ((a, b) # rest) s \<longleftrightarrow> ?V ws (min a hi) [] s \<or> ?V ?ws hi rest s" for s
    unfolding valid_slot_split[OF assms(2) sep] rest ..
  have IH: "\<exists>r k. gaps_loop cfg hi duration step rest ?ws n = Some (r, k) \<and>
      least_such (?V ?ws hi rest) r" for n
    using Cons.IH[of ?ws n] Cons.prems separated_tl[OF Cons.prems(1)] sn(2) by simp
  consider "hi < a" | "a \<le> hi" "ws < a" | "a \<le> hi" "a \<le> ws" by linarith
  then show ?case
  proof cases
    case 1
    have nr: "\<not> ?V ?ws hi rest s" for s
      using sn(1) 1 separated_hd_less[OF sep] assms(2) by (auto simp: valid_slot_def)
    have "?V ws hi ((a, b) # rest) s \<longleftrightarrow> ?V ws hi [] s" for s
      unfolding split using nr[of s] 1 by (simp add: min_def)
    then have vv: "?V ws hi ((a, b) # rest) = ?V ws hi []" by blast
    have "\<exists>r k. gaps_loop cfg hi duration step [] ws checked = Some (r, k) \<and>
      least_such (?V ws hi []) r"
    proof (cases "ws < hi")
      case True
      with first_valid_slot_least[OF assms(1-3) Cons.prems(3), of hi] show ?thesis by auto
    next
      case False
      with assms(2) show ?thesis by (auto simp: least_such_def valid_slot_def)
    qed
    then show ?thesis unfolding i vv using 1 by (simp only: gaps_loop.simps(2) if_True)
  next
    case 2
    from first_valid_slot_least[OF assms(1-3) Cons.prems(3), of "min a hi"] obtain r k where
      r: "first_valid_slot_in_window cfg ws (min a hi) duration step = Some (r, k)"
        "least_such (?V ws (min a hi) []) r" by blast
    show ?thesis
    proof (cases r)
      case None
      with r(2) have no: "\<not> ?V ws (min a hi) [] s" for s by (simp add: least_such_def)
      then have "?V ws hi ((a, b) # rest) = ?V ?ws hi rest" unfolding split by blast
      with IH[of "checked + k"] r(1) None 2 show ?thesis by (auto simp: i)
    next
      case (Some s)
      have "s \<le> y" if "?V ?ws hi rest y" for y
      proof -
        from r(2) Some have "s + duration \<le> a" by (simp add: least_such_def valid_slot_def)
        moreover from that sn(1) separated_hd_less[OF sep] have "a \<le> y" by (simp add: valid_slot_def)
        ultimately show ?thesis using assms(2) by linarith
      qed
      with r(2) Some have "least_such (?V ws hi ((a, b) # rest)) r"
        unfolding split by (auto simp: least_such_def)
      with r(1) Some 2 show ?thesis by (auto simp: i)
    qed
  next
    case 3
    have no: "\<not> ?V ws (min a hi) [] s" for s
      using 3 assms(2) by (auto simp: valid_slot_def)
    then have "?V ws hi ((a, b) # rest) = ?V ?ws hi rest" unfolding split by blast
    with IH[of checked] 3 show ?thesis by (auto simp: i)
  qed
qed


section \<open>The candidate generator\<close>

lemma advance_candidate_day:
  assumes "is_workday cfg c" "local_time cfg c < 18 * HOUR" "0 < step" "step \<le> HOUR"
    and "0 < duration" "duration \<le> WORK_END - WORK_START"
  shows "\<exists>r. advance_candidate cfg c step duration = Some r \<and> c < r \<and> is_workday cfg r \<and>
    local_time cfg r < 18 * HOUR"
proof -
  obtain n t where c: "c = at_local cfg n t" "0 \<le> t" "t < DAY" by (rule at_local_exists)
  have t: "0 \<le> t + step" "t + step < DAY" using assms c by (auto simp: time_units)
  have "\<not> saturday_before_opening cfg (c + step)"
    using c t assms(1) by (auto simp: saturday_before_opening_def is_workday_def at_local_add)
  from advance_loop_least[OF assms(6) this] obtain r where
    "advance_loop cfg duration (c + step) = Some r" "c + step \<le> r" "start_feasible cfg duration r"
    by blast
  then show ?thesis using assms(3,5)
    by (auto simp: advance_candidate_def start_feasible_def WORK_END_def time_units)
qed

definition proper_candidates ::
  "outlook_config \<Rightarrow> timedelta \<Rightarrow> instant \<Rightarrow> instant \<Rightarrow> instant list \<Rightarrow> bool" where
  "proper_candidates cfg duration lo hi xs \<longleftrightarrow> sorted_wrt (<) xs \<and>
     (\<forall>x \<in> set xs. lo \<le> x \<and> x < hi \<and> slot_respects_rules cfg x duration)"

lemma candidates_loop_proper:
  assumes "0 < step" "step \<le> HOUR" "0 < duration" "duration \<le> WORK_END - WORK_START"
    and "is_workday cfg c" "local_time cfg c < 18 * HOUR"
  shows "\<exists>xs. candidates_loop cfg duration step hi limit n c = Some xs \<and>
    proper_candidates cfg duration c hi xs \<and> int (length xs) \<le> max 0 (limit - n)"
  using assms(5,6)
proof (induction "nat (hi - c)" arbitrary: c n rule: less_induct)
  case less
  note cl = candidates_loop.simps[of cfg duration step hi limit n c]
  show ?case
  proof (cases "c < hi \<and> n < limit")
    case False
    then show ?thesis by (subst cl) (auto simp: proper_candidates_def)
  next
    case True
    from advance_candidate_day[OF less.prems assms(1-4)] obtain r where
      r: "advance_candidate cfg c step duration = Some r" "c < r" "is_workday cfg r"
        "local_time cfg r < 18 * HOUR" by blast
    have "nat (hi - r) < nat (hi - c)" using r(2) True by linarith
    from less.hyps[OF this r(3,4)] obtain xs where
      xs: "candidates_loop cfg duration step hi limit (if slot_respects_rules cfg c duration then n + 1 else n) r
          = Some xs" "proper_candidates cfg duration r hi xs"
        "int (length xs) \<le> max 0 (limit - (if slot_respects_rules cfg c duration then n + 1 else n))"
      by blast
    have pc: "proper_candidates cfg duration c hi xs" "\<forall>x \<in> set xs. c < x"
      using xs(2) r(2) by (auto simp: proper_candidates_def)
    show ?thesis
    proof (cases "slot_respects_rules cfg c duration")
      case ok: True
      with pc True have "proper_candidates cfg duration c hi (c # xs)"
        by (auto simp: proper_candidates_def)
      with xs r True ok show ?thesis by (subst cl) auto
    next
      case no: False
      with xs pc r True show ?thesis by (subst cl) auto
    qed
  qed
qed

lemma iterate_slot_candidates_proper:
  assumes "0 < step" "step \<le> HOUR" "0 < duration" "duration \<le> WORK_END - WORK_START"
    and "minute_aligned cfg lo"
  shows "\<exists>xs. iterate_slot_candidates cfg lo hi duration step = Some xs \<and>
    proper_candidates cfg duration lo hi xs"
proof -
  have tl: "trunc_minute cfg lo = lo" using assms(5) by simp
  note al = align_preferred_least[of cfg lo, unfolded tl]
  let ?c = "align_preferred cfg lo"
  have m: "max lo ?c = ?c" using al(1) by simp
  have "is_workday cfg ?c" "local_time cfg ?c < 18 * HOUR"
    using al(2) by (auto simp: start_feasible_def WORK_END_def time_units)
  from candidates_loop_proper[OF assms(1-4) this] obtain xs where
    xs: "candidates_loop cfg duration step hi
        (max 1000 ((hi - lo) div max step MINUTE + 50)) 0 ?c = Some xs"
      "proper_candidates cfg duration ?c hi xs" by blast
  then have "proper_candidates cfg duration lo hi xs"
    using al(1) by (auto simp: proper_candidates_def)
  with xs m show ?thesis by (simp add: iterate_slot_candidates_def)
qed

section \<open>Properties\<close>



text \<open>
  The candidate generator terminates and yields strictly increasing starts inside the search
  range, each accepted by the working-hours and lunch rules.
\<close>

lemma iterate_slot_candidates_ok:
  assumes "0 < step" "step \<le> HOUR" "0 < duration" "duration \<le> WORK_END - WORK_START"
    and "minute_aligned cfg lo"
  shows "\<exists>xs. iterate_slot_candidates cfg lo hi duration step = Some xs \<and> sorted_wrt (<) xs \<and>
    (\<forall>x \<in> set xs. lo \<le> x \<and> x < hi \<and> slot_respects_rules cfg x duration)"
  using iterate_slot_candidates_proper[OF assms] by (simp add: proper_candidates_def)

end
