(* ===== verification/Slot_Cache.thy ===== *)
theory Slot_Cache
  imports Slot_Intervals Py_Strings
begin

text \<open>
  The availability cache (\<open>app/services/slot_availability_cache.py\<close>): the snapshot of a search as a
  payload, its parser, the trim to the reuse window, and the TTL store.

  A payload is the JSON object of \<open>serialize_busy_snapshot\<close>.  Its time texts are \<open>iso_text\<close>: missing
  or empty, a text \<open>datetime.fromisoformat\<close> reads (represented by the instant it denotes), or one it
  rejects.  The process-wide \<open>_entries\<close> is the state; the clock and \<open>uuid4\<close> are arguments.
\<close>

section \<open>Snapshots and payloads\<close>

record availability_snapshot =
  snap_memo_ref_key :: string
  snap_attendee_emails :: "string list"
  snap_window_start :: instant
  snap_window_end :: instant
  snap_busy :: "(string, interval list) dict"

datatype iso_text = No_Time | Iso instant | Bad_Time

datatype busy_item = Not_An_Object | Busy_Item iso_text iso_text

text \<open>\<open>raw_busy\<close> holds \<open>None\<close> for a value that is not a list; \<open>raw_emails\<close> is \<open>None\<close> for a value that
  is missing or not a list.\<close>

record snapshot_payload =
  raw_key :: "string option"
  raw_emails :: "string list option"
  raw_window_start :: iso_text
  raw_window_end :: iso_text
  raw_busy :: "(string, busy_item list option) dict"

definition busy_items :: "interval list \<Rightarrow> busy_item list" where
  "busy_items xs = map (\<lambda>(start, stop). Busy_Item (Iso start) (Iso stop)) xs"

definition norm_emails :: "string list \<Rightarrow> string list" where
  "norm_emails es = map norm_email (filter (\<lambda>e. py_strip e \<noteq> []) es)"

definition serialize_busy_snapshot ::
  "string \<Rightarrow> string list \<Rightarrow> instant \<Rightarrow> instant \<Rightarrow> (string, interval list) dict \<Rightarrow> snapshot_payload" where
  "serialize_busy_snapshot key emails window_start window_end busy =
     \<lparr>raw_key = Some (norm_email key), raw_emails = Some (norm_emails emails),
      raw_window_start = Iso window_start, raw_window_end = Iso window_end,
      raw_busy = map (\<lambda>(email, xs). (email, Some (busy_items xs))) busy\<rparr>"

fun parse_busy_items :: "busy_item list \<Rightarrow> interval list" where
  "parse_busy_items [] = []"
| "parse_busy_items (Busy_Item (Iso start) (Iso stop) # items) = (start, stop) # parse_busy_items items"
| "parse_busy_items (_ # items) = parse_busy_items items"

fun parse_busy ::
  "(string, busy_item list option) dict \<Rightarrow> (string, interval list) dict \<Rightarrow> (string, interval list) dict" where
  "parse_busy [] acc = acc"
| "parse_busy ((email, None) # d) acc = parse_busy d acc"
| "parse_busy ((email, Some items) # d) acc =
     parse_busy d (dict_set (norm_email email) (parse_busy_items items) acc)"

definition snapshot_from_payload :: "snapshot_payload \<Rightarrow> availability_snapshot option" where
  "snapshot_from_payload p =
     (case (raw_window_start p, raw_window_end p) of
        (Iso window_start, Iso window_end) \<Rightarrow>
          (let busy = parse_busy (raw_busy p) [];
               emails = (case raw_emails p of None \<Rightarrow> [] | Some es \<Rightarrow> es);
               key = norm_email (opt_str (raw_key p))
           in if key = [] then None
              else Some \<lparr>snap_memo_ref_key = key, snap_attendee_emails = norm_emails emails,
                         snap_window_start = window_start, snap_window_end = window_end,
                         snap_busy = busy\<rparr>)
      | _ \<Rightarrow> None)"

section \<open>Trim\<close>

definition SLOT_AVAILABILITY_CACHE_WINDOW_DAYS :: int where
  "SLOT_AVAILABILITY_CACHE_WINDOW_DAYS = 7"

definition SLOT_AVAILABILITY_CACHE_TTL_MINUTES :: int where
  "SLOT_AVAILABILITY_CACHE_TTL_MINUTES = 10"

definition trim_snapshot_for_cache :: "snapshot_payload \<Rightarrow> int \<Rightarrow> snapshot_payload" where
  "trim_snapshot_for_cache payload max_window_days =
     (case snapshot_from_payload payload of
        None \<Rightarrow> payload
      | Some s \<Rightarrow>
          (let capped_end = snap_window_start s + max 1 max_window_days * DAY
           in if snap_window_end s \<le> capped_end then payload
              else serialize_busy_snapshot (snap_memo_ref_key s) (snap_attendee_emails s)
                     (snap_window_start s) capped_end
                     (map (\<lambda>(email, xs). (email, filter (\<lambda>(start, stop).
                        start < capped_end \<and> stop > snap_window_start s) xs)) (snap_busy s))))"

definition slot_within_snapshot_window :: "availability_snapshot \<Rightarrow> instant \<Rightarrow> instant \<Rightarrow> bool" where
  "slot_within_snapshot_window s slot_start slot_end \<longleftrightarrow>
     snap_window_start s \<le> slot_start \<and> slot_end \<le> snap_window_end s"

section \<open>The store\<close>

type_synonym cache_entries = "(string, instant \<times> availability_snapshot) dict"

definition CACHE_TTL :: timedelta where
  "CACHE_TTL = SLOT_AVAILABILITY_CACHE_TTL_MINUTES * MINUTE"

definition purge_expired :: "instant \<Rightarrow> cache_entries \<Rightarrow> cache_entries" where
  "purge_expired now entries = filter (\<lambda>(_, stored_at, _). \<not> now - stored_at > CACHE_TTL) entries"

definition store_availability_snapshot ::
  "instant \<Rightarrow> string \<Rightarrow> snapshot_payload \<Rightarrow> cache_entries \<Rightarrow> string option \<times> cache_entries" where
  "store_availability_snapshot now cache_id payload entries =
     (case snapshot_from_payload payload of
        None \<Rightarrow> (None, entries)
      | Some s \<Rightarrow> (Some cache_id, dict_set cache_id (now, s) (purge_expired now entries)))"

definition get_availability_snapshot ::
  "instant \<Rightarrow> string option \<Rightarrow> cache_entries \<Rightarrow> availability_snapshot option \<times> cache_entries" where
  "get_availability_snapshot now cache_id entries =
     (if py_strip (opt_str cache_id) = [] then (None, entries)
      else (let entries = purge_expired now entries
            in (map_option snd (dict_get entries (py_strip (opt_str cache_id))), entries)))"

section \<open>Round trip\<close>

definition normal_snapshot :: "availability_snapshot \<Rightarrow> bool" where
  "normal_snapshot s \<longleftrightarrow>
     snap_memo_ref_key s \<noteq> [] \<and> norm_email (snap_memo_ref_key s) = snap_memo_ref_key s \<and>
     (\<forall>e \<in> set (snap_attendee_emails s). e \<noteq> [] \<and> norm_email e = e) \<and>
     distinct (dict_keys (snap_busy s)) \<and> (\<forall>e \<in> set (dict_keys (snap_busy s)). norm_email e = e)"

definition snapshot_payload_of :: "availability_snapshot \<Rightarrow> snapshot_payload" where
  "snapshot_payload_of s = serialize_busy_snapshot (snap_memo_ref_key s) (snap_attendee_emails s)
     (snap_window_start s) (snap_window_end s) (snap_busy s)"

lemma parse_busy_items_serialized [simp]: "parse_busy_items (busy_items xs) = xs"
  by (induction xs) (auto simp: busy_items_def)

lemma norm_emails_id: "\<forall>e \<in> set es. e \<noteq> [] \<and> norm_email e = e \<Longrightarrow> norm_emails es = es"
proof -
  assume a: "\<forall>e \<in> set es. e \<noteq> [] \<and> norm_email e = e"
  have "py_strip e \<noteq> []" if "e \<in> set es" for e
    using a that norm_email_empty[of e] by fastforce
  then have "filter (\<lambda>e. py_strip e \<noteq> []) es = es" by (simp add: filter_id_conv)
  then show ?thesis using a by (simp add: norm_emails_def map_idI)
qed

lemma norm_emails_normal: "e \<in> set (norm_emails es) \<Longrightarrow> e \<noteq> [] \<and> norm_email e = e"
  by (auto simp: norm_emails_def norm_email_empty)

lemma parse_busy_normal:
  assumes "distinct (dict_keys acc)" "\<forall>e \<in> set (dict_keys acc). norm_email e = e"
  shows "distinct (dict_keys (parse_busy d acc)) \<and> (\<forall>e \<in> set (dict_keys (parse_busy d acc)). norm_email e = e)"
  using assms
proof (induction d acc rule: parse_busy.induct)
  case (3 email items d acc)
  let ?acc = "dict_set (norm_email email) (parse_busy_items items) acc"
  have "set (dict_keys ?acc) = insert (norm_email email) (set (dict_keys acc))"
    unfolding dict_keys_set by auto
  then have "\<forall>e \<in> set (dict_keys ?acc). norm_email e = e" using 3(3) by (simp only: ball_simps) simp
  from 3(1)[OF distinct_dict_set[OF 3(2)] this] show ?case by simp
qed simp_all

lemma dict_set_fresh: "k \<notin> set (dict_keys d) \<Longrightarrow> dict_set k v d = d @ [(k, v)]"
  by (induction d) (auto simp: dict_set_def)

lemma parse_busy_serialized:
  assumes "distinct (dict_keys (acc @ d))" "\<forall>e \<in> set (dict_keys d). norm_email e = e"
  shows "parse_busy (map (\<lambda>(email, xs). (email, Some (busy_items xs))) d) acc = acc @ d"
  using assms
proof (induction d arbitrary: acc)
  case Nil
  then show ?case by simp
next
  case (Cons p d)
  obtain e xs where p: "p = (e, xs)" by (cases p)
  with Cons.prems have "e \<notin> set (dict_keys acc)" "norm_email e = e" by auto
  with p Cons.IH[of "acc @ [(e, xs)]"] Cons.prems show ?case by (simp add: dict_set_fresh)
qed

lemma snapshot_from_payload_normal: "snapshot_from_payload p = Some s \<Longrightarrow> normal_snapshot s"
  using parse_busy_normal[of "[]" "raw_busy p"]
  by (auto simp: snapshot_from_payload_def normal_snapshot_def Let_def dest: norm_emails_normal
      split: iso_text.splits if_splits)

lemma snapshot_round_trip_aux:
  "normal_snapshot s \<Longrightarrow> snapshot_from_payload (snapshot_payload_of s) = Some s"
  using parse_busy_serialized[of "[]" "snap_busy s"]
  by (simp add: snapshot_from_payload_def snapshot_payload_of_def serialize_busy_snapshot_def
      normal_snapshot_def norm_emails_id)

section \<open>Trim keeps the answers\<close>

text \<open>The trimmed snapshot as a snapshot.\<close>

definition trimmed :: "int \<Rightarrow> availability_snapshot \<Rightarrow> availability_snapshot" where
  "trimmed days s =
     (let capped_end = snap_window_start s + max 1 days * DAY
      in if snap_window_end s \<le> capped_end then s
         else s \<lparr>snap_window_end := capped_end,
                 snap_busy := map (\<lambda>(email, xs). (email, filter (\<lambda>(start, stop).
                    start < capped_end \<and> stop > snap_window_start s) xs)) (snap_busy s)\<rparr>)"

lemma dict_keys_map_values [simp]: "dict_keys (map (\<lambda>(k, v). (k, f v)) d) = dict_keys d"
  by (induction d) auto

lemma fst_map_values [simp]: "fst \<circ> (\<lambda>(k, v). (k, f v)) = fst"
  by auto

lemma dict_get_map_values: "dict_get (map (\<lambda>(k, v). (k, f v)) d) k = map_option f (dict_get d k)"
  by (simp add: dict_get_def map_of_map)

lemma trim_parses:
  assumes "snapshot_from_payload p = Some s"
  shows "snapshot_from_payload (trim_snapshot_for_cache p days) = Some (trimmed days s)"
proof -
  let ?c = "snap_window_start s + max 1 days * DAY"
  show ?thesis
  proof (cases "snap_window_end s \<le> ?c")
    case True
    with assms show ?thesis by (simp add: trim_snapshot_for_cache_def trimmed_def)
  next
    case False
    then have t: "trim_snapshot_for_cache p days = snapshot_payload_of (trimmed days s)"
      using assms by (simp add: trim_snapshot_for_cache_def trimmed_def snapshot_payload_of_def Let_def)
    have "normal_snapshot (trimmed days s)"
      using snapshot_from_payload_normal[OF assms] False
      by (auto simp: normal_snapshot_def trimmed_def Let_def)
    with t show ?thesis by (simp add: snapshot_round_trip_aux)
  qed
qed

lemma trimmed_answers:
  assumes "slot_within_snapshot_window (trimmed days s) a b"
  shows "free_of (dict_get_or (snap_busy (trimmed days s)) e []) a b \<longleftrightarrow>
    free_of (dict_get_or (snap_busy s) e []) a b"
proof -
  let ?c = "snap_window_start s + max 1 days * DAY"
  have "free_of (filter (\<lambda>(start, stop). start < ?c \<and> stop > snap_window_start s) xs) a b \<longleftrightarrow> free_of xs a b"
    if "snap_window_start s \<le> a" "b \<le> ?c" for xs
    using that by (induction xs) (auto simp: intervals_overlap_def)
  then show ?thesis using assms
    by (auto simp: trimmed_def slot_within_snapshot_window_def dict_get_or_def dict_get_map_values
        Let_def split: option.splits if_splits)
qed

section \<open>The store over time\<close>

text \<open>A history of operations with their clock readings.\<close>

datatype cache_op =
    Op_Store instant string snapshot_payload
  | Op_Get instant "string option"

fun cache_step :: "cache_op \<Rightarrow> cache_entries \<Rightarrow> cache_entries" where
  "cache_step (Op_Store now cache_id payload) entries =
     snd (store_availability_snapshot now cache_id payload entries)"
| "cache_step (Op_Get now cache_id) entries = snd (get_availability_snapshot now cache_id entries)"

fun op_time :: "cache_op \<Rightarrow> instant" where
  "op_time (Op_Store now cache_id payload) = now"
| "op_time (Op_Get now cache_id) = now"

definition run_cache :: "cache_op list \<Rightarrow> cache_entries" where
  "run_cache ops = fold cache_step ops []"

text \<open>What the history last stored under an id.\<close>

fun stored_by :: "string \<Rightarrow> cache_op \<Rightarrow> (instant \<times> availability_snapshot) option" where
  "stored_by i (Op_Store now cache_id payload) =
     (if cache_id = i then map_option (Pair now) (snapshot_from_payload payload) else None)"
| "stored_by i (Op_Get now cache_id) = None"

definition last_stored :: "string \<Rightarrow> cache_op list \<Rightarrow> (instant \<times> availability_snapshot) option" where
  "last_stored i ops = fold (\<lambda>c acc. case stored_by i c of None \<Rightarrow> acc | Some v \<Rightarrow> Some v) ops None"

lemma dict_get_filter:
  "distinct (dict_keys d) \<Longrightarrow>
   dict_get (filter P d) k = (case dict_get d k of None \<Rightarrow> None | Some v \<Rightarrow> if P (k, v) then Some v else None)"
  by (induction d) (auto simp: dict_get_def map_of_eq_None_iff split: option.splits)

lemma distinct_purge: "distinct (dict_keys d) \<Longrightarrow> distinct (dict_keys (purge_expired now d))"
  by (simp add: purge_expired_def distinct_map_filter)

lemma dict_get_purge:
  "distinct (dict_keys d) \<Longrightarrow> dict_get (purge_expired now d) i =
     (case dict_get d i of None \<Rightarrow> None | Some v \<Rightarrow> if now - fst v > CACHE_TTL then None else Some v)"
  by (auto simp: purge_expired_def dict_get_filter split: option.splits)

lemma distinct_cache_step: "distinct (dict_keys d) \<Longrightarrow> distinct (dict_keys (cache_step c d))"
  by (cases c) (auto simp: store_availability_snapshot_def get_availability_snapshot_def Let_def
      intro!: distinct_purge distinct_dict_set split: option.splits)

text \<open>
  The invariant: what a look-up at time \<open>t\<close> would see in the store is what the history stored last
  under the id, unless it has expired by \<open>t\<close>.
\<close>

definition live_at :: "instant \<Rightarrow> (instant \<times> availability_snapshot) option \<Rightarrow>
    (instant \<times> availability_snapshot) option" where
  "live_at t v = (case v of None \<Rightarrow> None | Some w \<Rightarrow> if t - fst w > CACHE_TTL then None else Some w)"

lemma run_cache_live:
  assumes "sorted (map op_time ops)" "\<forall>c \<in> set ops. op_time c \<le> t"
  shows "distinct (dict_keys (run_cache ops)) \<and>
    live_at t (dict_get (run_cache ops) i) = live_at t (last_stored i ops)"
  using assms
proof (induction ops arbitrary: t rule: rev_induct)
  case Nil
  then show ?case by (simp add: run_cache_def last_stored_def)
next
  case (snoc c ops)
  from snoc.prems have srt: "sorted (map op_time ops)" and t: "op_time c \<le> t" "\<forall>c \<in> set ops. op_time c \<le> t"
    by (auto simp: sorted_append)
  note IH = snoc.IH[OF srt t(2)]
  let ?d = "run_cache ops"
  have run: "run_cache (ops @ [c]) = cache_step c ?d" by (simp add: run_cache_def)
  have last: "last_stored i (ops @ [c]) =
      (case stored_by i c of None \<Rightarrow> last_stored i ops | Some v \<Rightarrow> Some v)"
    by (simp add: last_stored_def split: option.splits)
  have d: "distinct (dict_keys ?d)" using IH by simp
  have purge: "live_at t (dict_get (purge_expired now ?d) i) = live_at t (dict_get ?d i)" if "now \<le> t" for now
    using that d by (auto simp: live_at_def dict_get_purge split: option.splits)
  have "live_at t (dict_get (cache_step c ?d) i) =
      live_at t (case stored_by i c of None \<Rightarrow> last_stored i ops | Some v \<Rightarrow> Some v)"
  proof (cases c)
    case (Op_Store now j payload)
    then show ?thesis using IH purge[of now] t(1)
      by (cases "snapshot_from_payload payload") (auto simp: store_availability_snapshot_def)
  next
    case (Op_Get now j)
    then show ?thesis using IH purge[of now] t(1) by (simp add: get_availability_snapshot_def Let_def)
  qed
  then show ?case using d distinct_cache_step by (simp add: run last)
qed

lemma get_after_run:
  assumes "sorted (map op_time ops)" "\<forall>c \<in> set ops. op_time c \<le> now" "py_strip i = i" "i \<noteq> []"
  shows "fst (get_availability_snapshot now (Some i) (run_cache ops)) =
    map_option snd (live_at now (last_stored i ops))"
proof -
  from run_cache_live[OF assms(1,2), of i]
  have d: "distinct (dict_keys (run_cache ops))"
    and l: "live_at now (dict_get (run_cache ops) i) = live_at now (last_stored i ops)" by auto
  have "dict_get (purge_expired now (run_cache ops)) i = live_at now (dict_get (run_cache ops) i)"
    using d by (simp add: dict_get_purge live_at_def)
  then show ?thesis using assms(3,4) l by (simp add: get_availability_snapshot_def)
qed

section \<open>Properties\<close>


definition demo_snapshot :: availability_snapshot where
  "demo_snapshot = \<lparr>snap_memo_ref_key = ''m1'', snap_attendee_emails = [''a@x''],
     snap_window_start = 0, snap_window_end = 30 * DAY, snap_busy = [(''a@x'', [(HOUR, 2 * HOUR)])]\<rparr>"

lemma demo_snapshot_normal: "normal_snapshot demo_snapshot"
  by code_simp


text \<open>
  Trimming a payload to the reuse window keeps every answer it can still give: the trimmed
  payload parses, its window is the old one cut to the given number of days, and for every slot
  inside the new window and every attendee the busy intervals say free exactly when the old ones
  did.
\<close>

lemma trim_keeps_answers:
  assumes "snapshot_from_payload p = Some s"
  shows "\<exists>s'. snapshot_from_payload (trim_snapshot_for_cache p days) = Some s' \<and>
    snap_window_start s' = snap_window_start s \<and>
    snap_window_end s' = min (snap_window_end s) (snap_window_start s + max 1 days * DAY) \<and>
    (\<forall>a b e. slot_within_snapshot_window s' a b \<longrightarrow>
       slot_within_snapshot_window s a b \<and>
       (free_of (dict_get_or (snap_busy s') e []) a b \<longleftrightarrow> free_of (dict_get_or (snap_busy s) e []) a b))"
proof -
  have "slot_within_snapshot_window s a b" if "slot_within_snapshot_window (trimmed days s) a b" for a b
    using that by (auto simp: slot_within_snapshot_window_def trimmed_def Let_def split: if_splits)
  moreover have "snap_window_start (trimmed days s) = snap_window_start s"
    "snap_window_end (trimmed days s) = min (snap_window_end s) (snap_window_start s + max 1 days * DAY)"
    by (auto simp: trimmed_def Let_def)
  ultimately show ?thesis using trim_parses[OF assms, of days] trimmed_answers[of days s] by blast
qed

text \<open>
  C28: Over any history of store and get operations with non-decreasing clock readings, a look-up
  answers with the snapshot last stored under the id when at most the time to live has passed since,
  and with nothing otherwise: purging neither drops a live entry nor leaves a stale one visible.
\<close>

lemma cache_get_live:
  assumes "sorted (map op_time ops)" "\<forall>c \<in> set ops. op_time c \<le> now" "py_strip i = i" "i \<noteq> []"
  shows "fst (get_availability_snapshot now (Some i) (run_cache ops)) =
    (case last_stored i ops of
       None \<Rightarrow> None
     | Some (stored_at, s) \<Rightarrow> if now \<le> stored_at + 10 * MINUTE then Some s else None)"
  using get_after_run[OF assms]
  by (auto simp: live_at_def CACHE_TTL_def SLOT_AVAILABILITY_CACHE_TTL_MINUTES_def split: option.splits)

lemma cache_get_live_witness:
  "fst (get_availability_snapshot (5 * MINUTE) (Some ''id'')
     (run_cache [Op_Store 0 ''id'' (snapshot_payload_of demo_snapshot)])) = Some demo_snapshot"
proof -
  have s: "snapshot_from_payload (snapshot_payload_of demo_snapshot) = Some demo_snapshot"
    using demo_snapshot_normal by (rule snapshot_round_trip_aux)
  have i: "py_strip ''id'' = ''id''" by code_simp
  show ?thesis
    using cache_get_live[of "[Op_Store 0 ''id'' (snapshot_payload_of demo_snapshot)]" "5 * MINUTE" "''id''"] s i
    by (simp add: last_stored_def time_units)
qed

end
