(* ===== verification/Slot_Search.thy ===== *)
theory Slot_Search
  imports Slot_Iteration Slot_Cache
begin

text \<open>
  The searches over the busy intervals (\<open>app/tools/Outlook/slot_search/search.py\<close>, the fetch
  dispatcher of \<open>busy.py\<close>): search bounds, the nearest slot of each attendee, and the nearest
  common slot with its verification loop.  Exchange (free/busy views and owner calendars) and the
  clock are arguments.  \<open>None\<close> is "does not return", \<open>Inl\<close> a raised error.
\<close>

datatype availability_source = Freebusy | Calendar

datatype search_error =
    No_Attendees
  | Bad_Duration
  | Bad_Max_Days
  | Empty_Preferred_List
  | Slot_Not_Found
  | Fetch_Failed fetch_error

section \<open>Bounds\<close>

definition search_bounds_for_preferred ::
  "outlook_config \<Rightarrow> instant \<Rightarrow> instant \<Rightarrow> int \<Rightarrow> instant \<times> instant \<times> instant" where
  "search_bounds_for_preferred cfg now preferred max_days =
     (let requested = trunc_minute cfg preferred;
          search_start = align_preferred cfg requested;
          earliest_allowed = max (max requested search_start) (not_before_now cfg now);
          search_end = earliest_allowed + max_days * DAY
      in (requested, earliest_allowed, search_end))"

definition unify_search_bounds ::
  "outlook_config \<Rightarrow> instant \<Rightarrow> instant list \<Rightarrow> int \<Rightarrow> search_error + instant \<times> instant" where
  "unify_search_bounds cfg now preferred_list max_days =
     (case map (\<lambda>p. search_bounds_for_preferred cfg now p max_days) preferred_list of
        [] \<Rightarrow> Inl Empty_Preferred_List
      | b # bs \<Rightarrow> Inr (foldl min (fst (snd b)) (map (fst \<circ> snd) bs),
                     foldl max (snd (snd b)) (map (snd \<circ> snd) bs)))"

definition preview_freebusy_window ::
  "outlook_config \<Rightarrow> instant \<Rightarrow> instant option \<Rightarrow> instant option \<Rightarrow> int \<Rightarrow> instant \<times> instant" where
  "preview_freebusy_window cfg now planned_start attendee_search_start max_days =
     (let attendee_bounds = (case attendee_search_start of None \<Rightarrow> []
            | Some s \<Rightarrow> [snd (search_bounds_for_preferred cfg now s max_days)]);
          planned_bounds = (case planned_start of None \<Rightarrow> []
            | Some p \<Rightarrow> [snd (search_bounds_for_preferred cfg now p max_days),
                        (quorum_search_start cfg now p, quorum_search_start cfg now p + max_days * DAY)])
      in case attendee_bounds @ planned_bounds of
           [] \<Rightarrow> snd (search_bounds_for_preferred cfg now (not_before_now cfg now) max_days)
         | b # bs \<Rightarrow> (foldl min (fst b) (map fst bs), foldl max (snd b) (map snd bs)))"

section \<open>Busy time per attendee\<close>

text \<open>A dict comprehension with normalised keys: a later duplicate key overwrites.\<close>

fun clip_busy_loop ::
  "instant \<Rightarrow> instant \<Rightarrow> (string, interval list) dict \<Rightarrow> (string, interval list) dict \<Rightarrow>
   (string, interval list) dict" where
  "clip_busy_loop range_start range_end [] acc = acc"
| "clip_busy_loop range_start range_end ((email, intervals) # d) acc =
     clip_busy_loop range_start range_end d
       (dict_set (norm_email email)
          (coalesce_intervals (Some range_start) (Some range_end) intervals) acc)"

definition clip_busy_by_attendee_for_window ::
  "(string, interval list) dict \<Rightarrow> instant \<Rightarrow> instant \<Rightarrow> (string, interval list) dict" where
  "clip_busy_by_attendee_for_window busy range_start range_end = clip_busy_loop range_start range_end busy []"

definition lookup_busy_intervals :: "(string, interval list) dict \<Rightarrow> string \<Rightarrow> interval list" where
  "lookup_busy_intervals busy email =
     dict_get_or busy (norm_email email) (dict_get_or busy email [])"

text \<open>
  \<open>fetch_all_busy_intervals\<close>: free/busy for everybody at once, or the owner calendars one by one.
  The thread pool stores the results in completion order, an argument; a failing task's error is
  raised when its result is read.
\<close>

type_synonym owner_calendar = "string \<Rightarrow> instant \<Rightarrow> instant \<Rightarrow> fetch_error + calendar_item list"

fun calendar_intervals :: "calendar_item list \<Rightarrow> interval list" where
  "calendar_intervals [] = []"
| "calendar_intervals (item # items) =
     (case event_interval item of
        Some i \<Rightarrow> i # calendar_intervals items
      | None \<Rightarrow> calendar_intervals items)"

definition fetch_busy_intervals_calendar ::
  "owner_calendar \<Rightarrow> string \<Rightarrow> instant \<Rightarrow> instant \<Rightarrow> fetch_error + interval list" where
  "fetch_busy_intervals_calendar view email range_start range_end =
     (case view (py_strip email) range_start range_end of
        Inl e \<Rightarrow> Inl e
      | Inr items \<Rightarrow> Inr (calendar_intervals items))"

fun fetch_calendars ::
  "owner_calendar \<Rightarrow> instant \<Rightarrow> instant \<Rightarrow> string list \<Rightarrow> (string, interval list) dict \<Rightarrow>
   fetch_error + (string, interval list) dict" where
  "fetch_calendars view range_start range_end [] acc = Inr acc"
| "fetch_calendars view range_start range_end (email # es) acc =
     (case fetch_busy_intervals_calendar view email range_start range_end of
        Inl e \<Rightarrow> Inl e
      | Inr xs \<Rightarrow> fetch_calendars view range_start range_end es (dict_set email xs acc))"

definition fetch_all_busy_intervals ::
  "outlook_config \<Rightarrow> exchange \<Rightarrow> owner_calendar \<Rightarrow> (string list \<Rightarrow> string list) \<Rightarrow> availability_source \<Rightarrow>
   int \<Rightarrow> string list \<Rightarrow> instant \<Rightarrow> instant \<Rightarrow> fetch_error + (string, interval list) dict" where
  "fetch_all_busy_intervals cfg get_info view completion_order source workers attendees range_start range_end =
     (case source of
        Freebusy \<Rightarrow> fetch_busy_intervals_freebusy cfg get_info attendees range_start range_end
      | Calendar \<Rightarrow>
          (let worker_count = max 1 (min workers (int (length attendees)))
           in if worker_count = 1 \<or> length attendees = 1
              then fetch_calendars view range_start range_end attendees []
              else fetch_calendars view range_start range_end (completion_order attendees) []))"

section \<open>The nearest slot of each attendee\<close>

fun nearest_loop ::
  "outlook_config \<Rightarrow> instant \<Rightarrow> instant \<Rightarrow> timedelta \<Rightarrow> timedelta \<Rightarrow> (string, interval list) dict \<Rightarrow>
   string list \<Rightarrow> (string, interval option) dict \<Rightarrow> (string, interval option) dict option" where
  "nearest_loop cfg earliest search_end duration step busy [] acc = Some acc"
| "nearest_loop cfg earliest search_end duration step busy (email # es) acc =
     Option.bind
       (find_slot_via_busy_gaps cfg earliest search_end duration step
          (coalesce_intervals (Some earliest) (Some search_end) (lookup_busy_intervals busy email)))
       (\<lambda>(slot, _). nearest_loop cfg earliest search_end duration step busy es
          (dict_set email (case slot of None \<Rightarrow> None | Some s \<Rightarrow> Some (s, s + duration)) acc))"

definition find_nearest_slots_per_attendee ::
  "outlook_config \<Rightarrow> exchange \<Rightarrow> instant \<Rightarrow> string list \<Rightarrow> instant \<Rightarrow> timedelta \<Rightarrow> int \<Rightarrow> timedelta \<Rightarrow>
   (string, interval list) dict option \<Rightarrow> (search_error + (string, interval option) dict) option" where
  "find_nearest_slots_per_attendee cfg get_info now attendees preferred duration max_days step prefetched =
     (let attendee_list = filter (\<lambda>e. e \<noteq> []) (map py_strip attendees)
      in if attendee_list = [] then Some (Inr [])
         else if duration \<le> 0 then Some (Inl Bad_Duration)
         else if max_days < 1 then Some (Inl Bad_Max_Days)
         else case search_bounds_for_preferred cfg now preferred max_days of
           (requested, earliest, search_end) \<Rightarrow>
             (case (case prefetched of
                 Some busy \<Rightarrow> Inr (clip_busy_by_attendee_for_window busy earliest search_end)
               | None \<Rightarrow> fetch_busy_intervals_freebusy_events cfg get_info attendee_list earliest search_end) of
               Inl e \<Rightarrow> Some (Inl (Fetch_Failed e))
             | Inr busy \<Rightarrow> map_option Inr
                 (nearest_loop cfg earliest search_end duration step busy attendee_list [])))"

section \<open>The nearest common slot\<close>

record slot_search_result =
  res_preferred :: instant
  res_earliest_allowed :: instant
  res_slot_start :: instant
  res_slot_end :: instant
  res_duration_minutes :: int
  res_attendees :: "string list"
  res_checked_candidates :: nat
  res_search_until :: instant
  res_source :: availability_source
  res_snapshot :: snapshot_payload

definition slot_search_result ::
  "instant \<Rightarrow> instant \<Rightarrow> instant \<Rightarrow> timedelta \<Rightarrow> string list \<Rightarrow> nat \<Rightarrow> instant \<Rightarrow> availability_source \<Rightarrow>
   (string, interval list) dict \<Rightarrow> slot_search_result" where
  "slot_search_result requested earliest candidate duration attendees checked search_end source busy =
     \<lparr>res_preferred = requested, res_earliest_allowed = earliest, res_slot_start = candidate,
      res_slot_end = candidate + duration, res_duration_minutes = duration div MINUTE,
      res_attendees = attendees, res_checked_candidates = checked, res_search_until = search_end,
      res_source = source,
      res_snapshot = serialize_busy_snapshot [] attendees earliest search_end busy\<rparr>"

text \<open>
  The verification loop.  The first argument is \<open>max_calendar_verifications\<close> minus the attempts
  made; \<open>verify\<close> is the calendar check of one slot, \<open>skip_verify\<close> says that the slot is returned
  unverified.
\<close>

fun scan_slots ::
  "outlook_config \<Rightarrow> instant \<Rightarrow> instant \<Rightarrow> timedelta \<Rightarrow> timedelta \<Rightarrow> bool \<Rightarrow>
   (instant \<Rightarrow> fetch_error + bool) \<Rightarrow> nat \<Rightarrow> interval list \<Rightarrow> nat \<Rightarrow>
   (fetch_error + (instant \<times> nat) option) option" where
  "scan_slots cfg earliest search_end duration step skip_verify verify 0 union_busy checked = Some (Inr None)"
| "scan_slots cfg earliest search_end duration step skip_verify verify (Suc attempts) union_busy checked =
     Option.bind (find_slot_via_busy_gaps cfg earliest search_end duration step union_busy)
       (\<lambda>(slot, step_checked).
          case slot of
            None \<Rightarrow> Some (Inr None)
          | Some s \<Rightarrow>
              if s < earliest then
                scan_slots cfg earliest search_end duration step skip_verify verify attempts
                  (coalesce_intervals (Some earliest) (Some search_end) (union_busy @ [(s, s + duration)]))
                  (checked + step_checked)
              else if skip_verify then Some (Inr (Some (s, checked + step_checked)))
              else case verify s of
                Inl e \<Rightarrow> Some (Inl e)
              | Inr calendar_ok \<Rightarrow>
                  if calendar_ok then Some (Inr (Some (s, checked + step_checked)))
                  else scan_slots cfg earliest search_end duration step skip_verify verify attempts
                    (coalesce_intervals (Some earliest) (Some search_end) (union_busy @ [(s, s + duration)]))
                    (checked + step_checked))"

definition max_calendar_verifications :: "instant \<Rightarrow> instant \<Rightarrow> timedelta \<Rightarrow> nat" where
  "max_calendar_verifications earliest search_end step =
     nat (max 500 ((search_end - earliest) div max step MINUTE + 10))"

text \<open>The busy time the search starts from: the prefetched views clipped, or a fresh fetch.\<close>

definition busy_for_search ::
  "outlook_config \<Rightarrow> exchange \<Rightarrow> owner_calendar \<Rightarrow> (string list \<Rightarrow> string list) \<Rightarrow>
   availability_source \<Rightarrow> int \<Rightarrow> string list \<Rightarrow> (string, interval list) dict option \<Rightarrow>
   instant \<Rightarrow> instant \<Rightarrow> fetch_error + (string, interval list) dict" where
  "busy_for_search cfg get_info view completion_order source workers attendees prefetched earliest search_end =
     (case prefetched of
        Some busy \<Rightarrow>
          if source = Freebusy then Inr (clip_busy_by_attendee_for_window busy earliest search_end)
          else fetch_all_busy_intervals cfg get_info view completion_order source workers attendees
                 earliest search_end
      | None \<Rightarrow> fetch_all_busy_intervals cfg get_info view completion_order source workers attendees
                 earliest search_end)"

definition calendar_verdict ::
  "outlook_config \<Rightarrow> exchange \<Rightarrow> string list \<Rightarrow> timedelta \<Rightarrow> instant \<Rightarrow> fetch_error + bool" where
  "calendar_verdict cfg get_info attendees duration s =
     map_sum id fst (verify_slot_with_calendar cfg get_info attendees s duration)"

definition find_nearest_slot ::
  "outlook_config \<Rightarrow> exchange \<Rightarrow> owner_calendar \<Rightarrow> (string list \<Rightarrow> string list) \<Rightarrow> instant \<Rightarrow> string list \<Rightarrow>
   instant \<Rightarrow> timedelta \<Rightarrow> int \<Rightarrow> timedelta \<Rightarrow> availability_source \<Rightarrow> int \<Rightarrow> bool \<Rightarrow>
   (string, interval list) dict option \<Rightarrow> (search_error + slot_search_result) option" where
  "find_nearest_slot cfg get_info view completion_order now attendees preferred duration max_days step
       source workers verify_calendar prefetched =
     (if attendees = [] then Some (Inl No_Attendees)
      else if duration \<le> 0 then Some (Inl Bad_Duration)
      else if max_days < 1 then Some (Inl Bad_Max_Days)
      else case search_bounds_for_preferred cfg now preferred max_days of
        (requested, earliest, search_end) \<Rightarrow>
          (case busy_for_search cfg get_info view completion_order source workers attendees prefetched
                  earliest search_end of
            Inl e \<Rightarrow> Some (Inl (Fetch_Failed e))
          | Inr busy \<Rightarrow>
              Option.bind
                (scan_slots cfg earliest search_end duration step
                   (\<not> verify_calendar \<or> source = Calendar)
                   (calendar_verdict cfg get_info attendees duration)
                   (max_calendar_verifications earliest search_end step)
                   (union_busy_for_all busy earliest search_end) 0)
                (\<lambda>r. Some (case r of
                    Inl e \<Rightarrow> Inl (Fetch_Failed e)
                  | Inr None \<Rightarrow> Inl Slot_Not_Found
                  | Inr (Some (s, checked)) \<Rightarrow>
                      Inr (slot_search_result requested earliest s duration attendees checked search_end source busy)))))"

section \<open>Company-calendar helpers\<close>

function company_calendar_windows ::
  "instant \<Rightarrow> instant \<Rightarrow> int \<Rightarrow> interval list" where
  "company_calendar_windows cursor stop chunk_hours =
     (if cursor < stop then
        (let window_end = min (cursor + max chunk_hours 1 * HOUR) stop
         in (cursor, window_end) # company_calendar_windows window_end stop chunk_hours)
      else [])"
  by pat_completeness auto
termination
  by (relation "measure (\<lambda>(cursor, stop, _). nat (stop - cursor))") (auto simp: HOUR_def)

declare company_calendar_windows.simps [simp del]

fun event_meets_busy :: "instant \<Rightarrow> instant \<Rightarrow> interval list \<Rightarrow> bool" where
  "event_meets_busy ev_start ev_end [] = False"
| "event_meets_busy ev_start ev_end ((b_start, b_end) # xs) =
     (intervals_overlap ev_start ev_end b_start b_end \<or> event_meets_busy ev_start ev_end xs)"

definition event_blocks_target_or_busy ::
  "instant \<Rightarrow> instant \<Rightarrow> instant \<Rightarrow> instant \<Rightarrow> (string, interval list) dict \<Rightarrow> string list \<Rightarrow> bool" where
  "event_blocks_target_or_busy ev_start ev_end target_start target_end busy matched =
     (if intervals_overlap ev_start ev_end target_start target_end then True
      else list_ex (\<lambda>email. event_meets_busy ev_start ev_end (dict_get_or busy email [])) matched)"


section \<open>The verification loop\<close>

definition ends_aligned :: "outlook_config \<Rightarrow> interval list \<Rightarrow> bool" where
  "ends_aligned cfg xs \<longleftrightarrow> (\<forall>i \<in> set xs. minute_aligned cfg (snd i))"

lemma ends_aligned_coalesce:
  "ends_aligned cfg xs \<Longrightarrow> minute_aligned cfg hi \<Longrightarrow> ends_aligned cfg (coalesce_intervals (Some lo) (Some hi) xs)"
  unfolding ends_aligned_def using coalesce_ends[of _ _ "Some lo" "Some hi" xs] by fastforce

text \<open>
  What a finished scan says.  A returned slot is valid against the busy time the scan started
  from, it was confirmed unless verification is off, and every earlier valid slot was ruled out by
  a rejected slot it overlaps.  When nothing is found, every valid slot was ruled out that way: the
  cap on the verifications is never what ends the search (each rejection moves the next
  candidate by at least one step).
\<close>

definition blocked_by_rejection ::
  "(instant \<Rightarrow> bool) \<Rightarrow> (instant \<Rightarrow> fetch_error + bool) \<Rightarrow> timedelta \<Rightarrow> instant \<Rightarrow> bool" where
  "blocked_by_rejection P verify duration y \<longleftrightarrow>
     (\<exists>x. P x \<and> verify x = Inr False \<and> x < y + duration \<and> y < x + duration)"

definition scan_outcome_ok ::
  "(instant \<Rightarrow> bool) \<Rightarrow> bool \<Rightarrow> (instant \<Rightarrow> fetch_error + bool) \<Rightarrow> timedelta \<Rightarrow>
   fetch_error + (instant \<times> nat) option \<Rightarrow> bool" where
  "scan_outcome_ok P skip_verify verify duration r \<longleftrightarrow>
     (case r of
        Inl e \<Rightarrow> \<exists>s. P s \<and> verify s = Inl e
      | Inr None \<Rightarrow> \<forall>y. P y \<longrightarrow> blocked_by_rejection P verify duration y
      | Inr (Some (s, k)) \<Rightarrow> P s \<and> (skip_verify \<or> verify s = Inr True) \<and>
          (\<forall>y. P y \<and> y < s \<longrightarrow> blocked_by_rejection P verify duration y))"

lemma valid_slot_coalesce:
  assumes "0 < duration"
  shows "valid_slot cfg duration step lo hi (coalesce_intervals (Some lo) (Some hi) xs) s \<longleftrightarrow>
    valid_slot cfg duration step lo hi xs s"
proof -
  have "{s..<s + duration} \<inter> (covered xs \<inter> {lo..<hi}) = {} \<longleftrightarrow> {s..<s + duration} \<inter> covered xs = {}"
    if "lo \<le> s" "s + duration \<le> hi"
    using that by (auto simp: disjoint_iff)
  then show ?thesis by (auto simp: valid_slot_def coalesce_clip.covered_norm)
qed

lemma scan_slots_ok:
  assumes "grid_step step" "0 < duration" "duration \<le> WORK_END - WORK_START" "duration mod MINUTE = 0"
    and "minute_aligned cfg lo" "minute_aligned cfg hi"
    and "separated busy" "ends_aligned cfg busy"
    and "\<And>s. valid_slot cfg duration step lo hi busy s \<Longrightarrow> P s"
    and "\<And>s. P s \<Longrightarrow> valid_slot cfg duration step lo hi busy s \<or> blocked_by_rejection P verify duration s"
    and "\<And>s. valid_slot cfg duration step lo hi busy s \<Longrightarrow> hi - s < int n * step"
  shows "\<exists>r. scan_slots cfg lo hi duration step skip verify n busy checked = Some r \<and>
    scan_outcome_ok P skip verify duration r"
  using assms(7-11)
proof (induction n arbitrary: busy checked)
  case 0
  have "\<not> valid_slot cfg duration step lo hi busy y" for y
    using 0(5)[of y] assms(2) by (auto simp: valid_slot_def)
  with 0(4) have "\<forall>y. P y \<longrightarrow> blocked_by_rejection P verify duration y" by blast
  then show ?case by (simp add: scan_outcome_ok_def)
next
  case (Suc n)
  let ?V = "valid_slot cfg duration step lo hi"
  from gaps_loop_least[OF assms(1-3) Suc.prems(1) _ assms(5), of hi 0] Suc.prems(2)
  obtain r k where r: "find_slot_via_busy_gaps cfg lo hi duration step busy = Some (r, k)"
    "least_such (?V busy) r"
    by (auto simp: find_slot_via_busy_gaps_def ends_aligned_def)
  show ?case
  proof (cases r)
    case None
    with r(2) Suc.prems(4) have "\<forall>y. P y \<longrightarrow> blocked_by_rejection P verify duration y"
      by (auto simp: least_such_def)
    with None r(1) show ?thesis by (simp add: scan_outcome_ok_def)
  next
    case (Some s)
    with r have s: "?V busy s" "\<And>y. ?V busy y \<Longrightarrow> s \<le> y" by (auto simp: least_such_def)
    then have lo: "\<not> s < lo" by (simp add: valid_slot_def)
    have earlier: "\<forall>y. P y \<and> y < s \<longrightarrow> blocked_by_rejection P verify duration y"
      using s(2) Suc.prems(4) by (meson linorder_not_less)
    have Ps: "P s" using s(1) Suc.prems(3) by blast
    let ?b = "coalesce_intervals (Some lo) (Some hi) (busy @ [(s, s + duration)])"
    have sa: "minute_aligned cfg (s + duration)"
    proof -
      obtain q where "duration = q * MINUTE" using assms(4) by (metis mod_0_imp_dvd dvdE mult.commute)
      moreover have "minute_aligned cfg s"
        using s(1) on_grid_minute_aligned[OF assms(1)] by (simp add: valid_slot_def)
      ultimately show ?thesis by (simp add: minute_aligned_add)
    qed
    have V: "?V ?b y \<longleftrightarrow> ?V busy y \<and> \<not> (s < y + duration \<and> y < s + duration)" for y
    proof -
      have "{y..<y + duration} \<inter> {s..<s + duration} = {} \<longleftrightarrow> \<not> (s < y + duration \<and> y < s + duration)"
        using assms(2) by auto
      then show ?thesis unfolding valid_slot_coalesce[OF assms(2)]
        by (simp add: valid_slot_def Int_Un_distrib)
    qed
    have IH: "\<exists>r. scan_slots cfg lo hi duration step skip verify n ?b m = Some r \<and>
        scan_outcome_ok P skip verify duration r" if rej: "verify s = Inr False" for m
    proof (rule Suc.IH)
      show "separated ?b" by (rule coalesce_clip.separated_norm)
      show "ends_aligned cfg ?b"
        using Suc.prems(2) sa assms(6) by (intro ends_aligned_coalesce) (auto simp: ends_aligned_def)
      show "P y" if "?V ?b y" for y using that V Suc.prems(3) by blast
      show "?V ?b y \<or> blocked_by_rejection P verify duration y" if "P y" for y
        using Suc.prems(4)[OF that] V[of y] rej Ps by (auto simp: blocked_by_rejection_def)
      show "hi - y < int n * step" if Vy: "?V ?b y" for y
      proof -
        from Vy V have y: "?V busy y" "\<not> (s < y + duration \<and> y < s + duration)" by auto
        then have "y \<noteq> s" using assms(2) by auto
        with s(2)[OF y(1)] have "s < y" by simp
        moreover have "on_grid cfg step s" "on_grid cfg step y" using s(1) y(1) by (auto simp: valid_slot_def)
        ultimately have "s + step \<le> y"
          using grid_step_bounds[OF assms(1)] by (intro on_grid_gap) auto
        with Suc.prems(5)[OF s(1)] show ?thesis by (simp add: algebra_simps)
      qed
    qed
    show ?thesis
    proof (cases "skip")
      case True
      with r(1) Some lo Ps earlier show ?thesis by (simp add: scan_outcome_ok_def)
    next
      case False
      consider (err) e where "verify s = Inl e" | (yes) "verify s = Inr True" | (no) "verify s = Inr False"
        by (cases "verify s") auto
      then show ?thesis
      proof cases
        case err
        with r(1) Some lo False Ps show ?thesis by (auto simp: scan_outcome_ok_def)
      next
        case yes
        with r(1) Some lo False Ps earlier show ?thesis by (simp add: scan_outcome_ok_def)
      next
        case no
        with r(1) Some lo False IH[OF no] show ?thesis by simp
      qed
    qed
  qed
qed

section \<open>The whole search\<close>

lemma search_bounds_aligned:
  assumes "search_bounds_for_preferred cfg now preferred max_days = (requested, lo, hi)"
  shows "minute_aligned cfg lo" "minute_aligned cfg hi" "lo < hi \<longleftrightarrow> 0 < max_days"
    "hi - lo = max_days * DAY" "requested \<le> lo" "requested = trunc_minute cfg preferred"
    "not_before_now cfg now \<le> lo"
proof -
  from assms have lo: "lo = max (max requested (align_preferred cfg requested)) (not_before_now cfg now)"
    and r: "requested = trunc_minute cfg preferred" and hi: "hi = lo + max_days * DAY"
    by (auto simp: search_bounds_for_preferred_def Let_def)
  show "minute_aligned cfg lo"
    unfolding lo r by (auto simp: max_def not_before_now_def align_preferred_least(3))
  then show "minute_aligned cfg hi"
    unfolding hi using minute_aligned_add[of cfg lo "max_days * 1440"] by (simp add: time_units ac_simps)
  show "lo < hi \<longleftrightarrow> 0 < max_days" "hi - lo = max_days * DAY"
    unfolding hi by (auto simp: time_units)
  show "requested \<le> lo" "requested = trunc_minute cfg preferred" "not_before_now cfg now \<le> lo"
    using lo r by auto
qed

lemma valid_slot_union:
  assumes "0 < duration"
  shows "valid_slot cfg duration step lo hi (union_busy_for_all busy lo hi) s \<longleftrightarrow>
    valid_slot cfg duration step lo hi (concat (dict_values busy)) s"
  by (simp add: union_busy_for_all_def valid_slot_coalesce[OF assms])

lemma scan_union_ok:
  assumes "grid_step step" "0 < duration" "duration \<le> WORK_END - WORK_START" "duration mod MINUTE = 0"
    and "minute_aligned cfg lo" "minute_aligned cfg hi"
    and "ends_aligned cfg (concat (dict_values busy))"
  shows "\<exists>r. scan_slots cfg lo hi duration step skip verify (max_calendar_verifications lo hi step)
      (union_busy_for_all busy lo hi) 0 = Some r \<and>
    scan_outcome_ok (valid_slot cfg duration step lo hi (concat (dict_values busy))) skip verify duration r"
proof (rule scan_slots_ok[OF assms(1-6)])
  show "separated (union_busy_for_all busy lo hi)"
    by (simp add: union_busy_for_all_def coalesce_clip.separated_norm)
  show "ends_aligned cfg (union_busy_for_all busy lo hi)"
    unfolding union_busy_for_all_def using assms(6,7) by (intro ends_aligned_coalesce)
  fix s
  show "hi - s < int (max_calendar_verifications lo hi step) * step"
    if "valid_slot cfg duration step lo hi (union_busy_for_all busy lo hi) s"
  proof -
    have st: "MINUTE \<le> step" "0 < step" using grid_step_bounds[OF assms(1)] by auto
    have "hi - lo = (hi - lo) div step * step + (hi - lo) mod step" by simp
    moreover have "(hi - lo) mod step < step" using st(2) by simp
    ultimately have "hi - lo < ((hi - lo) div step + 1) * step" unfolding distrib_right by linarith
    also have "\<dots> \<le> int (max_calendar_verifications lo hi step) * step"
      using st by (intro mult_right_mono) (auto simp: max_calendar_verifications_def max_def)
    finally show ?thesis using that by (simp add: valid_slot_def)
  qed
qed (simp_all add: valid_slot_union[OF assms(2)])

section \<open>Properties\<close>



definition nearest_entry_ok ::
  "outlook_config \<Rightarrow> instant \<Rightarrow> instant \<Rightarrow> timedelta \<Rightarrow> timedelta \<Rightarrow> interval list \<Rightarrow> interval option \<Rightarrow> bool" where
  "nearest_entry_ok cfg lo hi duration step busy entry \<longleftrightarrow>
     least_such (valid_slot cfg duration step lo hi busy) (map_option fst entry) \<and>
     (\<forall>a b. entry = Some (a, b) \<longrightarrow> b = a + duration)"

lemma nearest_loop_ok:
  assumes "grid_step step" "0 < duration" "duration \<le> WORK_END - WORK_START"
    and "minute_aligned cfg lo" "minute_aligned cfg hi"
    and "\<forall>e \<in> set es. ends_aligned cfg (lookup_busy_intervals busy e)"
  shows "\<exists>d. nearest_loop cfg lo hi duration step busy es acc = Some d \<and>
    (\<forall>e. e \<notin> set es \<longrightarrow> dict_get d e = dict_get acc e) \<and>
    (\<forall>e \<in> set es. \<exists>entry. dict_get d e = Some entry \<and>
       nearest_entry_ok cfg lo hi duration step (lookup_busy_intervals busy e) entry)"
  using assms(6)
proof (induction es arbitrary: acc)
  case Nil
  then show ?case by simp
next
  case (Cons e es)
  let ?b = "coalesce_intervals (Some lo) (Some hi) (lookup_busy_intervals busy e)"
  have "ends_aligned cfg ?b" using Cons.prems assms(5) by (intro ends_aligned_coalesce) auto
  then have al: "\<forall>i \<in> set ?b. minute_aligned cfg (snd i)" by (simp add: ends_aligned_def)
  from gaps_loop_least[OF assms(1-3) coalesce_clip.separated_norm al assms(4), of hi 0] obtain r k where
    r: "find_slot_via_busy_gaps cfg lo hi duration step ?b = Some (r, k)"
      "least_such (valid_slot cfg duration step lo hi ?b) r"
    by (auto simp: find_slot_via_busy_gaps_def)
  let ?entry = "case r of None \<Rightarrow> None | Some s \<Rightarrow> Some (s, s + duration)"
  have ok: "nearest_entry_ok cfg lo hi duration step (lookup_busy_intervals busy e) ?entry"
    using r(2) unfolding fun_eq_iff[THEN iffD2, OF allI, OF valid_slot_coalesce[OF assms(2)]]
    by (cases r) (simp_all add: nearest_entry_ok_def)
  from Cons.IH[of "dict_set e ?entry acc"] Cons.prems obtain d where
    d: "nearest_loop cfg lo hi duration step busy es (dict_set e ?entry acc) = Some d"
      "\<forall>x. x \<notin> set es \<longrightarrow> dict_get d x = dict_get (dict_set e ?entry acc) x"
      "\<forall>x \<in> set es. \<exists>entry. dict_get d x = Some entry \<and>
         nearest_entry_ok cfg lo hi duration step (lookup_busy_intervals busy x) entry" by auto
  have "\<exists>entry. dict_get d e = Some entry \<and>
      nearest_entry_ok cfg lo hi duration step (lookup_busy_intervals busy e) entry"
    using d(2,3) ok by (cases "e \<in> set es") auto
  with d r(1) show ?case by auto
qed

text \<open>
  The reference slots of the attendees are right for each of them alone: the search returns for
  every non-empty address an entry, which is the least valid slot of the search window against that
  attendee's busy time, or \<open>None\<close> when there is none; it never fails on prefetched data.
\<close>


lemma nearest_slots_correct:
  assumes "grid_step step" "0 < duration" "duration \<le> WORK_END - WORK_START" "1 \<le> max_days"
    and "search_bounds_for_preferred cfg now preferred max_days = (requested, lo, hi)"
    and "\<forall>e \<in> set attendees. ends_aligned cfg
           (lookup_busy_intervals (clip_busy_by_attendee_for_window prefetched lo hi) (py_strip e))"
    and "email \<in> set attendees" "py_strip email \<noteq> []"
  shows "\<exists>d entry. find_nearest_slots_per_attendee cfg get_info now attendees preferred duration max_days step
      (Some prefetched) = Some (Inr d) \<and> dict_get d (py_strip email) = Some entry \<and>
    nearest_entry_ok cfg lo hi duration step
      (lookup_busy_intervals (clip_busy_by_attendee_for_window prefetched lo hi) (py_strip email)) entry"
proof -
  let ?es = "filter (\<lambda>e. e \<noteq> []) (map py_strip attendees)"
  have al: "\<forall>e \<in> set ?es. ends_aligned cfg
      (lookup_busy_intervals (clip_busy_by_attendee_for_window prefetched lo hi) e)"
    using assms(6) by auto
  from nearest_loop_ok[OF assms(1-3) search_bounds_aligned(1,2)[OF assms(5)] al, of "[]"] obtain d where
    d: "nearest_loop cfg lo hi duration step (clip_busy_by_attendee_for_window prefetched lo hi) ?es [] = Some d"
      "\<forall>e \<in> set ?es. \<exists>entry. dict_get d e = Some entry \<and> nearest_entry_ok cfg lo hi duration step
         (lookup_busy_intervals (clip_busy_by_attendee_for_window prefetched lo hi) e) entry" by blast
  have mem: "py_strip email \<in> set ?es" using assms(7,8) by auto
  then have "?es \<noteq> []" by (metis empty_iff empty_set)
  then have "find_nearest_slots_per_attendee cfg get_info now attendees preferred duration max_days step
      (Some prefetched) = Some (Inr d)"
    using d(1) assms(2,4,5) by (simp add: find_nearest_slots_per_attendee_def Let_def)
  with d(2) mem show ?thesis by blast
qed

text \<open>
  The chunks in which the company calendar is read partition the search range: consecutive,
  non-empty, none longer than the chunk, and together covering exactly the instants of the range.
\<close>

lemma calendar_windows_partition:
  "covered (company_calendar_windows lo hi hours) = {lo..<hi} \<and>
   (\<forall>(a, b) \<in> set (company_calendar_windows lo hi hours).
      lo \<le> a \<and> a < b \<and> b \<le> hi \<and> b - a \<le> max hours 1 * HOUR) \<and>
   sorted_wrt (\<lambda>(a, b) (c, d). b \<le> c) (company_calendar_windows lo hi hours)"
proof (induction lo hi hours rule: company_calendar_windows.induct)
  case (1 lo hi hours)
  show ?case
  proof (cases "lo < hi")
    case False
    then show ?thesis by (simp add: company_calendar_windows.simps[of lo hi hours])
  next
    case True
    let ?w = "min (lo + max hours 1 * HOUR) hi"
    have w: "lo < ?w" "?w \<le> hi" "?w - lo \<le> max hours 1 * HOUR" using True by (auto simp: HOUR_def)
    have e: "company_calendar_windows lo hi hours = (lo, ?w) # company_calendar_windows ?w hi hours"
      using True by (subst company_calendar_windows.simps) (simp add: Let_def)
    have IH: "covered (company_calendar_windows ?w hi hours) = {?w..<hi}"
      "\<forall>(a, b) \<in> set (company_calendar_windows ?w hi hours). ?w \<le> a \<and> a < b \<and> b \<le> hi \<and> b - a \<le> max hours 1 * HOUR"
      "sorted_wrt (\<lambda>(a, b) (c, d). b \<le> c) (company_calendar_windows ?w hi hours)"
      using 1[OF True refl] by blast+
    have "covered (company_calendar_windows lo hi hours) = {lo..<hi}"
      using w IH(1) by (simp add: e) (simp add: ivl_disj_un_two(3))
    moreover have "\<forall>(a, b) \<in> set (company_calendar_windows lo hi hours).
        lo \<le> a \<and> a < b \<and> b \<le> hi \<and> b - a \<le> max hours 1 * HOUR"
      using IH(2) w by (auto simp: e simp del: min_less_iff_conj)
    moreover have "sorted_wrt (\<lambda>(a, b) (c, d). b \<le> c) (company_calendar_windows lo hi hours)"
      using IH(2,3) by (auto simp: e)
    ultimately show ?thesis by blast
  qed
qed

end
