(* ===== verification/Decimals.thy ===== *)
theory Decimals
  imports Prelude
begin

text \<open>
  \<open>decimal.Decimal\<close> as exact rationals.  The code adds, multiplies and compares quantities and sums
  of money of a few digits, which CPython's 28-digit context computes exactly; divisions are exact
  here, and their only uses are rounded at once (\<open>quantize\<close>, \<open>to_integral_value\<close>) or are noted where
  they occur.

  \<open>rounding\<close> is the contract of a rounding mode at a unit: a multiple of the unit, less than one unit
  away, the identity on multiples, monotone.  Each mode the code uses is an interpretation.
\<close>

section \<open>Rounding modes\<close>

definition half_even :: "rat \<Rightarrow> int" where
  "half_even y = (let f = \<lfloor>y\<rfloor>; r = y - of_int f
     in if r < 1 / 2 then f else if r > 1 / 2 then f + 1 else if even f then f else f + 1)"

text \<open>\<open>ROUND_HALF_UP\<close> rounds ties away from zero.\<close>

definition half_up :: "rat \<Rightarrow> int" where
  "half_up y = (if 0 \<le> y then \<lfloor>y + 1 / 2\<rfloor> else - \<lfloor>- y + 1 / 2\<rfloor>)"

text \<open>\<open>x.quantize(Decimal("0.001"))\<close> uses the default \<open>ROUND_HALF_EVEN\<close>; the unit is the argument.\<close>

definition quantize :: "rat \<Rightarrow> rat \<Rightarrow> rat" where
  "quantize unit x = of_int (half_even (x / unit)) * unit"

definition quantize_half_up :: "rat \<Rightarrow> rat \<Rightarrow> rat" where
  "quantize_half_up unit x = of_int (half_up (x / unit)) * unit"

definition ceil_to :: "rat \<Rightarrow> rat \<Rightarrow> rat" where
  "ceil_to unit x = of_int \<lceil>x / unit\<rceil> * unit"

text \<open>\<open>ROUND_DOWN\<close> truncates towards zero.\<close>

definition trunc_to :: "rat \<Rightarrow> rat \<Rightarrow> rat" where
  "trunc_to unit x = of_int (if 0 \<le> x / unit then \<lfloor>x / unit\<rfloor> else \<lceil>x / unit\<rceil>) * unit"

section \<open>The contract of a rounding\<close>

locale rounding =
  fixes to_int :: "rat \<Rightarrow> int"
  assumes near: "\<bar>of_int (to_int y) - y\<bar> < 1"
    and on_ints: "to_int (of_int n) = n"
    and mono: "x \<le> y \<Longrightarrow> to_int x \<le> to_int y"
begin

definition rnd :: "rat \<Rightarrow> rat \<Rightarrow> rat" where
  "rnd unit x = of_int (to_int (x / unit)) * unit"

lemma rnd_near: "0 < unit \<Longrightarrow> \<bar>rnd unit x - x\<bar> < unit"
proof -
  assume u: "0 < unit"
  have "rnd unit x - x = (of_int (to_int (x / unit)) - x / unit) * unit"
    using u by (simp add: rnd_def left_diff_distrib)
  then have "\<bar>rnd unit x - x\<bar> = \<bar>of_int (to_int (x / unit)) - x / unit\<bar> * unit"
    using u by (simp add: abs_mult)
  also have "\<dots> < 1 * unit" using near u by (intro mult_strict_right_mono)
  finally show ?thesis by simp
qed

lemma rnd_multiple [simp]: "0 < unit \<Longrightarrow> rnd unit (of_int n * unit) = of_int n * unit"
  by (simp add: rnd_def on_ints)

lemma rnd_zero [simp]: "rnd unit 0 = 0"
  using on_ints[of 0] by (simp add: rnd_def)

lemma rnd_mono: "0 < unit \<Longrightarrow> x \<le> y \<Longrightarrow> rnd unit x \<le> rnd unit y"
  by (simp add: rnd_def mono divide_right_mono mult_right_mono)

lemma rnd_nonneg: "0 < unit \<Longrightarrow> 0 \<le> x \<Longrightarrow> 0 \<le> rnd unit x"
  using rnd_mono[of unit 0 x] by simp

lemma rnd_idem: "0 < unit \<Longrightarrow> rnd unit (rnd unit x) = rnd unit x"
  using rnd_multiple[of unit "to_int (x / unit)"] by (simp add: rnd_def)

lemma rnd_bounds:
  "0 < unit \<Longrightarrow> of_int m * unit \<le> x \<Longrightarrow> x \<le> of_int n * unit \<Longrightarrow> of_int m * unit \<le> rnd unit x \<and> rnd unit x \<le> of_int n * unit"
  using rnd_mono[of unit "of_int m * unit" x] rnd_mono[of unit x "of_int n * unit"] by simp

end

lemma floor_bounds: "of_int \<lfloor>y\<rfloor> \<le> (y::rat) \<and> y < of_int \<lfloor>y\<rfloor> + 1"
  using floor_correct[of y] by simp

lemma ceiling_bounds: "of_int \<lceil>y\<rceil> - 1 < (y::rat) \<and> y \<le> of_int \<lceil>y\<rceil>"
  using ceiling_correct[of y] by simp

lemma half_even_cases:
  "(half_even y = \<lfloor>y\<rfloor> \<and> y - of_int \<lfloor>y\<rfloor> \<le> 1 / 2) \<or> (half_even y = \<lfloor>y\<rfloor> + 1 \<and> 1 / 2 \<le> y - of_int \<lfloor>y\<rfloor>)"
  unfolding half_even_def Let_def by (auto split: if_split)

lemma half_even_half: "\<bar>of_int (half_even y) - y\<bar> \<le> 1 / 2"
proof -
  have f: "of_int \<lfloor>y\<rfloor> \<le> y" "y < of_int \<lfloor>y\<rfloor> + 1" using floor_bounds[of y] by auto
  from half_even_cases[of y] show ?thesis
  proof
    assume "half_even y = \<lfloor>y\<rfloor> \<and> y - of_int \<lfloor>y\<rfloor> \<le> 1 / 2"
    with f(1) show ?thesis by (simp only: abs_le_iff) linarith
  next
    assume h: "half_even y = \<lfloor>y\<rfloor> + 1 \<and> 1 / 2 \<le> y - of_int \<lfloor>y\<rfloor>"
    then have "of_int (half_even y) = of_int \<lfloor>y\<rfloor> + (1 :: rat)" by simp
    with h f(2) show ?thesis by (simp only: abs_le_iff) linarith
  qed
qed

lemma half_up_half: "\<bar>of_int (half_up y) - y\<bar> \<le> 1 / 2"
proof (cases "0 \<le> y")
  case True
  then have "half_up y = \<lfloor>y + 1 / 2\<rfloor>" by (simp add: half_up_def)
  moreover have "of_int \<lfloor>y + 1 / 2\<rfloor> \<le> y + 1 / 2" "y + 1 / 2 < of_int \<lfloor>y + 1 / 2\<rfloor> + 1"
    using floor_bounds[of "y + 1 / 2"] by auto
  ultimately show ?thesis by (simp only: abs_le_iff) linarith
next
  case False
  then have "(of_int (half_up y) :: rat) = - of_int \<lfloor>- y + 1 / 2\<rfloor>" by (simp add: half_up_def)
  moreover have "of_int \<lfloor>- y + 1 / 2\<rfloor> \<le> - y + 1 / 2" "- y + 1 / 2 < of_int \<lfloor>- y + 1 / 2\<rfloor> + 1"
    using floor_bounds[of "- y + 1 / 2"] by auto
  ultimately show ?thesis by (simp only: abs_le_iff) linarith
qed

lemma half_even_mono: "x \<le> y \<Longrightarrow> half_even x \<le> half_even y"
proof -
  assume xy: "x \<le> y"
  then have f: "\<lfloor>x\<rfloor> \<le> \<lfloor>y\<rfloor>" by (rule floor_mono)
  have b: "\<lfloor>z\<rfloor> \<le> half_even z" "half_even z \<le> \<lfloor>z\<rfloor> + 1" for z :: rat
    by (auto simp: half_even_def Let_def)
  show ?thesis
  proof (cases "\<lfloor>x\<rfloor> = \<lfloor>y\<rfloor>")
    case True
    then show ?thesis using xy by (auto simp: half_even_def Let_def)
  next
    case False
    with f b(2)[of x] b(1)[of y] show ?thesis by linarith
  qed
qed

lemma half_up_mono: "x \<le> y \<Longrightarrow> half_up x \<le> half_up y"
proof -
  assume xy: "x \<le> y"
  consider "0 \<le> x" | "x < 0" "0 \<le> y" | "y < 0" using xy by linarith
  then show ?thesis
  proof cases
    case 1
    with xy floor_mono[of "x + 1 / 2" "y + 1 / 2"] show ?thesis by (simp add: half_up_def)
  next
    case 2
    have "0 \<le> \<lfloor>- x + 1 / 2\<rfloor>" "0 \<le> \<lfloor>y + 1 / 2\<rfloor>"
      using 2 by simp_all
    then have "- \<lfloor>- x + 1 / 2\<rfloor> \<le> \<lfloor>y + 1 / 2\<rfloor>" by linarith
    with 2 show ?thesis unfolding half_up_def by simp
  next
    case 3
    with xy floor_mono[of "- y + 1 / 2" "- x + 1 / 2"] show ?thesis by (simp add: half_up_def)
  qed
qed

interpretation half_even: rounding half_even
proof
  show "half_even (of_int n) = n" for n by (simp add: half_even_def Let_def)
  show "\<bar>of_int (half_even y) - y\<bar> < 1" for y using half_even_half[of y] by linarith
qed (erule half_even_mono)

interpretation half_up: rounding half_up
proof
  show "\<bar>of_int (half_up y) - y\<bar> < 1" for y using half_up_half[of y] by linarith
  show "half_up (of_int n) = n" for n
  proof -
    have h: "\<lfloor>(1 / 2 :: rat)\<rfloor> = 0" by (rule floor_unique) simp_all
    have "\<lfloor>of_int n + 1 / 2 :: rat\<rfloor> = n" "\<lfloor>- of_int n + 1 / 2 :: rat\<rfloor> = - n"
      using h floor_add_int[of "1 / 2 :: rat" n] floor_add_int[of "1 / 2 :: rat" "- n"]
      by (simp_all add: add.commute)
    then show ?thesis by (simp add: half_up_def)
  qed
qed (erule half_up_mono)

interpretation ceil: rounding ceiling
proof
  show "\<bar>of_int \<lceil>y\<rceil> - y\<bar> < 1" for y :: rat using ceiling_correct[of y] by (auto simp: abs_less_iff)
  show "x \<le> y \<Longrightarrow> \<lceil>x\<rceil> \<le> \<lceil>y\<rceil>" for x y :: rat by (rule ceiling_mono)
qed simp

definition truncate_int :: "rat \<Rightarrow> int" where
  "truncate_int y = (if 0 \<le> y then \<lfloor>y\<rfloor> else \<lceil>y\<rceil>)"

interpretation trunc: rounding truncate_int
proof
  show "\<bar>of_int (truncate_int y) - y\<bar> < 1" for y
  proof (cases "0 \<le> y")
    case True
    with floor_bounds[of y] show ?thesis unfolding truncate_int_def by (simp only: if_True abs_less_iff) linarith
  next
    case False
    with ceiling_bounds[of y] show ?thesis unfolding truncate_int_def by (simp only: if_False abs_less_iff) linarith
  qed
  show "truncate_int x \<le> truncate_int y" if "x \<le> y" for x y
  proof (cases "0 \<le> y")
    case True
    then have "\<lceil>x\<rceil> \<le> \<lfloor>y\<rfloor>" if "\<not> 0 \<le> x"
    proof -
      have "\<lceil>x\<rceil> \<le> 0" "0 \<le> \<lfloor>y\<rfloor>" using that True by (simp_all add: ceiling_le_zero)
      then show ?thesis by linarith
    qed
    with True floor_mono[OF that] show ?thesis by (simp add: truncate_int_def)
  next
    case False
    with that have "\<not> 0 \<le> x" by linarith
    with False ceiling_mono[OF that] show ?thesis by (simp add: truncate_int_def)
  qed
qed (simp add: truncate_int_def)

lemma rnd_unfold [decimal_simps]:
  "quantize = half_even.rnd" "quantize_half_up = half_up.rnd" "ceil_to = ceil.rnd" "trunc_to = trunc.rnd"
  by (auto simp: fun_eq_iff quantize_def quantize_half_up_def ceil_to_def trunc_to_def truncate_int_def
      half_even.rnd_def half_up.rnd_def ceil.rnd_def trunc.rnd_def)

text \<open>The two directed modes.\<close>

lemma ceil_to_ge: "0 < unit \<Longrightarrow> x \<le> ceil_to unit x"
  using ceiling_bounds[of "x / unit"] unfolding ceil_to_def by (simp only: pos_divide_le_eq)

lemma trunc_to_le: "0 < unit \<Longrightarrow> 0 \<le> x \<Longrightarrow> trunc_to unit x \<le> x"
  using floor_bounds[of "x / unit"] unfolding trunc_to_def
  by (simp only: pos_le_divide_eq zero_le_divide_iff) auto

lemmas quantize_nonneg = half_even.rnd_nonneg[folded rnd_unfold]
  and quantize_mono = half_even.rnd_mono[folded rnd_unfold]
  and quantize_near = half_even.rnd_near[folded rnd_unfold]
  and quantize_half_up_nonneg = half_up.rnd_nonneg[folded rnd_unfold]
  and quantize_half_up_mono = half_up.rnd_mono[folded rnd_unfold]
  and quantize_half_up_near = half_up.rnd_near[folded rnd_unfold]
  and ceil_to_near = ceil.rnd_near[folded rnd_unfold]
  and trunc_to_near = trunc.rnd_near[folded rnd_unfold]
  and trunc_to_nonneg = trunc.rnd_nonneg[folded rnd_unfold]

end
