(* ===== verification/Warehouse_Picker.thy ===== *)
theory Warehouse_Picker
  imports Decimals Py_Strings
begin

text \<open>
  The store-keeper's assessment (\<open>app/agents/warehouse_picker_agent/calculator.py\<close>, \<open>schemas.py\<close>): which
  supplies count for a need, how much can be issued and how much is left to purchase, and the
  decision for the whole case.  Texts shown to people are labels (\<open>picker_advice\<close>, \<open>picker_summary\<close>);
  the SHA-256 fingerprint and the \<open>formulas\<close> texts render the modelled numbers and are left out.
\<close>

section \<open>Data\<close>

datatype picker_outcome =
    Issue_From_Stock | Partial_Issue | Deficit_Confirmed | Discrepancy_Return | Fully_Available
  | Picker_Clarification_Required

datatype picker_source =
    Pk_Store_Room | Pk_Warehouse | Pk_Reservation | Pk_Quality | Pk_Quarantine | Pk_Blocked

record picker_case =
  pc_case_id :: string
  pc_source_1c_ref :: string
  pc_warehouse_1c_ref :: "string option"
  pc_warehouse_name :: "string option"

record picker_need =
  pn_line_id :: string
  pn_nomenclature_id :: string
  pn_nomenclature_name :: string
  pn_characteristic_id :: "string option"
  pn_characteristic_name :: "string option"
  pn_unit :: "string option"
  pn_requested_quantity :: rat
  pn_warehouse_id :: "string option"
  pn_assignment_id :: "string option"
  pn_assignment_name :: "string option"

record picker_supply =
  ps_supply_id :: string
  ps_source_type :: picker_source
  ps_nomenclature_id :: string
  ps_quantity :: rat
  ps_warehouse_id :: "string option"
  ps_assignment_id :: "string option"
  ps_assignment_name :: "string option"
  ps_accounting_quantity :: "rat option"
  ps_factual_quantity :: "rat option"
  ps_available_for_issue :: bool
  ps_reserved_for_other :: bool
  ps_quarantine :: bool
  ps_defective :: bool
  ps_blocked :: bool
  ps_suitable :: bool
  ps_exact_match :: bool
  ps_use_allowed :: bool
  ps_evidence_id :: "string option"

datatype picker_issue =
    Picker_Missing_Source_Ref
  | Picker_No_Positions
  | Picker_Missing_Nomenclature string

datatype picker_missing = Missing_Issue picker_issue | Missing_Capability string

datatype picker_exclusion =
    Excl_Other_Warehouse | Excl_Reserved_For_Other | Excl_Reserved_For_Assignment | Excl_Quarantine
  | Excl_Defective | Excl_Blocked | Excl_Not_Available | Excl_Unsuitable | Excl_Analogue
  | Excl_Non_Positive

record picker_excluded =
  ex_supply_id :: string
  ex_source_type :: picker_source
  ex_quantity :: rat
  ex_warehouse_id :: "string option"
  ex_assignment_id :: "string option"
  ex_assignment_name :: "string option"
  ex_reason :: picker_exclusion

datatype picker_advice =
    Advice_Return_Discrepancy | Advice_Issue_Full | Advice_Issue_Partial
  | Advice_Reserved_Elsewhere rat | Advice_Confirm_Deficit

record picker_line =
  pl_line_id :: string
  pl_nomenclature_id :: string
  pl_nomenclature_name :: string
  pl_characteristic_id :: "string option"
  pl_characteristic_name :: "string option"
  pl_unit :: string
  pl_requested_quantity :: rat
  pl_warehouse_id :: "string option"
  pl_warehouse_name :: "string option"
  pl_assignment_id :: "string option"
  pl_assignment_name :: "string option"
  pl_store_room_stock :: rat
  pl_warehouse_stock :: rat
  pl_accounting_quantity :: rat
  pl_factual_quantity :: rat
  pl_available_for_issue :: rat
  pl_reserved_other_quantity :: rat
  pl_discrepancy_quantity :: rat
  pl_has_discrepancy :: bool
  pl_confirmed_available :: rat
  pl_confirmed_deficit :: rat
  pl_quantity_to_issue :: rat
  pl_quantity_to_purchase :: rat
  pl_outcome :: picker_outcome
  pl_recommendation :: picker_advice
  pl_issue_allowed :: bool
  pl_evidence_ids :: "string list"
  pl_excluded_supply :: "picker_excluded list"

datatype picker_decision =
    Pk_Stock_Confirmation | Pk_Deficit_Confirmation | Pk_Discrepancy_Return
  | Pk_Critical_Acknowledgement | Pk_None

datatype picker_summary =
    Sum_Insufficient_Data | Sum_Discrepancy | Sum_Deficit_And_Issue nat | Sum_Deficit nat
  | Sum_Issue_Only | Sum_No_Deficit

record picker_conclusion =
  con_requested :: rat
  con_available :: rat
  con_deficit :: rat
  con_issue :: rat
  con_purchase :: rat
  con_positions :: nat
  con_deficit_positions :: nat

record picker_output =
  po_positions :: "picker_line list"
  po_validation_issues :: "picker_issue list"
  po_missing_data :: "picker_missing list"
  po_excluded_capabilities :: "string list"
  po_summary :: picker_summary
  po_decision_kind :: picker_decision
  po_conclusion :: "picker_conclusion option"

section \<open>Which supplies count\<close>

definition picker_validate_case :: "picker_case \<Rightarrow> picker_need list \<Rightarrow> picker_issue list" where
  "picker_validate_case pcase needs =
     (if pc_source_1c_ref pcase = [] then [Picker_Missing_Source_Ref] else []) @
     (if needs = [] then [Picker_No_Positions] else []) @
     map (\<lambda>n. Picker_Missing_Nomenclature (pn_line_id n)) (filter (\<lambda>n. pn_nomenclature_id n = []) needs)"

definition stock_source :: "picker_source \<Rightarrow> bool" where
  "stock_source src \<longleftrightarrow> src = Pk_Store_Room \<or> src = Pk_Warehouse"

definition target_warehouse :: "picker_need \<Rightarrow> picker_case \<Rightarrow> string option" where
  "target_warehouse need pcase = or_str (pn_warehouse_id need) (pc_warehouse_1c_ref pcase)"

definition other_warehouse :: "picker_need \<Rightarrow> picker_case \<Rightarrow> picker_supply \<Rightarrow> bool" where
  "other_warehouse need pcase s \<longleftrightarrow> truthy (target_warehouse need pcase) \<and> truthy (ps_warehouse_id s) \<and>
     ps_warehouse_id s \<noteq> target_warehouse need pcase"

definition picker_exclusion_reason ::
  "picker_supply \<Rightarrow> picker_need \<Rightarrow> picker_case \<Rightarrow> picker_exclusion option" where
  "picker_exclusion_reason s need pcase =
     (if other_warehouse need pcase s then Some Excl_Other_Warehouse
      else if ps_reserved_for_other s then Some Excl_Reserved_For_Other
      else if truthy (ps_assignment_id s) \<and>
        \<not> (truthy (pn_assignment_id need) \<and> ps_assignment_id s = pn_assignment_id need)
        then Some Excl_Reserved_For_Assignment
      else if ps_quarantine s \<or> ps_source_type s = Pk_Quarantine then Some Excl_Quarantine
      else if ps_defective s then Some Excl_Defective
      else if ps_blocked s \<or> ps_source_type s = Pk_Blocked then Some Excl_Blocked
      else if \<not> ps_available_for_issue s then Some Excl_Not_Available
      else if \<not> ps_suitable s \<or> \<not> ps_use_allowed s then Some Excl_Unsuitable
      else if \<not> ps_exact_match s then Some Excl_Analogue
      else if ps_quantity s \<le> 0 then Some Excl_Non_Positive
      else None)"

text \<open>A soft reservation reduces what is available without being stock of its own.\<close>

definition soft_reservation :: "picker_supply \<Rightarrow> bool" where
  "soft_reservation s \<longleftrightarrow>
     ps_source_type s = Pk_Reservation \<or> ps_reserved_for_other s \<and> \<not> stock_source (ps_source_type s)"

definition picker_excluded_entry :: "picker_supply \<Rightarrow> picker_exclusion \<Rightarrow> picker_excluded" where
  "picker_excluded_entry s r =
     \<lparr>ex_supply_id = ps_supply_id s, ex_source_type = ps_source_type s, ex_quantity = ps_quantity s,
      ex_warehouse_id = ps_warehouse_id s, ex_assignment_id = ps_assignment_id s,
      ex_assignment_name = ps_assignment_name s, ex_reason = r\<rparr>"

record picker_scan =
  sc_matching :: "picker_supply list"
  sc_excluded :: "picker_excluded list"
  sc_reserved_other :: rat
  sc_soft_reserved :: rat

text \<open>One supply, and the loop over the supplies of a need.\<close>

definition scan_supply :: "picker_case \<Rightarrow> picker_need \<Rightarrow> picker_supply \<Rightarrow> picker_scan \<Rightarrow> picker_scan" where
  "scan_supply pcase need s sc =
     (if ps_nomenclature_id s \<noteq> pn_nomenclature_id need then sc
      else if soft_reservation s then
        (if other_warehouse need pcase s
         then sc\<lparr>sc_excluded := sc_excluded sc @ [picker_excluded_entry s Excl_Other_Warehouse]\<rparr>
         else sc\<lparr>sc_soft_reserved := sc_soft_reserved sc + ps_quantity s,
                sc_reserved_other := sc_reserved_other sc + ps_quantity s,
                sc_excluded := sc_excluded sc @ [picker_excluded_entry s Excl_Reserved_For_Other]\<rparr>)
      else case picker_exclusion_reason s need pcase of
        Some r \<Rightarrow>
          sc\<lparr>sc_reserved_other := (if r = Excl_Reserved_For_Assignment \<or> r = Excl_Reserved_For_Other
               then sc_reserved_other sc + ps_quantity s else sc_reserved_other sc),
            sc_excluded := sc_excluded sc @ [picker_excluded_entry s r]\<rparr>
      | None \<Rightarrow> sc\<lparr>sc_matching := sc_matching sc @ [s]\<rparr>)"

definition scan_supplies :: "picker_case \<Rightarrow> picker_need \<Rightarrow> picker_supply list \<Rightarrow> picker_scan" where
  "scan_supplies pcase need supplies =
     fold (scan_supply pcase need) supplies
       \<lparr>sc_matching = [], sc_excluded = [], sc_reserved_other = 0, sc_soft_reserved = 0\<rparr>"

section \<open>The assessment of a need\<close>

text \<open>The default unit, "pieces" in Russian.\<close>

definition PIECES :: string where
  "PIECES = [CHR 0xD1, CHR 0x88, CHR 0xD1, CHR 0x82]"

definition opt_or :: "rat option \<Rightarrow> rat \<Rightarrow> rat" where
  "opt_or a b = (case a of None \<Rightarrow> b | Some x \<Rightarrow> x)"

text \<open>The branch: outcome, confirmed available, to issue, deficit, to purchase, advice, allowed.\<close>

definition picker_decide ::
  "bool \<Rightarrow> rat \<Rightarrow> rat \<Rightarrow> rat \<Rightarrow> picker_outcome \<times> rat \<times> rat \<times> rat \<times> rat \<times> picker_advice \<times> bool" where
  "picker_decide has_discrepancy available requested reserved_other =
     (if has_discrepancy \<and> available < requested then
        (Discrepancy_Return, 0, 0, requested, requested, Advice_Return_Discrepancy, False)
      else if available \<ge> requested then
        (Fully_Available, requested, requested, 0, 0, Advice_Issue_Full, True)
      else if available > 0 then
        (Partial_Issue, available, available, requested - available, requested - available,
         Advice_Issue_Partial, True)
      else
        (Deficit_Confirmed, 0, 0, requested, requested,
         if reserved_other > 0 then Advice_Reserved_Elsewhere reserved_other else Advice_Confirm_Deficit,
         False))"

record picker_numbers =
  nb_store_room :: rat
  nb_warehouse_stock :: rat
  nb_accounting :: rat
  nb_factual :: rat
  nb_available :: rat
  nb_discrepancy :: rat
  nb_has_discrepancy :: bool

definition need_numbers :: "picker_scan \<Rightarrow> picker_numbers" where
  "need_numbers sc =
     (let stock = filter (\<lambda>s. stock_source (ps_source_type s)) (sc_matching sc);
          store_room = sum_list (map ps_quantity
            (filter (\<lambda>s. ps_source_type s = Pk_Store_Room) (sc_matching sc)));
          warehouse_stock = sum_list (map ps_quantity stock);
          accounting = sum_list (map (\<lambda>s. opt_or (ps_accounting_quantity s) (ps_quantity s)) stock);
          factual = sum_list (map (\<lambda>s. opt_or (ps_factual_quantity s) (ps_quantity s)) stock);
          physical = (if warehouse_stock > 0 then warehouse_stock else store_room);
          available = physical - sc_soft_reserved sc;
          available = (if available < 0 then 0 else available);
          discrepancy = \<bar>accounting - factual\<bar>
      in \<lparr>nb_store_room = store_room, nb_warehouse_stock = warehouse_stock, nb_accounting = accounting,
          nb_factual = factual, nb_available = available, nb_discrepancy = discrepancy,
          nb_has_discrepancy = (discrepancy > 0 \<and> accounting > 0 \<and> factual \<ge> 0)\<rparr>)"

definition assess_need :: "picker_case \<Rightarrow> picker_supply list \<Rightarrow> picker_need \<Rightarrow> picker_line" where
  "assess_need pcase supplies need =
     (let sc = scan_supplies pcase need supplies;
          nb = need_numbers sc;
          requested = pn_requested_quantity need
      in case picker_decide (nb_has_discrepancy nb) (nb_available nb) requested (sc_reserved_other sc) of
        (outcome, confirmed_available, to_issue, deficit, to_purchase, advice, allowed) \<Rightarrow>
          \<lparr>pl_line_id = pn_line_id need, pl_nomenclature_id = pn_nomenclature_id need,
           pl_nomenclature_name = pn_nomenclature_name need,
           pl_characteristic_id = pn_characteristic_id need,
           pl_characteristic_name = pn_characteristic_name need,
           pl_unit = (if truthy (pn_unit need) then opt_str (pn_unit need) else PIECES),
           pl_requested_quantity = requested,
           pl_warehouse_id = target_warehouse need pcase, pl_warehouse_name = pc_warehouse_name pcase,
           pl_assignment_id = pn_assignment_id need, pl_assignment_name = pn_assignment_name need,
           pl_store_room_stock = nb_store_room nb, pl_warehouse_stock = nb_warehouse_stock nb,
           pl_accounting_quantity = nb_accounting nb, pl_factual_quantity = nb_factual nb,
           pl_available_for_issue = nb_available nb, pl_reserved_other_quantity = sc_reserved_other sc,
           pl_discrepancy_quantity = nb_discrepancy nb, pl_has_discrepancy = nb_has_discrepancy nb,
           pl_confirmed_available = confirmed_available, pl_confirmed_deficit = deficit,
           pl_quantity_to_issue = to_issue, pl_quantity_to_purchase = to_purchase,
           pl_outcome = outcome, pl_recommendation = advice, pl_issue_allowed = allowed,
           pl_evidence_ids = map (opt_str \<circ> ps_evidence_id)
             (filter (\<lambda>s. truthy (ps_evidence_id s)) (sc_matching sc)),
           pl_excluded_supply = sc_excluded sc\<rparr>)"

section \<open>The case\<close>

definition picker_conclude :: "picker_line list \<Rightarrow> picker_conclusion" where
  "picker_conclude positions =
     \<lparr>con_requested = sum_list (map pl_requested_quantity positions),
      con_available = sum_list (map pl_confirmed_available positions),
      con_deficit = sum_list (map pl_confirmed_deficit positions),
      con_issue = sum_list (map pl_quantity_to_issue positions),
      con_purchase = sum_list (map pl_quantity_to_purchase positions),
      con_positions = length positions,
      con_deficit_positions = length (filter (\<lambda>p. pl_confirmed_deficit p > 0) positions)\<rparr>"

definition picker_case_decision :: "picker_line list \<Rightarrow> picker_decision \<times> picker_summary" where
  "picker_case_decision positions =
     (let has_discrepancy = list_ex (\<lambda>p. pl_has_discrepancy p \<and> pl_outcome p = Discrepancy_Return) positions;
          deficit_count = length (filter (\<lambda>p. pl_confirmed_deficit p > 0) positions);
          has_deficit = (deficit_count > 0);
          has_issue = list_ex (\<lambda>p. pl_quantity_to_issue p > 0) positions
      in if has_discrepancy then (Pk_Discrepancy_Return, Sum_Discrepancy)
         else if has_deficit \<and> has_issue then (Pk_Stock_Confirmation, Sum_Deficit_And_Issue deficit_count)
         else if has_deficit then (Pk_Deficit_Confirmation, Sum_Deficit deficit_count)
         else if has_issue then (Pk_Stock_Confirmation, Sum_Issue_Only)
         else (Pk_None, Sum_No_Deficit))"

definition calculate_picker_assessment ::
  "picker_case \<Rightarrow> picker_need list \<Rightarrow> picker_supply list \<Rightarrow> string list \<Rightarrow> picker_output" where
  "calculate_picker_assessment pcase needs supplies capability_issues =
     (let capabilities = uniq capability_issues;
          issues = picker_validate_case pcase needs;
          missing = map Missing_Issue issues @ map Missing_Capability capabilities
      in if issues \<noteq> [] then
           \<lparr>po_positions = [], po_validation_issues = issues, po_missing_data = missing,
            po_excluded_capabilities = capabilities, po_summary = Sum_Insufficient_Data,
            po_decision_kind = Pk_Critical_Acknowledgement, po_conclusion = None\<rparr>
         else
           (let positions = map (assess_need pcase supplies) needs;
                decision = picker_case_decision positions
            in \<lparr>po_positions = positions, po_validation_issues = issues, po_missing_data = missing,
                po_excluded_capabilities = capabilities, po_summary = snd decision,
                po_decision_kind = fst decision, po_conclusion = Some (picker_conclude positions)\<rparr>))"

section \<open>What the scan collects\<close>

definition wanted :: "picker_need \<Rightarrow> picker_supply \<Rightarrow> bool" where
  "wanted need s \<longleftrightarrow> ps_nomenclature_id s = pn_nomenclature_id need"

text \<open>A usable supply of a need, and a soft reservation that counts against it.\<close>

definition usable :: "picker_case \<Rightarrow> picker_need \<Rightarrow> picker_supply \<Rightarrow> bool" where
  "usable pcase need s \<longleftrightarrow>
     wanted need s \<and> \<not> soft_reservation s \<and> picker_exclusion_reason s need pcase = None"

definition counted_reservation :: "picker_case \<Rightarrow> picker_need \<Rightarrow> picker_supply \<Rightarrow> bool" where
  "counted_reservation pcase need s \<longleftrightarrow>
     wanted need s \<and> soft_reservation s \<and> \<not> other_warehouse need pcase s"

definition quantity_of :: "(picker_supply \<Rightarrow> bool) \<Rightarrow> picker_supply list \<Rightarrow> rat" where
  "quantity_of P supplies = sum_list (map ps_quantity (filter P supplies))"

lemma quantity_of_simps [simp]:
  "quantity_of P [] = 0"
  "quantity_of P (s # ss) = (if P s then ps_quantity s + quantity_of P ss else quantity_of P ss)"
  by (simp_all add: quantity_of_def)

lemma quantity_of_nonneg: "\<forall>s \<in> set ss. 0 \<le> ps_quantity s \<Longrightarrow> 0 \<le> quantity_of P ss"
  by (induction ss) auto

lemma quantity_of_filter: "quantity_of P (filter Q ss) = quantity_of (\<lambda>s. Q s \<and> P s) ss"
  by (induction ss) auto

lemma scan_step:
  "sc_matching (scan_supply pcase need s sc) = sc_matching sc @ (if usable pcase need s then [s] else [])"
  "sc_soft_reserved (scan_supply pcase need s sc) =
     sc_soft_reserved sc + (if counted_reservation pcase need s then ps_quantity s else 0)"
  by (auto simp: scan_supply_def usable_def counted_reservation_def wanted_def split: option.splits)

lemma scan_fold:
  "sc_matching (fold (scan_supply pcase need) ss sc) = sc_matching sc @ filter (usable pcase need) ss \<and>
   sc_soft_reserved (fold (scan_supply pcase need) ss sc) =
     sc_soft_reserved sc + quantity_of (counted_reservation pcase need) ss"
  by (induction ss arbitrary: sc) (auto simp: scan_step)

lemma scan_supplies_facts:
  "sc_matching (scan_supplies pcase need ss) = filter (usable pcase need) ss"
  "sc_soft_reserved (scan_supplies pcase need ss) = quantity_of (counted_reservation pcase need) ss"
  using scan_fold[of pcase need ss] by (simp_all add: scan_supplies_def)

text \<open>Every supply of the wanted nomenclature is either usable, or excluded with a reason.\<close>

lemma scan_excluded:
  "set (map ex_supply_id (sc_excluded (fold (scan_supply pcase need) ss sc))) =
   set (map ex_supply_id (sc_excluded sc)) \<union>
   ps_supply_id ` {s \<in> set ss. wanted need s \<and> \<not> usable pcase need s}"
proof (induction ss arbitrary: sc)
  case Nil
  then show ?case by simp
next
  case (Cons s ss)
  have "set (map ex_supply_id (sc_excluded (scan_supply pcase need s sc))) =
    set (map ex_supply_id (sc_excluded sc)) \<union>
    (if wanted need s \<and> \<not> usable pcase need s then {ps_supply_id s} else {})"
    by (auto simp: scan_supply_def usable_def wanted_def picker_excluded_entry_def split: option.splits)
  with Cons.IH[of "scan_supply pcase need s sc"] show ?case by (simp only: fold_Cons comp_apply) auto
qed

definition usable_stock :: "picker_case \<Rightarrow> picker_need \<Rightarrow> picker_supply \<Rightarrow> bool" where
  "usable_stock pcase need s \<longleftrightarrow> usable pcase need s \<and> stock_source (ps_source_type s)"

section \<open>The assessment of a need\<close>

lemma picker_decide_cases:
  "picker_decide disc av rq ro = (outcome, confirmed, issue, deficit, purchase, advice, allowed) \<Longrightarrow>
   0 \<le> av \<Longrightarrow> 0 < rq \<Longrightarrow>
   issue + purchase = rq \<and> confirmed = issue \<and> deficit = purchase \<and> 0 \<le> issue \<and> issue \<le> av \<and> 0 \<le> purchase \<and>
   (allowed \<longleftrightarrow> 0 < issue) \<and> (disc \<and> av < rq \<longrightarrow> issue = 0 \<and> outcome = Discrepancy_Return) \<and>
   (\<not> (disc \<and> av < rq) \<longrightarrow> issue = min av rq \<and> outcome \<noteq> Discrepancy_Return)"
  by (auto simp: picker_decide_def split: if_splits)

lemma assess_need_decision:
  assumes l: "l = assess_need pcase supplies need"
  shows "\<exists>outcome confirmed issue deficit purchase advice allowed.
    picker_decide (pl_has_discrepancy l) (pl_available_for_issue l) (pn_requested_quantity need)
      (pl_reserved_other_quantity l) = (outcome, confirmed, issue, deficit, purchase, advice, allowed) \<and>
    pl_available_for_issue l = nb_available (need_numbers (scan_supplies pcase need supplies)) \<and>
    pl_requested_quantity l = pn_requested_quantity need \<and>
    pl_outcome l = outcome \<and> pl_confirmed_available l = confirmed \<and> pl_quantity_to_issue l = issue \<and>
    pl_confirmed_deficit l = deficit \<and> pl_quantity_to_purchase l = purchase \<and> pl_issue_allowed l = allowed"
proof -
  let ?nb = "need_numbers (scan_supplies pcase need supplies)"
  obtain outcome confirmed issue deficit purchase advice allowed where
    "picker_decide (nb_has_discrepancy ?nb) (nb_available ?nb) (pn_requested_quantity need)
      (sc_reserved_other (scan_supplies pcase need supplies)) =
     (outcome, confirmed, issue, deficit, purchase, advice, allowed)"
    by (metis prod_cases7)
  then show ?thesis unfolding l by (simp add: assess_need_def Let_def)
qed

lemma assess_need_numbers:
  assumes "\<forall>s \<in> set supplies. 0 \<le> ps_quantity s"
  shows "pl_available_for_issue (assess_need pcase supplies need) =
      max 0 (quantity_of (usable_stock pcase need) supplies - quantity_of (counted_reservation pcase need) supplies)"
proof -
  let ?wh = "quantity_of (usable_stock pcase need) supplies"
  let ?sr = "quantity_of (\<lambda>s. usable pcase need s \<and> ps_source_type s = Pk_Store_Room) supplies"
  have us: "usable_stock pcase need = (\<lambda>s. usable pcase need s \<and> stock_source (ps_source_type s))"
    by (simp add: fun_eq_iff usable_stock_def)
  have st: "sum_list (map ps_quantity
      (filter (\<lambda>s. usable pcase need s \<and> stock_source (ps_source_type s)) supplies)) = ?wh"
    by (simp add: quantity_of_def us)
  have sr: "sum_list (map ps_quantity
      (filter (\<lambda>s. usable pcase need s \<and> ps_source_type s = Pk_Store_Room) supplies)) = ?sr"
    by (simp add: quantity_of_def)
  have "0 \<le> ?sr \<and> ?sr \<le> ?wh"
    unfolding us using assms by (induction supplies) (auto simp: stock_source_def)
  then have "(if ?wh > 0 then ?wh else ?sr) = ?wh" by auto
  then have "nb_available (need_numbers (scan_supplies pcase need supplies)) =
      max 0 (?wh - quantity_of (counted_reservation pcase need) supplies)"
    by (simp only: need_numbers_def Let_def scan_supplies_facts filter_filter st sr picker_numbers.simps)
       (simp add: max_def)
  then show ?thesis using assess_need_decision[OF refl, of pcase supplies need] by metis
qed

text \<open>The shape of every line of a well-formed case.\<close>

lemma assess_need_shape:
  assumes "0 < pn_requested_quantity need" "\<forall>s \<in> set supplies. 0 \<le> ps_quantity s"
    and "l = assess_need pcase supplies need"
  shows "pl_quantity_to_issue l + pl_quantity_to_purchase l = pn_requested_quantity need"
    and "pl_requested_quantity l = pn_requested_quantity need"
    and "pl_confirmed_available l = pl_quantity_to_issue l"
    and "pl_confirmed_deficit l = pl_quantity_to_purchase l"
    and "0 \<le> pl_quantity_to_issue l" "0 \<le> pl_quantity_to_purchase l"
    and "pl_outcome l = Discrepancy_Return \<Longrightarrow> pl_has_discrepancy l"
proof -
  obtain outcome confirmed issue deficit purchase advice allowed where
    d: "picker_decide (pl_has_discrepancy l) (pl_available_for_issue l) (pn_requested_quantity need)
      (pl_reserved_other_quantity l) = (outcome, confirmed, issue, deficit, purchase, advice, allowed)"
    and l: "pl_requested_quantity l = pn_requested_quantity need" "pl_outcome l = outcome"
      "pl_confirmed_available l = confirmed" "pl_quantity_to_issue l = issue"
      "pl_confirmed_deficit l = deficit" "pl_quantity_to_purchase l = purchase"
    using assess_need_decision[OF assms(3)] by blast
  have "0 \<le> pl_available_for_issue l" by (simp add: assess_need_numbers[OF assms(2)] assms(3))
  note c = picker_decide_cases[OF d this assms(1)]
  show "pl_quantity_to_issue l + pl_quantity_to_purchase l = pn_requested_quantity need"
    "pl_requested_quantity l = pn_requested_quantity need"
    "pl_confirmed_available l = pl_quantity_to_issue l"
    "pl_confirmed_deficit l = pl_quantity_to_purchase l"
    "0 \<le> pl_quantity_to_issue l" "0 \<le> pl_quantity_to_purchase l"
    "pl_outcome l = Discrepancy_Return \<Longrightarrow> pl_has_discrepancy l"
    using c by (auto simp: l)
qed

lemma sum_list_pos_iff:
  fixes f :: "'a \<Rightarrow> rat"
  shows "\<forall>x \<in> set xs. 0 \<le> f x \<Longrightarrow> 0 < sum_list (map f xs) \<longleftrightarrow> (\<exists>x \<in> set xs. 0 < f x)"
proof (induction xs)
  case (Cons x xs)
  have "0 \<le> sum_list (map f xs)" using Cons.prems by (intro sum_list_map_nonneg) auto
  with Cons show ?case by (auto simp: add_pos_nonneg add_nonneg_pos dest: order_antisym)
qed simp

text \<open>The decision of a case, from what every line satisfies.\<close>

definition sound_line :: "picker_line \<Rightarrow> bool" where
  "sound_line l \<longleftrightarrow> pl_quantity_to_issue l + pl_quantity_to_purchase l = pl_requested_quantity l \<and>
     0 \<le> pl_quantity_to_issue l \<and> 0 \<le> pl_quantity_to_purchase l \<and> 0 < pl_requested_quantity l \<and>
     pl_confirmed_deficit l = pl_quantity_to_purchase l \<and>
     (pl_outcome l = Discrepancy_Return \<longrightarrow> pl_has_discrepancy l)"

lemma picker_case_decision_iff:
  assumes "\<forall>l \<in> set ls. sound_line l" "ls \<noteq> []"
  shows "fst (picker_case_decision ls) =
    (if \<exists>l \<in> set ls. pl_outcome l = Discrepancy_Return then Pk_Discrepancy_Return
     else if \<exists>l \<in> set ls. 0 < pl_quantity_to_issue l then Pk_Stock_Confirmation
     else Pk_Deficit_Confirmation)"
proof -
  have "\<exists>l \<in> set ls. 0 < pl_confirmed_deficit l" if "\<not> (\<exists>l \<in> set ls. 0 < pl_quantity_to_issue l)"
    using that assms by (cases ls) (auto simp: sound_line_def)
  moreover have "list_ex (\<lambda>p. pl_has_discrepancy p \<and> pl_outcome p = Discrepancy_Return) ls \<longleftrightarrow>
      (\<exists>l \<in> set ls. pl_outcome l = Discrepancy_Return)"
    using assms(1) by (auto simp: sound_line_def list_ex_iff)
  ultimately show ?thesis
    by (auto simp: picker_case_decision_def Let_def list_ex_iff filter_empty_conv)
qed

lemma conclude_adds_up:
  assumes "\<forall>l \<in> set ls. sound_line l"
  shows "con_issue (picker_conclude ls) + con_purchase (picker_conclude ls) = con_requested (picker_conclude ls)"
    and "0 < con_issue (picker_conclude ls) \<longleftrightarrow> (\<exists>l \<in> set ls. 0 < pl_quantity_to_issue l)"
proof -
  show "con_issue (picker_conclude ls) + con_purchase (picker_conclude ls) = con_requested (picker_conclude ls)"
    using assms by (induction ls) (auto simp: picker_conclude_def sound_line_def algebra_simps)
  show "0 < con_issue (picker_conclude ls) \<longleftrightarrow> (\<exists>l \<in> set ls. 0 < pl_quantity_to_issue l)"
    using assms sum_list_pos_iff[of ls pl_quantity_to_issue] by (simp add: picker_conclude_def sound_line_def)
qed

section \<open>Properties\<close>

text \<open>
  The store-keeper never promises what is not there.  For a positive request and non-negative
  supplies, what a line says to issue and what it sends to purchase add up to the request; the
  issued part is at most the free stock: the quantities of the usable warehouse and store-room
  supplies of that nomenclature, less the reservations held for others; without an accounting
  discrepancy it is exactly the smaller of the request and the free stock, and with one that the
  free stock does not outweigh nothing is issued.  Issue is allowed exactly when something is
  issued.
\<close>

lemma picker_line_balanced:
  assumes "0 < pn_requested_quantity need" "\<forall>s \<in> set supplies. 0 \<le> ps_quantity s"
  shows "pl_quantity_to_issue (assess_need pcase supplies need) +
      pl_quantity_to_purchase (assess_need pcase supplies need) = pn_requested_quantity need \<and>
    pl_quantity_to_issue (assess_need pcase supplies need) =
      (if pl_has_discrepancy (assess_need pcase supplies need) \<and>
          max 0 (quantity_of (usable_stock pcase need) supplies -
            quantity_of (counted_reservation pcase need) supplies) < pn_requested_quantity need
       then 0
       else min (pn_requested_quantity need)
         (max 0 (quantity_of (usable_stock pcase need) supplies -
            quantity_of (counted_reservation pcase need) supplies))) \<and>
    (pl_issue_allowed (assess_need pcase supplies need) \<longleftrightarrow>
       0 < pl_quantity_to_issue (assess_need pcase supplies need))"
proof -
  let ?l = "assess_need pcase supplies need"
  obtain outcome confirmed issue deficit purchase advice allowed where
    d: "picker_decide (pl_has_discrepancy ?l) (pl_available_for_issue ?l) (pn_requested_quantity need)
      (pl_reserved_other_quantity ?l) = (outcome, confirmed, issue, deficit, purchase, advice, allowed)"
    and l: "pl_quantity_to_issue ?l = issue"
      "pl_quantity_to_purchase ?l = purchase" "pl_issue_allowed ?l = allowed"
    using assess_need_decision[of ?l pcase supplies need] by blast
  have "0 \<le> pl_available_for_issue ?l" by (simp add: assess_need_numbers[OF assms(2)])
  from picker_decide_cases[OF d this assms(1)] show ?thesis
    unfolding l assess_need_numbers[OF assms(2)] by (auto simp: min.commute)
qed

definition demo_need :: picker_need where
  "demo_need = \<lparr>pn_line_id = ''1'', pn_nomenclature_id = ''n'', pn_nomenclature_name = ''bolt'',
     pn_characteristic_id = None, pn_characteristic_name = None, pn_unit = None,
     pn_requested_quantity = 10, pn_warehouse_id = Some ''w'', pn_assignment_id = None,
     pn_assignment_name = None\<rparr>"

definition demo_supply :: "string \<Rightarrow> picker_source \<Rightarrow> rat \<Rightarrow> picker_supply" where
  "demo_supply i src q = \<lparr>ps_supply_id = i, ps_source_type = src, ps_nomenclature_id = ''n'',
     ps_quantity = q, ps_warehouse_id = Some ''w'', ps_assignment_id = None, ps_assignment_name = None,
     ps_accounting_quantity = None, ps_factual_quantity = None, ps_available_for_issue = True,
     ps_reserved_for_other = False, ps_quarantine = False, ps_defective = False, ps_blocked = False,
     ps_suitable = True, ps_exact_match = True, ps_use_allowed = True, ps_evidence_id = None\<rparr>"

definition demo_pcase :: picker_case where
  "demo_pcase = \<lparr>pc_case_id = ''c'', pc_source_1c_ref = ''r'', pc_warehouse_1c_ref = Some ''w'',
     pc_warehouse_name = None\<rparr>"

text \<open>The stock is not consumed between the lines of a case: two lines of one nomenclature are both
  promised the same seven pieces.\<close>

lemma picker_promises_stock_twice:
  "con_issue (picker_conclude (map (assess_need demo_pcase [demo_supply ''s'' Pk_Warehouse 7])
     [demo_need, demo_need\<lparr>pn_line_id := ''2''\<rparr>])) = 14"
  by code_simp

text \<open>
  The conclusion of a case that passes validation adds up: what is issued and what is purchased
  sum to the requested total over all lines.  The decision is a discrepancy return exactly when some
  line is returned for a discrepancy; otherwise it confirms stock exactly when something is issued,
  and confirms the deficit exactly when nothing is; a case with positive requests is never closed
  without a decision.
\<close>

lemma picker_case_adds_up:
  assumes "picker_validate_case pcase needs = []" "\<forall>n \<in> set needs. 0 < pn_requested_quantity n"
    and "\<forall>s \<in> set supplies. 0 \<le> ps_quantity s"
  shows "\<exists>c. po_conclusion (calculate_picker_assessment pcase needs supplies caps) = Some c \<and>
    con_issue c + con_purchase c = con_requested c \<and>
    con_requested c = sum_list (map pn_requested_quantity needs) \<and>
    po_decision_kind (calculate_picker_assessment pcase needs supplies caps) =
      (if \<exists>l \<in> set (po_positions (calculate_picker_assessment pcase needs supplies caps)).
            pl_outcome l = Discrepancy_Return
       then Pk_Discrepancy_Return
       else if 0 < con_issue c then Pk_Stock_Confirmation else Pk_Deficit_Confirmation)"
proof -
  let ?ls = "map (assess_need pcase supplies) needs"
  let ?c = "picker_conclude ?ls"
  have out: "po_conclusion (calculate_picker_assessment pcase needs supplies caps) = Some ?c"
    "po_positions (calculate_picker_assessment pcase needs supplies caps) = ?ls"
    "po_decision_kind (calculate_picker_assessment pcase needs supplies caps) = fst (picker_case_decision ?ls)"
    using assms(1) by (simp_all add: calculate_picker_assessment_def Let_def)
  have sound: "\<forall>l \<in> set ?ls. sound_line l"
  proof
    fix l assume "l \<in> set ?ls"
    then obtain n where n: "n \<in> set needs" "l = assess_need pcase supplies n" by auto
    with assms(2) have p: "0 < pn_requested_quantity n" by blast
    show "sound_line l" using assess_need_shape[OF p assms(3) n(2)] p by (simp add: sound_line_def)
  qed
  have ne: "?ls \<noteq> []" using assms(1) by (auto simp: picker_validate_case_def split: if_splits)
  have "pl_requested_quantity (assess_need pcase supplies n) = pn_requested_quantity n" for n
    using assess_need_decision[OF refl] by metis
  then have "con_requested ?c = sum_list (map pn_requested_quantity needs)"
    by (simp add: picker_conclude_def comp_def)
  with out conclude_adds_up[OF sound] picker_case_decision_iff[OF sound ne] show ?thesis by simp
qed

end
