(* ===== verification/Dispatcher.thy ===== *)
theory Dispatcher
  imports Decimals Slot_Rules Py_Strings
begin

text \<open>
  The production dispatcher's assessment (\<open>app/agents/production_dispatcher_agent/calculator.py\<close>,
  \<open>schemas.py\<close>): stock thresholds of a need line, the stock and the arrivals that count for it, the net
  deficit and the order quantity, the proposed way of supply, and the decision for the case.
  Instants are aware datetimes (\<open>_aware\<close> puts UTC on naive ones); texts shown to people are labels;
  the SHA-256 fingerprint and the \<open>formulas\<close> texts render the modelled numbers and are left out.
\<close>

section \<open>Data\<close>

datatype dispatcher_outcome =
    D_Fully_Covered | D_Reserve_Stock | D_Transfer_Proposed | D_Link_Incoming | D_Procurement_Required
  | D_Critical_Shortage | D_Clarification_Required | D_Already_Covered

datatype dispatcher_urgency = Urgency_Normal | Urgency_High | Urgency_Critical

datatype supply_source =
    Sup_Warehouse | Sup_Store_Room | Sup_In_Transit | Sup_In_Progress | Sup_Supplier_Order
  | Sup_Internal_Transfer | Sup_Work_In_Progress | Sup_Semifinished | Sup_Reservation | Sup_Existing_Case

record dispatcher_case =
  dc_case_id :: string
  dc_source_1c_ref :: string
  dc_warehouse_1c_ref :: "string option"
  dc_required_date :: "instant option"
  dc_stock_growth_coefficient :: rat

record dispatcher_need =
  dn_line_id :: string
  dn_nomenclature_id :: string
  dn_nomenclature_name :: string
  dn_unit :: "string option"
  dn_quantity :: rat
  dn_required_date :: "instant option"
  dn_warehouse_id :: "string option"
  dn_minimum_stock :: "rat option"
  dn_maximum_stock :: "rat option"
  dn_reorder_point :: "rat option"
  dn_stock_growth_coefficient :: "rat option"
  dn_lead_time_days :: "int option"
  dn_daily_consumption :: "rat option"
  dn_production_deficit :: "rat option"
  dn_package_multiple :: "rat option"

record dispatcher_supply =
  ds_supply_id :: string
  ds_source_type :: supply_source
  ds_nomenclature_id :: string
  ds_quantity :: rat
  ds_warehouse_id :: "string option"
  ds_available_at :: "instant option"
  ds_confirmed :: bool
  ds_reserved_for_other :: bool
  ds_incoming_control_passed :: bool
  ds_quarantine :: bool
  ds_defective :: bool
  ds_blocked :: bool
  ds_expired :: bool
  ds_suitable :: bool
  ds_exact_match :: bool
  ds_use_allowed :: bool
  ds_evidence_id :: "string option"

datatype dispatcher_issue =
    D_Missing_Source_Ref | D_No_Positions | D_Missing_Nomenclature string | D_Missing_Minimum string

definition blocking_issue :: "dispatcher_issue \<Rightarrow> bool" where
  "blocking_issue i \<longleftrightarrow> (case i of D_Missing_Minimum _ \<Rightarrow> False | _ \<Rightarrow> True)"

datatype dispatcher_missing = D_Missing_Issue dispatcher_issue | D_Missing_Capability string

datatype dispatcher_exclusion =
    DX_Reserved_For_Other | DX_Quarantine | DX_Defective | DX_Blocked | DX_Expired
  | DX_Incoming_Control_Failed | DX_Unconfirmed_Supply | DX_Unsuitable | DX_Analogue | DX_Non_Positive
  | DX_Already_Allocated

datatype supply_method = M_Reserve_Stock | M_Transfer | M_Link_Incoming | M_Procurement | M_None

record recommendation =
  rc_method :: supply_method
  rc_quantity :: rat
  rc_requires_confirmation :: bool

record excluded_supply =
  xs_supply_id :: string
  xs_source_type :: supply_source
  xs_quantity :: rat
  xs_reason :: dispatcher_exclusion
  xs_evidence_id :: "string option"

section \<open>Source types\<close>

definition FREE_STOCK_TYPES :: "supply_source list" where
  "FREE_STOCK_TYPES = [Sup_Warehouse, Sup_Store_Room]"

definition EXPECTED_TYPES :: "supply_source list" where
  "EXPECTED_TYPES = [Sup_In_Transit, Sup_In_Progress, Sup_Work_In_Progress]"

definition CONFIRMED_ARRIVAL_TYPES :: "supply_source list" where
  "CONFIRMED_ARRIVAL_TYPES = [Sup_Supplier_Order, Sup_Internal_Transfer, Sup_Semifinished] @ EXPECTED_TYPES"

definition OTHER_WAREHOUSE_TYPES :: "supply_source list" where
  "OTHER_WAREHOUSE_TYPES = [Sup_Warehouse, Sup_Store_Room]"

section \<open>Validation, exclusion, thresholds\<close>

definition ceil_multiple :: "rat \<Rightarrow> rat option \<Rightarrow> rat" where
  "ceil_multiple quantity multiple =
     (case multiple of
        None \<Rightarrow> quantity
      | Some m \<Rightarrow> if m \<le> 0 \<or> quantity \<le> 0 then quantity else ceil_to m quantity)"

definition dispatcher_validate_need :: "dispatcher_need \<Rightarrow> dispatcher_issue list" where
  "dispatcher_validate_need n =
     (if dn_nomenclature_id n = [] then [D_Missing_Nomenclature (dn_line_id n)] else []) @
     (if dn_minimum_stock n = None \<and> dn_reorder_point n = None then [D_Missing_Minimum (dn_line_id n)] else [])"

definition dispatcher_validate_case :: "dispatcher_case \<Rightarrow> dispatcher_need list \<Rightarrow> dispatcher_issue list" where
  "dispatcher_validate_case dcase needs =
     (if dc_source_1c_ref dcase = [] then [D_Missing_Source_Ref] else []) @
     (if needs = [] then [D_No_Positions] else []) @
     concat (map dispatcher_validate_need needs)"

definition dispatcher_exclusion_reason :: "dispatcher_supply \<Rightarrow> dispatcher_exclusion option" where
  "dispatcher_exclusion_reason s =
     (if ds_reserved_for_other s then Some DX_Reserved_For_Other
      else if ds_quarantine s then Some DX_Quarantine
      else if ds_defective s then Some DX_Defective
      else if ds_blocked s then Some DX_Blocked
      else if ds_expired s then Some DX_Expired
      else if \<not> ds_incoming_control_passed s \<and> ds_source_type s \<in> set FREE_STOCK_TYPES
        then Some DX_Incoming_Control_Failed
      else if \<not> ds_confirmed s \<and> ds_source_type s \<in> set CONFIRMED_ARRIVAL_TYPES
        then Some DX_Unconfirmed_Supply
      else if \<not> ds_suitable s \<or> \<not> ds_use_allowed s then Some DX_Unsuitable
      else if \<not> ds_exact_match s then Some DX_Analogue
      else if ds_quantity s \<le> 0 then Some DX_Non_Positive
      else None)"

text \<open>\<open>_d(value)\<close> of an optional decimal, and the truth value of one.\<close>

definition dec_or :: "rat option \<Rightarrow> rat \<Rightarrow> rat" where
  "dec_or v d = (case v of None \<Rightarrow> d | Some x \<Rightarrow> x)"

definition MILLI :: rat where "MILLI = 1 / 1000"

text \<open>The result is (minimum, maximum, reorder point, coefficient).\<close>

definition resolve_thresholds :: "dispatcher_need \<Rightarrow> rat \<Rightarrow> rat \<times> rat \<times> rat \<times> rat" where
  "resolve_thresholds need case_coefficient =
     (let coefficient = (if dec_or (dn_stock_growth_coefficient need) 0 \<noteq> 0
            then dec_or (dn_stock_growth_coefficient need) 0
            else if case_coefficient \<noteq> 0 then case_coefficient else 1);
          coefficient = (if coefficient \<le> 0 then 1 else coefficient);
          raw_min = dec_or (dn_minimum_stock need) 0;
          raw_max = dec_or (dn_maximum_stock need) 0;
          raw_max = (if raw_max \<le> 0 \<and> dn_quantity need > 0 then dn_quantity need else raw_max);
          raw_min = (if raw_min \<le> 0 \<and> raw_max > 0 then quantize MILLI (raw_max / 3) else raw_min);
          minimum = quantize MILLI (raw_min * coefficient);
          maximum = quantize MILLI (raw_max * coefficient);
          reorder_point = (case dn_reorder_point need of
              Some r \<Rightarrow> quantize MILLI (r * coefficient)
            | None \<Rightarrow>
                (case (dn_daily_consumption need, dn_lead_time_days need) of
                   (Some c, Some days) \<Rightarrow>
                     if c \<noteq> 0 then quantize MILLI (c * of_int days + minimum) else minimum
                 | _ \<Rightarrow> minimum));
          reorder_point = (if reorder_point < minimum then minimum else reorder_point);
          maximum = (if maximum < reorder_point then reorder_point else maximum)
      in (minimum, maximum, reorder_point, coefficient))"

definition urgency_of ::
  "bool \<Rightarrow> bool \<Rightarrow> rat \<Rightarrow> bool \<Rightarrow> instant option \<Rightarrow> instant \<Rightarrow> dispatcher_urgency" where
  "urgency_of below_minimum below_reorder net_deficit wait_allowed required_date now =
     (if below_minimum \<or> net_deficit > 0 \<and> \<not> wait_allowed then Urgency_Critical
      else if below_reorder \<or> net_deficit > 0 then
        (if (case required_date of Some d \<Rightarrow> d \<le> now + 3 * DAY | None \<Rightarrow> False) then Urgency_High
         else if below_reorder then Urgency_High else Urgency_Normal)
      else Urgency_Normal)"

section \<open>The supplies of a need\<close>

definition need_warehouse :: "dispatcher_need \<Rightarrow> dispatcher_case \<Rightarrow> string option" where
  "need_warehouse need dcase = or_str (dn_warehouse_id need) (dc_warehouse_1c_ref dcase)"

definition here :: "dispatcher_need \<Rightarrow> dispatcher_case \<Rightarrow> dispatcher_supply \<Rightarrow> bool" where
  "here need dcase s \<longleftrightarrow> \<not> truthy (ds_warehouse_id s) \<or> ds_warehouse_id s = need_warehouse need dcase"

definition supply_sort_key ::
  "dispatcher_need \<Rightarrow> dispatcher_case \<Rightarrow> instant \<Rightarrow> dispatcher_supply \<Rightarrow> nat \<times> instant \<times> string" where
  "supply_sort_key need dcase now s =
     (if ds_source_type s \<in> set FREE_STOCK_TYPES \<and> here need dcase s then 0 else 1,
      case ds_available_at s of Some t \<Rightarrow> t | None \<Rightarrow> now,
      ds_supply_id s)"

text \<open>\<open>remaining = {item.supply_id: item.quantity for item in supplies}\<close>; nothing decrements it.\<close>

definition remaining_quantities :: "dispatcher_supply list \<Rightarrow> (string, rat) dict" where
  "remaining_quantities supplies = fold (\<lambda>s. dict_set (ds_supply_id s) (ds_quantity s)) supplies []"

fun split_supplies ::
  "dispatcher_need \<Rightarrow> (string, rat) dict \<Rightarrow> dispatcher_supply list \<Rightarrow>
   (dispatcher_supply \<times> rat) list \<times> excluded_supply list" where
  "split_supplies need remaining [] = ([], [])"
| "split_supplies need remaining (s # ss) =
     (let (included, excluded) = split_supplies need remaining ss
      in if ds_nomenclature_id s \<noteq> dn_nomenclature_id need then (included, excluded)
         else
           (let reason = dispatcher_exclusion_reason s;
                available_quantity = dict_get_or remaining (ds_supply_id s) 0
            in if reason \<noteq> None \<or> available_quantity \<le> 0 then
                 (included,
                  \<lparr>xs_supply_id = ds_supply_id s, xs_source_type = ds_source_type s, xs_quantity = ds_quantity s,
                   xs_reason = (case reason of Some r \<Rightarrow> r | None \<Rightarrow> DX_Already_Allocated),
                   xs_evidence_id = ds_evidence_id s\<rparr> # excluded)
               else ((s, available_quantity) # included, excluded)))"

definition sum_where :: "(dispatcher_supply \<Rightarrow> bool) \<Rightarrow> (dispatcher_supply \<times> rat) list \<Rightarrow> rat" where
  "sum_where P included = sum_list (map snd (filter (\<lambda>(s, _). P s) included))"

record stock_numbers =
  st_free :: rat
  st_store_room :: rat
  st_other :: rat
  st_in_transit :: rat
  st_in_progress :: rat
  st_confirmed :: rat

definition count_stock ::
  "dispatcher_need \<Rightarrow> dispatcher_case \<Rightarrow> (dispatcher_supply \<times> rat) list \<Rightarrow> stock_numbers" where
  "count_stock need dcase included =
     \<lparr>st_free = sum_where (\<lambda>s. ds_source_type s \<in> set FREE_STOCK_TYPES \<and> here need dcase s) included,
      st_store_room = sum_where (\<lambda>s. ds_source_type s = Sup_Store_Room) included,
      st_other = sum_where (\<lambda>s. ds_source_type s \<in> set OTHER_WAREHOUSE_TYPES \<and> truthy (ds_warehouse_id s) \<and>
        ds_warehouse_id s \<noteq> need_warehouse need dcase) included,
      st_in_transit = sum_where (\<lambda>s. ds_source_type s = Sup_In_Transit) included,
      st_in_progress = sum_where
        (\<lambda>s. ds_source_type s = Sup_In_Progress \<or> ds_source_type s = Sup_Work_In_Progress) included,
      st_confirmed = sum_where
        (\<lambda>s. ds_source_type s \<in> set CONFIRMED_ARRIVAL_TYPES \<and> ds_confirmed s) included\<rparr>"

section \<open>The figures and the proposal of a line\<close>

record line_figures =
  fg_stock_position :: rat
  fg_forecast :: rat
  fg_below_minimum :: bool
  fg_below_reorder :: bool
  fg_available_to_date :: rat
  fg_net_deficit :: rat
  fg_recommended :: rat

definition line_figures ::
  "stock_numbers \<Rightarrow> rat \<Rightarrow> rat \<Rightarrow> rat \<Rightarrow> rat \<Rightarrow> rat option \<Rightarrow> line_figures" where
  "line_figures st demand minimum maximum reorder_point multiple =
     (let position = st_free st + st_confirmed st - demand;
          position = (if position < 0 then 0 else position);
          forecast = st_free st + (st_in_transit st + st_in_progress st) - demand;
          below_minimum = (st_free st < minimum);
          below_reorder = (position < reorder_point \<or> forecast < reorder_point);
          available_to_date = st_free st + st_confirmed st + st_other st;
          net_deficit = max 0 (demand - available_to_date);
          net_deficit = (if below_minimum \<and> net_deficit \<le> 0 then max 0 (maximum - position) else net_deficit);
          recommended = max 0 (maximum - position);
          recommended = (if demand > available_to_date then max recommended (demand - available_to_date)
            else recommended)
      in \<lparr>fg_stock_position = position, fg_forecast = forecast, fg_below_minimum = below_minimum,
          fg_below_reorder = below_reorder, fg_available_to_date = available_to_date,
          fg_net_deficit = net_deficit, fg_recommended = ceil_multiple recommended multiple\<rparr>)"

definition wait_allowed_for :: "dispatcher_need \<Rightarrow> instant option \<Rightarrow> instant \<Rightarrow> bool" where
  "wait_allowed_for need required_date now =
     (case (dn_lead_time_days need, required_date) of
        (Some days, Some d) \<Rightarrow> now + days * DAY \<le> d
      | _ \<Rightarrow> True)"

definition propose ::
  "stock_numbers \<Rightarrow> line_figures \<Rightarrow> rat \<Rightarrow> bool \<Rightarrow> dispatcher_outcome \<times> recommendation list" where
  "propose st fg demand wait_allowed =
     (if st_free st \<ge> demand \<and> \<not> fg_below_minimum fg then
        (D_Reserve_Stock, [\<lparr>rc_method = M_Reserve_Stock, rc_quantity = demand, rc_requires_confirmation = True\<rparr>])
      else if st_free st \<ge> demand \<and> fg_below_minimum fg then
        (D_Procurement_Required,
         [\<lparr>rc_method = M_Reserve_Stock, rc_quantity = demand, rc_requires_confirmation = True\<rparr>,
          \<lparr>rc_method = M_Procurement, rc_quantity = fg_recommended fg, rc_requires_confirmation = True\<rparr>])
      else if st_other st > 0 \<and> st_free st + st_other st \<ge> demand then
        (D_Transfer_Proposed,
         [\<lparr>rc_method = M_Transfer, rc_quantity = min (st_other st) (max 0 (demand - st_free st)),
           rc_requires_confirmation = True\<rparr>])
      else if st_confirmed st > 0 \<and> st_free st + st_confirmed st \<ge> demand then
        (D_Link_Incoming,
         [\<lparr>rc_method = M_Link_Incoming, rc_quantity = max 0 (demand - st_free st),
           rc_requires_confirmation = True\<rparr>])
      else if fg_net_deficit fg \<le> 0 \<and> \<not> fg_below_reorder fg then
        (D_Already_Covered, [\<lparr>rc_method = M_None, rc_quantity = 0, rc_requires_confirmation = False\<rparr>])
      else
        (if fg_below_minimum fg \<or> \<not> wait_allowed then D_Critical_Shortage else D_Procurement_Required,
         [\<lparr>rc_method = M_Procurement, rc_quantity = fg_recommended fg, rc_requires_confirmation = True\<rparr>]))"

fun supply_breakdown ::
  "(dispatcher_supply \<times> rat) list \<Rightarrow> (supply_source, rat \<times> string list) dict \<Rightarrow>
   (supply_source, rat \<times> string list) dict" where
  "supply_breakdown [] acc = acc"
| "supply_breakdown ((s, qty) # included) acc =
     (if qty \<le> 0 then supply_breakdown included acc
      else (case dict_get_or acc (ds_source_type s) (0, []) of (tot, ids) \<Rightarrow>
        supply_breakdown included (dict_set (ds_source_type s) (tot + qty, ids @ [ds_supply_id s]) acc)))"

record dispatcher_line =
  dl_line_id :: string
  dl_nomenclature_id :: string
  dl_unit :: string
  dl_warehouse_id :: "string option"
  dl_minimum :: rat
  dl_maximum :: rat
  dl_reorder_point :: rat
  dl_coefficient :: rat
  dl_stock :: stock_numbers
  dl_demand :: rat
  dl_figures :: line_figures
  dl_required_date :: "instant option"
  dl_urgency :: dispatcher_urgency
  dl_wait_allowed :: bool
  dl_outcome :: dispatcher_outcome
  dl_recommendations :: "recommendation list"
  dl_breakdown :: "(supply_source, rat \<times> string list) dict"
  dl_excluded :: "excluded_supply list"
  dl_evidence_ids :: "string list"

definition assess_line ::
  "dispatcher_case \<Rightarrow> dispatcher_supply list \<Rightarrow> instant \<Rightarrow> dispatcher_need \<Rightarrow> dispatcher_line" where
  "assess_line dcase supplies now need =
     (case resolve_thresholds need (dc_stock_growth_coefficient dcase) of
        (minimum, maximum, reorder_point, coefficient) \<Rightarrow>
          (let required_date = (case dn_required_date need of Some d \<Rightarrow> Some d | None \<Rightarrow> dc_required_date dcase);
               demand = dec_or (dn_production_deficit need) (dn_quantity need);
               split = split_supplies need (remaining_quantities supplies)
                 (sort_key (supply_sort_key need dcase now) supplies);
               included = fst split;
               st = count_stock need dcase included;
               fg = line_figures st demand minimum maximum reorder_point (dn_package_multiple need);
               wait_allowed = wait_allowed_for need required_date now;
               proposal = propose st fg demand wait_allowed
           in \<lparr>dl_line_id = dn_line_id need, dl_nomenclature_id = dn_nomenclature_id need,
               dl_unit = opt_str (dn_unit need), dl_warehouse_id = need_warehouse need dcase,
               dl_minimum = minimum, dl_maximum = maximum, dl_reorder_point = reorder_point,
               dl_coefficient = coefficient, dl_stock = st, dl_demand = demand, dl_figures = fg,
               dl_required_date = required_date,
               dl_urgency = urgency_of (fg_below_minimum fg) (fg_below_reorder fg) (fg_net_deficit fg)
                 wait_allowed required_date now,
               dl_wait_allowed = wait_allowed, dl_outcome = fst proposal, dl_recommendations = snd proposal,
               dl_breakdown = supply_breakdown included [], dl_excluded = snd split,
               dl_evidence_ids = map (opt_str \<circ> ds_evidence_id \<circ> fst)
                 (filter (\<lambda>(s, _). truthy (ds_evidence_id s)) included)\<rparr>))"

section \<open>The case\<close>

datatype dispatcher_decision = D_Supply_Confirmation | D_Critical_Acknowledgement | D_No_Decision

record dispatcher_output =
  do_positions :: "dispatcher_line list"
  do_validation_issues :: "dispatcher_issue list"
  do_missing_data :: "dispatcher_missing list"
  do_excluded_capabilities :: "string list"
  do_decision_kind :: dispatcher_decision
  do_summary_counts :: "(nat \<times> nat) option"

definition line_has_deficit :: "dispatcher_line \<Rightarrow> bool" where
  "line_has_deficit l \<longleftrightarrow> fg_net_deficit (dl_figures l) > 0 \<or>
     dl_outcome l \<in> {D_Procurement_Required, D_Critical_Shortage, D_Transfer_Proposed, D_Link_Incoming}"

definition line_is_critical :: "dispatcher_line \<Rightarrow> bool" where
  "line_is_critical l \<longleftrightarrow> dl_urgency l = Urgency_Critical \<or> dl_outcome l = D_Critical_Shortage"

definition calculate_dispatcher_assessment ::
  "dispatcher_case \<Rightarrow> dispatcher_need list \<Rightarrow> dispatcher_supply list \<Rightarrow> string list \<Rightarrow> instant \<Rightarrow>
   dispatcher_output" where
  "calculate_dispatcher_assessment dcase needs supplies capability_issues now =
     (let capabilities = uniq capability_issues;
          issues = dispatcher_validate_case dcase needs;
          missing = map D_Missing_Issue (filter blocking_issue issues) @ map D_Missing_Capability capabilities
      in if list_ex blocking_issue issues then
           \<lparr>do_positions = [], do_validation_issues = issues, do_missing_data = missing,
            do_excluded_capabilities = capabilities, do_decision_kind = D_Critical_Acknowledgement,
            do_summary_counts = None\<rparr>
         else
           (let positions = map (assess_line dcase supplies now) needs
            in \<lparr>do_positions = positions, do_validation_issues = issues, do_missing_data = missing,
                do_excluded_capabilities = capabilities,
                do_decision_kind = (if list_ex line_is_critical positions \<or> list_ex line_has_deficit positions
                  then D_Supply_Confirmation else D_No_Decision),
                do_summary_counts =
                  (if list_ex line_is_critical positions \<or> list_ex line_has_deficit positions
                   then Some (length (filter (\<lambda>l. fg_below_minimum (dl_figures l)) positions),
                              length (filter (\<lambda>l. fg_net_deficit (dl_figures l) > 0) positions))
                   else None)\<rparr>))"

section \<open>Thresholds and order quantities\<close>

lemma ceil_multiple_props:
  assumes "\<forall>m. multiple = Some m \<longrightarrow> 0 < m"
  shows "q \<le> ceil_multiple q multiple"
    and "multiple = Some m \<Longrightarrow> 0 < q \<Longrightarrow> (\<exists>k::int. ceil_multiple q multiple = of_int k * m) \<and> ceil_multiple q multiple < q + m"
proof -
  show "q \<le> ceil_multiple q multiple"
    using assms ceil_to_ge by (auto simp: ceil_multiple_def split: option.splits)
  assume m: "multiple = Some m" "0 < q"
  with assms have "0 < m" by blast
  with m show "(\<exists>k::int. ceil_multiple q multiple = of_int k * m) \<and> ceil_multiple q multiple < q + m"
    using ceil_to_near[of m q] by (auto simp: ceil_multiple_def ceil_to_def abs_less_iff)
qed

text \<open>The order quantity before rounding to packages.\<close>

definition order_need :: "stock_numbers \<Rightarrow> rat \<Rightarrow> rat \<Rightarrow> rat" where
  "order_need st demand maximum =
     max (max 0 (maximum - max 0 (st_free st + st_confirmed st - demand)))
       (demand - (st_free st + st_confirmed st + st_other st))"

lemma line_figures_simps:
  "fg_stock_position (line_figures st demand mn mx rp multiple) = max 0 (st_free st + st_confirmed st - demand)"
  "fg_below_minimum (line_figures st demand mn mx rp multiple) \<longleftrightarrow> st_free st < mn"
  "fg_available_to_date (line_figures st demand mn mx rp multiple) = st_free st + st_confirmed st + st_other st"
  "fg_recommended (line_figures st demand mn mx rp multiple) = ceil_multiple (order_need st demand mx) multiple"
proof -
  let ?r = "max 0 (mx - max 0 (st_free st + st_confirmed st - demand))"
  let ?a = "st_free st + st_confirmed st + st_other st"
  have p: "(if x < 0 then 0 else x) = max 0 x" for x :: rat by (simp add: max_def)
  have o: "(if ?a < demand then max ?r (demand - ?a) else ?r) = max ?r (demand - ?a)" by (simp add: max_def)
  show "fg_stock_position (line_figures st demand mn mx rp multiple) = max 0 (st_free st + st_confirmed st - demand)"
    "fg_below_minimum (line_figures st demand mn mx rp multiple) \<longleftrightarrow> st_free st < mn"
    "fg_available_to_date (line_figures st demand mn mx rp multiple) = ?a"
    "fg_recommended (line_figures st demand mn mx rp multiple) = ceil_multiple (order_need st demand mx) multiple"
    by (simp_all only: line_figures_def Let_def line_figures.simps order_need_def p o)
qed

lemma line_figures_deficit:
  "fg_net_deficit (line_figures st demand mn mx rp multiple) \<le> 0 \<Longrightarrow>
   demand \<le> st_free st + st_confirmed st + st_other st"
  by (auto simp: line_figures_def Let_def split: if_splits)

section \<open>Which supplies count\<close>

definition counts_for :: "dispatcher_need \<Rightarrow> dispatcher_supply \<Rightarrow> bool" where
  "counts_for need s \<longleftrightarrow> ds_nomenclature_id s = dn_nomenclature_id need \<and> dispatcher_exclusion_reason s = None"

lemma usable_positive: "dispatcher_exclusion_reason s = None \<Longrightarrow> 0 < ds_quantity s"
  by (auto simp: dispatcher_exclusion_reason_def split: if_splits)

lemma counts_for_positive: "counts_for need s \<Longrightarrow> 0 < ds_quantity s"
  by (auto simp: counts_for_def dispatcher_exclusion_reason_def split: if_splits)

lemma remaining_get:
  assumes "distinct (map ds_supply_id ss)" "s \<in> set ss"
  shows "dict_get_or (remaining_quantities ss) (ds_supply_id s) 0 = ds_quantity s"
proof -
  have "dict_get (fold (\<lambda>s. dict_set (ds_supply_id s) (ds_quantity s)) ss d) i =
      (case find (\<lambda>s. ds_supply_id s = i) ss of Some s \<Rightarrow> Some (ds_quantity s) | None \<Rightarrow> dict_get d i)"
    if "distinct (map ds_supply_id ss)" for d i
    using that
  proof (induction ss arbitrary: d)
    case (Cons a ss)
    have "find (\<lambda>s. ds_supply_id s = ds_supply_id a) ss = None"
      using Cons.prems by (auto simp: find_None_iff) (metis image_eqI)
    with Cons show ?case by (auto split: option.splits)
  qed simp
  note f = this[OF assms(1), of "[]" "ds_supply_id s"]
  have "find (\<lambda>t. ds_supply_id t = ds_supply_id s) ss = Some s"
    using assms
  proof (induction ss)
    case (Cons a ss)
    then show ?case by (cases "a = s") (auto dest: imageI[of _ _ ds_supply_id])
  qed simp
  with f show ?thesis by (simp add: remaining_quantities_def dict_get_or_def)
qed

lemma split_supplies_included:
  assumes "\<And>s. s \<in> set ss \<Longrightarrow> dict_get_or remaining (ds_supply_id s) 0 = ds_quantity s"
  shows "fst (split_supplies need remaining ss) = map (\<lambda>s. (s, ds_quantity s)) (filter (counts_for need) ss)"
    and "map xs_supply_id (snd (split_supplies need remaining ss)) =
      map ds_supply_id (filter (\<lambda>s. ds_nomenclature_id s = dn_nomenclature_id need \<and> \<not> counts_for need s) ss)"
proof -
  have "fst (split_supplies need remaining ss) = map (\<lambda>s. (s, ds_quantity s)) (filter (counts_for need) ss) \<and>
    map xs_supply_id (snd (split_supplies need remaining ss)) =
      map ds_supply_id (filter (\<lambda>s. ds_nomenclature_id s = dn_nomenclature_id need \<and> \<not> counts_for need s) ss)"
    using assms
  proof (induction ss)
    case (Cons s ss)
    obtain a b where ab: "split_supplies need remaining ss = (a, b)" by fastforce
    have q: "dict_get_or remaining (ds_supply_id s) 0 = ds_quantity s" using Cons.prems by simp
    show ?case using Cons usable_positive[of s]
      by (cases "dispatcher_exclusion_reason s") (auto simp: ab Let_def q counts_for_def)
  qed simp
  then show "fst (split_supplies need remaining ss) = map (\<lambda>s. (s, ds_quantity s)) (filter (counts_for need) ss)"
    "map xs_supply_id (snd (split_supplies need remaining ss)) =
      map ds_supply_id (filter (\<lambda>s. ds_nomenclature_id s = dn_nomenclature_id need \<and> \<not> counts_for need s) ss)"
    by blast+
qed

definition quantity_where :: "(dispatcher_supply \<Rightarrow> bool) \<Rightarrow> dispatcher_supply list \<Rightarrow> rat" where
  "quantity_where P ss = sum_list (map ds_quantity (filter P ss))"

lemma quantity_where_perm: "mset xs = mset ys \<Longrightarrow> quantity_where P xs = quantity_where P ys"
  unfolding quantity_where_def by (metis mset_filter mset_map sum_mset_sum_list)

lemma sum_where_included:
  "sum_where P (map (\<lambda>s. (s, ds_quantity s)) (filter Q ss)) = quantity_where (\<lambda>s. Q s \<and> P s) ss"
  by (induction ss) (auto simp: sum_where_def quantity_where_def)

lemma quantity_where_counts_nonneg: "0 \<le> quantity_where (\<lambda>s. counts_for need s \<and> P s) ss"
  by (induction ss) (auto simp: quantity_where_def dest!: counts_for_positive)

lemma assess_line_fields:
  assumes "resolve_thresholds need (dc_stock_growth_coefficient dcase) = (mn, mx, rp, c)"
    and "l = assess_line dcase supplies now need"
  shows "dl_minimum l = mn" "dl_maximum l = mx" "dl_reorder_point l = rp"
    and "dl_demand l = dec_or (dn_production_deficit need) (dn_quantity need)"
    and "dl_stock l = count_stock need dcase (fst (split_supplies need (remaining_quantities supplies)
           (sort_key (supply_sort_key need dcase now) supplies)))"
    and "dl_figures l = line_figures (dl_stock l) (dl_demand l) mn mx rp (dn_package_multiple need)"
    and "(dl_outcome l, dl_recommendations l) =
      propose (dl_stock l) (dl_figures l) (dl_demand l) (dl_wait_allowed l)"
  using assms by (simp_all add: assess_line_def Let_def)

lemma included_of_assess:
  assumes "distinct (map ds_supply_id supplies)"
  shows "fst (split_supplies need (remaining_quantities supplies) (sort_key k supplies)) =
    map (\<lambda>s. (s, ds_quantity s)) (filter (counts_for need) (sort_key k supplies))"
  by (rule split_supplies_included) (simp add: remaining_get[OF assms])

section \<open>Properties\<close>

text \<open>
  The thresholds of a need line are ordered: for non-negative stock parameters, whatever is given
  or missing, 0 \<open>\<le>\<close> minimum \<open>\<le>\<close> reorder point \<open>\<le>\<close> maximum, and the growth coefficient used is
  positive.
\<close>

lemma thresholds_ordered:
  assumes "resolve_thresholds need case_coefficient = (minimum, maximum, reorder_point, coefficient)"
    and "\<And>x. dn_minimum_stock need = Some x \<Longrightarrow> 0 \<le> x"
  shows "0 \<le> minimum \<and> minimum \<le> reorder_point \<and> reorder_point \<le> maximum \<and> 0 < coefficient"
proof -
  define coef where "coef = (if dec_or (dn_stock_growth_coefficient need) 0 \<noteq> 0
    then dec_or (dn_stock_growth_coefficient need) 0 else if case_coefficient \<noteq> 0 then case_coefficient else 1)"
  define k where "k = (if coef \<le> 0 then 1 else coef)"
  define M where "M = (if dec_or (dn_maximum_stock need) 0 \<le> 0 \<and> dn_quantity need > 0
    then dn_quantity need else dec_or (dn_maximum_stock need) 0)"
  define m where "m = (if dec_or (dn_minimum_stock need) 0 \<le> 0 \<and> M > 0 then quantize MILLI (M / 3)
    else dec_or (dn_minimum_stock need) 0)"
  have k: "0 < k" by (simp add: k_def)
  have mi: "0 < MILLI" by (simp add: MILLI_def)
  have "0 \<le> m"
    using assms(2) quantize_nonneg[OF mi, of "M / 3"]
    by (cases "dn_minimum_stock need") (auto simp: m_def dec_or_def)
  then have "0 \<le> quantize MILLI (m * k)" using k mi by (intro quantize_nonneg) auto
  moreover have "minimum = quantize MILLI (m * k)" "coefficient = k"
    using assms(1) unfolding resolve_thresholds_def Let_def coef_def[symmetric] k_def[symmetric] M_def[symmetric]
      m_def[symmetric] by auto
  moreover have "minimum \<le> reorder_point" "reorder_point \<le> maximum"
    using assms(1) unfolding resolve_thresholds_def Let_def by (auto split: if_splits)
  ultimately show ?thesis using k by simp
qed

definition demo_dneed :: dispatcher_need where
  "demo_dneed = \<lparr>dn_line_id = ''1'', dn_nomenclature_id = ''n'', dn_nomenclature_name = ''bolt'', dn_unit = None,
     dn_quantity = 10, dn_required_date = None, dn_warehouse_id = Some ''w'', dn_minimum_stock = Some 2,
     dn_maximum_stock = Some 20, dn_reorder_point = None, dn_stock_growth_coefficient = None,
     dn_lead_time_days = None, dn_daily_consumption = None, dn_production_deficit = None,
     dn_package_multiple = Some 4\<rparr>"

definition demo_dcase :: dispatcher_case where
  "demo_dcase = \<lparr>dc_case_id = ''c'', dc_source_1c_ref = ''r'', dc_warehouse_1c_ref = None,
     dc_required_date = None, dc_stock_growth_coefficient = 1\<rparr>"

definition demo_dsupply :: "string \<Rightarrow> supply_source \<Rightarrow> rat \<Rightarrow> dispatcher_supply" where
  "demo_dsupply i src q = \<lparr>ds_supply_id = i, ds_source_type = src, ds_nomenclature_id = ''n'', ds_quantity = q,
     ds_warehouse_id = Some ''w'', ds_available_at = None, ds_confirmed = True, ds_reserved_for_other = False,
     ds_incoming_control_passed = True, ds_quarantine = False, ds_defective = False, ds_blocked = False,
     ds_expired = False, ds_suitable = True, ds_exact_match = True, ds_use_allowed = True,
     ds_evidence_id = None\<rparr>"

text \<open>
  C29: Every proposal covers the demand of its line.  Reserving stock is proposed only when the free
  stock reaches both the demand and the minimum; a transfer or the link to an arrival is for exactly
  what the free stock lacks, and no more than the other warehouses or the confirmed arrivals hold;
  "already covered" means that the stock and arrivals together reach the demand; and with an order, the
  free stock, arrivals, other warehouses and the ordered quantity reach it.
\<close>

lemma proposal_covers_demand:
  assumes "l = assess_line dcase supplies now need" "\<forall>m. dn_package_multiple need = Some m \<longrightarrow> 0 < m"
  shows "case dl_outcome l of
      D_Reserve_Stock \<Rightarrow> dl_demand l \<le> st_free (dl_stock l) \<and> dl_minimum l \<le> st_free (dl_stock l)
    | D_Transfer_Proposed \<Rightarrow> (\<exists>q. dl_recommendations l =
          [\<lparr>rc_method = M_Transfer, rc_quantity = q, rc_requires_confirmation = True\<rparr>] \<and>
        st_free (dl_stock l) + q = dl_demand l \<and> 0 < q \<and> q \<le> st_other (dl_stock l))
    | D_Link_Incoming \<Rightarrow> (\<exists>q. dl_recommendations l =
          [\<lparr>rc_method = M_Link_Incoming, rc_quantity = q, rc_requires_confirmation = True\<rparr>] \<and>
        st_free (dl_stock l) + q = dl_demand l \<and> 0 < q \<and> q \<le> st_confirmed (dl_stock l))
    | D_Already_Covered \<Rightarrow>
        dl_demand l \<le> st_free (dl_stock l) + st_confirmed (dl_stock l) + st_other (dl_stock l)
    | D_Procurement_Required \<Rightarrow> (\<exists>r \<in> set (dl_recommendations l). rc_method r = M_Procurement \<and>
        dl_demand l \<le> st_free (dl_stock l) + st_confirmed (dl_stock l) + st_other (dl_stock l) + rc_quantity r)
    | D_Critical_Shortage \<Rightarrow> (\<exists>r \<in> set (dl_recommendations l). rc_method r = M_Procurement \<and>
        dl_demand l \<le> st_free (dl_stock l) + st_confirmed (dl_stock l) + st_other (dl_stock l) + rc_quantity r)
    | _ \<Rightarrow> False"
proof -
  obtain mn mx rp c where r: "resolve_thresholds need (dc_stock_growth_coefficient dcase) = (mn, mx, rp, c)"
    by (metis prod_cases4)
  note F = assess_line_fields[OF r assms(1)]
  let ?fg = "dl_figures l"
  have q: "dl_demand l \<le> st_free (dl_stock l) + st_confirmed (dl_stock l) + st_other (dl_stock l) + fg_recommended ?fg"
    using ceil_multiple_props(1)[OF assms(2), of "order_need (dl_stock l) (dl_demand l) mx"]
    by (simp add: F(6) line_figures_simps order_need_def)
  have b: "fg_below_minimum ?fg \<longleftrightarrow> st_free (dl_stock l) < dl_minimum l" by (simp add: F(1,6) line_figures_simps)
  have d: "fg_net_deficit ?fg \<le> 0 \<Longrightarrow>
      dl_demand l \<le> st_free (dl_stock l) + st_confirmed (dl_stock l) + st_other (dl_stock l)"
    by (simp add: F(6)) (rule line_figures_deficit)
  show ?thesis
    using F(7) q b d by (auto simp: propose_def split: if_splits)
qed

lemma proposal_covers_demand_witness:
  "dl_demand (assess_line demo_dcase [demo_dsupply ''s'' Sup_Warehouse 15] 0 demo_dneed) \<le>
   st_free (dl_stock (assess_line demo_dcase [demo_dsupply ''s'' Sup_Warehouse 15] 0 demo_dneed))"
proof -
  have o: "dl_outcome (assess_line demo_dcase [demo_dsupply ''s'' Sup_Warehouse 15] 0 demo_dneed) = D_Reserve_Stock"
    by code_simp
  have "\<forall>m. dn_package_multiple demo_dneed = Some m \<longrightarrow> 0 < m" by (simp add: demo_dneed_def)
  from proposal_covers_demand[OF refl this, of demo_dcase "[demo_dsupply ''s'' Sup_Warehouse 15]" 0]
  show ?thesis unfolding o by simp
qed

text \<open>
  The recommended order restores the stock: the stock position plus the order reaches the maximum,
  the order is a whole number of packages when a package size is given, and it is less than one package
  above what is needed.
\<close>

lemma order_restores_maximum:
  assumes "l = assess_line dcase supplies now need" "dn_package_multiple need = Some m" "0 < m"
  shows "dl_maximum l \<le> fg_stock_position (dl_figures l) + fg_recommended (dl_figures l) \<and>
    (order_need (dl_stock l) (dl_demand l) (dl_maximum l) \<le> 0 \<and> fg_recommended (dl_figures l) \<le> 0 \<or>
     (\<exists>k::int. fg_recommended (dl_figures l) = of_int k * m) \<and>
      fg_recommended (dl_figures l) < order_need (dl_stock l) (dl_demand l) (dl_maximum l) + m)"
proof -
  obtain mn mx rp c where r: "resolve_thresholds need (dc_stock_growth_coefficient dcase) = (mn, mx, rp, c)"
    by (metis prod_cases4)
  note F = assess_line_fields[OF r assms(1)]
  let ?n = "order_need (dl_stock l) (dl_demand l) (dl_maximum l)"
  have rec: "fg_recommended (dl_figures l) = ceil_multiple ?n (Some m)"
    by (simp add: F(2,6) line_figures_simps assms(2))
  have pm: "\<forall>x. Some m = Some x \<longrightarrow> 0 < x" using assms(3) by simp
  have "dl_maximum l \<le> fg_stock_position (dl_figures l) + ?n"
    by (simp add: F(2,6) line_figures_simps order_need_def)
  moreover have "?n \<le> fg_recommended (dl_figures l)" unfolding rec by (rule ceil_multiple_props(1)[OF pm])
  moreover have "?n \<le> 0 \<Longrightarrow> fg_recommended (dl_figures l) \<le> 0"
    by (simp add: rec ceil_multiple_def)
  moreover have "0 < ?n \<Longrightarrow> (\<exists>k::int. fg_recommended (dl_figures l) = of_int k * m) \<and>
      fg_recommended (dl_figures l) < ?n + m"
    unfolding rec by (rule ceil_multiple_props(2)[OF pm refl])
  ultimately show ?thesis by (cases "?n \<le> 0") auto
qed

text \<open>
  Only usable supplies count, each once: with distinct supply ids, the free stock of a line is the
  total of the warehouse and store-room supplies of its nomenclature that stand in its warehouse (or in
  none) and carry no reason for exclusion, the confirmed arrivals and the stock of other warehouses are
  the corresponding totals, and every other supply of the nomenclature is listed as excluded.
\<close>

lemma dispatcher_counts_usable:
  assumes "distinct (map ds_supply_id supplies)" "l = assess_line dcase supplies now need"
  shows "st_free (dl_stock l) = quantity_where (\<lambda>s. counts_for need s \<and>
        (ds_source_type s \<in> set FREE_STOCK_TYPES \<and> here need dcase s)) supplies \<and>
    st_confirmed (dl_stock l) = quantity_where (\<lambda>s. counts_for need s \<and>
        (ds_source_type s \<in> set CONFIRMED_ARRIVAL_TYPES \<and> ds_confirmed s)) supplies \<and>
    st_other (dl_stock l) = quantity_where (\<lambda>s. counts_for need s \<and>
        (ds_source_type s \<in> set OTHER_WAREHOUSE_TYPES \<and> truthy (ds_warehouse_id s) \<and>
         ds_warehouse_id s \<noteq> need_warehouse need dcase)) supplies \<and>
    mset (map xs_supply_id (dl_excluded l)) = mset (map ds_supply_id
      (filter (\<lambda>s. ds_nomenclature_id s = dn_nomenclature_id need \<and> \<not> counts_for need s) supplies))"
proof -
  let ?ss = "sort_key (supply_sort_key need dcase now) supplies"
  obtain mn mx rp c where r: "resolve_thresholds need (dc_stock_growth_coefficient dcase) = (mn, mx, rp, c)"
    by (metis prod_cases4)
  note st = assess_line_fields(5)[OF r assms(2)]
  have perm: "quantity_where P ?ss = quantity_where P supplies" for P
    by (rule quantity_where_perm) simp
  have ex: "dl_excluded l = snd (split_supplies need (remaining_quantities supplies) ?ss)"
    using r assms(2) by (simp add: assess_line_def Let_def)
  have "map xs_supply_id (dl_excluded l) = map ds_supply_id
      (filter (\<lambda>s. ds_nomenclature_id s = dn_nomenclature_id need \<and> \<not> counts_for need s) ?ss)"
    unfolding ex by (rule split_supplies_included(2)) (simp add: remaining_get[OF assms(1)])
  then have "mset (map xs_supply_id (dl_excluded l)) = mset (map ds_supply_id
      (filter (\<lambda>s. ds_nomenclature_id s = dn_nomenclature_id need \<and> \<not> counts_for need s) supplies))"
    by simp
  then show ?thesis
    unfolding st included_of_assess[OF assms(1)] count_stock_def stock_numbers.simps sum_where_included perm
    by blast
qed

end
