(* ===== verification/Json.thy ===== *)
theory Json
  imports Py_Strings
begin

text \<open>
  JSON values as the code reads them: \<open>dict.get\<close>, \<open>x or y\<close>, \<open>str\<close>, \<open>isinstance\<close>.  An integer is
  \<open>JInt\<close>, a float \<open>JDec\<close> (the decimal it prints as).  The fields the code turns into text are scalars;
  the text of a list or an object is a fixed placeholder.
\<close>

datatype json =
    JNull
  | JBool bool
  | JInt int
  | JDec rat
  | JStr string
  | JArr "json list"
  | JObj "(string \<times> json) list"

fun jtruthy :: "json \<Rightarrow> bool" where
  "jtruthy JNull = False"
| "jtruthy (JBool b) = b"
| "jtruthy (JInt n) = (n \<noteq> 0)"
| "jtruthy (JDec x) = (x \<noteq> 0)"
| "jtruthy (JStr s) = (s \<noteq> [])"
| "jtruthy (JArr xs) = (xs \<noteq> [])"
| "jtruthy (JObj d) = (d \<noteq> [])"

definition jor :: "json \<Rightarrow> json \<Rightarrow> json" where
  "jor a b = (if jtruthy a then a else b)"

text \<open>\<open>d.get(k)\<close>; a missing key is \<open>None\<close>.  \<open>get_first d ks\<close> is \<open>d.get(k1) or d.get(k2) or ...\<close>.\<close>

type_synonym jdict = "(string \<times> json) list"

definition jget :: "jdict \<Rightarrow> string \<Rightarrow> json" where
  "jget d k = dict_get_or d k JNull"

fun get_first :: "jdict \<Rightarrow> string list \<Rightarrow> json" where
  "get_first d [] = JNull"
| "get_first d [k] = jget d k"
| "get_first d (k # ks) = jor (jget d k) (get_first d ks)"

section \<open>Text\<close>

fun digits_of :: "nat \<Rightarrow> nat \<Rightarrow> string" where
  "digits_of 0 n = []"
| "digits_of (Suc fuel) n =
     (if n < 10 then [char_of (48 + n)] else digits_of fuel (n div 10) @ [char_of (48 + n mod 10)])"

definition nat_text :: "nat \<Rightarrow> string" where
  "nat_text n = digits_of (Suc n) n"

definition int_text :: "int \<Rightarrow> string" where
  "int_text n = (if n < 0 then CHR ''-'' # nat_text (nat (- n)) else nat_text (nat n))"

text \<open>The digits after the point, at least one and at most seventeen.\<close>

fun fraction_digits :: "nat \<Rightarrow> rat \<Rightarrow> string" where
  "fraction_digits 0 x = []"
| "fraction_digits (Suc fuel) x =
     (let d = \<lfloor>10 * x\<rfloor>; r = 10 * x - of_int d
      in char_of (48 + nat d) # (if r = 0 then [] else fraction_digits fuel r))"

definition float_text :: "rat \<Rightarrow> string" where
  "float_text x = (if x < 0 then ''-'' else '''') @ nat_text (nat \<lfloor>\<bar>x\<bar>\<rfloor>) @ ''.'' @
     fraction_digits 17 (\<bar>x\<bar> - of_int \<lfloor>\<bar>x\<bar>\<rfloor>)"

fun jstr :: "json \<Rightarrow> string" where
  "jstr JNull = ''None''"
| "jstr (JBool b) = (if b then ''True'' else ''False'')"
| "jstr (JInt n) = int_text n"
| "jstr (JDec x) = float_text x"
| "jstr (JStr s) = s"
| "jstr (JArr xs) = ''[]''"
| "jstr (JObj d) = ''{}''"

text \<open>\<open>str(value or "").strip()\<close>\<close>

definition jtext :: "json \<Rightarrow> string" where
  "jtext v = (if jtruthy v then py_strip (jstr v) else [])"

text \<open>\<open>str(value or "")\<close>, \<open>d.get(k, v)\<close>, \<open>value or []\<close> of a list, and the objects of a list.\<close>

definition jstring :: "json \<Rightarrow> string" where
  "jstring v = (if jtruthy v then jstr v else [])"

definition jget_default :: "jdict \<Rightarrow> string \<Rightarrow> json \<Rightarrow> json" where
  "jget_default d k v = dict_get_or d k v"

definition jlist :: "json \<Rightarrow> json list" where
  "jlist v = (case v of JArr xs \<Rightarrow> xs | _ \<Rightarrow> [])"

definition jobjects :: "json list \<Rightarrow> jdict list" where
  "jobjects xs = List.map_filter (\<lambda>x. case x of JObj d \<Rightarrow> Some d | _ \<Rightarrow> None) xs"

section \<open>Decimals\<close>

definition digit_value :: "char \<Rightarrow> nat option" where
  "digit_value c = (let n = (of_char c :: nat) in if 48 \<le> n \<and> n \<le> 57 then Some (n - 48) else None)"

fun read_digits :: "nat \<Rightarrow> string \<Rightarrow> nat option" where
  "read_digits acc [] = Some acc"
| "read_digits acc (c # cs) = (case digit_value c of None \<Rightarrow> None | Some d \<Rightarrow> read_digits (10 * acc + d) cs)"

text \<open>
  The plain decimal literals of \<open>Decimal(text)\<close>: an optional sign, digits, and an optional fraction.
  Exponents, underscores, \<open>NaN\<close> and \<open>Infinity\<close> do not occur in the quantities the code reads.
\<close>

definition read_unsigned :: "string \<Rightarrow> rat option" where
  "read_unsigned s =
     (let whole = takeWhile (\<lambda>c. c \<noteq> CHR ''.'') s; rest = drop (length whole) s
      in if rest = [] then (if whole = [] then None else map_option of_nat (read_digits 0 whole))
         else if whole = [] \<and> tl rest = [] then None
         else (case (read_digits 0 whole, read_digits 0 (tl rest)) of
                 (Some a, Some b) \<Rightarrow> Some (of_nat a + of_nat b / 10 ^ length (tl rest))
               | _ \<Rightarrow> None))"

definition read_decimal :: "string \<Rightarrow> rat option" where
  "read_decimal s =
     (case py_strip s of
        [] \<Rightarrow> None
      | c # cs \<Rightarrow>
          if c = CHR ''-'' then map_option uminus (read_unsigned cs)
          else if c = CHR ''+'' then read_unsigned cs
          else read_unsigned (c # cs))"

text \<open>\<open>Decimal(str(value))\<close>, \<open>None\<close> when it raises.\<close>

fun jdecimal :: "json \<Rightarrow> rat option" where
  "jdecimal (JInt n) = Some (of_int n)"
| "jdecimal (JDec x) = Some x"
| "jdecimal (JStr s) = read_decimal s"
| "jdecimal _ = None"

lemma jget_simps [simp]: "jget [] k = JNull" "jget ((j, v) # d) k = (if j = k then v else jget d k)"
  by (simp_all add: jget_def dict_get_or_def dict_get_def)

lemma jor_simps [simp]: "jor JNull b = b"
  by (simp add: jor_def)

lemma read_examples:
  "read_decimal ''12.50'' = Some (25 / 2)" "read_decimal '' -3 '' = Some (- 3)" "read_decimal ''abc'' = None"
  "read_decimal ''.'' = None" "int_text (- 120) = ''-120''" "float_text (25 / 2) = ''12.5''"
  "float_text 1 = ''1.0''"
  by code_simp+

end
