(* ===== verification/Order_Coverage.thy ===== *)
theory Order_Coverage
  imports Json Decimals
begin

text \<open>
  The coverage of material-order positions by transfer orders and supplier orders
  (\<open>app/services/material_order_coverage.py\<close>): which orders count, which lines of them match a
  position, and the greedy allocation of their quantities, which consumes each order line across
  the positions.  Documents are JSON objects with the aliases the code accepts.
\<close>

section \<open>Keys and markers in Russian, as UTF-8\<close>

definition K_STATUS :: string where
  "K_STATUS =
    [CHR 0xD0, CHR 0xA1, CHR 0xD1, CHR 0x82, CHR 0xD0, CHR 0xB0, CHR 0xD1, CHR 0x82, CHR 0xD1, CHR 0x83,
    CHR 0xD1, CHR 0x81]"

definition K_CANCELLED :: string where
  "K_CANCELLED =
    [CHR 0xD0, CHR 0x9E, CHR 0xD1, CHR 0x82, CHR 0xD0, CHR 0xBC, CHR 0xD0, CHR 0xB5, CHR 0xD0, CHR 0xBD,
    CHR 0xD0, CHR 0xB5, CHR 0xD0, CHR 0xBD, CHR 0xD0, CHR 0xBE]"

definition K_NOMENCLATURE :: string where
  "K_NOMENCLATURE =
    [CHR 0xD0, CHR 0x9D, CHR 0xD0, CHR 0xBE, CHR 0xD0, CHR 0xBC, CHR 0xD0, CHR 0xB5, CHR 0xD0, CHR 0xBD,
    CHR 0xD0, CHR 0xBA, CHR 0xD0, CHR 0xBB, CHR 0xD0, CHR 0xB0, CHR 0xD1, CHR 0x82, CHR 0xD1, CHR 0x83,
    CHR 0xD1, CHR 0x80, CHR 0xD0, CHR 0xB0, CHR 0x5F, CHR 0x4B, CHR 0x65, CHR 0x79]"

definition K_CHARACTERISTIC :: string where
  "K_CHARACTERISTIC =
    [CHR 0xD0, CHR 0xA5, CHR 0xD0, CHR 0xB0, CHR 0xD1, CHR 0x80, CHR 0xD0, CHR 0xB0, CHR 0xD0, CHR 0xBA,
    CHR 0xD1, CHR 0x82, CHR 0xD0, CHR 0xB5, CHR 0xD1, CHR 0x80, CHR 0xD0, CHR 0xB8, CHR 0xD1, CHR 0x81,
    CHR 0xD1, CHR 0x82, CHR 0xD0, CHR 0xB8, CHR 0xD0, CHR 0xBA, CHR 0xD0, CHR 0xB0, CHR 0x5F, CHR 0x4B,
    CHR 0x65, CHR 0x79]"

definition K_QUANTITY :: string where
  "K_QUANTITY =
    [CHR 0xD0, CHR 0x9A, CHR 0xD0, CHR 0xBE, CHR 0xD0, CHR 0xBB, CHR 0xD0, CHR 0xB8, CHR 0xD1, CHR 0x87,
    CHR 0xD0, CHR 0xB5, CHR 0xD1, CHR 0x81, CHR 0xD1, CHR 0x82, CHR 0xD0, CHR 0xB2, CHR 0xD0, CHR 0xBE]"

definition K_PACK_QUANTITY :: string where
  "K_PACK_QUANTITY =
    [CHR 0xD0, CHR 0x9A, CHR 0xD0, CHR 0xBE, CHR 0xD0, CHR 0xBB, CHR 0xD0, CHR 0xB8, CHR 0xD1, CHR 0x87,
    CHR 0xD0, CHR 0xB5, CHR 0xD1, CHR 0x81, CHR 0xD1, CHR 0x82, CHR 0xD0, CHR 0xB2, CHR 0xD0, CHR 0xBE,
    CHR 0xD0, CHR 0xA3, CHR 0xD0, CHR 0xBF, CHR 0xD0, CHR 0xB0, CHR 0xD0, CHR 0xBA, CHR 0xD0, CHR 0xBE,
    CHR 0xD0, CHR 0xB2, CHR 0xD0, CHR 0xBE, CHR 0xD0, CHR 0xBA]"

definition K_COUNTERPARTY :: string where
  "K_COUNTERPARTY =
    [CHR 0xD0, CHR 0x9A, CHR 0xD0, CHR 0xBE, CHR 0xD0, CHR 0xBD, CHR 0xD1, CHR 0x82, CHR 0xD1, CHR 0x80,
    CHR 0xD0, CHR 0xB0, CHR 0xD0, CHR 0xB3, CHR 0xD0, CHR 0xB5, CHR 0xD0, CHR 0xBD, CHR 0xD1, CHR 0x82,
    CHR 0x5F, CHR 0x4B, CHR 0x65, CHR 0x79]"

definition K_PARTNER :: string where
  "K_PARTNER =
    [CHR 0xD0, CHR 0x9F, CHR 0xD0, CHR 0xB0, CHR 0xD1, CHR 0x80, CHR 0xD1, CHR 0x82, CHR 0xD0, CHR 0xBD,
    CHR 0xD0, CHR 0xB5, CHR 0xD1, CHR 0x80, CHR 0x5F, CHR 0x4B, CHR 0x65, CHR 0x79]"

definition K_WAREHOUSE_FROM :: string where
  "K_WAREHOUSE_FROM =
    [CHR 0xD0, CHR 0xA1, CHR 0xD0, CHR 0xBA, CHR 0xD0, CHR 0xBB, CHR 0xD0, CHR 0xB0, CHR 0xD0,
    CHR 0xB4, CHR 0xD0, CHR 0x9E, CHR 0xD1, CHR 0x82, CHR 0xD0, CHR 0xBF, CHR 0xD1, CHR 0x80,
    CHR 0xD0, CHR 0xB0, CHR 0xD0, CHR 0xB2, CHR 0xD0, CHR 0xB8, CHR 0xD1, CHR 0x82, CHR 0xD0,
    CHR 0xB5, CHR 0xD0, CHR 0xBB, CHR 0xD1, CHR 0x8C, CHR 0x5F, CHR 0x4B, CHR 0x65, CHR 0x79]"

definition K_WAREHOUSE_TO :: string where
  "K_WAREHOUSE_TO =
    [CHR 0xD0, CHR 0xA1, CHR 0xD0, CHR 0xBA, CHR 0xD0, CHR 0xBB, CHR 0xD0, CHR 0xB0, CHR 0xD0,
    CHR 0xB4, CHR 0xD0, CHR 0x9F, CHR 0xD0, CHR 0xBE, CHR 0xD0, CHR 0xBB, CHR 0xD1, CHR 0x83,
    CHR 0xD1, CHR 0x87, CHR 0xD0, CHR 0xB0, CHR 0xD1, CHR 0x82, CHR 0xD0, CHR 0xB5, CHR 0xD0,
    CHR 0xBB, CHR 0xD1, CHR 0x8C, CHR 0x5F, CHR 0x4B, CHR 0x65, CHR 0x79]"

definition M_CANCEL :: string where
  "M_CANCEL =
    [CHR 0xD0, CHR 0xBE, CHR 0xD1, CHR 0x82, CHR 0xD0, CHR 0xBC, CHR 0xD0, CHR 0xB5, CHR 0xD0, CHR 0xBD]"

definition M_ANNUL :: string where
  "M_ANNUL =
    [CHR 0xD0, CHR 0xB0, CHR 0xD0, CHR 0xBD, CHR 0xD0, CHR 0xBD, CHR 0xD1, CHR 0x83, CHR 0xD0, CHR 0xBB,
    CHR 0xD0, CHR 0xB8, CHR 0xD1, CHR 0x80]"

section \<open>Reading documents\<close>

definition EMPTY_GUIDS :: "string list" where
  "EMPTY_GUIDS = [[], ''00000000-0000-0000-0000-000000000000'']"

text \<open>\<open>Decimal(str(value or 0))\<close>, zero when it raises\<close>

definition cov_decimal :: "json \<Rightarrow> rat" where
  "cov_decimal v = (if jtruthy v then (case jdecimal v of Some x \<Rightarrow> x | None \<Rightarrow> 0) else 0)"

definition norm_ref :: "json \<Rightarrow> string" where
  "norm_ref v = py_lower (filter (\<lambda>c. c \<noteq> CHR ''}'') (filter (\<lambda>c. c \<noteq> CHR ''{'') (jtext v)))"

definition characteristic :: "json \<Rightarrow> string option" where
  "characteristic v = (let t = norm_ref v in if t = [] \<or> t \<in> set EMPTY_GUIDS then None else Some t)"

definition document_cancelled :: "jdict \<Rightarrow> bool" where
  "document_cancelled doc =
     (if jtruthy (get_first doc [''cancelled'', ''canceled'', ''DeletionMark'', ''deletion_mark'']) then True
      else (let status = py_lower (jtext (get_first doc [''order_status'', ''status'', K_STATUS, ''State'']))
            in list_ex (\<lambda>marker. is_substring marker status)
                 [M_CANCEL, M_ANNUL, ''cancelled'', ''canceled'', ''deleted'']))"

definition is_definite_supplier_order :: "jdict \<Rightarrow> bool" where
  "is_definite_supplier_order order =
     (if jget order ''is_definite'' = JBool False then False
      else if jget order ''is_definite'' = JBool True \<or> jget order ''definite'' = JBool True then True
      else list_ex (\<lambda>key. let ref = norm_ref (jget order key) in ref \<noteq> [] \<and> ref \<notin> set EMPTY_GUIDS)
        [''counterpartyRef'', ''counterparty_ref'', K_COUNTERPARTY, ''partnerRef'', ''partner_ref'', K_PARTNER])"

definition order_ref :: "jdict \<Rightarrow> string" where
  "order_ref order =
     norm_ref (get_first order [''supplier_order_1c_ref'', ''transfer_order_1c_ref'', ''ref'', ''Ref_Key''])"

definition chain_of :: "jdict \<Rightarrow> json" where
  "chain_of order =
     (let resolution = (case jget order ''basisResolution'' of JObj d \<Rightarrow> d | _ \<Rightarrow> [])
      in jor (jor (jget order ''chain'') (jget resolution ''chain'')) (JArr []))"

definition node_refs :: "json \<Rightarrow> string list" where
  "node_refs node =
     (case node of
        JObj d \<Rightarrow> filter (\<lambda>r. r \<noteq> []) (map (\<lambda>k. norm_ref (jget d k)) [''supplierOrderRef'', ''supplier_order_ref'', ''ref''])
      | _ \<Rightarrow> [])"

definition parent_refs_from_chain :: "jdict \<Rightarrow> string list" where
  "parent_refs_from_chain order = (case chain_of order of JArr nodes \<Rightarrow> concat (map node_refs nodes) | _ \<Rightarrow> [])"

section \<open>Orders that count\<close>

fun orders_by_ref :: "jdict list \<Rightarrow> (string, jdict) dict \<Rightarrow> (string, jdict) dict" where
  "orders_by_ref [] acc = acc"
| "orders_by_ref (order # orders) acc =
     orders_by_ref orders
       (if order_ref order \<noteq> [] \<and> \<not> document_cancelled order then dict_set (order_ref order) order acc else acc)"

text \<open>The conditional parents that a definite order of the selection names in its chain.\<close>

definition excluded_parents :: "(string, jdict) dict \<Rightarrow> string list" where
  "excluded_parents by_ref =
     concat (map (\<lambda>(ref, order).
       if is_definite_supplier_order order then
         filter (\<lambda>p. p \<noteq> ref \<and>
             (case dict_get by_ref p of None \<Rightarrow> False | Some parent \<Rightarrow> \<not> is_definite_supplier_order parent))
           (parent_refs_from_chain order)
       else []) by_ref)"

definition select_supplier_orders_for_qty :: "jdict list \<Rightarrow> jdict list" where
  "select_supplier_orders_for_qty orders =
     (let by_ref = orders_by_ref orders []
      in map snd (filter (\<lambda>(ref, order). ref \<notin> set (excluded_parents by_ref)) by_ref))"

section \<open>Lines and their allocation\<close>

record cov_line =
  cl_line_id :: string
  cl_nomenclature_id :: string
  cl_characteristic_id :: "string option"
  cl_quantity :: rat

definition line_of :: "nat \<Rightarrow> json \<Rightarrow> cov_line option" where
  "line_of index raw =
     (case raw of
        JObj d \<Rightarrow>
          if jtruthy (jor (jget d ''cancelled'') (jget d K_CANCELLED)) then None
          else (let nomenclature_id = norm_ref (get_first d [''nomenclature_id'', ''nomenclatureRef'', K_NOMENCLATURE])
            in if nomenclature_id = [] then None
               else Some \<lparr>cl_line_id = jtext (jor (get_first d [''line_id'', ''LineNumber'', ''line_number'', ''lineNumber''])
                            (JInt (int index))),
                      cl_nomenclature_id = nomenclature_id,
                      cl_characteristic_id =
                        characteristic (get_first d [''characteristic_id'', ''characteristicRef'', K_CHARACTERISTIC]),
                      cl_quantity = cov_decimal (get_first d [''quantity'', K_QUANTITY, K_PACK_QUANTITY])\<rparr>)
      | _ \<Rightarrow> None)"

definition lines_from_order :: "jdict \<Rightarrow> cov_line list" where
  "lines_from_order order =
     (case jget order ''lines'' of
        JArr raws \<Rightarrow> List.map_filter (\<lambda>(i, raw). line_of i raw) (enumerate 1 raws)
      | _ \<Rightarrow> [])"

datatype doc_kind = Transfer_Order | Supplier_Order

type_synonym cov_key = "doc_kind \<times> string \<times> string"

text \<open>A source of quantity: an order line that matches the position, with the order it stands in.\<close>

type_synonym cov_source = "doc_kind \<times> jdict \<times> cov_line"

fun source_key :: "cov_source \<Rightarrow> cov_key" where
  "source_key (kind, order, line) = (kind, order_ref order, cl_line_id line)"

fun source_quantity :: "cov_source \<Rightarrow> rat" where
  "source_quantity (kind, order, line) = cl_quantity line"

definition line_matches :: "string \<Rightarrow> string option \<Rightarrow> cov_line \<Rightarrow> bool" where
  "line_matches nomenclature_id characteristic_id line \<longleftrightarrow>
     cl_nomenclature_id line = nomenclature_id \<and>
     \<not> (characteristic_id \<noteq> None \<and> cl_characteristic_id line \<noteq> None \<and>
        cl_characteristic_id line \<noteq> characteristic_id)"

definition matching_sources ::
  "doc_kind \<Rightarrow> string \<Rightarrow> string option \<Rightarrow> jdict list \<Rightarrow> cov_source list" where
  "matching_sources kind nomenclature_id characteristic_id orders =
     concat (map (\<lambda>order. map (\<lambda>line. (kind, order, line))
         (filter (line_matches nomenclature_id characteristic_id) (lines_from_order order)))
       (filter (\<lambda>order. \<not> document_cancelled order) orders))"

type_synonym consumption = "(cov_key, rat) dict"

definition draw_line :: "cov_source \<Rightarrow> rat \<Rightarrow> consumption \<Rightarrow> rat \<times> consumption" where
  "draw_line src remaining consumed =
     (let already_consumed = dict_get_or consumed (source_key src) 0;
          available = max 0 (source_quantity src - already_consumed)
      in if available \<le> 0 then (0, consumed)
         else (let take = min remaining available
               in (take, dict_set (source_key src) (already_consumed + take) consumed)))"

record cov_doc =
  cd_kind :: doc_kind
  cd_quantity :: rat
  cd_nomenclature_id :: string
  cd_characteristic_id :: "string option"
  cd_order_ref :: string
  cd_order_number :: string
  cd_line_id :: string
  cd_order_date :: json
  cd_order_status :: json
  cd_supplier_name :: json
  cd_arrival_date :: json
  cd_is_definite :: "bool option"
  cd_warehouse_from :: json
  cd_warehouse_to :: json

text \<open>
  The fields of a supplier-order document and of a transfer-order document; those of the other kind are
  absent (\<open>JNull\<close>, \<open>None\<close>).  The line id is kept for the statements; the code has it in the key of
  \<open>consumed\<close> only.
\<close>

definition doc_of :: "string option \<Rightarrow> cov_source \<times> rat \<Rightarrow> cov_doc" where
  "doc_of characteristic_id part =
     (case part of ((kind, order, line), taken) \<Rightarrow>
        \<lparr>cd_kind = kind, cd_quantity = taken, cd_nomenclature_id = cl_nomenclature_id line,
         cd_characteristic_id = or_str characteristic_id (cl_characteristic_id line),
         cd_order_ref = order_ref order,
         cd_order_number = jtext (jor (get_first order [''supplier_order_number'', ''transfer_order_number'', ''number'', ''Number''])
           (JStr (order_ref order))),
         cd_line_id = cl_line_id line,
         cd_order_date = get_first order [''order_date'', ''date'', ''Date''],
         cd_order_status = get_first order [''order_status'', ''status''],
         cd_supplier_name = (if kind = Supplier_Order then get_first order [''supplier_name'', ''supplierName'']
           else JNull),
         cd_arrival_date = (if kind = Supplier_Order
           then get_first order [''arrival_date'', ''arrivalDate'', ''desiredArrivalDate''] else JNull),
         cd_is_definite = (if kind = Supplier_Order then Some (is_definite_supplier_order order) else None),
         cd_warehouse_from = (if kind = Transfer_Order
           then get_first order [''warehouse_from_1c_ref'', ''warehouseFromRef'', K_WAREHOUSE_FROM] else JNull),
         cd_warehouse_to = (if kind = Transfer_Order
           then get_first order [''warehouse_to_1c_ref'', ''warehouseToRef'', K_WAREHOUSE_TO] else JNull)\<rparr>)"

definition allocate_docs ::
  "rat \<Rightarrow> string \<Rightarrow> string option \<Rightarrow> jdict list \<Rightarrow> doc_kind \<Rightarrow> consumption \<Rightarrow>
   rat \<times> cov_doc list \<times> consumption" where
  "allocate_docs need_qty nomenclature_id characteristic_id orders kind consumed =
     (if need_qty \<le> 0 then (0, [], consumed)
      else case draw_all draw_line (matching_sources kind nomenclature_id characteristic_id orders) need_qty consumed of
        (parts, remaining, consumed') \<Rightarrow>
          (need_qty - remaining, map (doc_of characteristic_id) parts, consumed'))"

section \<open>The snapshot\<close>

datatype coverage_source = Source_None | Source_Mixed | Source_Supplier | Source_Transfer

definition coverage_source_of :: "rat \<Rightarrow> rat \<Rightarrow> coverage_source" where
  "coverage_source_of supplier_qty transfer_qty =
     (if supplier_qty + transfer_qty \<le> 0 then Source_None
      else if supplier_qty > 0 \<and> transfer_qty > 0 then Source_Mixed
      else if supplier_qty > 0 then Source_Supplier
      else if transfer_qty > 0 then Source_Transfer else Source_None)"

record coverage_row =
  cr_line_id :: string
  cr_nomenclature_id :: string
  cr_nomenclature_name :: json
  cr_characteristic_id :: "string option"
  cr_requested :: rat
  cr_supplier_ordered :: rat
  cr_transfer_ordered :: rat
  cr_covered :: rat
  cr_remaining :: rat
  cr_source :: coverage_source
  cr_purchasing :: bool
  cr_transferring :: bool
  cr_is_reconciled :: bool
  cr_fully_covered :: bool
  cr_supplier_docs :: "cov_doc list"
  cr_transfer_docs :: "cov_doc list"

definition cover_position ::
  "jdict list \<Rightarrow> jdict list \<Rightarrow> jdict \<Rightarrow> consumption \<Rightarrow> coverage_row option \<times> consumption" where
  "cover_position qty_orders transfers position consumed =
     (let nomenclature_id = norm_ref (jget position ''nomenclature_id'')
      in if jtruthy (jget position ''cancelled'') then (None, consumed)
         else if nomenclature_id = [] then (None, consumed)
         else
           (let characteristic_id = characteristic (jget position ''characteristic_id'');
                requested = cov_decimal (get_first position [''quantity'', ''requested_quantity''])
            in case allocate_docs requested nomenclature_id characteristic_id transfers Transfer_Order consumed of
                 (transfer_qty, transfer_docs, consumed1) \<Rightarrow>
              (case allocate_docs (max 0 (requested - transfer_qty)) nomenclature_id characteristic_id qty_orders
                      Supplier_Order consumed1 of
                 (supplier_qty, supplier_docs, consumed2) \<Rightarrow>
                   (let covered_qty = min requested (supplier_qty + transfer_qty);
                        remaining = max 0 (requested - covered_qty)
                    in (Some \<lparr>cr_line_id = jtext (jget position ''line_id''), cr_nomenclature_id = nomenclature_id,
                          cr_nomenclature_name = jget position ''nomenclature_name'',
                          cr_characteristic_id = characteristic_id, cr_requested = requested,
                          cr_supplier_ordered = supplier_qty, cr_transfer_ordered = transfer_qty,
                          cr_covered = covered_qty, cr_remaining = remaining,
                          cr_source = coverage_source_of supplier_qty transfer_qty,
                          cr_purchasing = (supplier_qty > 0), cr_transferring = (transfer_qty > 0),
                          cr_is_reconciled = (covered_qty > 0),
                          cr_fully_covered = (remaining \<le> 0 \<and> requested > 0),
                          cr_supplier_docs = supplier_docs, cr_transfer_docs = transfer_docs\<rparr>, consumed2)))))"

fun cover_positions ::
  "jdict list \<Rightarrow> jdict list \<Rightarrow> jdict list \<Rightarrow> consumption \<Rightarrow> coverage_row list \<times> consumption" where
  "cover_positions qty_orders transfers [] consumed = ([], consumed)"
| "cover_positions qty_orders transfers (position # positions) consumed =
     (case cover_position qty_orders transfers position consumed of
        (row, consumed1) \<Rightarrow>
          (case cover_positions qty_orders transfers positions consumed1 of
             (rows, consumed2) \<Rightarrow> ((case row of None \<Rightarrow> rows | Some r \<Rightarrow> r # rows), consumed2)))"

datatype coverage_status = Status_Full | Status_Partial | Status_None

record coverage_snapshot =
  cs_status :: coverage_status
  cs_covered_positions :: nat
  cs_positions_count :: nat
  cs_positions :: "coverage_row list"
  cs_supplier_orders :: "jdict list"
  cs_transfer_orders :: "jdict list"
  cs_checked_at :: string

definition build_material_order_coverage ::
  "jdict list \<Rightarrow> jdict list \<Rightarrow> jdict list \<Rightarrow> string \<Rightarrow> coverage_snapshot" where
  "build_material_order_coverage positions supplier_orders transfer_orders checked_at =
     (let rows = fst (cover_positions (select_supplier_orders_for_qty supplier_orders) transfer_orders positions []);
          covered_count = length (filter cr_fully_covered rows);
          any_covered = list_ex (\<lambda>r. cr_covered r > 0) rows
      in \<lparr>cs_status = (if rows \<noteq> [] \<and> covered_count = length rows then Status_Full
            else if any_covered then Status_Partial else Status_None),
          cs_covered_positions = covered_count, cs_positions_count = length rows, cs_positions = rows,
          cs_supplier_orders = supplier_orders, cs_transfer_orders = transfer_orders, cs_checked_at = checked_at\<rparr>)"

section \<open>The order lines are a pool\<close>

definition line_left :: "consumption \<Rightarrow> cov_source \<Rightarrow> rat" where
  "line_left consumed src = source_quantity src - dict_get_or consumed (source_key src) 0"

interpretation cov: draw_source draw_line line_left
proof
  fix left :: rat and k j :: cov_source and s :: consumption
  assume left: "0 < left"
  show "fst (draw_line k left s) = max 0 (min left (line_left s k))"
    using left by (auto simp: draw_line_def line_left_def Let_def)
  show "line_left (snd (draw_line k left s)) k = line_left s k - fst (draw_line k left s)"
    using left by (auto simp: draw_line_def line_left_def Let_def)
  show "line_left (snd (draw_line k left s)) j \<le> line_left s j"
    using left by (auto simp: draw_line_def line_left_def Let_def)
qed

text \<open>The consumption record is the total taken from each key.\<close>

lemma draw_all_consumed:
  "draw_all draw_line ks left s = (ps, l, s') \<Longrightarrow>
   dict_get_or s' key 0 = dict_get_or s key 0 + parts_total (filter (\<lambda>p. source_key (fst p) = key) ps)"
proof (induction ks arbitrary: left s ps l s')
  case Nil
  then show ?case by simp
next
  case (Cons k ks)
  obtain t s1 where d: "draw_line k left s = (t, s1)" by fastforce
  show ?case
  proof (cases "left \<le> 0")
    case True
    with Cons.prems show ?thesis by auto
  next
    case False
    have e: "dict_get_or s1 key 0 = dict_get_or s key 0 + (if 0 < t \<and> source_key k = key then t else 0)"
      using d False by (auto simp: draw_line_def Let_def split: if_splits)
    show ?thesis
    proof (cases "t \<le> 0")
      case True
      with Cons.IH[of left s1 ps l s'] Cons.prems False d e show ?thesis by auto
    next
      case tpos: False
      with Cons.prems False d obtain qs where
        qs: "draw_all draw_line ks (left - t) s1 = (qs, l, s')" "ps = (k, t) # qs" by (auto split: prod.splits)
      from Cons.IH[OF qs(1)] e tpos qs(2) show ?thesis by auto
    qed
  qed
qed

lemma draw_all_within:
  "draw_all draw_line ks left s = (ps, l, s') \<Longrightarrow>
   (\<And>k. k \<in> set ks \<Longrightarrow> source_key k = key \<Longrightarrow> source_quantity k \<le> Q) \<Longrightarrow>
   dict_get_or s key 0 \<le> Q \<Longrightarrow> dict_get_or s' key 0 \<le> Q"
proof (induction ks arbitrary: left s ps l s')
  case Nil
  then show ?case by simp
next
  case (Cons k ks)
  obtain t s1 where d: "draw_line k left s = (t, s1)" by fastforce
  have "source_key k = key \<Longrightarrow> source_quantity k \<le> Q" using Cons.prems(2) by simp
  then have s1: "dict_get_or s1 key 0 \<le> Q"
    using d Cons.prems(3) by (auto simp: draw_line_def Let_def split: if_splits)
  show ?case
  proof (cases "left \<le> 0 \<or> t \<le> 0")
    case True
    then show ?thesis
      using Cons.prems(1) Cons.IH[of left s1 ps l s'] Cons.prems(2,3) d s1 by (auto split: if_splits)
  next
    case False
    with Cons.prems(1) d obtain qs where "draw_all draw_line ks (left - t) s1 = (qs, l, s')"
      by (auto split: prod.splits)
    from Cons.IH[OF this _ s1] Cons.prems(2) show ?thesis by auto
  qed
qed

section \<open>Allocation to one position\<close>

definition doc_key :: "cov_doc \<Rightarrow> cov_key" where
  "doc_key d = (cd_kind d, cd_order_ref d, cd_line_id d)"

definition docs_quantity :: "cov_key \<Rightarrow> cov_doc list \<Rightarrow> rat" where
  "docs_quantity key ds = sum_list (map cd_quantity (filter (\<lambda>d. doc_key d = key) ds))"

lemma docs_quantity_append [simp]:
  "docs_quantity key [] = 0" "docs_quantity key (ds @ es) = docs_quantity key ds + docs_quantity key es"
  by (simp_all add: docs_quantity_def)

lemma doc_of_fields [simp]:
  "doc_key (doc_of c (src, t)) = source_key src" "cd_quantity (doc_of c (src, t)) = t"
  by (cases src; simp add: doc_of_def doc_key_def)+

lemma docs_of_parts:
  "docs_quantity key (map (doc_of c) ps) = parts_total (filter (\<lambda>p. source_key (fst p) = key) ps)"
  "sum_list (map cd_quantity (map (doc_of c) ps)) = parts_total ps"
  by (induction ps) (auto simp: docs_quantity_def)

lemma allocate_docs_facts:
  assumes "allocate_docs need nom c orders kind s = (q, ds, s')"
  shows "0 \<le> q" "0 \<le> need \<Longrightarrow> q \<le> need" "sum_list (map cd_quantity ds) = q"
    and "dict_get_or s' key 0 = dict_get_or s key 0 + docs_quantity key ds"
    and "q < need \<Longrightarrow> src \<in> set (matching_sources kind nom c orders) \<Longrightarrow> 0 < need \<Longrightarrow> line_left s' src \<le> 0"
    and "\<And>Q. (\<And>src. src \<in> set (matching_sources kind nom c orders) \<Longrightarrow> source_key src = key \<Longrightarrow> source_quantity src \<le> Q) \<Longrightarrow>
      dict_get_or s key 0 \<le> Q \<Longrightarrow> dict_get_or s' key 0 \<le> Q"
    and "line_left s' src \<le> line_left s src"
proof -
  have G: "0 \<le> q \<and> (0 \<le> need \<longrightarrow> q \<le> need) \<and> sum_list (map cd_quantity ds) = q \<and>
    dict_get_or s' key 0 = dict_get_or s key 0 + docs_quantity key ds \<and>
    (q < need \<longrightarrow> src \<in> set (matching_sources kind nom c orders) \<longrightarrow> 0 < need \<longrightarrow> line_left s' src \<le> 0) \<and>
    (\<forall>Q. (\<forall>src. src \<in> set (matching_sources kind nom c orders) \<longrightarrow> source_key src = key \<longrightarrow> source_quantity src \<le> Q) \<longrightarrow>
      dict_get_or s key 0 \<le> Q \<longrightarrow> dict_get_or s' key 0 \<le> Q) \<and>
    line_left s' src \<le> line_left s src"
  proof (cases "need \<le> 0")
    case True
    with assms show ?thesis by (auto simp: allocate_docs_def)
  next
    case False
    obtain ps l where d: "draw_all draw_line (matching_sources kind nom c orders) need s = (ps, l, s')"
      and q: "q = need - l" "ds = map (doc_of c) ps"
      using assms False by (auto simp: allocate_docs_def split: prod.splits)
    from cov.draw_all_left_bounds[OF d] False have l: "0 \<le> l" "l \<le> need" by auto
    from cov.draw_all_conserves[OF d] have tot: "parts_total ps = q" using q by simp
    have "q < need \<longrightarrow> src \<in> set (matching_sources kind nom c orders) \<longrightarrow> 0 < need \<longrightarrow> line_left s' src \<le> 0"
      using cov.draw_all_exhausts[OF d] False q(1) by auto
    moreover have "dict_get_or s' key 0 = dict_get_or s key 0 + docs_quantity key ds"
      unfolding q(2) docs_of_parts by (rule draw_all_consumed[OF d])
    moreover have "sum_list (map cd_quantity ds) = q" unfolding q(2) docs_of_parts by (rule tot)
    moreover have "0 \<le> q" "0 \<le> need \<longrightarrow> q \<le> need" using l q(1) by auto
    moreover have "\<forall>Q. (\<forall>src. src \<in> set (matching_sources kind nom c orders) \<longrightarrow> source_key src = key \<longrightarrow>
        source_quantity src \<le> Q) \<longrightarrow> dict_get_or s key 0 \<le> Q \<longrightarrow> dict_get_or s' key 0 \<le> Q"
      using draw_all_within[OF d, of key] by blast
    moreover have "line_left s' src \<le> line_left s src" by (rule cov.draw_all_mono[OF d])
    ultimately show ?thesis by blast
  qed
  then show "0 \<le> q" "0 \<le> need \<Longrightarrow> q \<le> need" "sum_list (map cd_quantity ds) = q"
    "dict_get_or s' key 0 = dict_get_or s key 0 + docs_quantity key ds"
    "q < need \<Longrightarrow> src \<in> set (matching_sources kind nom c orders) \<Longrightarrow> 0 < need \<Longrightarrow> line_left s' src \<le> 0"
    "\<And>Q. (\<And>src. src \<in> set (matching_sources kind nom c orders) \<Longrightarrow> source_key src = key \<Longrightarrow> source_quantity src \<le> Q) \<Longrightarrow>
      dict_get_or s key 0 \<le> Q \<Longrightarrow> dict_get_or s' key 0 \<le> Q"
    "line_left s' src \<le> line_left s src"
    by blast+
qed

section \<open>The positions in order\<close>

definition row_docs :: "coverage_row \<Rightarrow> cov_doc list" where
  "row_docs r = cr_transfer_docs r @ cr_supplier_docs r"

text \<open>What a row says, relative to the consumption before and after it.\<close>

definition row_ok ::
  "jdict list \<Rightarrow> jdict list \<Rightarrow> consumption \<Rightarrow> coverage_row \<Rightarrow> bool" where
  "row_ok qty_orders transfers after r \<longleftrightarrow>
     0 \<le> cr_transfer_ordered r \<and> 0 \<le> cr_supplier_ordered r \<and>
     sum_list (map cd_quantity (cr_transfer_docs r)) = cr_transfer_ordered r \<and>
     sum_list (map cd_quantity (cr_supplier_docs r)) = cr_supplier_ordered r \<and>
     (0 \<le> cr_requested r \<longrightarrow>
        cr_transfer_ordered r + cr_supplier_ordered r + cr_remaining r = cr_requested r \<and>
        cr_covered r = cr_transfer_ordered r + cr_supplier_ordered r \<and> 0 \<le> cr_remaining r) \<and>
     (0 < cr_supplier_ordered r \<longrightarrow>
        (\<forall>src \<in> set (matching_sources Transfer_Order (cr_nomenclature_id r) (cr_characteristic_id r) transfers).
           line_left after src \<le> 0)) \<and>
     (0 < cr_remaining r \<longrightarrow>
        (\<forall>src \<in> set (matching_sources Transfer_Order (cr_nomenclature_id r) (cr_characteristic_id r) transfers) \<union>
              set (matching_sources Supplier_Order (cr_nomenclature_id r) (cr_characteristic_id r) qty_orders).
           line_left after src \<le> 0))"

lemma cover_position_ok:
  assumes "cover_position qty_orders transfers position s = (Some r, s')"
  shows "row_ok qty_orders transfers s' r"
    and "dict_get_or s' key 0 = dict_get_or s key 0 + docs_quantity key (row_docs r)"
proof -
  let ?nom = "norm_ref (jget position ''nomenclature_id'')"
  let ?c = "characteristic (jget position ''characteristic_id'')"
  let ?q = "cov_decimal (get_first position [''quantity'', ''requested_quantity''])"
  obtain tq tds s1 where t: "allocate_docs ?q ?nom ?c transfers Transfer_Order s = (tq, tds, s1)"
    by (metis prod_cases3)
  obtain sq sds s2 where s: "allocate_docs (max 0 (?q - tq)) ?nom ?c qty_orders Supplier_Order s1 = (sq, sds, s2)"
    by (metis prod_cases3)
  have r: "cr_nomenclature_id r = ?nom" "cr_characteristic_id r = ?c" "cr_requested r = ?q"
    "cr_supplier_ordered r = sq" "cr_transfer_ordered r = tq" "cr_covered r = min ?q (sq + tq)"
    "cr_remaining r = max 0 (?q - min ?q (sq + tq))" "cr_supplier_docs r = sds" "cr_transfer_docs r = tds"
    and s': "s' = s2"
    using assms t s by (auto simp: cover_position_def Let_def split: if_splits)
  note T = allocate_docs_facts[OF t] and S = allocate_docs_facts[OF s]
  show "dict_get_or s' key 0 = dict_get_or s key 0 + docs_quantity key (row_docs r)"
    using T(4)[of key] S(4)[of key] by (simp add: s' r row_docs_def)
  have lim: "0 \<le> ?q \<Longrightarrow> tq \<le> ?q \<and> sq \<le> ?q - tq" using T(2) S(2) by fastforce
  have ex: "line_left s2 src \<le> 0"
    if "src \<in> set (matching_sources Transfer_Order ?nom ?c transfers)" "tq < ?q" for src
  proof -
    have "line_left s1 src \<le> 0" using T(5)[OF that(2,1)] that T(1) by simp
    with S(7)[of src] show ?thesis by linarith
  qed
  have sup: "0 < sq \<Longrightarrow> tq < ?q" using S(2) by (cases "?q - tq \<le> 0") auto
  show "row_ok qty_orders transfers s' r"
    unfolding row_ok_def r s'
  proof (intro conjI impI ballI)
    fix src assume "0 < sq" "src \<in> set (matching_sources Transfer_Order ?nom ?c transfers)"
    with ex sup show "line_left s2 src \<le> 0" by blast
  next
    fix src
    assume rem: "0 < max 0 (?q - min ?q (sq + tq))"
      and src: "src \<in> set (matching_sources Transfer_Order ?nom ?c transfers) \<union>
        set (matching_sources Supplier_Order ?nom ?c qty_orders)"
    from rem T(1) S(1) have "tq < ?q" "sq < max 0 (?q - tq)" "0 < max 0 (?q - tq)" by auto
    with ex S(5) src show "line_left s2 src \<le> 0" by blast
  qed (use T S lim in auto)
qed

lemma cover_position_none:
  "cover_position qty_orders transfers position s = (None, s') \<Longrightarrow> s' = s"
  by (auto simp: cover_position_def Let_def split: if_splits prod.splits)

lemma cover_position_within:
  assumes "cover_position qty_orders transfers position s = (r, s')"
    and "\<And>nom c src. src \<in> set (matching_sources Transfer_Order nom c transfers) \<Longrightarrow>
      source_key src = key \<Longrightarrow> source_quantity src \<le> Q"
    and "\<And>nom c src. src \<in> set (matching_sources Supplier_Order nom c qty_orders) \<Longrightarrow>
      source_key src = key \<Longrightarrow> source_quantity src \<le> Q"
    and "dict_get_or s key 0 \<le> Q"
  shows "dict_get_or s' key 0 \<le> Q"
proof (cases r)
  case None
  with assms cover_position_none show ?thesis by blast
next
  case (Some row)
  let ?nom = "norm_ref (jget position ''nomenclature_id'')"
  let ?c = "characteristic (jget position ''characteristic_id'')"
  let ?q = "cov_decimal (get_first position [''quantity'', ''requested_quantity''])"
  obtain tq tds s1 where t: "allocate_docs ?q ?nom ?c transfers Transfer_Order s = (tq, tds, s1)"
    by (metis prod_cases3)
  obtain sq sds s2 where s: "allocate_docs (max 0 (?q - tq)) ?nom ?c qty_orders Supplier_Order s1 = (sq, sds, s2)"
    by (metis prod_cases3)
  have s': "s' = s2" using assms(1) Some t s by (auto simp: cover_position_def Let_def split: if_splits)
  have "dict_get_or s1 key 0 \<le> Q" by (rule allocate_docs_facts(6)[OF t]) (use assms in auto)
  then show ?thesis unfolding s' by (rule allocate_docs_facts(6)[OF s, rotated]) (use assms in auto)
qed

lemma cover_position_mono:
  assumes "cover_position qty_orders transfers position s = (r, s')"
  shows "line_left s' src \<le> line_left s src"
proof (cases r)
  case None
  with assms cover_position_none show ?thesis by blast
next
  case (Some row)
  let ?nom = "norm_ref (jget position ''nomenclature_id'')"
  let ?c = "characteristic (jget position ''characteristic_id'')"
  let ?q = "cov_decimal (get_first position [''quantity'', ''requested_quantity''])"
  obtain tq tds s1 where t: "allocate_docs ?q ?nom ?c transfers Transfer_Order s = (tq, tds, s1)"
    by (metis prod_cases3)
  obtain sq sds s2 where s: "allocate_docs (max 0 (?q - tq)) ?nom ?c qty_orders Supplier_Order s1 = (sq, sds, s2)"
    by (metis prod_cases3)
  have "s' = s2" using assms(1) Some t s by (auto simp: cover_position_def Let_def split: if_splits)
  with allocate_docs_facts(7)[OF t, of src] allocate_docs_facts(7)[OF s, of src] show ?thesis by simp
qed

lemma row_ok_later:
  "row_ok qty_orders transfers s r \<Longrightarrow> (\<And>src. line_left s' src \<le> line_left s src) \<Longrightarrow> row_ok qty_orders transfers s' r"
  unfolding row_ok_def by (meson order_trans)

lemma cover_positions_facts:
  assumes "cover_positions qty_orders transfers positions s = (rows, s')"
  shows "dict_get_or s' key 0 = dict_get_or s key 0 + docs_quantity key (concat (map row_docs rows)) \<and>
    (\<forall>src. line_left s' src \<le> line_left s src) \<and> (\<forall>r \<in> set rows. row_ok qty_orders transfers s' r)"
  using assms
proof (induction positions arbitrary: s rows s')
  case Nil
  then show ?case by simp
next
  case (Cons p ps)
  obtain row s1 where row: "cover_position qty_orders transfers p s = (row, s1)" by fastforce
  obtain rs s2 where rs: "cover_positions qty_orders transfers ps s1 = (rs, s2)" by fastforce
  have eq: "rows = (case row of None \<Rightarrow> rs | Some r \<Rightarrow> r # rs)" "s' = s2"
    using Cons.prems row rs by auto
  note IH = Cons.IH[OF rs] and mono = cover_position_mono[OF row]
  have m: "\<forall>src. line_left s' src \<le> line_left s src" unfolding eq(2) using IH mono order_trans by blast
  show ?case
  proof (cases row)
    case None
    with row cover_position_none have "s1 = s" by blast
    with IH eq None show ?thesis by simp
  next
    case (Some r)
    note ok = cover_position_ok[OF row[unfolded Some]]
    have "row_ok qty_orders transfers s' r" unfolding eq(2) using row_ok_later[OF ok(1)] IH by blast
    with IH eq ok(2)[of key] Some m show ?thesis by simp
  qed
qed

lemma cover_positions_within:
  assumes "\<And>nom c src. src \<in> set (matching_sources Transfer_Order nom c transfers) \<Longrightarrow>
      source_key src = key \<Longrightarrow> source_quantity src \<le> Q"
    and "\<And>nom c src. src \<in> set (matching_sources Supplier_Order nom c qty_orders) \<Longrightarrow>
      source_key src = key \<Longrightarrow> source_quantity src \<le> Q"
  shows "cover_positions qty_orders transfers positions s = (rows, s') \<Longrightarrow>
    dict_get_or s key 0 \<le> Q \<Longrightarrow> dict_get_or s' key 0 \<le> Q"
proof (induction positions arbitrary: s rows s')
  case Nil
  then show ?case by simp
next
  case (Cons p ps)
  obtain row s1 where row: "cover_position qty_orders transfers p s = (row, s1)" by fastforce
  obtain rs s2 where rs: "cover_positions qty_orders transfers ps s1 = (rs, s2)" by fastforce
  have "dict_get_or s1 key 0 \<le> Q" by (rule cover_position_within[OF row assms Cons.prems(2)])
  from Cons.IH[OF rs this] Cons.prems(1) row rs show ?case by simp
qed

section \<open>The selected orders\<close>

lemma orders_by_ref_facts:
  assumes "distinct (dict_keys acc)"
    and "\<forall>(r, d) \<in> set acc. r = order_ref d \<and> r \<noteq> [] \<and> \<not> document_cancelled d \<and> d \<in> A"
  shows "distinct (dict_keys (orders_by_ref orders acc)) \<and>
    (\<forall>(r, d) \<in> set (orders_by_ref orders acc). r = order_ref d \<and> r \<noteq> [] \<and> \<not> document_cancelled d \<and> d \<in> A \<union> set orders) \<and>
    set (dict_keys (orders_by_ref orders acc)) =
      set (dict_keys acc) \<union> order_ref ` {d \<in> set orders. order_ref d \<noteq> [] \<and> \<not> document_cancelled d}"
  using assms
proof (induction orders arbitrary: acc A)
  case Nil
  then show ?case by auto
next
  case (Cons d ds)
  show ?case
  proof (cases "order_ref d \<noteq> [] \<and> \<not> document_cancelled d")
    case False
    have "{x \<in> set (d # ds). order_ref x \<noteq> [] \<and> \<not> document_cancelled x} =
        {x \<in> set ds. order_ref x \<noteq> [] \<and> \<not> document_cancelled x}" using False by auto
    moreover have "\<forall>(r, d) \<in> set (orders_by_ref ds acc). r = order_ref d \<and> r \<noteq> [] \<and> \<not> document_cancelled d \<and> d \<in> A \<union> set (d # ds)"
      if "\<forall>(r, d) \<in> set (orders_by_ref ds acc). r = order_ref d \<and> r \<noteq> [] \<and> \<not> document_cancelled d \<and> d \<in> A \<union> set ds"
      using that by auto
    moreover have "orders_by_ref (d # ds) acc = orders_by_ref ds acc" using False by auto
    ultimately show ?thesis using Cons.IH[OF Cons.prems] by auto
  next
    case True
    let ?acc = "dict_set (order_ref d) d acc"
    have 1: "distinct (dict_keys ?acc)" using Cons.prems(1) by (rule distinct_dict_set)
    have 2: "\<forall>(r, x) \<in> set ?acc. r = order_ref x \<and> r \<noteq> [] \<and> \<not> document_cancelled x \<and> x \<in> insert d A"
    proof
      fix p assume "p \<in> set ?acc"
      then have "dict_get ?acc (fst p) = Some (snd p)" using dict_get_iff[OF 1, of "fst p" "snd p"] by simp
      then have "p = (order_ref d, d) \<or> dict_get acc (fst p) = Some (snd p)" by (cases p) (auto split: if_splits)
      then show "case p of (r, x) \<Rightarrow> r = order_ref x \<and> r \<noteq> [] \<and> \<not> document_cancelled x \<and> x \<in> insert d A"
        using True Cons.prems(2) dict_get_Some_in[of acc "fst p" "snd p"] by (cases p) auto
    qed
    have 3: "set (dict_keys ?acc) = insert (order_ref d) (set (dict_keys acc))"
      unfolding dict_keys_set by auto
    have 4: "{x \<in> set (d # ds). order_ref x \<noteq> [] \<and> \<not> document_cancelled x} =
        insert d {x \<in> set ds. order_ref x \<noteq> [] \<and> \<not> document_cancelled x}" using True by auto
    have 5: "orders_by_ref (d # ds) acc = orders_by_ref ds ?acc" using True by simp
    have "insert d A \<union> set ds = A \<union> set (d # ds)" by auto
    with Cons.IH[OF 1 2] show ?thesis unfolding 5 4 3 by simp
  qed
qed

lemma by_ref_facts:
  fixes orders defines "b \<equiv> orders_by_ref orders []"
  shows "distinct (dict_keys b)"
    and "(r, d) \<in> set b \<Longrightarrow> r = order_ref d \<and> r \<noteq> [] \<and> \<not> document_cancelled d \<and> d \<in> set orders"
    and "set (dict_keys b) = order_ref ` {d \<in> set orders. order_ref d \<noteq> [] \<and> \<not> document_cancelled d}"
  using orders_by_ref_facts[of "[]" "{}" orders] by (auto simp: b_def)

lemma excluded_parents_iff:
  assumes "distinct (dict_keys b)"
  shows "q \<in> set (excluded_parents b) \<longleftrightarrow>
    (\<exists>r d parent. (r, d) \<in> set b \<and> is_definite_supplier_order d \<and> q \<in> set (parent_refs_from_chain d) \<and> q \<noteq> r \<and>
       (q, parent) \<in> set b \<and> \<not> is_definite_supplier_order parent)"
proof -
  have c: "(case dict_get b q of None \<Rightarrow> False | Some parent \<Rightarrow> \<not> is_definite_supplier_order parent) \<longleftrightarrow>
      (\<exists>parent. (q, parent) \<in> set b \<and> \<not> is_definite_supplier_order parent)"
    by (cases "dict_get b q") (auto simp flip: dict_get_iff[OF assms])
  have "q \<in> set (excluded_parents b) \<longleftrightarrow> (\<exists>(r, d) \<in> set b. is_definite_supplier_order d \<and>
      q \<in> set (parent_refs_from_chain d) \<and> q \<noteq> r \<and>
      (case dict_get b q of None \<Rightarrow> False | Some parent \<Rightarrow> \<not> is_definite_supplier_order parent))"
    by (auto simp: excluded_parents_def split: if_splits)
  then show ?thesis unfolding c by blast
qed

lemma coverage_positions:
  "cs_positions (build_material_order_coverage positions supplier_orders transfer_orders checked_at) =
   fst (cover_positions (select_supplier_orders_for_qty supplier_orders) transfer_orders positions [])"
  by (simp add: build_material_order_coverage_def Let_def)

section \<open>Properties\<close>

text \<open>
  Only one order per reference counts, and conditional parents give way to their definite children:
  the selected orders are live documents of the input with distinct references; none of them is a
  conditional order named in the chain of another, definite, selected order; and every live reference
  of the input is either selected or is such a conditional parent.
\<close>

lemma selected_orders_correct:
  "distinct (map order_ref (select_supplier_orders_for_qty orders)) \<and>
   (\<forall>d \<in> set (select_supplier_orders_for_qty orders).
      d \<in> set orders \<and> order_ref d \<noteq> [] \<and> \<not> document_cancelled d) \<and>
   (\<forall>d \<in> set (select_supplier_orders_for_qty orders). \<forall>p \<in> set (select_supplier_orders_for_qty orders).
      is_definite_supplier_order d \<and> order_ref p \<noteq> order_ref d \<and>
      order_ref p \<in> set (parent_refs_from_chain d) \<longrightarrow> is_definite_supplier_order p) \<and>
   (\<forall>d \<in> set orders. order_ref d \<noteq> [] \<and> \<not> document_cancelled d \<longrightarrow>
      order_ref d \<in> order_ref ` set (select_supplier_orders_for_qty orders) \<or>
      (\<exists>c \<in> set (select_supplier_orders_for_qty orders).
         is_definite_supplier_order c \<and> order_ref d \<in> set (parent_refs_from_chain c)))"
proof -
  define b where "b = orders_by_ref orders []"
  note F = by_ref_facts[where orders = orders, folded b_def]
  note X = excluded_parents_iff[OF F(1)]
  let ?sel = "select_supplier_orders_for_qty orders"
  define E where "E = set (excluded_parents b)"
  have b_ref: "r = order_ref d" if "(r, d) \<in> set b" for r d using F(2)[OF that] by simp
  have "d \<in> set ?sel \<longleftrightarrow> (\<exists>r. (r, d) \<in> set b \<and> r \<notin> E)" for d
    by (simp add: select_supplier_orders_for_qty_def Let_def b_def[symmetric] E_def[symmetric] image_iff
        split_beta)
  then have sel: "d \<in> set ?sel \<longleftrightarrow> (order_ref d, d) \<in> set b \<and> order_ref d \<notin> set (excluded_parents b)" for d
    unfolding E_def using b_ref by blast
  have def_kept: "d \<in> set ?sel" if "(r, d) \<in> set b" "is_definite_supplier_order d" for r d
  proof -
    have "r = order_ref d" using F(2)[OF that(1)] by simp
    moreover have "r \<notin> set (excluded_parents b)"
      using that X[of r] dict_get_iff[OF F(1), of r] by (metis option.inject)
    ultimately show ?thesis using that sel by simp
  qed
  have dist: "distinct (map order_ref ?sel)"
  proof -
    have "map order_ref ?sel = map fst (filter (\<lambda>(r, d). r \<notin> set (excluded_parents b)) b)"
      unfolding select_supplier_orders_for_qty_def Let_def b_def[symmetric] map_map
      by (rule map_cong[OF refl]) (auto dest: b_ref)
    then show ?thesis using F(1) by (simp add: distinct_map_filter)
  qed
  have "is_definite_supplier_order p"
    if "d \<in> set ?sel" "p \<in> set ?sel" "is_definite_supplier_order d" "order_ref p \<noteq> order_ref d"
      "order_ref p \<in> set (parent_refs_from_chain d)" for d p
    using that sel[of d] sel[of p] X[of "order_ref p"] by blast
  moreover have "order_ref d \<in> order_ref ` set ?sel \<or>
      (\<exists>c \<in> set ?sel. is_definite_supplier_order c \<and> order_ref d \<in> set (parent_refs_from_chain c))"
    if d: "d \<in> set orders" "order_ref d \<noteq> []" "\<not> document_cancelled d" for d
  proof -
    have "order_ref d \<in> set (dict_keys b)" unfolding F(3) using d by blast
    then obtain e where e: "(order_ref d, e) \<in> set b" by auto
    then have "order_ref e = order_ref d" using F(2) by metis
    show ?thesis
    proof (cases "order_ref d \<in> set (excluded_parents b)")
      case False
      with e \<open>order_ref e = order_ref d\<close> sel[of e] show ?thesis by (metis image_eqI)
    next
      case True
      with X[of "order_ref d"] def_kept show ?thesis by blast
    qed
  qed
  ultimately show ?thesis using dist sel F(2) by blast
qed

definition demo_order :: "string \<Rightarrow> int \<Rightarrow> jdict" where
  "demo_order ref q = [(''ref'', JStr ref), (''is_definite'', JBool True),
     (''lines'', JArr [JObj [(''nomenclature_id'', JStr ''n''), (''quantity'', JInt q)]])]"

definition demo_position :: "string \<Rightarrow> int \<Rightarrow> jdict" where
  "demo_position i q = [(''line_id'', JStr i), (''nomenclature_id'', JStr ''n''), (''quantity'', JInt q)]"

text \<open>
  C24: No order line is promised twice: over all positions of a case, the quantities allocated to the
  documents of one order line (order reference and line id) total at most the quantity of the line.
\<close>

lemma no_line_promised_twice:
  assumes "0 \<le> Q"
    and "\<forall>order \<in> set transfer_orders. \<forall>line \<in> set (lines_from_order order).
      (Transfer_Order, order_ref order, cl_line_id line) = key \<longrightarrow> cl_quantity line \<le> Q"
    and "\<forall>order \<in> set supplier_orders. \<forall>line \<in> set (lines_from_order order).
      (Supplier_Order, order_ref order, cl_line_id line) = key \<longrightarrow> cl_quantity line \<le> Q"
  shows "docs_quantity key (concat (map row_docs
    (cs_positions (build_material_order_coverage positions supplier_orders transfer_orders checked_at)))) \<le> Q"
proof -
  let ?sel = "select_supplier_orders_for_qty supplier_orders"
  obtain rows s' where r: "cover_positions ?sel transfer_orders positions [] = (rows, s')" by fastforce
  have sub: "set ?sel \<subseteq> set supplier_orders"
    using by_ref_facts(2)[where orders = supplier_orders] by (auto simp: select_supplier_orders_for_qty_def Let_def)
  have "dict_get_or s' key 0 \<le> Q"
  proof (rule cover_positions_within[OF _ _ r])
    show "source_quantity src \<le> Q" if "src \<in> set (matching_sources Transfer_Order nom c transfer_orders)"
      "source_key src = key" for nom c src
      using that assms(2) by (auto simp: matching_sources_def)
    show "source_quantity src \<le> Q" if "src \<in> set (matching_sources Supplier_Order nom c ?sel)"
      "source_key src = key" for nom c src
      using that assms(3) sub by (auto simp: matching_sources_def)
  qed (use assms(1) in simp)
  moreover have "dict_get_or s' key 0 = docs_quantity key (concat (map row_docs rows))"
    using cover_positions_facts[OF r, of key] by simp
  ultimately show ?thesis using r by (simp add: coverage_positions)
qed

lemma no_line_promised_twice_witness:
  "docs_quantity (Supplier_Order, ''a'', ''1'') (concat (map row_docs (cs_positions
     (build_material_order_coverage [demo_position ''p'' 4, demo_position ''q'' 4] [demo_order ''a'' 5] [] [])))) \<le> 5"
proof -
  have "map (\<lambda>l. cl_quantity l) (lines_from_order (demo_order ''a'' 5)) = [5]" by code_simp
  then have "\<forall>line \<in> set (lines_from_order (demo_order ''a'' 5)). cl_quantity line \<le> 5"
    by (metis (no_types, lifting) image_eqI list.set_map set_ConsD empty_iff empty_set order_refl)
  then show ?thesis by (intro no_line_promised_twice) auto
qed

text \<open>
  The figures of every covered position add up and the allocation is exhaustive: the documents of a
  row total its ordered quantities; for a non-negative request, transfers, supplier orders and the
  remaining need add up to the request; supplier orders are used only when every matching transfer
  line has been allocated in full, and a need remains only when every matching line of both kinds has.
\<close>

lemma coverage_rows_exhaustive:
  assumes "r \<in> set (cs_positions (build_material_order_coverage positions supplier_orders transfer_orders checked_at))"
    and "0 \<le> cr_requested r"
    and "all_docs = concat (map row_docs
      (cs_positions (build_material_order_coverage positions supplier_orders transfer_orders checked_at)))"
  shows "sum_list (map cd_quantity (cr_transfer_docs r)) = cr_transfer_ordered r \<and>
    sum_list (map cd_quantity (cr_supplier_docs r)) = cr_supplier_ordered r \<and>
    cr_transfer_ordered r + cr_supplier_ordered r + cr_remaining r = cr_requested r \<and>
    0 \<le> cr_transfer_ordered r \<and> 0 \<le> cr_supplier_ordered r \<and> 0 \<le> cr_remaining r \<and>
    (0 < cr_supplier_ordered r \<or> 0 < cr_remaining r \<longrightarrow>
      (\<forall>src \<in> set (matching_sources Transfer_Order (cr_nomenclature_id r) (cr_characteristic_id r) transfer_orders).
         source_quantity src \<le> docs_quantity (source_key src) all_docs)) \<and>
    (0 < cr_remaining r \<longrightarrow>
      (\<forall>src \<in> set (matching_sources Supplier_Order (cr_nomenclature_id r) (cr_characteristic_id r)
            (select_supplier_orders_for_qty supplier_orders)).
         source_quantity src \<le> docs_quantity (source_key src) all_docs))"
proof -
  let ?sel = "select_supplier_orders_for_qty supplier_orders"
  obtain rows s' where rs: "cover_positions ?sel transfer_orders positions [] = (rows, s')" by fastforce
  have eq: "cs_positions (build_material_order_coverage positions supplier_orders transfer_orders checked_at) = rows"
    using rs by (simp add: coverage_positions)
  have left: "line_left s' src = source_quantity src - docs_quantity (source_key src) all_docs" for src
    using cover_positions_facts[OF rs, of "source_key src"] by (simp add: line_left_def assms(3) eq)
  have "row_ok ?sel transfer_orders s' r"
    using cover_positions_facts[OF rs] assms(1) by (simp add: eq)
  then show ?thesis using assms(2) unfolding row_ok_def left diff_le_0_iff_le by auto
qed

end
