(* ===== verification/Material_Bank.thy ===== *)
theory Material_Bank
  imports Json Decimals
begin

text \<open>
  The material bank (\<open>app/agents/procurement_manager_agent/material_bank.py\<close>): warehouses, stock lines and
  suppliers with their offerings, as the JSON objects of the seed file, and its totals.  Reading the file
  is left out; the accessors of the class return deep copies, so values are shared freely here.  The
  lists of the bank hold objects, and texts (ids, names) are strings.
\<close>

section \<open>The bank\<close>

record material_bank =
  mb_materials :: "jdict list"
  mb_warehouses :: "jdict list"
  mb_stock :: "jdict list"
  mb_suppliers :: "jdict list"

definition active_suppliers :: "material_bank \<Rightarrow> jdict list" where
  "active_suppliers bank =
     filter (\<lambda>item. jtruthy (jget_default item ''is_active'' (JBool True)) \<and> jtruthy (jget item ''supplier_id''))
       (mb_suppliers bank)"

text \<open>\<open>supplier.get("offerings") or []\<close>, the objects of it.\<close>

definition offerings_of :: "jdict \<Rightarrow> jdict list" where
  "offerings_of supplier = jobjects (jlist (jget supplier ''offerings''))"

text \<open>\<open>Decimal(str(value or 0))\<close>; it raises on anything else.\<close>

definition bank_dec :: "json \<Rightarrow> rat option" where
  "bank_dec v = (if jtruthy v then jdecimal v else Some 0)"

definition nomenclature_of :: "jdict \<Rightarrow> string" where
  "nomenclature_of d = jtext (jget d ''nomenclature_id'')"

definition bank_stock_available :: "jdict \<Rightarrow> rat option" where
  "bank_stock_available line = do {
     quantity \<leftarrow> bank_dec (jget line ''quantity'');
     reserved \<leftarrow> bank_dec (jget line ''reserved'');
     Some (if quantity - reserved < 0 then 0 else quantity - reserved) }"

definition bank_offering_available :: "jdict \<Rightarrow> rat option" where
  "bank_offering_available offering =
     bank_dec (jget_default offering ''available_quantity'' (jget offering ''available_qty''))"

section \<open>Totals\<close>

definition add_quantity :: "string \<Rightarrow> rat \<Rightarrow> (string, rat) dict \<Rightarrow> (string, rat) dict" where
  "add_quantity k x d = dict_set k (dict_get_or d k 0 + x) d"

fun sum_stock :: "jdict list \<Rightarrow> (string, rat) dict \<Rightarrow> (string, rat) dict option" where
  "sum_stock [] acc = Some acc"
| "sum_stock (line # lines) acc =
     (if nomenclature_of line = [] then sum_stock lines acc
      else do {
        available \<leftarrow> bank_stock_available line;
        sum_stock lines (add_quantity (nomenclature_of line) available acc) })"

text \<open>The two loops over suppliers and their offerings, flattened.\<close>

fun sum_offerings :: "jdict list \<Rightarrow> (string, rat) dict \<Rightarrow> (string, rat) dict option" where
  "sum_offerings [] acc = Some acc"
| "sum_offerings (offering # offerings) acc =
     (if nomenclature_of offering = [] then sum_offerings offerings acc
      else do {
        qty \<leftarrow> bank_offering_available offering;
        sum_offerings offerings
          (if qty \<le> 0 then acc else add_quantity (nomenclature_of offering) qty acc) })"

record bank_line =
  bl_nomenclature_id :: string
  bl_warehouse_quantity :: rat
  bl_supplier_quantity :: rat
  bl_total_quantity :: rat

definition bank_line_of :: "(string, rat) dict \<Rightarrow> (string, rat) dict \<Rightarrow> string \<Rightarrow> bank_line" where
  "bank_line_of warehouse_by_nom supplier_by_nom key =
     (let wh = dict_get_or warehouse_by_nom key 0; sp = dict_get_or supplier_by_nom key 0
      in \<lparr>bl_nomenclature_id = key, bl_warehouse_quantity = wh, bl_supplier_quantity = sp,
          bl_total_quantity = wh + sp\<rparr>)"

record bank_totals =
  bt_warehouses_count :: nat
  bt_suppliers_count :: nat
  bt_stock_lines_count :: nat
  bt_warehouse_quantity_total :: rat
  bt_supplier_quantity_total :: rat
  bt_bank_quantity_total :: rat
  bt_by_nomenclature :: "bank_line list"

definition bank_totals :: "material_bank \<Rightarrow> bank_totals option" where
  "bank_totals bank = do {
     warehouse_by_nom \<leftarrow> sum_stock (mb_stock bank) [];
     supplier_by_nom \<leftarrow> sum_offerings (concat (map offerings_of (active_suppliers bank))) [];
     let keys = sort (uniq (dict_keys warehouse_by_nom @ dict_keys supplier_by_nom));
         lines = map (bank_line_of warehouse_by_nom supplier_by_nom) keys;
         warehouse_total = sum_list (map bl_warehouse_quantity lines);
         supplier_total = sum_list (map bl_supplier_quantity lines)
     in Some \<lparr>bt_warehouses_count = length (mb_warehouses bank),
       bt_suppliers_count = length (active_suppliers bank), bt_stock_lines_count = length (mb_stock bank),
       bt_warehouse_quantity_total = warehouse_total, bt_supplier_quantity_total = supplier_total,
       bt_bank_quantity_total = warehouse_total + supplier_total, bt_by_nomenclature = lines\<rparr> }"

section \<open>Sums over keys\<close>

definition quantity_of :: "(jdict \<Rightarrow> rat option) \<Rightarrow> jdict \<Rightarrow> rat" where
  "quantity_of f d = (case f d of Some x \<Rightarrow> x | None \<Rightarrow> 0)"

definition keyed_total :: "(jdict \<Rightarrow> rat option) \<Rightarrow> jdict list \<Rightarrow> string \<Rightarrow> rat" where
  "keyed_total f ds key = (\<Sum>d\<leftarrow>filter (\<lambda>d. nomenclature_of d = key) ds. max 0 (quantity_of f d))"

lemma keyed_total_simps [simp]:
  "keyed_total f [] key = 0"
  "keyed_total f (d # ds) key = (if nomenclature_of d = key then max 0 (quantity_of f d) else 0) + keyed_total f ds key"
  by (simp_all add: keyed_total_def)

lemma keyed_total_nonneg: "0 \<le> keyed_total f ds key"
  unfolding keyed_total_def by (rule sum_list_map_nonneg) simp

lemma add_quantity_get [simp]:
  "dict_get_or (add_quantity k x d) j 0 = dict_get_or d j 0 + (if j = k then x else 0)"
  by (simp add: add_quantity_def)

lemma add_quantity_keys: "set (dict_keys (add_quantity k x d)) = insert k (set (dict_keys d))"
  unfolding add_quantity_def dict_keys_set by auto

lemma sum_stock_spec:
  "sum_stock lines acc = Some d \<Longrightarrow> key \<noteq> [] \<Longrightarrow>
   dict_get_or d key 0 = dict_get_or acc key 0 + keyed_total bank_stock_available lines key"
proof (induction lines arbitrary: acc)
  case Nil
  then show ?case by simp
next
  case (Cons line lines)
  show ?case
  proof (cases "nomenclature_of line = []")
    case True
    with Cons show ?thesis by auto
  next
    case False
    with Cons.prems obtain x where x: "bank_stock_available line = Some x"
      "sum_stock lines (add_quantity (nomenclature_of line) x acc) = Some d"
      by (auto split: Option.bind_splits)
    have "0 \<le> x" using x(1) by (auto simp: bank_stock_available_def split: Option.bind_splits)
    then have "max 0 (quantity_of bank_stock_available line) = x" using x(1) by (simp add: quantity_of_def)
    then show ?thesis using Cons.IH[OF x(2) Cons.prems(2)] by auto
  qed
qed

lemma sum_stock_keys:
  "sum_stock lines acc = Some d \<Longrightarrow>
   set (dict_keys d) = set (dict_keys acc) \<union> (nomenclature_of ` set lines - {[]})"
proof (induction lines arbitrary: acc)
  case (Cons line lines)
  then show ?case
    using add_quantity_keys[of "nomenclature_of line"] by (auto split: Option.bind_splits if_splits)
qed simp

lemma sum_offerings_spec:
  "sum_offerings lines acc = Some d \<Longrightarrow> key \<noteq> [] \<Longrightarrow>
   dict_get_or d key 0 = dict_get_or acc key 0 + keyed_total bank_offering_available lines key"
proof (induction lines arbitrary: acc)
  case Nil
  then show ?case by simp
next
  case (Cons line lines)
  show ?case
  proof (cases "nomenclature_of line = []")
    case True
    with Cons show ?thesis by auto
  next
    case False
    with Cons.prems obtain x where x: "bank_offering_available line = Some x"
      "sum_offerings lines (if x \<le> 0 then acc else add_quantity (nomenclature_of line) x acc) = Some d"
      by (auto split: Option.bind_splits)
    then show ?thesis using Cons.IH[OF x(2) Cons.prems(2)] by (auto simp: quantity_of_def)
  qed
qed

lemma sum_offerings_keys:
  "sum_offerings lines acc = Some d \<Longrightarrow>
   set (dict_keys d) \<subseteq> set (dict_keys acc) \<union> (nomenclature_of ` set lines - {[]})"
proof (induction lines arbitrary: acc)
  case (Cons line lines)
  show ?case
  proof (cases "nomenclature_of line = []")
    case True
    with Cons show ?thesis by auto
  next
    case False
    with Cons.prems obtain x where
      "sum_offerings lines (if x \<le> 0 then acc else add_quantity (nomenclature_of line) x acc) = Some d"
      by (auto split: Option.bind_splits)
    from Cons.IH[OF this] False show ?thesis
      using add_quantity_keys[of "nomenclature_of line" x acc] by (auto split: if_splits)
  qed
qed simp

text \<open>Summing a quantity over distinct keys that include every key of the list is summing the list.\<close>

lemma keyed_total_regroup:
  assumes "distinct keys" "[] \<notin> set keys" "\<And>d. d \<in> set ds \<Longrightarrow> nomenclature_of d \<noteq> [] \<Longrightarrow>
      0 < quantity_of f d \<Longrightarrow> nomenclature_of d \<in> set keys"
  shows "(\<Sum>k\<leftarrow>keys. keyed_total f ds k) = (\<Sum>d\<leftarrow>filter (\<lambda>d. nomenclature_of d \<noteq> []) ds. max 0 (quantity_of f d))"
  using assms(3)
proof (induction ds)
  case Nil
  then show ?case by simp
next
  case (Cons d ds)
  then have IH: "(\<Sum>k\<leftarrow>keys. keyed_total f ds k) =
      (\<Sum>d\<leftarrow>filter (\<lambda>d. nomenclature_of d \<noteq> []) ds. max 0 (quantity_of f d))" by simp
  have one: "(\<Sum>k\<leftarrow>ks. if nomenclature_of d = k then x else 0) = (if nomenclature_of d \<in> set ks then x else (0::rat))"
    if "distinct ks" for ks x
    using that by (induction ks) auto
  have "(\<Sum>k\<leftarrow>keys. keyed_total f (d # ds) k) =
      (\<Sum>k\<leftarrow>keys. if nomenclature_of d = k then max 0 (quantity_of f d) else 0) + (\<Sum>k\<leftarrow>keys. keyed_total f ds k)"
    by (simp add: sum_list_addf)
  then show ?case
    using Cons.prems[of d] assms(2) unfolding one[OF assms(1)] IH
    by (cases "0 < quantity_of f d") (auto simp: max_def)
qed

lemma sum_list_keyed: "sum_list (map (\<lambda>k. f k) (sort ks)) = (\<Sum>k\<leftarrow>ks. f k :: rat)"
  by (metis mset_map mset_sort sum_mset_sum_list)

section \<open>Properties\<close>

text \<open>
  The totals of the bank are exact.  There is one line for each nomenclature of the stock or the
  offerings, in order; its quantities are the totals of the unreserved stock lines (never below zero) and of
  the positive offerings of active suppliers for that nomenclature; and the bank total is the total over
  all of them.
\<close>

lemma bank_totals_exact:
  assumes "bank_totals bank = Some t"
    and "offs = concat (map offerings_of (active_suppliers bank))"
  shows "sorted (map bl_nomenclature_id (bt_by_nomenclature t)) \<and>
    distinct (map bl_nomenclature_id (bt_by_nomenclature t)) \<and>
    (\<forall>l \<in> set (bt_by_nomenclature t).
       bl_warehouse_quantity l = keyed_total bank_stock_available (mb_stock bank) (bl_nomenclature_id l) \<and>
       bl_supplier_quantity l = keyed_total bank_offering_available offs (bl_nomenclature_id l) \<and>
       bl_total_quantity l = bl_warehouse_quantity l + bl_supplier_quantity l) \<and>
    bt_bank_quantity_total t =
      (\<Sum>d\<leftarrow>filter (\<lambda>d. nomenclature_of d \<noteq> []) (mb_stock bank). max 0 (quantity_of bank_stock_available d)) +
      (\<Sum>d\<leftarrow>filter (\<lambda>d. nomenclature_of d \<noteq> []) offs. max 0 (quantity_of bank_offering_available d))"
proof -
  from assms obtain w s where ws: "sum_stock (mb_stock bank) [] = Some w" "sum_offerings offs [] = Some s"
    by (auto simp: bank_totals_def split: Option.bind_splits)
  define keys where "keys = sort (uniq (dict_keys w @ dict_keys s))"
  have keys: "set keys = set (dict_keys w) \<union> set (dict_keys s)" "distinct keys" "sorted keys"
    by (simp_all add: keys_def)
  have t: "bt_by_nomenclature t = map (bank_line_of w s) keys"
    "bt_bank_quantity_total t = (\<Sum>k\<leftarrow>keys. dict_get_or w k 0) + (\<Sum>k\<leftarrow>keys. dict_get_or s k 0)"
    using assms ws by (auto simp: bank_totals_def Let_def keys_def bank_line_of_def o_def)
  have wk: "set (dict_keys w) = nomenclature_of ` set (mb_stock bank) - {[]}" using sum_stock_keys[OF ws(1)] by simp
  have sk: "set (dict_keys s) \<subseteq> nomenclature_of ` set offs - {[]}" using sum_offerings_keys[OF ws(2)] by simp
  have ne: "[] \<notin> set keys" using wk sk keys(1) by blast
  have W: "dict_get_or w k 0 = keyed_total bank_stock_available (mb_stock bank) k" if "k \<in> set keys" for k
    using sum_stock_spec[OF ws(1), of k] that ne by auto
  have S: "dict_get_or s k 0 = keyed_total bank_offering_available offs k" if "k \<in> set keys" for k
    using sum_offerings_spec[OF ws(2), of k] that ne by auto
  have off_keys: "nomenclature_of d \<in> set keys"
    if "d \<in> set offs" "nomenclature_of d \<noteq> []" "0 < quantity_of bank_offering_available d" for d
  proof (rule ccontr)
    assume "nomenclature_of d \<notin> set keys"
    then have "dict_get_or s (nomenclature_of d) 0 = 0"
      using keys(1) by (intro dict_get_or_absent) blast
    moreover have "max 0 (quantity_of bank_offering_available d) \<le> keyed_total bank_offering_available offs (nomenclature_of d)"
      unfolding keyed_total_def using that(1) by (intro member_le_sum_list) (auto simp: image_iff)
    ultimately show False using sum_offerings_spec[OF ws(2), of "nomenclature_of d"] that by simp
  qed
  have sums: "(\<Sum>k\<leftarrow>keys. dict_get_or w k 0) = (\<Sum>k\<leftarrow>keys. keyed_total bank_stock_available (mb_stock bank) k)"
    "(\<Sum>k\<leftarrow>keys. dict_get_or s k 0) = (\<Sum>k\<leftarrow>keys. keyed_total bank_offering_available offs k)"
    using W S by (auto intro!: arg_cong[where f = sum_list] map_cong)
  have names: "map bl_nomenclature_id (map (bank_line_of w s) keys) = keys"
    by (rule nth_equalityI) (simp_all add: bank_line_of_def Let_def)
  have "(\<Sum>k\<leftarrow>keys. keyed_total bank_stock_available (mb_stock bank) k) =
      (\<Sum>d\<leftarrow>filter (\<lambda>d. nomenclature_of d \<noteq> []) (mb_stock bank). max 0 (quantity_of bank_stock_available d))"
    using keys(2) ne by (rule keyed_total_regroup) (use wk keys(1) in auto)
  moreover have "(\<Sum>k\<leftarrow>keys. keyed_total bank_offering_available offs k) =
      (\<Sum>d\<leftarrow>filter (\<lambda>d. nomenclature_of d \<noteq> []) offs. max 0 (quantity_of bank_offering_available d))"
    using keys(2) ne off_keys by (rule keyed_total_regroup)
  moreover have "\<forall>l \<in> set (map (bank_line_of w s) keys).
       bl_warehouse_quantity l = keyed_total bank_stock_available (mb_stock bank) (bl_nomenclature_id l) \<and>
       bl_supplier_quantity l = keyed_total bank_offering_available offs (bl_nomenclature_id l) \<and>
       bl_total_quantity l = bl_warehouse_quantity l + bl_supplier_quantity l"
    using W S by (auto simp: bank_line_of_def Let_def)
  ultimately show ?thesis using keys(2,3) by (simp only: t names sums)
qed

definition demo_bank :: material_bank where
  "demo_bank = \<lparr>mb_materials = [], mb_warehouses = [[(''warehouse_id'', JStr ''w1''), (''name'', JStr ''Main'')]],
     mb_stock = [[(''stock_id'', JStr ''s1''), (''warehouse_id'', JStr ''w1''), (''nomenclature_id'', JStr ''n1''),
        (''quantity'', JInt 10), (''reserved'', JInt 4)]],
     mb_suppliers = [[(''supplier_id'', JStr ''p1''), (''name'', JStr ''Steel''), (''offerings'', JArr
        [JObj [(''nomenclature_id'', JStr ''n1''), (''unit_price'', JDec (5 / 2)), (''available_quantity'', JInt 8),
               (''lead_time_days'', JInt 3)]])]]\<rparr>"

end
