(* ===== verification/Pricing.thy ===== *)
theory Pricing
  imports Material_Bank Py_Strings "HOL-Library.Sublist"
begin

text \<open>
  Prices and estimates (\<open>app/agents/procurement_manager_agent/pricing.py\<close>) and the offers of a nomenclature
  (\<open>collect_supplier_offers\<close>, \<open>price_bounds_from_offers\<close> of \<open>supplier_ranking.py\<close>): price bounds over the
  active suppliers, the cheapest-first cover of a quantity with lots and minimum orders, and the
  estimate of a nomenclature.  Sums of money are rounded half-even to 0.01 as \<open>_money\<close> does; a
  Russian source label is a constructor of \<open>price_label\<close>.
\<close>

section \<open>Reading offers\<close>

definition price_dec :: "json \<Rightarrow> rat option" where
  "price_dec v = (if v = JNull \<or> v = JStr [] then None else jdecimal v)"

definition CENT :: rat where "CENT = 1 / 100"

definition money :: "rat \<Rightarrow> rat" where
  "money x = quantize CENT x"

definition avg_unit_price :: "rat option \<Rightarrow> rat \<Rightarrow> rat option" where
  "avg_unit_price amount need_qty =
     (case amount of
        None \<Rightarrow> None
      | Some a \<Rightarrow> let qty = (if need_qty > 0 then need_qty else 0)
          in if qty \<le> 0 then None else Some (money (a / qty)))"

definition offer_available :: "jdict \<Rightarrow> rat" where
  "offer_available offer =
     (let qty = (case price_dec (jget offer ''available_qty'') of
            Some q \<Rightarrow> Some q | None \<Rightarrow> price_dec (jget offer ''available_quantity''))
      in case qty of None \<Rightarrow> 0 | Some q \<Rightarrow> if q < 0 then 0 else q)"

fun first_lot :: "jdict \<Rightarrow> string list \<Rightarrow> rat" where
  "first_lot offer [] = 1"
| "first_lot offer (key # keys) =
     (case price_dec (jget offer key) of
        Some raw \<Rightarrow> if raw > 1 then raw else first_lot offer keys
      | None \<Rightarrow> first_lot offer keys)"

definition offer_lot_size :: "jdict \<Rightarrow> rat" where
  "offer_lot_size offer = first_lot offer [''lot_size'', ''pack_qty'', ''pack_size'']"

definition offer_min_order :: "jdict \<Rightarrow> rat" where
  "offer_min_order offer =
     (case price_dec (jget offer ''min_order_qty'') of None \<Rightarrow> 0 | Some raw \<Rightarrow> if raw \<le> 0 then 0 else raw)"

definition ceil_to_lot :: "rat \<Rightarrow> rat \<Rightarrow> rat" where
  "ceil_to_lot qty lot = (if lot \<le> 1 then qty else if qty \<le> 0 then 0 else ceil_to lot qty)"

definition floor_to_lot :: "rat \<Rightarrow> rat \<Rightarrow> rat" where
  "floor_to_lot qty lot = (if lot \<le> 1 then qty else if qty \<le> 0 then 0 else trunc_to lot qty)"

section \<open>Price bounds\<close>

record price_bucket =
  pb_nomenclature_id :: string
  pb_nomenclature_name :: json
  pb_price_min :: rat
  pb_price_max :: rat
  pb_offer_count :: nat
  pb_supplier_ids :: "string list"

definition bucket_add :: "price_bucket \<Rightarrow> json \<Rightarrow> rat \<Rightarrow> string \<Rightarrow> price_bucket" where
  "bucket_add b name price sid =
     b\<lparr>pb_price_min := min (pb_price_min b) price, pb_price_max := max (pb_price_max b) price,
       pb_offer_count := pb_offer_count b + 1, pb_supplier_ids := uniq (pb_supplier_ids b @ [sid]),
       pb_nomenclature_name := (if \<not> jtruthy (pb_nomenclature_name b) \<and> jtruthy name then name
         else pb_nomenclature_name b)\<rparr>"

text \<open>The offerings of the active suppliers, each with its supplier, in the order of the two loops.\<close>

definition supplier_offerings :: "material_bank \<Rightarrow> (jdict \<times> jdict) list" where
  "supplier_offerings bank =
     concat (map (\<lambda>supplier. map (\<lambda>offering. (supplier, offering)) (offerings_of supplier)) (active_suppliers bank))"

fun price_buckets :: "(jdict \<times> jdict) list \<Rightarrow> (string, price_bucket) dict \<Rightarrow> (string, price_bucket) dict" where
  "price_buckets [] buckets = buckets"
| "price_buckets ((supplier, offering) # rest) buckets =
     (let nom = nomenclature_of offering; sid = jstring (jget supplier ''supplier_id'');
          name = jget offering ''nomenclature_name''
      in if nom = [] then price_buckets rest buckets
         else (case price_dec (jget offering ''unit_price'') of
             None \<Rightarrow> price_buckets rest buckets
           | Some price \<Rightarrow>
               if price < 0 then price_buckets rest buckets
               else (let key = casefold nom
                 in price_buckets rest
                   (case dict_get buckets key of
                      None \<Rightarrow> dict_set key \<lparr>pb_nomenclature_id = nom, pb_nomenclature_name = name, pb_price_min = price,
                          pb_price_max = price, pb_offer_count = 1, pb_supplier_ids = [sid]\<rparr> buckets
                    | Some b \<Rightarrow> dict_set key (bucket_add b name price sid) buckets))))"

record price_bound =
  bd_nomenclature_id :: string
  bd_nomenclature_name :: json
  bd_price_min :: rat
  bd_price_max :: rat
  bd_offer_count :: nat
  bd_suppliers_count :: nat

definition price_bound_of :: "price_bucket \<Rightarrow> price_bound" where
  "price_bound_of b = \<lparr>bd_nomenclature_id = pb_nomenclature_id b, bd_nomenclature_name = pb_nomenclature_name b,
     bd_price_min = pb_price_min b, bd_price_max = pb_price_max b, bd_offer_count = pb_offer_count b,
     bd_suppliers_count = length (filter (\<lambda>sid. sid \<noteq> []) (pb_supplier_ids b))\<rparr>"

definition supplier_price_bounds :: "material_bank \<Rightarrow> (string, price_bound) dict" where
  "supplier_price_bounds bank = map (\<lambda>(key, b). (key, price_bound_of b)) (price_buckets (supplier_offerings bank) [])"

section \<open>The offers of a nomenclature\<close>

definition ranking_available :: "jdict \<Rightarrow> rat option" where
  "ranking_available offering =
     (case price_dec (jget offering ''available_quantity'') of
        Some q \<Rightarrow> Some q | None \<Rightarrow> price_dec (jget offering ''available_qty''))"

text \<open>The default unit, the Cyrillic abbreviation of "pieces".\<close>

definition PCS :: string where
  "PCS = [CHR 0xD1, CHR 0x88, CHR 0xD1, CHR 0x82]"

definition lot_fields :: "jdict \<Rightarrow> jdict" where
  "lot_fields offering =
     List.map_filter (\<lambda>key. case price_dec (jget offering key) of
         Some v \<Rightarrow> if v > 0 then Some (key, JDec v) else None
       | None \<Rightarrow> None) [''lot_size'', ''pack_qty'', ''pack_size'', ''min_order_qty'']"

definition offer_row :: "string \<Rightarrow> jdict \<Rightarrow> jdict \<Rightarrow> jdict option" where
  "offer_row key supplier offering =
     (let nom = nomenclature_of offering
      in if casefold nom \<noteq> key then None
         else (case (price_dec (jget offering ''unit_price''), ranking_available offering) of
             (Some price, Some available) \<Rightarrow>
               if price < 0 \<or> available \<le> 0 then None
               else (let abc = jget supplier ''abc_class''
                 in Some ([(''supplier_id'', JStr (jstring (jget supplier ''supplier_id''))),
                    (''supplier_name'', JStr (jstring (jor (jget supplier ''name'') (jget supplier ''supplier_id'')))),
                    (''nomenclature_id'', JStr nom),
                    (''nomenclature_name'', jget offering ''nomenclature_name''),
                    (''unit_price'', JDec price), (''available_qty'', JDec available),
                    (''unit'', jor (jget offering ''unit'') (JStr PCS)),
                    (''lead_time_days'', jget offering ''lead_time_days''),
                    (''abc_class'', if abc \<in> {JStr ''A'', JStr ''B'', JStr ''C''} then abc else JNull),
                    (''abc_spend_share'', jget supplier ''abc_spend_share''),
                    (''quality_rating'', jget supplier ''quality_rating''),
                    (''delivery_rating'', jget supplier ''delivery_rating'')] @ lot_fields offering))
           | _ \<Rightarrow> None))"

definition collect_supplier_offers :: "string \<Rightarrow> material_bank \<Rightarrow> jdict list" where
  "collect_supplier_offers nomenclature_id bank =
     (let key = casefold (py_strip nomenclature_id)
      in if key = [] then []
         else List.map_filter (\<lambda>(supplier, offering). offer_row key supplier offering) (supplier_offerings bank))"

text \<open>\<open>price_bounds_from_offers\<close> over the prices of the offers\<close>

definition price_bounds_from_offers :: "rat option list \<Rightarrow> rat option \<times> rat option" where
  "price_bounds_from_offers unit_prices =
     (case List.map_filter (\<lambda>p. p) unit_prices of
        [] \<Rightarrow> (None, None)
      | p # ps \<Rightarrow> (Some (fold min ps p), Some (fold max ps p)))"

section \<open>Cheapest-first cover\<close>

datatype price_label = L_Manual | L_Price_Min | L_None | L_Covering | L_Warehouse | L_Mixed

record cover_row =
  cw_price :: rat
  cw_available :: rat
  cw_lot :: rat
  cw_min_order :: rat
  cw_supplier_id :: string

definition cover_row_of :: "jdict \<Rightarrow> cover_row option" where
  "cover_row_of offer =
     (case price_dec (jget offer ''unit_price'') of
        None \<Rightarrow> None
      | Some price \<Rightarrow>
          if price < 0 \<or> offer_available offer \<le> 0 then None
          else Some \<lparr>cw_price = price, cw_available = offer_available offer, cw_lot = offer_lot_size offer,
            cw_min_order = offer_min_order offer, cw_supplier_id = jstring (jget offer ''supplier_id'')\<rparr>)"

definition ranked_rows :: "jdict list \<Rightarrow> cover_row list" where
  "ranked_rows offers =
     sort_key (\<lambda>r. (cw_price r, - cw_available r, cw_supplier_id r)) (List.map_filter cover_row_of offers)"

text \<open>What is bought from one offer for what is left to cover; 0 when the offer is skipped.\<close>

definition purchase_from :: "rat \<Rightarrow> cover_row \<Rightarrow> rat" where
  "purchase_from left r =
     (let purchase = left;
          purchase = (if cw_lot r > 1 then ceil_to_lot left (cw_lot r) else purchase);
          purchase = (if cw_min_order r > purchase then cw_min_order r else purchase);
          purchase = (if purchase > cw_available r then
              (if cw_lot r > 1 then floor_to_lot (cw_available r) (cw_lot r) else cw_available r)
            else purchase)
      in if cw_min_order r > 0 \<and> purchase < cw_min_order r then 0
         else if purchase \<le> 0 then 0 else purchase)"

record cover_acc =
  ca_left :: rat
  ca_total :: rat
  ca_covered :: rat
  ca_purchased :: rat
  ca_overpay :: rat

fun cover_loop :: "cover_row list \<Rightarrow> cover_acc \<Rightarrow> cover_acc" where
  "cover_loop [] acc = acc"
| "cover_loop (r # rows) acc =
     (if ca_left acc \<le> 0 then acc
      else (let purchase = purchase_from (ca_left acc) r
        in if purchase = 0 then cover_loop rows acc
           else (let to_need = min (ca_left acc) purchase; excess = purchase - to_need
             in cover_loop rows
                  \<lparr>ca_left = ca_left acc - to_need, ca_total = ca_total acc + purchase * cw_price r,
                   ca_covered = ca_covered acc + to_need, ca_purchased = ca_purchased acc + purchase,
                   ca_overpay = ca_overpay acc + excess * cw_price r\<rparr>)))"

definition start_acc :: "rat \<Rightarrow> cover_acc" where
  "start_acc need = \<lparr>ca_left = need, ca_total = 0, ca_covered = 0, ca_purchased = 0, ca_overpay = 0\<rparr>"

record cover_result =
  cv_amount :: "rat option"
  cv_covered_qty :: rat
  cv_source :: price_label
  cv_overpay :: rat
  cv_purchased_qty :: rat

definition no_cover :: cover_result where
  "no_cover = \<lparr>cv_amount = None, cv_covered_qty = 0, cv_source = L_None, cv_overpay = 0, cv_purchased_qty = 0\<rparr>"

definition greedy_cover_cost :: "rat \<Rightarrow> jdict list \<Rightarrow> cover_result" where
  "greedy_cover_cost quantity offers =
     (let need = (if quantity > 0 then quantity else 0)
      in if need \<le> 0 then no_cover\<lparr>cv_amount := Some 0, cv_source := L_Covering\<rparr>
         else if offers = [] then no_cover
         else (let acc = cover_loop (ranked_rows offers) (start_acc need)
           in if ca_covered acc \<le> 0 then no_cover
              else \<lparr>cv_amount = Some (money (ca_total acc)), cv_covered_qty = ca_covered acc,
                    cv_source = L_Covering, cv_overpay = money (ca_overpay acc),
                    cv_purchased_qty = ca_purchased acc\<rparr>))"

section \<open>Estimates\<close>

definition estimate_line_amount :: "rat \<Rightarrow> rat option \<Rightarrow> rat option \<Rightarrow> rat option \<times> price_label" where
  "estimate_line_amount quantity price_min unit_price_override =
     (let qty = (if quantity > 0 then quantity else 0)
      in case unit_price_override of
           Some p \<Rightarrow> (Some (money (p * qty)), L_Manual)
         | None \<Rightarrow> (case price_min of Some p \<Rightarrow> (Some (money (p * qty)), L_Price_Min) | None \<Rightarrow> (None, L_None)))"

text \<open>\<open>coverage_source\<close> after \<open>strip\<close> and \<open>casefold\<close>\<close>

datatype cover_source = Cov_Warehouse | Cov_Supplier | Cov_Mixed | Cov_None

definition billable_quantity :: "rat \<Rightarrow> cover_source option \<Rightarrow> rat option \<Rightarrow> rat \<times> bool" where
  "billable_quantity quantity source from_supplier =
     (if source = Some Cov_Warehouse then (0, True)
      else (case from_supplier of
          Some f \<Rightarrow> if source = Some Cov_Mixed \<or> source = Some Cov_Supplier then (if f > 0 then f else 0, False)
            else (if quantity > 0 then quantity else 0, False)
        | None \<Rightarrow> (if quantity > 0 then quantity else 0, False)))"

record estimate_result =
  es_amount :: "rat option"
  es_source :: price_label
  es_avg_unit_price :: "rat option"
  es_overpay :: rat

definition finish_estimate :: "rat \<Rightarrow> rat option \<Rightarrow> price_label \<Rightarrow> rat \<Rightarrow> estimate_result" where
  "finish_estimate need_qty amount source overpay =
     \<lparr>es_amount = amount, es_source = source, es_avg_unit_price = avg_unit_price amount need_qty,
      es_overpay = (if overpay > 0 then overpay else 0)\<rparr>"

definition cover_estimate :: "rat \<Rightarrow> rat \<Rightarrow> rat option \<Rightarrow> jdict list \<Rightarrow> estimate_result" where
  "cover_estimate need_qty billable_qty price_min offers =
     (let cover = greedy_cover_cost billable_qty offers
      in case cv_amount cover of
           Some a \<Rightarrow> finish_estimate need_qty (Some a) (cv_source cover) (cv_overpay cover)
         | None \<Rightarrow> (case estimate_line_amount billable_qty price_min None of
             (amount, label) \<Rightarrow> finish_estimate need_qty amount label 0))"

text \<open>The overridden lines: the total of the overrides, whether there is one, and the quantity of the rest.\<close>

fun sum_overrides :: "(rat \<times> rat option) list \<Rightarrow> rat \<times> bool \<times> rat" where
  "sum_overrides [] = (0, False, 0)"
| "sum_overrides ((qty, override) # lines) =
     (case sum_overrides lines of (sum_total, any_manual, unpriced) \<Rightarrow>
        (case override of
           Some p \<Rightarrow> (money (p * (if qty > 0 then qty else 0)) + sum_total, True, unpriced)
         | None \<Rightarrow> (sum_total, any_manual, (if qty > 0 then qty else 0) + unpriced)))"

definition override_estimate ::
  "rat \<Rightarrow> rat \<Rightarrow> rat \<Rightarrow> rat option \<Rightarrow> (rat \<times> rat option) list \<Rightarrow> jdict list \<Rightarrow> estimate_result" where
  "override_estimate quantity need_qty billable_qty price_min line_overrides offers =
     (case sum_overrides line_overrides of (sum_total, any_manual, unpriced_qty) \<Rightarrow>
        (let manual = (if any_manual then [L_Manual] else []);
             (sum_total, overpay, sources) =
               (if unpriced_qty > 0 then
                  (let cover_qty = (if billable_qty < quantity \<and> quantity > 0
                         then quantize (1 / 1000000) (unpriced_qty * billable_qty / quantity) else unpriced_qty);
                       cover = greedy_cover_cost cover_qty offers
                   in case cv_amount cover of
                        Some a \<Rightarrow> (sum_total + a, cv_overpay cover, manual @ [cv_source cover])
                      | None \<Rightarrow> (case estimate_line_amount cover_qty price_min None of
                          (Some f, src) \<Rightarrow> (sum_total + f, 0, manual @ [src])
                        | (None, _) \<Rightarrow> (sum_total, 0, manual)))
                else (sum_total, 0, manual))
         in if sources = [] then finish_estimate need_qty None L_None 0
            else finish_estimate need_qty (Some (money sum_total))
              (case sources of [s] \<Rightarrow> s | _ \<Rightarrow> L_Mixed) (money overpay)))"

definition estimate_nomenclature_amount ::
  "rat \<Rightarrow> rat option \<Rightarrow> (rat \<times> rat option) list \<Rightarrow> cover_source option \<Rightarrow> rat option \<Rightarrow> jdict list \<Rightarrow> estimate_result" where
  "estimate_nomenclature_amount quantity price_min line_overrides source from_supplier offers =
     (let need_qty = (if quantity > 0 then quantity else 0)
      in case billable_quantity quantity source from_supplier of
           (billable_qty, forced_warehouse) \<Rightarrow>
             if forced_warehouse then finish_estimate need_qty (Some 0) L_Warehouse 0
             else if source = Some Cov_Mixed then cover_estimate need_qty billable_qty price_min offers
             else if line_overrides \<noteq> [] then
               override_estimate quantity need_qty billable_qty price_min line_overrides offers
             else cover_estimate need_qty billable_qty price_min offers)"

section \<open>The purchases of a cover\<close>

text \<open>The purchases the loop makes, as a list; the sums of the loop are sums over it.\<close>

fun cover_parts :: "cover_row list \<Rightarrow> rat \<Rightarrow> (cover_row \<times> rat) list" where
  "cover_parts [] left = []"
| "cover_parts (r # rows) left =
     (if left \<le> 0 then []
      else if purchase_from left r = 0 then cover_parts rows left
      else (r, purchase_from left r) # cover_parts rows (left - min left (purchase_from left r)))"

definition row_ok :: "cover_row \<Rightarrow> bool" where
  "row_ok r \<longleftrightarrow> 0 \<le> cw_price r \<and> 0 < cw_available r \<and> 1 \<le> cw_lot r \<and> 0 \<le> cw_min_order r"

lemma first_lot_ge: "1 \<le> first_lot offer keys"
  by (induction keys) (auto split: option.split)

lemma offer_min_order_nonneg: "0 \<le> offer_min_order offer"
  by (auto simp: offer_min_order_def split: option.split)

lemma cover_row_ok: "cover_row_of offer = Some r \<Longrightarrow> row_ok r"
proof -
  assume c: "cover_row_of offer = Some r"
  then obtain price where "price_dec (jget offer ''unit_price'') = Some price"
    by (auto simp: cover_row_of_def split: option.splits)
  with c have "\<not> price < 0 \<and> \<not> offer_available offer \<le> 0"
    and "r = \<lparr>cw_price = price, cw_available = offer_available offer, cw_lot = offer_lot_size offer,
            cw_min_order = offer_min_order offer, cw_supplier_id = jstring (jget offer ''supplier_id'')\<rparr>"
    unfolding cover_row_of_def by (auto split: if_splits)
  moreover have "1 \<le> offer_lot_size offer" unfolding offer_lot_size_def by (rule first_lot_ge)
  ultimately show ?thesis using offer_min_order_nonneg by (simp add: row_ok_def)
qed

lemma ranked_rows_ok: "r \<in> set (ranked_rows offers) \<Longrightarrow> row_ok r"
  unfolding ranked_rows_def set_sort set_map_filter by (blast intro: cover_row_ok)

lemma floor_to_lot_bounds:
  assumes "0 < qty" "1 \<le> lot"
  shows "0 \<le> floor_to_lot qty lot" "floor_to_lot qty lot \<le> qty"
    and "1 < lot \<Longrightarrow> \<exists>k::int. floor_to_lot qty lot = of_int k * lot"
proof -
  show "0 \<le> floor_to_lot qty lot" using assms trunc_to_nonneg[of lot qty] by (auto simp: floor_to_lot_def)
  show "floor_to_lot qty lot \<le> qty" using assms trunc_to_le[of lot qty] by (auto simp: floor_to_lot_def)
  show "\<exists>k::int. floor_to_lot qty lot = of_int k * lot" if "1 < lot"
    using that assms by (auto simp: floor_to_lot_def trunc_to_def)
qed

lemma ceil_to_lot_bounds:
  assumes "0 < qty" "1 \<le> lot"
  shows "qty \<le> ceil_to_lot qty lot" and "1 < lot \<Longrightarrow> \<exists>k::int. ceil_to_lot qty lot = of_int k * lot"
  using assms ceil_to_ge[of lot qty] by (auto simp: ceil_to_lot_def ceil_to_def)

text \<open>A purchase covers the rest of the need, or drains the offer to its last full lot.\<close>

lemma purchase_from_facts:
  assumes "row_ok r" "0 < left" "p = purchase_from left r"
  shows "0 \<le> p" "p \<le> cw_available r" "p \<noteq> 0 \<Longrightarrow> cw_min_order r \<le> p"
    and "p \<noteq> 0 \<Longrightarrow> p < left \<Longrightarrow> p = floor_to_lot (cw_available r) (cw_lot r)"
    and "p = 0 \<Longrightarrow> floor_to_lot (cw_available r) (cw_lot r) = 0 \<or>
           floor_to_lot (cw_available r) (cw_lot r) < cw_min_order r"
    and "cw_min_order r \<le> ceil_to_lot left (cw_lot r) \<Longrightarrow> 1 < cw_lot r \<Longrightarrow> \<exists>k::int. p = of_int k * cw_lot r"
proof -
  define want where "want = max (ceil_to_lot left (cw_lot r)) (cw_min_order r)"
  define top where "top = floor_to_lot (cw_available r) (cw_lot r)"
  define got where "got = (if want > cw_available r then top else want)"
  have ok: "0 < cw_available r" "1 \<le> cw_lot r" "0 \<le> cw_min_order r" using assms(1) by (auto simp: row_ok_def)
  note F = floor_to_lot_bounds[OF ok(1,2), folded top_def] and C = ceil_to_lot_bounds[OF assms(2) ok(2)]
  have lot1: "cw_lot r \<le> 1 \<Longrightarrow> ceil_to_lot left (cw_lot r) = left \<and> top = cw_available r"
    by (simp add: ceil_to_lot_def floor_to_lot_def top_def)
  have p: "p = (if cw_min_order r > 0 \<and> got < cw_min_order r then 0 else if got \<le> 0 then 0 else got)"
    using lot1 by (cases "cw_lot r > 1")
      (auto simp: assms(3) purchase_from_def Let_def got_def want_def top_def max_def)
  have w: "left \<le> want" "cw_min_order r \<le> want" using C(1) by (auto simp: want_def)
  have got: "0 \<le> got" "got \<le> cw_available r"
    using F ok w assms(2) by (auto simp: got_def)
  show "0 \<le> p" "p \<le> cw_available r" using p got ok by auto
  show "p \<noteq> 0 \<Longrightarrow> cw_min_order r \<le> p" using p ok by (auto split: if_splits)
  show "p \<noteq> 0 \<Longrightarrow> p < left \<Longrightarrow> p = floor_to_lot (cw_available r) (cw_lot r)"
    using p w by (auto simp: got_def top_def[symmetric] split: if_splits)
  show "p = 0 \<Longrightarrow> floor_to_lot (cw_available r) (cw_lot r) = 0 \<or>
           floor_to_lot (cw_available r) (cw_lot r) < cw_min_order r"
    using p w assms(2) F(1) unfolding top_def[symmetric] by (auto simp: got_def split: if_splits)
  show "\<exists>k::int. p = of_int k * cw_lot r"
    if m: "cw_min_order r \<le> ceil_to_lot left (cw_lot r)" "1 < cw_lot r"
  proof -
    have "\<exists>k::int. got = of_int k * cw_lot r" using C(2) F(3) m by (auto simp: got_def want_def max_def)
    moreover have "\<exists>k::int. 0 = of_int k * cw_lot r" by (rule exI[of _ 0]) simp
    ultimately show ?thesis using p by (auto split: if_splits)
  qed
qed

definition cost_of :: "(cover_row \<times> rat) list \<Rightarrow> rat" where
  "cost_of parts = (\<Sum>(r, p)\<leftarrow>parts. p * cw_price r)"

definition bought :: "(cover_row \<times> rat) list \<Rightarrow> rat" where
  "bought parts = sum_list (map snd parts)"

lemma parts_sums [simp]:
  "cost_of [] = 0" "cost_of ((r, p) # ps) = p * cw_price r + cost_of ps"
  "bought [] = 0" "bought ((r, p) # ps) = p + bought ps"
  by (simp_all add: cost_of_def bought_def)

lemma cover_parts_rows: "(r, p) \<in> set (cover_parts rows left) \<Longrightarrow> r \<in> set rows"
  by (induction rows arbitrary: left) (auto split: if_splits)

lemma cover_parts_subseq: "subseq (map fst (cover_parts rows left)) rows"
  by (induction rows arbitrary: left) auto

lemma cover_parts_stop: "left \<le> 0 \<Longrightarrow> cover_parts rows left = []"
  by (cases rows) auto

text \<open>What the loop accumulates, over its purchases: only the last one may exceed what is left.\<close>

lemma cover_loop_parts:
  assumes "\<forall>r \<in> set rows. row_ok r" "0 \<le> ca_left acc" "ps = cover_parts rows (ca_left acc)"
    "acc' = cover_loop rows acc"
  shows "ca_total acc' = ca_total acc + cost_of ps \<and> ca_purchased acc' = ca_purchased acc + bought ps \<and>
    ca_covered acc' = ca_covered acc + min (ca_left acc) (bought ps) \<and> 0 \<le> bought ps \<and>
    ca_overpay acc' = ca_overpay acc +
      (if ps = [] then 0 else max 0 (bought ps - ca_left acc) * cw_price (fst (last ps)))"
  using assms
proof (induction rows arbitrary: acc ps)
  case Nil
  then show ?case by simp
next
  case (Cons r rows)
  note prems = Cons.prems
  have ok: "row_ok r" "\<forall>r \<in> set rows. row_ok r" using prems(1) by auto
  show ?case
  proof (cases "ca_left acc \<le> 0")
    case True
    with prems show ?thesis by simp
  next
    case lp: False
    define p where "p = purchase_from (ca_left acc) r"
    have p0: "0 \<le> p" using purchase_from_facts(1)[OF ok(1) _ p_def] lp by simp
    show ?thesis
    proof (cases "p = 0")
      case True
      then have "ps = cover_parts rows (ca_left acc)" "acc' = cover_loop rows acc"
        using prems(3,4) lp by (simp_all add: p_def Let_def)
      from Cons.IH[OF ok(2) prems(2) this] show ?thesis .
    next
      case False
      define acc1 where "acc1 = \<lparr>ca_left = ca_left acc - min (ca_left acc) p,
        ca_total = ca_total acc + p * cw_price r, ca_covered = ca_covered acc + min (ca_left acc) p,
        ca_purchased = ca_purchased acc + p,
        ca_overpay = ca_overpay acc + (p - min (ca_left acc) p) * cw_price r\<rparr>"
      define qs where "qs = cover_parts rows (ca_left acc1)"
      have ps: "ps = (r, p) # qs" and a': "acc' = cover_loop rows acc1"
        using prems(3,4) lp False by (simp_all add: p_def[symmetric] Let_def qs_def acc1_def)
      have l1: "0 \<le> ca_left acc1" by (simp add: acc1_def)
      note IH = Cons.IH[OF ok(2) l1 qs_def a']
      show ?thesis
      proof (cases "ca_left acc \<le> p")
        case True
        then have "ca_left acc1 = 0" by (simp add: acc1_def)
        then have "qs = []" by (simp add: qs_def cover_parts_stop)
        with IH True p0 show ?thesis by (simp add: ps acc1_def)
      next
        case small: False
        then have l: "ca_left acc1 = ca_left acc - p" by (simp add: acc1_def)
        have m: "p + min (ca_left acc - p) (bought qs) = min (ca_left acc) (p + bought qs)"
          by (simp add: min_def)
        have o: "p - min (ca_left acc) p = 0" using small by simp
        have "bought qs - (ca_left acc - p) = p + bought qs - ca_left acc" by simp
        with IH small p0 m show ?thesis by (auto simp: ps l acc1_def)
      qed
    qed
  qed
qed

text \<open>Every purchase respects its offer; when the need is not met, every offer has been drained.\<close>

definition part_ok :: "cover_row \<times> rat \<Rightarrow> bool" where
  "part_ok rp \<longleftrightarrow> 0 < snd rp \<and> cw_min_order (fst rp) \<le> snd rp \<and> snd rp \<le> cw_available (fst rp) \<and>
     (cw_min_order (fst rp) = 0 \<and> 1 < cw_lot (fst rp) \<longrightarrow> (\<exists>k::int. snd rp = of_int k * cw_lot (fst rp)))"

lemma cover_parts_ok:
  "\<forall>r \<in> set rows. row_ok r \<Longrightarrow> rp \<in> set (cover_parts rows left) \<Longrightarrow> part_ok rp"
proof (induction rows arbitrary: left)
  case Nil
  then show ?case by simp
next
  case (Cons r rows)
  then have ok: "row_ok r" "\<forall>r \<in> set rows. row_ok r" and l: "0 < left" by (auto split: if_splits)
  note F = purchase_from_facts[OF ok(1) l refl]
  have "0 \<le> ceil_to_lot left (cw_lot r)"
    using ceil_to_lot_bounds(1)[OF l, of "cw_lot r"] ok(1) l by (simp add: row_ok_def)
  then have "purchase_from left r \<noteq> 0 \<Longrightarrow> part_ok (r, purchase_from left r)"
    using F(1,2,3,6) by (auto simp: part_ok_def)
  with Cons.IH[OF ok(2)] Cons.prems(2) l show ?case by (auto split: if_splits)
qed

lemma cover_parts_drained:
  assumes "\<forall>r \<in> set rows. row_ok r" "0 < left" "bought (cover_parts rows left) < left" "r \<in> set rows"
  shows "(r, floor_to_lot (cw_available r) (cw_lot r)) \<in> set (cover_parts rows left) \<or>
    floor_to_lot (cw_available r) (cw_lot r) = 0 \<or> floor_to_lot (cw_available r) (cw_lot r) < cw_min_order r"
  using assms
proof (induction rows arbitrary: left)
  case Nil
  then show ?case by simp
next
  case (Cons r0 rows)
  have ok: "row_ok r0" "\<forall>r \<in> set rows. row_ok r" using Cons.prems(1) by auto
  define p where "p = purchase_from left r0"
  note F = purchase_from_facts[OF ok(1) Cons.prems(2) p_def]
  show ?case
  proof (cases "p = 0")
    case True
    then have eq: "cover_parts (r0 # rows) left = cover_parts rows left" using Cons.prems(2) by (simp add: p_def)
    show ?thesis
    proof (cases "r = r0")
      case True
      with F(5) \<open>p = 0\<close> show ?thesis by auto
    next
      case False
      have "r \<in> set rows" using Cons.prems(4) False by simp
      moreover have "bought (cover_parts rows left) < left" using Cons.prems(3) unfolding eq .
      ultimately
      show ?thesis unfolding eq using Cons.IH[OF ok(2) Cons.prems(2)] by blast
    qed
  next
    case False
    define qs where "qs = cover_parts rows (left - min left p)"
    have eq: "cover_parts (r0 # rows) left = (r0, p) # qs" using Cons.prems(2) False by (simp add: p_def qs_def)
    have "0 \<le> bought qs"
      using cover_loop_parts[OF ok(2) _ _ refl, of "start_acc (left - min left p)"] by (simp add: start_acc_def qs_def)
    moreover have "p + bought qs < left" using Cons.prems(3) unfolding eq by simp
    ultimately have small: "p < left" by simp
    with F(4)[OF False] have pf: "p = floor_to_lot (cw_available r0) (cw_lot r0)" by simp
    show ?thesis
    proof (cases "r = r0")
      case True
      with pf show ?thesis unfolding eq by simp
    next
      case ne: False
      have qs: "qs = cover_parts rows (left - p)" using small by (simp add: qs_def)
      have "r \<in> set rows" "bought (cover_parts rows (left - p)) < left - p"
        using Cons.prems(3,4) ne unfolding eq qs by auto
      from Cons.IH[OF ok(2) _ this(2,1)] small show ?thesis unfolding eq qs by auto
    qed
  qed
qed

text \<open>Offers without lots and minimum orders are bought to the last piece.\<close>

definition plain_row :: "cover_row \<Rightarrow> bool" where
  "plain_row r \<longleftrightarrow> cw_lot r \<le> 1 \<and> cw_min_order r = 0"

lemma plain_purchase: "row_ok r \<Longrightarrow> plain_row r \<Longrightarrow> 0 \<le> left \<Longrightarrow> purchase_from left r = min left (cw_available r)"
  by (auto simp: purchase_from_def Let_def plain_row_def row_ok_def)

lemma plain_step:
  assumes "row_ok r" "plain_row r" "0 \<le> left" "t = min left (cw_available r)"
  shows "cost_of (cover_parts (r # rows) left) = t * cw_price r + cost_of (cover_parts rows (left - t))"
    and "bought (cover_parts (r # rows) left) = t + bought (cover_parts rows (left - t))"
proof -
  have "0 < cw_available r" using assms(1) by (simp add: row_ok_def)
  then have "t = 0 \<longleftrightarrow> left \<le> 0" "left - min left t = left - t" using assms(3,4) by auto
  then show "cost_of (cover_parts (r # rows) left) = t * cw_price r + cost_of (cover_parts rows (left - t))"
    "bought (cover_parts (r # rows) left) = t + bought (cover_parts rows (left - t))"
    using plain_purchase[OF assms(1-3)] assms(4) by (auto simp: cover_parts_stop)
qed

definition available_total :: "cover_row list \<Rightarrow> rat" where
  "available_total rows = sum_list (map cw_available rows)"

lemma available_total_simps [simp]:
  "available_total [] = 0" "available_total (r # rows) = cw_available r + available_total rows"
  by (simp_all add: available_total_def)

lemma available_total_nonneg: "\<forall>r \<in> set rows. row_ok r \<Longrightarrow> 0 \<le> available_total rows"
  unfolding available_total_def by (rule sum_list_map_nonneg) (auto simp: row_ok_def)

lemma plain_bought:
  "\<forall>r \<in> set rows. row_ok r \<and> plain_row r \<Longrightarrow> 0 \<le> left \<Longrightarrow>
   bought (cover_parts rows left) = min left (available_total rows)"
proof (induction rows arbitrary: left)
  case (Cons r rows)
  then have ok: "row_ok r" "plain_row r" "\<forall>r \<in> set rows. row_ok r" by auto
  have "0 \<le> left - min left (cw_available r)" by simp
  from Cons.IH[OF _ this] Cons.prems available_total_nonneg[OF ok(3)] ok(1) show ?case
    unfolding plain_step(2)[OF ok(1,2) Cons.prems(2) refl] by (auto simp: row_ok_def min_def)
qed simp

definition feasible :: "cover_row list \<Rightarrow> rat list \<Rightarrow> bool" where
  "feasible rows xs \<longleftrightarrow> list_all2 (\<lambda>r x. 0 \<le> x \<and> x \<le> cw_available r) rows xs"

definition cost_with :: "cover_row list \<Rightarrow> rat list \<Rightarrow> rat" where
  "cost_with rows xs = cost_of (zip rows xs)"

text \<open>
  The exchange argument: a feasible purchase of at least the greedy quantity plus an excess \<open>e\<close> costs
  at least the greedy cost plus the excess at any price below all prices.
\<close>

lemma plain_cover_optimal:
  assumes "\<forall>r \<in> set rows. row_ok r \<and> plain_row r" "sorted (map cw_price rows)" "0 \<le> left" "feasible rows xs"
    "0 \<le> e" "min left (available_total rows) + e \<le> sum_list xs" "\<forall>r \<in> set rows. q \<le> cw_price r" "0 \<le> q"
  shows "cost_of (cover_parts rows left) + q * e \<le> cost_with rows xs"
  using assms
proof (induction rows arbitrary: left xs e q)
  case Nil
  then have "xs = []" "e = 0" by (auto simp: feasible_def)
  then show ?case by (simp add: cost_with_def)
next
  case (Cons r rows)
  from Cons.prems(4) obtain x ys where xs: "xs = x # ys" and x: "0 \<le> x" "x \<le> cw_available r"
    and ys: "feasible rows ys" by (auto simp: feasible_def list_all2_Cons1)
  have ok: "row_ok r" "plain_row r" "\<forall>r \<in> set rows. row_ok r \<and> plain_row r" "\<forall>r \<in> set rows. row_ok r"
    using Cons.prems(1) by auto
  have price: "q \<le> cw_price r" "0 \<le> cw_price r" using Cons.prems(7) ok(1) by (auto simp: row_ok_def)
  define t where "t = min left (cw_available r)"
  define A where "A = available_total rows"
  define e1 where "e1 = sum_list ys - min (left - t) A"
  have A: "0 \<le> A" using available_total_nonneg[OF ok(4)] by (simp add: A_def)
  have t: "t + min (left - t) A = min left (cw_available r + A)" using A by (auto simp: t_def min_def)
  have tot: "t + min (left - t) A + e \<le> x + sum_list ys" using Cons.prems(6) t by (simp add: xs A_def)
  have "0 \<le> e1"
  proof (rule ccontr)
    assume "\<not> 0 \<le> e1"
    then have lt: "sum_list ys < min (left - t) A" unfolding e1_def by linarith
    with tot Cons.prems(5) have "t < x" by linarith
    with x have "t = left" by (auto simp: t_def min_def split: if_splits)
    moreover have "0 \<le> sum_list ys" using ys by (induction rows ys rule: list_induct2') (auto simp: feasible_def)
    ultimately show False using lt A by simp
  qed
  moreover have "0 \<le> left - t" "sorted (map cw_price rows)" using Cons.prems(2) by (simp_all add: t_def)
  moreover have "\<forall>s \<in> set rows. cw_price r \<le> cw_price s" using Cons.prems(2) by simp
  ultimately have IH: "cost_of (cover_parts rows (left - t)) + cw_price r * e1 \<le> cost_with rows ys"
    using Cons.IH[OF ok(3) _ _ ys, of "left - t" e1 "cw_price r"] price(2) by (simp add: e1_def A_def)
  have "e \<le> x + e1 - t" using tot by (simp add: e1_def)
  then have "q * e \<le> cw_price r * (x + e1 - t)" using price(1) Cons.prems(5,8) by (intro mult_mono) auto
  then have "q * e + t * cw_price r \<le> x * cw_price r + cw_price r * e1" by (simp add: algebra_simps)
  with IH show ?case
    unfolding plain_step(1)[OF ok(1,2) Cons.prems(3) t_def] by (simp add: cost_with_def xs)
qed

section \<open>Properties\<close>

lemma ranked_rows_sorted: "sorted (map cw_price (ranked_rows offers))"
proof -
  let ?k = "\<lambda>r. (cw_price r, - cw_available r, cw_supplier_id r)"
  have "sorted (map ?k (ranked_rows offers))" unfolding ranked_rows_def by (rule sorted_sort_key)
  then show ?thesis by (simp add: sorted_map) (auto elim: sorted_wrt_mono_rel[rotated])
qed

lemma greedy_cover_Some:
  assumes "0 < q" "cv_amount (greedy_cover_cost q offers) = Some a"
    and "parts = cover_parts (ranked_rows offers) q"
  shows "a = money (cost_of parts) \<and> cv_purchased_qty (greedy_cover_cost q offers) = bought parts \<and>
    cv_covered_qty (greedy_cover_cost q offers) = min q (bought parts) \<and> parts \<noteq> [] \<and>
    cv_overpay (greedy_cover_cost q offers) = money ((bought parts - min q (bought parts)) * cw_price (fst (last parts)))"
proof -
  define acc where "acc = cover_loop (ranked_rows offers) (start_acc q)"
  have L: "ca_total acc = cost_of parts \<and> ca_purchased acc = bought parts \<and> ca_covered acc = min q (bought parts) \<and>
      ca_overpay acc = (if parts = [] then 0 else max 0 (bought parts - q) * cw_price (fst (last parts)))"
    using cover_loop_parts[OF _ _ _ acc_def, of parts] ranked_rows_ok assms(1,3) by (auto simp: start_acc_def)
  have g: "greedy_cover_cost q offers = (if offers = [] then no_cover else if ca_covered acc \<le> 0 then no_cover
      else \<lparr>cv_amount = Some (money (ca_total acc)), cv_covered_qty = ca_covered acc,
            cv_source = L_Covering, cv_overpay = money (ca_overpay acc), cv_purchased_qty = ca_purchased acc\<rparr>)"
    using assms(1) by (simp add: greedy_cover_cost_def Let_def acc_def)
  from assms(2) have pos: "0 < ca_covered acc"
    "greedy_cover_cost q offers = \<lparr>cv_amount = Some (money (ca_total acc)), cv_covered_qty = ca_covered acc,
        cv_source = L_Covering, cv_overpay = money (ca_overpay acc), cv_purchased_qty = ca_purchased acc\<rparr>"
    unfolding g by (auto simp: no_cover_def split: if_splits)
  then have "parts \<noteq> []" using L by auto
  moreover have "max 0 (bought parts - q) = bought parts - min q (bought parts)" by (simp add: min_def max_def)
  ultimately show ?thesis using assms(2) L unfolding pos(2) by simp
qed

text \<open>
  The cover of a quantity is an honest account of purchases.  There is a list of purchases from
  distinct offers in price order, each positive, at least the minimum order, within what the
  offer has (and in whole lots when no minimum order intervenes), such that the amount is their rounded cost,
  the purchased quantity their sum, the covered quantity the smaller of that and the need, and the overpay the
  rounded cost of the excess at the price of the last one.  When the need is not covered, every
  offer has been drained to its last full lot, unless that is below its minimum order.
\<close>

lemma greedy_cover_accounts:
  assumes "0 < q" "c = greedy_cover_cost q offers" "cv_amount c = Some a"
  shows "\<exists>parts. parts \<noteq> [] \<and> subseq (map fst parts) (ranked_rows offers) \<and> (\<forall>rp \<in> set parts. part_ok rp) \<and>
    a = money (cost_of parts) \<and> cv_purchased_qty c = bought parts \<and> cv_covered_qty c = min q (bought parts) \<and>
    cv_overpay c = money ((cv_purchased_qty c - cv_covered_qty c) * cw_price (fst (last parts))) \<and>
    (cv_covered_qty c < q \<longrightarrow> (\<forall>r \<in> set (ranked_rows offers).
       (r, floor_to_lot (cw_available r) (cw_lot r)) \<in> set parts \<or>
       floor_to_lot (cw_available r) (cw_lot r) = 0 \<or> floor_to_lot (cw_available r) (cw_lot r) < cw_min_order r))"
proof -
  define parts where "parts = cover_parts (ranked_rows offers) q"
  note S = greedy_cover_Some[OF assms(1) assms(3)[unfolded assms(2)] parts_def, folded assms(2)]
  have ok: "\<forall>r \<in> set (ranked_rows offers). row_ok r" using ranked_rows_ok by blast
  have "cv_covered_qty c < q \<Longrightarrow> bought parts < q" using S by (simp add: min_def split: if_splits)
  then have "cv_covered_qty c < q \<longrightarrow> (\<forall>r \<in> set (ranked_rows offers).
       (r, floor_to_lot (cw_available r) (cw_lot r)) \<in> set parts \<or>
       floor_to_lot (cw_available r) (cw_lot r) = 0 \<or> floor_to_lot (cw_available r) (cw_lot r) < cw_min_order r)"
    using cover_parts_drained[OF ok assms(1)] unfolding parts_def by blast
  moreover have "subseq (map fst parts) (ranked_rows offers)" unfolding parts_def by (rule cover_parts_subseq)
  moreover have "\<forall>rp \<in> set parts. part_ok rp" unfolding parts_def using cover_parts_ok[OF ok] by blast
  ultimately show ?thesis using S by (intro exI[of _ parts]) simp
qed

definition demo_offer :: "string \<Rightarrow> rat \<Rightarrow> rat \<Rightarrow> jdict" where
  "demo_offer sid price qty = [(''supplier_id'', JStr sid), (''unit_price'', JDec price), (''available_qty'', JDec qty)]"

text \<open>
  C25: Among offers without lots and minimum orders the cover is the cheapest.  It buys exactly what it covers,
  which is all that is needed or all that is offered, without overpay; and any way of buying at
  least that quantity within the availabilities costs at least as much.
\<close>

lemma greedy_cover_cheapest:
  assumes "0 < q" "cv_amount (greedy_cover_cost q offers) = Some a"
    and "\<forall>r \<in> set (ranked_rows offers). plain_row r"
  shows "cv_covered_qty (greedy_cover_cost q offers) = min q (available_total (ranked_rows offers)) \<and>
    cv_purchased_qty (greedy_cover_cost q offers) = cv_covered_qty (greedy_cover_cost q offers) \<and>
    cv_overpay (greedy_cover_cost q offers) = 0 \<and>
    (\<forall>xs. feasible (ranked_rows offers) xs \<longrightarrow> cv_covered_qty (greedy_cover_cost q offers) \<le> sum_list xs \<longrightarrow>
       a \<le> money (cost_with (ranked_rows offers) xs))"
proof -
  let ?rows = "ranked_rows offers"
  define parts where "parts = cover_parts ?rows q"
  note S = greedy_cover_Some[OF assms(1,2) parts_def]
  have ok: "\<forall>r \<in> set ?rows. row_ok r \<and> plain_row r" using ranked_rows_ok assms(3) by blast
  have b: "bought parts = min q (available_total ?rows)"
    using plain_bought[OF ok, of q] assms(1) by (simp add: parts_def)
  have opt: "a \<le> money (cost_with ?rows xs)" if xs: "feasible ?rows xs" "min q (available_total ?rows) \<le> sum_list xs" for xs
  proof -
    have "\<forall>r \<in> set ?rows. 0 \<le> cw_price r" using ok by (auto simp: row_ok_def)
    from plain_cover_optimal[OF ok ranked_rows_sorted _ xs(1) order_refl _ this order_refl] assms(1) xs(2)
    have "cost_of parts \<le> cost_with ?rows xs" by (simp add: parts_def)
    then show ?thesis using S unfolding money_def by (simp add: quantize_mono CENT_def)
  qed
  have z: "money 0 = 0" by (simp add: money_def quantize_def half_even_def)
  show ?thesis using S b opt z by (auto simp: min_def)
qed

lemma greedy_cover_cheapest_witness:
  "cv_overpay (greedy_cover_cost 5 [demo_offer ''a'' 2 3, demo_offer ''b'' 3 9]) = 0 \<and>
   cv_covered_qty (greedy_cover_cost 5 [demo_offer ''a'' 2 3, demo_offer ''b'' 3 9]) = 5"
proof -
  let ?o = "[demo_offer ''a'' 2 3, demo_offer ''b'' 3 9]"
  have a: "cv_amount (greedy_cover_cost 5 ?o) = Some 12" by code_simp
  have p: "\<forall>r \<in> set (ranked_rows ?o). plain_row r" by code_simp
  have t: "min 5 (available_total (ranked_rows ?o)) = 5" by code_simp
  have "0 < (5 :: rat)" by simp
  from greedy_cover_cheapest[OF this a p] t show ?thesis by simp
qed

end
