(* ===== verification/Allocation.thy ===== *)
theory Allocation
  imports Pricing Slot_Rules
begin

text \<open>
  The allocation of materials by deadline (\<open>app/agents/procurement_manager_agent/allocation.py\<close>): the
  demand lines of the cases in the order of their deadlines, each served first from the stock lines that
  match it and then from the offerings of the matching suppliers; later demands see what is left.
  The cases are the ORM objects of the service as records; the bank is JSON.  A required date is its wall
  clock with the offset dropped, as \<open>_sort_key\<close> compares it.
\<close>

section \<open>Keys, kinds and tones\<close>

definition alloc_dec :: "json \<Rightarrow> rat" where
  "alloc_dec v = (if jtruthy v then (case jdecimal v of Some x \<Rightarrow> x | None \<Rightarrow> 0) else 0)"

definition norm_key :: "string \<Rightarrow> string \<Rightarrow> string" where
  "norm_key nomenclature_id nomenclature_name =
     (let nid = py_strip nomenclature_id
      in if nid \<noteq> [] then casefold nid else casefold (py_strip nomenclature_name))"

definition match_keys :: "string \<Rightarrow> string \<Rightarrow> string list" where
  "match_keys nomenclature_id nomenclature_name =
     (let nid = casefold (py_strip nomenclature_id); name = casefold (py_strip nomenclature_name);
          keys = (if nid \<noteq> [] then [nid] else [])
      in if name \<noteq> [] \<and> name \<notin> set keys then keys @ [name] else keys)"

definition source_kind :: "rat \<Rightarrow> rat \<Rightarrow> cover_source" where
  "source_kind from_warehouse from_supplier =
     (if from_warehouse > 0 \<and> from_supplier > 0 then Cov_Mixed
      else if from_warehouse > 0 then Cov_Warehouse
      else if from_supplier > 0 then Cov_Supplier else Cov_None)"

datatype coverage_tone = Ready | Attention | Uncovered

definition line_tone :: "rat \<Rightarrow> rat \<Rightarrow> coverage_tone" where
  "line_tone needed covered =
     (if needed \<le> 0 then Ready else if covered \<le> 0 then Uncovered
      else if covered + 1 / 1000000 \<ge> needed then Ready else Attention)"

definition case_tone :: "coverage_tone list \<Rightarrow> coverage_tone" where
  "case_tone line_tones =
     (if line_tones = [] then Uncovered
      else if list_all (\<lambda>t. t = Ready) line_tones then Ready
      else if list_all (\<lambda>t. t = Uncovered) line_tones then Uncovered else Attention)"

section \<open>Demands\<close>

record alloc_position =
  ap_cancelled :: bool
  ap_line_id :: "string option"
  ap_id :: "string option"
  ap_nomenclature_id :: "string option"
  ap_nomenclature_name :: "string option"
  ap_quantity :: rat
  ap_unit :: "string option"
  ap_required_date :: "instant option"

record alloc_case =
  ac_id :: "string option"
  ac_required_date :: "instant option"
  ac_positions :: "alloc_position list"

record demand =
  dm_case_id :: string
  dm_line_id :: string
  dm_nomenclature_id :: string
  dm_nomenclature_name :: "string option"
  dm_quantity :: rat
  dm_unit :: string
  dm_required_date :: "instant option"

definition demand_of :: "alloc_case \<Rightarrow> alloc_position \<Rightarrow> demand option" where
  "demand_of acase position =
     (if ap_cancelled position then None
      else if ap_quantity position \<le> 0 then None
      else Some \<lparr>dm_case_id = opt_str (ac_id acase),
        dm_line_id = opt_str (or_str (ap_line_id position) (ap_id position)),
        dm_nomenclature_id = py_strip (opt_str (ap_nomenclature_id position)),
        dm_nomenclature_name = ap_nomenclature_name position, dm_quantity = ap_quantity position,
        dm_unit = opt_str (or_str (ap_unit position) (Some PCS)),
        dm_required_date = (case ap_required_date position of Some d \<Rightarrow> Some d | None \<Rightarrow> ac_required_date acase)\<rparr>)"

definition demands_from_cases :: "alloc_case list \<Rightarrow> demand list" where
  "demands_from_cases cases =
     concat (map (\<lambda>acase. List.map_filter (demand_of acase) (ac_positions acase)) cases)"

text \<open>\<open>datetime.max\<close>, in microseconds since the epoch.\<close>

definition DATETIME_MAX :: instant where "DATETIME_MAX = 253402300799999999"

definition demand_sort_key :: "demand \<Rightarrow> instant \<times> string \<times> string" where
  "demand_sort_key d =
     (case dm_required_date d of Some t \<Rightarrow> t | None \<Rightarrow> DATETIME_MAX, dm_case_id d, dm_line_id d)"

definition demand_keys :: "demand \<Rightarrow> string list" where
  "demand_keys d = match_keys (dm_nomenclature_id d) (opt_str (dm_nomenclature_name d))"

section \<open>The bank at the start\<close>

definition line_stock_id :: "jdict \<Rightarrow> string" where
  "line_stock_id line = jstring (jget line ''stock_id'')"

definition stock_available :: "jdict \<Rightarrow> rat" where
  "stock_available line =
     (let available = alloc_dec (jget line ''quantity'') - alloc_dec (jget line ''reserved'')
      in if available < 0 then 0 else available)"

definition initial_stock :: "jdict list \<Rightarrow> (string, rat) dict" where
  "initial_stock lines =
     fold (\<lambda>line d. if line_stock_id line = [] then d else dict_set (line_stock_id line) (stock_available line) d) lines []"

definition stock_meta :: "jdict list \<Rightarrow> (string, jdict) dict" where
  "stock_meta lines =
     fold (\<lambda>line d. if line_stock_id line = [] then d else dict_set (line_stock_id line) line d) lines []"

definition supplier_id_of :: "jdict \<Rightarrow> string" where
  "supplier_id_of supplier = jstring (jget supplier ''supplier_id'')"

type_synonym offer_key = "string \<times> string"

definition offering_quantity :: "jdict \<Rightarrow> rat" where
  "offering_quantity offering = alloc_dec (jget_default offering ''available_quantity'' (jget offering ''available_qty''))"

text \<open>\<open>remaining_supplier\<close>: a later offering of the same key overwrites an earlier one.\<close>

definition initial_offers :: "(jdict \<times> jdict) list \<Rightarrow> (offer_key, rat) dict" where
  "initial_offers offerings =
     fold (\<lambda>(supplier, offering) d.
       if supplier_id_of supplier = [] \<or> nomenclature_of offering = [] then d
       else dict_set (supplier_id_of supplier, casefold (nomenclature_of offering)) (offering_quantity offering) d)
       offerings []"

definition supplier_meta :: "jdict list \<Rightarrow> (string, jdict) dict" where
  "supplier_meta suppliers =
     fold (\<lambda>s d. if supplier_id_of s = [] then d else dict_set (supplier_id_of s) s d) suppliers []"

definition name_of :: "jdict \<Rightarrow> string" where
  "name_of d = jstring (jget d ''nomenclature_name'')"

definition object_keys :: "jdict \<Rightarrow> string list" where
  "object_keys d = match_keys (nomenclature_of d) (name_of d)"

section \<open>Indexes\<close>

text \<open>\<open>bucket = index.setdefault(key, []); if x not in bucket: bucket.append(x)\<close>\<close>

definition index_add :: "string \<Rightarrow> 'a \<Rightarrow> (string, 'a list) dict \<Rightarrow> (string, 'a list) dict" where
  "index_add key x index =
     (let bucket = dict_get_or index key []
      in dict_set key (if x \<in> set bucket then bucket else bucket @ [x]) index)"

definition index_all :: "('a \<times> string list) list \<Rightarrow> (string, 'a list) dict" where
  "index_all entries = fold (\<lambda>(x, keys). fold (\<lambda>key. index_add key x) keys) entries []"

definition stock_sort_key :: "(string, jdict) dict \<Rightarrow> string \<Rightarrow> string \<times> string" where
  "stock_sort_key meta sid =
     (jstring (jget (dict_get_or meta sid []) ''warehouse_id''), sid)"

definition stock_by_nom :: "jdict list \<Rightarrow> (string, string list) dict" where
  "stock_by_nom lines =
     (let meta = stock_meta lines
      in map (\<lambda>(key, ids). (key, sort_key (stock_sort_key meta) ids))
           (index_all (map (\<lambda>(sid, line). (sid, object_keys line)) meta)))"

definition offering_names :: "(jdict \<times> jdict) list \<Rightarrow> (offer_key, string) dict" where
  "offering_names offerings =
     fold (\<lambda>(supplier, offering) d.
       let nom = nomenclature_of offering; name_key = casefold (py_strip (name_of offering))
       in if nom = [] \<or> name_key = [] then d else dict_set (supplier_id_of supplier, casefold nom) name_key d)
       offerings []"

definition int_or_99 :: "json \<Rightarrow> int" where
  "int_or_99 v = (if jtruthy v then (case jdecimal v of Some x \<Rightarrow> truncate_int x | None \<Rightarrow> 99) else 99)"

definition lead_time :: "jdict \<Rightarrow> string \<Rightarrow> int" where
  "lead_time supplier key =
     (case filter (\<lambda>o'. key \<in> set (object_keys o')) (offerings_of supplier) of
        [] \<Rightarrow> 99 | o' # _ \<Rightarrow> int_or_99 (jget o' ''lead_time_days''))"

definition offer_index_keys :: "(offer_key, string) dict \<Rightarrow> offer_key \<Rightarrow> string list" where
  "offer_index_keys names key =
     (case dict_get names key of
        Some name_key \<Rightarrow> if name_key \<noteq> [] \<and> name_key \<noteq> snd key then [snd key, name_key] else [snd key]
      | None \<Rightarrow> [snd key])"

definition supplier_by_nom :: "material_bank \<Rightarrow> (string, string list) dict" where
  "supplier_by_nom bank =
     (let offerings = supplier_offerings bank; names = offering_names offerings;
          meta = supplier_meta (active_suppliers bank)
      in map (\<lambda>(key, sids). (key, sort_key (\<lambda>sid. (lead_time (dict_get_or meta sid []) key, sid)) sids))
           (index_all (map (\<lambda>(key, qty). (fst key, offer_index_keys names key))
              (filter (\<lambda>(key, qty). qty > 0) (initial_offers offerings)))))"

section \<open>Drawing on the pools\<close>

text \<open>The draw of both loops: \<open>take = min(left, available); remaining[k] = available - take\<close>.\<close>

definition pool_draw :: "'k \<Rightarrow> rat \<Rightarrow> ('k, rat) dict \<Rightarrow> rat \<times> ('k, rat) dict" where
  "pool_draw k left pool =
     (let available = dict_get_or pool k 0
      in if available \<le> 0 then (0, pool)
         else (let part = min left available in (part, dict_set k (available - part) pool)))"

definition stock_candidates :: "(string, string list) dict \<Rightarrow> string list \<Rightarrow> string list" where
  "stock_candidates index keys = uniq (concat (map (\<lambda>key. dict_get_or index key []) keys))"

definition matching_offer_keys :: "(string, jdict) dict \<Rightarrow> string list \<Rightarrow> string \<Rightarrow> offer_key list" where
  "matching_offer_keys meta keys sid =
     map (\<lambda>o'. (sid, casefold (nomenclature_of o')))
       (filter (\<lambda>o'. list_ex (\<lambda>key. key \<in> set keys) (object_keys o') \<and> nomenclature_of o' \<noteq> [])
         (offerings_of (dict_get_or meta sid [])))"

definition part_price :: "(string, jdict) dict \<Rightarrow> string list \<Rightarrow> string \<Rightarrow> rat option" where
  "part_price meta keys sid =
     (case List.map_filter (\<lambda>o'. if list_ex (\<lambda>key. key \<in> set keys) (object_keys o') then
             (case jdecimal (jget o' ''unit_price'') of Some p \<Rightarrow> if p > 0 then Some p else None | None \<Rightarrow> None)
           else None) (offerings_of (dict_get_or meta sid [])) of
        [] \<Rightarrow> None | p # _ \<Rightarrow> Some p)"

record supplier_part =
  sp_supplier_id :: string
  sp_supplier_name :: json
  sp_quantity :: rat
  sp_unit_price :: "rat option"

fun draw_suppliers ::
  "(string, jdict) dict \<Rightarrow> string list \<Rightarrow> string list \<Rightarrow> rat \<Rightarrow> (offer_key, rat) dict \<Rightarrow>
   supplier_part list \<times> rat \<times> (offer_key, rat) dict" where
  "draw_suppliers meta keys [] left pool = ([], left, pool)"
| "draw_suppliers meta keys (sid # sids) left pool =
     (if left \<le> 0 then ([], left, pool)
      else (case draw_all pool_draw (matching_offer_keys meta keys sid) left pool of
        (ps, left1, pool1) \<Rightarrow>
          (case draw_suppliers meta keys sids left1 pool1 of
             (parts, left2, pool2) \<Rightarrow>
               (if parts_total ps \<le> 0 then (parts, left2, pool2)
                else (\<lparr>sp_supplier_id = sid, sp_supplier_name = jget (dict_get_or meta sid []) ''name'',
                       sp_quantity = parts_total ps, sp_unit_price = part_price meta keys sid\<rparr> # parts,
                      left2, pool2)))))"

section \<open>One demand\<close>

record warehouse_part =
  wp_stock_id :: string
  wp_warehouse_id :: string
  wp_warehouse_name :: json
  wp_quantity :: rat

record bank_index =
  bi_warehouses :: "(string, jdict) dict"
  bi_stock_meta :: "(string, jdict) dict"
  bi_stock_by_nom :: "(string, string list) dict"
  bi_supplier_meta :: "(string, jdict) dict"
  bi_supplier_by_nom :: "(string, string list) dict"

definition warehouse_part_of :: "bank_index \<Rightarrow> string \<times> rat \<Rightarrow> warehouse_part" where
  "warehouse_part_of idx part =
     (case part of (sid, taken) \<Rightarrow>
        (let wh_id = jstring (jget (dict_get_or (bi_stock_meta idx) sid []) ''warehouse_id'')
         in \<lparr>wp_stock_id = sid, wp_warehouse_id = wh_id,
             wp_warehouse_name = jget (dict_get_or (bi_warehouses idx) wh_id []) ''name'', wp_quantity = taken\<rparr>))"

record alloc_line =
  al_demand :: demand
  al_needed :: rat
  al_covered :: rat
  al_deficit :: rat
  al_from_warehouse :: rat
  al_from_supplier :: rat
  al_source :: cover_source
  al_tone :: coverage_tone
  al_warehouse_parts :: "warehouse_part list"
  al_supplier_parts :: "supplier_part list"

type_synonym pools = "(string, rat) dict \<times> (offer_key, rat) dict"

definition serve_demand :: "bank_index \<Rightarrow> demand \<Rightarrow> pools \<Rightarrow> alloc_line \<times> pools" where
  "serve_demand idx d pools =
     (let needed = dm_quantity d; keys = demand_keys d
      in case draw_all pool_draw (stock_candidates (bi_stock_by_nom idx) keys) needed (fst pools) of
           (wparts, left, stock1) \<Rightarrow>
         (case draw_suppliers (bi_supplier_meta idx) keys (stock_candidates (bi_supplier_by_nom idx) keys) left (snd pools) of
            (sparts, left1, offers1) \<Rightarrow>
              (let from_warehouse = parts_total wparts; from_supplier = sum_list (map sp_quantity sparts);
                   covered = from_warehouse + from_supplier
               in (\<lparr>al_demand = d, al_needed = needed, al_covered = covered, al_deficit = max 0 (needed - covered),
                    al_from_warehouse = from_warehouse, al_from_supplier = from_supplier,
                    al_source = source_kind from_warehouse from_supplier, al_tone = line_tone needed covered,
                    al_warehouse_parts = map (warehouse_part_of idx) wparts, al_supplier_parts = sparts\<rparr>,
                   (stock1, offers1)))))"

fun serve_all :: "bank_index \<Rightarrow> demand list \<Rightarrow> pools \<Rightarrow> alloc_line list \<times> pools" where
  "serve_all idx [] pools = ([], pools)"
| "serve_all idx (d # ds) pools =
     (case serve_demand idx d pools of (l, pools1) \<Rightarrow>
        (case serve_all idx ds pools1 of (ls, pools2) \<Rightarrow> (l # ls, pools2)))"

section \<open>Cases\<close>

record case_coverage =
  cc_case_id :: string
  cc_tone :: coverage_tone
  cc_covered_count :: nat
  cc_positions_count :: nat
  cc_uncovered_count :: nat
  cc_needed :: rat
  cc_covered :: rat
  cc_deficit :: rat
  cc_lines :: "alloc_line list"

definition case_coverage_of :: "string \<Rightarrow> alloc_line list \<Rightarrow> case_coverage" where
  "case_coverage_of cid lines =
     \<lparr>cc_case_id = cid, cc_tone = case_tone (map al_tone lines),
      cc_covered_count = length (filter (\<lambda>l. al_tone l \<noteq> Uncovered) lines),
      cc_positions_count = length lines,
      cc_uncovered_count = length (filter (\<lambda>l. al_tone l = Uncovered) lines),
      cc_needed = sum_list (map al_needed lines), cc_covered = sum_list (map al_covered lines),
      cc_deficit = sum_list (map al_deficit lines), cc_lines = lines\<rparr>"

definition case_lines :: "alloc_line list \<Rightarrow> (string, alloc_line list) dict" where
  "case_lines lines =
     fold (\<lambda>l d. let cid = dm_case_id (al_demand l) in dict_set cid (dict_get_or d cid [] @ [l]) d) lines []"

text \<open>
  Cases without a demand line are appended as uncovered.  \<open>seen\<close> is not extended by this loop: a case
  id that occurs twice among them is appended twice.
\<close>

definition empty_cases :: "string list \<Rightarrow> alloc_case list \<Rightarrow> case_coverage list" where
  "empty_cases seen cases =
     map (\<lambda>c. case_coverage_of (opt_str (ac_id c)) [])
       (filter (\<lambda>c. opt_str (ac_id c) \<noteq> [] \<and> opt_str (ac_id c) \<notin> set seen) cases)"

section \<open>By nomenclature\<close>

record merged_part =
  mp_supplier_id :: string
  mp_supplier_name :: string
  mp_quantity :: rat
  mp_unit_price :: "rat option"

definition merge_supplier_part :: "supplier_part \<Rightarrow> (string, merged_part) dict \<Rightarrow> (string, merged_part) dict" where
  "merge_supplier_part part target =
     (let sid = py_strip (sp_supplier_id part)
      in if sid = [] \<or> sp_quantity part \<le> 0 then target
         else (case dict_get target sid of
             None \<Rightarrow> dict_set sid \<lparr>mp_supplier_id = sid,
                 mp_supplier_name = jstring (jor (sp_supplier_name part) (JStr sid)),
                 mp_quantity = sp_quantity part, mp_unit_price = sp_unit_price part\<rparr> target
           | Some m \<Rightarrow> dict_set sid (m\<lparr>mp_quantity := mp_quantity m + sp_quantity part,
                 mp_supplier_name := (if mp_supplier_name m = [] \<and> jtruthy (sp_supplier_name part)
                   then jstr (sp_supplier_name part) else mp_supplier_name m),
                 mp_unit_price := (if mp_unit_price m = None then sp_unit_price part else mp_unit_price m)\<rparr>) target))"

definition merge_supplier_parts :: "supplier_part list \<Rightarrow> (string, merged_part) dict \<Rightarrow> (string, merged_part) dict" where
  "merge_supplier_parts parts target = fold merge_supplier_part parts target"

record nom_bucket =
  nb_nomenclature_id :: string
  nb_nomenclature_name :: "string option"
  nb_unit :: string
  nb_needed :: rat
  nb_covered :: rat
  nb_deficit :: rat
  nb_from_warehouse :: rat
  nb_from_supplier :: rat
  nb_positions_count :: nat
  nb_sources :: "cover_source list"
  nb_parts :: "(string, merged_part) dict"

definition line_key :: "alloc_line \<Rightarrow> string" where
  "line_key l =
     (let d = al_demand l; key = norm_key (dm_nomenclature_id d) (opt_str (dm_nomenclature_name d))
      in if key \<noteq> [] then key else dm_line_id d)"

definition new_bucket :: "alloc_line \<Rightarrow> nom_bucket" where
  "new_bucket l = \<lparr>nb_nomenclature_id = dm_nomenclature_id (al_demand l),
     nb_nomenclature_name = dm_nomenclature_name (al_demand l), nb_unit = dm_unit (al_demand l),
     nb_needed = al_needed l, nb_covered = al_covered l, nb_deficit = al_deficit l,
     nb_from_warehouse = al_from_warehouse l, nb_from_supplier = al_from_supplier l, nb_positions_count = 1,
     nb_sources = [al_source l], nb_parts = merge_supplier_parts (al_supplier_parts l) []\<rparr>"

definition grow_bucket :: "nom_bucket \<Rightarrow> alloc_line \<Rightarrow> nom_bucket" where
  "grow_bucket b l = b\<lparr>nb_needed := nb_needed b + al_needed l, nb_covered := nb_covered b + al_covered l,
     nb_deficit := nb_deficit b + al_deficit l, nb_from_warehouse := nb_from_warehouse b + al_from_warehouse l,
     nb_from_supplier := nb_from_supplier b + al_from_supplier l, nb_positions_count := nb_positions_count b + 1,
     nb_sources := uniq (nb_sources b @ [al_source l]),
     nb_parts := merge_supplier_parts (al_supplier_parts l) (nb_parts b)\<rparr>"

definition add_line :: "alloc_line \<Rightarrow> (string, nom_bucket) dict \<Rightarrow> (string, nom_bucket) dict" where
  "add_line l buckets =
     (case dict_get buckets (line_key l) of
        None \<Rightarrow> dict_set (line_key l) (new_bucket l) buckets
      | Some b \<Rightarrow> dict_set (line_key l) (grow_bucket b l) buckets)"

definition bucket_source :: "cover_source list \<Rightarrow> cover_source" where
  "bucket_source sources =
     (case filter (\<lambda>s. s \<noteq> Cov_None) sources of [] \<Rightarrow> Cov_None | [s] \<Rightarrow> s | _ \<Rightarrow> Cov_Mixed)"

record nom_row =
  nr_bucket :: nom_bucket
  nr_source :: cover_source
  nr_used_suppliers :: "merged_part list"
  nr_price_min :: "rat option"
  nr_price_max :: "rat option"
  nr_estimate :: estimate_result

definition row_of_bucket :: "(string, price_bound) dict \<Rightarrow> material_bank \<Rightarrow> string \<Rightarrow> nom_bucket \<Rightarrow> nom_row" where
  "row_of_bucket bounds bank key b =
     (let source = bucket_source (nb_sources b);
          used = (if source = Cov_Warehouse \<or> nb_from_supplier b \<le> 0 then []
            else sort_key (\<lambda>m. (- mp_quantity m, mp_supplier_name m)) (dict_values (nb_parts b)));
          bound = (case dict_get bounds key of
              Some x \<Rightarrow> Some x | None \<Rightarrow> dict_get bounds (casefold (nb_nomenclature_id b)));
          nom_id = py_strip (nb_nomenclature_id b);
          offers = (if nom_id \<noteq> [] then collect_supplier_offers nom_id bank else [])
      in \<lparr>nr_bucket = b, nr_source = source, nr_used_suppliers = used,
          nr_price_min = map_option bd_price_min bound, nr_price_max = map_option bd_price_max bound,
          nr_estimate = estimate_nomenclature_amount (nb_needed b) (map_option bd_price_min bound) [] (Some source)
            (Some (nb_from_supplier b)) offers\<rparr>)"

definition aggregate_positions :: "alloc_line list \<Rightarrow> (string, price_bound) dict \<Rightarrow> material_bank \<Rightarrow> nom_row list" where
  "aggregate_positions lines bounds bank =
     sort_key (\<lambda>r. opt_str (or_str (nb_nomenclature_name (nr_bucket r)) (Some (nb_nomenclature_id (nr_bucket r)))))
       (map (\<lambda>(key, b). row_of_bucket bounds bank key b) (fold add_line lines []))"

section \<open>The allocation\<close>

record alloc_summary =
  as_total_orders :: nat
  as_uncovered_orders :: nat
  as_ready_orders :: nat
  as_attention_orders :: nat
  as_uncovered_positions :: nat
  as_positions :: nat
  as_need_total :: rat
  as_covered_total :: rat
  as_bank_total :: rat
  as_active_suppliers :: nat
  as_warehouses :: nat

record allocation =
  aa_cases :: "case_coverage list"
  aa_lines :: "alloc_line list"
  aa_by_nomenclature :: "nom_row list"
  aa_summary :: alloc_summary
  aa_case_index :: "(string, case_coverage) dict"

definition bank_index_of :: "material_bank \<Rightarrow> bank_index" where
  "bank_index_of bank =
     \<lparr>bi_warehouses = fold (\<lambda>w. dict_set (jstring (jget w ''warehouse_id'')) w) (mb_warehouses bank) [],
      bi_stock_meta = stock_meta (mb_stock bank), bi_stock_by_nom = stock_by_nom (mb_stock bank),
      bi_supplier_meta = supplier_meta (active_suppliers bank), bi_supplier_by_nom = supplier_by_nom bank\<rparr>"

definition initial_pools :: "material_bank \<Rightarrow> pools" where
  "initial_pools bank = (initial_stock (mb_stock bank), initial_offers (supplier_offerings bank))"

definition allocated_lines :: "alloc_case list \<Rightarrow> material_bank \<Rightarrow> alloc_line list" where
  "allocated_lines cases bank =
     fst (serve_all (bank_index_of bank) (sort_key demand_sort_key (demands_from_cases cases)) (initial_pools bank))"

definition case_results :: "alloc_case list \<Rightarrow> alloc_line list \<Rightarrow> case_coverage list" where
  "case_results cases lines =
     (let covered = map (\<lambda>(cid, ls). case_coverage_of cid ls) (case_lines lines)
      in covered @ empty_cases (map cc_case_id covered) cases)"

text \<open>\<open>None\<close> when \<open>bank_totals\<close> raises on a quantity that is no number.\<close>

definition allocate_materials_by_deadline :: "alloc_case list \<Rightarrow> material_bank \<Rightarrow> allocation option" where
  "allocate_materials_by_deadline cases bank = do {
     totals \<leftarrow> bank_totals bank;
     let lines = allocated_lines cases bank; cs = case_results cases lines
     in Some \<lparr>aa_cases = cs, aa_lines = lines,
        aa_by_nomenclature = aggregate_positions lines (supplier_price_bounds bank) bank,
        aa_summary = \<lparr>as_total_orders = length cs,
          as_uncovered_orders = length (filter (\<lambda>c. cc_tone c = Uncovered) cs),
          as_ready_orders = length (filter (\<lambda>c. cc_tone c = Ready) cs),
          as_attention_orders = length (filter (\<lambda>c. cc_tone c = Attention) cs),
          as_uncovered_positions = sum_list (map cc_uncovered_count cs), as_positions = length lines,
          as_need_total = sum_list (map al_needed lines), as_covered_total = sum_list (map al_covered lines),
          as_bank_total = bt_bank_quantity_total totals, as_active_suppliers = length (active_suppliers bank),
          as_warehouses = length (mb_warehouses bank)\<rparr>,
        aa_case_index = fold (\<lambda>c. dict_set (casefold (py_strip (cc_case_id c))) c) cs []\<rparr> }"

section \<open>The pools\<close>

definition pool_left :: "('k, rat) dict \<Rightarrow> 'k \<Rightarrow> rat" where
  "pool_left pool k = dict_get_or pool k 0"

interpretation pool: independent_pool pool_draw pool_left
proof
  fix left :: rat and k j :: 'a and s
  assume "0 < left"
  then show "fst (pool_draw k left s) = max 0 (min left (pool_left s k))"
    and "pool_left (snd (pool_draw k left s)) k = pool_left s k - fst (pool_draw k left s)"
    and "pool_left (snd (pool_draw k left s)) j \<le> pool_left s j"
    by (auto simp: pool_draw_def pool_left_def Let_def)
  show "pool_left (snd (pool_draw k left s)) j = pool_left s j" if "j \<noteq> k"
    using that by (simp add: pool_draw_def pool_left_def Let_def)
qed

section \<open>The indexes list what matches\<close>

lemma index_add_get:
  "set (dict_get_or (index_add key x index) j []) = set (dict_get_or index j []) \<union> (if j = key then {x} else {})"
  by (auto simp: index_add_def Let_def)

lemma index_add_all_get:
  "set (dict_get_or (fold (\<lambda>key. index_add key x) keys index) j []) =
   set (dict_get_or index j []) \<union> (if j \<in> set keys then {x} else {})"
  by (induction keys arbitrary: index) (auto simp: index_add_get)

lemma index_fold_get:
  "set (dict_get_or (fold (\<lambda>(x, keys). fold (\<lambda>key. index_add key x) keys) entries index) j []) =
   set (dict_get_or index j []) \<union> {x. \<exists>keys. (x, keys) \<in> set entries \<and> j \<in> set keys}"
proof (induction entries arbitrary: index)
  case (Cons e entries)
  obtain x keys where e: "e = (x, keys)" by fastforce
  show ?case by (simp add: e Cons.IH index_add_all_get) auto
qed simp

lemma index_all_get:
  "set (dict_get_or (index_all entries) j []) = {x. \<exists>keys. (x, keys) \<in> set entries \<and> j \<in> set keys}"
  unfolding index_all_def by (simp add: index_fold_get)

lemma dict_get_map_key: "dict_get (map (\<lambda>(k, v). (k, f k v)) d) j = map_option (f j) (dict_get d j)"
  by (induction d) (auto simp: dict_get_def)

lemma index_sorted_get:
  "set (dict_get_or (map (\<lambda>(key, xs). (key, sort_key (g key) xs)) d) j []) = set (dict_get_or d j [])"
  by (auto simp: dict_get_or_def dict_get_map_key split: option.split)

lemma stock_candidates_iff:
  "sid \<in> set (stock_candidates (stock_by_nom lines) keys) \<longleftrightarrow>
   (\<exists>line. (sid, line) \<in> set (stock_meta lines) \<and> set (object_keys line) \<inter> set keys \<noteq> {})"
proof -
  have "set (dict_get_or (stock_by_nom lines) key []) =
      {sid. \<exists>line. (sid, line) \<in> set (stock_meta lines) \<and> key \<in> set (object_keys line)}" for key
    unfolding stock_by_nom_def Let_def index_sorted_get index_all_get by force
  then show ?thesis by (auto simp: stock_candidates_def)
qed

lemma candidates_mono:
  "set keys \<subseteq> set keys' \<Longrightarrow> set (stock_candidates index keys) \<subseteq> set (stock_candidates index keys')"
  by (auto simp: stock_candidates_def)

lemma matching_offer_keys_mono:
  "set keys \<subseteq> set keys' \<Longrightarrow> set (matching_offer_keys meta keys sid) \<subseteq> set (matching_offer_keys meta keys' sid)"
  by (auto simp: matching_offer_keys_def list_ex_iff)

section \<open>Suppliers\<close>

text \<open>What a supplier can still deliver, over all its offerings.\<close>

definition supplier_left :: "(offer_key, rat) dict \<Rightarrow> string \<Rightarrow> rat" where
  "supplier_left pool sid = (\<Sum>(k, q)\<leftarrow>pool. if fst k = sid then max 0 q else 0)"

lemma supplier_left_simps [simp]:
  "supplier_left [] sid = 0"
  "supplier_left ((k, q) # pool) sid = (if fst k = sid then max 0 q else 0) + supplier_left pool sid"
  by (simp_all add: supplier_left_def)

lemma supplier_left_nonneg: "0 \<le> supplier_left pool sid"
  by (induction pool) (auto simp: supplier_left_def)

lemma supplier_left_set:
  assumes "dict_get pool k = Some q" "distinct (dict_keys pool)"
  shows "supplier_left (dict_set k v pool) sid =
    supplier_left pool sid + (if fst k = sid then max 0 v - max 0 q else 0)"
  using assms
proof (induction pool)
  case (Cons e pool)
  show ?case
  proof (cases "fst e = k")
    case True
    with Cons.prems have "snd e = q" by (cases e) (simp add: dict_get_def)
    with True Cons.prems show ?thesis by (cases e) (simp add: dict_set_def)
  next
    case False
    with Cons.prems have "dict_get pool k = Some q" by (cases e) (simp add: dict_get_def)
    with Cons.IH Cons.prems(2) False show ?thesis by (cases e) (simp add: dict_set_def)
  qed
qed (simp add: dict_get_def)

lemma pool_draw_supplier:
  assumes "pool_draw k left pool = (t, pool')" "0 < left" "distinct (dict_keys pool)"
  shows "supplier_left pool' sid + (if fst k = sid then t else 0) = supplier_left pool sid \<and>
    distinct (dict_keys pool')"
proof (cases "dict_get_or pool k 0 \<le> 0")
  case True
  with assms show ?thesis by (auto simp: pool_draw_def)
next
  case False
  then obtain q where q: "dict_get pool k = Some q" "0 < q"
    by (auto simp: dict_get_or_def split: option.splits)
  with assms(1) have t: "t = min left q" "pool' = dict_set k (q - t) pool"
    by (auto simp: pool_draw_def Let_def dict_get_or_def)
  have "0 < t" "t \<le> q" using t(1) q(2) assms(2) by auto
  with supplier_left_set[OF q(1) assms(3), of "q - t" sid] distinct_dict_set[OF assms(3)] q(2) show ?thesis
    by (auto simp: t(2))
qed

definition drawn_from :: "(offer_key \<times> rat) list \<Rightarrow> string \<Rightarrow> rat" where
  "drawn_from ps sid = parts_total (filter (\<lambda>p. fst (fst p) = sid) ps)"

lemma draw_all_supplier:
  assumes "draw_all pool_draw ks left pool = (ps, l, pool')" "distinct (dict_keys pool)"
  shows "supplier_left pool' sid + drawn_from ps sid = supplier_left pool sid \<and> distinct (dict_keys pool')"
  using assms
proof (induction ks arbitrary: left pool ps)
  case Nil
  then show ?case by (simp add: drawn_from_def)
next
  case (Cons k ks)
  show ?case
  proof (cases "left \<le> 0")
    case True
    with Cons.prems show ?thesis by (auto simp: drawn_from_def)
  next
    case False
    obtain t pool1 where d: "pool_draw k left pool = (t, pool1)" by fastforce
    have D: "supplier_left pool1 sid + (if fst k = sid then t else 0) = supplier_left pool sid"
      "distinct (dict_keys pool1)" using pool_draw_supplier[OF d _ Cons.prems(2)] False by auto
    show ?thesis
    proof (cases "t \<le> 0")
      case True
      then have "t = 0" using pool.draw_amount[of left k pool] d False by simp
      with True Cons.prems(1) False d D Cons.IH[OF _ D(2), of left ps] show ?thesis by auto
    next
      case tpos: False
      with Cons.prems(1) False d obtain qs where
        r: "draw_all pool_draw ks (left - t) pool1 = (qs, l, pool')" and ps: "ps = (k, t) # qs"
        by (auto split: prod.splits)
      from Cons.IH[OF r D(2)] D(1) show ?thesis by (auto simp: ps drawn_from_def)
    qed
  qed
qed

definition parts_of_supplier :: "supplier_part list \<Rightarrow> string \<Rightarrow> rat" where
  "parts_of_supplier parts sid = sum_list (map sp_quantity (filter (\<lambda>p. sp_supplier_id p = sid) parts))"

lemma parts_of_supplier_simps [simp]:
  "parts_of_supplier [] sid = 0"
  "parts_of_supplier (p # parts) sid = (if sp_supplier_id p = sid then sp_quantity p else 0) + parts_of_supplier parts sid"
  "parts_of_supplier (parts @ parts') sid = parts_of_supplier parts sid + parts_of_supplier parts' sid"
  by (simp_all add: parts_of_supplier_def)

lemma drawn_from_one:
  assumes "draw_all pool_draw (matching_offer_keys meta keys s) left pool = (ps, l, pool')"
  shows "drawn_from ps sid = (if s = sid then parts_total ps else 0)"
proof -
  have "\<forall>p \<in> set ps. fst (fst p) = s"
    using pool.draw_all_parts_pos[OF assms] by (fastforce simp: matching_offer_keys_def)
  then show ?thesis unfolding drawn_from_def
    by (cases "s = sid") (auto simp: filter_id_conv filter_empty_conv intro: arg_cong[of _ _ parts_total])
qed

lemma parts_nonneg: "draw_all pool_draw ks left pool = (ps, l, pool') \<Longrightarrow> 0 \<le> parts_total ps"
  unfolding parts_total_def
  by (rule sum_list_map_nonneg[of ps snd, simplified]) (auto dest: pool.draw_all_parts_pos intro: less_imp_le)

text \<open>The loop over the suppliers: balanced, within what each can deliver, and exhaustive.\<close>

lemma draw_suppliers_facts:
  assumes "draw_suppliers meta keys sids left pool = (parts, l, pool')" "0 \<le> left" "distinct (dict_keys pool)"
  shows "sum_list (map sp_quantity parts) + l = left \<and> 0 \<le> l \<and> (\<forall>p \<in> set parts. 0 < sp_quantity p) \<and>
    distinct (dict_keys pool') \<and> (\<forall>k. pool_left pool' k \<le> pool_left pool k) \<and>
    (\<forall>sid. supplier_left pool' sid + parts_of_supplier parts sid = supplier_left pool sid) \<and>
    (0 < l \<longrightarrow> (\<forall>sid \<in> set sids. \<forall>k \<in> set (matching_offer_keys meta keys sid). pool_left pool' k \<le> 0))"
  using assms
proof (induction sids arbitrary: left pool parts)
  case Nil
  then show ?case by simp
next
  case (Cons s sids)
  show ?case
  proof (cases "left \<le> 0")
    case True
    with Cons.prems show ?thesis by simp
  next
    case False
    obtain ps left1 pool1 where d: "draw_all pool_draw (matching_offer_keys meta keys s) left pool = (ps, left1, pool1)"
      by (metis prod_cases3)
    obtain rest l' pool2 where r: "draw_suppliers meta keys sids left1 pool1 = (rest, l', pool2)" by (metis prod_cases3)
    have eq: "l' = l" "pool2 = pool'"
      "parts = (if parts_total ps \<le> 0 then rest else \<lparr>sp_supplier_id = s,
          sp_supplier_name = jget (dict_get_or meta s []) ''name'', sp_quantity = parts_total ps,
          sp_unit_price = part_price meta keys s\<rparr> # rest)"
      using Cons.prems(1) False d r by (auto split: if_splits)
    have lb: "0 \<le> left1" "parts_total ps + left1 = left"
      using pool.draw_all_left_bounds[OF d Cons.prems(2)] pool.draw_all_conserves[OF d] by auto
    have S: "supplier_left pool1 sid + (if s = sid then parts_total ps else 0) = supplier_left pool sid" for sid
      using draw_all_supplier[OF d Cons.prems(3), of sid] drawn_from_one[OF d] by simp
    have dist: "distinct (dict_keys pool1)" using draw_all_supplier[OF d Cons.prems(3)] by simp
    note IH = Cons.IH[OF r[unfolded eq(1,2)] lb(1) dist]
    have mono: "\<forall>k. pool_left pool' k \<le> pool_left pool k"
      using IH pool.draw_all_mono[OF d] by (blast intro: order_trans)
    have ex: "0 < l \<Longrightarrow> \<forall>k \<in> set (matching_offer_keys meta keys s). pool_left pool' k \<le> 0"
    proof -
      assume "0 < l"
      moreover have "0 \<le> sum_list (map sp_quantity rest)"
        using IH by (intro sum_list_map_nonneg) (auto intro: less_imp_le)
      ultimately have "0 < left1" using IH by linarith
      from pool.draw_all_exhausts[OF d this Cons.prems(2)] IH show ?thesis by (blast intro: order_trans)
    qed
    have total: "sum_list (map sp_quantity parts) + l = left" "\<forall>p \<in> set parts. 0 < sp_quantity p"
      using IH lb parts_nonneg[OF d] by (auto simp: eq(3))
    have sup: "supplier_left pool' sid + parts_of_supplier parts sid = supplier_left pool sid" for sid
      using IH S[of sid] parts_nonneg[OF d] by (auto simp: eq(3) split: if_splits)
        (metis add.assoc add.commute)+
    from total sup mono ex IH show ?thesis by simp
  qed
qed

section \<open>One demand, all demands\<close>

definition parts_of_stock :: "warehouse_part list \<Rightarrow> string \<Rightarrow> rat" where
  "parts_of_stock parts sid = sum_list (map wp_quantity (filter (\<lambda>p. wp_stock_id p = sid) parts))"

lemma parts_of_stock_simps [simp]:
  "parts_of_stock [] sid = 0"
  "parts_of_stock (p # parts) sid = (if wp_stock_id p = sid then wp_quantity p else 0) + parts_of_stock parts sid"
  "parts_of_stock (parts @ parts') sid = parts_of_stock parts sid + parts_of_stock parts' sid"
  by (simp_all add: parts_of_stock_def)

lemma warehouse_part_fields [simp]:
  "wp_stock_id (warehouse_part_of idx p) = fst p" "wp_quantity (warehouse_part_of idx p) = snd p"
  by (cases p; simp add: warehouse_part_of_def Let_def)+

lemma parts_of_stock_map: "parts_of_stock (map (warehouse_part_of idx) ps) sid = taken_from ps sid"
  by (induction ps) auto

lemma parts_total_map: "sum_list (map wp_quantity (map (warehouse_part_of idx) ps)) = parts_total ps"
  by (induction ps) auto

text \<open>The sources a demand may draw on.\<close>

definition stock_sources :: "bank_index \<Rightarrow> demand \<Rightarrow> string set" where
  "stock_sources idx d = set (stock_candidates (bi_stock_by_nom idx) (demand_keys d))"

definition offer_sources :: "bank_index \<Rightarrow> demand \<Rightarrow> offer_key set" where
  "offer_sources idx d = (\<Union>sid \<in> set (stock_candidates (bi_supplier_by_nom idx) (demand_keys d)).
     set (matching_offer_keys (bi_supplier_meta idx) (demand_keys d) sid))"

definition line_balanced :: "alloc_line \<Rightarrow> bool" where
  "line_balanced l \<longleftrightarrow>
     al_needed l = dm_quantity (al_demand l) \<and> al_covered l = al_from_warehouse l + al_from_supplier l \<and>
     al_covered l + al_deficit l = al_needed l \<and> 0 \<le> al_deficit l \<and>
     al_from_warehouse l = sum_list (map wp_quantity (al_warehouse_parts l)) \<and> 0 \<le> al_from_warehouse l \<and>
     al_from_supplier l = sum_list (map sp_quantity (al_supplier_parts l)) \<and> 0 \<le> al_from_supplier l"

text \<open>Against the pools after it: what is short has exhausted its sources, the stock first.\<close>

definition line_exhaustive :: "bank_index \<Rightarrow> pools \<Rightarrow> alloc_line \<Rightarrow> bool" where
  "line_exhaustive idx pools l \<longleftrightarrow>
     (0 < al_from_supplier l \<or> 0 < al_deficit l \<longrightarrow> (\<forall>sid \<in> stock_sources idx (al_demand l). pool_left (fst pools) sid \<le> 0)) \<and>
     (0 < al_deficit l \<longrightarrow> (\<forall>k \<in> offer_sources idx (al_demand l). pool_left (snd pools) k \<le> 0))"

definition pools_le :: "pools \<Rightarrow> pools \<Rightarrow> bool" where
  "pools_le p q \<longleftrightarrow> (\<forall>k. pool_left (fst p) k \<le> pool_left (fst q) k) \<and> (\<forall>k. pool_left (snd p) k \<le> pool_left (snd q) k)"

lemma pools_le_trans: "pools_le p q \<Longrightarrow> pools_le q r \<Longrightarrow> pools_le p r"
  unfolding pools_le_def by (blast intro: order_trans)

lemma line_exhaustive_later: "line_exhaustive idx q l \<Longrightarrow> pools_le p q \<Longrightarrow> line_exhaustive idx p l"
  unfolding line_exhaustive_def pools_le_def by (blast intro: order_trans)

lemma serve_demand_facts:
  assumes "serve_demand idx d pools = (l, pools')" "0 \<le> dm_quantity d" "distinct (dict_keys (snd pools))"
  shows "al_demand l = d \<and> line_balanced l \<and> line_exhaustive idx pools' l \<and> pools_le pools' pools \<and>
    distinct (dict_keys (snd pools')) \<and>
    (\<forall>sid. pool_left (fst pools') sid + parts_of_stock (al_warehouse_parts l) sid = pool_left (fst pools) sid \<and>
       (0 \<le> pool_left (fst pools) sid \<longrightarrow> 0 \<le> pool_left (fst pools') sid)) \<and>
    (\<forall>sid. supplier_left (snd pools') sid + parts_of_supplier (al_supplier_parts l) sid = supplier_left (snd pools) sid)"
proof -
  let ?cand = "stock_candidates (bi_stock_by_nom idx) (demand_keys d)"
  let ?sups = "stock_candidates (bi_supplier_by_nom idx) (demand_keys d)"
  obtain wparts left stock1 where w: "draw_all pool_draw ?cand (dm_quantity d) (fst pools) = (wparts, left, stock1)"
    by (metis prod_cases3)
  obtain sparts left1 offers1 where
    s: "draw_suppliers (bi_supplier_meta idx) (demand_keys d) ?sups left (snd pools) = (sparts, left1, offers1)"
    by (metis prod_cases3)
  have l: "l = \<lparr>al_demand = d, al_needed = dm_quantity d, al_covered = parts_total wparts + sum_list (map sp_quantity sparts),
      al_deficit = max 0 (dm_quantity d - (parts_total wparts + sum_list (map sp_quantity sparts))),
      al_from_warehouse = parts_total wparts, al_from_supplier = sum_list (map sp_quantity sparts),
      al_source = source_kind (parts_total wparts) (sum_list (map sp_quantity sparts)),
      al_tone = line_tone (dm_quantity d) (parts_total wparts + sum_list (map sp_quantity sparts)),
      al_warehouse_parts = map (warehouse_part_of idx) wparts, al_supplier_parts = sparts\<rparr>"
    and p': "pools' = (stock1, offers1)"
    using assms(1) w s by (simp_all add: serve_demand_def Let_def)
  have W: "parts_total wparts + left = dm_quantity d" "0 \<le> left" "0 \<le> parts_total wparts"
    using pool.draw_all_conserves[OF w] pool.draw_all_left_bounds[OF w assms(2)] parts_nonneg[OF w] by auto
  note S = draw_suppliers_facts[OF s W(2) assms(3)]
  have sn: "0 \<le> sum_list (map sp_quantity sparts)"
    using S by (intro sum_list_map_nonneg) (auto intro: less_imp_le)
  have def_left: "al_deficit l = left1" using W S by (simp add: l)
  have "line_balanced l" using W S sn by (simp add: line_balanced_def l parts_total_map[symmetric] del: map_map)
  moreover have "line_exhaustive idx pools' l"
  proof -
    have "0 < al_from_supplier l \<or> 0 < al_deficit l \<Longrightarrow> 0 < left"
      using S sn unfolding def_left by (auto simp: l)
    then show ?thesis
      using pool.draw_all_exhausts[OF w _ assms(2)] S
      unfolding line_exhaustive_def def_left by (auto simp: p' l stock_sources_def offer_sources_def)
  qed
  moreover have "pools_le pools' pools"
    using S pool.draw_all_mono[OF w] by (simp add: pools_le_def p')
  moreover have "\<forall>sid. pool_left (fst pools') sid + parts_of_stock (al_warehouse_parts l) sid = pool_left (fst pools) sid \<and>
       (0 \<le> pool_left (fst pools) sid \<longrightarrow> 0 \<le> pool_left (fst pools') sid)"
    using pool.draw_all_accounts[OF w] by (simp add: p' l parts_of_stock_map)
  ultimately show ?thesis using S by (simp add: p' l)
qed

lemma serve_all_facts:
  assumes "serve_all idx ds pools = (ls, pools')" "\<forall>d \<in> set ds. 0 \<le> dm_quantity d" "distinct (dict_keys (snd pools))"
  shows "map al_demand ls = ds \<and> (\<forall>l \<in> set ls. line_balanced l \<and> line_exhaustive idx pools' l) \<and>
    pools_le pools' pools \<and>
    (\<forall>sid. pool_left (fst pools') sid + parts_of_stock (concat (map al_warehouse_parts ls)) sid = pool_left (fst pools) sid \<and>
       (0 \<le> pool_left (fst pools) sid \<longrightarrow> 0 \<le> pool_left (fst pools') sid)) \<and>
    (\<forall>sid. supplier_left (snd pools') sid + parts_of_supplier (concat (map al_supplier_parts ls)) sid =
       supplier_left (snd pools) sid)"
  using assms
proof (induction ds arbitrary: pools ls)
  case Nil
  then show ?case by (simp add: pools_le_def)
next
  case (Cons d ds)
  obtain l pools1 where d: "serve_demand idx d pools = (l, pools1)" by (metis surj_pair)
  obtain rest where r: "serve_all idx ds pools1 = (rest, pools')" and ls: "ls = l # rest"
    using Cons.prems(1) d by (auto split: prod.splits)
  note D = serve_demand_facts[OF d _ Cons.prems(3)]
  have q: "0 \<le> dm_quantity d" "\<forall>d \<in> set ds. 0 \<le> dm_quantity d" using Cons.prems(2) by auto
  have "distinct (dict_keys (snd pools1))" using D[OF q(1)] by simp
  note IH = Cons.IH[OF r q(2) this]
  have "line_exhaustive idx pools' l" "pools_le pools' pools"
    using D[OF q(1)] IH line_exhaustive_later pools_le_trans by blast+
  moreover have "pool_left (fst pools') sid + parts_of_stock (concat (map al_warehouse_parts ls)) sid = pool_left (fst pools) sid \<and>
       (0 \<le> pool_left (fst pools) sid \<longrightarrow> 0 \<le> pool_left (fst pools') sid)" for sid
    using D[OF q(1), THEN conjunct2, THEN conjunct2, THEN conjunct2, THEN conjunct2, THEN conjunct2, THEN conjunct1, rule_format, of sid]
      IH[THEN conjunct2, THEN conjunct2, THEN conjunct2, THEN conjunct1, rule_format, of sid]
    by (simp add: ls)
  moreover have "supplier_left (snd pools') sid + parts_of_supplier (concat (map al_supplier_parts ls)) sid =
       supplier_left (snd pools) sid" for sid
    using D[OF q(1), THEN conjunct2, THEN conjunct2, THEN conjunct2, THEN conjunct2, THEN conjunct2, THEN conjunct2, rule_format, of sid]
      IH[THEN conjunct2, THEN conjunct2, THEN conjunct2, THEN conjunct2, rule_format, of sid]
    by (simp add: ls)
  ultimately show ?case using D[OF q(1)] IH by (simp add: ls)
qed

section \<open>The whole run\<close>

text \<open>Once its sources are exhausted, a demand gets nothing; and they stay exhausted.\<close>

lemma draw_suppliers_empty:
  "\<forall>sid \<in> set sids. \<forall>k \<in> set (matching_offer_keys meta keys sid). pool_left p k \<le> 0 \<Longrightarrow>
   fst (draw_suppliers meta keys sids left p) = []"
proof (induction sids arbitrary: p)
  case (Cons s sids)
  obtain ps l1 p1 where d: "draw_all pool_draw (matching_offer_keys meta keys s) left p = (ps, l1, p1)"
    by (metis prod_cases3)
  have e: "ps = []" "l1 = left"
    using pool.draw_all_empty[of "matching_offer_keys meta keys s" p left] Cons.prems d by auto
  have "\<forall>sid \<in> set sids. \<forall>k \<in> set (matching_offer_keys meta keys sid). pool_left p1 k \<le> 0"
    using Cons.prems pool.draw_all_mono[OF d] by (meson list.set_intros(2) order_trans)
  from Cons.IH[OF this] d e show ?case by (auto split: prod.splits)
qed simp

lemma serve_demand_empty:
  assumes "serve_demand idx d pools = (l, pools')"
    and "\<forall>sid \<in> stock_sources idx d. pool_left (fst pools) sid \<le> 0"
    and "\<forall>k \<in> offer_sources idx d. pool_left (snd pools) k \<le> 0"
  shows "al_covered l = 0"
proof -
  let ?keys = "demand_keys d"
  let ?cand = "stock_candidates (bi_stock_by_nom idx) ?keys"
  obtain ws left s1 where w: "draw_all pool_draw ?cand (dm_quantity d) (fst pools) = (ws, left, s1)"
    by (metis prod_cases3)
  have "ws = []"
    using pool.draw_all_empty[of ?cand "fst pools" "dm_quantity d"] assms(2) w by (auto simp: stock_sources_def)
  moreover have "fst (draw_suppliers (bi_supplier_meta idx) ?keys (stock_candidates (bi_supplier_by_nom idx) ?keys)
      left (snd pools)) = []"
    using assms(3) by (intro draw_suppliers_empty) (auto simp: offer_sources_def)
  ultimately show ?thesis using assms(1) w by (auto simp: serve_demand_def Let_def split: prod.splits)
qed

lemma sources_mono:
  assumes "set (demand_keys d) \<subseteq> set (demand_keys d')"
  shows "stock_sources idx d \<subseteq> stock_sources idx d'" "offer_sources idx d \<subseteq> offer_sources idx d'"
proof -
  show "stock_sources idx d \<subseteq> stock_sources idx d'"
    unfolding stock_sources_def by (rule candidates_mono[OF assms])
  show "offer_sources idx d \<subseteq> offer_sources idx d'"
    unfolding offer_sources_def by (rule UN_mono[OF candidates_mono[OF assms] matching_offer_keys_mono[OF assms]])
qed

lemma serve_all_exhausted:
  assumes "serve_all idx ds pools = (ls, pools')" "\<forall>d \<in> set ds. 0 \<le> dm_quantity d" "distinct (dict_keys (snd pools))"
    "j < length ls" "set (demand_keys (al_demand (ls ! j))) \<subseteq> set (demand_keys d')"
    "\<forall>sid \<in> stock_sources idx d'. pool_left (fst pools) sid \<le> 0"
    "\<forall>k \<in> offer_sources idx d'. pool_left (snd pools) k \<le> 0"
  shows "al_covered (ls ! j) = 0"
  using assms
proof (induction ds arbitrary: pools ls j)
  case (Cons d ds)
  obtain l pools1 where d: "serve_demand idx d pools = (l, pools1)" by (metis surj_pair)
  obtain rest where r: "serve_all idx ds pools1 = (rest, pools')" and ls: "ls = l # rest"
    using Cons.prems(1) d by (auto split: prod.splits)
  have q: "0 \<le> dm_quantity d" "\<forall>d \<in> set ds. 0 \<le> dm_quantity d" using Cons.prems(2) by auto
  note D = serve_demand_facts[OF d q(1) Cons.prems(3)]
  show ?case
  proof (cases j)
    case 0
    then have "set (demand_keys d) \<subseteq> set (demand_keys d')" using Cons.prems(5) D by (simp add: ls)
    from sources_mono[OF this, of idx] Cons.prems(6,7) have "al_covered l = 0"
      by (intro serve_demand_empty[OF d]) blast+
    with 0 show ?thesis by (simp add: ls)
  next
    case (Suc i)
    have "\<forall>sid \<in> stock_sources idx d'. pool_left (fst pools1) sid \<le> 0"
      "\<forall>k \<in> offer_sources idx d'. pool_left (snd pools1) k \<le> 0"
      using Cons.prems(6,7) D unfolding pools_le_def by (blast intro: order_trans)+
    with Cons.IH[OF r q(2) _ _ _ this, of i] Cons.prems(4,5) D Suc show ?thesis by (simp add: ls)
  qed
qed simp

lemma serve_all_priority:
  assumes "serve_all idx ds pools = (ls, pools')" "\<forall>d \<in> set ds. 0 \<le> dm_quantity d" "distinct (dict_keys (snd pools))"
    "i < j" "j < length ls" "0 < al_deficit (ls ! i)"
    "set (demand_keys (al_demand (ls ! j))) \<subseteq> set (demand_keys (al_demand (ls ! i)))"
  shows "al_covered (ls ! j) = 0"
  using assms
proof (induction ds arbitrary: pools ls i j)
  case (Cons d ds)
  obtain l pools1 where d: "serve_demand idx d pools = (l, pools1)" by (metis surj_pair)
  obtain rest where r: "serve_all idx ds pools1 = (rest, pools')" and ls: "ls = l # rest"
    using Cons.prems(1) d by (auto split: prod.splits)
  have q: "0 \<le> dm_quantity d" "\<forall>d \<in> set ds. 0 \<le> dm_quantity d" using Cons.prems(2) by auto
  note D = serve_demand_facts[OF d q(1) Cons.prems(3)]
  then have dist: "distinct (dict_keys (snd pools1))" by simp
  obtain j' where j: "j = Suc j'" using Cons.prems(4) by (cases j) auto
  show ?case
  proof (cases i)
    case 0
    with Cons.prems(6) D have "\<forall>sid \<in> stock_sources idx d. pool_left (fst pools1) sid \<le> 0"
      "\<forall>k \<in> offer_sources idx d. pool_left (snd pools1) k \<le> 0"
      by (auto simp: line_exhaustive_def ls)
    with serve_all_exhausted[OF r q(2) dist _ _ this, of j'] Cons.prems(5,7) D 0 show ?thesis by (simp add: ls j)
  next
    case (Suc i')
    with Cons.IH[OF r q(2) dist, of i' j'] Cons.prems(4-7) show ?thesis by (simp add: ls j)
  qed
qed simp

lemma demands_positive: "d \<in> set (demands_from_cases cases) \<Longrightarrow> 0 < dm_quantity d"
  by (auto simp: demands_from_cases_def set_map_filter demand_of_def split: if_splits)

lemma fold_keys_distinct:
  "(\<And>x d. distinct (dict_keys d) \<Longrightarrow> distinct (dict_keys (f x d))) \<Longrightarrow> distinct (dict_keys d) \<Longrightarrow>
   distinct (dict_keys (fold f xs d))"
  by (induction xs arbitrary: d) auto

lemma initial_offers_distinct: "distinct (dict_keys (initial_offers offerings))"
  unfolding initial_offers_def by (rule fold_keys_distinct) (auto intro: distinct_dict_set split: prod.split)

lemma initial_stock_fold:
  "distinct (map line_stock_id (filter (\<lambda>l. line_stock_id l \<noteq> []) lines)) \<Longrightarrow> line \<in> set lines \<Longrightarrow> line_stock_id line \<noteq> [] \<Longrightarrow>
   pool_left (fold (\<lambda>line d. if line_stock_id line = [] then d
     else dict_set (line_stock_id line) (stock_available line) d) lines d) (line_stock_id line) = stock_available line"
proof (induction lines arbitrary: d)
  case (Cons l lines)
  have keep: "pool_left (fold (\<lambda>line d. if line_stock_id line = [] then d
       else dict_set (line_stock_id line) (stock_available line) d) ls d) j = pool_left d j"
    if "j \<notin> line_stock_id ` set ls" for ls d j
    using that by (induction ls arbitrary: d) (auto simp: pool_left_def)
  show ?case
  proof (cases "line \<in> set lines")
    case True
    with Cons show ?thesis by (simp split: if_splits)
  next
    case False
    with Cons.prems have l: "l = line" by simp
    have "line_stock_id line \<notin> line_stock_id ` set lines" using Cons.prems(1,3) by (auto simp: l)
    from keep[OF this] Cons.prems(3) show ?thesis by (simp add: l pool_left_def)
  qed
qed simp

lemma initial_stock_nonneg: "0 \<le> pool_left (initial_stock lines) sid"
proof -
  have "0 \<le> pool_left d sid \<Longrightarrow> 0 \<le> pool_left (fold (\<lambda>line d. if line_stock_id line = [] then d
     else dict_set (line_stock_id line) (stock_available line) d) lines d) sid" for d
    by (induction lines arbitrary: d) (auto simp: pool_left_def stock_available_def Let_def)
  from this[of "[]"] show ?thesis by (simp add: initial_stock_def pool_left_def)
qed

lemma supplier_left_set_le:
  "supplier_left (dict_set k v pool) sid \<le> supplier_left pool sid + (if fst k = sid then max 0 v else 0)"
proof (induction pool)
  case (Cons e pool)
  then show ?case by (cases e) (auto simp: dict_set_def)
qed (simp add: dict_set_def)

lemma initial_offers_le:
  "supplier_left (initial_offers offerings) sid \<le>
   (\<Sum>(s, off)\<leftarrow>offerings. if supplier_id_of s = sid then max 0 (offering_quantity off) else 0)"
proof -
  have "supplier_left (fold (\<lambda>(supplier, offering) d.
       if supplier_id_of supplier = [] \<or> nomenclature_of offering = [] then d
       else dict_set (supplier_id_of supplier, casefold (nomenclature_of offering)) (offering_quantity offering) d)
       offerings d) sid \<le> supplier_left d sid +
     (\<Sum>(s, off)\<leftarrow>offerings. if supplier_id_of s = sid then max 0 (offering_quantity off) else 0)" for d
  proof (induction offerings arbitrary: d)
    case (Cons e offerings)
    obtain s off where e: "e = (s, off)" by fastforce
    show ?case
      using Cons.IH[of d] Cons.IH[of "dict_set (supplier_id_of s, casefold (nomenclature_of off)) (offering_quantity off) d"]
        supplier_left_set_le[of "(supplier_id_of s, casefold (nomenclature_of off))" "offering_quantity off" d sid]
      by (auto simp: e split: if_splits)
  qed simp
  from this[of "[]"] show ?thesis by (simp add: initial_offers_def)
qed

lemma allocated_facts:
  assumes "allocate_materials_by_deadline cases bank = Some r"
  obtains pools' where
    "serve_all (bank_index_of bank) (sort_key demand_sort_key (demands_from_cases cases)) (initial_pools bank) = (aa_lines r, pools')"
    "\<forall>d \<in> set (sort_key demand_sort_key (demands_from_cases cases)). 0 \<le> dm_quantity d"
    "distinct (dict_keys (snd (initial_pools bank)))"
proof -
  obtain lines pools' where
    s: "serve_all (bank_index_of bank) (sort_key demand_sort_key (demands_from_cases cases)) (initial_pools bank) = (lines, pools')"
    by (metis surj_pair)
  have "aa_lines r = lines"
    using assms s by (auto simp: allocate_materials_by_deadline_def allocated_lines_def Let_def split: Option.bind_splits)
  with s show thesis
    using that[of pools'] demands_positive initial_offers_distinct by (auto simp: initial_pools_def intro: less_imp_le)
qed

text \<open>What the bank holds after the run.\<close>

definition final_pools :: "alloc_case list \<Rightarrow> material_bank \<Rightarrow> pools" where
  "final_pools cases bank =
     snd (serve_all (bank_index_of bank) (sort_key demand_sort_key (demands_from_cases cases)) (initial_pools bank))"

section \<open>Properties\<close>

text \<open>
  C13: Nothing is allocated twice.  Over all demand lines, the parts taken from a stock line (the ids being
  distinct) total at most what is free on it, and the parts taken from a supplier total at most what
  its offerings hold.
\<close>

lemma allocation_within_bank:
  assumes "allocate_materials_by_deadline cases bank = Some r"
    and "distinct (map line_stock_id (filter (\<lambda>l. line_stock_id l \<noteq> []) (mb_stock bank)))"
  shows "(\<forall>line \<in> set (mb_stock bank). line_stock_id line \<noteq> [] \<longrightarrow>
      parts_of_stock (concat (map al_warehouse_parts (aa_lines r))) (line_stock_id line) \<le> stock_available line) \<and>
    (\<forall>sid. parts_of_supplier (concat (map al_supplier_parts (aa_lines r))) sid \<le>
      (\<Sum>(s, off)\<leftarrow>supplier_offerings bank. if supplier_id_of s = sid then max 0 (offering_quantity off) else 0))"
proof -
  obtain pools' where S: "serve_all (bank_index_of bank) (sort_key demand_sort_key (demands_from_cases cases))
      (initial_pools bank) = (aa_lines r, pools')"
    "\<forall>d \<in> set (sort_key demand_sort_key (demands_from_cases cases)). 0 \<le> dm_quantity d"
    "distinct (dict_keys (snd (initial_pools bank)))" using allocated_facts[OF assms(1)] .
  note F = serve_all_facts[OF S]
  have "parts_of_stock (concat (map al_warehouse_parts (aa_lines r))) (line_stock_id line) \<le> stock_available line"
    if "line \<in> set (mb_stock bank)" "line_stock_id line \<noteq> []" for line
  proof -
    have "pool_left (fst (initial_pools bank)) (line_stock_id line) = stock_available line"
      using initial_stock_fold[OF assms(2) that] by (simp add: initial_pools_def initial_stock_def)
    moreover have "0 \<le> pool_left (fst (initial_pools bank)) (line_stock_id line)"
      using initial_stock_nonneg by (simp add: initial_pools_def)
    ultimately show ?thesis
      using F[THEN conjunct2, THEN conjunct2, THEN conjunct2, THEN conjunct1, rule_format, of "line_stock_id line"]
      by linarith
  qed
  moreover have "parts_of_supplier (concat (map al_supplier_parts (aa_lines r))) sid \<le>
      (\<Sum>(s, off)\<leftarrow>supplier_offerings bank. if supplier_id_of s = sid then max 0 (offering_quantity off) else 0)" for sid
    using F[THEN conjunct2, THEN conjunct2, THEN conjunct2, THEN conjunct2, rule_format, of sid]
      supplier_left_nonneg[of "snd pools'" sid] initial_offers_le[of "supplier_offerings bank" sid]
    by (simp add: initial_pools_def)
  ultimately show ?thesis by blast
qed

definition demo_position :: "string \<Rightarrow> rat \<Rightarrow> instant \<Rightarrow> alloc_position" where
  "demo_position i q due = \<lparr>ap_cancelled = False, ap_line_id = Some i, ap_id = None, ap_nomenclature_id = Some ''n1'',
     ap_nomenclature_name = None, ap_quantity = q, ap_unit = None, ap_required_date = Some due\<rparr>"

definition demo_case :: "string \<Rightarrow> alloc_position list \<Rightarrow> alloc_case" where
  "demo_case i ps = \<lparr>ac_id = Some i, ac_required_date = None, ac_positions = ps\<rparr>"

lemma demo_allocation_exists:
  "\<exists>r. allocate_materials_by_deadline cases demo_bank = Some r"
proof -
  have "bank_totals demo_bank \<noteq> None" by code_simp
  then show ?thesis by (auto simp: allocate_materials_by_deadline_def Let_def)
qed

lemma allocation_within_bank_witness:
  "\<exists>r. allocate_materials_by_deadline [demo_case ''c'' [demo_position ''p'' 9 2]] demo_bank = Some r \<and>
     parts_of_stock (concat (map al_warehouse_parts (aa_lines r))) ''s1'' \<le> 6"
proof -
  obtain r where r: "allocate_materials_by_deadline [demo_case ''c'' [demo_position ''p'' 9 2]] demo_bank = Some r"
    using demo_allocation_exists by blast
  have d: "distinct (map line_stock_id (filter (\<lambda>l. line_stock_id l \<noteq> []) (mb_stock demo_bank)))" by code_simp
  have h: "hd (mb_stock demo_bank) \<in> set (mb_stock demo_bank)" by (simp add: demo_bank_def)
  have v: "line_stock_id (hd (mb_stock demo_bank)) = ''s1''" "stock_available (hd (mb_stock demo_bank)) = 6"
    by code_simp+
  from allocation_within_bank[OF r d] h v r show ?thesis by (metis list.distinct(1))
qed

text \<open>
  C33: Every demand line adds up and is served as far as the bank goes: covered and deficit add up to
  the need, the parts add up to what is covered, the suppliers are used only when no stock
  that matches the demand is left at the end of the run, and a deficit remains only when no matching stock
  and no matching offering is left.  The lines are the demands in the order of their deadlines.
\<close>

lemma allocation_lines_correct:
  assumes "allocate_materials_by_deadline cases bank = Some r"
  shows "map al_demand (aa_lines r) = sort_key demand_sort_key (demands_from_cases cases) \<and>
    (\<forall>sid. pool_left (fst (final_pools cases bank)) sid =
       pool_left (initial_stock (mb_stock bank)) sid - parts_of_stock (concat (map al_warehouse_parts (aa_lines r))) sid) \<and>
    (\<forall>l \<in> set (aa_lines r). line_balanced l \<and> line_exhaustive (bank_index_of bank) (final_pools cases bank) l)"
proof -
  obtain pools' where S: "serve_all (bank_index_of bank) (sort_key demand_sort_key (demands_from_cases cases))
      (initial_pools bank) = (aa_lines r, pools')"
    "\<forall>d \<in> set (sort_key demand_sort_key (demands_from_cases cases)). 0 \<le> dm_quantity d"
    "distinct (dict_keys (snd (initial_pools bank)))" using allocated_facts[OF assms(1)] .
  note F = serve_all_facts[OF S]
  have "final_pools cases bank = pools'" by (simp add: final_pools_def S(1))
  moreover have "pool_left (fst pools') sid =
      pool_left (initial_stock (mb_stock bank)) sid - parts_of_stock (concat (map al_warehouse_parts (aa_lines r))) sid" for sid
    using F[THEN conjunct2, THEN conjunct2, THEN conjunct2, THEN conjunct1, rule_format, of sid]
    by (simp add: initial_pools_def)
  ultimately show ?thesis using F by simp
qed

lemma allocation_lines_correct_witness:
  "\<exists>r. allocate_materials_by_deadline [demo_case ''c'' [demo_position ''p'' 9 2]] demo_bank = Some r \<and>
     map (dm_quantity \<circ> al_demand) (aa_lines r) = [9]"
proof -
  obtain r where r: "allocate_materials_by_deadline [demo_case ''c'' [demo_position ''p'' 9 2]] demo_bank = Some r"
    using demo_allocation_exists by blast
  have "map dm_quantity (sort_key demand_sort_key (demands_from_cases [demo_case ''c'' [demo_position ''p'' 9 2]])) = [9]"
    by code_simp
  with allocation_lines_correct[OF r] r show ?thesis by (metis map_map)
qed

text \<open>
  The earlier deadline goes first.  When a demand line is left short, a later line whose match keys
  (nomenclature id, name) are among those of the short one gets nothing at all.
\<close>

lemma deadline_priority:
  assumes "allocate_materials_by_deadline cases bank = Some r"
    and "i < j" "j < length (aa_lines r)" "0 < al_deficit (aa_lines r ! i)"
    and "set (demand_keys (al_demand (aa_lines r ! j))) \<subseteq> set (demand_keys (al_demand (aa_lines r ! i)))"
  shows "demand_sort_key (al_demand (aa_lines r ! i)) \<le> demand_sort_key (al_demand (aa_lines r ! j)) \<and>
    al_covered (aa_lines r ! j) = 0 \<and> al_deficit (aa_lines r ! j) = al_needed (aa_lines r ! j)"
proof -
  let ?ds = "sort_key demand_sort_key (demands_from_cases cases)"
  obtain pools' where S: "serve_all (bank_index_of bank) ?ds (initial_pools bank) = (aa_lines r, pools')"
    "\<forall>d \<in> set ?ds. 0 \<le> dm_quantity d" "distinct (dict_keys (snd (initial_pools bank)))"
    using allocated_facts[OF assms(1)] .
  have cov: "al_covered (aa_lines r ! j) = 0"
    using serve_all_priority[OF S assms(2-5)] .
  have "line_balanced (aa_lines r ! j)" using serve_all_facts[OF S] assms(3) nth_mem by blast
  then have bal: "al_covered (aa_lines r ! j) + al_deficit (aa_lines r ! j) = al_needed (aa_lines r ! j)"
    by (simp add: line_balanced_def)
  have m: "map al_demand (aa_lines r) = ?ds" using serve_all_facts[OF S] by simp
  then have "sorted (map demand_sort_key (map al_demand (aa_lines r)))" by (simp only: sorted_sort_key)
  then have "demand_sort_key (al_demand (aa_lines r ! i)) \<le> demand_sort_key (al_demand (aa_lines r ! j))"
    using assms(2,3) by (auto simp: sorted_iff_nth_mono dest: spec[of _ i])
  with cov bal show ?thesis by simp
qed

end
