(* ===== verification/Allocation_Totals.thy ===== *)
theory Allocation_Totals
  imports Allocation
begin

text \<open>
  What the reports of the allocation say about its lines: the case results partition them, and the rows
  by nomenclature add them up.
\<close>

section \<open>Updating one entry of a dictionary\<close>

text \<open>A sum over the values of a dictionary changes by what the updated entry gains.\<close>

lemma sum_values_update:
  fixes f :: "'v \<Rightarrow> 'n :: ab_group_add"
  assumes "distinct (dict_keys d)"
  shows "(\<Sum>v\<leftarrow>dict_values (dict_set k w d). f v) =
    (\<Sum>v\<leftarrow>dict_values d. f v) + f w - (case dict_get d k of None \<Rightarrow> 0 | Some v \<Rightarrow> f v)"
  using assms
proof (induction d)
  case Nil
  then show ?case by (simp add: dict_set_def)
next
  case (Cons e d)
  show ?case
  proof (cases "fst e = k")
    case True
    then show ?thesis by (cases e) (simp add: dict_set_def dict_get_def)
  next
    case False
    with Cons show ?thesis by (cases e) (simp add: dict_set_def dict_get_def algebra_simps)
  qed
qed

lemma mset_values_update:
  assumes "distinct (dict_keys d)"
  shows "mset (concat (dict_values (dict_set k (dict_get_or d k [] @ xs) d))) = mset (concat (dict_values d)) + mset xs"
  using assms
proof (induction d)
  case Nil
  then show ?case by (simp add: dict_set_def)
next
  case (Cons e d)
  show ?case
  proof (cases "fst e = k")
    case True
    then show ?thesis by (cases e) (simp add: dict_set_def dict_get_def dict_get_or_def)
  next
    case False
    with Cons show ?thesis by (cases e) (simp add: dict_set_def dict_get_def dict_get_or_def)
  qed
qed

section \<open>Lines by case\<close>

definition by_case :: "alloc_line \<Rightarrow> (string, alloc_line list) dict \<Rightarrow> (string, alloc_line list) dict" where
  "by_case l d = (let cid = dm_case_id (al_demand l) in dict_set cid (dict_get_or d cid [] @ [l]) d)"

lemma case_lines_fold: "case_lines lines = fold by_case lines []"
  by (simp add: case_lines_def by_case_def[abs_def])

lemma by_case_entry:
  "(cid, ls) \<in> set (by_case l d) \<Longrightarrow> distinct (dict_keys d) \<Longrightarrow>
   (cid, ls) \<in> set d \<or> (cid = dm_case_id (al_demand l) \<and> ls = dict_get_or d cid [] @ [l])"
proof -
  assume a: "(cid, ls) \<in> set (by_case l d)" "distinct (dict_keys d)"
  have "distinct (dict_keys (by_case l d))"
    unfolding by_case_def Let_def using a(2) by (rule distinct_dict_set)
  with a(1) have "dict_get (by_case l d) cid = Some ls" by (simp only: dict_get_iff)
  then show ?thesis by (auto simp: by_case_def Let_def split: if_splits dest: dict_get_Some_in)
qed

lemma case_lines_facts:
  "distinct (dict_keys d) \<Longrightarrow> \<forall>(cid, ls) \<in> set d. ls \<noteq> [] \<and> (\<forall>l \<in> set ls. dm_case_id (al_demand l) = cid) \<Longrightarrow>
   distinct (dict_keys (fold by_case lines d)) \<and>
   (\<forall>(cid, ls) \<in> set (fold by_case lines d). ls \<noteq> [] \<and> (\<forall>l \<in> set ls. dm_case_id (al_demand l) = cid)) \<and>
   mset (concat (dict_values (fold by_case lines d))) = mset (concat (dict_values d)) + mset lines"
proof (induction lines arbitrary: d)
  case (Cons l lines)
  have dist: "distinct (dict_keys (by_case l d))"
    unfolding by_case_def Let_def using Cons.prems(1) by (rule distinct_dict_set)
  have "ls \<noteq> [] \<and> (\<forall>x \<in> set ls. dm_case_id (al_demand x) = cid)" if "(cid, ls) \<in> set (by_case l d)" for cid ls
    using by_case_entry[OF that Cons.prems(1)]
  proof
    assume "(cid, ls) \<in> set d" with Cons.prems(2) show ?thesis by blast
  next
    assume e: "cid = dm_case_id (al_demand l) \<and> ls = dict_get_or d cid [] @ [l]"
    have "\<forall>x \<in> set (dict_get_or d cid []). dm_case_id (al_demand x) = cid"
    proof (cases "dict_get d cid")
      case (Some xs)
      then have "(cid, xs) \<in> set d" by (rule dict_get_Some_in)
      with Cons.prems(2) Some show ?thesis by (auto simp: dict_get_or_def)
    qed (simp add: dict_get_or_def)
    with e show ?thesis by auto
  qed
  then have "\<forall>(cid, ls) \<in> set (by_case l d). ls \<noteq> [] \<and> (\<forall>l \<in> set ls. dm_case_id (al_demand l) = cid)" by blast
  from Cons.IH[OF dist this] show ?case
    using mset_values_update[OF Cons.prems(1), of "dm_case_id (al_demand l)" "[l]"]
    by (simp add: by_case_def Let_def)
qed simp

lemma case_coverage_lines [simp]:
  "cc_lines (case_coverage_of cid ls) = ls" "cc_case_id (case_coverage_of cid ls) = cid"
  "cc_needed (case_coverage_of cid ls) = sum_list (map al_needed ls)"
  "cc_covered (case_coverage_of cid ls) = sum_list (map al_covered ls)"
  "cc_tone (case_coverage_of cid ls) = case_tone (map al_tone ls)"
  by (simp_all add: case_coverage_of_def)

lemma case_result_is:
  "c \<in> set (case_results cases lines) \<Longrightarrow> c = case_coverage_of (cc_case_id c) (cc_lines c)"
  by (auto simp: case_results_def Let_def empty_cases_def)

lemma case_results_lines: "map cc_lines (case_results cases lines) =
    dict_values (case_lines lines) @ map (\<lambda>_. []) (empty_cases (dict_keys (case_lines lines)) cases)"
proof -
  have k: "map (cc_case_id \<circ> (\<lambda>(cid, ls). case_coverage_of cid ls)) d = dict_keys d" for d
    by (rule map_cong) auto
  have v: "map (cc_lines \<circ> (\<lambda>(cid, ls). case_coverage_of cid ls)) d = dict_values d" for d
    by (rule map_cong) auto
  show ?thesis
    by (simp add: case_results_def Let_def k v) (simp add: empty_cases_def o_def)
qed

lemma tone_counts:
  "length (filter (\<lambda>c. cc_tone c = Ready) cs) + length (filter (\<lambda>c. cc_tone c = Attention) cs) +
   length (filter (\<lambda>c. cc_tone c = Uncovered) cs) = length cs"
proof (induction cs)
  case (Cons c cs)
  then show ?case by (cases "cc_tone c") auto
qed simp

lemma sum_over_concat: "sum_list (map (\<lambda>xs. sum_list (map f xs)) xss) = sum_list (map f (concat xss))"
  by (induction xss) auto

section \<open>Lines by nomenclature\<close>

lemma add_line_distinct: "distinct (dict_keys d) \<Longrightarrow> distinct (dict_keys (add_line l d))"
  by (auto simp: add_line_def split: option.split intro: distinct_dict_set)

text \<open>Every figure of the buckets that grows with its lines adds up to the total over the lines.\<close>

lemma buckets_sum:
  fixes f :: "nom_bucket \<Rightarrow> rat"
  assumes "\<And>l. f (new_bucket l) = g l" "\<And>b l. f (grow_bucket b l) = f b + g l" "distinct (dict_keys d)"
  shows "(\<Sum>b\<leftarrow>dict_values (fold add_line lines d). f b) = (\<Sum>b\<leftarrow>dict_values d. f b) + (\<Sum>l\<leftarrow>lines. g l)"
  using assms(3)
proof (induction lines arbitrary: d)
  case (Cons l lines)
  have "(\<Sum>b\<leftarrow>dict_values (add_line l d). f b) = (\<Sum>b\<leftarrow>dict_values d. f b) + g l"
    using sum_values_update[OF Cons.prems, of f "line_key l"]
    by (cases "dict_get d (line_key l)") (simp_all add: add_line_def assms(1,2) del: map_map)
  with Cons.IH[OF add_line_distinct[OF Cons.prems]] show ?case by simp
qed simp

lemma row_bucket [simp]: "nr_bucket (row_of_bucket bounds bank key b) = b"
  by (simp add: row_of_bucket_def Let_def)

lemma aggregate_sum:
  "(\<Sum>r\<leftarrow>aggregate_positions lines bounds bank. f (nr_bucket r)) =
   (\<Sum>b\<leftarrow>dict_values (fold add_line lines []). f b :: rat)"
proof -
  let ?rows = "map (\<lambda>(key, b). row_of_bucket bounds bank key b) (fold add_line lines [])"
  have "mset (aggregate_positions lines bounds bank) = mset ?rows" by (simp add: aggregate_positions_def)
  then have "(\<Sum>r\<leftarrow>aggregate_positions lines bounds bank. f (nr_bucket r)) = (\<Sum>r\<leftarrow>?rows. f (nr_bucket r))"
    by (rule sum_list_mset_eq)
  also have "map (\<lambda>r. f (nr_bucket r)) ?rows = map f (dict_values (fold add_line lines []))"
    by (simp add: o_def case_prod_unfold)
  finally show ?thesis .
qed

lemma allocate_parts:
  assumes "allocate_materials_by_deadline cases bank = Some r"
  shows "aa_cases r = case_results cases (aa_lines r)"
    and "aa_by_nomenclature r = aggregate_positions (aa_lines r) (supplier_price_bounds bank) bank"
    and "as_need_total (aa_summary r) = sum_list (map al_needed (aa_lines r))"
    and "as_covered_total (aa_summary r) = sum_list (map al_covered (aa_lines r))"
    and "as_total_orders (aa_summary r) = length (aa_cases r)"
    and "as_ready_orders (aa_summary r) = length (filter (\<lambda>c. cc_tone c = Ready) (aa_cases r))"
    and "as_attention_orders (aa_summary r) = length (filter (\<lambda>c. cc_tone c = Attention) (aa_cases r))"
    and "as_uncovered_orders (aa_summary r) = length (filter (\<lambda>c. cc_tone c = Uncovered) (aa_cases r))"
  using assms by (auto simp: allocate_materials_by_deadline_def Let_def split: Option.bind_splits)

section \<open>Properties\<close>

text \<open>
  The case results partition the demand lines: each line stands in exactly one case, the one it came
  from, whose figures and tone are those of its lines; the totals of the cases are the totals of the
  summary; and every case is counted as ready, as needing attention or as uncovered.
\<close>

lemma cases_partition_lines:
  assumes "allocate_materials_by_deadline cases bank = Some r"
  shows "mset (concat (map cc_lines (aa_cases r))) = mset (aa_lines r) \<and>
    (\<forall>c \<in> set (aa_cases r). c = case_coverage_of (cc_case_id c) (cc_lines c) \<and>
       (\<forall>l \<in> set (cc_lines c). dm_case_id (al_demand l) = cc_case_id c)) \<and>
    sum_list (map cc_needed (aa_cases r)) = as_need_total (aa_summary r) \<and>
    sum_list (map cc_covered (aa_cases r)) = as_covered_total (aa_summary r) \<and>
    as_ready_orders (aa_summary r) + as_attention_orders (aa_summary r) + as_uncovered_orders (aa_summary r) =
      as_total_orders (aa_summary r)"
proof -
  note P = allocate_parts[OF assms]
  let ?lines = "aa_lines r"
  have F: "\<forall>(cid, ls) \<in> set (case_lines ?lines). \<forall>l \<in> set ls. dm_case_id (al_demand l) = cid"
    "mset (concat (dict_values (case_lines ?lines))) = mset ?lines"
    using case_lines_facts[of "[]" ?lines] by (auto simp: case_lines_fold)
  have m: "mset (concat (map cc_lines (aa_cases r))) = mset ?lines"
    unfolding P(1) case_results_lines using F(2) by simp
  have own: "\<forall>l \<in> set (cc_lines c). dm_case_id (al_demand l) = cc_case_id c" if "c \<in> set (aa_cases r)" for c
    using that F(1) unfolding P(1) by (auto simp: case_results_def Let_def empty_cases_def)
  have cis: "c = case_coverage_of (cc_case_id c) (cc_lines c)" if "c \<in> set (aa_cases r)" for c
    using that unfolding P(1) by (rule case_result_is)
  have sums: "sum_list (map cc_needed (aa_cases r)) = sum_list (map al_needed ?lines)"
    "sum_list (map cc_covered (aa_cases r)) = sum_list (map al_covered ?lines)"
  proof -
    have "map cc_needed (aa_cases r) = map (\<lambda>xs. sum_list (map al_needed xs)) (map cc_lines (aa_cases r))"
      "map cc_covered (aa_cases r) = map (\<lambda>xs. sum_list (map al_covered xs)) (map cc_lines (aa_cases r))"
      by (auto simp: o_def dest!: cis) (metis case_coverage_lines(3,4))+
    then show "sum_list (map cc_needed (aa_cases r)) = sum_list (map al_needed ?lines)"
      "sum_list (map cc_covered (aa_cases r)) = sum_list (map al_covered ?lines)"
      by (simp_all only: sum_over_concat sum_list_mset_eq[OF m])
  qed
  have "as_ready_orders (aa_summary r) + as_attention_orders (aa_summary r) + as_uncovered_orders (aa_summary r) =
      as_total_orders (aa_summary r)"
    unfolding P(5-8) by (rule tone_counts)
  with m own cis sums show ?thesis unfolding P(3,4) by blast
qed

text \<open>
  The rows by nomenclature add up to the lines: need, covered and deficit quantities, the quantities
  from warehouses and from suppliers and the number of positions over the rows are those over the
  lines.
\<close>

lemma aggregate_conserves:
  assumes "allocate_materials_by_deadline cases bank = Some r" "rows = map nr_bucket (aa_by_nomenclature r)"
  shows "sum_list (map nb_needed rows) = sum_list (map al_needed (aa_lines r)) \<and>
    sum_list (map nb_covered rows) = sum_list (map al_covered (aa_lines r)) \<and>
    sum_list (map nb_deficit rows) = sum_list (map al_deficit (aa_lines r)) \<and>
    sum_list (map nb_from_warehouse rows) = sum_list (map al_from_warehouse (aa_lines r)) \<and>
    sum_list (map nb_from_supplier rows) = sum_list (map al_from_supplier (aa_lines r)) \<and>
    (\<Sum>b\<leftarrow>rows. rat_of_nat (nb_positions_count b)) = rat_of_nat (length (aa_lines r))"
proof -
  let ?lines = "aa_lines r"
  have S: "sum_list (map f rows) = sum_list (map g ?lines)"
    if "\<And>l. f (new_bucket l) = g l" "\<And>b l. f (grow_bucket b l) = f b + g l" for f and g :: "alloc_line \<Rightarrow> rat"
    using aggregate_sum[of f ?lines "supplier_price_bounds bank" bank] buckets_sum[OF that, of "[]" ?lines]
    by (simp add: assms(2) allocate_parts(2)[OF assms(1)] o_def)
  have "(\<Sum>b\<leftarrow>rows. rat_of_nat (nb_positions_count b)) = sum_list (map (\<lambda>_. 1) ?lines)"
    by (rule S) (simp_all add: new_bucket_def grow_bucket_def)
  moreover have "sum_list (map (\<lambda>_. 1) ?lines) = rat_of_nat (length ?lines)" by (simp add: sum_list_triv)
  ultimately show ?thesis by (intro conjI S) (simp_all add: new_bucket_def grow_bucket_def)
qed

end
