(* ===== verification/Quality_Rules.thy ===== *)
theory Quality_Rules
  imports Json Decimals
begin

text \<open>
  The rule registry and the norms of incoming quality control
  (\<open>quality_control_agent/rules_registry.py\<close>, \<open>quality_control_agent/sla.py\<close>): the category of a
  material, the documents a category requires, the sample to inspect, the disposition a share of
  scrap leads to, and the deadlines.

  Rule identifiers are the constructors of \<open>quality_rule\<close>; labels, notes and messages are display
  text and are left out.  Quantities are exact, so the sample size is Python's \<open>round\<close> (half to
  even) of the exact tenth or hundredth of the lot.  Wall clocks are microseconds of Moscow time.
\<close>

section \<open>Categories\<close>

datatype tmc_category =
  Electronics | Metal | Fasteners | Cable | Pipes | Flanges | Gaskets | DrawingParts | OtherCategory

fun category_name :: "tmc_category \<Rightarrow> string" where
  "category_name Electronics = ''electronics''"
| "category_name Metal = ''metal''"
| "category_name Fasteners = ''fasteners''"
| "category_name Cable = ''cable''"
| "category_name Pipes = ''pipes''"
| "category_name Flanges = ''flanges''"
| "category_name Gaskets = ''gaskets''"
| "category_name DrawingParts = ''drawing_parts''"
| "category_name OtherCategory = ''other''"

datatype doc_type =
  OriginConfirmation | Certificate | Applicability | CertificateOrPassport | Passport | Marking | KdMatch

fun doc_name :: "doc_type \<Rightarrow> string" where
  "doc_name OriginConfirmation = ''origin_confirmation''"
| "doc_name Certificate = ''certificate''"
| "doc_name Applicability = ''applicability''"
| "doc_name CertificateOrPassport = ''certificate_or_passport''"
| "doc_name Passport = ''passport''"
| "doc_name Marking = ''marking''"
| "doc_name KdMatch = ''kd_match''"

definition CATEGORY_DOCUMENTS :: "(tmc_category, doc_type list) dict" where
  "CATEGORY_DOCUMENTS =
    [(Electronics, [OriginConfirmation, Certificate, Applicability]),
     (Metal, [CertificateOrPassport]),
     (Fasteners, [CertificateOrPassport]),
     (Cable, [Passport, Marking]),
     (Pipes, [CertificateOrPassport]),
     (Flanges, [CertificateOrPassport]),
     (Gaskets, [CertificateOrPassport]),
     (DrawingParts, [CertificateOrPassport, KdMatch]),
     (OtherCategory, [CertificateOrPassport])]"

definition CATEGORY_DEADLINES_WD :: "(tmc_category, int) dict" where
  "CATEGORY_DEADLINES_WD =
    [(Metal, 2), (Pipes, 1), (Flanges, 1), (Fasteners, 2), (Gaskets, 2), (DrawingParts, 2),
     (Cable, 2), (Electronics, 3), (OtherCategory, 3)]"

definition SCRAP_THRESHOLD_PCT :: rat where
  "SCRAP_THRESHOLD_PCT = 15"

text \<open>The Russian markers of the aliases, in UTF-8.\<close>

definition ru_electronics :: string where
  "ru_electronics =
    [CHR 0xD1, CHR 0x8D, CHR 0xD0, CHR 0xBB, CHR 0xD0, CHR 0xB5, CHR 0xD0, CHR 0xBA, CHR 0xD1, CHR
     0x82, CHR 0xD1, CHR 0x80, CHR 0xD0, CHR 0xBE, CHR 0xD0, CHR 0xBD, CHR 0xD0, CHR 0xB8, CHR 0xD0,
     CHR 0xBA, CHR 0xD0, CHR 0xB0]"

definition ru_radio :: string where
  "ru_radio =
    [CHR 0xD1, CHR 0x80, CHR 0xD0, CHR 0xB0, CHR 0xD0, CHR 0xB4, CHR 0xD0, CHR 0xB8, CHR 0xD0, CHR
     0xBE]"

definition ru_metal :: string where
  "ru_metal =
    [CHR 0xD0, CHR 0xBC, CHR 0xD0, CHR 0xB5, CHR 0xD1, CHR 0x82, CHR 0xD0, CHR 0xB0, CHR 0xD0, CHR
     0xBB, CHR 0xD0, CHR 0xBB]"

definition ru_fasteners :: string where
  "ru_fasteners =
    [CHR 0xD0, CHR 0xBA, CHR 0xD1, CHR 0x80, CHR 0xD0, CHR 0xB5, CHR 0xD0, CHR 0xBF, CHR 0xD0, CHR
     0xB5, CHR 0xD0, CHR 0xB6]"

definition ru_cable :: string where
  "ru_cable =
    [CHR 0xD0, CHR 0xBA, CHR 0xD0, CHR 0xB0, CHR 0xD0, CHR 0xB1, CHR 0xD0, CHR 0xB5, CHR 0xD0, CHR
     0xBB, CHR 0xD1, CHR 0x8C]"

definition ru_pipes :: string where
  "ru_pipes =
    [CHR 0xD1, CHR 0x82, CHR 0xD1, CHR 0x80, CHR 0xD1, CHR 0x83, CHR 0xD0, CHR 0xB1, CHR 0xD1, CHR
     0x8B]"

definition ru_flanges :: string where
  "ru_flanges =
    [CHR 0xD1, CHR 0x84, CHR 0xD0, CHR 0xBB, CHR 0xD0, CHR 0xB0, CHR 0xD0, CHR 0xBD, CHR 0xD1, CHR
     0x86, CHR 0xD1, CHR 0x8B]"

definition ru_gaskets :: string where
  "ru_gaskets =
    [CHR 0xD0, CHR 0xBF, CHR 0xD1, CHR 0x80, CHR 0xD0, CHR 0xBE, CHR 0xD0, CHR 0xBA, CHR 0xD0, CHR
     0xBB, CHR 0xD0, CHR 0xB0, CHR 0xD0, CHR 0xB4, CHR 0xD0, CHR 0xBA, CHR 0xD0, CHR 0xB8]"

definition ru_drawing :: string where
  "ru_drawing =
    [CHR 0xD1, CHR 0x87, CHR 0xD0, CHR 0xB5, CHR 0xD1, CHR 0x80, CHR 0xD1, CHR 0x82, CHR 0xD0, CHR
     0xB5, CHR 0xD0, CHR 0xB6, CHR 0xD0, CHR 0xBD, CHR 0xD1, CHR 0x8B, CHR 0xD0, CHR 0xB5]"

definition category_aliases :: "(string, tmc_category) dict" where
  "category_aliases =
    [(ru_electronics, Electronics),
     (ru_radio, Electronics),
     (''electronics'', Electronics),
     (ru_metal, Metal),
     (''metal'', Metal),
     (ru_fasteners, Fasteners),
     (''fasteners'', Fasteners),
     (ru_cable, Cable),
     (''cable'', Cable),
     (ru_pipes, Pipes),
     (''pipes'', Pipes),
     (ru_flanges, Flanges),
     (''flanges'', Flanges),
     (ru_gaskets, Gaskets),
     (''gaskets'', Gaskets),
     (ru_drawing, DrawingParts),
     (''drawing_parts'', DrawingParts)]"

text \<open>\<open>len\<close> counts characters: the bytes that do not continue one.\<close>

definition py_len :: "string \<Rightarrow> nat" where
  "py_len s = length (filter (\<lambda>c. (of_char c :: nat) < 0x80 \<or> 0xC0 \<le> (of_char c :: nat)) s)"

text \<open>The small letter \<open>yo\<close> is written as \<open>ie\<close>.\<close>

fun replace_yo :: "string \<Rightarrow> string" where
  "replace_yo (c # d # cs) =
     (if c = CHR 0xD1 \<and> d = CHR 0x91 then CHR 0xD0 # CHR 0xB5 # replace_yo cs
      else c # replace_yo (d # cs))"
| "replace_yo cs = cs"

definition markers_by_length :: "(string \<times> tmc_category) list" where
  "markers_by_length = sort_key (\<lambda>(m, _). - int (py_len m)) category_aliases"

definition normalize_category :: "string option \<Rightarrow> tmc_category" where
  "normalize_category raw =
     (if \<not> truthy raw then OtherCategory
      else let key = replace_yo (casefold (py_strip (opt_str raw))) in
        (case dict_get category_aliases key of
           Some category \<Rightarrow> category
         | None \<Rightarrow>
             (case find (\<lambda>category. category_name category = key) (dict_keys CATEGORY_DOCUMENTS) of
                Some category \<Rightarrow> category
              | None \<Rightarrow>
                  (case find (\<lambda>(marker, _). is_substring marker key) markers_by_length of
                     Some (_, category) \<Rightarrow> category
                   | None \<Rightarrow> OtherCategory))))"

section \<open>Documents\<close>

text \<open>The rule identifiers of the registry and of the role agents.\<close>

datatype quality_rule =
    RuleDoc tmc_category doc_type
  | RuleSample tmc_category
  | ScrapNoAnalog | ScrapUnknown | ScrapGe15 | ScrapLt15 | ScrapZero
  | AssignEngineer
  | InspectionResults | InspectionInstruments | InspectionEvidence
  | DispositionAllowlist | DispositionConditions

datatype finding_severity = SeverityInfo | SeverityWarning | SeverityCritical

record quality_finding =
  qf_field :: string
  qf_rule :: quality_rule
  qf_source_ref :: string
  qf_severity :: finding_severity
  qf_current_value :: json

record document_requirement =
  dr_doc_type :: doc_type
  dr_mandatory :: bool
  dr_present :: bool

definition document_present :: "string list \<Rightarrow> doc_type \<Rightarrow> bool" where
  "document_present present t =
     (let name = casefold (doc_name t) in
      name \<in> set present \<or> (\<exists>p \<in> set present. is_substring name p \<or> is_substring p name))"

definition build_mandatory_documents :: "string option \<Rightarrow> string list \<Rightarrow> document_requirement list" where
  "build_mandatory_documents category present_docs =
     (let present = map (\<lambda>d. casefold (py_strip d)) present_docs;
          specs = dict_get_or CATEGORY_DOCUMENTS (normalize_category category)
                    (dict_get_or CATEGORY_DOCUMENTS OtherCategory [])
      in map (\<lambda>t. \<lparr>dr_doc_type = t, dr_mandatory = True, dr_present = document_present present t\<rparr>) specs)"

definition evaluate_document_completeness ::
  "string option \<Rightarrow> string list \<Rightarrow> string \<Rightarrow> quality_finding list" where
  "evaluate_document_completeness category present_docs record_id =
     map (\<lambda>doc. \<lparr>qf_field = doc_name (dr_doc_type doc),
                 qf_rule = RuleDoc (normalize_category category) (dr_doc_type doc),
                 qf_source_ref = ''presentation:'' @ record_id,
                 qf_severity = SeverityCritical, qf_current_value = JNull\<rparr>)
       (filter (\<lambda>doc. \<not> dr_present doc) (build_mandatory_documents category present_docs))"

section \<open>Samples\<close>

text \<open>\<open>float(value)\<close>, \<open>None\<close> when it raises; a text holds a plain decimal literal.\<close>

fun jfloat :: "json \<Rightarrow> rat option" where
  "jfloat (JBool b) = Some (if b then 1 else 0)"
| "jfloat (JInt n) = Some (of_int n)"
| "jfloat (JDec x) = Some x"
| "jfloat (JStr s) = read_decimal s"
| "jfloat _ = None"

text \<open>\<open>_as_float\<close>: \<open>None\<close> and the empty text are no number.\<close>

definition as_float :: "json \<Rightarrow> rat option" where
  "as_float v = (if v = JNull \<or> v = JStr [] then None else jfloat v)"

definition ru_maximal :: string where
  "ru_maximal =
    [CHR 0xD0, CHR 0xBC, CHR 0xD0, CHR 0xB0, CHR 0xD0, CHR 0xBA, CHR 0xD1, CHR 0x81, CHR 0xD0, CHR
     0xB8, CHR 0xD0, CHR 0xBC, CHR 0xD0, CHR 0xB0, CHR 0xD0, CHR 0xBB, CHR 0xD1, CHR 0x8C, CHR 0xD0,
     CHR 0xBD, CHR 0xD1, CHR 0x8B, CHR 0xD0, CHR 0xB9]"

definition is_max_supplier_rating :: "json \<Rightarrow> bool" where
  "is_max_supplier_rating rating =
     (if rating = JNull \<or> rating = JStr [] then False
      else (case jfloat rating of
              Some x \<Rightarrow> 40 \<le> x
            | None \<Rightarrow> casefold (jstr rating) \<in> {''max'', ru_maximal, ''maximum'', ''40''}))"

datatype sample_basis = TenPct | OnePctRating | PerPackage | SecondSample | CategoryDefault

text \<open>
  Validation errors of the output models: a reference that is not text, a rating that is neither text
  nor a number, and the \<open>TypeError\<close> of iterating over a scalar.
\<close>

datatype quality_error = ValidationError | NotIterable

definition pyd_text :: "json \<Rightarrow> quality_error + string option" where
  "pyd_text v = (case v of JNull \<Rightarrow> Inr None | JStr s \<Rightarrow> Inr (Some s) | _ \<Rightarrow> Inl ValidationError)"

definition pyd_rating :: "json \<Rightarrow> quality_error + json" where
  "pyd_rating v = (case v of JArr _ \<Rightarrow> Inl ValidationError | JObj _ \<Rightarrow> Inl ValidationError | _ \<Rightarrow> Inr v)"

record sample_rule =
  sr_category :: tmc_category
  sr_sample_size :: "int option"
  sr_scrap_threshold :: rat
  sr_lot_qty :: "rat option"
  sr_presentation_ref :: "string option"
  sr_nomenclature_ref :: "string option"
  sr_supplier_ref :: "string option"
  sr_supplier_rating :: json
  sr_sample_pct :: "rat option"
  sr_sample_basis :: sample_basis
  sr_require_second :: bool
  sr_second_size :: "int option"

definition sample_figures ::
  "tmc_category \<Rightarrow> rat option \<Rightarrow> json \<Rightarrow> int option \<times> rat option \<times> sample_basis" where
  "sample_figures cat qty rating =
     (if cat = Fasteners then (None, None, PerPackage)
      else (case qty of
              None \<Rightarrow> (None, None, CategoryDefault)
            | Some q \<Rightarrow>
                if 0 < q then
                  (if is_max_supplier_rating rating
                   then (Some (max 1 (half_even (q * (1 / 100)))), Some 1, OnePctRating)
                   else (Some (max 1 (half_even (q * (1 / 10)))), Some 10, TenPct))
                else (None, None, CategoryDefault)))"

definition build_sample_rule ::
  "string option \<Rightarrow> json \<Rightarrow> json \<Rightarrow> json \<Rightarrow> json \<Rightarrow> json \<Rightarrow> bool \<Rightarrow> quality_error + sample_rule" where
  "build_sample_rule category lot_qty presentation_ref nomenclature_ref supplier_ref rating require_second =
     (let cat = normalize_category category;
          qty = (if lot_qty = JNull then None else jfloat lot_qty)
      in (case sample_figures cat qty rating of (pieces, pct, basis) \<Rightarrow>
        (case (pyd_text presentation_ref, pyd_text nomenclature_ref, pyd_text supplier_ref, pyd_rating rating) of
           (Inr p, Inr n, Inr s, Inr r) \<Rightarrow>
             Inr \<lparr>sr_category = cat, sr_sample_size = pieces, sr_scrap_threshold = SCRAP_THRESHOLD_PCT,
                  sr_lot_qty = qty, sr_presentation_ref = p, sr_nomenclature_ref = n,
                  sr_supplier_ref = s, sr_supplier_rating = r, sr_sample_pct = pct,
                  sr_sample_basis = (if require_second then SecondSample else basis),
                  sr_require_second = require_second,
                  sr_second_size = (if require_second then pieces else None)\<rparr>
         | _ \<Rightarrow> Inl ValidationError)))"

section \<open>Scrap\<close>

datatype disposition =
  PostAndUse | Forbid | SortLot | ReturnLot | ReworkLot | OtherDisposition | Commission

record scrap_decision =
  sd_disposition :: "disposition option"
  sd_rule :: quality_rule
  sd_second_sample :: bool
  sd_require_zdk :: bool

definition evaluate_scrap_decision :: "rat option \<Rightarrow> json \<Rightarrow> scrap_decision" where
  "evaluate_scrap_decision scrap_pct analog =
     (if analog = JBool False then
        \<lparr>sd_disposition = Some Forbid, sd_rule = ScrapNoAnalog, sd_second_sample = False, sd_require_zdk = True\<rparr>
      else (case scrap_pct of
        None \<Rightarrow>
          \<lparr>sd_disposition = None, sd_rule = ScrapUnknown, sd_second_sample = False, sd_require_zdk = False\<rparr>
      | Some pct \<Rightarrow>
          if SCRAP_THRESHOLD_PCT \<le> pct then
            \<lparr>sd_disposition = Some Forbid, sd_rule = ScrapGe15, sd_second_sample = False, sd_require_zdk = True\<rparr>
          else if 0 < pct then
            \<lparr>sd_disposition = Some Commission, sd_rule = ScrapLt15, sd_second_sample = True, sd_require_zdk = True\<rparr>
          else
            \<lparr>sd_disposition = Some PostAndUse, sd_rule = ScrapZero, sd_second_sample = False,
             sd_require_zdk = False\<rparr>))"

section \<open>Deadlines\<close>

definition control_deadline_wd :: "string option \<Rightarrow> int" where
  "control_deadline_wd category = dict_get_or CATEGORY_DEADLINES_WD (normalize_category category) 3"

definition hours_elapsed :: "int option \<Rightarrow> int \<Rightarrow> rat option" where
  "hours_elapsed started_at current =
     (case started_at of None \<Rightarrow> None | Some s \<Rightarrow> Some (max 0 (of_int (current - s) / 3600000000)))"

definition within_sla :: "rat option \<Rightarrow> rat \<Rightarrow> bool option" where
  "within_sla elapsed limit = (case elapsed of None \<Rightarrow> None | Some h \<Rightarrow> Some (h \<le> limit))"

definition SLA_PRESENT_TO_OTK_H :: rat where "SLA_PRESENT_TO_OTK_H = 1"
definition SLA_ASSIGN_ENGINEER_WH :: rat where "SLA_ASSIGN_ENGINEER_WH = 2"

definition DAY_US :: int where "DAY_US = 86400000000"
definition ZDK_HANDOFF_DEADLINE :: int where "ZDK_HANDOFF_DEADLINE = 57600000000"

text \<open>16:00 of the local day, or of the next day when that has passed.\<close>

definition zdk_handoff_due_today :: "int \<Rightarrow> int" where
  "zdk_handoff_due_today now =
     (let due = now div DAY_US * DAY_US + ZDK_HANDOFF_DEADLINE
      in if due < now then due + DAY_US else due)"

record deadlines =
  dl_control_wd :: int
  dl_zdk_handoff_by :: int
  dl_present_elapsed :: "rat option"
  dl_present_within :: "bool option"
  dl_assign_elapsed :: "rat option"
  dl_assign_within :: "bool option"

definition build_deadlines :: "string option \<Rightarrow> int option \<Rightarrow> int option \<Rightarrow> int \<Rightarrow> deadlines" where
  "build_deadlines category assigned_at presented_at current =
     \<lparr>dl_control_wd = control_deadline_wd category,
      dl_zdk_handoff_by = zdk_handoff_due_today current,
      dl_present_elapsed = hours_elapsed presented_at current,
      dl_present_within = within_sla (hours_elapsed presented_at current) SLA_PRESENT_TO_OTK_H,
      dl_assign_elapsed = hours_elapsed assigned_at current,
      dl_assign_within = within_sla (hours_elapsed assigned_at current) SLA_ASSIGN_ENGINEER_WH\<rparr>"

section \<open>Facts\<close>

definition all_categories :: "tmc_category list" where
  "all_categories = [Electronics, Metal, Fasteners, Cable, Pipes, Flanges, Gaskets, DrawingParts, OtherCategory]"

lemma in_all_categories: "c \<in> set all_categories"
  by (cases c) (simp_all add: all_categories_def)

lemma category_names_normalize:
  "list_all (\<lambda>c. normalize_category (Some (category_name c)) = c) all_categories"
  by code_simp

lemma normalize_category_name [simp]: "normalize_category (Some (category_name c)) = c"
  using category_names_normalize in_all_categories[of c] by (simp add: list_all_iff)

lemma normalize_examples:
  "normalize_category None = OtherCategory" "normalize_category (Some '' METAL '') = Metal"
  by code_simp+

text \<open>The documents of a category; every category requires at least one.\<close>

definition required_documents :: "tmc_category \<Rightarrow> doc_type list" where
  "required_documents c = dict_get_or CATEGORY_DOCUMENTS c []"

lemma required_nonempty: "required_documents c \<noteq> []"
  by (cases c) (simp_all add: required_documents_def CATEGORY_DOCUMENTS_def dict_get_or_def dict_get_def)

lemma build_documents_types:
  "map dr_doc_type (build_mandatory_documents category present) = required_documents (normalize_category category)"
proof -
  have "\<And>c. dict_get_or CATEGORY_DOCUMENTS c e = required_documents c" for e
    by (case_tac c) (simp_all add: required_documents_def CATEGORY_DOCUMENTS_def dict_get_or_def dict_get_def)
  then show ?thesis by (simp add: build_mandatory_documents_def Let_def comp_def)
qed

lemma sample_figures_bounds:
  assumes "sample_figures cat qty rating = (Some n, pct, basis)"
  shows "cat \<noteq> Fasteners" "1 \<le> n"
    "\<exists>q. qty = Some q \<and> 0 < q \<and> (\<exists>p. pct = Some p \<and> p \<in> {1, 10} \<and> (n = 1 \<or> \<bar>of_int n - q * (p / 100)\<bar> \<le> 1 / 2))"
proof -
  have B: "max 1 (half_even x) = 1 \<or> \<bar>of_int (max 1 (half_even x)) - x\<bar> \<le> 1 / 2" for x
    using half_even_half[of x] by (cases "1 \<le> half_even x") (auto simp: max_def)
  from assms show "cat \<noteq> Fasteners" "1 \<le> n"
    by (auto simp: sample_figures_def split: if_splits option.splits)
  from assms show "\<exists>q. qty = Some q \<and> 0 < q \<and>
      (\<exists>p. pct = Some p \<and> p \<in> {1, 10} \<and> (n = 1 \<or> \<bar>of_int n - q * (p / 100)\<bar> \<le> 1 / 2))"
    using B[of "_ * (1 / 100)"] B[of "_ * (1 / 10)"]
    by (auto simp: sample_figures_def split: if_splits option.splits)
qed

text \<open>The handoff deadline is the first 16:00 at or after the current instant.\<close>

lemma zdk_handoff_first:
  "now \<le> zdk_handoff_due_today now \<and> zdk_handoff_due_today now < now + DAY_US \<and>
   zdk_handoff_due_today now mod DAY_US = ZDK_HANDOFF_DEADLINE"
proof -
  have n: "now = now div DAY_US * DAY_US + now mod DAY_US" "0 \<le> now mod DAY_US" "now mod DAY_US < DAY_US"
    by (simp_all add: DAY_US_def)
  have m: "(k * DAY_US + ZDK_HANDOFF_DEADLINE) mod DAY_US = ZDK_HANDOFF_DEADLINE" for k
    by (simp add: DAY_US_def ZDK_HANDOFF_DEADLINE_def)
  have m': "(k * DAY_US + ZDK_HANDOFF_DEADLINE + DAY_US) mod DAY_US = ZDK_HANDOFF_DEADLINE" for k
    using m[of "k + 1"] by (simp add: algebra_simps)
  from n m m' show ?thesis
    by (auto simp: zdk_handoff_due_today_def Let_def ZDK_HANDOFF_DEADLINE_def DAY_US_def)
qed

text \<open>Only an empty set of findings lets the documentary check pass; one blank entry is enough for that.\<close>

lemma findings_empty_iff:
  "evaluate_document_completeness category present_docs record_id = [] \<longleftrightarrow>
   (\<forall>t \<in> set (required_documents (normalize_category category)).
      document_present (map (\<lambda>d. casefold (py_strip d)) present_docs) t)"
proof -
  have "set (build_mandatory_documents category present_docs) =
    (\<lambda>t. \<lparr>dr_doc_type = t, dr_mandatory = True,
       dr_present = document_present (map (\<lambda>d. casefold (py_strip d)) present_docs) t\<rparr>)
      ` set (required_documents (normalize_category category))"
    by (cases "normalize_category category")
       (simp_all add: build_mandatory_documents_def required_documents_def CATEGORY_DOCUMENTS_def
          dict_get_or_def dict_get_def Let_def)
  then show ?thesis by (auto simp: evaluate_document_completeness_def filter_empty_conv)
qed

lemma blank_document_satisfies_all:
  assumes "d \<in> set present_docs" "py_strip d = []"
  shows "evaluate_document_completeness category present_docs record_id = []"
proof -
  have "[] \<in> set (map (\<lambda>d. casefold (py_strip d)) present_docs)" using assms by force
  then have "document_present (map (\<lambda>d. casefold (py_strip d)) present_docs) t" for t
    unfolding document_present_def Let_def by (metis is_substring_iff append_Nil)
  then show ?thesis by (simp add: findings_empty_iff)
qed

lemma finding_fields:
  "map qf_field (evaluate_document_completeness category present record_id) =
   map doc_name (map dr_doc_type (filter (\<lambda>doc. \<not> dr_present doc) (build_mandatory_documents category present)))"
  by (simp add: evaluate_document_completeness_def)

lemma missing_all_documents:
  "map qf_field (evaluate_document_completeness category [] record_id) =
   map doc_name (required_documents (normalize_category category))"
proof -
  have "filter (\<lambda>doc. \<not> dr_present doc) (build_mandatory_documents category []) = build_mandatory_documents category []"
    by (auto simp: filter_id_conv build_mandatory_documents_def document_present_def Let_def)
  then show ?thesis by (simp only: finding_fields build_documents_types)
qed

section \<open>Properties\<close>

text \<open>
  the documentary check passes exactly when every document the category requires is among the
  documents present (up to the substring match of the code); with no documents it reports every
  required one, at least one for any category; and one blank entry satisfies the whole check.
\<close>

lemma documents_complete:
  assumes "d \<in> set blank_docs" "py_strip d = []"
  shows "(evaluate_document_completeness category present_docs record_id = [] \<longleftrightarrow>
      (\<forall>t \<in> set (required_documents (normalize_category category)).
        document_present (map (\<lambda>d. casefold (py_strip d)) present_docs) t)) \<and>
    map qf_field (evaluate_document_completeness category [] record_id) =
      map doc_name (required_documents (normalize_category category)) \<and>
    required_documents (normalize_category category) \<noteq> [] \<and>
    evaluate_document_completeness category blank_docs record_id = []"
  using findings_empty_iff missing_all_documents required_nonempty blank_document_satisfies_all[OF assms]
  by blast

text \<open>
  A sample rule that does not fail names the normalised category; a sample size is given only
  for a lot of positive size outside the fasteners, is at least one piece, and is the rounded tenth
  of the lot (the rounded hundredth for a supplier of maximal rating) or one piece; a second sample
  is as large as the first.
\<close>

lemma sample_rule_correct:
  assumes "build_sample_rule category lot_qty presentation nomenclature supplier rating second = Inr rule"
  shows "sr_category rule = normalize_category category \<and>
    (second \<longrightarrow> sr_second_size rule = sr_sample_size rule \<and> sr_sample_basis rule = SecondSample) \<and>
    (sr_sample_size rule \<noteq> None \<longleftrightarrow>
      sr_category rule \<noteq> Fasteners \<and> (\<exists>q. sr_lot_qty rule = Some q \<and> 0 < q)) \<and>
    (\<forall>n. sr_sample_size rule = Some n \<longrightarrow> 1 \<le> n \<and>
      (\<exists>q p. sr_lot_qty rule = Some q \<and> sr_sample_pct rule = Some p \<and>
         p = (if is_max_supplier_rating rating then 1 else 10) \<and>
         (n = 1 \<or> \<bar>of_int n - q * (p / 100)\<bar> \<le> 1 / 2)))"
proof -
  let ?cat = "normalize_category category"
  let ?qty = "if lot_qty = JNull then None else jfloat lot_qty"
  obtain m pct basis where f: "sample_figures ?cat ?qty rating = (m, pct, basis)" by (metis prod_cases3)
  from assms f have r: "sr_category rule = ?cat" "sr_sample_size rule = m" "sr_lot_qty rule = ?qty"
    "sr_sample_pct rule = pct" "second \<Longrightarrow> sr_second_size rule = m \<and> sr_sample_basis rule = SecondSample"
    by (auto simp: build_sample_rule_def Let_def split: sum.splits)
  have "m \<noteq> None \<longleftrightarrow> ?cat \<noteq> Fasteners \<and> (\<exists>q. ?qty = Some q \<and> 0 < q)"
    using f by (simp add: sample_figures_def split: if_split_asm option.splits) (auto split: if_splits)
  moreover have "1 \<le> n \<and> (\<exists>q p. ?qty = Some q \<and> pct = Some p \<and>
      p = (if is_max_supplier_rating rating then 1 else 10) \<and> (n = 1 \<or> \<bar>of_int n - q * (p / 100)\<bar> \<le> 1 / 2))"
    if "m = Some n" for n
  proof -
    from f that have fn: "sample_figures ?cat ?qty rating = (Some n, pct, basis)" by simp
    moreover have "pct = Some (if is_max_supplier_rating rating then 1 else 10)"
      using fn by (auto simp: sample_figures_def split: if_splits option.splits)
    ultimately show ?thesis using sample_figures_bounds[OF fn] by auto
  qed
  ultimately show ?thesis using r by simp
qed

end
