(* ===== verification/Quality_Pipeline.thy ===== *)
theory Quality_Pipeline
  imports Quality_Rules
begin

text \<open>
  The quality-control pipeline (\<open>quality_control_agent/graph.py\<close>): the context is read from the
  case document and the role context, the document and sample rules run, and the stage is routed to
  the next role.  The graph is a fixed sequence of nodes with one conditional edge
  (\<open>_after_validate\<close>), so \<open>run_quality_pipeline\<close> is their composition over an explicit state.

  \<open>Inl\<close> is an exception a node raises; a request without identifiers is not an exception but a
  state with \<open>ps_error\<close>.
\<close>

definition ru_quantity :: string where
  "ru_quantity =
    [CHR 0xD0, CHR 0x9A, CHR 0xD0, CHR 0xBE, CHR 0xD0, CHR 0xBB, CHR 0xD0, CHR 0xB8, CHR 0xD1, CHR
     0x87, CHR 0xD0, CHR 0xB5, CHR 0xD1, CHR 0x81, CHR 0xD1, CHR 0x82, CHR 0xD0, CHR 0xB2, CHR 0xD0,
     CHR 0xBE]"

definition ru_nomenclature :: string where
  "ru_nomenclature =
    [CHR 0xD0, CHR 0x9D, CHR 0xD0, CHR 0xBE, CHR 0xD0, CHR 0xBC, CHR 0xD0, CHR 0xB5, CHR 0xD0, CHR
     0xBD, CHR 0xD0, CHR 0xBA, CHR 0xD0, CHR 0xBB, CHR 0xD0, CHR 0xB0, CHR 0xD1, CHR 0x82, CHR 0xD1,
     CHR 0x83, CHR 0xD1, CHR 0x80, CHR 0xD0, CHR 0xB0]"

section \<open>Context\<close>

text \<open>\<open>a or b or c\<close>; the object under a key, if it is one.\<close>

fun jor_all :: "json list \<Rightarrow> json" where
  "jor_all [] = JNull"
| "jor_all [v] = v"
| "jor_all (v # vs) = jor v (jor_all vs)"

definition jobject :: "json \<Rightarrow> jdict" where
  "jobject v = (case v of JObj d \<Rightarrow> d | _ \<Rightarrow> [])"

fun first_number :: "json list \<Rightarrow> rat option" where
  "first_number [] = None"
| "first_number (v # vs) = (case as_float v of None \<Rightarrow> first_number vs | Some x \<Rightarrow> Some x)"

text \<open>\<open>[str(d) for d in present_docs]\<close> after a single text was wrapped in a list.\<close>

definition document_texts :: "json \<Rightarrow> quality_error + string list" where
  "document_texts v =
     (case v of
        JArr xs \<Rightarrow> Inr (map jstr xs)
      | JStr s \<Rightarrow> Inr [s]
      | JObj d \<Rightarrow> Inr (dict_keys d)
      | _ \<Rightarrow> Inl NotIterable)"

record pipeline_input =
  pi_case_id :: string
  pi_correlation_id :: string
  pi_source_data :: jdict
  pi_role_context :: jdict
  pi_quality_stage :: string

record quality_context =
  qx_category :: tmc_category
  qx_present_docs :: "string list"
  qx_lot_qty :: "rat option"
  qx_scrap_pct :: "rat option"
  qx_analog :: json
  qx_presentation_ref :: json
  qx_nomenclature_ref :: json
  qx_supplier_ref :: json
  qx_supplier_rating :: json
  qx_inspector_id :: json
  qx_quality_stage :: string

definition extract_context :: "pipeline_input \<Rightarrow> quality_error + quality_context" where
  "extract_context st =
     (let source = pi_source_data st; role = pi_role_context st;
          nested = jobject (jget source ''quality'');
          fields = jobject (jget source ''fields'');
          category = jor_all [jget nested ''item_group'', jget nested ''category'',
            jget fields ''item_group'', jget role ''item_group'', jget source ''item_group''];
          present = jor_all [jget nested ''present_docs'', jget nested ''documents'',
            jget role ''present_docs'', jget source ''present_docs'', JArr []];
          lot = first_number [jget nested ''lot_qty'', jget nested ''quantity'', jget nested ru_quantity,
            jget fields ''quantity'', jget fields ru_quantity, jget fields ''lot_qty'',
            jget role ''lot_qty'', jget role ''quantity'', jget source ''quantity'', jget source ''lot_qty'']
      in (case document_texts present of
            Inl e \<Rightarrow> Inl e
          | Inr docs \<Rightarrow> Inr
              \<lparr>qx_category = normalize_category (if jtruthy category then Some (jstr category) else None),
               qx_present_docs = docs,
               qx_lot_qty = lot,
               qx_scrap_pct = as_float (jor (jget nested ''scrap_pct'') (jget role ''scrap_pct'')),
               qx_analog = jget_default nested ''analog_in_nomenclature''
                 (jget_default role ''analog_in_nomenclature'' (JBool True)),
               qx_presentation_ref = jor_all [jget nested ''presentation_ref'', jget nested ''shipment_ref'',
                 jget role ''presentation_ref'', jget source ''presentation_ref'', JStr (pi_case_id st)],
               qx_nomenclature_ref = jor_all [jget nested ''nomenclature_ref'', jget fields ''nomenclature'',
                 jget fields ru_nomenclature, jget source ''nomenclature''],
               qx_supplier_ref = jor_all [jget nested ''supplier_ref'', jget nested ''supplier'',
                 jget source ''supplier_ref'', jget source ''supplier''],
               qx_supplier_rating = jor_all [jget nested ''supplier_quality_rating'',
                 jget role ''supplier_quality_rating'', jget source ''supplier_quality_rating''],
               qx_inspector_id = jor (jget nested ''inspector_id'') (jget role ''inspector_id''),
               qx_quality_stage = jstr (jor_all [jget role ''quality_stage'', JStr (pi_quality_stage st),
                 JStr ''queued''])\<rparr>))"

section \<open>Routing\<close>

definition route_role :: "string \<Rightarrow> string option \<times> string \<times> string list \<times> bool" where
  "route_role raw_stage =
     (let stage = py_lower (if raw_stage = [] then ''queued'' else raw_stage) in
      if stage \<in> {''queued'', ''quality_queued''} then
        (Some ''otk_head_agent'', ''quality_queued'', [''ASSIGN_ENGINEER''], True)
      else if stage \<in> {''assigned'', ''quality_assigned''} then
        (Some ''quality_engineer_agent'', ''quality_assigned'', [''DOC_CHECK''], True)
      else if stage \<in> {''doc_check'', ''quality_doc_check''} then
        (Some ''quality_engineer_agent'', ''quality_doc_check'', [''BUILD_PROGRAM''], True)
      else if stage \<in> {''inspection'', ''quality_inspection''} then
        (Some ''quality_engineer_agent'', ''quality_inspection'', [''RECORD_INSPECTION''], True)
      else if stage \<in> {''decision'', ''quality_decision''} then
        (Some ''quality_engineer_agent'', ''quality_decision'', [''IDENTIFY_RESULT''], True)
      else if stage \<in> {''nonconformity'', ''act_confirm''} then
        (Some ''otk_head_agent'', ''nonconformity'', [''CONFIRM_NC_ACT''], True)
      else if stage \<in> {''zdk'', ''disposition'', ''isolated''} then
        (Some ''quality_deputy_director_agent'', ''isolated'', [''DRAFT_DISPOSITION''], True)
      else if stage \<in> {''released'', ''quality_released''} then
        (None, ''quality_released'', [''RELEASED''], False)
      else (Some ''otk_head_agent'', ''quality_queued'', [''ASSIGN_ENGINEER''], True))"

text \<open>The handoff to the deputy director a scrap decision forces.\<close>

definition route_with_scrap ::
  "scrap_decision \<Rightarrow> string \<Rightarrow> string option \<times> string \<times> string list \<times> bool" where
  "route_with_scrap scrap stage =
     (case route_role (if stage = [] then ''queued'' else stage) of (next_role, next_status, actions, human) \<Rightarrow>
       if sd_require_zdk scrap \<and> next_status \<noteq> ''quality_released'' \<and>
          stage \<in> {''decision'', ''quality_decision'', ''nonconformity''}
       then (Some ''quality_deputy_director_agent'', ''nonconformity'', ''HANDOFF_ZDK'' # actions, True)
       else (next_role, next_status, actions, human))"

section \<open>The nodes\<close>

record quality_control_payload =
  qp_presentation_ref :: "string option"
  qp_nomenclature_ref :: "string option"
  qp_item_group :: tmc_category
  qp_supplier_ref :: "string option"
  qp_supplier_rating :: "string option"
  qp_rule_ids :: "quality_rule list"
  qp_documents :: "document_requirement list"
  qp_sample_rule :: sample_rule
  qp_sample_size :: "int option"
  qp_inspector_id :: "string option"
  qp_quality_status :: string
  qp_disposition :: "disposition option"
  qp_deadlines :: deadlines
  qp_findings :: "quality_finding list"
  qp_calculated_at :: int

record pipeline_state =
  ps_error :: bool
  ps_category :: "tmc_category option"
  ps_doc_findings :: "quality_finding list"
  ps_documents :: "document_requirement list"
  ps_sample_rule :: "sample_rule option"
  ps_scrap :: "scrap_decision option"
  ps_next_role :: "string option"
  ps_next_status :: "string option"
  ps_actions :: "string list"
  ps_requires_human :: bool
  ps_control :: "quality_control_payload option"

definition validate_request :: "pipeline_input \<Rightarrow> bool" where
  "validate_request st \<longleftrightarrow> pi_case_id st \<noteq> [] \<and> pi_correlation_id st \<noteq> []"

definition failed_state :: pipeline_state where
  "failed_state = \<lparr>ps_error = True, ps_category = None, ps_doc_findings = [], ps_documents = [],
     ps_sample_rule = None, ps_scrap = None, ps_next_role = None, ps_next_status = None,
     ps_actions = [''FAILED''], ps_requires_human = False, ps_control = None\<rparr>"

text \<open>The sample rules of a loaded context; a missing lot quantity is read again from the presentation.\<close>

definition jrat :: "rat option \<Rightarrow> json" where
  "jrat q = (case q of None \<Rightarrow> JNull | Some x \<Rightarrow> JDec x)"

definition run_sample_rules :: "quality_context \<Rightarrow> quality_error + sample_rule \<times> scrap_decision" where
  "run_sample_rules ctx =
     (let scrap = evaluate_scrap_decision (qx_scrap_pct ctx) (qx_analog ctx)
      in (case build_sample_rule (Some (category_name (qx_category ctx)))
             (jor (jrat (qx_lot_qty ctx)) (jrat (qx_lot_qty ctx)))
             (qx_presentation_ref ctx) (qx_nomenclature_ref ctx) (qx_supplier_ref ctx)
             (qx_supplier_rating ctx) (sd_second_sample scrap) of
            Inl e \<Rightarrow> Inl e | Inr rule \<Rightarrow> Inr (rule, scrap)))"

definition run_doc_rules :: "string \<Rightarrow> quality_context \<Rightarrow> quality_finding list \<times> document_requirement list" where
  "run_doc_rules case_id ctx =
     (let cat = Some (category_name (qx_category ctx)) in
      (evaluate_document_completeness cat (qx_present_docs ctx) (if case_id = [] then ''unknown'' else case_id),
       build_mandatory_documents cat (qx_present_docs ctx)))"

definition control_payload ::
  "quality_context \<Rightarrow> quality_finding list \<Rightarrow> document_requirement list \<Rightarrow> sample_rule \<Rightarrow> scrap_decision \<Rightarrow>
   string \<Rightarrow> int \<Rightarrow> quality_error + quality_control_payload" where
  "control_payload ctx findings docs rule scrap status now =
     (case (pyd_text (qx_presentation_ref ctx), pyd_text (qx_nomenclature_ref ctx),
            pyd_text (qx_supplier_ref ctx), pyd_text (qx_supplier_rating ctx), pyd_text (qx_inspector_id ctx)) of
        (Inr p, Inr n, Inr s, Inr r, Inr i) \<Rightarrow>
          Inr \<lparr>qp_presentation_ref = p, qp_nomenclature_ref = n, qp_item_group = qx_category ctx,
               qp_supplier_ref = s, qp_supplier_rating = r,
               qp_rule_ids = [RuleSample (sr_category rule), sd_rule scrap],
               qp_documents = docs, qp_sample_rule = rule, qp_sample_size = sr_sample_size rule,
               qp_inspector_id = i, qp_quality_status = status, qp_disposition = sd_disposition scrap,
               qp_deadlines = build_deadlines (Some (category_name (qx_category ctx))) None None now,
               qp_findings = findings, qp_calculated_at = now\<rparr>
      | _ \<Rightarrow> Inl ValidationError)"

definition route_by_role ::
  "pipeline_input \<Rightarrow> quality_context \<Rightarrow> int \<Rightarrow> quality_error + pipeline_state" where
  "route_by_role st ctx now =
     (case run_doc_rules (pi_case_id st) ctx of (findings, docs) \<Rightarrow>
       (case run_sample_rules ctx of
          Inl e \<Rightarrow> Inl e
        | Inr (rule, scrap) \<Rightarrow>
            (case route_with_scrap scrap (qx_quality_stage ctx) of (next_role, next_status, actions, human) \<Rightarrow>
              (case control_payload ctx findings docs rule scrap next_status now of
                 Inl e \<Rightarrow> Inl e
               | Inr payload \<Rightarrow> Inr
                   \<lparr>ps_error = False, ps_category = Some (qx_category ctx), ps_doc_findings = findings,
                    ps_documents = docs, ps_sample_rule = Some rule, ps_scrap = Some scrap,
                    ps_next_role = next_role, ps_next_status = Some next_status, ps_actions = actions,
                    ps_requires_human = human, ps_control = Some payload\<rparr>))))"

definition run_quality_pipeline ::
  "string \<Rightarrow> string \<Rightarrow> jdict \<Rightarrow> jdict \<Rightarrow> json \<Rightarrow> int \<Rightarrow> quality_error + pipeline_state" where
  "run_quality_pipeline case_id correlation_id source role payload_stage now =
     (let stage = jstr (jor_all [jget role ''quality_stage'', payload_stage, JStr ''queued'']);
          st = \<lparr>pi_case_id = case_id, pi_correlation_id = correlation_id, pi_source_data = source,
                pi_role_context = role, pi_quality_stage = stage\<rparr>
      in if \<not> validate_request st then Inr failed_state
         else (case extract_context st of Inl e \<Rightarrow> Inl e | Inr ctx \<Rightarrow> route_by_role st ctx now))"

section \<open>Facts\<close>

definition is_opt_text :: "json \<Rightarrow> bool" where
  "is_opt_text v \<longleftrightarrow> v = JNull \<or> (\<exists>s. v = JStr s)"

lemma pyd_text_raises: "(\<exists>t. pyd_text v = Inr t) \<longleftrightarrow> is_opt_text v" "pyd_text v = Inl e \<Longrightarrow> e = ValidationError"
  by (cases v; simp add: pyd_text_def is_opt_text_def)+

lemma pyd_text_rating: "is_opt_text v \<Longrightarrow> pyd_rating v = Inr v" "pyd_rating v = Inl e \<Longrightarrow> e = ValidationError"
  by (cases v; simp add: pyd_rating_def is_opt_text_def)+

lemma build_sample_rule_raises:
  "build_sample_rule category lot p n s r second = Inl e \<Longrightarrow> e = ValidationError"
  "is_opt_text p \<Longrightarrow> is_opt_text n \<Longrightarrow> is_opt_text s \<Longrightarrow> is_opt_text r \<Longrightarrow>
   \<exists>rule. build_sample_rule category lot p n s r second = Inr rule"
  "build_sample_rule category lot p n s r second = Inr rule \<Longrightarrow> is_opt_text p \<and> is_opt_text n \<and> is_opt_text s"
  using pyd_text_raises(1)[of p] pyd_text_raises(1)[of n] pyd_text_raises(1)[of s] pyd_text_rating(1)[of r]
  by (auto simp: build_sample_rule_def Let_def split: sum.splits prod.splits)

text \<open>The texts the output model requires of a loaded context.\<close>

definition context_texts :: "quality_context \<Rightarrow> json list" where
  "context_texts ctx = [qx_presentation_ref ctx, qx_nomenclature_ref ctx, qx_supplier_ref ctx,
     qx_supplier_rating ctx, qx_inspector_id ctx]"

lemma control_payload_raises:
  "(\<exists>x. control_payload ctx fs ds rule scrap status now = Inr x) \<longleftrightarrow> list_all is_opt_text (context_texts ctx)"
  "control_payload ctx fs ds rule scrap status now = Inl e \<Longrightarrow> e = ValidationError"
  using pyd_text_raises(1)[of "qx_presentation_ref ctx"] pyd_text_raises(1)[of "qx_nomenclature_ref ctx"]
    pyd_text_raises(1)[of "qx_supplier_ref ctx"] pyd_text_raises(1)[of "qx_supplier_rating ctx"]
    pyd_text_raises(1)[of "qx_inspector_id ctx"]
  by (auto simp: control_payload_def context_texts_def split: sum.splits)

lemma run_sample_rules_raises:
  shows "run_sample_rules ctx = Inl e \<Longrightarrow> e = ValidationError"
    and "list_all is_opt_text (context_texts ctx) \<Longrightarrow> \<exists>x. run_sample_rules ctx = Inr x"
proof -
  show "run_sample_rules ctx = Inl e \<Longrightarrow> e = ValidationError"
    by (auto simp: run_sample_rules_def Let_def split: sum.splits dest: build_sample_rule_raises(1))
  assume "list_all is_opt_text (context_texts ctx)"
  then have "is_opt_text (qx_presentation_ref ctx)" "is_opt_text (qx_nomenclature_ref ctx)"
    "is_opt_text (qx_supplier_ref ctx)" "is_opt_text (qx_supplier_rating ctx)" by (simp_all add: context_texts_def)
  note ok = build_sample_rule_raises(2)[OF this]
  show "\<exists>x. run_sample_rules ctx = Inr x"
    using ok[of "Some (category_name (qx_category ctx))" "jor (jrat (qx_lot_qty ctx)) (jrat (qx_lot_qty ctx))"
        "sd_second_sample (evaluate_scrap_decision (qx_scrap_pct ctx) (qx_analog ctx))"]
    by (auto simp: run_sample_rules_def Let_def)
qed

lemma route_by_role_raises:
  "route_by_role st ctx now = Inl e \<longleftrightarrow>
   e = ValidationError \<and> \<not> list_all is_opt_text (context_texts ctx)"
proof (cases "list_all is_opt_text (context_texts ctx)")
  case True
  with run_sample_rules_raises(2) obtain rule scrap where r: "run_sample_rules ctx = Inr (rule, scrap)" by fastforce
  have "\<exists>x. control_payload ctx fs ds rule scrap status now = Inr x" for fs ds status
    using control_payload_raises(1) True by blast
  then show ?thesis using True r
    by (auto simp: route_by_role_def split: prod.splits sum.splits) (metis Inl_Inr_False)
next
  case False
  then have "control_payload ctx fs ds rule scrap status now = Inl ValidationError" for fs ds rule scrap status
    using control_payload_raises by (metis sum.exhaust)
  with False run_sample_rules_raises(1) show ?thesis
    by (auto simp: route_by_role_def split: prod.splits sum.splits)
qed

lemma extract_context_raises: "extract_context st = Inl e \<Longrightarrow> e = NotIterable"
  by (auto simp: extract_context_def document_texts_def Let_def split: sum.splits json.splits)

section \<open>Properties\<close>



end
