(* ===== verification/Quality_Roles.thy ===== *)
theory Quality_Roles
  imports Quality_Pipeline
begin

text \<open>
  The three role agents of incoming control: the head of the quality department
  (\<open>otk_head_agent/service.py\<close>), the quality engineer (\<open>quality_engineer_agent/service.py\<close>) and
  the deputy director (\<open>quality_deputy_director_agent/service.py\<close>).

  Each validates its request, reads the quality data of the case, runs the pipeline and drafts one
  output.  The outputs share \<open>next_status\<close>, \<open>next_agent\<close>, the findings and the actions, which is what
  the orchestrator reads; they extend the record \<open>role_output\<close>.  An exception a service does not
  catch is \<open>Inl\<close>.
\<close>

section \<open>Requests and results\<close>

record role_request =
  rq_case_id :: string
  rq_correlation_id :: string
  rq_source_type :: string
  rq_source_1c_ref :: string
  rq_source_number :: "string option"
  rq_idempotency_key :: string
  rq_caller_agent_id :: string
  rq_source_data :: jdict
  rq_role_context :: jdict

definition length_between :: "nat \<Rightarrow> nat \<Rightarrow> string \<Rightarrow> bool" where
  "length_between lo hi s \<longleftrightarrow> lo \<le> py_len s \<and> py_len s \<le> hi"

definition source_types :: "string list" where
  "source_types = [''internal_consumption_order'', ''production_material_order'', ''transfer_order'',
     ''reorder_point'']"

definition valid_request :: "role_request \<Rightarrow> bool" where
  "valid_request rq \<longleftrightarrow>
     length_between 1 128 (rq_case_id rq) \<and> length_between 1 128 (rq_correlation_id rq) \<and>
     rq_source_type rq \<in> set source_types \<and> length_between 1 512 (rq_source_1c_ref rq) \<and>
     (case rq_source_number rq of None \<Rightarrow> True | Some n \<Rightarrow> py_len n \<le> 128) \<and>
     length_between 1 255 (rq_idempotency_key rq) \<and> py_len (rq_caller_agent_id rq) \<le> 128"

datatype role_status = WaitingHuman | WaitingExternal | RoleCompleted | RoleFailed

record role_output =
  ro_next_status :: string
  ro_next_agent :: "string option"
  ro_findings :: "quality_finding list"
  ro_actions :: "string list"
  ro_control :: "quality_control_payload option"

record 'o role_result =
  rr_agent_id :: string
  rr_status :: role_status
  rr_requires_human :: bool
  rr_case_id :: string
  rr_correlation_id :: string
  rr_output :: "'o option"

definition failed_result :: "role_request \<Rightarrow> string \<Rightarrow> 'o role_result" where
  "failed_result rq agent_id =
     \<lparr>rr_agent_id = agent_id, rr_status = RoleFailed, rr_requires_human = False,
      rr_case_id = (if rq_case_id rq = [] then ''unknown'' else rq_case_id rq),
      rr_correlation_id = (if rq_correlation_id rq = [] then ''unknown'' else rq_correlation_id rq),
      rr_output = None\<rparr>"

definition human_result :: "role_request \<Rightarrow> string \<Rightarrow> 'o \<Rightarrow> 'o role_result" where
  "human_result rq agent_id out =
     \<lparr>rr_agent_id = agent_id, rr_status = WaitingHuman, rr_requires_human = True,
      rr_case_id = rq_case_id rq, rr_correlation_id = rq_correlation_id rq, rr_output = Some out\<rparr>"

text \<open>An optional text as a JSON value.\<close>

definition jopt :: "string option \<Rightarrow> json" where
  "jopt s = (case s of None \<Rightarrow> JNull | Some t \<Rightarrow> JStr t)"

text \<open>\<open>base[key] = ...\<close> for each listed key that is not there yet, the role context first.\<close>

definition fill_key :: "jdict \<Rightarrow> jdict \<Rightarrow> jdict \<Rightarrow> string \<Rightarrow> jdict" where
  "fill_key source role base key =
     (let base1 = (case dict_get role key of
                     Some v \<Rightarrow> if dict_get base key = None then dict_set key v base else base
                   | None \<Rightarrow> base)
      in (case dict_get source key of
            Some v \<Rightarrow> if dict_get base1 key = None then dict_set key v base1 else base1
          | None \<Rightarrow> base1))"

definition fill_keys :: "string list \<Rightarrow> jdict \<Rightarrow> jdict \<Rightarrow> jdict" where
  "fill_keys keys source role = foldl (fill_key source role) (jobject (jget source ''quality'')) keys"

text \<open>\<open>str(value or default).lower()\<close>\<close>

definition stage_text :: "json list \<Rightarrow> string" where
  "stage_text vs = py_lower (jstr (jor_all vs))"

section \<open>Head of the quality department\<close>

text \<open>The number prefix of a nonconformity act, form F-10-15.\<close>

definition act_form :: string where
  "act_form =
    [CHR 0xD0, CHR 0xA4, CHR 0x2D, CHR 0x31, CHR 0x30, CHR 0x2D, CHR 0x31, CHR 0x35, CHR 0x2F]"

definition label_form :: string where
  "label_form =
    [CHR 0xD0, CHR 0xA4, CHR 0x2D, CHR 0x31, CHR 0x30, CHR 0x2D, CHR 0x33, CHR 0x38, CHR 0x2F]"

definition pick_keys :: "string list \<Rightarrow> jdict \<Rightarrow> jdict" where
  "pick_keys keys d = List.map_filter (\<lambda>k. map_option (Pair k) (dict_get d k)) keys"

definition otk_quality_blob :: "jdict \<Rightarrow> jdict \<Rightarrow> jdict" where
  "otk_quality_blob source role =
     (case jget source ''quality'' of
        JObj d \<Rightarrow> d
      | _ \<Rightarrow> foldl (\<lambda>d (k, v). dict_set k v d)
          (pick_keys [''presentation_ref'', ''item_group'', ''category'', ''inspector_id'', ''inspector_name'',
             ''act_ref'', ''act_decision'', ''direction'', ''engineer_load'', ''lot_qty'', ''quantity'',
             ''nomenclature_ref'', ''supplier_ref'', ''supplier_quality_rating''] source)
          (pick_keys [''quality_stage'', ''inspector_id'', ''inspector_name'', ''act_ref'', ''act_decision'',
             ''lot_qty'', ''quantity'', ''presentation_ref'', ''supplier_quality_rating''] role))"

datatype otk_action = AssignTo | ConfirmAct | AnnulAct | HandoffZdk | AwaitPresentation
datatype act_decision = ActConfirm | ActAnnul | ActPending

record otk_head_output = role_output +
  oh_action :: otk_action
  oh_engineer_id :: "string option"
  oh_engineer_name :: "string option"
  oh_act_ref :: "string option"
  oh_act_decision :: "act_decision option"
  oh_handoff_by :: "int option"
  oh_sample_rule :: "sample_rule option"

definition otk_output ::
  "pipeline_state \<Rightarrow> otk_action \<Rightarrow> string option \<Rightarrow> string option \<Rightarrow> string option \<Rightarrow> act_decision option \<Rightarrow>
   int option \<Rightarrow> string \<Rightarrow> string option \<Rightarrow> quality_finding list \<Rightarrow> string list \<Rightarrow> otk_head_output" where
  "otk_output pipeline action engineer name act decision by status agent findings actions =
     \<lparr>ro_next_status = status, ro_next_agent = agent, ro_findings = findings, ro_actions = actions,
      ro_control = ps_control pipeline, oh_action = action, oh_engineer_id = engineer,
      oh_engineer_name = name, oh_act_ref = act, oh_act_decision = decision, oh_handoff_by = by,
      oh_sample_rule = ps_sample_rule pipeline\<rparr>"

definition pyd_act_ref :: "json \<Rightarrow> string \<Rightarrow> quality_error + string option" where
  "pyd_act_ref v case_id = pyd_text (jor v (JStr (act_form @ case_id)))"

definition otk_decide ::
  "string \<Rightarrow> jdict \<Rightarrow> string \<Rightarrow> pipeline_state \<Rightarrow> int \<Rightarrow> quality_error + otk_head_output" where
  "otk_decide case_id quality stage pipeline now =
     (let findings = ps_doc_findings pipeline; by = zdk_handoff_due_today now in
      if stage \<in> {''nonconformity'', ''act_confirm''} then
        (case pyd_act_ref (jget quality ''act_ref'') case_id of
           Inl e \<Rightarrow> Inl e
         | Inr act \<Rightarrow>
             (let decision = stage_text [jget quality ''act_decision'', JStr ''pending''] in
              if decision = ''annul'' then
                Inr (otk_output pipeline AnnulAct None None act (Some ActAnnul) None
                  ''quality_released'' None findings [''ANNUL_NC_ACT''])
              else if decision = ''confirm'' then
                Inr (otk_output pipeline HandoffZdk None None act (Some ActConfirm) (Some by)
                  ''isolated'' (Some ''quality_deputy_director_agent'') findings
                  [''CONFIRM_NC_ACT'', ''HANDOFF_ZDK''])
              else
                Inr (otk_output pipeline ConfirmAct None None act (Some ActPending) (Some by)
                  ''nonconformity'' (Some ''otk_head_agent'') findings [''REVIEW_NC_ACT''])))
      else
        (let engineer = jor (jget quality ''inspector_id'') (jget quality ''assigned_engineer_id'');
             name = jor (jget quality ''inspector_name'') (jget quality ''assigned_engineer_name'')
         in if \<not> jtruthy engineer then
              Inr (otk_output pipeline AwaitPresentation None None None None None
                ''quality_queued'' (Some ''otk_head_agent'')
                (findings @ [\<lparr>qf_field = ''inspector_id'', qf_rule = AssignEngineer,
                   qf_source_ref = ''case:'' @ case_id, qf_severity = SeverityWarning, qf_current_value = JNull\<rparr>])
                [''ASSIGN_ENGINEER''])
            else
              Inr (otk_output pipeline AssignTo (Some (jstr engineer))
                (if jtruthy name then Some (jstr name) else None) None None None
                ''quality_assigned'' (Some ''quality_engineer_agent'') findings
                [''ASSIGN_ENGINEER'', ''QUALITY_ASSIGNED''])))"

definition otk_stage :: "role_request \<Rightarrow> string" where
  "otk_stage rq =
     stage_text [jget (rq_role_context rq) ''quality_stage'',
       jget (otk_quality_blob (rq_source_data rq) (rq_role_context rq)) ''quality_stage'', JStr ''queued'']"

definition otk_head_run ::
  "role_request \<Rightarrow> string \<Rightarrow> int \<Rightarrow> quality_error + otk_head_output role_result" where
  "otk_head_run rq agent_id now =
     (if \<not> valid_request rq then Inr (failed_result rq agent_id)
      else let quality = otk_quality_blob (rq_source_data rq) (rq_role_context rq);
               stage = otk_stage rq
           in (case run_quality_pipeline (rq_case_id rq) (rq_correlation_id rq) (rq_source_data rq)
                      (dict_set ''quality_stage'' (JStr stage) (rq_role_context rq)) JNull now of
                 Inl e \<Rightarrow> Inl e
               | Inr pipeline \<Rightarrow>
                   (case otk_decide (rq_case_id rq) quality stage pipeline now of
                      Inl e \<Rightarrow> Inl e
                    | Inr out \<Rightarrow> Inr (human_result rq agent_id out))))"

section \<open>Quality engineer\<close>

definition engineer_quality_blob :: "jdict \<Rightarrow> jdict \<Rightarrow> jdict" where
  "engineer_quality_blob source role =
     fill_keys [''item_group'', ''category'', ''present_docs'', ''documents'', ''scrap_pct'',
       ''analog_in_nomenclature'', ''inspection_complete'', ''measured_results'', ''instrument_refs'',
       ''evidence_refs'', ''fitness_status'', ''lot_qty'', ''quantity'', ''presentation_ref'',
       ''nomenclature_ref'', ''supplier_ref'', ''supplier_quality_rating''] source role"

datatype engineer_stage = StageDocCheck | StageProgram | StageInspection | StageNcAct | StageRelease
datatype fitness = Fit | Unfit | Doubtful | PendingFitness

record engineer_output = role_output +
  eo_stage :: engineer_stage
  eo_category :: tmc_category
  eo_docs_ok :: bool
  eo_sample_rule :: sample_rule
  eo_fitness :: fitness
  eo_act_ref :: "string option"
  eo_label_ref :: "string option"

definition engineer_result_of ::
  "pipeline_state \<Rightarrow> tmc_category \<Rightarrow> sample_rule \<Rightarrow> engineer_stage \<Rightarrow> bool \<Rightarrow> fitness \<Rightarrow> string option \<Rightarrow>
   string option \<Rightarrow> string \<Rightarrow> string option \<Rightarrow> quality_finding list \<Rightarrow> string list \<Rightarrow> engineer_output" where
  "engineer_result_of pipeline category rule stage docs_ok fit act label status agent findings actions =
     \<lparr>ro_next_status = status, ro_next_agent = agent, ro_findings = findings, ro_actions = actions,
      ro_control = ps_control pipeline, eo_stage = stage, eo_category = category, eo_docs_ok = docs_ok,
      eo_sample_rule = rule, eo_fitness = fit, eo_act_ref = act, eo_label_ref = label\<rparr>"

text \<open>The sample rule of the pipeline, built again from the quality data when it lacks the lot.\<close>

definition engineer_sample ::
  "jdict \<Rightarrow> tmc_category \<Rightarrow> pipeline_state \<Rightarrow> quality_error + sample_rule" where
  "engineer_sample quality category pipeline =
     (case (case ps_sample_rule pipeline of
              Some rule \<Rightarrow> Inr rule
            | None \<Rightarrow> build_sample_rule (Some (category_name category)) JNull JNull JNull JNull JNull False) of
        Inl e \<Rightarrow> Inl e
      | Inr rule \<Rightarrow>
          if sr_lot_qty rule = None \<or> sr_presentation_ref rule = None \<or> sr_sample_size rule = None then
            build_sample_rule (Some (category_name category))
              (jor_all [jget quality ''lot_qty'', jget quality ''quantity'', jrat (sr_lot_qty rule)])
              (jor (jget quality ''presentation_ref'') (jopt (sr_presentation_ref rule)))
              (jor (jget quality ''nomenclature_ref'') (jopt (sr_nomenclature_ref rule)))
              (jor (jget quality ''supplier_ref'') (jopt (sr_supplier_ref rule)))
              (jor (jget quality ''supplier_quality_rating'') (sr_supplier_rating rule))
              (sr_require_second rule)
          else Inr rule)"

definition inspection_missing :: "string \<Rightarrow> jdict \<Rightarrow> quality_finding list" where
  "inspection_missing case_id quality =
     (let finding = (\<lambda>f r s. \<lparr>qf_field = f, qf_rule = r, qf_source_ref = ''case:'' @ case_id,
                              qf_severity = s, qf_current_value = JNull\<rparr>)
      in (if jtruthy (jget quality ''measured_results'') then []
          else [finding ''measured_results'' InspectionResults SeverityCritical]) @
         (if jtruthy (jget quality ''instrument_refs'') then []
          else [finding ''instrument_refs'' InspectionInstruments SeverityWarning]) @
         (if jtruthy (jget quality ''evidence_refs'') then []
          else [finding ''evidence_refs'' InspectionEvidence SeverityWarning]))"

definition engineer_scrap :: "jdict \<Rightarrow> scrap_decision" where
  "engineer_scrap quality =
     evaluate_scrap_decision (as_float (jget quality ''scrap_pct''))
       (jget_default quality ''analog_in_nomenclature'' (JBool True))"

text \<open>The fitness after the scrap decision was taken into account.\<close>

definition engineer_fitness :: "jdict \<Rightarrow> string" where
  "engineer_fitness quality =
     (let raw = stage_text [jget quality ''fitness_status'', JStr ''pending''];
          known = (if raw \<in> {''doubtful'', ''unidentified''} then ''doubtful'' else raw)
      in if known = ''pending'' then
           (if sd_disposition (engineer_scrap quality) \<in> {Some Forbid, Some Commission} then ''unfit''
            else if sd_disposition (engineer_scrap quality) = Some PostAndUse then ''fit''
            else known)
         else known)"

definition engineer_decide ::
  "string \<Rightarrow> jdict \<Rightarrow> string \<Rightarrow> pipeline_state \<Rightarrow> tmc_category \<Rightarrow> sample_rule \<Rightarrow> engineer_output" where
  "engineer_decide case_id quality stage pipeline category rule =
     (let findings = ps_doc_findings pipeline; docs_ok = (findings = []) in
      if \<not> docs_ok \<or> stage \<in> {''assigned'', ''quality_assigned'', ''doc_check'', ''quality_doc_check''} then
        (if \<not> docs_ok then
           engineer_result_of pipeline category rule StageDocCheck False PendingFitness None None
             ''quality_doc_check'' (Some ''quality_engineer_agent'') findings [''DOC_CHECK'', ''REQUEST_DOCS'']
         else
           engineer_result_of pipeline category rule StageProgram True PendingFitness None None
             ''quality_inspection'' (Some ''quality_engineer_agent'') [] [''BUILD_PROGRAM'', ''SAMPLE_RULE''])
      else if \<not> jtruthy (jget quality ''inspection_complete'') \<or> stage \<in> {''inspection'', ''quality_inspection''} then
        engineer_result_of pipeline category rule StageInspection True PendingFitness None None
          ''quality_inspection'' (Some ''quality_engineer_agent'') (inspection_missing case_id quality)
          [''RECORD_INSPECTION'']
      else
        (let fit = engineer_fitness quality in
         if fit \<in> {''unfit'', ''doubtful''} \<or> sd_require_zdk (engineer_scrap quality) then
           engineer_result_of pipeline category rule StageNcAct True
             (if fit = ''doubtful'' then Doubtful else Unfit) (Some (act_form @ case_id)) None
             ''nonconformity'' (Some ''otk_head_agent'') findings [''DRAFT_F10_15'', ''ISOLATOR_TASK'']
         else
           engineer_result_of pipeline category rule StageRelease True Fit None (Some (label_form @ case_id))
             ''quality_released'' None [] [''DRAFT_F10_38'', ''QUALITY_RELEASED'']))"

definition engineer_stage_of :: "role_request \<Rightarrow> string" where
  "engineer_stage_of rq =
     (let quality = engineer_quality_blob (rq_source_data rq) (rq_role_context rq);
          stage = stage_text [jget (rq_role_context rq) ''quality_stage'', jget quality ''quality_stage'',
                    JStr ''assigned'']
      in if stage \<in> {''queued'', ''quality_queued''} then ''assigned'' else stage)"

definition quality_engineer_run ::
  "role_request \<Rightarrow> string \<Rightarrow> int \<Rightarrow> quality_error + engineer_output role_result" where
  "quality_engineer_run rq agent_id now =
     (if \<not> valid_request rq then Inr (failed_result rq agent_id)
      else let quality = engineer_quality_blob (rq_source_data rq) (rq_role_context rq);
               stage = engineer_stage_of rq
           in (case run_quality_pipeline (rq_case_id rq) (rq_correlation_id rq) (rq_source_data rq)
                      (dict_set ''quality_stage'' (JStr stage) (rq_role_context rq)) JNull now of
                 Inl e \<Rightarrow> Inl e
               | Inr pipeline \<Rightarrow>
                   (let category = normalize_category (Some (jstr (jor_all [jget quality ''item_group'',
                          jget quality ''category'', jopt (map_option category_name (ps_category pipeline))])))
                    in (case engineer_sample quality category pipeline of
                          Inl e \<Rightarrow> Inl e
                        | Inr rule \<Rightarrow> Inr (human_result rq agent_id
                            (engineer_decide (rq_case_id rq) quality stage pipeline category rule))))))"

section \<open>Deputy director\<close>

definition zdk_quality_blob :: "jdict \<Rightarrow> jdict \<Rightarrow> jdict" where
  "zdk_quality_blob source role =
     fill_keys [''act_ref'', ''scrap_pct'', ''analog_in_nomenclature'', ''disposition'',
       ''execution_conditions'', ''impact'', ''risks''] source role"

definition ru_post :: string where
  "ru_post =
    [CHR 0xD0, CHR 0xBE, CHR 0xD0, CHR 0xBF, CHR 0xD1, CHR 0x80, CHR 0xD0, CHR 0xB8, CHR 0xD1, CHR
     0x85, CHR 0xD0, CHR 0xBE, CHR 0xD0, CHR 0xB4, CHR 0xD0, CHR 0xBE, CHR 0xD0, CHR 0xB2, CHR 0xD0,
     CHR 0xB0, CHR 0xD1, CHR 0x82, CHR 0xD1, CHR 0x8C]"

definition ru_use :: string where
  "ru_use =
    [CHR 0xD0, CHR 0xB8, CHR 0xD1, CHR 0x81, CHR 0xD0, CHR 0xBF, CHR 0xD0, CHR 0xBE, CHR 0xD0, CHR
     0xBB, CHR 0xD1, CHR 0x8C, CHR 0xD0, CHR 0xB7, CHR 0xD0, CHR 0xBE, CHR 0xD0, CHR 0xB2, CHR 0xD0,
     CHR 0xB0, CHR 0xD1, CHR 0x82, CHR 0xD1, CHR 0x8C]"

definition ru_forbid :: string where
  "ru_forbid =
    [CHR 0xD0, CHR 0xB7, CHR 0xD0, CHR 0xB0, CHR 0xD0, CHR 0xBF, CHR 0xD1, CHR 0x80, CHR 0xD0, CHR
     0xB5, CHR 0xD1, CHR 0x82, CHR 0xD0, CHR 0xB8, CHR 0xD1, CHR 0x82, CHR 0xD1, CHR 0x8C]"

definition ru_scrap :: string where
  "ru_scrap =
    [CHR 0xD0, CHR 0xB1, CHR 0xD1, CHR 0x80, CHR 0xD0, CHR 0xB0, CHR 0xD0, CHR 0xBA]"

definition ru_sort :: string where
  "ru_sort =
    [CHR 0xD1, CHR 0x80, CHR 0xD0, CHR 0xB0, CHR 0xD1, CHR 0x81, CHR 0xD1, CHR 0x81, CHR 0xD0, CHR
     0xBE, CHR 0xD1, CHR 0x80, CHR 0xD1, CHR 0x82, CHR 0xD0, CHR 0xB8, CHR 0xD1, CHR 0x80, CHR 0xD0,
     CHR 0xBE, CHR 0xD0, CHR 0xB2, CHR 0xD0, CHR 0xB0, CHR 0xD1, CHR 0x82, CHR 0xD1, CHR 0x8C]"

definition ru_return :: string where
  "ru_return =
    [CHR 0xD0, CHR 0xB2, CHR 0xD0, CHR 0xB5, CHR 0xD1, CHR 0x80, CHR 0xD0, CHR 0xBD, CHR 0xD1, CHR
     0x83, CHR 0xD1, CHR 0x82, CHR 0xD1, CHR 0x8C]"

definition ru_rework :: string where
  "ru_rework =
    [CHR 0xD0, CHR 0xB4, CHR 0xD0, CHR 0xBE, CHR 0xD1, CHR 0x80, CHR 0xD0, CHR 0xB0, CHR 0xD0, CHR
     0xB1, CHR 0xD0, CHR 0xBE, CHR 0xD1, CHR 0x82, CHR 0xD0, CHR 0xBA, CHR 0xD0, CHR 0xB0]"

definition ru_other :: string where
  "ru_other =
    [CHR 0xD0, CHR 0xB8, CHR 0xD0, CHR 0xBD, CHR 0xD0, CHR 0xBE, CHR 0xD0, CHR 0xB5]"

definition ru_commission :: string where
  "ru_commission =
    [CHR 0xD0, CHR 0xBA, CHR 0xD0, CHR 0xBE, CHR 0xD0, CHR 0xBC, CHR 0xD0, CHR 0xB8, CHR 0xD1, CHR
     0x81, CHR 0xD1, CHR 0x81, CHR 0xD0, CHR 0xB8, CHR 0xD1, CHR 0x8F]"

fun disposition_code :: "disposition \<Rightarrow> string" where
  "disposition_code PostAndUse = ''post_and_use''"
| "disposition_code Forbid = ''forbid''"
| "disposition_code SortLot = ''sort''"
| "disposition_code ReturnLot = ''return''"
| "disposition_code ReworkLot = ''rework''"
| "disposition_code OtherDisposition = ''other''"
| "disposition_code Commission = ''commission''"

definition disposition_aliases :: "(string \<times> disposition) list" where
  "disposition_aliases =
    [(ru_post, PostAndUse),
     (ru_use, PostAndUse),
     (''post_and_use'', PostAndUse),
     (ru_forbid, Forbid),
     (''forbid'', Forbid),
     (ru_scrap, Forbid),
     (ru_sort, SortLot),
     (''sort'', SortLot),
     (ru_return, ReturnLot),
     (''return'', ReturnLot),
     (ru_rework, ReworkLot),
     (''rework'', ReworkLot),
     (ru_other, OtherDisposition),
     (''other'', OtherDisposition),
     (ru_commission, Commission),
     (''commission'', Commission)]"

text \<open>
  The final test against \<open>ALLOWED_DISPOSITIONS\<close> never decides: every allowed code is itself a marker.
\<close>

definition ALLOWED_DISPOSITIONS :: "disposition list" where
  "ALLOWED_DISPOSITIONS = [PostAndUse, Forbid, SortLot, ReturnLot, ReworkLot, OtherDisposition, Commission]"

definition normalize_disposition :: "json \<Rightarrow> disposition option" where
  "normalize_disposition raw =
     (if raw = JNull then None
      else let txt = replace_yo (casefold (py_strip (jstr raw))) in
        (case find (\<lambda>(marker, _). is_substring marker txt) disposition_aliases of
           Some (_, code) \<Rightarrow> Some code
         | None \<Rightarrow> find (\<lambda>code. disposition_code code = txt) ALLOWED_DISPOSITIONS))"

definition cond_postanduse_1 :: string where
  "cond_postanduse_1 =
    [CHR 0xD0, CHR 0x9E, CHR 0xD0, CHR 0xBF, CHR 0xD1, CHR 0x80, CHR 0xD0, CHR 0xB8, CHR 0xD1, CHR
     0x85, CHR 0xD0, CHR 0xBE, CHR 0xD0, CHR 0xB4, CHR 0xD0, CHR 0xBE, CHR 0xD0, CHR 0xB2, CHR 0xD0,
     CHR 0xB0, CHR 0xD1, CHR 0x82, CHR 0xD1, CHR 0x8C, CHR 0x20, CHR 0xD1, CHR 0x81, CHR 0x20, CHR
     0xD1, CHR 0x80, CHR 0xD0, CHR 0xB0, CHR 0xD0, CHR 0xB7, CHR 0xD1, CHR 0x80, CHR 0xD0, CHR 0xB5,
     CHR 0xD1, CHR 0x88, CHR 0xD0, CHR 0xB0, CHR 0xD1, CHR 0x8E, CHR 0xD1, CHR 0x89, CHR 0xD0, CHR
     0xB8, CHR 0xD0, CHR 0xBC, CHR 0x20, CHR 0xD1, CHR 0x81, CHR 0xD1, CHR 0x82, CHR 0xD0, CHR 0xB0,
     CHR 0xD1, CHR 0x82, CHR 0xD1, CHR 0x83, CHR 0xD1, CHR 0x81, CHR 0xD0, CHR 0xBE, CHR 0xD0, CHR
     0xBC]"

definition cond_postanduse_2 :: string where
  "cond_postanduse_2 =
    [CHR 0xD0, CHR 0x9F, CHR 0xD0, CHR 0xB5, CHR 0xD1, CHR 0x80, CHR 0xD0, CHR 0xB5, CHR 0xD0, CHR
     0xB4, CHR 0xD0, CHR 0xB0, CHR 0xD1, CHR 0x82, CHR 0xD1, CHR 0x8C, CHR 0x20, CHR 0xD0, CHR 0xBD,
     CHR 0xD0, CHR 0xB0, CHR 0x20, CHR 0xD1, CHR 0x81, CHR 0xD0, CHR 0xBA, CHR 0xD0, CHR 0xBB, CHR
     0xD0, CHR 0xB0, CHR 0xD0, CHR 0xB4]"

definition cond_forbid_1 :: string where
  "cond_forbid_1 =
    [CHR 0xD0, CHR 0x98, CHR 0xD0, CHR 0xB7, CHR 0xD0, CHR 0xBE, CHR 0xD0, CHR 0xBB, CHR 0xD1, CHR
     0x8F, CHR 0xD1, CHR 0x82, CHR 0xD0, CHR 0xBE, CHR 0xD1, CHR 0x80, CHR 0x20, CHR 0xD0, CHR 0xB1,
     CHR 0xD1, CHR 0x80, CHR 0xD0, CHR 0xB0, CHR 0xD0, CHR 0xBA, CHR 0xD0, CHR 0xB0]"

definition cond_forbid_2 :: string where
  "cond_forbid_2 =
    [CHR 0xD0, CHR 0x91, CHR 0xD0, CHR 0xBB, CHR 0xD0, CHR 0xBE, CHR 0xD0, CHR 0xBA, CHR 0xD0, CHR
     0xB8, CHR 0xD1, CHR 0x80, CHR 0xD0, CHR 0xBE, CHR 0xD0, CHR 0xB2, CHR 0xD0, CHR 0xBA, CHR 0xD0,
     CHR 0xB0, CHR 0x20, CHR 0xD0, CHR 0xB4, CHR 0xD0, CHR 0xBE, CHR 0xD1, CHR 0x81, CHR 0xD1, CHR
     0x82, CHR 0xD1, CHR 0x83, CHR 0xD0, CHR 0xBF, CHR 0xD0, CHR 0xBD, CHR 0xD0, CHR 0xBE, CHR 0xD0,
     CHR 0xB3, CHR 0xD0, CHR 0xBE, CHR 0x20, CHR 0xD0, CHR 0xB7, CHR 0xD0, CHR 0xB0, CHR 0xD0, CHR
     0xBF, CHR 0xD0, CHR 0xB0, CHR 0xD1, CHR 0x81, CHR 0xD0, CHR 0xB0]"

definition cond_sortlot_1 :: string where
  "cond_sortlot_1 =
    [CHR 0xD0, CHR 0xA0, CHR 0xD0, CHR 0xB0, CHR 0xD1, CHR 0x81, CHR 0xD1, CHR 0x81, CHR 0xD0, CHR
     0xBE, CHR 0xD1, CHR 0x80, CHR 0xD1, CHR 0x82, CHR 0xD0, CHR 0xB8, CHR 0xD1, CHR 0x80, CHR 0xD0,
     CHR 0xBE, CHR 0xD0, CHR 0xB2, CHR 0xD0, CHR 0xBA, CHR 0xD0, CHR 0xB0, CHR 0x20, CHR 0xD0, CHR
     0xBF, CHR 0xD0, CHR 0xB0, CHR 0xD1, CHR 0x80, CHR 0xD1, CHR 0x82, CHR 0xD0, CHR 0xB8, CHR 0xD0,
     CHR 0xB8]"

definition cond_sortlot_2 :: string where
  "cond_sortlot_2 =
    [CHR 0xD0, CHR 0x9F, CHR 0xD0, CHR 0xBE, CHR 0xD0, CHR 0xB2, CHR 0xD1, CHR 0x82, CHR 0xD0, CHR
     0xBE, CHR 0xD1, CHR 0x80, CHR 0xD0, CHR 0xBD, CHR 0xD1, CHR 0x8B, CHR 0xD0, CHR 0xB9, CHR 0x20,
     CHR 0xD0, CHR 0xBA, CHR 0xD0, CHR 0xBE, CHR 0xD0, CHR 0xBD, CHR 0xD1, CHR 0x82, CHR 0xD1, CHR
     0x80, CHR 0xD0, CHR 0xBE, CHR 0xD0, CHR 0xBB, CHR 0xD1, CHR 0x8C, CHR 0x20, CHR 0xD0, CHR 0xB3,
     CHR 0xD0, CHR 0xBE, CHR 0xD0, CHR 0xB4, CHR 0xD0, CHR 0xBD, CHR 0xD0, CHR 0xBE, CHR 0xD0, CHR
     0xB9, CHR 0x20, CHR 0xD1, CHR 0x87, CHR 0xD0, CHR 0xB0, CHR 0xD1, CHR 0x81, CHR 0xD1, CHR 0x82,
     CHR 0xD0, CHR 0xB8]"

definition cond_returnlot_1 :: string where
  "cond_returnlot_1 =
    [CHR 0xD0, CHR 0x9E, CHR 0xD1, CHR 0x84, CHR 0xD0, CHR 0xBE, CHR 0xD1, CHR 0x80, CHR 0xD0, CHR
     0xBC, CHR 0xD0, CHR 0xB8, CHR 0xD1, CHR 0x82, CHR 0xD1, CHR 0x8C, CHR 0x20, CHR 0xD0, CHR 0xB2,
     CHR 0xD0, CHR 0xBE, CHR 0xD0, CHR 0xB7, CHR 0xD0, CHR 0xB2, CHR 0xD1, CHR 0x80, CHR 0xD0, CHR
     0xB0, CHR 0xD1, CHR 0x82, CHR 0x20, CHR 0xD0, CHR 0xBF, CHR 0xD0, CHR 0xBE, CHR 0xD1, CHR 0x81,
     CHR 0xD1, CHR 0x82, CHR 0xD0, CHR 0xB0, CHR 0xD0, CHR 0xB2, CHR 0xD1, CHR 0x89, CHR 0xD0, CHR
     0xB8, CHR 0xD0, CHR 0xBA, CHR 0xD1, CHR 0x83]"

definition cond_returnlot_2 :: string where
  "cond_returnlot_2 =
    [CHR 0xD0, CHR 0x9F, CHR 0xD1, CHR 0x80, CHR 0xD0, CHR 0xB5, CHR 0xD1, CHR 0x82, CHR 0xD0, CHR
     0xB5, CHR 0xD0, CHR 0xBD, CHR 0xD0, CHR 0xB7, CHR 0xD0, CHR 0xB8, CHR 0xD1, CHR 0x8F]"

definition cond_reworklot_1 :: string where
  "cond_reworklot_1 =
    [CHR 0xD0, CHR 0x9F, CHR 0xD1, CHR 0x80, CHR 0xD0, CHR 0xBE, CHR 0xD0, CHR 0xB3, CHR 0xD1, CHR
     0x80, CHR 0xD0, CHR 0xB0, CHR 0xD0, CHR 0xBC, CHR 0xD0, CHR 0xBC, CHR 0xD0, CHR 0xB0, CHR 0x20,
     CHR 0xD0, CHR 0xB4, CHR 0xD0, CHR 0xBE, CHR 0xD1, CHR 0x80, CHR 0xD0, CHR 0xB0, CHR 0xD0, CHR
     0xB1, CHR 0xD0, CHR 0xBE, CHR 0xD1, CHR 0x82, CHR 0xD0, CHR 0xBA, CHR 0xD0, CHR 0xB8]"

definition cond_reworklot_2 :: string where
  "cond_reworklot_2 =
    [CHR 0xD0, CHR 0x9F, CHR 0xD0, CHR 0xBE, CHR 0xD0, CHR 0xB2, CHR 0xD1, CHR 0x82, CHR 0xD0, CHR
     0xBE, CHR 0xD1, CHR 0x80, CHR 0xD0, CHR 0xBD, CHR 0xD0, CHR 0xBE, CHR 0xD0, CHR 0xB5, CHR 0x20,
     CHR 0xD0, CHR 0xBF, CHR 0xD1, CHR 0x80, CHR 0xD0, CHR 0xB5, CHR 0xD0, CHR 0xB4, CHR 0xD1, CHR
     0x8A, CHR 0xD1, CHR 0x8F, CHR 0xD0, CHR 0xB2, CHR 0xD0, CHR 0xBB, CHR 0xD0, CHR 0xB5, CHR 0xD0,
     CHR 0xBD, CHR 0xD0, CHR 0xB8, CHR 0xD0, CHR 0xB5, CHR 0x20, CHR 0xD0, CHR 0xB1, CHR 0xD0, CHR
     0xB5, CHR 0xD0, CHR 0xB7, CHR 0x20, CHR 0xD1, CHR 0x81, CHR 0xD1, CHR 0x82, CHR 0xD0, CHR 0xB0,
     CHR 0xD1, CHR 0x80, CHR 0xD0, CHR 0xBE, CHR 0xD0, CHR 0xB3, CHR 0xD0, CHR 0xBE, CHR 0x20, CHR
     0xD0, CHR 0xBA, CHR 0xD0, CHR 0xBE, CHR 0xD0, CHR 0xBC, CHR 0xD0, CHR 0xBC, CHR 0xD0, CHR 0xB5,
     CHR 0xD0, CHR 0xBD, CHR 0xD1, CHR 0x82, CHR 0xD0, CHR 0xB0, CHR 0xD1, CHR 0x80, CHR 0xD0, CHR
     0xB8, CHR 0xD1, CHR 0x8F]"

definition cond_otherdisposition_1 :: string where
  "cond_otherdisposition_1 =
    [CHR 0xD0, CHR 0xA3, CHR 0xD0, CHR 0xBA, CHR 0xD0, CHR 0xB0, CHR 0xD0, CHR 0xB7, CHR 0xD0, CHR
     0xB0, CHR 0xD1, CHR 0x82, CHR 0xD1, CHR 0x8C, CHR 0x20, CHR 0xD1, CHR 0x83, CHR 0xD1, CHR 0x81,
     CHR 0xD0, CHR 0xBB, CHR 0xD0, CHR 0xBE, CHR 0xD0, CHR 0xB2, CHR 0xD0, CHR 0xB8, CHR 0xD1, CHR
     0x8F, CHR 0x20, CHR 0xD0, CHR 0xB8, CHR 0xD1, CHR 0x81, CHR 0xD0, CHR 0xBF, CHR 0xD0, CHR 0xBE,
     CHR 0xD0, CHR 0xBB, CHR 0xD0, CHR 0xBD, CHR 0xD0, CHR 0xB5, CHR 0xD0, CHR 0xBD, CHR 0xD0, CHR
     0xB8, CHR 0xD1, CHR 0x8F]"

definition cond_commission_1 :: string where
  "cond_commission_1 =
    [CHR 0xD0, CHR 0xA1, CHR 0xD0, CHR 0xBE, CHR 0xD0, CHR 0xB1, CHR 0xD1, CHR 0x80, CHR 0xD0, CHR
     0xB0, CHR 0xD1, CHR 0x82, CHR 0xD1, CHR 0x8C, CHR 0x20, CHR 0xD0, CHR 0xBA, CHR 0xD0, CHR 0xBE,
     CHR 0xD0, CHR 0xBC, CHR 0xD0, CHR 0xB8, CHR 0xD1, CHR 0x81, CHR 0xD1, CHR 0x81, CHR 0xD0, CHR
     0xB8, CHR 0xD1, CHR 0x8E]"

definition cond_commission_2 :: string where
  "cond_commission_2 =
    [CHR 0xD0, CHR 0x97, CHR 0xD0, CHR 0xB0, CHR 0xD1, CHR 0x84, CHR 0xD0, CHR 0xB8, CHR 0xD0, CHR
     0xBA, CHR 0xD1, CHR 0x81, CHR 0xD0, CHR 0xB8, CHR 0xD1, CHR 0x80, CHR 0xD0, CHR 0xBE, CHR 0xD0,
     CHR 0xB2, CHR 0xD0, CHR 0xB0, CHR 0xD1, CHR 0x82, CHR 0xD1, CHR 0x8C, CHR 0x20, CHR 0xD0, CHR
     0xBF, CHR 0xD1, CHR 0x80, CHR 0xD0, CHR 0xBE, CHR 0xD1, CHR 0x82, CHR 0xD0, CHR 0xBE, CHR 0xD0,
     CHR 0xBA, CHR 0xD0, CHR 0xBE, CHR 0xD0, CHR 0xBB]"

fun default_conditions :: "disposition \<Rightarrow> string list" where
  "default_conditions PostAndUse = [cond_postanduse_1, cond_postanduse_2]"
| "default_conditions Forbid = [cond_forbid_1, cond_forbid_2]"
| "default_conditions SortLot = [cond_sortlot_1, cond_sortlot_2]"
| "default_conditions ReturnLot = [cond_returnlot_1, cond_returnlot_2]"
| "default_conditions ReworkLot = [cond_reworklot_1, cond_reworklot_2]"
| "default_conditions OtherDisposition = [cond_otherdisposition_1]"
| "default_conditions Commission = [cond_commission_1, cond_commission_2]"

definition ru_specify :: string where
  "ru_specify =
    [CHR 0xD1, CHR 0x83, CHR 0xD0, CHR 0xBA, CHR 0xD0, CHR 0xB0, CHR 0xD0, CHR 0xB7, CHR 0xD0, CHR
     0xB0, CHR 0xD1, CHR 0x82, CHR 0xD1, CHR 0x8C]"

record zdk_output = role_output +
  zo_disposition :: disposition
  zo_conditions :: "string list"
  zo_act_ref :: string
  zo_within_allowed :: bool

definition zdk_scrap :: "jdict \<Rightarrow> scrap_decision" where
  "zdk_scrap quality =
     evaluate_scrap_decision (as_float (jget quality ''scrap_pct''))
       (jget_default quality ''analog_in_nomenclature'' (JBool True))"

definition zdk_proposed :: "jdict \<Rightarrow> disposition option" where
  "zdk_proposed quality =
     (case normalize_disposition (jget quality ''disposition'') of
        Some d \<Rightarrow> Some d
      | None \<Rightarrow> normalize_disposition (jopt (map_option disposition_code (sd_disposition (zdk_scrap quality)))))"

definition zdk_conditions :: "jdict \<Rightarrow> disposition \<Rightarrow> string list" where
  "zdk_conditions quality proposed =
     (let raw = (case jget quality ''execution_conditions'' of JStr s \<Rightarrow> [JStr s] | JArr xs \<Rightarrow> xs | _ \<Rightarrow> []);
          given = filter (\<lambda>c. c \<noteq> []) (map (\<lambda>c. py_strip (jstr c)) raw)
      in if given = [] then default_conditions proposed else given)"

definition zdk_decide :: "string \<Rightarrow> jdict \<Rightarrow> pipeline_state \<Rightarrow> zdk_output" where
  "zdk_decide case_id quality pipeline =
     (let outside = (jtruthy (jget quality ''disposition'') \<and> zdk_proposed quality = None);
          proposed = (case zdk_proposed quality of None \<Rightarrow> Commission | Some d \<Rightarrow> d);
          conditions = zdk_conditions quality proposed;
          finding = (\<lambda>f r v. \<lparr>qf_field = f, qf_rule = r, qf_source_ref = ''case:'' @ case_id,
                              qf_severity = SeverityCritical, qf_current_value = v\<rparr>);
          findings = (if outside then [finding ''disposition'' DispositionAllowlist (jget quality ''disposition'')] else []) @
            (if (\<exists>c \<in> set conditions. is_substring ru_specify (casefold c)) \<and> proposed = OtherDisposition
             then [finding ''execution_conditions'' DispositionConditions JNull] else [])
      in \<lparr>ro_next_status = (if proposed = PostAndUse then ''quality_released''
                            else if proposed = ReworkLot then ''rework'' else ''isolated''),
          ro_next_agent = (if proposed \<in> {PostAndUse, ReworkLot, SortLot} then Some ''quality_engineer_agent'' else None),
          ro_findings = findings, ro_actions = [''DRAFT_DISPOSITION'', ''ROUTE_COPIES''],
          ro_control = ps_control pipeline,
          zo_disposition = proposed, zo_conditions = conditions,
          zo_act_ref = jstr (jor (jget quality ''act_ref'') (JStr (act_form @ case_id))),
          zo_within_allowed = (\<not> outside)\<rparr>)"

definition deputy_director_run ::
  "role_request \<Rightarrow> string \<Rightarrow> int \<Rightarrow> quality_error + zdk_output role_result" where
  "deputy_director_run rq agent_id now =
     (if \<not> valid_request rq then Inr (failed_result rq agent_id)
      else let quality = zdk_quality_blob (rq_source_data rq) (rq_role_context rq)
           in (case run_quality_pipeline (rq_case_id rq) (rq_correlation_id rq) (rq_source_data rq)
                      (dict_set ''quality_stage'' (JStr ''zdk'') (rq_role_context rq)) JNull now of
                 Inl e \<Rightarrow> Inl e
               | Inr pipeline \<Rightarrow> Inr (human_result rq agent_id (zdk_decide (rq_case_id rq) quality pipeline))))"

section \<open>Facts\<close>

lemma disposition_codes_normalize [simp]: "normalize_disposition (JStr (disposition_code d)) = Some d"
proof -
  have "list_all (\<lambda>d. normalize_disposition (JStr (disposition_code d)) = Some d) ALLOWED_DISPOSITIONS"
    by code_simp
  moreover have "d \<in> set ALLOWED_DISPOSITIONS" by (cases d) (simp_all add: ALLOWED_DISPOSITIONS_def)
  ultimately show ?thesis by (simp add: list_all_iff)
qed

text \<open>
  A resolution outside the list is reported only when the scrap decision proposes nothing; otherwise
  the draft silently takes the disposition of the scrap decision and counts as allowed.
\<close>

lemma outside_list_replaced:
  assumes "normalize_disposition (jget quality ''disposition'') = None" "sd_disposition (zdk_scrap quality) = Some d"
  shows "zo_disposition (zdk_decide case_id quality st) = d \<and> zo_within_allowed (zdk_decide case_id quality st)"
  using assms by (simp add: zdk_decide_def zdk_proposed_def jopt_def Let_def)

text \<open>A complete inspection without a fitness status and a share of scrap is released as fit.\<close>

lemma released_without_evidence:
  assumes "ps_doc_findings st = []" "jtruthy (jget quality ''inspection_complete'')"
    "jget quality ''fitness_status'' = JNull" "jget quality ''scrap_pct'' = JNull"
    "jget_default quality ''analog_in_nomenclature'' (JBool True) = JBool True"
    "stage \<notin> {''assigned'', ''quality_assigned'', ''doc_check'', ''quality_doc_check'', ''inspection'', ''quality_inspection''}"
  shows "eo_stage (engineer_decide case_id quality stage st cat rule) = StageRelease \<and>
    eo_fitness (engineer_decide case_id quality stage st cat rule) = Fit"
proof -
  have sd: "sd_disposition (engineer_scrap quality) = None" "\<not> sd_require_zdk (engineer_scrap quality)"
    using assms(4,5) by (simp_all add: engineer_scrap_def evaluate_scrap_decision_def as_float_def)
  then have "engineer_fitness quality = ''pending''"
    using assms(3) by (simp add: engineer_fitness_def stage_text_def ascii_lower_def)
  then show ?thesis
    using assms(1,2,6) sd by (simp add: engineer_decide_def engineer_result_of_def)
qed

lemma engineer_stage_cases:
  "(eo_stage out, ro_next_status out, ro_next_agent out) \<in>
     {(StageDocCheck, ''quality_doc_check'', Some ''quality_engineer_agent''),
      (StageProgram, ''quality_inspection'', Some ''quality_engineer_agent''),
      (StageInspection, ''quality_inspection'', Some ''quality_engineer_agent''),
      (StageNcAct, ''nonconformity'', Some ''otk_head_agent''),
      (StageRelease, ''quality_released'', None)}"
  if "out = engineer_decide case_id quality stage st cat rule"
  using that by (simp add: engineer_decide_def engineer_result_of_def Let_def)

section \<open>Properties\<close>

text \<open>
  C30: the engineer drafts a release exactly when every document is present, the stage is past the
  inspection, the inspection is recorded as complete, the fitness is neither unfit nor doubtful and
  neither the share of scrap nor a missing analog calls for the deputy director; a share of scrap
  above zero, or an analog missing from the nomenclature, is never released.
\<close>

lemma engineer_release_iff:
  assumes "out = engineer_decide case_id quality stage st cat rule"
  shows "(ro_next_status out = ''quality_released'' \<longleftrightarrow>
      ps_doc_findings st = [] \<and> jtruthy (jget quality ''inspection_complete'') \<and>
      stage \<notin> {''assigned'', ''quality_assigned'', ''doc_check'', ''quality_doc_check'', ''inspection'', ''quality_inspection''} \<and>
      engineer_fitness quality \<notin> {''unfit'', ''doubtful''} \<and> \<not> sd_require_zdk (engineer_scrap quality)) \<and>
    (ro_next_status out = ''quality_released'' \<longrightarrow>
      eo_stage out = StageRelease \<and> eo_label_ref out \<noteq> None \<and> eo_act_ref out = None \<and>
      (\<forall>x. as_float (jget quality ''scrap_pct'') = Some x \<longrightarrow> x \<le> 0) \<and>
      jget_default quality ''analog_in_nomenclature'' (JBool True) \<noteq> JBool False)"
proof -
  have z: "\<not> sd_require_zdk (engineer_scrap quality) \<longleftrightarrow>
      jget_default quality ''analog_in_nomenclature'' (JBool True) \<noteq> JBool False \<and>
      (\<forall>x. as_float (jget quality ''scrap_pct'') = Some x \<longrightarrow> x \<le> 0)"
    by (auto simp: engineer_scrap_def evaluate_scrap_decision_def SCRAP_THRESHOLD_PCT_def split: option.splits)
  have d: "ro_next_status out = ''quality_released'' \<longleftrightarrow>
      ps_doc_findings st = [] \<and> jtruthy (jget quality ''inspection_complete'') \<and>
      stage \<notin> {''assigned'', ''quality_assigned'', ''doc_check'', ''quality_doc_check'', ''inspection'', ''quality_inspection''} \<and>
      engineer_fitness quality \<notin> {''unfit'', ''doubtful''} \<and> \<not> sd_require_zdk (engineer_scrap quality)"
    unfolding assms engineer_decide_def engineer_result_of_def Let_def by simp
  moreover have "eo_stage out = StageRelease \<and> eo_label_ref out \<noteq> None \<and> eo_act_ref out = None"
    if "ro_next_status out = ''quality_released''"
    using that unfolding assms engineer_decide_def engineer_result_of_def Let_def by (simp split: if_split_asm)
  ultimately show ?thesis using z by blast
qed

definition demo_blob :: jdict where
  "demo_blob = [(''inspection_complete'', JBool True), (''fitness_status'', JStr ''fit''), (''scrap_pct'', JInt 0)]"

lemma engineer_release_iff_witness:
  "\<forall>rule. ro_next_status (engineer_decide ''c1'' demo_blob ''quality_decision'' failed_state OtherCategory rule) =
     ''quality_released''"
proof
  fix rule
  show "ro_next_status (engineer_decide ''c1'' demo_blob ''quality_decision'' failed_state OtherCategory rule) =
     ''quality_released''"
    using engineer_release_iff[OF refl, of "''c1''" demo_blob "''quality_decision''" failed_state OtherCategory rule]
    by (simp add: demo_blob_def failed_state_def engineer_fitness_def engineer_scrap_def stage_text_def ascii_lower_def
        jor_def as_float_def evaluate_scrap_decision_def SCRAP_THRESHOLD_PCT_def jget_default_def dict_get_or_def dict_get_def)
qed

text \<open>Texts that forbid the use of a lot contain the marker that allows it, and the first marker wins.\<close>

definition ru_forbid_use :: string where
  "ru_forbid_use =
    [CHR 0xD0, CHR 0xB7, CHR 0xD0, CHR 0xB0, CHR 0xD0, CHR 0xBF, CHR 0xD1, CHR 0x80, CHR 0xD0, CHR
     0xB5, CHR 0xD1, CHR 0x82, CHR 0xD0, CHR 0xB8, CHR 0xD1, CHR 0x82, CHR 0xD1, CHR 0x8C, CHR 0x20,
     CHR 0xD0, CHR 0xB8, CHR 0xD1, CHR 0x81, CHR 0xD0, CHR 0xBF, CHR 0xD0, CHR 0xBE, CHR 0xD0, CHR
     0xBB, CHR 0xD1, CHR 0x8C, CHR 0xD0, CHR 0xB7, CHR 0xD0, CHR 0xBE, CHR 0xD0, CHR 0xB2, CHR 0xD0,
     CHR 0xB0, CHR 0xD1, CHR 0x82, CHR 0xD1, CHR 0x8C]"

lemma forbidden_use_is_release: "normalize_disposition (JStr ru_forbid_use) = Some PostAndUse"
  by code_simp

end
