(* ===== verification/Case_Tables.thy ===== *)
theory Case_Tables
  imports Json
begin

text \<open>
  The tables of the procurement cases: case statuses and their groups
  (\<open>services/procurement_case_statuses.py\<close>), the role agents and which of them a status or a source
  document calls for (\<open>agents/procurement_role_agents/config.py\<close>), the two warehouse workspaces
  (\<open>warehouse_availability.py\<close>, \<open>warehouse_picker_agent/department.py\<close>).  Also the closure of a step
  relation, which the state machines of the cases share.
\<close>

section \<open>Statuses and agents\<close>

definition case_statuses :: "string list" where
  "case_statuses =
    [''new'', ''agent_waiting'', ''data_check'', ''coverage_check'', ''human_required'', ''blocked'',
     ''purchase_draft'', ''approval_required'', ''ordered'', ''payment_pending'', ''in_transit'',
     ''receiving'', ''quality_queued'', ''quality_assigned'', ''quality_doc_check'',
     ''quality_inspection'', ''quality_decision'', ''isolated'', ''nonconformity'', ''rework'',
     ''reinspection'', ''quality_released'', ''posting_required'', ''posted'', ''closed'', ''failed'']"

definition TERMINAL_CASE_STATUSES :: "string list" where
  "TERMINAL_CASE_STATUSES = [''closed'', ''failed'']"

definition OTK_HEAD_AGENT_ID :: string where "OTK_HEAD_AGENT_ID = ''otk_head_agent''"
definition QUALITY_ENGINEER_AGENT_ID :: string where "QUALITY_ENGINEER_AGENT_ID = ''quality_engineer_agent''"
definition QUALITY_DEPUTY_DIRECTOR_AGENT_ID :: string where
  "QUALITY_DEPUTY_DIRECTOR_AGENT_ID = ''quality_deputy_director_agent''"

lemmas agent_ids = OTK_HEAD_AGENT_ID_def QUALITY_ENGINEER_AGENT_ID_def QUALITY_DEPUTY_DIRECTOR_AGENT_ID_def

definition QUALITY_STATUS_AGENT_MAP :: "(string, string) dict" where
  "QUALITY_STATUS_AGENT_MAP =
    [(''quality_queued'', OTK_HEAD_AGENT_ID), (''quality_assigned'', QUALITY_ENGINEER_AGENT_ID),
     (''quality_doc_check'', QUALITY_ENGINEER_AGENT_ID), (''quality_inspection'', QUALITY_ENGINEER_AGENT_ID),
     (''quality_decision'', QUALITY_ENGINEER_AGENT_ID), (''nonconformity'', OTK_HEAD_AGENT_ID),
     (''isolated'', QUALITY_DEPUTY_DIRECTOR_AGENT_ID), (''rework'', QUALITY_ENGINEER_AGENT_ID),
     (''reinspection'', QUALITY_ENGINEER_AGENT_ID)]"

definition QUALITY_ROLE_AGENT_IDS :: "string list" where
  "QUALITY_ROLE_AGENT_IDS = [OTK_HEAD_AGENT_ID, QUALITY_ENGINEER_AGENT_ID, QUALITY_DEPUTY_DIRECTOR_AGENT_ID]"

definition agent_id_for_quality_status :: "string \<Rightarrow> string option" where
  "agent_id_for_quality_status status = dict_get QUALITY_STATUS_AGENT_MAP status"

definition PRODUCTION_DISPATCHER_AGENT_ID :: string where
  "PRODUCTION_DISPATCHER_AGENT_ID = ''production_dispatcher_agent''"
definition PRODUCTION_PREPARATION_ENGINEER_AGENT_ID :: string where
  "PRODUCTION_PREPARATION_ENGINEER_AGENT_ID = ''production_preparation_engineer_agent''"
definition WAREHOUSE_PICKER_AGENT_ID :: string where "WAREHOUSE_PICKER_AGENT_ID = ''warehouse_picker_agent''"
definition WAREHOUSE_COMPLEX_CHIEF_AGENT_ID :: string where
  "WAREHOUSE_COMPLEX_CHIEF_AGENT_ID = ''warehouse_complex_chief_agent''"
definition PURCHASE_MANAGER_AGENT_ID :: string where "PURCHASE_MANAGER_AGENT_ID = ''purchase_manager_agent''"
definition OMTO_CHIEF_AGENT_ID :: string where "OMTO_CHIEF_AGENT_ID = ''omto_chief_agent''"
definition DEPARTMENT_INITIATOR_AGENT_ID :: string where
  "DEPARTMENT_INITIATOR_AGENT_ID = ''department_initiator_agent''"
definition WAREHOUSE_MANAGER_AGENT_ID :: string where "WAREHOUSE_MANAGER_AGENT_ID = ''warehouse_manager_agent''"
definition OMTO_SUPPORT_MANAGER_AGENT_ID :: string where
  "OMTO_SUPPORT_MANAGER_AGENT_ID = ''omto_support_manager_agent''"

lemmas role_ids = PRODUCTION_DISPATCHER_AGENT_ID_def PRODUCTION_PREPARATION_ENGINEER_AGENT_ID_def
  WAREHOUSE_PICKER_AGENT_ID_def WAREHOUSE_COMPLEX_CHIEF_AGENT_ID_def PURCHASE_MANAGER_AGENT_ID_def
  OMTO_CHIEF_AGENT_ID_def DEPARTMENT_INITIATOR_AGENT_ID_def WAREHOUSE_MANAGER_AGENT_ID_def
  OMTO_SUPPORT_MANAGER_AGENT_ID_def agent_ids

lemma role_ids_distinct [simp]:
  "PRODUCTION_DISPATCHER_AGENT_ID \<noteq> PRODUCTION_PREPARATION_ENGINEER_AGENT_ID"
  "PRODUCTION_PREPARATION_ENGINEER_AGENT_ID \<noteq> PRODUCTION_DISPATCHER_AGENT_ID"
  "PRODUCTION_DISPATCHER_AGENT_ID \<noteq> PURCHASE_MANAGER_AGENT_ID"
  "PURCHASE_MANAGER_AGENT_ID \<noteq> PRODUCTION_DISPATCHER_AGENT_ID"
  "PRODUCTION_PREPARATION_ENGINEER_AGENT_ID \<noteq> PURCHASE_MANAGER_AGENT_ID"
  "PURCHASE_MANAGER_AGENT_ID \<noteq> PRODUCTION_PREPARATION_ENGINEER_AGENT_ID"
  "WAREHOUSE_PICKER_AGENT_ID \<noteq> WAREHOUSE_COMPLEX_CHIEF_AGENT_ID"
  "WAREHOUSE_COMPLEX_CHIEF_AGENT_ID \<noteq> WAREHOUSE_PICKER_AGENT_ID"
  by (simp_all add: role_ids)

text \<open>
  \<open>ProcurementSourceType\<close>; the order of the constructors is that of the enumeration, in which the
  capabilities are polled.
\<close>

datatype source_type =
    InternalConsumptionOrder
  | ProductionMaterialOrder
  | TransferOrder
  | ReorderPoint

fun source_type_value :: "source_type \<Rightarrow> string" where
  "source_type_value InternalConsumptionOrder = ''internal_consumption_order''"
| "source_type_value ProductionMaterialOrder = ''production_material_order''"
| "source_type_value TransferOrder = ''transfer_order''"
| "source_type_value ReorderPoint = ''reorder_point''"

definition SOURCE_AGENT_MAP :: "(string, string) dict" where
  "SOURCE_AGENT_MAP =
    [(''internal_consumption_order'', DEPARTMENT_INITIATOR_AGENT_ID),
     (''transfer_order'', WAREHOUSE_MANAGER_AGENT_ID),
     (''production_material_order'', PRODUCTION_PREPARATION_ENGINEER_AGENT_ID),
     (''reorder_point'', PRODUCTION_DISPATCHER_AGENT_ID)]"

text \<open>A case holds the value of a \<open>ProcurementSourceType\<close>, so the look-up of its agent does not raise.\<close>

definition agent_id_for_source :: "source_type \<Rightarrow> string" where
  "agent_id_for_source source_type = dict_get_or SOURCE_AGENT_MAP (source_type_value source_type) []"

definition ACTIVE_CASE_STATUSES :: "string list" where
  "ACTIVE_CASE_STATUSES =
    [''new'', ''agent_waiting'', ''data_check'', ''coverage_check'', ''human_required'', ''blocked'',
     ''quality_queued'', ''quality_assigned'', ''quality_doc_check'', ''quality_inspection'',
     ''quality_decision'', ''isolated'', ''nonconformity'', ''rework'', ''reinspection'',
     ''quality_released'']"

definition SOURCE_MONITORED_CASE_STATUSES :: "string list" where
  "SOURCE_MONITORED_CASE_STATUSES = ACTIVE_CASE_STATUSES @ [''ordered'']"

lemma terminal_not_monitored: "s \<in> set SOURCE_MONITORED_CASE_STATUSES \<Longrightarrow> s \<notin> set TERMINAL_CASE_STATUSES"
  by (auto simp: SOURCE_MONITORED_CASE_STATUSES_def ACTIVE_CASE_STATUSES_def TERMINAL_CASE_STATUSES_def)

section \<open>Departments\<close>

text \<open>
  The two regular expressions of \<open>department.py\<close> ask for a stem, the rest of its word, white space, the
  stem of \<open>uchastok\<close>, and somewhere after it a 2 that ends a word.  The letters of a name are ASCII or
  Cyrillic (lead bytes \<open>D0\<close> and \<open>D1\<close>), everything else separates words.
\<close>

definition stem_montage :: string where
  "stem_montage =
    [CHR 0xD0, CHR 0xBC, CHR 0xD0, CHR 0xBE, CHR 0xD0, CHR 0xBD, CHR 0xD1, CHR 0x82, CHR 0xD0, CHR
     0xB0, CHR 0xD0, CHR 0xB6, CHR 0xD0, CHR 0xBD]"

definition stem_mechanic :: string where
  "stem_mechanic =
    [CHR 0xD0, CHR 0xBC, CHR 0xD0, CHR 0xB5, CHR 0xD1, CHR 0x85, CHR 0xD0, CHR 0xB0, CHR 0xD0, CHR
     0xBD, CHR 0xD0, CHR 0xB8, CHR 0xD1, CHR 0x87, CHR 0xD0, CHR 0xB5, CHR 0xD1, CHR 0x81, CHR 0xD0,
     CHR 0xBA]"

definition stem_section :: string where
  "stem_section =
    [CHR 0xD1, CHR 0x83, CHR 0xD1, CHR 0x87, CHR 0xD0, CHR 0xB0, CHR 0xD1, CHR 0x81, CHR 0xD1, CHR
     0x82]"

fun fold_yo :: "string \<Rightarrow> string" where
  "fold_yo (c # d # cs) =
     (if c = CHR 0xD1 \<and> d = CHR 0x91 then CHR 0xD0 # CHR 0xB5 # fold_yo cs else c # fold_yo (d # cs))"
| "fold_yo cs = cs"

text \<open>\<open>" ".join(value.split())\<close>\<close>

fun squeeze :: "string \<Rightarrow> string" where
  "squeeze [] = []"
| "squeeze (c # cs) =
     (if py_space c then (if squeeze cs = [] \<or> hd (squeeze cs) = CHR '' '' then squeeze cs else CHR '' '' # squeeze cs)
      else c # squeeze cs)"

definition join_split :: "string \<Rightarrow> string" where
  "join_split s = squeeze (py_strip s)"

definition normalize_department_name :: "string option \<Rightarrow> string" where
  "normalize_department_name value = (if truthy value then join_split (fold_yo (casefold (opt_str value))) else [])"

definition word_byte :: "char \<Rightarrow> bool" where
  "word_byte c \<longleftrightarrow> (let n = (of_char c :: nat) in
     48 \<le> n \<and> n \<le> 57 \<or> 65 \<le> n \<and> n \<le> 90 \<or> 97 \<le> n \<and> n \<le> 122 \<or> n = 95 \<or> n = 0xD0 \<or> n = 0xD1)"

fun drop_word :: "string \<Rightarrow> string" where
  "drop_word [] = []"
| "drop_word (c # cs) =
     (if c = CHR 0xD0 \<or> c = CHR 0xD1 then drop_word (drop 1 cs)
      else if word_byte c then drop_word cs else c # cs)"

fun ends_with_two :: "string \<Rightarrow> bool" where
  "ends_with_two [] = False"
| "ends_with_two (c # cs) =
     (c = CHR ''2'' \<and> (case cs of [] \<Rightarrow> True | d # ds \<Rightarrow> \<not> word_byte d) \<or> ends_with_two cs)"

definition section_pattern :: "string \<Rightarrow> string \<Rightarrow> bool" where
  "section_pattern stem s \<longleftrightarrow>
     is_prefix stem s \<and>
     (let rest = drop_word (drop (length stem) s); tail = dropWhile py_space rest
      in rest \<noteq> tail \<and> is_prefix stem_section tail \<and> ends_with_two (drop (length stem_section) tail))"

fun pattern_search :: "string \<Rightarrow> string \<Rightarrow> bool" where
  "pattern_search stem [] = False"
| "pattern_search stem (c # cs) = (section_pattern stem (c # cs) \<or> pattern_search stem cs)"

definition is_montage_section_2_department :: "string option \<Rightarrow> bool" where
  "is_montage_section_2_department department_name =
     (let normalized = normalize_department_name department_name
      in normalized \<noteq> [] \<and> (pattern_search stem_montage normalized \<or> pattern_search stem_mechanic normalized))"

section \<open>Warehouse workspaces\<close>

text \<open>The display name of the actor is left out; the test of the department follows from the agent.\<close>

record availability_spec =
  as_agent_id :: string
  as_prefix :: string
  as_output_key :: string
  as_handoff_agent_id :: string
  as_handoff_event :: string
  as_conclusion_event :: string
  as_critical_event :: string

definition spec_key :: "availability_spec \<Rightarrow> string \<Rightarrow> string" where
  "spec_key spec suffix = as_prefix spec @ ''_'' @ suffix"

definition PICKER_SPEC :: availability_spec where
  "PICKER_SPEC =
    \<lparr>as_agent_id = WAREHOUSE_PICKER_AGENT_ID, as_prefix = ''picker'', as_output_key = ''warehouse_picker_output'',
     as_handoff_agent_id = OMTO_CHIEF_AGENT_ID, as_handoff_event = ''picker_handoff_to_omto_chief'',
     as_conclusion_event = ''picker_conclusion_confirmed'', as_critical_event = ''picker_critical_acknowledged''\<rparr>"

definition COMPLEX_CHIEF_SPEC :: availability_spec where
  "COMPLEX_CHIEF_SPEC =
    \<lparr>as_agent_id = WAREHOUSE_COMPLEX_CHIEF_AGENT_ID, as_prefix = ''complex'',
     as_output_key = ''warehouse_complex_output'', as_handoff_agent_id = OMTO_CHIEF_AGENT_ID,
     as_handoff_event = ''complex_handoff_to_omto_chief'', as_conclusion_event = ''complex_conclusion_confirmed'',
     as_critical_event = ''complex_critical_acknowledged''\<rparr>"

definition WAREHOUSE_AVAILABILITY_SPECS :: "availability_spec list" where
  "WAREHOUSE_AVAILABILITY_SPECS = [PICKER_SPEC, COMPLEX_CHIEF_SPEC]"

definition warehouse_availability_spec :: "string \<Rightarrow> availability_spec option" where
  "warehouse_availability_spec agent_id =
     (if agent_id = [] then None
      else dict_get (map (\<lambda>spec. (as_agent_id spec, spec)) WAREHOUSE_AVAILABILITY_SPECS) agent_id)"

definition workspace_action_suffixes :: "string list" where
  "workspace_action_suffixes =
    [''workspace_archived_at'', ''archived_bucket'', ''decision_kind'', ''action_at'', ''action_by'',
     ''confirmed_action'', ''critical_acknowledged_at'', ''critical_acknowledged_by'']"

section \<open>Dictionaries of metadata\<close>

definition dict_update :: "jdict \<Rightarrow> jdict \<Rightarrow> jdict" where
  "dict_update d e = foldl (\<lambda>d (k, v). dict_set k v d) d e"

lemma dict_update_frame: "k \<notin> set (dict_keys e) \<Longrightarrow> dict_get (dict_update d e) k = dict_get d k"
  by (induction e arbitrary: d) (auto simp: dict_update_def)

definition dict_pop :: "'k \<Rightarrow> ('k, 'v) dict \<Rightarrow> ('k, 'v) dict" where
  "dict_pop k d = AList.delete k d"

definition dict_setdefault :: "'k \<Rightarrow> 'v \<Rightarrow> ('k, 'v) dict \<Rightarrow> ('k, 'v) dict" where
  "dict_setdefault k v d = (if k \<in> set (dict_keys d) then d else dict_set k v d)"

definition dict_pops :: "'k list \<Rightarrow> ('k, 'v) dict \<Rightarrow> ('k, 'v) dict" where
  "dict_pops ks d = fold dict_pop ks d"

definition clear_workspace_action_keys :: "availability_spec \<Rightarrow> jdict \<Rightarrow> jdict" where
  "clear_workspace_action_keys spec metadata =
     dict_pops (map (spec_key spec) workspace_action_suffixes) metadata"

lemma dict_get_cons: "dict_get ((k, v) # d) j = (if k = j then Some v else dict_get d j)"
  by (simp add: dict_get_def)

lemma dict_get_pop [simp, dict_simps]: "dict_get (dict_pop k d) j = (if j = k then None else dict_get d j)"
  by (simp add: dict_pop_def dict_get_def delete_conv')

lemma dict_get_pops [simp, dict_simps]: "dict_get (dict_pops ks d) j = (if j \<in> set ks then None else dict_get d j)"
  by (induction ks arbitrary: d) (auto simp: dict_pops_def)

lemma dict_get_setdefault [simp, dict_simps]:
  "dict_get (dict_setdefault k v d) j = (if j = k \<and> dict_get d k = None then Some v else dict_get d j)"
proof (cases "k \<in> set (dict_keys d)")
  case True
  then have "dict_get d k \<noteq> None" by (simp add: dict_get_def map_of_eq_None_iff)
  with True show ?thesis by (auto simp: dict_setdefault_def)
qed (auto simp: dict_setdefault_def dict_get_absent)

lemma jget_iff: "jget d k = (case dict_get d k of None \<Rightarrow> JNull | Some v \<Rightarrow> v)"
  by (simp add: jget_def dict_get_or_def)

lemma jget_set [simp]: "jget (dict_set k v d) j = (if j = k then v else jget d j)"
  by (simp add: jget_iff)

lemma jget_pop [simp]: "jget (dict_pop k d) j = (if j = k then JNull else jget d j)"
  by (simp add: jget_iff)

lemma jget_pops [simp]: "jget (dict_pops ks d) j = (if j \<in> set ks then JNull else jget d j)"
  by (simp add: jget_iff)

lemma jget_setdefault: "j \<noteq> k \<Longrightarrow> jget (dict_setdefault k v d) j = jget d j"
  by (simp add: jget_iff)

lemma jget_setdefault_same: "jtruthy v \<Longrightarrow> jget (dict_setdefault k v d) k \<noteq> JNull \<or> dict_get d k = Some JNull"
  by (auto simp: jget_iff split: option.split)

section \<open>Runs\<close>

inductive steps :: "('a \<Rightarrow> 'a \<Rightarrow> bool) \<Rightarrow> 'a \<Rightarrow> 'a \<Rightarrow> bool" for r where
  steps_refl: "steps r x x"
| steps_step: "r x y \<Longrightarrow> steps r y z \<Longrightarrow> steps r x z"

lemma steps_trans: "steps r x y \<Longrightarrow> steps r y z \<Longrightarrow> steps r x z"
  by (induction rule: steps.induct) (auto intro: steps.intros)

lemma steps_invariant:
  "steps r x y \<Longrightarrow> P x \<Longrightarrow> (\<And>x y. r x y \<Longrightarrow> P x \<Longrightarrow> P y) \<Longrightarrow> P y"
  by (induction rule: steps.induct) auto

definition demo_montage :: string where
  "demo_montage =
    [CHR 0xD0, CHR 0x9C, CHR 0xD0, CHR 0xBE, CHR 0xD0, CHR 0xBD, CHR 0xD1, CHR 0x82, CHR 0xD0, CHR
     0xB0, CHR 0xD0, CHR 0xB6, CHR 0xD0, CHR 0xBD, CHR 0xD1, CHR 0x8B, CHR 0xD0, CHR 0xB9, CHR 0x20,
     CHR 0x20, CHR 0xD1, CHR 0x83, CHR 0xD1, CHR 0x87, CHR 0xD0, CHR 0xB0, CHR 0xD1, CHR 0x81, CHR
     0xD1, CHR 0x82, CHR 0xD0, CHR 0xBE, CHR 0xD0, CHR 0xBA, CHR 0x20, CHR 0xE2, CHR 0x84, CHR 0x96,
     CHR 0x32]"

definition demo_section_21 :: string where
  "demo_section_21 =
    [CHR 0xD0, CHR 0x9C, CHR 0xD0, CHR 0xBE, CHR 0xD0, CHR 0xBD, CHR 0xD1, CHR 0x82, CHR 0xD0, CHR
     0xB0, CHR 0xD0, CHR 0xB6, CHR 0xD0, CHR 0xBD, CHR 0xD1, CHR 0x8B, CHR 0xD0, CHR 0xB9, CHR 0x20,
     CHR 0xD1, CHR 0x83, CHR 0xD1, CHR 0x87, CHR 0xD0, CHR 0xB0, CHR 0xD1, CHR 0x81, CHR 0xD1, CHR
     0x82, CHR 0xD0, CHR 0xBE, CHR 0xD0, CHR 0xBA, CHR 0x20, CHR 0x32, CHR 0x31]"

definition demo_section_12 :: string where
  "demo_section_12 =
    [CHR 0xD0, CHR 0x9C, CHR 0xD0, CHR 0xBE, CHR 0xD0, CHR 0xBD, CHR 0xD1, CHR 0x82, CHR 0xD0, CHR
     0xB0, CHR 0xD0, CHR 0xB6, CHR 0xD0, CHR 0xBD, CHR 0xD1, CHR 0x8B, CHR 0xD0, CHR 0xB9, CHR 0x20,
     CHR 0xD1, CHR 0x83, CHR 0xD1, CHR 0x87, CHR 0xD0, CHR 0xB0, CHR 0xD1, CHR 0x81, CHR 0xD1, CHR
     0x82, CHR 0xD0, CHR 0xBE, CHR 0xD0, CHR 0xBA, CHR 0x20, CHR 0xE2, CHR 0x84, CHR 0x96, CHR 0x31,
     CHR 0x32]"

lemma department_examples:
  "is_montage_section_2_department (Some demo_montage)" "\<not> is_montage_section_2_department (Some demo_section_21)"
  "\<not> is_montage_section_2_department None"
  by code_simp+

text \<open>\<open>.*\<close> may end inside a number: section 12 is taken for section 2.\<close>

lemma section_12_is_section_2: "is_montage_section_2_department (Some demo_section_12)"
  by code_simp

end
