(* ===== verification/Quality_Case.thy ===== *)
theory Quality_Case
  imports Quality_Roles Case_Tables
begin

text \<open>
  The incoming-control contour of a procurement case: which role agent runs next and with which
  stage, and what its result does to the case
  (\<open>procurement_role_agents/config.py\<close>, \<open>_enqueue_role_agent\<close> and \<open>_apply_role_agent_result\<close> of
  \<open>procurement_orchestrator_service.py\<close>, \<open>handoff_nonconformity\<close> of the procurement manager), for
  the three quality agents.  The state machine is the relation \<open>quality_step\<close>: a run of the agent
  that is due, on any data of the case, or a handoff of a nonconformity by the procurement manager.

  Whether a task may be enqueued now (task locks, completion keys) is left open: the relation allows
  a run whenever an agent is due, so what it never reaches the service never reaches.
\<close>

section \<open>The case\<close>

record quality_case =
  qc_status :: string
  qc_stage :: "string option"
  qc_next_agent :: "string option"
  qc_context :: jdict
  qc_current_agent :: "string option"
  qc_closed_reason :: "string option"
  qc_nonconformities :: "(string, json) dict"

text \<open>The agent that is due, when it is one of the quality agents.\<close>

definition quality_agent_of :: "quality_case \<Rightarrow> string option" where
  "quality_agent_of c = or_str (qc_next_agent c) (agent_id_for_quality_status (qc_status c))"

definition quality_stage_of :: "quality_case \<Rightarrow> string option" where
  "quality_stage_of c =
     (if truthy (qc_stage c) then qc_stage c
      else if is_prefix ''quality_'' (qc_status c) \<or>
              qc_status c \<in> {''nonconformity'', ''isolated'', ''rework'', ''reinspection''}
           then Some (qc_status c)
      else None)"

text \<open>\<open>base\<close> holds the identifying fields of the case, none of them the stage.\<close>

definition role_context_of :: "jdict \<Rightarrow> quality_case \<Rightarrow> jdict" where
  "role_context_of base c =
     (case quality_stage_of c of
        None \<Rightarrow> base
      | Some stage \<Rightarrow> dict_update (dict_set ''quality_stage'' (JStr stage) base) (qc_context c))"

definition map_output :: "('a \<Rightarrow> 'b) \<Rightarrow> 'a role_result \<Rightarrow> 'b role_result" where
  "map_output f r =
     \<lparr>rr_agent_id = rr_agent_id r, rr_status = rr_status r, rr_requires_human = rr_requires_human r,
      rr_case_id = rr_case_id r, rr_correlation_id = rr_correlation_id r, rr_output = map_option f (rr_output r)\<rparr>"

definition run_quality_role ::
  "string \<Rightarrow> role_request \<Rightarrow> int \<Rightarrow> quality_error + role_output role_result" where
  "run_quality_role agent rq now =
     (if agent = OTK_HEAD_AGENT_ID then map_sum id (map_output role_output.truncate) (otk_head_run rq agent now)
      else if agent = QUALITY_ENGINEER_AGENT_ID then
        map_sum id (map_output role_output.truncate) (quality_engineer_run rq agent now)
      else map_sum id (map_output role_output.truncate) (deputy_director_run rq agent now))"

section \<open>Applying a result\<close>

text \<open>The quality metadata a result leaves on the case.\<close>

definition store_quality_output :: "role_status \<Rightarrow> role_output option \<Rightarrow> quality_case \<Rightarrow> quality_case" where
  "store_quality_output status out c =
     (let agent = Option.bind out ro_next_agent;
          stage = map_option ro_next_status out
      in c\<lparr>qc_next_agent := (if truthy agent then agent
                             else if status = RoleCompleted then None else qc_next_agent c),
           qc_stage := (if truthy stage then stage else qc_stage c)\<rparr>)"

definition quality_status_of :: "string \<Rightarrow> role_output option \<Rightarrow> string \<Rightarrow> string" where
  "quality_status_of agent out fallback =
     (case map_option ro_next_status out of
        Some s \<Rightarrow> if agent \<in> set QUALITY_ROLE_AGENT_IDS \<and> s \<noteq> [] \<and> s \<in> set case_statuses then s else fallback
      | None \<Rightarrow> fallback)"

definition apply_role_result :: "role_output role_result \<Rightarrow> quality_case \<Rightarrow> quality_case" where
  "apply_role_result r c =
     (let agent = rr_agent_id r; out = rr_output r;
          c1 = (if agent \<in> set QUALITY_ROLE_AGENT_IDS then store_quality_output (rr_status r) out c else c)
      in (case rr_status r of
            WaitingHuman \<Rightarrow> c1\<lparr>qc_status := quality_status_of agent out ''agent_waiting''\<rparr>
          | WaitingExternal \<Rightarrow> c1\<lparr>qc_status := ''agent_waiting''\<rparr>
          | RoleCompleted \<Rightarrow>
              (let c2 = c1\<lparr>qc_status := quality_status_of agent out ''new'', qc_current_agent := None\<rparr>
               in if agent \<in> set QUALITY_ROLE_AGENT_IDS \<and> map_option ro_next_status out = Some ''quality_released''
                  then c2\<lparr>qc_status := ''closed'', qc_closed_reason := Some ''quality_released''\<rparr>
                  else c2)
          | RoleFailed \<Rightarrow> c1\<lparr>qc_status := ''blocked''\<rparr>))"

text \<open>
  The procurement manager hands a nonconformity to the head of the quality department; a repeated
  idempotency key changes nothing.  The status of the case is not looked at.
\<close>

definition handoff_nonconformity :: "string \<Rightarrow> json \<Rightarrow> quality_case \<Rightarrow> quality_case" where
  "handoff_nonconformity key item c =
     (if dict_get (qc_nonconformities c) key \<noteq> None then c
      else c\<lparr>qc_nonconformities := qc_nonconformities c @ [(key, item)],
             qc_next_agent := Some OTK_HEAD_AGENT_ID, qc_stage := Some ''nonconformity'',
             qc_context := [(''nonconformity'', item)], qc_status := ''nonconformity'',
             qc_current_agent := Some OTK_HEAD_AGENT_ID\<rparr>)"

section \<open>The state machine\<close>

text \<open>A run of an agent: the request carries the role context built from the case.\<close>

inductive agent_run :: "quality_case \<Rightarrow> quality_case \<Rightarrow> bool" where
  agent_run:
    "qc_status c \<notin> set TERMINAL_CASE_STATUSES \<Longrightarrow> quality_agent_of c = Some agent \<Longrightarrow>
     dict_get base ''quality_stage'' = None \<Longrightarrow> rq_role_context rq = role_context_of base c \<Longrightarrow>
     run_quality_role agent rq now = Inr r \<Longrightarrow>
     agent_run c (apply_role_result r (c\<lparr>qc_current_agent := Some agent\<rparr>))"

inductive quality_step :: "quality_case \<Rightarrow> quality_case \<Rightarrow> bool" where
  run: "agent_run c c' \<Longrightarrow> quality_step c c'"
| handoff: "quality_step c (handoff_nonconformity key item c)"

inductive_cases agent_runE: "agent_run c c'"
inductive_simps quality_step_iff: "quality_step c c'"

section \<open>Facts\<close>

lemma truncate_selectors [simp]:
  "ro_next_status (role_output.truncate out) = ro_next_status out"
  "ro_next_agent (role_output.truncate out) = ro_next_agent out"
  by (simp_all add: role_output.truncate_def)

lemma map_output_selectors [simp]:
  "rr_agent_id (map_output f r) = rr_agent_id r" "rr_status (map_output f r) = rr_status r"
  "rr_output (map_output f r) = map_option f (rr_output r)" "rr_requires_human (map_output f r) = rr_requires_human r"
  by (simp_all add: map_output_def)

text \<open>A run that does not raise either fails its request or waits for a person with an output.\<close>

lemma run_result_cases:
  assumes "run_quality_role agent rq now = Inr r"
  shows "rr_agent_id r = agent \<and>
    (rr_status r = RoleFailed \<and> rr_output r = None \<and> \<not> valid_request rq \<or>
     rr_status r = WaitingHuman \<and> rr_output r \<noteq> None \<and> valid_request rq)"
  using assms
  by (auto simp: run_quality_role_def otk_head_run_def quality_engineer_run_def deputy_director_run_def
      failed_result_def human_result_def Let_def split: if_splits sum.splits)

lemma otk_run_output:
  assumes "run_quality_role OTK_HEAD_AGENT_ID rq now = Inr r" "rr_output r = Some out"
  shows "\<exists>st full. otk_decide (rq_case_id rq) (otk_quality_blob (rq_source_data rq) (rq_role_context rq))
      (otk_stage rq) st now = Inr full \<and> out = role_output.truncate full"
  using assms
  by (auto simp: run_quality_role_def otk_head_run_def failed_result_def human_result_def Let_def
      split: if_splits sum.splits; blast)

lemma engineer_run_output:
  assumes "run_quality_role QUALITY_ENGINEER_AGENT_ID rq now = Inr r" "rr_output r = Some out"
  shows "\<exists>st cat rule. out = role_output.truncate (engineer_decide (rq_case_id rq)
      (engineer_quality_blob (rq_source_data rq) (rq_role_context rq)) (engineer_stage_of rq) st cat rule) \<and>
    run_quality_pipeline (rq_case_id rq) (rq_correlation_id rq) (rq_source_data rq)
      (dict_set ''quality_stage'' (JStr (engineer_stage_of rq)) (rq_role_context rq)) JNull now = Inr st"
  using assms
  by (auto simp: run_quality_role_def quality_engineer_run_def failed_result_def human_result_def Let_def agent_ids
      split: if_splits sum.splits; blast)

lemma zdk_run_output:
  assumes "run_quality_role QUALITY_DEPUTY_DIRECTOR_AGENT_ID rq now = Inr r" "rr_output r = Some out"
  shows "\<exists>st. out = role_output.truncate (zdk_decide (rq_case_id rq)
      (zdk_quality_blob (rq_source_data rq) (rq_role_context rq)) st)"
  using assms
  by (auto simp: run_quality_role_def deputy_director_run_def failed_result_def human_result_def Let_def agent_ids
      split: if_splits sum.splits; blast)

text \<open>What each agent can answer.\<close>

lemma otk_decide_next:
  assumes "otk_decide case_id quality stage st now = Inr out"
  shows "if stage \<in> {''nonconformity'', ''act_confirm''}
    then (ro_next_status out, ro_next_agent out) \<in>
      {(''quality_released'', None), (''isolated'', Some ''quality_deputy_director_agent''),
       (''nonconformity'', Some ''otk_head_agent'')}
    else (ro_next_status out, ro_next_agent out) \<in>
      {(''quality_queued'', Some ''otk_head_agent''), (''quality_assigned'', Some ''quality_engineer_agent'')}"
  using assms
  by (auto simp: otk_decide_def otk_output_def Let_def split: if_splits sum.splits)

lemma engineer_decide_next:
  "(ro_next_status out, ro_next_agent out) \<in>
     {(''quality_doc_check'', Some ''quality_engineer_agent''), (''quality_inspection'', Some ''quality_engineer_agent''),
      (''nonconformity'', Some ''otk_head_agent''), (''quality_released'', None)}"
  if "out = engineer_decide case_id quality stage st cat rule"
  using that by (simp add: engineer_decide_def engineer_result_of_def Let_def)

lemma engineer_decide_inspection:
  assumes "stage \<in> {''assigned'', ''quality_assigned'', ''doc_check'', ''quality_doc_check'', ''inspection'',
    ''quality_inspection''}"
  shows "ro_next_status (engineer_decide case_id quality stage st cat rule) \<in> {''quality_doc_check'', ''quality_inspection''} \<and>
    ro_next_agent (engineer_decide case_id quality stage st cat rule) = Some ''quality_engineer_agent''"
  using assms by (auto simp: engineer_decide_def engineer_result_of_def Let_def)

lemma zdk_decide_next:
  "(ro_next_status (zdk_decide case_id quality st), ro_next_agent (zdk_decide case_id quality st)) \<in>
     {(''quality_released'', Some ''quality_engineer_agent''), (''rework'', Some ''quality_engineer_agent''),
      (''isolated'', Some ''quality_engineer_agent''), (''isolated'', None)}"
  by (simp add: zdk_decide_def Let_def)

text \<open>The stage a request carries.\<close>

lemma role_context_stage:
  assumes "quality_stage_of c = Some s" "''quality_stage'' \<notin> set (dict_keys (qc_context c))"
  shows "jget (role_context_of base c) ''quality_stage'' = JStr s"
  using assms by (simp add: role_context_of_def jget_def dict_get_or_def dict_update_frame)

lemma request_stage:
  assumes "jget (rq_role_context rq) ''quality_stage'' = JStr s" "s \<noteq> []"
  shows "otk_stage rq = py_lower s"
    and "engineer_stage_of rq = (if py_lower s \<in> {''queued'', ''quality_queued''} then ''assigned'' else py_lower s)"
  using assms by (simp_all add: otk_stage_def engineer_stage_of_def stage_text_def jor_def Let_def)

section \<open>Invariants\<close>

text \<open>Every status, stage and agent a case carries is one the tables know.\<close>

definition case_ok :: "quality_case \<Rightarrow> bool" where
  "case_ok c \<longleftrightarrow> qc_status c \<in> set case_statuses \<and>
     (\<forall>s. qc_stage c = Some s \<longrightarrow> s \<in> set case_statuses) \<and>
     (\<forall>a. qc_next_agent c = Some a \<longrightarrow> a \<in> set QUALITY_ROLE_AGENT_IDS)"

lemma run_output_known:
  assumes "run_quality_role agent rq now = Inr r" "rr_output r = Some out" "agent \<in> set QUALITY_ROLE_AGENT_IDS"
  shows "ro_next_status out \<in> set case_statuses \<and> ro_next_status out \<noteq> ''closed'' \<and> ro_next_status out \<noteq> [] \<and>
    (\<forall>a. ro_next_agent out = Some a \<longrightarrow> a \<in> set QUALITY_ROLE_AGENT_IDS \<and> a \<noteq> [])"
proof -
  from assms(3) consider "agent = OTK_HEAD_AGENT_ID" | "agent = QUALITY_ENGINEER_AGENT_ID"
    | "agent = QUALITY_DEPUTY_DIRECTOR_AGENT_ID" by (auto simp: QUALITY_ROLE_AGENT_IDS_def)
  then show ?thesis
  proof cases
    case 1
    with otk_run_output assms(1,2) obtain st full where
      f: "otk_decide (rq_case_id rq) (otk_quality_blob (rq_source_data rq) (rq_role_context rq)) (otk_stage rq) st now = Inr full"
      "out = role_output.truncate full" by blast
    from otk_decide_next[OF f(1)] f(2) show ?thesis
      by (auto simp: case_statuses_def QUALITY_ROLE_AGENT_IDS_def agent_ids split: if_splits)
  next
    case 2
    with engineer_run_output assms(1,2) obtain st cat rule where
      "out = role_output.truncate (engineer_decide (rq_case_id rq)
        (engineer_quality_blob (rq_source_data rq) (rq_role_context rq)) (engineer_stage_of rq) st cat rule)" by blast
    with engineer_decide_next[OF refl, of "rq_case_id rq"
        "engineer_quality_blob (rq_source_data rq) (rq_role_context rq)" "engineer_stage_of rq" st cat rule]
    show ?thesis by (auto simp: case_statuses_def QUALITY_ROLE_AGENT_IDS_def agent_ids)
  next
    case 3
    with zdk_run_output assms(1,2) obtain st where
      "out = role_output.truncate (zdk_decide (rq_case_id rq)
        (zdk_quality_blob (rq_source_data rq) (rq_role_context rq)) st)" by blast
    with zdk_decide_next[of "rq_case_id rq" "zdk_quality_blob (rq_source_data rq) (rq_role_context rq)" st]
    show ?thesis by (auto simp: case_statuses_def QUALITY_ROLE_AGENT_IDS_def agent_ids)
  qed
qed

lemma due_agent_known:
  assumes "case_ok c" "quality_agent_of c = Some agent"
  shows "agent \<in> set QUALITY_ROLE_AGENT_IDS"
proof -
  have "a \<in> set QUALITY_ROLE_AGENT_IDS" if "agent_id_for_quality_status s = Some a" for s a
    using that by (auto simp: agent_id_for_quality_status_def QUALITY_STATUS_AGENT_MAP_def dict_get_def
        QUALITY_ROLE_AGENT_IDS_def split: if_splits)
  with assms show ?thesis
    by (auto simp: quality_agent_of_def or_str_def case_ok_def split: if_splits option.splits)
qed

text \<open>What one run does to the case, by the two kinds of result.\<close>

lemma apply_failed:
  assumes "rr_status r = RoleFailed" "rr_output r = None"
  shows "apply_role_result r c = c\<lparr>qc_status := ''blocked''\<rparr>"
  using assms by (simp add: apply_role_result_def store_quality_output_def Let_def)

lemma apply_waiting:
  assumes "rr_status r = WaitingHuman" "rr_output r = Some out" "rr_agent_id r \<in> set QUALITY_ROLE_AGENT_IDS"
    "ro_next_status out \<in> set case_statuses" "ro_next_status out \<noteq> []"
  shows "apply_role_result r c =
    c\<lparr>qc_status := ro_next_status out, qc_stage := Some (ro_next_status out),
      qc_next_agent := (if truthy (ro_next_agent out) then ro_next_agent out else qc_next_agent c)\<rparr>"
  using assms by (simp add: apply_role_result_def store_quality_output_def quality_status_of_def Let_def)

lemma agent_run_result:
  assumes "agent_run c c'" "case_ok c"
  obtains (failed) agent where "c' = c\<lparr>qc_current_agent := Some agent, qc_status := ''blocked''\<rparr>"
  | (answer) agent base rq now r out where
      "quality_agent_of c = Some agent" "agent \<in> set QUALITY_ROLE_AGENT_IDS"
      "rq_role_context rq = role_context_of base c" "run_quality_role agent rq now = Inr r" "rr_output r = Some out"
      "c' = c\<lparr>qc_current_agent := Some agent, qc_status := ro_next_status out, qc_stage := Some (ro_next_status out),
        qc_next_agent := (if truthy (ro_next_agent out) then ro_next_agent out else qc_next_agent c)\<rparr>"
proof -
  from assms(1) obtain agent base rq now r where
    1: "c' = apply_role_result r (c\<lparr>qc_current_agent := Some agent\<rparr>)"
      "qc_status c \<notin> set TERMINAL_CASE_STATUSES" "quality_agent_of c = Some agent"
      "dict_get base ''quality_stage'' = None" "rq_role_context rq = role_context_of base c"
      "run_quality_role agent rq now = Inr r"
    by (rule agent_runE) blast
  from due_agent_known[OF assms(2) 1(3)] have q: "agent \<in> set QUALITY_ROLE_AGENT_IDS" .
  from run_result_cases[OF 1(6)] consider "rr_status r = RoleFailed" "rr_output r = None"
    | out where "rr_status r = WaitingHuman" "rr_output r = Some out" by auto
  then show thesis
  proof cases
    case a: 1
    have "c' = c\<lparr>qc_current_agent := Some agent, qc_status := ''blocked''\<rparr>"
      unfolding 1(1) by (simp add: apply_failed[OF a])
    then show thesis by (rule failed)
  next
    case (2 out)
    from run_output_known[OF 1(6) 2(2) q] run_result_cases[OF 1(6)] q
    have "apply_role_result r (c\<lparr>qc_current_agent := Some agent\<rparr>) = c\<lparr>qc_current_agent := Some agent,
        qc_status := ro_next_status out, qc_stage := Some (ro_next_status out),
        qc_next_agent := (if truthy (ro_next_agent out) then ro_next_agent out else qc_next_agent c)\<rparr>"
      by (subst apply_waiting[OF 2]) simp_all
    with 1(1) show thesis by (intro answer[OF 1(3) q 1(5,6) 2(2)]) simp
  qed
qed

lemma agent_run_case_ok:
  assumes "agent_run c c'" "case_ok c"
  shows "case_ok c' \<and> qc_status c' \<noteq> ''closed'' \<and> qc_closed_reason c' = qc_closed_reason c"
  using assms(1,2)
proof (cases rule: agent_run_result)
  case (failed agent)
  with assms(2) show ?thesis by (simp add: case_ok_def case_statuses_def)
next
  case (answer agent base rq now r out)
  from run_output_known[OF answer(4,5,2)] answer(6) assms(2) show ?thesis
    by (auto simp: case_ok_def)
qed

lemma handoff_case_ok:
  "case_ok c \<Longrightarrow> case_ok (handoff_nonconformity key item c) \<and>
   (qc_status (handoff_nonconformity key item c) = ''closed'' \<longrightarrow> handoff_nonconformity key item c = c) \<and>
   qc_closed_reason (handoff_nonconformity key item c) = qc_closed_reason c"
  by (auto simp: handoff_nonconformity_def case_ok_def case_statuses_def QUALITY_ROLE_AGENT_IDS_def)

lemma quality_step_case_ok:
  assumes "quality_step c c'" "case_ok c"
  shows "case_ok c' \<and> (qc_status c' = ''closed'' \<longrightarrow> c' = c) \<and> qc_closed_reason c' = qc_closed_reason c"
  using assms(1) agent_run_case_ok[OF _ assms(2)] handoff_case_ok[OF assms(2)] unfolding quality_step_iff by blast

subsection \<open>The inspection loop\<close>

definition inspection_stages :: "string list" where
  "inspection_stages = [''quality_queued'', ''quality_assigned'', ''quality_doc_check'', ''quality_inspection'']"

definition in_inspection :: "quality_case \<Rightarrow> bool" where
  "in_inspection c \<longleftrightarrow> ''quality_stage'' \<notin> set (dict_keys (qc_context c)) \<and>
     (qc_stage c = None \<and> qc_next_agent c = None \<and> qc_status c \<in> set (''blocked'' # inspection_stages) \<or>
      (\<exists>s \<in> set inspection_stages. qc_stage c = Some s \<and> qc_next_agent c = agent_id_for_quality_status s \<and>
         qc_status c \<in> {s, ''blocked''}))"

lemma inspection_agents:
  "s \<in> set inspection_stages \<Longrightarrow> agent_id_for_quality_status s =
     Some (if s = ''quality_queued'' then OTK_HEAD_AGENT_ID else QUALITY_ENGINEER_AGENT_ID)"
  by (auto simp: inspection_stages_def agent_id_for_quality_status_def QUALITY_STATUS_AGENT_MAP_def dict_get_def)

lemma inspection_due:
  assumes "in_inspection c" "quality_agent_of c = Some agent"
  shows "\<exists>s \<in> set inspection_stages. quality_stage_of c = Some s \<and> agent_id_for_quality_status s = Some agent"
proof -
  have b: "agent_id_for_quality_status ''blocked'' = None"
    by (simp add: agent_id_for_quality_status_def QUALITY_STATUS_AGENT_MAP_def dict_get_def)
  have q: "s \<noteq> [] \<and> is_prefix ''quality_'' s" if "s \<in> set inspection_stages" for s
    using that by (auto simp: inspection_stages_def)
  from assms consider "qc_stage c = None" "qc_next_agent c = None" "qc_status c \<in> set inspection_stages"
    | s where "s \<in> set inspection_stages" "qc_stage c = Some s" "qc_next_agent c = agent_id_for_quality_status s"
    by (auto simp: in_inspection_def quality_agent_of_def or_str_def b)
  then show ?thesis
  proof cases
    case 1
    with assms(2) q show ?thesis by (auto simp: quality_agent_of_def or_str_def quality_stage_of_def)
  next
    case 2
    with assms(2) q[OF 2(1)] inspection_agents[OF 2(1)] show ?thesis
      by (auto simp: quality_agent_of_def or_str_def quality_stage_of_def agent_ids split: if_splits)
  qed
qed

lemma inspection_case_ok:
  assumes "in_inspection c"
  shows "case_ok c"
proof -
  have sub: "set inspection_stages \<subseteq> set case_statuses" "''blocked'' \<in> set case_statuses"
    by (simp_all add: inspection_stages_def case_statuses_def)
  have ag: "a \<in> set QUALITY_ROLE_AGENT_IDS" if "s \<in> set inspection_stages" "agent_id_for_quality_status s = Some a" for s a
    using that inspection_agents[OF that(1)] by (auto simp: QUALITY_ROLE_AGENT_IDS_def split: if_splits)
  from assms sub ag show ?thesis unfolding in_inspection_def case_ok_def by fastforce
qed

lemma inspection_lower: "s \<in> set inspection_stages \<Longrightarrow> py_lower s = s \<and> s \<noteq> []"
  by (auto simp: inspection_stages_def ascii_lower_def)

lemma inspection_answer:
  assumes "s \<in> set inspection_stages" "agent_id_for_quality_status s = Some agent"
    "jget (rq_role_context rq) ''quality_stage'' = JStr s"
    "run_quality_role agent rq now = Inr r" "rr_output r = Some out"
  shows "ro_next_status out \<in> set inspection_stages \<and>
    ro_next_agent out = agent_id_for_quality_status (ro_next_status out) \<and> truthy (ro_next_agent out)"
proof (cases "s = ''quality_queued''")
  case True
  with assms(1,2) inspection_agents have a: "agent = OTK_HEAD_AGENT_ID" by auto
  have st: "otk_stage rq = s" using request_stage(1)[OF assms(3)] inspection_lower[OF assms(1)] by simp
  from otk_run_output assms(4,5) a obtain st full where
    f: "otk_decide (rq_case_id rq) (otk_quality_blob (rq_source_data rq) (rq_role_context rq)) s st now = Inr full"
    "out = role_output.truncate full" unfolding st[symmetric] by blast
  from otk_decide_next[OF f(1)] f(2) True show ?thesis
    by (auto simp: inspection_stages_def agent_id_for_quality_status_def QUALITY_STATUS_AGENT_MAP_def dict_get_def agent_ids)
next
  case False
  with assms(1,2) inspection_agents have a: "agent = QUALITY_ENGINEER_AGENT_ID" by auto
  have st: "engineer_stage_of rq = s"
    using request_stage(2)[OF assms(3)] inspection_lower[OF assms(1)] False assms(1)
    by (auto simp: inspection_stages_def)
  from engineer_run_output assms(4,5) a obtain st cat rule where
    f: "out = role_output.truncate (engineer_decide (rq_case_id rq)
        (engineer_quality_blob (rq_source_data rq) (rq_role_context rq)) s st cat rule)"
    unfolding st[symmetric] by blast
  have "s \<in> {''assigned'', ''quality_assigned'', ''doc_check'', ''quality_doc_check'', ''inspection'', ''quality_inspection''}"
    using assms(1) False by (auto simp: inspection_stages_def)
  from engineer_decide_inspection[OF this, of "rq_case_id rq"
      "engineer_quality_blob (rq_source_data rq) (rq_role_context rq)" st cat rule] f
  have "ro_next_status out \<in> {''quality_doc_check'', ''quality_inspection''}"
    "ro_next_agent out = Some ''quality_engineer_agent''" by simp_all
  then show ?thesis
    by (auto simp: inspection_stages_def agent_id_for_quality_status_def QUALITY_STATUS_AGENT_MAP_def dict_get_def agent_ids)
qed

lemma agent_run_inspection:
  assumes "agent_run c c'" "in_inspection c"
  shows "in_inspection c'"
  using assms(1) inspection_case_ok[OF assms(2)]
proof (cases rule: agent_run_result)
  case (failed agent)
  with assms(2) show ?thesis by (auto simp: in_inspection_def)
next
  case (answer agent base rq now r out)
  from inspection_due[OF assms(2) answer(1)] obtain s where
    s: "s \<in> set inspection_stages" "quality_stage_of c = Some s" "agent_id_for_quality_status s = Some agent" by blast
  have "jget (rq_role_context rq) ''quality_stage'' = JStr s"
    unfolding answer(3) using role_context_stage[OF s(2)] assms(2) by (simp add: in_inspection_def)
  from inspection_answer[OF s(1,3) this answer(4,5)] answer(6) assms(2) show ?thesis
    by (auto simp: in_inspection_def)
qed

subsection \<open>Progress\<close>

text \<open>The request the orchestrator makes for the agent that is due.\<close>

definition request_for :: "role_request \<Rightarrow> jdict \<Rightarrow> quality_case \<Rightarrow> role_request" where
  "request_for rq base c = rq\<lparr>rq_role_context := role_context_of base c\<rparr>"

definition run_due :: "role_request \<Rightarrow> jdict \<Rightarrow> int \<Rightarrow> quality_case \<Rightarrow> quality_error + role_output role_result" where
  "run_due rq base now c =
     (case quality_agent_of c of
        None \<Rightarrow> Inl NotIterable
      | Some agent \<Rightarrow> run_quality_role agent (request_for rq base c) now)"

lemma valid_request_for [simp]: "valid_request (request_for rq base c) = valid_request rq"
  by (simp add: request_for_def valid_request_def)

lemma run_due_step:
  assumes "quality_agent_of c = Some agent" "qc_status c \<notin> set TERMINAL_CASE_STATUSES"
    "dict_get base ''quality_stage'' = None" "run_due rq base now c = Inr r"
  shows "agent_run c (apply_role_result r (c\<lparr>qc_current_agent := Some agent\<rparr>))"
  using assms
  by (intro agent_run[of c agent base "request_for rq base c" now r]) (simp_all add: run_due_def request_for_def)

lemma run_due_output:
  assumes "run_due rq base now c = Inr r" "quality_agent_of c = Some agent" "valid_request rq"
  obtains out where "rr_status r = WaitingHuman" "rr_output r = Some out" "rr_agent_id r = agent"
    "run_quality_role agent (request_for rq base c) now = Inr r"
  using assms run_result_cases[of agent "request_for rq base c" now r] by (auto simp: run_due_def)

lemma request_for_stage:
  assumes "qc_stage c = Some s" "s \<noteq> []" "''quality_stage'' \<notin> set (dict_keys (qc_context c))"
  shows "jget (rq_role_context (request_for rq base c)) ''quality_stage'' = JStr s"
  using role_context_stage[of c s base] assms by (simp add: request_for_def quality_stage_of_def)

text \<open>The head of the department, asked about a nonconformity with the decision to annul, releases.\<close>

lemma otk_annul_releases:
  assumes "run_quality_role OTK_HEAD_AGENT_ID rq now = Inr r" "rr_output r = Some out"
    "jget (rq_role_context rq) ''quality_stage'' = JStr ''nonconformity''"
    "stage_text [jget (otk_quality_blob (rq_source_data rq) (rq_role_context rq)) ''act_decision'', JStr ''pending''] = ''annul''"
  shows "ro_next_status out = ''quality_released''"
proof -
  have "otk_stage rq = ''nonconformity''" using request_stage(1)[OF assms(3)] by (simp add: ascii_lower_def)
  with otk_run_output[OF assms(1,2)] obtain st full where
    "otk_decide (rq_case_id rq) (otk_quality_blob (rq_source_data rq) (rq_role_context rq)) ''nonconformity'' st now = Inr full"
    "out = role_output.truncate full" by auto
  with assms(4) show ?thesis
    by (auto simp: otk_decide_def otk_output_def Let_def split: sum.split_asm)
qed

lemma otk_assigns:
  assumes "run_quality_role OTK_HEAD_AGENT_ID rq now = Inr r" "rr_output r = Some out"
    "jget (rq_role_context rq) ''quality_stage'' = JStr ''quality_queued''"
    "jtruthy (jget (otk_quality_blob (rq_source_data rq) (rq_role_context rq)) ''inspector_id'')"
  shows "ro_next_status out = ''quality_assigned'' \<and> ro_next_agent out = Some QUALITY_ENGINEER_AGENT_ID"
proof -
  have "otk_stage rq = ''quality_queued''" using request_stage(1)[OF assms(3)] by (simp add: ascii_lower_def)
  with otk_run_output[OF assms(1,2)] assms(4) show ?thesis
    by (auto simp: otk_decide_def otk_output_def jor_def agent_ids Let_def)
qed

lemma engineer_programs:
  assumes "run_quality_role QUALITY_ENGINEER_AGENT_ID rq now = Inr r" "rr_output r = Some out"
    "jget (rq_role_context rq) ''quality_stage'' = JStr ''quality_assigned''"
    "\<And>st. run_quality_pipeline (rq_case_id rq) (rq_correlation_id rq) (rq_source_data rq)
       (dict_set ''quality_stage'' (JStr ''quality_assigned'') (rq_role_context rq)) JNull now = Inr st \<Longrightarrow>
       ps_doc_findings st = []"
  shows "ro_next_status out = ''quality_inspection''"
proof -
  have st: "engineer_stage_of rq = ''quality_assigned''"
    using request_stage(2)[OF assms(3)] by (simp add: ascii_lower_def)
  from engineer_run_output[OF assms(1,2)] assms(4) show ?thesis
    unfolding st by (auto simp: engineer_decide_def engineer_result_of_def Let_def)
qed

section \<open>Properties\<close>

definition new_quality_case :: "string \<Rightarrow> quality_case" where
  "new_quality_case status = \<lparr>qc_status = status, qc_stage = None, qc_next_agent = None, qc_context = [],
     qc_current_agent = None, qc_closed_reason = None, qc_nonconformities = []\<rparr>"

definition demo_request :: "jdict \<Rightarrow> role_request" where
  "demo_request quality = \<lparr>rq_case_id = ''c1'', rq_correlation_id = ''k1'',
     rq_source_type = ''production_material_order'', rq_source_1c_ref = ''r1'', rq_source_number = None,
     rq_idempotency_key = ''i1'', rq_caller_agent_id = ''procurement_orchestrator'',
     rq_source_data = [(''quality'', JObj quality)], rq_role_context = []\<rparr>"

definition demo_quality :: jdict where
  "demo_quality = [(''item_group'', JStr ''other''), (''inspector_id'', JStr ''e1''), (''lot_qty'', JInt 20),
     (''present_docs'', JArr [JStr ''certificate_or_passport'']), (''act_decision'', JStr ''annul'')]"

definition demo_assigned :: quality_case where
  "demo_assigned = (case run_due (demo_request demo_quality) [] 0 (new_quality_case ''quality_queued'') of
     Inl _ \<Rightarrow> new_quality_case ''quality_queued''
   | Inr r \<Rightarrow> apply_role_result r (new_quality_case ''quality_queued''\<lparr>qc_current_agent := Some OTK_HEAD_AGENT_ID\<rparr>))"


lemma demo_in_inspection: "in_inspection (new_quality_case ''quality_queued'')"
  by (simp add: in_inspection_def new_quality_case_def inspection_stages_def)


text \<open>
  No run of a quality agent and no handoff of a nonconformity closes a case or gives it a reason
  for closing: only the result of a completed task does; and statuses, stages and agents stay within
  the tables of the orchestrator.
\<close>

lemma agents_never_close:
  assumes "steps quality_step c c'" "case_ok c" "qc_status c \<noteq> ''closed''"
  shows "qc_status c' \<noteq> ''closed'' \<and> qc_closed_reason c' = qc_closed_reason c \<and> case_ok c'"
proof -
  have "case_ok c' \<and> qc_status c' \<noteq> ''closed'' \<and> qc_closed_reason c' = qc_closed_reason c"
    by (rule steps_invariant[OF assms(1), where P = "\<lambda>x. case_ok x \<and> qc_status x \<noteq> ''closed'' \<and>
          qc_closed_reason x = qc_closed_reason c"])
      (use assms(2,3) quality_step_case_ok in \<open>auto\<close>)
  then show ?thesis by simp
qed


lemma demo_runs:
  "isl (run_due (demo_request demo_quality) [] 0 (new_quality_case ''quality_queued'')) = False"
  "isl (run_due (demo_request demo_quality) [] 0 demo_assigned) = False"
  "map_sum id ps_doc_findings (run_quality_pipeline ''c1'' ''k1'' (rq_source_data (demo_request demo_quality))
     (dict_set ''quality_stage'' (JStr ''quality_assigned'') (role_context_of [] demo_assigned)) JNull 0) = Inr []"
  "valid_request (demo_request demo_quality)"
  "jtruthy (jget (otk_quality_blob (rq_source_data (demo_request demo_quality))
     (role_context_of [] (new_quality_case ''quality_queued''))) ''inspector_id'')"
  by code_simp+


text \<open>
  every case, whatever its state, can be brought to \<open>quality_released\<close>: a nonconformity handed
  over by the procurement manager and the decision of the head of the department to annul the act
  release it, when the request is valid and the run does not raise.
\<close>

lemma handoff_then_annul_releases:
  assumes fresh: "dict_get (qc_nonconformities c) key = None" and base: "dict_get base ''quality_stage'' = None"
    and valid: "valid_request rq" and c1: "c1 = handoff_nonconformity key item c"
    and run: "run_due rq base now c1 = Inr r"
    and annul: "stage_text [jget (otk_quality_blob (rq_source_data rq) (role_context_of base c1)) ''act_decision'',
      JStr ''pending''] = ''annul''"
  shows "\<exists>c'. steps quality_step c c' \<and> qc_status c' = ''quality_released''"
proof -
  have f: "qc_stage c1 = Some ''nonconformity''" "qc_context c1 = [(''nonconformity'', item)]"
    "qc_status c1 = ''nonconformity''" "quality_agent_of c1 = Some OTK_HEAD_AGENT_ID"
    using fresh by (simp_all add: c1 handoff_nonconformity_def quality_agent_of_def or_str_def agent_ids)
  obtain out where out: "rr_status r = WaitingHuman" "rr_output r = Some out" "rr_agent_id r = OTK_HEAD_AGENT_ID"
    "run_quality_role OTK_HEAD_AGENT_ID (request_for rq base c1) now = Inr r"
    by (rule run_due_output[OF run f(4) valid])
  have n: "ro_next_status out = ''quality_released''"
    using annul request_for_stage[of c1 "''nonconformity''" rq base] f
    by (intro otk_annul_releases[OF out(4,2)]) (simp_all add: request_for_def)
  let ?c2 = "apply_role_result r (c1\<lparr>qc_current_agent := Some OTK_HEAD_AGENT_ID\<rparr>)"
  have "qc_status ?c2 = ''quality_released''"
    by (subst apply_waiting[OF out(1,2)]) (auto simp: out(3) n QUALITY_ROLE_AGENT_IDS_def case_statuses_def)
  moreover have "quality_step c c1" unfolding c1 by (rule handoff)
  moreover have "quality_step c1 ?c2"
    by (rule quality_step.run) (rule run_due_step[OF f(4) _ base \<open>run_due rq base now c1 = Inr r\<close>], simp add: f TERMINAL_CASE_STATUSES_def)
  ultimately show ?thesis by (meson steps.intros)
qed

definition demo_handed :: quality_case where
  "demo_handed = handoff_nonconformity ''h1'' JNull (new_quality_case ''quality_inspection'')"

lemma demo_annul:
  "isl (run_due (demo_request demo_quality) [] 0 demo_handed) = False"
  "stage_text [jget (otk_quality_blob (rq_source_data (demo_request demo_quality)) (role_context_of [] demo_handed))
     ''act_decision'', JStr ''pending''] = ''annul''"
  by code_simp+

text \<open>
  A completed release closes the case; a later nonconformity opens it again, since the handoff does not
  look at the status, and keeps the reason for closing.
\<close>

lemma completed_release_closes:
  assumes "rr_status r = RoleCompleted" "rr_agent_id r \<in> set QUALITY_ROLE_AGENT_IDS" "rr_output r = Some out"
    "ro_next_status out = ''quality_released''"
  shows "qc_status (apply_role_result r c) = ''closed'' \<and>
    qc_closed_reason (apply_role_result r c) = Some ''quality_released''"
  using assms by (simp add: apply_role_result_def Let_def)

lemma handoff_reopens_closed:
  assumes "qc_status c = ''closed''" "dict_get (qc_nonconformities c) key = None"
  shows "qc_status (handoff_nonconformity key item c) = ''nonconformity'' \<and>
    qc_closed_reason (handoff_nonconformity key item c) = qc_closed_reason c"
  using assms by (simp add: handoff_nonconformity_def)

end
