(* ===== verification/Calendar.thy ===== *)
theory Calendar
  imports Prelude
begin

text \<open>
  The proleptic Gregorian calendar of Python's \<open>datetime.date\<close>: a date is its ordinal
  (\<open>date.toordinal()\<close>, 1 for January 1 of year 1), so comparison and the addition of days are those
  of the integers; \<open>ordinal\<close> is the constructor \<open>date(year, month, day)\<close> and \<open>year_of\<close>,
  \<open>month_of\<close>, \<open>day_of\<close> are its fields, computed as the standard library does.  The upper bound
  (year 9999) of the library is not part of the model.
\<close>

definition is_leap :: "int \<Rightarrow> bool" where
  "is_leap y \<longleftrightarrow> y mod 4 = 0 \<and> (y mod 100 \<noteq> 0 \<or> y mod 400 = 0)"

definition days_before_year :: "int \<Rightarrow> int" where
  "days_before_year y = (y - 1) * 365 + (y - 1) div 4 - (y - 1) div 100 + (y - 1) div 400"

definition days_in_month :: "int \<Rightarrow> int \<Rightarrow> int" where
  "days_in_month y m =
     (if m = 2 then (if is_leap y then 29 else 28) else if m \<in> {4, 6, 9, 11} then 30 else 31)"

definition days_before_month :: "int \<Rightarrow> int \<Rightarrow> int" where
  "days_before_month y m =
     [0, 31, 59, 90, 120, 151, 181, 212, 243, 273, 304, 334] ! nat (m - 1) + (if 2 < m \<and> is_leap y then 1 else 0)"

definition ordinal :: "int \<Rightarrow> int \<Rightarrow> int \<Rightarrow> int" where
  "ordinal y m d = days_before_year y + days_before_month y m + d"

definition year_of :: "int \<Rightarrow> int" where
  "year_of n =
     (let a = (n - 1) div 146097; r1 = (n - 1) mod 146097;
          b = r1 div 36524; r2 = r1 mod 36524;
          c = r2 div 1461; r3 = r2 mod 1461;
          d = r3 div 365;
          y = 400 * a + 100 * b + 4 * c + d + 1
      in if d = 4 \<or> b = 4 then y - 1 else y)"

definition day_in_year :: "int \<Rightarrow> int" where
  "day_in_year n = n - days_before_year (year_of n)"

definition month_of :: "int \<Rightarrow> int" where
  "month_of n =
     (case find (\<lambda>m. day_in_year n \<le> days_before_month (year_of n) (m + 1)) [1, 2, 3, 4, 5, 6, 7, 8, 9, 10, 11] of
        Some m \<Rightarrow> m | None \<Rightarrow> 12)"

definition day_of :: "int \<Rightarrow> int" where
  "day_of n = day_in_year n - days_before_month (year_of n) (month_of n)"

text \<open>\<open>date.weekday()\<close>: Monday is 0.\<close>

definition weekday :: "int \<Rightarrow> int" where
  "weekday n = (n + 6) mod 7"

section \<open>Years\<close>

lemma div_previous:
  assumes "0 < (k::int)"
  shows "y div k = (y - 1) div k + (if y mod k = 0 then 1 else 0)"
proof (cases "y mod k = 0")
  case True
  then have "y - 1 = k * (y div k - 1) + (k - 1)"
    using mult_div_mod_eq[of k y] by (simp add: algebra_simps)
  then have "(y - 1) div k = y div k - 1" by (rule int_div_pos_eq) (use assms in auto)
  with True show ?thesis by simp
next
  case False
  have "y - 1 = k * (y div k) + (y mod k - 1)" using mult_div_mod_eq[of k y] by simp
  moreover have "0 \<le> y mod k" "y mod k < k" using assms by simp_all
  ultimately have "(y - 1) div k = y div k" using int_div_pos_eq[of "y - 1" k "y div k" "y mod k - 1"] False by linarith
  with False show ?thesis by simp
qed

lemma leap_count:
  fixes p q r p' q' r' y :: int
  assumes "p = p' + (if P then 1 else 0)" "q = q' + (if Q then 1 else 0)" "r = r' + (if R then 1 else 0)"
    "Q \<Longrightarrow> P" "R \<Longrightarrow> Q"
  shows "y * 365 + p - q + r = (y - 1) * 365 + p' - q' + r' + (if P \<and> (\<not> Q \<or> R) then 366 else 365)"
  using assms by (cases P; cases Q; cases R) simp_all

lemma days_before_year_next: "days_before_year (y + 1) = days_before_year y + (if is_leap y then 366 else 365)"
proof -
  have d: "(4::int) dvd 100" "(100::int) dvd 400" by simp_all
  have imp: "y mod 100 = 0 \<Longrightarrow> y mod 4 = 0" "y mod 400 = 0 \<Longrightarrow> y mod 100 = 0"
    unfolding mod_eq_0_iff_dvd by (rule dvd_trans[OF d(1)], assumption) (rule dvd_trans[OF d(2)], assumption)
  show ?thesis
    unfolding days_before_year_def is_leap_def add_diff_cancel_right'
    by (rule leap_count[OF div_previous[OF zero_less_numeral] div_previous[OF zero_less_numeral]
          div_previous[OF zero_less_numeral] imp])
qed

lemma days_before_year_mono: "y \<le> z \<Longrightarrow> days_before_year y \<le> days_before_year z"
proof (induction "nat (z - y)" arbitrary: z)
  case 0
  then show ?case by simp
next
  case (Suc k)
  then have "days_before_year y \<le> days_before_year (z - 1)" by simp
  also have "\<dots> \<le> days_before_year z" using days_before_year_next[of "z - 1"] by (simp split: if_splits)
  finally show ?case .
qed

lemma days_before_year_parts:
  assumes "0 \<le> b" "b \<le> 3" "0 \<le> c" "c \<le> 24" "0 \<le> d" "d \<le> 3"
  shows "days_before_year (400 * a + 100 * b + 4 * c + d + 1) = 146097 * a + 36524 * b + 1461 * c + 365 * d"
proof -
  let ?z = "400 * a + 100 * b + 4 * c + d"
  have "?z div 4 = 100 * a + 25 * b + c" by (rule int_div_pos_eq[where r = d]) (use assms in auto)
  moreover have "?z div 100 = 4 * a + b" by (rule int_div_pos_eq[where r = "4 * c + d"]) (use assms in auto)
  moreover have "?z div 400 = a" by (rule int_div_pos_eq[where r = "100 * b + 4 * c + d"]) (use assms in auto)
  ultimately show ?thesis by (simp add: days_before_year_def)
qed

lemma year_of_bounds: "days_before_year (year_of n) < n \<and> n \<le> days_before_year (year_of n + 1)"
proof -
  define a where "a = (n - 1) div 146097"
  define r1 where "r1 = (n - 1) mod 146097"
  define b where "b = r1 div 36524"
  define r2 where "r2 = r1 mod 36524"
  define c where "c = r2 div 1461"
  define r3 where "r3 = r2 mod 1461"
  define d where "d = r3 div 365"
  define y where "y = 400 * a + 100 * b + 4 * c + d + 1"
  have yo: "year_of n = (if d = 4 \<or> b = 4 then y - 1 else y)"
    unfolding year_of_def Let_def a_def r1_def b_def r2_def c_def r3_def d_def y_def by (rule refl)
  have n: "n - 1 = 146097 * a + r1" "0 \<le> r1" "r1 < 146097" by (simp_all only: a_def r1_def mult_div_mod_eq pos_mod_sign pos_mod_bound zero_less_numeral)
  have r1: "r1 = 36524 * b + r2" "0 \<le> r2" "r2 < 36524" by (simp_all only: b_def r2_def mult_div_mod_eq pos_mod_sign pos_mod_bound zero_less_numeral)
  have r2: "r2 = 1461 * c + r3" "0 \<le> r3" "r3 < 1461" by (simp_all only: c_def r3_def mult_div_mod_eq pos_mod_sign pos_mod_bound zero_less_numeral)
  define r4 where "r4 = r3 mod 365"
  have r3: "r3 = 365 * d + r4" "0 \<le> r4" "r4 < 365" by (simp_all only: d_def r4_def mult_div_mod_eq pos_mod_sign pos_mod_bound zero_less_numeral)
  have bd: "0 \<le> b" "b \<le> 4" "0 \<le> c" "c \<le> 24" "0 \<le> d" "d \<le> 4" using n r1 r2 r3 by linarith+
  consider "d \<le> 3" "b \<le> 3" | "d = 4" "b \<le> 3" | "b = 4" using bd by linarith
  then show ?thesis
  proof cases
    case 1
    then have d': "days_before_year y = 146097 * a + 36524 * b + 1461 * c + 365 * d"
      using days_before_year_parts[of b c d a] bd by (simp add: y_def)
    with 1 yo days_before_year_next[of y] n r1 r2 r3 show ?thesis by (auto split: if_splits)
  next
    case 2
    then have c: "c \<le> 23" using r1 r2 r3 by linarith
    have d': "days_before_year (y - 1) = 146097 * a + 36524 * b + 1461 * c + 1095"
      using days_before_year_parts[of b c 3 a] bd 2 by (simp add: y_def)
    have "y - 1 = 4 * (100 * a + 25 * b + c + 1)" "y - 1 = 100 * (4 * a + b) + (4 * c + 4)"
      using 2 by (simp_all add: y_def)
    then have "(y - 1) mod 4 = 0" "(y - 1) mod 100 = 4 * c + 4" using bd c int_mod_pos_eq[of "y - 1" 4 "100 * a + 25 * b + c + 1" 0]
        int_mod_pos_eq[of "y - 1" 100 "4 * a + b" "4 * c + 4"] by simp_all
    then have "is_leap (y - 1)" using bd by (simp add: is_leap_def)
    with days_before_year_next[of "y - 1"] d' 2 yo n r1 r2 r3 show ?thesis by auto
  next
    case 3
    then have z: "r2 = 0" "c = 0" "d = 0" using n r1 r2 r3 bd by linarith+
    have d': "days_before_year (y - 1) = 146097 * a + 36524 * 3 + 1461 * 24 + 1095"
      using days_before_year_parts[of 3 24 3 a] 3 z by (simp add: y_def)
    have "y - 1 = 400 * (a + 1)" using 3 z by (simp add: y_def)
    then have "(y - 1) mod 4 = 0" "(y - 1) mod 400 = 0"
      using int_mod_pos_eq[of "y - 1" 4 "100 * (a + 1)" 0] int_mod_pos_eq[of "y - 1" 400 "a + 1" 0] by simp_all
    then have "is_leap (y - 1)" by (simp add: is_leap_def)
    with days_before_year_next[of "y - 1"] d' 3 z yo n r1 show ?thesis by auto
  qed
qed

lemma year_of_unique: "days_before_year y < n \<Longrightarrow> n \<le> days_before_year (y + 1) \<Longrightarrow> year_of n = y"
  using year_of_bounds[of n] days_before_year_mono[of "y + 1" "year_of n"] days_before_year_mono[of "year_of n + 1" y]
  by linarith

lemma year_of_mono: "m \<le> n \<Longrightarrow> year_of m \<le> year_of n"
  using year_of_bounds[of m] year_of_bounds[of n] days_before_year_mono[of "year_of n + 1" "year_of m"] by linarith

section \<open>Months\<close>

lemma month_cases:
  assumes "1 \<le> (m::int)" "m \<le> 12"
  shows "m = 1 \<or> m = 2 \<or> m = 3 \<or> m = 4 \<or> m = 5 \<or> m = 6 \<or> m = 7 \<or> m = 8 \<or> m = 9 \<or> m = 10 \<or> m = 11 \<or> m = 12"
  using assms by presburger

lemma month_table [simp]:
  "days_before_month y 1 = 0" "days_before_month y 2 = 31"
  "days_before_month y 3 = 59 + (if is_leap y then 1 else 0)" "days_before_month y 4 = 90 + (if is_leap y then 1 else 0)"
  "days_before_month y 5 = 120 + (if is_leap y then 1 else 0)" "days_before_month y 6 = 151 + (if is_leap y then 1 else 0)"
  "days_before_month y 7 = 181 + (if is_leap y then 1 else 0)" "days_before_month y 8 = 212 + (if is_leap y then 1 else 0)"
  "days_before_month y 9 = 243 + (if is_leap y then 1 else 0)" "days_before_month y 10 = 273 + (if is_leap y then 1 else 0)"
  "days_before_month y 11 = 304 + (if is_leap y then 1 else 0)" "days_before_month y 12 = 334 + (if is_leap y then 1 else 0)"
  by (simp_all add: days_before_month_def)

lemma days_in_month_range: "28 \<le> days_in_month y m \<and> days_in_month y m \<le> 31"
  by (simp add: days_in_month_def)

lemma month_next:
  assumes "1 \<le> m" "m \<le> 11"
  shows "days_before_month y (m + 1) = days_before_month y m + days_in_month y m"
proof -
  from assms have "m \<in> {1, 2, 3, 4, 5, 6, 7, 8, 9, 10, 11}"
    using month_cases[of m] by auto
  then show ?thesis by (elim insertE emptyE) (simp_all add: days_in_month_def)
qed

lemma month_before:
  "1 \<le> m \<Longrightarrow> m < n \<Longrightarrow> n \<le> 12 \<Longrightarrow> days_before_month y m + days_in_month y m \<le> days_before_month y n"
proof (induction "nat (n - m)" arbitrary: n)
  case 0
  then show ?case by simp
next
  case (Suc k)
  have s: "days_before_month y n = days_before_month y (n - 1) + days_in_month y (n - 1)"
    using month_next[of "n - 1" y] Suc.prems by simp
  show ?case
  proof (cases "n - 1 = m")
    case False
    with Suc have "days_before_month y m + days_in_month y m \<le> days_before_month y (n - 1)" by simp
    with s days_in_month_range[of y "n - 1"] show ?thesis by linarith
  qed (use s in simp)
qed

lemma year_length: "days_before_month y 12 + days_in_month y 12 = (if is_leap y then 366 else 365)"
  by (simp add: days_in_month_def)

text \<open>The valid dates of a year are its days.\<close>

lemma month_within_year:
  assumes "1 \<le> m" "m \<le> 12" "1 \<le> d" "d \<le> days_in_month y m"
  shows "days_before_year y < ordinal y m d \<and> ordinal y m d \<le> days_before_year (y + 1)"
proof -
  have "days_before_month y m + days_in_month y m \<le> days_before_month y 12 + days_in_month y 12"
    using month_before[of m 12 y] days_in_month_range[of y 12] assms(1,2) by (cases "m = 12") auto
  moreover have "0 \<le> days_before_month y m"
    using month_before[of 1 m y] days_in_month_range[of y 1] assms(1,2) by (cases "m = 1") auto
  ultimately show ?thesis
    using assms(3,4) year_length[of y] days_before_year_next[of y] by (simp add: ordinal_def)
qed

lemma month_of_unique:
  assumes "1 \<le> m" "m \<le> 12" "1 \<le> d" "d \<le> days_in_month y m"
  shows "year_of (ordinal y m d) = y \<and> month_of (ordinal y m d) = m \<and> day_of (ordinal y m d) = d"
proof -
  have y: "year_of (ordinal y m d) = y" using month_within_year[OF assms] year_of_unique by blast
  then have diy: "day_in_year (ordinal y m d) = days_before_month y m + d"
    by (simp add: day_in_year_def ordinal_def)
  have lt: "\<not> days_before_month y m + d \<le> days_before_month y (k + 1)" if "1 \<le> k" "k < m" for k
    using month_before[of "k + 1" m y] days_in_month_range[of y "k + 1"] that assms(2,3)
    by (cases "k + 1 = m") auto
  have le: "days_before_month y m + d \<le> days_before_month y (m + 1)" if "m \<le> 11"
    using month_next[OF assms(1) that] assms(4) by simp
  have m: "month_of (ordinal y m d) = m"
    unfolding month_of_def diy y using month_cases[OF assms(1,2)] le lt[of 1] lt[of 2] lt[of 3] lt[of 4] lt[of 5]
      lt[of 6] lt[of 7] lt[of 8] lt[of 9] lt[of 10] lt[of 11]
    by (elim disjE) (simp_all del: month_table)
  with y diy show ?thesis by (simp add: day_of_def)
qed

lemma month_exists:
  "1 \<le> k \<Longrightarrow> 1 \<le> j \<Longrightarrow> j \<le> 12 \<Longrightarrow> k \<le> days_before_month y j + days_in_month y j \<Longrightarrow>
   \<exists>m. 1 \<le> m \<and> m \<le> 12 \<and> days_before_month y m < k \<and> k \<le> days_before_month y m + days_in_month y m"
proof (induction "nat j" arbitrary: j)
  case 0
  then show ?case by simp
next
  case (Suc i)
  show ?case
  proof (cases "days_before_month y j < k")
    case False
    with Suc.prems have "1 \<le> j - 1" by (cases "j = 1") auto
    moreover from this month_next[of "j - 1" y] Suc.prems False
    have "k \<le> days_before_month y (j - 1) + days_in_month y (j - 1)" by simp
    ultimately show ?thesis using Suc.hyps(1)[of "j - 1"] Suc.hyps(2) Suc.prems by simp
  qed (use Suc.prems in blast)
qed

lemma ordinal_exists:
  "\<exists>m d. 1 \<le> m \<and> m \<le> 12 \<and> 1 \<le> d \<and> d \<le> days_in_month (year_of n) m \<and> n = ordinal (year_of n) m d"
proof -
  let ?y = "year_of n"
  define k where "k = n - days_before_year ?y"
  have "1 \<le> k" "k \<le> days_before_month ?y 12 + days_in_month ?y 12"
    using year_of_bounds[of n] days_before_year_next[of ?y] year_length[of ?y] by (simp_all add: k_def)
  from month_exists[OF this(1) _ _ this(2)] obtain m where
    m: "1 \<le> m" "m \<le> 12" "days_before_month ?y m < k" "k \<le> days_before_month ?y m + days_in_month ?y m"
    by auto
  then show ?thesis
    by (intro exI[of _ m] exI[of _ "k - days_before_month ?y m"]) (simp add: ordinal_def k_def)
qed

text \<open>The fields of a date give it back, and are those of a valid date.\<close>

lemma date_fields:
  "n = ordinal (year_of n) (month_of n) (day_of n) \<and> 1 \<le> month_of n \<and> month_of n \<le> 12 \<and>
   1 \<le> day_of n \<and> day_of n \<le> days_in_month (year_of n) (month_of n)"
proof -
  obtain m d where md: "1 \<le> m" "m \<le> 12" "1 \<le> d" "d \<le> days_in_month (year_of n) m" "n = ordinal (year_of n) m d"
    using ordinal_exists by blast
  from month_of_unique[OF md(1-4)] md(5) have "month_of n = m" "day_of n = d" by simp_all
  with md show ?thesis by simp
qed

text \<open>Months in one line: the months since year 0.\<close>

definition month_index :: "int \<Rightarrow> int" where
  "month_index n = 12 * year_of n + (month_of n - 1)"

lemma month_index_range: "12 * year_of n \<le> month_index n \<and> month_index n < 12 * year_of n + 12"
  using date_fields[of n] by (simp add: month_index_def)

lemma month_index_mono:
  assumes "m \<le> n"
  shows "month_index m \<le> month_index n"
proof (cases "year_of m = year_of n")
  case False
  with year_of_mono[OF assms] month_index_range[of m] month_index_range[of n] show ?thesis by linarith
next
  case True
  have "month_of m \<le> month_of n"
  proof (rule ccontr)
    assume a: "\<not> month_of m \<le> month_of n"
    have "n = days_before_year (year_of n) + days_before_month (year_of n) (month_of n) + day_of n"
      "m = days_before_year (year_of n) + days_before_month (year_of n) (month_of m) + day_of m"
      using date_fields[of n] date_fields[of m] True by (simp_all add: ordinal_def)
    moreover have "days_before_month (year_of n) (month_of n) + days_in_month (year_of n) (month_of n)
        \<le> days_before_month (year_of n) (month_of m)"
      using month_before[of "month_of n" "month_of m" "year_of n"] date_fields[of n] date_fields[of m] a by simp
    moreover have "day_of n \<le> days_in_month (year_of n) (month_of n)" "1 \<le> day_of m" using date_fields by auto
    ultimately show False using assms by linarith
  qed
  with True show ?thesis by (simp add: month_index_def)
qed

lemma month_index_ordinal:
  "1 \<le> m \<Longrightarrow> m \<le> 12 \<Longrightarrow> 1 \<le> d \<Longrightarrow> d \<le> days_in_month y m \<Longrightarrow> month_index (ordinal y m d) = 12 * y + (m - 1)"
  using month_of_unique[of m d y] by (simp add: month_index_def)

section \<open>Weekdays\<close>

definition is_weekend :: "int \<Rightarrow> bool" where
  "is_weekend n \<longleftrightarrow> 5 \<le> weekday n"

lemma weekday_range: "0 \<le> weekday n \<and> weekday n < 7"
  by (simp add: weekday_def)

lemma weekday_next: "weekday (n + 1) = (if weekday n = 6 then 0 else weekday n + 1)"
proof -
  define q r where "q = (n + 6) div 7" and "r = (n + 6) mod 7"
  have n: "n + 6 = 7 * q + r" "0 \<le> r" "r < 7"
    by (simp_all only: q_def r_def mult_div_mod_eq pos_mod_sign pos_mod_bound zero_less_numeral)
  have "(n + 1 + 6) mod 7 = (if r = 6 then 0 else r + 1)"
  proof (cases "r = 6")
    case True
    with n show ?thesis using int_mod_pos_eq[of "n + 1 + 6" 7 "q + 1" 0] by simp
  next
    case False
    with n show ?thesis using int_mod_pos_eq[of "n + 1 + 6" 7 q "r + 1"] by simp
  qed
  then show ?thesis by (simp only: weekday_def r_def)
qed

lemma weekday_cases: "weekday n \<in> {0, 1, 2, 3, 4, 5, 6}"
  using weekday_range[of n] by auto

lemma weekday_add: "weekday (n + 7 * k) = weekday n"
proof -
  have "n + 7 * k + 6 = n + 6 + 7 * k" by simp
  then show ?thesis by (simp only: weekday_def mod_mult_self2)
qed

lemma weekday_examples: "weekday (ordinal 2026 7 22) = 2" "ordinal 2026 1 31 = 739647" "year_of 739647 = 2026" "month_of 739647 = 1"
  by code_simp+

end
