(* ===== verification/Recurrence.thy ===== *)
theory Recurrence
  imports Calendar
begin

text \<open>
  The occurrence dates of a meeting series (\<open>services/scheduled_meeting_recurrence.py\<close>): validation
  of the rule, the daily series over business days, the weekly, monthly and yearly series, and the
  move of a weekend date to the preceding Friday.  Labels for people are left out.

  The loops whose step is the interval return \<open>None\<close> when they would not end (an interval below one);
  validation rules that out.
\<close>

section \<open>The rule\<close>

datatype frequency = Daily | Weekly | Monthly | Yearly
datatype monthly_mode = ByDayOfMonth | ByWeekdayPosition
datatype week_day = Monday | Tuesday | Wednesday | Thursday | Friday | Saturday | Sunday
datatype weekday_position = FirstPosition | SecondPosition | ThirdPosition | FourthPosition | LastPosition

fun WEEKDAY_TO_ISO :: "week_day \<Rightarrow> int" where
  "WEEKDAY_TO_ISO Monday = 0"
| "WEEKDAY_TO_ISO Tuesday = 1"
| "WEEKDAY_TO_ISO Wednesday = 2"
| "WEEKDAY_TO_ISO Thursday = 3"
| "WEEKDAY_TO_ISO Friday = 4"
| "WEEKDAY_TO_ISO Saturday = 5"
| "WEEKDAY_TO_ISO Sunday = 6"

record recurrence_input =
  ri_frequency :: frequency
  ri_interval :: int
  ri_time_local :: int
  ri_duration_minutes :: int
  ri_series_start :: int
  ri_series_end :: int
  ri_monthly_mode :: "monthly_mode option"
  ri_day_of_month :: "int option"
  ri_weekday :: "week_day option"
  ri_weekday_position :: "weekday_position option"

datatype recurrence_error =
  BadInterval | EndBeforeStart | WeekdayMissing | MonthlyModeMissing | BadDayOfMonth | PositionMissing

definition validate_recurrence_input :: "recurrence_input \<Rightarrow> recurrence_error option" where
  "validate_recurrence_input data =
     (if ri_interval data < 1 then Some BadInterval
      else if ri_series_end data < ri_series_start data then Some EndBeforeStart
      else (case ri_frequency data of
        Weekly \<Rightarrow> if ri_weekday data = None then Some WeekdayMissing else None
      | Monthly \<Rightarrow>
          (case ri_monthly_mode data of
             None \<Rightarrow> Some MonthlyModeMissing
           | Some ByDayOfMonth \<Rightarrow>
               (case ri_day_of_month data of
                  None \<Rightarrow> Some BadDayOfMonth
                | Some d \<Rightarrow> if 1 \<le> d \<and> d \<le> 31 then None else Some BadDayOfMonth)
           | Some ByWeekdayPosition \<Rightarrow>
               if ri_weekday data = None \<or> ri_weekday_position data = None then Some PositionMissing else None)
      | _ \<Rightarrow> None))"

definition default_series_end_date :: "int option \<Rightarrow> int \<Rightarrow> int" where
  "default_series_end_date year today =
     ordinal (case year of Some y \<Rightarrow> y | None \<Rightarrow> year_of today) 12 31"

section \<open>Days\<close>

function first_weekday_on_or_after :: "int \<Rightarrow> int" where
  "first_weekday_on_or_after current =
     (if is_weekend current then first_weekday_on_or_after (current + 1) else current)"
  by auto
termination
proof (relation "measure (\<lambda>v. if is_weekend v then nat (7 - weekday v) else 0)", goal_cases)
  case (2 current)
  then have "is_weekend (current + 1) \<Longrightarrow> weekday (current + 1) = weekday current + 1"
    by (simp add: is_weekend_def weekday_next split: if_splits)
  with 2 weekday_range[of current] show ?case by (auto simp: is_weekend_def)
qed simp

declare first_weekday_on_or_after.simps [simp del]

definition adjust_weekend_to_preceding_weekday :: "int \<Rightarrow> int" where
  "adjust_weekend_to_preceding_weekday v =
     (if weekday v = 5 then v - 1 else if weekday v = 6 then v - 2 else v)"

function business_loop :: "int \<Rightarrow> int \<Rightarrow> int \<Rightarrow> int" where
  "business_loop v current index =
     (if current < v then business_loop v (current + 1) (if is_weekend (current + 1) then index else index + 1)
      else index)"
  by auto
termination by (relation "measure (\<lambda>(v, current, index). nat (v - current))") auto

declare business_loop.simps [simp del]

definition business_day_index :: "int \<Rightarrow> int \<Rightarrow> int" where
  "business_day_index anchor v = (if v < anchor then - 1 else business_loop v anchor 0)"

definition clamp_day_of_month :: "int \<Rightarrow> int \<Rightarrow> int \<Rightarrow> int" where
  "clamp_day_of_month year month d = ordinal year month (min d (days_in_month year month))"

definition weekday_dates_in_month :: "int \<Rightarrow> int \<Rightarrow> week_day \<Rightarrow> int list" where
  "weekday_dates_in_month year month wd =
     filter (\<lambda>current. weekday current = WEEKDAY_TO_ISO wd)
       (map (ordinal year month) [1..days_in_month year month])"

fun position_index :: "weekday_position \<Rightarrow> nat option" where
  "position_index FirstPosition = Some 0"
| "position_index SecondPosition = Some 1"
| "position_index ThirdPosition = Some 2"
| "position_index FourthPosition = Some 3"
| "position_index LastPosition = None"

definition monthly_weekday_position_date ::
  "int \<Rightarrow> int \<Rightarrow> week_day \<Rightarrow> weekday_position \<Rightarrow> int option" where
  "monthly_weekday_position_date year month wd position =
     (let matches = weekday_dates_in_month year month wd in
      if matches = [] then None
      else if position = LastPosition then Some (last matches)
      else (case position_index position of
              None \<Rightarrow> None
            | Some i \<Rightarrow> if length matches \<le> i then None else Some (matches ! i)))"

section \<open>Occurrences\<close>

definition append_adjusted_occurrence :: "int list \<Rightarrow> int \<Rightarrow> int \<Rightarrow> int \<Rightarrow> int list" where
  "append_adjusted_occurrence dates raw range_start range_end =
     (let adjusted = adjust_weekend_to_preceding_weekday raw in
      if range_start \<le> raw \<and> raw \<le> range_end \<or> range_start \<le> adjusted \<and> adjusted \<le> range_end
      then dates @ [adjusted] else dates)"

definition dedupe_sorted_dates :: "int list \<Rightarrow> int list" where
  "dedupe_sorted_dates dates = sort (uniq dates)"

function daily_loop :: "int \<Rightarrow> int \<Rightarrow> int \<Rightarrow> int \<Rightarrow> int list \<Rightarrow> int list" where
  "daily_loop anchor interval stop current dates =
     (if current \<le> stop then
        daily_loop anchor interval stop (current + 1)
          (if \<not> is_weekend current \<and> 0 \<le> business_day_index anchor current \<and>
              business_day_index anchor current mod interval = 0
           then dates @ [current] else dates)
      else dates)"
  by auto
termination by (relation "measure (\<lambda>(anchor, interval, stop, current, dates). nat (stop + 1 - current))") auto

declare daily_loop.simps [simp del]

text \<open>The next day of the given weekday; the bounded search gives up behind the end.\<close>

definition days_until :: "week_day \<Rightarrow> int \<Rightarrow> nat" where
  "days_until wd current = nat ((WEEKDAY_TO_ISO wd - weekday current) mod 7)"

lemma days_until_next:
  assumes "weekday current \<noteq> WEEKDAY_TO_ISO wd"
  shows "days_until wd current = Suc (days_until wd (current + 1))"
proof -
  show ?thesis using weekday_cases[of current] assms unfolding days_until_def weekday_next
    by (cases wd) auto
qed

function next_weekday :: "week_day \<Rightarrow> int \<Rightarrow> int" where
  "next_weekday wd anchor =
     (if weekday anchor \<noteq> WEEKDAY_TO_ISO wd then next_weekday wd (anchor + 1) else anchor)"
  by auto
termination by (relation "measure (\<lambda>(wd, anchor). days_until wd anchor)") (auto simp: days_until_next)

function seek_weekday :: "week_day \<Rightarrow> int \<Rightarrow> int \<Rightarrow> int option" where
  "seek_weekday wd stop current =
     (if weekday current \<noteq> WEEKDAY_TO_ISO wd then
        (if stop < current + 1 then None else seek_weekday wd stop (current + 1))
      else Some current)"
  by auto
termination by (relation "measure (\<lambda>(wd, stop, current). days_until wd current)") (auto simp: days_until_next)

declare next_weekday.simps [simp del] seek_weekday.simps [simp del]

partial_function (option) weekly_loop :: "int \<Rightarrow> int \<Rightarrow> int \<Rightarrow> int \<Rightarrow> int list \<Rightarrow> int list option" where
  "weekly_loop interval start stop current dates =
     (if current \<le> stop then
        weekly_loop interval start stop (current + 7 * interval) (append_adjusted_occurrence dates current start stop)
      else Some dates)"

definition month_occurrence :: "recurrence_input \<Rightarrow> int \<Rightarrow> int \<Rightarrow> int option" where
  "month_occurrence data year month =
     (case ri_monthly_mode data of
        Some ByDayOfMonth \<Rightarrow>
          Some (clamp_day_of_month year month
            (case ri_day_of_month data of Some d \<Rightarrow> if d = 0 then 1 else d | None \<Rightarrow> 1))
      | Some ByWeekdayPosition \<Rightarrow>
          (case (ri_weekday data, ri_weekday_position data) of
             (Some wd, Some position) \<Rightarrow> monthly_weekday_position_date year month wd position
           | _ \<Rightarrow> None)
      | None \<Rightarrow> None)"

text \<open>The cursor is the first day of a month, compared as a date: by year, then by month.\<close>

function month_loop ::
  "recurrence_input \<Rightarrow> int \<Rightarrow> int \<Rightarrow> int \<Rightarrow> int \<Rightarrow> int list \<Rightarrow> int list" where
  "month_loop data start stop year month dates =
     (if year < year_of stop \<or> year = year_of stop \<and> month \<le> month_of stop then
        (let months = (year - year_of (ri_series_start data)) * 12 + (month - month_of (ri_series_start data));
             occurrence = (if 0 \<le> months \<and> months mod ri_interval data = 0
                           then month_occurrence data year month else None);
             dates1 = (case occurrence of None \<Rightarrow> dates | Some r \<Rightarrow> append_adjusted_occurrence dates r start stop)
         in if month = 12 then month_loop data start stop (year + 1) 1 dates1
            else if 1 \<le> month \<and> month < 12 then month_loop data start stop year (month + 1) dates1
            else dates1)
      else dates)"
  by auto
termination
proof (relation "measure (\<lambda>(data, start, stop, year, month, dates). nat (12 * year_of stop + 12 - (12 * year + month) + 1))",
    goal_cases)
  case (3 data start stop year month)
  then show ?case using date_fields[of stop] by auto
qed (use date_fields in \<open>auto\<close>)

declare month_loop.simps [simp del]

definition valid_date :: "int \<Rightarrow> int \<Rightarrow> int \<Rightarrow> bool" where
  "valid_date y m d \<longleftrightarrow> 1 \<le> m \<and> m \<le> 12 \<and> 1 \<le> d \<and> d \<le> days_in_month y m"

definition year_occurrence :: "recurrence_input \<Rightarrow> int \<Rightarrow> int" where
  "year_occurrence data year =
     (let m = month_of (ri_series_start data); d = day_of (ri_series_start data)
      in if valid_date year m d then ordinal year m d else clamp_day_of_month year m d)"

function year_loop :: "recurrence_input \<Rightarrow> int \<Rightarrow> int \<Rightarrow> int \<Rightarrow> int list \<Rightarrow> int list" where
  "year_loop data start stop year dates =
     (if year \<le> year_of stop then
        (let years = year - year_of (ri_series_start data)
         in year_loop data start stop (year + 1)
              (if 0 \<le> years \<and> years mod ri_interval data = 0
               then append_adjusted_occurrence dates (year_occurrence data year) start stop else dates))
      else dates)"
  by auto
termination by (relation "measure (\<lambda>(data, start, stop, year, dates). nat (year_of stop + 1 - year))") auto

declare year_loop.simps [simp del]

definition weekly_dates :: "recurrence_input \<Rightarrow> week_day \<Rightarrow> int \<Rightarrow> int \<Rightarrow> int list option" where
  "weekly_dates data wd start stop =
     (case seek_weekday wd stop start of
        None \<Rightarrow> Some []
      | Some current \<Rightarrow>
          (let anchor = next_weekday wd (ri_series_start data);
               remainder = ((current - anchor) div 7) mod ri_interval data;
               first = (if anchor \<le> current \<and> remainder \<noteq> 0
                        then current + (ri_interval data - remainder) * 7 else current)
           in map_option dedupe_sorted_dates (weekly_loop (ri_interval data) start stop first [])))"

definition daily_dates :: "recurrence_input \<Rightarrow> int \<Rightarrow> int \<Rightarrow> int list" where
  "daily_dates data start stop =
     (let anchor = first_weekday_on_or_after (ri_series_start data);
          current = max start anchor;
          first = (if is_weekend current then first_weekday_on_or_after current else current)
      in daily_loop anchor (ri_interval data) stop first [])"

definition iter_occurrence_dates ::
  "recurrence_input \<Rightarrow> int option \<Rightarrow> int option \<Rightarrow> (recurrence_error + int list) option" where
  "iter_occurrence_dates data range_start range_end =
     (case validate_recurrence_input data of
        Some e \<Rightarrow> Some (Inl e)
      | None \<Rightarrow>
          (let start = max (ri_series_start data) (case range_start of Some s \<Rightarrow> s | None \<Rightarrow> ri_series_start data);
               stop = min (ri_series_end data) (case range_end of Some e \<Rightarrow> e | None \<Rightarrow> ri_series_end data)
           in if stop < start then Some (Inr [])
              else (case ri_frequency data of
                Daily \<Rightarrow> Some (Inr (daily_dates data start stop))
              | Weekly \<Rightarrow>
                  (case ri_weekday data of
                     None \<Rightarrow> Some (Inr [])
                   | Some wd \<Rightarrow> map_option Inr (weekly_dates data wd start stop))
              | Monthly \<Rightarrow> Some (Inr (dedupe_sorted_dates
                  (month_loop data start stop (year_of start) (month_of start) [])))
              | Yearly \<Rightarrow> Some (Inr (dedupe_sorted_dates (year_loop data start stop (year_of start) []))))))"

section \<open>Facts\<close>

lemma adjust_facts:
  "\<not> is_weekend (adjust_weekend_to_preceding_weekday v)"
  "v - 2 \<le> adjust_weekend_to_preceding_weekday v" "adjust_weekend_to_preceding_weekday v \<le> v"
  "\<not> is_weekend v \<Longrightarrow> adjust_weekend_to_preceding_weekday v = v"
  using weekday_next[of "v - 1"] weekday_next[of "v - 2"] weekday_cases[of "v - 2"]
  by (auto simp: adjust_weekend_to_preceding_weekday_def is_weekend_def split: if_splits)

lemma set_append_adjusted:
  "set (append_adjusted_occurrence dates raw start stop) = set dates \<union>
     (if start \<le> raw \<and> raw \<le> stop \<or> start \<le> adjust_weekend_to_preceding_weekday raw \<and>
         adjust_weekend_to_preceding_weekday raw \<le> stop
      then {adjust_weekend_to_preceding_weekday raw} else {})"
  by (auto simp: append_adjusted_occurrence_def Let_def)

lemma dedupe_facts [simp]:
  "set (dedupe_sorted_dates dates) = set dates" "sorted (dedupe_sorted_dates dates)"
  "distinct (dedupe_sorted_dates dates)"
  by (simp_all add: dedupe_sorted_dates_def)

lemma first_weekday_facts:
  "v \<le> first_weekday_on_or_after v \<and> \<not> is_weekend (first_weekday_on_or_after v) \<and>
   (\<forall>x. v \<le> x \<and> x < first_weekday_on_or_after v \<longrightarrow> is_weekend x)"
proof (induction v rule: first_weekday_on_or_after.induct)
  case (1 v)
  show ?case
  proof (cases "is_weekend v")
    case True
    have x: "v \<le> x \<longleftrightarrow> x = v \<or> v + 1 \<le> x" for x by auto
    from True 1 first_weekday_on_or_after.simps[of v] show ?thesis by (auto simp: x)
  next
    case False
    then show ?thesis using first_weekday_on_or_after.simps[of v] by auto
  qed
qed

text \<open>The business days after the anchor, up to the date.\<close>

definition business_days :: "int \<Rightarrow> int \<Rightarrow> int set" where
  "business_days anchor v = {x. anchor < x \<and> x \<le> v \<and> \<not> is_weekend x}"

lemma business_loop_counts: "current \<le> v \<Longrightarrow> business_loop v current index = index + int (card (business_days current v))"
proof (induction v current index rule: business_loop.induct)
  case (1 v current index)
  show ?case
  proof (cases "current < v")
    case True
    have f: "finite (business_days (current + 1) v)"
      by (rule finite_subset[of _ "{current + 1..v}"]) (auto simp: business_days_def)
    have s: "business_days current v =
        (if is_weekend (current + 1) then business_days (current + 1) v else insert (current + 1) (business_days (current + 1) v))"
      using True by (auto simp: business_days_def) (metis add1_zle_eq le_less)+
    have "current + 1 \<notin> business_days (current + 1) v" by (simp add: business_days_def)
    with 1 True f s business_loop.simps[of v current index] show ?thesis by (simp split: if_splits)
  next
    case False
    with 1(2) have "business_days current v = {}" by (auto simp: business_days_def)
    with False business_loop.simps[of v current index] show ?thesis by simp
  qed
qed

lemma daily_loop_filter:
  "daily_loop anchor interval stop current dates = dates @
     filter (\<lambda>d. \<not> is_weekend d \<and> 0 \<le> business_day_index anchor d \<and> business_day_index anchor d mod interval = 0)
       [current..stop]"
proof (induction anchor interval stop current dates rule: daily_loop.induct)
  case (1 anchor interval stop current dates)
  then show ?case using daily_loop.simps[of anchor interval stop current dates] upto.simps[of current stop]
    by (cases "current \<le> stop") (auto split: if_splits)
qed

lemma daily_dates_set:
  assumes "1 \<le> ri_interval data"
  shows "set (daily_dates data start stop) =
    {d. start \<le> d \<and> d \<le> stop \<and> \<not> is_weekend d \<and> ri_series_start data \<le> d \<and>
        int (card (business_days (first_weekday_on_or_after (ri_series_start data)) d)) mod ri_interval data = 0}"
    "sorted (daily_dates data start stop)" "distinct (daily_dates data start stop)"
proof -
  let ?a = "first_weekday_on_or_after (ri_series_start data)"
  let ?c = "max start ?a"
  let ?f = "if is_weekend ?c then first_weekday_on_or_after ?c else ?c"
  have d: "daily_dates data start stop = filter (\<lambda>d. \<not> is_weekend d \<and> 0 \<le> business_day_index ?a d \<and>
      business_day_index ?a d mod ri_interval data = 0) [?f..stop]"
    by (simp add: daily_dates_def daily_loop_filter Let_def)
  have f: "\<not> is_weekend d \<Longrightarrow> ?f \<le> d \<longleftrightarrow> start \<le> d \<and> ?a \<le> d" for d
    using first_weekday_facts[of ?c] by (auto simp: not_le)
  have g: "\<not> is_weekend d \<Longrightarrow> ?a \<le> d \<longleftrightarrow> ri_series_start data \<le> d" for d
    using first_weekday_facts[of "ri_series_start data"] by (meson linorder_not_less order_trans)
  have b: "?a \<le> d \<Longrightarrow> business_day_index ?a d = int (card (business_days ?a d))" for d
    by (simp add: business_day_index_def business_loop_counts)
  show "set (daily_dates data start stop) =
    {d. start \<le> d \<and> d \<le> stop \<and> \<not> is_weekend d \<and> ri_series_start data \<le> d \<and>
        int (card (business_days ?a d)) mod ri_interval data = 0}"
    unfolding d using f g b by (auto simp del: max.bounded_iff)
  show "sorted (daily_dates data start stop)" "distinct (daily_dates data start stop)"
    unfolding d by (simp_all add: sorted_wrt_filter sorted_upto)
qed

text \<open>The next day of a weekday, and the first one of the series at or after the start.\<close>

lemma next_weekday_facts:
  "weekday (next_weekday wd v) = WEEKDAY_TO_ISO wd \<and> v \<le> next_weekday wd v \<and>
   (\<forall>x. v \<le> x \<and> weekday x = WEEKDAY_TO_ISO wd \<longrightarrow> next_weekday wd v \<le> x)"
proof (induction wd v rule: next_weekday.induct)
  case (1 wd v)
  have x: "v \<le> x \<longleftrightarrow> x = v \<or> v + 1 \<le> x" for x by auto
  from 1 next_weekday.simps[of wd v] show ?case by (auto simp: x)
qed

lemma seek_weekday_next:
  "v \<le> stop \<Longrightarrow> seek_weekday wd stop v =
     (if next_weekday wd v \<le> stop then Some (next_weekday wd v) else None)"
proof (induction wd stop v rule: seek_weekday.induct)
  case (1 wd stop v)
  show ?case
  proof (cases "weekday v = WEEKDAY_TO_ISO wd")
    case True
    with 1 show ?thesis using seek_weekday.simps[of wd stop v] next_weekday.simps[of wd v] by simp
  next
    case False
    have "v + 1 \<le> next_weekday wd (v + 1)" using next_weekday_facts by blast
    with False 1 show ?thesis using seek_weekday.simps[of wd stop v] next_weekday.simps[of wd v] by auto
  qed
qed

lemma same_weekday_dvd:
  assumes "weekday a = weekday b"
  shows "(7::int) dvd b - a"
proof -
  have "(b + 6 - (a + 6)) mod 7 = 0" using assms unfolding weekday_def by (metis mod_eq_dvd_iff mod_eq_0_iff_dvd)
  then show ?thesis by (simp add: mod_eq_0_iff_dvd)
qed

lemma weekly_loop_set:
  assumes "1 \<le> interval" "start \<le> current"
  shows "\<exists>ds. weekly_loop interval start stop current dates = Some ds \<and>
    set ds = set dates \<union> {d. \<exists>k \<ge> 0. current + 7 * interval * k \<le> stop \<and>
      d = adjust_weekend_to_preceding_weekday (current + 7 * interval * k)}"
  using assms(2)
proof (induction "nat (stop + 1 - current)" arbitrary: current dates rule: less_induct)
  case less
  show ?case
  proof (cases "current \<le> stop")
    case False
    have "\<not> current + 7 * interval * k \<le> stop" if "0 \<le> k" for k
    proof -
      have "0 \<le> 7 * interval * k" using assms that by simp
      with False show ?thesis by linarith
    qed
    with False show ?thesis by (subst weekly_loop.simps) auto
  next
    case True
    let ?n = "current + 7 * interval" let ?d = "append_adjusted_occurrence dates current start stop"
    have "nat (stop + 1 - ?n) < nat (stop + 1 - current)" "start \<le> ?n" using True assms(1) less(2) by auto
    from less(1)[OF this] obtain ds where
      ds: "weekly_loop interval start stop ?n ?d = Some ds"
        "set ds = set ?d \<union> {d. \<exists>k \<ge> 0. ?n + 7 * interval * k \<le> stop \<and>
          d = adjust_weekend_to_preceding_weekday (?n + 7 * interval * k)}" by blast
    have split: "(\<exists>k \<ge> 0. P (current + 7 * interval * k)) \<longleftrightarrow> P current \<or> (\<exists>k \<ge> 0. P (?n + 7 * interval * k))" for P
    proof
      assume "\<exists>k \<ge> 0. P (current + 7 * interval * k)"
      then obtain k where k: "0 \<le> k" "P (current + 7 * interval * k)" by blast
      show "P current \<or> (\<exists>k \<ge> 0. P (?n + 7 * interval * k))"
      proof (cases "k = 0")
        case False
        with k show ?thesis by (intro disjI2 exI[of _ "k - 1"]) (simp add: algebra_simps)
      qed (use k in simp)
    next
      assume "P current \<or> (\<exists>k \<ge> 0. P (?n + 7 * interval * k))"
      then show "\<exists>k \<ge> 0. P (current + 7 * interval * k)"
      proof
        assume "P current"
        then show ?thesis by (intro exI[of _ 0]) simp
      next
        assume "\<exists>k \<ge> 0. P (?n + 7 * interval * k)"
        then obtain k where "0 \<le> k" "P (?n + 7 * interval * k)" by blast
        then show ?thesis by (intro exI[of _ "k + 1"]) (simp add: algebra_simps)
      qed
    qed
    show ?thesis
      using True ds less(2) split[of "\<lambda>r. r \<le> stop \<and> d = adjust_weekend_to_preceding_weekday r" for d]
      by (subst weekly_loop.simps) (auto simp: set_append_adjusted)
  qed
qed

text \<open>The first day of the series in the window is the least multiple of the interval at or after the window.\<close>

lemma weekly_first:
  fixes a c i first :: int
  assumes "1 \<le> i" "a \<le> c" "7 dvd c - a"
    and first: "first = (if ((c - a) div 7) mod i \<noteq> 0 then c + (i - ((c - a) div 7) mod i) * 7 else c)"
  shows "(\<exists>k \<ge> 0. r = first + 7 * i * k) \<longleftrightarrow> c \<le> r \<and> (\<exists>j \<ge> 0. r = a + 7 * i * j)"
proof -
  define w where "w = (c - a) div 7"
  define q m where "q = w div i" and "m = w mod i"
  have c: "c = a + 7 * w" using assms(3) by (simp add: w_def)
  have w0: "0 \<le> w" using assms(2) c by simp
  have w: "w = i * q + m" "0 \<le> m" "m < i" using assms(1) by (simp_all add: q_def m_def)
  have q0: "0 \<le> q" using w0 assms(1) by (simp add: q_def pos_imp_zdiv_nonneg_iff)
  define t where "t = (if m \<noteq> 0 then q + 1 else q)"
  have f: "first = a + 7 * i * t" unfolding first w_def[symmetric] m_def[symmetric]
    by (simp add: t_def c w(1) algebra_simps)
  have least: "c \<le> a + 7 * i * j \<longleftrightarrow> t \<le> j" for j
  proof -
    have "c \<le> a + 7 * i * j \<longleftrightarrow> i * q + m \<le> i * j" by (simp add: c w(1)) linarith
    also have "\<dots> \<longleftrightarrow> t \<le> j"
    proof
      assume l: "i * q + m \<le> i * j"
      show "t \<le> j"
      proof (cases "m = 0")
        case True
        with l assms(1) show ?thesis by (simp add: t_def)
      next
        case False
        with l w(2) have "i * q < i * j" by linarith
        with assms(1) False show ?thesis by (simp add: t_def mult_less_cancel_left)
      qed
    next
      assume "t \<le> j"
      then have "i * t \<le> i * j" using assms(1) by (simp add: mult_left_mono)
      moreover have "i * t = (if m \<noteq> 0 then i * q + i else i * q)" by (simp add: t_def distrib_left)
      ultimately show "i * q + m \<le> i * j" using w by (simp split: if_splits)
    qed
    finally show ?thesis .
  qed
  show ?thesis
  proof
    assume "\<exists>k \<ge> 0. r = first + 7 * i * k"
    then obtain k where k: "0 \<le> k" "r = first + 7 * i * k" by blast
    then have r: "r = a + 7 * i * (t + k)" by (simp add: f algebra_simps)
    moreover have "0 \<le> t" using q0 by (simp add: t_def)
    ultimately show "c \<le> r \<and> (\<exists>j \<ge> 0. r = a + 7 * i * j)"
      using k(1) least[of "t + k"] by (intro conjI exI[of _ "t + k"]) simp_all
  next
    assume "c \<le> r \<and> (\<exists>j \<ge> 0. r = a + 7 * i * j)"
    then obtain j where j: "c \<le> r" "r = a + 7 * i * j" by blast
    with least have "t \<le> j" by simp
    then show "\<exists>k \<ge> 0. r = first + 7 * i * k"
      by (intro exI[of _ "j - t"]) (simp add: f j(2) algebra_simps)
  qed
qed

lemma weekly_dates_set:
  assumes "1 \<le> ri_interval data" "ri_series_start data \<le> start" "start \<le> stop"
  shows "\<exists>ds. weekly_dates data wd start stop = Some ds \<and> sorted ds \<and> distinct ds \<and>
    set ds = {d. \<exists>r. start \<le> r \<and> r \<le> stop \<and>
      (\<exists>j \<ge> 0. r = next_weekday wd (ri_series_start data) + 7 * ri_interval data * j) \<and>
      d = adjust_weekend_to_preceding_weekday r}"
proof -
  let ?i = "ri_interval data" let ?a = "next_weekday wd (ri_series_start data)" let ?c = "next_weekday wd start"
  have wa: "weekday ?a = WEEKDAY_TO_ISO wd" and wc: "weekday ?c = WEEKDAY_TO_ISO wd" "start \<le> ?c"
    and least: "\<And>x. start \<le> x \<Longrightarrow> weekday x = WEEKDAY_TO_ISO wd \<Longrightarrow> ?c \<le> x"
    using next_weekday_facts by blast+
  have ac: "?a \<le> ?c" using next_weekday_facts[of wd "ri_series_start data"] wc assms(2) by simp
  have on: "start \<le> r \<longleftrightarrow> ?c \<le> r" if "r = ?a + 7 * ?i * j" for r j
    using least[of r] wc(2) wa weekday_add[of ?a "?i * j"] that by (auto simp: mult.assoc)
  show ?thesis
  proof (cases "?c \<le> stop")
    case False
    then have "{d. \<exists>r. start \<le> r \<and> r \<le> stop \<and> (\<exists>j \<ge> 0. r = ?a + 7 * ?i * j) \<and>
      d = adjust_weekend_to_preceding_weekday r} = {}"
      using on by fastforce
    with False show ?thesis using seek_weekday_next[OF assms(3), of wd] by (simp add: weekly_dates_def)
  next
    case True
    define first where "first = (if ((?c - ?a) div 7) mod ?i \<noteq> 0 then ?c + (?i - ((?c - ?a) div 7) mod ?i) * 7 else ?c)"
    note F = weekly_first[OF assms(1) ac same_weekday_dvd first_def]
    have "((?c - ?a) div 7) mod ?i < ?i" using assms(1) by simp
    then have "start \<le> first" using wc(2) by (simp add: first_def split: if_split)
    from weekly_loop_set[OF assms(1) this, of stop "[]"] obtain ds where
      ds: "weekly_loop ?i start stop first [] = Some ds"
        "set ds = {d. \<exists>k \<ge> 0. first + 7 * ?i * k \<le> stop \<and> d = adjust_weekend_to_preceding_weekday (first + 7 * ?i * k)}"
      by auto
    have "weekly_dates data wd start stop = Some (dedupe_sorted_dates ds)"
      using True seek_weekday_next[OF assms(3), of wd] ac ds(1)
      by (simp add: weekly_dates_def Let_def first_def)
    moreover have "set ds = {d. \<exists>r. start \<le> r \<and> r \<le> stop \<and> (\<exists>j \<ge> 0. r = ?a + 7 * ?i * j) \<and>
      d = adjust_weekend_to_preceding_weekday r}"
      unfolding ds(2) using F wa wc(1) on by auto (metis+)
    ultimately show ?thesis by simp
  qed
qed

text \<open>A raw date of a series counts when it, or the weekday it moves to, lies in the window.\<close>

definition in_window :: "int \<Rightarrow> int \<Rightarrow> int \<Rightarrow> bool" where
  "in_window start stop r \<longleftrightarrow> start \<le> r \<and> r \<le> stop \<or>
     start \<le> adjust_weekend_to_preceding_weekday r \<and> adjust_weekend_to_preceding_weekday r \<le> stop"

lemma set_append_window:
  "set (append_adjusted_occurrence dates r start stop) =
   set dates \<union> {d. in_window start stop r \<and> d = adjust_weekend_to_preceding_weekday r}"
  by (auto simp: set_append_adjusted in_window_def)

definition months_since :: "recurrence_input \<Rightarrow> int \<Rightarrow> int \<Rightarrow> int" where
  "months_since data y m = (y - year_of (ri_series_start data)) * 12 + (m - month_of (ri_series_start data))"

definition month_hit :: "recurrence_input \<Rightarrow> int \<Rightarrow> int \<Rightarrow> int \<Rightarrow> int \<Rightarrow> int \<Rightarrow> bool" where
  "month_hit data start stop y m d \<longleftrightarrow> 0 \<le> months_since data y m \<and> months_since data y m mod ri_interval data = 0 \<and>
     (\<exists>r. month_occurrence data y m = Some r \<and> in_window start stop r \<and> d = adjust_weekend_to_preceding_weekday r)"

lemma month_code_unique:
  fixes y year m month :: int
  assumes "12 * year + month = 12 * y + m" "1 \<le> m" "m \<le> 12" "1 \<le> month" "month \<le> 12"
  shows "y = year \<and> m = month"
proof -
  consider "year \<le> y - 1" | "y + 1 \<le> year" | "y = year" by linarith
  then show ?thesis using assms by cases linarith+
qed

lemma ex_first:
  assumes "\<And>y m. A y m \<longleftrightarrow> y = a \<and> m = b \<or> B y m" "C a b"
  shows "(\<exists>y m. A y m \<and> C y m \<and> H y m) \<longleftrightarrow> H a b \<or> (\<exists>y m. B y m \<and> C y m \<and> H y m)"
  using assms by auto

lemma month_loop_set:
  assumes "1 \<le> month" "month \<le> 12"
  shows "set (month_loop data start stop year month dates) = set dates \<union>
    {d. \<exists>y m. 1 \<le> m \<and> m \<le> 12 \<and> 12 * year + month \<le> 12 * y + m \<and>
       12 * y + m \<le> 12 * year_of stop + month_of stop \<and> month_hit data start stop y m d}"
  using assms
proof (induction "nat (12 * year_of stop + 12 - (12 * year + month) + 1)" arbitrary: year month dates rule: less_induct)
  case less
  have lex: "year < year_of stop \<or> year = year_of stop \<and> month \<le> month_of stop \<longleftrightarrow>
      12 * year + month \<le> 12 * year_of stop + month_of stop"
    using less.prems date_fields[of stop] by auto
  show ?case
  proof (cases "12 * year + month \<le> 12 * year_of stop + month_of stop")
    case False
    with lex have "\<not> (year < year_of stop \<or> year = year_of stop \<and> month \<le> month_of stop)" by blast
    then have "month_loop data start stop year month dates = dates" by (subst month_loop.simps) (simp only: if_False)
    with False show ?thesis by auto
  next
    case True
    define dates1 where "dates1 = (case if 0 \<le> months_since data year month \<and> months_since data year month mod ri_interval data = 0
        then month_occurrence data year month else None of
          None \<Rightarrow> dates | Some r \<Rightarrow> append_adjusted_occurrence dates r start stop)"
    have d1: "set dates1 = set dates \<union> {d. month_hit data start stop year month d}"
      by (auto simp: dates1_def month_hit_def set_append_window split: option.splits)
    define y2 m2 where "y2 = (if month = 12 then year + 1 else year)" and "m2 = (if month = 12 then 1 else month + 1)"
    have n: "12 * y2 + m2 = 12 * year + month + 1" "1 \<le> m2" "m2 \<le> 12" using less.prems by (auto simp: y2_def m2_def)
    have step: "month_loop data start stop year month dates = month_loop data start stop y2 m2 dates1"
      using True lex less.prems
      by (subst month_loop.simps) (simp add: y2_def m2_def dates1_def months_since_def Let_def)
    have IH: "set (month_loop data start stop y2 m2 dates1) = set dates1 \<union> {d. \<exists>y m. 1 \<le> m \<and> m \<le> 12 \<and> 12 * y2 + m2 \<le> 12 * y + m \<and>
       12 * y + m \<le> 12 * year_of stop + month_of stop \<and> month_hit data start stop y m d}"
      by (rule less.hyps) (use n True less.prems date_fields[of stop] in auto)
    show ?thesis
    proof -
      have e: "1 \<le> m \<and> m \<le> 12 \<and> 12 * year + month \<le> 12 * y + m \<longleftrightarrow>
          y = year \<and> m = month \<or> 1 \<le> m \<and> m \<le> 12 \<and> 12 * y2 + m2 \<le> 12 * y + m" for y m
        using less.prems n month_code_unique[of year month y m] by (auto simp: le_less)
      have "(\<exists>y m. (1 \<le> m \<and> m \<le> 12 \<and> 12 * year + month \<le> 12 * y + m) \<and>
            12 * y + m \<le> 12 * year_of stop + month_of stop \<and> month_hit data start stop y m d) \<longleftrightarrow>
          month_hit data start stop year month d \<or>
          (\<exists>y m. (1 \<le> m \<and> m \<le> 12 \<and> 12 * y2 + m2 \<le> 12 * y + m) \<and>
            12 * y + m \<le> 12 * year_of stop + month_of stop \<and> month_hit data start stop y m d)" for d
        by (rule ex_first[OF e, where C = "\<lambda>y m. 12 * y + m \<le> 12 * year_of stop + month_of stop"]) (rule True)
      then show ?thesis unfolding step IH d1 conj_assoc by (simp only: Collect_disj_eq Un_assoc)
    qed
  qed
qed

definition year_hit :: "recurrence_input \<Rightarrow> int \<Rightarrow> int \<Rightarrow> int \<Rightarrow> int \<Rightarrow> bool" where
  "year_hit data start stop y d \<longleftrightarrow> year_of (ri_series_start data) \<le> y \<and>
     (y - year_of (ri_series_start data)) mod ri_interval data = 0 \<and>
     in_window start stop (year_occurrence data y) \<and> d = adjust_weekend_to_preceding_weekday (year_occurrence data y)"

lemma year_loop_set:
  "set (year_loop data start stop year dates) = set dates \<union>
    {d. \<exists>y. year \<le> y \<and> y \<le> year_of stop \<and> year_hit data start stop y d}"
proof (induction data start stop year dates rule: year_loop.induct)
  case (1 data start stop year dates)
  show ?case
  proof (cases "year \<le> year_of stop")
    case True
    have e: "year \<le> y \<longleftrightarrow> y = year \<or> year + 1 \<le> y" for y by auto
    from True 1 show ?thesis
      by (subst year_loop.simps) (auto simp: e year_hit_def set_append_window Let_def)
  next
    case False
    then show ?thesis by (subst year_loop.simps) auto
  qed
qed

text \<open>The days of a month that fall on a weekday: the first of them and every seventh day after it.\<close>

lemma weekday_dates_closed:
  "\<exists>f. 1 \<le> f \<and> f \<le> 7 \<and> set (weekday_dates_in_month y m wd) =
     {ordinal y m (f + 7 * i) | i. 0 \<le> i \<and> f + 7 * i \<le> days_in_month y m} \<and>
   sorted_wrt (<) (weekday_dates_in_month y m wd)"
proof -
  define f where "f = next_weekday wd (ordinal y m 1) - ordinal y m 0"
  have o: "ordinal y m d = ordinal y m 0 + d" for d by (simp add: ordinal_def)
  have wf: "weekday (ordinal y m f) = WEEKDAY_TO_ISO wd" "1 \<le> f"
    and least: "\<And>x. ordinal y m 1 \<le> x \<Longrightarrow> weekday x = WEEKDAY_TO_ISO wd \<Longrightarrow> ordinal y m 0 + f \<le> x"
    using next_weekday_facts[of wd "ordinal y m 1"] o[of 1] o[of f] by (auto simp: f_def)
  have seven: "f \<le> 7"
  proof (rule ccontr)
    assume "\<not> f \<le> 7"
    moreover have "weekday (ordinal y m (f - 7)) = WEEKDAY_TO_ISO wd"
      using weekday_add[of "ordinal y m (f - 7)" 1] wf(1) o[of "f - 7"] o[of f] by simp
    ultimately show False using least[of "ordinal y m (f - 7)"] o[of "f - 7"] o[of 1] by simp
  qed
  have mem: "weekday (ordinal y m d) = WEEKDAY_TO_ISO wd \<longleftrightarrow> (\<exists>i \<ge> 0. d = f + 7 * i)" if "1 \<le> d" for d
  proof
    assume w: "weekday (ordinal y m d) = WEEKDAY_TO_ISO wd"
    with least[of "ordinal y m d"] that o[of d] o[of 1] have "f \<le> d" by simp
    moreover have "7 dvd d - f" using same_weekday_dvd[of "ordinal y m f" "ordinal y m d"] w wf(1) o[of d] o[of f] by simp
    then obtain k where "d - f = 7 * k" by (elim dvdE)
    ultimately show "\<exists>i \<ge> 0. d = f + 7 * i" by (intro exI[of _ k]) auto
  next
    assume "\<exists>i \<ge> 0. d = f + 7 * i"
    then obtain i where "d = f + 7 * i" by blast
    then show "weekday (ordinal y m d) = WEEKDAY_TO_ISO wd"
      using weekday_add[of "ordinal y m f" i] wf(1) o[of d] o[of f] by (simp add: add.assoc)
  qed
  have "set (weekday_dates_in_month y m wd) = {ordinal y m (f + 7 * i) | i. 0 \<le> i \<and> f + 7 * i \<le> days_in_month y m}"
    using mem wf(2) by (fastforce simp: weekday_dates_in_month_def)
  moreover have "sorted_wrt (<) (weekday_dates_in_month y m wd)"
  proof -
    have mono: "ordinal y m d < ordinal y m e \<longleftrightarrow> d < e" for d e by (simp add: ordinal_def)
    have "sorted_wrt (<) (map (ordinal y m) [1..days_in_month y m])" by (simp add: sorted_wrt_map mono)
    then show ?thesis unfolding weekday_dates_in_month_def by (rule sorted_wrt_filter)
  qed
  ultimately show ?thesis using wf(2) seven by blast
qed

text \<open>A strictly sorted list with the days of an arithmetic progression is that progression.\<close>

lemma strict_sorted_nth:
  fixes f :: int
  assumes "sorted_wrt (<) xs" "set xs = {g (f + 7 * i) | i. 0 \<le> i \<and> f + 7 * i \<le> L}" "\<And>d e. g d < (g e :: int) \<longleftrightarrow> d < e"
  shows "xs = map (\<lambda>i. g (f + 7 * int i)) [0..<nat ((L - f) div 7 + 1)]"
proof -
  let ?ys = "map (\<lambda>i. g (f + 7 * int i)) [0..<nat ((L - f) div 7 + 1)]"
  have "sorted_wrt (<) ?ys" by (simp add: sorted_wrt_map assms(3))
  moreover have "set ?ys = set xs"
  proof -
    have le: "f + 7 * i \<le> L \<longleftrightarrow> i < (L - f) div 7 + 1" for i by (simp add: zle_add1_eq_le) linarith
    show ?thesis unfolding assms(2)
    proof (intro set_eqI iffI)
      fix d
      assume "d \<in> set ?ys"
      then obtain i where "d = g (f + 7 * int i)" "i < nat ((L - f) div 7 + 1)" by auto
      then show "d \<in> {g (f + 7 * i) | i. 0 \<le> i \<and> f + 7 * i \<le> L}"
        using le[of "int i"] by (intro CollectI exI[of _ "int i"]) auto
    next
      fix d
      assume "d \<in> {g (f + 7 * i) | i. 0 \<le> i \<and> f + 7 * i \<le> L}"
      then obtain i where i: "d = g (f + 7 * i)" "0 \<le> i" "f + 7 * i \<le> L" by blast
      with le[of i] show "d \<in> set ?ys" by (auto simp: image_iff intro!: bexI[of _ "nat i"])
    qed
  qed
  ultimately show ?thesis using assms(1) strict_sorted_equal by blast
qed

section \<open>Properties\<close>

text \<open>
  The dates of a series in a window, declaratively: every \<open>interval\<close>-th business day, the matching
  weekday of every \<open>interval\<close>-th week, the chosen day of every \<open>interval\<close>-th month or year.
\<close>

definition occurs :: "recurrence_input \<Rightarrow> int \<Rightarrow> int \<Rightarrow> int \<Rightarrow> bool" where
  "occurs data start stop d =
     (case ri_frequency data of
        Daily \<Rightarrow> start \<le> d \<and> d \<le> stop \<and> \<not> is_weekend d \<and>
          int (card (business_days (first_weekday_on_or_after (ri_series_start data)) d)) mod ri_interval data = 0
      | Weekly \<Rightarrow> (\<exists>r j. start \<le> r \<and> r \<le> stop \<and> 0 \<le> j \<and>
          r = next_weekday (the (ri_weekday data)) (ri_series_start data) + 7 * ri_interval data * j \<and>
          d = adjust_weekend_to_preceding_weekday r)
      | Monthly \<Rightarrow> (\<exists>y m. 1 \<le> m \<and> m \<le> 12 \<and> 12 * year_of start + month_of start \<le> 12 * y + m \<and>
          12 * y + m \<le> 12 * year_of stop + month_of stop \<and> month_hit data start stop y m d)
      | Yearly \<Rightarrow> (\<exists>y. year_of start \<le> y \<and> y \<le> year_of stop \<and> year_hit data start stop y d))"

lemma occurs_weekday: "occurs data start stop d \<Longrightarrow> \<not> is_weekend d"
  using adjust_facts(1) by (auto simp: occurs_def month_hit_def year_hit_def split: frequency.splits)


definition demo_monthly :: recurrence_input where
  "demo_monthly = \<lparr>ri_frequency = Monthly, ri_interval = 3, ri_time_local = 540, ri_duration_minutes = 60,
     ri_series_start = ordinal 2026 8 1, ri_series_end = ordinal 2026 12 31, ri_monthly_mode = Some ByDayOfMonth,
     ri_day_of_month = Some 1, ri_weekday = None, ri_weekday_position = None\<rparr>"

text \<open>The first occurrence of this series lies before the start of the series.\<close>

lemma demo_monthly_dates:
  "iter_occurrence_dates demo_monthly None None = Some (Inr [ordinal 2026 7 31, ordinal 2026 10 30])"
  by code_simp

lemma demo_monthly_valid: "validate_recurrence_input demo_monthly = None"
  by code_simp


text \<open>
  The date of a weekday position always exists: the first to fourth matching day lies in the first
  to fourth seven days of the month, the last one in its last seven days.
\<close>

lemma position_date_correct:
  "\<exists>r. monthly_weekday_position_date y m wd position = Some r \<and> weekday r = WEEKDAY_TO_ISO wd \<and>
     (\<exists>d. r = ordinal y m d \<and> 1 \<le> d \<and> d \<le> days_in_month y m \<and>
       (case position_index position of Some i \<Rightarrow> 7 * int i < d \<and> d \<le> 7 * int i + 7
        | None \<Rightarrow> days_in_month y m - 7 < d))"
proof -
  let ?L = "days_in_month y m" let ?xs = "weekday_dates_in_month y m wd"
  obtain f where f: "1 \<le> f" "f \<le> 7" "set ?xs = {ordinal y m (f + 7 * i) | i. 0 \<le> i \<and> f + 7 * i \<le> ?L}"
    "sorted_wrt (<) ?xs" using weekday_dates_closed by blast
  let ?n = "nat ((?L - f) div 7 + 1)"
  have xs: "?xs = map (\<lambda>i. ordinal y m (f + 7 * int i)) [0..<?n]"
    by (rule strict_sorted_nth[OF f(4,3)]) (simp add: ordinal_def)
  have n: "4 \<le> ?n" using f(1,2) days_in_month_range[of y m] by linarith
  have wd: "weekday x = WEEKDAY_TO_ISO wd" if "x \<in> set ?xs" for x
    using that by (auto simp: weekday_dates_in_month_def)
  show ?thesis
  proof (cases "position_index position")
    case None
    then have p: "position = LastPosition" by (cases position) auto
    let ?d = "f + 7 * int (?n - 1)"
    have "last ?xs = ordinal y m ?d" "?xs \<noteq> []"
    proof -
      have "N \<noteq> 0 \<Longrightarrow> last (map h [0..<N]) = h (N - 1) \<and> map h [0..<N] \<noteq> []" for h :: "nat \<Rightarrow> int" and N
        by (simp add: last_map)
      from this[of ?n "\<lambda>i. ordinal y m (f + 7 * int i)"] n
      show "last ?xs = ordinal y m ?d" "?xs \<noteq> []" unfolding xs by linarith+
    qed
    moreover have "1 \<le> ?d" "?d \<le> ?L" "?L - 7 < ?d" using n f(1) by linarith+
    ultimately show ?thesis using p wd[OF last_in_set]
      by (auto simp: monthly_weekday_position_date_def Let_def intro!: exI[of _ ?d])
  next
    case (Some i)
    then have p: "position \<noteq> LastPosition" and i: "i \<le> 3" by (cases position; auto)+
    let ?d = "f + 7 * int i"
    have nth: "?xs ! i = ordinal y m ?d" "i < length ?xs" using xs n i by simp_all
    moreover have "?d \<le> ?L" using days_in_month_range[of y m] f(2) i by linarith
    moreover have "?xs \<noteq> []" using nth(2) by auto
    ultimately show ?thesis using p Some wd[OF nth_mem[OF nth(2)]] f(1,2)
      by (auto simp: monthly_weekday_position_date_def Let_def intro!: exI[of _ ?d])
  qed
qed

end
