(* ===== verification/Iso_Time.thy ===== *)
theory Iso_Time
  imports Calendar Json
begin

text \<open>
  Instants as texts: \<open>datetime.isoformat()\<close> of an instant in UTC and \<open>datetime.fromisoformat\<close> of the
  extended forms (a date, or a date, any separator and a time with optional seconds, fraction and
  offset), as the services write and read them.  An instant is the number of microseconds since the
  epoch; a text without offset gives wall-clock time.  \<open>parse_1c_datetime\<close>
  (\<open>agents/procurement_agent/source_discovery.py\<close>) reads what 1C sends: wall-clock time of Moscow, three
  hours ahead of UTC (the offset since October 2014; older dates lie outside the window the documents
  are taken from).
\<close>

section \<open>Digits\<close>

fun pad :: "nat \<Rightarrow> nat \<Rightarrow> string" where
  "pad 0 n = []"
| "pad (Suc w) n = pad w (n div 10) @ [char_of (48 + n mod 10)]"

fun read_num :: "nat \<Rightarrow> nat \<Rightarrow> string \<Rightarrow> (nat \<times> string) option" where
  "read_num 0 acc s = Some (acc, s)"
| "read_num (Suc w) acc [] = None"
| "read_num (Suc w) acc (c # cs) =
     (case digit_value c of None \<Rightarrow> None | Some d \<Rightarrow> read_num w (10 * acc + d) cs)"

definition expect :: "char \<Rightarrow> string \<Rightarrow> string option" where
  "expect c s = (case s of [] \<Rightarrow> None | d # ds \<Rightarrow> if d = c then Some ds else None)"

section \<open>Writing\<close>

definition US_PER_DAY :: int where "US_PER_DAY = 86400000000"
definition EPOCH_ORDINAL :: int where "EPOCH_ORDINAL = 719163"

definition iso_date :: "int \<Rightarrow> string" where
  "iso_date n = pad 4 (nat (year_of n)) @ ''-'' @ pad 2 (nat (month_of n)) @ ''-'' @ pad 2 (nat (day_of n))"

definition iso_clock :: "nat \<Rightarrow> string" where
  "iso_clock us =
     (let s = us div 1000000; f = us mod 1000000
      in pad 2 (s div 3600) @ '':'' @ pad 2 (s div 60 mod 60) @ '':'' @ pad 2 (s mod 60) @
         (if f = 0 then [] else ''.'' @ pad 6 f))"

definition instant_date :: "int \<Rightarrow> int" where
  "instant_date t = t div US_PER_DAY + EPOCH_ORDINAL"

definition isoformat :: "int \<Rightarrow> string" where
  "isoformat t = iso_date (instant_date t) @ ''T'' @ iso_clock (nat (t mod US_PER_DAY)) @ ''+00:00''"

section \<open>Reading\<close>

definition read_date :: "string \<Rightarrow> (int \<times> string) option" where
  "read_date s = do {
     (y, s) \<leftarrow> read_num 4 0 s; s \<leftarrow> expect (CHR ''-'') s;
     (m, s) \<leftarrow> read_num 2 0 s; s \<leftarrow> expect (CHR ''-'') s;
     (d, s) \<leftarrow> read_num 2 0 s;
     if 1 \<le> y \<and> 1 \<le> m \<and> m \<le> 12 \<and> 1 \<le> d \<and> int d \<le> days_in_month (int y) (int m)
     then Some (ordinal (int y) (int m) (int d), s) else None}"

text \<open>Digits after the point count to the microsecond; further ones are cut off.\<close>

definition read_fraction :: "string \<Rightarrow> (nat \<times> string) option" where
  "read_fraction s =
     (case s of
        c # cs \<Rightarrow>
          if c = CHR ''.'' then
            (let ds = takeWhile (\<lambda>x. digit_value x \<noteq> None) cs
             in if ds = [] then None
                else map_option (\<lambda>(n, r). (n, drop (length ds) cs)) (read_num 6 0 (take 6 (ds @ ''000000''))))
          else Some (0, s)
      | [] \<Rightarrow> Some (0, s))"

definition read_clock :: "string \<Rightarrow> (nat \<times> string) option" where
  "read_clock s = do {
     (h, s) \<leftarrow> read_num 2 0 s; s \<leftarrow> expect (CHR '':'') s; (m, s) \<leftarrow> read_num 2 0 s;
     (sec, s) \<leftarrow> (case expect (CHR '':'') s of None \<Rightarrow> Some (0, s) | Some r \<Rightarrow> read_num 2 0 r);
     (f, s) \<leftarrow> read_fraction s;
     if h < 24 \<and> m < 60 \<and> sec < 60 then Some ((h * 3600 + m * 60 + sec) * 1000000 + f, s) else None}"

text \<open>The offset from UTC in microseconds, \<open>None\<close> inside for a naive text.\<close>

definition read_offset :: "string \<Rightarrow> int option option" where
  "read_offset s =
     (if s = [] then Some None
      else if s = ''Z'' then Some (Some 0)
      else do {
        (h, r) \<leftarrow> read_num 2 0 (tl s); r \<leftarrow> expect (CHR '':'') r; (m, r) \<leftarrow> read_num 2 0 r;
        if r = [] \<and> h < 24 \<and> m < 60 \<and> (hd s = CHR ''+'' \<or> hd s = CHR ''-'')
        then Some (Some ((if hd s = CHR ''-'' then - 1 else 1) * (int h * 3600 + int m * 60) * 1000000)) else None})"

text \<open>The wall-clock reading of a text and its offset.\<close>

definition fromisoformat :: "string \<Rightarrow> (int \<times> int option) option" where
  "fromisoformat s = do {
     (n, s) \<leftarrow> read_date s;
     case s of
       [] \<Rightarrow> Some ((n - EPOCH_ORDINAL) * US_PER_DAY, None)
     | c # s \<Rightarrow> do {
         (us, s) \<leftarrow> read_clock s; off \<leftarrow> read_offset s;
         Some ((n - EPOCH_ORDINAL) * US_PER_DAY + int us, off)}}"

definition read_instant :: "int \<Rightarrow> string \<Rightarrow> int option" where
  "read_instant zone s =
     map_option (\<lambda>(wall, off). wall - (case off of None \<Rightarrow> zone | Some z \<Rightarrow> z)) (fromisoformat s)"

definition ONEC_TIMEZONE :: int where "ONEC_TIMEZONE = 3 * 3600 * 1000000"

text \<open>A \<open>datetime\<close> in the JSON of 1C is always a text.\<close>

definition parse_1c_datetime :: "json \<Rightarrow> int option" where
  "parse_1c_datetime value =
     (if value = JNull \<or> value = JStr [] then None
      else let text = py_strip (jstr value)
           in if text = [] \<or> is_prefix ''0001-01-01'' text then None
              else if last text = CHR ''Z'' \<and> CHR ''T'' \<in> set text
                   then read_instant ONEC_TIMEZONE (butlast text @ ''+00:00'')
              else read_instant ONEC_TIMEZONE (if length text = 10 then text @ ''T00:00:00'' else text))"

section \<open>Facts\<close>

lemma digit_value_of: "d < 10 \<Longrightarrow> digit_value (char_of (48 + d)) = Some d"
proof -
  assume "d < (10 :: nat)"
  then have "(48 + d) mod 256 = 48 + d" by simp
  then show ?thesis using \<open>d < 10\<close> by (simp add: digit_value_def Let_def)
qed

lemma length_pad [simp]: "length (pad w n) = w"
  by (induction w arbitrary: n) simp_all

lemma read_num_append: "read_num (v + w) acc s = Option.bind (read_num v acc s) (\<lambda>(a, r). read_num w a r)"
  by (induction v acc s rule: read_num.induct) (auto split: option.split)

lemma read_num_pad: "n < 10 ^ w \<Longrightarrow> read_num w acc (pad w n @ r) = Some (acc * 10 ^ w + n, r)"
proof (induction w arbitrary: n r)
  case (Suc w)
  then have "n div 10 < 10 ^ w" by (simp add: less_mult_imp_div_less mult.commute)
  from Suc.IH[OF this] have "read_num w acc (pad w (n div 10) @ char_of (48 + n mod 10) # r) =
      Some (acc * 10 ^ w + n div 10, char_of (48 + n mod 10) # r)" .
  then show ?case
    using read_num_append[of w 1 acc] by (simp add: digit_value_of algebra_simps)
qed simp

lemmas read_pad = read_num_pad[where acc = 0, simplified]

lemma expect_hit [simp]: "expect c (c # s) = Some s"
  by (simp add: expect_def)

lemma digits_of_pad: "x \<in> set (pad w n) \<Longrightarrow> \<exists>d. digit_value x = Some d"
  by (induction w arbitrary: n) (auto simp: digit_value_of)

lemma read_iso_date:
  assumes "1 \<le> year_of n" "year_of n \<le> 9999"
  shows "read_date (iso_date n @ r) = Some (n, r)"
proof -
  define y m d where "y = nat (year_of n)" and "m = nat (month_of n)" and "d = nat (day_of n)"
  from date_fields[of n] have f: "ordinal (year_of n) (month_of n) (day_of n) = n"
    "1 \<le> month_of n" "month_of n \<le> 12" "1 \<le> day_of n" "day_of n \<le> days_in_month (year_of n) (month_of n)"
    by auto
  have "day_of n \<le> 31" using f(5) days_in_month_range[of "year_of n" "month_of n"] by linarith
  with f assms have i: "int y = year_of n" "int m = month_of n" "int d = day_of n"
    and b: "1 \<le> y" "y < 10000" "1 \<le> m" "m \<le> 12" "1 \<le> d" "d < 100"
    unfolding y_def m_def d_def by auto
  have "iso_date n = pad 4 y @ ''-'' @ pad 2 m @ ''-'' @ pad 2 d"
    by (simp add: iso_date_def y_def m_def d_def)
  with b show ?thesis
    by (simp add: read_date_def read_pad[of _ 4] read_pad[of _ 2] i f del: read_num.simps pad.simps)
qed

lemma read_iso_fraction:
  assumes "f < 1000000" "r = [] \<or> digit_value (hd r) = None \<and> hd r \<noteq> CHR ''.''"
  shows "read_fraction ((if f = 0 then [] else ''.'' @ pad 6 f) @ r) = Some (f, r)"
proof (cases "f = 0")
  case True
  then show ?thesis using assms(2) by (auto simp: read_fraction_def split: list.split)
next
  case False
  have "takeWhile (\<lambda>x. digit_value x \<noteq> None) (pad 6 f @ r) = pad 6 f"
    using assms(2) by (cases r) (auto simp: takeWhile_append simp del: pad.simps dest: digits_of_pad)
  moreover have "read_num 6 0 (pad 6 f) = Some (f, [])"
    using read_pad[of f 6 "[]"] assms(1) by simp
  moreover have "pad 6 f \<noteq> []" by (metis length_pad list.size(3) zero_neq_numeral)
  ultimately show ?thesis using False
    by (simp add: read_fraction_def Let_def del: read_num.simps pad.simps)
qed

lemma read_iso_clock:
  assumes "us < 86400000000" "r = [] \<or> digit_value (hd r) = None \<and> hd r \<noteq> CHR ''.''"
  shows "read_clock (iso_clock us @ r) = Some (us, r)"
proof -
  define s where "s = us div 1000000"
  define f where "f = us mod 1000000"
  define h where "h = s div 3600"
  define m where "m = s div 60 mod 60"
  define x where "x = s mod 60"
  have s: "s < 86400" using assms(1) by (simp add: s_def less_mult_imp_div_less)
  have us: "us = s * 1000000 + f" by (simp add: s_def f_def)
  have h: "h < 24" using s by (simp add: h_def less_mult_imp_div_less)
  have m: "m < 60" and x: "x < 60" by (simp_all add: m_def x_def)
  have parts: "s = h * 3600 + m * 60 + x"
  proof -
    have "s = s div 60 * 60 + x" by (simp add: x_def)
    moreover have "s div 60 = s div 60 div 60 * 60 + m" by (simp add: m_def)
    moreover have "s div 60 div 60 = h" by (simp add: h_def div_mult2_eq[symmetric])
    ultimately show ?thesis by (simp add: algebra_simps)
  qed
  have tx: "iso_clock us = pad 2 h @ '':'' @ pad 2 m @ '':'' @ pad 2 x @ (if f = 0 then [] else ''.'' @ pad 6 f)"
    by (simp add: iso_clock_def s_def f_def h_def m_def x_def Let_def)
  have f: "f < 1000000" by (simp add: f_def)
  show ?thesis unfolding tx using h m x read_iso_fraction[OF f assms(2)]
    by (simp add: read_clock_def read_pad us parts del: read_num.simps pad.simps)
qed

theorem iso_round_trip:
  assumes "1 \<le> year_of (instant_date t)" "year_of (instant_date t) \<le> 9999"
  shows "fromisoformat (isoformat t) = Some (t, Some 0)"
proof -
  have r: "0 \<le> t mod US_PER_DAY" "t mod US_PER_DAY < 86400000000"
    by (simp_all add: US_PER_DAY_def)
  have c: "read_clock (iso_clock (nat (t mod US_PER_DAY)) @ ''+00:00'') = Some (nat (t mod US_PER_DAY), ''+00:00'')"
    by (rule read_iso_clock) (use r in \<open>simp_all add: digit_value_def\<close>)
  have o: "read_offset ''+00:00'' = Some (Some 0)" by code_simp
  have "(t div US_PER_DAY) * US_PER_DAY + t mod US_PER_DAY = t" by (rule div_mult_mod_eq)
  then show ?thesis using read_iso_date[OF assms] c o r
    by (simp add: fromisoformat_def isoformat_def instant_date_def)
qed

lemma read_isoformat:
  "1 \<le> year_of (instant_date t) \<Longrightarrow> year_of (instant_date t) \<le> 9999 \<Longrightarrow> read_instant zone (isoformat t) = Some t"
  by (simp add: read_instant_def iso_round_trip)

lemma pad_numeral: "pad (numeral k) n = pad (pred_numeral k) (n div 10) @ [char_of (48 + n mod 10)]"
  by (subst numeral_eq_Suc) (rule pad.simps)

lemma read_num_numeral:
  "read_num (numeral k) acc (c # cs) =
     (case digit_value c of None \<Rightarrow> None | Some d \<Rightarrow> read_num (pred_numeral k) (10 * acc + d) cs)"
  by (subst numeral_eq_Suc) (rule read_num.simps)

lemma digit_chars:
  "char_of (48 :: nat) = CHR ''0''" "char_of (49 :: nat) = CHR ''1''" "char_of (50 :: nat) = CHR ''2''"
  "char_of (51 :: nat) = CHR ''3''" "char_of (52 :: nat) = CHR ''4''" "char_of (53 :: nat) = CHR ''5''"
  "char_of (54 :: nat) = CHR ''6''" "char_of (55 :: nat) = CHR ''7''" "char_of (56 :: nat) = CHR ''8''"
  "char_of (57 :: nat) = CHR ''9''"
  by code_simp+

lemmas iso_eval = digit_chars pad_numeral read_num_numeral isoformat_def iso_date_def iso_clock_def instant_date_def US_PER_DAY_def
  EPOCH_ORDINAL_def ONEC_TIMEZONE_def parse_1c_datetime_def read_instant_def fromisoformat_def read_date_def
  read_clock_def read_fraction_def read_offset_def digit_value_def expect_def

lemma epoch_fields [simp]: "year_of 719163 = 1970" "month_of 719163 = 1" "day_of 719163 = 1"
  by code_simp+

lemma iso_examples:
  "isoformat 0 = ''1970-01-01T00:00:00+00:00''" "isoformat 1500000 = ''1970-01-01T00:00:01.500000+00:00''"
  "fromisoformat ''1970-01-02T03:00:00'' = Some (97200000000, None)" "fromisoformat ''1970-02-30'' = None"
  by (simp_all add: iso_eval Let_def ordinal_def days_before_year_def days_before_month_def days_in_month_def is_leap_def)

end
