(* ===== verification/Source_Discovery.thy ===== *)
theory Source_Discovery
  imports Iso_Time Case_Tables
begin

text \<open>
  The source documents of 1C that open procurement cases
  (\<open>app/agents/procurement_agent/source_discovery.py\<close>): the normalisation of a raw document and its
  lines, and the reasons for which a document is skipped.  The SHA-256 of the serialised document is
  the argument \<open>digest\<close>.  References and database names are ASCII, so a cut to 128 or 255 characters
  is a cut of bytes.
\<close>

section \<open>Names of fields and values\<close>

definition KEY_STATUS :: string where
  "KEY_STATUS =
    [CHR 0xD0, CHR 0xA1, CHR 0xD1, CHR 0x82, CHR 0xD0, CHR 0xB0, CHR 0xD1, CHR 0x82, CHR 0xD1, CHR
     0x83, CHR 0xD1, CHR 0x81]"

definition KEY_CANCELLED_E :: string where
  "KEY_CANCELLED_E =
    [CHR 0xD0, CHR 0x9E, CHR 0xD1, CHR 0x82, CHR 0xD0, CHR 0xBC, CHR 0xD0, CHR 0xB5, CHR 0xD0, CHR
     0xBD, CHR 0xD0, CHR 0xB5, CHR 0xD0, CHR 0xBD]"

definition KEY_CANCELLED_YO :: string where
  "KEY_CANCELLED_YO =
    [CHR 0xD0, CHR 0x9E, CHR 0xD1, CHR 0x82, CHR 0xD0, CHR 0xBC, CHR 0xD0, CHR 0xB5, CHR 0xD0, CHR
     0xBD, CHR 0xD1, CHR 0x91, CHR 0xD0, CHR 0xBD]"

definition KEY_CANCELLED :: string where
  "KEY_CANCELLED =
    [CHR 0xD0, CHR 0x9E, CHR 0xD1, CHR 0x82, CHR 0xD0, CHR 0xBC, CHR 0xD0, CHR 0xB5, CHR 0xD0, CHR
     0xBD, CHR 0xD0, CHR 0xB5, CHR 0xD0, CHR 0xBD, CHR 0xD0, CHR 0xBE]"

definition KEY_LINES :: string where
  "KEY_LINES =
    [CHR 0xD0, CHR 0xA2, CHR 0xD0, CHR 0xBE, CHR 0xD0, CHR 0xB2, CHR 0xD0, CHR 0xB0, CHR 0xD1, CHR
     0x80, CHR 0xD1, CHR 0x8B]"

definition KEY_WISHED_DATE :: string where
  "KEY_WISHED_DATE =
    [CHR 0xD0, CHR 0x96, CHR 0xD0, CHR 0xB5, CHR 0xD0, CHR 0xBB, CHR 0xD0, CHR 0xB0, CHR 0xD0, CHR
     0xB5, CHR 0xD0, CHR 0xBC, CHR 0xD0, CHR 0xB0, CHR 0xD1, CHR 0x8F, CHR 0xD0, CHR 0x94, CHR 0xD0,
     CHR 0xB0, CHR 0xD1, CHR 0x82, CHR 0xD0, CHR 0xB0, CHR 0xD0, CHR 0x9F, CHR 0xD0, CHR 0xBE, CHR
     0xD1, CHR 0x81, CHR 0xD1, CHR 0x82, CHR 0xD1, CHR 0x83, CHR 0xD0, CHR 0xBF, CHR 0xD0, CHR 0xBB,
     CHR 0xD0, CHR 0xB5, CHR 0xD0, CHR 0xBD, CHR 0xD0, CHR 0xB8, CHR 0xD1, CHR 0x8F]"

definition KEY_WAREHOUSE :: string where
  "KEY_WAREHOUSE =
    [CHR 0xD0, CHR 0xA1, CHR 0xD0, CHR 0xBA, CHR 0xD0, CHR 0xBB, CHR 0xD0, CHR 0xB0, CHR 0xD0, CHR
     0xB4, CHR 0x5F, CHR 0x4B, CHR 0x65, CHR 0x79]"

definition KEY_WORKSHOP_STORE :: string where
  "KEY_WORKSHOP_STORE =
    [CHR 0xD0, CHR 0xA6, CHR 0xD0, CHR 0xB5, CHR 0xD1, CHR 0x85, CHR 0xD0, CHR 0xBE, CHR 0xD0, CHR
     0xB2, CHR 0xD0, CHR 0xB0, CHR 0xD1, CHR 0x8F, CHR 0xD0, CHR 0x9A, CHR 0xD0, CHR 0xBB, CHR 0xD0,
     CHR 0xB0, CHR 0xD0, CHR 0xB4, CHR 0xD0, CHR 0xBE, CHR 0xD0, CHR 0xB2, CHR 0xD0, CHR 0xB0, CHR
     0xD1, CHR 0x8F, CHR 0x5F, CHR 0x4B, CHR 0x65, CHR 0x79]"

definition KEY_WAREHOUSE_FROM :: string where
  "KEY_WAREHOUSE_FROM =
    [CHR 0xD0, CHR 0xA1, CHR 0xD0, CHR 0xBA, CHR 0xD0, CHR 0xBB, CHR 0xD0, CHR 0xB0, CHR 0xD0, CHR
     0xB4, CHR 0xD0, CHR 0x9E, CHR 0xD1, CHR 0x82, CHR 0xD0, CHR 0xBF, CHR 0xD1, CHR 0x80, CHR 0xD0,
     CHR 0xB0, CHR 0xD0, CHR 0xB2, CHR 0xD0, CHR 0xB8, CHR 0xD1, CHR 0x82, CHR 0xD0, CHR 0xB5, CHR
     0xD0, CHR 0xBB, CHR 0xD1, CHR 0x8C, CHR 0x5F, CHR 0x4B, CHR 0x65, CHR 0x79]"

definition KEY_WAREHOUSE_TO :: string where
  "KEY_WAREHOUSE_TO =
    [CHR 0xD0, CHR 0xA1, CHR 0xD0, CHR 0xBA, CHR 0xD0, CHR 0xBB, CHR 0xD0, CHR 0xB0, CHR 0xD0, CHR
     0xB4, CHR 0xD0, CHR 0x9F, CHR 0xD0, CHR 0xBE, CHR 0xD0, CHR 0xBB, CHR 0xD1, CHR 0x83, CHR 0xD1,
     CHR 0x87, CHR 0xD0, CHR 0xB0, CHR 0xD1, CHR 0x82, CHR 0xD0, CHR 0xB5, CHR 0xD0, CHR 0xBB, CHR
     0xD1, CHR 0x8C, CHR 0x5F, CHR 0x4B, CHR 0x65, CHR 0x79]"

definition KEY_AUTHOR :: string where
  "KEY_AUTHOR =
    [CHR 0xD0, CHR 0x90, CHR 0xD0, CHR 0xB2, CHR 0xD1, CHR 0x82, CHR 0xD0, CHR 0xBE, CHR 0xD1, CHR
     0x80, CHR 0x5F, CHR 0x4B, CHR 0x65, CHR 0x79]"

definition KEY_RESPONSIBLE :: string where
  "KEY_RESPONSIBLE =
    [CHR 0xD0, CHR 0x9E, CHR 0xD1, CHR 0x82, CHR 0xD0, CHR 0xB2, CHR 0xD0, CHR 0xB5, CHR 0xD1, CHR
     0x82, CHR 0xD1, CHR 0x81, CHR 0xD1, CHR 0x82, CHR 0xD0, CHR 0xB2, CHR 0xD0, CHR 0xB5, CHR 0xD0,
     CHR 0xBD, CHR 0xD0, CHR 0xBD, CHR 0xD1, CHR 0x8B, CHR 0xD0, CHR 0xB9, CHR 0x5F, CHR 0x4B, CHR
     0x65, CHR 0x79]"

definition KEY_DEPARTMENT :: string where
  "KEY_DEPARTMENT =
    [CHR 0xD0, CHR 0x9F, CHR 0xD0, CHR 0xBE, CHR 0xD0, CHR 0xB4, CHR 0xD1, CHR 0x80, CHR 0xD0, CHR
     0xB0, CHR 0xD0, CHR 0xB7, CHR 0xD0, CHR 0xB4, CHR 0xD0, CHR 0xB5, CHR 0xD0, CHR 0xBB, CHR 0xD0,
     CHR 0xB5, CHR 0xD0, CHR 0xBD, CHR 0xD0, CHR 0xB8, CHR 0xD0, CHR 0xB5, CHR 0x5F, CHR 0x4B, CHR
     0x65, CHR 0x79]"

definition KEY_ORGANIZATION :: string where
  "KEY_ORGANIZATION =
    [CHR 0xD0, CHR 0x9E, CHR 0xD1, CHR 0x80, CHR 0xD0, CHR 0xB3, CHR 0xD0, CHR 0xB0, CHR 0xD0, CHR
     0xBD, CHR 0xD0, CHR 0xB8, CHR 0xD0, CHR 0xB7, CHR 0xD0, CHR 0xB0, CHR 0xD1, CHR 0x86, CHR 0xD0,
     CHR 0xB8, CHR 0xD1, CHR 0x8F, CHR 0x5F, CHR 0x4B, CHR 0x65, CHR 0x79]"

definition KEY_PRIORITY :: string where
  "KEY_PRIORITY =
    [CHR 0xD0, CHR 0x9F, CHR 0xD1, CHR 0x80, CHR 0xD0, CHR 0xB8, CHR 0xD0, CHR 0xBE, CHR 0xD1, CHR
     0x80, CHR 0xD0, CHR 0xB8, CHR 0xD1, CHR 0x82, CHR 0xD0, CHR 0xB5, CHR 0xD1, CHR 0x82, CHR 0x5F,
     CHR 0x4B, CHR 0x65, CHR 0x79]"

definition KEY_BASIS :: string where
  "KEY_BASIS =
    [CHR 0xD0, CHR 0x9E, CHR 0xD1, CHR 0x81, CHR 0xD0, CHR 0xBD, CHR 0xD0, CHR 0xBE, CHR 0xD0, CHR
     0xB2, CHR 0xD0, CHR 0xB0, CHR 0xD0, CHR 0xBD, CHR 0xD0, CHR 0xB8, CHR 0xD0, CHR 0xB5]"

definition KEY_BASIS_DOCUMENT :: string where
  "KEY_BASIS_DOCUMENT =
    [CHR 0xD0, CHR 0x94, CHR 0xD0, CHR 0xBE, CHR 0xD0, CHR 0xBA, CHR 0xD1, CHR 0x83, CHR 0xD0, CHR
     0xBC, CHR 0xD0, CHR 0xB5, CHR 0xD0, CHR 0xBD, CHR 0xD1, CHR 0x82, CHR 0xD0, CHR 0x9E, CHR 0xD1,
     CHR 0x81, CHR 0xD0, CHR 0xBD, CHR 0xD0, CHR 0xBE, CHR 0xD0, CHR 0xB2, CHR 0xD0, CHR 0xB0, CHR
     0xD0, CHR 0xBD, CHR 0xD0, CHR 0xB8, CHR 0xD0, CHR 0xB5]"

definition KEY_BASIS_TYPE :: string where
  "KEY_BASIS_TYPE =
    [CHR 0xD0, CHR 0x9E, CHR 0xD1, CHR 0x81, CHR 0xD0, CHR 0xBD, CHR 0xD0, CHR 0xBE, CHR 0xD0, CHR
     0xB2, CHR 0xD0, CHR 0xB0, CHR 0xD0, CHR 0xBD, CHR 0xD0, CHR 0xB8, CHR 0xD0, CHR 0xB5, CHR 0x5F,
     CHR 0x54, CHR 0x79, CHR 0x70, CHR 0x65]"

definition KEY_BASIS_DOCUMENT_TYPE :: string where
  "KEY_BASIS_DOCUMENT_TYPE =
    [CHR 0xD0, CHR 0x94, CHR 0xD0, CHR 0xBE, CHR 0xD0, CHR 0xBA, CHR 0xD1, CHR 0x83, CHR 0xD0, CHR
     0xBC, CHR 0xD0, CHR 0xB5, CHR 0xD0, CHR 0xBD, CHR 0xD1, CHR 0x82, CHR 0xD0, CHR 0x9E, CHR 0xD1,
     CHR 0x81, CHR 0xD0, CHR 0xBD, CHR 0xD0, CHR 0xBE, CHR 0xD0, CHR 0xB2, CHR 0xD0, CHR 0xB0, CHR
     0xD0, CHR 0xBD, CHR 0xD0, CHR 0xB8, CHR 0xD0, CHR 0xB5, CHR 0x5F, CHR 0x54, CHR 0x79, CHR 0x70,
     CHR 0x65]"

definition KEY_PRODUCTION_KEY :: string where
  "KEY_PRODUCTION_KEY =
    [CHR 0xD0, CHR 0x97, CHR 0xD0, CHR 0xB0, CHR 0xD0, CHR 0xBA, CHR 0xD0, CHR 0xB0, CHR 0xD0, CHR
     0xB7, CHR 0xD0, CHR 0x9D, CHR 0xD0, CHR 0xB0, CHR 0xD0, CHR 0x9F, CHR 0xD1, CHR 0x80, CHR 0xD0,
     CHR 0xBE, CHR 0xD0, CHR 0xB8, CHR 0xD0, CHR 0xB7, CHR 0xD0, CHR 0xB2, CHR 0xD0, CHR 0xBE, CHR
     0xD0, CHR 0xB4, CHR 0xD1, CHR 0x81, CHR 0xD1, CHR 0x82, CHR 0xD0, CHR 0xB2, CHR 0xD0, CHR 0xBE,
     CHR 0x5F, CHR 0x4B, CHR 0x65, CHR 0x79]"

definition KEY_PRODUCTION :: string where
  "KEY_PRODUCTION =
    [CHR 0xD0, CHR 0x97, CHR 0xD0, CHR 0xB0, CHR 0xD0, CHR 0xBA, CHR 0xD0, CHR 0xB0, CHR 0xD0, CHR
     0xB7, CHR 0xD0, CHR 0x9D, CHR 0xD0, CHR 0xB0, CHR 0xD0, CHR 0x9F, CHR 0xD1, CHR 0x80, CHR 0xD0,
     CHR 0xBE, CHR 0xD0, CHR 0xB8, CHR 0xD0, CHR 0xB7, CHR 0xD0, CHR 0xB2, CHR 0xD0, CHR 0xBE, CHR
     0xD0, CHR 0xB4, CHR 0xD1, CHR 0x81, CHR 0xD1, CHR 0x82, CHR 0xD0, CHR 0xB2, CHR 0xD0, CHR 0xBE]"

definition KEY_PRODUCTION_TYPE :: string where
  "KEY_PRODUCTION_TYPE =
    [CHR 0xD0, CHR 0x97, CHR 0xD0, CHR 0xB0, CHR 0xD0, CHR 0xBA, CHR 0xD0, CHR 0xB0, CHR 0xD0, CHR
     0xB7, CHR 0xD0, CHR 0x9D, CHR 0xD0, CHR 0xB0, CHR 0xD0, CHR 0x9F, CHR 0xD1, CHR 0x80, CHR 0xD0,
     CHR 0xBE, CHR 0xD0, CHR 0xB8, CHR 0xD0, CHR 0xB7, CHR 0xD0, CHR 0xB2, CHR 0xD0, CHR 0xBE, CHR
     0xD0, CHR 0xB4, CHR 0xD1, CHR 0x81, CHR 0xD1, CHR 0x82, CHR 0xD0, CHR 0xB2, CHR 0xD0, CHR 0xBE,
     CHR 0x5F, CHR 0x54, CHR 0x79, CHR 0x70, CHR 0x65]"

definition KEY_NOMENCLATURE :: string where
  "KEY_NOMENCLATURE =
    [CHR 0xD0, CHR 0x9D, CHR 0xD0, CHR 0xBE, CHR 0xD0, CHR 0xBC, CHR 0xD0, CHR 0xB5, CHR 0xD0, CHR
     0xBD, CHR 0xD0, CHR 0xBA, CHR 0xD0, CHR 0xBB, CHR 0xD0, CHR 0xB0, CHR 0xD1, CHR 0x82, CHR 0xD1,
     CHR 0x83, CHR 0xD1, CHR 0x80, CHR 0xD0, CHR 0xB0, CHR 0x5F, CHR 0x4B, CHR 0x65, CHR 0x79]"

definition KEY_NOMENCLATURE_NAME :: string where
  "KEY_NOMENCLATURE_NAME =
    [CHR 0xD0, CHR 0x9D, CHR 0xD0, CHR 0xBE, CHR 0xD0, CHR 0xBC, CHR 0xD0, CHR 0xB5, CHR 0xD0, CHR
     0xBD, CHR 0xD0, CHR 0xBA, CHR 0xD0, CHR 0xBB, CHR 0xD0, CHR 0xB0, CHR 0xD1, CHR 0x82, CHR 0xD1,
     CHR 0x83, CHR 0xD1, CHR 0x80, CHR 0xD0, CHR 0xB0]"

definition KEY_CHARACTERISTIC :: string where
  "KEY_CHARACTERISTIC =
    [CHR 0xD0, CHR 0xA5, CHR 0xD0, CHR 0xB0, CHR 0xD1, CHR 0x80, CHR 0xD0, CHR 0xB0, CHR 0xD0, CHR
     0xBA, CHR 0xD1, CHR 0x82, CHR 0xD0, CHR 0xB5, CHR 0xD1, CHR 0x80, CHR 0xD0, CHR 0xB8, CHR 0xD1,
     CHR 0x81, CHR 0xD1, CHR 0x82, CHR 0xD0, CHR 0xB8, CHR 0xD0, CHR 0xBA, CHR 0xD0, CHR 0xB0, CHR
     0x5F, CHR 0x4B, CHR 0x65, CHR 0x79]"

definition KEY_PACKAGE :: string where
  "KEY_PACKAGE =
    [CHR 0xD0, CHR 0xA3, CHR 0xD0, CHR 0xBF, CHR 0xD0, CHR 0xB0, CHR 0xD0, CHR 0xBA, CHR 0xD0, CHR
     0xBE, CHR 0xD0, CHR 0xB2, CHR 0xD0, CHR 0xBA, CHR 0xD0, CHR 0xB0, CHR 0x5F, CHR 0x4B, CHR 0x65,
     CHR 0x79]"

definition KEY_PACKAGE_NAME :: string where
  "KEY_PACKAGE_NAME =
    [CHR 0xD0, CHR 0xA3, CHR 0xD0, CHR 0xBF, CHR 0xD0, CHR 0xB0, CHR 0xD0, CHR 0xBA, CHR 0xD0, CHR
     0xBE, CHR 0xD0, CHR 0xB2, CHR 0xD0, CHR 0xBA, CHR 0xD0, CHR 0xB0]"

definition KEY_QUANTITY :: string where
  "KEY_QUANTITY =
    [CHR 0xD0, CHR 0x9A, CHR 0xD0, CHR 0xBE, CHR 0xD0, CHR 0xBB, CHR 0xD0, CHR 0xB8, CHR 0xD1, CHR
     0x87, CHR 0xD0, CHR 0xB5, CHR 0xD1, CHR 0x81, CHR 0xD1, CHR 0x82, CHR 0xD0, CHR 0xB2, CHR 0xD0,
     CHR 0xBE]"

definition KEY_MAX_STOCK_AFTER :: string where
  "KEY_MAX_STOCK_AFTER =
    [CHR 0xD0, CHR 0x9C, CHR 0xD0, CHR 0xB0, CHR 0xD0, CHR 0xBA, CHR 0xD1, CHR 0x81, CHR 0xD0, CHR
     0xB8, CHR 0xD0, CHR 0xBC, CHR 0xD0, CHR 0xB0, CHR 0xD0, CHR 0xBB, CHR 0xD1, CHR 0x8C, CHR 0xD0,
     CHR 0xBD, CHR 0xD0, CHR 0xBE, CHR 0xD0, CHR 0xB5, CHR 0xD0, CHR 0x9A, CHR 0xD0, CHR 0xBE, CHR
     0xD0, CHR 0xBB, CHR 0xD0, CHR 0xB8, CHR 0xD1, CHR 0x87, CHR 0xD0, CHR 0xB5, CHR 0xD1, CHR 0x81,
     CHR 0xD1, CHR 0x82, CHR 0xD0, CHR 0xB2, CHR 0xD0, CHR 0xBE, CHR 0xD0, CHR 0x97, CHR 0xD0, CHR
     0xB0, CHR 0xD0, CHR 0xBF, CHR 0xD0, CHR 0xB0, CHR 0xD1, CHR 0x81, CHR 0xD0, CHR 0xB0, CHR 0x5F,
     CHR 0xD0, CHR 0x9F, CHR 0xD0, CHR 0xBE, CHR 0xD1, CHR 0x81, CHR 0xD0, CHR 0xBB, CHR 0xD0, CHR
     0xB5]"

definition KEY_MIN_STOCK_AFTER :: string where
  "KEY_MIN_STOCK_AFTER =
    [CHR 0xD0, CHR 0x9C, CHR 0xD0, CHR 0xB8, CHR 0xD0, CHR 0xBD, CHR 0xD0, CHR 0xB8, CHR 0xD0, CHR
     0xBC, CHR 0xD0, CHR 0xB0, CHR 0xD0, CHR 0xBB, CHR 0xD1, CHR 0x8C, CHR 0xD0, CHR 0xBD, CHR 0xD0,
     CHR 0xBE, CHR 0xD0, CHR 0xB5, CHR 0xD0, CHR 0x9A, CHR 0xD0, CHR 0xBE, CHR 0xD0, CHR 0xBB, CHR
     0xD0, CHR 0xB8, CHR 0xD1, CHR 0x87, CHR 0xD0, CHR 0xB5, CHR 0xD1, CHR 0x81, CHR 0xD1, CHR 0x82,
     CHR 0xD0, CHR 0xB2, CHR 0xD0, CHR 0xBE, CHR 0xD0, CHR 0x97, CHR 0xD0, CHR 0xB0, CHR 0xD0, CHR
     0xBF, CHR 0xD0, CHR 0xB0, CHR 0xD1, CHR 0x81, CHR 0xD0, CHR 0xB0, CHR 0x5F, CHR 0xD0, CHR 0x9F,
     CHR 0xD0, CHR 0xBE, CHR 0xD1, CHR 0x81, CHR 0xD0, CHR 0xBB, CHR 0xD0, CHR 0xB5]"

definition KEY_MAX_STOCK_BEFORE :: string where
  "KEY_MAX_STOCK_BEFORE =
    [CHR 0xD0, CHR 0x9C, CHR 0xD0, CHR 0xB0, CHR 0xD0, CHR 0xBA, CHR 0xD1, CHR 0x81, CHR 0xD0, CHR
     0xB8, CHR 0xD0, CHR 0xBC, CHR 0xD0, CHR 0xB0, CHR 0xD0, CHR 0xBB, CHR 0xD1, CHR 0x8C, CHR 0xD0,
     CHR 0xBD, CHR 0xD0, CHR 0xBE, CHR 0xD0, CHR 0xB5, CHR 0xD0, CHR 0x9A, CHR 0xD0, CHR 0xBE, CHR
     0xD0, CHR 0xBB, CHR 0xD0, CHR 0xB8, CHR 0xD1, CHR 0x87, CHR 0xD0, CHR 0xB5, CHR 0xD1, CHR 0x81,
     CHR 0xD1, CHR 0x82, CHR 0xD0, CHR 0xB2, CHR 0xD0, CHR 0xBE, CHR 0xD0, CHR 0x97, CHR 0xD0, CHR
     0xB0, CHR 0xD0, CHR 0xBF, CHR 0xD0, CHR 0xB0, CHR 0xD1, CHR 0x81, CHR 0xD0, CHR 0xB0, CHR 0x5F,
     CHR 0xD0, CHR 0x94, CHR 0xD0, CHR 0xBE]"

definition KEY_MIN_STOCK_BEFORE :: string where
  "KEY_MIN_STOCK_BEFORE =
    [CHR 0xD0, CHR 0x9C, CHR 0xD0, CHR 0xB8, CHR 0xD0, CHR 0xBD, CHR 0xD0, CHR 0xB8, CHR 0xD0, CHR
     0xBC, CHR 0xD0, CHR 0xB0, CHR 0xD0, CHR 0xBB, CHR 0xD1, CHR 0x8C, CHR 0xD0, CHR 0xBD, CHR 0xD0,
     CHR 0xBE, CHR 0xD0, CHR 0xB5, CHR 0xD0, CHR 0x9A, CHR 0xD0, CHR 0xBE, CHR 0xD0, CHR 0xBB, CHR
     0xD0, CHR 0xB8, CHR 0xD1, CHR 0x87, CHR 0xD0, CHR 0xB5, CHR 0xD1, CHR 0x81, CHR 0xD1, CHR 0x82,
     CHR 0xD0, CHR 0xB2, CHR 0xD0, CHR 0xBE, CHR 0xD0, CHR 0x97, CHR 0xD0, CHR 0xB0, CHR 0xD0, CHR
     0xBF, CHR 0xD0, CHR 0xB0, CHR 0xD1, CHR 0x81, CHR 0xD0, CHR 0xB0, CHR 0x5F, CHR 0xD0, CHR 0x94,
     CHR 0xD0, CHR 0xBE]"

definition KEY_LINE_CODE :: string where
  "KEY_LINE_CODE =
    [CHR 0xD0, CHR 0x9A, CHR 0xD0, CHR 0xBE, CHR 0xD0, CHR 0xB4, CHR 0xD0, CHR 0xA1, CHR 0xD1, CHR
     0x82, CHR 0xD1, CHR 0x80, CHR 0xD0, CHR 0xBE, CHR 0xD0, CHR 0xBA, CHR 0xD0, CHR 0xB8]"

definition KEY_SHIPMENT_DATE :: string where
  "KEY_SHIPMENT_DATE =
    [CHR 0xD0, CHR 0x94, CHR 0xD0, CHR 0xB0, CHR 0xD1, CHR 0x82, CHR 0xD0, CHR 0xB0, CHR 0xD0, CHR
     0x9E, CHR 0xD1, CHR 0x82, CHR 0xD0, CHR 0xB3, CHR 0xD1, CHR 0x80, CHR 0xD1, CHR 0x83, CHR 0xD0,
     CHR 0xB7, CHR 0xD0, CHR 0xBA, CHR 0xD0, CHR 0xB8]"

definition KEY_SHIPMENT_START :: string where
  "KEY_SHIPMENT_START =
    [CHR 0xD0, CHR 0x9D, CHR 0xD0, CHR 0xB0, CHR 0xD1, CHR 0x87, CHR 0xD0, CHR 0xB0, CHR 0xD0, CHR
     0xBB, CHR 0xD0, CHR 0xBE, CHR 0xD0, CHR 0x9E, CHR 0xD1, CHR 0x82, CHR 0xD0, CHR 0xB3, CHR 0xD1,
     CHR 0x80, CHR 0xD1, CHR 0x83, CHR 0xD0, CHR 0xB7, CHR 0xD0, CHR 0xBA, CHR 0xD0, CHR 0xB8]"

definition KEY_RECEIPT_END :: string where
  "KEY_RECEIPT_END =
    [CHR 0xD0, CHR 0x9E, CHR 0xD0, CHR 0xBA, CHR 0xD0, CHR 0xBE, CHR 0xD0, CHR 0xBD, CHR 0xD1, CHR
     0x87, CHR 0xD0, CHR 0xB0, CHR 0xD0, CHR 0xBD, CHR 0xD0, CHR 0xB8, CHR 0xD0, CHR 0xB5, CHR 0xD0,
     CHR 0x9F, CHR 0xD0, CHR 0xBE, CHR 0xD1, CHR 0x81, CHR 0xD1, CHR 0x82, CHR 0xD1, CHR 0x83, CHR
     0xD0, CHR 0xBF, CHR 0xD0, CHR 0xBB, CHR 0xD0, CHR 0xB5, CHR 0xD0, CHR 0xBD, CHR 0xD0, CHR 0xB8,
     CHR 0xD1, CHR 0x8F]"

definition KEY_RECEIPT_DATE :: string where
  "KEY_RECEIPT_DATE =
    [CHR 0xD0, CHR 0x94, CHR 0xD0, CHR 0xB0, CHR 0xD1, CHR 0x82, CHR 0xD0, CHR 0xB0, CHR 0xD0, CHR
     0x9F, CHR 0xD0, CHR 0xBE, CHR 0xD1, CHR 0x81, CHR 0xD1, CHR 0x82, CHR 0xD1, CHR 0x83, CHR 0xD0,
     CHR 0xBF, CHR 0xD0, CHR 0xBB, CHR 0xD0, CHR 0xB5, CHR 0xD0, CHR 0xBD, CHR 0xD0, CHR 0xB8, CHR
     0xD1, CHR 0x8F]"

definition KEY_SUPPLY_VARIANT :: string where
  "KEY_SUPPLY_VARIANT =
    [CHR 0xD0, CHR 0x92, CHR 0xD0, CHR 0xB0, CHR 0xD1, CHR 0x80, CHR 0xD0, CHR 0xB8, CHR 0xD0, CHR
     0xB0, CHR 0xD0, CHR 0xBD, CHR 0xD1, CHR 0x82, CHR 0xD0, CHR 0x9E, CHR 0xD0, CHR 0xB1, CHR 0xD0,
     CHR 0xB5, CHR 0xD1, CHR 0x81, CHR 0xD0, CHR 0xBF, CHR 0xD0, CHR 0xB5, CHR 0xD1, CHR 0x87, CHR
     0xD0, CHR 0xB5, CHR 0xD0, CHR 0xBD, CHR 0xD0, CHR 0xB8, CHR 0xD1, CHR 0x8F]"

definition KEY_ACTION :: string where
  "KEY_ACTION =
    [CHR 0xD0, CHR 0x94, CHR 0xD0, CHR 0xB5, CHR 0xD0, CHR 0xB9, CHR 0xD1, CHR 0x81, CHR 0xD1, CHR
     0x82, CHR 0xD0, CHR 0xB2, CHR 0xD0, CHR 0xB8, CHR 0xD0, CHR 0xB5]"

definition KEY_SUPPLY_STOCK :: string where
  "KEY_SUPPLY_STOCK =
    [CHR 0xD0, CHR 0x9E, CHR 0xD0, CHR 0xB1, CHR 0xD0, CHR 0xB5, CHR 0xD1, CHR 0x81, CHR 0xD0, CHR
     0xBF, CHR 0xD0, CHR 0xB5, CHR 0xD1, CHR 0x87, CHR 0xD0, CHR 0xB5, CHR 0xD0, CHR 0xBD, CHR 0xD0,
     CHR 0xB8, CHR 0xD0, CHR 0xB5, CHR 0xD0, CHR 0x97, CHR 0xD0, CHR 0xB0, CHR 0xD0, CHR 0xBA, CHR
     0xD0, CHR 0xB0, CHR 0xD0, CHR 0xB7, CHR 0xD0, CHR 0xBE, CHR 0xD0, CHR 0xB2, CHR 0xD0, CHR 0x9F,
     CHR 0xD1, CHR 0x80, CHR 0xD0, CHR 0xB8, CHR 0xD0, CHR 0x9F, CHR 0xD0, CHR 0xBE, CHR 0xD0, CHR
     0xB4, CHR 0xD0, CHR 0xB4, CHR 0xD0, CHR 0xB5, CHR 0xD1, CHR 0x80, CHR 0xD0, CHR 0xB6, CHR 0xD0,
     CHR 0xB0, CHR 0xD0, CHR 0xBD, CHR 0xD0, CHR 0xB8, CHR 0xD0, CHR 0xB8, CHR 0xD0, CHR 0x97, CHR
     0xD0, CHR 0xB0, CHR 0xD0, CHR 0xBF, CHR 0xD0, CHR 0xB0, CHR 0xD1, CHR 0x81, CHR 0xD0, CHR 0xB0]"

definition KEY_SUPPLY_METHOD :: string where
  "KEY_SUPPLY_METHOD =
    [CHR 0xD0, CHR 0x9C, CHR 0xD0, CHR 0xB5, CHR 0xD1, CHR 0x82, CHR 0xD0, CHR 0xBE, CHR 0xD0, CHR
     0xB4, CHR 0xD0, CHR 0x9E, CHR 0xD0, CHR 0xB1, CHR 0xD0, CHR 0xB5, CHR 0xD1, CHR 0x81, CHR 0xD0,
     CHR 0xBF, CHR 0xD0, CHR 0xB5, CHR 0xD1, CHR 0x87, CHR 0xD0, CHR 0xB5, CHR 0xD0, CHR 0xBD, CHR
     0xD0, CHR 0xB8, CHR 0xD1, CHR 0x8F, CHR 0xD0, CHR 0x9F, CHR 0xD0, CHR 0xBE, CHR 0xD1, CHR 0x82,
     CHR 0xD1, CHR 0x80, CHR 0xD0, CHR 0xB5, CHR 0xD0, CHR 0xB1, CHR 0xD0, CHR 0xBD, CHR 0xD0, CHR
     0xBE, CHR 0xD1, CHR 0x81, CHR 0xD1, CHR 0x82, CHR 0xD0, CHR 0xB5, CHR 0xD0, CHR 0xB9]"

definition KEY_PURPOSE :: string where
  "KEY_PURPOSE =
    [CHR 0xD0, CHR 0x9D, CHR 0xD0, CHR 0xB0, CHR 0xD0, CHR 0xB7, CHR 0xD0, CHR 0xBD, CHR 0xD0, CHR
     0xB0, CHR 0xD1, CHR 0x87, CHR 0xD0, CHR 0xB5, CHR 0xD0, CHR 0xBD, CHR 0xD0, CHR 0xB8, CHR 0xD0,
     CHR 0xB5, CHR 0x5F, CHR 0x4B, CHR 0x65, CHR 0x79]"

definition KEY_STAGE :: string where
  "KEY_STAGE =
    [CHR 0xD0, CHR 0xAD, CHR 0xD1, CHR 0x82, CHR 0xD0, CHR 0xB0, CHR 0xD0, CHR 0xBF, CHR 0x5F, CHR
     0x4B, CHR 0x65, CHR 0x79]"

definition TO_SUPPLY :: string where
  "TO_SUPPLY =
    [CHR 0xD0, CHR 0xBA, CHR 0xD0, CHR 0xBE, CHR 0xD0, CHR 0xB1, CHR 0xD0, CHR 0xB5, CHR 0xD1, CHR
     0x81, CHR 0xD0, CHR 0xBF, CHR 0xD0, CHR 0xB5, CHR 0xD1, CHR 0x87, CHR 0xD0, CHR 0xB5, CHR 0xD0,
     CHR 0xBD, CHR 0xD0, CHR 0xB8, CHR 0xD1, CHR 0x8E]"

definition FROM_STOCK :: string where
  "FROM_STOCK =
    [CHR 0xD0, CHR 0xB7, CHR 0xD0, CHR 0xB0, CHR 0xD1, CHR 0x81, CHR 0xD1, CHR 0x87, CHR 0xD0, CHR
     0xB5, CHR 0xD1, CHR 0x82, CHR 0xD0, CHR 0xB7, CHR 0xD0, CHR 0xB0, CHR 0xD0, CHR 0xBF, CHR 0xD0,
     CHR 0xB0, CHR 0xD1, CHR 0x81, CHR 0xD0, CHR 0xBE, CHR 0xD0, CHR 0xB2]"

definition STATUS_CLOSED_RU :: string where
  "STATUS_CLOSED_RU =
    [CHR 0xD0, CHR 0xB7, CHR 0xD0, CHR 0xB0, CHR 0xD0, CHR 0xBA, CHR 0xD1, CHR 0x80, CHR 0xD1, CHR
     0x8B, CHR 0xD1, CHR 0x82]"

definition STATUS_CANCELLED_E :: string where
  "STATUS_CANCELLED_E =
    [CHR 0xD0, CHR 0xBE, CHR 0xD1, CHR 0x82, CHR 0xD0, CHR 0xBC, CHR 0xD0, CHR 0xB5, CHR 0xD0, CHR
     0xBD, CHR 0xD0, CHR 0xB5, CHR 0xD0, CHR 0xBD]"

definition STATUS_CANCELLED_YO :: string where
  "STATUS_CANCELLED_YO =
    [CHR 0xD0, CHR 0xBE, CHR 0xD1, CHR 0x82, CHR 0xD0, CHR 0xBC, CHR 0xD0, CHR 0xB5, CHR 0xD0, CHR
     0xBD, CHR 0xD1, CHR 0x91, CHR 0xD0, CHR 0xBD]"


section \<open>Scalars\<close>

definition optional_str :: "json \<Rightarrow> string option" where
  "optional_str value =
     (if value = JNull \<or> value = JStr [] then None
      else let text = py_strip (jstr value) in if text = [] then None else Some text)"

definition source_decimal :: "json \<Rightarrow> rat option" where
  "source_decimal value = (if value = JNull \<or> value = JStr [] then None else jdecimal value)"

text \<open>\<open>int(value)\<close>: \<open>None\<close> where it raises.\<close>

definition read_int_text :: "string \<Rightarrow> int option" where
  "read_int_text s =
     (case py_strip s of
        [] \<Rightarrow> None
      | c # cs \<Rightarrow>
          if (c = CHR ''-'' \<or> c = CHR ''+'') \<and> cs \<noteq> [] then
            map_option (\<lambda>n. if c = CHR ''-'' then - int n else int n) (read_digits 0 cs)
          else map_option int (read_digits 0 (c # cs)))"

fun py_int :: "json \<Rightarrow> int option" where
  "py_int (JInt n) = Some n"
| "py_int (JBool b) = Some (if b then 1 else 0)"
| "py_int (JDec x) = Some (if x < 0 then \<lceil>x\<rceil> else \<lfloor>x\<rfloor>)"
| "py_int (JStr s) = read_int_text s"
| "py_int _ = None"

definition is_terminal_status :: "string option \<Rightarrow> bool" where
  "is_terminal_status status \<longleftrightarrow> truthy status \<and>
     casefold (py_strip (opt_str status)) \<in>
       {STATUS_CLOSED_RU, ''closed'', STATUS_CANCELLED_E, STATUS_CANCELLED_YO, ''cancelled'', ''canceled''}"

definition normalized_action :: "string option \<Rightarrow> string" where
  "normalized_action value =
     filter (\<lambda>c. c \<notin> {CHR '' '', CHR ''_'', CHR ''-''}) (fold_yo (casefold (py_strip (opt_str value))))"

definition is_supply_action :: "string option \<Rightarrow> bool" where
  "is_supply_action value \<longleftrightarrow> truthy value \<and> normalized_action value = TO_SUPPLY"

definition is_active_source_line :: "source_type \<Rightarrow> string option \<Rightarrow> bool" where
  "is_active_source_line source_type supply_action \<longleftrightarrow>
     (if source_type \<noteq> ReorderPoint then is_supply_action supply_action
      else truthy supply_action \<and> normalized_action supply_action = FROM_STOCK)"

section \<open>Lines\<close>

record need_line =
  nl_line_id :: string
  nl_line_number :: int
  nl_nomenclature_id :: string
  nl_nomenclature_name :: "string option"
  nl_characteristic_id :: "string option"
  nl_unit_id :: "string option"
  nl_unit :: "string option"
  nl_quantity :: rat
  nl_required_date :: "int option"
  nl_cancelled :: bool
  nl_supply_action :: "string option"
  nl_raw_payload :: jdict

text \<open>\<open>x or y\<close> of decimals and of dates: a decimal is false when it is zero, a date never.\<close>

definition or_decimal :: "rat option \<Rightarrow> rat option \<Rightarrow> rat option" where
  "or_decimal x y = (case x of Some d \<Rightarrow> if d \<noteq> 0 then x else y | None \<Rightarrow> y)"

definition or_option :: "'a option \<Rightarrow> 'a option \<Rightarrow> 'a option" where
  "or_option x y = (case x of Some _ \<Rightarrow> x | None \<Rightarrow> y)"

definition line_quantity :: "jdict \<Rightarrow> rat option" where
  "line_quantity item =
     or_decimal (source_decimal (jget item KEY_QUANTITY))
       (or_decimal (source_decimal (jget item KEY_MAX_STOCK_AFTER)) (source_decimal (jget item KEY_MIN_STOCK_AFTER)))"

text \<open>\<open>str(raw_line_code or "") != "0"\<close>\<close>

definition line_code_given :: "jdict \<Rightarrow> bool" where
  "line_code_given item \<longleftrightarrow> jstring (jget item KEY_LINE_CODE) \<noteq> ''0''"

definition line_number_of :: "nat \<Rightarrow> jdict \<Rightarrow> int option" where
  "line_number_of index item =
     py_int (jor (jget item ''LineNumber'')
       (jor (if line_code_given item then jget item KEY_LINE_CODE else JNull) (JInt (int index))))"

definition line_id_of :: "int \<Rightarrow> jdict \<Rightarrow> string" where
  "line_id_of line_number item =
     jstr (if line_code_given item then jget item KEY_LINE_CODE
           else jor (jget item ''LineNumber'') (JInt line_number))"

definition line_required_date :: "jdict \<Rightarrow> int option" where
  "line_required_date item =
     or_option (parse_1c_datetime (jget item KEY_SHIPMENT_DATE))
       (or_option (parse_1c_datetime (jget item KEY_SHIPMENT_START))
         (or_option (parse_1c_datetime (jget item KEY_RECEIPT_END)) (parse_1c_datetime (jget item KEY_RECEIPT_DATE))))"

definition line_supply_action :: "jdict \<Rightarrow> string option" where
  "line_supply_action item =
     optional_str (get_first item [KEY_SUPPLY_VARIANT, KEY_ACTION, KEY_SUPPLY_STOCK, KEY_SUPPLY_METHOD])"

definition payload_keys :: "string list" where
  "payload_keys =
    [''LineNumber'', KEY_LINE_CODE, KEY_NOMENCLATURE, KEY_CHARACTERISTIC, KEY_PACKAGE, KEY_QUANTITY, KEY_PURPOSE,
     KEY_STAGE, KEY_MIN_STOCK_BEFORE, KEY_MAX_STOCK_BEFORE, KEY_MIN_STOCK_AFTER, KEY_MAX_STOCK_AFTER,
     KEY_SUPPLY_METHOD, KEY_SUPPLY_STOCK, KEY_CANCELLED, KEY_SUPPLY_VARIANT, KEY_ACTION, KEY_SHIPMENT_DATE,
     KEY_SHIPMENT_START, KEY_RECEIPT_END, KEY_RECEIPT_DATE]"

definition raw_payload_of :: "jdict \<Rightarrow> jdict" where
  "raw_payload_of item =
     dict_set ''supply_action'' (case line_supply_action item of None \<Rightarrow> JNull | Some a \<Rightarrow> JStr a)
       (List.map_filter (\<lambda>k. map_option (Pair k) (dict_get item k)) payload_keys)"

datatype source_error = Bad_Line_Number | Missing_Ref

text \<open>One entry of the list: \<open>None\<close> when it is passed over.\<close>

definition need_line_of :: "nat \<Rightarrow> json \<Rightarrow> source_error + need_line option" where
  "need_line_of index entry =
     (case entry of
        JObj item \<Rightarrow>
          (case (optional_str (jget item KEY_NOMENCLATURE), line_quantity item) of
             (Some nomenclature, Some quantity) \<Rightarrow>
               (case line_number_of index item of
                  None \<Rightarrow> Inl Bad_Line_Number
                | Some number \<Rightarrow> Inr (Some
                    \<lparr>nl_line_id = line_id_of number item, nl_line_number = number, nl_nomenclature_id = nomenclature,
                     nl_nomenclature_name = optional_str (get_first item [KEY_NOMENCLATURE_NAME, ''item'']),
                     nl_characteristic_id = optional_str (jget item KEY_CHARACTERISTIC),
                     nl_unit_id = optional_str (jget item KEY_PACKAGE),
                     nl_unit = optional_str (get_first item [KEY_PACKAGE_NAME, ''unit'']),
                     nl_quantity = quantity, nl_required_date = line_required_date item,
                     nl_cancelled = jtruthy (jget item KEY_CANCELLED), nl_supply_action = line_supply_action item,
                     nl_raw_payload = raw_payload_of item\<rparr>))
           | _ \<Rightarrow> Inr None)
      | _ \<Rightarrow> Inr None)"

fun need_lines_from :: "nat \<Rightarrow> json list \<Rightarrow> source_error + need_line list" where
  "need_lines_from index [] = Inr []"
| "need_lines_from index (x # xs) =
     (case need_line_of index x of
        Inl e \<Rightarrow> Inl e
      | Inr l \<Rightarrow>
          (case need_lines_from (Suc index) xs of
             Inl e \<Rightarrow> Inl e
           | Inr ls \<Rightarrow> Inr (case l of None \<Rightarrow> ls | Some y \<Rightarrow> y # ls)))"

definition normalize_need_lines :: "json \<Rightarrow> source_error + need_line list" where
  "normalize_need_lines raw_lines = (case raw_lines of JArr xs \<Rightarrow> need_lines_from 1 xs | _ \<Rightarrow> Inr [])"

section \<open>Documents\<close>

record source_document =
  sd_source_type :: source_type
  sd_entity_set :: string
  sd_database :: string
  sd_ref_key :: string
  sd_data_version :: "string option"
  sd_number :: "string option"
  sd_date :: "int option"
  sd_posted :: "bool option"
  sd_deletion_mark :: bool
  sd_cancelled :: bool
  sd_status :: "string option"
  sd_initiator_ref :: "string option"
  sd_initiator_name :: "string option"
  sd_department_ref :: "string option"
  sd_department_name :: "string option"
  sd_warehouse_ref :: "string option"
  sd_warehouse_name :: "string option"
  sd_warehouse_from_ref :: "string option"
  sd_warehouse_to_ref :: "string option"
  sd_organization_ref :: "string option"
  sd_priority_ref :: "string option"
  sd_basis_ref :: "string option"
  sd_basis_type :: "string option"
  sd_basis_number :: "string option"
  sd_basis_date :: "int option"
  sd_basis_status :: "string option"
  sd_production_order_ref :: "string option"
  sd_production_order_type :: "string option"
  sd_required_date :: "int option"
  sd_positions :: "need_line list"
  sd_content_hash :: string
  sd_skip_reason :: "string option"

definition correlation_id :: "source_document \<Rightarrow> string" where
  "correlation_id d =
     take 128 (''proc:'' @ sd_database d @ '':'' @ source_type_value (sd_source_type d) @ '':'' @ sd_ref_key d)"

definition poll_idempotency_key :: "source_document \<Rightarrow> string" where
  "poll_idempotency_key d =
     take 255 (''poll:'' @ sd_database d @ '':'' @ sd_ref_key d @ '':'' @
       (if truthy (sd_data_version d) then opt_str (sd_data_version d) else sd_content_hash d))"

definition active_positions_of :: "source_type \<Rightarrow> need_line list \<Rightarrow> need_line list" where
  "active_positions_of source_type positions =
     filter (\<lambda>l. \<not> nl_cancelled l \<and> is_active_source_line source_type (nl_supply_action l)) positions"

definition with_required_date :: "int option \<Rightarrow> need_line list \<Rightarrow> need_line list" where
  "with_required_date header lines =
     (case header of None \<Rightarrow> lines | Some t \<Rightarrow> map (\<lambda>l. l\<lparr>nl_required_date := Some t\<rparr>) lines)"

definition skip_reason_of :: "source_document \<Rightarrow> need_line list \<Rightarrow> string option" where
  "skip_reason_of d positions =
     (if sd_deletion_mark d then Some ''deletion_mark''
      else if sd_cancelled d then Some ''cancelled''
      else if is_terminal_status (sd_status d) then Some (''terminal_status:'' @ opt_str (sd_status d))
      else if sd_positions d = [] then
        Some (if \<exists>l \<in> set positions. \<not> nl_cancelled l then ''inactive_supply_action'' else ''no_active_positions'')
      else None)"

definition base_document ::
  "source_type \<Rightarrow> string \<Rightarrow> string \<Rightarrow> jdict \<Rightarrow> string \<Rightarrow> need_line list \<Rightarrow> source_document" where
  "base_document source_type database entity_set raw ref_key positions =
     (let header = parse_1c_datetime (jget raw KEY_WISHED_DATE);
          wfrom = optional_str (jget raw KEY_WAREHOUSE_FROM);
          wto = optional_str (jget raw KEY_WAREHOUSE_TO)
      in \<lparr>sd_source_type = source_type, sd_entity_set = entity_set, sd_database = database, sd_ref_key = ref_key,
          sd_data_version = optional_str (jget raw ''DataVersion''), sd_number = optional_str (jget raw ''Number''),
          sd_date = parse_1c_datetime (jget raw ''Date''),
          sd_posted = (case jget raw ''Posted'' of JBool b \<Rightarrow> Some b | _ \<Rightarrow> None),
          sd_deletion_mark = jtruthy (jget raw ''DeletionMark''),
          sd_cancelled = jtruthy (get_first raw [KEY_CANCELLED_E, KEY_CANCELLED_YO, KEY_CANCELLED]),
          sd_status = optional_str (jget raw KEY_STATUS),
          sd_initiator_ref = optional_str (get_first raw [KEY_AUTHOR, KEY_RESPONSIBLE]), sd_initiator_name = None,
          sd_department_ref = optional_str (jget raw KEY_DEPARTMENT), sd_department_name = None,
          sd_warehouse_ref =
            (if source_type = TransferOrder then or_str wto wfrom
             else optional_str (get_first raw [KEY_WAREHOUSE, KEY_WORKSHOP_STORE])),
          sd_warehouse_name = None, sd_warehouse_from_ref = wfrom, sd_warehouse_to_ref = wto,
          sd_organization_ref = optional_str (jget raw KEY_ORGANIZATION),
          sd_priority_ref = optional_str (jget raw KEY_PRIORITY),
          sd_basis_ref = optional_str (get_first raw [KEY_BASIS, KEY_BASIS_DOCUMENT]),
          sd_basis_type = optional_str (get_first raw [KEY_BASIS_TYPE, KEY_BASIS_DOCUMENT_TYPE]),
          sd_basis_number = None, sd_basis_date = None, sd_basis_status = None,
          sd_production_order_ref =
            optional_str (get_first raw [KEY_PRODUCTION_KEY, KEY_PRODUCTION, KEY_BASIS_DOCUMENT]),
          sd_production_order_type = optional_str (get_first raw [KEY_PRODUCTION_TYPE, KEY_BASIS_DOCUMENT_TYPE]),
          sd_required_date = header,
          sd_positions = with_required_date header (active_positions_of source_type positions),
          sd_content_hash = [], sd_skip_reason = None\<rparr>)"

definition normalize_source_document ::
  "(source_document \<Rightarrow> string) \<Rightarrow> source_type \<Rightarrow> string \<Rightarrow> string \<Rightarrow> jdict \<Rightarrow> source_error + source_document" where
  "normalize_source_document digest source_type database entity_set raw =
     (case optional_str (get_first raw [''Ref_Key'', ''ref'']) of
        None \<Rightarrow> Inl Missing_Ref
      | Some ref_key \<Rightarrow>
          (case normalize_need_lines (jor (jget raw KEY_LINES) (JArr [])) of
             Inl e \<Rightarrow> Inl e
           | Inr positions \<Rightarrow>
               (let d = base_document source_type database entity_set raw ref_key positions
                in Inr (d\<lparr>sd_content_hash := digest d, sd_skip_reason := skip_reason_of d positions\<rparr>))))"

end
