(* ===== verification/Document_Facts.thy ===== *)
theory Document_Facts
  imports Source_Discovery
begin

text \<open>
  What the normalisation of a 1C document promises: when it fails, what the positions of a normalised
  document are, and that the correlation id of a document identifies it.
\<close>

section \<open>Lines\<close>

text \<open>An entry of the list that raises: a line that is needed and whose number cannot be read.\<close>

definition bad_line :: "nat \<Rightarrow> json \<Rightarrow> bool" where
  "bad_line index entry \<longleftrightarrow>
     (case entry of
        JObj item \<Rightarrow> optional_str (jget item KEY_NOMENCLATURE) \<noteq> None \<and> line_quantity item \<noteq> None \<and>
          line_number_of index item = None
      | _ \<Rightarrow> False)"

lemma line_fails: "need_line_of index entry = Inl e \<longleftrightarrow> e = Bad_Line_Number \<and> bad_line index entry"
  by (cases e) (auto simp: need_line_of_def bad_line_def split: json.splits option.splits)

lemma lines_fail:
  "need_lines_from index xs = Inl e \<longleftrightarrow> e = Bad_Line_Number \<and> (\<exists>i. i < length xs \<and> bad_line (index + i) (xs ! i))"
proof (induction xs arbitrary: index)
  case (Cons x xs)
  have split: "(\<exists>i. i < length (x # xs) \<and> bad_line (index + i) ((x # xs) ! i)) \<longleftrightarrow>
      bad_line index x \<or> (\<exists>i. i < length xs \<and> bad_line (Suc index + i) (xs ! i))"
    using Ex_less_Suc2[of "length xs" "\<lambda>i. bad_line (index + i) ((x # xs) ! i)"] by simp
  show ?case
  proof (cases "need_line_of index x")
    case (Inl e')
    with line_fails[of index x e'] show ?thesis unfolding split by auto
  next
    case (Inr y)
    then have "\<not> bad_line index x" using line_fails[of index x Bad_Line_Number] by simp
    moreover have "need_lines_from index (x # xs) = Inl e \<longleftrightarrow> need_lines_from (Suc index) xs = Inl e"
      using Inr by (simp split: sum.splits)
    ultimately show ?thesis unfolding split Cons.IH by simp
  qed
qed simp

text \<open>A line that was read names a nomenclature and a quantity.\<close>

lemma optional_nonempty: "optional_str v = Some t \<Longrightarrow> t \<noteq> []"
  by (auto simp: optional_str_def Let_def split: if_splits)

lemma line_read: "need_line_of index entry = Inr (Some l) \<Longrightarrow> nl_nomenclature_id l \<noteq> []"
  by (auto simp: need_line_of_def dest: optional_nonempty split: json.splits option.splits)

lemma lines_read: "need_lines_from index xs = Inr ls \<Longrightarrow> l \<in> set ls \<Longrightarrow> nl_nomenclature_id l \<noteq> []"
proof (induction xs arbitrary: index ls)
  case (Cons x xs)
  from Cons.prems(1) obtain y ys where "need_line_of index x = Inr y" "need_lines_from (Suc index) xs = Inr ys"
    "ls = (case y of None \<Rightarrow> ys | Some z \<Rightarrow> z # ys)"
    by (auto split: sum.splits)
  with Cons.IH[of "Suc index" ys] Cons.prems(2) line_read show ?case by (auto split: option.splits)
qed simp

lemma normalized_read: "normalize_need_lines raw = Inr ls \<Longrightarrow> l \<in> set ls \<Longrightarrow> nl_nomenclature_id l \<noteq> []"
  by (auto simp: normalize_need_lines_def dest: lines_read split: json.splits)

section \<open>Correlation ids\<close>

lemma type_value_plain: "CHR '':'' \<notin> set (source_type_value t)"
  by (cases t) simp_all

lemma type_value_inj: "source_type_value t = source_type_value u \<Longrightarrow> t = u"
  by (cases t; cases u) simp_all

lemma split_at: "c \<notin> set xs \<Longrightarrow> c \<notin> set ys \<Longrightarrow> xs @ c # us = ys @ c # vs \<Longrightarrow> xs = ys \<and> us = vs"
  by (induction xs arbitrary: ys) (case_tac ys; auto)+

section \<open>A document\<close>

definition demo_raw :: jdict where
  "demo_raw =
     [(''Ref_Key'', JStr ''ref-1''), (''Number'', JStr ''7''),
      (KEY_LINES, JArr [JNull,
         JObj [(KEY_NOMENCLATURE, JStr ''bolt''), (KEY_QUANTITY, JInt 2), (KEY_ACTION, JStr TO_SUPPLY)],
         JObj [(KEY_NOMENCLATURE, JStr ''nut''), (KEY_QUANTITY, JInt 3)]])]"

section \<open>Properties\<close>

text \<open>
  C40: A raw document is refused exactly when it has no reference, or when one of its lines that names a
  nomenclature and a quantity has a number that cannot be read; an entry that is not an object, or has
  no nomenclature or no quantity, is passed over and never fails.
\<close>

lemma document_fails_iff:
  "normalize_source_document digest ty database entity raw = Inl e \<longleftrightarrow>
    (if optional_str (get_first raw [''Ref_Key'', ''ref'']) = None then e = Missing_Ref
     else e = Bad_Line_Number \<and>
       (\<exists>xs i. jor (jget raw KEY_LINES) (JArr []) = JArr xs \<and> i < length xs \<and> bad_line (Suc i) (xs ! i)))"
proof -
  have "normalize_need_lines v = Inl e' \<longleftrightarrow>
      e' = Bad_Line_Number \<and> (\<exists>xs i. v = JArr xs \<and> i < length xs \<and> bad_line (Suc i) (xs ! i))" for v e'
    by (cases v) (simp_all add: normalize_need_lines_def lines_fail)
  note bad = this[of "jor (jget raw KEY_LINES) (JArr [])", symmetric]
  show ?thesis unfolding bad
    by (auto simp: normalize_source_document_def Let_def split: option.splits sum.splits)
qed

text \<open>
  What a normalised document asks for is needed.  Every position names a nomenclature, is not
  cancelled, has the supply action that its type of document asks for, and, when the document wishes a
  date, is required by that date; a document is not skipped exactly when it is alive (not marked for
  deletion, not cancelled, not in a terminal status) and has such a position.
\<close>

lemma document_positions_needed:
  assumes "normalize_source_document digest ty database entity raw = Inr d"
  shows "(\<forall>l \<in> set (sd_positions d). nl_nomenclature_id l \<noteq> [] \<and> \<not> nl_cancelled l \<and>
      is_active_source_line ty (nl_supply_action l) \<and> (sd_required_date d \<noteq> None \<longrightarrow> nl_required_date l = sd_required_date d)) \<and>
    (sd_skip_reason d = None \<longleftrightarrow>
      \<not> sd_deletion_mark d \<and> \<not> sd_cancelled d \<and> \<not> is_terminal_status (sd_status d) \<and> sd_positions d \<noteq> [])"
proof -
  from assms obtain ref ps where n: "normalize_need_lines (jor (jget raw KEY_LINES) (JArr [])) = Inr ps"
    and d: "d = (base_document ty database entity raw ref ps)\<lparr>sd_content_hash := digest (base_document ty database entity raw ref ps),
      sd_skip_reason := skip_reason_of (base_document ty database entity raw ref ps) ps\<rparr>"
    by (auto simp: normalize_source_document_def Let_def split: option.splits sum.splits)
  have p: "sd_positions d = with_required_date (sd_required_date d) (active_positions_of ty ps)"
    by (simp add: d base_document_def Let_def)
  have "\<forall>l \<in> set (sd_positions d). nl_nomenclature_id l \<noteq> [] \<and> \<not> nl_cancelled l \<and>
      is_active_source_line ty (nl_supply_action l) \<and> (sd_required_date d \<noteq> None \<longrightarrow> nl_required_date l = sd_required_date d)"
    using normalized_read[OF n] unfolding p with_required_date_def active_positions_of_def by (auto split: option.splits)
  moreover have "sd_skip_reason d = skip_reason_of d ps" by (simp add: d skip_reason_of_def)
  ultimately show ?thesis by (simp add: skip_reason_of_def)
qed

text \<open>
  The correlation id identifies the document.  Two documents with the same id (of at most 128
  characters, with database names free of colons) have the same database, type and reference, so the
  case a poll finds by correlation id is the case of that document.
\<close>

lemma correlation_identifies:
  assumes "correlation_id d = correlation_id e" "CHR '':'' \<notin> set (sd_database d)" "CHR '':'' \<notin> set (sd_database e)"
    "length (sd_database d) + length (source_type_value (sd_source_type d)) + length (sd_ref_key d) \<le> 121"
    "length (sd_database e) + length (source_type_value (sd_source_type e)) + length (sd_ref_key e) \<le> 121"
  shows "sd_database d = sd_database e \<and> sd_source_type d = sd_source_type e \<and> sd_ref_key d = sd_ref_key e"
proof -
  have "sd_database d @ CHR '':'' # (source_type_value (sd_source_type d) @ CHR '':'' # sd_ref_key d) =
      sd_database e @ CHR '':'' # (source_type_value (sd_source_type e) @ CHR '':'' # sd_ref_key e)"
    using assms(1,4,5) by (simp add: correlation_id_def)
  from split_at[OF assms(2,3) this] have "sd_database d = sd_database e"
    "source_type_value (sd_source_type d) @ CHR '':'' # sd_ref_key d =
      source_type_value (sd_source_type e) @ CHR '':'' # sd_ref_key e" by blast+
  with split_at[OF type_value_plain type_value_plain this(2)] type_value_inj show ?thesis by blast
qed

end
