(* ===== verification/Case_Store.thy ===== *)
theory Case_Store
  imports Source_Discovery
begin

text \<open>
  A procurement case, its tasks and its events, and the operations of the orchestrator that open,
  refresh, archive and reopen a case (\<open>app/models/procurement.py\<close>, \<open>app/models/task.py\<close>,
  \<open>app/services/procurement_orchestrator_service.py\<close>).

  The database is explicit: a case is a record, the tasks are a dictionary by id, the events a list in
  the order they are written.  An operation on a case takes the case and the store and returns both.
  The clock \<open>now\<close> and fresh ids are arguments.  Columns no operation of the service reads (the graph and
  rule versions, the autonomy level, the human role) are left out.
\<close>

section \<open>Labels\<close>

definition LABEL_CANCELLED :: string where
  "LABEL_CANCELLED =
    [CHR 0xD0, CHR 0x94, CHR 0xD0, CHR 0xBE, CHR 0xD0, CHR 0xBA, CHR 0xD1, CHR 0x83, CHR 0xD0, CHR
     0xBC, CHR 0xD0, CHR 0xB5, CHR 0xD0, CHR 0xBD, CHR 0xD1, CHR 0x82, CHR 0x20, CHR 0xD0, CHR 0xBE,
     CHR 0xD1, CHR 0x82, CHR 0xD0, CHR 0xBC, CHR 0xD0, CHR 0xB5, CHR 0xD0, CHR 0xBD, CHR 0xD1, CHR
     0x91, CHR 0xD0, CHR 0xBD, CHR 0x20, CHR 0xD0, CHR 0xB2, CHR 0x20, CHR 0x31, CHR 0xD0, CHR 0xA1]"

definition LABEL_DELETION_MARK :: string where
  "LABEL_DELETION_MARK =
    [CHR 0xD0, CHR 0x94, CHR 0xD0, CHR 0xBE, CHR 0xD0, CHR 0xBA, CHR 0xD1, CHR 0x83, CHR 0xD0, CHR
     0xBC, CHR 0xD0, CHR 0xB5, CHR 0xD0, CHR 0xBD, CHR 0xD1, CHR 0x82, CHR 0x20, CHR 0xD0, CHR 0xBF,
     CHR 0xD0, CHR 0xBE, CHR 0xD0, CHR 0xBC, CHR 0xD0, CHR 0xB5, CHR 0xD1, CHR 0x87, CHR 0xD0, CHR
     0xB5, CHR 0xD0, CHR 0xBD, CHR 0x20, CHR 0xD0, CHR 0xBD, CHR 0xD0, CHR 0xB0, CHR 0x20, CHR 0xD1,
     CHR 0x83, CHR 0xD0, CHR 0xB4, CHR 0xD0, CHR 0xB0, CHR 0xD0, CHR 0xBB, CHR 0xD0, CHR 0xB5, CHR
     0xD0, CHR 0xBD, CHR 0xD0, CHR 0xB8, CHR 0xD0, CHR 0xB5]"

definition LABEL_NO_POSITIONS :: string where
  "LABEL_NO_POSITIONS =
    [CHR 0xD0, CHR 0x9D, CHR 0xD0, CHR 0xB5, CHR 0xD1, CHR 0x82, CHR 0x20, CHR 0xD0, CHR 0xB0, CHR
     0xD0, CHR 0xBA, CHR 0xD1, CHR 0x82, CHR 0xD0, CHR 0xB8, CHR 0xD0, CHR 0xB2, CHR 0xD0, CHR 0xBD,
     CHR 0xD1, CHR 0x8B, CHR 0xD1, CHR 0x85, CHR 0x20, CHR 0xD1, CHR 0x81, CHR 0xD1, CHR 0x82, CHR
     0xD1, CHR 0x80, CHR 0xD0, CHR 0xBE, CHR 0xD0, CHR 0xBA, CHR 0x20, CHR 0xD0, CHR 0xBF, CHR 0xD0,
     CHR 0xBE, CHR 0xD1, CHR 0x82, CHR 0xD1, CHR 0x80, CHR 0xD0, CHR 0xB5, CHR 0xD0, CHR 0xB1, CHR
     0xD0, CHR 0xBD, CHR 0xD0, CHR 0xBE, CHR 0xD1, CHR 0x81, CHR 0xD1, CHR 0x82, CHR 0xD0, CHR 0xB8]"

definition LABEL_INACTIVE_ACTION :: string where
  "LABEL_INACTIVE_ACTION =
    [CHR 0xD0, CHR 0x94, CHR 0xD0, CHR 0xB5, CHR 0xD0, CHR 0xB9, CHR 0xD1, CHR 0x81, CHR 0xD1, CHR
     0x82, CHR 0xD0, CHR 0xB2, CHR 0xD0, CHR 0xB8, CHR 0xD0, CHR 0xB5, CHR 0x20, CHR 0xD1, CHR 0x81,
     CHR 0xD1, CHR 0x82, CHR 0xD1, CHR 0x80, CHR 0xD0, CHR 0xBE, CHR 0xD0, CHR 0xBA, CHR 0x20, CHR
     0xD0, CHR 0xB1, CHR 0xD0, CHR 0xBE, CHR 0xD0, CHR 0xBB, CHR 0xD1, CHR 0x8C, CHR 0xD1, CHR 0x88,
     CHR 0xD0, CHR 0xB5, CHR 0x20, CHR 0xD0, CHR 0xBD, CHR 0xD0, CHR 0xB5, CHR 0x20, CHR 0xC2, CHR
     0xAB, CHR 0xD0, CHR 0x9A, CHR 0x20, CHR 0xD0, CHR 0xBE, CHR 0xD0, CHR 0xB1, CHR 0xD0, CHR 0xB5,
     CHR 0xD1, CHR 0x81, CHR 0xD0, CHR 0xBF, CHR 0xD0, CHR 0xB5, CHR 0xD1, CHR 0x87, CHR 0xD0, CHR
     0xB5, CHR 0xD0, CHR 0xBD, CHR 0xD0, CHR 0xB8, CHR 0xD1, CHR 0x8E, CHR 0xC2, CHR 0xBB]"

definition LABEL_TERMINAL :: string where
  "LABEL_TERMINAL =
    [CHR 0xD0, CHR 0x94, CHR 0xD0, CHR 0xBE, CHR 0xD0, CHR 0xBA, CHR 0xD1, CHR 0x83, CHR 0xD0, CHR
     0xBC, CHR 0xD0, CHR 0xB5, CHR 0xD0, CHR 0xBD, CHR 0xD1, CHR 0x82, CHR 0x20, CHR 0xD0, CHR 0xB7,
     CHR 0xD0, CHR 0xB0, CHR 0xD0, CHR 0xBA, CHR 0xD1, CHR 0x80, CHR 0xD1, CHR 0x8B, CHR 0xD1, CHR
     0x82, CHR 0x20, CHR 0xD0, CHR 0xB8, CHR 0xD0, CHR 0xBB, CHR 0xD0, CHR 0xB8, CHR 0x20, CHR 0xD0,
     CHR 0xB7, CHR 0xD0, CHR 0xB0, CHR 0xD0, CHR 0xB2, CHR 0xD0, CHR 0xB5, CHR 0xD1, CHR 0x80, CHR
     0xD1, CHR 0x88, CHR 0xD1, CHR 0x91, CHR 0xD0, CHR 0xBD, CHR 0x20, CHR 0xD0, CHR 0xB2, CHR 0x20,
     CHR 0x31, CHR 0xD0, CHR 0xA1]"

definition LABEL_NOT_ACTUAL :: string where
  "LABEL_NOT_ACTUAL =
    [CHR 0xD0, CHR 0x9E, CHR 0xD1, CHR 0x81, CHR 0xD0, CHR 0xBD, CHR 0xD0, CHR 0xBE, CHR 0xD0, CHR
     0xB2, CHR 0xD0, CHR 0xB0, CHR 0xD0, CHR 0xBD, CHR 0xD0, CHR 0xB8, CHR 0xD0, CHR 0xB5, CHR 0x20,
     CHR 0xD0, CHR 0xB1, CHR 0xD0, CHR 0xBE, CHR 0xD0, CHR 0xBB, CHR 0xD1, CHR 0x8C, CHR 0xD1, CHR
     0x88, CHR 0xD0, CHR 0xB5, CHR 0x20, CHR 0xD0, CHR 0xBD, CHR 0xD0, CHR 0xB5, CHR 0x20, CHR 0xD0,
     CHR 0xB0, CHR 0xD0, CHR 0xBA, CHR 0xD1, CHR 0x82, CHR 0xD1, CHR 0x83, CHR 0xD0, CHR 0xB0, CHR
     0xD0, CHR 0xBB, CHR 0xD1, CHR 0x8C, CHR 0xD0, CHR 0xBD, CHR 0xD0, CHR 0xBE, CHR 0x20, CHR 0xD0,
     CHR 0xB2, CHR 0x20, CHR 0x31, CHR 0xD0, CHR 0xA1]"

definition LABEL_TOO_OLD :: string where
  "LABEL_TOO_OLD =
    [CHR 0xD0, CHR 0x94, CHR 0xD0, CHR 0xBE, CHR 0xD0, CHR 0xBA, CHR 0xD1, CHR 0x83, CHR 0xD0, CHR
     0xBC, CHR 0xD0, CHR 0xB5, CHR 0xD0, CHR 0xBD, CHR 0xD1, CHR 0x82, CHR 0x20, CHR 0xD1, CHR 0x81,
     CHR 0xD1, CHR 0x82, CHR 0xD0, CHR 0xB0, CHR 0xD1, CHR 0x80, CHR 0xD1, CHR 0x88, CHR 0xD0, CHR
     0xB5, CHR 0x20, CHR 0xD0, CHR 0xB4, CHR 0xD0, CHR 0xB2, CHR 0xD1, CHR 0x83, CHR 0xD1, CHR 0x85,
     CHR 0x20, CHR 0xD0, CHR 0xBA, CHR 0xD0, CHR 0xB0, CHR 0xD0, CHR 0xBB, CHR 0xD0, CHR 0xB5, CHR
     0xD0, CHR 0xBD, CHR 0xD0, CHR 0xB4, CHR 0xD0, CHR 0xB0, CHR 0xD1, CHR 0x80, CHR 0xD0, CHR 0xBD,
     CHR 0xD1, CHR 0x8B, CHR 0xD1, CHR 0x85, CHR 0x20, CHR 0xD0, CHR 0xBC, CHR 0xD0, CHR 0xB5, CHR
     0xD1, CHR 0x81, CHR 0xD1, CHR 0x8F, CHR 0xD1, CHR 0x86, CHR 0xD0, CHR 0xB5, CHR 0xD0, CHR 0xB2]"

definition LABEL_RELEASED :: string where
  "LABEL_RELEASED =
    [CHR 0xD0, CHR 0x9E, CHR 0xD0, CHR 0xA2, CHR 0xD0, CHR 0x9A, CHR 0x20, CHR 0xD0, CHR 0xB7, CHR
     0xD0, CHR 0xB0, CHR 0xD0, CHR 0xB2, CHR 0xD0, CHR 0xB5, CHR 0xD1, CHR 0x80, CHR 0xD1, CHR 0x88,
     CHR 0xD0, CHR 0xB8, CHR 0xD0, CHR 0xBB, CHR 0x20, CHR 0xD0, CHR 0xBF, CHR 0xD1, CHR 0x80, CHR
     0xD0, CHR 0xBE, CHR 0xD0, CHR 0xB2, CHR 0xD0, CHR 0xB5, CHR 0xD1, CHR 0x80, CHR 0xD0, CHR 0xBA,
     CHR 0xD1, CHR 0x83, CHR 0x2C, CHR 0x20, CHR 0xD0, CHR 0xBC, CHR 0xD0, CHR 0xB0, CHR 0xD1, CHR
     0x82, CHR 0xD0, CHR 0xB5, CHR 0xD1, CHR 0x80, CHR 0xD0, CHR 0xB8, CHR 0xD0, CHR 0xB0, CHR 0xD0,
     CHR 0xBB, CHR 0xD1, CHR 0x8B, CHR 0x20, CHR 0xD1, CHR 0x80, CHR 0xD0, CHR 0xB0, CHR 0xD0, CHR
     0xB7, CHR 0xD1, CHR 0x80, CHR 0xD0, CHR 0xB5, CHR 0xD1, CHR 0x88, CHR 0xD0, CHR 0xB5, CHR 0xD0,
     CHR 0xBD, CHR 0xD1, CHR 0x8B, CHR 0x20, CHR 0xD0, CHR 0xBA, CHR 0x20, CHR 0xD0, CHR 0xB8, CHR
     0xD1, CHR 0x81, CHR 0xD0, CHR 0xBF, CHR 0xD0, CHR 0xBE, CHR 0xD0, CHR 0xBB, CHR 0xD1, CHR 0x8C,
     CHR 0xD0, CHR 0xB7, CHR 0xD0, CHR 0xBE, CHR 0xD0, CHR 0xB2, CHR 0xD0, CHR 0xB0, CHR 0xD0, CHR
     0xBD, CHR 0xD0, CHR 0xB8, CHR 0xD1, CHR 0x8E]"

definition STAGE_BASIS :: string where
  "STAGE_BASIS =
    [CHR 0xD0, CHR 0x9E, CHR 0xD1, CHR 0x81, CHR 0xD0, CHR 0xBD, CHR 0xD0, CHR 0xBE, CHR 0xD0, CHR
     0xB2, CHR 0xD0, CHR 0xB0, CHR 0xD0, CHR 0xBD, CHR 0xD0, CHR 0xB8, CHR 0xD0, CHR 0xB5]"

definition STAGE_DATA :: string where
  "STAGE_DATA =
    [CHR 0xD0, CHR 0x94, CHR 0xD0, CHR 0xB0, CHR 0xD0, CHR 0xBD, CHR 0xD0, CHR 0xBD, CHR 0xD1, CHR
     0x8B, CHR 0xD0, CHR 0xB5]"

definition STAGE_COVERAGE :: string where
  "STAGE_COVERAGE =
    [CHR 0xD0, CHR 0x9E, CHR 0xD0, CHR 0xB1, CHR 0xD0, CHR 0xB5, CHR 0xD1, CHR 0x81, CHR 0xD0, CHR
     0xBF, CHR 0xD0, CHR 0xB5, CHR 0xD1, CHR 0x87, CHR 0xD0, CHR 0xB5, CHR 0xD0, CHR 0xBD, CHR 0xD0,
     CHR 0xB8, CHR 0xD0, CHR 0xB5]"

definition STAGE_PURCHASE :: string where
  "STAGE_PURCHASE =
    [CHR 0xD0, CHR 0x97, CHR 0xD0, CHR 0xB0, CHR 0xD0, CHR 0xBA, CHR 0xD1, CHR 0x83, CHR 0xD0, CHR
     0xBF, CHR 0xD0, CHR 0xBA, CHR 0xD0, CHR 0xB0]"

definition STAGE_QUALITY :: string where
  "STAGE_QUALITY =
    [CHR 0xD0, CHR 0x9E, CHR 0xD0, CHR 0xA2, CHR 0xD0, CHR 0x9A]"

definition STAGE_PAYMENT :: string where
  "STAGE_PAYMENT =
    [CHR 0xD0, CHR 0x9E, CHR 0xD0, CHR 0xBF, CHR 0xD0, CHR 0xBB, CHR 0xD0, CHR 0xB0, CHR 0xD1, CHR
     0x82, CHR 0xD0, CHR 0xB0]"

definition STAGE_DELIVERY :: string where
  "STAGE_DELIVERY =
    [CHR 0xD0, CHR 0x9F, CHR 0xD0, CHR 0xBE, CHR 0xD1, CHR 0x81, CHR 0xD1, CHR 0x82, CHR 0xD0, CHR
     0xB0, CHR 0xD0, CHR 0xB2, CHR 0xD0, CHR 0xBA, CHR 0xD0, CHR 0xB0]"

definition STAGE_RECEIPT :: string where
  "STAGE_RECEIPT =
    [CHR 0xD0, CHR 0x9E, CHR 0xD0, CHR 0xBF, CHR 0xD1, CHR 0x80, CHR 0xD0, CHR 0xB8, CHR 0xD1, CHR
     0x85, CHR 0xD0, CHR 0xBE, CHR 0xD0, CHR 0xB4, CHR 0xD0, CHR 0xBE, CHR 0xD0, CHR 0xB2, CHR 0xD0,
     CHR 0xB0, CHR 0xD0, CHR 0xBD, CHR 0xD0, CHR 0xB8, CHR 0xD0, CHR 0xB5]"

definition SOURCE_LABEL_INTERNAL :: string where
  "SOURCE_LABEL_INTERNAL =
    [CHR 0xD0, CHR 0x97, CHR 0xD0, CHR 0xB0, CHR 0xD0, CHR 0xBA, CHR 0xD0, CHR 0xB0, CHR 0xD0, CHR
     0xB7, CHR 0x20, CHR 0xD0, CHR 0xBD, CHR 0xD0, CHR 0xB0, CHR 0x20, CHR 0xD0, CHR 0xB2, CHR 0xD0,
     CHR 0xBD, CHR 0xD1, CHR 0x83, CHR 0xD1, CHR 0x82, CHR 0xD1, CHR 0x80, CHR 0xD0, CHR 0xB5, CHR
     0xD0, CHR 0xBD, CHR 0xD0, CHR 0xBD, CHR 0xD0, CHR 0xB5, CHR 0xD0, CHR 0xB5, CHR 0x20, CHR 0xD0,
     CHR 0xBF, CHR 0xD0, CHR 0xBE, CHR 0xD1, CHR 0x82, CHR 0xD1, CHR 0x80, CHR 0xD0, CHR 0xB5, CHR
     0xD0, CHR 0xB1, CHR 0xD0, CHR 0xBB, CHR 0xD0, CHR 0xB5, CHR 0xD0, CHR 0xBD, CHR 0xD0, CHR 0xB8,
     CHR 0xD0, CHR 0xB5]"

definition SOURCE_LABEL_MATERIAL :: string where
  "SOURCE_LABEL_MATERIAL =
    [CHR 0xD0, CHR 0x97, CHR 0xD0, CHR 0xB0, CHR 0xD0, CHR 0xBA, CHR 0xD0, CHR 0xB0, CHR 0xD0, CHR
     0xB7, CHR 0x20, CHR 0xD0, CHR 0xBC, CHR 0xD0, CHR 0xB0, CHR 0xD1, CHR 0x82, CHR 0xD0, CHR 0xB5,
     CHR 0xD1, CHR 0x80, CHR 0xD0, CHR 0xB8, CHR 0xD0, CHR 0xB0, CHR 0xD0, CHR 0xBB, CHR 0xD0, CHR
     0xBE, CHR 0xD0, CHR 0xB2, CHR 0x20, CHR 0xD0, CHR 0xB2, CHR 0x20, CHR 0xD0, CHR 0xBF, CHR 0xD1,
     CHR 0x80, CHR 0xD0, CHR 0xBE, CHR 0xD0, CHR 0xB8, CHR 0xD0, CHR 0xB7, CHR 0xD0, CHR 0xB2, CHR
     0xD0, CHR 0xBE, CHR 0xD0, CHR 0xB4, CHR 0xD1, CHR 0x81, CHR 0xD1, CHR 0x82, CHR 0xD0, CHR 0xB2,
     CHR 0xD0, CHR 0xBE]"

definition SOURCE_LABEL_TRANSFER :: string where
  "SOURCE_LABEL_TRANSFER =
    [CHR 0xD0, CHR 0x97, CHR 0xD0, CHR 0xB0, CHR 0xD0, CHR 0xBA, CHR 0xD0, CHR 0xB0, CHR 0xD0, CHR
     0xB7, CHR 0x20, CHR 0xD0, CHR 0xBD, CHR 0xD0, CHR 0xB0, CHR 0x20, CHR 0xD0, CHR 0xBF, CHR 0xD0,
     CHR 0xB5, CHR 0xD1, CHR 0x80, CHR 0xD0, CHR 0xB5, CHR 0xD0, CHR 0xBC, CHR 0xD0, CHR 0xB5, CHR
     0xD1, CHR 0x89, CHR 0xD0, CHR 0xB5, CHR 0xD0, CHR 0xBD, CHR 0xD0, CHR 0xB8, CHR 0xD0, CHR 0xB5]"

definition SOURCE_LABEL_REORDER :: string where
  "SOURCE_LABEL_REORDER =
    [CHR 0xD0, CHR 0xA4, CHR 0xD0, CHR 0xBE, CHR 0xD1, CHR 0x80, CHR 0xD0, CHR 0xBC, CHR 0xD0, CHR
     0xB8, CHR 0xD1, CHR 0x80, CHR 0xD0, CHR 0xBE, CHR 0xD0, CHR 0xB2, CHR 0xD0, CHR 0xB0, CHR 0xD0,
     CHR 0xBD, CHR 0xD0, CHR 0xB8, CHR 0xD0, CHR 0xB5, CHR 0x20, CHR 0xD0, CHR 0xBF, CHR 0xD0, CHR
     0xBB, CHR 0xD0, CHR 0xB0, CHR 0xD0, CHR 0xBD, CHR 0xD0, CHR 0xB0, CHR 0x20, CHR 0xD0, CHR 0xBF,
     CHR 0xD1, CHR 0x80, CHR 0xD0, CHR 0xBE, CHR 0xD0, CHR 0xB8, CHR 0xD0, CHR 0xB7, CHR 0xD0, CHR
     0xB2, CHR 0xD0, CHR 0xBE, CHR 0xD0, CHR 0xB4, CHR 0xD1, CHR 0x81, CHR 0xD1, CHR 0x82, CHR 0xD0,
     CHR 0xB2, CHR 0xD0, CHR 0xB0, CHR 0x20, CHR 0xD0, CHR 0xBF, CHR 0xD0, CHR 0xBE, CHR 0xD0, CHR
     0xBB, CHR 0xD1, CHR 0x83, CHR 0xD1, CHR 0x84, CHR 0xD0, CHR 0xB0, CHR 0xD0, CHR 0xB1, CHR 0xD1,
     CHR 0x80, CHR 0xD0, CHR 0xB8, CHR 0xD0, CHR 0xBA, CHR 0xD0, CHR 0xB0, CHR 0xD1, CHR 0x82, CHR
     0xD0, CHR 0xBE, CHR 0xD0, CHR 0xB2, CHR 0x20, CHR 0xD0, CHR 0xB8, CHR 0x20, CHR 0xD0, CHR 0xBF,
     CHR 0xD0, CHR 0xBB, CHR 0xD0, CHR 0xB0, CHR 0xD0, CHR 0xBD, CHR 0xD0, CHR 0xB0, CHR 0x20, CHR
     0xD0, CHR 0xB7, CHR 0xD0, CHR 0xB0, CHR 0xD0, CHR 0xBA, CHR 0xD1, CHR 0x83, CHR 0xD0, CHR 0xBF,
     CHR 0xD0, CHR 0xBE, CHR 0xD0, CHR 0xBA, CHR 0x20, CHR 0xD0, CHR 0xBF, CHR 0xD0, CHR 0xBE, CHR
     0x20, CHR 0xD1, CHR 0x82, CHR 0xD0, CHR 0xBE, CHR 0xD1, CHR 0x87, CHR 0xD0, CHR 0xBA, CHR 0xD0,
     CHR 0xB0, CHR 0xD0, CHR 0xBC, CHR 0x20, CHR 0xD0, CHR 0xB7, CHR 0xD0, CHR 0xB0, CHR 0xD0, CHR
     0xBA, CHR 0xD0, CHR 0xB0, CHR 0xD0, CHR 0xB7, CHR 0xD0, CHR 0xB0]"


definition CLOSED_REASON_LABELS :: "(string, string) dict" where
  "CLOSED_REASON_LABELS =
    [(''cancelled'', LABEL_CANCELLED), (''deletion_mark'', LABEL_DELETION_MARK),
     (''no_active_positions'', LABEL_NO_POSITIONS), (''inactive_supply_action'', LABEL_INACTIVE_ACTION),
     (''terminal_status'', LABEL_TERMINAL), (''inactive_supply_action_or_cancelled'', LABEL_NOT_ACTUAL),
     (''source_too_old'', LABEL_TOO_OLD), (''quality_released'', LABEL_RELEASED)]"

definition route_stage :: "string \<Rightarrow> string \<Rightarrow> int \<Rightarrow> json" where
  "route_stage stage_id label order =
     JObj [(''stage_id'', JStr stage_id), (''label'', JStr label), (''order'', JInt order)]"

definition DEFAULT_ROUTE_STAGES :: json where
  "DEFAULT_ROUTE_STAGES = JArr
    [route_stage ''basis'' STAGE_BASIS 1, route_stage ''data'' STAGE_DATA 2, route_stage ''coverage'' STAGE_COVERAGE 3,
     route_stage ''purchase'' STAGE_PURCHASE 4, route_stage ''quality'' STAGE_QUALITY 5,
     route_stage ''payment'' STAGE_PAYMENT 6, route_stage ''delivery'' STAGE_DELIVERY 7,
     route_stage ''receipt'' STAGE_RECEIPT 8]"

fun source_label :: "source_type \<Rightarrow> string" where
  "source_label InternalConsumptionOrder = SOURCE_LABEL_INTERNAL"
| "source_label ProductionMaterialOrder = SOURCE_LABEL_MATERIAL"
| "source_label TransferOrder = SOURCE_LABEL_TRANSFER"
| "source_label ReorderPoint = SOURCE_LABEL_REORDER"

section \<open>Cases, tasks, events\<close>

datatype task_status =
    Task_Pending | Task_Planning | Task_Running | Task_Waiting_Human | Task_Waiting_External
  | Task_Completed | Task_Completed_With_Issues | Task_Failed | Task_Cancelled

definition BLOCKING_TASK_STATUSES :: "task_status list" where
  "BLOCKING_TASK_STATUSES =
    [Task_Pending, Task_Planning, Task_Running, Task_Waiting_Human, Task_Waiting_External, Task_Failed]"

record case_position =
  cp_line_id :: string
  cp_line_number :: int
  cp_nomenclature_id :: string
  cp_nomenclature_name :: "string option"
  cp_characteristic_id :: "string option"
  cp_unit :: "string option"
  cp_quantity :: rat
  cp_required_date :: "int option"
  cp_cancelled :: bool
  cp_raw_payload :: jdict

record pcase =
  pc_id :: string
  pc_correlation_id :: string
  pc_source_type :: source_type
  pc_source_ref :: string
  pc_entity_set :: "string option"
  pc_database :: "string option"
  pc_number :: "string option"
  pc_source_date :: "int option"
  pc_source_status :: "string option"
  pc_data_version :: "string option"
  pc_content_hash :: "string option"
  pc_synced_at :: "int option"
  pc_initiator_ref :: "string option"
  pc_initiator_name :: "string option"
  pc_department_ref :: "string option"
  pc_department_name :: "string option"
  pc_warehouse_ref :: "string option"
  pc_warehouse_name :: "string option"
  pc_warehouse_from_ref :: "string option"
  pc_warehouse_to_ref :: "string option"
  pc_organization_ref :: "string option"
  pc_priority_ref :: "string option"
  pc_required_date :: "int option"
  pc_deadline_at :: "int option"
  pc_assigned_agents :: "string list"
  pc_current_task :: "string option"
  pc_current_agent :: "string option"
  pc_deviation :: "string option"
  pc_status :: string
  pc_control_point :: "string option"
  pc_operation :: string
  pc_idempotency_key :: string
  pc_metadata :: jdict
  pc_latest_result :: jdict
  pc_error_message :: "string option"
  pc_closed_at :: "int option"
  pc_closed_reason :: "string option"
  pc_reactivated_at :: "int option"
  pc_updated_at :: int
  pc_positions :: "case_position list"

record ptask =
  pt_status :: task_status
  pt_task_type :: string
  pt_input_payload :: jdict
  pt_final_result :: jdict
  pt_requires_review :: bool
  pt_started_at :: "int option"
  pt_finished_at :: "int option"
  pt_error_message :: "string option"
  pt_metadata :: jdict

record pevent =
  pe_case_id :: string
  pe_correlation_id :: string
  pe_type :: string
  pe_agent_id :: string
  pe_previous_status :: "string option"
  pe_new_status :: string
  pe_key :: string
  pe_payload :: jdict

text \<open>
  \<open>so_dispatches\<close> is \<open>pending_dispatches\<close> of the service, \<open>so_enqueue\<close> its flag \<open>enqueue_case\<close>,
  \<open>so_planning\<close> the setting \<open>PROCUREMENT_ORCHESTRATOR_PLANNING_ENABLED\<close>.
\<close>

record store =
  so_tasks :: "(string, ptask) dict"
  so_events :: "pevent list"
  so_dispatches :: "(string \<times> string) list"
  so_enqueue :: bool
  so_planning :: bool

definition jdate :: "int option \<Rightarrow> json" where
  "jdate t = (case t of None \<Rightarrow> JNull | Some i \<Rightarrow> JStr (isoformat i))"

definition jtext_opt :: "string option \<Rightarrow> json" where
  "jtext_opt s = (case s of None \<Rightarrow> JNull | Some t \<Rightarrow> JStr t)"

definition ORCHESTRATOR_AGENT_ID :: string where
  "ORCHESTRATOR_AGENT_ID = ''procurement_logistics_agent''"

definition or_text :: "string option \<Rightarrow> string \<Rightarrow> string" where
  "or_text s t = (if truthy s then opt_str s else t)"

section \<open>Events\<close>

definition append_event ::
  "pcase \<Rightarrow> string \<Rightarrow> string \<Rightarrow> string option \<Rightarrow> string \<Rightarrow> jdict \<Rightarrow> string option \<Rightarrow> store \<Rightarrow> store" where
  "append_event c event_type key previous new_status payload agent so =
     (if \<exists>e \<in> set (so_events so). pe_case_id e = pc_id c \<and> pe_key e = key then so
      else so\<lparr>so_events := so_events so @
        [\<lparr>pe_case_id = pc_id c, pe_correlation_id = pc_correlation_id c, pe_type = event_type,
          pe_agent_id = or_text agent (or_text (pc_current_agent c) ORCHESTRATOR_AGENT_ID),
          pe_previous_status = previous, pe_new_status = new_status, pe_key = key, pe_payload = payload\<rparr>]\<rparr>)"

section \<open>Tasks\<close>

definition cancel_task :: "int \<Rightarrow> string option \<Rightarrow> ptask \<Rightarrow> ptask" where
  "cancel_task now reason t = t\<lparr>pt_status := Task_Cancelled, pt_finished_at := Some now, pt_error_message := reason\<rparr>"

definition put_task :: "string \<Rightarrow> ptask \<Rightarrow> store \<Rightarrow> store" where
  "put_task i t so = so\<lparr>so_tasks := dict_set i t (so_tasks so)\<rparr>"

definition current_task_of :: "pcase \<Rightarrow> store \<Rightarrow> ptask option" where
  "current_task_of c so = (case pc_current_task c of None \<Rightarrow> None | Some i \<Rightarrow> dict_get (so_tasks so) i)"

definition cancel_current_task :: "int \<Rightarrow> string option \<Rightarrow> pcase \<Rightarrow> store \<Rightarrow> pcase \<times> store" where
  "cancel_current_task now reason c so =
     (case pc_current_task c of
        None \<Rightarrow> (c, so)
      | Some i \<Rightarrow>
          (c\<lparr>pc_current_task := None, pc_current_agent := None\<rparr>,
           case dict_get (so_tasks so) i of
             Some t \<Rightarrow> if pt_status t \<in> set BLOCKING_TASK_STATUSES then put_task i (cancel_task now reason t) so else so
           | None \<Rightarrow> so))"

section \<open>Closing and reopening\<close>

definition archive_workspace :: "string \<Rightarrow> string \<Rightarrow> jdict \<Rightarrow> jdict" where
  "archive_workspace prefix stamp metadata =
     dict_set (prefix @ ''_workspace_status'') (JStr ''archived'')
       (dict_setdefault (prefix @ ''_archived_bucket'') (JStr ''attention'')
         (dict_set (prefix @ ''_workspace_archived_at'') (JStr stamp) metadata))"

definition archived_metadata :: "pcase \<Rightarrow> string \<Rightarrow> jdict" where
  "archived_metadata c stamp =
     (let montage = is_montage_section_2_department (pc_department_name c);
          material = pc_source_type c = ProductionMaterialOrder;
          m0 = pc_metadata c;
          m1 = (if material \<and> montage \<or> jtruthy (jget m0 ''picker_invoked_at'') then archive_workspace ''picker'' stamp m0
                else m0);
          m2 = (if material \<and> \<not> montage \<or> jtruthy (jget m1 ''complex_invoked_at'')
                then archive_workspace ''complex'' stamp m1 else m1);
          m3 = (if jtruthy (jget m2 ''engineer_invoked_at'') \<and> \<not> montage \<and> \<not> jtruthy (jget m2 ''complex_invoked_at'')
                then archive_workspace ''engineer'' stamp m2 else m2);
          m4 = (if jtruthy (jget m3 ''dispatcher_invoked_at'') \<or> pc_source_type c = ReorderPoint
                then archive_workspace ''dispatcher'' stamp m3 else m3)
      in if jtruthy (jget m4 ''purchase_manager_invoked_at'') \<or> jtruthy (jget m4 ''purchase_manager_output'')
         then dict_set ''purchase_manager_workspace_status'' (JStr ''archived'')
                (dict_set ''purchase_manager_workspace_archived_at'' (JStr stamp) m4)
         else m4)"

definition keep_or :: "'a option \<Rightarrow> 'a option \<Rightarrow> 'a option" where
  "keep_or new old = (case new of None \<Rightarrow> old | Some _ \<Rightarrow> new)"

text \<open>An archive without a payload of its own is not used by the service.\<close>

definition archive_case ::
  "int \<Rightarrow> string \<Rightarrow> string \<Rightarrow> string \<Rightarrow> jdict \<Rightarrow> string option \<Rightarrow> string option \<Rightarrow> string option \<Rightarrow>
   pcase \<Rightarrow> store \<Rightarrow> pcase \<times> store" where
  "archive_case now closed_reason event_type key payload status version digest c so =
     (if pc_status c \<in> set TERMINAL_CASE_STATUSES then (c, so)
      else
        (let c1 = c\<lparr>pc_status := ''closed'', pc_closed_at := Some now, pc_closed_reason := Some closed_reason,
                    pc_deviation := Some (dict_get_or CLOSED_REASON_LABELS closed_reason (LABEL_NOT_ACTUAL @ ''.'')),
                    pc_source_status := keep_or status (pc_source_status c),
                    pc_data_version := keep_or version (pc_data_version c),
                    pc_content_hash := keep_or digest (pc_content_hash c)\<rparr>;
             c2 = c1\<lparr>pc_metadata := archived_metadata c1 (isoformat now)\<rparr>;
             (c3, so3) = cancel_current_task now (pc_deviation c2) c2 so
         in (c3, append_event c3 event_type key (Some (pc_status c)) (pc_status c3) payload None so3)))"

definition reactivate_case :: "int \<Rightarrow> source_document \<Rightarrow> pcase \<Rightarrow> store \<Rightarrow> pcase \<times> store" where
  "reactivate_case now d c so =
     (let c1 = c\<lparr>pc_status := ''new'', pc_closed_at := None, pc_closed_reason := None, pc_reactivated_at := Some now,
                 pc_deviation := None, pc_error_message := None,
                 pc_control_point := Some (if so_planning so then ''KT1'' else ''basis'')\<rparr>
      in (c1, append_event c1 ''case_reactivated_from_source'' (poll_idempotency_key d @ '':reactivated'')
                (Some (pc_status c)) (pc_status c1)
                [(''source_data_version'', jtext_opt (sd_data_version d)), (''content_hash'', JStr (sd_content_hash d))] None so))"

section \<open>The card of a case\<close>

definition position_of_line :: "need_line \<Rightarrow> case_position" where
  "position_of_line l =
     \<lparr>cp_line_id = nl_line_id l, cp_line_number = nl_line_number l, cp_nomenclature_id = nl_nomenclature_id l,
      cp_nomenclature_name = nl_nomenclature_name l, cp_characteristic_id = nl_characteristic_id l,
      cp_unit = nl_unit l, cp_quantity = nl_quantity l, cp_required_date = nl_required_date l,
      cp_cancelled = nl_cancelled l, cp_raw_payload = nl_raw_payload l\<rparr>"

definition replace_positions :: "source_document \<Rightarrow> pcase \<Rightarrow> pcase" where
  "replace_positions d c = c\<lparr>pc_positions := map position_of_line (sd_positions d)\<rparr>"

definition basis_metadata :: "source_document \<Rightarrow> jdict" where
  "basis_metadata d =
     [(''source_basis_1c_ref'', jtext_opt (sd_basis_ref d)), (''source_basis_type'', jtext_opt (sd_basis_type d)),
      (''source_basis_number'', jtext_opt (sd_basis_number d)), (''source_basis_date'', jdate (sd_basis_date d)),
      (''source_basis_status'', jtext_opt (sd_basis_status d)),
      (''production_order_1c_ref'', jtext_opt (sd_production_order_ref d)),
      (''production_order_type'', jtext_opt (sd_production_order_type d))]"

definition new_case :: "int \<Rightarrow> string \<Rightarrow> source_document \<Rightarrow> pcase" where
  "new_case now case_id d =
     \<lparr>pc_id = case_id, pc_correlation_id = correlation_id d, pc_source_type = sd_source_type d,
      pc_source_ref = sd_ref_key d, pc_entity_set = Some (sd_entity_set d), pc_database = Some (sd_database d),
      pc_number = sd_number d, pc_source_date = sd_date d, pc_source_status = sd_status d,
      pc_data_version = sd_data_version d, pc_content_hash = Some (sd_content_hash d), pc_synced_at = Some now,
      pc_initiator_ref = sd_initiator_ref d, pc_initiator_name = sd_initiator_name d,
      pc_department_ref = sd_department_ref d, pc_department_name = sd_department_name d,
      pc_warehouse_ref = sd_warehouse_ref d, pc_warehouse_name = sd_warehouse_name d,
      pc_warehouse_from_ref = sd_warehouse_from_ref d, pc_warehouse_to_ref = sd_warehouse_to_ref d,
      pc_organization_ref = sd_organization_ref d, pc_priority_ref = sd_priority_ref d,
      pc_required_date = sd_required_date d, pc_deadline_at = sd_required_date d, pc_assigned_agents = [],
      pc_current_task = None, pc_current_agent = None, pc_deviation = None, pc_status = ''new'',
      pc_control_point = Some ''basis'', pc_operation = ''route_source_role'',
      pc_idempotency_key = poll_idempotency_key d,
      pc_metadata =
        [(''source_label'', JStr (source_label (sd_source_type d))),
         (''initial_route'', JArr [JStr (agent_id_for_source (sd_source_type d))]),
         (''deadline'', jdate (sd_required_date d))] @ basis_metadata d @ [(''route_stages'', DEFAULT_ROUTE_STAGES)],
      pc_latest_result = [], pc_error_message = None, pc_closed_at = None, pc_closed_reason = None,
      pc_reactivated_at = None, pc_updated_at = now, pc_positions = []\<rparr>"

definition create_case :: "int \<Rightarrow> string \<Rightarrow> source_document \<Rightarrow> store \<Rightarrow> pcase \<times> store" where
  "create_case now case_id d so =
     (let c = replace_positions d (new_case now case_id d)
      in (c, append_event c ''case_created_from_source'' (poll_idempotency_key d @ '':created'') None (pc_status c)
               [(''source_type'', JStr (source_type_value (sd_source_type d))), (''source_1c_ref'', JStr (sd_ref_key d)),
                (''source_number'', jtext_opt (sd_number d)), (''positions'', JInt (int (length (sd_positions d))))] None so))"

definition update_case_card :: "source_document \<Rightarrow> pcase \<Rightarrow> pcase" where
  "update_case_card d c =
     c\<lparr>pc_entity_set := Some (sd_entity_set d), pc_database := Some (sd_database d), pc_number := sd_number d,
       pc_source_date := sd_date d, pc_source_status := sd_status d, pc_data_version := sd_data_version d,
       pc_content_hash := Some (sd_content_hash d), pc_initiator_ref := sd_initiator_ref d,
       pc_initiator_name := sd_initiator_name d, pc_department_ref := sd_department_ref d,
       pc_department_name := sd_department_name d, pc_warehouse_ref := sd_warehouse_ref d,
       pc_warehouse_name := sd_warehouse_name d, pc_warehouse_from_ref := sd_warehouse_from_ref d,
       pc_warehouse_to_ref := sd_warehouse_to_ref d, pc_organization_ref := sd_organization_ref d,
       pc_priority_ref := sd_priority_ref d, pc_required_date := sd_required_date d,
       pc_deadline_at := sd_required_date d,
       pc_metadata := dict_update (dict_set ''deadline'' (jdate (sd_required_date d)) (pc_metadata c)) (basis_metadata d)\<rparr>"

text \<open>
  A presentation is overwritten only by a text that is not empty and differs; the flag says whether
  something was.  The line ids of a case are distinct (a constraint of the table), so a line of the
  document touches at most one position.
\<close>

definition text_changes :: "string option \<Rightarrow> string option \<Rightarrow> bool" where
  "text_changes new old \<longleftrightarrow> truthy new \<and> new \<noteq> old"

definition newer_text :: "string option \<Rightarrow> string option \<Rightarrow> string option" where
  "newer_text new old = (if text_changes new old then new else old)"

definition update_position :: "need_line \<Rightarrow> case_position \<times> bool \<Rightarrow> case_position \<times> bool" where
  "update_position l pc =
     (case pc of (p, changed) \<Rightarrow>
        if nl_line_id l = cp_line_id p
        then (p\<lparr>cp_nomenclature_name := newer_text (nl_nomenclature_name l) (cp_nomenclature_name p),
                cp_unit := newer_text (nl_unit l) (cp_unit p)\<rparr>,
              changed \<or> text_changes (nl_nomenclature_name l) (cp_nomenclature_name p) \<or>
              text_changes (nl_unit l) (cp_unit p))
        else (p, changed))"

definition presented_positions :: "source_document \<Rightarrow> pcase \<Rightarrow> (case_position \<times> bool) list" where
  "presented_positions d c = map (\<lambda>p. fold update_position (sd_positions d) (p, False)) (pc_positions c)"

definition update_case_presentations :: "source_document \<Rightarrow> pcase \<Rightarrow> pcase \<times> bool" where
  "update_case_presentations d c =
     (c\<lparr>pc_initiator_name := newer_text (sd_initiator_name d) (pc_initiator_name c),
        pc_department_name := newer_text (sd_department_name d) (pc_department_name c),
        pc_warehouse_name := newer_text (sd_warehouse_name d) (pc_warehouse_name c),
        pc_positions := map fst (presented_positions d c)\<rparr>,
      text_changes (sd_initiator_name d) (pc_initiator_name c) \<or>
      text_changes (sd_department_name d) (pc_department_name c) \<or>
      text_changes (sd_warehouse_name d) (pc_warehouse_name c) \<or>
      (\<exists>q \<in> set (presented_positions d c). snd q))"

end
