(* ===== verification/Role_Dispatch.thy ===== *)
theory Role_Dispatch
  imports Case_Store
begin

text \<open>
  Which role agent works on a case and when it gets a task
  (\<open>app/services/procurement_orchestrator_service.py\<close>): the choice of the agent, the completion key
  that says what has already been computed, the creation of the task, the claim of the slots of the
  preparation engineer.  In the payload of a task a quantity is the number its text prints.
\<close>

section \<open>The agent of a case\<close>

definition jobject :: "json \<Rightarrow> jdict" where
  "jobject v = (case v of JObj d \<Rightarrow> d | _ \<Rightarrow> [])"

definition supplier_coverage_status :: "jdict \<Rightarrow> json" where
  "supplier_coverage_status metadata = jget (jobject (jget metadata ''supplier_order_coverage'')) ''coverage_status''"

definition at_chief_dispatcher :: "pcase \<Rightarrow> bool" where
  "at_chief_dispatcher c \<longleftrightarrow> pc_control_point c = Some ''chief_dispatcher'' \<and>
     (jget (pc_metadata c) ''engineer_handoff_agent_id'' = JStr PRODUCTION_DISPATCHER_AGENT_ID \<or>
      pc_current_agent c = Some PRODUCTION_DISPATCHER_AGENT_ID)"

definition engineer_decided :: "jdict \<Rightarrow> bool" where
  "engineer_decided m \<longleftrightarrow>
     jtruthy (jget m ''engineer_workspace_archived_at'') \<or> jtruthy (jget m ''engineer_action_at'') \<or>
     jget m ''engineer_workspace_status'' = JStr ''awaiting_action'' \<and> jtruthy (jget m ''engineer_decision_kind'')"

definition resolve_role_agent_id :: "pcase \<Rightarrow> string" where
  "resolve_role_agent_id c =
     (let m = pc_metadata c
      in if pc_source_type c = ProductionMaterialOrder then
           (if jget m ''purchase_manager_workspace_status'' = JStr ''awaiting_action'' \<and>
               supplier_coverage_status m = JStr ''full'' then PURCHASE_MANAGER_AGENT_ID
            else if jget m ''picker_handoff_agent_id'' = JStr OMTO_CHIEF_AGENT_ID \<or>
                    jget m ''complex_handoff_agent_id'' = JStr OMTO_CHIEF_AGENT_ID \<or>
                    pc_current_agent c = Some OMTO_CHIEF_AGENT_ID \<and> pc_control_point c = Some ''omto''
                 then OMTO_CHIEF_AGENT_ID
            else if is_montage_section_2_department (pc_department_name c) then WAREHOUSE_PICKER_AGENT_ID
            else if engineer_decided m \<and> at_chief_dispatcher c then PRODUCTION_DISPATCHER_AGENT_ID
            else WAREHOUSE_COMPLEX_CHIEF_AGENT_ID)
         else if at_chief_dispatcher c then PRODUCTION_DISPATCHER_AGENT_ID
         else agent_id_for_source (pc_source_type c))"

definition due_agent :: "pcase \<Rightarrow> string" where
  "due_agent c =
     (let quality = jget (pc_metadata c) ''next_quality_agent''
      in if jtruthy quality then jstr quality
         else case agent_id_for_quality_status (pc_status c) of
                Some a \<Rightarrow> a
              | None \<Rightarrow> resolve_role_agent_id c)"

section \<open>The completion key\<close>

definition source_revision :: "pcase \<Rightarrow> string" where
  "source_revision c = or_text (pc_content_hash c) (or_text (pc_data_version c) (isoformat (pc_updated_at c)))"

definition synced_text :: "pcase \<Rightarrow> string option" where
  "synced_text c = map_option isoformat (pc_synced_at c)"

definition snapshot_agents :: "string list" where
  "snapshot_agents =
    [PRODUCTION_PREPARATION_ENGINEER_AGENT_ID, WAREHOUSE_PICKER_AGENT_ID, WAREHOUSE_COMPLEX_CHIEF_AGENT_ID]"

definition suffixed :: "string \<Rightarrow> string option \<Rightarrow> string" where
  "suffixed s suffix = (case suffix of None \<Rightarrow> s | Some t \<Rightarrow> s @ '':'' @ t)"

definition truthy_text :: "json \<Rightarrow> string option" where
  "truthy_text v = (if jtruthy v then Some (jstr v) else None)"

definition role_completion_key :: "pcase \<Rightarrow> string \<Rightarrow> string" where
  "role_completion_key c agent =
     (let m = pc_metadata c;
          r1 = (if agent \<in> set snapshot_agents then suffixed (source_revision c) (synced_text c)
                else source_revision c);
          r2 = (if agent = PRODUCTION_DISPATCHER_AGENT_ID
                then suffixed r1 (or_option (truthy_text (jget m ''engineer_evidence_fingerprint'')) (synced_text c))
                else r1);
          r3 = (if agent = PURCHASE_MANAGER_AGENT_ID
                then suffixed r2 (truthy_text (jget m ''supplier_order_coverage_fingerprint'')) else r2)
      in agent @ '':'' @ r3)"

section \<open>The payload of a task\<close>

definition metadata_fields :: "string list \<Rightarrow> jdict \<Rightarrow> jdict" where
  "metadata_fields ks m = map (\<lambda>k. (k, jget m k)) ks"

definition basis_fields :: "string list" where
  "basis_fields =
    [''source_basis_1c_ref'', ''source_basis_type'', ''source_basis_number'', ''source_basis_date'',
     ''source_basis_status'', ''production_order_1c_ref'', ''production_order_type'']"

definition position_data :: "case_position \<Rightarrow> json" where
  "position_data p = JObj
     [(''line_id'', JStr (cp_line_id p)), (''line_number'', JInt (cp_line_number p)),
      (''nomenclature_id'', JStr (cp_nomenclature_id p)), (''nomenclature_name'', jtext_opt (cp_nomenclature_name p)),
      (''characteristic_id'', jtext_opt (cp_characteristic_id p)), (''unit'', jtext_opt (cp_unit p)),
      (''quantity'', JDec (cp_quantity p)), (''direct_quantity'', JDec (cp_quantity p)),
      (''gross_quantity'', JDec (cp_quantity p)), (''required_date'', jdate (cp_required_date p)),
      (''raw_payload'', JObj (cp_raw_payload p)), (''project_id'', jget (cp_raw_payload p) KEY_PURPOSE),
      (''production_stage_id'', jget (cp_raw_payload p) KEY_STAGE),
      (''minimum_stock'', get_first (cp_raw_payload p) [KEY_MIN_STOCK_AFTER, KEY_MIN_STOCK_BEFORE]),
      (''maximum_stock'', get_first (cp_raw_payload p) [KEY_MAX_STOCK_AFTER, KEY_MAX_STOCK_BEFORE])]"

definition case_number :: "pcase \<Rightarrow> string" where
  "case_number c = or_text (pc_number c) (pc_id c)"

definition warehouse_ids_of :: "pcase \<Rightarrow> string list" where
  "warehouse_ids_of c =
     uniq (map opt_str (filter truthy [pc_warehouse_ref c, pc_warehouse_from_ref c, pc_warehouse_to_ref c]))"

definition role_source_data :: "pcase \<Rightarrow> jdict" where
  "role_source_data c =
     [(''case_number'', JStr (case_number c)), (''source_database'', jtext_opt (pc_database c)),
      (''source_number'', jtext_opt (pc_number c)), (''source_date'', jdate (pc_source_date c)),
      (''source_status'', jtext_opt (pc_source_status c)), (''source_data_version'', jtext_opt (pc_data_version c)),
      (''source_synced_at'', jdate (pc_synced_at c)),
      (''positions'', JArr (map position_data (filter (\<lambda>p. \<not> cp_cancelled p) (pc_positions c)))),
      (''required_date'', jdate (pc_required_date c)), (''requested_date'', jdate (pc_required_date c)),
      (''warehouse_ids'', JArr (map JStr (warehouse_ids_of c))),
      (''organization_id'', jtext_opt (pc_organization_ref c))] @
     metadata_fields (basis_fields @ [''production_preparation_engineer_output'', ''stock_growth_coefficient'',
       ''supplier_order_coverage'', ''material_order_coverage'']) (pc_metadata c)"

definition case_quality_stage :: "pcase \<Rightarrow> string option" where
  "case_quality_stage c =
     (let stage = jget (pc_metadata c) ''quality_stage''
      in if jtruthy stage then Some (jstr stage)
         else if is_prefix ''quality_'' (pc_status c) \<or>
                 pc_status c \<in> {''nonconformity'', ''isolated'', ''rework'', ''reinspection''}
              then Some (pc_status c)
         else None)"

definition role_context :: "pcase \<Rightarrow> jdict" where
  "role_context c =
     (let base =
        [(''case_number'', JStr (case_number c)), (''source_database'', jtext_opt (pc_database c)),
         (''source_date'', jdate (pc_source_date c)), (''source_status'', jtext_opt (pc_source_status c)),
         (''source_data_version'', jtext_opt (pc_data_version c)), (''source_synced_at'', jdate (pc_synced_at c)),
         (''initiator_1c_ref'', jtext_opt (pc_initiator_ref c)), (''initiator_name'', jtext_opt (pc_initiator_name c)),
         (''department_1c_ref'', jtext_opt (pc_department_ref c)), (''department_name'', jtext_opt (pc_department_name c)),
         (''warehouse_1c_ref'', jtext_opt (pc_warehouse_ref c)), (''warehouse_name'', jtext_opt (pc_warehouse_name c)),
         (''warehouse_from_1c_ref'', jtext_opt (pc_warehouse_from_ref c)),
         (''warehouse_to_1c_ref'', jtext_opt (pc_warehouse_to_ref c)),
         (''organization_1c_ref'', jtext_opt (pc_organization_ref c)), (''priority_1c_ref'', jtext_opt (pc_priority_ref c)),
         (''required_date'', jdate (pc_required_date c))] @ metadata_fields basis_fields (pc_metadata c)
      in case case_quality_stage c of
           None \<Rightarrow> base
         | Some stage \<Rightarrow> dict_update (dict_set ''quality_stage'' (JStr stage) base)
                           (jobject (jget (pc_metadata c) ''quality_context'')))"

section \<open>Enqueueing\<close>

text \<open>\<open>None\<close>: the current task blocks the case.  A waiting task with another key is cancelled.\<close>

definition RECOMPUTE_REASON :: string where
  "RECOMPUTE_REASON =
    [CHR 0xD0, CHR 0x9D, CHR 0xD0, CHR 0xB0, CHR 0xD0, CHR 0xB7, CHR 0xD0, CHR 0xBD, CHR 0xD0, CHR
     0xB0, CHR 0xD1, CHR 0x87, CHR 0xD0, CHR 0xB5, CHR 0xD0, CHR 0xBD, CHR 0x20, CHR 0xD0, CHR 0xBF,
     CHR 0xD0, CHR 0xBE, CHR 0xD0, CHR 0xB2, CHR 0xD1, CHR 0x82, CHR 0xD0, CHR 0xBE, CHR 0xD1, CHR
     0x80, CHR 0xD0, CHR 0xBD, CHR 0xD1, CHR 0x8B, CHR 0xD0, CHR 0xB9, CHR 0x20, CHR 0xD1, CHR 0x80,
     CHR 0xD0, CHR 0xB0, CHR 0xD1, CHR 0x81, CHR 0xD1, CHR 0x87, CHR 0xD1, CHR 0x91, CHR 0xD1, CHR
     0x82, CHR 0x20, CHR 0xD0, CHR 0xBF, CHR 0xD0, CHR 0xBE, CHR 0x20, CHR 0xD1, CHR 0x81, CHR 0xD0,
     CHR 0xB2, CHR 0xD0, CHR 0xB5, CHR 0xD0, CHR 0xB6, CHR 0xD0, CHR 0xB5, CHR 0xD0, CHR 0xBC, CHR
     0xD1, CHR 0x83, CHR 0x20, CHR 0xD1, CHR 0x81, CHR 0xD0, CHR 0xBD, CHR 0xD0, CHR 0xB8, CHR 0xD0,
     CHR 0xBC, CHR 0xD0, CHR 0xBA, CHR 0xD1, CHR 0x83, CHR 0x20, CHR 0x31, CHR 0xD0, CHR 0xA1, CHR
     0x2E]"

definition release_current_task :: "int \<Rightarrow> string \<Rightarrow> pcase \<Rightarrow> store \<Rightarrow> (pcase \<times> store) option" where
  "release_current_task now key c so =
     (case pc_current_task c of
        None \<Rightarrow> Some (c, so)
      | Some i \<Rightarrow>
          (case dict_get (so_tasks so) i of
             None \<Rightarrow> Some (c\<lparr>pc_current_task := None\<rparr>, so)
           | Some t \<Rightarrow>
               if pt_status t \<notin> set BLOCKING_TASK_STATUSES then Some (c\<lparr>pc_current_task := None\<rparr>, so)
               else if pt_status t \<in> {Task_Waiting_Human, Task_Waiting_External} \<and>
                       jget (pt_metadata t) ''role_completion_key'' \<noteq> JStr key
                    then Some (c\<lparr>pc_current_task := None, pc_current_agent := None\<rparr>,
                               put_task i (cancel_task now (Some RECOMPUTE_REASON) t) so)
               else None))"

definition role_task :: "int \<Rightarrow> string \<Rightarrow> string \<Rightarrow> string \<Rightarrow> pcase \<Rightarrow> ptask" where
  "role_task now agent key run_key c =
     \<lparr>pt_status = Task_Pending, pt_task_type = ''procurement_role_agent'',
      pt_input_payload =
        [(''correlation_id'', JStr (pc_correlation_id c)), (''case_id'', JStr (pc_id c)),
         (''source_type'', JStr (source_type_value (pc_source_type c))), (''source_1c_ref'', JStr (pc_source_ref c)),
         (''source_number'', jtext_opt (pc_number c)), (''caller_agent_id'', JStr ''procurement_orchestrator''),
         (''idempotency_key'', JStr run_key), (''source_data'', JObj (role_source_data c)),
         (''role_context'', JObj (role_context c))],
      pt_final_result = [], pt_requires_review = False, pt_started_at = None, pt_finished_at = None,
      pt_error_message = None,
      pt_metadata =
        [(''procurement_case_id'', JStr (pc_id c)), (''source_type'', JStr (source_type_value (pc_source_type c))),
         (''agent_slug'', JStr agent), (''role_completion_key'', JStr key),
         (''dispatch_requested_at'', JStr (isoformat now))]\<rparr>"

definition engineer_reset_keys :: "string list" where
  "engineer_reset_keys =
    [''engineer_workspace_archived_at'', ''engineer_archived_bucket'', ''engineer_decision_kind'', ''engineer_action_at'',
     ''engineer_action_by'', ''engineer_critical_acknowledged_at'', ''engineer_critical_acknowledged_by'']"

definition dispatcher_reset_keys :: "string list" where
  "dispatcher_reset_keys =
    [''dispatcher_workspace_archived_at'', ''dispatcher_archived_bucket'', ''dispatcher_decision_kind'',
     ''dispatcher_action_at'', ''dispatcher_action_by'', ''dispatcher_critical_acknowledged_at'',
     ''dispatcher_critical_acknowledged_by'', ''dispatcher_confirmed_method'']"

definition open_workspace :: "string \<Rightarrow> int \<Rightarrow> string list \<Rightarrow> jdict \<Rightarrow> jdict" where
  "open_workspace prefix now resets m =
     dict_pops resets (dict_set (prefix @ ''_workspace_status'') (JStr ''processing'')
       (dict_setdefault (prefix @ ''_invoked_at'') (JStr (isoformat now)) m))"

definition moved_control_point :: "string list \<Rightarrow> string \<Rightarrow> string option \<Rightarrow> string option" where
  "moved_control_point early target point = (if opt_str point \<in> set ([] # early) then Some target else point)"

definition open_role_workspace :: "int \<Rightarrow> string \<Rightarrow> pcase \<Rightarrow> pcase" where
  "open_role_workspace now agent c =
     (let c1 = (if agent = PRODUCTION_PREPARATION_ENGINEER_AGENT_ID
                then c\<lparr>pc_metadata := open_workspace ''engineer'' now engineer_reset_keys (pc_metadata c)\<rparr> else c);
          c2 = (if agent = PRODUCTION_DISPATCHER_AGENT_ID
                then c1\<lparr>pc_metadata := open_workspace ''dispatcher'' now dispatcher_reset_keys (pc_metadata c1)\<rparr> else c1);
          c3 = (case warehouse_availability_spec agent of
                  None \<Rightarrow> c2
                | Some spec \<Rightarrow>
                    c2\<lparr>pc_metadata := open_workspace (as_prefix spec) now
                         (map (spec_key spec) workspace_action_suffixes) (pc_metadata c2),
                       pc_control_point := moved_control_point [''basis'', ''data''] ''coverage'' (pc_control_point c2)\<rparr>)
      in if agent = PURCHASE_MANAGER_AGENT_ID
         then c3\<lparr>pc_metadata := open_workspace ''purchase_manager'' now [''purchase_manager_workspace_archived_at'']
                   (pc_metadata c3),
                 pc_control_point := moved_control_point [''basis'', ''data'', ''coverage''] ''purchase'' (pc_control_point c3)\<rparr>
         else c3)"

definition assigned_for :: "string \<Rightarrow> pcase \<Rightarrow> string list" where
  "assigned_for agent c =
     (if agent \<in> {WAREHOUSE_PICKER_AGENT_ID, WAREHOUSE_COMPLEX_CHIEF_AGENT_ID} \<and>
         supplier_coverage_status (pc_metadata c) = JStr ''partial''
      then [agent, PURCHASE_MANAGER_AGENT_ID] else [agent])"

definition start_role_task :: "int \<Rightarrow> string \<Rightarrow> string \<Rightarrow> string \<Rightarrow> pcase \<Rightarrow> store \<Rightarrow> pcase \<times> store" where
  "start_role_task now uuid agent key c so =
     (let run_key = take 255 (''role:'' @ pc_id c @ '':'' @ key);
          so1 = put_task uuid (role_task now agent key run_key c) so;
          c1 = open_role_workspace now agent
                 (c\<lparr>pc_current_task := Some uuid, pc_current_agent := Some agent,
                    pc_assigned_agents := assigned_for agent c\<rparr>);
          so2 = append_event c1 ''role_agent_task_enqueued'' (take 255 (run_key @ '':enqueued''))
                  (Some (pc_status c1)) (pc_status c1)
                  [(''task_id'', JStr uuid), (''agent_id'', JStr agent),
                   (''source_type'', JStr (source_type_value (pc_source_type c)))] None so1
      in (c1, if agent \<noteq> PRODUCTION_PREPARATION_ENGINEER_AGENT_ID
              then so2\<lparr>so_dispatches := so_dispatches so2 @ [(pc_id c, uuid)]\<rparr> else so2))"

definition enqueue_role_agent :: "int \<Rightarrow> string \<Rightarrow> pcase \<Rightarrow> store \<Rightarrow> pcase \<times> store \<times> bool" where
  "enqueue_role_agent now uuid c so =
     (let agent = due_agent c; key = role_completion_key c agent
      in if \<not> so_enqueue so \<or> pc_status c \<in> set TERMINAL_CASE_STATUSES then (c, so, False)
         else if jget (pc_metadata c) ''role_agent_completion_key'' = JStr key then (c, so, False)
         else case release_current_task now key c so of
                None \<Rightarrow> (c, so, False)
              | Some (c1, so1) \<Rightarrow> (case start_role_task now uuid agent key c1 so1 of (c2, so2) \<Rightarrow> (c2, so2, True)))"

section \<open>The slots of the preparation engineer\<close>

definition ENGINEER_SLOTS :: int where "ENGINEER_SLOTS = 5"

definition is_engineer_task :: "ptask \<Rightarrow> bool" where
  "is_engineer_task t \<longleftrightarrow> pt_task_type t = ''procurement_role_agent'' \<and>
     pt_status t \<in> {Task_Pending, Task_Planning, Task_Running} \<and>
     jget (pt_metadata t) ''agent_slug'' = JStr PRODUCTION_PREPARATION_ENGINEER_AGENT_ID"

definition holds_slot :: "ptask \<Rightarrow> bool" where
  "holds_slot t \<longleftrightarrow> pt_status t \<in> {Task_Planning, Task_Running} \<or> jtruthy (jget (pt_metadata t) ''dispatch_claimed'')"

definition claim_task :: "int \<Rightarrow> ptask \<Rightarrow> ptask" where
  "claim_task now t =
     t\<lparr>pt_metadata := dict_set ''dispatch_claimed_at'' (JStr (isoformat now))
         (dict_set ''dispatch_claimed'' (JBool True) (pt_metadata t))\<rparr>"

text \<open>The tasks in the order of their creation, which is that of the dictionary.\<close>

fun claim_loop :: "int \<Rightarrow> int \<Rightarrow> int \<Rightarrow> (string \<times> ptask) list \<Rightarrow> (string \<times> ptask) list \<times> (string \<times> string) list \<times> int" where
  "claim_loop now available claimed [] = ([], [], claimed)"
| "claim_loop now available claimed ((i, t) # ts) =
     (if \<not> is_engineer_task t then
        (case claim_loop now available claimed ts of (us, ds, n) \<Rightarrow> ((i, t) # us, ds, n))
      else if claimed \<ge> available then ((i, t) # ts, [], claimed)
      else if pt_status t \<noteq> Task_Pending \<or> jtruthy (jget (pt_metadata t) ''dispatch_claimed'') then
        (case claim_loop now available claimed ts of (us, ds, n) \<Rightarrow> ((i, t) # us, ds, n))
      else
        (let case_id = jstring (jget (pt_metadata t) ''procurement_case_id'')
         in case claim_loop now available (if case_id = [] then claimed else claimed + 1) ts of
              (us, ds, n) \<Rightarrow> ((i, claim_task now t) # us, (if case_id = [] then ds else (case_id, i) # ds), n)))"

definition active_engineer_slots :: "store \<Rightarrow> int" where
  "active_engineer_slots so = int (length (filter (\<lambda>(i, t). is_engineer_task t \<and> holds_slot t) (so_tasks so)))"

definition claim_engineer_dispatches :: "int \<Rightarrow> int \<Rightarrow> store \<Rightarrow> store \<times> int" where
  "claim_engineer_dispatches now limit so =
     (let available = max 0 (min limit (ENGINEER_SLOTS - active_engineer_slots so))
      in case claim_loop now available 0 (so_tasks so) of
           (ts, ds, n) \<Rightarrow> (so\<lparr>so_tasks := ts, so_dispatches := so_dispatches so @ ds\<rparr>, n))"

section \<open>Assignment of all active cases\<close>

text \<open>The fresh ids are the list \<open>uuids\<close>, one per case.\<close>

fun ensure_assignments :: "int \<Rightarrow> string list \<Rightarrow> pcase list \<Rightarrow> store \<Rightarrow> pcase list \<times> store \<times> nat" where
  "ensure_assignments now (u # us) (c # cs) so =
     (if pc_status c \<in> set ACTIVE_CASE_STATUSES then
        (case enqueue_role_agent now u c so of
           (c1, so1, done) \<Rightarrow>
             (case ensure_assignments now us cs so1 of
                (cs2, so2, n) \<Rightarrow> (c1 # cs2, so2, if done then Suc n else n)))
      else (case ensure_assignments now us cs so of (cs2, so2, n) \<Rightarrow> (c # cs2, so2, n)))"
| "ensure_assignments now us cs so = (cs, so, 0)"

definition ensure_active_case_assignments ::
  "int \<Rightarrow> string list \<Rightarrow> pcase list \<Rightarrow> store \<Rightarrow> pcase list \<times> store \<times> nat" where
  "ensure_active_case_assignments now uuids cs so =
     (if so_enqueue so then ensure_assignments now uuids cs so else (cs, so, 0))"

end
