(* ===== verification/Case_Polling.thy ===== *)
theory Case_Polling
  imports Role_Dispatch
begin

text \<open>
  The polling of 1C (\<open>app/services/procurement_orchestrator_service.py\<close>): which documents are asked
  for, how a document opens, refreshes, archives or reopens its case, how cases whose document is no
  longer active are closed.

  1C is a set of arguments, each with \<open>None\<close> for a failed call: \<open>fetch\<close> reads documents by reference,
  \<open>present\<close> presentations of catalogue entries, \<open>basis\<close> one basis document.  The cases of the database
  are a list; the fresh ids of a document are the pair of a case id and a task id.
\<close>

section \<open>Capabilities\<close>

definition CATALOG_USERS :: string where
  "CATALOG_USERS =
    [CHR 0x43, CHR 0x61, CHR 0x74, CHR 0x61, CHR 0x6C, CHR 0x6F, CHR 0x67, CHR 0x5F, CHR 0xD0, CHR
     0x9F, CHR 0xD0, CHR 0xBE, CHR 0xD0, CHR 0xBB, CHR 0xD1, CHR 0x8C, CHR 0xD0, CHR 0xB7, CHR 0xD0,
     CHR 0xBE, CHR 0xD0, CHR 0xB2, CHR 0xD0, CHR 0xB0, CHR 0xD1, CHR 0x82, CHR 0xD0, CHR 0xB5, CHR
     0xD0, CHR 0xBB, CHR 0xD0, CHR 0xB8]"

definition CATALOG_DEPARTMENTS :: string where
  "CATALOG_DEPARTMENTS =
    [CHR 0x43, CHR 0x61, CHR 0x74, CHR 0x61, CHR 0x6C, CHR 0x6F, CHR 0x67, CHR 0x5F, CHR 0xD0, CHR
     0xA1, CHR 0xD1, CHR 0x82, CHR 0xD1, CHR 0x80, CHR 0xD1, CHR 0x83, CHR 0xD0, CHR 0xBA, CHR 0xD1,
     CHR 0x82, CHR 0xD1, CHR 0x83, CHR 0xD1, CHR 0x80, CHR 0xD0, CHR 0xB0, CHR 0xD0, CHR 0x9F, CHR
     0xD1, CHR 0x80, CHR 0xD0, CHR 0xB5, CHR 0xD0, CHR 0xB4, CHR 0xD0, CHR 0xBF, CHR 0xD1, CHR 0x80,
     CHR 0xD0, CHR 0xB8, CHR 0xD1, CHR 0x8F, CHR 0xD1, CHR 0x82, CHR 0xD0, CHR 0xB8, CHR 0xD1, CHR
     0x8F]"

definition CATALOG_WAREHOUSES :: string where
  "CATALOG_WAREHOUSES =
    [CHR 0x43, CHR 0x61, CHR 0x74, CHR 0x61, CHR 0x6C, CHR 0x6F, CHR 0x67, CHR 0x5F, CHR 0xD0, CHR
     0xA1, CHR 0xD0, CHR 0xBA, CHR 0xD0, CHR 0xBB, CHR 0xD0, CHR 0xB0, CHR 0xD0, CHR 0xB4, CHR 0xD1,
     CHR 0x8B]"

definition CATALOG_NOMENCLATURE :: string where
  "CATALOG_NOMENCLATURE =
    [CHR 0x43, CHR 0x61, CHR 0x74, CHR 0x61, CHR 0x6C, CHR 0x6F, CHR 0x67, CHR 0x5F, CHR 0xD0, CHR
     0x9D, CHR 0xD0, CHR 0xBE, CHR 0xD0, CHR 0xBC, CHR 0xD0, CHR 0xB5, CHR 0xD0, CHR 0xBD, CHR 0xD0,
     CHR 0xBA, CHR 0xD0, CHR 0xBB, CHR 0xD0, CHR 0xB0, CHR 0xD1, CHR 0x82, CHR 0xD1, CHR 0x83, CHR
     0xD1, CHR 0x80, CHR 0xD0, CHR 0xB0]"

definition CATALOG_UNITS :: string where
  "CATALOG_UNITS =
    [CHR 0x43, CHR 0x61, CHR 0x74, CHR 0x61, CHR 0x6C, CHR 0x6F, CHR 0x67, CHR 0x5F, CHR 0xD0, CHR
     0xA3, CHR 0xD0, CHR 0xBF, CHR 0xD0, CHR 0xB0, CHR 0xD0, CHR 0xBA, CHR 0xD0, CHR 0xBE, CHR 0xD0,
     CHR 0xB2, CHR 0xD0, CHR 0xBA, CHR 0xD0, CHR 0xB8, CHR 0xD0, CHR 0x95, CHR 0xD0, CHR 0xB4, CHR
     0xD0, CHR 0xB8, CHR 0xD0, CHR 0xBD, CHR 0xD0, CHR 0xB8, CHR 0xD1, CHR 0x86, CHR 0xD1, CHR 0x8B,
     CHR 0xD0, CHR 0x98, CHR 0xD0, CHR 0xB7, CHR 0xD0, CHR 0xBC, CHR 0xD0, CHR 0xB5, CHR 0xD1, CHR
     0x80, CHR 0xD0, CHR 0xB5, CHR 0xD0, CHR 0xBD, CHR 0xD0, CHR 0xB8, CHR 0xD1, CHR 0x8F]"

definition KEY_UNIT :: string where
  "KEY_UNIT =
    [CHR 0xD0, CHR 0x95, CHR 0xD0, CHR 0xB4, CHR 0xD0, CHR 0xB8, CHR 0xD0, CHR 0xBD, CHR 0xD0, CHR
     0xB8, CHR 0xD1, CHR 0x86, CHR 0xD0, CHR 0xB0, CHR 0xD0, CHR 0x98, CHR 0xD0, CHR 0xB7, CHR 0xD0,
     CHR 0xBC, CHR 0xD0, CHR 0xB5, CHR 0xD1, CHR 0x80, CHR 0xD0, CHR 0xB5, CHR 0xD0, CHR 0xBD, CHR
     0xD0, CHR 0xB8, CHR 0xD1, CHR 0x8F, CHR 0x5F, CHR 0x4B, CHR 0x65, CHR 0x79]"

definition ENTITY_INTERNAL :: string where
  "ENTITY_INTERNAL =
    [CHR 0x44, CHR 0x6F, CHR 0x63, CHR 0x75, CHR 0x6D, CHR 0x65, CHR 0x6E, CHR 0x74, CHR 0x5F, CHR
     0xD0, CHR 0x97, CHR 0xD0, CHR 0xB0, CHR 0xD0, CHR 0xBA, CHR 0xD0, CHR 0xB0, CHR 0xD0, CHR 0xB7,
     CHR 0xD0, CHR 0x9D, CHR 0xD0, CHR 0xB0, CHR 0xD0, CHR 0x92, CHR 0xD0, CHR 0xBD, CHR 0xD1, CHR
     0x83, CHR 0xD1, CHR 0x82, CHR 0xD1, CHR 0x80, CHR 0xD0, CHR 0xB5, CHR 0xD0, CHR 0xBD, CHR 0xD0,
     CHR 0xBD, CHR 0xD0, CHR 0xB5, CHR 0xD0, CHR 0xB5, CHR 0xD0, CHR 0x9F, CHR 0xD0, CHR 0xBE, CHR
     0xD1, CHR 0x82, CHR 0xD1, CHR 0x80, CHR 0xD0, CHR 0xB5, CHR 0xD0, CHR 0xB1, CHR 0xD0, CHR 0xBB,
     CHR 0xD0, CHR 0xB5, CHR 0xD0, CHR 0xBD, CHR 0xD0, CHR 0xB8, CHR 0xD0, CHR 0xB5]"

definition ENTITY_MATERIAL :: string where
  "ENTITY_MATERIAL =
    [CHR 0x44, CHR 0x6F, CHR 0x63, CHR 0x75, CHR 0x6D, CHR 0x65, CHR 0x6E, CHR 0x74, CHR 0x5F, CHR
     0xD0, CHR 0x97, CHR 0xD0, CHR 0xB0, CHR 0xD0, CHR 0xBA, CHR 0xD0, CHR 0xB0, CHR 0xD0, CHR 0xB7,
     CHR 0xD0, CHR 0x9C, CHR 0xD0, CHR 0xB0, CHR 0xD1, CHR 0x82, CHR 0xD0, CHR 0xB5, CHR 0xD1, CHR
     0x80, CHR 0xD0, CHR 0xB8, CHR 0xD0, CHR 0xB0, CHR 0xD0, CHR 0xBB, CHR 0xD0, CHR 0xBE, CHR 0xD0,
     CHR 0xB2, CHR 0xD0, CHR 0x92, CHR 0xD0, CHR 0x9F, CHR 0xD1, CHR 0x80, CHR 0xD0, CHR 0xBE, CHR
     0xD0, CHR 0xB8, CHR 0xD0, CHR 0xB7, CHR 0xD0, CHR 0xB2, CHR 0xD0, CHR 0xBE, CHR 0xD0, CHR 0xB4,
     CHR 0xD1, CHR 0x81, CHR 0xD1, CHR 0x82, CHR 0xD0, CHR 0xB2, CHR 0xD0, CHR 0xBE]"

definition ENTITY_TRANSFER :: string where
  "ENTITY_TRANSFER =
    [CHR 0x44, CHR 0x6F, CHR 0x63, CHR 0x75, CHR 0x6D, CHR 0x65, CHR 0x6E, CHR 0x74, CHR 0x5F, CHR
     0xD0, CHR 0x97, CHR 0xD0, CHR 0xB0, CHR 0xD0, CHR 0xBA, CHR 0xD0, CHR 0xB0, CHR 0xD0, CHR 0xB7,
     CHR 0xD0, CHR 0x9D, CHR 0xD0, CHR 0xB0, CHR 0xD0, CHR 0x9F, CHR 0xD0, CHR 0xB5, CHR 0xD1, CHR
     0x80, CHR 0xD0, CHR 0xB5, CHR 0xD0, CHR 0xBC, CHR 0xD0, CHR 0xB5, CHR 0xD1, CHR 0x89, CHR 0xD0,
     CHR 0xB5, CHR 0xD0, CHR 0xBD, CHR 0xD0, CHR 0xB8, CHR 0xD0, CHR 0xB5]"

definition ENTITY_REORDER :: string where
  "ENTITY_REORDER =
    [CHR 0x44, CHR 0x6F, CHR 0x63, CHR 0x75, CHR 0x6D, CHR 0x65, CHR 0x6E, CHR 0x74, CHR 0x5F, CHR
     0xD0, CHR 0xA2, CHR 0xD0, CHR 0x94, CHR 0x5F, CHR 0xD0, CHR 0xA3, CHR 0xD1, CHR 0x81, CHR 0xD1,
     CHR 0x82, CHR 0xD0, CHR 0xB0, CHR 0xD0, CHR 0xBD, CHR 0xD0, CHR 0xBE, CHR 0xD0, CHR 0xB2, CHR
     0xD0, CHR 0xBA, CHR 0xD0, CHR 0xB0, CHR 0xD0, CHR 0xA2, CHR 0xD0, CHR 0xBE, CHR 0xD1, CHR 0x87,
     CHR 0xD0, CHR 0xB5, CHR 0xD0, CHR 0xBA, CHR 0xD0, CHR 0x97, CHR 0xD0, CHR 0xB0, CHR 0xD0, CHR
     0xBA, CHR 0xD0, CHR 0xB0, CHR 0xD0, CHR 0xB7, CHR 0xD0, CHR 0xB0]"

fun entity_set_of :: "source_type \<Rightarrow> string" where
  "entity_set_of InternalConsumptionOrder = ENTITY_INTERNAL"
| "entity_set_of ProductionMaterialOrder = ENTITY_MATERIAL"
| "entity_set_of TransferOrder = ENTITY_TRANSFER"
| "entity_set_of ReorderPoint = ENTITY_REORDER"

section \<open>The window of documents\<close>

definition source_date_cutoff :: "int \<Rightarrow> int" where
  "source_date_cutoff now =
     (let n = instant_date now; m = month_of n - 2;
          year = (if m \<le> 0 then year_of n - 1 else year_of n);
          month = (if m \<le> 0 then m + 12 else m)
      in (ordinal year month (min (day_of n) (days_in_month year month)) - EPOCH_ORDINAL) * US_PER_DAY)"

definition is_recent_source_document :: "int \<Rightarrow> source_document \<Rightarrow> bool" where
  "is_recent_source_document now d = (case sd_date d of None \<Rightarrow> False | Some t \<Rightarrow> source_date_cutoff now \<le> t)"

section \<open>A document and its case\<close>

definition closed_reason_from_skip :: "string option \<Rightarrow> string" where
  "closed_reason_from_skip skip =
     (if \<not> truthy skip then ''inactive_supply_action_or_cancelled''
      else if is_prefix ''terminal_status:'' (opt_str skip) then ''terminal_status''
      else if opt_str skip \<in> set (dict_keys CLOSED_REASON_LABELS) then opt_str skip
      else ''inactive_supply_action_or_cancelled'')"

definition find_case :: "source_document \<Rightarrow> pcase list \<Rightarrow> pcase option" where
  "find_case d cs =
     (case find (\<lambda>c. pc_correlation_id c = correlation_id d) cs of
        Some c \<Rightarrow> Some c
      | None \<Rightarrow> find (\<lambda>c. pc_database c = Some (sd_database d) \<and> pc_source_type c = sd_source_type d \<and>
                        pc_source_ref c = sd_ref_key d) cs)"

datatype upsert_action = Created | Updated | Enqueued | Skipped

definition archive_for_skip :: "int \<Rightarrow> source_document \<Rightarrow> pcase \<Rightarrow> store \<Rightarrow> pcase \<times> store" where
  "archive_for_skip now d c so =
     archive_case now (closed_reason_from_skip (sd_skip_reason d)) ''case_archived_from_source''
       (poll_idempotency_key d @ '':closed'') [(''skip_reason'', jtext_opt (sd_skip_reason d))]
       (sd_status d) (sd_data_version d) (Some (sd_content_hash d)) c so"

definition source_unchanged :: "source_document \<Rightarrow> pcase \<Rightarrow> bool" where
  "source_unchanged d c \<longleftrightarrow> pc_data_version c = sd_data_version d \<and> pc_content_hash c = Some (sd_content_hash d) \<and>
     pc_status c \<notin> set TERMINAL_CASE_STATUSES"

definition changed_event :: "source_document \<Rightarrow> pcase \<Rightarrow> store \<Rightarrow> store" where
  "changed_event d c so =
     append_event c ''source_document_changed'' (poll_idempotency_key d @ '':changed'') (Some (pc_status c)) (pc_status c)
       [(''source_data_version'', jtext_opt (sd_data_version d)), (''content_hash'', JStr (sd_content_hash d)),
        (''positions'', JInt (int (length (sd_positions d))))] None so"

definition refresh_case :: "int \<Rightarrow> string \<Rightarrow> source_document \<Rightarrow> pcase \<Rightarrow> store \<Rightarrow> pcase \<times> store \<times> upsert_action" where
  "refresh_case now uuid d c so =
     (let c1 = replace_positions d (update_case_card d c);
          so1 = changed_event d c1 so;
          (c2, so2) = (if pc_status c \<in> set TERMINAL_CASE_STATUSES \<or> pc_status c1 = ''human_required''
                       then reactivate_case now d c1 so1 else (c1, so1))
      in case enqueue_role_agent now uuid c2 so2 of
           (c3, so3, enqueued) \<Rightarrow> (c3, so3, if enqueued then Enqueued else Updated))"

text \<open>The case is the one found for the document, already stamped as synchronised.\<close>

definition upsert_known :: "int \<Rightarrow> string \<Rightarrow> source_document \<Rightarrow> pcase \<Rightarrow> store \<Rightarrow> pcase \<times> store \<times> upsert_action" where
  "upsert_known now uuid d c so =
     (let terminal = pc_status c \<in> set TERMINAL_CASE_STATUSES
      in if \<not> is_recent_source_document now d \<and> terminal then (c, so, Skipped)
         else if truthy (sd_skip_reason d) then
           (if \<not> terminal then (case archive_for_skip now d c so of (c1, so1) \<Rightarrow> (c1, so1, Updated))
            else (c, so, Skipped))
         else if pc_status c = ''closed'' \<and> pc_closed_reason c = Some ''quality_released'' then (c, so, Skipped)
         else if source_unchanged d c then
           (case update_case_presentations d c of
              (c1, presented) \<Rightarrow>
                (case enqueue_role_agent now uuid c1 so of
                   (c2, so2, enqueued) \<Rightarrow>
                     (c2, so2, if enqueued then Enqueued else if presented then Updated else Skipped)))
         else refresh_case now uuid d c so)"

definition upsert_new ::
  "int \<Rightarrow> string \<Rightarrow> string \<Rightarrow> source_document \<Rightarrow> store \<Rightarrow> pcase option \<times> store \<times> upsert_action" where
  "upsert_new now case_id uuid d so =
     (if \<not> is_recent_source_document now d \<or> truthy (sd_skip_reason d) then (None, so, Skipped)
      else case create_case now case_id d so of
             (c, so1) \<Rightarrow>
               (case enqueue_role_agent now uuid c so1 of
                  (c2, so2, enqueued) \<Rightarrow> (Some c2, so2, if enqueued then Enqueued else Created)))"

definition put_case :: "pcase \<Rightarrow> pcase list \<Rightarrow> pcase list" where
  "put_case c cs = map (\<lambda>x. if pc_id x = pc_id c then c else x) cs"

definition upsert_case_from_document ::
  "int \<Rightarrow> string \<times> string \<Rightarrow> source_document \<Rightarrow> pcase list \<Rightarrow> store \<Rightarrow> pcase list \<times> store \<times> upsert_action" where
  "upsert_case_from_document now ids d cs so =
     (case find_case d cs of
        Some c \<Rightarrow>
          (case upsert_known now (snd ids) d (c\<lparr>pc_synced_at := Some now\<rparr>) so of
             (c1, so1, action) \<Rightarrow> (put_case c1 cs, so1, action))
      | None \<Rightarrow>
          (case upsert_new now (fst ids) (snd ids) d so of
             (None, so1, action) \<Rightarrow> (cs, so1, action)
           | (Some c1, so1, action) \<Rightarrow> (cs @ [c1], so1, action)))"

section \<open>Documents that are no longer active\<close>

datatype poll_error = Source_Unavailable | Bad_Document source_error | Bad_Presentation

record inactive_reason =
  ir_closed_reason :: string
  ir_skip_reason :: "string option"
  ir_status :: "string option"
  ir_data_version :: "string option"
  ir_content_hash :: "string option"

definition plain_reason :: "string \<Rightarrow> string \<Rightarrow> inactive_reason" where
  "plain_reason reason skip =
     \<lparr>ir_closed_reason = reason, ir_skip_reason = Some skip, ir_status = None, ir_data_version = None,
      ir_content_hash = None\<rparr>"

definition unknown_reason :: inactive_reason where
  "unknown_reason = plain_reason ''inactive_supply_action_or_cancelled'' ''inactive_supply_action_or_cancelled''"

definition document_reason :: "source_document \<Rightarrow> inactive_reason" where
  "document_reason d =
     (let reason = closed_reason_from_skip (sd_skip_reason d)
      in \<lparr>ir_closed_reason = reason, ir_skip_reason = Some (or_text (sd_skip_reason d) reason), ir_status = sd_status d,
          ir_data_version = sd_data_version d, ir_content_hash = Some (sd_content_hash d)\<rparr>)"

fun chunks :: "nat \<Rightarrow> 'a list \<Rightarrow> 'a list list" where
  "chunks n [] = []"
| "chunks n (x # xs) = take (Suc n) (x # xs) # chunks n (drop n xs)"

fun normalize_all ::
  "(jdict \<Rightarrow> source_error + source_document) \<Rightarrow> jdict list \<Rightarrow> source_error + source_document list" where
  "normalize_all f [] = Inr []"
| "normalize_all f (x # xs) =
     (case f x of
        Inl e \<Rightarrow> Inl e
      | Inr d \<Rightarrow> (case normalize_all f xs of Inl e \<Rightarrow> Inl e | Inr ds \<Rightarrow> Inr (d # ds)))"

text \<open>\<open>fetch refs\<close> are the objects among the items of the answer.\<close>

definition chunk_reasons ::
  "(string list \<Rightarrow> jdict list option) \<Rightarrow> (jdict \<Rightarrow> source_error + source_document) \<Rightarrow> string list \<Rightarrow>
   source_error + (string, inactive_reason) dict" where
  "chunk_reasons fetch to_doc chunk =
     (case fetch chunk of
        None \<Rightarrow> Inr (map (\<lambda>r. (r, unknown_reason)) chunk)
      | Some items \<Rightarrow>
          (case normalize_all to_doc items of
             Inl e \<Rightarrow> Inl e
           | Inr ds \<Rightarrow>
               (let found = map (\<lambda>d. (casefold (sd_ref_key d), document_reason d)) ds
                in Inr (found @ map (\<lambda>r. (r, plain_reason ''deletion_mark'' ''missing_in_1c''))
                     (filter (\<lambda>r. r \<notin> set (dict_keys found)) chunk)))))"

fun all_reasons ::
  "(string list \<Rightarrow> jdict list option) \<Rightarrow> (jdict \<Rightarrow> source_error + source_document) \<Rightarrow> string list list \<Rightarrow>
   source_error + (string, inactive_reason) dict" where
  "all_reasons fetch to_doc [] = Inr []"
| "all_reasons fetch to_doc (chunk # rest) =
     (case chunk_reasons fetch to_doc chunk of
        Inl e \<Rightarrow> Inl e
      | Inr d \<Rightarrow> (case all_reasons fetch to_doc rest of Inl e \<Rightarrow> Inl e | Inr d' \<Rightarrow> Inr (d @ d')))"

text \<open>Writing the pairs in order, so that a later one replaces an earlier one.\<close>

definition dict_of :: "('k \<times> 'v) list \<Rightarrow> ('k, 'v) dict" where
  "dict_of kvs = foldl (\<lambda>d (k, v). dict_set k v d) [] kvs"

definition probe_inactive_reasons ::
  "(string list \<Rightarrow> jdict list option) \<Rightarrow> (jdict \<Rightarrow> source_error + source_document) \<Rightarrow> string list \<Rightarrow>
   source_error + (string, inactive_reason) dict" where
  "probe_inactive_reasons fetch to_doc refs =
     map_sum id dict_of
       (all_reasons fetch to_doc (chunks 49 (sort (uniq (map casefold (filter (\<lambda>r. r \<noteq> []) refs))))))"

definition is_monitored :: "string \<Rightarrow> source_type \<Rightarrow> pcase \<Rightarrow> bool" where
  "is_monitored database source_type c \<longleftrightarrow> pc_database c = Some database \<and> pc_source_type c = source_type \<and>
     pc_status c \<in> set SOURCE_MONITORED_CASE_STATUSES"

definition is_inactive :: "string \<Rightarrow> source_type \<Rightarrow> string list \<Rightarrow> pcase \<Rightarrow> bool" where
  "is_inactive database source_type active_refs c \<longleftrightarrow>
     is_monitored database source_type c \<and> casefold (pc_source_ref c) \<notin> set active_refs"

definition close_inactive :: "int \<Rightarrow> (string, inactive_reason) dict \<Rightarrow> pcase \<Rightarrow> store \<Rightarrow> pcase \<times> store" where
  "close_inactive now reasons c so =
     (let r = dict_get_or reasons (casefold (pc_source_ref c)) unknown_reason
      in archive_case now (ir_closed_reason r) ''case_archived_from_source''
           (take 255 (''archive:'' @ or_text (pc_content_hash c) (or_text (pc_data_version c) ''unknown'') @ '':'' @
             ir_closed_reason r))
           [(''skip_reason'', jtext_opt (ir_skip_reason r)), (''closed_reason'', JStr (ir_closed_reason r)),
            (''source_status'', jtext_opt (ir_status r))]
           (ir_status r) (ir_data_version r) (ir_content_hash r) (c\<lparr>pc_synced_at := Some now\<rparr>) so)"

fun close_all ::
  "int \<Rightarrow> (pcase \<Rightarrow> bool) \<Rightarrow> (string, inactive_reason) dict \<Rightarrow> pcase list \<Rightarrow> store \<Rightarrow> pcase list \<times> store" where
  "close_all now P reasons [] so = ([], so)"
| "close_all now P reasons (c # cs) so =
     (let (c1, so1) = (if P c then close_inactive now reasons c so else (c, so));
          (cs1, so2) = close_all now P reasons cs so1
      in (c1 # cs1, so2))"

definition close_cases_outside_active_refs ::
  "(string list \<Rightarrow> jdict list option) \<Rightarrow> (jdict \<Rightarrow> source_error + source_document) \<Rightarrow> int \<Rightarrow> string \<Rightarrow> source_type \<Rightarrow>
   string list \<Rightarrow> pcase list \<Rightarrow> store \<Rightarrow> source_error + (pcase list \<times> store)" where
  "close_cases_outside_active_refs fetch to_doc now database source_type active_refs cs so =
     (let P = is_inactive database source_type active_refs; inactive = filter P cs
      in if inactive = [] then Inr (cs, so)
         else map_sum id (\<lambda>reasons. close_all now P reasons cs so)
                (probe_inactive_reasons fetch to_doc (map pc_source_ref inactive)))"

section \<open>Bisection of a date window\<close>

text \<open>
  \<open>_search_documents_window\<close>: a window whose answer was truncated is halved down to one day.  The
  division of a \<open>timedelta\<close> by two rounds half to even.
\<close>

definition half_span :: "int \<Rightarrow> int" where
  "half_span n = (let q = n div 2 in if n mod 2 = 0 then q else if q mod 2 = 0 then q else q + 1)"

definition row_ref :: "jdict \<Rightarrow> string" where
  "row_ref row = jstring (get_first row [''ref'', ''Ref_Key''])"

definition merge_rows :: "jdict list \<Rightarrow> jdict list" where
  "merge_rows rows = dict_values (dict_of (map (\<lambda>r. (row_ref r, r)) (filter (\<lambda>r. row_ref r \<noteq> []) rows)))"

lemma half_span_bounds: "1 < n \<Longrightarrow> 0 < half_span n \<and> half_span n < n"
  by (auto simp: half_span_def Let_def) presburger+

function search_documents_window :: "(int \<Rightarrow> int \<Rightarrow> jdict list \<times> bool) \<Rightarrow> int \<Rightarrow> int \<Rightarrow> jdict list" where
  "search_documents_window search start finish =
     (if finish \<le> start then []
      else case search (instant_date start) (instant_date finish) of
             (rows, truncated) \<Rightarrow>
               if \<not> truncated \<or> finish - start \<le> US_PER_DAY then rows
               else
                 (let mid = start + half_span (finish - start)
                  in merge_rows (search_documents_window search start mid @
                       search_documents_window search mid finish @ rows)))"
  by pat_completeness auto

termination search_documents_window
proof (relation "measure (\<lambda>(search, start, finish). nat (finish - start))")
  fix search :: "int \<Rightarrow> int \<Rightarrow> jdict list \<times> bool" and start finish mid :: int and x rows truncated
  assume a: "\<not> finish \<le> start" "\<not> (\<not> truncated \<or> finish - start \<le> US_PER_DAY)" "mid = start + half_span (finish - start)"
  then have "1 < finish - start" by (auto simp: US_PER_DAY_def)
  from half_span_bounds[OF this] a(3)
  show "((search, start, mid), search, start, finish) \<in> measure (\<lambda>(search, start, finish). nat (finish - start))"
    and "((search, mid, finish), search, start, finish) \<in> measure (\<lambda>(search, start, finish). nat (finish - start))"
    by auto
qed simp

end
