(* ===== verification/Case_Invariant.thy ===== *)
theory Case_Invariant
  imports Case_Polling
begin

text \<open>
  The invariant of the cases and their tasks, and that the operations of dispatch and polling keep it.
  The locale \<open>case_operation\<close> is the contract of an operation on one case: it keeps
  the identity of the case, its invariant, and the tasks of other cases.  Each operation of the service
  interprets it (\<open>Case_Orchestrator\<close>); the invariant of the whole database is proved once, in the locale.
\<close>

section \<open>The invariant of a case\<close>

definition blocking :: "ptask \<Rightarrow> bool" where
  "blocking t \<longleftrightarrow> pt_status t \<in> set BLOCKING_TASK_STATUSES"

definition task_case :: "ptask \<Rightarrow> json" where
  "task_case t = jget (pt_metadata t) ''procurement_case_id''"

text \<open>The column \<open>control_point\<close> holds sixteen characters.\<close>

definition case_wf :: "pcase \<Rightarrow> bool" where
  "case_wf c \<longleftrightarrow> pc_status c \<in> set case_statuses \<and> length (opt_str (pc_control_point c)) \<le> 16 \<and>
     (pc_status c \<in> set TERMINAL_CASE_STATUSES \<longrightarrow> pc_current_task c = None) \<and>
     (pc_status c = ''closed'' \<longleftrightarrow> pc_closed_reason c \<noteq> None) \<and> (pc_closed_reason c \<noteq> None \<longleftrightarrow> pc_closed_at c \<noteq> None)"

definition tasks_wf :: "pcase \<Rightarrow> (string, ptask) dict \<Rightarrow> bool" where
  "tasks_wf c ts \<longleftrightarrow>
     (\<forall>i t. dict_get ts i = Some t \<longrightarrow> task_case t = JStr (pc_id c) \<longrightarrow> blocking t \<longrightarrow> pc_current_task c = Some i) \<and>
     (\<forall>i. pc_current_task c = Some i \<longrightarrow> (\<exists>t. dict_get ts i = Some t \<and> task_case t = JStr (pc_id c)))"

definition case_inv :: "pcase \<Rightarrow> store \<Rightarrow> bool" where
  "case_inv c so \<longleftrightarrow> case_wf c \<and> tasks_wf c (so_tasks so)"

text \<open>What an operation on the case \<open>i\<close> may do to the tasks: those of other cases stay as they are.\<close>

definition others_kept :: "string \<Rightarrow> store \<Rightarrow> store \<Rightarrow> bool" where
  "others_kept i so so' \<longleftrightarrow>
     (\<forall>k t. task_case t \<noteq> JStr i \<longrightarrow> dict_get (so_tasks so') k = Some t \<longleftrightarrow> dict_get (so_tasks so) k = Some t)"

definition orch_inv :: "pcase list \<Rightarrow> store \<Rightarrow> bool" where
  "orch_inv cs so \<longleftrightarrow> distinct (map pc_id cs) \<and> (\<forall>c \<in> set cs. case_inv c so) \<and>
     (\<forall>k t. dict_get (so_tasks so) k = Some t \<longrightarrow> task_case t \<in> JStr ` pc_id ` set cs)"

lemma others_kept_refl [simp]: "so_tasks so' = so_tasks so \<Longrightarrow> others_kept i so so'"
  by (simp add: others_kept_def)

lemma others_kept_trans: "others_kept i so so1 \<Longrightarrow> others_kept i so1 so2 \<Longrightarrow> others_kept i so so2"
  by (simp add: others_kept_def)

lemma tasks_wf_others:
  assumes "others_kept i so so'" "pc_id c \<noteq> i" "tasks_wf c (so_tasks so)"
  shows "tasks_wf c (so_tasks so')"
  using assms unfolding tasks_wf_def others_kept_def by (metis json.inject(4))

section \<open>Operations on a case\<close>

locale case_operation =
  fixes oper :: "pcase \<Rightarrow> store \<Rightarrow> pcase \<Rightarrow> store \<Rightarrow> bool"
  assumes keeps_id: "oper c so c' so' \<Longrightarrow> case_inv c so \<Longrightarrow> pc_id c' = pc_id c"
    and keeps_case: "oper c so c' so' \<Longrightarrow> case_inv c so \<Longrightarrow> case_inv c' so'"
    and keeps_others: "oper c so c' so' \<Longrightarrow> case_inv c so \<Longrightarrow> others_kept (pc_id c) so so'"
begin

lemma ids_kept: "oper c so c' so' \<Longrightarrow> case_inv c so \<Longrightarrow> map pc_id (put_case c' cs) = map pc_id cs"
  by (auto simp: put_case_def keeps_id)

lemma database_kept:
  assumes "oper c so c' so'" "orch_inv cs so" "c \<in> set cs"
  shows "orch_inv (put_case c' cs) so'"
proof -
  from assms have ci: "case_inv c so" by (simp add: orch_inv_def)
  note k = keeps_id[OF assms(1) ci] keeps_case[OF assms(1) ci] keeps_others[OF assms(1) ci]
  have "case_inv x so'" if "x \<in> set (put_case c' cs)" for x
  proof (cases "pc_id x = pc_id c")
    case True
    with that k(1) have "x = c'" by (auto simp: put_case_def split: if_splits)
    with k(2) show ?thesis by simp
  next
    case False
    with that k(1) have "x \<in> set cs" by (auto simp: put_case_def split: if_splits)
    with assms(2) have "case_inv x so" by (simp add: orch_inv_def)
    with tasks_wf_others[OF k(3) False] show ?thesis by (simp add: case_inv_def)
  qed
  moreover have "task_case t \<in> JStr ` pc_id ` set cs" if "dict_get (so_tasks so') i = Some t" for i t
  proof (cases "task_case t = JStr (pc_id c)")
    case False
    with that k(3) have "dict_get (so_tasks so) i = Some t" by (simp add: others_kept_def)
    with assms(2) show ?thesis by (auto simp: orch_inv_def)
  qed (use assms(3) in auto)
  moreover have "pc_id ` set (put_case c' cs) = pc_id ` set cs"
    by (metis ids_kept[OF assms(1) ci] list.set_map)
  ultimately show ?thesis
    using assms(2) ids_kept[OF assms(1) ci, of cs] unfolding orch_inv_def by metis
qed

end

section \<open>Steps of the operations\<close>

lemma append_event_frame [simp]:
  "so_tasks (append_event c ty k p n pl a so) = so_tasks so"
  "so_enqueue (append_event c ty k p n pl a so) = so_enqueue so"
  "so_planning (append_event c ty k p n pl a so) = so_planning so"
  "so_dispatches (append_event c ty k p n pl a so) = so_dispatches so"
  by (simp_all add: append_event_def)

lemma put_task_frame [simp]:
  "so_tasks (put_task i t so) = dict_set i t (so_tasks so)" "so_enqueue (put_task i t so) = so_enqueue so"
  "so_planning (put_task i t so) = so_planning so" "so_events (put_task i t so) = so_events so"
  "so_dispatches (put_task i t so) = so_dispatches so"
  by (simp_all add: put_task_def)

text \<open>The fields the invariant looks at.\<close>

definition case_view :: "pcase \<Rightarrow> string \<times> string \<times> string option \<times> string option \<times> string option \<times> int option" where
  "case_view c = (pc_id c, pc_status c, pc_control_point c, pc_current_task c, pc_closed_reason c, pc_closed_at c)"

lemma case_inv_view: "case_view c' = case_view c \<Longrightarrow> so_tasks so' = so_tasks so \<Longrightarrow> case_inv c' so' \<longleftrightarrow> case_inv c so"
  by (simp add: case_view_def case_inv_def case_wf_def tasks_wf_def)

lemma task_case_kept [simp]:
  "task_case (cancel_task now r t) = task_case t" "task_case (claim_task now t) = task_case t"
  "task_case (t\<lparr>pt_status := st, pt_started_at := sa\<rparr>) = task_case t"
  "task_case (t\<lparr>pt_status := st, pt_finished_at := f\<rparr>) = task_case t"
  by (simp_all add: task_case_def cancel_task_def claim_task_def)

lemma cancelled_not_blocking [simp]: "\<not> blocking (cancel_task now r t)"
  by (simp add: blocking_def cancel_task_def BLOCKING_TASK_STATUSES_def)

lemma others_kept_put:
  assumes "task_case t = JStr i" "dict_get (so_tasks so) k = None \<or> (\<exists>u. dict_get (so_tasks so) k = Some u \<and> task_case u = JStr i)"
  shows "others_kept i so (put_task k t so)"
  using assms by (auto simp: others_kept_def)

text \<open>Writing a task of the case that keeps its place.\<close>

lemma tasks_wf_put:
  assumes "tasks_wf c ts" "task_case t = JStr (pc_id c)" "pc_id c' = pc_id c"
    "pc_current_task c' = (if blocking t then Some i else pc_current_task c')"
    "pc_current_task c = Some i \<or> pc_current_task c = None"
    "pc_current_task c' = None \<or> pc_current_task c' = Some i"
    "pc_current_task c = None \<longrightarrow> pc_current_task c' = Some i"
  shows "tasks_wf c' (dict_set i t ts)"
  using assms unfolding tasks_wf_def by (auto split: if_splits)

lemma released:
  assumes "release_current_task now key c so = Some (c1, so1)" "case_inv c so" "pc_status c \<notin> set TERMINAL_CASE_STATUSES"
  shows "pc_current_task c1 = None" "case_view c1 = case_view (c\<lparr>pc_current_task := None\<rparr>)" "case_inv c1 so1"
    "others_kept (pc_id c) so so1" "\<And>u. dict_get (so_tasks so) u = None \<Longrightarrow> dict_get (so_tasks so1) u = None"
    "so_enqueue so1 = so_enqueue so" "so_planning so1 = so_planning so"
proof -
  have wf: "case_wf (c\<lparr>pc_current_task := None\<rparr>)" "tasks_wf c (so_tasks so)"
    using assms(2) by (auto simp: case_inv_def case_wf_def)
  have *: "pc_current_task c1 = None \<and> case_view c1 = case_view (c\<lparr>pc_current_task := None\<rparr>) \<and> case_inv c1 so1 \<and>
    others_kept (pc_id c) so so1 \<and> (\<forall>u. dict_get (so_tasks so) u = None \<longrightarrow> dict_get (so_tasks so1) u = None) \<and>
    so_enqueue so1 = so_enqueue so \<and> so_planning so1 = so_planning so"
  proof (cases "pc_current_task c")
    case None
    then show ?thesis using assms(1,2) by (simp add: release_current_task_def case_view_def)
  next
    case (Some i)
    then obtain t where t: "dict_get (so_tasks so) i = Some t" "task_case t = JStr (pc_id c)"
      using wf(2) by (auto simp: tasks_wf_def)
    show ?thesis
    proof (cases "blocking t")
      case False
      then have r: "c1 = c\<lparr>pc_current_task := None\<rparr>" "so1 = so"
        using assms(1) Some t by (auto simp: release_current_task_def blocking_def)
      have "tasks_wf c1 (so_tasks so)"
        using wf(2) Some t False unfolding r tasks_wf_def by auto
      with wf(1) r show ?thesis by (simp add: case_inv_def case_view_def)
    next
      case True
      then have r: "c1 = c\<lparr>pc_current_task := None, pc_current_agent := None\<rparr>"
        "so1 = put_task i (cancel_task now (Some RECOMPUTE_REASON) t) so"
        using assms(1) Some t by (auto simp: release_current_task_def blocking_def split: if_splits)
      have "tasks_wf c1 (so_tasks so1)"
        unfolding r put_task_frame by (rule tasks_wf_put[OF wf(2)]) (use Some t in auto)
      moreover have "case_wf c1" using wf(1) by (simp add: r case_wf_def)
      ultimately show ?thesis using Some t
        by (auto simp: r case_inv_def case_view_def intro!: others_kept_put)
    qed
  qed
  from * show "pc_current_task c1 = None" "case_view c1 = case_view (c\<lparr>pc_current_task := None\<rparr>)" "case_inv c1 so1"
    "others_kept (pc_id c) so so1" "\<And>u. dict_get (so_tasks so) u = None \<Longrightarrow> dict_get (so_tasks so1) u = None"
    "so_enqueue so1 = so_enqueue so" "so_planning so1 = so_planning so" by auto
qed

lemma opened_workspace:
  "pc_id (open_role_workspace now agent c) = pc_id c" "pc_status (open_role_workspace now agent c) = pc_status c"
  "pc_current_task (open_role_workspace now agent c) = pc_current_task c"
  "pc_closed_reason (open_role_workspace now agent c) = pc_closed_reason c"
  "pc_closed_at (open_role_workspace now agent c) = pc_closed_at c"
  "length (opt_str (pc_control_point c)) \<le> 16 \<Longrightarrow> length (opt_str (pc_control_point (open_role_workspace now agent c))) \<le> 16"
  by (auto simp: open_role_workspace_def Let_def moved_control_point_def split: option.split)

lemma started:
  assumes "start_role_task now u agent key c so = (c', so')" "case_inv c so" "pc_current_task c = None"
    "dict_get (so_tasks so) u = None" "pc_status c \<notin> set TERMINAL_CASE_STATUSES"
  shows "case_inv c' so'" "pc_id c' = pc_id c" "others_kept (pc_id c) so so'" "pc_status c' = pc_status c"
    "pc_closed_reason c' = pc_closed_reason c" "so_enqueue so' = so_enqueue so" "so_planning so' = so_planning so"
proof -
  let ?t = "role_task now agent key (take 255 (''role:'' @ pc_id c @ '':'' @ key)) c"
  have v: "pc_id c' = pc_id c" "pc_status c' = pc_status c" "pc_current_task c' = Some u"
    "pc_closed_reason c' = pc_closed_reason c" "pc_closed_at c' = pc_closed_at c"
    and tasks: "so_tasks so' = dict_set u ?t (so_tasks so)"
    using assms(1) by (auto simp: start_role_task_def Let_def opened_workspace split: if_splits)
  have tc: "task_case ?t = JStr (pc_id c)" by (simp add: task_case_def role_task_def)
  have bl: "blocking ?t" by (simp add: blocking_def role_task_def BLOCKING_TASK_STATUSES_def)
  have "tasks_wf c' (so_tasks so')"
    unfolding tasks by (rule tasks_wf_put[where c = c]) (use assms v tc bl in \<open>auto simp: case_inv_def\<close>)
  moreover have "length (opt_str (pc_control_point c')) \<le> 16"
    using assms(1,2) by (auto simp: start_role_task_def Let_def case_inv_def case_wf_def
        intro!: opened_workspace(6) split: if_splits)
  ultimately show "case_inv c' so'"
    using assms v by (auto simp: case_inv_def case_wf_def)
  show "pc_id c' = pc_id c" "pc_status c' = pc_status c" "pc_closed_reason c' = pc_closed_reason c" by (rule v)+
  show "others_kept (pc_id c) so so'"
    unfolding others_kept_def tasks using assms(4) tc by auto
  show "so_enqueue so' = so_enqueue so" "so_planning so' = so_planning so"
    using assms(1) by (auto simp: start_role_task_def Let_def split: if_splits)
qed

lemma enqueued:
  assumes "enqueue_role_agent now u c so = (c', so', b)" "case_inv c so" "dict_get (so_tasks so) u = None"
  shows "case_inv c' so'" "pc_id c' = pc_id c" "others_kept (pc_id c) so so'" "pc_status c' = pc_status c"
    "pc_closed_reason c' = pc_closed_reason c" "so_enqueue so' = so_enqueue so" "so_planning so' = so_planning so"
proof -
  have *: "case_inv c' so' \<and> pc_id c' = pc_id c \<and> others_kept (pc_id c) so so' \<and> pc_status c' = pc_status c \<and>
    pc_closed_reason c' = pc_closed_reason c \<and> so_enqueue so' = so_enqueue so \<and> so_planning so' = so_planning so"
  proof (cases "\<not> so_enqueue so \<or> pc_status c \<in> set TERMINAL_CASE_STATUSES \<or>
      jget (pc_metadata c) ''role_agent_completion_key'' = JStr (role_completion_key c (due_agent c)) \<or>
      release_current_task now (role_completion_key c (due_agent c)) c so = None")
    case True
    then show ?thesis using assms by (auto simp: enqueue_role_agent_def Let_def split: if_splits)
  next
    case False
    then obtain c1 so1 where r: "release_current_task now (role_completion_key c (due_agent c)) c so = Some (c1, so1)"
      and nt: "pc_status c \<notin> set TERMINAL_CASE_STATUSES" by auto
    have s: "start_role_task now u (due_agent c) (role_completion_key c (due_agent c)) c1 so1 = (c', so')"
      using assms(1) False r by (simp add: enqueue_role_agent_def Let_def split: prod.splits)
    note R = released[OF r assms(2) nt]
    have view: "pc_id c1 = pc_id c" "pc_status c1 = pc_status c" "pc_closed_reason c1 = pc_closed_reason c"
      using R(2) by (simp_all add: case_view_def)
    have "pc_status c1 \<notin> set TERMINAL_CASE_STATUSES" using nt view by simp
    note S = started[OF s R(3) R(1) R(5)[OF assms(3)] this]
    show ?thesis using S R(4,6,7) view others_kept_trans[OF R(4), of so'] by simp
  qed
  from * show "case_inv c' so'" "pc_id c' = pc_id c" "others_kept (pc_id c) so so'" "pc_status c' = pc_status c"
    "pc_closed_reason c' = pc_closed_reason c" "so_enqueue so' = so_enqueue so" "so_planning so' = so_planning so" by auto
qed

lemma cancelled_current:
  assumes "cancel_current_task now r c so = (c', so')" "tasks_wf c (so_tasks so)"
  shows "tasks_wf c' (so_tasks so')" "others_kept (pc_id c) so so'"
    "case_view c' = case_view (c\<lparr>pc_current_task := None\<rparr>)" "so_enqueue so' = so_enqueue so" "so_planning so' = so_planning so"
proof -
  have *: "tasks_wf c' (so_tasks so') \<and> others_kept (pc_id c) so so' \<and>
    case_view c' = case_view (c\<lparr>pc_current_task := None\<rparr>) \<and> so_enqueue so' = so_enqueue so \<and> so_planning so' = so_planning so"
  proof (cases "pc_current_task c")
    case None
    then show ?thesis using assms by (simp add: cancel_current_task_def case_view_def)
  next
    case (Some i)
    then obtain t where t: "dict_get (so_tasks so) i = Some t" "task_case t = JStr (pc_id c)"
      using assms(2) by (auto simp: tasks_wf_def)
    have c': "c' = c\<lparr>pc_current_task := None, pc_current_agent := None\<rparr>"
      and so': "so' = (if blocking t then put_task i (cancel_task now r t) so else so)"
      using assms(1) Some t by (auto simp: cancel_current_task_def blocking_def)
    have "tasks_wf c' (so_tasks so')"
    proof (cases "blocking t")
      case True
      show ?thesis unfolding so' using True
        by simp (rule tasks_wf_put[OF assms(2)], use Some t in \<open>auto simp: c'\<close>)
    next
      case False
      with assms(2) Some t show ?thesis unfolding so' c' tasks_wf_def by auto
    qed
    with t show ?thesis by (auto simp: c' so' case_view_def intro!: others_kept_put)
  qed
  from * show "tasks_wf c' (so_tasks so')" "others_kept (pc_id c) so so'"
    "case_view c' = case_view (c\<lparr>pc_current_task := None\<rparr>)" "so_enqueue so' = so_enqueue so" "so_planning so' = so_planning so"
    by auto
qed

lemma known_statuses:
  "''closed'' \<in> set case_statuses" "''new'' \<in> set case_statuses" "''agent_waiting'' \<in> set case_statuses"
  "''ordered'' \<in> set case_statuses" "''blocked'' \<in> set case_statuses" "''closed'' \<in> set TERMINAL_CASE_STATUSES"
  "''new'' \<notin> set TERMINAL_CASE_STATUSES" "''agent_waiting'' \<notin> set TERMINAL_CASE_STATUSES"
  "''ordered'' \<notin> set TERMINAL_CASE_STATUSES" "''blocked'' \<notin> set TERMINAL_CASE_STATUSES"
  by (simp_all add: case_statuses_def TERMINAL_CASE_STATUSES_def)

lemma archived:
  assumes "archive_case now r ty k pl st ver dig c so = (c', so')" "case_inv c so"
  shows "case_inv c' so'" "pc_id c' = pc_id c" "others_kept (pc_id c) so so'"
    "pc_status c \<notin> set TERMINAL_CASE_STATUSES \<Longrightarrow> pc_status c' = ''closed'' \<and> pc_closed_reason c' = Some r"
    "pc_status c \<in> set TERMINAL_CASE_STATUSES \<Longrightarrow> c' = c \<and> so' = so"
proof -
  have *: "case_inv c' so' \<and> pc_id c' = pc_id c \<and> others_kept (pc_id c) so so' \<and>
    pc_status c' = ''closed'' \<and> pc_closed_reason c' = Some r" if nt: "pc_status c \<notin> set TERMINAL_CASE_STATUSES"
  proof -
    define c2 where "c2 = c\<lparr>pc_status := ''closed'', pc_closed_at := Some now, pc_closed_reason := Some r,
      pc_deviation := Some (dict_get_or CLOSED_REASON_LABELS r (LABEL_NOT_ACTUAL @ ''.'')),
      pc_source_status := keep_or st (pc_source_status c), pc_data_version := keep_or ver (pc_data_version c),
      pc_content_hash := keep_or dig (pc_content_hash c)\<rparr>"
    define c3 where "c3 = c2\<lparr>pc_metadata := archived_metadata c2 (isoformat now)\<rparr>"
    obtain c4 so4 where k: "cancel_current_task now (pc_deviation c3) c3 so = (c4, so4)" by (cases "cancel_current_task now (pc_deviation c3) c3 so")
    have res: "c' = c4" "so_tasks so' = so_tasks so4"
      using assms(1) nt k by (auto simp: archive_case_def c3_def c2_def)
    have "tasks_wf c3 (so_tasks so)" using assms(2) by (simp add: c3_def c2_def case_inv_def tasks_wf_def)
    note K = cancelled_current[OF k this]
    have v: "pc_id c4 = pc_id c" "pc_status c4 = ''closed''" "pc_control_point c4 = pc_control_point c"
      "pc_current_task c4 = None" "pc_closed_reason c4 = Some r" "pc_closed_at c4 = Some now"
      using K(3) by (simp_all add: case_view_def c3_def c2_def)
    have "others_kept (pc_id c) so so4" using K(2) by (simp add: c3_def c2_def)
    then have "others_kept (pc_id c) so so'" by (simp add: others_kept_def res)
    moreover have "case_inv c' so'" using K(1) v assms(2) unfolding res case_inv_def case_wf_def
      by (simp add: known_statuses)
    ultimately show ?thesis using v by (simp add: res)
  qed
  have t: "c' = c \<and> so' = so" if "pc_status c \<in> set TERMINAL_CASE_STATUSES"
    using assms(1) that by (simp add: archive_case_def)
  show "case_inv c' so'" "pc_id c' = pc_id c" "others_kept (pc_id c) so so'"
    using * t assms(2) by (cases "pc_status c \<in> set TERMINAL_CASE_STATUSES"; simp)+
  show "pc_status c \<notin> set TERMINAL_CASE_STATUSES \<Longrightarrow> pc_status c' = ''closed'' \<and> pc_closed_reason c' = Some r"
    and "pc_status c \<in> set TERMINAL_CASE_STATUSES \<Longrightarrow> c' = c \<and> so' = so" using * t by simp_all
qed

lemma reactivated:
  assumes "reactivate_case now d c so = (c', so')" "case_inv c so"
  shows "case_inv c' so'" "pc_id c' = pc_id c" "so_tasks so' = so_tasks so" "pc_status c' = ''new''"
    "so_enqueue so' = so_enqueue so" "so_planning so' = so_planning so"
proof -
  have v: "pc_id c' = pc_id c" "pc_status c' = ''new''" "pc_current_task c' = pc_current_task c"
    "pc_closed_reason c' = None" "pc_closed_at c' = None" "length (opt_str (pc_control_point c')) \<le> 16"
    and t: "so_tasks so' = so_tasks so" "so_enqueue so' = so_enqueue so" "so_planning so' = so_planning so"
    using assms(1) by (auto simp: reactivate_case_def Let_def)
  show "case_inv c' so'" using assms(2) v t(1) unfolding case_inv_def case_wf_def tasks_wf_def
    by (simp add: known_statuses)
  show "pc_id c' = pc_id c" "so_tasks so' = so_tasks so" "pc_status c' = ''new''" "so_enqueue so' = so_enqueue so"
    "so_planning so' = so_planning so" using v t by simp_all
qed

lemma refreshed_card:
  "case_view (replace_positions d (update_case_card d c)) = case_view c"
  "case_view (fst (update_case_presentations d c)) = case_view c"
  by (simp_all add: case_view_def replace_positions_def update_case_card_def update_case_presentations_def)

lemma refreshed:
  assumes "refresh_case now u d c so = (c', so', a)" "case_inv c so" "dict_get (so_tasks so) u = None"
  shows "case_inv c' so'" "pc_id c' = pc_id c" "others_kept (pc_id c) so so'"
    "pc_status c' = (if pc_status c \<in> set TERMINAL_CASE_STATUSES \<or> pc_status c = ''human_required'' then ''new'' else pc_status c)"
proof -
  define c1 so1 where "c1 = replace_positions d (update_case_card d c)" and "so1 = changed_event d c1 so"
  have view: "case_view c1 = case_view c" by (simp add: c1_def refreshed_card)
  have t1: "so_tasks so1 = so_tasks so" by (simp add: so1_def changed_event_def)
  have i1: "case_inv c1 so1" using case_inv_view[OF view t1] assms(2) by simp
  have st: "pc_status c1 = pc_status c" "pc_id c1 = pc_id c" using view by (simp_all add: case_view_def)
  let ?reopen = "pc_status c \<in> set TERMINAL_CASE_STATUSES \<or> pc_status c = ''human_required''"
  obtain c2 so2 where r: "(if ?reopen then reactivate_case now d c1 so1 else (c1, so1)) = (c2, so2)"
    by (cases "if ?reopen then reactivate_case now d c1 so1 else (c1, so1)")
  have two: "case_inv c2 so2 \<and> pc_id c2 = pc_id c \<and> so_tasks so2 = so_tasks so \<and>
    pc_status c2 = (if ?reopen then ''new'' else pc_status c)"
  proof (cases ?reopen)
    case True
    then have "reactivate_case now d c1 so1 = (c2, so2)" using r by simp
    from reactivated[OF this i1] True st t1 show ?thesis by simp
  qed (use r i1 st t1 in auto)
  obtain c3 so3 b where e0: "enqueue_role_agent now u c2 so2 = (c3, so3, b)" by (metis prod_cases3)
  have e: "enqueue_role_agent now u c2 so2 = (c', so', b)"
  proof -
    have "refresh_case now u d c so = (case enqueue_role_agent now u c2 so2 of
        (c3, so3, e) \<Rightarrow> (c3, so3, if e then Enqueued else Updated))"
      unfolding refresh_case_def Let_def c1_def[symmetric] so1_def[symmetric] st r by simp
    with assms(1) e0 show ?thesis by simp
  qed
  from two have i2: "case_inv c2 so2" by simp
  have f2: "dict_get (so_tasks so2) u = None" using two assms(3) by simp
  note E = enqueued[OF e i2 f2]
  have "others_kept (pc_id c) so so'"
    using E(3) two by (simp add: others_kept_def)
  then show "case_inv c' so'" "pc_id c' = pc_id c" "others_kept (pc_id c) so so'"
    "pc_status c' = (if ?reopen then ''new'' else pc_status c)" using E two by simp_all
qed

text \<open>A document met by its case.\<close>

lemma upserted:
  assumes "upsert_known now u d c so = (c', so', a)" "case_inv c so" "dict_get (so_tasks so) u = None"
  shows "case_inv c' so'" "pc_id c' = pc_id c" "others_kept (pc_id c) so so'"
proof -
  consider (same) "c' = c" "so' = so"
    | (archive) "archive_for_skip now d c so = (c', so')"
    | (present) b where "enqueue_role_agent now u (fst (update_case_presentations d c)) so = (c', so', b)"
    | (refresh) "refresh_case now u d c so = (c', so', a)"
    using assms(1) by (auto simp: upsert_known_def Let_def split: if_splits prod.splits)
  then have "case_inv c' so' \<and> pc_id c' = pc_id c \<and> others_kept (pc_id c) so so'"
  proof cases
    case same
    then show ?thesis using assms(2) by simp
  next
    case archive
    from archived[OF archive[unfolded archive_for_skip_def] assms(2)] show ?thesis by simp
  next
    case (present b)
    let ?c = "fst (update_case_presentations d c)"
    have "case_inv ?c so" using case_inv_view[OF refreshed_card(2) refl] assms(2) by blast
    note E = enqueued[OF present this assms(3)]
    have "pc_id ?c = pc_id c" using refreshed_card(2)[of d c] by (simp add: case_view_def)
    with E show ?thesis by simp
  next
    case refresh
    from refreshed[OF refresh assms(2,3)] show ?thesis by simp
  qed
  then show "case_inv c' so'" "pc_id c' = pc_id c" "others_kept (pc_id c) so so'" by auto
qed

end
