(* ===== verification/Polling_Facts.thy ===== *)
theory Polling_Facts
  imports Case_Invariant
begin

text \<open>
  What a poll does to the cases: the case of a document follows it, a repeated poll of an unchanged
  document is idle, the cases outside the active documents are exactly those that are closed, and the
  bisection of a window loses no document.
\<close>

section \<open>Frames\<close>

text \<open>The fields a dispatch may write.\<close>

definition dispatched :: "pcase \<Rightarrow> pcase \<Rightarrow> pcase" where
  "dispatched c c' =
     c\<lparr>pc_current_task := pc_current_task c', pc_current_agent := pc_current_agent c',
       pc_assigned_agents := pc_assigned_agents c', pc_metadata := pc_metadata c', pc_control_point := pc_control_point c'\<rparr>"

lemma dispatched_twice: "dispatched (dispatched c c1) c2 = dispatched c c2"
  by (simp add: dispatched_def)

lemma dispatched_trans: "c1 = dispatched c c1 \<Longrightarrow> c2 = dispatched c1 c2 \<Longrightarrow> c2 = dispatched c c2"
  using dispatched_twice by metis

lemma open_frame: "open_role_workspace now a x = dispatched x (open_role_workspace now a x)"
proof -
  define c1 where "c1 = (if a = PRODUCTION_PREPARATION_ENGINEER_AGENT_ID
    then x\<lparr>pc_metadata := open_workspace ''engineer'' now engineer_reset_keys (pc_metadata x)\<rparr> else x)"
  define c2 where "c2 = (if a = PRODUCTION_DISPATCHER_AGENT_ID
    then c1\<lparr>pc_metadata := open_workspace ''dispatcher'' now dispatcher_reset_keys (pc_metadata c1)\<rparr> else c1)"
  define c3 where "c3 = (case warehouse_availability_spec a of None \<Rightarrow> c2 | Some spec \<Rightarrow>
    c2\<lparr>pc_metadata := open_workspace (as_prefix spec) now (map (spec_key spec) workspace_action_suffixes) (pc_metadata c2),
       pc_control_point := moved_control_point [''basis'', ''data''] ''coverage'' (pc_control_point c2)\<rparr>)"
  define c4 where "c4 = (if a = PURCHASE_MANAGER_AGENT_ID
    then c3\<lparr>pc_metadata := open_workspace ''purchase_manager'' now [''purchase_manager_workspace_archived_at''] (pc_metadata c3),
      pc_control_point := moved_control_point [''basis'', ''data'', ''coverage''] ''purchase'' (pc_control_point c3)\<rparr> else c3)"
  have 1: "c1 = dispatched x c1" by (cases "a = PRODUCTION_PREPARATION_ENGINEER_AGENT_ID") (simp_all add: c1_def dispatched_def)
  have 2: "c2 = dispatched c1 c2" by (cases "a = PRODUCTION_DISPATCHER_AGENT_ID") (simp_all add: c2_def dispatched_def)
  have 3: "c3 = dispatched c2 c3" by (cases "warehouse_availability_spec a") (simp_all add: c3_def dispatched_def)
  have 4: "c4 = dispatched c3 c4" by (cases "a = PURCHASE_MANAGER_AGENT_ID") (simp_all add: c4_def dispatched_def)
  have "open_role_workspace now a x = c4"
    unfolding open_role_workspace_def Let_def c4_def c3_def c2_def c1_def ..
  with dispatched_trans[OF dispatched_trans[OF dispatched_trans[OF 1 2] 3] 4] show ?thesis by simp
qed

lemma enqueue_frame:
  assumes "enqueue_role_agent now u c so = (c', so', b)"
  shows "c' = dispatched c c'"
proof -
  consider "c' = c" | c1 so1 k where "release_current_task now k c so = Some (c1, so1)"
      "start_role_task now u (due_agent c) k c1 so1 = (c', so')"
    using assms by (auto simp: enqueue_role_agent_def Let_def split: if_splits option.splits prod.splits)
  then show ?thesis
  proof cases
    case 1
    then show ?thesis by (simp add: dispatched_def)
  next
    case (2 c1 so1 k)
    have r: "c1 = dispatched c c1"
      using 2(1) by (auto simp: release_current_task_def dispatched_def split: option.splits if_splits)
    let ?x = "c1\<lparr>pc_current_task := Some u, pc_current_agent := Some (due_agent c),
      pc_assigned_agents := assigned_for (due_agent c) c1\<rparr>"
    have "c' = open_role_workspace now (due_agent c) ?x"
      using 2(2) by (auto simp: start_role_task_def Let_def split: if_splits)
    then have "c' = dispatched ?x c'" using open_frame by metis
    moreover have "?x = dispatched c1 ?x" by (simp add: dispatched_def)
    ultimately show ?thesis using r dispatched_trans by blast
  qed
qed

lemma enqueued_pending:
  assumes "enqueue_role_agent now u c so = (c', so', True)"
  shows "pc_current_task c' = Some u \<and> pc_status c \<notin> set TERMINAL_CASE_STATUSES \<and>
    (\<exists>t. dict_get (so_tasks so') u = Some t \<and> pt_status t = Task_Pending)"
proof -
  let ?a = "due_agent c" and ?k = "role_completion_key c (due_agent c)"
  from assms obtain c1 so1 where s: "start_role_task now u ?a ?k c1 so1 = (c', so')" and t: "pc_status c \<notin> set TERMINAL_CASE_STATUSES"
    by (auto simp: enqueue_role_agent_def Let_def split: if_splits option.splits prod.splits)
  have "pc_current_task c' = Some u" "dict_get (so_tasks so') u =
      Some (role_task now ?a ?k (take 255 (''role:'' @ pc_id c1 @ '':'' @ ?k)) c1)"
    using s by (auto simp: start_role_task_def Let_def opened_workspace split: if_splits)
  with t show ?thesis by (simp add: role_task_def)
qed

text \<open>A pending task blocks its case.\<close>

lemma pending_blocks:
  assumes "pc_current_task c = Some u" "dict_get (so_tasks so) u = Some t" "pt_status t = Task_Pending"
  shows "enqueue_role_agent now v c so = (c, so, False)"
  using assms by (simp add: enqueue_role_agent_def Let_def release_current_task_def BLOCKING_TASK_STATUSES_def)

section \<open>Presentations\<close>

lemma newer_stable [simp]: "\<not> text_changes new (newer_text new old)" "newer_text x x = x" "\<not> text_changes x x"
  by (simp_all add: text_changes_def newer_text_def)

lemma newer_same: "\<not> text_changes new old \<Longrightarrow> newer_text new old = old"
  by (simp add: newer_text_def)

lemma update_applied:
  "update_position l (p, b) =
     (if nl_line_id l = cp_line_id p
      then (p\<lparr>cp_nomenclature_name := newer_text (nl_nomenclature_name l) (cp_nomenclature_name p),
              cp_unit := newer_text (nl_unit l) (cp_unit p)\<rparr>,
            b \<or> text_changes (nl_nomenclature_name l) (cp_nomenclature_name p) \<or> text_changes (nl_unit l) (cp_unit p))
      else (p, b))"
  by (simp add: update_position_def)

lemma fold_unrelated: "cp_line_id p \<notin> nl_line_id ` set ls \<Longrightarrow> fold update_position ls (p, b) = (p, b)"
  by (induction ls) (auto simp: update_applied)

lemma update_keeps_id: "cp_line_id (fst (fold update_position ls (p, b))) = cp_line_id p"
proof (induction ls arbitrary: p b)
  case (Cons l ls)
  show ?case by (simp add: update_applied Cons)
qed simp

lemma position_stable:
  assumes "distinct (map nl_line_id ls)" "q = fst (fold update_position ls (p, b))"
  shows "fold update_position ls (q, False) = (q, False)"
  using assms
proof (induction ls arbitrary: p b q)
  case (Cons l ls)
  show ?case
  proof (cases "nl_line_id l = cp_line_id p")
    case True
    with Cons.prems(1) have n: "cp_line_id p \<notin> nl_line_id ` set ls" by auto
    let ?p = "p\<lparr>cp_nomenclature_name := newer_text (nl_nomenclature_name l) (cp_nomenclature_name p),
      cp_unit := newer_text (nl_unit l) (cp_unit p)\<rparr>"
    have "q = ?p" using Cons.prems(2) True n by (simp add: update_applied fold_unrelated)
    with True n show ?thesis by (simp add: update_applied fold_unrelated newer_same)
  next
    case False
    then have q: "q = fst (fold update_position ls (p, b))" using Cons.prems(2) by (simp add: update_applied)
    then have "cp_line_id q = cp_line_id p" by (simp add: update_keeps_id)
    with False Cons.IH[OF _ q] Cons.prems(1) show ?thesis by (simp add: update_applied)
  qed
qed simp

lemma line_position_stable:
  assumes "distinct (map nl_line_id ls)" "l \<in> set ls"
  shows "fold update_position ls (position_of_line l, False) = (position_of_line l, False)"
  using assms
proof (induction ls)
  case (Cons k ls)
  show ?case
  proof (cases "k = l")
    case True
    with Cons.prems have "cp_line_id (position_of_line l) \<notin> nl_line_id ` set ls" by (auto simp: position_of_line_def)
    with True show ?thesis by (simp add: update_applied fold_unrelated position_of_line_def)
  next
    case False
    with Cons.prems have "nl_line_id k \<noteq> cp_line_id (position_of_line l)" "l \<in> set ls"
      by (auto simp: position_of_line_def)
    with Cons.IH Cons.prems(1) show ?thesis by (simp add: update_applied)
  qed
qed simp

text \<open>A case that already presents the document.\<close>

definition presents :: "source_document \<Rightarrow> pcase \<Rightarrow> bool" where
  "presents d c \<longleftrightarrow> update_case_presentations d c = (c, False)"

lemma presentsI:
  assumes "\<not> text_changes (sd_initiator_name d) (pc_initiator_name c)"
    "\<not> text_changes (sd_department_name d) (pc_department_name c)"
    "\<not> text_changes (sd_warehouse_name d) (pc_warehouse_name c)"
    "\<forall>p \<in> set (pc_positions c). fold update_position (sd_positions d) (p, False) = (p, False)"
  shows "presents d c"
proof -
  have p: "presented_positions d c = map (\<lambda>p. (p, False)) (pc_positions c)"
    using assms(4) by (auto simp: presented_positions_def)
  have "map fst (presented_positions d c) = pc_positions c" by (simp add: p comp_def)
  then show ?thesis using assms(1-3) by (simp add: presents_def update_case_presentations_def newer_same p)
qed

lemma presented:
  assumes "distinct (map nl_line_id (sd_positions d))"
  shows "presents d (fst (update_case_presentations d c))"
proof (rule presentsI)
  show "\<forall>p \<in> set (pc_positions (fst (update_case_presentations d c))).
      fold update_position (sd_positions d) (p, False) = (p, False)"
    using position_stable[OF assms refl] by (auto simp: update_case_presentations_def presented_positions_def)
qed (simp_all add: update_case_presentations_def)

lemma carded:
  assumes "distinct (map nl_line_id (sd_positions d))"
  shows "presents d (replace_positions d (update_case_card d c))" "presents d (replace_positions d (new_case now i d))"
  by (rule presentsI; use line_position_stable[OF assms] in \<open>auto simp: replace_positions_def update_case_card_def new_case_def\<close>)+

lemma presents_same:
  assumes "pc_initiator_name c' = pc_initiator_name c" "pc_department_name c' = pc_department_name c"
    "pc_warehouse_name c' = pc_warehouse_name c" "pc_positions c' = pc_positions c" "presents d c"
  shows "presents d c'"
proof -
  from assms(5) have "snd (update_case_presentations d c) = False"
    "map fst (presented_positions d c) = pc_positions c"
    unfolding presents_def update_case_presentations_def by (auto dest: arg_cong[where f = pc_positions])
  moreover have "presented_positions d c' = presented_positions d c" using assms(4) by (simp add: presented_positions_def)
  ultimately show ?thesis using assms(1-4)
    by (auto simp: presents_def update_case_presentations_def newer_same)
qed

lemma presents_dispatched: "c' = dispatched c c' \<Longrightarrow> presents d c \<Longrightarrow> presents d c'"
  by (rule presents_same[of _ c]) (erule ssubst, simp add: dispatched_def)+

section \<open>A document and the case it found\<close>

text \<open>A case that mirrors a document and waits for the task of its last dispatch.\<close>

definition settled :: "source_document \<Rightarrow> pcase \<Rightarrow> store \<Rightarrow> bool" where
  "settled d c so \<longleftrightarrow> presents d c \<and> source_unchanged d c \<and> \<not> truthy (sd_skip_reason d) \<and>
     (\<exists>u t. pc_current_task c = Some u \<and> dict_get (so_tasks so) u = Some t \<and> pt_status t = Task_Pending)"

lemma settled_idle:
  assumes "settled d c so"
  shows "upsert_known later v d (c\<lparr>pc_synced_at := Some later\<rparr>) so = (c\<lparr>pc_synced_at := Some later\<rparr>, so, Skipped)"
proof -
  let ?c = "c\<lparr>pc_synced_at := Some later\<rparr>"
  from assms obtain u t where t: "pc_current_task ?c = Some u" "dict_get (so_tasks so) u = Some t" "pt_status t = Task_Pending"
    by (auto simp: settled_def)
  have u: "source_unchanged d ?c" "\<not> truthy (sd_skip_reason d)" using assms by (auto simp: settled_def source_unchanged_def)
  have "presents d ?c" by (rule presents_same[of _ c]) (use assms in \<open>simp_all add: settled_def\<close>)
  then have "update_case_presentations d ?c = (?c, False)" by (simp add: presents_def)
  moreover have "?c\<lparr>pc_synced_at := Some later\<rparr> = ?c" by simp
  moreover have "pc_status ?c \<notin> set TERMINAL_CASE_STATUSES" using u(1) by (simp add: source_unchanged_def)
  moreover from this have "\<not> (pc_status ?c = ''closed'' \<and> pc_closed_reason ?c = Some ''quality_released'')"
    by (auto simp: TERMINAL_CASE_STATUSES_def)
  ultimately show ?thesis using u pending_blocks[OF t, of later v] unfolding upsert_known_def Let_def by simp
qed

lemma dispatched_fields:
  assumes "c' = dispatched c c'"
  shows "pc_id c' = pc_id c" "pc_correlation_id c' = pc_correlation_id c" "pc_database c' = pc_database c"
    "pc_source_type c' = pc_source_type c" "pc_source_ref c' = pc_source_ref c" "pc_data_version c' = pc_data_version c"
    "pc_content_hash c' = pc_content_hash c" "pc_status c' = pc_status c"
  by (subst assms, simp add: dispatched_def)+

lemma settled_enqueued:
  assumes "enqueue_role_agent now u c so = (c', so', True)" "presents d c" "pc_data_version c = sd_data_version d"
    "pc_content_hash c = Some (sd_content_hash d)" "\<not> truthy (sd_skip_reason d)"
  shows "settled d c' so'"
proof -
  from dispatched_fields[OF enqueue_frame[OF assms(1)]] enqueued_pending[OF assms(1)] assms(3,4)
  have "source_unchanged d c'" by (simp add: source_unchanged_def)
  with enqueued_pending[OF assms(1)] assms(5) presents_dispatched[OF enqueue_frame[OF assms(1)] assms(2)]
  show ?thesis by (auto simp: settled_def)
qed

text \<open>What identifies the case of a document.\<close>

definition same_source :: "pcase \<Rightarrow> pcase \<Rightarrow> bool" where
  "same_source c c' \<longleftrightarrow> pc_id c' = pc_id c \<and> pc_correlation_id c' = pc_correlation_id c \<and>
     pc_source_type c' = pc_source_type c \<and> pc_source_ref c' = pc_source_ref c"

lemma same_source_enqueue:
  assumes "enqueue_role_agent now u c so = (c', so', b)"
  shows "same_source c c'"
  using dispatched_fields[OF enqueue_frame[OF assms]] by (simp add: same_source_def)

definition named_by :: "source_document \<Rightarrow> pcase \<Rightarrow> bool" where
  "named_by d c \<longleftrightarrow> pc_database c = Some (sd_database d) \<and> pc_source_type c = sd_source_type d \<and>
     pc_source_ref c = sd_ref_key d"

lemma find_case_named:
  "find_case d cs = (case find (\<lambda>c. pc_correlation_id c = correlation_id d) cs of
     Some c \<Rightarrow> Some c | None \<Rightarrow> find (named_by d) cs)"
  unfolding find_case_def named_by_def ..

lemma refresh_enqueued:
  assumes "refresh_case now u d c so = (c', so', Enqueued)" "distinct (map nl_line_id (sd_positions d))"
    "\<not> truthy (sd_skip_reason d)"
  shows "settled d c' so' \<and> same_source c c' \<and> pc_database c' = Some (sd_database d)"
proof -
  let ?c1 = "replace_positions d (update_case_card d c)" and ?so1 = "changed_event d (replace_positions d (update_case_card d c)) so"
  obtain c2 so2 where c2: "(c2, so2) = (if pc_status c \<in> set TERMINAL_CASE_STATUSES \<or> pc_status ?c1 = ''human_required''
      then reactivate_case now d ?c1 ?so1 else (?c1, ?so1))" by (metis surj_pair)
  from assms(1) have e: "enqueue_role_agent now u c2 so2 = (c', so', True)"
    by (auto simp: refresh_case_def Let_def c2[symmetric] split: prod.splits if_splits)
  have p: "presents d c2" by (rule presents_same[OF _ _ _ _ carded(1)[OF assms(2), of c]])
    (use c2 in \<open>auto simp: reactivate_case_def Let_def split: if_splits\<close>)
  have f: "pc_data_version c2 = sd_data_version d" "pc_content_hash c2 = Some (sd_content_hash d)"
    "pc_database c2 = Some (sd_database d)" "same_source c c2"
    using c2 by (auto simp: reactivate_case_def Let_def replace_positions_def update_case_card_def same_source_def
      split: if_splits)
  from settled_enqueued[OF e p f(1,2) assms(3)] same_source_enqueue[OF e] dispatched_fields(3)[OF enqueue_frame[OF e]] f(3,4)
  show ?thesis by (simp add: same_source_def)
qed

lemma known_enqueued:
  assumes "upsert_known now u d c so = (c', so', Enqueued)" "distinct (map nl_line_id (sd_positions d))"
  shows "settled d c' so' \<and> same_source c c' \<and> (pc_database c' = pc_database c \<or> pc_database c' = Some (sd_database d))"
proof -
  have skip: "\<not> truthy (sd_skip_reason d)"
    using assms(1) by (auto simp: upsert_known_def Let_def split: if_splits prod.splits)
  show ?thesis
  proof (cases "source_unchanged d c")
    case False
    then have "refresh_case now u d c so = (c', so', Enqueued)"
      using assms(1) skip by (auto simp: upsert_known_def Let_def split: if_splits)
    from refresh_enqueued[OF this assms(2) skip] show ?thesis by blast
  next
    case True
    let ?c1 = "fst (update_case_presentations d c)"
    have e: "enqueue_role_agent now u ?c1 so = (c', so', True)"
      using assms(1) skip True by (auto simp: upsert_known_def Let_def split: if_splits prod.splits)
    have f: "pc_data_version ?c1 = sd_data_version d" "pc_content_hash ?c1 = Some (sd_content_hash d)"
      "pc_database ?c1 = pc_database c" "same_source c ?c1"
      using True by (simp_all add: update_case_presentations_def source_unchanged_def same_source_def)
    from settled_enqueued[OF e presented[OF assms(2)] f(1,2) skip] same_source_enqueue[OF e]
      dispatched_fields(3)[OF enqueue_frame[OF e]] f(3,4)
    show ?thesis by (simp add: same_source_def)
  qed
qed

lemma new_enqueued:
  assumes "upsert_new now i u d so = (r, so', Enqueued)" "distinct (map nl_line_id (sd_positions d))"
  shows "\<exists>c. r = Some c \<and> settled d c so' \<and> pc_id c = i \<and> pc_correlation_id c = correlation_id d"
proof -
  let ?c = "replace_positions d (new_case now i d)"
  obtain so1 where so1: "create_case now i d so = (?c, so1)" by (simp add: create_case_def Let_def)
  from assms(1) have skip: "\<not> truthy (sd_skip_reason d)" by (auto simp: upsert_new_def split: if_splits)
  from assms(1) so1 obtain c where e: "enqueue_role_agent now u ?c so1 = (c, so', True)" "r = Some c"
    by (auto simp: upsert_new_def split: if_splits prod.splits)
  have f: "pc_data_version ?c = sd_data_version d" "pc_content_hash ?c = Some (sd_content_hash d)" "pc_id ?c = i"
    "pc_correlation_id ?c = correlation_id d"
    by (simp_all add: replace_positions_def new_case_def)
  from settled_enqueued[OF e(1) carded(2)[OF assms(2)] f(1,2) skip] dispatched_fields(1,2)[OF enqueue_frame[OF e(1)]] f(3,4) e(2)
  show ?thesis by auto
qed

section \<open>The case a document finds\<close>

lemma find_mapped:
  assumes "\<And>x. x \<in> set xs \<Longrightarrow> P (f x) = P x"
  shows "find P (map f xs) = map_option f (find P xs)"
  using assms by (induction xs) auto

lemma found_in: "find P xs = Some x \<Longrightarrow> x \<in> set xs \<and> P x"
  by (metis find_Some_iff nth_mem)

lemma find_case_in: "find_case d cs = Some c \<Longrightarrow> c \<in> set cs"
  by (auto simp: find_case_named dest: found_in split: option.splits)

lemma find_case_put:
  assumes "find_case d cs = Some c" "distinct (map pc_id cs)" "same_source c c'"
    "pc_database c' = pc_database c \<or> pc_database c' = Some (sd_database d)"
  shows "find_case d (put_case c' cs) = Some c'"
proof -
  let ?f = "\<lambda>x. if pc_id x = pc_id c' then c' else x" and ?P = "\<lambda>x. pc_correlation_id x = correlation_id d"
  have c: "c \<in> set cs" by (rule find_case_in[OF assms(1)])
  have only: "x = c" if "x \<in> set cs" "pc_id x = pc_id c'" for x
    using that c assms(2,3) by (auto simp: distinct_map inj_on_def same_source_def)
  have fc: "?f c = c'" using assms(3) by (simp add: same_source_def)
  have p: "?P (?f x) = ?P x" if "x \<in> set cs" for x using only[OF that] assms(3) by (auto simp: same_source_def)
  show ?thesis
  proof (cases "find ?P cs")
    case (Some x)
    with assms(1) have "x = c" by (simp add: find_case_named)
    with Some fc find_mapped[of cs ?P ?f] p show ?thesis by (simp add: find_case_named put_case_def)
  next
    case None
    with assms(1) have n: "find (named_by d) cs = Some c" by (simp add: find_case_named)
    then have "named_by d c" by (auto dest: found_in)
    with assms(3,4) have "named_by d c'" by (auto simp: named_by_def same_source_def)
    with \<open>named_by d c\<close> only have q: "named_by d (?f x) = named_by d x" if "x \<in> set cs" for x using that by auto
    from None n fc find_mapped[of cs ?P ?f] find_mapped[of cs "named_by d" ?f] p q
    show ?thesis by (simp add: find_case_named put_case_def)
  qed
qed

lemma find_case_new: "find_case d cs = None \<Longrightarrow> pc_correlation_id c = correlation_id d \<Longrightarrow> find_case d (cs @ [c]) = Some c"
  by (induction cs) (auto simp: find_case_def split: option.splits if_splits)

section \<open>What an archive and a refresh leave\<close>

lemma archived_result:
  assumes "archive_case now r ty k pl st ver dig c so = (c', so')" "pc_status c \<notin> set TERMINAL_CASE_STATUSES"
  shows "same_source c c'" "pc_database c' = pc_database c" "pc_status c' = ''closed''" "pc_closed_at c' = Some now"
    "pc_closed_reason c' = Some r" "pc_current_task c' = None" "pc_positions c' = pc_positions c"
    "pc_deviation c' = Some (dict_get_or CLOSED_REASON_LABELS r (LABEL_NOT_ACTUAL @ ''.''))"
  using assms by (auto simp: archive_case_def Let_def cancel_current_task_def same_source_def
      split: prod.splits option.splits if_splits)

text \<open>The card of a case carries its document: who asks, where, when, and for what.\<close>

definition carries :: "source_document \<Rightarrow> pcase \<Rightarrow> bool" where
  "carries d c \<longleftrightarrow> pc_number c = sd_number d \<and> pc_source_date c = sd_date d \<and> pc_source_status c = sd_status d \<and>
     pc_department_name c = sd_department_name d \<and> pc_initiator_name c = sd_initiator_name d \<and>
     pc_warehouse_name c = sd_warehouse_name d \<and> pc_required_date c = sd_required_date d \<and>
     pc_deadline_at c = sd_required_date d \<and> pc_positions c = map position_of_line (sd_positions d)"

text \<open>A case is in step with its document: open, at the document's version, with its presentations.\<close>

definition in_step :: "source_document \<Rightarrow> pcase \<Rightarrow> bool" where
  "in_step d c \<longleftrightarrow> source_unchanged d c \<and> presents d c"

lemma carries_dispatched: "c' = dispatched c c' \<Longrightarrow> carries d c \<Longrightarrow> carries d c'"
  by (erule ssubst) (simp add: carries_def dispatched_def)

lemma refreshed_result:
  assumes "refresh_case now u d c so = (c', so', a)" "distinct (map nl_line_id (sd_positions d))"
  shows "carries d c' \<and> in_step d c' \<and> same_source c c' \<and> pc_database c' = Some (sd_database d) \<and>
    (pc_status c \<in> set TERMINAL_CASE_STATUSES \<longrightarrow> pc_status c' = ''new'')"
proof -
  let ?c1 = "replace_positions d (update_case_card d c)" and ?so1 = "changed_event d (replace_positions d (update_case_card d c)) so"
  obtain c2 so2 where c2: "(c2, so2) = (if pc_status c \<in> set TERMINAL_CASE_STATUSES \<or> pc_status ?c1 = ''human_required''
      then reactivate_case now d ?c1 ?so1 else (?c1, ?so1))" by (metis surj_pair)
  from assms(1) obtain b where e: "enqueue_role_agent now u c2 so2 = (c', so', b)"
    by (auto simp: refresh_case_def Let_def c2[symmetric] split: prod.splits if_splits)
  note F = enqueue_frame[OF e]
  have p: "presents d c2" by (rule presents_same[OF _ _ _ _ carded(1)[OF assms(2), of c]])
    (use c2 in \<open>auto simp: reactivate_case_def Let_def split: if_splits\<close>)
  have c: "carries d c2" and f: "pc_data_version c2 = sd_data_version d" "pc_content_hash c2 = Some (sd_content_hash d)"
    "pc_database c2 = Some (sd_database d)" "same_source c c2" "pc_status c2 \<notin> set TERMINAL_CASE_STATUSES"
    "pc_status c \<in> set TERMINAL_CASE_STATUSES \<Longrightarrow> pc_status c2 = ''new''"
    using c2 by (auto simp: reactivate_case_def Let_def replace_positions_def update_case_card_def same_source_def
      carries_def known_statuses split: if_splits)
  from dispatched_fields[OF F] f have "source_unchanged d c'" by (simp add: source_unchanged_def)
  with carries_dispatched[OF F c] presents_dispatched[OF F p] dispatched_fields[OF F] f
  show ?thesis by (simp add: same_source_def in_step_def)
qed

lemma unchanged_result:
  assumes "update_case_presentations d c = (c1, b)" "enqueue_role_agent now u c1 so = (c', so', b')"
    "source_unchanged d c" "distinct (map nl_line_id (sd_positions d))"
  shows "in_step d c' \<and> same_source c c' \<and> pc_database c' = pc_database c"
proof -
  note F = enqueue_frame[OF assms(2)]
  have c1: "c1 = fst (update_case_presentations d c)" using assms(1) by simp
  have "source_unchanged d c1" "same_source c c1" "pc_database c1 = pc_database c"
    using assms(3) by (simp_all add: c1 update_case_presentations_def source_unchanged_def same_source_def)
  with dispatched_fields[OF F] presents_dispatched[OF F] presented[OF assms(4), of c]
  show ?thesis by (simp add: c1 in_step_def source_unchanged_def same_source_def)
qed

text \<open>The whole of \<open>upsert_known\<close>, as a relation between the document, the case before and the case after.\<close>

definition follows :: "int \<Rightarrow> source_document \<Rightarrow> pcase \<Rightarrow> pcase \<Rightarrow> bool" where
  "follows now d c c' \<longleftrightarrow>
     (if pc_status c \<in> set TERMINAL_CASE_STATUSES \<and>
         (\<not> is_recent_source_document now d \<or> truthy (sd_skip_reason d) \<or>
          pc_status c = ''closed'' \<and> pc_closed_reason c = Some ''quality_released'')
      then c' = c
      else if truthy (sd_skip_reason d)
      then pc_status c' = ''closed'' \<and> pc_closed_at c' = Some now \<and> pc_current_task c' = None \<and>
        pc_closed_reason c' = Some (closed_reason_from_skip (sd_skip_reason d))
      else in_step d c' \<and> (source_unchanged d c \<or> carries d c') \<and>
        (pc_status c \<in> set TERMINAL_CASE_STATUSES \<longrightarrow> pc_status c' = ''new''))"

lemma known_follows:
  assumes "upsert_known now u d c so = (c', so', a)" "distinct (map nl_line_id (sd_positions d))"
  shows "follows now d c c' \<and> same_source c c' \<and> (pc_database c' = pc_database c \<or> pc_database c' = Some (sd_database d))"
proof -
  have cl: "pc_status c = ''closed'' \<Longrightarrow> pc_status c \<in> set TERMINAL_CASE_STATUSES" by (simp add: TERMINAL_CASE_STATUSES_def)
  consider (kept) "pc_status c \<in> set TERMINAL_CASE_STATUSES" "\<not> is_recent_source_document now d \<or> truthy (sd_skip_reason d) \<or>
      pc_status c = ''closed'' \<and> pc_closed_reason c = Some ''quality_released''" "c' = c"
    | (archived) "pc_status c \<notin> set TERMINAL_CASE_STATUSES" "truthy (sd_skip_reason d)" "archive_for_skip now d c so = (c', so')"
    | (same) c1 b b' where "\<not> truthy (sd_skip_reason d)" "source_unchanged d c" "update_case_presentations d c = (c1, b)"
        "enqueue_role_agent now u c1 so = (c', so', b')"
    | (changed) "\<not> truthy (sd_skip_reason d)" "\<not> source_unchanged d c" "refresh_case now u d c so = (c', so', a)"
        "\<not> (pc_status c \<in> set TERMINAL_CASE_STATUSES \<and> (\<not> is_recent_source_document now d \<or>
          pc_status c = ''closed'' \<and> pc_closed_reason c = Some ''quality_released''))"
    using assms(1) cl unfolding upsert_known_def Let_def by (auto split: if_splits prod.splits)
  then show ?thesis
  proof cases
    case kept
    then show ?thesis by (auto simp: follows_def same_source_def)
  next
    case archived
    from archived_result[OF archived(3)[unfolded archive_for_skip_def] archived(1)] archived(1,2)
    show ?thesis by (simp add: follows_def)
  next
    case same
    then have "pc_status c \<notin> set TERMINAL_CASE_STATUSES" by (simp add: source_unchanged_def)
    with unchanged_result[OF same(3,4,2) assms(2)] same(1,2) show ?thesis by (simp add: follows_def)
  next
    case changed
    with refreshed_result[OF changed(3) assms(2)] show ?thesis by (auto simp: follows_def)
  qed
qed

lemma in_put: "x \<in> set cs \<Longrightarrow> pc_id x \<noteq> pc_id c \<Longrightarrow> x \<in> set (put_case c cs)"
  by (force simp: put_case_def)

section \<open>Cases whose document is no longer active\<close>

lemma labelled [simp]:
  "''inactive_supply_action_or_cancelled'' \<in> fst ` set CLOSED_REASON_LABELS"
  "''terminal_status'' \<in> fst ` set CLOSED_REASON_LABELS" "''deletion_mark'' \<in> fst ` set CLOSED_REASON_LABELS"
  by (simp_all add: CLOSED_REASON_LABELS_def)

lemma skip_labelled [simp]: "closed_reason_from_skip skip \<in> fst ` set CLOSED_REASON_LABELS"
  by (simp add: closed_reason_from_skip_def)

definition labelled_reason :: "inactive_reason \<Rightarrow> bool" where
  "labelled_reason r \<longleftrightarrow> ir_closed_reason r \<in> set (dict_keys CLOSED_REASON_LABELS)"

lemma labelled_reasons [simp]: "labelled_reason unknown_reason" "labelled_reason (plain_reason ''deletion_mark'' s)"
  "labelled_reason (document_reason d)"
  by (simp_all add: labelled_reason_def unknown_reason_def plain_reason_def document_reason_def Let_def)

lemma chunk_labelled: "chunk_reasons fetch to_doc ch = Inr kvs \<Longrightarrow> r \<in> snd ` set kvs \<Longrightarrow> labelled_reason r"
  by (auto simp: chunk_reasons_def Let_def split: option.splits sum.splits)

lemma all_labelled: "all_reasons fetch to_doc chs = Inr kvs \<Longrightarrow> r \<in> snd ` set kvs \<Longrightarrow> labelled_reason r"
proof (induction chs arbitrary: kvs)
  case (Cons ch chs)
  from Cons.prems(1) obtain d d' where "chunk_reasons fetch to_doc ch = Inr d" "all_reasons fetch to_doc chs = Inr d'"
    "kvs = d @ d'"
    by (auto split: sum.splits)
  then show ?case using Cons.IH Cons.prems(2) chunk_labelled by (metis UnE image_Un set_append)
qed simp

lemma update_values: "snd ` set (AList.update k v d) \<subseteq> insert v (snd ` set d)"
  by (induction d) auto

lemma dict_fold_values: "snd ` set (foldl (\<lambda>d (k, v). dict_set k v d) d kvs) \<subseteq> snd ` set kvs \<union> snd ` set d"
proof (induction kvs arbitrary: d)
  case (Cons kv kvs)
  from Cons[of "dict_set (fst kv) (snd kv) d"] update_values[of "fst kv" "snd kv" d] show ?case
    by (auto simp: dict_set_def split_def)
qed simp

lemma dict_of_values: "snd ` set (dict_of kvs) \<subseteq> snd ` set kvs"
  using dict_fold_values[of "[]" kvs] by (simp add: dict_of_def)

lemma probed_labelled:
  assumes "probe_inactive_reasons fetch to_doc refs = Inr reasons"
  shows "labelled_reason (dict_get_or reasons k unknown_reason)"
proof (cases "dict_get reasons k")
  case (Some r)
  obtain chs where "probe_inactive_reasons fetch to_doc refs = map_sum id dict_of (all_reasons fetch to_doc chs)"
    unfolding probe_inactive_reasons_def by blast
  with assms obtain kvs where k: "reasons = dict_of kvs" "all_reasons fetch to_doc chs = Inr kvs"
    by (cases "all_reasons fetch to_doc chs") auto
  have "(k, r) \<in> set reasons" using Some by (simp add: dict_get_def map_of_SomeD)
  then have "r \<in> snd ` set kvs" using dict_of_values[of kvs] k(1) by force
  with all_labelled[OF k(2)] Some show ?thesis by (simp add: dict_get_or_def)
qed (simp add: dict_get_or_def)

text \<open>A case closed by the poll: for a reason with a label, which it shows, and with no task.\<close>

definition closed_by_poll :: "int \<Rightarrow> pcase \<Rightarrow> pcase \<Rightarrow> bool" where
  "closed_by_poll now c c' \<longleftrightarrow> same_source c c' \<and> pc_status c' = ''closed'' \<and> pc_closed_at c' = Some now \<and>
     pc_current_task c' = None \<and> pc_positions c' = pc_positions c \<and>
     (\<exists>r. dict_get CLOSED_REASON_LABELS r \<noteq> None \<and> pc_closed_reason c' = Some r \<and>
       pc_deviation c' = dict_get CLOSED_REASON_LABELS r)"

lemma inactive_closed:
  assumes "close_inactive now reasons c so = (c', so')" "is_inactive database ty refs c"
    "labelled_reason (dict_get_or reasons (casefold (pc_source_ref c)) unknown_reason)"
  shows "closed_by_poll now c c'"
proof -
  let ?r = "dict_get_or reasons (casefold (pc_source_ref c)) unknown_reason" and ?c = "c\<lparr>pc_synced_at := Some now\<rparr>"
  have nt: "pc_status ?c \<notin> set TERMINAL_CASE_STATUSES"
    using assms(2) by (simp add: is_inactive_def is_monitored_def terminal_not_monitored)
  from assms(3) obtain l where l: "dict_get CLOSED_REASON_LABELS (ir_closed_reason ?r) = Some l"
    by (metis labelled_reason_def dict_get_def map_of_eq_None_iff list.set_map not_None_eq)
  note A = archived_result[OF assms(1)[unfolded close_inactive_def Let_def] nt]
  from A(1,3-8) l show ?thesis by (auto simp: closed_by_poll_def dict_get_or_def same_source_def)
qed

lemma close_all_each:
  "close_all now P reasons cs so = (cs', so') \<Longrightarrow>
    list_all2 (\<lambda>c c'. if P c then \<exists>s s'. close_inactive now reasons c s = (c', s') else c' = c) cs cs'"
proof (induction cs arbitrary: so cs' so')
  case (Cons c cs)
  obtain c1 so1 where 1: "(if P c then close_inactive now reasons c so else (c, so)) = (c1, so1)" by fastforce
  obtain cs1 so2 where 2: "close_all now P reasons cs so1 = (cs1, so2)" by fastforce
  with 1 Cons.prems have "cs' = c1 # cs1" by simp
  moreover have "if P c then \<exists>s s'. close_inactive now reasons c s = (c1, s') else c1 = c" using 1 by (auto split: if_splits)
  ultimately show ?case using Cons.IH[OF 2] by simp
qed simp

lemma closed_not_monitored: "closed_by_poll now c c' \<Longrightarrow> \<not> is_inactive database ty refs c'"
  using terminal_not_monitored[of "''closed''"]
  by (auto simp: closed_by_poll_def is_inactive_def is_monitored_def TERMINAL_CASE_STATUSES_def)

section \<open>Merging the rows of a window\<close>

lemma update_keys: "fst ` set (AList.update k v d) = insert k (fst ` set d)"
  by (induction d) auto

lemma update_pairs: "set (AList.update k v d) \<subseteq> insert (k, v) (set d)"
  by (induction d) auto

lemma dict_fold_pairs:
  "fst ` set (foldl (\<lambda>d (k, v). dict_set k v d) d kvs) = fst ` set kvs \<union> fst ` set d \<and>
   set (foldl (\<lambda>d (k, v). dict_set k v d) d kvs) \<subseteq> set kvs \<union> set d"
proof (induction kvs arbitrary: d)
  case (Cons kv kvs)
  from Cons[of "dict_set (fst kv) (snd kv) d"] update_keys[of "fst kv" "snd kv" d] update_pairs[of "fst kv" "snd kv" d]
  show ?case by (auto simp: dict_set_def split_def)
qed simp

lemma dict_of_pairs: "fst ` set (dict_of kvs) = fst ` set kvs" "set (dict_of kvs) \<subseteq> set kvs"
  using dict_fold_pairs[of "[]" kvs] by (simp_all add: dict_of_def)

lemma merged_in: "row \<in> set (merge_rows rows) \<Longrightarrow> row \<in> set rows"
  using dict_of_pairs(2) by (fastforce simp: merge_rows_def)

lemma merged_refs: "row \<in> set rows \<Longrightarrow> row_ref row \<noteq> [] \<Longrightarrow> row_ref row \<in> row_ref ` set (merge_rows rows)"
proof -
  let ?kvs = "map (\<lambda>r. (row_ref r, r)) (filter (\<lambda>r. row_ref r \<noteq> []) rows)"
  assume "row \<in> set rows" "row_ref row \<noteq> []"
  then have "row_ref row \<in> fst ` set (dict_of ?kvs)" by (force simp: dict_of_pairs(1))
  then obtain r where "(row_ref row, r) \<in> set (dict_of ?kvs)" by force
  moreover from this dict_of_pairs(2)[of ?kvs] have "row_ref r = row_ref row" by auto
  moreover have "r \<in> set (merge_rows rows)"
    unfolding merge_rows_def using \<open>(row_ref row, r) \<in> set (dict_of ?kvs)\<close> by (force intro: image_eqI[of r snd])
  ultimately show ?thesis by (metis image_eqI)
qed

lemma instant_date_mono: "s \<le> t \<Longrightarrow> instant_date s \<le> instant_date t"
  unfolding instant_date_def by (rule add_right_mono, rule zdiv_mono1) (simp_all add: US_PER_DAY_def)

lemma next_day: "t - s \<le> US_PER_DAY \<Longrightarrow> instant_date t \<le> instant_date s + 1"
proof -
  assume "t - s \<le> US_PER_DAY"
  then have "t div US_PER_DAY \<le> (s + US_PER_DAY) div US_PER_DAY"
    by (intro zdiv_mono1) (simp_all add: US_PER_DAY_def)
  moreover have "(s + US_PER_DAY) div US_PER_DAY = s div US_PER_DAY + 1" by (simp add: US_PER_DAY_def)
  ultimately show ?thesis by (simp add: instant_date_def)
qed

declare search_documents_window.simps [simp del]

lemmas window_step = search_documents_window.simps

text \<open>Rows come from some answer for a part of the window.\<close>

lemma window_sound:
  "row \<in> set (search_documents_window search start finish) \<Longrightarrow>
    \<exists>s f. instant_date start \<le> s \<and> s \<le> f \<and> f \<le> instant_date finish \<and> row \<in> set (fst (search s f))"
proof (induction search start finish rule: search_documents_window.induct)
  case (1 search start finish)
  obtain rows b where r: "search (instant_date start) (instant_date finish) = (rows, b)" by fastforce
  have lt: "start < finish" using "1.prems" by (auto simp: window_step split: if_splits)
  let ?mid = "start + half_span (finish - start)"
  show ?case
  proof (cases "\<not> b \<or> finish - start \<le> US_PER_DAY")
    case True
    with "1.prems" lt r have "row \<in> set rows" by (simp add: window_step[of search start finish])
    with r lt instant_date_mono[of start finish] show ?thesis by (intro exI[of _ "instant_date start"] exI[of _ "instant_date finish"]) simp
  next
    case False
    then have "1 < finish - start" by (simp add: US_PER_DAY_def)
    from half_span_bounds[OF this] have m: "instant_date start \<le> instant_date ?mid" "instant_date ?mid \<le> instant_date finish"
      by (auto intro: instant_date_mono)
    from False "1.prems" lt r have "row \<in> set (merge_rows (search_documents_window search start ?mid @
        search_documents_window search ?mid finish @ rows))" by (simp add: window_step[of search start finish] Let_def)
    from merged_in[OF this] consider "row \<in> set (search_documents_window search start ?mid)" | "row \<in> set (search_documents_window search ?mid finish)"
      | "row \<in> set rows" by auto
    then show ?thesis
    proof cases
      case 1
      with "1.IH"(1)[OF _ r[symmetric] False refl] lt m show ?thesis by (meson not_le order_trans)
    next
      case 2
      with "1.IH"(2)[OF _ r[symmetric] False refl] lt m show ?thesis by (meson not_le order_trans)
    next
      case 3
      with r lt instant_date_mono[of start finish] show ?thesis by (intro exI[of _ "instant_date start"] exI[of _ "instant_date finish"]) simp
    qed
  qed
qed

lemma window_complete:
  "start < finish \<Longrightarrow> instant_date start \<le> day \<Longrightarrow> day \<le> instant_date finish \<Longrightarrow> ref \<noteq> [] \<Longrightarrow>
   (\<forall>s f rows b. search s f = (rows, b) \<longrightarrow> s \<le> day \<longrightarrow> day \<le> f \<longrightarrow> \<not> b \<or> f \<le> s + 1 \<longrightarrow> ref \<in> row_ref ` set rows) \<Longrightarrow>
   ref \<in> row_ref ` set (search_documents_window search start finish)"
proof (induction search start finish rule: search_documents_window.induct)
  case (1 search start finish)
  note whole = "1.prems"(5)
  obtain rows b where r: "search (instant_date start) (instant_date finish) = (rows, b)" by fastforce
  let ?mid = "start + half_span (finish - start)"
  show ?case
  proof (cases "\<not> b \<or> finish - start \<le> US_PER_DAY")
    case True
    then have "\<not> b \<or> instant_date finish \<le> instant_date start + 1" using next_day by blast
    from whole r "1.prems"(2,3) this have "ref \<in> row_ref ` set rows" by blast
    with True r "1.prems"(1) show ?thesis by (simp add: window_step[of search start finish])
  next
    case False
    then have "1 < finish - start" by (simp add: US_PER_DAY_def)
    from half_span_bounds[OF this] have m: "start < ?mid" "?mid < finish" by auto
    have w: "search_documents_window search start finish = merge_rows (search_documents_window search start ?mid @
        search_documents_window search ?mid finish @ rows)"
      using False r "1.prems"(1) by (simp add: window_step[of search start finish] Let_def)
    have nl: "\<not> finish \<le> start" using "1.prems"(1) by simp
    have "ref \<in> row_ref ` set (search_documents_window search start ?mid) \<union>
        row_ref ` set (search_documents_window search ?mid finish)"
    proof (cases "day \<le> instant_date ?mid")
      case True
      from "1.IH"(1)[OF nl r[symmetric] False refl m(1) "1.prems"(2) True "1.prems"(4) whole] show ?thesis by blast
    next
      case False
      then have "instant_date ?mid \<le> day" by simp
      from "1.IH"(2)[OF nl r[symmetric] \<open>\<not> (\<not> b \<or> finish - start \<le> US_PER_DAY)\<close> refl m(2) this "1.prems"(3,4) whole]
      show ?thesis by blast
    qed
    then show ?thesis unfolding w using merged_refs "1.prems"(4) by fastforce
  qed
qed

section \<open>A document that opens a case\<close>

definition demo_document :: source_document where
  "demo_document =
     \<lparr>sd_source_type = ReorderPoint, sd_entity_set = ''E'', sd_database = ''db'', sd_ref_key = ''ref-1'',
      sd_data_version = Some ''v1'', sd_number = Some ''1'', sd_date = Some 0, sd_posted = Some True,
      sd_deletion_mark = False, sd_cancelled = False, sd_status = None, sd_initiator_ref = None,
      sd_initiator_name = None, sd_department_ref = None, sd_department_name = None, sd_warehouse_ref = None,
      sd_warehouse_name = None, sd_warehouse_from_ref = None, sd_warehouse_to_ref = None, sd_organization_ref = None,
      sd_priority_ref = None, sd_basis_ref = None, sd_basis_type = None, sd_basis_number = None, sd_basis_date = None,
      sd_basis_status = None, sd_production_order_ref = None, sd_production_order_type = None,
      sd_required_date = None, sd_positions = [], sd_content_hash = ''hash-1'', sd_skip_reason = None\<rparr>"

definition demo_store :: store where
  "demo_store = \<lparr>so_tasks = [], so_events = [], so_dispatches = [], so_enqueue = True, so_planning = False\<rparr>"

lemma start_enqueued:
  assumes "so_enqueue so" "pc_status c \<notin> set TERMINAL_CASE_STATUSES" "pc_current_task c = None"
    "jget (pc_metadata c) ''role_agent_completion_key'' = JNull"
  shows "\<exists>c' so'. enqueue_role_agent now u c so = (c', so', True) \<and> pc_current_task c' = Some u \<and>
    dict_get (so_tasks so') u = Some (role_task now (due_agent c) (role_completion_key c (due_agent c))
      (take 255 (''role:'' @ pc_id c @ '':'' @ role_completion_key c (due_agent c))) c)"
proof -
  let ?k = "role_completion_key c (due_agent c)"
  obtain c' so' where s: "start_role_task now u (due_agent c) ?k c so = (c', so')" by fastforce
  have "enqueue_role_agent now u c so = (c', so', True)"
    using assms s by (simp add: enqueue_role_agent_def Let_def release_current_task_def)
  moreover have "pc_current_task c' = Some u" "dict_get (so_tasks so') u =
      Some (role_task now (due_agent c) ?k (take 255 (''role:'' @ pc_id c @ '':'' @ ?k)) c)"
    using s by (auto simp: start_role_task_def Let_def opened_workspace split: if_splits)
  ultimately show ?thesis by blast
qed

lemma document_opens:
  assumes "is_recent_source_document now d" "\<not> truthy (sd_skip_reason d)" "so_enqueue so"
  shows "\<exists>c so' t. upsert_new now i u d so = (Some c, so', Enqueued) \<and> pc_current_task c = Some u \<and>
    dict_get (so_tasks so') u = Some t"
proof -
  define c0 where "c0 = fst (create_case now i d so)"
  define so0 where "so0 = snd (create_case now i d so)"
  have c0: "c0 = replace_positions d (new_case now i d)" by (simp add: c0_def create_case_def Let_def)
  have "so_enqueue so0" using assms(3) by (simp add: so0_def create_case_def Let_def)
  moreover have "pc_status c0 \<notin> set TERMINAL_CASE_STATUSES" "pc_current_task c0 = None"
    by (simp_all add: c0 replace_positions_def new_case_def known_statuses)
  moreover have "jget (pc_metadata c0) ''role_agent_completion_key'' = JNull"
    unfolding c0 replace_positions_def new_case_def basis_metadata_def by simp
  ultimately have c0: "so_enqueue so0" "pc_status c0 \<notin> set TERMINAL_CASE_STATUSES" "pc_current_task c0 = None"
    "jget (pc_metadata c0) ''role_agent_completion_key'' = JNull" by blast+
  from start_enqueued[OF this, of now u] obtain c so' t where
    e: "enqueue_role_agent now u c0 so0 = (c, so', True)" "pc_current_task c = Some u" "dict_get (so_tasks so') u = Some t"
    by blast
  have "create_case now i d so = (c0, so0)" by (simp add: c0_def so0_def)
  with assms e(1) have "upsert_new now i u d so = (Some c, so', Enqueued)" by (simp add: upsert_new_def)
  with e(2,3) show ?thesis by blast
qed

lemma demo_recent: "is_recent_source_document 0 demo_document"
proof -
  have "source_date_cutoff 0 \<le> 0" by code_simp
  then show ?thesis by (simp add: is_recent_source_document_def demo_document_def)
qed

text \<open>When 1C answers nothing, the cases are closed for the reason that is given by default.\<close>

lemma offline_reasons: "\<exists>reasons. probe_inactive_reasons (\<lambda>_. None) to_doc refs = Inr reasons"
proof -
  have "\<exists>kvs. all_reasons (\<lambda>_. None) to_doc chs = Inr kvs" for chs
    by (induction chs) (auto simp: chunk_reasons_def)
  then show ?thesis unfolding probe_inactive_reasons_def by (metis map_sum.simps(2))
qed

section \<open>Properties\<close>

text \<open>
  C9: A poll that sees the same document again does nothing.  When the poll of a document has
  dispatched its case (the answer is \<open>Enqueued\<close>), every further poll of the unchanged document before
  the task starts is answered \<open>Skipped\<close>: no case is added, no task, no event and no dispatch, and of
  the cases only the stamp of the last synchronisation of the document's own case moves.
\<close>

lemma repeated_poll_idle:
  assumes "upsert_case_from_document now ids d cs so = (cs', so', Enqueued)" "distinct (map pc_id cs)"
    "distinct (map nl_line_id (sd_positions d))"
  shows "\<exists>c. find_case d cs' = Some c \<and>
    upsert_case_from_document later ids' d cs' so' = (put_case (c\<lparr>pc_synced_at := Some later\<rparr>) cs', so', Skipped)"
proof -
  have "\<exists>c. find_case d cs' = Some c \<and> settled d c so'"
  proof (cases "find_case d cs")
    case None
    with assms(1) obtain r where n: "upsert_new now (fst ids) (snd ids) d so = (r, so', Enqueued)"
      "cs' = (case r of None \<Rightarrow> cs | Some c \<Rightarrow> cs @ [c])"
      by (auto simp: upsert_case_from_document_def split: prod.splits option.splits)
    from new_enqueued[OF n(1) assms(3)] n(2) find_case_new[OF None] show ?thesis by auto
  next
    case (Some c)
    with assms(1) obtain c1 where k: "upsert_known now (snd ids) d (c\<lparr>pc_synced_at := Some now\<rparr>) so = (c1, so', Enqueued)"
      "cs' = put_case c1 cs"
      by (auto simp: upsert_case_from_document_def split: prod.splits)
    from known_enqueued[OF k(1) assms(3)] find_case_put[OF Some assms(2), of c1] k(2)
    show ?thesis by (auto simp: same_source_def)
  qed
  then show ?thesis using settled_idle by (fastforce simp: upsert_case_from_document_def)
qed

lemma repeated_poll_idle_witness:
  "\<exists>c cs' so'. upsert_case_from_document 0 (''case-1'', ''task-1'') demo_document [] demo_store = (cs', so', Enqueued) \<and>
    find_case demo_document cs' = Some c \<and>
    upsert_case_from_document 60 (''case-2'', ''task-2'') demo_document cs' so' =
      (put_case (c\<lparr>pc_synced_at := Some 60\<rparr>) cs', so', Skipped)"
proof -
  have "so_enqueue demo_store" "\<not> truthy (sd_skip_reason demo_document)" by (simp_all add: demo_store_def demo_document_def)
  from document_opens[OF demo_recent this(2,1), of "''case-1''" "''task-1''"] obtain c so'
    where "upsert_new 0 ''case-1'' ''task-1'' demo_document demo_store = (Some c, so', Enqueued)" by blast
  then have u: "upsert_case_from_document 0 (''case-1'', ''task-1'') demo_document [] demo_store = ([c], so', Enqueued)"
    by (simp add: upsert_case_from_document_def find_case_def)
  from repeated_poll_idle[OF u, of 60 "(''case-2'', ''task-2'')"] u show ?thesis by (auto simp: demo_document_def)
qed

text \<open>
  C5: The case of a document follows the document.  Whatever the poll of a document finds, the case of
  the document afterwards is: untouched, when it was terminal and the document is old, skipped or the
  case was released by quality control; closed with the reason the document gives and with no task, when
  an open case's document is skipped; otherwise open, at the document's version and content, showing its
  presentations, with the card and the positions of the document unless its content had not changed, and
  a terminal case is reopened as new.  The cases of other documents are not touched.
\<close>

lemma case_follows_document:
  assumes "find_case d cs = Some c" "upsert_case_from_document now ids d cs so = (cs', so', action)"
    "distinct (map pc_id cs)" "distinct (map nl_line_id (sd_positions d))"
  shows "\<exists>c'. find_case d cs' = Some c' \<and> follows now d (c\<lparr>pc_synced_at := Some now\<rparr>) c' \<and> same_source c c' \<and>
    (\<forall>x \<in> set cs. x \<noteq> c \<longrightarrow> x \<in> set cs')"
proof -
  from assms(1,2) obtain c1 where k: "upsert_known now (snd ids) d (c\<lparr>pc_synced_at := Some now\<rparr>) so = (c1, so', action)"
    "cs' = put_case c1 cs"
    by (auto simp: upsert_case_from_document_def split: prod.splits)
  note F = known_follows[OF k(1) assms(4)]
  from F have s: "same_source c c1" by (simp add: same_source_def)
  have "\<forall>x \<in> set cs. x \<noteq> c \<longrightarrow> pc_id x \<noteq> pc_id c1"
    using assms(3) find_case_in[OF assms(1)] s by (auto simp: distinct_map inj_on_def same_source_def)
  with F s find_case_put[OF assms(1,3) s] k(2) show ?thesis by (auto simp: in_put)
qed

lemma case_follows_document_witness:
  "\<exists>c c' cs' so so' action. find_case demo_document [c] = Some c \<and> pc_status c = ''new'' \<and>
    upsert_case_from_document 60 (''case-2'', ''task-2'') demo_document [c] so = (cs', so', action) \<and>
    find_case demo_document cs' = Some c' \<and> follows 60 demo_document (c\<lparr>pc_synced_at := Some 60\<rparr>) c'"
proof -
  let ?c = "new_case 0 ''case-1'' demo_document"
  have f: "find_case demo_document [?c] = Some ?c" by (simp add: find_case_def new_case_def)
  obtain cs' so' action where u: "upsert_case_from_document 60 (''case-2'', ''task-2'') demo_document [?c] demo_store = (cs', so', action)"
    by (metis prod_cases3)
  have "distinct (map pc_id [?c])" "distinct (map nl_line_id (sd_positions demo_document))" "pc_status ?c = ''new''"
    by (simp_all add: demo_document_def new_case_def)
  with case_follows_document[OF f u] f u show ?thesis by blast
qed

text \<open>
  C10: The end of a poll closes exactly the cases whose documents are no longer active.  A monitored
  case of the source whose reference is not among the active ones is closed, at the time of the poll and
  with its task cancelled, for a reason that has a label, which it shows as its deviation; every other
  case stays as it is.  Doing it again, whatever 1C then answers, closes nothing.
\<close>

lemma close_cases_exact:
  assumes "close_cases_outside_active_refs fetch to_doc now database ty refs cs so = Inr (cs', so')"
  shows "list_all2 (\<lambda>c c'. if is_inactive database ty refs c then closed_by_poll now c c' else c' = c) cs cs' \<and>
    close_cases_outside_active_refs fetch' to_doc' later database ty refs cs' so' = Inr (cs', so')"
proof (cases "filter (is_inactive database ty refs) cs = []")
  case True
  with assms have "cs' = cs" "so' = so" by (simp_all add: close_cases_outside_active_refs_def)
  with True show ?thesis by (auto simp: close_cases_outside_active_refs_def list_all2_same filter_empty_conv)
next
  case False
  let ?P = "is_inactive database ty refs"
  from False assms obtain reasons where
    r: "probe_inactive_reasons fetch to_doc (map pc_source_ref (filter ?P cs)) = Inr reasons"
      "close_all now ?P reasons cs so = (cs', so')"
    unfolding close_cases_outside_active_refs_def Let_def
    by (cases "probe_inactive_reasons fetch to_doc (map pc_source_ref (filter ?P cs))") auto
  have e: "list_all2 (\<lambda>c c'. if ?P c then closed_by_poll now c c' else c' = c) cs cs'"
    by (rule list_all2_mono[OF close_all_each[OF r(2)]]) (auto split: if_splits intro: inactive_closed probed_labelled[OF r(1)])
  have "\<forall>c' \<in> set cs'. \<not> ?P c'"
    using e by (induction rule: list_all2_induct) (auto simp: closed_not_monitored split: if_splits)
  with e show ?thesis by (simp add: close_cases_outside_active_refs_def filter_empty_conv)
qed

lemma close_cases_exact_witness:
  "\<exists>c cs' so'. close_cases_outside_active_refs (\<lambda>_. None) (\<lambda>_. Inr demo_document) 60 ''db'' ReorderPoint [] [c] demo_store =
      Inr ([cs'], so') \<and> closed_by_poll 60 c cs' \<and>
    close_cases_outside_active_refs (\<lambda>_. None) (\<lambda>_. Inr demo_document) 90 ''db'' ReorderPoint [] [cs'] so' = Inr ([cs'], so')"
proof -
  let ?c = "new_case 0 ''case-1'' demo_document"
    and ?close = "close_cases_outside_active_refs (\<lambda>_. None) (\<lambda>_. Inr demo_document)"
  have i: "is_inactive ''db'' ReorderPoint [] ?c"
    by (simp add: is_inactive_def is_monitored_def new_case_def demo_document_def SOURCE_MONITORED_CASE_STATUSES_def
        ACTIVE_CASE_STATUSES_def)
  obtain reasons where "probe_inactive_reasons (\<lambda>_. None) (\<lambda>_. Inr demo_document) (map pc_source_ref [?c]) = Inr reasons"
    using offline_reasons by blast
  then obtain cs' so' where c: "?close 60 ''db'' ReorderPoint [] [?c] demo_store = Inr (cs', so')"
    using i by (cases "close_all 60 (is_inactive ''db'' ReorderPoint []) reasons [?c] demo_store")
      (simp add: close_cases_outside_active_refs_def)
  note E = close_cases_exact[OF c, of "\<lambda>_. None" "\<lambda>_. Inr demo_document" 90]
  from E i obtain c' where "cs' = [c']" "closed_by_poll 60 ?c c'" by (auto simp: list_all2_Cons1)
  with E c show ?thesis by blast
qed

text \<open>
  C39: Halving a truncated window loses no document.  The search of a window always returns (it halves
  only windows of more than a day).  If 1C lists a document's reference in every complete answer over
  the document's date, and in every answer over at most two dates, then the reference is among the rows
  of the whole window, however many of the wider answers were truncated; and every row returned is a row
  of some answer over dates of the window.
\<close>

lemma search_window_complete:
  assumes "start < finish" "instant_date start \<le> day" "day \<le> instant_date finish" "ref \<noteq> []"
    "\<And>s f rows truncated. search s f = (rows, truncated) \<Longrightarrow> s \<le> day \<Longrightarrow> day \<le> f \<Longrightarrow> \<not> truncated \<or> f \<le> s + 1 \<Longrightarrow>
      ref \<in> row_ref ` set rows"
  shows "ref \<in> row_ref ` set (search_documents_window search start finish) \<and>
    (\<forall>row \<in> set (search_documents_window search start finish).
      \<exists>s f. instant_date start \<le> s \<and> s \<le> f \<and> f \<le> instant_date finish \<and> row \<in> set (fst (search s f)))"
  using window_complete[OF assms(1-4)] assms(5) window_sound by blast

lemma search_window_complete_witness:
  "''ref-3'' \<in> row_ref ` set (search_documents_window
      (\<lambda>s f. if f \<le> s + 1 then ([[(''ref'', JStr ''ref-3'')]], True) else ([], True)) 0 (10 * US_PER_DAY))"
proof (rule search_window_complete[of 0 _ "EPOCH_ORDINAL + 3", THEN conjunct1])
  have "row_ref [(''ref'', JStr ''ref-3'')] = ''ref-3''"
    by (simp add: row_ref_def jget_def dict_get_or_def dict_get_cons jor_def jstring_def)
  then show "(if f \<le> s + 1 then ([[(''ref'', JStr ''ref-3'')]], True) else ([], True)) = (rows, truncated) \<Longrightarrow>
      s \<le> EPOCH_ORDINAL + 3 \<Longrightarrow> EPOCH_ORDINAL + 3 \<le> f \<Longrightarrow> \<not> truncated \<or> f \<le> s + 1 \<Longrightarrow>
      ''ref-3'' \<in> row_ref ` set rows" for s f rows truncated
    by (auto split: if_splits)
qed (auto simp: instant_date_def US_PER_DAY_def)

end
