(* ===== verification/Role_Results.thy ===== *)
theory Role_Results
  imports Role_Dispatch
begin

text \<open>
  What the result of a role agent does to its case and its task, and the confirmations of people that
  resume a waiting task (\<open>app/services/procurement_orchestrator_service.py\<close>).  The agent itself is the
  argument \<open>run_agent\<close>; the hash of a result in the key of its event is the argument \<open>digest\<close>.  The
  summary of a warehouse conclusion, which only names the action, is the argument \<open>summary_of\<close>.  A list
  of positions in an output is a list or missing.
\<close>

section \<open>The output of an agent\<close>

datatype role_error = Unknown_Role_Status | Bad_Net_Requirement | Output_Not_An_Object | Agent_Not_Registered

definition ROLE_ERROR_TEXT :: string where
  "ROLE_ERROR_TEXT =
    [CHR 0xD0, CHR 0xA0, CHR 0xD0, CHR 0xBE, CHR 0xD0, CHR 0xBB, CHR 0xD0, CHR 0xB5, CHR 0xD0, CHR
     0xB2, CHR 0xD0, CHR 0xBE, CHR 0xD0, CHR 0xB9, CHR 0x20, CHR 0xD0, CHR 0xB0, CHR 0xD0, CHR 0xB3,
     CHR 0xD0, CHR 0xB5, CHR 0xD0, CHR 0xBD, CHR 0xD1, CHR 0x82, CHR 0x20, CHR 0xD0, CHR 0xB7, CHR
     0xD0, CHR 0xB0, CHR 0xD0, CHR 0xB2, CHR 0xD0, CHR 0xB5, CHR 0xD1, CHR 0x80, CHR 0xD1, CHR 0x88,
     CHR 0xD0, CHR 0xB8, CHR 0xD0, CHR 0xBB, CHR 0xD1, CHR 0x81, CHR 0xD1, CHR 0x8F, CHR 0x20, CHR
     0xD1, CHR 0x81, CHR 0x20, CHR 0xD0, CHR 0xBE, CHR 0xD1, CHR 0x88, CHR 0xD0, CHR 0xB8, CHR 0xD0,
     CHR 0xB1, CHR 0xD0, CHR 0xBA, CHR 0xD0, CHR 0xBE, CHR 0xD0, CHR 0xB9, CHR 0x2E]"

definition SUMMARY_ENGINEER_CONFIRMED :: string where
  "SUMMARY_ENGINEER_CONFIRMED =
    [CHR 0xD0, CHR 0x97, CHR 0xD0, CHR 0xB0, CHR 0xD0, CHR 0xBA, CHR 0xD1, CHR 0x83, CHR 0xD0, CHR
     0xBF, CHR 0xD0, CHR 0xBA, CHR 0xD0, CHR 0xB0, CHR 0x20, CHR 0xD1, CHR 0x80, CHR 0xD0, CHR 0xB0,
     CHR 0xD1, CHR 0x81, CHR 0xD1, CHR 0x81, CHR 0xD1, CHR 0x87, CHR 0xD0, CHR 0xB8, CHR 0xD1, CHR
     0x82, CHR 0xD0, CHR 0xB0, CHR 0xD0, CHR 0xBD, CHR 0xD0, CHR 0xBD, CHR 0xD0, CHR 0xBE, CHR 0xD0,
     CHR 0xB3, CHR 0xD0, CHR 0xBE, CHR 0x20, CHR 0xD0, CHR 0xB4, CHR 0xD0, CHR 0xB5, CHR 0xD1, CHR
     0x84, CHR 0xD0, CHR 0xB8, CHR 0xD1, CHR 0x86, CHR 0xD0, CHR 0xB8, CHR 0xD1, CHR 0x82, CHR 0xD0,
     CHR 0xB0, CHR 0x20, CHR 0xD0, CHR 0xBF, CHR 0xD0, CHR 0xBE, CHR 0xD0, CHR 0xB4, CHR 0xD1, CHR
     0x82, CHR 0xD0, CHR 0xB2, CHR 0xD0, CHR 0xB5, CHR 0xD1, CHR 0x80, CHR 0xD0, CHR 0xB6, CHR 0xD0,
     CHR 0xB4, CHR 0xD0, CHR 0xB5, CHR 0xD0, CHR 0xBD, CHR 0xD0, CHR 0xB0, CHR 0x20, CHR 0xD0, CHR
     0xB8, CHR 0xD0, CHR 0xBD, CHR 0xD0, CHR 0xB6, CHR 0xD0, CHR 0xB5, CHR 0xD0, CHR 0xBD, CHR 0xD0,
     CHR 0xB5, CHR 0xD1, CHR 0x80, CHR 0xD0, CHR 0xBE, CHR 0xD0, CHR 0xBC, CHR 0x2E]"

definition SUMMARY_DISPATCHER_CONFIRMED :: string where
  "SUMMARY_DISPATCHER_CONFIRMED =
    [CHR 0xD0, CHR 0xA1, CHR 0xD0, CHR 0xBF, CHR 0xD0, CHR 0xBE, CHR 0xD1, CHR 0x81, CHR 0xD0, CHR
     0xBE, CHR 0xD0, CHR 0xB1, CHR 0x20, CHR 0xD0, CHR 0xBE, CHR 0xD0, CHR 0xB1, CHR 0xD0, CHR 0xB5,
     CHR 0xD1, CHR 0x81, CHR 0xD0, CHR 0xBF, CHR 0xD0, CHR 0xB5, CHR 0xD1, CHR 0x87, CHR 0xD0, CHR
     0xB5, CHR 0xD0, CHR 0xBD, CHR 0xD0, CHR 0xB8, CHR 0xD1, CHR 0x8F, CHR 0x20, CHR 0xD0, CHR 0xBF,
     CHR 0xD0, CHR 0xBE, CHR 0xD0, CHR 0xB4, CHR 0xD1, CHR 0x82, CHR 0xD0, CHR 0xB2, CHR 0xD0, CHR
     0xB5, CHR 0xD1, CHR 0x80, CHR 0xD0, CHR 0xB6, CHR 0xD0, CHR 0xB4, CHR 0xD1, CHR 0x91, CHR 0xD0,
     CHR 0xBD, CHR 0x20, CHR 0xD0, CHR 0xB4, CHR 0xD0, CHR 0xB8, CHR 0xD1, CHR 0x81, CHR 0xD0, CHR
     0xBF, CHR 0xD0, CHR 0xB5, CHR 0xD1, CHR 0x82, CHR 0xD1, CHR 0x87, CHR 0xD0, CHR 0xB5, CHR 0xD1,
     CHR 0x80, CHR 0xD0, CHR 0xBE, CHR 0xD0, CHR 0xBC, CHR 0x20, CHR 0xD0, CHR 0xBF, CHR 0xD1, CHR
     0x80, CHR 0xD0, CHR 0xBE, CHR 0xD0, CHR 0xB8, CHR 0xD0, CHR 0xB7, CHR 0xD0, CHR 0xB2, CHR 0xD0,
     CHR 0xBE, CHR 0xD0, CHR 0xB4, CHR 0xD1, CHR 0x81, CHR 0xD1, CHR 0x82, CHR 0xD0, CHR 0xB2, CHR
     0xD0, CHR 0xB0, CHR 0x2E]"

definition role_statuses :: "string list" where
  "role_statuses = [''waiting_human'', ''waiting_external'', ''completed'', ''failed'']"

definition role_status_of :: "jdict \<Rightarrow> string" where
  "role_status_of payload =
     jstr (jor (jget payload ''role_status'') (jor (jget payload ''status'') (JStr ''failed'')))"

definition completed_payload :: "pcase \<Rightarrow> jdict \<Rightarrow> jdict" where
  "completed_payload c payload =
     dict_setdefault ''correlation_id'' (JStr (pc_correlation_id c))
       (dict_setdefault ''case_id'' (JStr (pc_id c))
         (dict_setdefault ''agent_id'' (jtext_opt (pc_current_agent c))
           (dict_set ''role_status'' (JStr (role_status_of payload)) payload)))"

text \<open>\<open>None\<close>: the output is not an object.\<close>

definition output_of :: "jdict \<Rightarrow> jdict option" where
  "output_of payload = (case jor (jget payload ''output_data'') (JObj []) of JObj d \<Rightarrow> Some d | _ \<Rightarrow> None)"

definition result_agent_of :: "pcase \<Rightarrow> jdict \<Rightarrow> string" where
  "result_agent_of c payload = jstring (jor (jget payload ''agent_id'') (jtext_opt (pc_current_agent c)))"

definition from_agent :: "string \<Rightarrow> jdict \<Rightarrow> bool" where
  "from_agent agent payload \<longleftrightarrow> jget payload ''agent_id'' = JStr agent"

definition payload_spec :: "jdict \<Rightarrow> availability_spec option" where
  "payload_spec payload = warehouse_availability_spec (jstring (jget payload ''agent_id''))"

definition wait_reason_of :: "jdict \<Rightarrow> string option" where
  "wait_reason_of payload =
     (let s = jstring (jor (jget payload ''wait_reason'') (jget payload ''summary''))
      in if s = [] then None else Some s)"

definition store_agent_output :: "string \<Rightarrow> string \<Rightarrow> jdict \<Rightarrow> jdict \<Rightarrow> jdict" where
  "store_agent_output output_key prefix d m =
     dict_set (prefix @ ''_decision_kind'') (jget d ''decision_kind'')
       (dict_set (prefix @ ''_calculated_at'') (jget d ''calculated_at'')
         (dict_set (prefix @ ''_evidence_fingerprint'') (jget d ''evidence_fingerprint'')
           (dict_set output_key (JObj d) m)))"

definition store_quality_metadata :: "string \<Rightarrow> string \<Rightarrow> jdict \<Rightarrow> jdict \<Rightarrow> jdict" where
  "store_quality_metadata agent role_status d m =
     (let m1 = dict_set ''quality_calculated_at'' (jget d ''calculated_at'') (dict_set (agent @ ''_output'') (JObj d) m);
          m2 = (if jtruthy (jget d ''next_agent'') then dict_set ''next_quality_agent'' (jget d ''next_agent'') m1
                else if role_status = ''completed'' then dict_pop ''next_quality_agent'' m1 else m1)
      in if jtruthy (jget d ''next_status'') then dict_set ''quality_stage'' (jget d ''next_status'') m2 else m2)"

definition output_metadata :: "pcase \<Rightarrow> string \<Rightarrow> jdict \<Rightarrow> jdict \<Rightarrow> jdict" where
  "output_metadata c role_status payload d =
     (let agent = result_agent_of c payload; m0 = pc_metadata c;
          m1 = (if from_agent PRODUCTION_PREPARATION_ENGINEER_AGENT_ID payload
                then store_agent_output ''production_preparation_engineer_output'' ''engineer'' d m0 else m0);
          m2 = (if from_agent PRODUCTION_DISPATCHER_AGENT_ID payload
                then store_agent_output ''production_dispatcher_output'' ''dispatcher'' d m1 else m1);
          m3 = (case payload_spec payload of
                  None \<Rightarrow> m2
                | Some spec \<Rightarrow> store_agent_output (as_output_key spec) (as_prefix spec) d m2);
          m4 = (if from_agent PURCHASE_MANAGER_AGENT_ID payload
                then dict_set ''purchase_manager_workspace_status'' (JStr ''awaiting_action'')
                       (dict_set ''purchase_manager_output'' (JObj d) m3) else m3);
          m5 = (if agent \<in> set QUALITY_ROLE_AGENT_IDS then store_quality_metadata agent role_status d m4 else m4)
      in if agent = OMTO_SUPPORT_MANAGER_AGENT_ID
         then dict_set ''omto_calculated_at'' (jget d ''calculated_at'')
                (dict_set ''omto_support_manager_output'' (JObj d) m5) else m5)"

definition received_case :: "jdict \<Rightarrow> pcase \<Rightarrow> pcase" where
  "received_case payload c =
     (let c1 = c\<lparr>pc_latest_result := payload\<rparr>
      in case output_of payload of
           None \<Rightarrow> c1
         | Some d \<Rightarrow> c1\<lparr>pc_metadata := output_metadata c (role_status_of payload) payload d\<rparr>)"

definition received_task :: "jdict \<Rightarrow> ptask \<Rightarrow> ptask" where
  "received_task payload t =
     t\<lparr>pt_metadata := dict_set ''dispatch_claimed'' (JBool False) (pt_metadata t), pt_final_result := payload,
       pt_requires_review := (role_status_of payload = ''waiting_human'')\<rparr>"

text \<open>The status a quality agent asks for, when it is one of the enumeration.\<close>

definition next_status_of :: "jdict \<Rightarrow> json" where
  "next_status_of payload = (case output_of payload of None \<Rightarrow> JNull | Some d \<Rightarrow> jget d ''next_status'')"

definition status_after :: "pcase \<Rightarrow> jdict \<Rightarrow> string \<Rightarrow> string" where
  "status_after c payload fallback =
     (let next = next_status_of payload
      in if result_agent_of c payload \<in> set QUALITY_ROLE_AGENT_IDS \<and> jtruthy next \<and> jstr next \<in> set case_statuses
         then jstr next else fallback)"

section \<open>The four outcomes\<close>

definition set_workspace_status :: "string \<Rightarrow> string \<Rightarrow> jdict \<Rightarrow> jdict" where
  "set_workspace_status prefix status m = dict_set (prefix @ ''_workspace_status'') (JStr status) m"

definition waiting_metadata :: "jdict \<Rightarrow> jdict \<Rightarrow> jdict" where
  "waiting_metadata payload m0 =
     (let m1 = (if from_agent PRODUCTION_PREPARATION_ENGINEER_AGENT_ID payload
                then set_workspace_status ''engineer'' ''awaiting_action'' m0 else m0);
          m2 = (if from_agent PRODUCTION_DISPATCHER_AGENT_ID payload
                then set_workspace_status ''dispatcher'' ''awaiting_action'' m1 else m1)
      in case payload_spec payload of
           None \<Rightarrow> m2
         | Some spec \<Rightarrow> set_workspace_status (as_prefix spec) ''awaiting_action'' m2)"

definition wait_for_human :: "jdict \<Rightarrow> pcase \<Rightarrow> ptask \<Rightarrow> pcase \<times> ptask" where
  "wait_for_human payload c t =
     (c\<lparr>pc_status := status_after c payload ''agent_waiting'', pc_deviation := wait_reason_of payload,
        pc_metadata := waiting_metadata payload (pc_metadata c)\<rparr>,
      t\<lparr>pt_status := Task_Waiting_Human, pt_finished_at := None\<rparr>)"

definition wait_for_external :: "jdict \<Rightarrow> pcase \<Rightarrow> ptask \<Rightarrow> pcase \<times> ptask" where
  "wait_for_external payload c t =
     (c\<lparr>pc_status := (if from_agent PURCHASE_MANAGER_AGENT_ID payload then ''ordered'' else ''agent_waiting''),
        pc_deviation := wait_reason_of payload\<rparr>,
      t\<lparr>pt_status := Task_Waiting_External, pt_finished_at := None\<rparr>)"

definition role_failed :: "int \<Rightarrow> jdict \<Rightarrow> pcase \<Rightarrow> ptask \<Rightarrow> pcase \<times> ptask" where
  "role_failed now payload c t =
     (let error = or_text (wait_reason_of payload) ROLE_ERROR_TEXT
      in (c\<lparr>pc_status := ''blocked'', pc_deviation := Some error\<rparr>,
          t\<lparr>pt_status := Task_Failed, pt_finished_at := Some now, pt_error_message := Some error\<rparr>))"

text \<open>\<open>any(float(item.get("net_requirement") or 0) > 0 ...)\<close>; \<open>None\<close> where \<open>float\<close> raises.\<close>

fun any_deficit :: "jdict list \<Rightarrow> bool option" where
  "any_deficit [] = Some False"
| "any_deficit (d # ds) =
     (case jdecimal (jor (jget d ''net_requirement'') (JInt 0)) of
        None \<Rightarrow> None
      | Some x \<Rightarrow> if 0 < x then Some True else any_deficit ds)"

definition engineer_deficit :: "jdict \<Rightarrow> bool option" where
  "engineer_deficit payload =
     any_deficit (jobjects (case output_of payload of None \<Rightarrow> [] | Some d \<Rightarrow> jlist (jget d ''positions'')))"

definition conclude_case :: "int \<Rightarrow> jdict \<Rightarrow> ptask \<Rightarrow> pcase \<Rightarrow> pcase" where
  "conclude_case now payload t c =
     (let released = result_agent_of c payload \<in> set QUALITY_ROLE_AGENT_IDS \<and>
                     jstring (next_status_of payload) = ''quality_released'';
          m = dict_set ''role_agent_output'' (jor (jget payload ''output_data'') (JObj []))
                (dict_set ''role_agent_completion_key'' (jget (pt_metadata t) ''role_completion_key'') (pc_metadata c));
          c1 = c\<lparr>pc_status := status_after c payload ''new'', pc_deviation := None, pc_metadata := m\<rparr>
      in if released
         then c1\<lparr>pc_status := ''closed'', pc_closed_at := Some now, pc_closed_reason := Some ''quality_released''\<rparr>
         else c1)"

definition conclude_dispatcher :: "int \<Rightarrow> jdict \<Rightarrow> pcase \<Rightarrow> pcase" where
  "conclude_dispatcher now d c =
     (let decision = jstr (jor (jget d ''decision_kind'') (JStr ''none''));
          bucket = (if decision = ''critical_acknowledgement'' then ''critical''
                    else if decision = ''supply_confirmation'' then ''attention'' else ''success'')
      in c\<lparr>pc_control_point := Some ''coverage'', pc_operation := ''dispatcher_confirmed'',
           pc_metadata := dict_set ''dispatcher_archived_bucket'' (JStr bucket)
             (dict_set ''dispatcher_workspace_archived_at'' (JStr (isoformat now))
               (set_workspace_status ''dispatcher'' ''archived'' (pc_metadata c)))\<rparr>)"

definition close_workspace :: "string \<Rightarrow> int \<Rightarrow> string \<Rightarrow> string \<Rightarrow> jdict \<Rightarrow> jdict" where
  "close_workspace prefix now bucket handoff m =
     dict_set (prefix @ ''_handoff_agent_id'') (JStr handoff)
       (dict_set (prefix @ ''_archived_bucket'') (JStr bucket)
         (dict_set (prefix @ ''_workspace_archived_at'') (JStr (isoformat now))
           (set_workspace_status prefix ''archived'' m)))"

definition route_to :: "string \<Rightarrow> string \<Rightarrow> string \<Rightarrow> pcase \<Rightarrow> pcase" where
  "route_to agent point operation c =
     c\<lparr>pc_control_point := Some point, pc_operation := operation, pc_current_agent := Some agent,
       pc_assigned_agents := [agent]\<rparr>"

text \<open>The next agent is enqueued even when the service runs without enqueueing.\<close>

definition forced_enqueue :: "int \<Rightarrow> string \<Rightarrow> pcase \<times> store \<Rightarrow> pcase \<times> store" where
  "forced_enqueue now uuid cs =
     (case cs of (c, so) \<Rightarrow>
        (case enqueue_role_agent now uuid c (so\<lparr>so_enqueue := True\<rparr>) of
           (c1, so1, done) \<Rightarrow> (c1, so1\<lparr>so_enqueue := so_enqueue so\<rparr>)))"

definition hand_to_dispatcher ::
  "int \<Rightarrow> string \<Rightarrow> string \<Rightarrow> string \<Rightarrow> bool \<Rightarrow> pcase \<Rightarrow> store \<Rightarrow> pcase \<times> store" where
  "hand_to_dispatcher now uuid task_id previous has_deficit c so =
     (let bucket = (if has_deficit then ''attention'' else ''success'');
          c1 = route_to PRODUCTION_DISPATCHER_AGENT_ID ''chief_dispatcher'' ''route_to_chief_dispatcher''
                 (c\<lparr>pc_metadata := close_workspace ''engineer'' now bucket PRODUCTION_DISPATCHER_AGENT_ID (pc_metadata c)\<rparr>)
      in forced_enqueue now uuid
           (c1, append_event c1 ''engineer_handoff_to_chief_dispatcher''
              (take 255 (''engineer-handoff:'' @ pc_id c @ '':'' @ task_id)) (Some previous) (pc_status c1)
              [(''engineer_bucket'', JStr bucket), (''next_agent_id'', JStr PRODUCTION_DISPATCHER_AGENT_ID),
               (''archived_at'', JStr (isoformat now))] (Some PRODUCTION_PREPARATION_ENGINEER_AGENT_ID) so))"

definition availability_decision :: "availability_spec \<Rightarrow> jdict \<Rightarrow> jdict \<Rightarrow> string" where
  "availability_decision spec payload m =
     jstr (jor (case output_of payload of None \<Rightarrow> JNull | Some d \<Rightarrow> jget d ''decision_kind'')
            (jor (jget m (spec_key spec ''decision_kind'')) (JStr ''none'')))"

definition hand_to_omto ::
  "int \<Rightarrow> string \<Rightarrow> string \<Rightarrow> string \<Rightarrow> availability_spec \<Rightarrow> jdict \<Rightarrow> pcase \<Rightarrow> store \<Rightarrow> pcase \<times> store" where
  "hand_to_omto now uuid task_id previous spec payload c so =
     (let decision = availability_decision spec payload (pc_metadata c);
          bucket = (if decision = ''critical_acknowledgement'' then ''critical''
                    else if decision \<in> {''stock_confirmation'', ''deficit_confirmation'', ''discrepancy_return''}
                         then ''attention'' else ''success'');
          c1 = route_to (as_handoff_agent_id spec) ''omto'' ''route_to_omto_chief''
                 (c\<lparr>pc_metadata := close_workspace (as_prefix spec) now bucket (as_handoff_agent_id spec) (pc_metadata c)\<rparr>)
      in forced_enqueue now uuid
           (c1, append_event c1 (as_handoff_event spec)
              (take 255 (as_prefix spec @ ''-handoff:'' @ pc_id c @ '':'' @ task_id)) (Some previous) (pc_status c1)
              [(as_prefix spec @ ''_bucket'', JStr bucket), (''next_agent_id'', JStr (as_handoff_agent_id spec)),
               (''archived_at'', JStr (isoformat now)),
               (''conclusion'', case output_of payload of None \<Rightarrow> JObj [] | Some d \<Rightarrow> jget d ''conclusion'')]
              (Some (as_agent_id spec)) so))"

definition role_completed ::
  "int \<Rightarrow> string \<Rightarrow> string \<Rightarrow> jdict \<Rightarrow> pcase \<Rightarrow> ptask \<Rightarrow> store \<Rightarrow> role_error + (pcase \<times> store)" where
  "role_completed now uuid task_id payload c t so =
     (let previous = pc_status c;
          t1 = t\<lparr>pt_status := Task_Completed, pt_finished_at := Some now\<rparr>;
          so1 = put_task task_id t1 so;
          c1 = conclude_case now payload t c;
          engineer = from_agent PRODUCTION_PREPARATION_ENGINEER_AGENT_ID payload;
          dispatcher = from_agent PRODUCTION_DISPATCHER_AGENT_ID payload
      in case (if engineer then engineer_deficit payload else Some False) of
           None \<Rightarrow> Inl Bad_Net_Requirement
         | Some has_deficit \<Rightarrow>
             if dispatcher \<and> output_of payload = None then Inl Output_Not_An_Object
             else
               (let c2 = (if dispatcher then conclude_dispatcher now (the (output_of payload)) c1 else c1);
                    c3 = c2\<lparr>pc_current_task := None, pc_current_agent := None\<rparr>;
                    (c4, so4) = (if engineer then hand_to_dispatcher now uuid task_id previous has_deficit c3 so1
                                 else (c3, so1))
                in Inr (case payload_spec payload of
                          None \<Rightarrow> (c4, so4)
                        | Some spec \<Rightarrow> hand_to_omto now uuid task_id previous spec payload c4 so4)))"

definition apply_role_agent_result ::
  "(jdict \<Rightarrow> string) \<Rightarrow> int \<Rightarrow> string \<Rightarrow> string \<Rightarrow> jdict \<Rightarrow> string \<Rightarrow> pcase \<Rightarrow> ptask \<Rightarrow> store \<Rightarrow>
   role_error + (pcase \<times> store)" where
  "apply_role_agent_result digest now uuid event_type result task_id c t so =
     (let status = role_status_of result
      in if status \<notin> set role_statuses then Inl Unknown_Role_Status
         else
           (let payload = completed_payload c result;
                c1 = received_case payload c;
                t1 = received_task payload t;
                simple = (\<lambda>(c, t). Inr (c, put_task task_id t so));
                outcome = (if status = ''waiting_human'' then simple (wait_for_human payload c1 t1)
                           else if status = ''waiting_external'' then simple (wait_for_external payload c1 t1)
                           else if status = ''completed'' then role_completed now uuid task_id payload c1 t1 so
                           else simple (role_failed now payload c1 t1))
            in case outcome of
                 Inl e \<Rightarrow> Inl e
               | Inr (c2, so2) \<Rightarrow> Inr (c2,
                   append_event c2 event_type (''role-result:'' @ task_id @ '':'' @ status @ '':'' @ digest payload)
                     (Some (pc_status c)) (pc_status c2)
                     [(''task_id'', JStr task_id), (''agent_id'', jget payload ''agent_id''),
                      (''role_status'', JStr status), (''wait_reason'', jtext_opt (wait_reason_of payload)),
                      (''output_data'', jor (jget payload ''output_data'') (JObj []))]
                     (let a = jstring (jget payload ''agent_id'') in if a = [] then None else Some a) so2)))"

section \<open>Running and resuming a task\<close>

datatype execution = Refused string | Applied

definition execute_case_task ::
  "(string \<Rightarrow> jdict \<Rightarrow> jdict option) \<Rightarrow> (jdict \<Rightarrow> string) \<Rightarrow> int \<Rightarrow> string \<Rightarrow> string \<Rightarrow> pcase \<Rightarrow> store \<Rightarrow>
   role_error + (execution \<times> pcase \<times> store)" where
  "execute_case_task run_agent digest now uuid task_id c so =
     (case dict_get (so_tasks so) task_id of
        None \<Rightarrow> Inr (Refused ''case_or_task_not_found'', c, so)
      | Some t \<Rightarrow>
          if pc_current_task c \<noteq> Some task_id then Inr (Refused ''task_is_not_current_for_case'', c, so)
          else
            (let t1 = t\<lparr>pt_status := Task_Running, pt_started_at := Some now\<rparr>;
                 payload = dict_set ''case_id'' (JStr (pc_id c))
                             (dict_set ''task_id'' (JStr task_id) (pt_input_payload t))
             in case run_agent (jstring (jget (pt_metadata t) ''agent_slug'')) payload of
                  None \<Rightarrow> Inl Agent_Not_Registered
                | Some result \<Rightarrow>
                    map_sum id (Pair Applied)
                      (apply_role_agent_result digest now uuid ''role_agent_result_received'' result task_id c t1
                        (put_task task_id t1 so))))"

text \<open>\<open>None\<close> is the answer when there is nothing to resume or to confirm.\<close>

definition resume_case_agent ::
  "(jdict \<Rightarrow> string) \<Rightarrow> int \<Rightarrow> string \<Rightarrow> jdict \<Rightarrow> pcase \<Rightarrow> store \<Rightarrow> role_error + (pcase \<times> store) option" where
  "resume_case_agent digest now uuid result c so =
     (case (pc_current_task c, current_task_of c so) of
        (Some task_id, Some t) \<Rightarrow>
          if pt_status t \<in> {Task_Waiting_Human, Task_Waiting_External, Task_Failed} then
            map_sum id Some (apply_role_agent_result digest now uuid ''role_agent_resumed''
              (dict_setdefault ''agent_id'' (jtext_opt (pc_current_agent c)) result) task_id c t so)
          else Inr None
      | _ \<Rightarrow> Inr None)"

definition confirmation_payload :: "string \<Rightarrow> string \<Rightarrow> jdict \<Rightarrow> ptask \<Rightarrow> jdict" where
  "confirmation_payload summary output_key m t =
     dict_setdefault ''output_data'' (jor (jget m output_key) (JObj []))
       (dict_update (pt_final_result t)
         [(''role_status'', JStr ''completed''), (''status'', JStr ''completed''), (''summary'', JStr summary),
          (''requires_human_review'', JBool False)])"

definition confirmed_reply :: "string \<Rightarrow> pcase \<Rightarrow> jdict" where
  "confirmed_reply action c =
     [(''status'', JStr ''completed''), (''action'', JStr action), (''case_id'', JStr (pc_id c))]"

definition waiting_task_of :: "pcase \<Rightarrow> store \<Rightarrow> (string \<times> ptask) option" where
  "waiting_task_of c so =
     (case (pc_current_task c, current_task_of c so) of
        (Some i, Some t) \<Rightarrow> if pt_status t = Task_Waiting_Human then Some (i, t) else None
      | _ \<Rightarrow> None)"

type_synonym confirmation = "role_error + (jdict option \<times> pcase \<times> store)"

definition resume_confirmed ::
  "(jdict \<Rightarrow> string) \<Rightarrow> int \<Rightarrow> string \<Rightarrow> string \<Rightarrow> jdict \<Rightarrow> string \<Rightarrow> pcase \<Rightarrow> ptask \<Rightarrow> store \<Rightarrow> confirmation" where
  "resume_confirmed digest now uuid action payload i c t so =
     map_sum id (Pair (Some (confirmed_reply action c)))
       (apply_role_agent_result digest now uuid ''role_agent_resumed'' payload i c t so)"

definition engineer_confirmed :: "int \<Rightarrow> string \<Rightarrow> pcase \<Rightarrow> pcase" where
  "engineer_confirmed now user c =
     c\<lparr>pc_metadata := dict_set ''engineer_action_by'' (JStr user)
         (dict_set ''engineer_action_at'' (JStr (isoformat now)) (pc_metadata c))\<rparr>"

definition engineer_confirmed_event :: "int \<Rightarrow> string \<Rightarrow> string \<Rightarrow> pcase \<Rightarrow> store \<Rightarrow> store" where
  "engineer_confirmed_event now user i c so =
     append_event c ''engineer_purchase_confirmed'' (take 255 (''engineer-purchase-confirmed:'' @ i))
       (Some (pc_status c)) (pc_status c) [(''user_id'', JStr user), (''confirmed_at'', JStr (isoformat now))]
       (Some PRODUCTION_PREPARATION_ENGINEER_AGENT_ID) so"

definition confirm_engineer_purchase ::
  "(jdict \<Rightarrow> string) \<Rightarrow> int \<Rightarrow> string \<Rightarrow> string \<Rightarrow> pcase \<Rightarrow> store \<Rightarrow> confirmation" where
  "confirm_engineer_purchase digest now uuid user c so =
     (let m = pc_metadata c
      in if jget m ''engineer_workspace_status'' = JStr ''archived'' \<and>
            jget m ''engineer_archived_bucket'' = JStr ''attention''
         then Inr (Some (confirmed_reply ''purchase_confirmed'' c), c, so)
         else if jget m ''engineer_decision_kind'' \<noteq> JStr ''purchase_confirmation'' then Inr (None, c, so)
         else case waiting_task_of c so of
                None \<Rightarrow> Inr (None, c, so)
              | Some (i, t) \<Rightarrow>
                  (let c1 = engineer_confirmed now user c
                   in resume_confirmed digest now uuid ''purchase_confirmed''
                        (confirmation_payload SUMMARY_ENGINEER_CONFIRMED ''production_preparation_engineer_output''
                          (pc_metadata c1) t)
                        i c1 t (engineer_confirmed_event now user i c1 so)))"

definition dispatcher_confirmed :: "int \<Rightarrow> string \<Rightarrow> string \<Rightarrow> pcase \<Rightarrow> pcase" where
  "dispatcher_confirmed now user confirmed c =
     c\<lparr>pc_metadata := dict_set ''dispatcher_confirmed_method'' (JStr confirmed)
         (dict_set ''dispatcher_action_by'' (JStr user)
           (dict_set ''dispatcher_action_at'' (JStr (isoformat now)) (pc_metadata c)))\<rparr>"

definition dispatcher_confirmed_event :: "int \<Rightarrow> string \<Rightarrow> string \<Rightarrow> string \<Rightarrow> pcase \<Rightarrow> store \<Rightarrow> store" where
  "dispatcher_confirmed_event now user confirmed i c so =
     append_event c ''dispatcher_supply_confirmed'' (take 255 (''dispatcher-supply-confirmed:'' @ i))
       (Some (pc_status c)) (pc_status c)
       [(''user_id'', JStr user), (''confirmed_at'', JStr (isoformat now)), (''method'', JStr confirmed)]
       (Some PRODUCTION_DISPATCHER_AGENT_ID) so"

definition confirm_dispatcher_supply ::
  "(jdict \<Rightarrow> string) \<Rightarrow> int \<Rightarrow> string \<Rightarrow> string \<Rightarrow> string option \<Rightarrow> pcase \<Rightarrow> store \<Rightarrow> confirmation" where
  "confirm_dispatcher_supply digest now uuid user supply_method c so =
     (let m = pc_metadata c
      in if jget m ''dispatcher_workspace_status'' = JStr ''archived'' \<and>
            jget m ''dispatcher_archived_bucket'' \<in> {JStr ''attention'', JStr ''success''}
         then Inr (Some (confirmed_reply ''supply_confirmed'' c), c, so)
         else if jget m ''dispatcher_decision_kind'' \<noteq> JStr ''supply_confirmation'' then Inr (None, c, so)
         else case waiting_task_of c so of
                None \<Rightarrow> Inr (None, c, so)
              | Some (i, t) \<Rightarrow>
                  (let confirmed = or_text supply_method ''procurement'';
                       c1 = dispatcher_confirmed now user confirmed c
                   in resume_confirmed digest now uuid ''supply_confirmed''
                        (confirmation_payload SUMMARY_DISPATCHER_CONFIRMED ''production_dispatcher_output''
                          (pc_metadata c1) t)
                        i c1 t (dispatcher_confirmed_event now user confirmed i c1 so)))"

definition default_action :: "string \<Rightarrow> string" where
  "default_action decision =
     (if decision = ''stock_confirmation'' then ''issue_from_stock''
      else if decision = ''deficit_confirmation'' then ''confirm_deficit'' else ''return_discrepancy'')"

definition conclusion_confirmed :: "availability_spec \<Rightarrow> int \<Rightarrow> string \<Rightarrow> string \<Rightarrow> pcase \<Rightarrow> pcase" where
  "conclusion_confirmed spec now user confirmed c =
     c\<lparr>pc_metadata := dict_set (spec_key spec ''confirmed_action'') (JStr confirmed)
         (dict_set (spec_key spec ''action_by'') (JStr user)
           (dict_set (spec_key spec ''action_at'') (JStr (isoformat now)) (pc_metadata c)))\<rparr>"

definition conclusion_event ::
  "availability_spec \<Rightarrow> int \<Rightarrow> string \<Rightarrow> string \<Rightarrow> string \<Rightarrow> pcase \<Rightarrow> store \<Rightarrow> store" where
  "conclusion_event spec now user confirmed i c so =
     append_event c (as_conclusion_event spec) (take 255 (as_prefix spec @ ''-conclusion-confirmed:'' @ i))
       (Some (pc_status c)) (pc_status c)
       [(''user_id'', JStr user), (''confirmed_at'', JStr (isoformat now)), (''action'', JStr confirmed)]
       (Some (as_agent_id spec)) so"

definition conclusion_payload :: "availability_spec \<Rightarrow> string \<Rightarrow> jdict \<Rightarrow> ptask \<Rightarrow> jdict" where
  "conclusion_payload spec summary m t =
     dict_setdefault ''output_data'' (jor (jget m (as_output_key spec)) (JObj []))
       (dict_update (pt_final_result t)
         [(''role_status'', JStr ''completed''), (''status'', JStr ''completed''), (''summary'', JStr summary),
          (''requires_human_review'', JBool False), (''agent_id'', JStr (as_agent_id spec))])"

definition confirm_warehouse_availability_conclusion ::
  "(string \<Rightarrow> string) \<Rightarrow> (jdict \<Rightarrow> string) \<Rightarrow> int \<Rightarrow> string \<Rightarrow> string \<Rightarrow> string option \<Rightarrow> string \<Rightarrow> pcase \<Rightarrow> store \<Rightarrow>
   confirmation" where
  "confirm_warehouse_availability_conclusion summary_of digest now uuid user action agent c so =
     (case warehouse_availability_spec agent of
        None \<Rightarrow> Inr (None, c, so)
      | Some spec \<Rightarrow>
          (let m = pc_metadata c; decision = jget m (spec_key spec ''decision_kind'')
           in if jget m (spec_key spec ''workspace_status'') = JStr ''archived'' \<and>
                 jget m (spec_key spec ''archived_bucket'') \<in> {JStr ''attention'', JStr ''success''}
              then Inr (Some (confirmed_reply (as_prefix spec @ ''_confirmed'') c), c, so)
              else if decision \<notin> JStr ` {''stock_confirmation'', ''deficit_confirmation'', ''discrepancy_return''}
                   then Inr (None, c, so)
              else case waiting_task_of c so of
                     None \<Rightarrow> Inr (None, c, so)
                   | Some (i, t) \<Rightarrow>
                       (let confirmed = or_text action (default_action (jstr decision));
                            c1 = conclusion_confirmed spec now user confirmed c
                        in resume_confirmed digest now uuid (as_prefix spec @ ''_confirmed'')
                             (conclusion_payload spec (summary_of confirmed) (pc_metadata c1) t)
                             i c1 t (conclusion_event spec now user confirmed i c1 so))))"

text \<open>
  The acknowledgement of a critical conclusion: the engineer, the dispatcher and the two warehouse
  agents share the steps and differ in the prefix of their keys.
\<close>

definition acknowledged_reply :: "pcase \<Rightarrow> jdict" where
  "acknowledged_reply c =
     [(''status'', JStr ''waiting_for_source_update''), (''action'', JStr ''critical_acknowledged''),
      (''case_id'', JStr (pc_id c))]"

definition acknowledge_critical ::
  "string \<Rightarrow> string \<Rightarrow> string \<Rightarrow> int \<Rightarrow> string \<Rightarrow> pcase \<Rightarrow> store \<Rightarrow> jdict option \<times> pcase \<times> store" where
  "acknowledge_critical prefix event_type agent now user c so =
     (let m = pc_metadata c
      in if jget m (prefix @ ''_decision_kind'') \<noteq> JStr ''critical_acknowledgement'' then (None, c, so)
         else if jtruthy (jget m (prefix @ ''_critical_acknowledged_at'')) then (Some (acknowledged_reply c), c, so)
         else
           (let c1 = c\<lparr>pc_metadata := dict_set (prefix @ ''_critical_acknowledged_by'') (JStr user)
                         (dict_set (prefix @ ''_critical_acknowledged_at'') (JStr (isoformat now)) m)\<rparr>
            in (Some (acknowledged_reply c), c1,
                append_event c1 event_type
                  (take 255 (prefix @ ''-critical-ack:'' @ or_text (pc_current_task c) (pc_id c)))
                  (Some (pc_status c)) (pc_status c)
                  [(''user_id'', JStr user), (''acknowledged_at'', JStr (isoformat now))] (Some agent) so)))"

definition acknowledge_engineer_critical ::
  "int \<Rightarrow> string \<Rightarrow> pcase \<Rightarrow> store \<Rightarrow> jdict option \<times> pcase \<times> store" where
  "acknowledge_engineer_critical =
     acknowledge_critical ''engineer'' ''engineer_critical_acknowledged'' PRODUCTION_PREPARATION_ENGINEER_AGENT_ID"

definition acknowledge_dispatcher_critical ::
  "int \<Rightarrow> string \<Rightarrow> pcase \<Rightarrow> store \<Rightarrow> jdict option \<times> pcase \<times> store" where
  "acknowledge_dispatcher_critical =
     acknowledge_critical ''dispatcher'' ''dispatcher_critical_acknowledged'' PRODUCTION_DISPATCHER_AGENT_ID"

definition acknowledge_warehouse_availability_critical ::
  "string \<Rightarrow> int \<Rightarrow> string \<Rightarrow> pcase \<Rightarrow> store \<Rightarrow> jdict option \<times> pcase \<times> store" where
  "acknowledge_warehouse_availability_critical agent now user c so =
     (case warehouse_availability_spec agent of
        None \<Rightarrow> (None, c, so)
      | Some spec \<Rightarrow> acknowledge_critical (as_prefix spec) (as_critical_event spec) (as_agent_id spec) now user c so)"

end
