(* ===== verification/Case_Orchestrator.thy ===== *)
theory Case_Orchestrator
  imports Case_Invariant Role_Results
begin

text \<open>
  The orchestrator as a state machine over the cases and the store of tasks: every operation of the
  service is a step, and what holds along all of them.
\<close>

section \<open>Results\<close>

text \<open>
  A result received for the current task.  A quality agent never asks for a terminal status
  (\<open>agents_never_close\<close> of \<open>Quality_Case\<close>); a result handed in from outside could.
\<close>

lemma received_task_case [simp]: "task_case (received_task p t) = task_case t"
  by (simp add: task_case_def received_task_def)

definition asks_terminal :: "pcase \<Rightarrow> jdict \<Rightarrow> bool" where
  "asks_terminal c result \<longleftrightarrow> status_after c (completed_payload c result) ''new'' \<in> set TERMINAL_CASE_STATUSES"

lemma status_after_received [simp]: "status_after (received_case payload c) p f = status_after c p f"
  by (simp add: status_after_def result_agent_of_def received_case_def Let_def split: option.split)

lemma received_view [simp]: "case_view (received_case payload c) = case_view c"
  by (simp add: case_view_def received_case_def Let_def split: option.split)

lemma status_after_known: "f \<in> set case_statuses \<Longrightarrow> status_after c p f \<in> set case_statuses"
  by (simp add: status_after_def Let_def)

lemma status_after_live:
  assumes "\<not> asks_terminal c result" "f \<notin> set TERMINAL_CASE_STATUSES"
  shows "status_after c (completed_payload c result) f \<notin> set TERMINAL_CASE_STATUSES"
  using assms by (auto simp: asks_terminal_def status_after_def Let_def split: if_splits)

lemma forced:
  assumes "forced_enqueue now u (c, so) = (c', so')" "case_inv c so" "dict_get (so_tasks so) u = None"
  shows "case_inv c' so'" "pc_id c' = pc_id c" "others_kept (pc_id c) so so'" "so_enqueue so' = so_enqueue so"
    "so_planning so' = so_planning so"
proof -
  obtain c1 so1 b where e: "enqueue_role_agent now u c (so\<lparr>so_enqueue := True\<rparr>) = (c1, so1, b)" by (metis prod_cases3)
  have r: "c' = c1" "so' = so1\<lparr>so_enqueue := so_enqueue so\<rparr>" using assms(1) e by (simp_all add: forced_enqueue_def)
  have "case_inv c (so\<lparr>so_enqueue := True\<rparr>)" "dict_get (so_tasks (so\<lparr>so_enqueue := True\<rparr>)) u = None"
    using assms(2,3) by (simp_all add: case_inv_def)
  note E = enqueued[OF e this]
  from E show "case_inv c' so'" "pc_id c' = pc_id c" "others_kept (pc_id c) so so'" "so_enqueue so' = so_enqueue so"
    "so_planning so' = so_planning so"
    by (simp_all add: r case_inv_def others_kept_def)
qed

text \<open>The handovers of a concluded case.\<close>

lemma handed_to_dispatcher:
  assumes "hand_to_dispatcher now u i p b c so = (c', so')" "case_inv c so" "dict_get (so_tasks so) u = None"
  shows "case_inv c' so' \<and> pc_id c' = pc_id c \<and> others_kept (pc_id c) so so' \<and> so_enqueue so' = so_enqueue so \<and>
    so_planning so' = so_planning so"
proof -
  define c1 where "c1 = route_to PRODUCTION_DISPATCHER_AGENT_ID ''chief_dispatcher'' ''route_to_chief_dispatcher''
    (c\<lparr>pc_metadata := close_workspace ''engineer'' now (if b then ''attention'' else ''success'')
        PRODUCTION_DISPATCHER_AGENT_ID (pc_metadata c)\<rparr>)"
  obtain so1 where f: "forced_enqueue now u (c1, so1) = (c', so')" and t: "so_tasks so1 = so_tasks so"
    "so_enqueue so1 = so_enqueue so" "so_planning so1 = so_planning so"
    using assms(1) by (auto simp: hand_to_dispatcher_def Let_def c1_def)
  have i: "case_inv c1 so1" using assms(2) t
    by (simp add: c1_def route_to_def case_inv_def case_wf_def tasks_wf_def)
  have "pc_id c1 = pc_id c" by (simp add: c1_def route_to_def)
  with forced[OF f i] assms(3) t show ?thesis by (simp add: others_kept_def)
qed

lemma handed_to_omto:
  assumes "hand_to_omto now u i p spec payload c so = (c', so')" "case_inv c so" "dict_get (so_tasks so) u = None"
  shows "case_inv c' so' \<and> pc_id c' = pc_id c \<and> others_kept (pc_id c) so so' \<and> so_enqueue so' = so_enqueue so \<and>
    so_planning so' = so_planning so"
proof -
  obtain c1 so1 where f: "forced_enqueue now u (c1, so1) = (c', so')" and t: "so_tasks so1 = so_tasks so"
    "so_enqueue so1 = so_enqueue so" "so_planning so1 = so_planning so"
    and v: "case_view c1 = case_view (c\<lparr>pc_control_point := Some ''omto''\<rparr>)"
    using assms(1) by (auto simp: hand_to_omto_def Let_def case_view_def route_to_def)
  have i: "case_inv c1 so1" using assms(2) t v
    by (auto simp: case_view_def case_inv_def case_wf_def tasks_wf_def)
  have "pc_id c1 = pc_id c" using v by (simp add: case_view_def)
  with forced[OF f i] assms(3) t show ?thesis by (simp add: others_kept_def)
qed

lemma concluded:
  assumes "conclude_case now payload t c = c'" "status_after c payload ''new'' \<notin> set TERMINAL_CASE_STATUSES"
  shows "pc_id c' = pc_id c" "pc_control_point c' = pc_control_point c" "pc_current_task c' = pc_current_task c"
    "pc_status c' \<in> set case_statuses \<and> pc_status c' \<noteq> ''failed''"
    "pc_status c' = ''closed'' \<Longrightarrow> pc_closed_reason c' = Some ''quality_released'' \<and> pc_closed_at c' = Some now"
    "pc_status c' \<noteq> ''closed'' \<Longrightarrow> pc_closed_reason c' = pc_closed_reason c \<and> pc_closed_at c' = pc_closed_at c"
proof -
  define released where "released \<longleftrightarrow> result_agent_of c payload \<in> set QUALITY_ROLE_AGENT_IDS \<and>
    jstring (next_status_of payload) = ''quality_released''"
  have st: "pc_status c' = (if released then ''closed'' else status_after c payload ''new'')"
    and rest: "pc_id c' = pc_id c" "pc_control_point c' = pc_control_point c" "pc_current_task c' = pc_current_task c"
    "pc_closed_reason c' = (if released then Some ''quality_released'' else pc_closed_reason c)"
    "pc_closed_at c' = (if released then Some now else pc_closed_at c)"
    using assms(1) by (auto simp: conclude_case_def Let_def released_def[symmetric])
  have known: "status_after c payload ''new'' \<in> set case_statuses"
    by (rule status_after_known) (rule known_statuses)
  have live: "status_after c payload ''new'' \<noteq> ''closed''" "status_after c payload ''new'' \<noteq> ''failed''"
    using assms(2) by (auto simp: TERMINAL_CASE_STATUSES_def)
  show "pc_id c' = pc_id c" "pc_control_point c' = pc_control_point c" "pc_current_task c' = pc_current_task c"
    by (rule rest)+
  show "pc_status c' \<in> set case_statuses \<and> pc_status c' \<noteq> ''failed''"
    using st known live known_statuses by simp
  show "pc_status c' = ''closed'' \<Longrightarrow> pc_closed_reason c' = Some ''quality_released'' \<and> pc_closed_at c' = Some now"
    "pc_status c' \<noteq> ''closed'' \<Longrightarrow> pc_closed_reason c' = pc_closed_reason c \<and> pc_closed_at c' = pc_closed_at c"
    using st rest live by (auto split: if_splits)
qed

text \<open>An output that raises leaves no state; the others keep the invariant.\<close>

lemma completed:
  assumes "role_completed now u i payload c t so = Inr (c', so')" "tasks_wf c (so_tasks so)" "case_wf c"
    "pc_current_task c = Some i" "task_case t = JStr (pc_id c)" "dict_get (so_tasks so) u = None"
    "status_after c payload ''new'' \<notin> set TERMINAL_CASE_STATUSES"
  shows "case_inv c' so' \<and> pc_id c' = pc_id c \<and> others_kept (pc_id c) so so' \<and> so_enqueue so' = so_enqueue so \<and>
    so_planning so' = so_planning so"
proof -
  define t1 where "t1 = t\<lparr>pt_status := Task_Completed, pt_finished_at := Some now\<rparr>"
  define so1 where "so1 = put_task i t1 so"
  define c1 where "c1 = conclude_case now payload t c"
  define engineer where "engineer = from_agent PRODUCTION_PREPARATION_ENGINEER_AGENT_ID payload"
  define c2 where "c2 = (if from_agent PRODUCTION_DISPATCHER_AGENT_ID payload
    then conclude_dispatcher now (the (output_of payload)) c1 else c1)"
  define c3 where "c3 = c2\<lparr>pc_current_task := None, pc_current_agent := None\<rparr>"
  obtain b where b0: "(if engineer then engineer_deficit payload else Some False) = Some b"
    using assms(1) unfolding role_completed_def Let_def engineer_def[symmetric]
    by (cases "if engineer then engineer_deficit payload else Some False") simp_all
  have d0: "\<not> (from_agent PRODUCTION_DISPATCHER_AGENT_ID payload \<and> output_of payload = None)"
    by (rule notI) (use assms(1) b0 in \<open>simp add: role_completed_def Let_def engineer_def[symmetric]\<close>)
  have b: "role_completed now u i payload c t so = Inr (case
      (if engineer then hand_to_dispatcher now u i (pc_status c) b c3 so1 else (c3, so1)) of (c4, so4) \<Rightarrow>
      (case payload_spec payload of None \<Rightarrow> (c4, so4) | Some spec \<Rightarrow> hand_to_omto now u i (pc_status c) spec payload c4 so4))"
    unfolding role_completed_def Let_def t1_def[symmetric] so1_def[symmetric] c1_def[symmetric]
      engineer_def[symmetric] c2_def[symmetric] c3_def[symmetric] b0
    using d0 by (simp split: prod.split)
  obtain c4 so4 where e: "(if engineer then hand_to_dispatcher now u i (pc_status c) b c3 so1 else (c3, so1)) = (c4, so4)"
    by (metis surj_pair)
  have r: "(case payload_spec payload of None \<Rightarrow> (c4, so4)
     | Some spec \<Rightarrow> hand_to_omto now u i (pc_status c) spec payload c4 so4) = (c', so')"
    using assms(1) b e by simp
  note C = concluded[OF c1_def[symmetric] assms(7)]
  have nt: "pc_status c \<notin> set TERMINAL_CASE_STATUSES" using assms(3,4) by (auto simp: case_wf_def)
  have v2: "pc_id c2 = pc_id c" "pc_status c2 = pc_status c1" "pc_closed_reason c2 = pc_closed_reason c1"
    "pc_closed_at c2 = pc_closed_at c1" "length (opt_str (pc_control_point c2)) \<le> 16"
    using C(1,2) assms(3) by (simp_all add: c2_def conclude_dispatcher_def Let_def case_wf_def)
  have "pc_closed_reason c = None" "pc_closed_at c = None"
    using assms(3) nt by (auto simp: case_wf_def TERMINAL_CASE_STATUSES_def)
  then have "case_wf c3" using C(4,5,6) v2
    by (cases "pc_status c1 = ''closed''") (auto simp: c3_def case_wf_def TERMINAL_CASE_STATUSES_def)
  moreover have "\<not> blocking t1" by (simp add: t1_def blocking_def BLOCKING_TASK_STATUSES_def)
  then have "tasks_wf c3 (so_tasks so1)" unfolding so1_def put_task_frame
    by (intro tasks_wf_put[OF assms(2)]) (use assms(4,5) v2 in \<open>auto simp: c3_def t1_def\<close>)
  ultimately have i3: "case_inv c3 so1" by (simp add: case_inv_def)
  have id3: "pc_id c3 = pc_id c" by (simp add: c3_def v2)
  obtain t0 where t0: "dict_get (so_tasks so) i = Some t0" "task_case t0 = JStr (pc_id c)"
    using assms(2,4) by (auto simp: tasks_wf_def)
  with assms(6) have ui: "u \<noteq> i" by auto
  have f1: "dict_get (so_tasks so1) u = None" using assms(6) ui by (simp add: so1_def)
  have o1: "others_kept (pc_id c) so so1"
    unfolding so1_def by (rule others_kept_put) (use assms(5) t0 in \<open>auto simp: t1_def\<close>)
  have four: "case_inv c4 so4 \<and> pc_id c4 = pc_id c \<and> others_kept (pc_id c) so so4 \<and> so_enqueue so4 = so_enqueue so \<and>
    so_planning so4 = so_planning so"
  proof (cases engineer)
    case True
    then have "hand_to_dispatcher now u i (pc_status c) b c3 so1 = (c4, so4)" using e by simp
    from handed_to_dispatcher[OF this i3 f1] id3 o1 others_kept_trans[OF o1, of so4]
    show ?thesis by (simp add: so1_def)
  next
    case False
    then show ?thesis using e i3 id3 o1 by (auto simp: so1_def)
  qed
  show ?thesis
  proof (cases "payload_spec payload")
    case None
    then show ?thesis using r four by simp
  next
    case (Some spec)
    then have "from_agent PRODUCTION_PREPARATION_ENGINEER_AGENT_ID payload = False"
      by (auto simp: payload_spec_def from_agent_def warehouse_availability_spec_def WAREHOUSE_AVAILABILITY_SPECS_def
          PICKER_SPEC_def COMPLEX_CHIEF_SPEC_def role_ids jstring_def dict_get_def split: if_splits)
    then have "so4 = so1" using e by (simp add: engineer_def)
    with f1 have f4: "dict_get (so_tasks so4) u = None" by simp
    from Some r have "hand_to_omto now u i (pc_status c) spec payload c4 so4 = (c', so')" by simp
    from handed_to_omto[OF this _ f4] four others_kept_trans[of "pc_id c" so so4 so'] show ?thesis by simp
  qed
qed

definition op_ok :: "pcase \<Rightarrow> store \<Rightarrow> pcase \<Rightarrow> store \<Rightarrow> bool" where
  "op_ok c so c' so' \<longleftrightarrow> case_inv c' so' \<and> pc_id c' = pc_id c \<and> others_kept (pc_id c) so so' \<and>
     so_enqueue so' = so_enqueue so \<and> so_planning so' = so_planning so"

text \<open>The task goes on blocking the case.\<close>

lemma still_blocked:
  assumes "case_inv c so" "pc_current_task c = Some i" "task_case t = JStr (pc_id c)" "blocking t"
    "pc_id c' = pc_id c" "pc_current_task c' = Some i" "pc_control_point c' = pc_control_point c"
    "pc_status c' \<in> set case_statuses" "pc_status c' \<notin> set TERMINAL_CASE_STATUSES"
    "pc_closed_reason c' = pc_closed_reason c" "pc_closed_at c' = pc_closed_at c"
  shows "op_ok c so c' (put_task i t so)"
proof -
  have w: "case_wf c" "tasks_wf c (so_tasks so)" using assms(1) by (simp_all add: case_inv_def)
  obtain t0 where t0: "dict_get (so_tasks so) i = Some t0" "task_case t0 = JStr (pc_id c)"
    using w(2) assms(2) by (auto simp: tasks_wf_def)
  have "pc_status c \<noteq> ''closed''" using w(1) assms(2) by (auto simp: case_wf_def TERMINAL_CASE_STATUSES_def)
  with w(1) assms have "case_wf c'" by (auto simp: case_wf_def TERMINAL_CASE_STATUSES_def)
  moreover have "tasks_wf c' (so_tasks (put_task i t so))"
    unfolding put_task_frame by (rule tasks_wf_put[OF w(2)]) (use assms in auto)
  moreover have "others_kept (pc_id c) so (put_task i t so)"
    by (rule others_kept_put) (use assms t0 in auto)
  ultimately show ?thesis using assms by (simp add: op_ok_def case_inv_def)
qed

lemma op_ok_same:
  "so_tasks a = so_tasks b \<Longrightarrow> so_enqueue a = so_enqueue b \<Longrightarrow> so_planning a = so_planning b \<Longrightarrow>
   op_ok c so c' a \<longleftrightarrow> op_ok c so c' b"
  by (simp add: op_ok_def case_inv_def others_kept_def)

lemma op_ok_event [simp]: "op_ok c so c' (append_event x ty k p n pl a so') \<longleftrightarrow> op_ok c so c' so'"
  by (simp add: op_ok_def case_inv_def others_kept_def)

lemma received_facts:
  "pc_id (received_case payload c) = pc_id c" "pc_status (received_case payload c) = pc_status c"
  "pc_current_task (received_case payload c) = pc_current_task c"
  "pc_control_point (received_case payload c) = pc_control_point c"
  "pc_closed_reason (received_case payload c) = pc_closed_reason c"
  "pc_closed_at (received_case payload c) = pc_closed_at c"
  using received_view[of payload c] unfolding case_view_def by simp_all

lemma applied:
  assumes "apply_role_agent_result digest now u ty result i c t so = Inr (c', so')" "case_inv c so"
    "pc_current_task c = Some i" "task_case t = JStr (pc_id c)" "dict_get (so_tasks so) u = None" "\<not> asks_terminal c result"
  shows "op_ok c so c' so'"
proof -
  define payload where "payload = completed_payload c result"
  define c1 where "c1 = received_case payload c"
  define t1 where "t1 = received_task payload t"
  note v = received_facts[of payload c, folded c1_def]
  have t1: "task_case t1 = JStr (pc_id c)" using assms(4) by (simp add: t1_def)
  have wf1: "case_wf c1" "tasks_wf c1 (so_tasks so)"
    using assms(2) v by (simp_all add: case_inv_def case_wf_def tasks_wf_def)
  have live: "status_after c1 payload ''agent_waiting'' \<notin> set TERMINAL_CASE_STATUSES"
    "status_after c1 payload ''new'' \<notin> set TERMINAL_CASE_STATUSES"
    unfolding payload_def c1_def status_after_received
    by (rule status_after_live[OF assms(6)], simp add: known_statuses)+
  have sa: "status_after c1 p f = status_after c p f" for p f by (simp add: c1_def)
  let ?st = "role_status_of result"
  from assms(1) have st: "?st \<in> set role_statuses" by (simp add: apply_role_agent_result_def Let_def split: if_splits)
  then consider (human) "?st = ''waiting_human''" | (ext) "?st = ''waiting_external''" | (fin) "?st = ''completed''"
    | (bad) "?st = ''failed''" by (auto simp: role_statuses_def)
  then show ?thesis
  proof cases
    case human
    have r: "c' = fst (wait_for_human payload c1 t1)"
      "so_tasks so' = so_tasks (put_task i (snd (wait_for_human payload c1 t1)) so)"
      "so_enqueue so' = so_enqueue (put_task i (snd (wait_for_human payload c1 t1)) so)"
      "so_planning so' = so_planning (put_task i (snd (wait_for_human payload c1 t1)) so)"
      using assms(1) human by (auto simp: apply_role_agent_result_def Let_def payload_def[symmetric] c1_def[symmetric]
          t1_def[symmetric] wait_for_human_def role_statuses_def sa)
    show ?thesis unfolding op_ok_same[OF r(2-4)]
      by (rule still_blocked[OF assms(2,3)])
        (use v t1 live known_statuses assms(3) in \<open>auto simp: r(1) wait_for_human_def blocking_def BLOCKING_TASK_STATUSES_def
          task_case_def status_after_known\<close>)
  next
    case ext
    have r: "c' = fst (wait_for_external payload c1 t1)"
      "so_tasks so' = so_tasks (put_task i (snd (wait_for_external payload c1 t1)) so)"
      "so_enqueue so' = so_enqueue (put_task i (snd (wait_for_external payload c1 t1)) so)"
      "so_planning so' = so_planning (put_task i (snd (wait_for_external payload c1 t1)) so)"
      using assms(1) ext by (auto simp: apply_role_agent_result_def Let_def payload_def[symmetric] c1_def[symmetric]
          t1_def[symmetric] wait_for_external_def role_statuses_def)
    show ?thesis unfolding op_ok_same[OF r(2-4)]
      by (rule still_blocked[OF assms(2,3)])
        (use v t1 known_statuses assms(3) in \<open>auto simp: r(1) wait_for_external_def blocking_def BLOCKING_TASK_STATUSES_def
          task_case_def\<close>)
  next
    case bad
    have r: "c' = fst (role_failed now payload c1 t1)"
      "so_tasks so' = so_tasks (put_task i (snd (role_failed now payload c1 t1)) so)"
      "so_enqueue so' = so_enqueue (put_task i (snd (role_failed now payload c1 t1)) so)"
      "so_planning so' = so_planning (put_task i (snd (role_failed now payload c1 t1)) so)"
      using assms(1) bad by (auto simp: apply_role_agent_result_def Let_def payload_def[symmetric] c1_def[symmetric]
          t1_def[symmetric] role_failed_def role_statuses_def)
    show ?thesis unfolding op_ok_same[OF r(2-4)]
      by (rule still_blocked[OF assms(2,3)])
        (use v t1 known_statuses assms(3) in \<open>auto simp: r(1) role_failed_def blocking_def BLOCKING_TASK_STATUSES_def
          task_case_def Let_def\<close>)
  next
    case fin
    then obtain so2 where r: "role_completed now u i payload c1 t1 so = Inr (c', so2)"
      "so_tasks so' = so_tasks so2" "so_enqueue so' = so_enqueue so2" "so_planning so' = so_planning so2"
      using assms(1) by (auto simp: apply_role_agent_result_def Let_def payload_def[symmetric] c1_def[symmetric]
          t1_def[symmetric] role_statuses_def split: sum.splits)
    have "task_case t1 = JStr (pc_id c1)" "pc_current_task c1 = Some i" using t1 v assms(3) by simp_all
    from completed[OF r(1) wf1(2,1) this(2,1) assms(5) live(2)] v r
    show ?thesis by (simp add: op_ok_def case_inv_def others_kept_def)
  qed
qed

section \<open>The operations as steps of a case\<close>

definition fresh_task :: "string \<Rightarrow> store \<Rightarrow> bool" where
  "fresh_task u so \<longleftrightarrow> dict_get (so_tasks so) u = None"

definition poll_step :: "pcase \<Rightarrow> store \<Rightarrow> pcase \<Rightarrow> store \<Rightarrow> bool" where
  "poll_step c so c' so' \<longleftrightarrow>
     (\<exists>now u d a. fresh_task u so \<and> upsert_known now u d (c\<lparr>pc_synced_at := Some now\<rparr>) so = (c', so', a))"

definition close_step :: "pcase \<Rightarrow> store \<Rightarrow> pcase \<Rightarrow> store \<Rightarrow> bool" where
  "close_step c so c' so' \<longleftrightarrow>
     (\<exists>now reasons. pc_status c \<in> set SOURCE_MONITORED_CASE_STATUSES \<and> close_inactive now reasons c so = (c', so'))"

definition assign_step :: "pcase \<Rightarrow> store \<Rightarrow> pcase \<Rightarrow> store \<Rightarrow> bool" where
  "assign_step c so c' so' \<longleftrightarrow> (\<exists>now u b. fresh_task u so \<and> enqueue_role_agent now u c so = (c', so', b))"

text \<open>The agents never ask for a terminal status; a result handed in is held to the same.\<close>

definition execute_step :: "pcase \<Rightarrow> store \<Rightarrow> pcase \<Rightarrow> store \<Rightarrow> bool" where
  "execute_step c so c' so' \<longleftrightarrow>
     (\<exists>run_agent digest now u i. fresh_task u so \<and> (\<forall>a p r. run_agent a p = Some r \<longrightarrow> \<not> asks_terminal c r) \<and>
        execute_case_task run_agent digest now u i c so = Inr (Applied, c', so'))"

definition resume_step :: "pcase \<Rightarrow> store \<Rightarrow> pcase \<Rightarrow> store \<Rightarrow> bool" where
  "resume_step c so c' so' \<longleftrightarrow>
     (\<exists>digest now u r. fresh_task u so \<and> \<not> asks_terminal c (dict_setdefault ''agent_id'' (jtext_opt (pc_current_agent c)) r) \<and>
        resume_case_agent digest now u r c so = Inr (Some (c', so')))"

text \<open>A confirmation of the engineer or of the dispatcher concerns a task of that agent.\<close>

definition waits_for :: "string \<Rightarrow> pcase \<Rightarrow> store \<Rightarrow> bool" where
  "waits_for agent c so \<longleftrightarrow> (\<forall>i t. waiting_task_of c so = Some (i, t) \<longrightarrow> from_agent agent (pt_final_result t))"

definition confirm_step :: "pcase \<Rightarrow> store \<Rightarrow> pcase \<Rightarrow> store \<Rightarrow> bool" where
  "confirm_step c so c' so' \<longleftrightarrow>
     (\<exists>digest now u user reply. fresh_task u so \<and>
        (waits_for PRODUCTION_PREPARATION_ENGINEER_AGENT_ID c so \<and>
           confirm_engineer_purchase digest now u user c so = Inr (reply, c', so') \<or>
         waits_for PRODUCTION_DISPATCHER_AGENT_ID c so \<and>
           (\<exists>m. confirm_dispatcher_supply digest now u user m c so = Inr (reply, c', so')) \<or>
         (\<exists>summary_of action agent.
           confirm_warehouse_availability_conclusion summary_of digest now u user action agent c so = Inr (reply, c', so'))))"

definition acknowledge_step :: "pcase \<Rightarrow> store \<Rightarrow> pcase \<Rightarrow> store \<Rightarrow> bool" where
  "acknowledge_step c so c' so' \<longleftrightarrow>
     (\<exists>prefix event agent now user reply. acknowledge_critical prefix event agent now user c so = (reply, c', so'))"

lemma operationI:
  assumes "\<And>c so c' so'. oper c so c' so' \<Longrightarrow> case_inv c so \<Longrightarrow>
    case_inv c' so' \<and> pc_id c' = pc_id c \<and> others_kept (pc_id c) so so'"
  shows "case_operation oper"
  using assms by unfold_locales auto

lemma synced_view [simp]: "case_view (c\<lparr>pc_synced_at := x\<rparr>) = case_view c" "case_view (c\<lparr>pc_metadata := m\<rparr>) = case_view c"
  by (simp_all add: case_view_def)

lemma synced_inv: "case_inv (c\<lparr>pc_synced_at := x\<rparr>) so \<longleftrightarrow> case_inv c so" "case_inv (c\<lparr>pc_metadata := m\<rparr>) so \<longleftrightarrow> case_inv c so"
  by (rule case_inv_view; simp)+

lemma current_task: "case_inv c so \<Longrightarrow> pc_current_task c = Some i \<Longrightarrow> dict_get (so_tasks so) i = Some t \<Longrightarrow> task_case t = JStr (pc_id c)"
  by (auto simp: case_inv_def tasks_wf_def)

lemma not_quality: "result_agent_of c (completed_payload c r) \<notin> set QUALITY_ROLE_AGENT_IDS \<Longrightarrow> \<not> asks_terminal c r"
  by (auto simp: asks_terminal_def status_after_def Let_def known_statuses)

interpretation polling: case_operation poll_step
proof (rule operationI)
  fix c so c' so' assume "poll_step c so c' so'" and i: "case_inv c so"
  then obtain now u d a where u: "upsert_known now u d (c\<lparr>pc_synced_at := Some now\<rparr>) so = (c', so', a)"
    and f: "dict_get (so_tasks so) u = None" by (auto simp: poll_step_def fresh_task_def)
  from upserted[OF u _ f] i show "case_inv c' so' \<and> pc_id c' = pc_id c \<and> others_kept (pc_id c) so so'"
    by (simp add: synced_inv)
qed

interpretation closing: case_operation close_step
proof (rule operationI)
  fix c so c' so' assume "close_step c so c' so'" and i: "case_inv c so"
  then obtain now reasons where "close_inactive now reasons c so = (c', so')" by (auto simp: close_step_def)
  from archived[OF this[unfolded close_inactive_def Let_def]] i
  show "case_inv c' so' \<and> pc_id c' = pc_id c \<and> others_kept (pc_id c) so so'" by (simp add: synced_inv)
qed

interpretation assigning: case_operation assign_step
  by (rule operationI) (auto simp: assign_step_def fresh_task_def dest: enqueued(1,2,3))

interpretation executing: case_operation execute_step
proof (rule operationI)
  fix c so c' so' assume "execute_step c so c' so'" and inv: "case_inv c so"
  then obtain run_agent digest now u i where f: "dict_get (so_tasks so) u = None"
    and g: "\<forall>a p r. run_agent a p = Some r \<longrightarrow> \<not> asks_terminal c r"
    and e: "execute_case_task run_agent digest now u i c so = Inr (Applied, c', so')"
    by (auto simp: execute_step_def fresh_task_def)
  obtain t where t: "dict_get (so_tasks so) i = Some t" using e by (cases "dict_get (so_tasks so) i") (auto simp: execute_case_task_def)
  have cur: "pc_current_task c = Some i" using e t by (auto simp: execute_case_task_def split: if_splits)
  define t1 where "t1 = t\<lparr>pt_status := Task_Running, pt_started_at := Some now\<rparr>"
  define so1 where "so1 = put_task i t1 so"
  obtain r where r: "\<not> asks_terminal c r"
    "apply_role_agent_result digest now u ''role_agent_result_received'' r i c t1 so1 = Inr (c', so')"
    using e t cur g by (auto simp: execute_case_task_def Let_def t1_def[symmetric] so1_def[symmetric] map_sum_def
        split: option.splits sum.splits)
  have tc: "task_case t1 = JStr (pc_id c)" using current_task[OF inv cur t] by (simp add: t1_def)
  have b: "op_ok c so c so1"
    unfolding so1_def by (rule still_blocked[OF inv cur tc])
      (use inv cur in \<open>auto simp: t1_def blocking_def BLOCKING_TASK_STATUSES_def case_inv_def case_wf_def\<close>)
  have "dict_get (so_tasks so1) u = None" using f t by (auto simp: so1_def)
  from applied[OF r(2) _ cur tc this r(1)] b
  show "case_inv c' so' \<and> pc_id c' = pc_id c \<and> others_kept (pc_id c) so so'"
    by (auto simp: op_ok_def intro: others_kept_trans)
qed

interpretation resuming: case_operation resume_step
proof (rule operationI)
  fix c so c' so' assume "resume_step c so c' so'" and inv: "case_inv c so"
  then obtain digest now u r where f: "dict_get (so_tasks so) u = None"
    and g: "\<not> asks_terminal c (dict_setdefault ''agent_id'' (jtext_opt (pc_current_agent c)) r)"
    and e: "resume_case_agent digest now u r c so = Inr (Some (c', so'))"
    by (auto simp: resume_step_def fresh_task_def)
  then obtain i t where c: "pc_current_task c = Some i" "dict_get (so_tasks so) i = Some t"
    and a: "apply_role_agent_result digest now u ''role_agent_resumed''
      (dict_setdefault ''agent_id'' (jtext_opt (pc_current_agent c)) r) i c t so = Inr (c', so')"
    by (auto simp: resume_case_agent_def current_task_of_def map_sum_def split: option.splits if_splits sum.splits)
  from applied[OF a inv c(1) current_task[OF inv c] f g]
  show "case_inv c' so' \<and> pc_id c' = pc_id c \<and> others_kept (pc_id c) so so'" by (simp add: op_ok_def)
qed

lemma named_agent:
  assumes "from_agent a p" "a \<noteq> []"
  shows "result_agent_of c (completed_payload c p) = a"
proof -
  have "dict_get p ''agent_id'' = Some (JStr a)"
    using assms(1) by (auto simp: from_agent_def jget_iff split: option.splits)
  then show ?thesis using assms(2)
    by (simp add: result_agent_of_def completed_payload_def jget_iff jor_def jstring_def)
qed

lemma confirmed_agent:
  assumes "from_agent a (pt_final_result t)"
  shows "from_agent a (confirmation_payload summary key m t)"
  using assms by (simp add: from_agent_def confirmation_payload_def jget_iff dict_update_frame)

lemma resumed:
  assumes "resume_confirmed digest now u act p i c1 t so1 = Inr (reply, c', so')" "case_inv c so"
    "case_view c1 = case_view c" "so_tasks so1 = so_tasks so" "waiting_task_of c so = Some (i, t)"
    "dict_get (so_tasks so) u = None" "from_agent a p" "a \<notin> set QUALITY_ROLE_AGENT_IDS" "a \<noteq> []"
  shows "case_inv c' so' \<and> pc_id c' = pc_id c \<and> others_kept (pc_id c) so so'"
proof -
  have i1: "case_inv c1 so1" using case_inv_view[OF assms(3,4)] assms(2) by simp
  have v: "pc_id c1 = pc_id c" "pc_current_task c1 = pc_current_task c" using assms(3) by (simp_all add: case_view_def)
  have w: "pc_current_task c = Some i" "dict_get (so_tasks so) i = Some t"
    using assms(5) by (auto simp: waiting_task_of_def current_task_of_def split: option.splits if_splits)
  have "\<not> asks_terminal c1 p"
    by (rule not_quality) (simp add: named_agent[OF assms(7,9)] assms(8))
  moreover have "apply_role_agent_result digest now u ''role_agent_resumed'' p i c1 t so1 = Inr (c', so')"
    using assms(1) by (auto simp: resume_confirmed_def map_sum_def split: sum.splits)
  moreover have "task_case t = JStr (pc_id c1)" using current_task[OF assms(2) w] v by simp
  ultimately have "op_ok c1 so1 c' so'" using applied i1 w v assms(4,6) by auto
  then show ?thesis using v assms(4) by (simp add: op_ok_def others_kept_def)
qed

lemma role_agents_not_quality:
  "PRODUCTION_PREPARATION_ENGINEER_AGENT_ID \<notin> set QUALITY_ROLE_AGENT_IDS" "PRODUCTION_PREPARATION_ENGINEER_AGENT_ID \<noteq> []"
  "PRODUCTION_DISPATCHER_AGENT_ID \<notin> set QUALITY_ROLE_AGENT_IDS" "PRODUCTION_DISPATCHER_AGENT_ID \<noteq> []"
  "warehouse_availability_spec agent = Some spec \<Longrightarrow> as_agent_id spec \<notin> set QUALITY_ROLE_AGENT_IDS \<and> as_agent_id spec \<noteq> []"
  by (auto simp: QUALITY_ROLE_AGENT_IDS_def role_ids warehouse_availability_spec_def WAREHOUSE_AVAILABILITY_SPECS_def
      PICKER_SPEC_def COMPLEX_CHIEF_SPEC_def dict_get_def split: if_splits)

lemma confirmed_views [simp]:
  "case_view (engineer_confirmed now user c) = case_view c" "case_view (dispatcher_confirmed now user k c) = case_view c"
  "case_view (conclusion_confirmed spec now user k c) = case_view c"
  "so_tasks (engineer_confirmed_event now user i c so) = so_tasks so"
  "so_tasks (dispatcher_confirmed_event now user k i c so) = so_tasks so"
  "so_tasks (conclusion_event spec now user k i c so) = so_tasks so"
  by (simp_all add: engineer_confirmed_def dispatcher_confirmed_def conclusion_confirmed_def
      engineer_confirmed_event_def dispatcher_confirmed_event_def conclusion_event_def)

lemma conclusion_agent: "from_agent (as_agent_id spec) (conclusion_payload spec summary m t)"
  by (simp add: from_agent_def conclusion_payload_def jget_iff dict_update_def)

interpretation confirming: case_operation confirm_step
proof (rule operationI)
  fix c so c' so' assume "confirm_step c so c' so'" and inv: "case_inv c so"
  then obtain digest now u user reply where f: "dict_get (so_tasks so) u = None" and
    "waits_for PRODUCTION_PREPARATION_ENGINEER_AGENT_ID c so \<and>
       confirm_engineer_purchase digest now u user c so = Inr (reply, c', so') \<or>
     waits_for PRODUCTION_DISPATCHER_AGENT_ID c so \<and>
       (\<exists>m. confirm_dispatcher_supply digest now u user m c so = Inr (reply, c', so')) \<or>
     (\<exists>summary_of action agent.
       confirm_warehouse_availability_conclusion summary_of digest now u user action agent c so = Inr (reply, c', so'))"
    unfolding confirm_step_def fresh_task_def by blast
  then consider (engineer) "waits_for PRODUCTION_PREPARATION_ENGINEER_AGENT_ID c so"
      "confirm_engineer_purchase digest now u user c so = Inr (reply, c', so')"
    | (dispatcher) m where "waits_for PRODUCTION_DISPATCHER_AGENT_ID c so"
      "confirm_dispatcher_supply digest now u user m c so = Inr (reply, c', so')"
    | (warehouse) summary_of action agent where
      "confirm_warehouse_availability_conclusion summary_of digest now u user action agent c so = Inr (reply, c', so')"
    by blast
  then show "case_inv c' so' \<and> pc_id c' = pc_id c \<and> others_kept (pc_id c) so so'"
  proof cases
    case engineer
    let ?c = "engineer_confirmed now user c"
    consider "c' = c" "so' = so" | i t where "waiting_task_of c so = Some (i, t)"
      "resume_confirmed digest now u ''purchase_confirmed'' (confirmation_payload SUMMARY_ENGINEER_CONFIRMED
         ''production_preparation_engineer_output'' (pc_metadata ?c) t) i ?c t (engineer_confirmed_event now user i ?c so)
       = Inr (reply, c', so')"
      using engineer(2) by (auto simp: confirm_engineer_purchase_def Let_def split: if_splits option.splits)
    then show ?thesis
    proof cases
      case (2 i t)
      with engineer(1) have "from_agent PRODUCTION_PREPARATION_ENGINEER_AGENT_ID (pt_final_result t)"
        by (simp add: waits_for_def)
      from resumed[OF 2(2) inv confirmed_views(1,4) 2(1) f confirmed_agent[OF this] role_agents_not_quality(1,2)]
      show ?thesis .
    qed (use inv in simp)
  next
    case (dispatcher m)
    let ?c = "dispatcher_confirmed now user (or_text m ''procurement'') c"
    consider "c' = c" "so' = so" | i t where "waiting_task_of c so = Some (i, t)"
      "resume_confirmed digest now u ''supply_confirmed'' (confirmation_payload SUMMARY_DISPATCHER_CONFIRMED
         ''production_dispatcher_output'' (pc_metadata ?c) t) i ?c t
         (dispatcher_confirmed_event now user (or_text m ''procurement'') i ?c so) = Inr (reply, c', so')"
      using dispatcher(2) by (auto simp: confirm_dispatcher_supply_def Let_def split: if_splits option.splits)
    then show ?thesis
    proof cases
      case (2 i t)
      with dispatcher(1) have "from_agent PRODUCTION_DISPATCHER_AGENT_ID (pt_final_result t)"
        by (simp add: waits_for_def)
      from resumed[OF 2(2) inv confirmed_views(2,5) 2(1) f confirmed_agent[OF this] role_agents_not_quality(3,4)]
      show ?thesis .
    qed (use inv in simp)
  next
    case (warehouse summary_of action agent)
    let ?k = "\<lambda>spec. or_text action (default_action (jstr (jget (pc_metadata c) (spec_key spec ''decision_kind''))))"
    let ?c = "\<lambda>spec. conclusion_confirmed spec now user (?k spec) c"
    consider "c' = c" "so' = so" | spec i t where "warehouse_availability_spec agent = Some spec"
      "waiting_task_of c so = Some (i, t)"
      "resume_confirmed digest now u (as_prefix spec @ ''_confirmed'')
         (conclusion_payload spec (summary_of (?k spec)) (pc_metadata (?c spec)) t) i (?c spec) t
         (conclusion_event spec now user (?k spec) i (?c spec) so) = Inr (reply, c', so')"
      using warehouse by (auto simp: confirm_warehouse_availability_conclusion_def Let_def split: if_splits option.splits)
    then show ?thesis
    proof cases
      case (2 spec i t)
      note q = role_agents_not_quality(5)[OF 2(1)]
      from resumed[OF 2(3) inv confirmed_views(3,6) 2(2) f conclusion_agent q[THEN conjunct1] q[THEN conjunct2]]
      show ?thesis .
    qed (use inv in simp)
  qed
qed

lemma acknowledged:
  assumes "acknowledge_critical prefix event agent now user c so = (reply, c', so')"
  shows "case_view c' = case_view c \<and> so_tasks so' = so_tasks so"
proof -
  let ?m = "pc_metadata c"
  consider "jget ?m (prefix @ ''_decision_kind'') \<noteq> JStr ''critical_acknowledgement''"
    | "jget ?m (prefix @ ''_decision_kind'') = JStr ''critical_acknowledgement''"
      "jtruthy (jget ?m (prefix @ ''_critical_acknowledged_at''))"
    | "jget ?m (prefix @ ''_decision_kind'') = JStr ''critical_acknowledgement''"
      "\<not> jtruthy (jget ?m (prefix @ ''_critical_acknowledged_at''))" by blast
  then show ?thesis
    by cases (use assms in \<open>auto simp: acknowledge_critical_def Let_def\<close>)
qed

interpretation acknowledging: case_operation acknowledge_step
proof (rule operationI)
  fix c so c' so' assume "acknowledge_step c so c' so'" and inv: "case_inv c so"
  then obtain prefix event agent now user reply where
    "acknowledge_critical prefix event agent now user c so = (reply, c', so')" unfolding acknowledge_step_def by blast
  note a = acknowledged[OF this]
  with case_inv_view[of c' c so' so] inv have "case_inv c' so'" by simp
  with a show "case_inv c' so' \<and> pc_id c' = pc_id c \<and> others_kept (pc_id c) so so'"
    by (simp add: case_view_def)
qed

end
