(* ===== verification/Case_Maintenance.thy ===== *)
theory Case_Maintenance
  imports Role_Results
begin

text \<open>
  The maintenance that follows a poll (\<open>app/services/procurement_orchestrator_service.py\<close>): the two
  warehouse workspaces report and restart lost work, undecided engineer cases move to the chief of the
  warehouse complex, cases covered by supplier orders come back to the purchase manager, material cases
  are stamped.  The interval after which a dispatch counts as lost is a setting, in microseconds.

  A step works on one case and answers \<open>None\<close> where the code raises: a recorded dispatch time without an
  offset cannot be compared with the clock.
\<close>

section \<open>Texts\<close>

definition LABEL_PRODUCTION_DISPATCHER :: string where
  "LABEL_PRODUCTION_DISPATCHER =
    [CHR 0xD0, CHR 0x90, CHR 0xD0, CHR 0xB3, CHR 0xD0, CHR 0xB5, CHR 0xD0, CHR 0xBD, CHR 0xD1, CHR
     0x82, CHR 0x20, CHR 0xD0, CHR 0xB4, CHR 0xD0, CHR 0xB8, CHR 0xD1, CHR 0x81, CHR 0xD0, CHR 0xBF,
     CHR 0xD0, CHR 0xB5, CHR 0xD1, CHR 0x82, CHR 0xD1, CHR 0x87, CHR 0xD0, CHR 0xB5, CHR 0xD1, CHR
     0x80, CHR 0xD0, CHR 0xB0, CHR 0x20, CHR 0xD0, CHR 0xBF, CHR 0xD1, CHR 0x80, CHR 0xD0, CHR 0xBE,
     CHR 0xD0, CHR 0xB8, CHR 0xD0, CHR 0xB7, CHR 0xD0, CHR 0xB2, CHR 0xD0, CHR 0xBE, CHR 0xD0, CHR
     0xB4, CHR 0xD1, CHR 0x81, CHR 0xD1, CHR 0x82, CHR 0xD0, CHR 0xB2, CHR 0xD0, CHR 0xB0]"

definition LABEL_PRODUCTION_PREPARATION_ENGINEER :: string where
  "LABEL_PRODUCTION_PREPARATION_ENGINEER =
    [CHR 0xD0, CHR 0x90, CHR 0xD0, CHR 0xB3, CHR 0xD0, CHR 0xB5, CHR 0xD0, CHR 0xBD, CHR 0xD1, CHR
     0x82, CHR 0x20, CHR 0xD0, CHR 0xB7, CHR 0xD0, CHR 0xB0, CHR 0xD0, CHR 0xBA, CHR 0xD1, CHR 0x83,
     CHR 0xD0, CHR 0xBF, CHR 0xD0, CHR 0xBE, CHR 0xD0, CHR 0xBA, CHR 0x20, CHR 0xD0, CHR 0xB8, CHR
     0x20, CHR 0xD0, CHR 0xBB, CHR 0xD0, CHR 0xBE, CHR 0xD0, CHR 0xB3, CHR 0xD0, CHR 0xB8, CHR 0xD1,
     CHR 0x81, CHR 0xD1, CHR 0x82, CHR 0xD0, CHR 0xB8, CHR 0xD0, CHR 0xBA, CHR 0xD0, CHR 0xB8]"

definition LABEL_WAREHOUSE_PICKER :: string where
  "LABEL_WAREHOUSE_PICKER =
    [CHR 0xD0, CHR 0x98, CHR 0xD0, CHR 0x98, CHR 0x2D, CHR 0xD0, CHR 0xB0, CHR 0xD0, CHR 0xB3, CHR
     0xD0, CHR 0xB5, CHR 0xD0, CHR 0xBD, CHR 0xD1, CHR 0x82, CHR 0x20, CHR 0xD0, CHR 0xBF, CHR 0xD0,
     CHR 0xBE, CHR 0x20, CHR 0xD0, CHR 0xB7, CHR 0xD0, CHR 0xB0, CHR 0xD0, CHR 0xBA, CHR 0xD1, CHR
     0x83, CHR 0xD0, CHR 0xBF, CHR 0xD0, CHR 0xBA, CHR 0xD0, CHR 0xB5]"

definition LABEL_WAREHOUSE_COMPLEX_CHIEF :: string where
  "LABEL_WAREHOUSE_COMPLEX_CHIEF =
    [CHR 0xD0, CHR 0x98, CHR 0xD0, CHR 0x98, CHR 0x2D, CHR 0xD0, CHR 0xB0, CHR 0xD0, CHR 0xB3, CHR
     0xD0, CHR 0xB5, CHR 0xD0, CHR 0xBD, CHR 0xD1, CHR 0x82, CHR 0x20, CHR 0xD0, CHR 0xBF, CHR 0xD0,
     CHR 0xBE, CHR 0x20, CHR 0xD0, CHR 0xB7, CHR 0xD0, CHR 0xB0, CHR 0xD0, CHR 0xBA, CHR 0xD1, CHR
     0x83, CHR 0xD0, CHR 0xBF, CHR 0xD0, CHR 0xBA, CHR 0xD0, CHR 0xB0, CHR 0xD0, CHR 0xBC]"

definition LABEL_PURCHASE_MANAGER :: string where
  "LABEL_PURCHASE_MANAGER =
    [CHR 0xD0, CHR 0x98, CHR 0xD0, CHR 0x98, CHR 0x2D, CHR 0xD0, CHR 0xB0, CHR 0xD0, CHR 0xB3, CHR
     0xD0, CHR 0xB5, CHR 0xD0, CHR 0xBD, CHR 0xD1, CHR 0x82, CHR 0x20, CHR 0xD0, CHR 0xBC, CHR 0xD0,
     CHR 0xB5, CHR 0xD0, CHR 0xBD, CHR 0xD0, CHR 0xB5, CHR 0xD0, CHR 0xB4, CHR 0xD0, CHR 0xB6, CHR
     0xD0, CHR 0xB5, CHR 0xD1, CHR 0x80, CHR 0xD0, CHR 0xB0, CHR 0x20, CHR 0xD0, CHR 0xBF, CHR 0xD0,
     CHR 0xBE, CHR 0x20, CHR 0xD0, CHR 0xB7, CHR 0xD0, CHR 0xB0, CHR 0xD0, CHR 0xBA, CHR 0xD1, CHR
     0x83, CHR 0xD0, CHR 0xBF, CHR 0xD0, CHR 0xBA, CHR 0xD0, CHR 0xB0, CHR 0xD0, CHR 0xBC]"

definition LABEL_OMTO_CHIEF :: string where
  "LABEL_OMTO_CHIEF =
    [CHR 0xD0, CHR 0x90, CHR 0xD0, CHR 0xB3, CHR 0xD0, CHR 0xB5, CHR 0xD0, CHR 0xBD, CHR 0xD1, CHR
     0x82, CHR 0x20, CHR 0xD0, CHR 0xBD, CHR 0xD0, CHR 0xB0, CHR 0xD1, CHR 0x87, CHR 0xD0, CHR 0xB0,
     CHR 0xD0, CHR 0xBB, CHR 0xD1, CHR 0x8C, CHR 0xD0, CHR 0xBD, CHR 0xD0, CHR 0xB8, CHR 0xD0, CHR
     0xBA, CHR 0xD0, CHR 0xB0, CHR 0x20, CHR 0xD0, CHR 0x9E, CHR 0xD0, CHR 0x9C, CHR 0xD0, CHR 0xA2,
     CHR 0xD0, CHR 0x9E]"

definition LABEL_DEPARTMENT_INITIATOR :: string where
  "LABEL_DEPARTMENT_INITIATOR =
    [CHR 0xD0, CHR 0x90, CHR 0xD0, CHR 0xB3, CHR 0xD0, CHR 0xB5, CHR 0xD0, CHR 0xBD, CHR 0xD1, CHR
     0x82, CHR 0x20, CHR 0xD1, CHR 0x80, CHR 0xD1, CHR 0x83, CHR 0xD0, CHR 0xBA, CHR 0xD0, CHR 0xBE,
     CHR 0xD0, CHR 0xB2, CHR 0xD0, CHR 0xBE, CHR 0xD0, CHR 0xB4, CHR 0xD0, CHR 0xB8, CHR 0xD1, CHR
     0x82, CHR 0xD0, CHR 0xB5, CHR 0xD0, CHR 0xBB, CHR 0xD1, CHR 0x8F, CHR 0x20, CHR 0xD0, CHR 0xBF,
     CHR 0xD0, CHR 0xBE, CHR 0xD0, CHR 0xB4, CHR 0xD1, CHR 0x80, CHR 0xD0, CHR 0xB0, CHR 0xD0, CHR
     0xB7, CHR 0xD0, CHR 0xB4, CHR 0xD0, CHR 0xB5, CHR 0xD0, CHR 0xBB, CHR 0xD0, CHR 0xB5, CHR 0xD0,
     CHR 0xBD, CHR 0xD0, CHR 0xB8, CHR 0xD1, CHR 0x8F, CHR 0x20, CHR 0x2F, CHR 0x20, CHR 0xD0, CHR
     0xB8, CHR 0xD0, CHR 0xBD, CHR 0xD0, CHR 0xB8, CHR 0xD1, CHR 0x86, CHR 0xD0, CHR 0xB8, CHR 0xD0,
     CHR 0xB0, CHR 0xD1, CHR 0x82, CHR 0xD0, CHR 0xBE, CHR 0xD1, CHR 0x80, CHR 0xD0, CHR 0xB0]"

definition LABEL_WAREHOUSE_MANAGER :: string where
  "LABEL_WAREHOUSE_MANAGER =
    [CHR 0xD0, CHR 0x90, CHR 0xD0, CHR 0xB3, CHR 0xD0, CHR 0xB5, CHR 0xD0, CHR 0xBD, CHR 0xD1, CHR
     0x82, CHR 0x20, CHR 0xD0, CHR 0xBD, CHR 0xD0, CHR 0xB0, CHR 0xD1, CHR 0x87, CHR 0xD0, CHR 0xB0,
     CHR 0xD0, CHR 0xBB, CHR 0xD1, CHR 0x8C, CHR 0xD0, CHR 0xBD, CHR 0xD0, CHR 0xB8, CHR 0xD0, CHR
     0xBA, CHR 0xD0, CHR 0xB0, CHR 0x20, CHR 0xD1, CHR 0x81, CHR 0xD0, CHR 0xBA, CHR 0xD0, CHR 0xBB,
     CHR 0xD0, CHR 0xB0, CHR 0xD0, CHR 0xB4, CHR 0xD0, CHR 0xB0]"

definition LABEL_OMTO_SUPPORT_MANAGER :: string where
  "LABEL_OMTO_SUPPORT_MANAGER =
    [CHR 0xD0, CHR 0x90, CHR 0xD0, CHR 0xB3, CHR 0xD0, CHR 0xB5, CHR 0xD0, CHR 0xBD, CHR 0xD1, CHR
     0x82, CHR 0x20, CHR 0xD0, CHR 0xBC, CHR 0xD0, CHR 0xB5, CHR 0xD0, CHR 0xBD, CHR 0xD0, CHR 0xB5,
     CHR 0xD0, CHR 0xB4, CHR 0xD0, CHR 0xB6, CHR 0xD0, CHR 0xB5, CHR 0xD1, CHR 0x80, CHR 0xD0, CHR
     0xB0, CHR 0x20, CHR 0xD0, CHR 0xBF, CHR 0xD0, CHR 0xBE, CHR 0x20, CHR 0xD1, CHR 0x81, CHR 0xD0,
     CHR 0xBE, CHR 0xD0, CHR 0xBF, CHR 0xD1, CHR 0x80, CHR 0xD0, CHR 0xBE, CHR 0xD0, CHR 0xB2, CHR
     0xD0, CHR 0xBE, CHR 0xD0, CHR 0xB6, CHR 0xD0, CHR 0xB4, CHR 0xD0, CHR 0xB5, CHR 0xD0, CHR 0xBD,
     CHR 0xD0, CHR 0xB8, CHR 0xD1, CHR 0x8E, CHR 0x20, CHR 0xD0, CHR 0x9E, CHR 0xD0, CHR 0x9C, CHR
     0xD0, CHR 0xA2, CHR 0xD0, CHR 0x9E]"

definition LABEL_OTK_HEAD :: string where
  "LABEL_OTK_HEAD =
    [CHR 0xD0, CHR 0x90, CHR 0xD0, CHR 0xB3, CHR 0xD0, CHR 0xB5, CHR 0xD0, CHR 0xBD, CHR 0xD1, CHR
     0x82, CHR 0x20, CHR 0xD0, CHR 0xBD, CHR 0xD0, CHR 0xB0, CHR 0xD1, CHR 0x87, CHR 0xD0, CHR 0xB0,
     CHR 0xD0, CHR 0xBB, CHR 0xD1, CHR 0x8C, CHR 0xD0, CHR 0xBD, CHR 0xD0, CHR 0xB8, CHR 0xD0, CHR
     0xBA, CHR 0xD0, CHR 0xB0, CHR 0x20, CHR 0xD0, CHR 0x9E, CHR 0xD0, CHR 0xA2, CHR 0xD0, CHR 0x9A]"

definition LABEL_QUALITY_ENGINEER :: string where
  "LABEL_QUALITY_ENGINEER =
    [CHR 0xD0, CHR 0x90, CHR 0xD0, CHR 0xB3, CHR 0xD0, CHR 0xB5, CHR 0xD0, CHR 0xBD, CHR 0xD1, CHR
     0x82, CHR 0x20, CHR 0xD0, CHR 0xB8, CHR 0xD0, CHR 0xBD, CHR 0xD0, CHR 0xB6, CHR 0xD0, CHR 0xB5,
     CHR 0xD0, CHR 0xBD, CHR 0xD0, CHR 0xB5, CHR 0xD1, CHR 0x80, CHR 0xD0, CHR 0xB0, CHR 0x20, CHR
     0xD0, CHR 0xBF, CHR 0xD0, CHR 0xBE, CHR 0x20, CHR 0xD0, CHR 0xBA, CHR 0xD0, CHR 0xB0, CHR 0xD1,
     CHR 0x87, CHR 0xD0, CHR 0xB5, CHR 0xD1, CHR 0x81, CHR 0xD1, CHR 0x82, CHR 0xD0, CHR 0xB2, CHR
     0xD1, CHR 0x83]"

definition LABEL_QUALITY_DEPUTY_DIRECTOR :: string where
  "LABEL_QUALITY_DEPUTY_DIRECTOR =
    [CHR 0xD0, CHR 0x90, CHR 0xD0, CHR 0xB3, CHR 0xD0, CHR 0xB5, CHR 0xD0, CHR 0xBD, CHR 0xD1, CHR
     0x82, CHR 0x20, CHR 0xD0, CHR 0xB7, CHR 0xD0, CHR 0xB0, CHR 0xD0, CHR 0xBC, CHR 0xD0, CHR 0xB5,
     CHR 0xD1, CHR 0x81, CHR 0xD1, CHR 0x82, CHR 0xD0, CHR 0xB8, CHR 0xD1, CHR 0x82, CHR 0xD0, CHR
     0xB5, CHR 0xD0, CHR 0xBB, CHR 0xD1, CHR 0x8F, CHR 0x20, CHR 0xD0, CHR 0xB4, CHR 0xD0, CHR 0xB8,
     CHR 0xD1, CHR 0x80, CHR 0xD0, CHR 0xB5, CHR 0xD0, CHR 0xBA, CHR 0xD1, CHR 0x82, CHR 0xD0, CHR
     0xBE, CHR 0xD1, CHR 0x80, CHR 0xD0, CHR 0xB0, CHR 0x20, CHR 0xD0, CHR 0xBF, CHR 0xD0, CHR 0xBE,
     CHR 0x20, CHR 0xD0, CHR 0xBA, CHR 0xD0, CHR 0xB0, CHR 0xD1, CHR 0x87, CHR 0xD0, CHR 0xB5, CHR
     0xD1, CHR 0x81, CHR 0xD1, CHR 0x82, CHR 0xD0, CHR 0xB2, CHR 0xD1, CHR 0x83]"

definition LABEL_QUALITY_KPI :: string where
  "LABEL_QUALITY_KPI =
    [CHR 0xD0, CHR 0x90, CHR 0xD0, CHR 0xB3, CHR 0xD0, CHR 0xB5, CHR 0xD0, CHR 0xBD, CHR 0xD1, CHR
     0x82, CHR 0x20, CHR 0xD0, CHR 0xBA, CHR 0xD0, CHR 0xB0, CHR 0xD1, CHR 0x87, CHR 0xD0, CHR 0xB5,
     CHR 0xD1, CHR 0x81, CHR 0xD1, CHR 0x82, CHR 0xD0, CHR 0xB2, CHR 0xD0, CHR 0xB0, CHR 0x20, CHR
     0x28, CHR 0x4B, CHR 0x50, CHR 0x49, CHR 0x29]"

definition LABEL_PROCUREMENT_LOGISTICS :: string where
  "LABEL_PROCUREMENT_LOGISTICS =
    [CHR 0xD0, CHR 0x90, CHR 0xD0, CHR 0xB3, CHR 0xD0, CHR 0xB5, CHR 0xD0, CHR 0xBD, CHR 0xD1, CHR
     0x82, CHR 0x20, CHR 0xD0, CHR 0xBC, CHR 0xD0, CHR 0xB5, CHR 0xD0, CHR 0xBD, CHR 0xD0, CHR 0xB5,
     CHR 0xD0, CHR 0xB4, CHR 0xD0, CHR 0xB6, CHR 0xD0, CHR 0xB5, CHR 0xD1, CHR 0x80, CHR 0xD0, CHR
     0xB0, CHR 0x20, CHR 0xD0, CHR 0xBF, CHR 0xD0, CHR 0xBE, CHR 0x20, CHR 0xD0, CHR 0xB7, CHR 0xD0,
     CHR 0xB0, CHR 0xD0, CHR 0xBA, CHR 0xD1, CHR 0x83, CHR 0xD0, CHR 0xBF, CHR 0xD0, CHR 0xBA, CHR
     0xD0, CHR 0xB0, CHR 0xD0, CHR 0xBC, CHR 0x20, CHR 0x2F, CHR 0x20, CHR 0xD0, CHR 0x9E, CHR 0xD0,
     CHR 0x9C, CHR 0xD0, CHR 0xA2, CHR 0xD0, CHR 0x9E]"

definition LABEL_FINANCE_DIRECTOR :: string where
  "LABEL_FINANCE_DIRECTOR =
    [CHR 0xD0, CHR 0x90, CHR 0xD0, CHR 0xB3, CHR 0xD0, CHR 0xB5, CHR 0xD0, CHR 0xBD, CHR 0xD1, CHR
     0x82, CHR 0x20, CHR 0xD1, CHR 0x84, CHR 0xD0, CHR 0xB8, CHR 0xD0, CHR 0xBD, CHR 0xD0, CHR 0xB0,
     CHR 0xD0, CHR 0xBD, CHR 0xD1, CHR 0x81, CHR 0xD0, CHR 0xBE, CHR 0xD0, CHR 0xB2, CHR 0xD0, CHR
     0xBE, CHR 0xD0, CHR 0xB3, CHR 0xD0, CHR 0xBE, CHR 0x20, CHR 0xD0, CHR 0xB4, CHR 0xD0, CHR 0xB8,
     CHR 0xD1, CHR 0x80, CHR 0xD0, CHR 0xB5, CHR 0xD0, CHR 0xBA, CHR 0xD1, CHR 0x82, CHR 0xD0, CHR
     0xBE, CHR 0xD1, CHR 0x80, CHR 0xD0, CHR 0xB0]"

definition LABEL_EXECUTIVE_DIRECTOR :: string where
  "LABEL_EXECUTIVE_DIRECTOR =
    [CHR 0xD0, CHR 0x90, CHR 0xD0, CHR 0xB3, CHR 0xD0, CHR 0xB5, CHR 0xD0, CHR 0xBD, CHR 0xD1, CHR
     0x82, CHR 0x20, CHR 0xD0, CHR 0xB8, CHR 0xD1, CHR 0x81, CHR 0xD0, CHR 0xBF, CHR 0xD0, CHR 0xBE,
     CHR 0xD0, CHR 0xBB, CHR 0xD0, CHR 0xBD, CHR 0xD0, CHR 0xB8, CHR 0xD1, CHR 0x82, CHR 0xD0, CHR
     0xB5, CHR 0xD0, CHR 0xBB, CHR 0xD1, CHR 0x8C, CHR 0xD0, CHR 0xBD, CHR 0xD0, CHR 0xBE, CHR 0xD0,
     CHR 0xB3, CHR 0xD0, CHR 0xBE, CHR 0x20, CHR 0xD0, CHR 0xB4, CHR 0xD0, CHR 0xB8, CHR 0xD1, CHR
     0x80, CHR 0xD0, CHR 0xB5, CHR 0xD0, CHR 0xBA, CHR 0xD1, CHR 0x82, CHR 0xD0, CHR 0xBE, CHR 0xD1,
     CHR 0x80, CHR 0xD0, CHR 0xB0]"

definition LABEL_CHIEF_ACCOUNTANT :: string where
  "LABEL_CHIEF_ACCOUNTANT =
    [CHR 0xD0, CHR 0x90, CHR 0xD0, CHR 0xB3, CHR 0xD0, CHR 0xB5, CHR 0xD0, CHR 0xBD, CHR 0xD1, CHR
     0x82, CHR 0x20, CHR 0xD0, CHR 0xB3, CHR 0xD0, CHR 0xBB, CHR 0xD0, CHR 0xB0, CHR 0xD0, CHR 0xB2,
     CHR 0xD0, CHR 0xBD, CHR 0xD0, CHR 0xBE, CHR 0xD0, CHR 0xB3, CHR 0xD0, CHR 0xBE, CHR 0x20, CHR
     0xD0, CHR 0xB1, CHR 0xD1, CHR 0x83, CHR 0xD1, CHR 0x85, CHR 0xD0, CHR 0xB3, CHR 0xD0, CHR 0xB0,
     CHR 0xD0, CHR 0xBB, CHR 0xD1, CHR 0x82, CHR 0xD0, CHR 0xB5, CHR 0xD1, CHR 0x80, CHR 0xD0, CHR
     0xB0]"

definition LABEL_ACCOUNTANT :: string where
  "LABEL_ACCOUNTANT =
    [CHR 0xD0, CHR 0x90, CHR 0xD0, CHR 0xB3, CHR 0xD0, CHR 0xB5, CHR 0xD0, CHR 0xBD, CHR 0xD1, CHR
     0x82, CHR 0x20, CHR 0xD1, CHR 0x81, CHR 0xD0, CHR 0xBE, CHR 0xD1, CHR 0x82, CHR 0xD1, CHR 0x80,
     CHR 0xD1, CHR 0x83, CHR 0xD0, CHR 0xB4, CHR 0xD0, CHR 0xBD, CHR 0xD0, CHR 0xB8, CHR 0xD0, CHR
     0xBA, CHR 0xD0, CHR 0xB0, CHR 0x20, CHR 0xD0, CHR 0xB1, CHR 0xD1, CHR 0x83, CHR 0xD1, CHR 0x85,
     CHR 0xD0, CHR 0xB3, CHR 0xD0, CHR 0xB0, CHR 0xD0, CHR 0xBB, CHR 0xD1, CHR 0x82, CHR 0xD0, CHR
     0xB5, CHR 0xD1, CHR 0x80, CHR 0xD0, CHR 0xB8, CHR 0xD0, CHR 0xB8]"

definition LABEL_LEGAL_SPECIALIST :: string where
  "LABEL_LEGAL_SPECIALIST =
    [CHR 0xD0, CHR 0x90, CHR 0xD0, CHR 0xB3, CHR 0xD0, CHR 0xB5, CHR 0xD0, CHR 0xBD, CHR 0xD1, CHR
     0x82, CHR 0x20, CHR 0xD1, CHR 0x81, CHR 0xD0, CHR 0xBF, CHR 0xD0, CHR 0xB5, CHR 0xD1, CHR 0x86,
     CHR 0xD0, CHR 0xB8, CHR 0xD0, CHR 0xB0, CHR 0xD0, CHR 0xBB, CHR 0xD0, CHR 0xB8, CHR 0xD1, CHR
     0x81, CHR 0xD1, CHR 0x82, CHR 0xD0, CHR 0xB0, CHR 0x20, CHR 0xD1, CHR 0x8E, CHR 0xD1, CHR 0x80,
     CHR 0xD0, CHR 0xB8, CHR 0xD0, CHR 0xB4, CHR 0xD0, CHR 0xB8, CHR 0xD1, CHR 0x87, CHR 0xD0, CHR
     0xB5, CHR 0xD1, CHR 0x81, CHR 0xD0, CHR 0xBA, CHR 0xD0, CHR 0xBE, CHR 0xD0, CHR 0xB9, CHR 0x20,
     CHR 0xD1, CHR 0x81, CHR 0xD0, CHR 0xBB, CHR 0xD1, CHR 0x83, CHR 0xD0, CHR 0xB6, CHR 0xD0, CHR
     0xB1, CHR 0xD1, CHR 0x8B]"

definition LABEL_CFO_HEAD :: string where
  "LABEL_CFO_HEAD =
    [CHR 0xD0, CHR 0x90, CHR 0xD0, CHR 0xB3, CHR 0xD0, CHR 0xB5, CHR 0xD0, CHR 0xBD, CHR 0xD1, CHR
     0x82, CHR 0x20, CHR 0xD1, CHR 0x80, CHR 0xD1, CHR 0x83, CHR 0xD0, CHR 0xBA, CHR 0xD0, CHR 0xBE,
     CHR 0xD0, CHR 0xB2, CHR 0xD0, CHR 0xBE, CHR 0xD0, CHR 0xB4, CHR 0xD0, CHR 0xB8, CHR 0xD1, CHR
     0x82, CHR 0xD0, CHR 0xB5, CHR 0xD0, CHR 0xBB, CHR 0xD1, CHR 0x8F, CHR 0x20, CHR 0xD0, CHR 0xA6,
     CHR 0xD0, CHR 0xA4, CHR 0xD0, CHR 0x9E]"

definition RERUN_HEAD :: string where
  "RERUN_HEAD =
    [CHR 0xD0, CHR 0x9E, CHR 0xD1, CHR 0x80, CHR 0xD0, CHR 0xBA, CHR 0xD0, CHR 0xB5, CHR 0xD1, CHR
     0x81, CHR 0xD1, CHR 0x82, CHR 0xD1, CHR 0x80, CHR 0xD0, CHR 0xB0, CHR 0xD1, CHR 0x82, CHR 0xD0,
     CHR 0xBE, CHR 0xD1, CHR 0x80, CHR 0x20, CHR 0xD0, CHR 0xBF, CHR 0xD0, CHR 0xBE, CHR 0xD0, CHR
     0xB2, CHR 0xD1, CHR 0x82, CHR 0xD0, CHR 0xBE, CHR 0xD1, CHR 0x80, CHR 0xD0, CHR 0xBD, CHR 0xD0,
     CHR 0xBE, CHR 0x20, CHR 0xD0, CHR 0xB7, CHR 0xD0, CHR 0xB0, CHR 0xD0, CHR 0xBF, CHR 0xD1, CHR
     0x83, CHR 0xD1, CHR 0x81, CHR 0xD1, CHR 0x82, CHR 0xD0, CHR 0xB8, CHR 0xD0, CHR 0xBB, CHR 0x20]"

definition RERUN_TAIL :: string where
  "RERUN_TAIL =
    [CHR 0x3A, CHR 0x20, CHR 0xD0, CHR 0xBF, CHR 0xD1, CHR 0x80, CHR 0xD0, CHR 0xB5, CHR 0xD0, CHR
     0xB4, CHR 0xD1, CHR 0x8B, CHR 0xD0, CHR 0xB4, CHR 0xD1, CHR 0x83, CHR 0xD1, CHR 0x89, CHR 0xD0,
     CHR 0xB0, CHR 0xD1, CHR 0x8F, CHR 0x20, CHR 0xD0, CHR 0xB7, CHR 0xD0, CHR 0xB0, CHR 0xD0, CHR
     0xB4, CHR 0xD0, CHR 0xB0, CHR 0xD1, CHR 0x87, CHR 0xD0, CHR 0xB0, CHR 0x20, CHR 0xD0, CHR 0xBD,
     CHR 0xD0, CHR 0xB5, CHR 0x20, CHR 0xD0, CHR 0xBF, CHR 0xD0, CHR 0xB5, CHR 0xD1, CHR 0x80, CHR
     0xD0, CHR 0xB5, CHR 0xD0, CHR 0xB4, CHR 0xD0, CHR 0xB0, CHR 0xD0, CHR 0xBB, CHR 0xD0, CHR 0xB0,
     CHR 0x20, CHR 0xD1, CHR 0x80, CHR 0xD0, CHR 0xB5, CHR 0xD0, CHR 0xB7, CHR 0xD1, CHR 0x83, CHR
     0xD0, CHR 0xBB, CHR 0xD1, CHR 0x8C, CHR 0xD1, CHR 0x82, CHR 0xD0, CHR 0xB0, CHR 0xD1, CHR 0x82,
     CHR 0x2E]"

definition MOVED_TO_COMPLEX :: string where
  "MOVED_TO_COMPLEX =
    [CHR 0xD0, CHR 0x9A, CHR 0xD0, CHR 0xB5, CHR 0xD0, CHR 0xB9, CHR 0xD1, CHR 0x81, CHR 0x20, CHR
     0xD0, CHR 0xBF, CHR 0xD0, CHR 0xB5, CHR 0xD1, CHR 0x80, CHR 0xD0, CHR 0xB5, CHR 0xD0, CHR 0xB4,
     CHR 0xD0, CHR 0xB0, CHR 0xD0, CHR 0xBD, CHR 0x20, CHR 0xD0, CHR 0x98, CHR 0xD0, CHR 0x98, CHR
     0x2D, CHR 0xD0, CHR 0xB0, CHR 0xD0, CHR 0xB3, CHR 0xD0, CHR 0xB5, CHR 0xD0, CHR 0xBD, CHR 0xD1,
     CHR 0x82, CHR 0xD1, CHR 0x83, CHR 0x20, CHR 0xD0, CHR 0xBD, CHR 0xD0, CHR 0xB0, CHR 0xD1, CHR
     0x87, CHR 0xD0, CHR 0xB0, CHR 0xD0, CHR 0xBB, CHR 0xD1, CHR 0x8C, CHR 0xD0, CHR 0xBD, CHR 0xD0,
     CHR 0xB8, CHR 0xD0, CHR 0xBA, CHR 0xD0, CHR 0xB0, CHR 0x20, CHR 0xD1, CHR 0x81, CHR 0xD0, CHR
     0xBA, CHR 0xD0, CHR 0xBB, CHR 0xD0, CHR 0xB0, CHR 0xD0, CHR 0xB4, CHR 0xD1, CHR 0x81, CHR 0xD0,
     CHR 0xBA, CHR 0xD0, CHR 0xBE, CHR 0xD0, CHR 0xB3, CHR 0xD0, CHR 0xBE, CHR 0x20, CHR 0xD0, CHR
     0xBA, CHR 0xD0, CHR 0xBE, CHR 0xD0, CHR 0xBC, CHR 0xD0, CHR 0xBF, CHR 0xD0, CHR 0xBB, CHR 0xD0,
     CHR 0xB5, CHR 0xD0, CHR 0xBA, CHR 0xD1, CHR 0x81, CHR 0xD0, CHR 0xB0, CHR 0x2E]"

definition MOVED_TO_MANAGER :: string where
  "MOVED_TO_MANAGER =
    [CHR 0xD0, CHR 0x9A, CHR 0xD0, CHR 0xB5, CHR 0xD0, CHR 0xB9, CHR 0xD1, CHR 0x81, CHR 0x20, CHR
     0xD0, CHR 0xBF, CHR 0xD0, CHR 0xB5, CHR 0xD1, CHR 0x80, CHR 0xD0, CHR 0xB5, CHR 0xD0, CHR 0xB4,
     CHR 0xD0, CHR 0xB0, CHR 0xD0, CHR 0xBD, CHR 0x20, CHR 0xD0, CHR 0x98, CHR 0xD0, CHR 0x98, CHR
     0x2D, CHR 0xD0, CHR 0xB0, CHR 0xD0, CHR 0xB3, CHR 0xD0, CHR 0xB5, CHR 0xD0, CHR 0xBD, CHR 0xD1,
     CHR 0x82, CHR 0xD1, CHR 0x83, CHR 0x20, CHR 0xD0, CHR 0xBC, CHR 0xD0, CHR 0xB5, CHR 0xD0, CHR
     0xBD, CHR 0xD0, CHR 0xB5, CHR 0xD0, CHR 0xB4, CHR 0xD0, CHR 0xB6, CHR 0xD0, CHR 0xB5, CHR 0xD1,
     CHR 0x80, CHR 0xD0, CHR 0xB0, CHR 0x20, CHR 0xD0, CHR 0xBF, CHR 0xD0, CHR 0xBE, CHR 0x20, CHR
     0xD0, CHR 0xB7, CHR 0xD0, CHR 0xB0, CHR 0xD0, CHR 0xBA, CHR 0xD1, CHR 0x83, CHR 0xD0, CHR 0xBF,
     CHR 0xD0, CHR 0xBA, CHR 0xD0, CHR 0xB0, CHR 0xD0, CHR 0xBC, CHR 0x3A, CHR 0x20, CHR 0xD0, CHR
     0xB2, CHR 0xD1, CHR 0x81, CHR 0xD0, CHR 0xB5, CHR 0x20, CHR 0xD0, CHR 0xBF, CHR 0xD0, CHR 0xBE,
     CHR 0xD0, CHR 0xB7, CHR 0xD0, CHR 0xB8, CHR 0xD1, CHR 0x86, CHR 0xD0, CHR 0xB8, CHR 0xD0, CHR
     0xB8, CHR 0x20, CHR 0xD1, CHR 0x83, CHR 0xD0, CHR 0xB6, CHR 0xD0, CHR 0xB5, CHR 0x20, CHR 0xD0,
     CHR 0xB2, CHR 0x20, CHR 0xD0, CHR 0xB7, CHR 0xD0, CHR 0xB0, CHR 0xD0, CHR 0xBA, CHR 0xD0, CHR
     0xB0, CHR 0xD0, CHR 0xB7, CHR 0xD0, CHR 0xB0, CHR 0xD1, CHR 0x85, CHR 0x20, CHR 0xD0, CHR 0xBF,
     CHR 0xD0, CHR 0xBE, CHR 0xD1, CHR 0x81, CHR 0xD1, CHR 0x82, CHR 0xD0, CHR 0xB0, CHR 0xD0, CHR
     0xB2, CHR 0xD1, CHR 0x89, CHR 0xD0, CHR 0xB8, CHR 0xD0, CHR 0xBA, CHR 0xD1, CHR 0x83, CHR 0x2E]"

definition AGENT_LABELS :: "(string, string) dict" where
  "AGENT_LABELS =
    [(PRODUCTION_DISPATCHER_AGENT_ID, LABEL_PRODUCTION_DISPATCHER),
     (PRODUCTION_PREPARATION_ENGINEER_AGENT_ID, LABEL_PRODUCTION_PREPARATION_ENGINEER),
     (WAREHOUSE_PICKER_AGENT_ID, LABEL_WAREHOUSE_PICKER),
     (WAREHOUSE_COMPLEX_CHIEF_AGENT_ID, LABEL_WAREHOUSE_COMPLEX_CHIEF),
     (PURCHASE_MANAGER_AGENT_ID, LABEL_PURCHASE_MANAGER),
     (OMTO_CHIEF_AGENT_ID, LABEL_OMTO_CHIEF),
     (DEPARTMENT_INITIATOR_AGENT_ID, LABEL_DEPARTMENT_INITIATOR),
     (WAREHOUSE_MANAGER_AGENT_ID, LABEL_WAREHOUSE_MANAGER),
     (OMTO_SUPPORT_MANAGER_AGENT_ID, LABEL_OMTO_SUPPORT_MANAGER),
     (OTK_HEAD_AGENT_ID, LABEL_OTK_HEAD),
     (QUALITY_ENGINEER_AGENT_ID, LABEL_QUALITY_ENGINEER),
     (QUALITY_DEPUTY_DIRECTOR_AGENT_ID, LABEL_QUALITY_DEPUTY_DIRECTOR),
     (''quality_kpi_agent'', LABEL_QUALITY_KPI),
     (''procurement_logistics_agent'', LABEL_PROCUREMENT_LOGISTICS),
     (''finance_director_agent'', LABEL_FINANCE_DIRECTOR),
     (''executive_director_agent'', LABEL_EXECUTIVE_DIRECTOR),
     (''chief_accountant_agent'', LABEL_CHIEF_ACCOUNTANT),
     (''accountant_agent'', LABEL_ACCOUNTANT),
     (''legal_specialist_agent'', LABEL_LEGAL_SPECIALIST),
     (''cfo_head_agent'', LABEL_CFO_HEAD)]"

definition agent_label :: "string \<Rightarrow> string option" where
  "agent_label agent_id = (if agent_id = [] then None else Some (dict_get_or AGENT_LABELS agent_id agent_id))"

definition rerun_reason :: "string \<Rightarrow> string" where
  "rerun_reason agent_id = RERUN_HEAD @ opt_str (agent_label agent_id) @ RERUN_TAIL"

fun task_status_value :: "task_status \<Rightarrow> string" where
  "task_status_value Task_Pending = ''pending''"
| "task_status_value Task_Planning = ''planning''"
| "task_status_value Task_Running = ''running''"
| "task_status_value Task_Waiting_Human = ''waiting_human''"
| "task_status_value Task_Waiting_External = ''waiting_external''"
| "task_status_value Task_Completed = ''completed''"
| "task_status_value Task_Completed_With_Issues = ''completed_with_issues''"
| "task_status_value Task_Failed = ''failed''"
| "task_status_value Task_Cancelled = ''cancelled''"

section \<open>Counts and the loop over the cases\<close>

record sync_counts =
  sy_reported :: nat
  sy_enqueued :: nat
  sy_redispatched :: nat
  sy_assigned :: nat
  sy_migrated :: nat

definition no_counts :: sync_counts where
  "no_counts = \<lparr>sy_reported = 0, sy_enqueued = 0, sy_redispatched = 0, sy_assigned = 0, sy_migrated = 0\<rparr>"

definition add_counts :: "sync_counts \<Rightarrow> sync_counts \<Rightarrow> sync_counts" where
  "add_counts a b =
     \<lparr>sy_reported = sy_reported a + sy_reported b, sy_enqueued = sy_enqueued a + sy_enqueued b,
      sy_redispatched = sy_redispatched a + sy_redispatched b, sy_assigned = sy_assigned a + sy_assigned b,
      sy_migrated = sy_migrated a + sy_migrated b\<rparr>"

type_synonym upkeep = "(pcase \<times> store \<times> sync_counts) option"

text \<open>The cases selected by the query, in its order; every case has a fresh id at its disposal.\<close>

fun over_cases ::
  "(pcase \<Rightarrow> bool) \<Rightarrow> (string \<Rightarrow> pcase \<Rightarrow> store \<Rightarrow> upkeep) \<Rightarrow> string list \<Rightarrow> pcase list \<Rightarrow> store \<Rightarrow>
   (pcase list \<times> store \<times> sync_counts) option" where
  "over_cases P f (u # us) (c # cs) so =
     (case (if P c then f u c so else Some (c, so, no_counts)) of
        None \<Rightarrow> None
      | Some (c1, so1, n1) \<Rightarrow>
          (case over_cases P f us cs so1 of
             None \<Rightarrow> None
           | Some (cs2, so2, n2) \<Rightarrow> Some (c1 # cs2, so2, add_counts n1 n2)))"
| "over_cases P f us cs so = Some (cs, so, no_counts)"

definition ORCHESTRATOR_PROCESSING_CASE_STATUSES :: "string list" where
  "ORCHESTRATOR_PROCESSING_CASE_STATUSES = SOURCE_MONITORED_CASE_STATUSES"

section \<open>Dispatches\<close>

definition task_agent :: "ptask \<Rightarrow> json" where
  "task_agent t = jget (pt_metadata t) ''agent_slug''"

text \<open>The current task of a case when it is one of the agent.\<close>

definition agent_task :: "string \<Rightarrow> pcase \<Rightarrow> store \<Rightarrow> (string \<times> ptask) option" where
  "agent_task agent c so =
     (case (pc_current_task c, current_task_of c so) of
        (Some i, Some t) \<Rightarrow> if task_agent t = JStr agent then Some (i, t) else None
      | _ \<Rightarrow> None)"

definition stale_dispatch :: "int \<Rightarrow> int \<Rightarrow> json \<Rightarrow> bool option" where
  "stale_dispatch interval now requested =
     (if \<not> jtruthy requested then Some True
      else case fromisoformat (jstr requested) of
             None \<Rightarrow> Some True
           | Some (wall, None) \<Rightarrow> None
           | Some (wall, Some offset) \<Rightarrow> Some (wall - offset \<le> now - interval))"

definition redispatch :: "string \<Rightarrow> int \<Rightarrow> string \<Rightarrow> ptask \<Rightarrow> pcase \<Rightarrow> store \<Rightarrow> pcase \<times> store \<times> nat" where
  "redispatch prefix now i t c so =
     (let fresh = (pc_id c, i) \<notin> set (so_dispatches so);
          so1 = (if fresh then so\<lparr>so_dispatches := so_dispatches so @ [(pc_id c, i)]\<rparr> else so);
          t1 = t\<lparr>pt_metadata := dict_set ''dispatch_requested_at'' (JStr (isoformat now)) (pt_metadata t)\<rparr>
      in (c\<lparr>pc_metadata := set_workspace_status prefix ''processing'' (pc_metadata c)\<rparr>, put_task i t1 so1,
          if fresh then 1 else 0))"

definition retry_pending ::
  "string \<Rightarrow> int \<Rightarrow> int \<Rightarrow> string \<Rightarrow> ptask \<Rightarrow> sync_counts \<Rightarrow> pcase \<Rightarrow> store \<Rightarrow> upkeep" where
  "retry_pending prefix interval now i t n c so =
     (case stale_dispatch interval now (jget (pt_metadata t) ''dispatch_requested_at'') of
        None \<Rightarrow> None
      | Some False \<Rightarrow> Some (c, so, n)
      | Some True \<Rightarrow>
          (case redispatch prefix now i t c so of
             (c1, so1, k) \<Rightarrow> Some (c1, so1, n\<lparr>sy_redispatched := sy_redispatched n + k\<rparr>)))"

definition enqueue_counted :: "int \<Rightarrow> string \<Rightarrow> sync_counts \<Rightarrow> pcase \<Rightarrow> store \<Rightarrow> upkeep" where
  "enqueue_counted now uuid n c so =
     (case enqueue_role_agent now uuid c so of
        (c1, so1, enqueued) \<Rightarrow> Some (c1, so1, if enqueued then n\<lparr>sy_enqueued := sy_enqueued n + 1\<rparr> else n))"

section \<open>The warehouse workspaces\<close>

definition is_warehouse_availability_case :: "pcase \<Rightarrow> availability_spec \<Rightarrow> bool" where
  "is_warehouse_availability_case c spec \<longleftrightarrow>
     (let m = pc_metadata c
      in if jtruthy (jget m (spec_key spec ''invoked_at'')) \<or> jtruthy (jget m (as_output_key spec)) then True
         else if pc_source_type c \<noteq> ProductionMaterialOrder then False
         else if as_agent_id spec = WAREHOUSE_PICKER_AGENT_ID then is_montage_section_2_department (pc_department_name c)
         else if jtruthy (jget m ''picker_invoked_at'') \<or> jtruthy (jget m ''warehouse_picker_output'') then False
         else \<not> is_montage_section_2_department (pc_department_name c))"

definition in_workspace :: "availability_spec \<Rightarrow> pcase \<Rightarrow> bool" where
  "in_workspace spec c \<longleftrightarrow>
     (pc_current_agent c = Some (as_agent_id spec) \<or> as_agent_id spec \<in> set (pc_assigned_agents c)) \<and>
     \<not> jtruthy (jget (pc_metadata c) (spec_key spec ''workspace_archived_at'')) \<and>
     jget (pc_metadata c) (spec_key spec ''workspace_status'') \<noteq> JStr ''archived''"

definition reported_status :: "availability_spec \<Rightarrow> pcase \<Rightarrow> (string \<times> ptask) option \<Rightarrow> string" where
  "reported_status spec c task =
     jstr (jor (jget (pc_metadata c) (spec_key spec ''workspace_status''))
       (JStr (case task of None \<Rightarrow> ''assigned'' | Some (i, t) \<Rightarrow> task_status_value (pt_status t))))"

definition report_workspace :: "availability_spec \<Rightarrow> int \<Rightarrow> string \<Rightarrow> pcase \<Rightarrow> pcase" where
  "report_workspace spec now status c =
     c\<lparr>pc_metadata := dict_set (spec_key spec ''last_reported_status'') (JStr status)
         (dict_set (spec_key spec ''last_status_reported_at'') (JStr (isoformat now)) (pc_metadata c))\<rparr>"

text \<open>A task that waits or has failed without a result is cancelled and its key forgotten.\<close>

definition abandon_task :: "int \<Rightarrow> string \<Rightarrow> string \<Rightarrow> ptask \<Rightarrow> pcase \<Rightarrow> store \<Rightarrow> pcase \<times> store" where
  "abandon_task now reason i t c so =
     (c\<lparr>pc_current_task := None, pc_current_agent := None,
        pc_metadata := dict_pop ''role_agent_completion_key'' (pc_metadata c)\<rparr>,
      put_task i (cancel_task now (Some reason) t) so)"

definition warehouse_step :: "availability_spec \<Rightarrow> int \<Rightarrow> int \<Rightarrow> string \<Rightarrow> pcase \<Rightarrow> store \<Rightarrow> upkeep" where
  "warehouse_step spec interval now uuid c so =
     (if \<not> in_workspace spec c then Some (c, so, no_counts)
      else
        (let task = agent_task (as_agent_id spec) c so;
             output = jget (pc_metadata c) (as_output_key spec);
             c1 = report_workspace spec now (reported_status spec c task) c;
             n = no_counts\<lparr>sy_reported := 1\<rparr>
         in case task of
              None \<Rightarrow>
                if jtruthy output then Some (c1, so, n)
                else if current_task_of c so = None then enqueue_counted now uuid n c1 so
                else Some (c1, so, n)
            | Some (i, t) \<Rightarrow>
                if pt_status t = Task_Pending then retry_pending (as_prefix spec) interval now i t n c1 so
                else if pt_status t \<in> {Task_Planning, Task_Running} then Some (c1, so, n)
                else if jtruthy output then Some (c1, so, n)
                else if pt_status t \<in> {Task_Waiting_Human, Task_Waiting_External, Task_Failed} then
                  (case abandon_task now (rerun_reason (as_agent_id spec)) i t c1 so of
                     (c2, so2) \<Rightarrow> enqueue_counted now uuid n c2 so2)
                else if pt_status t \<in> {Task_Completed, Task_Cancelled} then enqueue_counted now uuid n c1 so
                else Some (c1, so, n)))"

definition is_processing :: "pcase \<Rightarrow> bool" where
  "is_processing c \<longleftrightarrow> pc_status c \<in> set ORCHESTRATOR_PROCESSING_CASE_STATUSES"

definition ensure_warehouse_availability_work ::
  "availability_spec \<Rightarrow> int \<Rightarrow> int \<Rightarrow> string list \<Rightarrow> pcase list \<Rightarrow> store \<Rightarrow> (pcase list \<times> store \<times> sync_counts) option" where
  "ensure_warehouse_availability_work spec interval now uuids cs so =
     (if \<not> so_enqueue so then Some (cs, so, no_counts)
      else over_cases is_processing (warehouse_step spec interval now) uuids cs so)"

section \<open>Undecided engineer cases\<close>

definition engineer_assigned :: "pcase \<Rightarrow> bool" where
  "engineer_assigned c \<longleftrightarrow>
     pc_current_agent c = Some PRODUCTION_PREPARATION_ENGINEER_AGENT_ID \<or>
     PRODUCTION_PREPARATION_ENGINEER_AGENT_ID \<in> set (pc_assigned_agents c) \<or>
     jtruthy (jget (pc_metadata c) ''engineer_invoked_at'')"

definition engineer_settled :: "jdict \<Rightarrow> bool" where
  "engineer_settled m \<longleftrightarrow>
     jtruthy (jget m ''engineer_workspace_archived_at'') \<or> jtruthy (jget m ''engineer_action_at'') \<or>
     jtruthy (jget m ''engineer_critical_acknowledged_at'') \<or>
     jget m ''engineer_workspace_status'' = JStr ''awaiting_action'' \<and> jtruthy (jget m ''engineer_decision_kind'')"

definition undecided_engineer_case :: "pcase \<Rightarrow> bool" where
  "undecided_engineer_case c \<longleftrightarrow>
     \<not> is_montage_section_2_department (pc_department_name c) \<and>
     \<not> jtruthy (jget (pc_metadata c) ''complex_invoked_at'') \<and>
     \<not> jtruthy (jget (pc_metadata c) ''complex_workspace_archived_at'') \<and>
     engineer_assigned c \<and> \<not> engineer_settled (pc_metadata c)"

definition leave_engineer_task :: "int \<Rightarrow> pcase \<Rightarrow> store \<Rightarrow> pcase \<times> store" where
  "leave_engineer_task now c so =
     (case agent_task PRODUCTION_PREPARATION_ENGINEER_AGENT_ID c so of
        None \<Rightarrow> (c, so)
      | Some (i, t) \<Rightarrow>
          (c\<lparr>pc_current_task := None\<rparr>,
           if pt_status t \<in> {Task_Waiting_Human, Task_Waiting_External, Task_Planning, Task_Running, Task_Pending, Task_Failed}
           then put_task i (cancel_task now (Some MOVED_TO_COMPLEX) t) so else so))"

definition migrated_case :: "int \<Rightarrow> pcase \<Rightarrow> pcase" where
  "migrated_case now c =
     c\<lparr>pc_current_agent := None,
       pc_assigned_agents := filter (\<lambda>a. a \<noteq> PRODUCTION_PREPARATION_ENGINEER_AGENT_ID) (pc_assigned_agents c),
       pc_metadata := dict_pop ''role_agent_completion_key''
         (dict_set ''complex_migrated_from_engineer_at'' (JStr (isoformat now)) (pc_metadata c))\<rparr>"

definition migrate_step :: "int \<Rightarrow> string \<Rightarrow> pcase \<Rightarrow> store \<Rightarrow> upkeep" where
  "migrate_step now uuid c so =
     (if \<not> undecided_engineer_case c then Some (c, so, no_counts)
      else
        (case leave_engineer_task now c so of
           (c1, so1) \<Rightarrow>
             (let c2 = migrated_case now c1;
                  so2 = append_event c2 ''complex_migrated_from_engineer''
                          (take 255 (''complex-migrated-from-engineer:'' @ pc_id c)) (Some (pc_status c2)) (pc_status c2)
                          [(''migrated_at'', JStr (isoformat now))] (Some WAREHOUSE_COMPLEX_CHIEF_AGENT_ID) so1
              in case enqueue_role_agent now uuid c2 so2 of
                   (c3, so3, enqueued) \<Rightarrow>
                     Some (c3, so3, if enqueued then no_counts\<lparr>sy_migrated := 1\<rparr> else no_counts))))"

definition is_processing_material :: "pcase \<Rightarrow> bool" where
  "is_processing_material c \<longleftrightarrow> is_processing c \<and> pc_source_type c = ProductionMaterialOrder"

definition migrate_undecided_engineer_cases ::
  "int \<Rightarrow> string list \<Rightarrow> pcase list \<Rightarrow> store \<Rightarrow> (pcase list \<times> store \<times> sync_counts) option" where
  "migrate_undecided_engineer_cases now uuids cs so =
     (if \<not> so_enqueue so then Some (cs, so, no_counts)
      else over_cases is_processing_material (migrate_step now) uuids cs so)"

definition ensure_complex_chief_agent_work ::
  "int \<Rightarrow> int \<Rightarrow> string list \<Rightarrow> string list \<Rightarrow> pcase list \<Rightarrow> store \<Rightarrow> (pcase list \<times> store \<times> sync_counts) option" where
  "ensure_complex_chief_agent_work interval now uuids1 uuids2 cs so =
     (case ensure_warehouse_availability_work COMPLEX_CHIEF_SPEC interval now uuids1 cs so of
        None \<Rightarrow> None
      | Some (cs1, so1, n1) \<Rightarrow>
          (case migrate_undecided_engineer_cases now uuids2 cs1 so1 of
             None \<Rightarrow> None
           | Some (cs2, so2, n2) \<Rightarrow> Some (cs2, so2, n1\<lparr>sy_migrated := sy_migrated n2\<rparr>)))"

section \<open>The purchase manager\<close>

text \<open>The workspace of the manager is an object whenever it is present.\<close>

definition manager_workspace :: "int \<Rightarrow> jdict \<Rightarrow> jdict" where
  "manager_workspace now ws =
     dict_setdefault ''purchase_order_drafts'' (JArr [])
       (dict_setdefault ''recommendation_audit'' (JArr [])
         (dict_setdefault ''payment_document_draft'' JNull
           (dict_setdefault ''handoff_received_at'' (JStr (isoformat now))
             (dict_setdefault ''lifecycle_state'' (JStr ''handoff_received'') ws))))"

definition manager_metadata :: "int \<Rightarrow> jdict \<Rightarrow> string \<Rightarrow> jdict \<Rightarrow> jdict" where
  "manager_metadata now coverage status m =
     (let m1 = dict_setdefault ''purchase_manager_invoked_at'' (JStr (isoformat now)) m;
          m2 = (if jget m1 ''purchase_manager_workspace_status'' \<noteq> JStr ''processing''
                then set_workspace_status ''purchase_manager'' ''awaiting_action'' m1 else m1);
          m3 = dict_set ''purchase_manager_output'' (JObj coverage) (dict_pop ''purchase_manager_workspace_archived_at'' m2);
          m4 = dict_set ''procurement_manager'' (JObj (manager_workspace now (jobject (jget m3 ''procurement_manager'')))) m3
      in dict_set ''purchase_manager_last_reported_status'' (JStr status)
           (dict_set ''purchase_manager_last_status_reported_at'' (JStr (isoformat now)) m4))"

definition with_manager :: "pcase \<Rightarrow> string list" where
  "with_manager c =
     (let assigned = uniq (pc_assigned_agents c)
      in if PURCHASE_MANAGER_AGENT_ID \<in> set assigned then assigned else assigned @ [PURCHASE_MANAGER_AGENT_ID])"

definition manager_takes_over :: "pcase \<Rightarrow> pcase" where
  "manager_takes_over c =
     (if pc_current_agent c = Some PURCHASE_MANAGER_AGENT_ID then c
      else c\<lparr>pc_current_agent := Some PURCHASE_MANAGER_AGENT_ID,
             pc_control_point := moved_control_point [''basis'', ''data'', ''coverage''] ''purchase'' (pc_control_point c)\<rparr>)"

text \<open>
  The rest of the step for a case that is fully covered.  The task of another agent is cancelled when it
  is not at work; the cancelled one no longer counts as current.
\<close>

definition manager_full :: "int \<Rightarrow> int \<Rightarrow> string \<Rightarrow> sync_counts \<Rightarrow> pcase \<Rightarrow> store \<Rightarrow> upkeep" where
  "manager_full interval now uuid n c so =
     (case agent_task PURCHASE_MANAGER_AGENT_ID c so of
        Some (i, t) \<Rightarrow>
          if pt_status t = Task_Pending then retry_pending ''purchase_manager'' interval now i t n c so
          else if pt_status t \<in> {Task_Planning, Task_Running, Task_Waiting_Human, Task_Waiting_External} then Some (c, so, n)
          else if pt_status t \<in> {Task_Completed, Task_Cancelled, Task_Failed} then enqueue_counted now uuid n c so
          else Some (c, so, n)
      | None \<Rightarrow>
          (case (pc_current_task c, current_task_of c so) of
             (Some i, Some t) \<Rightarrow>
               if pt_status t \<in> {Task_Pending, Task_Waiting_Human, Task_Waiting_External, Task_Failed} then
                 enqueue_counted now uuid n
                   (c\<lparr>pc_current_task := None, pc_metadata := dict_pop ''role_agent_completion_key'' (pc_metadata c)\<rparr>)
                   (put_task i (cancel_task now (Some MOVED_TO_MANAGER) t) so)
               else Some (c, so, n)
           | _ \<Rightarrow> enqueue_counted now uuid n c so))"

definition manager_step :: "int \<Rightarrow> int \<Rightarrow> string \<Rightarrow> pcase \<Rightarrow> store \<Rightarrow> upkeep" where
  "manager_step interval now uuid c so =
     (let m = pc_metadata c;
          coverage = jobject (jget m ''supplier_order_coverage'');
          status = jstring (jget coverage ''coverage_status'')
      in if status \<notin> {''partial'', ''full''} \<or> jtruthy (jget m ''purchase_manager_workspace_archived_at'')
         then Some (c, so, no_counts)
         else
           (let n = no_counts\<lparr>sy_reported := 1,
                      sy_assigned := (if PURCHASE_MANAGER_AGENT_ID \<in> set (pc_assigned_agents c) then 0 else 1)\<rparr>;
                c1 = c\<lparr>pc_assigned_agents := with_manager c, pc_metadata := manager_metadata now coverage status m\<rparr>
            in if status \<noteq> ''full'' then Some (c1, so, n)
               else manager_full interval now uuid n (manager_takes_over c1) so))"

definition is_open_material :: "pcase \<Rightarrow> bool" where
  "is_open_material c \<longleftrightarrow> is_processing_material c \<and> pc_closed_at c = None"

definition ensure_purchase_manager_work ::
  "int \<Rightarrow> int \<Rightarrow> string list \<Rightarrow> pcase list \<Rightarrow> store \<Rightarrow> (pcase list \<times> store \<times> sync_counts) option" where
  "ensure_purchase_manager_work interval now uuids cs so =
     (if \<not> so_enqueue so then Some (cs, so, no_counts)
      else over_cases is_open_material (manager_step interval now) uuids cs so)"

section \<open>The stamp of material cases\<close>

definition is_live_material :: "pcase \<Rightarrow> bool" where
  "is_live_material c \<longleftrightarrow> pc_source_type c = ProductionMaterialOrder \<and> pc_status c \<notin> set TERMINAL_CASE_STATUSES"

definition actualized_case :: "int \<Rightarrow> pcase \<Rightarrow> pcase" where
  "actualized_case now c = c\<lparr>pc_metadata := dict_set ''last_actualized_at'' (JStr (isoformat now)) (pc_metadata c)\<rparr>"

definition mark_material_cases_actualized :: "int \<Rightarrow> pcase list \<Rightarrow> pcase list \<times> nat" where
  "mark_material_cases_actualized now cs =
     (map (\<lambda>c. if is_live_material c then actualized_case now c else c) cs, length (filter is_live_material cs))"

end
