(* ===== verification/Case_Upkeep.thy ===== *)
theory Case_Upkeep
  imports Case_Orchestrator Case_Maintenance
begin

text \<open>
  The maintenance operations keep the invariant of a case: they interpret \<open>case_operation\<close>, so the
  state machine of the orchestrator may contain them.
\<close>

section \<open>Changes that keep the invariant\<close>

definition kept :: "pcase \<Rightarrow> store \<Rightarrow> pcase \<Rightarrow> store \<Rightarrow> bool" where
  "kept c so c' so' \<longleftrightarrow> case_inv c' so' \<and> pc_id c' = pc_id c \<and> others_kept (pc_id c) so so'"

lemma kept_trans: "kept c so c1 so1 \<Longrightarrow> kept c1 so1 c2 so2 \<Longrightarrow> kept c so c2 so2"
  using others_kept_trans by (auto simp: kept_def)

lemma kept_view: "case_inv c so \<Longrightarrow> case_view c' = case_view c \<Longrightarrow> so_tasks so' = so_tasks so \<Longrightarrow> kept c so c' so'"
  using case_inv_view[of c' c so' so] by (simp add: kept_def case_view_def)

lemma kept_tasks: "so_tasks a = so_tasks b \<Longrightarrow> kept c so c' a \<longleftrightarrow> kept c so c' b"
  by (simp add: kept_def case_inv_def others_kept_def)

lemma kept_control:
  assumes "case_inv c so" "length (opt_str p) \<le> 16"
  shows "kept c so (c\<lparr>pc_current_agent := a, pc_control_point := p\<rparr>) so"
  using assms by (simp add: kept_def case_inv_def case_wf_def tasks_wf_def)

lemma agent_taskD:
  "agent_task a c so = Some (i, t) \<Longrightarrow> pc_current_task c = Some i \<and> dict_get (so_tasks so) i = Some t"
  by (auto simp: agent_task_def current_task_of_def split: option.splits if_splits)

lemma enqueue_kept:
  "enqueue_counted now u n c so = Some (c', so', n') \<Longrightarrow> case_inv c so \<Longrightarrow> dict_get (so_tasks so) u = None \<Longrightarrow>
    kept c so c' so'"
  by (auto simp: enqueue_counted_def kept_def dest: enqueued(1,2,3) split: prod.splits)

text \<open>A pending task is dispatched again.\<close>

definition asked_again :: "int \<Rightarrow> ptask \<Rightarrow> ptask" where
  "asked_again now t = t\<lparr>pt_metadata := dict_set ''dispatch_requested_at'' (JStr (isoformat now)) (pt_metadata t)\<rparr>"

lemma asked_again_case: "task_case (asked_again now t) = task_case t" "blocking (asked_again now t) = blocking t"
  by (simp_all add: task_case_def blocking_def asked_again_def)

lemma redispatch_frame:
  "redispatch prefix now i t c so = (c', so', k) \<Longrightarrow>
    c' = c\<lparr>pc_metadata := set_workspace_status prefix ''processing'' (pc_metadata c)\<rparr> \<and>
    so_tasks so' = dict_set i (asked_again now t) (so_tasks so)"
  by (cases "(pc_id c, i) \<in> set (so_dispatches so)") (auto simp: redispatch_def Let_def asked_again_def)

lemma retry_kept:
  assumes "retry_pending prefix interval now i t n c so = Some (c', so', n')" "case_inv c so" "pc_current_task c = Some i"
    "dict_get (so_tasks so) i = Some t" "blocking t"
  shows "kept c so c' so'"
proof (cases "stale_dispatch interval now (jget (pt_metadata t) ''dispatch_requested_at'')")
  case None
  then show ?thesis using assms(1) by (simp add: retry_pending_def)
next
  case (Some b)
  show ?thesis
  proof (cases b)
    case False
    then show ?thesis using Some assms(1,2) by (simp add: retry_pending_def kept_view)
  next
    case True
    let ?t = "asked_again now t" and ?c = "c\<lparr>pc_metadata := set_workspace_status prefix ''processing'' (pc_metadata c)\<rparr>"
    obtain x y k where d: "redispatch prefix now i t c so = (x, y, k)" by (metis prod_cases3)
    then have "c' = x" "so' = y" using Some True assms(1) by (simp_all add: retry_pending_def)
    with redispatch_frame[OF d] have r: "c' = ?c" "so_tasks so' = so_tasks (put_task i ?t so)" by simp_all
    have w: "case_wf c" "tasks_wf c (so_tasks so)" using assms(2) by (simp_all add: case_inv_def)
    have tc: "task_case ?t = JStr (pc_id c)" "blocking ?t"
      using current_task[OF assms(2-4)] assms(5) by (simp_all add: asked_again_case)
    have "op_ok c so ?c (put_task i ?t so)"
      by (rule still_blocked[OF assms(2,3) tc]) (use w(1) assms(3) in \<open>auto simp: case_wf_def\<close>)
    then have "kept c so ?c (put_task i ?t so)" by (simp add: op_ok_def kept_def)
    then show ?thesis using kept_tasks[OF r(2)] r(1) by simp
  qed
qed

text \<open>The current task is cancelled and taken from the case.\<close>

lemma cancelled_kept:
  assumes "case_inv c so" "pc_current_task c = Some i" "dict_get (so_tasks so) i = Some t"
    "case_view c' = case_view (c\<lparr>pc_current_task := None\<rparr>)"
  shows "kept c so c' (put_task i (cancel_task now r t) so)"
    "dict_get (so_tasks so) u = None \<Longrightarrow> dict_get (so_tasks (put_task i (cancel_task now r t) so)) u = None"
proof -
  have v: "pc_id c' = pc_id c" "pc_status c' = pc_status c" "pc_control_point c' = pc_control_point c"
    "pc_current_task c' = None" "pc_closed_reason c' = pc_closed_reason c" "pc_closed_at c' = pc_closed_at c"
    using assms(4) by (simp_all add: case_view_def)
  have w: "case_wf c" "tasks_wf c (so_tasks so)" using assms(1) by (simp_all add: case_inv_def)
  have tc: "task_case t = JStr (pc_id c)" using w(2) assms(2,3) by (auto simp: tasks_wf_def)
  have "tasks_wf c' (dict_set i (cancel_task now r t) (so_tasks so))"
    by (rule tasks_wf_put[OF w(2)]) (use v tc assms(2) in auto)
  moreover have "case_wf c'" using w(1) v by (simp add: case_wf_def)
  moreover have "others_kept (pc_id c) so (put_task i (cancel_task now r t) so)"
    by (rule others_kept_put) (use tc assms(3) in auto)
  ultimately show "kept c so c' (put_task i (cancel_task now r t) so)" by (simp add: kept_def case_inv_def v)
  show "dict_get (so_tasks so) u = None \<Longrightarrow> dict_get (so_tasks (put_task i (cancel_task now r t) so)) u = None"
    using assms(3) by auto
qed

text \<open>A task that does not block is taken from the case.\<close>

lemma dropped_kept:
  assumes "case_inv c so" "pc_current_task c = Some i" "dict_get (so_tasks so) i = Some t" "\<not> blocking t"
  shows "kept c so (c\<lparr>pc_current_task := None\<rparr>) so"
  using assms by (auto simp: kept_def case_inv_def case_wf_def tasks_wf_def)

section \<open>The steps\<close>

lemma report_view [simp]:
  "case_view (report_workspace spec now s c) = case_view c" "pc_current_task (report_workspace spec now s c) = pc_current_task c"
  by (simp_all add: report_workspace_def case_view_def)

lemma pending_blocking [simp]: "pt_status t = Task_Pending \<Longrightarrow> blocking t"
  by (simp add: blocking_def BLOCKING_TASK_STATUSES_def)

lemma warehouse_kept:
  assumes "warehouse_step spec interval now u c so = Some (c', so', n')" "case_inv c so" "dict_get (so_tasks so) u = None"
  shows "kept c so c' so'"
proof (cases "in_workspace spec c")
  case False
  then show ?thesis using assms(1,2) by (simp add: warehouse_step_def kept_view)
next
  case True
  define c1 where "c1 = report_workspace spec now (reported_status spec c (agent_task (as_agent_id spec) c so)) c"
  define n where "n = no_counts\<lparr>sy_reported := 1\<rparr>"
  have k1: "kept c so c1 so" using assms(2) by (simp add: c1_def kept_view)
  then have i1: "case_inv c1 so" by (simp add: kept_def)
  consider (same) "c' = c1" "so' = so" | (enqueue) "enqueue_counted now u n c1 so = Some (c', so', n')"
    | (retry) i t where "agent_task (as_agent_id spec) c so = Some (i, t)" "pt_status t = Task_Pending"
        "retry_pending (as_prefix spec) interval now i t n c1 so = Some (c', so', n')"
    | (abandon) i t where "agent_task (as_agent_id spec) c so = Some (i, t)"
        "enqueue_counted now u n (fst (abandon_task now (rerun_reason (as_agent_id spec)) i t c1 so))
          (snd (abandon_task now (rerun_reason (as_agent_id spec)) i t c1 so)) = Some (c', so', n')"
    using assms(1) True unfolding warehouse_step_def Let_def c1_def n_def
    by (auto split: option.splits prod.splits if_splits)
  then show ?thesis
  proof cases
    case same
    with k1 show ?thesis by simp
  next
    case enqueue
    from kept_trans[OF k1 enqueue_kept[OF enqueue i1 assms(3)]] show ?thesis .
  next
    case retry
    from agent_taskD[OF retry(1)] have "pc_current_task c1 = Some i" "dict_get (so_tasks so) i = Some t" by (simp_all add: c1_def)
    from kept_trans[OF k1 retry_kept[OF retry(3) i1 this pending_blocking[OF retry(2)]]] show ?thesis .
  next
    case abandon
    from agent_taskD[OF abandon(1)] have t: "pc_current_task c1 = Some i" "dict_get (so_tasks so) i = Some t" by (simp_all add: c1_def)
    let ?c = "fst (abandon_task now (rerun_reason (as_agent_id spec)) i t c1 so)"
    have "case_view ?c = case_view (c1\<lparr>pc_current_task := None\<rparr>)" by (simp add: abandon_task_def case_view_def)
    note C = cancelled_kept[OF i1 t this, where now = now and r = "Some (rerun_reason (as_agent_id spec))"]
    have e: "enqueue_counted now u n ?c (put_task i (cancel_task now (Some (rerun_reason (as_agent_id spec))) t) so) = Some (c', so', n')"
      using abandon(2) by (simp add: abandon_task_def)
    have "case_inv ?c (put_task i (cancel_task now (Some (rerun_reason (as_agent_id spec))) t) so)" using C(1) by (simp add: kept_def)
    from kept_trans[OF k1 kept_trans[OF C(1) enqueue_kept[OF e this C(2)[OF assms(3)]]]] show ?thesis .
  qed
qed

lemma migrate_kept:
  assumes "migrate_step now u c so = Some (c', so', n')" "case_inv c so" "dict_get (so_tasks so) u = None"
  shows "kept c so c' so'"
proof (cases "undecided_engineer_case c")
  case False
  then show ?thesis using assms(1,2) by (simp add: migrate_step_def kept_view)
next
  case True
  obtain c1 so1 where l: "leave_engineer_task now c so = (c1, so1)" by fastforce
  have k: "kept c so c1 so1 \<and> dict_get (so_tasks so1) u = None"
  proof (cases "agent_task PRODUCTION_PREPARATION_ENGINEER_AGENT_ID c so")
    case None
    with l assms(2,3) show ?thesis by (auto simp: leave_engineer_task_def kept_view)
  next
    case (Some it)
    then obtain i t where it: "agent_task PRODUCTION_PREPARATION_ENGINEER_AGENT_ID c so = Some (i, t)" by (cases it) auto
    note T = agent_taskD[OF it]
    have c1: "c1 = c\<lparr>pc_current_task := None\<rparr>" "so1 = (if blocking t then put_task i (cancel_task now (Some MOVED_TO_COMPLEX) t) so else so)"
      using l it by (auto simp: leave_engineer_task_def blocking_def BLOCKING_TASK_STATUSES_def)
    have v: "case_view c1 = case_view (c\<lparr>pc_current_task := None\<rparr>)" by (simp add: c1)
    note C = cancelled_kept[OF assms(2) T[THEN conjunct1] T[THEN conjunct2] v, where now = now and r = "Some MOVED_TO_COMPLEX"]
    show ?thesis
    proof (cases "blocking t")
      case True
      with C(1) C(2)[OF assms(3)] c1(2) show ?thesis by simp
    next
      case False
      with dropped_kept[OF assms(2) T[THEN conjunct1] T[THEN conjunct2]] c1 assms(3) show ?thesis by simp
    qed
  qed
  then have i1: "case_inv c1 so1" by (simp add: kept_def)
  define c2 where "c2 = migrated_case now c1"
  define so2 where "so2 = append_event c2 ''complex_migrated_from_engineer''
    (take 255 (''complex-migrated-from-engineer:'' @ pc_id c)) (Some (pc_status c2)) (pc_status c2)
    [(''migrated_at'', JStr (isoformat now))] (Some WAREHOUSE_COMPLEX_CHIEF_AGENT_ID) so1"
  have k2: "kept c1 so1 c2 so2" "dict_get (so_tasks so2) u = None"
    using i1 k by (auto intro!: kept_view simp: c2_def so2_def migrated_case_def case_view_def)
  obtain b where e: "enqueue_role_agent now u c2 so2 = (c', so', b)"
    using assms(1) True l by (auto simp: migrate_step_def Let_def c2_def so2_def split: prod.splits)
  have "case_inv c2 so2" using k2(1) by (simp add: kept_def)
  from enqueued(1-3)[OF e this k2(2)] have "kept c2 so2 c' so'" by (simp add: kept_def)
  with k k2(1) show ?thesis by (blast intro: kept_trans)
qed

lemma takes_over_kept:
  assumes "case_inv c so"
  shows "kept c so (manager_takes_over c) so"
proof -
  have "length (opt_str (moved_control_point [''basis'', ''data'', ''coverage''] ''purchase'' (pc_control_point c))) \<le> 16"
    using assms by (simp add: moved_control_point_def case_inv_def case_wf_def)
  with assms show ?thesis by (simp add: manager_takes_over_def kept_view kept_control)
qed

lemma full_kept:
  assumes "manager_full interval now u n c so = Some (c', so', n')" "case_inv c so" "dict_get (so_tasks so) u = None"
  shows "kept c so c' so'"
proof (cases "agent_task PURCHASE_MANAGER_AGENT_ID c so")
  case (Some it)
  then obtain i t where it: "agent_task PURCHASE_MANAGER_AGENT_ID c so = Some (i, t)" by (cases it) auto
  consider (same) "c' = c" "so' = so" | (enqueue) "enqueue_counted now u n c so = Some (c', so', n')"
    | (retry) "pt_status t = Task_Pending" "retry_pending ''purchase_manager'' interval now i t n c so = Some (c', so', n')"
    using assms(1) it by (auto simp: manager_full_def split: if_splits)
  then show ?thesis
  proof cases
    case same
    with assms(2) show ?thesis by (simp add: kept_view)
  next
    case enqueue
    from enqueue_kept[OF this assms(2,3)] show ?thesis .
  next
    case retry
    from agent_taskD[OF it] retry_kept[OF retry(2) assms(2) _ _ pending_blocking[OF retry(1)]] show ?thesis by simp
  qed
next
  case None
  let ?c = "c\<lparr>pc_current_task := None, pc_metadata := dict_pop ''role_agent_completion_key'' (pc_metadata c)\<rparr>"
  consider (same) "c' = c" "so' = so" | (enqueue) "enqueue_counted now u n c so = Some (c', so', n')"
    | (cancel) i t where "pc_current_task c = Some i" "dict_get (so_tasks so) i = Some t"
        "enqueue_counted now u n ?c (put_task i (cancel_task now (Some MOVED_TO_MANAGER) t) so) = Some (c', so', n')"
    using assms(1) None by (auto simp: manager_full_def current_task_of_def split: if_splits option.splits)
  then show ?thesis
  proof cases
    case same
    with assms(2) show ?thesis by (simp add: kept_view)
  next
    case enqueue
    from enqueue_kept[OF this assms(2,3)] show ?thesis .
  next
    case cancel
    have "case_view ?c = case_view (c\<lparr>pc_current_task := None\<rparr>)" by (simp add: case_view_def)
    note C = cancelled_kept[OF assms(2) cancel(1,2) this, where now = now and r = "Some MOVED_TO_MANAGER"]
    have "case_inv ?c (put_task i (cancel_task now (Some MOVED_TO_MANAGER) t) so)" using C(1) by (simp add: kept_def)
    from kept_trans[OF C(1) enqueue_kept[OF cancel(3) this C(2)[OF assms(3)]]] show ?thesis .
  qed
qed

lemma manager_kept:
  assumes "manager_step interval now u c so = Some (c', so', n')" "case_inv c so" "dict_get (so_tasks so) u = None"
  shows "kept c so c' so'"
proof -
  let ?m = "pc_metadata c"
  define coverage where "coverage = jobject (jget ?m ''supplier_order_coverage'')"
  define status where "status = jstring (jget coverage ''coverage_status'')"
  define c1 where "c1 = c\<lparr>pc_assigned_agents := with_manager c, pc_metadata := manager_metadata now coverage status ?m\<rparr>"
  have k1: "kept c so c1 so" using assms(2) by (simp add: c1_def kept_view case_view_def)
  consider (same) "c' = c" "so' = so" | (partial) "c' = c1" "so' = so"
    | (full) n where "manager_full interval now u n (manager_takes_over c1) so = Some (c', so', n')"
    using assms(1) unfolding manager_step_def Let_def coverage_def[symmetric] status_def[symmetric] c1_def[symmetric]
    by (auto split: if_splits)
  then show ?thesis
  proof cases
    case same
    with assms(2) show ?thesis by (simp add: kept_view)
  next
    case partial
    with k1 show ?thesis by simp
  next
    case full
    have i1: "case_inv c1 so" using k1 by (simp add: kept_def)
    note k2 = takes_over_kept[OF i1]
    have "case_inv (manager_takes_over c1) so" using k2 by (simp add: kept_def)
    from kept_trans[OF k1 kept_trans[OF k2 full_kept[OF full this assms(3)]]] show ?thesis .
  qed
qed

section \<open>The operation\<close>

text \<open>The queries select monitored cases for the restarts and live cases for the stamp.\<close>

definition upkeep_step :: "pcase \<Rightarrow> store \<Rightarrow> pcase \<Rightarrow> store \<Rightarrow> bool" where
  "upkeep_step c so c' so' \<longleftrightarrow>
     (\<exists>now interval u n. is_processing c \<and> fresh_task u so \<and>
        ((\<exists>spec. warehouse_step spec interval now u c so = Some (c', so', n)) \<or>
         migrate_step now u c so = Some (c', so', n) \<or> manager_step interval now u c so = Some (c', so', n))) \<or>
     (\<exists>now. is_live_material c \<and> c' = actualized_case now c \<and> so' = so)"

interpretation upkeeping: case_operation upkeep_step
proof (rule operationI)
  fix c so c' so' assume s: "upkeep_step c so c' so'" and i: "case_inv c so"
  have "kept c so c' so'"
    using s i warehouse_kept migrate_kept manager_kept
    by (auto simp: upkeep_step_def fresh_task_def actualized_case_def intro: kept_view)
  then show "case_inv c' so' \<and> pc_id c' = pc_id c \<and> others_kept (pc_id c) so so'" by (simp add: kept_def)
qed

text \<open>A failed task of the manager is not restarted: the restart refuses it as blocking.\<close>

lemma failed_manager_task_stays:
  assumes "agent_task PURCHASE_MANAGER_AGENT_ID c so = Some (i, t)" "pt_status t = Task_Failed"
  shows "manager_full interval now u n c so = Some (c, so, n)"
proof -
  note T = agent_taskD[OF assms(1)]
  have "enqueue_role_agent now u c so = (c, so, False)"
    using T assms(2) by (simp add: enqueue_role_agent_def Let_def release_current_task_def BLOCKING_TASK_STATUSES_def)
  then show ?thesis using assms by (simp add: manager_full_def enqueue_counted_def)
qed

end
