(* ===== verification/Case_Machine.thy ===== *)
theory Case_Machine
  imports Case_Orchestrator Case_Upkeep Polling_Facts
begin

text \<open>
  The state machine of the orchestrator: a history is any sequence of operations on any cases, of
  openings of cases for new documents, of claims of the engineer's slots, and of changes of the
  service instance.  Properties of the reachable states.
\<close>

section \<open>Steps\<close>

inductive case_step :: "pcase \<Rightarrow> store \<Rightarrow> pcase \<Rightarrow> store \<Rightarrow> bool" where
  poll: "poll_step c so c' so' \<Longrightarrow> case_step c so c' so'"
| close: "close_step c so c' so' \<Longrightarrow> case_step c so c' so'"
| assign: "assign_step c so c' so' \<Longrightarrow> case_step c so c' so'"
| execute: "execute_step c so c' so' \<Longrightarrow> case_step c so c' so'"
| resume: "resume_step c so c' so' \<Longrightarrow> case_step c so c' so'"
| confirm: "confirm_step c so c' so' \<Longrightarrow> case_step c so c' so'"
| acknowledge: "acknowledge_step c so c' so' \<Longrightarrow> case_step c so c' so'"
| upkeep: "upkeep_step c so c' so' \<Longrightarrow> case_step c so c' so'"

type_synonym orch_state = "pcase list \<times> store"

inductive orch_step :: "orch_state \<Rightarrow> orch_state \<Rightarrow> bool" where
  on_case: "c \<in> set cs \<Longrightarrow> case_step c so c' so' \<Longrightarrow> orch_step (cs, so) (put_case c' cs, so')"
| open_case: "upsert_new now i u d so = (Some c, so', a) \<Longrightarrow> i \<notin> pc_id ` set cs \<Longrightarrow> fresh_task u so \<Longrightarrow>
    orch_step (cs, so) (cs @ [c], so')"
| claim: "claim_engineer_dispatches now limit so = (so', n) \<Longrightarrow> orch_step (cs, so) (cs, so')"
| service: "orch_step (cs, so) (cs, so\<lparr>so_enqueue := e, so_planning := p, so_dispatches := ds\<rparr>)"

inductive_simps case_step_iff: "case_step c so c' so'"
inductive_cases orch_stepE: "orch_step s s'"

interpretation stepping: case_operation case_step
proof (rule operationI)
  fix c so c' so' assume "case_step c so c' so'" and i: "case_inv c so"
  then show "case_inv c' so' \<and> pc_id c' = pc_id c \<and> others_kept (pc_id c) so so'"
    by cases (use i in \<open>blast intro: polling.keeps_case polling.keeps_id polling.keeps_others closing.keeps_case closing.keeps_id
        closing.keeps_others assigning.keeps_case assigning.keeps_id assigning.keeps_others executing.keeps_case
        executing.keeps_id executing.keeps_others resuming.keeps_case resuming.keeps_id resuming.keeps_others
        confirming.keeps_case confirming.keeps_id confirming.keeps_others acknowledging.keeps_case
        acknowledging.keeps_id acknowledging.keeps_others upkeeping.keeps_case upkeeping.keeps_id upkeeping.keeps_others\<close>)+
qed

section \<open>Claims\<close>

definition claimed_or_same :: "int \<Rightarrow> string \<times> ptask \<Rightarrow> string \<times> ptask \<Rightarrow> bool" where
  "claimed_or_same now x y \<longleftrightarrow> fst y = fst x \<and> (snd y = snd x \<or> snd y = claim_task now (snd x))"

lemma claim_loop_pointwise: "list_all2 (claimed_or_same now) ts (fst (claim_loop now av n ts))"
  by (induction now av n ts rule: claim_loop.induct)
    (auto simp: Let_def claimed_or_same_def list_all2_same split: prod.splits)

lemma claimed_lookup:
  assumes "list_all2 (claimed_or_same now) ts us"
  shows "rel_option (\<lambda>t u. u = t \<or> u = claim_task now t) (dict_get ts i) (dict_get us i)"
  using assms by (induction rule: list_all2_induct) (auto simp: dict_get_def claimed_or_same_def)

lemma claim_keeps:
  assumes "claim_engineer_dispatches now limit so = (so', n)"
  shows "rel_option (\<lambda>t u. u = t \<or> u = claim_task now t) (dict_get (so_tasks so) i) (dict_get (so_tasks so') i)"
proof -
  have "so_tasks so' = fst (claim_loop now (max 0 (min limit (ENGINEER_SLOTS - active_engineer_slots so))) 0 (so_tasks so))"
    using assms by (auto simp: claim_engineer_dispatches_def Let_def split: prod.splits)
  then show ?thesis by (simp only: claimed_lookup[OF claim_loop_pointwise])
qed

lemma blocking_claim [simp]: "blocking (claim_task now t) = blocking t"
  by (simp add: blocking_def claim_task_def)

lemma claim_inv:
  assumes "claim_engineer_dispatches now limit so = (so', n)" "orch_inv cs so"
  shows "orch_inv cs so'"
proof -
  note k = claim_keeps[OF assms(1)]
  have bk: "\<exists>t. dict_get (so_tasks so) i = Some t \<and> task_case u = task_case t \<and> blocking u = blocking t"
    if "dict_get (so_tasks so') i = Some u" for i u
    using k[of i] that by (auto elim: option.rel_cases)
  have forth: "\<exists>u. dict_get (so_tasks so') i = Some u \<and> task_case u = task_case t"
    if "dict_get (so_tasks so) i = Some t" for i t
    using k[of i] that by (auto elim: option.rel_cases)
  have "case_inv c so'" if "case_inv c so" for c
    using that bk forth unfolding case_inv_def tasks_wf_def by metis
  with assms(2) bk show ?thesis unfolding orch_inv_def by metis
qed

section \<open>The invariant of the database\<close>

lemma opened:
  assumes "upsert_new now i u d so = (Some c, so', a)" "orch_inv cs so" "i \<notin> pc_id ` set cs" "fresh_task u so"
  shows "orch_inv (cs @ [c]) so'"
proof -
  define c0 where "c0 = replace_positions d (new_case now i d)"
  obtain so0 b where so0: "create_case now i d so = (c0, so0)" "so_tasks so0 = so_tasks so"
    and e: "enqueue_role_agent now u c0 so0 = (c, so', b)"
    using assms(1) by (auto simp: upsert_new_def create_case_def Let_def c0_def split: if_splits prod.splits)
  have "task_case t \<noteq> JStr i" if "dict_get (so_tasks so) k = Some t" for k t
  proof -
    from assms(2) that have "task_case t \<in> JStr ` pc_id ` set cs" unfolding orch_inv_def by blast
    with assms(3) show ?thesis by auto
  qed
  then have "case_inv c0 so0"
    by (auto simp: c0_def case_inv_def case_wf_def tasks_wf_def replace_positions_def new_case_def so0 known_statuses)
  note E = enqueued[OF e this, unfolded so0(2), OF assms(4)[unfolded fresh_task_def]]
  have id: "pc_id c0 = i" by (simp add: c0_def replace_positions_def new_case_def)
  have o: "others_kept i so so'" using E(3) id by (simp add: others_kept_def so0(2))
  have "case_inv x so'" if "x \<in> set cs" for x
  proof -
    have "pc_id x \<noteq> i" "case_inv x so" using that assms(2,3) by (auto simp: orch_inv_def)
    with tasks_wf_others[OF o] show ?thesis by (simp add: case_inv_def)
  qed
  moreover have "task_case t \<in> JStr ` pc_id ` set (cs @ [c])" if "dict_get (so_tasks so') k = Some t" for k t
  proof (cases "task_case t = JStr i")
    case False
    with that o have "dict_get (so_tasks so) k = Some t" by (simp add: others_kept_def)
    with assms(2) have "task_case t \<in> JStr ` pc_id ` set cs" unfolding orch_inv_def by blast
    then show ?thesis by auto
  qed (use E(2) id in auto)
  ultimately show ?thesis using assms(2,3) E(1,2) id by (auto simp: orch_inv_def)
qed

lemma orch_step_inv:
  assumes "orch_step s s'" "orch_inv (fst s) (snd s)"
  shows "orch_inv (fst s') (snd s')"
  using assms(1)
proof cases
  case (on_case c cs so c' so')
  with assms(2) stepping.database_kept show ?thesis by simp
next
  case (open_case now i u d so c so' a cs)
  with assms(2) opened show ?thesis by simp
next
  case (claim now limit so so' n cs)
  with assms(2) claim_inv show ?thesis by simp
next
  case (service cs so e p ds)
  with assms(2) show ?thesis by (simp add: orch_inv_def case_inv_def)
qed

lemma orch_reach:
  assumes "steps orch_step (cs, so) (cs', so')" "orch_inv cs so"
  shows "orch_inv cs' so'"
proof -
  have "orch_inv (fst (cs', so')) (snd (cs', so'))"
    by (rule steps_invariant[OF assms(1), where P = "\<lambda>s. orch_inv (fst s) (snd s)"]) (use assms(2) orch_step_inv in auto)
  then show ?thesis by simp
qed

lemma empty_inv: "so_tasks so = [] \<Longrightarrow> orch_inv [] so"
  by (simp add: orch_inv_def)

section \<open>Cases released by the quality control\<close>

definition released_case :: "pcase \<Rightarrow> bool" where
  "released_case c \<longleftrightarrow> pc_status c = ''closed'' \<and> pc_closed_reason c = Some ''quality_released''"

locale final_operation = case_operation +
  assumes keeps_released: "oper c so c' so' \<Longrightarrow> case_inv c so \<Longrightarrow> released_case c \<Longrightarrow> released_case c'"
begin

lemma released_kept:
  assumes "oper c so c' so'" "orch_inv cs so" "c \<in> set cs" "x \<in> set cs" "released_case x"
  shows "\<exists>y \<in> set (put_case c' cs). pc_id y = pc_id x \<and> released_case y"
proof -
  have ci: "case_inv c so" using assms(2,3) by (simp add: orch_inv_def)
  note i = keeps_id[OF assms(1) ci]
  show ?thesis
  proof (cases "pc_id x = pc_id c")
    case True
    have "inj_on pc_id (set cs)" using assms(2) by (simp add: orch_inv_def distinct_map)
    with True assms(3,4) have "x = c" by (auto dest: inj_onD)
    with keeps_released[OF assms(1) ci] assms(3,5) i show ?thesis by (force simp: put_case_def)
  next
    case False
    with i assms(4,5) show ?thesis by (force simp: put_case_def)
  qed
qed

end

lemma closed_terminal: "released_case c \<Longrightarrow> pc_status c \<in> set TERMINAL_CASE_STATUSES"
  by (simp add: released_case_def TERMINAL_CASE_STATUSES_def)

lemma released_idle: "case_inv c so \<Longrightarrow> released_case c \<Longrightarrow> pc_current_task c = None"
  by (auto simp: case_inv_def case_wf_def dest: closed_terminal)

lemma released_poll:
  assumes "upsert_known now u d c so = (c', so', a)" "released_case c"
  shows "c' = c \<and> so' = so \<and> a = Skipped"
  using assms closed_terminal[OF assms(2)]
  by (auto simp: upsert_known_def Let_def released_case_def split: if_splits)

interpretation releasing: final_operation case_step
proof
  fix c so c' so' assume "case_step c so c' so'" and inv: "case_inv c so" and r: "released_case c"
  note idle = released_idle[OF inv r] and t = closed_terminal[OF r]
  from \<open>case_step c so c' so'\<close> show "released_case c'"
  proof cases
    case poll
    then obtain now u d a where "upsert_known now u d (c\<lparr>pc_synced_at := Some now\<rparr>) so = (c', so', a)"
      by (auto simp: poll_step_def)
    from released_poll[OF this] r show ?thesis by (simp add: released_case_def)
  next
    case close
    with t terminal_not_monitored show ?thesis by (auto simp: close_step_def)
  next
    case assign
    with r t show ?thesis by (auto simp: assign_step_def enqueue_role_agent_def Let_def)
  next
    case execute
    with idle show ?thesis by (auto simp: execute_step_def execute_case_task_def split: option.splits)
  next
    case resume
    with idle show ?thesis by (auto simp: resume_step_def resume_case_agent_def)
  next
    case confirm
    have "waiting_task_of c so = None" using idle by (simp add: waiting_task_of_def)
    with confirm have "c' = c"
      by (auto simp: confirm_step_def confirm_engineer_purchase_def confirm_dispatcher_supply_def
          confirm_warehouse_availability_conclusion_def Let_def split: if_splits option.splits)
    with r show ?thesis by simp
  next
    case acknowledge
    then obtain prefix event agent now user reply where
      "acknowledge_critical prefix event agent now user c so = (reply, c', so')" unfolding acknowledge_step_def by blast
    from acknowledged[OF this] r show ?thesis by (simp add: case_view_def released_case_def)
  next
    case upkeep
    have "\<not> is_processing c"
      using t terminal_not_monitored by (auto simp: is_processing_def ORCHESTRATOR_PROCESSING_CASE_STATUSES_def)
    moreover have "\<not> is_live_material c" using t by (simp add: is_live_material_def)
    ultimately show ?thesis using upkeep by (simp add: upkeep_step_def)
  qed
qed

lemma released_step:
  assumes "orch_step s s'" "orch_inv (fst s) (snd s)" "\<exists>x \<in> set (fst s). pc_id x = i \<and> released_case x"
  shows "\<exists>x \<in> set (fst s'). pc_id x = i \<and> released_case x"
  using assms(1)
proof cases
  case (on_case c cs so c' so')
  with assms(2,3) releasing.released_kept show ?thesis by fastforce
next
  case (open_case now i u d so c so' a cs)
  with assms(3) show ?thesis by auto
qed (use assms(3) in auto)

section \<open>The slots of the preparation engineer\<close>

definition engineer_tasks_named :: "store \<Rightarrow> bool" where
  "engineer_tasks_named so \<longleftrightarrow> (\<forall>(i, t) \<in> set (so_tasks so). is_engineer_task t \<longrightarrow> jstring (task_case t) \<noteq> [])"

definition slots_of :: "(string \<times> ptask) list \<Rightarrow> int" where
  "slots_of ts = int (length (filter (\<lambda>(i, t). is_engineer_task t \<and> holds_slot t) ts))"

lemma claim_task_engineer [simp]: "is_engineer_task (claim_task now t) = is_engineer_task t" "holds_slot (claim_task now t)"
  by (simp_all add: is_engineer_task_def claim_task_def holds_slot_def)

lemma claim_loop_counts:
  assumes "claim_loop now av k ts = (us, ds, n)" "\<forall>(i, t) \<in> set ts. is_engineer_task t \<longrightarrow> jstring (task_case t) \<noteq> []"
  shows "n = k + int (length ds) \<and> n \<le> max k av \<and> slots_of us = slots_of ts + int (length ds) \<and>
    (n < av \<longrightarrow> (\<forall>(i, t) \<in> set us. is_engineer_task t \<longrightarrow> holds_slot t))"
  using assms
proof (induction now av k ts arbitrary: us ds n rule: claim_loop.induct)
  case (1 now av k)
  then show ?case by (simp add: slots_of_def)
next
  case (2 now av k i t ts)
  have named: "\<forall>(i, t) \<in> set ts. is_engineer_task t \<longrightarrow> jstring (task_case t) \<noteq> []" using "2.prems"(2) by simp
  consider (other) "\<not> is_engineer_task t" | (stop) "is_engineer_task t" "k \<ge> av"
    | (busy) "is_engineer_task t" "\<not> k \<ge> av" "pt_status t \<noteq> Task_Pending \<or> jtruthy (jget (pt_metadata t) ''dispatch_claimed'')"
    | (take) "is_engineer_task t" "\<not> k \<ge> av" "\<not> (pt_status t \<noteq> Task_Pending \<or> jtruthy (jget (pt_metadata t) ''dispatch_claimed''))"
    by blast
  then show ?case
  proof cases
    case other
    obtain vs es m where l: "claim_loop now av k ts = (vs, es, m)" by (metis prod_cases3)
    from "2.IH"(1)[OF other l named] "2.prems"(1) other l show ?thesis by (auto simp: slots_of_def)
  next
    case stop
    with "2.prems"(1) show ?thesis by auto
  next
    case busy
    obtain vs es m where l: "claim_loop now av k ts = (vs, es, m)" by (metis prod_cases3)
    have "holds_slot t" using busy by (auto simp: is_engineer_task_def holds_slot_def)
    with "2.IH"(2)[OF _ busy(2,3) l named] "2.prems"(1) busy l show ?thesis by (auto simp: slots_of_def)
  next
    case take
    define cid where "cid = jstring (jget (pt_metadata t) ''procurement_case_id'')"
    have cid: "cid \<noteq> []" using "2.prems"(2) take(1) by (simp add: cid_def task_case_def)
    obtain vs es m where l: "claim_loop now av (k + 1) ts = (vs, es, m)" by (metis prod_cases3)
    have l': "claim_loop now av (if cid = [] then k else k + 1) ts = (vs, es, m)" using l cid by simp
    have "\<not> holds_slot t" using take by (auto simp: is_engineer_task_def holds_slot_def)
    moreover have "us = (i, claim_task now t) # vs" "ds = (cid, i) # es" "n = m"
      using "2.prems"(1) take l cid by (auto simp: cid_def[symmetric] Let_def)
    ultimately show ?thesis using "2.IH"(3)[OF _ take(2,3) cid_def l' named] cid take by (auto simp: slots_of_def)
  qed
qed

section \<open>A history\<close>

definition demo_release :: jdict where
  "demo_release =
     [(''agent_id'', JStr QUALITY_ENGINEER_AGENT_ID), (''role_status'', JStr ''completed''),
      (''output_data'', JObj [(''next_status'', JStr ''quality_released'')])]"

lemma demo_opened:
  "\<exists>c so t. orch_step ([], demo_store) ([c], so) \<and> pc_current_task c = Some ''task-1'' \<and>
    dict_get (so_tasks so) ''task-1'' = Some t"
proof -
  obtain c so t where o: "upsert_new 0 ''case-1'' ''task-1'' demo_document demo_store = (Some c, so, Enqueued)"
    "pc_current_task c = Some ''task-1''" "dict_get (so_tasks so) ''task-1'' = Some t"
    using document_opens[OF demo_recent] by (force simp: demo_document_def demo_store_def)
  have "orch_step ([], demo_store) ([] @ [c], so)"
    by (rule orch_step.open_case[OF o(1)]) (simp_all add: fresh_task_def demo_store_def)
  with o(2,3) show ?thesis by auto
qed

text \<open>A release by the quality engineer closes the case of the task.\<close>

lemma release_closes:
  assumes "pc_current_task c = Some i" "dict_get (so_tasks so) i = Some t" "fresh_task u so"
  shows "\<exists>c' so'. execute_step c so c' so' \<and> released_case c' \<and> pc_id c' = pc_id c"
proof -
  let ?p = "completed_payload c demo_release"
  have g: "dict_get ?p ''agent_id'' = Some (JStr QUALITY_ENGINEER_AGENT_ID)"
    "dict_get ?p ''output_data'' = Some (JObj [(''next_status'', JStr ''quality_released'')])"
    by (simp_all add: completed_payload_def demo_release_def dict_get_cons)
  have ne: "QUALITY_ENGINEER_AGENT_ID \<noteq> []" by (simp add: role_ids)
  have p: "result_agent_of x ?p = QUALITY_ENGINEER_AGENT_ID" for x
    using ne by (simp add: result_agent_of_def jget_iff g jor_def jstring_def)
  have nx: "next_status_of ?p = JStr ''quality_released''"
    by (simp add: next_status_of_def output_of_def jget_iff g jor_def dict_get_cons)
  have q: "QUALITY_ENGINEER_AGENT_ID \<in> set QUALITY_ROLE_AGENT_IDS" by (simp add: QUALITY_ROLE_AGENT_IDS_def)
  have st: "status_after x ?p ''new'' = ''quality_released''" for x
    by (simp add: status_after_def p nx q case_statuses_def)
  then have live: "\<not> asks_terminal c demo_release" by (simp add: asks_terminal_def TERMINAL_CASE_STATUSES_def)
  have others: "\<not> from_agent PRODUCTION_PREPARATION_ENGINEER_AGENT_ID ?p" "\<not> from_agent PRODUCTION_DISPATCHER_AGENT_ID ?p"
    by (simp_all add: from_agent_def jget_iff g role_ids)
  have spec: "payload_spec ?p = None"
    by (simp add: payload_spec_def jget_iff g jstring_def role_ids warehouse_availability_spec_def
        WAREHOUSE_AVAILABILITY_SPECS_def PICKER_SPEC_def COMPLEX_CHIEF_SPEC_def dict_get_cons)
  have role: "role_status_of demo_release = ''completed''"
    by (simp add: role_status_of_def demo_release_def jor_def)
  define t1 where "t1 = t\<lparr>pt_status := Task_Running, pt_started_at := Some 0\<rparr>"
  define c1 where "c1 = conclude_case 0 ?p (received_task ?p t1) (received_case ?p c)"
  have rel: "released_case c1" "pc_id c1 = pc_id c"
    by (simp_all add: c1_def conclude_case_def p q nx jstring_def released_case_def received_facts)
  have "\<exists>so2. role_completed 0 u i ?p (received_case ?p c) (received_task ?p t1) (put_task i t1 so) =
      Inr (c1\<lparr>pc_current_task := None, pc_current_agent := None\<rparr>, so2)"
    by (simp add: role_completed_def others spec Let_def c1_def)
  then obtain so' where r: "apply_role_agent_result (\<lambda>_. []) 0 u ''role_agent_result_received'' demo_release i c t1 (put_task i t1 so)
      = Inr (c1\<lparr>pc_current_task := None, pc_current_agent := None\<rparr>, so')"
    by (auto simp: apply_role_agent_result_def role role_statuses_def Let_def)
  let ?c = "c1\<lparr>pc_current_task := None, pc_current_agent := None\<rparr>"
  have "execute_case_task (\<lambda>a p. Some demo_release) (\<lambda>_. []) 0 u i c so = Inr (Applied, ?c, so')"
    using assms(1,2) r by (simp add: execute_case_task_def t1_def Let_def)
  then have "execute_step c so ?c so'"
    unfolding execute_step_def using assms(3) live
    by (intro exI[of _ "\<lambda>a p. Some demo_release"] exI[of _ "\<lambda>_. []"] exI[of _ 0] exI[of _ u] exI[of _ i]) simp
  moreover have "released_case ?c" "pc_id ?c = pc_id c" using rel by (simp_all add: released_case_def)
  ultimately show ?thesis by blast
qed

lemma demo_released:
  "\<exists>c so. steps orch_step ([], demo_store) ([c], so) \<and> released_case c"
proof -
  obtain c so t where o: "orch_step ([], demo_store) ([c], so)" "pc_current_task c = Some ''task-1''"
    "dict_get (so_tasks so) ''task-1'' = Some t" using demo_opened by blast
  obtain u where "u \<notin> set (dict_keys (so_tasks so))"
    using ex_new_if_finite[OF infinite_UNIV_listI finite_set] by blast
  then have u: "fresh_task u so" by (simp add: fresh_task_def dict_get_absent)
  from release_closes[OF o(2,3) u] obtain c' so' where r: "execute_step c so c' so'" "released_case c'" "pc_id c' = pc_id c"
    by blast
  have "orch_step ([c], so) (put_case c' [c], so')" by (rule orch_step.on_case[OF _ case_step.execute[OF r(1)]]) simp
  then have "orch_step ([c], so) ([c'], so')" using r(3) by (simp add: put_case_def)
  with o(1) r(2) show ?thesis by (blast intro: steps.intros)
qed

section \<open>Properties\<close>



text \<open>
  C8: A case that the quality control has released stays closed as released along every history of the
  orchestrator: no poll of its document, no result, no confirmation and no assignment reopens it.
\<close>

lemma released_never_reopened:
  assumes "steps orch_step ([], so0) (cs, so)" "so_tasks so0 = []" "steps orch_step (cs, so) (cs', so')"
    "c \<in> set cs" "pc_status c = ''closed''" "pc_closed_reason c = Some ''quality_released''"
  shows "\<exists>c' \<in> set cs'. pc_id c' = pc_id c \<and> pc_status c' = ''closed'' \<and> pc_closed_reason c' = Some ''quality_released''"
proof -
  let ?P = "\<lambda>s. orch_inv (fst s) (snd s) \<and> (\<exists>x \<in> set (fst s). pc_id x = pc_id c \<and> released_case x)"
  have step: "?P s'" if "orch_step s s'" "?P s" for s s'
    using orch_step_inv[OF that(1)] released_step[OF that(1)] that(2) by blast
  have "?P (cs, so)" using orch_reach[OF assms(1) empty_inv[OF assms(2)]] assms(4-6) by (auto simp: released_case_def)
  from steps_invariant[where P = ?P, OF assms(3) this step] have "?P (cs', so')" .
  then show ?thesis by (auto simp: released_case_def)
qed

lemma released_never_reopened_witness:
  "\<exists>c so. steps orch_step ([], demo_store) ([c], so) \<and> released_case c \<and>
    (\<forall>cs' so'. steps orch_step ([c], so) (cs', so') \<longrightarrow> (\<exists>c' \<in> set cs'. pc_id c' = pc_id c \<and> pc_status c' = ''closed''))"
proof -
  obtain c so where o: "steps orch_step ([], demo_store) ([c], so)" "released_case c" using demo_released by blast
  have t: "so_tasks demo_store = []" by (simp add: demo_store_def)
  show ?thesis using o released_never_reopened[OF o(1) t] by (fastforce simp: released_case_def)
qed


definition demo_engineer_task :: ptask where
  "demo_engineer_task =
     \<lparr>pt_status = Task_Pending, pt_task_type = ''procurement_role_agent'', pt_input_payload = [], pt_final_result = [],
      pt_requires_review = False, pt_started_at = None, pt_finished_at = None, pt_error_message = None,
      pt_metadata = [(''procurement_case_id'', JStr ''case-1''),
        (''agent_slug'', JStr PRODUCTION_PREPARATION_ENGINEER_AGENT_ID)]\<rparr>"




end
