(* ===== verification/Poll_Source.thy ===== *)
theory Poll_Source
  imports Case_Polling Case_Maintenance
begin

text \<open>
  One poll of 1C (\<open>app/services/procurement_orchestrator_service.py\<close>): \<open>poll_once\<close> resolves the
  databases, polls every source of every database, and then maintains the workspaces of the agents.
  \<open>_poll_source\<close> asks for the active references, closes the cases outside them, reads the documents,
  completes them with the names of catalogue entries and of basis documents, and upserts their cases.

  The gateway of 1C is a record of functions, each with \<open>None\<close> for a failed call; its answers carry a
  list under every key that the code iterates.  \<open>error_text\<close> is the text of an exception.  The chunks of
  references are read one after the other.
\<close>

section \<open>Capabilities\<close>

definition SUFFIX_LINES :: string where
  "SUFFIX_LINES =
    [CHR 0x5F, CHR 0xD0, CHR 0xA2, CHR 0xD0, CHR 0xBE, CHR 0xD0, CHR 0xB2, CHR 0xD0, CHR 0xB0, CHR
     0xD1, CHR 0x80, CHR 0xD1, CHR 0x8B]"

record source_capability =
  cap_source_type :: source_type
  cap_entity_set :: string
  cap_lines_entity_set :: string
  cap_label :: string
  cap_available :: bool
  cap_unavailable_reason :: "string option"

definition capability :: "source_type \<Rightarrow> source_capability" where
  "capability s =
     \<lparr>cap_source_type = s, cap_entity_set = entity_set_of s, cap_lines_entity_set = entity_set_of s @ SUFFIX_LINES,
      cap_label = source_label s, cap_available = True, cap_unavailable_reason = None\<rparr>"

definition list_source_capabilities :: "source_capability list" where
  "list_source_capabilities =
     map capability [InternalConsumptionOrder, ProductionMaterialOrder, TransferOrder, ReorderPoint]"

record gateway =
  gw_health :: "jdict option"
  gw_databases :: "jdict option"
  gw_active_refs :: "jdict \<Rightarrow> jdict option"
  gw_documents :: "string \<Rightarrow> string \<Rightarrow> string list \<Rightarrow> jdict option"
  gw_document :: "string \<Rightarrow> string \<Rightarrow> string \<Rightarrow> jdict option"
  gw_presentations :: "string \<Rightarrow> string \<Rightarrow> string list \<Rightarrow> string list \<Rightarrow> jdict option"

definition answer_objects :: "string \<Rightarrow> jdict \<Rightarrow> jdict list" where
  "answer_objects key answer = jobjects (jlist (jget answer key))"

section \<open>Presentations\<close>

definition ZERO_1C_REF :: string where
  "ZERO_1C_REF = ''00000000-0000-0000-0000-000000000000''"

definition is_real_1c_ref :: "string option \<Rightarrow> bool" where
  "is_real_1c_ref value \<longleftrightarrow> truthy value \<and> value \<noteq> Some ZERO_1C_REF"

definition some_text :: "json \<Rightarrow> string option" where
  "some_text v = (if jstring v = [] then None else Some (jstring v))"

type_synonym presentations = "(string, jdict) dict"

definition presentation_name :: "presentations \<Rightarrow> string option \<Rightarrow> string option" where
  "presentation_name ps ref =
     (if \<not> truthy ref then None else some_text (jget (dict_get_or ps (casefold (opt_str ref)) []) ''name''))"

fun all_answers :: "('a \<Rightarrow> 'b option) \<Rightarrow> 'a list \<Rightarrow> 'b list option" where
  "all_answers f [] = Some []"
| "all_answers f (x # xs) = (case (f x, all_answers f xs) of (Some y, Some ys) \<Rightarrow> Some (y # ys) | _ \<Rightarrow> None)"

definition presented_items :: "jdict list \<Rightarrow> presentations" where
  "presented_items answers =
     dict_of (map (\<lambda>item. (casefold (jstr (jget item ''ref'')), item))
       (filter (\<lambda>item. jtruthy (jget item ''ref'')) (concat (map (answer_objects ''items'') answers))))"

text \<open>\<open>None\<close> when a call has failed.\<close>

definition read_presentations ::
  "gateway \<Rightarrow> string \<Rightarrow> string \<Rightarrow> string list \<Rightarrow> string list \<Rightarrow> presentations option" where
  "read_presentations gw database entity_set refs columns =
     (let values = sort (uniq (map casefold (filter (\<lambda>r. is_real_1c_ref (Some r)) refs)))
      in map_option presented_items
           (all_answers (\<lambda>chunk. gw_presentations gw database entity_set chunk columns) (chunks 19 values)))"

definition real_refs :: "string option list \<Rightarrow> string list" where
  "real_refs refs = uniq (map opt_str (filter is_real_1c_ref refs))"

text \<open>The unit of a nomenclature entry; \<open>None\<close> when its attributes are not an object.\<close>

definition unit_of_item :: "jdict \<Rightarrow> json option" where
  "unit_of_item item =
     (case jget_default item ''attributes'' (JObj []) of JObj d \<Rightarrow> Some (jget d KEY_UNIT) | _ \<Rightarrow> None)"

section \<open>Basis documents\<close>

definition ODATA_PREFIX :: string where "ODATA_PREFIX = ''StandardODATA.''"

definition basis_key :: "source_document \<Rightarrow> string \<times> string" where
  "basis_key d = (opt_str (sd_basis_type d), casefold (opt_str (sd_basis_ref d)))"

definition basis_entity :: "string \<Rightarrow> string" where
  "basis_entity basis_type =
     (if is_prefix ODATA_PREFIX basis_type then drop (length ODATA_PREFIX) basis_type else basis_type)"

definition basis_requested :: "source_document \<Rightarrow> bool" where
  "basis_requested d \<longleftrightarrow> is_prefix ''Document_'' (basis_entity (fst (basis_key d))) \<and> is_real_1c_ref (Some (snd (basis_key d)))"

definition read_source_basis_documents ::
  "gateway \<Rightarrow> string \<Rightarrow> source_document list \<Rightarrow> (string \<times> string, jdict) dict" where
  "read_source_basis_documents gw database ds =
     dict_of (map (\<lambda>d. (basis_key d,
                        case gw_document gw database (basis_entity (fst (basis_key d))) (snd (basis_key d)) of
                          None \<Rightarrow> [] | Some payload \<Rightarrow> payload))
       (filter basis_requested ds))"

section \<open>Completing the documents\<close>

definition named_line :: "presentations \<Rightarrow> presentations \<Rightarrow> need_line \<Rightarrow> need_line" where
  "named_line nomenclature units l =
     (let item = dict_get_or nomenclature (casefold (nl_nomenclature_id l)) [];
          unit_ref = jstring (jor (case unit_of_item item of None \<Rightarrow> JNull | Some v \<Rightarrow> v) (jtext_opt (nl_unit_id l)))
      in l\<lparr>nl_nomenclature_name := some_text (jget item ''name''),
           nl_unit_id := (if unit_ref = [] then None else Some unit_ref),
           nl_unit := (case presentation_name units (Some unit_ref) of Some u \<Rightarrow> Some u | None \<Rightarrow> nl_unit l)\<rparr>)"

definition named_document ::
  "presentations \<Rightarrow> presentations \<Rightarrow> presentations \<Rightarrow> presentations \<Rightarrow> presentations \<Rightarrow>
   (string \<times> string, jdict) dict \<Rightarrow> source_document \<Rightarrow> source_document" where
  "named_document initiators departments warehouses nomenclature units bases d =
     (let basis = dict_get_or bases (basis_key d) []
      in d\<lparr>sd_initiator_name := presentation_name initiators (sd_initiator_ref d),
           sd_department_name := presentation_name departments (sd_department_ref d),
           sd_warehouse_name := presentation_name warehouses (sd_warehouse_ref d),
           sd_basis_number := some_text (jget basis ''Number''),
           sd_basis_date := parse_1c_datetime (jget basis ''Date''),
           sd_basis_status := some_text (jget basis KEY_STATUS),
           sd_positions := map (named_line nomenclature units) (sd_positions d)\<rparr>)"

definition warehouse_refs_of :: "source_document \<Rightarrow> string option list" where
  "warehouse_refs_of d = [sd_warehouse_ref d, sd_warehouse_from_ref d, sd_warehouse_to_ref d]"

text \<open>
  A catalogue that cannot be read has no entries.  The result is the function that completes a document
  of the list.
\<close>

definition enrich_document_presentations ::
  "gateway \<Rightarrow> string \<Rightarrow> source_document list \<Rightarrow> poll_error + (source_document \<Rightarrow> source_document)" where
  "enrich_document_presentations gw database ds =
     (if ds = [] then Inr id
      else
        (let catalogue = (\<lambda>entity refs columns.
               case read_presentations gw database entity refs columns of None \<Rightarrow> [] | Some ps \<Rightarrow> ps);
             initiators = catalogue CATALOG_USERS (real_refs (map sd_initiator_ref ds)) [];
             departments = catalogue CATALOG_DEPARTMENTS (real_refs (map sd_department_ref ds)) [];
             warehouses = catalogue CATALOG_WAREHOUSES (real_refs (concat (map warehouse_refs_of ds))) [];
             nomenclature = catalogue CATALOG_NOMENCLATURE
               (real_refs (concat (map (\<lambda>d. map (\<lambda>l. Some (nl_nomenclature_id l)) (sd_positions d)) ds))) [KEY_UNIT]
         in case all_answers unit_of_item (dict_values nomenclature) of
              None \<Rightarrow> Inl Bad_Presentation
            | Some unit_values \<Rightarrow>
                (let units = catalogue CATALOG_UNITS (real_refs (map (\<lambda>v. Some (jstring v)) unit_values)) []
                 in Inr (named_document initiators departments warehouses nomenclature units
                           (read_source_basis_documents gw database ds)))))"

section \<open>Discovery\<close>

record sync_state =
  ss_database :: string
  ss_source_type :: source_type
  ss_entity_set :: string
  ss_capability_status :: string
  ss_capability_message :: "string option"
  ss_last_polled_at :: "int option"
  ss_last_success_at :: "int option"
  ss_watermark_date :: "int option"
  ss_watermark_refs :: "string list"
  ss_last_error :: "string option"
  ss_documents_seen :: nat
  ss_cases_created :: nat
  ss_cases_updated :: nat
  ss_cases_skipped :: nat

definition new_sync_state :: "string \<Rightarrow> source_type \<Rightarrow> string \<Rightarrow> sync_state" where
  "new_sync_state database source_type entity_set =
     \<lparr>ss_database = database, ss_source_type = source_type, ss_entity_set = entity_set, ss_capability_status = ''unknown'',
      ss_capability_message = None, ss_last_polled_at = None, ss_last_success_at = None, ss_watermark_date = None,
      ss_watermark_refs = [], ss_last_error = None, ss_documents_seen = 0, ss_cases_created = 0, ss_cases_updated = 0,
      ss_cases_skipped = 0\<rparr>"

definition is_sync_state :: "string \<Rightarrow> source_type \<Rightarrow> sync_state \<Rightarrow> bool" where
  "is_sync_state database source_type s \<longleftrightarrow> ss_database s = database \<and> ss_source_type s = source_type"

definition get_or_create_sync_state :: "string \<Rightarrow> source_type \<Rightarrow> string \<Rightarrow> sync_state list \<Rightarrow> sync_state" where
  "get_or_create_sync_state database source_type entity_set states =
     (case find (is_sync_state database source_type) states of
        Some s \<Rightarrow> s\<lparr>ss_entity_set := entity_set\<rparr>
      | None \<Rightarrow> new_sync_state database source_type entity_set)"

definition put_sync_state :: "sync_state \<Rightarrow> sync_state list \<Rightarrow> sync_state list" where
  "put_sync_state s states =
     (let same = is_sync_state (ss_database s) (ss_source_type s)
      in if \<exists>x \<in> set states. same x then map (\<lambda>x. if same x then s else x) states else states @ [s])"

text \<open>The reorder points are asked for with their recent past and with the references of their live cases.\<close>

definition selection_payload :: "int \<Rightarrow> string \<Rightarrow> source_type \<Rightarrow> pcase list \<Rightarrow> jdict" where
  "selection_payload now database source_type cs =
     (let base = [(''database'', JStr database), (''linesEntitySet'', JStr (cap_lines_entity_set (capability source_type)))]
      in if source_type = ReorderPoint
         then base @ [(''dateFrom'', JStr (iso_date (instant_date (source_date_cutoff now)))),
                      (''includeRefs'', JArr (map JStr (uniq (map pc_source_ref (filter (is_monitored database source_type) cs)))))]
         else base)"

definition candidate_refs_of :: "jdict \<Rightarrow> string list" where
  "candidate_refs_of selection = uniq (map (\<lambda>v. casefold (jstr v)) (filter jtruthy (jlist (jget selection ''activeRefs''))))"

definition raw_ref :: "jdict \<Rightarrow> json" where
  "raw_ref raw = get_first raw [''Ref_Key'', ''ref'']"

definition selected_documents_of :: "jdict \<Rightarrow> presentations" where
  "selected_documents_of selection =
     dict_of (map (\<lambda>raw. (casefold (jstr (raw_ref raw)), raw))
       (filter (\<lambda>raw. jtruthy (raw_ref raw)) (answer_objects ''documents'' selection)))"

definition fetch_documents :: "gateway \<Rightarrow> string \<Rightarrow> string \<Rightarrow> string list \<Rightarrow> jdict list option" where
  "fetch_documents gw database entity_set refs = map_option (answer_objects ''items'') (gw_documents gw database entity_set refs)"

definition existing_hashes_of :: "string \<Rightarrow> source_type \<Rightarrow> string list \<Rightarrow> pcase list \<Rightarrow> (string, string option) dict" where
  "existing_hashes_of database source_type refs cs =
     dict_of (map (\<lambda>c. (casefold (pc_source_ref c), pc_content_hash c))
       (filter (\<lambda>c. pc_database c = Some database \<and> pc_source_type c = source_type \<and> pc_source_ref c \<in> set refs) cs))"

definition needs_presentations :: "(string, string option) dict \<Rightarrow> source_document \<Rightarrow> bool" where
  "needs_presentations hashes d \<longleftrightarrow> \<not> truthy (sd_skip_reason d) \<and>
     dict_get_or hashes (casefold (sd_ref_key d)) None \<noteq> Some (sd_content_hash d)"

text \<open>The documents of the active references, those of the selection first.\<close>

definition read_documents ::
  "gateway \<Rightarrow> (jdict \<Rightarrow> source_error + source_document) \<Rightarrow> string \<Rightarrow> string \<Rightarrow> jdict \<Rightarrow> poll_error + source_document list" where
  "read_documents gw to_doc database entity_set selection =
     (let refs = candidate_refs_of selection; selected = selected_documents_of selection;
          raw_documents = List.map_filter (dict_get selected) (sort refs);
          missing = sort (filter (\<lambda>r. r \<notin> set (dict_keys selected)) refs)
      in case all_answers (fetch_documents gw database entity_set) (chunks 49 missing) of
           None \<Rightarrow> Inl Source_Unavailable
         | Some batches \<Rightarrow> map_sum Bad_Document id (normalize_all to_doc (raw_documents @ concat batches)))"

definition complete_documents ::
  "gateway \<Rightarrow> string \<Rightarrow> source_type \<Rightarrow> string list \<Rightarrow> pcase list \<Rightarrow> source_document list \<Rightarrow> poll_error + source_document list" where
  "complete_documents gw database source_type refs cs ds =
     (let needs = needs_presentations (existing_hashes_of database source_type refs cs)
      in map_sum id (\<lambda>complete. map (\<lambda>d. if needs d then complete d else d) ds)
           (enrich_document_presentations gw database (filter needs ds)))"

definition discover_documents ::
  "gateway \<Rightarrow> (source_document \<Rightarrow> string) \<Rightarrow> int \<Rightarrow> string \<Rightarrow> source_type \<Rightarrow> sync_state \<Rightarrow> pcase list \<Rightarrow> store \<Rightarrow>
   pcase list \<times> store \<times> sync_state \<times> (poll_error + source_document list)" where
  "discover_documents gw digest now database source_type st cs so =
     (let entity_set = cap_entity_set (capability source_type);
          to_doc = normalize_source_document digest source_type database entity_set
      in case gw_active_refs gw (selection_payload now database source_type cs) of
           None \<Rightarrow> (cs, so, st, Inl Source_Unavailable)
         | Some selection \<Rightarrow>
             (case close_cases_outside_active_refs (fetch_documents gw database entity_set) to_doc now database source_type
                     (candidate_refs_of selection) cs so of
                Inl e \<Rightarrow> (cs, so, st, Inl (Bad_Document e))
              | Inr (cs1, so1) \<Rightarrow>
                  (case read_documents gw to_doc database entity_set selection of
                     Inl e \<Rightarrow> (cs1, so1, st, Inl e)
                   | Inr ds \<Rightarrow> (cs1, so1, st\<lparr>ss_watermark_refs := []\<rparr>,
                                complete_documents gw database source_type (candidate_refs_of selection) cs1 ds))))"

section \<open>One source\<close>

text \<open>The fresh ids of the document at an index are those of a case and of a task.\<close>

fun upsert_all ::
  "int \<Rightarrow> (nat \<Rightarrow> string \<times> string) \<Rightarrow> nat \<Rightarrow> source_document list \<Rightarrow> pcase list \<Rightarrow> store \<Rightarrow>
   pcase list \<times> store \<times> upsert_action list" where
  "upsert_all now ids k [] cs so = (cs, so, [])"
| "upsert_all now ids k (d # ds) cs so =
     (case upsert_case_from_document now (ids k) d cs so of
        (cs1, so1, action) \<Rightarrow>
          (case upsert_all now ids (Suc k) ds cs1 so1 of (cs2, so2, actions) \<Rightarrow> (cs2, so2, action # actions)))"

definition count_actions :: "upsert_action \<Rightarrow> upsert_action list \<Rightarrow> nat" where
  "count_actions a as = length (filter (\<lambda>x. x = a) as)"

definition advance_watermark :: "source_document list \<Rightarrow> sync_state \<Rightarrow> sync_state" where
  "advance_watermark ds st =
     (let dates = List.map_filter sd_date (filter (\<lambda>d. \<not> truthy (sd_skip_reason d)) ds)
      in if dates = [] then st else st\<lparr>ss_watermark_date := Some (Max (set dates))\<rparr>)"

record source_summary =
  su_database :: string
  su_source_type :: source_type
  su_entity_set :: string
  su_created :: nat
  su_updated :: nat
  su_skipped :: nat
  su_enqueued :: nat
  su_error :: "string option"

definition empty_summary :: "string \<Rightarrow> source_type \<Rightarrow> source_summary" where
  "empty_summary database source_type =
     \<lparr>su_database = database, su_source_type = source_type, su_entity_set = cap_entity_set (capability source_type),
      su_created = 0, su_updated = 0, su_skipped = 0, su_enqueued = 0, su_error = None\<rparr>"

definition polled_state :: "int \<Rightarrow> source_document list \<Rightarrow> upsert_action list \<Rightarrow> sync_state \<Rightarrow> sync_state" where
  "polled_state now ds as st =
     advance_watermark ds
       (st\<lparr>ss_cases_created := ss_cases_created st + count_actions Created as,
           ss_cases_updated := ss_cases_updated st + count_actions Updated as,
           ss_cases_skipped := ss_cases_skipped st + count_actions Skipped as,
           ss_documents_seen := ss_documents_seen st + length ds, ss_last_success_at := Some now, ss_last_error := None\<rparr>)"

definition poll_source ::
  "gateway \<Rightarrow> (source_document \<Rightarrow> string) \<Rightarrow> (poll_error \<Rightarrow> string) \<Rightarrow> int \<Rightarrow> (nat \<Rightarrow> string \<times> string) \<Rightarrow> string \<Rightarrow> source_type \<Rightarrow>
   pcase list \<Rightarrow> store \<Rightarrow> sync_state list \<Rightarrow> pcase list \<times> store \<times> sync_state list \<times> source_summary" where
  "poll_source gw digest error_text now ids database source_type cs so states =
     (let cap = capability source_type; summary = empty_summary database source_type;
          st = (get_or_create_sync_state database source_type (cap_entity_set cap) states)\<lparr>ss_last_polled_at := Some now\<rparr>
      in if \<not> cap_available cap \<or> cap_entity_set cap = []
         then (cs, so, put_sync_state (st\<lparr>ss_capability_status := ''capability_unavailable'',
                         ss_capability_message := cap_unavailable_reason cap, ss_last_error := cap_unavailable_reason cap\<rparr>) states,
               summary\<lparr>su_error := cap_unavailable_reason cap\<rparr>)
         else
           (case discover_documents gw digest now database source_type
                   (st\<lparr>ss_capability_status := ''available'', ss_capability_message := None\<rparr>) cs so of
              (cs1, so1, st1, Inl e) \<Rightarrow>
                (cs1, so1, put_sync_state (st1\<lparr>ss_last_error := Some (error_text e), ss_capability_status := ''error'',
                             ss_capability_message := Some (error_text e)\<rparr>) states,
                 summary\<lparr>su_error := Some (error_text e)\<rparr>)
            | (cs1, so1, st1, Inr ds) \<Rightarrow>
                (case upsert_all now ids 0 ds cs1 so1 of
                   (cs2, so2, as) \<Rightarrow>
                     (cs2, so2, put_sync_state (polled_state now ds as st1) states,
                      summary\<lparr>su_created := count_actions Created as, su_updated := count_actions Updated as,
                              su_skipped := count_actions Skipped as, su_enqueued := count_actions Enqueued as\<rparr>))))"

section \<open>The whole poll\<close>

definition resolve_databases :: "gateway \<Rightarrow> jdict \<Rightarrow> string list" where
  "resolve_databases gw health =
     (let default_name = jstr (jor (jget health ''database'') (JStr ''default''))
      in case gw_databases gw of
           None \<Rightarrow> [default_name]
         | Some listed \<Rightarrow>
             (let names = map (\<lambda>item. jstr (jget item ''name''))
                    (filter (\<lambda>item. jtruthy (jget item ''name'')) (answer_objects ''databases'' listed))
              in if names = [] then [default_name] else names))"

text \<open>The sources are numbered, since a database may be listed twice.\<close>

fun poll_sources ::
  "(nat \<Rightarrow> string \<Rightarrow> source_type \<Rightarrow> pcase list \<Rightarrow> store \<Rightarrow> sync_state list \<Rightarrow>
     pcase list \<times> store \<times> sync_state list \<times> source_summary) \<Rightarrow>
   nat \<Rightarrow> (string \<times> source_type) list \<Rightarrow> pcase list \<Rightarrow> store \<Rightarrow> sync_state list \<Rightarrow>
   pcase list \<times> store \<times> sync_state list \<times> source_summary list" where
  "poll_sources poll j [] cs so states = (cs, so, states, [])"
| "poll_sources poll j ((database, source_type) # rest) cs so states =
     (case poll j database source_type cs so states of
        (cs1, so1, states1, s) \<Rightarrow>
          (case poll_sources poll (Suc j) rest cs1 so1 states1 of (cs2, so2, states2, ss) \<Rightarrow> (cs2, so2, states2, s # ss)))"

definition polled_sources :: "source_type set option \<Rightarrow> string list \<Rightarrow> (string \<times> source_type) list" where
  "polled_sources source_types databases =
     concat (map (\<lambda>database. map (\<lambda>cap. (database, cap_source_type cap))
       (filter (\<lambda>cap. case source_types of None \<Rightarrow> True | Some ts \<Rightarrow> cap_source_type cap \<in> ts) list_source_capabilities)) databases)"

record maintenance_ids =
  mi_picker :: "string list"
  mi_complex :: "string list"
  mi_migrate :: "string list"
  mi_manager :: "string list"
  mi_assign :: "string list"

record maintenance_summary =
  ms_picker :: sync_counts
  ms_complex :: sync_counts
  ms_manager :: sync_counts
  ms_backfilled :: nat
  ms_engineer_dispatched :: int

definition maintain ::
  "int \<Rightarrow> int \<Rightarrow> int \<Rightarrow> maintenance_ids \<Rightarrow> pcase list \<Rightarrow> store \<Rightarrow> (pcase list \<times> store \<times> maintenance_summary) option" where
  "maintain interval manager_interval now ids cs so = do {
     (cs1, so1, picker) \<leftarrow> ensure_warehouse_availability_work PICKER_SPEC interval now (mi_picker ids) cs so;
     (cs2, so2, complex) \<leftarrow> ensure_complex_chief_agent_work interval now (mi_complex ids) (mi_migrate ids) cs1 so1;
     (cs3, so3, manager) \<leftarrow> ensure_purchase_manager_work manager_interval now (mi_manager ids) cs2 so2;
     (case ensure_active_case_assignments now (mi_assign ids) cs3 so3 of
        (cs4, so4, backfilled) \<Rightarrow>
          (case claim_engineer_dispatches now 5 so4 of
             (so5, claimed) \<Rightarrow>
               Some (cs4, so5, \<lparr>ms_picker = picker, ms_complex = complex, ms_manager = manager,
                                ms_backfilled = backfilled, ms_engineer_dispatched = claimed\<rparr>))) }"

record poll_summary =
  ps_databases :: "string list"
  ps_sources :: "source_summary list"
  ps_created :: nat
  ps_updated :: nat
  ps_skipped :: nat
  ps_enqueued :: nat
  ps_errors :: "string list"
  ps_maintenance :: "maintenance_summary option"

definition source_error_text :: "source_summary \<Rightarrow> string option" where
  "source_error_text s =
     (if truthy (su_error s) then Some (source_type_value (su_source_type s) @ '':'' @ opt_str (su_error s)) else None)"

definition summary_of :: "string list \<Rightarrow> source_summary list \<Rightarrow> poll_summary" where
  "summary_of databases ss =
     \<lparr>ps_databases = databases, ps_sources = ss, ps_created = sum_list (map su_created ss),
      ps_updated = sum_list (map su_updated ss), ps_skipped = sum_list (map su_skipped ss),
      ps_enqueued = sum_list (map su_enqueued ss), ps_errors = List.map_filter source_error_text ss, ps_maintenance = None\<rparr>"

text \<open>\<open>None\<close> when the maintenance raises.\<close>

definition poll_once ::
  "gateway \<Rightarrow> (source_document \<Rightarrow> string) \<Rightarrow> (poll_error \<Rightarrow> string) \<Rightarrow> int \<Rightarrow> int \<Rightarrow> int \<Rightarrow>
   (nat \<Rightarrow> nat \<Rightarrow> string \<times> string) \<Rightarrow> maintenance_ids \<Rightarrow> source_type set option \<Rightarrow> bool \<Rightarrow>
   pcase list \<Rightarrow> store \<Rightarrow> sync_state list \<Rightarrow> (pcase list \<times> store \<times> sync_state list \<times> poll_summary) option" where
  "poll_once gw digest error_text interval manager_interval now ids mids source_types run_maintenance cs so states =
     (case gw_health gw of
        None \<Rightarrow> Some (cs, so, states, (summary_of [] [])\<lparr>ps_errors := [''health_check:'' @ error_text Source_Unavailable]\<rparr>)
      | Some health \<Rightarrow>
          (let databases = resolve_databases gw health
           in case poll_sources (\<lambda>j. poll_source gw digest error_text now (ids j)) 0
                     (polled_sources source_types databases) cs so states of
                (cs1, so1, states1, ss) \<Rightarrow>
                  (let summary = summary_of databases ss
                   in if \<not> run_maintenance then Some (cs1, so1, states1, summary)
                      else
                        (case maintain interval manager_interval now mids cs1 so1 of
                           None \<Rightarrow> None
                         | Some (cs2, so2, ms) \<Rightarrow>
                             Some (cs2, so2, states1,
                               summary\<lparr>ps_enqueued := ps_enqueued summary + ms_backfilled ms, ps_maintenance := Some ms\<rparr>)))))"

end
