(* ===== verification/Poll_Machine.thy ===== *)
theory Poll_Machine
  imports Case_Machine Poll_Source
begin

text \<open>
  The poll refines the state machine of the orchestrator: whatever 1C answers, \<open>poll_once\<close> takes the
  cases and tasks along a sequence of the steps of \<open>orch_step\<close>, so every property of the reachable
  states holds after it.
\<close>

section \<open>New tasks\<close>

text \<open>An operation that is given the ids \<open>U\<close> creates tasks under these ids only.\<close>

definition adds :: "string set \<Rightarrow> store \<Rightarrow> store \<Rightarrow> bool" where
  "adds U so so' \<longleftrightarrow> (\<forall>k. k \<notin> U \<longrightarrow> dict_get (so_tasks so) k = None \<longrightarrow> dict_get (so_tasks so') k = None)"

definition unused :: "string set \<Rightarrow> store \<Rightarrow> bool" where
  "unused U so \<longleftrightarrow> (\<forall>u \<in> U. dict_get (so_tasks so) u = None)"

lemma adds_same [simp]: "so_tasks so' = so_tasks so \<Longrightarrow> adds U so so'"
  by (simp add: adds_def)

lemma adds_trans: "adds U so so1 \<Longrightarrow> adds V so1 so2 \<Longrightarrow> adds (U \<union> V) so so2"
  by (simp add: adds_def)

lemma adds_mono: "adds U so so' \<Longrightarrow> U \<subseteq> V \<Longrightarrow> adds V so so'"
  by (auto simp: adds_def)

lemma adds_join: "adds U so so1 \<Longrightarrow> adds U so1 so2 \<Longrightarrow> adds U so so2"
  by (simp add: adds_def)

lemma adds_put: "k \<in> U \<or> dict_get (so_tasks so) k \<noteq> None \<Longrightarrow> adds U so (put_task k t so)"
  by (auto simp: adds_def)

lemma adds_tasks: "so_tasks so1 = so_tasks so2 \<Longrightarrow> adds U so so1 \<longleftrightarrow> adds U so so2"
  by (simp add: adds_def)

lemma unused_after: "unused (U \<union> V) so \<Longrightarrow> adds U so so' \<Longrightarrow> U \<inter> V = {} \<Longrightarrow> unused V so'"
  by (auto simp: unused_def adds_def)

lemma unused_fresh: "unused U so \<Longrightarrow> u \<in> U \<Longrightarrow> fresh_task u so"
  by (simp add: unused_def fresh_task_def)

lemma release_adds:
  assumes "release_current_task now key c so = Some (c1, so1)"
  shows "adds U so so1"
proof (cases "pc_current_task c")
  case (Some i)
  consider "so1 = so" | t where "dict_get (so_tasks so) i = Some t" "so1 = put_task i (cancel_task now (Some RECOMPUTE_REASON) t) so"
    using assms Some by (auto simp: release_current_task_def split: option.splits if_splits)
  then show ?thesis by cases (simp_all add: adds_put)
qed (use assms in \<open>simp add: release_current_task_def\<close>)

lemma enqueue_adds:
  assumes "enqueue_role_agent now u c so = (c', so', b)"
  shows "adds {u} so so'"
proof -
  consider "so' = so" | c1 so1 where "release_current_task now (role_completion_key c (due_agent c)) c so = Some (c1, so1)"
      "start_role_task now u (due_agent c) (role_completion_key c (due_agent c)) c1 so1 = (c', so')"
    using assms by (auto simp: enqueue_role_agent_def Let_def split: if_splits option.splits prod.splits)
  then show ?thesis
  proof cases
    case (2 c1 so1)
    have "so_tasks so' = so_tasks (put_task u (role_task now (due_agent c) (role_completion_key c (due_agent c))
        (take 255 (''role:'' @ pc_id c1 @ '':'' @ role_completion_key c (due_agent c))) c1) so1)"
      using 2(2) by (auto simp: start_role_task_def Let_def split: if_splits)
    then have "adds {u} so1 so'" by (simp add: adds_def)
    with release_adds[OF 2(1)] show ?thesis by (rule adds_join)
  qed simp
qed

lemma cancel_adds:
  assumes "cancel_current_task now r c so = (c', so')"
  shows "adds U so so'"
proof (cases "pc_current_task c")
  case (Some i)
  have "so' = (case dict_get (so_tasks so) i of
      Some t \<Rightarrow> if pt_status t \<in> set BLOCKING_TASK_STATUSES then put_task i (cancel_task now r t) so else so | None \<Rightarrow> so)"
    using assms Some by (simp add: cancel_current_task_def)
  then show ?thesis by (cases "dict_get (so_tasks so) i") (simp_all add: adds_put)
qed (use assms in \<open>simp add: cancel_current_task_def\<close>)

lemma archive_adds:
  assumes "archive_case now r ty k pl st ver dig c so = (c', so')"
  shows "adds U so so'"
proof (cases "pc_status c \<in> set TERMINAL_CASE_STATUSES")
  case False
  then obtain r' c1 c2 so1 where "cancel_current_task now r' c1 so = (c2, so1)" "so_tasks so' = so_tasks so1"
    using assms by (auto simp: archive_case_def Let_def split: prod.splits)
  with cancel_adds[OF this(1)] show ?thesis by (simp add: adds_def)
qed (use assms in \<open>simp add: archive_case_def\<close>)

lemma refresh_adds:
  assumes "refresh_case now u d c so = (c', so', a)"
  shows "adds {u} so so'"
proof -
  let ?c1 = "replace_positions d (update_case_card d c)" and ?so1 = "changed_event d (replace_positions d (update_case_card d c)) so"
  obtain c2 so2 b where e: "enqueue_role_agent now u c2 so2 = (c', so', b)" and
    r: "(c2, so2) = (if pc_status c \<in> set TERMINAL_CASE_STATUSES \<or> pc_status ?c1 = ''human_required''
      then reactivate_case now d ?c1 ?so1 else (?c1, ?so1))"
    using assms by (auto simp: refresh_case_def Let_def split: prod.splits if_splits)
  have "so_tasks so2 = so_tasks so"
    using r by (auto simp: reactivate_case_def changed_event_def Let_def split: if_splits prod.splits)
  with enqueue_adds[OF e] show ?thesis by (simp add: adds_def)
qed

lemma upsert_adds:
  assumes "upsert_known now u d c so = (c', so', a)"
  shows "adds {u} so so'"
proof -
  consider "so' = so" | "archive_for_skip now d c so = (c', so')"
    | b where "enqueue_role_agent now u (fst (update_case_presentations d c)) so = (c', so', b)"
    | "refresh_case now u d c so = (c', so', a)"
    using assms by (auto simp: upsert_known_def Let_def split: if_splits prod.splits)
  then show ?thesis
    by cases (auto simp: archive_for_skip_def intro: archive_adds enqueue_adds refresh_adds)
qed

lemma new_adds:
  assumes "upsert_new now i u d so = (c, so', a)"
  shows "adds {u} so so'"
proof -
  consider "so' = so" | c0 so0 c1 b where "create_case now i d so = (c0, so0)" "enqueue_role_agent now u c0 so0 = (c1, so', b)"
    using assms by (auto simp: upsert_new_def split: if_splits prod.splits)
  then show ?thesis
  proof cases
    case (2 c0 so0 c1 b)
    have "so_tasks so0 = so_tasks so" using 2(1) by (auto simp: create_case_def Let_def)
    with enqueue_adds[OF 2(2)] show ?thesis by (simp add: adds_def)
  qed simp
qed

lemma close_adds: "close_inactive now reasons c so = (c', so') \<Longrightarrow> adds U so so'"
  by (auto simp: close_inactive_def Let_def intro: archive_adds)

lemma counted_adds: "enqueue_counted now u n c so = Some (c', so', n') \<Longrightarrow> adds {u} so so'"
  by (auto simp: enqueue_counted_def split: prod.splits intro: enqueue_adds)

lemma retry_adds:
  assumes "retry_pending prefix interval now i t n c so = Some (c', so', n')" "dict_get (so_tasks so) i = Some t"
  shows "adds U so so'"
proof (cases "stale_dispatch interval now (jget (pt_metadata t) ''dispatch_requested_at'')")
  case None
  then show ?thesis using assms(1) by (simp add: retry_pending_def)
next
  case (Some b)
  show ?thesis
  proof (cases b)
    case False
    then show ?thesis using Some assms(1) by (simp add: retry_pending_def)
  next
    case True
    obtain x y k where d: "redispatch prefix now i t c so = (x, y, k)" by (metis prod_cases3)
    then have "so' = y" using Some True assms(1) by (simp add: retry_pending_def)
    with redispatch_frame[OF d] have "so_tasks so' = so_tasks (put_task i (asked_again now t) so)" by simp
    moreover have "adds U so (put_task i (asked_again now t) so)" by (rule adds_put) (use assms(2) in simp)
    ultimately show ?thesis using adds_tasks by blast
  qed
qed

lemma cancelled_adds: "dict_get (so_tasks so) i = Some t \<Longrightarrow> adds U so (put_task i t' so)"
  by (rule adds_put) simp

lemma warehouse_adds:
  assumes "warehouse_step spec interval now u c so = Some (c', so', n')"
  shows "adds {u} so so'"
proof (cases "in_workspace spec c")
  case False
  then show ?thesis using assms by (simp add: warehouse_step_def)
next
  case True
  define c1 where "c1 = report_workspace spec now (reported_status spec c (agent_task (as_agent_id spec) c so)) c"
  define n where "n = no_counts\<lparr>sy_reported := 1\<rparr>"
  consider (same) "so' = so" | (enqueue) "enqueue_counted now u n c1 so = Some (c', so', n')"
    | (retry) i t where "agent_task (as_agent_id spec) c so = Some (i, t)"
        "retry_pending (as_prefix spec) interval now i t n c1 so = Some (c', so', n')"
    | (abandon) i t where "agent_task (as_agent_id spec) c so = Some (i, t)"
        "enqueue_counted now u n (fst (abandon_task now (rerun_reason (as_agent_id spec)) i t c1 so))
          (snd (abandon_task now (rerun_reason (as_agent_id spec)) i t c1 so)) = Some (c', so', n')"
    using assms True unfolding warehouse_step_def Let_def c1_def n_def
    by (auto split: option.splits prod.splits if_splits)
  then show ?thesis
  proof cases
    case abandon
    have "adds {u} so (snd (abandon_task now (rerun_reason (as_agent_id spec)) i t c1 so))"
      using agent_taskD[OF abandon(1)] by (simp add: abandon_task_def cancelled_adds)
    with counted_adds[OF abandon(2)] show ?thesis by (blast intro: adds_join)
  next
    case retry
    from agent_taskD[OF retry(1)] retry_adds[OF retry(2)] show ?thesis by blast
  qed (auto intro: counted_adds)
qed

lemma migrate_adds:
  assumes "migrate_step now u c so = Some (c', so', n')"
  shows "adds {u} so so'"
proof (cases "undecided_engineer_case c")
  case False
  then show ?thesis using assms by (simp add: migrate_step_def)
next
  case True
  obtain c1 so1 where l: "leave_engineer_task now c so = (c1, so1)" by fastforce
  have a: "adds {u} so so1"
  proof (cases "agent_task PRODUCTION_PREPARATION_ENGINEER_AGENT_ID c so")
    case None
    with l show ?thesis by (simp add: leave_engineer_task_def)
  next
    case (Some it)
    then obtain i t where it: "agent_task PRODUCTION_PREPARATION_ENGINEER_AGENT_ID c so = Some (i, t)" by (cases it) auto
    then have "so1 = so \<or> so1 = put_task i (cancel_task now (Some MOVED_TO_COMPLEX) t) so"
      using l by (auto simp: leave_engineer_task_def split: if_splits)
    with agent_taskD[OF it] cancelled_adds show ?thesis by auto
  qed
  obtain c2 so2 b where e: "enqueue_role_agent now u c2 so2 = (c', so', b)" "so_tasks so2 = so_tasks so1"
    using assms True l by (auto simp: migrate_step_def Let_def split: prod.splits)
  have "adds {u} so1 so'" using enqueue_adds[OF e(1)] e(2) by (simp add: adds_def)
  with a show ?thesis by (rule adds_join)
qed

lemma full_adds:
  assumes "manager_full interval now u n c so = Some (c', so', n')"
  shows "adds {u} so so'"
proof (cases "agent_task PURCHASE_MANAGER_AGENT_ID c so")
  case (Some it)
  then obtain i t where it: "agent_task PURCHASE_MANAGER_AGENT_ID c so = Some (i, t)" by (cases it) auto
  consider (same) "so' = so" | (enqueue) "enqueue_counted now u n c so = Some (c', so', n')"
    | (retry) "retry_pending ''purchase_manager'' interval now i t n c so = Some (c', so', n')"
    using assms it by (auto simp: manager_full_def split: if_splits)
  then show ?thesis
  proof cases
    case retry
    from agent_taskD[OF it] retry_adds[OF retry] show ?thesis by blast
  qed (auto intro: counted_adds)
next
  case None
  let ?c = "c\<lparr>pc_current_task := None, pc_metadata := dict_pop ''role_agent_completion_key'' (pc_metadata c)\<rparr>"
  consider (same) "so' = so" | (enqueue) "enqueue_counted now u n c so = Some (c', so', n')"
    | (cancel) i t where "dict_get (so_tasks so) i = Some t"
        "enqueue_counted now u n ?c (put_task i (cancel_task now (Some MOVED_TO_MANAGER) t) so) = Some (c', so', n')"
    using assms None by (auto simp: manager_full_def current_task_of_def split: if_splits option.splits)
  then show ?thesis
  proof cases
    case cancel
    from adds_join[OF cancelled_adds[OF cancel(1)] counted_adds[OF cancel(2)]] show ?thesis .
  qed (auto intro: counted_adds)
qed

lemma manager_adds:
  assumes "manager_step interval now u c so = Some (c', so', n')"
  shows "adds {u} so so'"
proof -
  have "so' = so \<or> (\<exists>n x. manager_full interval now u n x so = Some (c', so', n'))"
    using assms by (auto simp: manager_step_def Let_def split: if_splits)
  with full_adds show ?thesis by auto
qed

section \<open>Passes over the cases\<close>

text \<open>A loop over the cases takes a step on some of them, one after the other.\<close>

inductive pass :: "string set \<Rightarrow> pcase list \<Rightarrow> store \<Rightarrow> pcase list \<Rightarrow> store \<Rightarrow> bool" where
  pass_nil: "pass U [] so [] so"
| pass_skip: "pass U cs so cs' so' \<Longrightarrow> pass U (c # cs) so (c # cs') so'"
| pass_step: "case_step c so c1 so1 \<Longrightarrow> adds U so so1 \<Longrightarrow> pass U cs so1 cs' so' \<Longrightarrow> pass U (c # cs) so (c1 # cs') so'"

lemma pass_refl: "pass U cs so cs so"
  by (induction cs) (auto intro: pass.intros)

lemma pass_mono: "pass U cs so cs' so' \<Longrightarrow> U \<subseteq> V \<Longrightarrow> pass V cs so cs' so'"
  by (induction rule: pass.induct) (auto intro: pass.intros adds_mono)

text \<open>What a part of a poll does: steps, new tasks under the ids \<open>U\<close> and new cases under the ids \<open>I\<close>.\<close>

definition run :: "string set \<Rightarrow> string set \<Rightarrow> orch_state \<Rightarrow> orch_state \<Rightarrow> bool" where
  "run I U s s' \<longleftrightarrow> steps orch_step s s' \<and> adds U (snd s) (snd s') \<and> pc_id ` set (fst s') \<subseteq> pc_id ` set (fst s) \<union> I"

lemma run_refl [simp]: "run I U s s"
  by (simp add: run_def steps_refl)

lemma run_trans: "run I U s s1 \<Longrightarrow> run J V s1 s2 \<Longrightarrow> run (I \<union> J) (U \<union> V) s s2"
  unfolding run_def by (intro conjI) (blast intro: steps_trans adds_trans)+

lemma run_mono: "run I U s s' \<Longrightarrow> I \<subseteq> J \<Longrightarrow> U \<subseteq> V \<Longrightarrow> run J V s s'"
  by (auto simp: run_def intro: adds_mono)

lemma run_inv: "run I U s s' \<Longrightarrow> orch_inv (fst s) (snd s) \<Longrightarrow> orch_inv (fst s') (snd s')"
  using orch_reach by (cases s; cases s') (auto simp: run_def)

lemma put_in_place:
  assumes "distinct (map pc_id (ds @ c # cs))" "pc_id c' = pc_id c"
  shows "put_case c' (ds @ c # cs) = ds @ c' # cs"
proof -
  have "\<forall>x \<in> set ds \<union> set cs. pc_id x \<noteq> pc_id c" using assms(1) by (metis UnE distinct_append distinct.simps(2) imageI list.set_map list.simps(9) map_append IntI empty_iff insertI1 list.set(2))
  then show ?thesis using assms(2) by (auto simp: put_case_def intro!: map_idI)
qed

lemma pass_run:
  assumes "pass U cs so cs' so'" "orch_inv (ds @ cs) so"
  shows "run {} U (ds @ cs, so) (ds @ cs', so')"
  using assms
proof (induction arbitrary: ds rule: pass.induct)
  case (pass_skip U cs so cs' so' c)
  from pass_skip.IH[of "ds @ [c]"] pass_skip.prems show ?case by simp
next
  case (pass_step c so c1 so1 U cs cs' so')
  have c: "case_inv c so" "distinct (map pc_id (ds @ c # cs))" using pass_step.prems by (simp_all add: orch_inv_def)
  note id = stepping.keeps_id[OF pass_step.hyps(1) c(1)]
  have "orch_step (ds @ c # cs, so) (put_case c1 (ds @ c # cs), so1)"
    by (rule orch_step.on_case[OF _ pass_step.hyps(1)]) simp
  then have o: "orch_step (ds @ c # cs, so) (ds @ c1 # cs, so1)" by (simp add: put_in_place[OF c(2) id])
  then have "steps orch_step (ds @ c # cs, so) (ds @ c1 # cs, so1)" by (blast intro: steps.intros)
  then have r: "run {} U (ds @ c # cs, so) (ds @ c1 # cs, so1)" using pass_step.hyps(2) id by (simp add: run_def)
  have "orch_inv (ds @ c1 # cs) so1" using orch_step_inv[OF o] pass_step.prems by simp
  with pass_step.IH[of "ds @ [c1]"] have "run {} U (ds @ c1 # cs, so1) (ds @ c1 # cs', so')" by simp
  from run_trans[OF r this] show ?case by simp
qed simp

lemma over_pass:
  assumes "over_cases P f us cs so = Some (cs', so', n)" "set us \<subseteq> U" "unused (set us) so" "distinct us"
    "\<And>u c so c' so' n. P c \<Longrightarrow> f u c so = Some (c', so', n) \<Longrightarrow> fresh_task u so \<Longrightarrow> case_step c so c' so' \<and> adds {u} so so'"
  shows "pass U cs so cs' so'"
  using assms(1-4)
proof (induction us arbitrary: cs so cs' so' n)
  case (Cons u us)
  show ?case
  proof (cases cs)
    case Nil
    with Cons.prems(1) show ?thesis by (simp add: pass.intros)
  next
    case (Cons c rest)
    obtain c1 so1 n1 cs2 so2 n2 where b: "(if P c then f u c so else Some (c, so, no_counts)) = Some (c1, so1, n1)"
      "over_cases P f us rest so1 = Some (cs2, so2, n2)" "cs' = c1 # cs2" "so' = so2"
      using Cons.prems(1) Cons by (auto split: option.splits)
    have fresh: "fresh_task u so" using Cons.prems(3) by (rule unused_fresh) simp
    have s: "P c \<Longrightarrow> case_step c so c1 so1" "adds {u} so so1" "\<not> P c \<Longrightarrow> c1 = c \<and> so1 = so"
    proof -
      show no: "c1 = c \<and> so1 = so" if "\<not> P c" using that b(1) by simp
      have yes: "case_step c so c1 so1 \<and> adds {u} so so1" if p: "P c"
      proof -
        have "f u c so = Some (c1, so1, n1)" using p b(1) by simp
        from assms(5)[OF p this fresh] show ?thesis .
      qed
      then show "case_step c so c1 so1" if "P c" using that by blast
      show "adds {u} so so1" using yes no by (cases "P c") simp_all
    qed
    have "unused (set us) so1" by (rule unused_after[OF _ s(2)]) (use Cons.prems(3,4) in auto)
    with Cons.IH[OF b(2)] Cons.prems(2,4) have "pass U rest so1 cs2 so2" by simp
    moreover have "adds U so so1" using s(2) Cons.prems(2) by (auto intro: adds_mono)
    ultimately show ?thesis unfolding Cons b(3,4)
      using s(1,3) pass_step pass_skip by (cases "P c") blast+
  qed
qed (auto intro: pass_refl)

lemma assign_pass:
  assumes "ensure_assignments now us cs so = (cs', so', n)" "set us \<subseteq> U" "unused (set us) so" "distinct us"
  shows "pass U cs so cs' so'"
  using assms
proof (induction us arbitrary: cs so cs' so' n)
  case (Cons u us)
  show ?case
  proof (cases cs)
    case Nil
    with Cons.prems(1) show ?thesis by (simp add: pass.intros)
  next
    case (Cons c rest)
    show ?thesis
    proof (cases "pc_status c \<in> set ACTIVE_CASE_STATUSES")
      case True
      obtain c1 so1 b cs2 m where e: "enqueue_role_agent now u c so = (c1, so1, b)"
        "ensure_assignments now us rest so1 = (cs2, so', m)" "cs' = c1 # cs2"
        using Cons.prems(1) Cons True by (auto split: prod.splits)
      have "fresh_task u so" using Cons.prems(3) by (rule unused_fresh) simp
      with e(1) have "assign_step c so c1 so1" unfolding assign_step_def by blast
      then have st: "case_step c so c1 so1" by (rule case_step.assign)
      note a = enqueue_adds[OF e(1)]
      have "unused (set us) so1" by (rule unused_after[OF _ a]) (use Cons.prems(3,4) in auto)
      with Cons.IH[OF e(2)] Cons.prems(2,4) have "pass U rest so1 cs2 so'" by simp
      moreover have "adds U so so1" using a Cons.prems(2) by (auto intro: adds_mono)
      ultimately show ?thesis unfolding Cons e(3) using st pass_step by blast
    next
      case False
      obtain cs2 m where e: "ensure_assignments now us rest so = (cs2, so', m)" "cs' = c # cs2"
        using Cons.prems(1) Cons False by (auto split: prod.splits)
      have "unused (set us) so" using Cons.prems(3) by (simp add: unused_def)
      with Cons.IH[OF e(1)] Cons.prems(2,4) have "pass U rest so cs2 so'" by simp
      then show ?thesis unfolding Cons e(2) by (rule pass_skip)
    qed
  qed
qed (auto intro: pass_refl)

lemma close_pass:
  assumes "close_all now P reasons cs so = (cs', so')" "\<And>c. P c \<Longrightarrow> pc_status c \<in> set SOURCE_MONITORED_CASE_STATUSES"
  shows "pass U cs so cs' so'"
  using assms(1)
proof (induction cs arbitrary: so cs' so')
  case (Cons c cs)
  obtain c1 so1 cs2 where e: "(c1, so1) = (if P c then close_inactive now reasons c so else (c, so))"
    "close_all now P reasons cs so1 = (cs2, so')" "cs' = c1 # cs2"
    using Cons.prems by (auto simp: Let_def split: prod.splits)
  note rest = Cons.IH[OF e(2)]
  show ?case
  proof (cases "P c")
    case True
    then have k: "close_inactive now reasons c so = (c1, so1)" using e(1) by simp
    have "close_step c so c1 so1" unfolding close_step_def using k assms(2)[OF True] by blast
    then have "case_step c so c1 so1" by (rule case_step.close)
    with rest close_adds[OF k] e(3) show ?thesis by (auto intro: pass.intros)
  qed (use e rest in \<open>auto intro: pass.intros\<close>)
qed (auto intro: pass.intros)

lemmas whole_pass = pass_run[where ds = "[]", simplified]

section \<open>Fresh ids\<close>

definition fresh_for :: "string set \<Rightarrow> string set \<Rightarrow> orch_state \<Rightarrow> bool" where
  "fresh_for I U s \<longleftrightarrow> unused U (snd s) \<and> pc_id ` set (fst s) \<inter> I = {}"

lemma fresh_after: "fresh_for (I \<union> J) (U \<union> V) s \<Longrightarrow> run I U s s' \<Longrightarrow> I \<inter> J = {} \<Longrightarrow> U \<inter> V = {} \<Longrightarrow> fresh_for J V s'"
  unfolding fresh_for_def run_def using unused_after[of U V "snd s" "snd s'"] by blast

lemma fresh_mono: "fresh_for J V s \<Longrightarrow> I \<subseteq> J \<Longrightarrow> U \<subseteq> V \<Longrightarrow> fresh_for I U s"
  by (auto simp: fresh_for_def unused_def)

lemma run_then:
  assumes "run I U s s1" "run J V s1 s2" "I \<union> J \<subseteq> K" "U \<union> V \<subseteq> W"
  shows "run K W s s2"
  using run_mono[OF run_trans[OF assms(1,2)] assms(3,4)] .

section \<open>One source\<close>

lemma document_run:
  assumes "upsert_case_from_document now ids d cs so = (cs', so', a)" "orch_inv cs so" "fresh_for {fst ids} {snd ids} (cs, so)"
  shows "run {fst ids} {snd ids} (cs, so) (cs', so')"
proof (cases "find_case d cs")
  case (Some c)
  obtain c1 where k: "upsert_known now (snd ids) d (c\<lparr>pc_synced_at := Some now\<rparr>) so = (c1, so', a)" "cs' = put_case c1 cs"
    using assms(1) Some by (auto simp: upsert_case_from_document_def split: prod.splits)
  have c: "c \<in> set cs" using Some by (rule find_case_in)
  then have i: "case_inv c so" using assms(2) by (simp add: orch_inv_def)
  have "poll_step c so c1 so'"
    unfolding poll_step_def fresh_task_def using k(1) assms(3) by (auto simp: fresh_for_def unused_def)
  then have st: "case_step c so c1 so'" by (rule case_step.poll)
  then have "steps orch_step (cs, so) (cs', so')" unfolding k(2) using c by (blast intro: steps.intros orch_step.on_case)
  moreover have "map pc_id cs' = map pc_id cs" unfolding k(2) by (rule stepping.ids_kept[OF st i])
  then have "pc_id ` set cs' = pc_id ` set cs" by (metis list.set_map)
  ultimately show ?thesis using upsert_adds[OF k(1)] unfolding run_def by (simp add: subset_insertI)
next
  case None
  obtain o1 where n: "upsert_new now (fst ids) (snd ids) d so = (o1, so', a)"
      "cs' = (case o1 of None \<Rightarrow> cs | Some c \<Rightarrow> cs @ [c])"
    using assms(1) None by (auto simp: upsert_case_from_document_def split: prod.splits option.splits)
  show ?thesis
  proof (cases o1)
    case None
    have "so' = so" using n(1) None by (auto simp: upsert_new_def split: if_splits prod.splits)
    with n(2) None show ?thesis by simp
  next
    case (Some c)
    have f: "fst ids \<notin> pc_id ` set cs" "fresh_task (snd ids) so"
      using assms(3) by (auto simp: fresh_for_def unused_def fresh_task_def)
    have n1: "upsert_new now (fst ids) (snd ids) d so = (Some c, so', a)" using n(1) Some by simp
    have "steps orch_step (cs, so) (cs', so')"
      using orch_step.open_case[OF n1 f] n(2) Some by (auto intro: steps.intros)
    moreover have "pc_id c = fst ids"
    proof -
      let ?c = "replace_positions d (new_case now (fst ids) d)"
      obtain so1 where so1: "create_case now (fst ids) d so = (?c, so1)" by (simp add: create_case_def Let_def)
      obtain b where "enqueue_role_agent now (snd ids) ?c so1 = (c, so', b)"
        using n1 so1 by (auto simp: upsert_new_def split: if_splits prod.splits)
      then have "pc_id c = pc_id ?c" by (rule dispatched_fields(1)[OF enqueue_frame])
      then show ?thesis by (simp add: replace_positions_def new_case_def)
    qed
    ultimately show ?thesis using new_adds[OF n1] n(2) Some by (simp add: run_def)
  qed
qed

lemma documents_run:
  assumes "upsert_all now ids k ds cs so = (cs', so', as)" "orch_inv cs so" "inj (\<lambda>k. fst (ids k))" "inj (\<lambda>k. snd (ids k))"
    "fresh_for ((\<lambda>k. fst (ids k)) ` {k..}) ((\<lambda>k. snd (ids k)) ` {k..}) (cs, so)"
  shows "run ((\<lambda>k. fst (ids k)) ` {k..}) ((\<lambda>k. snd (ids k)) ` {k..}) (cs, so) (cs', so')"
  using assms(1,2,5)
proof (induction ds arbitrary: k cs so cs' so' as)
  case (Cons d ds)
  let ?I = "\<lambda>k. (\<lambda>k. fst (ids k)) ` {k..}" and ?U = "\<lambda>k. (\<lambda>k. snd (ids k)) ` {k..}"
  obtain cs1 so1 a as2 where e: "upsert_case_from_document now (ids k) d cs so = (cs1, so1, a)"
    "upsert_all now ids (Suc k) ds cs1 so1 = (cs', so', as2)"
    using Cons.prems(1) by (auto split: prod.splits)
  have "{k..} = insert k {Suc k..}" by auto
  then have split: "?I k = {fst (ids k)} \<union> ?I (Suc k)" "?U k = {snd (ids k)} \<union> ?U (Suc k)" by simp_all
  have r: "run {fst (ids k)} {snd (ids k)} (cs, so) (cs1, so1)"
    by (rule document_run[OF e(1) Cons.prems(2)], rule fresh_mono[OF Cons.prems(3)]) (simp_all add: split)
  have i: "orch_inv cs1 so1" using run_inv[OF r] Cons.prems(2) by simp
  have "{fst (ids k)} \<inter> ?I (Suc k) = {}" "{snd (ids k)} \<inter> ?U (Suc k) = {}"
    using injD[OF assms(3), of k] injD[OF assms(4), of k] by auto
  from fresh_after[OF Cons.prems(3)[unfolded split] r this] have "fresh_for (?I (Suc k)) (?U (Suc k)) (cs1, so1)" .
  from run_then[OF r Cons.IH[OF e(2) i this] order_refl order_refl] show ?case unfolding split .
qed simp

lemma closing_run:
  assumes "close_cases_outside_active_refs fetch to_doc now database ty refs cs so = Inr (cs', so')" "orch_inv cs so"
  shows "run {} {} (cs, so) (cs', so')"
proof -
  let ?P = "is_inactive database ty refs"
  consider "cs' = cs" "so' = so" | reasons where "close_all now ?P reasons cs so = (cs', so')"
    using assms(1) by (auto simp: close_cases_outside_active_refs_def Let_def map_sum_def split: if_splits sum.splits)
  then show ?thesis
  proof cases
    case (2 reasons)
    have "pass {} cs so cs' so'" by (rule close_pass[OF 2]) (simp add: is_inactive_def is_monitored_def)
    from whole_pass[OF this assms(2)] show ?thesis .
  qed simp
qed

lemma discovery_run:
  assumes "discover_documents gw digest now database ty st cs so = (cs', so', st', r)" "orch_inv cs so"
  shows "run {} {} (cs, so) (cs', so')"
proof -
  consider "cs' = cs" "so' = so" | fetch to_doc refs where
      "close_cases_outside_active_refs fetch to_doc now database ty refs cs so = Inr (cs', so')"
    using assms(1) by (auto simp: discover_documents_def Let_def split: option.splits sum.splits)
  then show ?thesis by cases (auto intro: closing_run assms(2))
qed

lemma source_run:
  assumes "poll_source gw digest error_text now ids database ty cs so states = (cs', so', states', s)" "orch_inv cs so"
    "inj (\<lambda>k. fst (ids k))" "inj (\<lambda>k. snd (ids k))" "fresh_for (range (\<lambda>k. fst (ids k))) (range (\<lambda>k. snd (ids k))) (cs, so)"
  shows "run (range (\<lambda>k. fst (ids k))) (range (\<lambda>k. snd (ids k))) (cs, so) (cs', so')"
proof -
  let ?I = "range (\<lambda>k. fst (ids k))" and ?U = "range (\<lambda>k. snd (ids k))"
  consider "cs' = cs" "so' = so" | st st1 e where "discover_documents gw digest now database ty st cs so = (cs', so', st1, Inl e)"
    | st st1 ds cs1 so1 as where "discover_documents gw digest now database ty st cs so = (cs1, so1, st1, Inr ds)"
      "upsert_all now ids 0 ds cs1 so1 = (cs', so', as)"
    using assms(1) by (auto simp: poll_source_def Let_def split: if_splits sum.splits prod.splits)
  then show ?thesis
  proof cases
    case 2
    from run_mono[OF discovery_run[OF 2 assms(2)]] show ?thesis by simp
  next
    case 3
    note r = discovery_run[OF 3(1) assms(2)]
    have "orch_inv cs1 so1" using run_inv[OF r] assms(2) by simp
    moreover have "fresh_for ?I ?U (cs1, so1)" using fresh_after[OF _ r, of ?I ?U] assms(5) by simp
    ultimately have "run ?I ?U (cs1, so1) (cs', so')" using documents_run[OF 3(2) _ assms(3,4)] by simp
    from run_then[OF r this] show ?thesis by simp
  qed simp
qed

section \<open>The whole poll\<close>

definition all_ids :: "maintenance_ids \<Rightarrow> string list" where
  "all_ids m = mi_picker m @ mi_complex m @ mi_migrate m @ mi_manager m @ mi_assign m"

text \<open>The ids of cases and tasks are unique, as those of \<open>uuid4\<close> are.\<close>

definition fresh_supply :: "(nat \<Rightarrow> nat \<Rightarrow> string \<times> string) \<Rightarrow> maintenance_ids \<Rightarrow> pcase list \<Rightarrow> store \<Rightarrow> bool" where
  "fresh_supply ids m cs so \<longleftrightarrow>
     inj (\<lambda>(j, k). fst (ids j k)) \<and> inj (\<lambda>(j, k). snd (ids j k)) \<and> distinct (all_ids m) \<and>
     (\<forall>j k. snd (ids j k) \<notin> set (all_ids m) \<and> snd (ids j k) \<notin> set (dict_keys (so_tasks so)) \<and>
            fst (ids j k) \<notin> pc_id ` set cs) \<and>
     set (all_ids m) \<inter> set (dict_keys (so_tasks so)) = {}"

definition ids_from :: "(nat \<Rightarrow> nat \<Rightarrow> 'a) \<Rightarrow> nat \<Rightarrow> 'a set" where
  "ids_from f j = {f i k | i k. j \<le> i}"

lemma ids_from_step: "ids_from f j = range (f j) \<union> ids_from f (Suc j)"
  by (auto simp: ids_from_def not_less_eq_eq[symmetric] less_eq_Suc_le dest: le_antisym intro: Suc_leD)

lemma sources_run:
  assumes "poll_sources (\<lambda>j. poll_source gw digest error_text now (ids j)) j srcs cs so states = (cs', so', states', ss)"
    "orch_inv cs so" "inj (\<lambda>(j, k). fst (ids j k))" "inj (\<lambda>(j, k). snd (ids j k))"
    "fresh_for (ids_from (\<lambda>j k. fst (ids j k)) j) (ids_from (\<lambda>j k. snd (ids j k)) j) (cs, so)"
  shows "run (ids_from (\<lambda>j k. fst (ids j k)) j) (ids_from (\<lambda>j k. snd (ids j k)) j) (cs, so) (cs', so')"
  using assms(1,2,5)
proof (induction srcs arbitrary: j cs so states cs' so' states' ss)
  case (Cons src srcs)
  let ?f = "\<lambda>j k. fst (ids j k)" and ?g = "\<lambda>j k. snd (ids j k)"
  obtain cs1 so1 states1 s states2 ss2 where
    e: "poll_source gw digest error_text now (ids j) (fst src) (snd src) cs so states = (cs1, so1, states1, s)"
    "poll_sources (\<lambda>j. poll_source gw digest error_text now (ids j)) (Suc j) srcs cs1 so1 states1 = (cs', so', states2, ss2)"
    using Cons.prems(1) by (cases src) (auto split: prod.splits)
  note split = ids_from_step[of ?f j] ids_from_step[of ?g j]
  have inj: "inj (?f j)" "inj (?g j)" using assms(3,4) by (auto simp: inj_def)
  have r: "run (range (?f j)) (range (?g j)) (cs, so) (cs1, so1)"
    by (rule source_run[OF e(1) Cons.prems(2) inj], rule fresh_mono[OF Cons.prems(3)]) (simp_all add: split)
  have i: "orch_inv cs1 so1" using run_inv[OF r] Cons.prems(2) by simp
  have "range (?f j) \<inter> ids_from ?f (Suc j) = {}" "range (?g j) \<inter> ids_from ?g (Suc j) = {}"
    using assms(3,4) by (auto simp: inj_def ids_from_def) (metis Suc_n_not_le_n)+
  from fresh_after[OF Cons.prems(3)[unfolded split] r this]
  have "fresh_for (ids_from ?f (Suc j)) (ids_from ?g (Suc j)) (cs1, so1)" .
  from run_then[OF r Cons.IH[OF e(2) i this] order_refl order_refl] show ?case unfolding split .
qed simp

lemma upkeep_runs:
  "warehouse_step spec interval now u c so = Some (c', so', n) \<Longrightarrow> is_processing c \<Longrightarrow> fresh_task u so \<Longrightarrow>
    case_step c so c' so' \<and> adds {u} so so'"
  "migrate_step now u c so = Some (c', so', n) \<Longrightarrow> is_processing c \<Longrightarrow> fresh_task u so \<Longrightarrow>
    case_step c so c' so' \<and> adds {u} so so'"
  "manager_step interval now u c so = Some (c', so', n) \<Longrightarrow> is_processing c \<Longrightarrow> fresh_task u so \<Longrightarrow>
    case_step c so c' so' \<and> adds {u} so so'"
  by (intro conjI case_step.upkeep; (auto simp: upkeep_step_def intro: warehouse_adds migrate_adds manager_adds; fail)?;
      unfold upkeep_step_def; blast)+

lemma loop_run:
  assumes "over_cases P f us cs so = Some (cs', so', n)" "orch_inv cs so" "unused (set us) so" "distinct us"
    "\<And>u c so c' so' n. P c \<Longrightarrow> f u c so = Some (c', so', n) \<Longrightarrow> fresh_task u so \<Longrightarrow> case_step c so c' so' \<and> adds {u} so so'"
  shows "run {} (set us) (cs, so) (cs', so')"
  by (rule whole_pass[OF over_pass[OF assms(1) order_refl assms(3,4,5)] assms(2)])

lemma warehouse_run:
  assumes "ensure_warehouse_availability_work spec interval now us cs so = Some (cs', so', n)" "orch_inv cs so"
    "unused (set us) so" "distinct us"
  shows "run {} (set us) (cs, so) (cs', so')"
proof (cases "so_enqueue so")
  case True
  with assms(1) have "over_cases is_processing (warehouse_step spec interval now) us cs so = Some (cs', so', n)"
    by (simp add: ensure_warehouse_availability_work_def)
  from loop_run[OF this assms(2-4)] upkeep_runs(1) show ?thesis by blast
qed (use assms(1) in \<open>simp add: ensure_warehouse_availability_work_def\<close>)

lemma migration_run:
  assumes "migrate_undecided_engineer_cases now us cs so = Some (cs', so', n)" "orch_inv cs so" "unused (set us) so" "distinct us"
  shows "run {} (set us) (cs, so) (cs', so')"
proof (cases "so_enqueue so")
  case True
  with assms(1) have "over_cases is_processing_material (migrate_step now) us cs so = Some (cs', so', n)"
    by (simp add: migrate_undecided_engineer_cases_def)
  from loop_run[OF this assms(2-4)] upkeep_runs(2) show ?thesis unfolding is_processing_material_def by blast
qed (use assms(1) in \<open>simp add: migrate_undecided_engineer_cases_def\<close>)

lemma manager_run:
  assumes "ensure_purchase_manager_work interval now us cs so = Some (cs', so', n)" "orch_inv cs so" "unused (set us) so" "distinct us"
  shows "run {} (set us) (cs, so) (cs', so')"
proof (cases "so_enqueue so")
  case True
  with assms(1) have "over_cases is_open_material (manager_step interval now) us cs so = Some (cs', so', n)"
    by (simp add: ensure_purchase_manager_work_def)
  from loop_run[OF this assms(2-4)] upkeep_runs(3) show ?thesis unfolding is_open_material_def is_processing_material_def by blast
qed (use assms(1) in \<open>simp add: ensure_purchase_manager_work_def\<close>)

lemma assignment_run:
  assumes "ensure_active_case_assignments now us cs so = (cs', so', n)" "orch_inv cs so" "unused (set us) so" "distinct us"
  shows "run {} (set us) (cs, so) (cs', so')"
proof (cases "so_enqueue so")
  case True
  with assms(1) have "ensure_assignments now us cs so = (cs', so', n)" by (simp add: ensure_active_case_assignments_def)
  from whole_pass[OF assign_pass[OF this order_refl assms(3,4)] assms(2)] show ?thesis .
qed (use assms(1) in \<open>simp add: ensure_active_case_assignments_def\<close>)

lemma claim_run:
  assumes "claim_engineer_dispatches now limit so = (so', n)"
  shows "run {} {} (cs, so) (cs, so')"
proof -
  have "steps orch_step (cs, so) (cs, so')" using orch_step.claim[OF assms] by (blast intro: steps.intros)
  moreover have "adds {} so so'" unfolding adds_def
  proof (intro allI impI)
    fix k assume "dict_get (so_tasks so) k = None"
    with claim_keeps[OF assms, of k] show "dict_get (so_tasks so') k = None" by (simp add: rel_option_iff split: option.splits)
  qed
  ultimately show ?thesis by (simp add: run_def)
qed

text \<open>One loop after another, each with its own ids.\<close>

lemma next_run:
  assumes "run {} U s s1" "orch_inv (fst s) (snd s)" "unused (U \<union> V) (snd s)" "U \<inter> V = {}"
  shows "orch_inv (fst s1) (snd s1) \<and> unused V (snd s1)"
proof -
  have "adds U (snd s) (snd s1)" using assms(1) by (simp add: run_def)
  from unused_after[OF assms(3) this assms(4)] run_inv[OF assms(1,2)] show ?thesis by simp
qed

lemma maintenance_run:
  assumes "maintain interval manager_interval now m cs so = Some (cs', so', ms)" "orch_inv cs so" "unused (set (all_ids m)) so"
    "distinct (all_ids m)"
  shows "steps orch_step (cs, so) (cs', so')"
proof -
  obtain cs1 so1 n1 cs2 so2 n2 cs3 so3 n3 where
    e1: "ensure_warehouse_availability_work PICKER_SPEC interval now (mi_picker m) cs so = Some (cs1, so1, n1)" and
    e2: "ensure_complex_chief_agent_work interval now (mi_complex m) (mi_migrate m) cs1 so1 = Some (cs2, so2, n2)" and
    e4: "ensure_purchase_manager_work manager_interval now (mi_manager m) cs2 so2 = Some (cs3, so3, n3)"
    using assms(1) unfolding maintain_def by (auto simp: bind_eq_Some_conv)
  obtain cs4 so4 b so5 k where
    e5: "ensure_active_case_assignments now (mi_assign m) cs3 so3 = (cs4, so4, b)" "claim_engineer_dispatches now 5 so4 = (so5, k)"
    by (metis prod_cases3 surj_pair)
  have res: "cs4 = cs'" "so5 = so'" using assms(1) e1 e2 e4 e5 by (simp_all add: maintain_def)
  obtain csm som nm n2' where
    e3: "ensure_warehouse_availability_work COMPLEX_CHIEF_SPEC interval now (mi_complex m) cs1 so1 = Some (csm, som, nm)"
      "migrate_undecided_engineer_cases now (mi_migrate m) csm som = Some (cs2, so2, n2')"
    using e2 unfolding ensure_complex_chief_agent_work_def by (auto split: option.splits prod.splits)
  note e = e1 e3 e4 e5[unfolded res]
  let ?A = "set (mi_picker m)" and ?B = "set (mi_complex m)" and ?C = "set (mi_migrate m)" and ?D = "set (mi_manager m)"
    and ?E = "set (mi_assign m)"
  have d: "distinct (mi_picker m)" "distinct (mi_complex m)" "distinct (mi_migrate m)" "distinct (mi_manager m)"
    "distinct (mi_assign m)" "?A \<inter> (?B \<union> (?C \<union> (?D \<union> ?E))) = {}" "?B \<inter> (?C \<union> (?D \<union> ?E)) = {}" "?C \<inter> (?D \<union> ?E) = {}"
    "?D \<inter> ?E = {}"
    using assms(4) unfolding all_ids_def by auto
  have u: "unused (?A \<union> (?B \<union> (?C \<union> (?D \<union> ?E)))) so" using assms(3) by (simp add: all_ids_def)
  have head: "unused X x" if "unused (X \<union> Y) x" for X Y x using that by (simp add: unused_def)
  note r1 = warehouse_run[OF e(1) assms(2) head[OF u] d(1)]
  have s1: "orch_inv cs1 so1" "unused (?B \<union> (?C \<union> (?D \<union> ?E))) so1" using next_run[OF r1 _ _ d(6)] assms(2) u by simp_all
  note r2 = warehouse_run[OF e(2) s1(1) head[OF s1(2)] d(2)]
  have s2: "orch_inv csm som" "unused (?C \<union> (?D \<union> ?E)) som" using next_run[OF r2 _ _ d(7)] s1 by simp_all
  note r3 = migration_run[OF e(3) s2(1) head[OF s2(2)] d(3)]
  have s3: "orch_inv cs2 so2" "unused (?D \<union> ?E) so2" using next_run[OF r3 _ _ d(8)] s2 by simp_all
  note r4 = manager_run[OF e(4) s3(1) head[OF s3(2)] d(4)]
  have s4: "orch_inv cs3 so3" "unused ?E so3" using next_run[OF r4 _ _ d(9)] s3 by simp_all
  note r5 = assignment_run[OF e(5) s4 d(5)]
  from run_trans[OF run_trans[OF run_trans[OF run_trans[OF run_trans[OF r1 r2] r3] r4] r5] claim_run[OF e(6)]]
  show ?thesis by (simp add: run_def)
qed

lemma unused_keys: "U \<inter> set (dict_keys (so_tasks so)) = {} \<Longrightarrow> unused U so"
  by (auto simp: unused_def dict_get_def map_of_eq_None_iff)

section \<open>Fresh ids exist\<close>

definition tally :: "nat \<Rightarrow> nat \<Rightarrow> nat \<Rightarrow> string" where
  "tally n j k = replicate n CHR ''x'' @ replicate j CHR ''a'' @ CHR ''b'' # replicate k CHR ''c''"

lemma tally_inj: "tally n j k = tally n j' k' \<longleftrightarrow> j = j' \<and> k = k'"
proof
  assume e: "tally n j k = tally n j' k'"
  have j: "j = length (takeWhile (\<lambda>c. c = CHR ''a'') (drop n (tally n j k)))" for j k
  proof -
    have "takeWhile (\<lambda>c. c = CHR ''a'') (replicate j CHR ''a'' @ CHR ''b'' # replicate k CHR ''c'') = replicate j CHR ''a''"
      by (induction j) simp_all
    then show ?thesis by (simp add: tally_def)
  qed
  from e have "j = j'" using j[of j k] j[of j' k'] by simp
  moreover have "length (tally n j k) = length (tally n j' k')" using e by simp
  ultimately show "j = j' \<and> k = k'" by (simp add: tally_def)
qed simp

lemma tally_fresh:
  assumes "finite A"
  shows "\<exists>n. \<forall>j k. tally n j k \<notin> A"
proof -
  obtain n where n: "\<forall>x \<in> A. length x < n"
    using finite_imageI[OF assms, of length] by (metis finite_nat_set_iff_bounded imageI)
  have "tally n j k \<notin> A" for j k using n by (force simp: tally_def)
  then show ?thesis by blast
qed

definition no_ids :: maintenance_ids where
  "no_ids = \<lparr>mi_picker = [], mi_complex = [], mi_migrate = [], mi_manager = [], mi_assign = []\<rparr>"

lemma fresh_supply_exists: "\<exists>ids. fresh_supply ids no_ids cs so"
proof -
  obtain n where n: "\<forall>j k. tally n j k \<notin> pc_id ` set cs \<union> set (dict_keys (so_tasks so))"
    using tally_fresh[of "pc_id ` set cs \<union> set (dict_keys (so_tasks so))"] by auto
  have "fresh_supply (\<lambda>j k. (tally n j k, tally n j k)) no_ids cs so"
    unfolding fresh_supply_def using n by (auto simp: inj_def tally_inj all_ids_def no_ids_def)
  then show ?thesis by blast
qed

text \<open>A gateway that lists one database, has no active document and cannot read any.\<close>

definition demo_gateway :: gateway where
  "demo_gateway =
     \<lparr>gw_health = Some [], gw_databases = Some [(''databases'', JArr [JObj [(''name'', JStr ''db'')]])],
      gw_active_refs = (\<lambda>_. Some [(''activeRefs'', JArr [])]), gw_documents = (\<lambda>_ _ _. None), gw_document = (\<lambda>_ _ _. None),
      gw_presentations = (\<lambda>_ _ _ _. None)\<rparr>"

section \<open>Properties\<close>

text \<open>
  C3: Whatever 1C answers, and whether a source fails or not, a poll takes the database along a
  history of the state machine of the orchestrator.
\<close>

lemma poll_refines_machine:
  assumes "poll_once gw digest error_text interval manager_interval now ids m source_types maintenance cs so states =
      Some (cs', so', states', summary)"
    "orch_inv cs so" "fresh_supply ids m cs so"
  shows "steps orch_step (cs, so) (cs', so')"
proof (cases "gw_health gw")
  case None
  with assms(1) show ?thesis by (simp add: poll_once_def steps_refl)
next
  case (Some health)
  let ?f = "\<lambda>j k. fst (ids j k)" and ?g = "\<lambda>j k. snd (ids j k)"
  let ?srcs = "polled_sources source_types (resolve_databases gw health)"
  obtain cs1 so1 states1 ss where
    p: "poll_sources (\<lambda>j. poll_source gw digest error_text now (ids j)) 0 ?srcs cs so states = (cs1, so1, states1, ss)"
    by (metis prod_cases4)
  have fr: "inj (\<lambda>(j, k). ?f j k)" "inj (\<lambda>(j, k). ?g j k)" "distinct (all_ids m)" "ids_from ?g 0 \<inter> set (all_ids m) = {}"
    "unused (ids_from ?g 0 \<union> set (all_ids m)) so"
    using assms(3) unfolding fresh_supply_def by (auto simp: ids_from_def intro!: unused_keys)
  have "pc_id ` set cs \<inter> ids_from ?f 0 = {}"
  proof -
    have "\<forall>j k. fst (ids j k) \<notin> pc_id ` set cs" using assms(3) unfolding fresh_supply_def by blast
    moreover have "\<forall>x \<in> ids_from ?f 0. \<exists>j k. x = fst (ids j k)" by (auto simp: ids_from_def)
    ultimately show ?thesis by (metis disjoint_iff)
  qed
  then have "fresh_for (ids_from ?f 0) (ids_from ?g 0) (cs, so)" using fr(5) by (simp add: fresh_for_def unused_def)
  from sources_run[OF p assms(2) fr(1,2) this] have r: "run (ids_from ?f 0) (ids_from ?g 0) (cs, so) (cs1, so1)" .
  show ?thesis
  proof (cases maintenance)
    case False
    with assms(1) Some p have "cs' = cs1" "so' = so1" by (simp_all add: poll_once_def Let_def)
    with r show ?thesis by (simp add: run_def)
  next
    case True
    obtain ms where e: "maintain interval manager_interval now m cs1 so1 = Some (cs', so', ms)"
      using assms(1) Some p True by (auto simp: poll_once_def Let_def split: option.splits)
    have "orch_inv cs1 so1" using run_inv[OF r] assms(2) by simp
    moreover have "unused (set (all_ids m)) so1" using unused_after[OF fr(5) _ fr(4)] r by (simp add: run_def)
    ultimately have "steps orch_step (cs1, so1) (cs', so')" by (rule maintenance_run[OF e _ _ fr(3)])
    with r show ?thesis by (auto simp: run_def intro: steps_trans)
  qed
qed

lemma poll_refines_machine_witness:
  "\<exists>c so ids cs' so' states' summary.
    poll_once demo_gateway (\<lambda>_. []) (\<lambda>_. ''error'') 0 0 60 ids no_ids None False [c] so [] = Some (cs', so', states', summary) \<and>
    so_tasks so \<noteq> [] \<and> steps orch_step ([c], so) (cs', so')"
proof -
  obtain c so t where o: "orch_step ([], demo_store) ([c], so)" "dict_get (so_tasks so) ''task-1'' = Some t"
    using demo_opened by blast
  have inv: "orch_inv [c] so" using orch_step_inv[OF o(1)] empty_inv[of demo_store] by (simp add: demo_store_def)
  obtain ids where f: "fresh_supply ids no_ids [c] so" using fresh_supply_exists by blast
  obtain cs' so' states' ss where
    "poll_sources (\<lambda>j. poll_source demo_gateway (\<lambda>_. []) (\<lambda>_. ''error'') 60 (ids j)) 0
      (polled_sources None (resolve_databases demo_gateway [])) [c] so [] = (cs', so', states', ss)" by (metis prod_cases4)
  then have p: "poll_once demo_gateway (\<lambda>_. []) (\<lambda>_. ''error'') 0 0 60 ids no_ids None False [c] so [] =
      Some (cs', so', states', summary_of (resolve_databases demo_gateway []) ss)"
    by (simp add: poll_once_def demo_gateway_def Let_def)
  have "so_tasks so \<noteq> []" using o(2) by auto
  with poll_refines_machine[OF p inv f] p show ?thesis by blast
qed

end
