(* ===== verification/Case_Buckets.thy ===== *)
theory Case_Buckets
  imports Case_Maintenance
begin

text \<open>
  The buckets of the dashboard (\<open>app/services/procurement_orchestrator_service.py\<close>): \<open>_engineer_bucket\<close>,
  \<open>_dispatcher_bucket\<close>, \<open>_warehouse_availability_bucket\<close> and the work statuses of
  \<open>_serialize_case_summary\<close>.  A bucket is a colour with its reason; a case that does not belong to the
  workspace has none.  What Python raises on malformed agent output is a value of \<open>dash_error\<close>.  The
  buckets kept in the metadata are scalars; a text of a number is read as a plain literal with an
  optional exponent that neither over- nor underflows.
\<close>

section \<open>Texts\<close>

definition TEXT_ENGINEER_KEPT :: string where
  "TEXT_ENGINEER_KEPT =
    [CHR 0xD0, CHR 0xA1, CHR 0xD0, CHR 0xBE, CHR 0xD1, CHR 0x81, CHR 0xD1, CHR 0x82, CHR 0xD0, CHR
     0xBE, CHR 0xD1, CHR 0x8F, CHR 0xD0, CHR 0xBD, CHR 0xD0, CHR 0xB8, CHR 0xD0, CHR 0xB5, CHR 0x20,
     CHR 0xD1, CHR 0x81, CHR 0xD0, CHR 0xBE, CHR 0xD1, CHR 0x85, CHR 0xD1, CHR 0x80, CHR 0xD0, CHR
     0xB0, CHR 0xD0, CHR 0xBD, CHR 0xD0, CHR 0xB5, CHR 0xD0, CHR 0xBD, CHR 0xD0, CHR 0xBE, CHR 0x20,
     CHR 0xD0, CHR 0xBF, CHR 0xD1, CHR 0x80, CHR 0xD0, CHR 0xB8, CHR 0x20, CHR 0xD0, CHR 0xBF, CHR
     0xD0, CHR 0xB5, CHR 0xD1, CHR 0x80, CHR 0xD0, CHR 0xB5, CHR 0xD0, CHR 0xB4, CHR 0xD0, CHR 0xB0,
     CHR 0xD1, CHR 0x87, CHR 0xD0, CHR 0xB5, CHR 0x20, CHR 0xD0, CHR 0xBE, CHR 0xD1, CHR 0x80, CHR
     0xD0, CHR 0xBA, CHR 0xD0, CHR 0xB5, CHR 0xD1, CHR 0x81, CHR 0xD1, CHR 0x82, CHR 0xD1, CHR 0x80,
     CHR 0xD0, CHR 0xB0, CHR 0xD1, CHR 0x82, CHR 0xD0, CHR 0xBE, CHR 0xD1, CHR 0x80, CHR 0xD1, CHR
     0x83, CHR 0x2E]"

definition TEXT_CONFIRM_PURCHASE :: string where
  "TEXT_CONFIRM_PURCHASE =
    [CHR 0xD0, CHR 0xA0, CHR 0xD0, CHR 0xB0, CHR 0xD1, CHR 0x81, CHR 0xD1, CHR 0x87, CHR 0xD1, CHR
     0x91, CHR 0xD1, CHR 0x82, CHR 0x20, CHR 0xD0, CHR 0xB7, CHR 0xD0, CHR 0xB0, CHR 0xD0, CHR 0xB2,
     CHR 0xD0, CHR 0xB5, CHR 0xD1, CHR 0x80, CHR 0xD1, CHR 0x88, CHR 0xD1, CHR 0x91, CHR 0xD0, CHR
     0xBD, CHR 0x3A, CHR 0x20, CHR 0xD1, CHR 0x82, CHR 0xD1, CHR 0x80, CHR 0xD0, CHR 0xB5, CHR 0xD0,
     CHR 0xB1, CHR 0xD1, CHR 0x83, CHR 0xD0, CHR 0xB5, CHR 0xD1, CHR 0x82, CHR 0xD1, CHR 0x81, CHR
     0xD1, CHR 0x8F, CHR 0x20, CHR 0xD0, CHR 0xBF, CHR 0xD0, CHR 0xBE, CHR 0xD0, CHR 0xB4, CHR 0xD1,
     CHR 0x82, CHR 0xD0, CHR 0xB2, CHR 0xD0, CHR 0xB5, CHR 0xD1, CHR 0x80, CHR 0xD0, CHR 0xB4, CHR
     0xD0, CHR 0xB8, CHR 0xD1, CHR 0x82, CHR 0xD1, CHR 0x8C, CHR 0x20, CHR 0xD0, CHR 0xB7, CHR 0xD0,
     CHR 0xB0, CHR 0xD0, CHR 0xBA, CHR 0xD1, CHR 0x83, CHR 0xD0, CHR 0xBF, CHR 0xD0, CHR 0xBA, CHR
     0xD1, CHR 0x83, CHR 0x20, CHR 0xD0, CHR 0xB4, CHR 0xD0, CHR 0xB5, CHR 0xD1, CHR 0x84, CHR 0xD0,
     CHR 0xB8, CHR 0xD1, CHR 0x86, CHR 0xD0, CHR 0xB8, CHR 0xD1, CHR 0x82, CHR 0xD0, CHR 0xB0, CHR
     0x2E]"

definition TEXT_AGENT_FAILED :: string where
  "TEXT_AGENT_FAILED =
    [CHR 0xD0, CHR 0x98, CHR 0xD0, CHR 0x98, CHR 0x2D, CHR 0xD0, CHR 0xB0, CHR 0xD0, CHR 0xB3, CHR
     0xD0, CHR 0xB5, CHR 0xD0, CHR 0xBD, CHR 0xD1, CHR 0x82, CHR 0x20, CHR 0xD0, CHR 0xB7, CHR 0xD0,
     CHR 0xB0, CHR 0xD0, CHR 0xB2, CHR 0xD0, CHR 0xB5, CHR 0xD1, CHR 0x80, CHR 0xD1, CHR 0x88, CHR
     0xD0, CHR 0xB8, CHR 0xD0, CHR 0xBB, CHR 0x20, CHR 0xD0, CHR 0xBE, CHR 0xD0, CHR 0xB1, CHR 0xD1,
     CHR 0x80, CHR 0xD0, CHR 0xB0, CHR 0xD0, CHR 0xB1, CHR 0xD0, CHR 0xBE, CHR 0xD1, CHR 0x82, CHR
     0xD0, CHR 0xBA, CHR 0xD1, CHR 0x83, CHR 0x20, CHR 0xD1, CHR 0x81, CHR 0x20, CHR 0xD0, CHR 0xBE,
     CHR 0xD1, CHR 0x88, CHR 0xD0, CHR 0xB8, CHR 0xD0, CHR 0xB1, CHR 0xD0, CHR 0xBA, CHR 0xD0, CHR
     0xBE, CHR 0xD0, CHR 0xB9, CHR 0x2E]"

definition TEXT_SHORTAGE :: string where
  "TEXT_SHORTAGE =
    [CHR 0xD0, CHR 0xA0, CHR 0xD0, CHR 0xB0, CHR 0xD1, CHR 0x81, CHR 0xD1, CHR 0x87, CHR 0xD1, CHR
     0x91, CHR 0xD1, CHR 0x82, CHR 0x20, CHR 0xD0, CHR 0xB7, CHR 0xD0, CHR 0xB0, CHR 0xD0, CHR 0xB2,
     CHR 0xD0, CHR 0xB5, CHR 0xD1, CHR 0x80, CHR 0xD1, CHR 0x88, CHR 0xD1, CHR 0x91, CHR 0xD0, CHR
     0xBD, CHR 0x3A, CHR 0x20, CHR 0xD0, CHR 0xBF, CHR 0xD0, CHR 0xBE, CHR 0xD0, CHR 0xB4, CHR 0xD1,
     CHR 0x82, CHR 0xD0, CHR 0xB2, CHR 0xD0, CHR 0xB5, CHR 0xD1, CHR 0x80, CHR 0xD0, CHR 0xB6, CHR
     0xD0, CHR 0xB4, CHR 0xD1, CHR 0x91, CHR 0xD0, CHR 0xBD, CHR 0xD0, CHR 0xBD, CHR 0xD0, CHR 0xBE,
     CHR 0xD0, CHR 0xB3, CHR 0xD0, CHR 0xBE, CHR 0x20, CHR 0xD0, CHR 0xBE, CHR 0xD1, CHR 0x81, CHR
     0xD1, CHR 0x82, CHR 0xD0, CHR 0xB0, CHR 0xD1, CHR 0x82, CHR 0xD0, CHR 0xBA, CHR 0xD0, CHR 0xB0,
     CHR 0x20, CHR 0xD0, CHR 0xBD, CHR 0xD0, CHR 0xB5, CHR 0xD0, CHR 0xB4, CHR 0xD0, CHR 0xBE, CHR
     0xD1, CHR 0x81, CHR 0xD1, CHR 0x82, CHR 0xD0, CHR 0xB0, CHR 0xD1, CHR 0x82, CHR 0xD0, CHR 0xBE,
     CHR 0xD1, CHR 0x87, CHR 0xD0, CHR 0xBD, CHR 0xD0, CHR 0xBE, CHR 0x2E]"

definition TEXT_PROVIDED :: string where
  "TEXT_PROVIDED =
    [CHR 0xD0, CHR 0x94, CHR 0xD0, CHR 0xB0, CHR 0xD0, CHR 0xBD, CHR 0xD0, CHR 0xBD, CHR 0xD1, CHR
     0x8B, CHR 0xD0, CHR 0xB5, CHR 0x20, CHR 0xD0, CHR 0xBF, CHR 0xD1, CHR 0x80, CHR 0xD0, CHR 0xBE,
     CHR 0xD1, CHR 0x87, CHR 0xD0, CHR 0xB8, CHR 0xD1, CHR 0x82, CHR 0xD0, CHR 0xB0, CHR 0xD0, CHR
     0xBD, CHR 0xD1, CHR 0x8B, CHR 0x2C, CHR 0x20, CHR 0xD0, CHR 0xBF, CHR 0xD0, CHR 0xBE, CHR 0xD1,
     CHR 0x82, CHR 0xD1, CHR 0x80, CHR 0xD0, CHR 0xB5, CHR 0xD0, CHR 0xB1, CHR 0xD0, CHR 0xBD, CHR
     0xD0, CHR 0xBE, CHR 0xD1, CHR 0x81, CHR 0xD1, CHR 0x82, CHR 0xD1, CHR 0x8C, CHR 0x20, CHR 0xD1,
     CHR 0x80, CHR 0xD0, CHR 0xB0, CHR 0xD1, CHR 0x81, CHR 0xD1, CHR 0x81, CHR 0xD1, CHR 0x87, CHR
     0xD0, CHR 0xB8, CHR 0xD1, CHR 0x82, CHR 0xD0, CHR 0xB0, CHR 0xD0, CHR 0xBD, CHR 0xD0, CHR 0xB0,
     CHR 0x20, CHR 0xD0, CHR 0xB8, CHR 0x20, CHR 0xD0, CHR 0xBF, CHR 0xD0, CHR 0xBE, CHR 0xD0, CHR
     0xBB, CHR 0xD0, CHR 0xBD, CHR 0xD0, CHR 0xBE, CHR 0xD1, CHR 0x81, CHR 0xD1, CHR 0x82, CHR 0xD1,
     CHR 0x8C, CHR 0xD1, CHR 0x8E, CHR 0x20, CHR 0xD0, CHR 0xBE, CHR 0xD0, CHR 0xB1, CHR 0xD0, CHR
     0xB5, CHR 0xD1, CHR 0x81, CHR 0xD0, CHR 0xBF, CHR 0xD0, CHR 0xB5, CHR 0xD1, CHR 0x87, CHR 0xD0,
     CHR 0xB5, CHR 0xD0, CHR 0xBD, CHR 0xD0, CHR 0xB0, CHR 0x2E]"

definition TEXT_SOURCE_UNAVAILABLE :: string where
  "TEXT_SOURCE_UNAVAILABLE =
    [CHR 0xD0, CHR 0x9E, CHR 0xD0, CHR 0xB1, CHR 0xD1, CHR 0x8F, CHR 0xD0, CHR 0xB7, CHR 0xD0, CHR
     0xB0, CHR 0xD1, CHR 0x82, CHR 0xD0, CHR 0xB5, CHR 0xD0, CHR 0xBB, CHR 0xD1, CHR 0x8C, CHR 0xD0,
     CHR 0xBD, CHR 0xD1, CHR 0x8B, CHR 0xD0, CHR 0xB9, CHR 0x20, CHR 0xD0, CHR 0xB8, CHR 0xD1, CHR
     0x81, CHR 0xD1, CHR 0x82, CHR 0xD0, CHR 0xBE, CHR 0xD1, CHR 0x87, CHR 0xD0, CHR 0xBD, CHR 0xD0,
     CHR 0xB8, CHR 0xD0, CHR 0xBA, CHR 0x20, CHR 0xD0, CHR 0xB4, CHR 0xD0, CHR 0xB0, CHR 0xD0, CHR
     0xBD, CHR 0xD0, CHR 0xBD, CHR 0xD1, CHR 0x8B, CHR 0xD1, CHR 0x85, CHR 0x20, CHR 0x31, CHR 0xD0,
     CHR 0xA1, CHR 0x20, CHR 0xD0, CHR 0xBD, CHR 0xD0, CHR 0xB5, CHR 0xD0, CHR 0xB4, CHR 0xD0, CHR
     0xBE, CHR 0xD1, CHR 0x81, CHR 0xD1, CHR 0x82, CHR 0xD1, CHR 0x83, CHR 0xD0, CHR 0xBF, CHR 0xD0,
     CHR 0xB5, CHR 0xD0, CHR 0xBD, CHR 0x2E]"

definition TEXT_ENGINEER_WAITS :: string where
  "TEXT_ENGINEER_WAITS =
    [CHR 0xD0, CHR 0x98, CHR 0xD0, CHR 0x98, CHR 0x2D, CHR 0xD0, CHR 0xB0, CHR 0xD0, CHR 0xB3, CHR
     0xD0, CHR 0xB5, CHR 0xD0, CHR 0xBD, CHR 0xD1, CHR 0x82, CHR 0x20, CHR 0xD0, CHR 0xB2, CHR 0xD1,
     CHR 0x8B, CHR 0xD0, CHR 0xBF, CHR 0xD0, CHR 0xBE, CHR 0xD0, CHR 0xBB, CHR 0xD0, CHR 0xBD, CHR
     0xD1, CHR 0x8F, CHR 0xD0, CHR 0xB5, CHR 0xD1, CHR 0x82, CHR 0x20, CHR 0xD1, CHR 0x80, CHR 0xD0,
     CHR 0xB0, CHR 0xD1, CHR 0x81, CHR 0xD1, CHR 0x87, CHR 0xD1, CHR 0x91, CHR 0xD1, CHR 0x82, CHR
     0x20, CHR 0xD0, CHR 0xB8, CHR 0xD0, CHR 0xBB, CHR 0xD0, CHR 0xB8, CHR 0x20, CHR 0xD0, CHR 0xBA,
     CHR 0xD0, CHR 0xB5, CHR 0xD0, CHR 0xB9, CHR 0xD1, CHR 0x81, CHR 0x20, CHR 0xD0, CHR 0xBE, CHR
     0xD0, CHR 0xB6, CHR 0xD0, CHR 0xB8, CHR 0xD0, CHR 0xB4, CHR 0xD0, CHR 0xB0, CHR 0xD0, CHR 0xB5,
     CHR 0xD1, CHR 0x82, CHR 0x20, CHR 0xD1, CHR 0x81, CHR 0xD0, CHR 0xB2, CHR 0xD0, CHR 0xBE, CHR
     0xD0, CHR 0xB5, CHR 0xD0, CHR 0xB9, CHR 0x20, CHR 0xD0, CHR 0xBE, CHR 0xD1, CHR 0x87, CHR 0xD0,
     CHR 0xB5, CHR 0xD1, CHR 0x80, CHR 0xD0, CHR 0xB5, CHR 0xD0, CHR 0xB4, CHR 0xD0, CHR 0xB8, CHR
     0x2E]"

definition TEXT_DISPATCHER_KEPT :: string where
  "TEXT_DISPATCHER_KEPT =
    [CHR 0xD0, CHR 0xA1, CHR 0xD0, CHR 0xBE, CHR 0xD1, CHR 0x81, CHR 0xD1, CHR 0x82, CHR 0xD0, CHR
     0xBE, CHR 0xD1, CHR 0x8F, CHR 0xD0, CHR 0xBD, CHR 0xD0, CHR 0xB8, CHR 0xD0, CHR 0xB5, CHR 0x20,
     CHR 0xD1, CHR 0x81, CHR 0xD0, CHR 0xBE, CHR 0xD1, CHR 0x85, CHR 0xD1, CHR 0x80, CHR 0xD0, CHR
     0xB0, CHR 0xD0, CHR 0xBD, CHR 0xD0, CHR 0xB5, CHR 0xD0, CHR 0xBD, CHR 0xD0, CHR 0xBE, CHR 0x20,
     CHR 0xD0, CHR 0xBF, CHR 0xD0, CHR 0xBE, CHR 0xD1, CHR 0x81, CHR 0xD0, CHR 0xBB, CHR 0xD0, CHR
     0xB5, CHR 0x20, CHR 0xD0, CHR 0xBF, CHR 0xD0, CHR 0xBE, CHR 0xD0, CHR 0xB4, CHR 0xD1, CHR 0x82,
     CHR 0xD0, CHR 0xB2, CHR 0xD0, CHR 0xB5, CHR 0xD1, CHR 0x80, CHR 0xD0, CHR 0xB6, CHR 0xD0, CHR
     0xB4, CHR 0xD0, CHR 0xB5, CHR 0xD0, CHR 0xBD, CHR 0xD0, CHR 0xB8, CHR 0xD1, CHR 0x8F, CHR 0x20,
     CHR 0xD0, CHR 0xB4, CHR 0xD0, CHR 0xB8, CHR 0xD1, CHR 0x81, CHR 0xD0, CHR 0xBF, CHR 0xD0, CHR
     0xB5, CHR 0xD1, CHR 0x82, CHR 0xD1, CHR 0x87, CHR 0xD0, CHR 0xB5, CHR 0xD1, CHR 0x80, CHR 0xD0,
     CHR 0xB0, CHR 0x2E]"

definition TEXT_CONFIRM_SUPPLY :: string where
  "TEXT_CONFIRM_SUPPLY =
    [CHR 0xD0, CHR 0xA2, CHR 0xD1, CHR 0x80, CHR 0xD0, CHR 0xB5, CHR 0xD0, CHR 0xB1, CHR 0xD1, CHR
     0x83, CHR 0xD0, CHR 0xB5, CHR 0xD1, CHR 0x82, CHR 0xD1, CHR 0x81, CHR 0xD1, CHR 0x8F, CHR 0x20,
     CHR 0xD0, CHR 0xBF, CHR 0xD0, CHR 0xBE, CHR 0xD0, CHR 0xB4, CHR 0xD1, CHR 0x82, CHR 0xD0, CHR
     0xB2, CHR 0xD0, CHR 0xB5, CHR 0xD1, CHR 0x80, CHR 0xD0, CHR 0xB4, CHR 0xD0, CHR 0xB8, CHR 0xD1,
     CHR 0x82, CHR 0xD1, CHR 0x8C, CHR 0x20, CHR 0xD1, CHR 0x81, CHR 0xD0, CHR 0xBF, CHR 0xD0, CHR
     0xBE, CHR 0xD1, CHR 0x81, CHR 0xD0, CHR 0xBE, CHR 0xD0, CHR 0xB1, CHR 0x20, CHR 0xD0, CHR 0xBE,
     CHR 0xD0, CHR 0xB1, CHR 0xD0, CHR 0xB5, CHR 0xD1, CHR 0x81, CHR 0xD0, CHR 0xBF, CHR 0xD0, CHR
     0xB5, CHR 0xD1, CHR 0x87, CHR 0xD0, CHR 0xB5, CHR 0xD0, CHR 0xBD, CHR 0xD0, CHR 0xB8, CHR 0xD1,
     CHR 0x8F, CHR 0x2E]"

definition TEXT_DISPATCHER_NO_DATA :: string where
  "TEXT_DISPATCHER_NO_DATA =
    [CHR 0xD0, CHR 0x9D, CHR 0xD0, CHR 0xB5, CHR 0xD0, CHR 0xB4, CHR 0xD0, CHR 0xBE, CHR 0xD1, CHR
     0x81, CHR 0xD1, CHR 0x82, CHR 0xD0, CHR 0xB0, CHR 0xD1, CHR 0x82, CHR 0xD0, CHR 0xBE, CHR 0xD1,
     CHR 0x87, CHR 0xD0, CHR 0xBD, CHR 0xD0, CHR 0xBE, CHR 0x20, CHR 0xD0, CHR 0xB4, CHR 0xD0, CHR
     0xB0, CHR 0xD0, CHR 0xBD, CHR 0xD0, CHR 0xBD, CHR 0xD1, CHR 0x8B, CHR 0xD1, CHR 0x85, CHR 0x20,
     CHR 0xD0, CHR 0xB4, CHR 0xD0, CHR 0xBB, CHR 0xD1, CHR 0x8F, CHR 0x20, CHR 0xD1, CHR 0x80, CHR
     0xD0, CHR 0xB0, CHR 0xD1, CHR 0x81, CHR 0xD1, CHR 0x87, CHR 0xD1, CHR 0x91, CHR 0xD1, CHR 0x82,
     CHR 0xD0, CHR 0xB0, CHR 0x20, CHR 0xD0, CHR 0xB4, CHR 0xD0, CHR 0xB8, CHR 0xD1, CHR 0x81, CHR
     0xD0, CHR 0xBF, CHR 0xD0, CHR 0xB5, CHR 0xD1, CHR 0x82, CHR 0xD1, CHR 0x87, CHR 0xD0, CHR 0xB5,
     CHR 0xD1, CHR 0x80, CHR 0xD0, CHR 0xB0, CHR 0x2E]"

definition TEXT_STOCK_COVERS :: string where
  "TEXT_STOCK_COVERS =
    [CHR 0xD0, CHR 0x97, CHR 0xD0, CHR 0xB0, CHR 0xD0, CHR 0xBF, CHR 0xD0, CHR 0xB0, CHR 0xD1, CHR
     0x81, CHR 0x20, CHR 0xD0, CHR 0xBF, CHR 0xD0, CHR 0xBE, CHR 0xD0, CHR 0xBA, CHR 0xD1, CHR 0x80,
     CHR 0xD1, CHR 0x8B, CHR 0xD0, CHR 0xB2, CHR 0xD0, CHR 0xB0, CHR 0xD0, CHR 0xB5, CHR 0xD1, CHR
     0x82, CHR 0x20, CHR 0xD0, CHR 0xBF, CHR 0xD0, CHR 0xBE, CHR 0xD1, CHR 0x82, CHR 0xD1, CHR 0x80,
     CHR 0xD0, CHR 0xB5, CHR 0xD0, CHR 0xB1, CHR 0xD0, CHR 0xBD, CHR 0xD0, CHR 0xBE, CHR 0xD1, CHR
     0x81, CHR 0xD1, CHR 0x82, CHR 0xD1, CHR 0x8C, CHR 0x2C, CHR 0x20, CHR 0xD0, CHR 0xB7, CHR 0xD0,
     CHR 0xB0, CHR 0xD0, CHR 0xBA, CHR 0xD1, CHR 0x83, CHR 0xD0, CHR 0xBF, CHR 0xD0, CHR 0xBA, CHR
     0xD0, CHR 0xB0, CHR 0x20, CHR 0xD0, CHR 0xBD, CHR 0xD0, CHR 0xB5, CHR 0x20, CHR 0xD1, CHR 0x82,
     CHR 0xD1, CHR 0x80, CHR 0xD0, CHR 0xB5, CHR 0xD0, CHR 0xB1, CHR 0xD1, CHR 0x83, CHR 0xD0, CHR
     0xB5, CHR 0xD1, CHR 0x82, CHR 0xD1, CHR 0x81, CHR 0xD1, CHR 0x8F, CHR 0x2E]"

definition TEXT_DISPATCHER_RUNS :: string where
  "TEXT_DISPATCHER_RUNS =
    [CHR 0xD0, CHR 0x94, CHR 0xD0, CHR 0xB8, CHR 0xD1, CHR 0x81, CHR 0xD0, CHR 0xBF, CHR 0xD0, CHR
     0xB5, CHR 0xD1, CHR 0x82, CHR 0xD1, CHR 0x87, CHR 0xD0, CHR 0xB5, CHR 0xD1, CHR 0x80, CHR 0x20,
     CHR 0xD0, CHR 0xB2, CHR 0xD1, CHR 0x8B, CHR 0xD0, CHR 0xBF, CHR 0xD0, CHR 0xBE, CHR 0xD0, CHR
     0xBB, CHR 0xD0, CHR 0xBD, CHR 0xD1, CHR 0x8F, CHR 0xD0, CHR 0xB5, CHR 0xD1, CHR 0x82, CHR 0x20,
     CHR 0xD1, CHR 0x80, CHR 0xD0, CHR 0xB0, CHR 0xD1, CHR 0x81, CHR 0xD1, CHR 0x87, CHR 0xD1, CHR
     0x91, CHR 0xD1, CHR 0x82, CHR 0x20, CHR 0xD0, CHR 0xB8, CHR 0xD0, CHR 0xBB, CHR 0xD0, CHR 0xB8,
     CHR 0x20, CHR 0xD0, CHR 0xBA, CHR 0xD0, CHR 0xB5, CHR 0xD0, CHR 0xB9, CHR 0xD1, CHR 0x81, CHR
     0x20, CHR 0xD0, CHR 0xBE, CHR 0xD0, CHR 0xB6, CHR 0xD0, CHR 0xB8, CHR 0xD0, CHR 0xB4, CHR 0xD0,
     CHR 0xB0, CHR 0xD0, CHR 0xB5, CHR 0xD1, CHR 0x82, CHR 0x20, CHR 0xD1, CHR 0x80, CHR 0xD0, CHR
     0xB5, CHR 0xD1, CHR 0x88, CHR 0xD0, CHR 0xB5, CHR 0xD0, CHR 0xBD, CHR 0xD0, CHR 0xB8, CHR 0xD1,
     CHR 0x8F, CHR 0x2E]"

definition TEXT_DISPATCHER_WAITS :: string where
  "TEXT_DISPATCHER_WAITS =
    [CHR 0xD0, CHR 0x9A, CHR 0xD0, CHR 0xB5, CHR 0xD0, CHR 0xB9, CHR 0xD1, CHR 0x81, CHR 0x20, CHR
     0xD0, CHR 0xBE, CHR 0xD0, CHR 0xB6, CHR 0xD0, CHR 0xB8, CHR 0xD0, CHR 0xB4, CHR 0xD0, CHR 0xB0,
     CHR 0xD0, CHR 0xB5, CHR 0xD1, CHR 0x82, CHR 0x20, CHR 0xD0, CHR 0xBE, CHR 0xD0, CHR 0xB1, CHR
     0xD1, CHR 0x80, CHR 0xD0, CHR 0xB0, CHR 0xD0, CHR 0xB1, CHR 0xD0, CHR 0xBE, CHR 0xD1, CHR 0x82,
     CHR 0xD0, CHR 0xBA, CHR 0xD0, CHR 0xB8, CHR 0x20, CHR 0xD0, CHR 0xB4, CHR 0xD0, CHR 0xB8, CHR
     0xD1, CHR 0x81, CHR 0xD0, CHR 0xBF, CHR 0xD0, CHR 0xB5, CHR 0xD1, CHR 0x82, CHR 0xD1, CHR 0x87,
     CHR 0xD0, CHR 0xB5, CHR 0xD1, CHR 0x80, CHR 0xD0, CHR 0xBE, CHR 0xD0, CHR 0xBC, CHR 0x20, CHR
     0xD0, CHR 0xBF, CHR 0xD1, CHR 0x80, CHR 0xD0, CHR 0xBE, CHR 0xD0, CHR 0xB8, CHR 0xD0, CHR 0xB7,
     CHR 0xD0, CHR 0xB2, CHR 0xD0, CHR 0xBE, CHR 0xD0, CHR 0xB4, CHR 0xD1, CHR 0x81, CHR 0xD1, CHR
     0x82, CHR 0xD0, CHR 0xB2, CHR 0xD0, CHR 0xB0, CHR 0x2E]"

definition ACTOR_PICKER :: string where
  "ACTOR_PICKER =
    [CHR 0xD0, CHR 0xBA, CHR 0xD0, CHR 0xBE, CHR 0xD0, CHR 0xBC, CHR 0xD0, CHR 0xBF, CHR 0xD0, CHR
     0xBB, CHR 0xD0, CHR 0xB5, CHR 0xD0, CHR 0xBA, CHR 0xD1, CHR 0x82, CHR 0xD0, CHR 0xBE, CHR 0xD0,
     CHR 0xB2, CHR 0xD1, CHR 0x89, CHR 0xD0, CHR 0xB8, CHR 0xD0, CHR 0xBA, CHR 0xD0, CHR 0xB0]"

definition ACTOR_CHIEF :: string where
  "ACTOR_CHIEF =
    [CHR 0xD0, CHR 0xBD, CHR 0xD0, CHR 0xB0, CHR 0xD1, CHR 0x87, CHR 0xD0, CHR 0xB0, CHR 0xD0, CHR
     0xBB, CHR 0xD1, CHR 0x8C, CHR 0xD0, CHR 0xBD, CHR 0xD0, CHR 0xB8, CHR 0xD0, CHR 0xBA, CHR 0xD0,
     CHR 0xB0, CHR 0x20, CHR 0xD1, CHR 0x81, CHR 0xD0, CHR 0xBA, CHR 0xD0, CHR 0xBB, CHR 0xD0, CHR
     0xB0, CHR 0xD0, CHR 0xB4, CHR 0xD1, CHR 0x81, CHR 0xD0, CHR 0xBA, CHR 0xD0, CHR 0xBE, CHR 0xD0,
     CHR 0xB3, CHR 0xD0, CHR 0xBE, CHR 0x20, CHR 0xD0, CHR 0xBA, CHR 0xD0, CHR 0xBE, CHR 0xD0, CHR
     0xBC, CHR 0xD0, CHR 0xBF, CHR 0xD0, CHR 0xBB, CHR 0xD0, CHR 0xB5, CHR 0xD0, CHR 0xBA, CHR 0xD1,
     CHR 0x81, CHR 0xD0, CHR 0xB0]"

definition ACTOR_LABEL_PICKER :: string where
  "ACTOR_LABEL_PICKER =
    [CHR 0xD0, CHR 0xBA, CHR 0xD0, CHR 0xBB, CHR 0xD0, CHR 0xB0, CHR 0xD0, CHR 0xB4, CHR 0xD0, CHR
     0xBE, CHR 0xD0, CHR 0xB2, CHR 0xD1, CHR 0x89, CHR 0xD0, CHR 0xB8, CHR 0xD0, CHR 0xBA, CHR 0xD0,
     CHR 0xBE, CHR 0xD0, CHR 0xBC, CHR 0x2D, CHR 0xD0, CHR 0xBA, CHR 0xD0, CHR 0xBE, CHR 0xD0, CHR
     0xBC, CHR 0xD0, CHR 0xBF, CHR 0xD0, CHR 0xBB, CHR 0xD0, CHR 0xB5, CHR 0xD0, CHR 0xBA, CHR 0xD1,
     CHR 0x82, CHR 0xD0, CHR 0xBE, CHR 0xD0, CHR 0xB2, CHR 0xD1, CHR 0x89, CHR 0xD0, CHR 0xB8, CHR
     0xD0, CHR 0xBA, CHR 0xD0, CHR 0xBE, CHR 0xD0, CHR 0xBC]"

definition ACTOR_LABEL_CHIEF :: string where
  "ACTOR_LABEL_CHIEF =
    [CHR 0xD0, CHR 0xBD, CHR 0xD0, CHR 0xB0, CHR 0xD1, CHR 0x87, CHR 0xD0, CHR 0xB0, CHR 0xD0, CHR
     0xBB, CHR 0xD1, CHR 0x8C, CHR 0xD0, CHR 0xBD, CHR 0xD0, CHR 0xB8, CHR 0xD0, CHR 0xBA, CHR 0xD0,
     CHR 0xBE, CHR 0xD0, CHR 0xBC, CHR 0x20, CHR 0xD1, CHR 0x81, CHR 0xD0, CHR 0xBA, CHR 0xD0, CHR
     0xBB, CHR 0xD0, CHR 0xB0, CHR 0xD0, CHR 0xB4, CHR 0xD1, CHR 0x81, CHR 0xD0, CHR 0xBA, CHR 0xD0,
     CHR 0xBE, CHR 0xD0, CHR 0xB3, CHR 0xD0, CHR 0xBE, CHR 0x20, CHR 0xD0, CHR 0xBA, CHR 0xD0, CHR
     0xBE, CHR 0xD0, CHR 0xBC, CHR 0xD0, CHR 0xBF, CHR 0xD0, CHR 0xBB, CHR 0xD0, CHR 0xB5, CHR 0xD0,
     CHR 0xBA, CHR 0xD1, CHR 0x81, CHR 0xD0, CHR 0xB0]"

definition TEXT_HANDED_TO_OTK :: string where
  "TEXT_HANDED_TO_OTK =
    [CHR 0xD0, CHR 0x9F, CHR 0xD0, CHR 0xB5, CHR 0xD1, CHR 0x80, CHR 0xD0, CHR 0xB5, CHR 0xD0, CHR
     0xB4, CHR 0xD0, CHR 0xB0, CHR 0xD0, CHR 0xBD, CHR 0xD0, CHR 0xBE, CHR 0x20, CHR 0xD0, CHR 0x9E,
     CHR 0xD0, CHR 0xA2, CHR 0xD0, CHR 0x9A, CHR 0x20, CHR 0xD0, CHR 0xBF, CHR 0xD0, CHR 0xBE, CHR
     0x20, CHR 0xD0, CHR 0xB6, CHR 0xD1, CHR 0x83, CHR 0xD1, CHR 0x80, CHR 0xD0, CHR 0xBD, CHR 0xD0,
     CHR 0xB0, CHR 0xD0, CHR 0xBB, CHR 0xD1, CHR 0x83, CHR 0x20, CHR 0xD0, CHR 0xBF, CHR 0xD1, CHR
     0x80, CHR 0xD0, CHR 0xB5, CHR 0xD0, CHR 0xB4, CHR 0xD1, CHR 0x8A, CHR 0xD1, CHR 0x8F, CHR 0xD0,
     CHR 0xB2, CHR 0xD0, CHR 0xBB, CHR 0xD0, CHR 0xB5, CHR 0xD0, CHR 0xBD, CHR 0xD0, CHR 0xB8, CHR
     0xD1, CHR 0x8F, CHR 0x20, CHR 0xD0, CHR 0xA2, CHR 0xD0, CHR 0x9C, CHR 0xD0, CHR 0xA6, CHR 0x2E]"

definition TEXT_WORK_HEAD :: string where
  "TEXT_WORK_HEAD =
    [CHR 0xD0, CHR 0xA0, CHR 0xD0, CHR 0xB0, CHR 0xD0, CHR 0xB1, CHR 0xD0, CHR 0xBE, CHR 0xD1, CHR
     0x82, CHR 0xD0, CHR 0xB0, CHR 0x20]"

definition TEXT_WORK_TAIL :: string where
  "TEXT_WORK_TAIL =
    [CHR 0x20, CHR 0xD0, CHR 0xB7, CHR 0xD0, CHR 0xB0, CHR 0xD0, CHR 0xB2, CHR 0xD0, CHR 0xB5, CHR
     0xD1, CHR 0x80, CHR 0xD1, CHR 0x88, CHR 0xD0, CHR 0xB5, CHR 0xD0, CHR 0xBD, CHR 0xD0, CHR 0xB0,
     CHR 0x3A, CHR 0x20, CHR 0xD0, CHR 0xB2, CHR 0xD1, CHR 0x81, CHR 0xD0, CHR 0xB5, CHR 0x20, CHR
     0xD0, CHR 0xBF, CHR 0xD0, CHR 0xBE, CHR 0xD0, CHR 0xB7, CHR 0xD0, CHR 0xB8, CHR 0xD1, CHR 0x86,
     CHR 0xD0, CHR 0xB8, CHR 0xD0, CHR 0xB8, CHR 0x20, CHR 0xD0, CHR 0xBF, CHR 0xD0, CHR 0xB5, CHR
     0xD1, CHR 0x80, CHR 0xD0, CHR 0xB5, CHR 0xD0, CHR 0xBA, CHR 0xD1, CHR 0x80, CHR 0xD1, CHR 0x8B,
     CHR 0xD1, CHR 0x82, CHR 0xD1, CHR 0x8B, CHR 0x3B, CHR 0x20, CHR 0xD0, CHR 0xBA, CHR 0xD0, CHR
     0xBE, CHR 0xD0, CHR 0xBD, CHR 0xD1, CHR 0x82, CHR 0xD1, CHR 0x80, CHR 0xD0, CHR 0xBE, CHR 0xD0,
     CHR 0xBB, CHR 0xD1, CHR 0x8C, CHR 0x20, CHR 0xD0, CHR 0xB8, CHR 0xD1, CHR 0x81, CHR 0xD0, CHR
     0xBF, CHR 0xD0, CHR 0xBE, CHR 0xD0, CHR 0xBB, CHR 0xD0, CHR 0xBD, CHR 0xD0, CHR 0xB5, CHR 0xD0,
     CHR 0xBD, CHR 0xD0, CHR 0xB8, CHR 0xD1, CHR 0x8F, CHR 0x20, CHR 0xD0, CHR 0xB7, CHR 0xD0, CHR
     0xB0, CHR 0xD0, CHR 0xBA, CHR 0xD1, CHR 0x83, CHR 0xD0, CHR 0xBF, CHR 0xD0, CHR 0xBE, CHR 0xD0,
     CHR 0xBA, CHR 0x20, CHR 0xD0, CHR 0xB8, CHR 0x20, CHR 0xD0, CHR 0xBF, CHR 0xD0, CHR 0xB5, CHR
     0xD1, CHR 0x80, CHR 0xD0, CHR 0xB5, CHR 0xD0, CHR 0xBC, CHR 0xD0, CHR 0xB5, CHR 0xD1, CHR 0x89,
     CHR 0xD0, CHR 0xB5, CHR 0xD0, CHR 0xBD, CHR 0xD0, CHR 0xB8, CHR 0xD0, CHR 0xB9, CHR 0x20, CHR
     0xD1, CHR 0x83, CHR 0x20, CHR 0xD0, CHR 0xBC, CHR 0xD0, CHR 0xB5, CHR 0xD0, CHR 0xBD, CHR 0xD0,
     CHR 0xB5, CHR 0xD0, CHR 0xB4, CHR 0xD0, CHR 0xB6, CHR 0xD0, CHR 0xB5, CHR 0xD1, CHR 0x80, CHR
     0xD0, CHR 0xB0, CHR 0x20, CHR 0xD0, CHR 0xBF, CHR 0xD0, CHR 0xBE, CHR 0x20, CHR 0xD0, CHR 0xB7,
     CHR 0xD0, CHR 0xB0, CHR 0xD0, CHR 0xBA, CHR 0xD1, CHR 0x83, CHR 0xD0, CHR 0xBF, CHR 0xD0, CHR
     0xBA, CHR 0xD0, CHR 0xB0, CHR 0xD0, CHR 0xBC, CHR 0x2E]"

definition TEXT_PART :: string where
  "TEXT_PART =
    [CHR 0xD1, CHR 0x87, CHR 0xD0, CHR 0xB0, CHR 0xD1, CHR 0x81, CHR 0xD1, CHR 0x82, CHR 0xD1, CHR
     0x8C]"

definition TEXT_OF :: string where
  "TEXT_OF =
    [CHR 0x20, CHR 0xD0, CHR 0xB8, CHR 0xD0, CHR 0xB7, CHR 0x20]"

definition TEXT_PARTIAL_HEAD :: string where
  "TEXT_PARTIAL_HEAD =
    [CHR 0xD0, CHR 0x92, CHR 0xD0, CHR 0xB5, CHR 0xD0, CHR 0xB4, CHR 0xD0, CHR 0xB5, CHR 0xD1, CHR
     0x82, CHR 0xD1, CHR 0x81, CHR 0xD1, CHR 0x8F, CHR 0x20, CHR 0xD0, CHR 0xB7, CHR 0xD0, CHR 0xB0,
     CHR 0xD0, CHR 0xBA, CHR 0xD1, CHR 0x83, CHR 0xD0, CHR 0xBF, CHR 0xD0, CHR 0xBA, CHR 0xD0, CHR
     0xB0, CHR 0x20, CHR 0xD0, CHR 0xBF, CHR 0xD0, CHR 0xBE, CHR 0x20, CHR 0xD1, CHR 0x87, CHR 0xD0,
     CHR 0xB0, CHR 0xD1, CHR 0x81, CHR 0xD1, CHR 0x82, CHR 0xD0, CHR 0xB8, CHR 0x20, CHR 0xD0, CHR
     0xBF, CHR 0xD0, CHR 0xBE, CHR 0xD0, CHR 0xB7, CHR 0xD0, CHR 0xB8, CHR 0xD1, CHR 0x86, CHR 0xD0,
     CHR 0xB8, CHR 0xD0, CHR 0xB9, CHR 0x20, CHR 0x28]"

definition TEXT_PARTIAL_TAIL :: string where
  "TEXT_PARTIAL_TAIL =
    [CHR 0x29, CHR 0x3B, CHR 0x20, CHR 0xD0, CHR 0xBD, CHR 0xD0, CHR 0xB5, CHR 0xD0, CHR 0xBF, CHR
     0xD0, CHR 0xBE, CHR 0xD0, CHR 0xBA, CHR 0xD1, CHR 0x80, CHR 0xD1, CHR 0x8B, CHR 0xD1, CHR 0x82,
     CHR 0xD1, CHR 0x8B, CHR 0xD0, CHR 0xB9, CHR 0x20, CHR 0xD0, CHR 0xB4, CHR 0xD0, CHR 0xB5, CHR
     0xD1, CHR 0x84, CHR 0xD0, CHR 0xB8, CHR 0xD1, CHR 0x86, CHR 0xD0, CHR 0xB8, CHR 0xD1, CHR 0x82,
     CHR 0x20, CHR 0xD0, CHR 0xBE, CHR 0xD1, CHR 0x81, CHR 0xD1, CHR 0x82, CHR 0xD0, CHR 0xB0, CHR
     0xD1, CHR 0x91, CHR 0xD1, CHR 0x82, CHR 0xD1, CHR 0x81, CHR 0xD1, CHR 0x8F, CHR 0x20, CHR 0xD1,
     CHR 0x83, CHR 0x20]"

definition TEXT_CLOSED :: string where
  "TEXT_CLOSED =
    [CHR 0xD0, CHR 0x9A, CHR 0xD0, CHR 0xB5, CHR 0xD0, CHR 0xB9, CHR 0xD1, CHR 0x81, CHR 0x20, CHR
     0xD0, CHR 0xB7, CHR 0xD0, CHR 0xB0, CHR 0xD0, CHR 0xBA, CHR 0xD1, CHR 0x80, CHR 0xD1, CHR 0x8B,
     CHR 0xD1, CHR 0x82, CHR 0x20, CHR 0xD0, CHR 0xBE, CHR 0xD1, CHR 0x80, CHR 0xD0, CHR 0xBA, CHR
     0xD0, CHR 0xB5, CHR 0xD1, CHR 0x81, CHR 0xD1, CHR 0x82, CHR 0xD1, CHR 0x80, CHR 0xD0, CHR 0xB0,
     CHR 0xD1, CHR 0x82, CHR 0xD0, CHR 0xBE, CHR 0xD1, CHR 0x80, CHR 0xD0, CHR 0xBE, CHR 0xD0, CHR
     0xBC, CHR 0x2E]"

definition TEXT_KEPT_FOR_OMTO :: string where
  "TEXT_KEPT_FOR_OMTO =
    [CHR 0xD0, CHR 0xA1, CHR 0xD0, CHR 0xBE, CHR 0xD1, CHR 0x81, CHR 0xD1, CHR 0x82, CHR 0xD0, CHR
     0xBE, CHR 0xD1, CHR 0x8F, CHR 0xD0, CHR 0xBD, CHR 0xD0, CHR 0xB8, CHR 0xD0, CHR 0xB5, CHR 0x20,
     CHR 0xD1, CHR 0x81, CHR 0xD0, CHR 0xBE, CHR 0xD1, CHR 0x85, CHR 0xD1, CHR 0x80, CHR 0xD0, CHR
     0xB0, CHR 0xD0, CHR 0xBD, CHR 0xD0, CHR 0xB5, CHR 0xD0, CHR 0xBD, CHR 0xD0, CHR 0xBE, CHR 0x20,
     CHR 0xD0, CHR 0xBF, CHR 0xD1, CHR 0x80, CHR 0xD0, CHR 0xB8, CHR 0x20, CHR 0xD0, CHR 0xBF, CHR
     0xD0, CHR 0xB5, CHR 0xD1, CHR 0x80, CHR 0xD0, CHR 0xB5, CHR 0xD0, CHR 0xB4, CHR 0xD0, CHR 0xB0,
     CHR 0xD1, CHR 0x87, CHR 0xD0, CHR 0xB5, CHR 0x20, CHR 0xD0, CHR 0xBD, CHR 0xD0, CHR 0xB0, CHR
     0xD1, CHR 0x87, CHR 0xD0, CHR 0xB0, CHR 0xD0, CHR 0xBB, CHR 0xD1, CHR 0x8C, CHR 0xD0, CHR 0xBD,
     CHR 0xD0, CHR 0xB8, CHR 0xD0, CHR 0xBA, CHR 0xD1, CHR 0x83, CHR 0x20, CHR 0xD0, CHR 0x9E, CHR
     0xD0, CHR 0x9C, CHR 0xD0, CHR 0xA2, CHR 0xD0, CHR 0x9E, CHR 0x2E]"

definition TEXT_CONFIRM_CONCLUSION :: string where
  "TEXT_CONFIRM_CONCLUSION =
    [CHR 0xD0, CHR 0xA2, CHR 0xD1, CHR 0x80, CHR 0xD0, CHR 0xB5, CHR 0xD0, CHR 0xB1, CHR 0xD1, CHR
     0x83, CHR 0xD0, CHR 0xB5, CHR 0xD1, CHR 0x82, CHR 0xD1, CHR 0x81, CHR 0xD1, CHR 0x8F, CHR 0x20,
     CHR 0xD0, CHR 0xBF, CHR 0xD0, CHR 0xBE, CHR 0xD0, CHR 0xB4, CHR 0xD1, CHR 0x82, CHR 0xD0, CHR
     0xB2, CHR 0xD0, CHR 0xB5, CHR 0xD1, CHR 0x80, CHR 0xD0, CHR 0xB6, CHR 0xD0, CHR 0xB4, CHR 0xD0,
     CHR 0xB5, CHR 0xD0, CHR 0xBD, CHR 0xD0, CHR 0xB8, CHR 0xD0, CHR 0xB5, CHR 0x20, CHR 0xD0, CHR
     0xB7, CHR 0xD0, CHR 0xB0, CHR 0xD0, CHR 0xBA, CHR 0xD0, CHR 0xBB, CHR 0xD1, CHR 0x8E, CHR 0xD1,
     CHR 0x87, CHR 0xD0, CHR 0xB5, CHR 0xD0, CHR 0xBD, CHR 0xD0, CHR 0xB8, CHR 0xD1, CHR 0x8F, CHR
     0x20, CHR 0xD0, CHR 0xBF, CHR 0xD0, CHR 0xBE, CHR 0x20, CHR 0xD0, CHR 0xBA, CHR 0xD0, CHR 0xBB,
     CHR 0xD0, CHR 0xB0, CHR 0xD0, CHR 0xB4, CHR 0xD0, CHR 0xBE, CHR 0xD0, CHR 0xB2, CHR 0xD0, CHR
     0xBE, CHR 0xD0, CHR 0xB9, CHR 0x2E]"

definition TEXT_STORE_NO_DATA :: string where
  "TEXT_STORE_NO_DATA =
    [CHR 0xD0, CHR 0x9D, CHR 0xD0, CHR 0xB5, CHR 0xD0, CHR 0xB4, CHR 0xD0, CHR 0xBE, CHR 0xD1, CHR
     0x81, CHR 0xD1, CHR 0x82, CHR 0xD0, CHR 0xB0, CHR 0xD1, CHR 0x82, CHR 0xD0, CHR 0xBE, CHR 0xD1,
     CHR 0x87, CHR 0xD0, CHR 0xBD, CHR 0xD0, CHR 0xBE, CHR 0x20, CHR 0xD0, CHR 0xB4, CHR 0xD0, CHR
     0xB0, CHR 0xD0, CHR 0xBD, CHR 0xD0, CHR 0xBD, CHR 0xD1, CHR 0x8B, CHR 0xD1, CHR 0x85, CHR 0x20,
     CHR 0xD0, CHR 0xB4, CHR 0xD0, CHR 0xBB, CHR 0xD1, CHR 0x8F, CHR 0x20, CHR 0xD0, CHR 0xBF, CHR
     0xD1, CHR 0x80, CHR 0xD0, CHR 0xBE, CHR 0xD0, CHR 0xB2, CHR 0xD0, CHR 0xB5, CHR 0xD1, CHR 0x80,
     CHR 0xD0, CHR 0xBA, CHR 0xD0, CHR 0xB8, CHR 0x20, CHR 0xD0, CHR 0xBA, CHR 0xD0, CHR 0xBB, CHR
     0xD0, CHR 0xB0, CHR 0xD0, CHR 0xB4, CHR 0xD0, CHR 0xBE, CHR 0xD0, CHR 0xB2, CHR 0xD0, CHR 0xBE,
     CHR 0xD0, CHR 0xB9, CHR 0x2E]"

definition TEXT_AVAILABLE :: string where
  "TEXT_AVAILABLE =
    [CHR 0xD0, CHR 0x9D, CHR 0xD0, CHR 0xB0, CHR 0xD0, CHR 0xBB, CHR 0xD0, CHR 0xB8, CHR 0xD1, CHR
     0x87, CHR 0xD0, CHR 0xB8, CHR 0xD0, CHR 0xB5, CHR 0x20, CHR 0xD0, CHR 0xBF, CHR 0xD0, CHR 0xBE,
     CHR 0xD0, CHR 0xB4, CHR 0xD1, CHR 0x82, CHR 0xD0, CHR 0xB2, CHR 0xD0, CHR 0xB5, CHR 0xD1, CHR
     0x80, CHR 0xD0, CHR 0xB6, CHR 0xD0, CHR 0xB4, CHR 0xD0, CHR 0xB5, CHR 0xD0, CHR 0xBD, CHR 0xD0,
     CHR 0xBE, CHR 0x2C, CHR 0x20, CHR 0xD0, CHR 0xBA, CHR 0xD0, CHR 0xB5, CHR 0xD0, CHR 0xB9, CHR
     0xD1, CHR 0x81, CHR 0x20, CHR 0xD0, CHR 0xBF, CHR 0xD0, CHR 0xB5, CHR 0xD1, CHR 0x80, CHR 0xD0,
     CHR 0xB5, CHR 0xD0, CHR 0xB4, CHR 0xD0, CHR 0xB0, CHR 0xD0, CHR 0xBD, CHR 0x20, CHR 0xD0, CHR
     0xBD, CHR 0xD0, CHR 0xB0, CHR 0xD1, CHR 0x87, CHR 0xD0, CHR 0xB0, CHR 0xD0, CHR 0xBB, CHR 0xD1,
     CHR 0x8C, CHR 0xD0, CHR 0xBD, CHR 0xD0, CHR 0xB8, CHR 0xD0, CHR 0xBA, CHR 0xD1, CHR 0x83, CHR
     0x20, CHR 0xD0, CHR 0x9E, CHR 0xD0, CHR 0x9C, CHR 0xD0, CHR 0xA2, CHR 0xD0, CHR 0x9E, CHR 0x2E]"

definition TEXT_CHECK_RUNS :: string where
  "TEXT_CHECK_RUNS =
    [CHR 0xD0, CHR 0x92, CHR 0xD1, CHR 0x8B, CHR 0xD0, CHR 0xBF, CHR 0xD0, CHR 0xBE, CHR 0xD0, CHR
     0xBB, CHR 0xD0, CHR 0xBD, CHR 0xD1, CHR 0x8F, CHR 0xD0, CHR 0xB5, CHR 0xD1, CHR 0x82, CHR 0xD1,
     CHR 0x81, CHR 0xD1, CHR 0x8F, CHR 0x20, CHR 0xD0, CHR 0xBF, CHR 0xD1, CHR 0x80, CHR 0xD0, CHR
     0xBE, CHR 0xD0, CHR 0xB2, CHR 0xD0, CHR 0xB5, CHR 0xD1, CHR 0x80, CHR 0xD0, CHR 0xBA, CHR 0xD0,
     CHR 0xB0, CHR 0x20, CHR 0xD0, CHR 0xBD, CHR 0xD0, CHR 0xB0, CHR 0xD0, CHR 0xBB, CHR 0xD0, CHR
     0xB8, CHR 0xD1, CHR 0x87, CHR 0xD0, CHR 0xB8, CHR 0xD1, CHR 0x8F, CHR 0x20, CHR 0xD0, CHR 0xB8,
     CHR 0xD0, CHR 0xBB, CHR 0xD0, CHR 0xB8, CHR 0x20, CHR 0xD0, CHR 0xBA, CHR 0xD0, CHR 0xB5, CHR
     0xD0, CHR 0xB9, CHR 0xD1, CHR 0x81, CHR 0x20, CHR 0xD0, CHR 0xBE, CHR 0xD0, CHR 0xB6, CHR 0xD0,
     CHR 0xB8, CHR 0xD0, CHR 0xB4, CHR 0xD0, CHR 0xB0, CHR 0xD0, CHR 0xB5, CHR 0xD1, CHR 0x82, CHR
     0x20, CHR 0xD1, CHR 0x80, CHR 0xD0, CHR 0xB5, CHR 0xD1, CHR 0x88, CHR 0xD0, CHR 0xB5, CHR 0xD0,
     CHR 0xBD, CHR 0xD0, CHR 0xB8, CHR 0xD1, CHR 0x8F, CHR 0x2E]"

definition TEXT_WAITS_FOR :: string where
  "TEXT_WAITS_FOR =
    [CHR 0xD0, CHR 0x9A, CHR 0xD0, CHR 0xB5, CHR 0xD0, CHR 0xB9, CHR 0xD1, CHR 0x81, CHR 0x20, CHR
     0xD0, CHR 0xBE, CHR 0xD0, CHR 0xB6, CHR 0xD0, CHR 0xB8, CHR 0xD0, CHR 0xB4, CHR 0xD0, CHR 0xB0,
     CHR 0xD0, CHR 0xB5, CHR 0xD1, CHR 0x82, CHR 0x20, CHR 0xD0, CHR 0xBE, CHR 0xD0, CHR 0xB1, CHR
     0xD1, CHR 0x80, CHR 0xD0, CHR 0xB0, CHR 0xD0, CHR 0xB1, CHR 0xD0, CHR 0xBE, CHR 0xD1, CHR 0x82,
     CHR 0xD0, CHR 0xBA, CHR 0xD0, CHR 0xB8, CHR 0x20]"

section \<open>Reading agent output\<close>

datatype dash_error = Bad_Type | Bad_Key | Bad_Value | Bad_Attribute

text \<open>The first character of a text is its lead byte with the continuation bytes.\<close>

fun first_item :: "json \<Rightarrow> dash_error + json" where
  "first_item (JArr (x # xs)) = Inr x"
| "first_item (JStr (c # cs)) = Inr (JStr (c # takeWhile (\<lambda>x. 128 \<le> (of_char x :: nat) \<and> (of_char x :: nat) < 192) cs))"
| "first_item (JObj d) = Inl Bad_Key"
| "first_item v = Inl Bad_Type"

definition exponent_ok :: "string \<Rightarrow> bool" where
  "exponent_ok s =
     (let t = (case s of c # cs \<Rightarrow> if c = CHR ''-'' \<or> c = CHR ''+'' then cs else s | [] \<Rightarrow> [])
      in t \<noteq> [] \<and> read_digits 0 t \<noteq> None)"

definition text_positive :: "string \<Rightarrow> bool option" where
  "text_positive s =
     (let t = py_strip s; mantissa = takeWhile (\<lambda>c. c \<noteq> CHR ''e'' \<and> c \<noteq> CHR ''E'') t; rest = drop (length mantissa) t
      in if py_strip mantissa = mantissa \<and> (rest = [] \<or> exponent_ok (tl rest))
         then map_option (\<lambda>x. 0 < x) (read_decimal mantissa) else None)"

text \<open>\<open>float(value or 0) > 0\<close>\<close>

fun float_positive :: "json \<Rightarrow> dash_error + bool" where
  "float_positive JNull = Inr False"
| "float_positive (JBool b) = Inr b"
| "float_positive (JInt n) = Inr (0 < n)"
| "float_positive (JDec x) = Inr (0 < x)"
| "float_positive (JStr s) =
     (if s = [] then Inr False else case text_positive s of None \<Rightarrow> Inl Bad_Value | Some b \<Rightarrow> Inr b)"
| "float_positive (JArr xs) = (if xs = [] then Inr False else Inl Bad_Type)"
| "float_positive (JObj d) = (if d = [] then Inr False else Inl Bad_Type)"

fun any_shortage :: "json list \<Rightarrow> dash_error + bool" where
  "any_shortage [] = Inr False"
| "any_shortage (JObj p # ps) =
     (case float_positive (jget p ''net_requirement'') of
        Inl e \<Rightarrow> Inl e
      | Inr True \<Rightarrow> Inr True
      | Inr False \<Rightarrow> any_shortage ps)"
| "any_shortage (p # ps) = any_shortage ps"

text \<open>\<open>value[0] if value else None\<close>, then the first alternative that is true, as a text.\<close>

definition head_of :: "json \<Rightarrow> dash_error + json" where
  "head_of v = (if jtruthy v then first_item v else Inr JNull)"

fun first_reason :: "json list \<Rightarrow> (string option) list \<Rightarrow> string \<Rightarrow> dash_error + string" where
  "first_reason [] [] fallback = Inr fallback"
| "first_reason [] (t # ts) fallback = (if truthy t then Inr (opt_str t) else first_reason [] ts fallback)"
| "first_reason (v # vs) ts fallback =
     (case head_of v of
        Inl e \<Rightarrow> Inl e
      | Inr x \<Rightarrow> if jtruthy x then Inr (jstr x) else first_reason vs ts fallback)"

type_synonym bucket = "(string \<times> string) option"

definition BUCKETS :: "string list" where
  "BUCKETS = [''success'', ''attention'', ''critical'']"

definition archived_bucket :: "string \<Rightarrow> jdict \<Rightarrow> string option" where
  "archived_bucket prefix m =
     (case jget m (prefix @ ''_archived_bucket'') of JStr b \<Rightarrow> if b \<in> set BUCKETS then Some b else None | _ \<Rightarrow> None)"

text \<open>The output of an agent: that of the latest result, or else the one kept in the metadata.\<close>

definition bucket_output :: "string \<Rightarrow> pcase \<Rightarrow> jdict" where
  "bucket_output key c = jobject (jor (jget (pc_latest_result c) ''output_data'') (jget (pc_metadata c) key))"

definition role_status_text :: "pcase \<Rightarrow> string" where
  "role_status_text c = jstring (jget (pc_latest_result c) ''role_status'')"

definition decision_of :: "string \<Rightarrow> jdict \<Rightarrow> pcase \<Rightarrow> string" where
  "decision_of prefix output c =
     jstring (jor (jget (pc_metadata c) (prefix @ ''_decision_kind'')) (jget output ''decision_kind''))"

section \<open>The preparation engineer\<close>

text \<open>The message of the first validation issue when that is an object.\<close>

definition issue_message :: "json \<Rightarrow> dash_error + json" where
  "issue_message issues =
     (case head_of issues of Inl e \<Rightarrow> Inl e | Inr (JObj d) \<Rightarrow> Inr (jget d ''message'') | Inr _ \<Rightarrow> Inr JNull)"

definition engineer_failure :: "jdict \<Rightarrow> pcase \<Rightarrow> dash_error + string" where
  "engineer_failure output c =
     (case issue_message (jget output ''validation_issues'') of
        Inl e \<Rightarrow> Inl e
      | Inr message \<Rightarrow>
          if jtruthy message then Inr (jstr message)
          else first_reason [jget output ''missing_data'', jget output ''excluded_capabilities'']
                 [pc_error_message c, pc_deviation c] TEXT_AGENT_FAILED)"

definition engineer_bucket :: "pcase \<Rightarrow> dash_error + bucket" where
  "engineer_bucket c =
     (let output = bucket_output ''production_preparation_engineer_output'' c; role = role_status_text c;
          unavailable = jget output ''excluded_capabilities''
      in if pc_source_type c \<noteq> ProductionMaterialOrder \<or> is_montage_section_2_department (pc_department_name c) then Inr None
         else case archived_bucket ''engineer'' (pc_metadata c) of
                Some b \<Rightarrow> Inr (Some (b, TEXT_ENGINEER_KEPT))
              | None \<Rightarrow>
                  if decision_of ''engineer'' output c = ''purchase_confirmation'' then Inr (Some (''attention'', TEXT_CONFIRM_PURCHASE))
                  else if role \<in> {''failed'', ''waiting_human'', ''waiting_external''} \<or>
                          jtruthy (jget output ''validation_issues'') \<or> jtruthy (jget output ''missing_data'') \<or>
                          pc_status c \<in> {''blocked'', ''failed''}
                       then map_sum id (\<lambda>reason. Some (''critical'', reason)) (engineer_failure output c)
                  else case jget output ''positions'' of
                         JArr positions \<Rightarrow>
                           if role = ''completed'' then
                             map_sum id (\<lambda>shortage. Some (if shortage then (''attention'', TEXT_SHORTAGE) else (''success'', TEXT_PROVIDED)))
                               (any_shortage positions)
                           else if jtruthy unavailable then
                             map_sum id (\<lambda>reason. Some (''critical'', reason)) (first_reason [unavailable] [] TEXT_SOURCE_UNAVAILABLE)
                           else Inr (Some (''attention'', TEXT_ENGINEER_WAITS))
                       | _ \<Rightarrow>
                           if jtruthy unavailable then
                             map_sum id (\<lambda>reason. Some (''critical'', reason)) (first_reason [unavailable] [] TEXT_SOURCE_UNAVAILABLE)
                           else Inr (Some (''attention'', TEXT_ENGINEER_WAITS)))"

section \<open>The production dispatcher\<close>

definition is_dispatcher_case :: "pcase \<Rightarrow> bool" where
  "is_dispatcher_case c \<longleftrightarrow> pc_source_type c = ReorderPoint \<or>
     jget (pc_metadata c) ''engineer_handoff_agent_id'' = JStr PRODUCTION_DISPATCHER_AGENT_ID \<or>
     jtruthy (jget (pc_metadata c) ''dispatcher_invoked_at'') \<or> jtruthy (jget (pc_metadata c) ''production_dispatcher_output'')"

definition dispatcher_bucket :: "pcase \<Rightarrow> dash_error + bucket" where
  "dispatcher_bucket c =
     (let output = bucket_output ''production_dispatcher_output'' c; role = role_status_text c;
          decision = decision_of ''dispatcher'' output c
      in if \<not> is_dispatcher_case c then Inr None
         else case archived_bucket ''dispatcher'' (pc_metadata c) of
                Some b \<Rightarrow> Inr (Some (b, TEXT_DISPATCHER_KEPT))
              | None \<Rightarrow>
                  if decision = ''supply_confirmation'' then Inr (Some (''attention'', TEXT_CONFIRM_SUPPLY))
                  else if decision = ''critical_acknowledgement'' \<or> role = ''failed'' then
                    map_sum id (\<lambda>reason. Some (''critical'', reason))
                      (first_reason [jget output ''missing_data''] [pc_deviation c] TEXT_DISPATCHER_NO_DATA)
                  else if decision = ''none'' \<and> role = ''completed'' then Inr (Some (''success'', TEXT_STOCK_COVERS))
                  else if pc_current_agent c = Some PRODUCTION_DISPATCHER_AGENT_ID \<or> pc_current_task c \<noteq> None
                       then Inr (Some (''attention'', TEXT_DISPATCHER_RUNS))
                  else Inr (Some (''attention'', TEXT_DISPATCHER_WAITS)))"

section \<open>The warehouse agents\<close>

definition coverage_of :: "jdict \<Rightarrow> jdict" where
  "coverage_of m =
     (case jget m ''material_order_coverage'' of JObj d \<Rightarrow> d | _ \<Rightarrow> jobject (jget m ''supplier_order_coverage''))"

definition spec_actor :: "availability_spec \<Rightarrow> string" where
  "spec_actor spec = (if as_agent_id spec = WAREHOUSE_PICKER_AGENT_ID then ACTOR_PICKER else ACTOR_CHIEF)"

definition spec_actor_label :: "availability_spec \<Rightarrow> string" where
  "spec_actor_label spec = (if as_agent_id spec = WAREHOUSE_PICKER_AGENT_ID then ACTOR_LABEL_PICKER else ACTOR_LABEL_CHIEF)"

definition covered_label :: "jdict \<Rightarrow> string" where
  "covered_label coverage =
     (let covered = jget coverage ''covered_positions''; total = jget coverage ''positions_count''
      in if covered \<noteq> JNull \<and> total \<noteq> JNull then jstr covered @ TEXT_OF @ jstr total else TEXT_PART)"

definition work_done :: "availability_spec \<Rightarrow> string" where
  "work_done spec = TEXT_WORK_HEAD @ spec_actor spec @ TEXT_WORK_TAIL"

definition COVERED_REASONS :: "json list" where
  "COVERED_REASONS = [JStr ''all_positions_in_supplier_orders'', JStr ''all_positions_covered'']"

text \<open>What is decided before the result of the agent is looked at.\<close>

definition settled_bucket :: "availability_spec \<Rightarrow> pcase \<Rightarrow> bucket" where
  "settled_bucket spec c =
     (let m = pc_metadata c; coverage = coverage_of m; status = jstring (jget coverage ''coverage_status'');
          reason = jget m (spec_key spec ''auto_archived_reason''); bought = jget m (spec_key spec ''procurement_status'')
      in if reason = JStr ''tmc_presentation_journal_full'' \<or>
            jtruthy (jget m (spec_key spec ''workspace_archived_at'')) \<and> jtruthy (jget m ''otk_handed_off_at'')
         then Some (''success'', TEXT_HANDED_TO_OTK)
         else if status = ''full'' \<or> reason \<in> set COVERED_REASONS \<or> bought = JStr ''covered''
         then Some (''success'', work_done spec)
         else if status = ''partial'' \<or> bought = JStr ''partial''
         then Some (''attention'', TEXT_PARTIAL_HEAD @ covered_label coverage @ TEXT_PARTIAL_TAIL @ spec_actor spec @ ''.'')
         else if pc_status c \<in> set TERMINAL_CASE_STATUSES
         then Some (case archived_bucket (as_prefix spec) m of None \<Rightarrow> ''attention'' | Some b \<Rightarrow> b,
                    or_text (dict_get CLOSED_REASON_LABELS (opt_str (pc_closed_reason c))) (or_text (pc_deviation c) TEXT_CLOSED))
         else map_option (\<lambda>b.
                if reason = JStr ''tmc_presentation_journal_full'' then (''success'', TEXT_HANDED_TO_OTK)
                else if reason \<in> set COVERED_REASONS then (''success'', work_done spec)
                else (b, TEXT_KEPT_FOR_OMTO)) (archived_bucket (as_prefix spec) m))"

definition warehouse_availability_bucket :: "pcase \<Rightarrow> availability_spec \<Rightarrow> dash_error + bucket" where
  "warehouse_availability_bucket c spec =
     (let output = bucket_output (as_output_key spec) c; role = role_status_text c;
          decision = decision_of (as_prefix spec) output c
      in if \<not> is_warehouse_availability_case c spec then Inr None
         else case settled_bucket spec c of
                Some b \<Rightarrow> Inr (Some b)
              | None \<Rightarrow>
                  if decision \<in> {''stock_confirmation'', ''deficit_confirmation'', ''discrepancy_return''}
                  then Inr (Some (''attention'', TEXT_CONFIRM_CONCLUSION))
                  else if decision = ''critical_acknowledgement'' \<or> role = ''failed'' then
                    map_sum id (\<lambda>reason. Some (''critical'', reason))
                      (first_reason [jget output ''missing_data''] [pc_deviation c] TEXT_STORE_NO_DATA)
                  else if decision = ''none'' \<and> role = ''completed'' then Inr (Some (''success'', TEXT_AVAILABLE))
                  else if pc_current_agent c = Some (as_agent_id spec) \<or> pc_current_task c \<noteq> None
                       then Inr (Some (''attention'', TEXT_CHECK_RUNS))
                  else Inr (Some (''attention'', TEXT_WAITS_FOR @ spec_actor_label spec @ ''.'')))"

definition picker_bucket :: "pcase \<Rightarrow> dash_error + bucket" where
  "picker_bucket c = warehouse_availability_bucket c PICKER_SPEC"

definition complex_bucket :: "pcase \<Rightarrow> dash_error + bucket" where
  "complex_bucket c = warehouse_availability_bucket c COMPLEX_CHIEF_SPEC"

section \<open>Work statuses\<close>

definition is_space_archived :: "string \<Rightarrow> pcase \<Rightarrow> bool" where
  "is_space_archived prefix c \<longleftrightarrow>
     jtruthy (jget (pc_metadata c) (prefix @ ''_workspace_archived_at'')) \<or> pc_status c \<in> set TERMINAL_CASE_STATUSES"

definition waiting_role :: "pcase \<Rightarrow> bool" where
  "waiting_role c \<longleftrightarrow> role_status_text c \<in> {''waiting_human'', ''waiting_external'', ''failed''}"

definition running_role :: "pcase \<Rightarrow> bool" where
  "running_role c \<longleftrightarrow> pc_current_task c \<noteq> None \<and> role_status_text c \<noteq> ''completed''"

definition engineer_work_status :: "bucket \<Rightarrow> pcase \<Rightarrow> string option" where
  "engineer_work_status bucket c =
     (case bucket of
        None \<Rightarrow> None
      | Some (colour, reason) \<Rightarrow> Some
          (if is_space_archived ''engineer'' c then ''archived''
           else if waiting_role c then ''awaiting_action''
           else if running_role c then ''processing''
           else if colour = ''success'' then ''completed'' else ''awaiting_action''))"

definition covered_work :: "string \<Rightarrow> pcase \<Rightarrow> bool" where
  "covered_work prefix c \<longleftrightarrow> jget (pc_metadata c) (prefix @ ''_workspace_status'') = JStr ''completed'' \<or>
     jget (coverage_of (pc_metadata c)) ''coverage_status'' = JStr ''full'' \<and>
     \<not> jtruthy (jget (pc_metadata c) (prefix @ ''_workspace_archived_at''))"

text \<open>The other agents: \<open>early\<close> says that the work is complete whatever the agent does.\<close>

definition agent_work_status :: "string \<Rightarrow> string \<Rightarrow> bool \<Rightarrow> bucket \<Rightarrow> pcase \<Rightarrow> string option" where
  "agent_work_status prefix agent early bucket c =
     (case bucket of
        None \<Rightarrow> None
      | Some (colour, reason) \<Rightarrow> Some
          (if is_space_archived prefix c then ''archived''
           else if early then ''completed''
           else if pc_current_agent c = Some agent \<and> waiting_role c then ''awaiting_action''
           else if pc_current_agent c = Some agent \<and> running_role c then ''processing''
           else if colour = ''success'' then ''completed'' else ''awaiting_action''))"

definition dispatcher_work_status :: "bucket \<Rightarrow> pcase \<Rightarrow> string option" where
  "dispatcher_work_status bucket c = agent_work_status ''dispatcher'' PRODUCTION_DISPATCHER_AGENT_ID False bucket c"

definition picker_work_status :: "bucket \<Rightarrow> pcase \<Rightarrow> string option" where
  "picker_work_status bucket c =
     agent_work_status ''picker'' WAREHOUSE_PICKER_AGENT_ID (covered_work ''picker'' c) bucket c"

definition complex_work_status :: "bucket \<Rightarrow> pcase \<Rightarrow> string option" where
  "complex_work_status bucket c =
     agent_work_status ''complex'' WAREHOUSE_COMPLEX_CHIEF_AGENT_ID (covered_work ''complex'' c) bucket c"

definition manager_bucket :: "pcase \<Rightarrow> string option" where
  "manager_bucket c =
     (let status = jget (coverage_of (pc_metadata c)) ''coverage_status''
      in if status = JStr ''full'' then Some ''success''
         else if status = JStr ''partial'' then Some ''attention''
         else if jtruthy (jget (pc_metadata c) ''purchase_manager_invoked_at'') then Some ''critical'' else None)"

end
