(* ===== verification/Case_Dashboard.thy ===== *)
theory Case_Dashboard
  imports Case_Buckets Poll_Source
begin

text \<open>
  The dashboard (\<open>app/services/procurement_orchestrator_service.py\<close>): \<open>_latest_iso_timestamp\<close>,
  \<open>_serialize_case_summary\<close> and \<open>_detail\<close>, \<open>_serialize_route_stages\<close>, \<open>_serialize_timeline\<close>,
  \<open>_serialize_sync_state\<close>, \<open>get_case\<close> and \<open>list_dashboard\<close>.  The rows of a query are a list in its order;
  \<open>created\<close> gives the column \<open>created_at\<close>, which no operation writes.  The ids and times of events and the
  ids of positions, which the database assigns, are left out.
\<close>

section \<open>Texts\<close>

definition ORCHESTRATOR_NAME :: string where
  "ORCHESTRATOR_NAME =
    [CHR 0xD0, CHR 0x98, CHR 0xD0, CHR 0x98, CHR 0x2D, CHR 0xD0, CHR 0xB0, CHR 0xD0, CHR 0xB3, CHR
     0xD0, CHR 0xB5, CHR 0xD0, CHR 0xBD, CHR 0xD1, CHR 0x82, CHR 0x20, CHR 0xD0, CHR 0xBF, CHR 0xD0,
     CHR 0xBE, CHR 0x20, CHR 0xD0, CHR 0xB7, CHR 0xD0, CHR 0xB0, CHR 0xD0, CHR 0xBA, CHR 0xD1, CHR
     0x83, CHR 0xD0, CHR 0xBF, CHR 0xD0, CHR 0xBA, CHR 0xD0, CHR 0xB0, CHR 0xD0, CHR 0xBC]"

definition TEXT_ALL_ORDERED :: string where
  "TEXT_ALL_ORDERED =
    [CHR 0xD0, CHR 0x92, CHR 0xD1, CHR 0x81, CHR 0xD0, CHR 0xB5, CHR 0x20, CHR 0xD0, CHR 0xBF, CHR
     0xD0, CHR 0xBE, CHR 0xD0, CHR 0xB7, CHR 0xD0, CHR 0xB8, CHR 0xD1, CHR 0x86, CHR 0xD0, CHR 0xB8,
     CHR 0xD0, CHR 0xB8, CHR 0x20, CHR 0xD0, CHR 0xBF, CHR 0xD0, CHR 0xB5, CHR 0xD1, CHR 0x80, CHR
     0xD0, CHR 0xB5, CHR 0xD0, CHR 0xBA, CHR 0xD1, CHR 0x80, CHR 0xD1, CHR 0x8B, CHR 0xD1, CHR 0x82,
     CHR 0xD1, CHR 0x8B, CHR 0x20, CHR 0xD0, CHR 0xB7, CHR 0xD0, CHR 0xB0, CHR 0xD0, CHR 0xBA, CHR
     0xD0, CHR 0xB0, CHR 0xD0, CHR 0xB7, CHR 0xD0, CHR 0xB0, CHR 0xD0, CHR 0xBC, CHR 0xD0, CHR 0xB8,
     CHR 0x20, CHR 0xD0, CHR 0xBF, CHR 0xD0, CHR 0xBE, CHR 0xD1, CHR 0x81, CHR 0xD1, CHR 0x82, CHR
     0xD0, CHR 0xB0, CHR 0xD0, CHR 0xB2, CHR 0xD1, CHR 0x89, CHR 0xD0, CHR 0xB8, CHR 0xD0, CHR 0xBA,
     CHR 0xD1, CHR 0x83, CHR 0x20, CHR 0xD0, CHR 0xB8, CHR 0x2F, CHR 0xD0, CHR 0xB8, CHR 0xD0, CHR
     0xBB, CHR 0xD0, CHR 0xB8, CHR 0x20, CHR 0xD0, CHR 0xBF, CHR 0xD0, CHR 0xB5, CHR 0xD1, CHR 0x80,
     CHR 0xD0, CHR 0xB5, CHR 0xD0, CHR 0xBC, CHR 0xD0, CHR 0xB5, CHR 0xD1, CHR 0x89, CHR 0xD0, CHR
     0xB5, CHR 0xD0, CHR 0xBD, CHR 0xD0, CHR 0xB8, CHR 0xD1, CHR 0x8F, CHR 0xD0, CHR 0xBC, CHR 0xD0,
     CHR 0xB8, CHR 0x2E]"

definition TEXT_PART_ORDERED :: string where
  "TEXT_PART_ORDERED =
    [CHR 0xD0, CHR 0xA7, CHR 0xD0, CHR 0xB0, CHR 0xD1, CHR 0x81, CHR 0xD1, CHR 0x82, CHR 0xD1, CHR
     0x8C, CHR 0x20, CHR 0xD0, CHR 0xBF, CHR 0xD0, CHR 0xBE, CHR 0xD0, CHR 0xB7, CHR 0xD0, CHR 0xB8,
     CHR 0xD1, CHR 0x86, CHR 0xD0, CHR 0xB8, CHR 0xD0, CHR 0xB9, CHR 0x20, CHR 0xD0, CHR 0xB5, CHR
     0xD1, CHR 0x89, CHR 0xD1, CHR 0x91, CHR 0x20, CHR 0xD0, CHR 0xBD, CHR 0xD0, CHR 0xB5, CHR 0x20,
     CHR 0xD0, CHR 0xBF, CHR 0xD0, CHR 0xBE, CHR 0xD0, CHR 0xBA, CHR 0xD1, CHR 0x80, CHR 0xD1, CHR
     0x8B, CHR 0xD1, CHR 0x82, CHR 0xD0, CHR 0xB0, CHR 0x20, CHR 0xD0, CHR 0xB7, CHR 0xD0, CHR 0xB0,
     CHR 0xD0, CHR 0xBA, CHR 0xD1, CHR 0x83, CHR 0xD0, CHR 0xBF, CHR 0xD0, CHR 0xBA, CHR 0xD0, CHR
     0xB0, CHR 0xD0, CHR 0xBC, CHR 0xD0, CHR 0xB8, CHR 0x20, CHR 0xD0, CHR 0xB8, CHR 0xD0, CHR 0xBB,
     CHR 0xD0, CHR 0xB8, CHR 0x20, CHR 0xD0, CHR 0xBF, CHR 0xD0, CHR 0xB5, CHR 0xD1, CHR 0x80, CHR
     0xD0, CHR 0xB5, CHR 0xD0, CHR 0xBC, CHR 0xD0, CHR 0xB5, CHR 0xD1, CHR 0x89, CHR 0xD0, CHR 0xB5,
     CHR 0xD0, CHR 0xBD, CHR 0xD0, CHR 0xB8, CHR 0xD1, CHR 0x8F, CHR 0xD0, CHR 0xBC, CHR 0xD0, CHR
     0xB8, CHR 0x2E]"

definition TEXT_NOT_ORDERED :: string where
  "TEXT_NOT_ORDERED =
    [CHR 0xD0, CHR 0xA1, CHR 0xD0, CHR 0xB2, CHR 0xD1, CHR 0x8F, CHR 0xD0, CHR 0xB7, CHR 0xD0, CHR
     0xB0, CHR 0xD0, CHR 0xBD, CHR 0xD0, CHR 0xBD, CHR 0xD1, CHR 0x8B, CHR 0xD0, CHR 0xB5, CHR 0x20,
     CHR 0xD0, CHR 0xB0, CHR 0xD0, CHR 0xBA, CHR 0xD1, CHR 0x82, CHR 0xD0, CHR 0xB8, CHR 0xD0, CHR
     0xB2, CHR 0xD0, CHR 0xBD, CHR 0xD1, CHR 0x8B, CHR 0xD0, CHR 0xB5, CHR 0x20, CHR 0xD0, CHR 0xB7,
     CHR 0xD0, CHR 0xB0, CHR 0xD0, CHR 0xBA, CHR 0xD0, CHR 0xB0, CHR 0xD0, CHR 0xB7, CHR 0xD1, CHR
     0x8B, CHR 0x20, CHR 0xD0, CHR 0xBF, CHR 0xD0, CHR 0xBE, CHR 0xD1, CHR 0x81, CHR 0xD1, CHR 0x82,
     CHR 0xD0, CHR 0xB0, CHR 0xD0, CHR 0xB2, CHR 0xD1, CHR 0x89, CHR 0xD0, CHR 0xB8, CHR 0xD0, CHR
     0xBA, CHR 0xD1, CHR 0x83, CHR 0x20, CHR 0xD0, CHR 0xBD, CHR 0xD0, CHR 0xB5, CHR 0x20, CHR 0xD0,
     CHR 0xBD, CHR 0xD0, CHR 0xB0, CHR 0xD0, CHR 0xB9, CHR 0xD0, CHR 0xB4, CHR 0xD0, CHR 0xB5, CHR
     0xD0, CHR 0xBD, CHR 0xD1, CHR 0x8B, CHR 0x2E]"

definition TITLE_CREATED :: string where
  "TITLE_CREATED =
    [CHR 0xD0, CHR 0x9A, CHR 0xD0, CHR 0xB5, CHR 0xD0, CHR 0xB9, CHR 0xD1, CHR 0x81, CHR 0x20, CHR
     0xD1, CHR 0x81, CHR 0xD0, CHR 0xBE, CHR 0xD0, CHR 0xB7, CHR 0xD0, CHR 0xB4, CHR 0xD0, CHR 0xB0,
     CHR 0xD0, CHR 0xBD, CHR 0x20, CHR 0xD0, CHR 0xBF, CHR 0xD0, CHR 0xBE, CHR 0x20, CHR 0xD0, CHR
     0xBE, CHR 0xD1, CHR 0x81, CHR 0xD0, CHR 0xBD, CHR 0xD0, CHR 0xBE, CHR 0xD0, CHR 0xB2, CHR 0xD0,
     CHR 0xB0, CHR 0xD0, CHR 0xBD, CHR 0xD0, CHR 0xB8, CHR 0xD1, CHR 0x8E, CHR 0x20, CHR 0x31, CHR
     0xD0, CHR 0xA1]"

definition TITLE_CHANGED :: string where
  "TITLE_CHANGED =
    [CHR 0xD0, CHR 0x9E, CHR 0xD1, CHR 0x81, CHR 0xD0, CHR 0xBD, CHR 0xD0, CHR 0xBE, CHR 0xD0, CHR
     0xB2, CHR 0xD0, CHR 0xB0, CHR 0xD0, CHR 0xBD, CHR 0xD0, CHR 0xB8, CHR 0xD0, CHR 0xB5, CHR 0x20,
     CHR 0x31, CHR 0xD0, CHR 0xA1, CHR 0x20, CHR 0xD0, CHR 0xB8, CHR 0xD0, CHR 0xB7, CHR 0xD0, CHR
     0xBC, CHR 0xD0, CHR 0xB5, CHR 0xD0, CHR 0xBD, CHR 0xD0, CHR 0xB5, CHR 0xD0, CHR 0xBD, CHR 0xD0,
     CHR 0xBE]"

definition TITLE_ARCHIVED :: string where
  "TITLE_ARCHIVED =
    [CHR 0xD0, CHR 0x9A, CHR 0xD0, CHR 0xB5, CHR 0xD0, CHR 0xB9, CHR 0xD1, CHR 0x81, CHR 0x20, CHR
     0xD0, CHR 0xB0, CHR 0xD1, CHR 0x80, CHR 0xD1, CHR 0x85, CHR 0xD0, CHR 0xB8, CHR 0xD0, CHR 0xB2,
     CHR 0xD0, CHR 0xB8, CHR 0xD1, CHR 0x80, CHR 0xD0, CHR 0xBE, CHR 0xD0, CHR 0xB2, CHR 0xD0, CHR
     0xB0, CHR 0xD0, CHR 0xBD]"

definition TITLE_REACTIVATED :: string where
  "TITLE_REACTIVATED =
    [CHR 0xD0, CHR 0x9A, CHR 0xD0, CHR 0xB5, CHR 0xD0, CHR 0xB9, CHR 0xD1, CHR 0x81, CHR 0x20, CHR
     0xD0, CHR 0xB2, CHR 0xD0, CHR 0xBE, CHR 0xD0, CHR 0xB7, CHR 0xD0, CHR 0xB2, CHR 0xD1, CHR 0x80,
     CHR 0xD0, CHR 0xB0, CHR 0xD1, CHR 0x89, CHR 0xD1, CHR 0x91, CHR 0xD0, CHR 0xBD, CHR 0x20, CHR
     0xD0, CHR 0xB2, CHR 0x20, CHR 0xD1, CHR 0x80, CHR 0xD0, CHR 0xB0, CHR 0xD0, CHR 0xB1, CHR 0xD0,
     CHR 0xBE, CHR 0xD1, CHR 0x82, CHR 0xD1, CHR 0x83]"

definition TITLE_STAGE_STARTED :: string where
  "TITLE_STAGE_STARTED =
    [CHR 0xD0, CHR 0x97, CHR 0xD0, CHR 0xB0, CHR 0xD0, CHR 0xBF, CHR 0xD1, CHR 0x83, CHR 0xD1, CHR
     0x89, CHR 0xD0, CHR 0xB5, CHR 0xD0, CHR 0xBD, CHR 0x20, CHR 0xD1, CHR 0x8D, CHR 0xD1, CHR 0x82,
     CHR 0xD0, CHR 0xB0, CHR 0xD0, CHR 0xBF, CHR 0x20, CHR 0xD0, CHR 0xB0, CHR 0xD0, CHR 0xB3, CHR
     0xD0, CHR 0xB5, CHR 0xD0, CHR 0xBD, CHR 0xD1, CHR 0x82, CHR 0xD0, CHR 0xB0]"

definition TITLE_STAGE_DONE :: string where
  "TITLE_STAGE_DONE =
    [CHR 0xD0, CHR 0xAD, CHR 0xD1, CHR 0x82, CHR 0xD0, CHR 0xB0, CHR 0xD0, CHR 0xBF, CHR 0x20, CHR
     0xD0, CHR 0xB0, CHR 0xD0, CHR 0xB3, CHR 0xD0, CHR 0xB5, CHR 0xD0, CHR 0xBD, CHR 0xD1, CHR 0x82,
     CHR 0xD0, CHR 0xB0, CHR 0x20, CHR 0xD0, CHR 0xB7, CHR 0xD0, CHR 0xB0, CHR 0xD0, CHR 0xB2, CHR
     0xD0, CHR 0xB5, CHR 0xD1, CHR 0x80, CHR 0xD1, CHR 0x88, CHR 0xD1, CHR 0x91, CHR 0xD0, CHR 0xBD]"

definition TITLE_ROLE_ASSIGNED :: string where
  "TITLE_ROLE_ASSIGNED =
    [CHR 0xD0, CHR 0x9D, CHR 0xD0, CHR 0xB0, CHR 0xD0, CHR 0xB7, CHR 0xD0, CHR 0xBD, CHR 0xD0, CHR
     0xB0, CHR 0xD1, CHR 0x87, CHR 0xD0, CHR 0xB5, CHR 0xD0, CHR 0xBD, CHR 0x20, CHR 0xD1, CHR 0x80,
     CHR 0xD0, CHR 0xBE, CHR 0xD0, CHR 0xBB, CHR 0xD0, CHR 0xB5, CHR 0xD0, CHR 0xB2, CHR 0xD0, CHR
     0xBE, CHR 0xD0, CHR 0xB9, CHR 0x20, CHR 0xD0, CHR 0xB0, CHR 0xD0, CHR 0xB3, CHR 0xD0, CHR 0xB5,
     CHR 0xD0, CHR 0xBD, CHR 0xD1, CHR 0x82]"

definition TITLE_ROLE_RESULT :: string where
  "TITLE_ROLE_RESULT =
    [CHR 0xD0, CHR 0x9F, CHR 0xD0, CHR 0xBE, CHR 0xD0, CHR 0xBB, CHR 0xD1, CHR 0x83, CHR 0xD1, CHR
     0x87, CHR 0xD0, CHR 0xB5, CHR 0xD0, CHR 0xBD, CHR 0x20, CHR 0xD1, CHR 0x80, CHR 0xD0, CHR 0xB5,
     CHR 0xD0, CHR 0xB7, CHR 0xD1, CHR 0x83, CHR 0xD0, CHR 0xBB, CHR 0xD1, CHR 0x8C, CHR 0xD1, CHR
     0x82, CHR 0xD0, CHR 0xB0, CHR 0xD1, CHR 0x82, CHR 0x20, CHR 0xD1, CHR 0x80, CHR 0xD0, CHR 0xBE,
     CHR 0xD0, CHR 0xBB, CHR 0xD0, CHR 0xB5, CHR 0xD0, CHR 0xB2, CHR 0xD0, CHR 0xBE, CHR 0xD0, CHR
     0xB3, CHR 0xD0, CHR 0xBE, CHR 0x20, CHR 0xD0, CHR 0xB0, CHR 0xD0, CHR 0xB3, CHR 0xD0, CHR 0xB5,
     CHR 0xD0, CHR 0xBD, CHR 0xD1, CHR 0x82, CHR 0xD0, CHR 0xB0]"

definition TITLE_ROLE_RESUMED :: string where
  "TITLE_ROLE_RESUMED =
    [CHR 0xD0, CHR 0xA1, CHR 0xD0, CHR 0xBE, CHR 0xD1, CHR 0x81, CHR 0xD1, CHR 0x82, CHR 0xD0, CHR
     0xBE, CHR 0xD1, CHR 0x8F, CHR 0xD0, CHR 0xBD, CHR 0xD0, CHR 0xB8, CHR 0xD0, CHR 0xB5, CHR 0x20,
     CHR 0xD1, CHR 0x80, CHR 0xD0, CHR 0xBE, CHR 0xD0, CHR 0xBB, CHR 0xD0, CHR 0xB5, CHR 0xD0, CHR
     0xB2, CHR 0xD0, CHR 0xBE, CHR 0xD0, CHR 0xB3, CHR 0xD0, CHR 0xBE, CHR 0x20, CHR 0xD0, CHR 0xB0,
     CHR 0xD0, CHR 0xB3, CHR 0xD0, CHR 0xB5, CHR 0xD0, CHR 0xBD, CHR 0xD1, CHR 0x82, CHR 0xD0, CHR
     0xB0, CHR 0x20, CHR 0xD0, CHR 0xBE, CHR 0xD0, CHR 0xB1, CHR 0xD0, CHR 0xBD, CHR 0xD0, CHR 0xBE,
     CHR 0xD0, CHR 0xB2, CHR 0xD0, CHR 0xBB, CHR 0xD0, CHR 0xB5, CHR 0xD0, CHR 0xBD, CHR 0xD0, CHR
     0xBE]"

section \<open>The latest of several times\<close>

fun replace_z :: "string \<Rightarrow> string" where
  "replace_z [] = []"
| "replace_z (c # cs) = (if c = CHR ''Z'' then ''+00:00'' else [c]) @ replace_z cs"

definition iso_instant :: "string \<Rightarrow> int option" where
  "iso_instant raw = read_instant 0 (replace_z raw)"

fun latest_loop :: "int option \<Rightarrow> string option \<Rightarrow> json list \<Rightarrow> string option" where
  "latest_loop latest raw [] = raw"
| "latest_loop latest raw (v # vs) =
     (if v = JNull \<or> v = JStr [] then latest_loop latest raw vs
      else case iso_instant (jstr v) of
             None \<Rightarrow> latest_loop latest (if raw = None then Some (jstr v) else raw) vs
           | Some t \<Rightarrow>
               if (case latest of None \<Rightarrow> True | Some l \<Rightarrow> l < t) then latest_loop (Some t) (Some (jstr v)) vs
               else latest_loop latest raw vs)"

definition latest_iso_timestamp :: "json list \<Rightarrow> string option" where
  "latest_iso_timestamp vs = latest_loop None None vs"

section \<open>The summary of a case\<close>

definition agent_name :: "string option \<Rightarrow> string option" where
  "agent_name agent = (if agent = Some ORCHESTRATOR_AGENT_ID then Some ORCHESTRATOR_NAME else agent_label (opt_str agent))"

definition bucket_fields :: "string \<Rightarrow> bucket \<Rightarrow> string option \<Rightarrow> jdict" where
  "bucket_fields prefix b work =
     [(prefix @ ''_bucket'', jtext_opt (map_option fst b)), (prefix @ ''_bucket_reason'', jtext_opt (map_option snd b)),
      (prefix @ ''_work_status'', jtext_opt work)]"

definition space_fields :: "string \<Rightarrow> jdict \<Rightarrow> jdict" where
  "space_fields prefix m =
     map (\<lambda>suffix. (prefix @ suffix, jget m (prefix @ suffix)))
       [''_decision_kind'', ''_invoked_at'', ''_workspace_archived_at'', ''_action_at'', ''_critical_acknowledged_at'']"

definition dispatcher_stream :: "pcase \<Rightarrow> json" where
  "dispatcher_stream c =
     (if pc_source_type c = ReorderPoint then JStr ''reorder_point''
      else if jget (pc_metadata c) ''engineer_handoff_agent_id'' = JStr PRODUCTION_DISPATCHER_AGENT_ID \<or>
              jtruthy (jget (pc_metadata c) ''production_preparation_engineer_output'') then JStr ''after_engineer''
      else JNull)"

definition coverage_sources :: "pcase \<Rightarrow> string list" where
  "coverage_sources c =
     sort (uniq (map (\<lambda>p. jstr (jget p ''coverage_source''))
       (filter (\<lambda>p. jtruthy (jget p ''coverage_source'') \<and> jget p ''coverage_source'' \<noteq> JStr ''none'')
         (jobjects (jlist (jget (coverage_of (pc_metadata c)) ''positions''))))))"

definition manager_reason :: "pcase \<Rightarrow> json" where
  "manager_reason c =
     (let status = jget (coverage_of (pc_metadata c)) ''coverage_status''
      in if status = JStr ''full'' then JStr TEXT_ALL_ORDERED
         else if status = JStr ''partial'' then JStr TEXT_PART_ORDERED
         else if manager_bucket c \<noteq> None then JStr TEXT_NOT_ORDERED else JNull)"

definition closed_label :: "pcase \<Rightarrow> json" where
  "closed_label c = jtext_opt (dict_get CLOSED_REASON_LABELS (opt_str (pc_closed_reason c)))"

definition case_summary_text :: "pcase \<Rightarrow> json" where
  "case_summary_text c = jor (jget (pc_latest_result c) ''summary'') (jtext_opt (pc_deviation c))"

definition summary_fields :: "int option \<Rightarrow> pcase \<Rightarrow> bucket \<Rightarrow> bucket \<Rightarrow> bucket \<Rightarrow> bucket \<Rightarrow> jdict" where
  "summary_fields created c engineer dispatcher picker complex =
     (let m = pc_metadata c; coverage = coverage_of m
      in [(''id'', JStr (pc_id c)), (''correlation_id'', JStr (pc_correlation_id c)),
          (''source_type'', JStr (source_type_value (pc_source_type c))), (''source_1c_ref'', JStr (pc_source_ref c)),
          (''source_number'', jtext_opt (pc_number c)), (''source_date'', jdate (pc_source_date c)),
          (''source_status'', jtext_opt (pc_source_status c)), (''source_synced_at'', jdate (pc_synced_at c))] @
         map (\<lambda>k. (k, jget m k)) [''source_basis_1c_ref'', ''source_basis_type'', ''source_basis_number'', ''source_basis_date'',
           ''source_basis_status''] @
         [(''status'', JStr (pc_status c)), (''control_point'', jtext_opt (pc_control_point c)),
          (''current_agent_id'', jtext_opt (pc_current_agent c)),
          (''current_agent_name'', jtext_opt (agent_name (pc_current_agent c))),
          (''current_task_id'', jtext_opt (pc_current_task c)), (''required_date'', jdate (pc_required_date c)),
          (''deadline_at'', jdate (pc_deadline_at c)), (''positions_count'', JInt (int (length (pc_positions c)))),
          (''created_at'', jdate created), (''updated_at'', jdate (Some (pc_updated_at c))),
          (''coverage_checked_at'', jget coverage ''checked_at''),
          (''last_actualized_at'', jtext_opt (latest_iso_timestamp
             [jget m ''last_actualized_at'', jget coverage ''checked_at'', jdate (pc_synced_at c), jdate (Some (pc_updated_at c))])),
          (''summary'', case_summary_text c),
          (''requires_human_review'', JBool (jtruthy (jget (pc_latest_result c) ''requires_human_review''))),
          (''closed_at'', jdate (pc_closed_at c)), (''closed_reason'', jtext_opt (pc_closed_reason c)),
          (''closed_reason_label'', closed_label c), (''reactivated_at'', jdate (pc_reactivated_at c)),
          (''source_active'', JBool (pc_status c \<in> set SOURCE_MONITORED_CASE_STATUSES))] @
         bucket_fields ''engineer'' engineer (engineer_work_status engineer c) @ space_fields ''engineer'' m @
         bucket_fields ''dispatcher'' dispatcher (dispatcher_work_status dispatcher c) @ space_fields ''dispatcher'' m @
         [(''dispatcher_stream'', dispatcher_stream c), (''department_name'', jtext_opt (pc_department_name c))] @
         bucket_fields ''picker'' picker (picker_work_status picker c) @ space_fields ''picker'' m @
         bucket_fields ''complex'' complex (complex_work_status complex c) @ space_fields ''complex'' m @
         [(''purchase_manager_work_status'', jget m ''purchase_manager_workspace_status''),
          (''purchase_manager_bucket'', jtext_opt (manager_bucket c)), (''purchase_manager_bucket_reason'', manager_reason c),
          (''purchase_manager_invoked_at'', jget m ''purchase_manager_invoked_at''),
          (''purchase_manager_workspace_archived_at'', jget m ''purchase_manager_workspace_archived_at''),
          (''supplier_coverage_status'', jget coverage ''coverage_status''),
          (''coverage_sources'', JArr (map JStr (coverage_sources c)))])"

definition serialize_case_summary :: "(pcase \<Rightarrow> int option) \<Rightarrow> pcase \<Rightarrow> dash_error + jdict" where
  "serialize_case_summary created c =
     (case engineer_bucket c of
        Inl e \<Rightarrow> Inl e
      | Inr engineer \<Rightarrow>
          (case dispatcher_bucket c of
             Inl e \<Rightarrow> Inl e
           | Inr dispatcher \<Rightarrow>
               (case picker_bucket c of
                  Inl e \<Rightarrow> Inl e
                | Inr picker \<Rightarrow>
                    map_sum id (summary_fields (created c) c engineer dispatcher picker) (complex_bucket c))))"

definition MIRRORED_SUFFIXES :: "string list" where
  "MIRRORED_SUFFIXES = [''_bucket'', ''_bucket_reason'', ''_work_status'', ''_decision_kind'', ''_invoked_at'',
     ''_workspace_archived_at'', ''_action_at'', ''_critical_acknowledged_at'']"

definition mirror_picker_fields_from_complex :: "jdict \<Rightarrow> jdict" where
  "mirror_picker_fields_from_complex item =
     fold (\<lambda>suffix mapped. case dict_get mapped (''complex'' @ suffix) of
                              None \<Rightarrow> mapped
                            | Some v \<Rightarrow> dict_set (''picker'' @ suffix) v mapped) MIRRORED_SUFFIXES item"

section \<open>The route\<close>

definition STAGE_OF_STATUS :: "(string, string) dict" where
  "STAGE_OF_STATUS =
     [(''new'', ''basis''), (''agent_waiting'', ''basis''), (''data_check'', ''data''), (''coverage_check'', ''coverage''),
      (''human_required'', ''coverage''), (''blocked'', ''coverage''), (''ordered'', ''purchase''), (''quality_queued'', ''quality''),
      (''quality_assigned'', ''quality''), (''quality_doc_check'', ''quality''), (''quality_inspection'', ''quality''),
      (''quality_decision'', ''quality''), (''quality_released'', ''quality''), (''closed'', ''receipt''), (''failed'', ''data'')]"

definition stage_id_of :: "jdict \<Rightarrow> string" where
  "stage_id_of item = jstring (jget item ''stage_id'')"

fun list_of_json :: "json \<Rightarrow> dash_error + json list" where
  "list_of_json (JArr xs) = Inr xs"
| "list_of_json (JObj d) = Inr (map (\<lambda>(k, v). JStr k) d)"
| "list_of_json (JStr s) = Inr (map (\<lambda>c. JStr [c]) s)"
| "list_of_json v = Inl Bad_Type"

text \<open>The stages of the case, completed by the default ones it lacks.\<close>

definition configured_stages :: "jdict \<Rightarrow> dash_error + json list" where
  "configured_stages m =
     map_sum id (\<lambda>items.
         let ids = map stage_id_of (jobjects items)
         in items @ filter (\<lambda>v. case v of JObj d \<Rightarrow> stage_id_of d \<notin> set ids | _ \<Rightarrow> False) (jlist DEFAULT_ROUTE_STAGES))
       (list_of_json (jor (jget m ''route_stages'') DEFAULT_ROUTE_STAGES))"

definition stage_order :: "jdict \<Rightarrow> dash_error + int" where
  "stage_order item =
     (let v = jget item ''order''
      in if \<not> jtruthy v then Inr 0
         else case py_int v of
                Some n \<Rightarrow> Inr n
              | None \<Rightarrow> Inl (case v of JStr s \<Rightarrow> Bad_Value | _ \<Rightarrow> Bad_Type))"

fun ordered_stages :: "json list \<Rightarrow> dash_error + (int \<times> jdict) list" where
  "ordered_stages [] = Inr []"
| "ordered_stages (JObj d # items) =
     (case stage_order d of
        Inl e \<Rightarrow> Inl e
      | Inr n \<Rightarrow> map_sum id (\<lambda>rest. (n, d) # rest) (ordered_stages items))"
| "ordered_stages (v # items) = Inl Bad_Attribute"

definition works_in :: "string \<Rightarrow> string \<Rightarrow> pcase \<Rightarrow> bool" where
  "works_in agent prefix c \<longleftrightarrow>
     agent \<in> set (pc_assigned_agents c) \<and> jtruthy (jget (pc_metadata c) (prefix @ ''_invoked_at'')) \<and>
     \<not> jtruthy (jget (pc_metadata c) (prefix @ ''_workspace_archived_at''))"

definition picker_active :: "pcase \<Rightarrow> bool" where
  "picker_active c \<longleftrightarrow>
     pc_current_agent c \<in> {Some WAREHOUSE_PICKER_AGENT_ID, Some WAREHOUSE_COMPLEX_CHIEF_AGENT_ID} \<or>
     works_in WAREHOUSE_PICKER_AGENT_ID ''picker'' c \<and> jget (pc_metadata c) ''picker_workspace_status'' \<noteq> JStr ''archived'' \<or>
     works_in WAREHOUSE_COMPLEX_CHIEF_AGENT_ID ''complex'' c \<and> jget (pc_metadata c) ''complex_workspace_status'' \<noteq> JStr ''archived''"

definition purchase_manager_active :: "pcase \<Rightarrow> bool" where
  "purchase_manager_active c \<longleftrightarrow> pc_current_agent c = Some PURCHASE_MANAGER_AGENT_ID \<or>
     works_in PURCHASE_MANAGER_AGENT_ID ''purchase_manager'' c"

definition otk_active :: "pcase \<Rightarrow> bool" where
  "otk_active c \<longleftrightarrow> pc_current_agent c = Some QUALITY_ENGINEER_AGENT_ID \<or>
     jtruthy (jget (pc_metadata c) ''otk_handed_off_at'') \<or> jtruthy (jget (pc_metadata c) ''otk_started_at'') \<or>
     is_prefix ''quality_'' (pc_status c) \<or>
     jstring (jget (jobject (jget (pc_metadata c) ''tmc_presentation_coverage'')) ''status'') \<in> {''partial'', ''full''}"

definition current_stage :: "pcase \<Rightarrow> string" where
  "current_stage c =
     (let stage = or_text (pc_control_point c) (dict_get_or STAGE_OF_STATUS (pc_status c) ''basis'');
          stage1 =
            (if picker_active c \<and> stage \<in> {''basis'', ''data'', ''KT1'', []} then ''coverage''
             else if purchase_manager_active c \<and> \<not> picker_active c \<and> stage \<in> {''basis'', ''data'', ''coverage'', ''KT1'', []}
             then ''purchase''
             else if otk_active c \<and> \<not> picker_active c \<and> \<not> purchase_manager_active c \<and>
                     stage \<in> {''basis'', ''data'', ''coverage'', ''purchase'', ''KT1'', []}
             then ''quality'' else stage)
      in if stage1 = ''KT1'' then ''basis'' else stage1)"

record route_row =
  rr_stage_id :: string
  rr_label :: json
  rr_order :: int
  rr_status :: string

fun route_rows :: "bool \<Rightarrow> string \<Rightarrow> bool \<Rightarrow> (int \<times> jdict) list \<Rightarrow> route_row list" where
  "route_rows shut current reached [] = []"
| "route_rows shut current reached ((n, item) # items) =
     (let stage_id = stage_id_of item;
          (status, reached1) =
            (if shut then (if stage_id = ''basis'' then ''completed'' else ''skipped'', reached)
             else if stage_id = current then (''running'', True)
             else (if reached then ''pending'' else ''completed'', reached))
      in \<lparr>rr_stage_id = stage_id, rr_label = jor (jget item ''label'') (JStr stage_id), rr_order = n, rr_status = status\<rparr> #
         route_rows shut current reached1 items)"

definition serialize_route_stages :: "pcase \<Rightarrow> dash_error + route_row list" where
  "serialize_route_stages c =
     (case configured_stages (pc_metadata c) of
        Inl e \<Rightarrow> Inl e
      | Inr items \<Rightarrow>
          map_sum id (\<lambda>stages. route_rows (pc_status c \<in> set TERMINAL_CASE_STATUSES \<and> truthy (pc_closed_reason c))
              (current_stage c) False (sort_key fst stages)) (ordered_stages items))"

section \<open>Events\<close>

definition serialize_event :: "pevent \<Rightarrow> jdict" where
  "serialize_event e =
     [(''event_type'', JStr (pe_type e)), (''agent_id'', JStr (pe_agent_id e)), (''actor_role'', JStr ''procurement_orchestrator''),
      (''previous_status'', jtext_opt (pe_previous_status e)), (''new_status'', JStr (pe_new_status e)),
      (''payload'', JObj (pe_payload e))]"

definition list_case_events :: "string \<Rightarrow> store \<Rightarrow> jdict list" where
  "list_case_events case_id so = map serialize_event (filter (\<lambda>e. pe_case_id e = case_id) (so_events so))"

definition timeline_kind :: "string \<Rightarrow> string" where
  "timeline_kind event_type =
     (if is_substring ''agent'' event_type \<or> is_prefix ''kt1_'' event_type then ''agent_run''
      else if is_prefix ''case_'' event_type \<or> is_prefix ''source_'' event_type then ''status_change'' else ''system'')"

definition TIMELINE_TITLES :: "(string, string) dict" where
  "TIMELINE_TITLES =
     [(''case_created_from_source'', TITLE_CREATED), (''source_document_changed'', TITLE_CHANGED),
      (''case_archived_from_source'', TITLE_ARCHIVED), (''case_reactivated_from_source'', TITLE_REACTIVATED),
      (''kt1_task_enqueued'', TITLE_STAGE_STARTED), (''kt1_task_completed'', TITLE_STAGE_DONE),
      (''role_agent_task_enqueued'', TITLE_ROLE_ASSIGNED), (''role_agent_result_received'', TITLE_ROLE_RESULT),
      (''role_agent_resumed'', TITLE_ROLE_RESUMED)]"

definition timeline_entry :: "pcase \<Rightarrow> jdict \<Rightarrow> jdict" where
  "timeline_entry c event =
     (let event_type = jstring (jget event ''event_type''); payload = jobject (jget event ''payload'')
      in [(''kind'', JStr (timeline_kind event_type)), (''title'', JStr (dict_get_or TIMELINE_TITLES event_type event_type)),
          (''detail'', jor (get_first payload [''skip_reason'', ''closed_reason'']) (jtext_opt (pc_deviation c))),
          (''actor_id'', jget event ''agent_id''), (''actor_label'', jget event ''actor_role''),
          (''stage_id'', jtext_opt (pc_control_point c)), (''status'', jget event ''new_status''), (''payload'', JObj payload)])"

definition serialize_timeline :: "jdict list \<Rightarrow> pcase \<Rightarrow> jdict list" where
  "serialize_timeline events c = map (timeline_entry c) events"

section \<open>A case in detail\<close>

definition position_fields :: "case_position \<Rightarrow> jdict" where
  "position_fields p =
     [(''line_id'', JStr (cp_line_id p)), (''line_number'', JInt (cp_line_number p)),
      (''nomenclature_id'', JStr (cp_nomenclature_id p)), (''nomenclature_name'', jtext_opt (cp_nomenclature_name p)),
      (''characteristic_id'', jtext_opt (cp_characteristic_id p)), (''unit'', jtext_opt (cp_unit p)),
      (''quantity'', JDec (cp_quantity p)), (''required_date'', jdate (cp_required_date p)),
      (''supply_action'', get_first (cp_raw_payload p)
         [''supply_action'', KEY_SUPPLY_VARIANT, KEY_ACTION, KEY_SUPPLY_STOCK, KEY_SUPPLY_METHOD]),
      (''cancelled'', JBool (cp_cancelled p))]"

definition route_json :: "route_row list \<Rightarrow> json" where
  "route_json rows = JArr (map (\<lambda>r. JObj
     [(''stage_id'', JStr (rr_stage_id r)), (''label'', rr_label r), (''order'', JInt (rr_order r)),
      (''status'', JStr (rr_status r)), (''summary'', JNull)]) rows)"

definition detail_fields :: "pcase \<Rightarrow> route_row list \<Rightarrow> jdict" where
  "detail_fields c route =
     [(''source_entity_set'', jtext_opt (pc_entity_set c)), (''source_database'', jtext_opt (pc_database c)),
      (''source_data_version'', jtext_opt (pc_data_version c)), (''initiator_1c_ref'', jtext_opt (pc_initiator_ref c)),
      (''initiator_name'', jtext_opt (pc_initiator_name c)), (''department_1c_ref'', jtext_opt (pc_department_ref c)),
      (''department_name'', jtext_opt (pc_department_name c)), (''warehouse_1c_ref'', jtext_opt (pc_warehouse_ref c)),
      (''warehouse_name'', jtext_opt (pc_warehouse_name c)), (''warehouse_from_1c_ref'', jtext_opt (pc_warehouse_from_ref c)),
      (''warehouse_to_1c_ref'', jtext_opt (pc_warehouse_to_ref c)), (''organization_1c_ref'', jtext_opt (pc_organization_ref c)),
      (''priority_1c_ref'', jtext_opt (pc_priority_ref c)), (''assigned_agents'', JArr (map JStr (pc_assigned_agents c))),
      (''deviation_summary'', jtext_opt (pc_deviation c)), (''latest_result'', JObj (pc_latest_result c)),
      (''case_metadata'', JObj (pc_metadata c)), (''positions'', JArr (map (\<lambda>p. JObj (position_fields p)) (pc_positions c))),
      (''events'', JArr []), (''route_stages'', route_json route), (''timeline'', JArr []), (''current_state'', JNull)]"

definition serialize_case_detail :: "(pcase \<Rightarrow> int option) \<Rightarrow> pcase \<Rightarrow> dash_error + jdict" where
  "serialize_case_detail created c =
     (case serialize_case_summary created c of
        Inl e \<Rightarrow> Inl e
      | Inr payload \<Rightarrow> map_sum id (\<lambda>route. dict_update payload (detail_fields c route)) (serialize_route_stages c))"

definition current_state_fields :: "pcase \<Rightarrow> store \<Rightarrow> jdict" where
  "current_state_fields c so =
     [(''status'', JStr (pc_status c)), (''control_point'', jtext_opt (pc_control_point c)),
      (''current_agent_id'', jtext_opt (pc_current_agent c)), (''current_agent_label'', jtext_opt (agent_name (pc_current_agent c))),
      (''requires_human_review'', JBool (jtruthy (jget (pc_latest_result c) ''requires_human_review''))),
      (''summary'', case_summary_text c), (''task_id'', jtext_opt (pc_current_task c)),
      (''task_status'', jtext_opt (map_option (\<lambda>t. task_status_value (pt_status t)) (current_task_of c so))),
      (''wait_status'', jget (pc_latest_result c) ''role_status''),
      (''wait_reason'', jor (jget (pc_latest_result c) ''wait_reason'') (jtext_opt (pc_deviation c))),
      (''closed_reason'', jtext_opt (pc_closed_reason c)), (''closed_reason_label'', closed_label c),
      (''source_active'', JBool (pc_status c \<in> set SOURCE_MONITORED_CASE_STATUSES))]"

definition get_case :: "(pcase \<Rightarrow> int option) \<Rightarrow> string \<Rightarrow> pcase list \<Rightarrow> store \<Rightarrow> dash_error + jdict option" where
  "get_case created case_id cs so =
     (case find (\<lambda>c. pc_id c = case_id) cs of
        None \<Rightarrow> Inr None
      | Some c \<Rightarrow>
          map_sum id (\<lambda>detail.
              let events = list_case_events case_id so
              in Some (dict_update detail
                   [(''events'', JArr (map JObj events)), (''timeline'', JArr (map JObj (serialize_timeline events c))),
                    (''current_state'', JObj (current_state_fields c so))]))
            (serialize_case_detail created c))"

section \<open>The dashboard\<close>

definition serialize_sync_state :: "sync_state option \<Rightarrow> source_capability \<Rightarrow> jdict" where
  "serialize_sync_state state cap =
     [(''source_type'', JStr (source_type_value (cap_source_type cap))), (''label_ru'', JStr (cap_label cap)),
      (''entity_set'', JStr (cap_entity_set cap)), (''available'', JBool (cap_available cap)),
      (''unavailable_reason'', jtext_opt (cap_unavailable_reason cap)),
      (''capability_status'', JStr (case state of Some s \<Rightarrow> ss_capability_status s
         | None \<Rightarrow> if cap_available cap then ''unknown'' else ''capability_unavailable'')),
      (''capability_message'', jtext_opt (case state of Some s \<Rightarrow> ss_capability_message s | None \<Rightarrow> cap_unavailable_reason cap)),
      (''database_name'', jtext_opt (map_option ss_database state)),
      (''last_polled_at'', jdate (Option.bind state ss_last_polled_at)),
      (''last_success_at'', jdate (Option.bind state ss_last_success_at)),
      (''watermark_date'', jdate (Option.bind state ss_watermark_date)),
      (''last_error'', jtext_opt (Option.bind state ss_last_error)),
      (''documents_seen'', JInt (case state of None \<Rightarrow> 0 | Some s \<Rightarrow> int (ss_documents_seen s))),
      (''cases_created'', JInt (case state of None \<Rightarrow> 0 | Some s \<Rightarrow> int (ss_cases_created s))),
      (''cases_updated'', JInt (case state of None \<Rightarrow> 0 | Some s \<Rightarrow> int (ss_cases_updated s))),
      (''cases_skipped'', JInt (case state of None \<Rightarrow> 0 | Some s \<Rightarrow> int (ss_cases_skipped s)))]"

definition state_of :: "source_type \<Rightarrow> sync_state list \<Rightarrow> sync_state option" where
  "state_of source_type states = find (\<lambda>s. ss_source_type s = source_type) states"

text \<open>\<open>by_type\<close> of \<open>list_sync_status\<close> keeps the last state of a type.\<close>

definition list_sync_status :: "sync_state list \<Rightarrow> jdict list" where
  "list_sync_status states =
     map (\<lambda>cap. serialize_sync_state (state_of (cap_source_type cap) (rev states)) cap) list_source_capabilities"

datatype workspace = Engineer_Space | Dispatcher_Space | Picker_Space | Complex_Space | Manager_Space

definition chosen_workspace :: "bool \<Rightarrow> bool \<Rightarrow> bool \<Rightarrow> bool \<Rightarrow> bool \<Rightarrow> workspace option" where
  "chosen_workspace engineer dispatcher picker complex manager =
     (if engineer then Some Engineer_Space else if dispatcher then Some Dispatcher_Space
      else if picker then Some Picker_Space else if complex then Some Complex_Space
      else if manager then Some Manager_Space else None)"

fun space_prefix :: "workspace \<Rightarrow> string" where
  "space_prefix Engineer_Space = ''engineer''"
| "space_prefix Dispatcher_Space = ''dispatcher''"
| "space_prefix Picker_Space = ''picker''"
| "space_prefix Complex_Space = ''complex''"
| "space_prefix Manager_Space = ''purchase_manager''"

definition ordered_status :: "pcase \<Rightarrow> string" where
  "ordered_status c = jstring (jget (jobject (jget (pc_metadata c) ''supplier_order_coverage'')) ''coverage_status'')"

fun in_space :: "workspace \<Rightarrow> pcase \<Rightarrow> bool" where
  "in_space Engineer_Space c \<longleftrightarrow>
     \<not> is_montage_section_2_department (pc_department_name c) \<and> \<not> jtruthy (jget (pc_metadata c) ''complex_invoked_at'') \<and>
     (jtruthy (jget (pc_metadata c) ''engineer_invoked_at'') \<or>
      jtruthy (jget (pc_metadata c) ''production_preparation_engineer_output''))"
| "in_space Dispatcher_Space c \<longleftrightarrow>
     jtruthy (jget (pc_metadata c) ''dispatcher_invoked_at'') \<or> jtruthy (jget (pc_metadata c) ''production_dispatcher_output'') \<or>
     pc_source_type c = ReorderPoint \<and>
       (pc_current_agent c = Some PRODUCTION_DISPATCHER_AGENT_ID \<or>
        jget (pc_metadata c) ''engineer_handoff_agent_id'' = JStr PRODUCTION_DISPATCHER_AGENT_ID) \<or>
     jget (pc_metadata c) ''engineer_handoff_agent_id'' = JStr PRODUCTION_DISPATCHER_AGENT_ID"
| "in_space Picker_Space c \<longleftrightarrow> is_warehouse_availability_case c PICKER_SPEC"
| "in_space Complex_Space c \<longleftrightarrow> is_warehouse_availability_case c COMPLEX_CHIEF_SPEC"
| "in_space Manager_Space c \<longleftrightarrow> ordered_status c \<in> {''partial'', ''full''} \<and>
     (jtruthy (jget (pc_metadata c) ''purchase_manager_invoked_at'') \<or> jtruthy (jget (pc_metadata c) ''purchase_manager_output'') \<or>
      pc_current_agent c = Some PURCHASE_MANAGER_AGENT_ID)"

definition normalized_view :: "string \<Rightarrow> string" where
  "normalized_view view = (if view \<in> {''active'', ''processing'', ''archive''} then view else ''active'')"

definition of_source :: "string \<Rightarrow> pcase \<Rightarrow> bool" where
  "of_source source_type c \<longleftrightarrow> source_type = [] \<or> source_type_value (pc_source_type c) = source_type"

definition space_cases :: "workspace \<Rightarrow> bool \<Rightarrow> pcase list \<Rightarrow> pcase list" where
  "space_cases ws archived cs = filter (\<lambda>c. in_space ws c \<and> is_space_archived (space_prefix ws) c = archived) cs"

definition dashboard_cases :: "string \<Rightarrow> string \<Rightarrow> workspace option \<Rightarrow> pcase list \<Rightarrow> pcase list" where
  "dashboard_cases view source_type ws cs =
     (let loaded = filter (of_source source_type) cs;
          shown = (case ws of
            Some w \<Rightarrow> space_cases w (view = ''archive'') loaded
          | None \<Rightarrow> filter (\<lambda>c. if view = ''archive'' then pc_status c \<in> set TERMINAL_CASE_STATUSES else is_processing c) loaded)
      in if view = ''processing'' then filter is_processing shown else shown)"

definition archive_count :: "string \<Rightarrow> workspace option \<Rightarrow> pcase list \<Rightarrow> nat" where
  "archive_count source_type ws cs =
     (let loaded = filter (of_source source_type) cs
      in case ws of Some w \<Rightarrow> length (space_cases w True loaded)
         | None \<Rightarrow> length (filter (\<lambda>c. pc_status c \<in> set TERMINAL_CASE_STATUSES) loaded))"

definition processing_count :: "string \<Rightarrow> workspace option \<Rightarrow> pcase list \<Rightarrow> nat" where
  "processing_count source_type ws cs =
     (let loaded = filter (of_source source_type) cs
      in case ws of Some w \<Rightarrow> length (space_cases w False loaded) | None \<Rightarrow> length (filter is_processing loaded))"

fun summaries :: "(pcase \<Rightarrow> dash_error + jdict) \<Rightarrow> pcase list \<Rightarrow> dash_error + jdict list" where
  "summaries f [] = Inr []"
| "summaries f (c # cs) =
     (case f c of
        Inl e \<Rightarrow> Inl e
      | Inr s \<Rightarrow> map_sum id (\<lambda>ss. s # ss) (summaries f cs))"

record dashboard_group =
  dg_capability :: source_capability
  dg_cases :: "jdict list"
  dg_sync :: jdict

fun dashboard_groups ::
  "(pcase \<Rightarrow> dash_error + jdict) \<Rightarrow> pcase list \<Rightarrow> sync_state list \<Rightarrow> source_capability list \<Rightarrow>
   dash_error + dashboard_group list" where
  "dashboard_groups f cs states [] = Inr []"
| "dashboard_groups f cs states (cap # caps) =
     (case summaries f (filter (\<lambda>c. pc_source_type c = cap_source_type cap) cs) of
        Inl e \<Rightarrow> Inl e
      | Inr ss \<Rightarrow>
          map_sum id (\<lambda>gs. \<lparr>dg_capability = cap, dg_cases = ss,
                            dg_sync = serialize_sync_state (state_of (cap_source_type cap) states) cap\<rparr> # gs)
            (dashboard_groups f cs states caps))"

record dashboard =
  db_view :: string
  db_groups :: "dashboard_group list"
  db_total :: nat
  db_active :: nat
  db_processing :: nat
  db_archive :: nat

definition list_dashboard ::
  "(pcase \<Rightarrow> int option) \<Rightarrow> string \<Rightarrow> string \<Rightarrow> workspace option \<Rightarrow> pcase list \<Rightarrow> sync_state list \<Rightarrow> dash_error + dashboard" where
  "list_dashboard created view source_type ws cs states =
     (let v = normalized_view view; shown = dashboard_cases v source_type ws cs;
          card = (\<lambda>c. if ws = Some Complex_Space
                     then map_sum id mirror_picker_fields_from_complex (serialize_case_summary created c)
                     else serialize_case_summary created c);
          caps = filter (\<lambda>cap. source_type = [] \<or> source_type_value (cap_source_type cap) = source_type) list_source_capabilities
      in map_sum id (\<lambda>groups. \<lparr>db_view = v, db_groups = groups, db_total = length shown,
                              db_active = processing_count source_type ws cs, db_processing = processing_count source_type ws cs,
                              db_archive = archive_count source_type ws cs\<rparr>)
           (dashboard_groups card shown states caps))"

end
