(* ===== verification/Dashboard_Facts.thy ===== *)
theory Dashboard_Facts
  imports Case_Dashboard Polling_Facts
begin

text \<open>
  What the dashboard shows: the route of a case, the views of a workspace and of the main dashboard, the
  archive of a workspace against the work status on the card, and the time of the last actualisation.
\<close>

section \<open>The route\<close>

lemma map_sum_Inr [simp]: "map_sum id f x = Inr y \<longleftrightarrow> (\<exists>z. x = Inr z \<and> y = f z)"
  by (cases x) auto

lemma set_jobjects: "d \<in> set (jobjects xs) \<longleftrightarrow> JObj d \<in> set xs"
  unfolding jobjects_def by (induction xs) (auto simp: List.map_filter_def split: json.splits)

lemma route_rows_ids [simp]: "map rr_stage_id (route_rows shut current reached items) = map (stage_id_of \<circ> snd) items"
  by (induction items arbitrary: reached) (auto simp: Let_def split: prod.splits)

lemma route_rows_orders [simp]: "map rr_order (route_rows shut current reached items) = map fst items"
  by (induction items arbitrary: reached) (auto simp: Let_def split: prod.splits)

lemma route_rows_length [simp]: "length (route_rows shut current reached items) = length items"
  using route_rows_orders [of shut current reached items] by (metis length_map)

definition shown_status :: "bool \<Rightarrow> string \<Rightarrow> bool \<Rightarrow> string \<Rightarrow> string" where
  "shown_status shut current reached i =
     (if shut then if i = ''basis'' then ''completed'' else ''skipped''
      else if i = current then ''running'' else if reached then ''pending'' else ''completed'')"

lemma route_rows_Cons:
  "route_rows shut current reached (x # items) =
     \<lparr>rr_stage_id = stage_id_of (snd x), rr_label = jor (jget (snd x) ''label'') (JStr (stage_id_of (snd x))),
      rr_order = fst x, rr_status = shown_status shut current reached (stage_id_of (snd x))\<rparr> #
     route_rows shut current (reached \<or> \<not> shut \<and> stage_id_of (snd x) = current) items"
  by (cases x) (simp add: shown_status_def Let_def)

declare route_rows.simps(2) [simp del]

lemma route_rows_status:
  "i < length items \<Longrightarrow> rr_status (route_rows shut current reached items ! i) =
     shown_status shut current (reached \<or> \<not> shut \<and> current \<in> (stage_id_of \<circ> snd) ` set (take i items)) (stage_id_of (snd (items ! i)))"
proof (induction items arbitrary: reached i)
  case (Cons x items)
  then show ?case by (cases i) (auto simp: route_rows_Cons intro!: arg_cong2 [where f = "shown_status shut current"])
qed simp

lemma shown_status_shut: "shown_status shut current (\<not> shut \<and> b) i = shown_status shut current b i"
  by (simp add: shown_status_def)

lemma ordered_stages_ids: "ordered_stages items = Inr stages \<Longrightarrow> items = map (JObj \<circ> snd) stages"
  by (induction items arbitrary: stages rule: ordered_stages.induct) (auto split: sum.splits)

lemma configured_default:
  assumes "configured_stages m = Inr items" "JObj d \<in> set (jlist DEFAULT_ROUTE_STAGES)"
  shows "\<exists>e. JObj e \<in> set items \<and> stage_id_of e = stage_id_of d"
proof (rule ccontr)
  assume n: "\<not> ?thesis"
  obtain given where g: "list_of_json (jor (jget m ''route_stages'') DEFAULT_ROUTE_STAGES) = Inr given"
    "items = given @ filter (\<lambda>v. case v of JObj d \<Rightarrow> stage_id_of d \<notin> set (map stage_id_of (jobjects given)) | _ \<Rightarrow> False)
       (jlist DEFAULT_ROUTE_STAGES)"
    using assms(1) by (auto simp: configured_stages_def Let_def)
  have "stage_id_of d \<in> set (map stage_id_of (jobjects given))"
    using n assms(2) g(2) by auto
  then obtain e where "e \<in> set (jobjects given)" "stage_id_of e = stage_id_of d" by auto
  then show False using n g(2) by (auto simp: set_jobjects)
qed

lemma serialize_routeE:
  assumes "serialize_route_stages c = Inr rows"
  obtains items stages where "configured_stages (pc_metadata c) = Inr items" "ordered_stages items = Inr stages"
    "rows = route_rows (pc_status c \<in> set TERMINAL_CASE_STATUSES \<and> truthy (pc_closed_reason c)) (current_stage c) False
       (sort_key fst stages)"
  using assms by (auto simp: serialize_route_stages_def split: sum.splits)

lemma route_default_rows:
  assumes "serialize_route_stages c = Inr rows" "JObj d \<in> set (jlist DEFAULT_ROUTE_STAGES)"
  shows "stage_id_of d \<in> rr_stage_id ` set rows"
proof -
  from assms(1) obtain items stages where r: "configured_stages (pc_metadata c) = Inr items" "ordered_stages items = Inr stages"
    "rows = route_rows (pc_status c \<in> set TERMINAL_CASE_STATUSES \<and> truthy (pc_closed_reason c)) (current_stage c) False
       (sort_key fst stages)" by (rule serialize_routeE)
  obtain e where e: "JObj e \<in> set items" "stage_id_of e = stage_id_of d" using configured_default [OF r(1) assms(2)] by blast
  then obtain x where "x \<in> set stages" "snd x = e" using ordered_stages_ids [OF r(2)] by auto
  then have "stage_id_of d \<in> set (map (stage_id_of \<circ> snd) (sort_key fst stages))" using e by force
  then show ?thesis unfolding r(3) by (metis route_rows_ids set_map)
qed

lemma route_statuses:
  assumes "serialize_route_stages c = Inr rows" "i < length rows"
  shows "rr_status (rows ! i) = shown_status (pc_status c \<in> set TERMINAL_CASE_STATUSES \<and> truthy (pc_closed_reason c))
  (current_stage c) (current_stage c \<in> rr_stage_id ` set (take i rows)) (rr_stage_id (rows ! i))"
proof -
  let ?shut = "pc_status c \<in> set TERMINAL_CASE_STATUSES \<and> truthy (pc_closed_reason c)"
  from assms(1) obtain items stages where r: "rows = route_rows ?shut (current_stage c) False (sort_key fst stages)"
  by (rule serialize_routeE)
  have i: "i < length (sort_key fst stages)" using assms(2) r by simp
  have ids: "map rr_stage_id rows = map (stage_id_of \<circ> snd) (sort_key fst stages)" unfolding r by (rule route_rows_ids)
  have "rr_stage_id ` set (take i rows) = set (take i (map rr_stage_id rows))" by (simp add: take_map)
  also have "\<dots> = (stage_id_of \<circ> snd) ` set (take i (sort_key fst stages))" unfolding ids by (simp add: take_map)
  finally have t: "rr_stage_id ` set (take i rows) = (stage_id_of \<circ> snd) ` set (take i (sort_key fst stages))" .
  have "rr_stage_id (rows ! i) = map rr_stage_id rows ! i" using assms(2) by simp
  also have "\<dots> = stage_id_of (snd (sort_key fst stages ! i))" unfolding ids using i by simp
  finally have n: "rr_stage_id (rows ! i) = stage_id_of (snd (sort_key fst stages ! i))" .
  show ?thesis unfolding t n unfolding r by (simp only: route_rows_status [OF i] simp_thms shown_status_shut)
qed

definition default_ids :: "string list" where
  "default_ids = [''basis'', ''data'', ''coverage'', ''purchase'', ''quality'', ''payment'', ''delivery'', ''receipt'']"

lemma default_route:
  assumes "jget (pc_metadata c) ''route_stages'' = DEFAULT_ROUTE_STAGES"
  shows "\<exists>rows. serialize_route_stages c = Inr rows \<and> map rr_stage_id rows = default_ids"
proof -
  have "configured_stages (pc_metadata c) = Inr (jlist DEFAULT_ROUTE_STAGES)"
    unfolding configured_stages_def assms
    by (simp add: DEFAULT_ROUTE_STAGES_def route_stage_def stage_id_of_def jobjects_def jor_def jlist_def map_filter_simps)
  moreover obtain stages where "ordered_stages (jlist DEFAULT_ROUTE_STAGES) = Inr stages"
    "map fst stages = [1, 2, 3, 4, 5, 6, 7, 8]" "map (stage_id_of \<circ> snd) stages = default_ids"
    by (simp add: default_ids_def DEFAULT_ROUTE_STAGES_def route_stage_def stage_id_of_def stage_order_def jlist_def jstring_def)
  moreover from this(2) have "sort_key fst stages = stages" by (intro sort_key_id_if_sorted) simp
  ultimately show ?thesis by (simp add: serialize_route_stages_def)
qed

lemma current_stage_other:
  assumes "pc_control_point c = Some s" "s \<notin> {''basis'', ''data'', ''coverage'', ''purchase'', ''KT1'', []}"
  shows "current_stage c = s"
proof -
  have "or_text (pc_control_point c) x = s" for x using assms by (cases s) (simp_all add: or_text_def)
  with assms(2) show ?thesis by (simp add: current_stage_def Let_def)
qed

lemma current_stage_idle:
  assumes "\<not> picker_active c" "\<not> purchase_manager_active c" "\<not> otk_active c" "pc_control_point c = Some ''basis''"
  shows "current_stage c = ''basis''"
  using assms by (simp add: current_stage_def Let_def or_text_def)

text \<open>A case handed over to another department is at no stage of its route: all of them are shown complete.\<close>

lemma handed_over_route_complete:
  assumes "pc_control_point c = Some ''omto'' \<or> pc_control_point c = Some ''chief_dispatcher''"
    "jget (pc_metadata c) ''route_stages'' = DEFAULT_ROUTE_STAGES" "pc_status c \<notin> set TERMINAL_CASE_STATUSES"
  shows "\<exists>rows. serialize_route_stages c = Inr rows \<and> length rows = 8 \<and> (\<forall>r \<in> set rows. rr_status r = ''completed'')"
proof -
  from default_route [OF assms(2)] obtain rows where r: "serialize_route_stages c = Inr rows" "map rr_stage_id rows = default_ids" by blast
  have "current_stage c = ''omto'' \<or> current_stage c = ''chief_dispatcher''"
    using assms(1) by (elim disjE) (simp_all add: current_stage_other)
  moreover have "''omto'' \<notin> set default_ids" "''chief_dispatcher'' \<notin> set default_ids" by (simp_all add: default_ids_def)
  ultimately have "current_stage c \<notin> set (map rr_stage_id rows)" unfolding r(2) by metis
  then have none: "current_stage c \<notin> rr_stage_id ` set rows" by simp
  have "rr_status (rows ! i) = ''completed''" if i: "i < length rows" for i
  proof -
    have "current_stage c \<notin> rr_stage_id ` set (take i rows)" "rr_stage_id (rows ! i) \<noteq> current_stage c"
      using none nth_mem [OF i] by (metis image_eqI in_set_takeD image_iff, metis image_eqI)
    with route_statuses [OF r(1) i] assms(3) show ?thesis by (simp add: shown_status_def)
  qed
  moreover have "length rows = 8" using arg_cong [OF r(2), of length] by (simp add: default_ids_def)
  ultimately show ?thesis using r(1) by (metis in_set_conv_nth)
qed

section \<open>The views\<close>

lemma space_split: "mset (space_cases ws False cs) + mset (space_cases ws True cs) = mset (filter (in_space ws) cs)"
  by (induction cs) (auto simp: space_cases_def)

lemma summaries_length: "summaries f cs = Inr ss \<Longrightarrow> length ss = length cs"
  by (induction cs arbitrary: ss) (auto split: sum.splits)

lemma source_type_value_inj: "source_type_value s = source_type_value t \<longleftrightarrow> s = t"
  by (cases s; cases t) simp_all

lemma capability_types: "map cap_source_type list_source_capabilities =
  [InternalConsumptionOrder, ProductionMaterialOrder, TransferOrder, ReorderPoint]"
  by (simp add: list_source_capabilities_def capability_def)

text \<open>Every shown case has one card: the groups of distinct types share the cases out among them.\<close>

lemma groups_total:
  assumes "dashboard_groups f cs states caps = Inr gs" "distinct (map cap_source_type caps)"
  shows "sum_list (map (\<lambda>g. length (dg_cases g)) gs) =
     length (filter (\<lambda>c. pc_source_type c \<in> cap_source_type ` set caps) cs)"
  using assms
proof (induction caps arbitrary: gs)
  case (Cons cap caps)
  then obtain ss gs' where s: "summaries f (filter (\<lambda>c. pc_source_type c = cap_source_type cap) cs) = Inr ss"
    "dashboard_groups f cs states caps = Inr gs'"
    "gs = \<lparr>dg_capability = cap, dg_cases = ss, dg_sync = serialize_sync_state (state_of (cap_source_type cap) states) cap\<rparr> # gs'"
    by (auto split: sum.splits)
  have u: "length (filter (\<lambda>c. pc_source_type c \<in> cap_source_type ` set (cap # caps)) cs) =
    length (filter (\<lambda>c. pc_source_type c = cap_source_type cap) cs) +
    length (filter (\<lambda>c. pc_source_type c \<in> cap_source_type ` set caps) cs)"
    using Cons.prems(2) by (induction cs) auto
  show ?case using Cons.IH [OF s(2)] Cons.prems(2) summaries_length [OF s(1)] s(3) by (simp add: u del: list.set image_insert)
qed simp

lemma summaries_return: "(\<exists>ss. summaries f cs = Inr ss) \<longleftrightarrow> (\<forall>c \<in> set cs. \<exists>s. f c = Inr s)"
  by (induction cs) (auto split: sum.splits)

lemma groups_return:
  "(\<exists>gs. dashboard_groups f cs states caps = Inr gs) \<longleftrightarrow>
    (\<forall>c \<in> set cs. pc_source_type c \<in> cap_source_type ` set caps \<longrightarrow> (\<exists>s. f c = Inr s))"
proof (induction caps)
  case (Cons cap caps)
  have "(\<exists>gs. dashboard_groups f cs states (cap # caps) = Inr gs) \<longleftrightarrow>
      (\<exists>ss. summaries f (filter (\<lambda>c. pc_source_type c = cap_source_type cap) cs) = Inr ss) \<and>
      (\<exists>gs. dashboard_groups f cs states caps = Inr gs)" by (auto split: sum.splits)
  then show ?case unfolding Cons.IH summaries_return by auto
qed simp

lemma shown_type:
  assumes "c \<in> set (dashboard_cases view source_type ws cs)"
  shows "pc_source_type c \<in> cap_source_type ` set (filter (\<lambda>cap. source_type = [] \<or>
    source_type_value (cap_source_type cap) = source_type) list_source_capabilities)"
proof -
  have o: "of_source source_type c"
    using assms by (auto simp: dashboard_cases_def Let_def space_cases_def split: option.splits if_splits)
  have "pc_source_type c \<in> set (map cap_source_type list_source_capabilities)"
    unfolding capability_types by (cases "pc_source_type c") simp_all
  then obtain cap where "cap \<in> set list_source_capabilities" "cap_source_type cap = pc_source_type c" by auto
  with o show ?thesis by (force simp: of_source_def)
qed

lemma dashboard_returns:
  "(\<exists>d. list_dashboard created view source_type ws cs states = Inr d) \<longleftrightarrow>
    (\<forall>c \<in> set (dashboard_cases (normalized_view view) source_type ws cs). \<exists>s. serialize_case_summary created c = Inr s)"
proof -
  let ?f = "\<lambda>c. if ws = Some Complex_Space then map_sum id mirror_picker_fields_from_complex (serialize_case_summary created c)
    else serialize_case_summary created c"
  let ?caps = "filter (\<lambda>cap. source_type = [] \<or> source_type_value (cap_source_type cap) = source_type) list_source_capabilities"
  let ?shown = "dashboard_cases (normalized_view view) source_type ws cs"
  have "(\<exists>d. list_dashboard created view source_type ws cs states = Inr d) \<longleftrightarrow>
      (\<exists>gs. dashboard_groups ?f ?shown states ?caps = Inr gs)" by (simp add: list_dashboard_def Let_def)
  also have "\<dots> \<longleftrightarrow> (\<forall>c \<in> set ?shown. \<exists>s. ?f c = Inr s)"
    unfolding groups_return using shown_type by blast
  also have "\<dots> \<longleftrightarrow> (\<forall>c \<in> set ?shown. \<exists>s. serialize_case_summary created c = Inr s)" by auto
  finally show ?thesis .
qed

text \<open>The whole payload: the cards of all groups are the shown cases, one card each.\<close>

lemma dashboard_total:
  assumes "list_dashboard created view source_type ws cs states = Inr d"
  shows "db_total d = length (dashboard_cases (normalized_view view) source_type ws cs)"
    "db_active d = processing_count source_type ws cs" "db_archive d = archive_count source_type ws cs"
    "sum_list (map (\<lambda>g. length (dg_cases g)) (db_groups d)) = db_total d"
proof -
  let ?caps = "filter (\<lambda>cap. source_type = [] \<or> source_type_value (cap_source_type cap) = source_type) list_source_capabilities"
  let ?shown = "dashboard_cases (normalized_view view) source_type ws cs"
  obtain f gs where g: "dashboard_groups f ?shown states ?caps = Inr gs" "db_groups d = gs"
    and t: "db_total d = length ?shown"
    and n: "db_active d = processing_count source_type ws cs" "db_archive d = archive_count source_type ws cs"
    using assms by (auto simp: list_dashboard_def Let_def)
  have "distinct (map cap_source_type ?caps)"
    by (rule distinct_map_filter) (simp add: capability_types)
  from groups_total [OF g(1) this] have s: "sum_list (map (\<lambda>g. length (dg_cases g)) gs) =
    length (filter (\<lambda>c. pc_source_type c \<in> cap_source_type ` set ?caps) ?shown)" .
  have "pc_source_type c \<in> cap_source_type ` set ?caps" if "c \<in> set ?shown" for c
    using shown_type [OF that] .
  then have "filter (\<lambda>c. pc_source_type c \<in> cap_source_type ` set ?caps) ?shown = ?shown" by (simp add: filter_id_conv)
  with s t g(2) show "sum_list (map (\<lambda>g. length (dg_cases g)) (db_groups d)) = db_total d" by simp
  show "db_total d = length ?shown" "db_active d = processing_count source_type ws cs"
    "db_archive d = archive_count source_type ws cs" by (fact t n)+
qed

section \<open>The latest time\<close>

definition given :: "json \<Rightarrow> bool" where
  "given v \<longleftrightarrow> v \<noteq> JNull \<and> v \<noteq> JStr []"

definition reached_time :: "string \<Rightarrow> int \<Rightarrow> bool" where
  "reached_time r u \<longleftrightarrow> (\<exists>t. iso_instant r = Some t \<and> u \<le> t)"

lemma latest_loop_max:
  assumes "latest = None \<Longrightarrow> raw = None \<or> (\<exists>r. raw = Some r \<and> iso_instant r = None)"
    "\<And>l. latest = Some l \<Longrightarrow> \<exists>r. raw = Some r \<and> iso_instant r = Some l"
    "latest_loop latest raw vs = Some res"
  shows "(raw = Some res \<or> (\<exists>v \<in> set vs. given v \<and> res = jstr v)) \<and>
    (\<forall>v \<in> set vs. \<forall>u. given v \<and> iso_instant (jstr v) = Some u \<longrightarrow> reached_time res u) \<and>
    (\<forall>l. latest = Some l \<longrightarrow> reached_time res l)"
  using assms
proof (induction latest raw vs rule: latest_loop.induct)
  case (1 latest raw)
  then show ?case by (auto simp: reached_time_def)
next
  case (2 latest raw v vs)
  show ?case
  proof (cases "given v")
    case False
    then have skip: "v = JNull \<or> v = JStr []" by (simp add: given_def)
    with "2.prems"(3) have "latest_loop latest raw vs = Some res" by auto
    from "2.IH"(1) [OF skip "2.prems"(1,2) this] False show ?thesis by auto
  next
    case True
    then have keep: "\<not> (v = JNull \<or> v = JStr [])" by (simp add: given_def)
    show ?thesis
    proof (cases "iso_instant (jstr v)")
      case None
      let ?raw = "if raw = None then Some (jstr v) else raw"
      have "latest_loop latest ?raw vs = Some res" using "2.prems"(3) keep None by auto
      moreover have "?raw = None \<or> (\<exists>r. ?raw = Some r \<and> iso_instant r = None)" if "latest = None"
        using "2.prems"(1) [OF that] None by auto
      moreover have "\<exists>r. ?raw = Some r \<and> iso_instant r = Some l" if "latest = Some l" for l
        using "2.prems"(2) [OF that] by auto
      ultimately show ?thesis using "2.IH"(2) [OF keep None] None True by (auto split: if_splits)
    next
      case (Some t)
      show ?thesis
      proof (cases "case latest of None \<Rightarrow> True | Some l \<Rightarrow> l < t")
        case newer: True
        then have "latest_loop (Some t) (Some (jstr v)) vs = Some res" using "2.prems"(3) keep Some by auto
        from "2.IH"(3) [OF keep Some newer _ _ this] Some
        have ih: "(Some (jstr v) = Some res \<or> (\<exists>v \<in> set vs. given v \<and> res = jstr v)) \<and>
          (\<forall>v \<in> set vs. \<forall>u. given v \<and> iso_instant (jstr v) = Some u \<longrightarrow> reached_time res u) \<and> reached_time res t" by auto
        moreover have "reached_time res l" if "latest = Some l" for l
          using ih newer that by (auto simp: reached_time_def)
        ultimately show ?thesis using Some True by auto
      next
        case older: False
        then obtain l where l: "latest = Some l" "t \<le> l" by (auto split: option.splits)
        have "latest_loop latest raw vs = Some res" using "2.prems"(3) keep Some older by auto
        from "2.IH"(4) [OF keep Some older "2.prems"(1,2) this] l Some True show ?thesis
          by (force simp: reached_time_def)
      qed
    qed
  qed
qed

section \<open>A case of the archive\<close>

lemma availability_bucket_given:
  "warehouse_availability_bucket c spec = Inr b \<Longrightarrow> is_warehouse_availability_case c spec \<Longrightarrow> b \<noteq> None"
  by (cases "settled_bucket spec c") (auto simp: warehouse_availability_bucket_def Let_def split: if_splits)

lemma dispatcher_bucket_given: "dispatcher_bucket c = Inr b \<Longrightarrow> is_dispatcher_case c \<Longrightarrow> b \<noteq> None"
  by (auto simp: dispatcher_bucket_def Let_def split: if_splits option.splits)

lemma agent_status_archived:
  "b \<noteq> None \<Longrightarrow> jtext_opt (agent_work_status prefix agent early b c) = JStr ''archived'' \<longleftrightarrow> is_space_archived prefix c"
  by (auto simp: agent_work_status_def jtext_opt_def split: if_splits)

lemma card_statuses:
  "jget (summary_fields created c e d p x) ''dispatcher_work_status'' = jtext_opt (dispatcher_work_status d c)"
  "jget (summary_fields created c e d p x) ''picker_work_status'' = jtext_opt (picker_work_status p c)"
  "jget (summary_fields created c e d p x) ''complex_work_status'' = jtext_opt (complex_work_status x c)"
  by (simp_all add: summary_fields_def bucket_fields_def space_fields_def Let_def)

lemma dispatcher_space_case: "in_space Dispatcher_Space c \<Longrightarrow> is_dispatcher_case c"
  by (auto simp: is_dispatcher_case_def)

section \<open>Examples\<close>

definition demo_case :: pcase where
  "demo_case = new_case 0 ''case-1'' demo_document"

lemma demo_stage: "current_stage demo_case = ''basis''"
proof -
  have m: "pc_current_agent demo_case = None" "pc_assigned_agents demo_case = []" "pc_status demo_case = ''new''"
    "pc_control_point demo_case = Some ''basis''" "jget (pc_metadata demo_case) ''otk_handed_off_at'' = JNull"
    "jget (pc_metadata demo_case) ''otk_started_at'' = JNull" "jget (pc_metadata demo_case) ''tmc_presentation_coverage'' = JNull"
    by (simp_all add: demo_case_def new_case_def basis_metadata_def)
  show ?thesis
    by (rule current_stage_idle)
      (simp_all add: picker_active_def purchase_manager_active_def otk_active_def works_in_def m jobject_def jstring_def)
qed

text \<open>A case the dispatcher has handled and put into the archive of its workspace.\<close>

definition demo_waiting :: pcase where
  "demo_waiting = (new_case 0 ''case-1'' demo_document)
     \<lparr>pc_metadata := [(''dispatcher_invoked_at'', JStr ''t''), (''dispatcher_workspace_archived_at'', JStr ''t'')]\<rparr>"

lemma demo_summary: "\<exists>summary. serialize_case_summary created demo_waiting = Inr summary"
proof -
  have m: "pc_metadata demo_waiting = [(''dispatcher_invoked_at'', JStr ''t''), (''dispatcher_workspace_archived_at'', JStr ''t'')]"
    "pc_latest_result demo_waiting = []" "pc_source_type demo_waiting = ReorderPoint"
    by (simp_all add: demo_waiting_def new_case_def demo_document_def)
  note scalars = jobject_def jstring_def jor_def bucket_output_def decision_of_def role_status_text_def
  have "engineer_bucket demo_waiting = Inr None" by (simp add: engineer_bucket_def m Let_def)
  moreover have "\<exists>b. dispatcher_bucket demo_waiting = Inr b"
    by (simp add: dispatcher_bucket_def archived_bucket_def is_dispatcher_case_def m scalars Let_def head_of_def)
  moreover have "picker_bucket demo_waiting = Inr None" "complex_bucket demo_waiting = Inr None"
    by (simp_all add: picker_bucket_def complex_bucket_def warehouse_availability_bucket_def
        is_warehouse_availability_case_def spec_key_def PICKER_SPEC_def COMPLEX_CHIEF_SPEC_def m Let_def)
  ultimately show ?thesis by (auto simp: serialize_case_summary_def)
qed

section \<open>Properties\<close>

text \<open>
  C12: The route of a case lists its stages in the order of their numbers and lacks none of the default ones.
  The stage the case is in runs, the stages after it wait, the others are complete; a case that was closed
  for a reason shows its basis complete and the other stages skipped.
\<close>

lemma route_progress:
  assumes "serialize_route_stages c = Inr rows"
  shows "sorted (map rr_order rows) \<and> stage_id_of ` set (jobjects (jlist DEFAULT_ROUTE_STAGES)) \<subseteq> rr_stage_id ` set rows \<and>
    (\<forall>i < length rows. rr_status (rows ! i) =
       (if pc_status c \<in> set TERMINAL_CASE_STATUSES \<and> truthy (pc_closed_reason c)
        then if rr_stage_id (rows ! i) = ''basis'' then ''completed'' else ''skipped''
        else if rr_stage_id (rows ! i) = current_stage c then ''running''
        else if current_stage c \<in> rr_stage_id ` set (take i rows) then ''pending'' else ''completed''))"
proof -
  from assms obtain items stages where r: "rows = route_rows (pc_status c \<in> set TERMINAL_CASE_STATUSES \<and> truthy (pc_closed_reason c))
    (current_stage c) False (sort_key fst stages)" by (rule serialize_routeE)
  have "sorted (map rr_order rows)" unfolding r by (simp only: route_rows_orders sorted_sort_key)
  moreover have "stage_id_of ` set (jobjects (jlist DEFAULT_ROUTE_STAGES)) \<subseteq> rr_stage_id ` set rows"
    using route_default_rows [OF assms] by (auto simp: set_jobjects)
  ultimately show ?thesis using route_statuses [OF assms] by (simp add: shown_status_def)
qed

lemma route_progress_witness:
  "\<exists>rows. serialize_route_stages demo_case = Inr rows \<and> rr_status (rows ! 0) = ''running'' \<and> rr_status (rows ! 1) = ''pending''"
proof -
  have "jget (pc_metadata demo_case) ''route_stages'' = DEFAULT_ROUTE_STAGES"
    by (simp add: demo_case_def new_case_def basis_metadata_def)
  from default_route [OF this] obtain rows where r: "serialize_route_stages demo_case = Inr rows" "map rr_stage_id rows = default_ids" by blast
  have l: "length rows = 8" using arg_cong [OF r(2), of length] by (simp add: default_ids_def)
  have "rr_stage_id (rows ! 0) = ''basis''" "rr_stage_id (rows ! 1) = ''data''"
    using arg_cong [OF r(2), of "\<lambda>xs. xs ! 0"] arg_cong [OF r(2), of "\<lambda>xs. xs ! 1"] l by (simp_all add: default_ids_def)
  moreover have "rr_stage_id ` set (take 1 rows) = {rr_stage_id (rows ! 0)}" using l by (cases rows) simp_all
  moreover have "current_stage demo_case = ''basis''" by (rule demo_stage)
  moreover have "pc_status demo_case \<notin> set TERMINAL_CASE_STATUSES"
    by (simp add: demo_case_def new_case_def TERMINAL_CASE_STATUSES_def)
  ultimately show ?thesis using route_progress [OF r(1)] r(1) l by simp
qed

text \<open>
  C11: In every workspace the active and the archive view share the cases of the workspace out between
  them, and the dashboard has one card for each case of the view; the counts it gives are the sizes of the
  two views.
\<close>

lemma workspace_views_exact:
  assumes "list_dashboard created ''active'' source_type (Some ws) cs states = Inr active"
    "list_dashboard created ''archive'' source_type (Some ws) cs states = Inr archive"
  shows "mset (dashboard_cases ''active'' source_type (Some ws) cs) + mset (dashboard_cases ''archive'' source_type (Some ws) cs) =
      mset (filter (\<lambda>c. of_source source_type c \<and> in_space ws c) cs) \<and>
    sum_list (map (\<lambda>g. length (dg_cases g)) (db_groups active)) = db_active active \<and>
    sum_list (map (\<lambda>g. length (dg_cases g)) (db_groups archive)) = db_archive archive \<and>
    db_active active = db_active archive \<and> db_archive active = db_archive archive"
proof -
  have "mset (dashboard_cases ''active'' source_type (Some ws) cs) + mset (dashboard_cases ''archive'' source_type (Some ws) cs) =
      mset (filter (\<lambda>c. of_source source_type c \<and> in_space ws c) cs)"
    using space_split [of ws "filter (of_source source_type) cs"] by (simp add: dashboard_cases_def Let_def conj_commute)
  moreover note dashboard_total [OF assms(1)] dashboard_total [OF assms(2)]
  ultimately show ?thesis
    by (simp add: normalized_view_def dashboard_cases_def processing_count_def archive_count_def Let_def)
qed

lemma workspace_views_exact_witness:
  "\<exists>active archive. list_dashboard (\<lambda>_. None) ''active'' [] (Some Dispatcher_Space) [demo_waiting] [] = Inr active \<and>
    list_dashboard (\<lambda>_. None) ''archive'' [] (Some Dispatcher_Space) [demo_waiting] [] = Inr archive \<and>
    sum_list (map (\<lambda>g. length (dg_cases g)) (db_groups archive)) = db_archive archive"
proof -
  have ok: "\<exists>d. list_dashboard (\<lambda>_. None) view [] (Some Dispatcher_Space) [demo_waiting] [] = Inr d" for view
  proof -
    have "set (dashboard_cases (normalized_view view) [] (Some Dispatcher_Space) [demo_waiting]) \<subseteq> {demo_waiting}"
      by (auto simp: dashboard_cases_def space_cases_def Let_def split: if_splits)
    then show ?thesis unfolding dashboard_returns using demo_summary by blast
  qed
  from ok [of "''active''"] ok [of "''archive''"] workspace_views_exact show ?thesis by blast
qed

text \<open>
  The dashboard is returned exactly when no case of the view has malformed agent output; one such
  case makes the whole request raise, whatever the others hold.
\<close>

lemma dashboard_fails_iff:
  "(\<exists>e. list_dashboard created view source_type ws cs states = Inl e) =
    (\<exists>c \<in> set (dashboard_cases (normalized_view view) source_type ws cs). \<exists>e. serialize_case_summary created c = Inl e)"
proof -
  have inl: "(\<exists>e. x = Inl e) \<longleftrightarrow> \<not> (\<exists>y. x = Inr y)" for x :: "'a + 'b" by (cases x) auto
  show ?thesis unfolding inl dashboard_returns by blast
qed

text \<open>
  On the main dashboard no case is on both views, and one is on neither exactly in the seven statuses
  of a purchase under way that the table of the processed statuses lacks.
\<close>

lemma main_dashboard_shows:
  assumes "c \<in> set cs" "pc_status c \<in> set case_statuses"
  shows "\<not> (c \<in> set (dashboard_cases ''active'' [] None cs) \<and> c \<in> set (dashboard_cases ''archive'' [] None cs)) \<and>
    ((c \<in> set (dashboard_cases ''active'' [] None cs) \<or> c \<in> set (dashboard_cases ''archive'' [] None cs)) =
     (pc_status c \<notin> {''purchase_draft'', ''approval_required'', ''payment_pending'', ''in_transit'', ''receiving'',
       ''posting_required'', ''posted''}))"
proof -
  have v: "c \<in> set (dashboard_cases ''active'' [] None cs) \<longleftrightarrow> pc_status c \<in> set SOURCE_MONITORED_CASE_STATUSES"
    "c \<in> set (dashboard_cases ''archive'' [] None cs) \<longleftrightarrow> pc_status c \<in> set TERMINAL_CASE_STATUSES"
    using assms(1) by (simp_all add: dashboard_cases_def Let_def of_source_def is_processing_def
        ORCHESTRATOR_PROCESSING_CASE_STATUSES_def)
  have "\<forall>s \<in> set case_statuses. \<not> (s \<in> set SOURCE_MONITORED_CASE_STATUSES \<and> s \<in> set TERMINAL_CASE_STATUSES) \<and>
    ((s \<in> set SOURCE_MONITORED_CASE_STATUSES \<or> s \<in> set TERMINAL_CASE_STATUSES) =
     (s \<notin> {''purchase_draft'', ''approval_required'', ''payment_pending'', ''in_transit'', ''receiving'',
       ''posting_required'', ''posted''}))"
    by (simp add: case_statuses_def SOURCE_MONITORED_CASE_STATUSES_def ACTIVE_CASE_STATUSES_def TERMINAL_CASE_STATUSES_def)
  with assms(2) show ?thesis unfolding v by blast
qed

lemma main_dashboard_shows_witness:
  "demo_case\<lparr>pc_status := ''in_transit''\<rparr> \<notin> set (dashboard_cases ''active'' [] None [demo_case\<lparr>pc_status := ''in_transit''\<rparr>])"
  using main_dashboard_shows [of "demo_case\<lparr>pc_status := ''in_transit''\<rparr>" "[demo_case\<lparr>pc_status := ''in_transit''\<rparr>]"]
  by (simp add: case_statuses_def)

text \<open>
  On the card of a case in the workspace of the dispatcher, the picker or the complex chief, the work
  status says archived exactly when the case is in the archive view of that workspace.
\<close>

lemma archive_view_matches_card:
  assumes "serialize_case_summary created c = Inr summary" "c \<in> set cs" "of_source source_type c"
    "in_space ws c" "ws \<in> {Dispatcher_Space, Picker_Space, Complex_Space}"
  shows "(c \<in> set (dashboard_cases ''archive'' source_type (Some ws) cs)) =
    (jget summary (space_prefix ws @ ''_work_status'') = JStr ''archived'')"
proof -
  have view: "c \<in> set (dashboard_cases ''archive'' source_type (Some ws) cs) \<longleftrightarrow> is_space_archived (space_prefix ws) c"
    using assms(2-4) by (simp add: dashboard_cases_def space_cases_def Let_def)
  obtain e d p x where b: "dispatcher_bucket c = Inr d" "picker_bucket c = Inr p" "complex_bucket c = Inr x"
    "summary = summary_fields (created c) c e d p x"
    using assms(1) by (auto simp: serialize_case_summary_def split: sum.splits)
  consider "ws = Dispatcher_Space" | "ws = Picker_Space" | "ws = Complex_Space" using assms(5) by blast
  then show ?thesis
  proof cases
    case 1
    then have "d \<noteq> None" using dispatcher_bucket_given [OF b(1)] dispatcher_space_case assms(4) by blast
    with 1 show ?thesis unfolding view by (simp add: b(4) card_statuses dispatcher_work_status_def agent_status_archived)
  next
    case 2
    then have "p \<noteq> None" using availability_bucket_given b(2) assms(4) unfolding picker_bucket_def by auto
    with 2 show ?thesis unfolding view by (simp add: b(4) card_statuses picker_work_status_def agent_status_archived)
  next
    case 3
    then have "x \<noteq> None" using availability_bucket_given b(3) assms(4) unfolding complex_bucket_def by auto
    with 3 show ?thesis unfolding view by (simp add: b(4) card_statuses complex_work_status_def agent_status_archived)
  qed
qed

text \<open>
  The time of the last actualisation on a card is one of the times it was computed from, and none of
  those that can be read is later.
\<close>

lemma last_actualized_is_latest:
  assumes "latest_iso_timestamp vs = Some r"
  shows "(\<exists>v \<in> set vs. given v \<and> r = jstr v) \<and>
    (\<forall>v \<in> set vs. \<forall>u. given v \<and> iso_instant (jstr v) = Some u \<longrightarrow> (\<exists>t. iso_instant r = Some t \<and> u \<le> t))"
  using latest_loop_max [of None None vs r] assms by (simp add: latest_iso_timestamp_def reached_time_def)

lemma last_actualized_is_latest_witness:
  "latest_iso_timestamp [JNull, JStr ''soon''] = Some ''soon'' \<and> given (JStr ''soon'')"
proof -
  have l: "latest_iso_timestamp [JNull, JStr ''soon''] = Some ''soon''"
    by (auto simp: latest_iso_timestamp_def split: option.splits)
  from last_actualized_is_latest [OF l] have "\<exists>v \<in> {JNull, JStr ''soon''}. given v \<and> ''soon'' = jstr v" by simp
  with l show ?thesis by (auto simp: given_def)
qed

end
