(* ===== verification/Engineer.thy ===== *)
theory Engineer
  imports Slot_Rules Case_Tables "HOL-Library.Option_ord"
begin

text \<open>
  The assessment of the preparation engineer (\<open>app/agents/production_preparation_engineer_agent/calculator.py\<close>,
  \<open>schemas.py\<close>): the choice of a resource specification, the validation of a case and its specifications,
  the material requirements aggregated over the needs, and the confirmed supplies that serve them one
  requirement after the other.  Instants are aware.  The texts of issues, recommendations and summaries,
  and the SHA-256 fingerprint, render the modelled values and are left out; an issue keeps its code,
  field, source and line.
\<close>

section \<open>Data\<close>

datatype engineer_outcome =
    Fully_Covered | Transfer_Required | Partially_Covered | Covered_By_Open_Order | Procurement_Required
  | Critical_Shortage | Clarification_Required

datatype engineer_criticality = Normal_Level | High_Level | Critical_Level

record engineer_issue =
  ei_code :: string
  ei_field :: "string option"
  ei_source :: string
  ei_line_id :: "string option"

record engineer_case =
  ec_source_1c_ref :: string
  ec_source_status :: "string option"
  ec_warehouse_1c_ref :: "string option"
  ec_required_date :: "instant option"
  ec_production_order_1c_ref :: "string option"
  ec_production_order_number :: "string option"

record engineer_need =
  en_line_id :: string
  en_nomenclature_id :: string
  en_characteristic_id :: "string option"
  en_unit :: "string option"
  en_product_quantity :: "rat option"
  en_direct_quantity :: "rat option"
  en_required_date :: "instant option"
  en_project_id :: "string option"
  en_stage_id :: "string option"
  en_stage_name :: "string option"
  en_warehouse_id :: "string option"
  en_stage_needs_material :: bool
  en_analog_available :: "bool option"
  en_critical_order :: bool
  en_section_stop_risk :: bool
  en_long_lead_time :: bool
  en_lead_days :: "int option"

record spec_material =
  sm_line_id :: string
  sm_nomenclature_id :: string
  sm_nomenclature_name :: string
  sm_characteristic_id :: "string option"
  sm_unit :: "string option"
  sm_rate :: rat
  sm_loss_percent :: rat
  sm_stage_id :: "string option"
  sm_stage_name :: "string option"
  sm_use_conditions :: "string option"

record resource_spec =
  rs_specification_id :: string
  rs_version :: "string option"
  rs_status :: string
  rs_deletion_mark :: bool
  rs_valid_from :: "instant option"
  rs_valid_to :: "instant option"
  rs_product_id :: string
  rs_product_characteristic_id :: "string option"
  rs_approved :: bool
  rs_completeness_score :: int
  rs_materials :: "spec_material list"
  rs_evidence_id :: "string option"

record engineer_supply =
  es_supply_id :: string
  es_source_type :: string
  es_nomenclature_id :: string
  es_characteristic_id :: "string option"
  es_unit :: string
  es_quantity :: rat
  es_warehouse_id :: "string option"
  es_available_at :: "instant option"
  es_confirmed :: bool
  es_reserved_for_other :: bool
  es_safety_stock_forbidden :: bool
  es_incoming_control_passed :: bool
  es_quarantine :: bool
  es_defective :: bool
  es_blocked :: bool
  es_expired :: bool
  es_suitable :: bool
  es_exact_match :: bool
  es_use_allowed :: bool
  es_document_number :: "string option"
  es_document_ref :: "string option"
  es_evidence_id :: "string option"

record engineer_excluded =
  ex_supply_id :: string
  ex_source_type :: string
  ex_quantity :: rat
  ex_reason :: string
  ex_evidence_id :: "string option"

record critical_impact =
  ci_production_order :: "string option"
  ci_production_stage :: "string option"
  ci_shortage_start :: instant
  ci_possible_stop :: "instant option"
  ci_unprovided_quantity :: "rat option"
  ci_stops_stage :: bool

record engineer_line =
  ln_line_id :: string
  ln_nomenclature_id :: string
  ln_characteristic_id :: "string option"
  ln_unit :: string
  ln_production_order :: "string option"
  ln_production_stage :: "string option"
  ln_product_quantity :: rat
  ln_gross :: rat
  ln_free_stock :: rat
  ln_other_stock :: rat
  ln_stock_before :: rat
  ln_stock_used :: rat
  ln_stock_remaining :: rat
  ln_confirmed_arrivals :: rat
  ln_total_available :: rat
  ln_net :: rat
  ln_required_date :: instant
  ln_criticality :: engineer_criticality
  ln_outcome :: engineer_outcome
  ln_specification_id :: string
  ln_breakdown :: "(string, rat \<times> string list) dict"
  ln_excluded :: "engineer_excluded list"
  ln_documents :: "(string \<times> string \<times> string) list"
  ln_impact :: "critical_impact option"
  ln_evidence_ids :: "string list"

record assessment_output =
  eo_specifications :: "resource_spec list"
  eo_positions :: "engineer_line list"
  eo_validation_issues :: "engineer_issue list"
  eo_excluded_capabilities :: "string list"
  eo_evidence_ids :: "string list"

section \<open>Texts\<close>

definition SPEC_ACTIVE :: string where
  "SPEC_ACTIVE =
    [CHR 0xD0, CHR 0xB4, CHR 0xD0, CHR 0xB5, CHR 0xD0, CHR 0xB9, CHR 0xD1, CHR 0x81, CHR 0xD1, CHR
     0x82, CHR 0xD0, CHR 0xB2, CHR 0xD1, CHR 0x83, CHR 0xD0, CHR 0xB5, CHR 0xD1, CHR 0x82]"

definition SPEC_APPROVED :: string where
  "SPEC_APPROVED =
    [CHR 0xD1, CHR 0x83, CHR 0xD1, CHR 0x82, CHR 0xD0, CHR 0xB2, CHR 0xD0, CHR 0xB5, CHR 0xD1, CHR
     0x80, CHR 0xD0, CHR 0xB6, CHR 0xD0, CHR 0xB4, CHR 0xD0, CHR 0xB5, CHR 0xD0, CHR 0xBD, CHR 0xD0,
     CHR 0xB0]"

definition DOC_CLOSED :: string where
  "DOC_CLOSED =
    [CHR 0xD0, CHR 0xB7, CHR 0xD0, CHR 0xB0, CHR 0xD0, CHR 0xBA, CHR 0xD1, CHR 0x80, CHR 0xD1, CHR
     0x8B, CHR 0xD1, CHR 0x82]"

definition DOC_CANCELLED :: string where
  "DOC_CANCELLED =
    [CHR 0xD0, CHR 0xBE, CHR 0xD1, CHR 0x82, CHR 0xD0, CHR 0xBC, CHR 0xD0, CHR 0xB5, CHR 0xD0, CHR
     0xBD, CHR 0xD0, CHR 0xB5, CHR 0xD0, CHR 0xBD]"

definition ACTIVE_SPEC_STATUSES :: "string list" where
  "ACTIVE_SPEC_STATUSES = [SPEC_ACTIVE, ''active'', ''approved'', SPEC_APPROVED]"

definition FUTURE_SUPPLY_TYPES :: "string list" where
  "FUTURE_SUPPLY_TYPES = [''supplier_order'', ''in_transit'', ''production_plan'']"

definition STORE_SUPPLY_TYPES :: "string list" where
  "STORE_SUPPLY_TYPES = [''warehouse'', ''store_room'']"

section \<open>The specification of a product\<close>

definition folded_status :: "string \<Rightarrow> string" where
  "folded_status s = fold_yo (casefold (py_strip s))"

definition is_active_spec :: "resource_spec \<Rightarrow> instant \<Rightarrow> bool" where
  "is_active_spec spec production_date \<longleftrightarrow>
     \<not> rs_deletion_mark spec \<and> rs_approved spec \<and> folded_status (rs_status spec) \<in> set ACTIVE_SPEC_STATUSES \<and>
     \<not> (case rs_valid_from spec of None \<Rightarrow> False | Some t \<Rightarrow> production_date < t) \<and>
     \<not> (case rs_valid_to spec of None \<Rightarrow> False | Some t \<Rightarrow> t < production_date)"

definition spec_fits :: "engineer_need \<Rightarrow> instant \<Rightarrow> resource_spec \<Rightarrow> bool" where
  "spec_fits need production_date spec \<longleftrightarrow>
     rs_product_id spec = en_nomenclature_id need \<and>
     (\<not> truthy (en_characteristic_id need) \<or> \<not> truthy (rs_product_characteristic_id spec) \<or>
      rs_product_characteristic_id spec = en_characteristic_id need) \<and>
     is_active_spec spec production_date"

text \<open>A missing \<open>valid_from\<close> counts as \<open>datetime.min\<close>: it comes before every date.\<close>

definition resource_key :: "resource_spec \<Rightarrow> int \<times> nat \<times> string \<times> instant option \<times> string" where
  "resource_key spec =
     (rs_completeness_score spec, length (rs_materials spec), opt_str (rs_version spec), rs_valid_from spec,
      rs_specification_id spec)"

text \<open>\<open>max(..., key=...)\<close> keeps the first of several greatest elements.\<close>

definition greatest_spec :: "resource_spec \<Rightarrow> resource_spec list \<Rightarrow> resource_spec" where
  "greatest_spec = foldl (\<lambda>best spec. if resource_key best < resource_key spec then spec else best)"

definition select_resource_specification ::
  "engineer_need \<Rightarrow> resource_spec list \<Rightarrow> instant \<Rightarrow> resource_spec option" where
  "select_resource_specification need specifications production_date =
     (case filter (spec_fits need production_date) specifications of
        [] \<Rightarrow> None | spec # specs \<Rightarrow> Some (greatest_spec spec specs))"

section \<open>Validation\<close>

definition issue :: "string \<Rightarrow> string option \<Rightarrow> string \<Rightarrow> string option \<Rightarrow> engineer_issue" where
  "issue code field source line_id =
     \<lparr>ei_code = code, ei_field = field, ei_source = source, ei_line_id = line_id\<rparr>"

definition validate_need :: "engineer_case \<Rightarrow> engineer_need \<Rightarrow> engineer_issue list" where
  "validate_need ecase need =
     (if truthy (en_unit need) then [] else [issue ''unit_missing'' (Some ''unit'') ''case'' (Some (en_line_id need))]) @
     (if en_required_date need = None \<and> ec_required_date ecase = None
      then [issue ''line_required_date_missing'' (Some ''required_date'') ''case'' (Some (en_line_id need))] else [])"

definition validate_status :: "engineer_case \<Rightarrow> engineer_issue list" where
  "validate_status ecase =
     (let status = folded_status (opt_str (ec_source_status ecase))
      in if status = [] then [issue ''document_status_missing'' (Some ''source_status'') ''1c'' None]
         else if status \<in> {DOC_CLOSED, DOC_CANCELLED, ''cancelled'', ''closed''}
         then [issue ''document_inactive'' (Some ''source_status'') ''1c'' None] else [])"

definition is_direct_order :: "engineer_need list \<Rightarrow> bool" where
  "is_direct_order needs \<longleftrightarrow> needs \<noteq> [] \<and> (\<forall>n \<in> set needs. en_direct_quantity n \<noteq> None)"

definition validate_case :: "engineer_case \<Rightarrow> engineer_need list \<Rightarrow> engineer_issue list" where
  "validate_case ecase needs =
     (if ec_source_1c_ref ecase = [] then [issue ''document_missing'' (Some ''source_1c_ref'') ''1c'' None] else []) @
     validate_status ecase @
     (if \<not> truthy (ec_production_order_1c_ref ecase) \<and> \<not> is_direct_order needs
      then [issue ''production_order_missing'' (Some ''production_order_1c_ref'') ''1c'' None] else []) @
     (if ec_required_date ecase = None \<and> (\<forall>n \<in> set needs. en_required_date n = None)
      then [issue ''required_date_missing'' (Some ''required_date'') ''case'' None] else []) @
     (if truthy (ec_warehouse_1c_ref ecase) then []
      else [issue ''recipient_missing'' (Some ''warehouse_1c_ref'') ''case'' None]) @
     (if needs = [] then [issue ''positions_missing'' (Some ''positions'') ''case'' None] else []) @
     concat (map (validate_need ecase) needs)"

type_synonym material_key = "string \<times> string option \<times> string option \<times> string option"

definition material_key :: "spec_material \<Rightarrow> material_key" where
  "material_key m = (sm_nomenclature_id m, sm_characteristic_id m, sm_unit m, sm_stage_id m)"

fun validate_materials :: "engineer_need \<Rightarrow> material_key set \<Rightarrow> spec_material list \<Rightarrow> engineer_issue list" where
  "validate_materials need seen [] = []"
| "validate_materials need seen (m # ms) =
     (if material_key m \<in> seen
      then [issue ''duplicate_specification_line'' (Some ''materials'') ''specification'' (Some (en_line_id need))] else []) @
     (if truthy (sm_unit m) then []
      else [issue ''material_unit_missing'' (Some ''unit'') ''specification'' (Some (sm_line_id m))]) @
     (if truthy (sm_stage_id m) then []
      else [issue ''production_stage_missing'' (Some ''production_stage_id'') ''specification'' (Some (sm_line_id m))]) @
     validate_materials need (insert (material_key m) seen) ms"

definition validate_specification :: "engineer_need \<Rightarrow> resource_spec option \<Rightarrow> engineer_issue list" where
  "validate_specification need spec =
     (case spec of
        None \<Rightarrow> [issue ''active_specification_missing'' (Some ''specification'') ''specification'' (Some (en_line_id need))]
      | Some s \<Rightarrow> validate_materials need {} (rs_materials s) @
          (if rs_materials s = []
           then [issue ''specification_materials_missing'' (Some ''materials'') ''specification'' (Some (en_line_id need))]
           else []))"

section \<open>Which supplies count\<close>

definition exclusion_reason :: "spec_material \<Rightarrow> instant \<Rightarrow> engineer_supply \<Rightarrow> string option" where
  "exclusion_reason material required_date s =
     (if \<not> es_confirmed s then Some ''unconfirmed''
      else if es_reserved_for_other s then Some ''reserved_for_other_order''
      else if es_safety_stock_forbidden s then Some ''forbidden_safety_stock''
      else if es_quarantine s then Some ''quarantine''
      else if es_defective s then Some ''defective''
      else if es_blocked s then Some ''blocked''
      else if \<not> es_incoming_control_passed s then Some ''incoming_control_not_passed''
      else if es_expired s then Some ''overdue_without_confirmed_date''
      else if \<not> es_suitable s \<or> \<not> es_use_allowed s then Some ''use_not_allowed''
      else if \<not> es_exact_match s then Some ''analogue_not_approved''
      else if Some (es_unit s) \<noteq> sm_unit material \<and> es_unit s \<noteq> ''base_unit'' then Some ''unit_mismatch''
      else if truthy (sm_characteristic_id material) \<and> es_characteristic_id s \<noteq> sm_characteristic_id material
        then Some ''characteristic_mismatch''
      else if (case es_available_at s of None \<Rightarrow> False | Some t \<Rightarrow> required_date < t)
        then Some ''available_after_required_date''
      else None)"

definition usable :: "spec_material \<Rightarrow> instant \<Rightarrow> engineer_supply \<Rightarrow> bool" where
  "usable material required_date s \<longleftrightarrow>
     es_nomenclature_id s = sm_nomenclature_id material \<and> exclusion_reason material required_date s = None"

definition in_own_store :: "engineer_case \<Rightarrow> engineer_supply \<Rightarrow> bool" where
  "in_own_store ecase s \<longleftrightarrow> es_source_type s \<in> set STORE_SUPPLY_TYPES \<and>
     (\<not> truthy (es_warehouse_id s) \<or> es_warehouse_id s = ec_warehouse_1c_ref ecase)"

definition in_other_store :: "engineer_case \<Rightarrow> engineer_supply \<Rightarrow> bool" where
  "in_other_store ecase s \<longleftrightarrow> es_source_type s \<in> set STORE_SUPPLY_TYPES \<and>
     truthy (es_warehouse_id s) \<and> es_warehouse_id s \<noteq> ec_warehouse_1c_ref ecase"

section \<open>Criticality and outcome\<close>

definition criticality_of :: "engineer_need \<Rightarrow> rat \<Rightarrow> instant \<Rightarrow> instant \<Rightarrow> bool \<Rightarrow> engineer_criticality" where
  "criticality_of need net now required_date future_supply =
     (if net \<le> 0 then Normal_Level
      else if en_stage_needs_material need \<and> en_analog_available need = Some False \<and> \<not> future_supply \<or>
              (case en_lead_days need of None \<Rightarrow> False | Some d \<Rightarrow> required_date < now + d * DAY) \<or>
              en_critical_order need \<or> en_section_stop_risk need then Critical_Level
      else if en_long_lead_time need \<or> required_date \<le> now + 14 * DAY then High_Level
      else Normal_Level)"

definition has_future :: "(string, rat \<times> string list) dict \<Rightarrow> bool" where
  "has_future breakdown \<longleftrightarrow> (\<exists>t \<in> set FUTURE_SUPPLY_TYPES. 0 < fst (dict_get_or breakdown t (0, [])))"

definition outcome_of ::
  "rat \<Rightarrow> rat \<Rightarrow> (string, rat \<times> string list) dict \<Rightarrow> engineer_criticality \<Rightarrow> engineer_outcome" where
  "outcome_of gross net breakdown criticality =
     (if criticality = Critical_Level \<and> 0 < net then Critical_Shortage
      else if 0 < net \<and> net < gross then Partially_Covered
      else if 0 < net then Procurement_Required
      else if has_future breakdown then Covered_By_Open_Order
      else if 0 < fst (dict_get_or breakdown ''internal_transfer'' (0, [])) then Transfer_Required
      else Fully_Covered)"

section \<open>Requirements\<close>

definition needed_quantity :: "engineer_need \<Rightarrow> rat" where
  "needed_quantity need =
     (case en_product_quantity need of
        Some q \<Rightarrow> if q \<noteq> 0 then q else (case en_direct_quantity need of Some d \<Rightarrow> d | None \<Rightarrow> 0)
      | None \<Rightarrow> (case en_direct_quantity need of Some d \<Rightarrow> d | None \<Rightarrow> 0))"

type_synonym requirement_key =
  "(string \<times> string option \<times> string option \<times> string option \<times> instant) \<times>
   (string option \<times> string option \<times> rat \<times> rat \<times> string option)"

definition requirement_key :: "instant \<Rightarrow> engineer_need \<Rightarrow> spec_material \<Rightarrow> requirement_key" where
  "requirement_key default_date need m =
     ((sm_nomenclature_id m, sm_characteristic_id m, sm_unit m, en_project_id need,
       case en_required_date need of Some t \<Rightarrow> t | None \<Rightarrow> default_date),
      (or_str (sm_stage_id m) (en_stage_id need), sm_use_conditions m, sm_rate m, sm_loss_percent m, en_warehouse_id need))"

record requirement =
  rq_need :: engineer_need
  rq_spec :: resource_spec
  rq_quantity :: rat
  rq_line_ids :: "string list"

definition add_requirement ::
  "instant \<Rightarrow> engineer_need \<Rightarrow> resource_spec \<Rightarrow> spec_material \<Rightarrow> (requirement_key, requirement) dict \<Rightarrow>
   (requirement_key, requirement) dict" where
  "add_requirement default_date need spec m grouped =
     (let key = requirement_key default_date need m; quantity = needed_quantity need
      in case dict_get grouped key of
           None \<Rightarrow> dict_set key \<lparr>rq_need = need, rq_spec = spec\<lparr>rs_materials := [m]\<rparr>, rq_quantity = quantity,
                                  rq_line_ids = [en_line_id need]\<rparr> grouped
         | Some r \<Rightarrow> dict_set key (r\<lparr>rq_quantity := rq_quantity r + quantity,
                                      rq_line_ids := rq_line_ids r @ [en_line_id need]\<rparr>) grouped)"

definition group_requirements ::
  "instant \<Rightarrow> (engineer_need \<times> resource_spec) list \<Rightarrow> (requirement_key, requirement) dict" where
  "group_requirements default_date selected =
     fold (\<lambda>(need, spec). fold (add_requirement default_date need spec) (rs_materials spec)) selected []"

fun join_plus :: "string list \<Rightarrow> string" where
  "join_plus [] = []"
| "join_plus [s] = s"
| "join_plus (s # t # ss) = s @ ''+'' @ join_plus (t # ss)"

definition merged_need :: "requirement \<Rightarrow> engineer_need \<times> resource_spec" where
  "merged_need r =
     ((rq_need r)\<lparr>en_line_id := join_plus (rq_line_ids r), en_product_quantity := Some (rq_quantity r),
                 en_direct_quantity := None\<rparr>, rq_spec r)"

definition aggregate_selected_requirements ::
  "instant \<Rightarrow> (engineer_need \<times> resource_spec) list \<Rightarrow> (engineer_need \<times> resource_spec) list" where
  "aggregate_selected_requirements default_date selected = map merged_need (dict_values (group_requirements default_date selected))"

definition gross_of :: "rat \<Rightarrow> spec_material \<Rightarrow> rat" where
  "gross_of quantity m = quantity * sm_rate m * (1 + sm_loss_percent m / 100)"

section \<open>Serving a requirement\<close>

definition supply_draw :: "string \<Rightarrow> rat \<Rightarrow> (string, rat) dict \<Rightarrow> rat \<times> (string, rat) dict" where
  "supply_draw supply_id needed remaining =
     (let available = dict_get_or remaining supply_id 0
      in if available \<le> 0 then (0, remaining)
         else (let allocated = min needed available in (allocated, dict_set supply_id (available - allocated) remaining)))"

definition excluded_for :: "string option \<Rightarrow> engineer_supply \<Rightarrow> engineer_excluded" where
  "excluded_for reason s =
     \<lparr>ex_supply_id = es_supply_id s, ex_source_type = es_source_type s, ex_quantity = es_quantity s,
      ex_reason = (case reason of Some r \<Rightarrow> r | None \<Rightarrow> ''already_allocated''), ex_evidence_id = es_evidence_id s\<rparr>"

text \<open>The loop over the supplies: \<open>taken\<close> is the sum of what was included so far.\<close>

fun serve ::
  "spec_material \<Rightarrow> instant \<Rightarrow> rat \<Rightarrow> rat \<Rightarrow> engineer_supply list \<Rightarrow> (string, rat) dict \<Rightarrow>
   (engineer_supply \<times> rat) list \<times> engineer_excluded list \<times> (string, rat) dict" where
  "serve m required_date gross taken [] remaining = ([], [], remaining)"
| "serve m required_date gross taken (s # ss) remaining =
     (if es_nomenclature_id s \<noteq> sm_nomenclature_id m then serve m required_date gross taken ss remaining
      else
        (let reason = exclusion_reason m required_date s; available = dict_get_or remaining (es_supply_id s) 0
         in if reason \<noteq> None \<or> available \<le> 0 then
              (case serve m required_date gross taken ss remaining of
                 (included, excluded, remaining1) \<Rightarrow> (included, excluded_for reason s # excluded, remaining1))
            else if max 0 (gross - taken) \<le> 0 then ([], [], remaining)
            else
              (case supply_draw (es_supply_id s) (max 0 (gross - taken)) remaining of
                 (allocated, remaining1) \<Rightarrow>
                   (case serve m required_date gross (taken + allocated) ss remaining1 of
                      (included, excluded, remaining2) \<Rightarrow> ((s, allocated) # included, excluded, remaining2)))))"

definition serving_order :: "engineer_case \<Rightarrow> instant \<Rightarrow> engineer_supply \<Rightarrow> nat \<times> instant \<times> string" where
  "serving_order ecase now s =
     (if in_own_store ecase s then 0 else 1, case es_available_at s of Some t \<Rightarrow> t | None \<Rightarrow> now, es_supply_id s)"

definition add_breakdown ::
  "engineer_supply \<times> rat \<Rightarrow> (string, rat \<times> string list) dict \<Rightarrow> (string, rat \<times> string list) dict" where
  "add_breakdown included breakdown =
     (case included of (s, quantity) \<Rightarrow>
        (case dict_get_or breakdown (es_source_type s) (0, []) of (amount, ids) \<Rightarrow>
           dict_set (es_source_type s) (amount + quantity, ids @ [es_supply_id s]) breakdown))"

definition linked_documents :: "(engineer_supply \<times> rat) list \<Rightarrow> (string \<times> string \<times> string) list" where
  "linked_documents included =
     map (\<lambda>(s, q). (opt_str (es_document_number s), opt_str (es_document_ref s), es_source_type s))
       (filter (\<lambda>(s, q). truthy (es_document_number s) \<or> truthy (es_document_ref s)) included)"

definition included_where :: "(engineer_supply \<Rightarrow> bool) \<Rightarrow> (engineer_supply \<times> rat) list \<Rightarrow> rat" where
  "included_where P included = sum_list (map snd (filter (\<lambda>(s, q). P s) included))"

definition truthy_texts :: "string option list \<Rightarrow> string list" where
  "truthy_texts ts = sort (uniq (List.map_filter (\<lambda>t. if truthy t then t else None) ts))"

definition impact_of ::
  "engineer_case \<Rightarrow> engineer_need \<Rightarrow> spec_material \<Rightarrow> instant \<Rightarrow> rat \<Rightarrow> engineer_criticality \<Rightarrow> critical_impact option" where
  "impact_of ecase need m required_date net criticality =
     (if criticality = Critical_Level then
        Some \<lparr>ci_production_order = or_str (ec_production_order_number ecase) (ec_production_order_1c_ref ecase),
              ci_production_stage = or_str (sm_stage_name m) (en_stage_name need),
              ci_shortage_start = required_date,
              ci_possible_stop = (if en_section_stop_risk need then Some required_date else None),
              ci_unprovided_quantity = (if 0 < sm_rate m then Some (net / sm_rate m) else None),
              ci_stops_stage = (en_stage_needs_material need \<or> en_section_stop_risk need)\<rparr>
      else None)"

definition engineer_line_of ::
  "engineer_case \<Rightarrow> instant \<Rightarrow> engineer_supply list \<Rightarrow> engineer_need \<Rightarrow> resource_spec \<Rightarrow> instant \<Rightarrow> spec_material \<Rightarrow>
   (string, rat) dict \<Rightarrow> (engineer_supply \<times> rat) list \<Rightarrow> engineer_excluded list \<Rightarrow> engineer_line" where
  "engineer_line_of ecase now supplies need spec required_date m remaining included excluded =
     (let gross = gross_of (needed_quantity need) m;
          before = sum_list (map (\<lambda>s. dict_get_or remaining (es_supply_id s) 0)
            (filter (\<lambda>s. usable m required_date s \<and> in_own_store ecase s) supplies));
          breakdown = fold add_breakdown included [];
          available = sum_list (map fst (dict_values breakdown));
          net = max 0 (gross - available);
          criticality = criticality_of need net now required_date (has_future breakdown);
          free = included_where (in_own_store ecase) included
      in \<lparr>ln_line_id = en_line_id need @ '':'' @ sm_line_id m, ln_nomenclature_id = sm_nomenclature_id m,
          ln_characteristic_id = sm_characteristic_id m, ln_unit = opt_str (sm_unit m),
          ln_production_order = or_str (ec_production_order_number ecase) (ec_production_order_1c_ref ecase),
          ln_production_stage = or_str (sm_stage_name m) (en_stage_name need),
          ln_product_quantity = needed_quantity need, ln_gross = gross, ln_free_stock = free,
          ln_other_stock = included_where (in_other_store ecase) included, ln_stock_before = before, ln_stock_used = free,
          ln_stock_remaining = max 0 (before - free),
          ln_confirmed_arrivals = sum_list (map (\<lambda>t. fst (dict_get_or breakdown t (0, []))) FUTURE_SUPPLY_TYPES),
          ln_total_available = available, ln_net = net, ln_required_date = required_date, ln_criticality = criticality,
          ln_outcome = outcome_of gross net breakdown criticality, ln_specification_id = rs_specification_id spec,
          ln_breakdown = sort_key fst breakdown, ln_excluded = excluded, ln_documents = linked_documents included,
          ln_impact = impact_of ecase need m required_date net criticality,
          ln_evidence_ids = truthy_texts (rs_evidence_id spec # map (es_evidence_id \<circ> fst) included)\<rparr>)"

definition assess_material ::
  "engineer_case \<Rightarrow> instant \<Rightarrow> engineer_supply list \<Rightarrow> engineer_need \<Rightarrow> resource_spec \<Rightarrow> instant \<Rightarrow> spec_material \<Rightarrow>
   (string, rat) dict \<Rightarrow> engineer_line \<times> (string, rat) dict" where
  "assess_material ecase now supplies need spec required_date m remaining =
     (case serve m required_date (gross_of (needed_quantity need) m) 0 (sort_key (serving_order ecase now) supplies) remaining of
        (included, excluded, remaining1) \<Rightarrow>
          (engineer_line_of ecase now supplies need spec required_date m remaining included excluded, remaining1))"

fun assess_materials ::
  "engineer_case \<Rightarrow> instant \<Rightarrow> engineer_supply list \<Rightarrow> engineer_need \<Rightarrow> resource_spec \<Rightarrow> instant \<Rightarrow> spec_material list \<Rightarrow>
   (string, rat) dict \<Rightarrow> engineer_line list \<times> (string, rat) dict" where
  "assess_materials ecase now supplies need spec required_date [] remaining = ([], remaining)"
| "assess_materials ecase now supplies need spec required_date (m # ms) remaining =
     (case assess_material ecase now supplies need spec required_date m remaining of
        (line, remaining1) \<Rightarrow>
          (case assess_materials ecase now supplies need spec required_date ms remaining1 of
             (lines, remaining2) \<Rightarrow> (line # lines, remaining2)))"

text \<open>The requirements one after the other; \<open>None\<close> is the failed assertion that a need has a date.\<close>

fun assess_all ::
  "engineer_case \<Rightarrow> instant \<Rightarrow> engineer_supply list \<Rightarrow> (engineer_need \<times> resource_spec) list \<Rightarrow> (string, rat) dict \<Rightarrow>
   engineer_line list option" where
  "assess_all ecase now supplies [] remaining = Some []"
| "assess_all ecase now supplies ((need, spec) # rest) remaining =
     (case (case en_required_date need of Some t \<Rightarrow> Some t | None \<Rightarrow> ec_required_date ecase) of
        None \<Rightarrow> None
      | Some required_date \<Rightarrow>
          (case assess_materials ecase now supplies need spec required_date (rs_materials spec) remaining of
             (lines, remaining1) \<Rightarrow> map_option ((@) lines) (assess_all ecase now supplies rest remaining1)))"

section \<open>The assessment\<close>

definition effective_date :: "engineer_case \<Rightarrow> instant \<Rightarrow> engineer_need \<Rightarrow> instant" where
  "effective_date ecase now need =
     (case en_required_date need of Some t \<Rightarrow> t | None \<Rightarrow> (case ec_required_date ecase of Some t \<Rightarrow> t | None \<Rightarrow> now))"

definition chosen_spec ::
  "engineer_case \<Rightarrow> instant \<Rightarrow> resource_spec list \<Rightarrow> engineer_need \<Rightarrow> resource_spec option" where
  "chosen_spec ecase now specifications need =
     select_resource_specification need specifications (effective_date ecase now need)"

definition selected_needs ::
  "engineer_case \<Rightarrow> instant \<Rightarrow> resource_spec list \<Rightarrow> engineer_need list \<Rightarrow> (engineer_need \<times> resource_spec) list" where
  "selected_needs ecase now specifications needs =
     List.map_filter (\<lambda>n. map_option (\<lambda>s. (n, s)) (chosen_spec ecase now specifications n)) needs"

fun supply_conflicts :: "(string, engineer_supply) dict \<Rightarrow> engineer_supply list \<Rightarrow> engineer_issue list" where
  "supply_conflicts by_id [] = []"
| "supply_conflicts by_id (s # ss) =
     (case dict_get by_id (es_supply_id s) of
        None \<Rightarrow> [] | Some previous \<Rightarrow>
          if previous \<noteq> s then [issue ''conflicting_supply_duplicate'' (Some ''supply_id'') ''calculation'' None] else []) @
     supply_conflicts (dict_set (es_supply_id s) s by_id) ss"

definition engineer_issues ::
  "engineer_case \<Rightarrow> instant \<Rightarrow> engineer_need list \<Rightarrow> resource_spec list \<Rightarrow> engineer_supply list \<Rightarrow> engineer_issue list" where
  "engineer_issues ecase now needs specifications supplies =
     validate_case ecase needs @
     concat (map (\<lambda>n. validate_specification n (chosen_spec ecase now specifications n)) needs) @
     supply_conflicts [] supplies"

definition initial_remaining :: "engineer_supply list \<Rightarrow> (string, rat) dict" where
  "initial_remaining supplies = fold (\<lambda>s. dict_set (es_supply_id s) (es_quantity s)) supplies []"

definition calculate_engineer_assessment ::
  "engineer_case \<Rightarrow> engineer_need list \<Rightarrow> resource_spec list \<Rightarrow> engineer_supply list \<Rightarrow> string list \<Rightarrow> instant \<Rightarrow>
   assessment_output option" where
  "calculate_engineer_assessment ecase needs specifications supplies capability_issues now =
     (let issues = engineer_issues ecase now needs specifications supplies;
          selected = selected_needs ecase now specifications needs;
          capabilities = uniq capability_issues;
          default_date = (case ec_required_date ecase of Some t \<Rightarrow> t | None \<Rightarrow> now);
          aggregated = aggregate_selected_requirements default_date selected
      in if issues \<noteq> [] then
           Some \<lparr>eo_specifications = map snd selected, eo_positions = [], eo_validation_issues = issues,
                 eo_excluded_capabilities = capabilities, eo_evidence_ids = []\<rparr>
         else
           map_option (\<lambda>positions.
             \<lparr>eo_specifications = map snd aggregated, eo_positions = positions, eo_validation_issues = [],
              eo_excluded_capabilities = capabilities,
              eo_evidence_ids = sort (uniq (concat (map ln_evidence_ids positions)))\<rparr>)
             (assess_all ecase now supplies (sort_key (effective_date ecase now \<circ> fst) aggregated) (initial_remaining supplies)))"

end
