(* ===== verification/Engineer_Facts.thy ===== *)
theory Engineer_Facts
  imports Engineer
begin

text \<open>
  What the assessment of the preparation engineer guarantees: the specification it chooses, the balance of
  a line, that no supply is promised twice, that a deficit remains only when every usable supply is
  exhausted, and that aggregation keeps the requirements.
\<close>

section \<open>The chosen specification\<close>

lemma greatest_spec_max:
  "greatest_spec s ss \<in> set (s # ss) \<and> (\<forall>t \<in> set (s # ss). resource_key t \<le> resource_key (greatest_spec s ss))"
proof (induction ss arbitrary: s)
  case (Cons t ss)
  have "greatest_spec s (t # ss) = greatest_spec (if resource_key s < resource_key t then t else s) ss"
    by (simp add: greatest_spec_def)
  with Cons.IH [of "if resource_key s < resource_key t then t else s"] show ?case
    by (auto split: if_splits intro: order_trans less_imp_le)
qed (simp add: greatest_spec_def)

section \<open>The supplies as a pool\<close>

definition supply_left :: "(string, rat) dict \<Rightarrow> string \<Rightarrow> rat" where
  "supply_left remaining supply_id = dict_get_or remaining supply_id 0"

interpretation stock: independent_pool supply_draw supply_left
proof
  fix left :: rat and k j :: string and s
  assume "0 < left"
  then show "fst (supply_draw k left s) = max 0 (min left (supply_left s k))"
    and "supply_left (snd (supply_draw k left s)) k = supply_left s k - fst (supply_draw k left s)"
    and "supply_left (snd (supply_draw k left s)) j \<le> supply_left s j"
    by (auto simp: supply_draw_def supply_left_def Let_def)
  show "supply_left (snd (supply_draw k left s)) j = supply_left s j" if "j \<noteq> k"
    using that by (simp add: supply_draw_def supply_left_def Let_def)
qed

definition parts_of :: "(engineer_supply \<times> rat) list \<Rightarrow> (string \<times> rat) list" where
  "parts_of included = map (\<lambda>(s, q). (es_supply_id s, q)) included"

lemma parts_of_simps [simp]:
  "parts_of [] = []" "parts_of ((s, q) # included) = (es_supply_id s, q) # parts_of included"
  "parts_of (xs @ ys) = parts_of xs @ parts_of ys"
  by (simp_all add: parts_of_def)

lemma draw_all_done: "left \<le> 0 \<Longrightarrow> draw_all draw ks left s = ([], left, s)"
  by (cases ks) simp_all

lemma supply_draw_empty: "dict_get_or remaining k 0 \<le> 0 \<Longrightarrow> supply_draw k n remaining = (0, remaining)"
  by (simp add: supply_draw_def)

lemma supply_draw_takes: "0 < dict_get_or remaining k 0 \<Longrightarrow> supply_draw k n remaining =
    (min n (dict_get_or remaining k 0), dict_set k (dict_get_or remaining k 0 - min n (dict_get_or remaining k 0)) remaining)"
  by (simp add: supply_draw_def Let_def)

text \<open>The loop over the supplies is the greedy draw on those that are usable.\<close>

lemma serve_draws:
  assumes "serve m d gross taken ss remaining = (included, excluded, remaining1)"
  shows "draw_all supply_draw (map es_supply_id (filter (usable m d) ss)) (gross - taken) remaining =
    (parts_of included, gross - taken - parts_total (parts_of included), remaining1)"
  using assms
proof (induction ss arbitrary: taken remaining included excluded remaining1)
  case (Cons s ss)
  show ?case
  proof (cases "es_nomenclature_id s = sm_nomenclature_id m")
    case False
    with Cons show ?thesis by (simp add: usable_def)
  next
    case nom: True
    show ?thesis
    proof (cases "exclusion_reason m d s")
      case (Some r)
      with Cons nom show ?thesis by (auto simp: usable_def Let_def split: prod.splits)
    next
      case None
      then have u: "usable m d s" using nom by (simp add: usable_def)
      let ?a = "dict_get_or remaining (es_supply_id s) 0"
      show ?thesis
      proof (cases "?a \<le> 0")
        case True
        then obtain ex where e: "serve m d gross taken ss remaining = (included, ex, remaining1)"
          using Cons.prems nom None by (auto simp: Let_def split: prod.splits)
        from Cons.IH [OF this] have ih: "draw_all supply_draw (map es_supply_id (filter (usable m d) ss)) (gross - taken) remaining =
          (parts_of included, gross - taken - parts_total (parts_of included), remaining1)" .
        show ?thesis
        proof (cases "gross - taken \<le> 0")
          case True
          then show ?thesis using ih by (simp add: draw_all_done)
        next
          case False
          then show ?thesis using ih u \<open>?a \<le> 0\<close> by (simp add: supply_draw_empty)
        qed
      next
        case pos: False
        show ?thesis
        proof (cases "gross - taken \<le> 0")
          case True
          then have "included = []" "remaining1 = remaining" using Cons.prems nom None pos by (simp_all add: Let_def)
          with True show ?thesis by (simp add: draw_all_done)
        next
          case False
          then obtain inc where i: "serve m d gross (taken + min (gross - taken) ?a) ss
              (dict_set (es_supply_id s) (?a - min (gross - taken) ?a) remaining) = (inc, excluded, remaining1)"
            "included = (s, min (gross - taken) ?a) # inc"
            using Cons.prems nom None pos by (auto simp: Let_def supply_draw_takes max_def split: prod.splits if_splits)
          from Cons.IH [OF i(1)] False pos u show ?thesis
            by (simp add: i(2) supply_draw_takes algebra_simps min_def)
        qed
      qed
    qed
  qed
qed simp

lemma serve_usable: "serve m d gross taken ss remaining = (included, excluded, remaining1) \<Longrightarrow>
    \<forall>(s, q) \<in> set included. s \<in> set ss \<and> usable m d s \<and> 0 < q"
proof (induction ss arbitrary: taken remaining included excluded remaining1)
  case (Cons s ss)
  let ?a = "dict_get_or remaining (es_supply_id s) 0"
  show ?case
  proof (cases "usable m d s \<and> 0 < ?a \<and> taken < gross")
    case True
    then obtain inc where i: "serve m d gross (taken + min (gross - taken) ?a) ss
        (dict_set (es_supply_id s) (?a - min (gross - taken) ?a) remaining) = (inc, excluded, remaining1)"
      "included = (s, min (gross - taken) ?a) # inc"
      using Cons.prems by (auto simp: Let_def usable_def supply_draw_takes max_def split: prod.splits if_splits)
    from Cons.IH [OF i(1)] True i(2) show ?thesis by auto
  next
    case False
    then have "included = [] \<or> (\<exists>ex. serve m d gross taken ss remaining = (included, ex, remaining1))"
      using Cons.prems by (auto simp: Let_def usable_def max_def split: prod.splits if_splits)
    with Cons.IH show ?thesis by fastforce
  qed
qed simp

section \<open>Sums over dictionaries\<close>

lemma dict_set_sum:
  fixes f :: "'v \<Rightarrow> rat"
  assumes "distinct (dict_keys d)"
  shows "sum_list (map f (dict_values (dict_set k v d))) =
    sum_list (map f (dict_values d)) - (case dict_get d k of None \<Rightarrow> 0 | Some w \<Rightarrow> f w) + f v"
  using assms by (induction d) (auto simp: dict_set_def dict_get_def split: option.splits)

lemma add_breakdown_distinct: "distinct (dict_keys d) \<Longrightarrow> distinct (dict_keys (fold add_breakdown included d))"
  by (induction included arbitrary: d) (auto simp: add_breakdown_def split: prod.splits)

lemma breakdown_sum:
  "distinct (dict_keys d) \<Longrightarrow> sum_list (map fst (dict_values (fold add_breakdown included d))) =
    sum_list (map fst (dict_values d)) + parts_total (parts_of included)"
proof (induction included arbitrary: d)
  case (Cons i included)
  obtain s q where i: "i = (s, q)" by fastforce
  have "distinct (dict_keys (add_breakdown i d))" using Cons.prems add_breakdown_distinct [of d "[i]"] by simp
  from Cons.IH [OF this] show ?case
    using dict_set_sum [OF Cons.prems, of fst "es_source_type s"]
    by (auto simp: i add_breakdown_def dict_get_or_def split: prod.splits option.splits)
qed simp

lemma included_where_total:
  "\<forall>(s, q) \<in> set included. 0 < q \<Longrightarrow> (\<And>s. P s \<Longrightarrow> \<not> Q s) \<Longrightarrow>
    0 \<le> included_where P included \<and> included_where P included + included_where Q included \<le> parts_total (parts_of included)"
proof (induction included)
  case (Cons i included)
  obtain s q where i: "i = (s, q)" by fastforce
  have "0 \<le> included_where Q xs" if "\<forall>(s, q) \<in> set xs. 0 < q" for xs
    using that unfolding included_where_def by (induction xs) (auto split: if_splits)
  with Cons show ?case by (auto simp: i included_where_def)
qed (simp add: included_where_def)

section \<open>One line\<close>

lemma assess_materialE:
  assumes "assess_material ecase now supplies need spec d m remaining = (line, remaining1)"
  obtains included excluded where
    "serve m d (gross_of (needed_quantity need) m) 0 (sort_key (serving_order ecase now) supplies) remaining =
      (included, excluded, remaining1)"
    "line = engineer_line_of ecase now supplies need spec d m remaining included excluded"
  using assms by (auto simp: assess_material_def split: prod.splits)

lemma line_parts:
  assumes "assess_material ecase now supplies need spec d m remaining = (line, remaining1)"
  obtains ps where "draw_all supply_draw
      (map es_supply_id (filter (usable m d) (sort_key (serving_order ecase now) supplies))) (ln_gross line) remaining =
      (ps, ln_gross line - ln_total_available line, remaining1)"
    "ln_total_available line = parts_total ps" "\<forall>(j, q) \<in> set ps. 0 < q"
    "\<forall>(j, q) \<in> set ps. \<exists>s \<in> set supplies. es_supply_id s = j \<and> es_nomenclature_id s = sm_nomenclature_id m"
    "0 \<le> ln_free_stock line" "ln_free_stock line + ln_other_stock line \<le> ln_total_available line"
    "ln_net line = max 0 (ln_gross line - ln_total_available line)" "ln_nomenclature_id line = sm_nomenclature_id m"
proof -
  obtain included excluded where
    sv: "serve m d (gross_of (needed_quantity need) m) 0 (sort_key (serving_order ecase now) supplies) remaining =
      (included, excluded, remaining1)"
    and l: "line = engineer_line_of ecase now supplies need spec d m remaining included excluded"
    using assms by (rule assess_materialE)
  have t: "ln_total_available line = parts_total (parts_of included)" "ln_gross line = gross_of (needed_quantity need) m"
    using breakdown_sum [of "[]" included] by (simp_all add: l engineer_line_of_def Let_def)
  have u: "\<forall>(s, q) \<in> set included. s \<in> set supplies \<and> usable m d s \<and> 0 < q"
    using serve_usable [OF sv] by simp
  have f: "0 \<le> included_where (in_own_store ecase) included \<and>
    included_where (in_own_store ecase) included + included_where (in_other_store ecase) included \<le> parts_total (parts_of included)"
    by (rule included_where_total) (use u in \<open>auto simp: in_own_store_def in_other_store_def\<close>)
  show ?thesis
  proof (rule that [of "parts_of included"])
    show "draw_all supply_draw (map es_supply_id (filter (usable m d) (sort_key (serving_order ecase now) supplies)))
        (ln_gross line) remaining = (parts_of included, ln_gross line - ln_total_available line, remaining1)"
      using serve_draws [OF sv] t by simp
    show "\<forall>(j, q) \<in> set (parts_of included). 0 < q" using u by (auto simp: parts_of_def)
    show "\<forall>(j, q) \<in> set (parts_of included). \<exists>s \<in> set supplies. es_supply_id s = j \<and> es_nomenclature_id s = sm_nomenclature_id m"
      using u by (auto simp: parts_of_def usable_def)
  qed (use t f in \<open>simp_all add: l engineer_line_of_def Let_def\<close>)
qed

lemma line_balanced:
  assumes "assess_material ecase now supplies need spec d m remaining = (line, remaining1)" "0 \<le> ln_gross line"
  shows "ln_total_available line + ln_net line = ln_gross line" "0 \<le> ln_net line" "0 \<le> ln_total_available line"
    "0 < ln_net line \<Longrightarrow> s \<in> set supplies \<Longrightarrow> usable m d s \<Longrightarrow> supply_left remaining1 (es_supply_id s) \<le> 0"
proof -
  obtain ps where ps: "draw_all supply_draw
      (map es_supply_id (filter (usable m d) (sort_key (serving_order ecase now) supplies))) (ln_gross line) remaining =
      (ps, ln_gross line - ln_total_available line, remaining1)"
    "ln_total_available line = parts_total ps" "\<forall>(j, q) \<in> set ps. 0 < q"
    "ln_net line = max 0 (ln_gross line - ln_total_available line)"
    using assms(1) by (rule line_parts)
  from stock.draw_all_left_bounds [OF ps(1) assms(2)] have b: "0 \<le> ln_gross line - ln_total_available line"
    "0 \<le> ln_total_available line" by simp_all
  then show "ln_total_available line + ln_net line = ln_gross line" "0 \<le> ln_net line" "0 \<le> ln_total_available line"
    using ps(4) by simp_all
  show "supply_left remaining1 (es_supply_id s) \<le> 0" if "0 < ln_net line" "s \<in> set supplies" "usable m d s"
    using stock.draw_all_exhausts [OF ps(1) _ assms(2)] that ps(4) b by auto
qed

section \<open>All lines\<close>

definition ids_of :: "string \<Rightarrow> engineer_supply list \<Rightarrow> string set" where
  "ids_of n supplies = es_supply_id ` {s \<in> set supplies. es_nomenclature_id s = n}"

definition total_for :: "string \<Rightarrow> engineer_line list \<Rightarrow> rat" where
  "total_for n lines = sum_list (map ln_total_available (filter (\<lambda>l. ln_nomenclature_id l = n) lines))"

definition pool_for :: "string \<Rightarrow> engineer_supply list \<Rightarrow> (string, rat) dict \<Rightarrow> rat" where
  "pool_for n supplies remaining = (\<Sum>j \<in> ids_of n supplies. supply_left remaining j)"

lemma finite_ids [simp]: "finite (ids_of n supplies)"
  by (simp add: ids_of_def)

lemma parts_total_by_source:
  "finite S \<Longrightarrow> fst ` set ps \<subseteq> S \<Longrightarrow> parts_total ps = (\<Sum>j \<in> S. taken_from ps j)"
proof (induction ps)
  case (Cons p ps)
  have "(\<Sum>j \<in> S. taken_from (p # ps) j) = (\<Sum>j \<in> S. if fst p = j then snd p else 0) + (\<Sum>j \<in> S. taken_from ps j)"
    by (simp add: sum.distrib)
  also have "(\<Sum>j \<in> S. if fst p = j then snd p else 0) = snd p"
    using Cons.prems by (simp add: sum.delta')
  finally show ?case using Cons by simp
qed simp

lemma taken_nonneg: "\<forall>(j, q) \<in> set ps. 0 < q \<Longrightarrow> 0 \<le> taken_from ps j"
  by (induction ps) auto

text \<open>A line takes its supply from the ids of its nomenclature; the other ids lose nothing to it.\<close>

lemma line_takes:
  assumes "assess_material ecase now supplies need spec d m remaining = (line, remaining1)" "\<forall>j. 0 \<le> supply_left remaining j"
  shows "total_for n [line] + pool_for n supplies remaining1 \<le> pool_for n supplies remaining \<and>
    (\<forall>j. 0 \<le> supply_left remaining1 j)"
proof -
  obtain ps where ps: "draw_all supply_draw
      (map es_supply_id (filter (usable m d) (sort_key (serving_order ecase now) supplies))) (ln_gross line) remaining =
      (ps, ln_gross line - ln_total_available line, remaining1)"
    "ln_total_available line = parts_total ps" "\<forall>(j, q) \<in> set ps. 0 < q"
    "\<forall>(j, q) \<in> set ps. \<exists>s \<in> set supplies. es_supply_id s = j \<and> es_nomenclature_id s = sm_nomenclature_id m"
    "ln_nomenclature_id line = sm_nomenclature_id m"
    using assms(1) by (rule line_parts)
  note acc = stock.draw_all_accounts [OF ps(1)]
  have "\<forall>j. 0 \<le> supply_left remaining1 j" using acc assms(2) by blast
  moreover have "total_for n [line] + pool_for n supplies remaining1 \<le> pool_for n supplies remaining"
  proof (cases "ln_nomenclature_id line = n")
    case True
    have "fst ` set ps \<subseteq> ids_of n supplies" using ps(4,5) True by (force simp: ids_of_def)
    then have "ln_total_available line = (\<Sum>j \<in> ids_of n supplies. taken_from ps j)"
      using parts_total_by_source [OF finite_ids] ps(2) by simp
    moreover have "pool_for n supplies remaining = pool_for n supplies remaining1 + (\<Sum>j \<in> ids_of n supplies. taken_from ps j)"
      unfolding pool_for_def sum.distrib [symmetric] using acc by (intro sum.cong) simp_all
    ultimately show ?thesis using True by (simp add: total_for_def)
  next
    case False
    have "supply_left remaining1 j \<le> supply_left remaining j" for j
      using acc [of j] taken_nonneg [OF ps(3), of j] by linarith
    then show ?thesis using False by (simp add: total_for_def pool_for_def sum_mono)
  qed
  ultimately show ?thesis by blast
qed

lemma total_for_append [simp]: "total_for n (xs @ ys) = total_for n xs + total_for n ys"
  by (simp add: total_for_def)

lemma materials_take:
  assumes "assess_materials ecase now supplies need spec d ms remaining = (lines, remaining1)" "\<forall>j. 0 \<le> supply_left remaining j"
  shows "total_for n lines + pool_for n supplies remaining1 \<le> pool_for n supplies remaining \<and>
    (\<forall>j. 0 \<le> supply_left remaining1 j)"
  using assms
proof (induction ms arbitrary: remaining lines)
  case Nil
  then show ?case by (simp add: total_for_def)
next
  case (Cons m ms)
  obtain line r1 ls where l: "assess_material ecase now supplies need spec d m remaining = (line, r1)"
    "assess_materials ecase now supplies need spec d ms r1 = (ls, remaining1)" "lines = line # ls"
    using Cons.prems(1) by (auto split: prod.splits)
  have "total_for n lines = total_for n [line] + total_for n ls" by (simp add: l(3) total_for_def)
  moreover from line_takes [OF l(1) Cons.prems(2), of n]
  have "total_for n [line] + pool_for n supplies r1 \<le> pool_for n supplies remaining" "\<forall>j. 0 \<le> supply_left r1 j" by blast+
  ultimately show ?case using Cons.IH [OF l(2)] by fastforce
qed

lemma all_take:
  assumes "assess_all ecase now supplies selected remaining = Some lines" "\<forall>j. 0 \<le> supply_left remaining j"
  shows "total_for n lines \<le> pool_for n supplies remaining"
  using assms
proof (induction ecase now supplies selected remaining arbitrary: lines rule: assess_all.induct)
  case (1 ecase now supplies remaining)
  then show ?case by (auto simp: total_for_def pool_for_def intro: sum_nonneg)
next
  case (2 ecase now supplies need spec rest remaining)
  obtain d ls r1 ls' where a: "(case en_required_date need of Some t \<Rightarrow> Some t | None \<Rightarrow> ec_required_date ecase) = Some d"
    "assess_materials ecase now supplies need spec d (rs_materials spec) remaining = (ls, r1)"
    "assess_all ecase now supplies rest r1 = Some ls'" "lines = ls @ ls'"
    using "2.prems"(1) by (auto split: option.splits prod.splits)
  from materials_take [OF a(2) "2.prems"(2), of n] have b: "total_for n ls + pool_for n supplies r1 \<le> pool_for n supplies remaining"
    "\<forall>j. 0 \<le> supply_left r1 j" by blast+
  from "2.IH" [OF a(1) a(2) [symmetric] a(3) b(2)] b(1) show ?case by (simp add: a(4))
qed

section \<open>The pool at the start\<close>

lemma conflicts_agree:
  "supply_conflicts by_id ss = [] \<Longrightarrow> \<forall>s \<in> set ss. \<forall>t. dict_get by_id (es_supply_id s) = Some t \<longrightarrow> t = s"
proof (induction ss arbitrary: by_id)
  case (Cons s ss)
  from Cons.prems have s: "\<forall>t. dict_get by_id (es_supply_id s) = Some t \<longrightarrow> t = s" by (auto split: option.splits if_splits)
  from Cons.prems have "supply_conflicts (dict_set (es_supply_id s) s by_id) ss = []" by (simp split: option.splits if_splits)
  from Cons.IH [OF this] s show ?case by (auto split: if_splits)
qed simp

lemma no_conflicts:
  "supply_conflicts by_id ss = [] \<Longrightarrow> s \<in> set ss \<Longrightarrow> t \<in> set ss \<Longrightarrow> es_supply_id s = es_supply_id t \<Longrightarrow> s = t"
proof (induction ss arbitrary: by_id)
  case (Cons u ss)
  from Cons.prems(1) have c: "supply_conflicts (dict_set (es_supply_id u) u by_id) ss = []" by (simp split: option.splits if_splits)
  from conflicts_agree [OF c] have "\<forall>s \<in> set ss. es_supply_id s = es_supply_id u \<longrightarrow> s = u" by auto
  with Cons.IH [OF c] Cons.prems(2-4) show ?case by (metis set_ConsD)
qed simp

lemma initial_left:
  "dict_get (fold (\<lambda>s. dict_set (es_supply_id s) (es_quantity s)) ss d) j =
     (if \<exists>s \<in> set ss. es_supply_id s = j then Some (es_quantity (last (filter (\<lambda>s. es_supply_id s = j) ss)))
      else dict_get d j)"
  by (induction ss arbitrary: d) (auto simp: filter_empty_conv)

lemma pool_start:
  assumes "supply_conflicts [] supplies = []"
  shows "pool_for n supplies (initial_remaining supplies) =
    sum_list (map es_quantity (filter (\<lambda>s. es_nomenclature_id s = n) (uniq supplies)))"
proof -
  let ?T = "{s \<in> set supplies. es_nomenclature_id s = n}"
  have q: "supply_left (initial_remaining supplies) (es_supply_id s) = es_quantity s" if "s \<in> set supplies" for s
  proof -
    have "last (filter (\<lambda>t. es_supply_id t = es_supply_id s) supplies) \<in> set (filter (\<lambda>t. es_supply_id t = es_supply_id s) supplies)"
      using that by (intro last_in_set) (auto simp: filter_empty_conv)
    then have "last (filter (\<lambda>t. es_supply_id t = es_supply_id s) supplies) = s"
      using no_conflicts [OF assms _ that] by auto
    with that show ?thesis by (auto simp: supply_left_def initial_remaining_def dict_get_or_def initial_left)
  qed
  have inj: "inj_on es_supply_id ?T" using no_conflicts [OF assms] by (auto intro!: inj_onI)
  have "pool_for n supplies (initial_remaining supplies) = (\<Sum>s \<in> ?T. supply_left (initial_remaining supplies) (es_supply_id s))"
    unfolding pool_for_def ids_of_def by (rule sum.reindex_cong [OF inj refl]) simp
  also have "\<dots> = (\<Sum>s \<in> ?T. es_quantity s)" by (rule sum.cong) (simp_all add: q)
  also have "\<dots> = sum_list (map es_quantity (filter (\<lambda>s. es_nomenclature_id s = n) (uniq supplies)))"
    by (subst sum_list_distinct_conv_sum_set) auto
  finally show ?thesis .
qed

lemma initial_nonneg:
  "\<forall>s \<in> set supplies. 0 \<le> es_quantity s \<Longrightarrow> 0 \<le> supply_left (initial_remaining supplies) j"
proof -
  assume a: "\<forall>s \<in> set supplies. 0 \<le> es_quantity s"
  show ?thesis
  proof (cases "\<exists>s \<in> set supplies. es_supply_id s = j")
    case True
    then have "last (filter (\<lambda>s. es_supply_id s = j) supplies) \<in> set supplies"
      using last_in_set [of "filter (\<lambda>s. es_supply_id s = j) supplies"] by (auto simp: filter_empty_conv)
    with a True show ?thesis by (auto simp: supply_left_def initial_remaining_def dict_get_or_def initial_left)
  qed (simp add: supply_left_def initial_remaining_def dict_get_or_def initial_left)
qed

section \<open>Aggregation\<close>

text \<open>What a requirement asks of a nomenclature; \<open>the_material\<close> is the only material of its specification.\<close>

definition the_material :: "requirement \<Rightarrow> spec_material" where
  "the_material r = hd (rs_materials (rq_spec r))"

definition gross_for :: "string \<Rightarrow> rat \<Rightarrow> spec_material \<Rightarrow> rat" where
  "gross_for n quantity m = (if sm_nomenclature_id m = n then gross_of quantity m else 0)"

definition grouped_ok :: "instant \<Rightarrow> engineer_need list \<Rightarrow> (requirement_key, requirement) dict \<Rightarrow> bool" where
  "grouped_ok d needs grouped \<longleftrightarrow> distinct (dict_keys grouped) \<and>
     (\<forall>(k, r) \<in> set grouped. \<exists>m. rs_materials (rq_spec r) = [m] \<and> k = requirement_key d (rq_need r) m \<and>
        rq_need r \<in> set needs)"

lemma gross_for_add: "gross_for n (q + q') m = gross_for n q m + gross_for n q' m"
  by (simp add: gross_for_def gross_of_def algebra_simps)

lemma same_key_gross:
  "requirement_key d need m = requirement_key d need' m' \<Longrightarrow> gross_for n q m = gross_for n q m'"
  by (auto simp: requirement_key_def gross_for_def gross_of_def)

definition grouped_gross :: "string \<Rightarrow> (requirement_key, requirement) dict \<Rightarrow> rat" where
  "grouped_gross n grouped = sum_list (map (\<lambda>r. gross_for n (rq_quantity r) (the_material r)) (dict_values grouped))"

lemma add_requirement_ok:
  assumes "grouped_ok d needs grouped" "need \<in> set needs"
  shows "grouped_ok d needs (add_requirement d need spec m grouped) \<and>
    grouped_gross n (add_requirement d need spec m grouped) = grouped_gross n grouped + gross_for n (needed_quantity need) m"
proof -
  let ?k = "requirement_key d need m"
  have dist: "distinct (dict_keys grouped)" using assms(1) by (simp add: grouped_ok_def)
  show ?thesis
  proof (cases "dict_get grouped ?k")
    case None
    let ?r = "\<lparr>rq_need = need, rq_spec = spec\<lparr>rs_materials := [m]\<rparr>, rq_quantity = needed_quantity need, rq_line_ids = [en_line_id need]\<rparr>"
    have e: "add_requirement d need spec m grouped = dict_set ?k ?r grouped" by (simp add: add_requirement_def None Let_def)
    have "?k \<notin> set (dict_keys grouped)" using None dict_get_iff [OF dist] by auto (metis option.distinct(1))
    then have "dict_set ?k ?r grouped = grouped @ [(?k, ?r)]"
      unfolding dict_set_def by (induction grouped) auto
    then show ?thesis using assms \<open>?k \<notin> _\<close> unfolding e
      by (auto simp: grouped_ok_def grouped_gross_def the_material_def)
  next
    case (Some r)
    let ?r = "r\<lparr>rq_quantity := rq_quantity r + needed_quantity need, rq_line_ids := rq_line_ids r @ [en_line_id need]\<rparr>"
    have e: "add_requirement d need spec m grouped = dict_set ?k ?r grouped" by (simp add: add_requirement_def Some Let_def)
    have "(?k, r) \<in> set grouped" using Some by (rule dict_get_Some_in)
    then obtain m' where m': "rs_materials (rq_spec r) = [m']" "?k = requirement_key d (rq_need r) m'" "rq_need r \<in> set needs"
      using assms(1) by (auto simp: grouped_ok_def)
    have "(k, v) \<in> set grouped \<or> k = ?k \<and> v = ?r" if "(k, v) \<in> set (dict_set ?k ?r grouped)" for k v
      using that dist dict_get_iff [OF distinct_dict_set [OF dist, of ?k ?r]] dict_get_iff [OF dist]
      by (metis dict_get_set option.inject)
    then have "grouped_ok d needs (dict_set ?k ?r grouped)"
      using assms(1) m' distinct_dict_set [OF dist] unfolding grouped_ok_def by fastforce
    moreover have "grouped_gross n (dict_set ?k ?r grouped) = grouped_gross n grouped + gross_for n (needed_quantity need) m'"
      unfolding grouped_gross_def dict_set_sum [OF dist] using Some m'(1) by (simp add: the_material_def gross_for_add)
    ultimately show ?thesis unfolding e using same_key_gross [OF m'(2)] by simp
  qed
qed

definition spec_gross :: "string \<Rightarrow> engineer_need \<times> resource_spec \<Rightarrow> rat" where
  "spec_gross n ns = sum_list (map (gross_for n (needed_quantity (fst ns))) (rs_materials (snd ns)))"

lemma add_materials_ok:
  assumes "grouped_ok d needs grouped" "need \<in> set needs"
  shows "grouped_ok d needs (fold (add_requirement d need spec) ms grouped) \<and>
    grouped_gross n (fold (add_requirement d need spec) ms grouped) =
      grouped_gross n grouped + sum_list (map (gross_for n (needed_quantity need)) ms)"
  using assms
proof (induction ms arbitrary: grouped)
  case (Cons m ms)
  from add_requirement_ok [OF Cons.prems, of spec m n] Cons.IH [of "add_requirement d need spec m grouped"] Cons.prems(2)
  show ?case by simp
qed simp

lemma group_ok:
  assumes "grouped_ok d needs grouped" "fst ` set selected \<subseteq> set needs"
  shows "grouped_ok d needs (fold (\<lambda>(need, spec). fold (add_requirement d need spec) (rs_materials spec)) selected grouped) \<and>
    grouped_gross n (fold (\<lambda>(need, spec). fold (add_requirement d need spec) (rs_materials spec)) selected grouped) =
      grouped_gross n grouped + sum_list (map (spec_gross n) selected)"
  using assms
proof (induction selected arbitrary: grouped)
  case (Cons ns selected)
  obtain need spec where ns: "ns = (need, spec)" by fastforce
  have "need \<in> set needs" using Cons.prems(2) ns by auto
  from add_materials_ok [OF Cons.prems(1) this, of spec "rs_materials spec" n]
    Cons.IH [of "fold (add_requirement d need spec) (rs_materials spec) grouped"] Cons.prems(2)
  show ?case by (simp add: ns spec_gross_def)
qed simp

lemma grouped_requirements:
  assumes "fst ` set selected \<subseteq> set needs"
  shows "grouped_ok d needs (group_requirements d selected)"
    "grouped_gross n (group_requirements d selected) = sum_list (map (spec_gross n) selected)"
  using group_ok [of d needs "[]" selected n] assms
  by (simp_all add: group_requirements_def grouped_ok_def grouped_gross_def)

lemma merged_quantity: "needed_quantity (fst (merged_need r)) = rq_quantity r"
  by (simp add: needed_quantity_def merged_need_def)

lemma merged_gross:
  assumes "rs_materials (rq_spec r) = [m]"
  shows "spec_gross n (merged_need r) = gross_for n (rq_quantity r) (the_material r)"
  using assms by (simp add: spec_gross_def merged_quantity the_material_def) (simp add: merged_need_def)

lemma aggregated_gross:
  assumes "fst ` set selected \<subseteq> set needs"
  shows "sum_list (map (spec_gross n) (aggregate_selected_requirements d selected)) = sum_list (map (spec_gross n) selected)"
proof -
  have ok: "grouped_ok d needs (group_requirements d selected)" using grouped_requirements(1) [OF assms] .
  have "map (spec_gross n) (aggregate_selected_requirements d selected) =
    map (\<lambda>r. gross_for n (rq_quantity r) (the_material r)) (dict_values (group_requirements d selected))"
    using ok merged_gross by (fastforce simp: aggregate_selected_requirements_def grouped_ok_def)
  then show ?thesis using grouped_requirements(2) [OF assms, of n d] by (simp only: grouped_gross_def)
qed

section \<open>Lines of a requirement\<close>

definition lines_gross :: "string \<Rightarrow> engineer_line list \<Rightarrow> rat" where
  "lines_gross n lines = sum_list (map ln_gross (filter (\<lambda>l. ln_nomenclature_id l = n) lines))"

lemma line_gross:
  assumes "assess_material ecase now supplies need spec d m remaining = (line, remaining1)"
  shows "ln_gross line = gross_of (needed_quantity need) m" "ln_nomenclature_id line = sm_nomenclature_id m"
  using assms by (auto elim!: assess_materialE simp: engineer_line_of_def Let_def)

lemma materials_gross:
  "assess_materials ecase now supplies need spec d ms remaining = (lines, remaining1) \<Longrightarrow>
    lines_gross n lines = sum_list (map (gross_for n (needed_quantity need)) ms) \<and> length lines = length ms"
proof (induction ms arbitrary: remaining lines)
  case (Cons m ms)
  obtain line r1 ls where l: "assess_material ecase now supplies need spec d m remaining = (line, r1)"
    "assess_materials ecase now supplies need spec d ms r1 = (ls, remaining1)" "lines = line # ls"
    using Cons.prems(1) by (auto split: prod.splits)
  from Cons.IH [OF l(2)] line_gross [OF l(1)] show ?case by (auto simp: l(3) lines_gross_def gross_for_def)
qed (simp add: lines_gross_def)

lemma all_gross:
  "assess_all ecase now supplies selected remaining = Some lines \<Longrightarrow>
    lines_gross n lines = sum_list (map (spec_gross n) selected) \<and>
    length lines = sum_list (map (length \<circ> rs_materials \<circ> snd) selected)"
proof (induction ecase now supplies selected remaining arbitrary: lines rule: assess_all.induct)
  case (2 ecase now supplies need spec rest remaining)
  obtain d ls r1 ls' where a: "(case en_required_date need of Some t \<Rightarrow> Some t | None \<Rightarrow> ec_required_date ecase) = Some d"
    "assess_materials ecase now supplies need spec d (rs_materials spec) remaining = (ls, r1)"
    "assess_all ecase now supplies rest r1 = Some ls'" "lines = ls @ ls'"
    using "2.prems"(1) by (auto split: option.splits prod.splits)
  from "2.IH" [OF a(1) a(2) [symmetric] a(3)] materials_gross [OF a(2), of n] show ?case
    by (simp add: a(4) lines_gross_def spec_gross_def)
qed (simp add: lines_gross_def)

lemma all_answers:
  "\<forall>ns \<in> set selected. en_required_date (fst ns) \<noteq> None \<or> ec_required_date ecase \<noteq> None \<Longrightarrow>
    \<exists>lines. assess_all ecase now supplies selected remaining = Some lines"
proof (induction selected arbitrary: remaining)
  case (Cons ns selected)
  obtain need spec where ns: "ns = (need, spec)" by fastforce
  from Cons.prems obtain d where d: "(case en_required_date need of Some t \<Rightarrow> Some t | None \<Rightarrow> ec_required_date ecase) = Some d"
    by (cases "en_required_date need") (auto simp: ns)
  obtain ls r1 where l: "assess_materials ecase now supplies need spec d (rs_materials spec) remaining = (ls, r1)" by fastforce
  from Cons.IH [of r1] Cons.prems obtain ls' where "assess_all ecase now supplies selected r1 = Some ls'" by auto
  with d l show ?case by (simp add: ns)
qed simp

section \<open>The output\<close>

lemma selected_needs_sub: "fst ` set (selected_needs ecase now specifications needs) \<subseteq> set needs"
  by (auto simp: selected_needs_def set_map_filter)

lemma dated_needs:
  assumes "validate_case ecase needs = []" "need \<in> set needs"
  shows "en_required_date need \<noteq> None \<or> ec_required_date ecase \<noteq> None"
proof -
  have "validate_need ecase need = []" using assms by (auto simp: validate_case_def concat_eq_Nil_conv)
  then show ?thesis by (auto simp: validate_need_def split: if_splits)
qed

definition default_date :: "engineer_case \<Rightarrow> instant \<Rightarrow> instant" where
  "default_date ecase now = (case ec_required_date ecase of Some t \<Rightarrow> t | None \<Rightarrow> now)"

definition aggregated_needs ::
  "engineer_case \<Rightarrow> instant \<Rightarrow> resource_spec list \<Rightarrow> engineer_need list \<Rightarrow> (engineer_need \<times> resource_spec) list" where
  "aggregated_needs ecase now specifications needs =
     aggregate_selected_requirements (default_date ecase now) (selected_needs ecase now specifications needs)"

lemma assessment_cases:
  assumes "calculate_engineer_assessment ecase needs specifications supplies capabilities now = Some out"
  obtains (stopped) "engineer_issues ecase now needs specifications supplies \<noteq> []" "eo_positions out = []"
      "eo_validation_issues out = engineer_issues ecase now needs specifications supplies"
    | (assessed) "engineer_issues ecase now needs specifications supplies = []" "eo_validation_issues out = []"
      "assess_all ecase now supplies (sort_key (effective_date ecase now \<circ> fst) (aggregated_needs ecase now specifications needs))
        (initial_remaining supplies) = Some (eo_positions out)"
  using assms
  by (auto simp: calculate_engineer_assessment_def aggregated_needs_def default_date_def Let_def split: if_splits)

lemma aggregated_dated:
  assumes "validate_case ecase needs = []" "ns \<in> set (aggregated_needs ecase now specifications needs)"
  shows "en_required_date (fst ns) \<noteq> None \<or> ec_required_date ecase \<noteq> None"
proof -
  obtain r where r: "r \<in> set (dict_values (group_requirements (default_date ecase now) (selected_needs ecase now specifications needs)))"
    "ns = merged_need r"
    using assms(2) by (auto simp: aggregated_needs_def aggregate_selected_requirements_def)
  from grouped_requirements(1) [OF selected_needs_sub, of "default_date ecase now"] r(1) have "rq_need r \<in> set needs"
    by (fastforce simp: grouped_ok_def)
  from dated_needs [OF assms(1) this] show ?thesis by (simp add: r(2) merged_need_def)
qed

lemma assessment_answers:
  "\<exists>out. calculate_engineer_assessment ecase needs specifications supplies capabilities now = Some out"
proof (cases "engineer_issues ecase now needs specifications supplies = []")
  case True
  then have v: "validate_case ecase needs = []" by (simp add: engineer_issues_def)
  have "\<forall>ns \<in> set (sort_key (effective_date ecase now \<circ> fst) (aggregated_needs ecase now specifications needs)).
      en_required_date (fst ns) \<noteq> None \<or> ec_required_date ecase \<noteq> None"
    using aggregated_dated [OF v] by (metis set_sort)
  from all_answers [OF this] obtain lines where "assess_all ecase now supplies
      (sort_key (effective_date ecase now \<circ> fst) (aggregated_needs ecase now specifications needs)) (initial_remaining supplies) = Some lines"
    by blast
  with True show ?thesis by (simp add: calculate_engineer_assessment_def aggregated_needs_def default_date_def Let_def)
qed (simp add: calculate_engineer_assessment_def Let_def)

section \<open>Merged needs and duplicates\<close>

text \<open>Of merged needs the first one decides the criticality: the flags of the others are lost.\<close>

lemma merging_keeps_first_flags:
  assumes "requirement_key d n1 m = requirement_key d n2 m" "rs_materials spec = [m]"
  shows "\<exists>need. aggregate_selected_requirements d [(n1, spec), (n2, spec)] = [(need, spec)] \<and>
    en_critical_order need = en_critical_order n1 \<and> en_section_stop_risk need = en_section_stop_risk n1 \<and>
    en_stage_needs_material need = en_stage_needs_material n1 \<and> en_lead_days need = en_lead_days n1"
proof -
  let ?k = "requirement_key d n2 m"
  have "spec\<lparr>rs_materials := [m]\<rparr> = spec" using assms(2) by (cases spec) simp
  moreover have "dict_values (dict_set ?k v [(?k, w)]) = [v]" for v w :: requirement by (simp add: dict_set_def)
  moreover have "dict_set ?k v [] = [(?k, v)]" for v :: requirement by (simp add: dict_set_def)
  ultimately show ?thesis
    using assms by (simp add: aggregate_selected_requirements_def group_requirements_def add_requirement_def Let_def merged_need_def dict_get_def)
qed

text \<open>A supply listed twice with the same data is no conflict; the stock before the line counts it twice.\<close>

lemma duplicate_stock_counted_twice:
  assumes "usable m d s" "in_own_store ecase s"
  shows "supply_conflicts [] [s, s] = [] \<and>
    ln_stock_before (engineer_line_of ecase now [s, s] need spec d m remaining included excluded) =
      2 * supply_left remaining (es_supply_id s)"
  using assms by (simp add: engineer_line_of_def Let_def supply_left_def)

section \<open>Examples\<close>

definition demo_engineer_case :: engineer_case where
  "demo_engineer_case =
     \<lparr>ec_source_1c_ref = ''ref'', ec_source_status = Some ''open'', ec_warehouse_1c_ref = Some ''w'', ec_required_date = Some 0,
      ec_production_order_1c_ref = Some ''po'', ec_production_order_number = None\<rparr>"

definition demo_engineer_need :: engineer_need where
  "demo_engineer_need =
     \<lparr>en_line_id = ''1'', en_nomenclature_id = ''p'', en_characteristic_id = None, en_unit = Some ''pcs'',
      en_product_quantity = Some 8, en_direct_quantity = None, en_required_date = None, en_project_id = None, en_stage_id = None,
      en_stage_name = None, en_warehouse_id = None, en_stage_needs_material = False, en_analog_available = None,
      en_critical_order = False, en_section_stop_risk = False, en_long_lead_time = False, en_lead_days = None\<rparr>"

definition demo_material :: spec_material where
  "demo_material =
     \<lparr>sm_line_id = ''m1'', sm_nomenclature_id = ''m'', sm_nomenclature_name = ''bolt'', sm_characteristic_id = None,
      sm_unit = Some ''pcs'', sm_rate = 1, sm_loss_percent = 0, sm_stage_id = Some ''st'', sm_stage_name = None,
      sm_use_conditions = None\<rparr>"

definition demo_spec :: resource_spec where
  "demo_spec =
     \<lparr>rs_specification_id = ''s'', rs_version = None, rs_status = ''active'', rs_deletion_mark = False, rs_valid_from = None,
      rs_valid_to = None, rs_product_id = ''p'', rs_product_characteristic_id = None, rs_approved = True,
      rs_completeness_score = 0, rs_materials = [demo_material], rs_evidence_id = None\<rparr>"

definition demo_engineer_supply :: engineer_supply where
  "demo_engineer_supply =
     \<lparr>es_supply_id = ''a'', es_source_type = ''warehouse'', es_nomenclature_id = ''m'', es_characteristic_id = None,
      es_unit = ''pcs'', es_quantity = 5, es_warehouse_id = None, es_available_at = None, es_confirmed = True,
      es_reserved_for_other = False, es_safety_stock_forbidden = False, es_incoming_control_passed = True,
      es_quarantine = False, es_defective = False, es_blocked = False, es_expired = False, es_suitable = True,
      es_exact_match = True, es_use_allowed = True, es_document_number = None, es_document_ref = None, es_evidence_id = None\<rparr>"

section \<open>Properties\<close>

text \<open>
  The assessment always answers.  When something is missing it names the issues and gives no line; else
  the lines ask, nomenclature by nomenclature, for what the chosen specifications of the needs ask together:
  merging equal requirements loses nothing and counts nothing twice.
\<close>

lemma engineer_requirements_kept:
  "\<exists>out. calculate_engineer_assessment ecase needs specifications supplies capabilities now = Some out \<and>
    (if engineer_issues ecase now needs specifications supplies \<noteq> []
     then eo_positions out = [] \<and> eo_validation_issues out = engineer_issues ecase now needs specifications supplies
     else eo_validation_issues out = [] \<and>
       (\<forall>n. sum_list (map ln_gross (filter (\<lambda>l. ln_nomenclature_id l = n) (eo_positions out))) =
         sum_list (map (\<lambda>(need, spec). sum_list (map (gross_of (needed_quantity need))
           (filter (\<lambda>m. sm_nomenclature_id m = n) (rs_materials spec)))) (selected_needs ecase now specifications needs))))"
proof -
  obtain out where o: "calculate_engineer_assessment ecase needs specifications supplies capabilities now = Some out"
    using assessment_answers by blast
  have w: "spec_gross n (need, spec) = sum_list (map (gross_of (needed_quantity need))
      (filter (\<lambda>m. sm_nomenclature_id m = n) (rs_materials spec)))" for n need spec
  proof -
    have "sum_list (map (gross_for n q) ms) = sum_list (map (gross_of q) (filter (\<lambda>m. sm_nomenclature_id m = n) ms))" for q ms
      by (induction ms) (simp_all add: gross_for_def)
    then show ?thesis by (simp add: spec_gross_def)
  qed
  from o show ?thesis
  proof (cases rule: assessment_cases)
    case stopped
    with o show ?thesis by auto
  next
    case assessed
    let ?agg = "aggregated_needs ecase now specifications needs"
    have "lines_gross n (eo_positions out) = sum_list (map (spec_gross n) (selected_needs ecase now specifications needs))" for n
    proof -
      have "lines_gross n (eo_positions out) = sum_list (map (spec_gross n) (sort_key (effective_date ecase now \<circ> fst) ?agg))"
        using all_gross [OF assessed(3)] by blast
      also have "\<dots> = sum_list (map (spec_gross n) ?agg)"
        unfolding sum_mset_sum_list [symmetric] mset_map mset_sort ..
      also have "\<dots> = sum_list (map (spec_gross n) (selected_needs ecase now specifications needs))"
        unfolding aggregated_needs_def using aggregated_gross [OF selected_needs_sub] .
      finally show ?thesis .
    qed
    then show ?thesis using o assessed(1,2) by (auto simp: lines_gross_def w case_prod_beta' intro!: arg_cong [where f = sum_list])
  qed
qed

text \<open>
  C36: A line adds up: what is taken from the supplies and what remains to be procured are the requirement,
  and something remains only when every usable supply is exhausted.  The outcome is a deficit exactly when
  something remains, and a critical one, with its impact, exactly when the criticality is critical.
\<close>

lemma engineer_line_correct:
  assumes "assess_material ecase now supplies need spec d m remaining = (line, remaining1)" "0 \<le> ln_gross line"
  shows "ln_total_available line + ln_net line = ln_gross line \<and> 0 \<le> ln_total_available line \<and> 0 \<le> ln_net line \<and>
    ln_free_stock line + ln_other_stock line \<le> ln_total_available line \<and>
    (0 < ln_net line \<longrightarrow> (\<forall>s \<in> set supplies. usable m d s \<longrightarrow> dict_get_or remaining1 (es_supply_id s) 0 \<le> 0)) \<and>
    (ln_outcome line \<in> {Critical_Shortage, Partially_Covered, Procurement_Required}) = (0 < ln_net line) \<and>
    (ln_outcome line = Critical_Shortage) = (ln_criticality line = Critical_Level) \<and>
    (ln_impact line \<noteq> None) = (ln_criticality line = Critical_Level)"
proof -
  obtain included excluded where l: "line = engineer_line_of ecase now supplies need spec d m remaining included excluded"
    using assms(1) by (rule assess_materialE)
  have "ln_criticality line = Critical_Level \<Longrightarrow> 0 < ln_net line"
    by (auto simp: l engineer_line_of_def criticality_of_def Let_def split: if_splits)
  then have "(ln_outcome line \<in> {Critical_Shortage, Partially_Covered, Procurement_Required}) = (0 < ln_net line)"
    "(ln_outcome line = Critical_Shortage) = (ln_criticality line = Critical_Level)"
    by (auto simp: l engineer_line_of_def outcome_of_def Let_def)
  moreover have "(ln_impact line \<noteq> None) = (ln_criticality line = Critical_Level)"
    by (simp add: l engineer_line_of_def impact_of_def Let_def)
  moreover have "ln_free_stock line + ln_other_stock line \<le> ln_total_available line" using assms(1) by (rule line_parts)
  ultimately show ?thesis using line_balanced [OF assms] by (auto simp: supply_left_def)
qed

lemma engineer_line_correct_witness:
  "\<exists>line remaining1. assess_material demo_engineer_case 0 [demo_engineer_supply] demo_engineer_need demo_spec 0 demo_material
      [(''a'', 5)] = (line, remaining1) \<and> ln_gross line = 8 \<and> ln_total_available line + ln_net line = 8"
proof -
  obtain line remaining1 where a: "assess_material demo_engineer_case 0 [demo_engineer_supply] demo_engineer_need demo_spec 0
      demo_material [(''a'', 5)] = (line, remaining1)" by fastforce
  have "ln_gross line = 8" using line_gross(1) [OF a]
    by (simp add: gross_of_def needed_quantity_def demo_engineer_need_def demo_material_def)
  with engineer_line_correct [OF a] a show ?thesis by auto
qed

text \<open>
  C18: Over all lines of an assessment, what is counted as available of a nomenclature is never more than its
  supplies hold together, each counted once.
\<close>

lemma engineer_promises_once:
  assumes "calculate_engineer_assessment ecase needs specifications supplies capabilities now = Some out"
    "\<forall>s \<in> set supplies. 0 \<le> es_quantity s"
  shows "sum_list (map ln_total_available (filter (\<lambda>l. ln_nomenclature_id l = n) (eo_positions out))) \<le>
    sum_list (map es_quantity (filter (\<lambda>s. es_nomenclature_id s = n) (uniq supplies)))"
  using assms(1)
proof (cases rule: assessment_cases)
  case stopped
  have "0 \<le> sum_list (map es_quantity (filter (\<lambda>s. es_nomenclature_id s = n) (uniq supplies)))"
    using assms(2) by (intro sum_list_map_nonneg) auto
  then show ?thesis by (simp add: stopped(2))
next
  case assessed
  have "supply_conflicts [] supplies = []" using assessed(1) by (simp add: engineer_issues_def)
  from all_take [OF assessed(3) allI [OF initial_nonneg [OF assms(2)]], of n] pool_start [OF this, of n]
  show ?thesis by (simp add: total_for_def)
qed

lemma engineer_promises_once_witness:
  "\<exists>out. calculate_engineer_assessment demo_engineer_case [demo_engineer_need] [demo_spec] [demo_engineer_supply] [] 0 = Some out \<and>
    sum_list (map ln_gross (eo_positions out)) = 8 \<and>
    sum_list (map ln_total_available (filter (\<lambda>l. ln_nomenclature_id l = ''m'') (eo_positions out))) \<le> 5"
proof -
  let ?out = "calculate_engineer_assessment demo_engineer_case [demo_engineer_need] [demo_spec] [demo_engineer_supply] [] 0"
  have g: "map_option (\<lambda>out. sum_list (map ln_gross (eo_positions out))) ?out = Some 8" by code_simp
  then obtain out where o: "?out = Some out" by (cases ?out) simp_all
  have "es_quantity demo_engineer_supply = 5" "es_nomenclature_id demo_engineer_supply = ''m''" by (simp_all add: demo_engineer_supply_def)
  with engineer_promises_once [OF o, of "''m''"] g o show ?thesis by simp
qed

end
