(* ===== verification/Supplier_Abc.thy ===== *)
theory Supplier_Abc
  imports Pricing Iso_Time
begin

text \<open>
  The ABC classes of suppliers by purchase spend
  (\<open>app/agents/procurement_manager_agent/supplier_abc.py\<close>): the classification by cumulative share, the
  spend estimated from the bank, the cache file, and the refresh that is throttled to once in an
  interval.  Shares are exact; the text of a number in the cache is the number.  The file is its parsed
  content, \<open>None\<close> when it is missing or unreadable; the answer of the MCP server is an argument.
\<close>

section \<open>Classification\<close>

definition ABC_A_CUMULATIVE :: rat where "ABC_A_CUMULATIVE = 80 / 100"
definition ABC_B_CUMULATIVE :: rat where "ABC_B_CUMULATIVE = 95 / 100"

definition abc_rank :: "string option \<Rightarrow> nat" where
  "abc_rank abc =
     (if abc = Some ''A'' then 0 else if abc = Some ''B'' then 1 else if abc = Some ''C'' then 2 else 3)"

definition abc_sort_key :: "string option \<Rightarrow> nat" where
  "abc_sort_key abc = abc_rank (if abc \<in> {Some ''A'', Some ''B'', Some ''C''} then abc else None)"

definition abc_dec :: "json \<Rightarrow> rat" where
  "abc_dec v = (if jtruthy v then (case jdecimal v of Some x \<Rightarrow> x | None \<Rightarrow> 0) else 0)"

definition SHARE_Q :: rat where "SHARE_Q = 1 / 10000"

record abc_result =
  abc_supplier_id :: string
  abc_class :: string
  abc_spend :: rat
  abc_spend_share :: rat
  abc_cumulative_share :: rat
  abc_rank_no :: nat

definition abc_row :: "string \<times> json \<Rightarrow> (string \<times> rat) option" where
  "abc_row entry =
     (let sid = py_strip (fst entry); spend = abc_dec (snd entry)
      in if sid = [] then None else Some (sid, if spend < 0 then 0 else spend))"

definition abc_rows :: "(string, json) dict \<Rightarrow> (string \<times> rat) list" where
  "abc_rows spend_by_supplier = sort_key (\<lambda>(sid, spend). (- spend, sid)) (List.map_filter abc_row spend_by_supplier)"

definition abc_band :: "rat \<Rightarrow> rat \<Rightarrow> rat \<Rightarrow> string" where
  "abc_band a_threshold b_threshold prev =
     (if prev < a_threshold then ''A'' else if prev < b_threshold then ''B'' else ''C'')"

fun abc_loop :: "rat \<Rightarrow> rat \<Rightarrow> rat \<Rightarrow> (string \<times> rat) list \<Rightarrow> nat \<Rightarrow> rat \<Rightarrow> abc_result list" where
  "abc_loop a b whole [] index prev = []"
| "abc_loop a b whole ((sid, spend) # rows) index prev =
     \<lparr>abc_supplier_id = sid, abc_class = abc_band a b prev, abc_spend = spend,
      abc_spend_share = quantize_half_up SHARE_Q (spend / whole),
      abc_cumulative_share = quantize_half_up SHARE_Q (prev + spend / whole), abc_rank_no = index\<rparr>
     # abc_loop a b whole rows (index + 1) (prev + spend / whole)"

definition abc_total :: "(string \<times> rat) list \<Rightarrow> rat" where
  "abc_total rows = (let spent = sum_list (map snd rows) in if spent = 0 then 1 else spent)"

definition compute_abc_classes :: "(string, json) dict \<Rightarrow> rat \<Rightarrow> rat \<Rightarrow> (string, abc_result) dict" where
  "compute_abc_classes spend_by_supplier a_threshold b_threshold =
     (let rows = abc_rows spend_by_supplier
      in fold (\<lambda>r. dict_set (abc_supplier_id r) r) (abc_loop a_threshold b_threshold (abc_total rows) rows 1 0) [])"

section \<open>Spend estimated from the bank\<close>

definition offering_spend :: "jdict \<Rightarrow> rat" where
  "offering_spend offering =
     (let price = abc_dec (jget offering ''unit_price'');
          qty = abc_dec (jget_default offering ''available_quantity'' (jget offering ''available_qty''))
      in if price > 0 \<and> qty > 0 then price * qty else 0)"

definition supplier_spend :: "jdict \<Rightarrow> rat" where
  "supplier_spend supplier =
     (let offered = sum_list (map offering_spend (offerings_of supplier));
          history = jor (jget supplier ''purchase_history'') (jget supplier ''spend_12m'')
      in case history of
           JNull \<Rightarrow> offered
         | JObj d \<Rightarrow> offered
         | JArr rows \<Rightarrow> offered + sum_list (map (\<lambda>row. abc_dec (get_first row [''amount'', ''sum'', ''spend''])) (jobjects rows))
         | _ \<Rightarrow> max offered (abc_dec history))"

definition spend_proxy_from_bank :: "material_bank \<Rightarrow> (string, rat) dict" where
  "spend_proxy_from_bank bank =
     fold (\<lambda>supplier spend. let sid = jtext (jget supplier ''supplier_id'')
       in if sid = [] then spend else dict_set sid (supplier_spend supplier) spend) (active_suppliers bank) []"

section \<open>The cache and the bank\<close>

definition load_abc_cache :: "json option \<Rightarrow> jdict" where
  "load_abc_cache file =
     (case file of
        Some (JObj raw) \<Rightarrow> (if ''suppliers'' \<in> set (dict_keys raw) then raw else dict_set ''suppliers'' (JObj []) raw)
      | _ \<Rightarrow> [(''computed_at'', JNull), (''period_days'', JInt 365), (''suppliers'', JObj [])])"

definition get_cached_abc_class :: "json option \<Rightarrow> string \<Rightarrow> string option" where
  "get_cached_abc_class file supplier_id =
     (case jget (load_abc_cache file) ''suppliers'' of
        JObj suppliers \<Rightarrow>
          (case jget suppliers supplier_id of
             JObj row \<Rightarrow>
               (case jget row ''abc_class'' of
                  JStr abc \<Rightarrow> if abc \<in> {''A'', ''B'', ''C''} then Some abc else None
                | _ \<Rightarrow> None)
           | _ \<Rightarrow> None)
      | _ \<Rightarrow> None)"

definition annotate_supplier :: "(string, abc_result) dict \<Rightarrow> jdict \<Rightarrow> jdict" where
  "annotate_supplier classes supplier =
     (case dict_get classes (jtext (jget supplier ''supplier_id'')) of
        None \<Rightarrow> supplier
      | Some r \<Rightarrow> dict_set ''abc_spend'' (JDec (abc_spend r)) (dict_set ''abc_spend_share'' (JDec (abc_spend_share r))
          (dict_set ''abc_class'' (JStr (abc_class r)) supplier)))"

definition apply_abc_to_bank :: "(string, abc_result) dict \<Rightarrow> material_bank \<Rightarrow> material_bank \<times> nat" where
  "apply_abc_to_bank classes bank =
     (bank\<lparr>mb_suppliers := map (annotate_supplier classes) (mb_suppliers bank)\<rparr>,
      length (filter (\<lambda>s. dict_get classes (jtext (jget s ''supplier_id'')) \<noteq> None) (mb_suppliers bank)))"

section \<open>The refresh\<close>

definition HISTORY_COUNTERPARTY :: string where
  "HISTORY_COUNTERPARTY =
    [CHR 0xD0, CHR 0x9A, CHR 0xD0, CHR 0xBE, CHR 0xD0, CHR 0xBD, CHR 0xD1, CHR 0x82, CHR 0xD1, CHR
     0x80, CHR 0xD0, CHR 0xB0, CHR 0xD0, CHR 0xB3, CHR 0xD0, CHR 0xB5, CHR 0xD0, CHR 0xBD, CHR 0xD1,
     CHR 0x82, CHR 0x5F, CHR 0x4B, CHR 0x65, CHR 0x79]"

definition HISTORY_SUM :: string where
  "HISTORY_SUM =
    [CHR 0xD0, CHR 0xA1, CHR 0xD1, CHR 0x83, CHR 0xD0, CHR 0xBC, CHR 0xD0, CHR 0xBC, CHR 0xD0, CHR
     0xB0]"

datatype mcp_answer = No_Mcp | Mcp_Failed | Mcp_Payload json

definition history_supplier :: "jdict \<Rightarrow> string" where
  "history_supplier row = jtext (get_first row [''supplier_id'', HISTORY_COUNTERPARTY, ''Ref_Key''])"

definition add_history :: "jdict \<Rightarrow> (string, rat) dict \<Rightarrow> (string, rat) dict" where
  "add_history row spend =
     (let sid = history_supplier row
      in if sid = [] then spend
         else dict_set sid (dict_get_or spend sid 0 + abc_dec (get_first row [''amount'', ''spend'', HISTORY_SUM, ''total''])) spend)"

text \<open>A payload that is no object raises inside the \<open>try\<close>: the spend is empty then.\<close>

definition mcp_spend :: "mcp_answer \<Rightarrow> (string, rat) dict" where
  "mcp_spend answer =
     (case answer of
        Mcp_Payload (JObj payload) \<Rightarrow> fold add_history (jobjects (jlist (get_first payload [''suppliers'', ''items'', ''history'']))) []
      | _ \<Rightarrow> [])"

record abc_state =
  ab_bank :: material_bank
  ab_file :: "json option"
  ab_last_refresh :: "int option"

datatype abc_refresh = Throttled int | Refreshed nat nat bool

definition cache_entry :: "abc_result \<Rightarrow> json" where
  "cache_entry r = JObj [(''abc_class'', JStr (abc_class r)), (''abc_spend_share'', JDec (abc_spend_share r)),
     (''spend'', JDec (abc_spend r)), (''rank'', JInt (int (abc_rank_no r)))]"

definition cache_payload :: "int \<Rightarrow> bool \<Rightarrow> (string, abc_result) dict \<Rightarrow> json" where
  "cache_payload now proxy classes =
     JObj ([(''computed_at'', JStr (isoformat now)), (''period_days'', JInt 365)] @
       (if proxy then [(''source'', JStr ''bank_proxy'')] else []) @
       [(''suppliers'', JObj (map (\<lambda>(sid, r). (sid, cache_entry r)) classes))])"

definition jdec_values :: "(string, rat) dict \<Rightarrow> (string, json) dict" where
  "jdec_values spend = map (\<lambda>(sid, x). (sid, JDec x)) spend"

definition store_classes :: "int \<Rightarrow> bool \<Rightarrow> (string, json) dict \<Rightarrow> abc_state \<Rightarrow> abc_refresh \<times> abc_state" where
  "store_classes now proxy spend st =
     (let classes = compute_abc_classes spend ABC_A_CUMULATIVE ABC_B_CUMULATIVE
      in case apply_abc_to_bank classes (ab_bank st) of
           (bank, updated) \<Rightarrow>
             (Refreshed updated (length classes) proxy,
              st\<lparr>ab_bank := bank, ab_file := Some (cache_payload now proxy classes), ab_last_refresh := Some now\<rparr>))"

text \<open>What is left of the interval since the last refresh, in seconds.\<close>

definition throttle_left :: "int \<Rightarrow> rat \<Rightarrow> abc_state \<Rightarrow> rat option" where
  "throttle_left now min_interval st =
     (case ab_last_refresh st of
        None \<Rightarrow> None
      | Some done_at \<Rightarrow> (let elapsed = of_int (now - done_at) / 1000000
          in if elapsed < min_interval then Some (min_interval - elapsed) else None))"

definition refresh_supplier_abc_classes ::
  "int \<Rightarrow> mcp_answer \<Rightarrow> bool \<Rightarrow> (string, json) dict \<Rightarrow> rat \<Rightarrow> abc_state \<Rightarrow> abc_refresh \<times> abc_state" where
  "refresh_supplier_abc_classes now mcp force spend_by_supplier min_interval st =
     (case (if force then None else throttle_left now min_interval st) of
        Some wait \<Rightarrow> (Throttled (truncate_int wait), st)
      | None \<Rightarrow>
          (let spend = (if spend_by_supplier \<noteq> [] then spend_by_supplier else jdec_values (mcp_spend mcp))
           in if spend \<noteq> [] then store_classes now False spend st
              else store_classes now True (jdec_values (spend_proxy_from_bank (ab_bank st))) st))"

section \<open>The bands\<close>

lemma dict_set_absent: "k \<notin> set (dict_keys d) \<Longrightarrow> dict_set k v d = d @ [(k, v)]"
  by (induction d) (auto simp: dict_set_def)

lemma fold_dict_set_distinct:
  "distinct (dict_keys d @ map f rs) \<Longrightarrow> fold (\<lambda>r. dict_set (f r) r) rs d = d @ map (\<lambda>r. (f r, r)) rs"
  by (induction rs arbitrary: d) (auto simp: dict_set_absent)

lemma abc_loop_ids: "map abc_supplier_id (abc_loop a b w rows i prev) = map fst rows"
  by (induction rows arbitrary: i prev) auto

lemma abc_loop_spend: "map abc_spend (abc_loop a b w rows i prev) = map snd rows"
  by (induction rows arbitrary: i prev) auto

lemma abc_loop_member:
  assumes "r \<in> set (abc_loop a b w rows i prev)"
  obtains xs ys where "rows = xs @ (abc_supplier_id r, abc_spend r) # ys"
    "abc_class r = abc_band a b (prev + sum_list (map snd xs) / w)"
  using assms
proof (induction rows arbitrary: i prev thesis)
  case (Cons row rows)
  obtain sid x where row: "row = (sid, x)" by fastforce
  show ?case
  proof (cases "r \<in> set (abc_loop a b w rows (i + 1) (prev + x / w))")
    case True
    from Cons.IH [OF _ this] obtain xs ys where "rows = xs @ (abc_supplier_id r, abc_spend r) # ys"
      "abc_class r = abc_band a b (prev + x / w + sum_list (map snd xs) / w)" by blast
    then show ?thesis using Cons.prems(1) [of "row # xs" ys] by (simp add: row add_divide_distrib algebra_simps)
  next
    case False
    with Cons.prems(2) have "abc_supplier_id r = sid" "abc_spend r = x" "abc_class r = abc_band a b prev"
      by (auto simp: row)
    then show ?thesis using Cons.prems(1) [of "[]" rows] by (simp add: row)
  qed
qed simp

lemma abc_loop_reaches:
  "0 < w \<Longrightarrow> \<forall>row \<in> set rows. 0 \<le> snd row \<Longrightarrow>
    min a (prev + sum_list (map snd rows) / w) \<le>
    prev + sum_list (map abc_spend (filter (\<lambda>r. abc_class r = ''A'') (abc_loop a b w rows i prev))) / w"
proof (induction rows arbitrary: i prev)
  case (Cons row rows)
  obtain sid x where row: "row = (sid, x)" by fastforce
  let ?A = "\<lambda>i prev. sum_list (map abc_spend (filter (\<lambda>r. abc_class r = ''A'') (abc_loop a b w rows i prev)))"
  have nn: "\<forall>row \<in> set rows. 0 \<le> snd row" "0 \<le> x" using Cons.prems(2) by (auto simp: row)
  have "set (map abc_spend (abc_loop a b w rows (i + 1) (prev + x / w))) = set (map snd rows)"
    by (simp only: abc_loop_spend)
  then have "0 \<le> ?A (i + 1) (prev + x / w)"
    using nn(1) by (intro sum_list_map_nonneg) fastforce
  then have p: "0 \<le> ?A (i + 1) (prev + x / w) / w" using Cons.prems(1) by simp
  have ih: "min a (prev + x / w + sum_list (map snd rows) / w) \<le> prev + x / w + ?A (i + 1) (prev + x / w) / w"
    using Cons.IH [OF Cons.prems(1) nn(1)] .
  show ?case
  proof (cases "prev < a")
    case True
    then show ?thesis using ih by (simp add: row abc_band_def add_divide_distrib algebra_simps)
  next
    case False
    have "min a (prev + sum_list (map snd (row # rows)) / w) \<le> prev" using False by simp
    also have "\<dots> \<le> prev + ?A (i + 1) (prev + x / w) / w" using p by simp
    finally show ?thesis using False by (simp add: row abc_band_def)
  qed
qed simp

text \<open>Who stands before a supplier in the order of the rows: whoever spent more, or as much with a smaller id.\<close>

definition spent_ahead :: "(string \<times> rat) list \<Rightarrow> string \<Rightarrow> rat \<Rightarrow> rat" where
  "spent_ahead rows sid spend = sum_list (map snd (filter (\<lambda>(t, x). spend < x \<or> x = spend \<and> t < sid) rows))"

lemma spent_ahead_prefix:
  assumes "sorted (map (\<lambda>(sid, x). (- x, sid)) (xs @ (sid, x) # ys))" "distinct (map fst (xs @ (sid, x) # ys))"
    "mset rows = mset (xs @ (sid, x) # ys)"
  shows "spent_ahead rows sid x = sum_list (map snd xs)"
proof -
  let ?P = "\<lambda>(t, y). x < y \<or> y = x \<and> t < sid"
  let ?k = "\<lambda>(sid, x). (- x, sid)"
  have "\<forall>p \<in> set xs. fst p \<noteq> sid" using assms(2) by auto
  moreover have "\<forall>p \<in> set xs. ?k p \<le> ?k (sid, x)" "\<forall>p \<in> set ys. ?k (sid, x) \<le> ?k p"
    using assms(1) unfolding map_append list.map sorted_append sorted_simps by (simp_all del: less_eq_prod_simp)
  ultimately have s: "\<forall>(t, y) \<in> set xs. x < y \<or> x = y \<and> t < sid" "\<forall>(t, y) \<in> set ys. \<not> (x < y \<or> x = y \<and> t < sid)"
    by (fastforce simp: less_eq_prod_def)+
  have "filter ?P xs = xs" "filter ?P ((sid, x) # ys) = []"
    using s by (auto simp: filter_id_conv filter_empty_conv split: prod.splits)
  then have "filter ?P (xs @ (sid, x) # ys) = xs" by simp
  moreover have "mset (filter ?P rows) = mset (filter ?P (xs @ (sid, x) # ys))"
    using assms(3) by (metis mset_filter)
  ultimately show ?thesis unfolding spent_ahead_def by (metis sum_list_mset_eq)
qed

lemma abc_rows_mset: "mset (abc_rows spend) = mset (List.map_filter abc_row spend)"
  by (simp add: abc_rows_def)

lemma abc_rows_nonneg: "row \<in> set (List.map_filter abc_row spend) \<Longrightarrow> 0 \<le> snd row"
  by (auto simp: set_map_filter abc_row_def Let_def split: if_splits)

lemma compute_abc_list:
  assumes "distinct (map fst (List.map_filter abc_row spend))"
  shows "compute_abc_classes spend a b =
    map (\<lambda>r. (abc_supplier_id r, r)) (abc_loop a b (abc_total (abc_rows spend)) (abc_rows spend) 1 0)"
proof -
  have "distinct (map fst (abc_rows spend))"
    using assms abc_rows_mset by (metis mset_map mset_eq_imp_distinct_iff)
  then show ?thesis
    unfolding compute_abc_classes_def Let_def
    by (subst fold_dict_set_distinct) (simp_all add: abc_loop_ids)
qed

lemma abc_class_exact:
  assumes "distinct (map fst (List.map_filter abc_row spend))" "dict_get (compute_abc_classes spend a b) sid = Some r"
  shows "(sid, abc_spend r) \<in> set (List.map_filter abc_row spend) \<and>
    abc_class r = abc_band a b (spent_ahead (List.map_filter abc_row spend) sid (abc_spend r) /
      abc_total (List.map_filter abc_row spend))"
proof -
  let ?rows = "abc_rows spend" and ?given = "List.map_filter abc_row spend"
  have t: "abc_total ?rows = abc_total ?given"
    unfolding abc_total_def using sum_list_mset_eq [OF abc_rows_mset] by simp
  have d: "distinct (map fst ?rows)" using assms(1) abc_rows_mset by (metis mset_map mset_eq_imp_distinct_iff)
  have "(sid, r) \<in> set (compute_abc_classes spend a b)" using assms(2) by (rule dict_get_Some_in)
  then have "r \<in> set (abc_loop a b (abc_total ?rows) ?rows 1 0)" "abc_supplier_id r = sid"
    by (auto simp: compute_abc_list [OF assms(1)])
  then obtain xs ys where p: "?rows = xs @ (sid, abc_spend r) # ys"
    "abc_class r = abc_band a b (sum_list (map snd xs) / abc_total ?rows)"
    by (auto elim!: abc_loop_member)
  have "sorted (map (\<lambda>(sid, x). (- x, sid)) ?rows)" unfolding abc_rows_def by (rule sorted_sort_key)
  from spent_ahead_prefix [of xs sid "abc_spend r" ys ?given] this d abc_rows_mset [of spend]
  have "spent_ahead ?given sid (abc_spend r) = sum_list (map snd xs)" by (simp add: p(1))
  moreover have "(sid, abc_spend r) \<in> set ?given"
    using p(1) mset_eq_setD [OF abc_rows_mset [of spend]] by auto
  ultimately show ?thesis using p(2) t by simp
qed

lemma abc_domain:
  "distinct (map fst (List.map_filter abc_row spend)) \<Longrightarrow>
    dict_get (compute_abc_classes spend a b) sid = None \<longleftrightarrow> sid \<notin> fst ` set (List.map_filter abc_row spend)"
proof -
  assume d: "distinct (map fst (List.map_filter abc_row spend))"
  have "fst ` set (compute_abc_classes spend a b) = set (map fst (abc_rows spend))"
    by (simp add: compute_abc_list [OF d] image_image flip: abc_loop_ids [of a b "abc_total (abc_rows spend)" _ 1 0])
  also have "\<dots> = fst ` set (List.map_filter abc_row spend)"
    using mset_eq_setD [OF abc_rows_mset [of spend]] by simp
  finally show ?thesis by (simp add: dict_get_def map_of_eq_None_iff)
qed

lemma abc_pareto:
  assumes "distinct (map fst (List.map_filter abc_row spend))" "a \<le> 1"
    "0 < sum_list (map snd (List.map_filter abc_row spend))"
  shows "a * sum_list (map snd (List.map_filter abc_row spend)) \<le>
    sum_list (map abc_spend (filter (\<lambda>r. abc_class r = ''A'') (dict_values (compute_abc_classes spend a b))))"
proof -
  let ?rows = "abc_rows spend" and ?w = "sum_list (map snd (List.map_filter abc_row spend))"
  have w: "sum_list (map snd ?rows) = ?w" by (rule sum_list_mset_eq [OF abc_rows_mset])
  then have t: "abc_total ?rows = ?w" using assms(3) by (simp add: abc_total_def)
  have nn: "\<forall>row \<in> set ?rows. 0 \<le> snd row"
    using abc_rows_nonneg mset_eq_setD [OF abc_rows_mset [of spend]] by blast
  from abc_loop_reaches [OF assms(3) nn, of a 0 b 1] w assms(2,3)
  have "a \<le> sum_list (map abc_spend (filter (\<lambda>r. abc_class r = ''A'') (abc_loop a b ?w ?rows 1 0))) / ?w"
    by (simp add: min_def split: if_splits)
  then show ?thesis using assms(3) by (simp add: compute_abc_list [OF assms(1)] t pos_le_divide_eq comp_def)
qed

section \<open>Properties\<close>

text \<open>
  C19: The classes are those of a Pareto analysis.  Every supplier gets a class, by the share of the purchases made
  from the suppliers ahead of it (who spent more, or as much under a smaller id): A below the first threshold, B
  below the second, C from there on; and the suppliers of class A together hold at least the first
  threshold of everything spent.
\<close>

lemma abc_classes_pareto:
  assumes "distinct (map fst (List.map_filter abc_row spend))" "a \<le> 1"
  shows "(\<forall>sid. dict_get (compute_abc_classes spend a b) sid = None \<longleftrightarrow> sid \<notin> fst ` set (List.map_filter abc_row spend)) \<and>
    (\<forall>sid r. dict_get (compute_abc_classes spend a b) sid = Some r \<longrightarrow>
       (sid, abc_spend r) \<in> set (List.map_filter abc_row spend) \<and>
       abc_class r = (let ahead = sum_list (map snd (filter (\<lambda>(t, x). abc_spend r < x \<or> x = abc_spend r \<and> t < sid)
           (List.map_filter abc_row spend))) / abc_total (List.map_filter abc_row spend)
         in if ahead < a then ''A'' else if ahead < b then ''B'' else ''C'')) \<and>
    (0 < sum_list (map snd (List.map_filter abc_row spend)) \<longrightarrow>
       a * sum_list (map snd (List.map_filter abc_row spend)) \<le>
       sum_list (map abc_spend (filter (\<lambda>r. abc_class r = ''A'') (dict_values (compute_abc_classes spend a b)))))"
  using abc_domain [OF assms(1)] abc_class_exact [OF assms(1)] abc_pareto [OF assms]
  by (simp add: Let_def spent_ahead_def abc_band_def)

definition demo_spend :: "(string, json) dict" where
  "demo_spend = [(''a'', JInt 10), (''b'', JStr ''85''), (''c'', JInt 5), ('' '', JInt 9)]"

lemma abc_classes_pareto_witness:
  "map (\<lambda>(sid, r). (sid, abc_class r)) (compute_abc_classes demo_spend ABC_A_CUMULATIVE ABC_B_CUMULATIVE) =
     [(''b'', ''A''), (''a'', ''B''), (''c'', ''C'')] \<and>
   ABC_A_CUMULATIVE * 100 \<le> sum_list (map abc_spend (filter (\<lambda>r. abc_class r = ''A'')
     (dict_values (compute_abc_classes demo_spend ABC_A_CUMULATIVE ABC_B_CUMULATIVE))))"
proof -
  have "map (\<lambda>(sid, r). (sid, abc_class r)) (compute_abc_classes demo_spend ABC_A_CUMULATIVE ABC_B_CUMULATIVE) =
     [(''b'', ''A''), (''a'', ''B''), (''c'', ''C'')]" by code_simp
  moreover have "distinct (map fst (List.map_filter abc_row demo_spend))"
    "sum_list (map snd (List.map_filter abc_row demo_spend)) = 100" by code_simp+
  moreover have "ABC_A_CUMULATIVE \<le> 1" by (simp add: ABC_A_CUMULATIVE_def)
  ultimately show ?thesis using abc_classes_pareto [of demo_spend ABC_A_CUMULATIVE ABC_B_CUMULATIVE] by simp
qed

end
