(* ===== verification/Offer_Ranking.thy ===== *)
theory Offer_Ranking
  imports Supplier_Abc
begin

text \<open>
  The ranking of supplier offers for one need (\<open>app/agents/procurement_manager_agent/optimize.py\<close>:
  \<open>optimize_supplier_offers\<close>, \<open>rank_offers_for_need\<close>, \<open>_rank_for_wave_mode\<close>; \<open>delivery_schedule.py\<close>: the
  planned arrival and the deadline; \<open>supplier_ranking.py\<close>: \<open>rank_supplier_offers\<close>).  A date is its proleptic
  ordinal; the reader of dates is the extended ISO form (\<open>Iso_Time\<close>).  \<open>today\<close> and the cached class of a
  supplier are arguments.  A reason keeps its parts, not their wording.
\<close>

section \<open>Dates\<close>

type_synonym day = int

datatype date_value = DV_None | DV_Date day | DV_Instant int | DV_Text string

definition read_day :: "string \<Rightarrow> day option" where
  "read_day text = (case read_date (take 10 text) of Some (n, []) \<Rightarrow> Some n | _ \<Rightarrow> None)"

definition schedule_date :: "date_value \<Rightarrow> day option" where
  "schedule_date value =
     (case value of
        DV_None \<Rightarrow> None | DV_Date d \<Rightarrow> Some d | DV_Instant t \<Rightarrow> Some (instant_date t)
      | DV_Text s \<Rightarrow> if py_strip s = [] then None else read_day (py_strip s))"

text \<open>\<open>text.replace("Z", "+00:00")\<close>\<close>

definition zulu :: "string \<Rightarrow> string" where
  "zulu s = concat (map (\<lambda>c. if c = CHR ''Z'' then ''+00:00'' else [c]) s)"

definition optimizer_date :: "date_value \<Rightarrow> day option" where
  "optimizer_date value =
     (case value of
        DV_None \<Rightarrow> None | DV_Date d \<Rightarrow> Some d | DV_Instant t \<Rightarrow> Some (instant_date t)
      | DV_Text s \<Rightarrow>
          if py_strip s = [] then None
          else (case fromisoformat (zulu (py_strip s)) of
                  Some (wall, off) \<Rightarrow> Some (instant_date wall)
                | None \<Rightarrow> read_day (py_strip s)))"

section \<open>The delivery schedule\<close>

definition planned_arrival :: "int option \<Rightarrow> date_value \<Rightarrow> day \<Rightarrow> day option" where
  "planned_arrival supplier_lead_days supplier_ship_date as_of =
     (case schedule_date supplier_ship_date of
        Some ship \<Rightarrow> Some ship
      | None \<Rightarrow>
          (case supplier_lead_days of
             None \<Rightarrow> None | Some days \<Rightarrow> if days < 0 then None else Some (as_of + days)))"

definition offer_meets_deadline :: "date_value \<Rightarrow> int option \<Rightarrow> day \<Rightarrow> date_value \<Rightarrow> bool option" where
  "offer_meets_deadline required_date lead_time_days today supplier_ship_date =
     (case schedule_date required_date of
        None \<Rightarrow> Some True
      | Some req \<Rightarrow> map_option (\<lambda>arrival. arrival \<le> req) (planned_arrival lead_time_days supplier_ship_date today))"

record schedule =
  sc_lead_days :: "int option"
  sc_ship_date :: "string option"
  sc_planned_arrival :: "string option"
  sc_required_date :: "string option"
  sc_meets_deadline :: "bool option"
  sc_deadline_risk :: bool

definition ship_text :: "date_value \<Rightarrow> string option" where
  "ship_text value =
     (case value of
        DV_None \<Rightarrow> None | DV_Date d \<Rightarrow> Some (iso_date d)
      | DV_Instant t \<Rightarrow> Some (iso_date (instant_date t) @ ''T'' @ iso_clock (nat (t mod US_PER_DAY)))
      | DV_Text s \<Rightarrow> if s = [] then None else Some (take 10 s))"

definition compute_schedule :: "date_value \<Rightarrow> int option \<Rightarrow> date_value \<Rightarrow> day \<Rightarrow> schedule" where
  "compute_schedule required_date lead_days ship_date today =
     (let meets = offer_meets_deadline required_date lead_days today ship_date
      in \<lparr>sc_lead_days = lead_days, sc_ship_date = ship_text ship_date,
          sc_planned_arrival = map_option iso_date (planned_arrival lead_days ship_date today),
          sc_required_date = map_option iso_date (schedule_date required_date), sc_meets_deadline = meets,
          sc_deadline_risk = (meets = Some False)\<rparr>)"

section \<open>Reading an offer\<close>

definition SCORE_QUANT :: rat where "SCORE_QUANT = 1 / 10000"
definition MISSING_LEAD :: int where "MISSING_LEAD = 10 ^ 9"

definition round_score :: "rat \<Rightarrow> rat" where
  "round_score x = quantize_half_up SCORE_QUANT x"

definition round_money :: "rat \<Rightarrow> rat" where
  "round_money x = quantize_half_up CENT x"

text \<open>\<open>int(text)\<close>: digits with an optional sign between blanks.\<close>

definition read_int :: "string \<Rightarrow> int option" where
  "read_int s =
     (case py_strip s of
        [] \<Rightarrow> None
      | c # cs \<Rightarrow>
          if c = CHR ''-'' then (if cs = [] then None else map_option (\<lambda>n. - int n) (read_digits 0 cs))
          else if c = CHR ''+'' then (if cs = [] then None else map_option int (read_digits 0 cs))
          else map_option int (read_digits 0 (c # cs)))"

fun jint :: "json \<Rightarrow> int option" where
  "jint (JInt n) = Some n"
| "jint (JDec x) = Some (truncate_int x)"
| "jint (JBool b) = Some (if b then 1 else 0)"
| "jint (JStr s) = read_int s"
| "jint _ = None"

definition lead_days :: "jdict \<Rightarrow> int option" where
  "lead_days offer =
     (case jint (jget offer ''lead_time_days'') of
        Some days \<Rightarrow> if 0 \<le> days then Some days else None
      | None \<Rightarrow> None)"

definition single_offer_cost :: "rat \<Rightarrow> jdict \<Rightarrow> rat \<times> rat \<times> rat" where
  "single_offer_cost need offer =
     (let cover = greedy_cover_cost need [offer]
      in case cv_amount cover of
           None \<Rightarrow> (0, 0, 0)
         | Some amount \<Rightarrow> (amount, cv_overpay cover, cv_covered_qty cover))"

text \<open>\<open>available_qty\<close>, or \<open>available_quantity\<close> when it cannot be read.\<close>

definition optimizer_available :: "jdict \<Rightarrow> rat option" where
  "optimizer_available offer =
     (case price_dec (jget offer ''available_qty'') of
        Some q \<Rightarrow> Some q | None \<Rightarrow> price_dec (jget offer ''available_quantity''))"

definition upper_abc :: "string \<Rightarrow> string option" where
  "upper_abc s =
     (if s = ''A'' \<or> s = ''a'' then Some ''A'' else if s = ''B'' \<or> s = ''b'' then Some ''B''
      else if s = ''C'' \<or> s = ''c'' then Some ''C'' else None)"

definition offer_abc :: "(string \<Rightarrow> string option) \<Rightarrow> jdict \<Rightarrow> string option" where
  "offer_abc cached offer =
     (let raw = jget offer ''abc_class''
      in if jtruthy raw then upper_abc (jstr raw)
         else (case cached (jstring (jget offer ''supplier_id'')) of None \<Rightarrow> None | Some abc \<Rightarrow> upper_abc abc))"

section \<open>Candidates\<close>

record candidate =
  cd_offer :: jdict
  cd_supplier_id :: string
  cd_unit_price :: rat
  cd_available :: rat
  cd_coverable :: rat
  cd_ratio :: rat
  cd_total_cost :: rat
  cd_overpay :: rat
  cd_lead :: "int option"
  cd_meets :: "bool option"
  cd_abc :: "string option"
  cd_quality :: rat
  cd_delivery :: rat

definition offer_candidate ::
  "rat \<Rightarrow> date_value \<Rightarrow> day \<Rightarrow> (string \<Rightarrow> string option) \<Rightarrow> jdict \<Rightarrow> candidate option" where
  "offer_candidate need required_date today cached offer =
     (case (price_dec (jget offer ''unit_price''), optimizer_available offer) of
        (Some unit_price, Some available) \<Rightarrow>
          if unit_price < 0 \<or> available \<le> 0 then None
          else (let lead = lead_days offer
            in case single_offer_cost need offer of
              (total_cost, overpay, covered) \<Rightarrow>
                (let coverable = (if 0 < covered then min need covered else min need available)
                 in Some \<lparr>cd_offer = offer, cd_supplier_id = jstring (jget offer ''supplier_id''),
                      cd_unit_price = unit_price, cd_available = available, cd_coverable = coverable,
                      cd_ratio = coverable / need, cd_total_cost = total_cost, cd_overpay = overpay, cd_lead = lead,
                      cd_meets = offer_meets_deadline required_date lead today DV_None, cd_abc = offer_abc cached offer,
                      cd_quality = (case price_dec (jget offer ''quality_rating'') of Some q \<Rightarrow> q | None \<Rightarrow> 0),
                      cd_delivery = (case price_dec (jget offer ''delivery_rating'') of Some q \<Rightarrow> q | None \<Rightarrow> 0)\<rparr>))
      | _ \<Rightarrow> None)"

definition candidates ::
  "rat \<Rightarrow> date_value \<Rightarrow> day \<Rightarrow> (string \<Rightarrow> string option) \<Rightarrow> jdict list \<Rightarrow> candidate list" where
  "candidates need required_date today cached offers =
     List.map_filter (offer_candidate need required_date today cached) offers"

text \<open>The cost by which candidates are compared: that of the cover, or of the quantity when there is none.\<close>

definition cost_key :: "candidate \<Rightarrow> rat" where
  "cost_key c = (if 0 < cd_total_cost c then cd_total_cost c else cd_coverable c * cd_unit_price c)"

definition gate_key :: "candidate \<Rightarrow> nat \<times> nat" where
  "gate_key c = (if cd_meets c = Some True then 0 else 1, abc_sort_key (cd_abc c))"

definition rank_key ::
  "candidate \<Rightarrow> (nat \<times> nat) \<times> (rat \<times> rat) \<times> (int \<times> rat) \<times> (rat \<times> rat) \<times> string" where
  "rank_key c =
     (gate_key c, (- cd_coverable c, cost_key c),
      (case cd_lead c of Some d \<Rightarrow> d | None \<Rightarrow> MISSING_LEAD, cd_unit_price c), (- cd_quality c, - cd_delivery c),
      cd_supplier_id c)"

section \<open>The ranking\<close>

datatype reason_part =
    R_Deadline_Met | R_Deadline_Missed | R_Deadline_Unknown | R_Abc string | R_Overpay rat | R_Lead int | R_Cheapest
  | R_Full_Cover | R_Partial_Cover int | R_Deadline_Risk

record ranked_offer =
  ro_rank :: nat
  ro_supplier_id :: string
  ro_supplier_name :: string
  ro_nomenclature_id :: json
  ro_nomenclature_name :: json
  ro_unit_price :: rat
  ro_available :: rat
  ro_coverable :: rat
  ro_ratio :: rat
  ro_coverage_cost :: rat
  ro_total_cost :: rat
  ro_overpay :: rat
  ro_price_score :: rat
  ro_coverage_score :: rat
  ro_score :: rat
  ro_meets_deadline :: bool
  ro_deadline_status :: string
  ro_lead :: "int option"
  ro_abc :: "string option"
  ro_unit :: json
  ro_economy :: bool
  ro_reason :: "reason_part list"
  ro_deadline_risk :: bool

definition optimization_reason ::
  "bool option \<Rightarrow> rat \<Rightarrow> int option \<Rightarrow> rat \<Rightarrow> rat \<Rightarrow> rat \<Rightarrow> bool \<Rightarrow> string option \<Rightarrow> reason_part list" where
  "optimization_reason meets overpay lead unit_price min_price ratio deadline_risk abc =
     (case meets of Some True \<Rightarrow> [R_Deadline_Met] | Some False \<Rightarrow> [R_Deadline_Missed]
        | None \<Rightarrow> if deadline_risk then [R_Deadline_Unknown] else []) @
     (case abc of Some x \<Rightarrow> if x \<in> {''A'', ''B'', ''C''} then [R_Abc x] else [] | None \<Rightarrow> []) @
     (if 0 < overpay then [R_Overpay (round_money overpay)] else []) @
     (case lead of Some d \<Rightarrow> [R_Lead d] | None \<Rightarrow> []) @
     (if unit_price = min_price then [R_Cheapest] else []) @
     (if 1 \<le> ratio then [R_Full_Cover] else if 0 < ratio then [R_Partial_Cover (half_up (ratio * 100))] else []) @
     (if deadline_risk \<and> meets \<noteq> Some True then [R_Deadline_Risk] else [])"

definition offer_prices :: "jdict list \<Rightarrow> rat list" where
  "offer_prices offers = filter (\<lambda>p. 0 \<le> p) (List.map_filter (\<lambda>o'. price_dec (jget o' ''unit_price'')) offers)"

definition row_of_candidate ::
  "bool \<Rightarrow> bool \<Rightarrow> rat \<Rightarrow> rat \<Rightarrow> nat \<Rightarrow> nat \<Rightarrow> candidate \<Rightarrow> ranked_offer" where
  "row_of_candidate has_deadline deadline_risk min_price max_price n index c =
     (let meets = (if has_deadline then cd_meets c = Some True else True);
          price_score = (if max_price = min_price then 1 else (max_price - cd_unit_price c) / (max_price - min_price));
          quantity_cost = round_money (cd_coverable c * cd_unit_price c);
          ratio = round_score (cd_ratio c); overpay = round_money (cd_overpay c);
          unit_price = round_money (cd_unit_price c)
      in \<lparr>ro_rank = index, ro_supplier_id = cd_supplier_id c,
          ro_supplier_name = jstring (jor (jget (cd_offer c) ''supplier_name'') (jget (cd_offer c) ''supplier_id'')),
          ro_nomenclature_id = jget (cd_offer c) ''nomenclature_id'',
          ro_nomenclature_name = jget (cd_offer c) ''nomenclature_name'', ro_unit_price = unit_price,
          ro_available = cd_available c, ro_coverable = cd_coverable c, ro_ratio = ratio,
          ro_coverage_cost = (if cd_overpay c \<le> cd_total_cost c then round_money (cd_total_cost c - cd_overpay c)
            else quantity_cost),
          ro_total_cost = (if 0 < cd_total_cost c then round_money (cd_total_cost c) else quantity_cost),
          ro_overpay = overpay, ro_price_score = round_score price_score, ro_coverage_score = ratio,
          ro_score = round_score ((if meets then 1 / 2 else 0) + of_nat (n + 1 - index) / of_nat n * (4999 / 10000)),
          ro_meets_deadline = meets,
          ro_deadline_status = (case cd_meets c of Some True \<Rightarrow> ''ok'' | Some False \<Rightarrow> ''miss'' | None \<Rightarrow> ''unknown''),
          ro_lead = cd_lead c, ro_abc = cd_abc c, ro_unit = jor (jget (cd_offer c) ''unit'') (JStr PCS), ro_economy = False,
          ro_reason = optimization_reason (cd_meets c) overpay (cd_lead c) unit_price min_price ratio deadline_risk (cd_abc c),
          ro_deadline_risk = deadline_risk\<rparr>)"

fun number_rows :: "(nat \<Rightarrow> 'a \<Rightarrow> 'b) \<Rightarrow> nat \<Rightarrow> 'a list \<Rightarrow> 'b list" where
  "number_rows f index [] = []"
| "number_rows f index (x # xs) = f index x # number_rows f (index + 1) xs"

definition min_of :: "rat list \<Rightarrow> rat" where "min_of ps = fold min (tl ps) (hd ps)"
definition max_of :: "rat list \<Rightarrow> rat" where "max_of ps = fold max (tl ps) (hd ps)"

definition optimize_supplier_offers ::
  "rat \<Rightarrow> jdict list \<Rightarrow> date_value \<Rightarrow> day \<Rightarrow> nat \<Rightarrow> (string \<Rightarrow> string option) \<Rightarrow> ranked_offer list" where
  "optimize_supplier_offers need offers required_date today top_n cached =
     (let has_deadline = optimizer_date required_date \<noteq> None; prices = offer_prices offers;
          ranked = candidates need required_date today cached offers;
          deadline_risk = (has_deadline \<and> \<not> (\<exists>c \<in> set ranked. cd_meets c = Some True));
          top = take top_n (sort_key rank_key ranked)
      in if need \<le> 0 \<or> top_n = 0 \<or> offers = [] \<or> prices = [] then []
         else number_rows (row_of_candidate has_deadline deadline_risk (min_of prices) (max_of prices) (length top)) 1 top)"

definition rank_offers_for_need ::
  "string \<Rightarrow> rat \<Rightarrow> material_bank \<Rightarrow> date_value \<Rightarrow> day \<Rightarrow> nat \<Rightarrow> (string \<Rightarrow> string option) \<Rightarrow> ranked_offer list" where
  "rank_offers_for_need nomenclature_id need bank required_date today top_n cached =
     optimize_supplier_offers need (collect_supplier_offers nomenclature_id bank) required_date today top_n cached"

definition rank_supplier_offers ::
  "string \<Rightarrow> rat \<Rightarrow> material_bank \<Rightarrow> nat \<Rightarrow> date_value \<Rightarrow> day \<Rightarrow> (string \<Rightarrow> string option) \<Rightarrow> ranked_offer list" where
  "rank_supplier_offers nomenclature_id need bank top_n required_date today cached =
     (let raw = collect_supplier_offers nomenclature_id bank
      in if need \<le> 0 \<or> top_n = 0 \<or> raw = [] then []
         else optimize_supplier_offers need raw required_date today top_n cached)"

section \<open>The modes of a wave\<close>

datatype wave_mode = Urgent | Economy

text \<open>A cost or price of zero is false in Python: \<open>_dec(...) or Decimal("999999999")\<close>.\<close>

definition or_huge :: "rat \<Rightarrow> rat" where
  "or_huge x = (if x = 0 then 999999999 else x)"

definition economy_key :: "ranked_offer \<Rightarrow> rat \<times> int \<times> rat \<times> string" where
  "economy_key r =
     (or_huge (ro_total_cost r), case ro_lead r of Some d \<Rightarrow> d | None \<Rightarrow> MISSING_LEAD, or_huge (ro_unit_price r),
      ro_supplier_id r)"

definition rank_for_wave_mode ::
  "rat \<Rightarrow> jdict list \<Rightarrow> date_value \<Rightarrow> day \<Rightarrow> wave_mode \<Rightarrow> nat \<Rightarrow> (string \<Rightarrow> string option) \<Rightarrow> ranked_offer list" where
  "rank_for_wave_mode need offers required_date today mode top_n cached =
     (let ranked = optimize_supplier_offers need offers required_date today (max top_n (length offers)) cached
      in if mode \<noteq> Economy then take top_n ranked
         else (let met = filter ro_meets_deadline ranked; pool = (if met \<noteq> [] then met else ranked)
           in number_rows (\<lambda>index r. r\<lparr>ro_rank := index, ro_economy := True\<rparr>) 1 (take top_n (sort_key economy_key pool))))"

end
