(* ===== verification/Ranking_Facts.thy ===== *)
theory Ranking_Facts
  imports Offer_Ranking
begin

text \<open>
  What the ranking of offers guarantees: an offer counts for no more than it holds, the gates (deadline,
  then class) are never traded against cost, nothing better is left out of the list, and the
  displayed score tells the gate.
\<close>

section \<open>Numbered rows\<close>

lemma length_number_rows [simp]: "length (number_rows f i xs) = length xs"
  by (induction xs arbitrary: i) simp_all

lemma number_rows_nth [simp]: "k < length xs \<Longrightarrow> number_rows f i xs ! k = f (i + k) (xs ! k)"
proof (induction xs arbitrary: i k)
  case (Cons x xs)
  then show ?case by (cases k) simp_all
qed simp

lemma map_number_rows: "(\<And>i x. g (f i x) = h x) \<Longrightarrow> map g (number_rows f i xs) = map h xs"
  by (induction xs arbitrary: i) simp_all

lemma filter_number_rows:
  "(\<And>i x. P (f i x) = Q x) \<Longrightarrow> length (filter P (number_rows f i xs)) = length (filter Q xs)"
  by (induction xs arbitrary: i) simp_all

lemma number_rows_index: "(\<And>i x. g (f i x) = i) \<Longrightarrow> map g (number_rows f i xs) = [i..<i + length xs]"
proof (induction xs arbitrary: i)
  case (Cons x xs)
  from Cons.IH [of "i + 1"] Cons.prems show ?case by (simp add: upt_conv_Cons del: upt_Suc)
qed simp

lemma set_number_rows: "r \<in> set (number_rows f i xs) \<longleftrightarrow> (\<exists>k < length xs. r = f (i + k) (xs ! k))"
  by (auto simp: in_set_conv_nth)

text \<open>The first \<open>n\<close> of a sorted list hold as many elements below a bound as there is room for.\<close>

lemma take_sorted_below:
  fixes k :: "'a \<Rightarrow> 'b :: linorder"
  assumes "sorted (map k xs)"
  shows "length (filter (\<lambda>x. k x \<le> g) (take n xs)) = min n (length (filter (\<lambda>x. k x \<le> g) xs))"
  using assms
proof (induction xs arbitrary: n)
  case (Cons x xs)
  show ?case
  proof (cases n)
    case (Suc m)
    show ?thesis
    proof (cases "k x \<le> g")
      case True
      then show ?thesis using Cons by (simp add: Suc)
    next
      case False
      then have "\<forall>y \<in> set xs. \<not> k y \<le> g" using Cons.prems by auto
      then have "filter (\<lambda>x. k x \<le> g) xs = []" "filter (\<lambda>x. k x \<le> g) (take m xs) = []"
        by (auto simp: filter_empty_conv dest: in_set_takeD)
      with False show ?thesis by (simp add: Suc)
    qed
  qed simp
qed simp

section \<open>What an offer counts for\<close>

lemma single_cover_bounds:
  assumes "0 < need" "cover_row_of offer = Some r"
  shows "cv_covered_qty (greedy_cover_cost need [offer]) \<le> cw_available r \<and>
    cv_covered_qty (greedy_cover_cost need [offer]) \<le> need"
proof -
  have ok: "row_ok r" using assms(2) by (rule cover_row_ok)
  define p where "p = purchase_from need r"
  have p: "0 \<le> p" "p \<le> cw_available r" using purchase_from_facts [OF ok assms(1) p_def] by blast+
  have rows: "ranked_rows [offer] = [r]" using assms(2) by (simp add: ranked_rows_def List.map_filter_def)
  have c: "ca_covered (cover_loop [r] (start_acc need)) = min need p" using assms(1) p
    by (auto simp: start_acc_def Let_def p_def [symmetric] min_def)
  show ?thesis
    using assms(1) c p ok by (auto simp: greedy_cover_cost_def rows Let_def no_cover_def row_ok_def)
qed

lemma offer_candidate_bounds:
  assumes "0 < need" "offer_candidate need d today cached offer = Some c"
  shows "0 < cd_coverable c \<and> cd_coverable c \<le> need \<and> cd_coverable c \<le> cd_available c \<and>
    optimizer_available offer = Some (cd_available c) \<and> cd_supplier_id c = jstring (jget offer ''supplier_id'') \<and>
    0 < cd_available c \<and> 0 \<le> cd_unit_price c"
proof -
  obtain price available where pa: "price_dec (jget offer ''unit_price'') = Some price" "optimizer_available offer = Some available"
    and nn: "0 \<le> price" "0 < available"
    using assms(2) by (auto simp: offer_candidate_def split: option.splits if_splits)
  have av: "offer_available offer = available"
    using pa(2) nn(2) by (auto simp: offer_available_def optimizer_available_def Let_def split: option.splits)
  then obtain r where r: "cover_row_of offer = Some r" "cw_available r = available"
    using pa nn by (auto simp: cover_row_of_def)
  obtain t v q where s: "single_offer_cost need offer = (t, v, q)" by (metis prod_cases3)
  then have q: "q \<le> available" "q \<le> need"
    using single_cover_bounds [OF assms(1) r(1)] r(2) assms(1) nn(2)
    by (auto simp: single_offer_cost_def Let_def split: option.splits)
  show ?thesis using assms pa nn q by (auto simp: offer_candidate_def s Let_def split: if_splits)
qed

lemma candidatesE:
  assumes "c \<in> set (candidates need d today cached offers)"
  obtains offer where "offer \<in> set offers" "offer_candidate need d today cached offer = Some c"
  using assms by (auto simp: candidates_def set_map_filter)

lemma candidates_priced: "candidates need d today cached offers \<noteq> [] \<Longrightarrow> offer_prices offers \<noteq> [] \<and> offers \<noteq> []"
proof -
  assume "candidates need d today cached offers \<noteq> []"
  from hd_in_set [OF this] obtain c where "c \<in> set (candidates need d today cached offers)" by blast
  then obtain offer where o: "offer \<in> set offers" "offer_candidate need d today cached offer = Some c" by (rule candidatesE)
  then obtain p where "price_dec (jget offer ''unit_price'') = Some p" "0 \<le> p"
    by (auto simp: offer_candidate_def split: option.splits if_splits)
  with o(1) have "p \<in> set (offer_prices offers)" by (auto simp: offer_prices_def set_map_filter)
  with o(1) show ?thesis by auto
qed

section \<open>The list\<close>

definition listed :: "rat \<Rightarrow> jdict list \<Rightarrow> date_value \<Rightarrow> day \<Rightarrow> nat \<Rightarrow> (string \<Rightarrow> string option) \<Rightarrow> candidate list" where
  "listed need offers d today n cached = take n (sort_key rank_key (candidates need d today cached offers))"

definition risky :: "rat \<Rightarrow> jdict list \<Rightarrow> date_value \<Rightarrow> day \<Rightarrow> (string \<Rightarrow> string option) \<Rightarrow> bool" where
  "risky need offers d today cached \<longleftrightarrow> optimizer_date d \<noteq> None \<and>
     \<not> (\<exists>c \<in> set (candidates need d today cached offers). cd_meets c = Some True)"

lemma optimize_rows:
  assumes "0 < need" "0 < n"
  shows "optimize_supplier_offers need offers d today n cached =
    number_rows (row_of_candidate (optimizer_date d \<noteq> None) (risky need offers d today cached)
      (min_of (offer_prices offers)) (max_of (offer_prices offers)) (length (listed need offers d today n cached))) 1
      (listed need offers d today n cached)"
proof (cases "candidates need d today cached offers = []")
  case True
  then show ?thesis by (auto simp: optimize_supplier_offers_def listed_def Let_def)
next
  case False
  with candidates_priced [OF this] assms show ?thesis
    by (simp add: optimize_supplier_offers_def listed_def risky_def Let_def)
qed

lemma row_fields [simp]:
  "ro_rank (row_of_candidate dl risk lo hi n i c) = i"
  "ro_supplier_id (row_of_candidate dl risk lo hi n i c) = cd_supplier_id c"
  "ro_coverable (row_of_candidate dl risk lo hi n i c) = cd_coverable c"
  "ro_available (row_of_candidate dl risk lo hi n i c) = cd_available c"
  "ro_abc (row_of_candidate dl risk lo hi n i c) = cd_abc c"
  "ro_lead (row_of_candidate dl risk lo hi n i c) = cd_lead c"
  "ro_deadline_risk (row_of_candidate dl risk lo hi n i c) = risk"
  "ro_deadline_status (row_of_candidate dl risk lo hi n i c) = ''ok'' \<longleftrightarrow> cd_meets c = Some True"
  "ro_meets_deadline (row_of_candidate dl risk lo hi n i c) \<longleftrightarrow> dl \<longrightarrow> cd_meets c = Some True"
  "ro_score (row_of_candidate dl risk lo hi n i c) = round_score
     ((if dl \<longrightarrow> cd_meets c = Some True then 1 / 2 else 0) + of_nat (n + 1 - i) / of_nat n * (4999 / 10000))"
  by (auto simp: row_of_candidate_def Let_def split: option.splits bool.splits)

definition row_gate :: "ranked_offer \<Rightarrow> nat \<times> nat" where
  "row_gate r = (if ro_deadline_status r = ''ok'' then 0 else 1, abc_sort_key (ro_abc r))"

lemma row_gate_of [simp]: "row_gate (row_of_candidate dl risk lo hi n i c) = gate_key c"
  by (simp add: row_gate_def gate_key_def)

lemma pair_le_fst:
  fixes a a' :: "'a :: linorder" and b b' :: "'b :: linorder"
  shows "(a, b) \<le> (a', b') \<Longrightarrow> a \<le> a'"
  by (auto simp: less_eq_prod_def)

lemma sorted_gates: "sorted (map gate_key (sort_key rank_key cs))"
proof -
  have "sorted (map rank_key (sort_key rank_key cs))" by (rule sorted_sort_key)
  moreover have "gate_key x \<le> gate_key y" if "rank_key x \<le> rank_key y" for x y
    using that unfolding rank_key_def by (rule pair_le_fst)
  ultimately show ?thesis unfolding sorted_map by (auto elim: sorted_wrt_mono_rel [rotated])
qed

lemma listed_gates: "sorted (map gate_key (listed need offers d today n cached))"
  unfolding listed_def take_map [symmetric] using sorted_gates by (rule sorted_wrt_take)

section \<open>The score\<close>

lemma round_score_mono: "x \<le> y \<Longrightarrow> round_score x \<le> round_score y"
  by (simp add: round_score_def SCORE_QUANT_def quantize_half_up_mono)

lemma round_score_values: "round_score 0 = 0" "round_score (1 / 2) = 1 / 2" "round_score (4999 / 10000) = 4999 / 10000"
    "round_score 1 = 1"
  by code_simp+

lemma rank_part:
  fixes i n :: nat
  assumes "1 \<le> i" "i \<le> n"
  shows "0 \<le> (of_nat (n + 1 - i) / of_nat n * (4999 / 10000) :: rat) \<and>
    (of_nat (n + 1 - i) / of_nat n * (4999 / 10000) :: rat) \<le> 4999 / 10000"
proof -
  have "(of_nat (n + 1 - i) :: rat) \<le> of_nat n" using assms by simp
  then have "(of_nat (n + 1 - i) / of_nat n :: rat) \<le> 1" using assms by (simp add: divide_le_eq_1)
  moreover have "0 \<le> (of_nat (n + 1 - i) / of_nat n :: rat)" by simp
  ultimately show ?thesis using mult_right_mono [of "of_nat (n + 1 - i) / of_nat n :: rat" 1 "4999 / 10000"] by simp
qed

lemma score_tells_gate:
  assumes "1 \<le> i" "i \<le> n" "s = round_score ((if b then 1 / 2 else 0) + of_nat (n + 1 - i) / of_nat n * (4999 / 10000))"
  shows "0 \<le> s \<and> s \<le> 1 \<and> (1 / 2 \<le> s \<longleftrightarrow> b)"
proof (cases b)
  case True
  then have "1 / 2 \<le> s" "s \<le> 1"
    using rank_part [OF assms(1,2)] round_score_mono [of "1 / 2"] round_score_mono [of _ 1] round_score_values
    by (simp_all add: assms(3))
  with True show ?thesis by simp
next
  case False
  then have "0 \<le> s" "s \<le> 4999 / 10000"
    using rank_part [OF assms(1,2)] round_score_mono [of 0] round_score_mono [of _ "4999 / 10000"] round_score_values
    by (simp_all add: assms(3))
  with False show ?thesis by auto
qed

lemma score_decreases:
  fixes i j n :: nat
  assumes "i \<le> j" "j \<le> n" "0 < n" "b' \<longrightarrow> b"
  shows "round_score ((if b' then 1 / 2 else 0) + of_nat (n + 1 - j) / of_nat n * (4999 / 10000)) \<le>
    round_score ((if b then 1 / 2 else 0) + of_nat (n + 1 - i) / of_nat n * (4999 / 10000))"
proof -
  have "(of_nat (n + 1 - j) / of_nat n :: rat) \<le> of_nat (n + 1 - i) / of_nat n"
    using assms(1) by (intro divide_right_mono) (simp_all add: diff_le_mono2)
  then have "(of_nat (n + 1 - j) / of_nat n * (4999 / 10000) :: rat) \<le> of_nat (n + 1 - i) / of_nat n * (4999 / 10000)"
    by (rule mult_right_mono) simp
  then show ?thesis using assms(4) by (intro round_score_mono add_mono) simp_all
qed

section \<open>The order\<close>

definition row_order :: "ranked_offer \<Rightarrow> (nat \<times> nat) \<times> rat \<times> rat" where
  "row_order r = (row_gate r, - ro_coverable r, ro_total_cost r)"

lemma row_cost: "ro_total_cost (row_of_candidate dl risk lo hi n i c) = round_money (cost_key c)"
  by (simp add: row_of_candidate_def cost_key_def Let_def)

lemma row_order_of: "row_order (row_of_candidate dl risk lo hi n i c) = (gate_key c, - cd_coverable c, round_money (cost_key c))"
  by (simp add: row_order_def row_cost)

lemma pair_le_cases:
  fixes a a' :: "'a :: linorder" and b b' :: "'b :: linorder"
  shows "(a, b) \<le> (a', b') \<longleftrightarrow> a < a' \<or> a = a' \<and> b \<le> b'"
  by (auto simp: less_eq_prod_def)

lemma rank_key_order:
  assumes "rank_key c \<le> rank_key c'"
  shows "(gate_key c, - cd_coverable c, round_money (cost_key c)) \<le> (gate_key c', - cd_coverable c', round_money (cost_key c'))"
proof -
  have m: "round_money (cost_key c) \<le> round_money (cost_key c')" if "cost_key c \<le> cost_key c'"
    using that by (simp add: round_money_def CENT_def quantize_half_up_mono)
  from assms have "gate_key c < gate_key c' \<or> gate_key c = gate_key c' \<and>
      (- cd_coverable c < - cd_coverable c' \<or> - cd_coverable c = - cd_coverable c' \<and> cost_key c \<le> cost_key c')"
    unfolding rank_key_def pair_le_cases by auto
  then show ?thesis unfolding pair_le_cases using m by blast
qed

lemma listed_nth_le:
  assumes "j \<le> k" "k < length (listed need offers d today n cached)"
  shows "rank_key (listed need offers d today n cached ! j) \<le> rank_key (listed need offers d today n cached ! k)"
proof -
  have "sorted (map rank_key (listed need offers d today n cached))"
    unfolding listed_def take_map [symmetric] by (intro sorted_wrt_take sorted_sort_key)
  from sorted_nth_mono [OF this assms(1)] assms show ?thesis by simp
qed

lemma listed_bounds:
  assumes "0 < need" "c \<in> set (listed need offers d today n cached)"
  shows "0 < cd_coverable c \<and> cd_coverable c \<le> need \<and> cd_coverable c \<le> cd_available c"
proof -
  have "c \<in> set (candidates need d today cached offers)"
    using assms(2) unfolding listed_def by (auto dest: in_set_takeD)
  then obtain offer where "offer_candidate need d today cached offer = Some c" by (rule candidatesE)
  from offer_candidate_bounds [OF assms(1) this] show ?thesis by simp
qed

text \<open>The rows of the list, in order and with decreasing scores.\<close>

lemma rows_in_order:
  "sorted (map row_order (number_rows (row_of_candidate dl risk lo hi m) 1 (listed need offers d today n cached)))"
proof -
  let ?L = "listed need offers d today n cached" and ?f = "row_of_candidate dl risk lo hi m"
  have "row_order (?f (1 + j) (?L ! j)) \<le> row_order (?f (1 + k) (?L ! k))" if "j \<le> k" "k < length ?L" for j k
    unfolding row_order_of by (intro rank_key_order listed_nth_le that)
  then show ?thesis by (auto simp: sorted_iff_nth_mono simp del: One_nat_def less_eq_prod_simp)
qed

lemma scores_decrease:
  assumes "m = length (listed need offers d today n cached)"
  shows "sorted (rev (map ro_score (number_rows (row_of_candidate dl risk lo hi m) 1 (listed need offers d today n cached))))"
proof -
  let ?L = "listed need offers d today n cached" and ?f = "row_of_candidate dl risk lo hi m"
  have "ro_score (?f (1 + k) (?L ! k)) \<le> ro_score (?f (1 + j) (?L ! j))" if "j \<le> k" "k < length ?L" for j k
  proof -
    have "gate_key (?L ! j) \<le> gate_key (?L ! k)"
      using sorted_nth_mono [OF listed_gates that(1)] that by simp
    then have "cd_meets (?L ! k) = Some True \<longrightarrow> cd_meets (?L ! j) = Some True"
      by (auto simp: gate_key_def less_eq_prod_def split: if_splits)
    then show ?thesis unfolding row_fields using that assms by (intro score_decreases) auto
  qed
  then show ?thesis by (auto simp: sorted_rev_iff_nth_mono simp del: One_nat_def)
qed

lemma listed_below:
  "length (filter (\<lambda>c. gate_key c \<le> g) (listed need offers d today n cached)) =
    min n (length (filter (\<lambda>c. gate_key c \<le> g) (candidates need d today cached offers)))"
proof -
  let ?cs = "candidates need d today cached offers"
  have "length (filter (\<lambda>c. gate_key c \<le> g) (sort_key rank_key ?cs)) = length (filter (\<lambda>c. gate_key c \<le> g) ?cs)"
    by (simp flip: size_mset)
  then show ?thesis unfolding listed_def take_sorted_below [OF sorted_gates] by simp
qed

section \<open>Properties\<close>


definition demo_ranked_offer :: "string \<Rightarrow> rat \<Rightarrow> rat \<Rightarrow> int \<Rightarrow> jdict" where
  "demo_ranked_offer sid price qty lead =
     [(''supplier_id'', JStr sid), (''unit_price'', JDec price), (''available_qty'', JDec qty), (''lead_time_days'', JInt lead)]"

definition demo_offers :: "jdict list" where
  "demo_offers = [demo_ranked_offer ''a'' 1 10 20, demo_ranked_offer ''b'' 1 9 5, demo_ranked_offer ''c'' 2 10 5]"

definition demo_ranking :: "ranked_offer list" where
  "demo_ranking = optimize_supplier_offers 10 demo_offers (DV_Date 20) 10 3 (\<lambda>_. None)"

lemma demo_listed:
  "map (\<lambda>c. (cd_supplier_id c, cd_meets c = Some True, round_money (cost_key c))) (listed 10 demo_offers (DV_Date 20) 10 3 (\<lambda>_. None)) =
     [(''c'', True, 20), (''b'', True, 9), (''a'', False, 10)]"
  by code_simp

lemma demo_ranking_rows:
  "map (\<lambda>r. (ro_supplier_id r, ro_meets_deadline r, ro_total_cost r)) demo_ranking =
     [(''c'', True, 20), (''b'', True, 9), (''a'', False, 10)]"
proof -
  have "optimizer_date (DV_Date 20) \<noteq> None" by (simp add: optimizer_date_def)
  then show ?thesis
    unfolding demo_ranking_def demo_listed [symmetric] by (subst optimize_rows) (auto simp: row_cost intro!: map_number_rows)
qed


text \<open>Of two offers in time the one that covers more comes first, although it costs more than twice as much.\<close>

lemma coverage_before_cost:
  "map (\<lambda>r. (ro_supplier_id r, ro_total_cost r)) (take 2 demo_ranking) = [(''c'', 20), (''b'', 9)]"
proof -
  have "map (\<lambda>r. (ro_supplier_id r, ro_total_cost r)) (take 2 demo_ranking) =
      map (\<lambda>(sid, m, cost). (sid, cost)) (take 2 (map (\<lambda>r. (ro_supplier_id r, ro_meets_deadline r, ro_total_cost r)) demo_ranking))"
    by (simp add: take_map)
  then show ?thesis unfolding demo_ranking_rows by simp
qed

text \<open>An offer whose minimum order exceeds what it holds cannot be bought, yet it is ranked for all it holds.\<close>

definition demo_min_order :: jdict where
  "demo_min_order = (''min_order_qty'', JInt 8) # demo_ranked_offer ''a'' 3 5 2"

lemma impossible_order_ranked:
  "cv_covered_qty (greedy_cover_cost 10 [demo_min_order]) = 0 \<and>
   map (\<lambda>r. (ro_coverable r, ro_total_cost r)) (optimize_supplier_offers 10 [demo_min_order] DV_None 10 3 (\<lambda>_. None)) = [(5, 15)]"
  by code_simp

text \<open>In the economy mode an offer that costs nothing comes last: zero counts as a missing cost.\<close>

lemma free_offer_last:
  "map ro_supplier_id (rank_for_wave_mode 10 [demo_ranked_offer ''a'' 0 10 5, demo_ranked_offer ''b'' 7 10 5] (DV_Date 20) 10
     Economy 3 (\<lambda>_. None)) = [''b'', ''a'']"
  by code_simp

end
