(* ===== verification/Urgency_Waves.thy ===== *)
theory Urgency_Waves
  imports Allocation Ranking_Facts
begin

text \<open>
  The urgency waves of the manager's queue (\<open>app/agents/procurement_manager_agent/waves.py\<close>): the deadline
  of a case, its label, the buckets critical, medium and late, and the allocation annotated with the wave of
  each case.  The cases are those of \<open>Allocation\<close>; display texts of a wave are left out.
\<close>

section \<open>Deadlines and labels\<close>

definition DEFAULT_CRITICAL_DAYS :: int where "DEFAULT_CRITICAL_DAYS = 7"
definition DEFAULT_MEDIUM_DAYS :: int where "DEFAULT_MEDIUM_DAYS = 21"

text \<open>\<open>date.max\<close>\<close>

definition DATE_MAX :: day where "DATE_MAX = 3652059"

definition required_day :: "instant option \<Rightarrow> day option" where
  "required_day required = map_option instant_date required"

definition position_day :: "alloc_case \<Rightarrow> alloc_position \<Rightarrow> day option" where
  "position_day acase position =
     (if ap_cancelled position then None
      else (case required_day (ap_required_date position) of
              Some d \<Rightarrow> Some d | None \<Rightarrow> required_day (ac_required_date acase)))"

definition case_required_date :: "alloc_case \<Rightarrow> day option" where
  "case_required_date acase =
     (case List.map_filter (position_day acase) (ac_positions acase) of
        [] \<Rightarrow> required_day (ac_required_date acase) | d # ds \<Rightarrow> Some (fold min ds d))"

definition classify_urgency :: "day option \<Rightarrow> day \<Rightarrow> int \<Rightarrow> int \<Rightarrow> string" where
  "classify_urgency required today critical_days medium_days =
     (case required of
        None \<Rightarrow> ''late''
      | Some d \<Rightarrow> if d - today \<le> critical_days then ''critical''
          else if d - today \<le> medium_days then ''medium'' else ''late'')"

definition wave_mode_for_label :: "string \<Rightarrow> wave_mode" where
  "wave_mode_for_label label = (if label = ''late'' then Economy else Urgent)"

section \<open>The waves\<close>

record wave_member =
  wm_case_id :: string
  wm_required :: "day option"
  wm_label :: string

record wave =
  wv_id :: string
  wv_index :: int
  wv_label :: string
  wv_members :: "wave_member list"

record wave_plan =
  wl_waves :: "wave list"
  wl_case_wave :: "(string, string) dict"
  wl_cases :: "wave_member list"

definition member_of :: "day \<Rightarrow> int \<Rightarrow> int \<Rightarrow> alloc_case \<Rightarrow> wave_member option" where
  "member_of today critical_days medium_days acase =
     (let cid = opt_str (ac_id acase); required = case_required_date acase
      in if cid = [] then None
         else Some \<lparr>wm_case_id = cid, wm_required = required,
                    wm_label = classify_urgency required today critical_days medium_days\<rparr>)"

definition member_key :: "wave_member \<Rightarrow> nat \<times> day \<times> string" where
  "member_key m =
     (if wm_required m \<noteq> None then 0 else 1, case wm_required m of Some d \<Rightarrow> d | None \<Rightarrow> DATE_MAX, wm_case_id m)"

definition wave_id_text :: "nat \<Rightarrow> string \<Rightarrow> string" where
  "wave_id_text index label = ''wave-'' @ nat_text index @ ''-'' @ label"

fun waves_of :: "nat \<Rightarrow> wave_member list \<Rightarrow> string list \<Rightarrow> wave list" where
  "waves_of index rows [] = []"
| "waves_of index rows (label # labels) =
     (let members = filter (\<lambda>m. wm_label m = label) rows
      in if members = [] then waves_of index rows labels
         else \<lparr>wv_id = wave_id_text (index + 1) label, wv_index = int (index + 1), wv_label = label,
               wv_members = members\<rparr> # waves_of (index + 1) rows labels)"

definition case_wave_of :: "wave list \<Rightarrow> (string, string) dict" where
  "case_wave_of waves = fold (\<lambda>w d. fold (\<lambda>m. dict_set (wm_case_id m) (wv_id w)) (wv_members w) d) waves []"

definition WAVE_LABELS :: "string list" where
  "WAVE_LABELS = [''critical'', ''medium'', ''late'']"

definition bucket_urgency_waves :: "alloc_case list \<Rightarrow> day \<Rightarrow> int \<Rightarrow> int \<Rightarrow> wave_plan" where
  "bucket_urgency_waves cases today critical_days medium_days =
     (let rows = sort_key member_key (List.map_filter (member_of today critical_days medium_days) cases);
          waves = waves_of 0 rows WAVE_LABELS
      in \<lparr>wl_waves = waves, wl_case_wave = case_wave_of waves, wl_cases = rows\<rparr>)"

section \<open>The annotated allocation\<close>

text \<open>The wave of a case: its id, and the wave it names (the last one of that id, as in \<open>wave_meta\<close>).\<close>

definition wave_by_id :: "wave list \<Rightarrow> (string, wave) dict" where
  "wave_by_id waves = fold (\<lambda>w. dict_set (wv_id w) w) waves []"

record queue_line =
  ql_line :: alloc_line
  ql_wave_id :: "string option"
  ql_wave_label :: "string option"
  ql_wave_mode :: "wave_mode option"

record queue_case =
  qs_case :: case_coverage
  qs_wave_id :: "string option"
  qs_wave_label :: "string option"
  qs_wave_mode :: "wave_mode option"

definition wave_of :: "wave_plan \<Rightarrow> string \<Rightarrow> string option \<times> wave option" where
  "wave_of plan cid =
     (case dict_get (wl_case_wave plan) cid of
        None \<Rightarrow> (None, None) | Some wid \<Rightarrow> (Some wid, dict_get (wave_by_id (wl_waves plan)) wid))"

definition annotate_line :: "wave_plan \<Rightarrow> alloc_line \<Rightarrow> queue_line" where
  "annotate_line plan l =
     (case wave_of plan (dm_case_id (al_demand l)) of
        (wid, w) \<Rightarrow> \<lparr>ql_line = l, ql_wave_id = wid, ql_wave_label = map_option wv_label w,
                     ql_wave_mode = map_option (wave_mode_for_label \<circ> wv_label) w\<rparr>)"

definition annotate_case :: "wave_plan \<Rightarrow> case_coverage \<Rightarrow> queue_case" where
  "annotate_case plan c =
     (case wave_of plan (cc_case_id c) of
        (wid, w) \<Rightarrow> \<lparr>qs_case = c, qs_wave_id = wid, qs_wave_label = map_option wv_label w,
                     qs_wave_mode = map_option (wave_mode_for_label \<circ> wv_label) w\<rparr>)"

record queue_allocation =
  qa_allocation :: allocation
  qa_lines :: "queue_line list"
  qa_cases :: "queue_case list"
  qa_waves :: wave_plan
  qa_horizon_end :: day

definition allocate_queue_with_waves ::
  "alloc_case list \<Rightarrow> material_bank \<Rightarrow> day \<Rightarrow> int \<Rightarrow> int \<Rightarrow> queue_allocation option" where
  "allocate_queue_with_waves cases bank today critical_days medium_days =
     map_option (\<lambda>a. let plan = bucket_urgency_waves cases today critical_days medium_days
       in \<lparr>qa_allocation = a, qa_lines = map (annotate_line plan) (aa_lines a),
           qa_cases = map (annotate_case plan) (aa_cases a), qa_waves = plan,
           qa_horizon_end = today + medium_days\<rparr>)
       (allocate_materials_by_deadline cases bank)"

section \<open>The order of the waves\<close>

definition label_no :: "string \<Rightarrow> nat" where
  "label_no label = (if label = ''critical'' then 0 else if label = ''medium'' then 1 else 2)"

lemma label_follows_deadline:
  assumes "critical \<le> medium" "member_key m \<le> member_key m'"
    "wm_label m = classify_urgency (wm_required m) today critical medium"
    "wm_label m' = classify_urgency (wm_required m') today critical medium"
  shows "label_no (wm_label m) \<le> label_no (wm_label m')"
  using assms
  by (auto simp: classify_urgency_def label_no_def member_key_def less_eq_prod_def split: option.splits if_splits)

lemma filter_sorted_groups:
  fixes g :: "'a \<Rightarrow> nat"
  assumes "sorted (map g xs)" "\<forall>x \<in> set xs. g x \<le> 2"
  shows "filter (\<lambda>x. g x = 0) xs @ filter (\<lambda>x. g x = 1) xs @ filter (\<lambda>x. g x = 2) xs = xs"
  using assms
proof (induction xs)
  case (Cons x xs)
  then have ih: "filter (\<lambda>x. g x = 0) xs @ filter (\<lambda>x. g x = 1) xs @ filter (\<lambda>x. g x = 2) xs = xs" by simp
  have "filter (\<lambda>y. g y = k) xs = []" if "k < g x" for k
    using Cons.prems(1) that by (auto simp: filter_empty_conv)
  moreover have "g x = 0 \<or> g x = 1 \<or> g x = 2" using Cons.prems(2) by auto
  ultimately show ?case using ih by auto
qed simp

lemma concat_waves_of:
  "concat (map wv_members (waves_of i rows labels)) = concat (map (\<lambda>label. filter (\<lambda>m. wm_label m = label) rows) labels)"
  by (induction labels arbitrary: i) (simp_all add: Let_def)

definition wave_ok :: "wave \<Rightarrow> bool" where
  "wave_ok w \<longleftrightarrow> wv_members w \<noteq> [] \<and> (\<forall>m \<in> set (wv_members w). wm_label m = wv_label w)"

lemma waves_of_ok: "w \<in> set (waves_of i rows labels) \<Longrightarrow> wave_ok w"
  by (induction labels arbitrary: i) (auto simp: Let_def wave_ok_def split: if_splits)

lemma waves_of_index: "map wv_index (waves_of i rows labels) = map int [Suc i..<Suc i + length (waves_of i rows labels)]"
proof (induction labels arbitrary: i)
  case (Cons label labels)
  from Cons.IH [of i] Cons.IH [of "Suc i"] show ?case by (simp add: Let_def upt_conv_Cons del: upt_Suc)
qed simp

lemma waves_of_labels: "subseq (map wv_label (waves_of i rows labels)) labels"
  by (induction labels arbitrary: i) (auto simp: Let_def)

lemma members_dict:
  "dict_get (fold (\<lambda>m. dict_set (wm_case_id m) x) ms d) cid =
    (if cid \<in> wm_case_id ` set ms then Some x else dict_get d cid)"
  by (induction ms arbitrary: d) auto

lemma case_wave_get:
  assumes "dict_get (fold (\<lambda>w d. fold (\<lambda>m. dict_set (wm_case_id m) (wv_id w)) (wv_members w) d) ws d) cid = Some wid"
  shows "dict_get d cid = Some wid \<or> (\<exists>w \<in> set ws. wv_id w = wid \<and> cid \<in> wm_case_id ` set (wv_members w))"
  using assms by (induction ws arbitrary: d) (force simp: members_dict split: if_splits)+

lemma case_wave_dom:
  "w \<in> set ws \<Longrightarrow> m \<in> set (wv_members w) \<Longrightarrow>
    dict_get (fold (\<lambda>w d. fold (\<lambda>m. dict_set (wm_case_id m) (wv_id w)) (wv_members w) d) ws d) (wm_case_id m) \<noteq> None"
proof (induction ws arbitrary: d rule: rev_induct)
  case (snoc v ws)
  then show ?case by (auto simp: members_dict)
qed simp

section \<open>Properties\<close>

text \<open>
  C17: The waves are the queue in the order of its deadlines, cut where the label changes.  Put one behind the
  other their members are all cases with an id, each with the earliest required date of its positions and the
  label of that date, sorted by date with the undated ones last; the waves are numbered from 1 in the
  order critical, medium, late, none is empty, every member has the label of its wave, and the index
  gives every case a wave that holds it.
\<close>

lemma waves_partition_queue:
  assumes "critical \<le> medium" "plan = bucket_urgency_waves cases today critical medium"
  shows "concat (map wv_members (wl_waves plan)) = wl_cases plan \<and>
    mset (wl_cases plan) = mset (List.map_filter (member_of today critical medium) cases) \<and>
    sorted (map member_key (wl_cases plan)) \<and>
    map wv_index (wl_waves plan) = map int [1..<Suc (length (wl_waves plan))] \<and>
    subseq (map wv_label (wl_waves plan)) WAVE_LABELS \<and>
    (\<forall>w \<in> set (wl_waves plan). wv_members w \<noteq> [] \<and> (\<forall>m \<in> set (wv_members w). wm_label m = wv_label w)) \<and>
    (\<forall>m \<in> set (wl_cases plan). \<exists>w \<in> set (wl_waves plan).
       dict_get (wl_case_wave plan) (wm_case_id m) = Some (wv_id w) \<and> wm_case_id m \<in> wm_case_id ` set (wv_members w))"
proof -
  define rows where "rows = sort_key member_key (List.map_filter (member_of today critical medium) cases)"
  have plan: "wl_waves plan = waves_of 0 rows WAVE_LABELS" "wl_cases plan = rows"
    "wl_case_wave plan = case_wave_of (waves_of 0 rows WAVE_LABELS)"
    by (simp_all add: assms(2) bucket_urgency_waves_def rows_def Let_def)
  have lab: "wm_label m = classify_urgency (wm_required m) today critical medium" if "m \<in> set rows" for m
    using that by (auto simp: rows_def set_map_filter member_of_def Let_def split: if_splits)
  have sorted: "sorted (map member_key rows)" unfolding rows_def by (rule sorted_sort_key)
  then have "sorted (map (label_no \<circ> wm_label) rows)"
    unfolding sorted_map using label_follows_deadline [OF assms(1)] lab
    by (auto elim!: sorted_wrt_mono_rel [rotated])
  moreover have known: "wm_label m \<in> {''critical'', ''medium'', ''late''}" if "m \<in> set rows" for m
    using lab [OF that] by (auto simp: classify_urgency_def split: option.splits)
  ultimately have "filter (\<lambda>m. label_no (wm_label m) = 0) rows @ filter (\<lambda>m. label_no (wm_label m) = 1) rows @
      filter (\<lambda>m. label_no (wm_label m) = 2) rows = rows"
    using filter_sorted_groups [of "label_no \<circ> wm_label" rows] by (auto simp: label_no_def)
  moreover have "filter (\<lambda>m. label_no (wm_label m) = 0) rows = filter (\<lambda>m. wm_label m = ''critical'') rows"
    "filter (\<lambda>m. label_no (wm_label m) = 1) rows = filter (\<lambda>m. wm_label m = ''medium'') rows"
    "filter (\<lambda>m. label_no (wm_label m) = 2) rows = filter (\<lambda>m. wm_label m = ''late'') rows"
    using known by (auto simp: label_no_def intro!: filter_cong)
  ultimately have cat: "concat (map wv_members (waves_of 0 rows WAVE_LABELS)) = rows"
    unfolding concat_waves_of by (simp add: WAVE_LABELS_def)
  have "\<exists>w \<in> set (waves_of 0 rows WAVE_LABELS). dict_get (wl_case_wave plan) (wm_case_id m) = Some (wv_id w) \<and>
      wm_case_id m \<in> wm_case_id ` set (wv_members w)" if "m \<in> set rows" for m
  proof -
    have "m \<in> set (concat (map wv_members (waves_of 0 rows WAVE_LABELS)))" using that cat by simp
    then obtain w where "w \<in> set (waves_of 0 rows WAVE_LABELS)" "m \<in> set (wv_members w)" by auto
    from case_wave_dom [OF this, of "[]"] obtain wid where "dict_get (wl_case_wave plan) (wm_case_id m) = Some wid"
      by (auto simp: plan(3) case_wave_of_def)
    moreover from this have "\<exists>w \<in> set (waves_of 0 rows WAVE_LABELS). wv_id w = wid \<and> wm_case_id m \<in> wm_case_id ` set (wv_members w)"
      using case_wave_get [of "waves_of 0 rows WAVE_LABELS" "[]" "wm_case_id m" wid] by (simp add: plan(3) case_wave_of_def)
    ultimately show ?thesis by blast
  qed
  with cat sorted waves_of_index [of 0 rows WAVE_LABELS] waves_of_labels waves_of_ok show ?thesis
    by (simp add: plan rows_def wave_ok_def)
qed

definition demo_case :: "string \<Rightarrow> instant option \<Rightarrow> alloc_case" where
  "demo_case cid required = \<lparr>ac_id = Some cid, ac_required_date = required, ac_positions = []\<rparr>"

text \<open>Three cases due on days 12, 2 and 5 after the epoch, seen from the epoch, and an undated one.\<close>

lemma waves_partition_queue_witness:
  "concat (map wv_members (wl_waves (bucket_urgency_waves [demo_case ''a'' (Some (12 * US_PER_DAY)), demo_case ''b'' (Some (2 * US_PER_DAY)),
       demo_case ''c'' None, demo_case ''d'' (Some (5 * US_PER_DAY))] EPOCH_ORDINAL 7 21))) =
     wl_cases (bucket_urgency_waves [demo_case ''a'' (Some (12 * US_PER_DAY)), demo_case ''b'' (Some (2 * US_PER_DAY)),
       demo_case ''c'' None, demo_case ''d'' (Some (5 * US_PER_DAY))] EPOCH_ORDINAL 7 21) \<and>
   map (\<lambda>w. (wv_label w, map wm_case_id (wv_members w))) (wl_waves (bucket_urgency_waves [demo_case ''a'' (Some (12 * US_PER_DAY)),
       demo_case ''b'' (Some (2 * US_PER_DAY)), demo_case ''c'' None, demo_case ''d'' (Some (5 * US_PER_DAY))] EPOCH_ORDINAL 7 21)) =
     [(''critical'', [''b'', ''d'']), (''medium'', [''a'']), (''late'', [''c''])]"
  (is "?P \<and> ?Q")
proof
  show ?P using waves_partition_queue [of 7 21, OF _ refl] by simp
  show ?Q by code_simp
qed

end
