(* ===== verification/Queue_Coverage.thy ===== *)
theory Queue_Coverage
  imports Urgency_Waves
begin

text \<open>
  The coverage plans of the procurement manager
  (\<open>app/agents/procurement_manager_agent/optimize.py\<close>: \<open>optimize_case_coverage\<close> and
  \<open>optimize_queue_coverage\<close>): stock first, by the allocation, then the suppliers for what is left.  The plan of a
  queue goes through the lines wave by wave and books the quantities it assigns on the residual of the
  suppliers.  A number is itself where the code writes its text.
\<close>

section \<open>The offers of a line\<close>

text \<open>\<open>offers.get(nom) or offers.get(nom.casefold()) or []\<close> when offers are given, the bank's offers otherwise.\<close>

definition given_offers :: "(string, jdict list) dict \<Rightarrow> string \<Rightarrow> jdict list" where
  "given_offers offers nom =
     (let exact = dict_get_or offers nom [] in if exact \<noteq> [] then exact else dict_get_or offers (casefold nom) [])"

definition offers_of_line :: "(string, jdict list) dict \<Rightarrow> material_bank \<Rightarrow> string \<Rightarrow> jdict list" where
  "offers_of_line offers bank nom =
     (if offers \<noteq> [] \<and> nom \<noteq> [] then given_offers offers nom
      else if nom \<noteq> [] then collect_supplier_offers nom bank else [])"

definition line_nom :: "alloc_line \<Rightarrow> string" where
  "line_nom l = py_strip (dm_nomenclature_id (al_demand l))"

definition supplier_remainder :: "alloc_line \<Rightarrow> rat" where
  "supplier_remainder l =
     (let remainder = al_needed l - al_from_warehouse l in if remainder < 0 then 0 else remainder)"

definition date_of_instant :: "instant option \<Rightarrow> date_value" where
  "date_of_instant t = (case t of None \<Rightarrow> DV_None | Some x \<Rightarrow> DV_Instant x)"

section \<open>The plan of a case\<close>

record case_row =
  cr_line :: alloc_line
  cr_nomenclature_id :: "string option"
  cr_remainder :: rat
  cr_required :: "instant option"
  cr_top :: "ranked_offer list"
  cr_supplier_id :: "string option"
  cr_meets_deadline :: "bool option"
  cr_overpay :: rat
  cr_lead :: "int option"
  cr_rank :: "nat option"
  cr_reason :: "reason_part list option"
  cr_deadline_risk :: bool

record pick =
  pk_case_id :: string
  pk_line_id :: string
  pk_nomenclature_id :: string
  pk_supplier_id :: string
  pk_supplier_name :: string
  pk_meets_deadline :: bool
  pk_total_cost :: rat
  pk_overpay :: rat
  pk_lead :: "int option"
  pk_reason :: "reason_part list"

definition first_of :: "'a list \<Rightarrow> 'a option" where
  "first_of xs = (case xs of [] \<Rightarrow> None | x # _ \<Rightarrow> Some x)"

definition pick_of :: "alloc_line \<Rightarrow> ranked_offer \<Rightarrow> pick" where
  "pick_of l p =
     \<lparr>pk_case_id = dm_case_id (al_demand l), pk_line_id = dm_line_id (al_demand l), pk_nomenclature_id = line_nom l,
      pk_supplier_id = ro_supplier_id p, pk_supplier_name = ro_supplier_name p, pk_meets_deadline = ro_meets_deadline p,
      pk_total_cost = ro_total_cost p, pk_overpay = ro_overpay p, pk_lead = ro_lead p, pk_reason = ro_reason p\<rparr>"

definition case_row_of ::
  "(string, jdict list) dict \<Rightarrow> material_bank \<Rightarrow> day \<Rightarrow> nat \<Rightarrow> (string \<Rightarrow> string option) \<Rightarrow> instant option \<Rightarrow> alloc_line \<Rightarrow> case_row" where
  "case_row_of offers bank today top_n cached case_required l =
     (let nom = line_nom l; remainder = supplier_remainder l;
          required = (case dm_required_date (al_demand l) of Some t \<Rightarrow> Some t | None \<Rightarrow> case_required);
          offer_list = offers_of_line offers bank nom;
          top = (if 0 < remainder \<and> offer_list \<noteq> []
            then optimize_supplier_offers remainder offer_list (date_of_instant required) today top_n cached else []);
          primary = first_of top
      in \<lparr>cr_line = l, cr_nomenclature_id = (if nom = [] then None else Some nom), cr_remainder = remainder,
          cr_required = required, cr_top = top, cr_supplier_id = map_option ro_supplier_id primary,
          cr_meets_deadline = map_option ro_meets_deadline primary,
          cr_overpay = (case primary of Some p \<Rightarrow> ro_overpay p | None \<Rightarrow> 0),
          cr_lead = Option.bind primary ro_lead, cr_rank = map_option ro_rank primary,
          cr_reason = map_option ro_reason primary,
          cr_deadline_risk = (case primary of Some p \<Rightarrow> ro_deadline_risk p | None \<Rightarrow> False)\<rparr>)"

record case_plan =
  cp_allocation :: allocation
  cp_lines :: "case_row list"
  cp_picks :: "pick list"
  cp_risk_lines :: nat

definition optimize_case_coverage ::
  "alloc_position list \<Rightarrow> material_bank \<Rightarrow> (string, jdict list) dict \<Rightarrow> day \<Rightarrow> nat \<Rightarrow> (string \<Rightarrow> string option) \<Rightarrow>
   string option \<Rightarrow> instant option \<Rightarrow> case_plan option" where
  "optimize_case_coverage positions bank offers today top_n cached case_id case_required =
     (let stub = \<lparr>ac_id = or_str case_id (Some ''optimize-case''), ac_required_date = case_required, ac_positions = positions\<rparr>
      in map_option (\<lambda>a. let rows = map (case_row_of offers bank today top_n cached case_required) (aa_lines a)
           in \<lparr>cp_allocation = a, cp_lines = rows,
               cp_picks = List.map_filter (\<lambda>r. map_option (pick_of (cr_line r)) (first_of (cr_top r))) rows,
               cp_risk_lines = length (filter cr_deadline_risk rows)\<rparr>)
           (allocate_materials_by_deadline [stub] bank))"

section \<open>The residual of the suppliers\<close>

type_synonym residual = "(offer_key, rat) dict"

definition residual_quantity :: "jdict \<Rightarrow> rat" where
  "residual_quantity offering =
     (case price_dec (jget_default offering ''available_quantity'' (jget offering ''available_qty'')) of Some q \<Rightarrow> q | None \<Rightarrow> 0)"

definition initial_residual :: "material_bank \<Rightarrow> residual" where
  "initial_residual bank =
     fold (\<lambda>(supplier, offering) d.
       if supplier_id_of supplier = [] \<or> nomenclature_of offering = [] then d
       else dict_set (supplier_id_of supplier, casefold (nomenclature_of offering)) (residual_quantity offering) d)
       (supplier_offerings bank) []"

definition clamp_offer :: "rat \<Rightarrow> jdict \<Rightarrow> jdict" where
  "clamp_offer left offer = dict_set ''available_quantity'' (JDec left) (dict_set ''available_qty'' (JDec left) offer)"

fun apply_remaining_qty :: "string \<Rightarrow> jdict list \<Rightarrow> residual \<Rightarrow> jdict list \<times> residual" where
  "apply_remaining_qty nom_key [] remaining = ([], remaining)"
| "apply_remaining_qty nom_key (offer # offers) remaining =
     (let sid = jtext (jget offer ''supplier_id'')
      in if sid = [] then apply_remaining_qty nom_key offers remaining
         else (let key = (sid, nom_key);
                   left = (case dict_get remaining key of
                       Some q \<Rightarrow> q | None \<Rightarrow> (case optimizer_available offer of Some q \<Rightarrow> q | None \<Rightarrow> 0));
                   remaining1 = (case dict_get remaining key of Some q \<Rightarrow> remaining | None \<Rightarrow> dict_set key left remaining)
           in case apply_remaining_qty nom_key offers remaining1 of
                (out, remaining2) \<Rightarrow> (if left \<le> 0 then out else clamp_offer left offer # out, remaining2)))"

definition consume_pick :: "string \<Rightarrow> string \<Rightarrow> rat \<Rightarrow> residual \<Rightarrow> residual" where
  "consume_pick supplier_id nom_key qty remaining =
     (let left = dict_get_or remaining (supplier_id, nom_key) 0 - qty
      in dict_set (supplier_id, nom_key) (if 0 < left then left else 0) remaining)"

section \<open>The plan of the queue\<close>

record queue_part =
  qp_supplier_id :: string
  qp_supplier_name :: string
  qp_quantity :: rat
  qp_unit_price :: rat
  qp_meets_deadline :: bool
  qp_mode :: wave_mode
  qp_total_cost :: rat
  qp_overpay :: rat
  qp_lead :: "int option"

record diversity =
  dv_case_id :: string
  dv_line_id :: string
  dv_nomenclature_id :: string
  dv_nomenclature_name :: "string option"
  dv_urgent_supplier_id :: string
  dv_economy_supplier_id :: string
  dv_economy_supplier_name :: string
  dv_unit_price :: rat
  dv_meets_deadline :: bool

record queue_row =
  qr_line :: alloc_line
  qr_remainder :: rat
  qr_wave_id :: "string option"
  qr_wave_label :: string
  qr_mode :: wave_mode
  qr_top :: "ranked_offer list"
  qr_parts :: "queue_part list"
  qr_supplier_id :: "string option"
  qr_meets_deadline :: "bool option"
  qr_overpay :: rat
  qr_lead :: "int option"
  qr_rank :: "nat option"
  qr_reason :: "reason_part list option"
  qr_deadline_risk :: bool
  qr_diversity :: "diversity option"

text \<open>The state of the loop: the residual and the first supplier of an urgent line per nomenclature.\<close>

type_synonym queue_state = "residual \<times> (string, string) dict"

definition named_waves :: "wave_plan \<Rightarrow> (string, wave) dict" where
  "named_waves plan = wave_by_id (filter (\<lambda>w. wv_id w \<noteq> []) (wl_waves plan))"

definition wave_index_of :: "wave_plan \<Rightarrow> string \<Rightarrow> int" where
  "wave_index_of plan cid =
     (case dict_get (named_waves plan) (dict_get_or (wl_case_wave plan) cid []) of
        Some w \<Rightarrow> if wv_index w \<noteq> 0 then wv_index w else 99 | None \<Rightarrow> 99)"

definition queue_line_key :: "wave_plan \<Rightarrow> queue_line \<Rightarrow> int \<times> day \<times> string \<times> string" where
  "queue_line_key plan q =
     (let d = al_demand (ql_line q)
      in (wave_index_of plan (dm_case_id d),
          case required_day (dm_required_date d) of Some n \<Rightarrow> n | None \<Rightarrow> DATE_MAX, dm_case_id d, dm_line_id d))"

definition line_label :: "wave_plan \<Rightarrow> queue_line \<Rightarrow> string" where
  "line_label plan q =
     (let wid = dict_get_or (wl_case_wave plan) (dm_case_id (al_demand (ql_line q))) [];
          label = map_option wv_label (dict_get (named_waves plan) wid)
      in opt_str (or_str label (or_str (ql_wave_label q) (Some ''late''))))"

definition line_mode :: "wave_mode option \<Rightarrow> string \<Rightarrow> wave_mode" where
  "line_mode override label = (case override of Some mode \<Rightarrow> mode | None \<Rightarrow> wave_mode_for_label label)"

definition part_of :: "wave_mode \<Rightarrow> rat \<Rightarrow> ranked_offer \<Rightarrow> queue_part option" where
  "part_of mode remainder p =
     (let take_qty = min remainder (if ro_coverable p \<noteq> 0 then ro_coverable p else remainder)
      in if 0 < remainder \<and> 0 < take_qty then
           Some \<lparr>qp_supplier_id = ro_supplier_id p, qp_supplier_name = ro_supplier_name p, qp_quantity = take_qty,
                 qp_unit_price = ro_unit_price p, qp_meets_deadline = ro_meets_deadline p, qp_mode = mode,
                 qp_total_cost = ro_total_cost p, qp_overpay = ro_overpay p, qp_lead = ro_lead p\<rparr>
         else None)"

definition diversity_of :: "wave_mode \<Rightarrow> (string, string) dict \<Rightarrow> alloc_line \<Rightarrow> ranked_offer \<Rightarrow> diversity option" where
  "diversity_of mode urgent l p =
     (let nom = line_nom l; urgent_sid = dict_get_or urgent (casefold nom) []
      in if mode = Economy \<and> casefold nom \<noteq> [] \<and> urgent_sid \<noteq> [] \<and> urgent_sid \<noteq> ro_supplier_id p then
           Some \<lparr>dv_case_id = dm_case_id (al_demand l), dv_line_id = dm_line_id (al_demand l), dv_nomenclature_id = nom,
                 dv_nomenclature_name = dm_nomenclature_name (al_demand l), dv_urgent_supplier_id = urgent_sid,
                 dv_economy_supplier_id = ro_supplier_id p, dv_economy_supplier_name = ro_supplier_name p,
                 dv_unit_price = ro_unit_price p, dv_meets_deadline = ro_meets_deadline p\<rparr>
         else None)"

definition queue_row_of ::
  "wave_plan \<Rightarrow> queue_line \<Rightarrow> wave_mode \<Rightarrow> ranked_offer list \<Rightarrow> (string, string) dict \<Rightarrow> queue_row" where
  "queue_row_of plan q mode best urgent =
     (let l = ql_line q; primary = first_of best
      in \<lparr>qr_line = l, qr_remainder = supplier_remainder l,
          qr_wave_id = dict_get (wl_case_wave plan) (dm_case_id (al_demand l)), qr_wave_label = line_label plan q,
          qr_mode = mode, qr_top = best,
          qr_parts = (case Option.bind primary (part_of mode (supplier_remainder l)) of Some x \<Rightarrow> [x] | None \<Rightarrow> []),
          qr_supplier_id = map_option ro_supplier_id primary, qr_meets_deadline = map_option ro_meets_deadline primary,
          qr_overpay = (case primary of Some p \<Rightarrow> ro_overpay p | None \<Rightarrow> 0), qr_lead = Option.bind primary ro_lead,
          qr_rank = map_option ro_rank primary, qr_reason = map_option ro_reason primary,
          qr_deadline_risk = (case primary of Some p \<Rightarrow> ro_deadline_risk p | None \<Rightarrow> False),
          qr_diversity = Option.bind primary (diversity_of mode urgent l)\<rparr>)"

definition queue_step ::
  "wave_plan \<Rightarrow> material_bank \<Rightarrow> (string, jdict list) dict \<Rightarrow> day \<Rightarrow> nat \<Rightarrow> (string \<Rightarrow> string option) \<Rightarrow> wave_mode option \<Rightarrow>
   queue_line \<Rightarrow> queue_state \<Rightarrow> queue_row \<times> queue_state" where
  "queue_step plan bank offers today top_n cached override q state =
     (let l = ql_line q; nom = line_nom l; nom_key = casefold nom; remainder = supplier_remainder l;
          mode = line_mode override (line_label plan q)
      in case apply_remaining_qty nom_key (offers_of_line offers bank nom) (fst state) of
           (offer_list, remaining) \<Rightarrow>
             (let top = (if 0 < remainder \<and> offer_list \<noteq> []
                    then rank_for_wave_mode remainder offer_list (date_of_instant (dm_required_date (al_demand l))) today mode top_n cached
                    else []);
                  row = queue_row_of plan q mode top (snd state);
                  remaining1 = fold (\<lambda>x. consume_pick (qp_supplier_id x) nom_key (qp_quantity x)) (qr_parts row) remaining;
                  urgent1 = (case first_of top of
                      Some p \<Rightarrow> if mode = Urgent \<and> nom_key \<noteq> [] \<and> dict_get (snd state) nom_key = None
                        then dict_set nom_key (ro_supplier_id p) (snd state) else snd state
                    | None \<Rightarrow> snd state)
              in (row, (remaining1, urgent1))))"

fun queue_loop ::
  "wave_plan \<Rightarrow> material_bank \<Rightarrow> (string, jdict list) dict \<Rightarrow> day \<Rightarrow> nat \<Rightarrow> (string \<Rightarrow> string option) \<Rightarrow> wave_mode option \<Rightarrow>
   queue_line list \<Rightarrow> queue_state \<Rightarrow> queue_row list \<times> queue_state" where
  "queue_loop plan bank offers today top_n cached override [] state = ([], state)"
| "queue_loop plan bank offers today top_n cached override (q # qs) state =
     (case queue_step plan bank offers today top_n cached override q state of
        (row, state1) \<Rightarrow>
          (case queue_loop plan bank offers today top_n cached override qs state1 of
             (rows, state2) \<Rightarrow> (row # rows, state2)))"

record wave_result =
  wr_wave :: wave
  wr_lines_count :: nat
  wr_picks_count :: nat
  wr_risk_lines :: nat

definition wave_result_of :: "queue_row list \<Rightarrow> wave \<Rightarrow> wave_result" where
  "wave_result_of rows w =
     (let own = filter (\<lambda>r. qr_wave_id r = Some (wv_id w)) rows
      in \<lparr>wr_wave = w, wr_lines_count = length own,
          wr_picks_count = length (filter (\<lambda>r. truthy (qr_supplier_id r)) own),
          wr_risk_lines = length (filter qr_deadline_risk own)\<rparr>)"

definition assign_key :: "queue_row \<Rightarrow> string" where
  "assign_key r = dm_case_id (al_demand (qr_line r)) @ '':'' @ dm_line_id (al_demand (qr_line r))"

record queue_plan =
  qn_allocation :: queue_allocation
  qn_waves :: wave_plan
  qn_wave_results :: "wave_result list"
  qn_lines :: "queue_row list"
  qn_picks :: "pick list"
  qn_assignments :: "(string, queue_part list) dict"
  qn_diversity :: "diversity list"
  qn_risk_lines :: nat

text \<open>The waves of the caller, unless there are none or they are empty.\<close>

definition effective_plan :: "alloc_case list \<Rightarrow> day \<Rightarrow> wave_plan option \<Rightarrow> wave_plan" where
  "effective_plan cases today waves =
     (case waves of
        Some plan \<Rightarrow> if wl_waves plan \<noteq> [] then plan
          else bucket_urgency_waves cases today DEFAULT_CRITICAL_DAYS DEFAULT_MEDIUM_DAYS
      | None \<Rightarrow> bucket_urgency_waves cases today DEFAULT_CRITICAL_DAYS DEFAULT_MEDIUM_DAYS)"

definition queue_rows ::
  "queue_allocation \<Rightarrow> wave_plan \<Rightarrow> material_bank \<Rightarrow> (string, jdict list) dict \<Rightarrow> day \<Rightarrow> nat \<Rightarrow> (string \<Rightarrow> string option) \<Rightarrow>
   wave_mode option \<Rightarrow> queue_row list" where
  "queue_rows packed plan bank offers today top_n cached override =
     fst (queue_loop plan bank offers today top_n cached override (sort_key (queue_line_key plan) (qa_lines packed))
       (initial_residual bank, []))"

definition optimize_queue_coverage ::
  "alloc_case list \<Rightarrow> material_bank \<Rightarrow> (string, jdict list) dict \<Rightarrow> day \<Rightarrow> nat \<Rightarrow> (string \<Rightarrow> string option) \<Rightarrow>
   wave_plan option \<Rightarrow> wave_mode option \<Rightarrow> queue_plan option" where
  "optimize_queue_coverage cases bank offers today top_n cached waves override =
     map_option (\<lambda>packed.
       let plan = effective_plan cases today waves;
           rows = queue_rows packed plan bank offers today top_n cached override
       in \<lparr>qn_allocation = packed, qn_waves = plan, qn_wave_results = map (wave_result_of rows) (wl_waves plan),
           qn_lines = rows,
           qn_picks = List.map_filter (\<lambda>r. map_option (pick_of (qr_line r)) (first_of (qr_top r))) rows,
           qn_assignments = fold (\<lambda>r. dict_set (assign_key r) (qr_parts r)) rows [],
           qn_diversity = List.map_filter qr_diversity rows, qn_risk_lines = length (filter qr_deadline_risk rows)\<rparr>)
       (allocate_queue_with_waves cases bank today DEFAULT_CRITICAL_DAYS DEFAULT_MEDIUM_DAYS)"

end
