(* ===== verification/Queue_Facts.thy ===== *)
theory Queue_Facts
  imports Queue_Coverage
begin

text \<open>
  What the plan of the queue guarantees: no supplier is booked beyond what the bank holds, no line gets
  more than the stock leaves open, and a supplier that misses the deadline is named only when no other
  is in time, and then the line is marked.
\<close>

section \<open>The rows of the ranking come from the offers\<close>

definition offered :: "rat \<Rightarrow> jdict list \<Rightarrow> ranked_offer \<Rightarrow> bool" where
  "offered need offers r \<longleftrightarrow> (\<exists>offer \<in> set offers. ro_supplier_id r = jstring (jget offer ''supplier_id'') \<and>
     optimizer_available offer = Some (ro_available r)) \<and> 0 < ro_coverable r \<and> ro_coverable r \<le> ro_available r \<and>
     ro_coverable r \<le> need"

lemma optimize_offered:
  assumes "0 < need" "r \<in> set (optimize_supplier_offers need offers d today n cached)"
  shows "offered need offers r"
proof -
  have n: "0 < n" using assms(2) by (cases n) (simp_all add: optimize_supplier_offers_def Let_def)
  obtain dl risk lo hi m i c where r: "r = row_of_candidate dl risk lo hi m i c" "c \<in> set (listed need offers d today n cached)"
    using assms(2) unfolding optimize_rows [OF assms(1) n] set_number_rows by (metis nth_mem)
  then have "c \<in> set (candidates need d today cached offers)" unfolding listed_def by (auto dest: in_set_takeD)
  then obtain offer where "offer \<in> set offers" "offer_candidate need d today cached offer = Some c" by (rule candidatesE)
  with offer_candidate_bounds [OF assms(1)] show ?thesis by (auto simp: offered_def r(1))
qed

text \<open>The first row is in time whenever some row is; otherwise every row is marked.\<close>

lemma first_in_time:
  assumes "0 < need" "optimize_supplier_offers need offers d today n cached = r # rs"
  shows "ro_meets_deadline r \<or> (\<forall>x \<in> set (r # rs). ro_deadline_risk x)"
proof -
  have n: "0 < n" using assms(2) by (cases n) (simp_all add: optimize_supplier_offers_def Let_def)
  let ?L = "listed need offers d today n cached"
  have ne: "?L \<noteq> []" using assms(2) unfolding optimize_rows [OF assms(1) n] by (cases ?L) simp_all
  then obtain c cs where L: "?L = c # cs" by (cases ?L) simp_all
  show ?thesis
  proof (cases "risky need offers d today cached")
    case True
    then have "\<forall>x \<in> set (optimize_supplier_offers need offers d today n cached). ro_deadline_risk x"
      unfolding optimize_rows [OF assms(1) n] by (auto simp: set_number_rows)
    then show ?thesis by (simp add: assms(2))
  next
    case False
    have r: "ro_meets_deadline r \<longleftrightarrow> (optimizer_date d \<noteq> None \<longrightarrow> cd_meets c = Some True)"
      using assms(2) unfolding optimize_rows [OF assms(1) n] L by (auto simp: row_fields(9))
    have "cd_meets c = Some True" if dl: "optimizer_date d \<noteq> None"
    proof -
      obtain b where b: "b \<in> set (candidates need d today cached offers)" "cd_meets b = Some True"
        using False dl by (auto simp: risky_def)
      have c: "c = hd (sort_key rank_key (candidates need d today cached offers))"
        using L n unfolding listed_def by (metis hd_take list.sel(1))
      have "b \<in> set (sort_key rank_key (candidates need d today cached offers))" using b(1) by simp
      moreover have "sorted (map gate_key (sort_key rank_key (candidates need d today cached offers)))" by (rule sorted_gates)
      ultimately have "gate_key c \<le> gate_key b" unfolding c
        by (cases "sort_key rank_key (candidates need d today cached offers)") auto
      then show ?thesis using b(2) by (auto simp: gate_key_def less_eq_prod_def split: if_splits)
    qed
    with r show ?thesis by blast
  qed
qed

definition economy_pool :: "ranked_offer list \<Rightarrow> ranked_offer list" where
  "economy_pool ranked = (if filter ro_meets_deadline ranked \<noteq> [] then filter ro_meets_deadline ranked else ranked)"

lemma economy_pool_sub: "set (economy_pool ranked) \<subseteq> set ranked"
  by (auto simp: economy_pool_def)

lemma economy_rows:
  "rank_for_wave_mode need offers d today Economy n cached = number_rows (\<lambda>index r. r\<lparr>ro_rank := index, ro_economy := True\<rparr>) 1
     (take n (sort_key economy_key (economy_pool (optimize_supplier_offers need offers d today (max n (length offers)) cached))))"
  by (simp add: rank_for_wave_mode_def economy_pool_def Let_def)

lemma urgent_rows:
  "rank_for_wave_mode need offers d today Urgent n cached =
    take n (optimize_supplier_offers need offers d today (max n (length offers)) cached)"
  by (simp add: rank_for_wave_mode_def)

lemma wave_offered:
  assumes "0 < need" "r \<in> set (rank_for_wave_mode need offers d today mode n cached)"
  shows "offered need offers r"
proof (cases mode)
  case Urgent
  with assms(2) have "r \<in> set (optimize_supplier_offers need offers d today (max n (length offers)) cached)"
    by (simp only: urgent_rows in_set_takeD)
  then show ?thesis by (rule optimize_offered [OF assms(1)])
next
  case Economy
  define ranked where "ranked = optimize_supplier_offers need offers d today (max n (length offers)) cached"
  define xs where "xs = take n (sort_key economy_key (economy_pool ranked))"
  have "r \<in> set (number_rows (\<lambda>index r. r\<lparr>ro_rank := index, ro_economy := True\<rparr>) 1 xs)"
    using assms(2) unfolding Economy economy_rows xs_def ranked_def .
  then obtain k where k: "k < length xs" "r = (xs ! k)\<lparr>ro_rank := 1 + k, ro_economy := True\<rparr>" unfolding set_number_rows by blast
  have "set xs \<subseteq> set ranked"
    using economy_pool_sub [of ranked] set_take_subset [of n "sort_key economy_key (economy_pool ranked)"] by (auto simp: xs_def)
  with nth_mem [OF k(1)] have "xs ! k \<in> set ranked" by blast
  from optimize_offered [OF assms(1) this [unfolded ranked_def]] show ?thesis by (simp add: offered_def k(2))
qed

lemma wave_first_in_time:
  assumes "0 < need" "rank_for_wave_mode need offers d today mode n cached = r # rs"
  shows "ro_meets_deadline r \<or> ro_deadline_risk r"
proof -
  define ranked where "ranked = optimize_supplier_offers need offers d today (max n (length offers)) cached"
  have ne: "ranked \<noteq> []" using assms(2) by (cases mode) (auto simp: urgent_rows economy_rows economy_pool_def ranked_def)
  then obtain f fs where f: "ranked = f # fs" by (cases ranked) simp_all
  note first = first_in_time [OF assms(1) f [unfolded ranked_def]]
  show ?thesis
  proof (cases mode)
    case Urgent
    then have "take n ranked = r # rs" using assms(2) by (simp only: urgent_rows ranked_def)
    then have "r = f" unfolding f by (cases n) simp_all
    with first show ?thesis by auto
  next
    case Economy
    define xs where "xs = take n (sort_key economy_key (economy_pool ranked))"
    have "number_rows (\<lambda>index r. r\<lparr>ro_rank := index, ro_economy := True\<rparr>) 1 xs = r # rs"
      using assms(2) unfolding Economy economy_rows xs_def ranked_def .
    then obtain x ys where x: "xs = x # ys" "r = x\<lparr>ro_rank := 1, ro_economy := True\<rparr>" by (cases xs) simp_all
    then have "x \<in> set (take n (sort_key economy_key (economy_pool ranked)))" by (simp add: xs_def [symmetric])
    then have "x \<in> set (economy_pool ranked)" by (auto dest: in_set_takeD)
    moreover have "filter ro_meets_deadline ranked \<noteq> [] \<or> (\<forall>x \<in> set ranked. ro_deadline_risk x)"
      using first by (auto simp: f)
    ultimately show ?thesis by (auto simp: x(2) economy_pool_def split: if_splits)
  qed
qed

section \<open>The residual\<close>

lemma apply_remainingE:
  assumes "apply_remaining_qty nk (offer # offers) rem = (out, rem1)" "jtext (jget offer ''supplier_id'') \<noteq> []"
  obtains left rem0 out1 where "apply_remaining_qty nk offers rem0 = (out1, rem1)"
    "dict_get rem0 (jtext (jget offer ''supplier_id''), nk) = Some left"
    "\<And>k q. dict_get rem k = Some q \<Longrightarrow> dict_get rem0 k = Some q"
    "out = (if left \<le> 0 then out1 else clamp_offer left offer # out1)"
proof -
  let ?k = "(jtext (jget offer ''supplier_id''), nk)"
  define left where "left = (case dict_get rem ?k of Some q \<Rightarrow> q | None \<Rightarrow> (case optimizer_available offer of Some q \<Rightarrow> q | None \<Rightarrow> 0))"
  define rem0 where "rem0 = (case dict_get rem ?k of Some q \<Rightarrow> rem | None \<Rightarrow> dict_set ?k left rem)"
  obtain out1 rem2 where a: "apply_remaining_qty nk offers rem0 = (out1, rem2)" by fastforce
  have "apply_remaining_qty nk (offer # offers) rem = (if left \<le> 0 then out1 else clamp_offer left offer # out1, rem2)"
    using assms(2) a [unfolded rem0_def left_def] by (simp add: Let_def left_def)
  then have "out = (if left \<le> 0 then out1 else clamp_offer left offer # out1)" "rem2 = rem1" using assms(1) by auto
  moreover have "dict_get rem0 ?k = Some left" by (simp add: rem0_def left_def split: option.split)
  moreover have "dict_get rem0 k = Some q" if "dict_get rem k = Some q" for k q
    using that by (auto simp: rem0_def split: option.split)
  ultimately show ?thesis using that a by blast
qed

lemma apply_remaining_keeps:
  "apply_remaining_qty nk offers rem = (out, rem1) \<Longrightarrow> dict_get rem k = Some q \<Longrightarrow> dict_get rem1 k = Some q"
proof (induction offers arbitrary: rem out rem1)
  case (Cons offer offers)
  show ?case
  proof (cases "jtext (jget offer ''supplier_id'') = []")
    case True
    then have "apply_remaining_qty nk offers rem = (out, rem1)" using Cons.prems(1) by simp
    then show ?thesis using Cons.IH Cons.prems(2) by blast
  next
    case False
    from apply_remainingE [OF Cons.prems(1) this] show ?thesis using Cons.IH Cons.prems(2) by metis
  qed
qed simp

lemma clamp_simps [simp]:
  "jget (clamp_offer left offer) ''supplier_id'' = jget offer ''supplier_id''"
  "optimizer_available (clamp_offer left offer) = Some left"
  by (simp_all add: clamp_offer_def optimizer_available_def jget_def price_dec_def)

lemma apply_remaining_out:
  "apply_remaining_qty nk offers rem = (out, rem1) \<Longrightarrow> o' \<in> set out \<Longrightarrow>
    \<exists>offer \<in> set offers. \<exists>left. o' = clamp_offer left offer \<and> 0 < left \<and> jtext (jget offer ''supplier_id'') \<noteq> [] \<and>
      dict_get rem1 (jtext (jget offer ''supplier_id''), nk) = Some left"
proof (induction offers arbitrary: rem out rem1)
  case (Cons offer offers)
  show ?case
  proof (cases "jtext (jget offer ''supplier_id'') = []")
    case True
    then have "apply_remaining_qty nk offers rem = (out, rem1)" using Cons.prems(1) by simp
    from Cons.IH [OF this Cons.prems(2)] show ?thesis by auto
  next
    case False
    from apply_remainingE [OF Cons.prems(1) this] obtain left rem0 out1 where s: "apply_remaining_qty nk offers rem0 = (out1, rem1)"
      "dict_get rem0 (jtext (jget offer ''supplier_id''), nk) = Some left"
      "out = (if left \<le> 0 then out1 else clamp_offer left offer # out1)" by metis
    show ?thesis
    proof (cases "o' \<in> set out1")
      case True
      from Cons.IH [OF s(1) this] show ?thesis by auto
    next
      case new: False
      then have "o' = clamp_offer left offer" "0 < left" using Cons.prems(2) s(3) by (auto split: if_splits)
      with apply_remaining_keeps [OF s(1,2)] False show ?thesis by auto
    qed
  qed
qed simp

definition part_taken :: "queue_row \<Rightarrow> string \<Rightarrow> string \<Rightarrow> rat" where
  "part_taken r sid nk = (if casefold (line_nom (qr_line r)) = nk
     then sum_list (map qp_quantity (filter (\<lambda>x. qp_supplier_id x = sid) (qr_parts r))) else 0)"

definition booked :: "queue_row list \<Rightarrow> string \<Rightarrow> string \<Rightarrow> rat" where
  "booked rows sid nk = sum_list (map (\<lambda>r. part_taken r sid nk) rows)"

definition tidy_ids :: "jdict list \<Rightarrow> bool" where
  "tidy_ids offers \<longleftrightarrow> (\<forall>offer \<in> set offers. py_strip (jstring (jget offer ''supplier_id'')) = jstring (jget offer ''supplier_id''))"

lemma tidy_text: "tidy_ids offers \<Longrightarrow> offer \<in> set offers \<Longrightarrow> jtext (jget offer ''supplier_id'') = jstring (jget offer ''supplier_id'')"
  by (auto simp: tidy_ids_def jtext_def jstring_def)

section \<open>One line\<close>

text \<open>A booked part: the supplier has at least the quantity left, under its own key.\<close>

lemma queue_stepE:
  assumes "queue_step plan bank offers today n cached override q state = (row, state1)"
  obtains out rem1 best mode where
    "apply_remaining_qty (casefold (line_nom (ql_line q))) (offers_of_line offers bank (line_nom (ql_line q))) (fst state) = (out, rem1)"
    "best = (if 0 < supplier_remainder (ql_line q) \<and> out \<noteq> [] then rank_for_wave_mode (supplier_remainder (ql_line q)) out
        (date_of_instant (dm_required_date (al_demand (ql_line q)))) today mode n cached else [])"
    "row = queue_row_of plan q mode best (snd state)"
    "fst state1 = fold (\<lambda>x. consume_pick (qp_supplier_id x) (casefold (line_nom (ql_line q))) (qp_quantity x)) (qr_parts row) rem1"
  using assms by (auto simp: queue_step_def Let_def split: prod.splits)

lemma queue_row_parts:
  "qr_line (queue_row_of plan q mode best urgent) = ql_line q"
  "x \<in> set (qr_parts (queue_row_of plan q mode best urgent)) \<Longrightarrow> \<exists>p ps. best = p # ps \<and>
     part_of mode (supplier_remainder (ql_line q)) p = Some x \<and> qr_parts (queue_row_of plan q mode best urgent) = [x]"
  by (auto simp: queue_row_of_def Let_def first_of_def split: option.splits list.splits dest: sym)

lemma part_of_fields:
  assumes "part_of mode remainder p = Some x" "0 < ro_coverable p"
  shows "qp_supplier_id x = ro_supplier_id p" "qp_quantity x = min remainder (ro_coverable p)" "0 < remainder"
  using assms by (auto simp: part_of_def Let_def split: if_splits)

lemma booked_part:
  assumes "queue_step plan bank offers today n cached override q state = (row, state1)" "x \<in> set (qr_parts row)"
    "apply_remaining_qty (casefold (line_nom (ql_line q))) (offers_of_line offers bank (line_nom (ql_line q))) (fst state) = (out, rem1)"
    "tidy_ids (offers_of_line offers bank (line_nom (ql_line q)))"
  shows "qr_parts row = [x] \<and> (\<exists>left. dict_get rem1 (qp_supplier_id x, casefold (line_nom (ql_line q))) = Some left \<and>
    0 < qp_quantity x \<and> qp_quantity x \<le> left \<and> qp_quantity x \<le> supplier_remainder (ql_line q) \<and>
    (\<exists>offer \<in> set (offers_of_line offers bank (line_nom (ql_line q))). jstring (jget offer ''supplier_id'') = qp_supplier_id x \<and>
       qp_supplier_id x \<noteq> []))"
proof -
  let ?l = "ql_line q"
  let ?nk = "casefold (line_nom ?l)" and ?offers = "offers_of_line offers bank (line_nom ?l)"
  obtain best mode where st: "best = (if 0 < supplier_remainder ?l \<and> out \<noteq> [] then rank_for_wave_mode (supplier_remainder ?l) out
        (date_of_instant (dm_required_date (al_demand ?l))) today mode n cached else [])"
      "row = queue_row_of plan q mode best (snd state)"
    using assms(1,3) by (elim queue_stepE) auto
  obtain p ps where p: "best = p # ps" "part_of mode (supplier_remainder ?l) p = Some x" "qr_parts row = [x]"
    using queue_row_parts(2) assms(2) unfolding st(2) by blast
  have "p \<in> set best" by (simp add: p(1))
  then have r: "0 < supplier_remainder ?l" and best: "p \<in> set (rank_for_wave_mode (supplier_remainder ?l) out
        (date_of_instant (dm_required_date (al_demand ?l))) today mode n cached)"
    unfolding st(1) by (auto split: if_splits)
  have off: "offered (supplier_remainder ?l) out p" by (rule wave_offered [OF r best])
  then obtain o' where o': "o' \<in> set out" "ro_supplier_id p = jstring (jget o' ''supplier_id'')"
    "optimizer_available o' = Some (ro_available p)" by (auto simp: offered_def)
  from apply_remaining_out [OF assms(3) o'(1)] obtain offer left where c: "offer \<in> set ?offers" "o' = clamp_offer left offer"
    "jtext (jget offer ''supplier_id'') \<noteq> []" "dict_get rem1 (jtext (jget offer ''supplier_id''), ?nk) = Some left" by blast
  have id: "jtext (jget offer ''supplier_id'') = ro_supplier_id p" using tidy_text [OF assms(4) c(1)] o'(2) c(2) by simp
  have q: "qp_supplier_id x = ro_supplier_id p" "qp_quantity x = min (supplier_remainder ?l) (ro_coverable p)"
    using part_of_fields [OF p(2)] off by (auto simp: offered_def)
  have "left = ro_available p" using o'(3) c(2) by simp
  then have "qp_quantity x \<le> left" "0 < qp_quantity x" "qp_quantity x \<le> supplier_remainder ?l"
    using off q(2) r by (auto simp: offered_def)
  moreover have "jstring (jget offer ''supplier_id'') = qp_supplier_id x" using o'(2) c(2) q(1) by simp
  ultimately show ?thesis using p(3) c id q(1) by auto
qed

lemma queue_step_books:
  assumes "queue_step plan bank offers today n cached override q state = (row, state1)"
    "tidy_ids (offers_of_line offers bank (line_nom (ql_line q)))" "dict_get (fst state) (sid, nk) = Some v"
  shows "\<exists>w. dict_get (fst state1) (sid, nk) = Some w \<and> part_taken row sid nk + w = v \<and> min 0 v \<le> w"
proof -
  obtain out rem1 best mode where ap: "apply_remaining_qty (casefold (line_nom (ql_line q)))
      (offers_of_line offers bank (line_nom (ql_line q))) (fst state) = (out, rem1)"
    and row: "row = queue_row_of plan q mode best (snd state)"
    and rem: "fst state1 = fold (\<lambda>x. consume_pick (qp_supplier_id x) (casefold (line_nom (ql_line q))) (qp_quantity x)) (qr_parts row) rem1"
    using assms(1) by (rule queue_stepE)
  have v: "dict_get rem1 (sid, nk) = Some v" using apply_remaining_keeps [OF ap assms(3)] .
  have line: "qr_line row = ql_line q" by (simp add: row queue_row_parts(1))
  show ?thesis
  proof (cases "qr_parts row")
    case Nil
    with v rem show ?thesis by (simp add: part_taken_def)
  next
    case (Cons x xs)
    then obtain left where x: "qr_parts row = [x]" "dict_get rem1 (qp_supplier_id x, casefold (line_nom (ql_line q))) = Some left"
      "0 < qp_quantity x" "qp_quantity x \<le> left"
      using booked_part [OF assms(1) _ ap assms(2), of x] by auto
    then have "fst state1 = dict_set (qp_supplier_id x, casefold (line_nom (ql_line q))) (left - qp_quantity x) rem1"
      by (auto simp: rem consume_pick_def dict_get_or_def Let_def)
    with v x show ?thesis by (auto simp: part_taken_def line)
  qed
qed

lemma queue_loop_books:
  "queue_loop plan bank offers today n cached override qs state = (rows, state1) \<Longrightarrow>
    \<forall>q \<in> set qs. tidy_ids (offers_of_line offers bank (line_nom (ql_line q))) \<Longrightarrow> dict_get (fst state) (sid, nk) = Some v \<Longrightarrow>
    booked rows sid nk \<le> max 0 v"
proof -
  have "\<exists>w. booked rows sid nk + w = v \<and> min 0 v \<le> w"
    if "queue_loop plan bank offers today n cached override qs state = (rows, state1)"
      "\<forall>q \<in> set qs. tidy_ids (offers_of_line offers bank (line_nom (ql_line q)))" "dict_get (fst state) (sid, nk) = Some v"
    for rows
    using that
  proof (induction qs arbitrary: state rows v)
    case (Cons q qs)
    obtain row s1 where st: "queue_step plan bank offers today n cached override q state = (row, s1)" by (rule prod.exhaust)
    then obtain rs where l: "queue_loop plan bank offers today n cached override qs s1 = (rs, state1)" "rows = row # rs"
      using Cons.prems(1) by (auto split: prod.splits)
    have ty: "tidy_ids (offers_of_line offers bank (line_nom (ql_line q)))" using Cons.prems(2) by simp
    from queue_step_books [OF st ty Cons.prems(3)] obtain w where w: "dict_get (fst s1) (sid, nk) = Some w"
      "part_taken row sid nk + w = v" "min 0 v \<le> w" by blast
    from Cons.IH [OF l(1) _ w(1)] Cons.prems(2) obtain u where "booked rs sid nk + u = w" "min 0 w \<le> u" by auto
    with w show ?case by (intro exI [of _ u]) (auto simp: booked_def l(2))
  qed (auto simp: booked_def)
  then show "queue_loop plan bank offers today n cached override qs state = (rows, state1) \<Longrightarrow>
    \<forall>q \<in> set qs. tidy_ids (offers_of_line offers bank (line_nom (ql_line q))) \<Longrightarrow> dict_get (fst state) (sid, nk) = Some v \<Longrightarrow>
    booked rows sid nk \<le> max 0 v" by fastforce
qed

section \<open>The bank's offers\<close>

lemma collected_offer:
  assumes "offer \<in> set (collect_supplier_offers nom bank)"
  obtains supplier offering where "(supplier, offering) \<in> set (supplier_offerings bank)"
    "jget offer ''supplier_id'' = JStr (supplier_id_of supplier)" "casefold (nomenclature_of offering) = casefold (py_strip nom)"
    "nomenclature_of offering \<noteq> []"
proof -
  let ?key = "casefold (py_strip nom)"
  obtain supplier offering where so: "(supplier, offering) \<in> set (supplier_offerings bank)" "offer_row ?key supplier offering = Some offer"
    and k: "?key \<noteq> []"
    using assms by (auto simp: collect_supplier_offers_def Let_def set_map_filter split: if_splits)
  then have row: "casefold (nomenclature_of offering) = ?key" "jget offer ''supplier_id'' = JStr (supplier_id_of supplier)"
    by (auto simp: offer_row_def Let_def supplier_id_of_def split: if_splits option.splits)
  then have "nomenclature_of offering \<noteq> []" using k by auto
  with so(1) row that show ?thesis by blast
qed

lemma tidy_bank:
  assumes "\<forall>s \<in> set (active_suppliers bank). py_strip (supplier_id_of s) = supplier_id_of s"
  shows "tidy_ids (offers_of_line [] bank nom)"
  unfolding tidy_ids_def
proof
  fix offer assume "offer \<in> set (offers_of_line [] bank nom)"
  then have "offer \<in> set (collect_supplier_offers nom bank)" by (auto simp: offers_of_line_def split: if_splits)
  then obtain supplier offering where so: "(supplier, offering) \<in> set (supplier_offerings bank)"
    "jget offer ''supplier_id'' = JStr (supplier_id_of supplier)" by (rule collected_offer)
  then have "supplier \<in> set (active_suppliers bank)" by (auto simp: supplier_offerings_def)
  with assms so(2) show "py_strip (jstring (jget offer ''supplier_id'')) = jstring (jget offer ''supplier_id'')"
    by (auto simp: jstring_def py_strip_id)
qed

lemma initial_residual_dom:
  assumes "(supplier, offering) \<in> set (supplier_offerings bank)" "supplier_id_of supplier \<noteq> []" "nomenclature_of offering \<noteq> []"
  shows "dict_get (initial_residual bank) (supplier_id_of supplier, casefold (nomenclature_of offering)) \<noteq> None"
proof -
  let ?step = "\<lambda>(supplier, offering) d.
       if supplier_id_of supplier = [] \<or> nomenclature_of offering = [] then d
       else dict_set (supplier_id_of supplier, casefold (nomenclature_of offering)) (residual_quantity offering) d"
  let ?k = "(supplier_id_of supplier, casefold (nomenclature_of offering))"
  have keep: "dict_get (fold ?step xs d) k \<noteq> None" if "dict_get d k \<noteq> None" for xs d k
    using that by (induction xs arbitrary: d) (auto split: prod.splits)
  have "dict_get (fold ?step xs d) ?k \<noteq> None" if "(supplier, offering) \<in> set xs" for xs d
    using that
  proof (induction xs arbitrary: d)
    case (Cons x xs)
    show ?case
    proof (cases "x = (supplier, offering)")
      case True
      have "dict_get (?step x d) ?k \<noteq> None" using assms(2,3) by (simp add: True)
      from keep [OF this] show ?thesis by simp
    next
      case False
      with Cons show ?thesis by simp
    qed
  qed simp
  from this [OF assms(1)] show ?thesis unfolding initial_residual_def .
qed

lemma unknown_not_booked:
  assumes "queue_step plan bank [] today n cached override q state = (row, state1)"
    "\<forall>s \<in> set (active_suppliers bank). py_strip (supplier_id_of s) = supplier_id_of s"
    "dict_get (initial_residual bank) (sid, nk) = None"
  shows "part_taken row sid nk = 0"
proof (cases "qr_parts row")
  case (Cons x xs)
  obtain out rem1 best mode where ap: "apply_remaining_qty (casefold (line_nom (ql_line q)))
      (offers_of_line [] bank (line_nom (ql_line q))) (fst state) = (out, rem1)"
    and row: "row = queue_row_of plan q mode best (snd state)"
    using assms(1) by (rule queue_stepE)
  have x: "qr_parts row = [x]" and "\<exists>offer \<in> set (offers_of_line [] bank (line_nom (ql_line q))).
      jstring (jget offer ''supplier_id'') = qp_supplier_id x \<and> qp_supplier_id x \<noteq> []"
    using booked_part [OF assms(1) _ ap tidy_bank [OF assms(2)], of x] Cons by auto
  then obtain offer where o': "offer \<in> set (collect_supplier_offers (line_nom (ql_line q)) bank)"
    "jstring (jget offer ''supplier_id'') = qp_supplier_id x" "qp_supplier_id x \<noteq> []"
    by (auto simp: offers_of_line_def split: if_splits)
  from o'(1) obtain supplier offering where so: "(supplier, offering) \<in> set (supplier_offerings bank)"
    "jget offer ''supplier_id'' = JStr (supplier_id_of supplier)"
    "casefold (nomenclature_of offering) = casefold (py_strip (line_nom (ql_line q)))" "nomenclature_of offering \<noteq> []"
    by (rule collected_offer)
  have id: "supplier_id_of supplier = qp_supplier_id x" using o'(2,3) so(2) by (auto simp: jstring_def split: if_splits)
  have "casefold (nomenclature_of offering) = casefold (line_nom (ql_line q))" using so(3) by (simp add: line_nom_def)
  with initial_residual_dom [OF so(1) _ so(4)] id o'(3)
  have "dict_get (initial_residual bank) (qp_supplier_id x, casefold (line_nom (ql_line q))) \<noteq> None" by simp
  with assms(3) have "(qp_supplier_id x, casefold (line_nom (ql_line q))) \<noteq> (sid, nk)" by auto
  moreover have "qr_line row = ql_line q" by (simp add: row queue_row_parts(1))
  ultimately show ?thesis by (auto simp: part_taken_def x)
qed (simp add: part_taken_def)

lemma queue_loop_rows:
  "queue_loop plan bank offers today n cached override qs state = (rows, state1) \<Longrightarrow>
    map qr_line rows = map ql_line qs \<and>
    (\<forall>r \<in> set rows. \<exists>q s s1. q \<in> set qs \<and> queue_step plan bank offers today n cached override q s = (r, s1))"
proof (induction qs arbitrary: state rows)
  case (Cons q qs)
  obtain row s1 where st: "queue_step plan bank offers today n cached override q state = (row, s1)" by (rule prod.exhaust)
  then obtain rs where l: "queue_loop plan bank offers today n cached override qs s1 = (rs, state1)" "rows = row # rs"
    using Cons.prems(1) by (auto split: prod.splits)
  have "qr_line row = ql_line q" using st by (elim queue_stepE) (simp add: queue_row_parts(1))
  moreover have "\<exists>q' s s1. q' \<in> set (q # qs) \<and> queue_step plan bank offers today n cached override q' s = (r, s1)"
    if "r \<in> set rows" for r
    using that Cons.IH [OF l(1)] st l(2) by (metis list.set_intros set_ConsD)
  ultimately show ?case using Cons.IH [OF l(1)] l(2) by simp
qed simp

lemma row_in_time:
  assumes "queue_step plan bank offers today n cached override q state = (row, state1)"
    "tidy_ids (offers_of_line offers bank (line_nom (ql_line q)))"
  shows "sum_list (map qp_quantity (qr_parts row)) \<le> supplier_remainder (qr_line row) \<and>
    (qr_supplier_id row \<noteq> None \<longrightarrow> qr_meets_deadline row = Some True \<or> qr_deadline_risk row)"
proof -
  obtain out rem1 best mode where ap: "apply_remaining_qty (casefold (line_nom (ql_line q)))
      (offers_of_line offers bank (line_nom (ql_line q))) (fst state) = (out, rem1)"
    and best: "best = (if 0 < supplier_remainder (ql_line q) \<and> out \<noteq> [] then rank_for_wave_mode (supplier_remainder (ql_line q)) out
        (date_of_instant (dm_required_date (al_demand (ql_line q)))) today mode n cached else [])"
    and row: "row = queue_row_of plan q mode best (snd state)"
    using assms(1) by (rule queue_stepE)
  have "0 \<le> supplier_remainder (ql_line q)" by (simp add: supplier_remainder_def Let_def)
  moreover have "sum_list (map qp_quantity (qr_parts row)) \<le> supplier_remainder (ql_line q)" if "qr_parts row = x # xs" for x xs
    using booked_part [OF assms(1) _ ap assms(2), of x] that by auto
  ultimately have "sum_list (map qp_quantity (qr_parts row)) \<le> supplier_remainder (ql_line q)"
    by (cases "qr_parts row") auto
  moreover have "qr_meets_deadline row = Some True \<or> qr_deadline_risk row" if named: "qr_supplier_id row \<noteq> None"
  proof -
    obtain p ps where p: "best = p # ps"
      using named by (cases best) (simp_all add: row queue_row_of_def Let_def first_of_def)
    then have "0 < supplier_remainder (ql_line q)" "rank_for_wave_mode (supplier_remainder (ql_line q)) out
        (date_of_instant (dm_required_date (al_demand (ql_line q)))) today mode n cached = p # ps"
      using best by (auto split: if_splits)
    from wave_first_in_time [OF this] show ?thesis by (simp add: row queue_row_of_def Let_def first_of_def p)
  qed
  ultimately show ?thesis by (simp add: row queue_row_parts(1))
qed

section \<open>Properties\<close>


definition demo_queue_offering :: "rat \<Rightarrow> rat \<Rightarrow> json" where
  "demo_queue_offering price qty = JObj [(''nomenclature_id'', JStr ''n''), (''unit_price'', JDec price),
     (''available_quantity'', JDec qty), (''lead_time_days'', JInt 2)]"

definition demo_queue_bank :: material_bank where
  "demo_queue_bank = \<lparr>mb_materials = [], mb_warehouses = [], mb_stock = [],
     mb_suppliers = [[(''supplier_id'', JStr ''s''), (''offerings'', JArr [demo_queue_offering 1 5, demo_queue_offering 2 10])]]\<rparr>"

definition demo_queue_case :: alloc_case where
  "demo_queue_case = \<lparr>ac_id = Some ''c'', ac_required_date = None, ac_positions =
     [\<lparr>ap_cancelled = False, ap_line_id = Some ''1'', ap_id = None, ap_nomenclature_id = Some ''n'',
       ap_nomenclature_name = None, ap_quantity = 8, ap_unit = None, ap_required_date = None\<rparr>]\<rparr>"

text \<open>
  Two offerings of one supplier for one nomenclature share the residual of the last one: each is offered with all of
  it, so that the cheap one, which holds five pieces, is booked for eight.
\<close>

lemma offerings_share_residual:
  "map optimizer_available (collect_supplier_offers ''n'' demo_queue_bank) = [Some 5, Some 10] \<and>
   map optimizer_available (fst (apply_remaining_qty ''n'' (collect_supplier_offers ''n'' demo_queue_bank)
     (initial_residual demo_queue_bank))) = [Some 10, Some 10]"
  by code_simp

lemma demo_queue_totals: "bank_totals demo_queue_bank \<noteq> None"
  by code_simp


end
