(* ===== verification/Manager_Workspace.thy ===== *)
theory Manager_Workspace
  imports Queue_Coverage
begin

text \<open>
  The workspace of the procurement manager (\<open>app/agents/procurement_manager_agent/service.py\<close>,
  \<open>operations.py\<close>, \<open>scoring.py\<close>, \<open>documents.py\<close>): drafts of orders and of requests for quotation, quotes and their
  comparison, recommendations, approvals, shipments, nonconformities and the amounts of the lines.  The workspace is the
  dictionary under \<open>procurement_manager\<close> in the metadata of a case, here a record with one field per key; a list of
  \<open>{idempotency_key, item}\<close> is an association list in the order of the entries, of which the first counts.

  Clock and uuid are arguments, amounts exact numbers; the texts of mails and the fields that are stored and never
  read (descriptions, units, comments, terms) are left out.  A request that raises is rolled
  back by the endpoint (\<open>get_db\<close>), so an error carries no state.
\<close>

section \<open>Requests and records\<close>

datatype decision = Requested | Approved | Rejected

record approval =
  av_id :: string
  av_operation :: string
  av_status :: decision
  av_actor :: "string option"
  av_at :: int

record approval_request =
  ar_id :: "string option"
  ar_operation :: string
  ar_status :: decision
  ar_key :: string

record order_line =
  ol_line_id :: string
  ol_nomenclature_id :: string
  ol_quantity :: rat
  ol_unit_price :: rat
  ol_delivery_days :: nat

record order_draft =
  od_po_id :: string
  od_supplier_id :: string
  od_supplier_name :: string
  od_lines :: "order_line list"
  od_currency :: string
  od_total :: rat
  od_source_quote :: "string option"
  od_approved :: bool
  od_executed :: bool
  od_payment_allowed :: bool
  od_at :: int

record order_request =
  oq_supplier_id :: string
  oq_lines :: "order_line list"
  oq_source_quote :: "string option"
  oq_key :: string

record stored_order =
  so_draft :: order_draft
  so_approval :: "string option"

record rfq_line =
  rl_line_id :: string
  rl_nomenclature_id :: "string option"
  rl_quantity :: rat
  rl_required :: "day option"

record rfq_draft =
  rd_rfq_id :: string
  rd_supplier_ids :: "string list"
  rd_recipients :: "string list"
  rd_lines :: "rfq_line list"
  rd_at :: int

record rfq_request =
  rr_supplier_ids :: "string list"
  rr_lines :: "rfq_line list"
  rr_key :: string

record quote_line =
  qo_line_id :: string
  qo_unit_price :: rat
  qo_quantity :: rat
  qo_delivery_days :: nat
  qo_compliant :: bool

record quote =
  qt_id :: string
  qt_supplier_id :: string
  qt_currency :: string
  qt_lines :: "quote_line list"
  qt_quality :: rat
  qt_risk :: rat

definition quote_total :: "quote \<Rightarrow> rat" where
  "quote_total q = sum_list (map (\<lambda>l. qo_unit_price l * qo_quantity l) (qt_lines q))"

record weights =
  wt_price :: rat
  wt_delivery :: rat
  wt_quality :: rat
  wt_risk :: rat

definition DEFAULT_WEIGHTS :: weights where
  "DEFAULT_WEIGHTS = \<lparr>wt_price = 45 / 100, wt_delivery = 25 / 100, wt_quality = 20 / 100, wt_risk = 10 / 100\<rparr>"

text \<open>What the schema lets in: no negative weight and not all of them zero.\<close>

definition valid_weights :: "weights \<Rightarrow> bool" where
  "valid_weights w \<longleftrightarrow> 0 \<le> wt_price w \<and> 0 \<le> wt_delivery w \<and> 0 \<le> wt_quality w \<and> 0 \<le> wt_risk w \<and>
     0 < wt_price w + wt_delivery w + wt_quality w + wt_risk w"

definition valid_quote :: "quote \<Rightarrow> bool" where
  "valid_quote q \<longleftrightarrow> qt_lines q \<noteq> [] \<and> 0 \<le> qt_quality q \<and> qt_quality q \<le> 100 \<and> 0 \<le> qt_risk q \<and> qt_risk q \<le> 100 \<and>
     (\<forall>l \<in> set (qt_lines q). 0 \<le> qo_unit_price l \<and> 0 < qo_quantity l)"

record quote_score =
  qs_quote_id :: string
  qs_supplier_id :: string
  qs_total :: rat
  qs_price :: rat
  qs_delivery :: rat
  qs_quality :: rat
  qs_risk :: rat
  qs_final :: rat
  qs_rank :: nat

record comparison =
  cm_weights :: weights
  cm_scores :: "quote_score list"
  cm_recommended :: "string option"
  cm_at :: int

record recommendation_request =
  re_supplier_id :: string
  re_quote_id :: string
  re_supplier_approval :: "string option"
  re_price_approval :: "string option"
  re_key :: string

record recommendation_record =
  rc_id :: string
  rc_supplier :: string
  rc_quote_id :: string
  rc_total :: rat
  rc_currency :: string
  rc_score :: "rat option"
  rc_approved :: bool
  rc_supplier_approval :: "string option"
  rc_price_approval :: "string option"
  rc_at :: int

datatype shipment_type = Ship_Ordered | Ship_Dispatched | Ship_In_Transit | Ship_Delayed | Ship_Received

record shipment =
  sh_event_id :: string
  sh_type :: shipment_type
  sh_at :: int

record shipment_request =
  sq_event :: shipment
  sq_approval :: string
  sq_key :: string

record operation =
  op_id :: string
  op_operation :: string
  op_status :: string
  op_approval :: "string option"
  op_at :: int

record line_amount =
  la_unit_price :: "rat option"
  la_amount :: "rat option"
  la_currency :: string
  la_source :: "string option"

record amount_entry =
  ae_line_id :: string
  ae_unit_price :: "rat option"
  ae_amount :: "rat option"
  ae_currency :: string
  ae_source :: "string option"

section \<open>The state\<close>

record mworkspace =
  ws_lifecycle :: "string option"
  ws_suppliers :: "(string \<times> string) list"
  ws_orders :: "(string, stored_order) dict"
  ws_rfqs :: "(string, rfq_draft) dict"
  ws_quotes :: "(string, quote) dict"
  ws_comparison :: "comparison option"
  ws_recommendation :: "recommendation_record option"
  ws_audit :: "(string, recommendation_record) dict"
  ws_approvals :: "(string \<times> approval) list"
  ws_operations :: "operation list"
  ws_shipments :: "(string, shipment) dict"
  ws_nonconformities :: "(string, json) dict"
  ws_line_amounts :: "(string, line_amount) dict"
  ws_fulfillment :: "string option"
  ws_fulfillment_manual :: bool
  ws_agent_stage :: "string option"
  ws_paused :: bool

record case_line =
  cl_line_id :: string
  cl_quantity :: rat
  cl_cancelled :: bool

record case_event =
  ce_type :: string
  ce_status :: string

record mcase =
  mc_id :: string
  mc_status :: string
  mc_control_point :: "string option"
  mc_agent :: "string option"
  mc_task :: "string option"
  mc_completed_tasks :: "string list"
  mc_lines :: "case_line list"
  mc_next_quality_agent :: "string option"
  mc_quality_stage :: "string option"
  mc_nonconformity :: "json option"
  mc_workspace :: mworkspace
  mc_events :: "(string, case_event) dict"

datatype manager_error =
    Payment_Forbidden | Operation_Not_Allowed string | Approval_Missing | Approval_Not_Granted
  | Quote_Not_Found | Foreign_Quote | Unknown_Fulfillment string | Not_Authorised

text \<open>The clock and the fresh uuid of a request.\<close>

record stamp =
  sp_now :: int
  sp_uuid :: string

text \<open>An event is written once per idempotency key of the case, whatever its type.\<close>

definition add_event :: "string \<Rightarrow> string \<Rightarrow> mcase \<Rightarrow> mcase" where
  "add_event event_type key c =
     (if dict_get (mc_events c) key \<noteq> None then c
      else c\<lparr>mc_events := mc_events c @ [(key, \<lparr>ce_type = event_type, ce_status = mc_status c\<rparr>)]\<rparr>)"

section \<open>The gate\<close>

definition PAYMENT_STEM :: string where
  "PAYMENT_STEM =
    [CHR 0xD0, CHR 0xBE, CHR 0xD0, CHR 0xBF, CHR 0xD0, CHR 0xBB, CHR 0xD0, CHR 0xB0, CHR 0xD1, CHR 0x82]"

definition ALLOWED_OPERATIONS :: "string list" where
  "ALLOWED_OPERATIONS = [''select_supplier'', ''approve_price'', ''send_rfq'', ''create_supplier_order'', ''update_supplier_order'',
     ''record_shipment'']"

definition authorize :: "string \<Rightarrow> string option \<Rightarrow> approval list \<Rightarrow> manager_error + approval" where
  "authorize operation approval_id approvals =
     (if is_substring ''payment'' (casefold operation) \<or> is_substring PAYMENT_STEM (casefold operation) then Inl Payment_Forbidden
      else if operation \<notin> set ALLOWED_OPERATIONS then Inl (Operation_Not_Allowed operation)
      else if \<not> truthy approval_id then Inl Approval_Missing
      else (case find (\<lambda>a. Some (av_id a) = approval_id \<and> av_operation a = operation) approvals of
              None \<Rightarrow> Inl Approval_Not_Granted
            | Some a \<Rightarrow> if av_status a = Approved then Inr a else Inl Approval_Not_Granted))"

definition list_approvals :: "mworkspace \<Rightarrow> approval list" where
  "list_approvals ws = map snd (ws_approvals ws)"

section \<open>The comparison of quotes\<close>

definition SCORE_Q :: rat where "SCORE_Q = 1 / 100"

definition quote_eligible :: "quote \<Rightarrow> bool" where
  "quote_eligible q \<longleftrightarrow> (\<forall>l \<in> set (qt_lines q). qo_compliant l)"

definition quote_days :: "quote \<Rightarrow> nat" where
  "quote_days q = fold max (map qo_delivery_days (qt_lines q)) 0"

text \<open>The totals by quote id: of two quotes with one id the last one counts.\<close>

definition quote_totals :: "quote list \<Rightarrow> (string, rat) dict" where
  "quote_totals quotes = fold (\<lambda>q. dict_set (qt_id q) (quote_total q)) quotes []"

definition score_quote :: "weights \<Rightarrow> rat \<Rightarrow> nat \<Rightarrow> (string, rat) dict \<Rightarrow> quote \<Rightarrow> quote_score" where
  "score_quote w min_total max_delivery totals q =
     (let qtotal = dict_get_or totals (qt_id q) 0;
          price = (if qtotal = 0 then 100 else 100 * min_total / qtotal);
          delivery = (if max_delivery = 0 then 100 else 100 * of_nat (max_delivery - quote_days q) / of_nat max_delivery);
          risk = 100 - qt_risk q;
          final = (price * wt_price w + delivery * wt_delivery w + qt_quality q * wt_quality w + risk * wt_risk w) /
            (wt_price w + wt_delivery w + wt_quality w + wt_risk w)
      in \<lparr>qs_quote_id = qt_id q, qs_supplier_id = qt_supplier_id q, qs_total = quantize_half_up SCORE_Q qtotal,
          qs_price = quantize_half_up SCORE_Q price, qs_delivery = quantize_half_up SCORE_Q delivery,
          qs_quality = quantize_half_up SCORE_Q (qt_quality q), qs_risk = quantize_half_up SCORE_Q risk,
          qs_final = quantize_half_up SCORE_Q final, qs_rank = 0\<rparr>)"

definition score_key :: "quote_score \<Rightarrow> rat \<times> rat \<times> string" where
  "score_key s = (- qs_final s, qs_total s, qs_quote_id s)"

definition compare_quotes :: "quote list \<Rightarrow> weights option \<Rightarrow> int \<Rightarrow> comparison" where
  "compare_quotes quotes weights now =
     (let w = (case weights of Some x \<Rightarrow> x | None \<Rightarrow> DEFAULT_WEIGHTS); eligible = filter quote_eligible quotes
      in if eligible = [] then \<lparr>cm_weights = w, cm_scores = [], cm_recommended = None, cm_at = now\<rparr>
         else (let totals = quote_totals eligible; min_total = min_of (dict_values totals);
                   max_delivery = fold max (map quote_days eligible) 0;
                   scores = number_rows (\<lambda>rank s. s\<lparr>qs_rank := rank\<rparr>) 1
                     (sort_key score_key (map (score_quote w min_total max_delivery totals) eligible))
               in \<lparr>cm_weights = w, cm_scores = scores, cm_recommended = map_option qs_quote_id (first_of scores), cm_at = now\<rparr>))"

section \<open>Amounts of lines from order drafts\<close>

definition FOUR_PLACES :: rat where "FOUR_PLACES = 1 / 10000"

text \<open>The currency codes are ASCII.\<close>

definition currency_upper :: "string \<Rightarrow> string" where
  "currency_upper s = map (\<lambda>c. if CHR ''a'' \<le> c \<and> c \<le> CHR ''z'' then char_of ((of_char c :: nat) - 32) else c) s"

definition order_currency :: "order_draft \<Rightarrow> string" where
  "order_currency d = (let currency = currency_upper (if od_currency d = [] then ''RUB'' else od_currency d)
     in if currency = [] then ''RUB'' else currency)"

definition iter_po_draft_payloads :: "mworkspace \<Rightarrow> order_draft list" where
  "iter_po_draft_payloads ws = filter (\<lambda>d. od_po_id d \<noteq> []) (map so_draft (dict_values (ws_orders ws)))"

definition priced_portions_of :: "order_draft \<Rightarrow> (string \<times> rat \<times> rat \<times> string) list" where
  "priced_portions_of d =
     List.map_filter (\<lambda>l. if py_strip (ol_line_id l) = [] \<or> ol_unit_price l \<le> 0 \<or> ol_quantity l \<le> 0 then None
       else Some (py_strip (ol_line_id l), ol_quantity l, ol_unit_price l, order_currency d)) (od_lines d)"

definition po_priced_portions :: "mworkspace \<Rightarrow> (string, (rat \<times> rat \<times> string) list) dict" where
  "po_priced_portions ws =
     fold (\<lambda>(line_id, portion) d. dict_set line_id (dict_get_or d line_id [] @ [portion]) d)
       (concat (map priced_portions_of (iter_po_draft_payloads ws))) []"

definition portions_quantity :: "(rat \<times> rat \<times> string) list \<Rightarrow> rat" where
  "portions_quantity portions = sum_list (map fst portions)"

definition portions_amount :: "(rat \<times> rat \<times> string) list \<Rightarrow> rat" where
  "portions_amount portions = quantize CENT (sum_list (map (\<lambda>(qty, price, _). qty * price) portions))"

definition line_amount_protected :: "line_amount option \<Rightarrow> (rat \<times> rat \<times> string) list \<Rightarrow> bool" where
  "line_amount_protected existing portions =
     (case existing of
        None \<Rightarrow> False
      | Some e \<Rightarrow>
          (let source = casefold (py_strip (opt_str (la_source e)));
               price = (case la_unit_price e of Some x \<Rightarrow> x | None \<Rightarrow> 0);
               amount = (case la_amount e of Some x \<Rightarrow> x | None \<Rightarrow> 0)
           in if source = ''manual'' then True
              else if source = ''po'' then False
              else if price \<le> 0 then False
              else if amount = portions_amount portions then False
              else if price \<in> set (map (\<lambda>(_, p, _). p) portions) \<and> amount = quantize CENT (price * portions_quantity portions) then False
              else \<not> (\<exists>(qty, p, _) \<in> set portions. price = p \<and> amount = quantize CENT (p * qty))))"

definition po_line_amount :: "(rat \<times> rat \<times> string) list \<Rightarrow> line_amount" where
  "po_line_amount portions =
     \<lparr>la_unit_price = Some (quantize FOUR_PLACES (portions_amount portions / portions_quantity portions)),
      la_amount = Some (portions_amount portions),
      la_currency = (case portions of [] \<Rightarrow> ''RUB'' | (_, _, currency) # _ \<Rightarrow> currency), la_source = Some ''po''\<rparr>"

definition sync_line :: "string \<times> (rat \<times> rat \<times> string) list \<Rightarrow> (string, line_amount) dict \<Rightarrow> (string, line_amount) dict" where
  "sync_line entry current =
     (case entry of (line_id, portions) \<Rightarrow>
        if line_amount_protected (dict_get current line_id) portions \<or> portions_quantity portions \<le> 0 \<or> portions_amount portions \<le> 0
        then current else dict_set line_id (po_line_amount portions) current)"

definition sync_line_amounts_from_po_drafts :: "mworkspace \<Rightarrow> mworkspace" where
  "sync_line_amounts_from_po_drafts ws = ws\<lparr>ws_line_amounts := fold sync_line (po_priced_portions ws) (ws_line_amounts ws)\<rparr>"

end
