(* ===== verification/Manager_Service.thy ===== *)
theory Manager_Service
  imports Manager_Workspace
begin

text \<open>
  The operations of the procurement manager on the workspace of a case, and the endpoints
  (\<open>api/v1/endpoints/procurement_manager.py\<close>) as one function \<open>handle\<close> of the user and the request: a decision on an
  approval is for superusers, a request that raises changes nothing.
\<close>

section \<open>Lists updated in place\<close>

fun update_first :: "('a \<Rightarrow> bool) \<Rightarrow> 'a \<Rightarrow> 'a list \<Rightarrow> 'a list" where
  "update_first p x [] = []"
| "update_first p x (y # ys) = (if p y then x # ys else y # update_first p x ys)"

definition put_first :: "('a \<Rightarrow> bool) \<Rightarrow> 'a \<Rightarrow> 'a list \<Rightarrow> 'a list" where
  "put_first p x ys = (if \<exists>y \<in> set ys. p y then update_first p x ys else ys @ [x])"

definition put_last :: "('a \<Rightarrow> bool) \<Rightarrow> 'a \<Rightarrow> 'a list \<Rightarrow> 'a list" where
  "put_last p x ys = (if \<exists>y \<in> set ys. p y then rev (update_first p x (rev ys)) else ys @ [x])"

definition append_entry :: "string \<Rightarrow> 'v \<Rightarrow> (string, 'v) dict \<Rightarrow> (string, 'v) dict" where
  "append_entry key v d = d @ [(key, v)]"

section \<open>Drafts and quotes\<close>

definition supplier_name_of :: "mworkspace \<Rightarrow> string \<Rightarrow> string" where
  "supplier_name_of ws sid =
     (case dict_get (ws_suppliers ws) sid of None \<Rightarrow> sid | Some name \<Rightarrow> if name = [] then sid else name)"

definition order_total :: "order_line list \<Rightarrow> rat" where
  "order_total lines = sum_list (map (\<lambda>l. ol_quantity l * ol_unit_price l) lines)"

definition render_purchase_order_draft :: "stamp \<Rightarrow> mworkspace \<Rightarrow> order_request \<Rightarrow> order_draft" where
  "render_purchase_order_draft sp ws rq =
     \<lparr>od_po_id = sp_uuid sp, od_supplier_id = oq_supplier_id rq, od_supplier_name = supplier_name_of ws (oq_supplier_id rq),
      od_lines = oq_lines rq, od_currency = ''RUB'', od_total = order_total (oq_lines rq), od_source_quote = oq_source_quote rq,
      od_approved = False, od_executed = False, od_payment_allowed = False, od_at = sp_now sp\<rparr>"

definition authorized_if ::
  "string \<Rightarrow> string option \<Rightarrow> mworkspace \<Rightarrow> manager_error + bool" where
  "authorized_if operation approval_id ws =
     (if truthy approval_id then map_sum id (\<lambda>_. True) (authorize operation approval_id (list_approvals ws)) else Inr False)"

definition create_purchase_order_draft ::
  "stamp \<Rightarrow> order_request \<Rightarrow> string option \<Rightarrow> mcase \<Rightarrow> manager_error + order_draft \<times> mcase" where
  "create_purchase_order_draft sp rq approval_id c =
     (let ws = mc_workspace c
      in case dict_get (ws_orders ws) (oq_key rq) of
           Some stored \<Rightarrow> Inr (so_draft stored, c)
         | None \<Rightarrow>
             map_sum id (\<lambda>approved.
               let draft = (render_purchase_order_draft sp ws rq)\<lparr>od_approved := approved\<rparr>;
                   ws1 = sync_line_amounts_from_po_drafts (ws\<lparr>ws_orders :=
                      append_entry (oq_key rq) \<lparr>so_draft = draft, so_approval = approval_id\<rparr> (ws_orders ws),
                      ws_lifecycle := Some ''purchase_order_draft''\<rparr>);
                   c1 = c\<lparr>mc_workspace := ws1, mc_status := ''purchase_draft'', mc_control_point := Some ''purchase''\<rparr>
               in (draft, add_event ''purchase_order_draft_created'' (oq_key rq) c1))
             (authorized_if ''create_supplier_order'' approval_id ws))"

definition render_rfq_draft :: "stamp \<Rightarrow> mworkspace \<Rightarrow> rfq_request \<Rightarrow> rfq_draft" where
  "render_rfq_draft sp ws rq =
     (let names = map snd (filter (\<lambda>s. fst s \<in> set (rr_supplier_ids rq)) (ws_suppliers ws))
      in \<lparr>rd_rfq_id = sp_uuid sp, rd_supplier_ids = rr_supplier_ids rq,
          rd_recipients = (if names = [] then rr_supplier_ids rq else names), rd_lines = rr_lines rq, rd_at = sp_now sp\<rparr>)"

definition create_rfq_draft :: "stamp \<Rightarrow> rfq_request \<Rightarrow> mcase \<Rightarrow> rfq_draft \<times> mcase" where
  "create_rfq_draft sp rq c =
     (let ws = mc_workspace c
      in case dict_get (ws_rfqs ws) (rr_key rq) of
           Some draft \<Rightarrow> (draft, c)
         | None \<Rightarrow>
             (let draft = render_rfq_draft sp ws rq;
                  ws1 = ws\<lparr>ws_rfqs := append_entry (rr_key rq) draft (ws_rfqs ws), ws_lifecycle := Some ''rfq_draft''\<rparr>;
                  c1 = c\<lparr>mc_workspace := ws1, mc_status := ''purchase_draft'', mc_control_point := Some ''purchase''\<rparr>
              in (draft, add_event ''rfq_draft_created'' (rr_key rq) c1)))"

definition submit_quote :: "string \<Rightarrow> quote \<Rightarrow> mcase \<Rightarrow> quote \<times> mcase" where
  "submit_quote key q c =
     (let ws = mc_workspace c
      in case dict_get (ws_quotes ws) key of
           Some stored \<Rightarrow> (stored, c)
         | None \<Rightarrow>
             (q, add_event ''supplier_quote_recorded'' key
               (c\<lparr>mc_workspace := ws\<lparr>ws_quotes := append_entry key q (ws_quotes ws), ws_lifecycle := Some ''quotes_received''\<rparr>\<rparr>)))"

definition list_quotes :: "mworkspace \<Rightarrow> quote list" where
  "list_quotes ws = dict_values (ws_quotes ws)"

definition run_comparison :: "int \<Rightarrow> weights option \<Rightarrow> mcase \<Rightarrow> comparison \<times> mcase" where
  "run_comparison now w c =
     (let cmp = compare_quotes (list_quotes (mc_workspace c)) w now
      in (cmp, c\<lparr>mc_workspace := (mc_workspace c)\<lparr>ws_comparison := Some cmp, ws_lifecycle := Some ''comparison_ready''\<rparr>\<rparr>))"

section \<open>Recommendations and approvals\<close>

definition score_of_quote :: "comparison \<Rightarrow> string \<Rightarrow> rat option" where
  "score_of_quote cmp quote_id = map_option qs_final (find (\<lambda>s. qs_quote_id s = quote_id) (cm_scores cmp))"

definition render_recommendation ::
  "stamp \<Rightarrow> recommendation_request \<Rightarrow> quote \<Rightarrow> rat option \<Rightarrow> bool \<Rightarrow> recommendation_record" where
  "render_recommendation sp rq q score approved =
     \<lparr>rc_id = sp_uuid sp, rc_supplier = re_supplier_id rq, rc_quote_id = re_quote_id rq, rc_total = quote_total q,
      rc_currency = qt_currency q, rc_score = score, rc_approved = approved, rc_supplier_approval = re_supplier_approval rq,
      rc_price_approval = re_price_approval rq, rc_at = sp_now sp\<rparr>"

text \<open>
  The workspace written at the end is the one read at the start, so what \<open>comparison\<close> saved in between is lost.
\<close>

definition recommendation_of ::
  "stamp \<Rightarrow> recommendation_request \<Rightarrow> mcase \<Rightarrow> manager_error + recommendation_record \<times> mcase" where
  "recommendation_of sp rq c =
     (let ws = mc_workspace c
      in case dict_get (ws_audit ws) (re_key rq) of
           Some stored \<Rightarrow> Inr (stored, c)
         | None \<Rightarrow>
             (case find (\<lambda>q. qt_id q = re_quote_id rq) (list_quotes ws) of
                None \<Rightarrow> Inl Quote_Not_Found
              | Some q \<Rightarrow>
                  if qt_supplier_id q \<noteq> re_supplier_id rq then Inl Foreign_Quote
                  else
                    (case run_comparison (sp_now sp) None c of
                       (cmp, c1) \<Rightarrow>
                         (case authorized_if ''select_supplier'' (re_supplier_approval rq) ws of
                            Inl e \<Rightarrow> Inl e
                          | Inr supplier_ok \<Rightarrow>
                              map_sum id (\<lambda>price_ok.
                                let r = render_recommendation sp rq q (score_of_quote cmp (re_quote_id rq)) (supplier_ok \<and> price_ok);
                                    ws1 = ws\<lparr>ws_recommendation := Some r, ws_audit := append_entry (re_key rq) r (ws_audit ws),
                                      ws_lifecycle := Some (if rc_approved r then ''approved'' else ''approval_required'')\<rparr>
                                in (r, add_event ''procurement_recommendation_recorded'' (re_key rq)
                                  (c1\<lparr>mc_workspace := ws1, mc_status := ''approval_required''\<rparr>)))
                              (authorized_if ''approve_price'' (re_price_approval rq) ws)))))"

definition decision_status :: "decision \<Rightarrow> string" where
  "decision_status d = (case d of Requested \<Rightarrow> ''approval_required'' | Approved \<Rightarrow> ''approved'' | Rejected \<Rightarrow> ''rejected'')"

definition effective_id :: "stamp \<Rightarrow> approval_request \<Rightarrow> string" where
  "effective_id sp rq = opt_str (or_str (ar_id rq) (Some (sp_uuid sp)))"

definition record_approval :: "string \<Rightarrow> stamp \<Rightarrow> approval_request \<Rightarrow> mcase \<Rightarrow> approval \<times> mcase" where
  "record_approval actor sp rq c =
     (let ws = mc_workspace c
      in case dict_get (ws_approvals ws) (ar_key rq) of
           Some stored \<Rightarrow> (stored, c)
         | None \<Rightarrow>
             (let a = \<lparr>av_id = effective_id sp rq, av_operation = ar_operation rq, av_status = ar_status rq, av_actor = Some actor,
                       av_at = sp_now sp\<rparr>;
                  o1 = \<lparr>op_id = av_id a, op_operation = ar_operation rq, op_status = decision_status (ar_status rq),
                        op_approval = Some (av_id a), op_at = sp_now sp\<rparr>;
                  ws1 = ws\<lparr>ws_approvals := put_last (\<lambda>(_, b). av_id b = av_id a \<and> av_operation b = av_operation a) (ar_key rq, a)
                       (ws_approvals ws),
                     ws_operations := put_first (\<lambda>p. op_id p = av_id a) o1 (ws_operations ws),
                     ws_lifecycle := Some (if ar_status rq = Approved then ''approved'' else ''approval_required'')\<rparr>;
                  c1 = c\<lparr>mc_workspace := ws1,
                     mc_status := (if ar_status rq = Approved \<and> ar_operation rq = ''create_supplier_order'' then ''ordered''
                       else ''approval_required'')\<rparr>
              in (a, add_event ''procurement_approval_recorded'' (ar_key rq) c1)))"

definition upsert_operation :: "string \<Rightarrow> string \<Rightarrow> string \<Rightarrow> string option \<Rightarrow> int \<Rightarrow> mcase \<Rightarrow> operation \<times> mcase" where
  "upsert_operation operation_id name status approval_id now c =
     (let o1 = \<lparr>op_id = operation_id, op_operation = name, op_status = status, op_approval = approval_id, op_at = now\<rparr>;
          ws = mc_workspace c
      in (o1, c\<lparr>mc_workspace := ws\<lparr>ws_operations := put_first (\<lambda>p. op_id p = operation_id) o1 (ws_operations ws)\<rparr>\<rparr>))"

definition operation_status :: "string \<Rightarrow> mcase \<Rightarrow> operation option" where
  "operation_status operation_id c = find (\<lambda>p. op_id p = operation_id) (ws_operations (mc_workspace c))"

text \<open>The executor of mutations: the gate, then the adapter, an argument.\<close>

definition execute_mutation ::
  "(string \<Rightarrow> 'p \<Rightarrow> string option \<Rightarrow> 'r) \<Rightarrow> string \<Rightarrow> 'p \<Rightarrow> string option \<Rightarrow> approval list \<Rightarrow> manager_error + 'r" where
  "execute_mutation adapter operation payload approval_id approvals =
     map_sum id (\<lambda>_. adapter operation payload approval_id) (authorize operation approval_id approvals)"

section \<open>Shipments and nonconformities\<close>

definition shipment_text :: "shipment_type \<Rightarrow> string" where
  "shipment_text t = (case t of Ship_Ordered \<Rightarrow> ''ordered'' | Ship_Dispatched \<Rightarrow> ''dispatched'' | Ship_In_Transit \<Rightarrow> ''in_transit''
     | Ship_Delayed \<Rightarrow> ''delayed'' | Ship_Received \<Rightarrow> ''received'')"

definition shipment_status :: "shipment_type \<Rightarrow> string" where
  "shipment_status t = (case t of Ship_Ordered \<Rightarrow> ''ordered'' | Ship_Received \<Rightarrow> ''receiving'' | _ \<Rightarrow> ''in_transit'')"

definition record_shipment :: "shipment_request \<Rightarrow> mcase \<Rightarrow> manager_error + shipment \<times> mcase" where
  "record_shipment rq c =
     (let ws = mc_workspace c
      in case authorize ''record_shipment'' (Some (sq_approval rq)) (list_approvals ws) of
           Inl e \<Rightarrow> Inl e
         | Inr _ \<Rightarrow>
             (case dict_get (ws_shipments ws) (sq_key rq) of
                Some stored \<Rightarrow> Inr (stored, c)
              | None \<Rightarrow>
                  (let ws1 = ws\<lparr>ws_shipments := append_entry (sq_key rq) (sq_event rq) (ws_shipments ws),
                         ws_lifecycle := Some (shipment_text (sh_type (sq_event rq)))\<rparr>
                   in Inr (sq_event rq, add_event ''shipment_event_recorded'' (sq_key rq)
                        (c\<lparr>mc_workspace := ws1, mc_status := shipment_status (sh_type (sq_event rq)),
                           mc_control_point := Some (if sh_type (sq_event rq) = Ship_Received then ''receipt'' else ''delivery'')\<rparr>)))))"

definition handoff_to_quality :: "string \<Rightarrow> json \<Rightarrow> mcase \<Rightarrow> json \<times> mcase" where
  "handoff_to_quality key item c =
     (let ws = mc_workspace c
      in case dict_get (ws_nonconformities ws) key of
           Some stored \<Rightarrow> (stored, c)
         | None \<Rightarrow>
             (let ws1 = ws\<lparr>ws_nonconformities := append_entry key item (ws_nonconformities ws),
                    ws_lifecycle := Some ''nonconformity''\<rparr>;
                  c1 = c\<lparr>mc_workspace := ws1, mc_next_quality_agent := Some ''otk_head_agent'',
                    mc_quality_stage := Some ''nonconformity'', mc_nonconformity := Some item,
                    mc_completed_tasks := (case mc_task c of Some t \<Rightarrow> mc_completed_tasks c @ [t] | None \<Rightarrow> mc_completed_tasks c),
                    mc_task := None, mc_status := ''nonconformity'', mc_agent := Some ''otk_head_agent'',
                    mc_control_point := Some ''receipt''\<rparr>
              in (item, add_event ''nonconformity_handed_to_quality'' key c1)))"

section \<open>Amounts and the state of the fulfilment\<close>

definition quantity_of_line :: "case_line list \<Rightarrow> string \<Rightarrow> rat" where
  "quantity_of_line lines line_id = (case find (\<lambda>l. cl_line_id l = line_id) lines of Some l \<Rightarrow> cl_quantity l | None \<Rightarrow> 0)"

definition save_amount :: "case_line list \<Rightarrow> amount_entry \<Rightarrow> (string, line_amount) dict \<Rightarrow> (string, line_amount) dict" where
  "save_amount lines e current =
     (if \<not> (\<exists>l \<in> set lines. cl_line_id l = ae_line_id e \<and> \<not> cl_cancelled l) then current
      else (let quantity = quantity_of_line lines (ae_line_id e);
                amount = (case (ae_amount e, ae_unit_price e) of
                    (None, Some p) \<Rightarrow> if 0 < quantity then Some (quantize CENT (p * quantity)) else None | (a, _) \<Rightarrow> a);
                unit_price = (case (ae_unit_price e, amount) of
                    (None, Some a) \<Rightarrow> if 0 < quantity then Some (quantize FOUR_PLACES (a / quantity)) else None | (p, _) \<Rightarrow> p)
            in if amount = None \<and> unit_price = None then filter (\<lambda>(k, _). k \<noteq> ae_line_id e) current
               else dict_set (ae_line_id e)
                 \<lparr>la_unit_price = unit_price, la_amount = amount,
                  la_currency = currency_upper (if ae_currency e = [] then ''RUB'' else ae_currency e),
                  la_source = or_str (ae_source e) (Some ''manual'')\<rparr> current))"

definition save_line_amounts :: "amount_entry list \<Rightarrow> string option \<Rightarrow> mcase \<Rightarrow> mcase" where
  "save_line_amounts entries key c =
     (let ws = mc_workspace c;
          c1 = c\<lparr>mc_workspace := ws\<lparr>ws_line_amounts := fold (save_amount (mc_lines c)) entries (ws_line_amounts ws)\<rparr>\<rparr>
      in if truthy key then add_event ''procurement_manager_line_amounts_updated'' (opt_str key) c1 else c1)"

definition FULFILLMENT_STATUSES :: "string list" where
  "FULFILLMENT_STATUSES = [''no_supplier'', ''payment'', ''delivery'', ''otk_presentation'', ''posting'', ''completed'']"

definition update_fulfillment_status :: "string \<Rightarrow> string option \<Rightarrow> mcase \<Rightarrow> manager_error + mcase" where
  "update_fulfillment_status status key c =
     (if status \<notin> set FULFILLMENT_STATUSES then Inl (Unknown_Fulfillment status)
      else Inr (add_event ''fulfillment_status_updated''
        (opt_str (or_str key (Some (''fulfillment:'' @ mc_id c @ '':'' @ status))))
        (c\<lparr>mc_workspace := (mc_workspace c)\<lparr>ws_fulfillment := Some status, ws_fulfillment_manual := True\<rparr>\<rparr>)))"

section \<open>The results of the supplier graph\<close>

record graph_state =
  gs_stage :: "string option"
  gs_status :: "string option"
  gs_paused :: bool
  gs_comparison :: "comparison option"
  gs_recommendation :: "recommendation_record option"
  gs_candidates :: "(string \<times> string) list"
  gs_quotes :: "quote list"
  gs_rfq :: "rfq_draft option"
  gs_po :: "order_draft option"

definition put_graph_rfq :: "rfq_draft \<Rightarrow> (string, rfq_draft) dict \<Rightarrow> (string, rfq_draft) dict" where
  "put_graph_rfq d = put_first (\<lambda>(_, x). rd_rfq_id x = rd_rfq_id d) (''agent-rfq:'' @ rd_rfq_id d, d)"

definition put_graph_order :: "bool \<Rightarrow> order_draft \<Rightarrow> (string, stored_order) dict \<Rightarrow> (string, stored_order) dict" where
  "put_graph_order approved d orders =
     (let d1 = d\<lparr>od_payment_allowed := False, od_executed := False, od_approved := approved \<or> od_approved d\<rparr>;
          same = (\<lambda>(_, x). od_po_id (so_draft x) = od_po_id d);
          kept = Option.bind (find same orders) (\<lambda>(_, x). so_approval x)
      in put_first same (''agent-po:'' @ od_po_id d, \<lparr>so_draft = d1, so_approval = kept\<rparr>) orders)"

definition graph_workspace :: "graph_state \<Rightarrow> mworkspace \<Rightarrow> mworkspace" where
  "graph_workspace g ws =
     (let ws1 = ws\<lparr>ws_agent_stage := or_str (gs_stage g) (ws_agent_stage ws), ws_paused := gs_paused g,
            ws_comparison := (case gs_comparison g of Some x \<Rightarrow> Some x | None \<Rightarrow> ws_comparison ws),
            ws_recommendation := (case gs_recommendation g of Some x \<Rightarrow> Some x | None \<Rightarrow> ws_recommendation ws),
            ws_suppliers := (if gs_candidates g \<noteq> [] then gs_candidates g else ws_suppliers ws),
            ws_quotes := (if gs_quotes g \<noteq> [] then map (\<lambda>q. (''graph-quote:'' @ qt_id q, q)) (gs_quotes g) else ws_quotes ws),
            ws_rfqs := (case gs_rfq g of Some d \<Rightarrow> if rd_rfq_id d \<noteq> [] then put_graph_rfq d (ws_rfqs ws) else ws_rfqs ws
              | None \<Rightarrow> ws_rfqs ws)\<rparr>;
          ws2 = (case gs_po g of
              Some d \<Rightarrow> if od_po_id d \<noteq> []
                then sync_line_amounts_from_po_drafts
                  (ws1\<lparr>ws_orders := put_graph_order (gs_status g = Some ''order_draft_approved'') d (ws_orders ws1)\<rparr>)
                else ws1
            | None \<Rightarrow> ws1)
      in ws2\<lparr>ws_lifecycle := (if gs_paused g then Some ''approval_required''
            else or_str (gs_status g) (or_str (ws_lifecycle ws2) (Some ''agent_running'')))\<rparr>)"

definition graph_event_key :: "string \<Rightarrow> mcase \<Rightarrow> mworkspace \<Rightarrow> bool \<Rightarrow> string" where
  "graph_event_key event_type c ws paused =
     event_type @ '':'' @ mc_id c @ '':'' @ (case ws_agent_stage ws of Some s \<Rightarrow> s | None \<Rightarrow> ''None'') @ '':'' @
       (if paused then ''True'' else ''False'')"

definition persist_graph_state :: "string \<Rightarrow> graph_state \<Rightarrow> mcase \<Rightarrow> mcase" where
  "persist_graph_state event_type g c =
     (let ws = graph_workspace g (mc_workspace c);
          c1 = c\<lparr>mc_workspace := ws\<rparr>;
          c2 = (if mc_status c \<in> {''ordered'', ''in_transit'', ''receiving''} then c1
                else c1\<lparr>mc_status := ''purchase_draft'', mc_control_point := Some ''purchase''\<rparr>)
      in add_event event_type (graph_event_key event_type c ws (gs_paused g)) c2)"

section \<open>The endpoints\<close>

record muser =
  mu_id :: string
  mu_superuser :: bool

datatype manager_request =
    RQ_Order order_request "string option" | RQ_Rfq rfq_request | RQ_Quote string quote | RQ_Compare "weights option"
  | RQ_Recommend recommendation_request | RQ_Approve approval_request | RQ_Ship shipment_request | RQ_Nonconformity string json
  | RQ_Amounts "amount_entry list" "string option" | RQ_Fulfillment string "string option"

datatype manager_answer =
    AN_Order order_draft | AN_Rfq rfq_draft | AN_Quote quote | AN_Comparison comparison | AN_Recommendation recommendation_record
  | AN_Approval approval | AN_Shipment shipment | AN_Nonconformity json | AN_Done

definition handle :: "muser \<Rightarrow> stamp \<Rightarrow> manager_request \<Rightarrow> mcase \<Rightarrow> manager_error + manager_answer \<times> mcase" where
  "handle u sp rq c =
     (case rq of
        RQ_Order r approval_id \<Rightarrow> map_sum id (apfst AN_Order) (create_purchase_order_draft sp r approval_id c)
      | RQ_Rfq r \<Rightarrow> Inr (apfst AN_Rfq (create_rfq_draft sp r c))
      | RQ_Quote key q \<Rightarrow> Inr (apfst AN_Quote (submit_quote key q c))
      | RQ_Compare w \<Rightarrow> Inr (apfst AN_Comparison (run_comparison (sp_now sp) w c))
      | RQ_Recommend r \<Rightarrow> map_sum id (apfst AN_Recommendation) (recommendation_of sp r c)
      | RQ_Approve r \<Rightarrow>
          if ar_status r \<noteq> Requested \<and> \<not> mu_superuser u then Inl Not_Authorised
          else Inr (apfst AN_Approval (record_approval (mu_id u) sp r c))
      | RQ_Ship r \<Rightarrow> map_sum id (apfst AN_Shipment) (record_shipment r c)
      | RQ_Nonconformity key item \<Rightarrow> Inr (apfst AN_Nonconformity (handoff_to_quality key item c))
      | RQ_Amounts entries key \<Rightarrow> Inr (AN_Done, save_line_amounts entries key c)
      | RQ_Fulfillment status key \<Rightarrow> map_sum id (\<lambda>c1. (AN_Done, c1)) (update_fulfillment_status status key c))"

text \<open>A step of the life of a workspace: a request of a user, or a result of the supplier graph.\<close>

datatype workspace_step = Request muser stamp manager_request | Graph string graph_state

definition step :: "workspace_step \<Rightarrow> mcase \<Rightarrow> mcase" where
  "step s c =
     (case s of
        Request u sp rq \<Rightarrow> (case handle u sp rq c of Inl _ \<Rightarrow> c | Inr (_, c1) \<Rightarrow> c1)
      | Graph event_type g \<Rightarrow> persist_graph_state event_type g c)"

definition history :: "workspace_step list \<Rightarrow> mcase \<Rightarrow> mcase" where
  "history steps c = fold step steps c"

end
