(* ===== verification/Manager_Facts.thy ===== *)
theory Manager_Facts
  imports Manager_Service
begin

text \<open>
  What holds along every life of a workspace: nothing is approved, ordered or shipped without a decision of a
  superuser, repeated requests change nothing; and the ranking of quotes.
\<close>

section \<open>Decisions behind what is stored\<close>

definition granted :: "workspace_step list \<Rightarrow> string \<Rightarrow> string \<Rightarrow> bool" where
  "granted steps operation approval_id \<longleftrightarrow>
     (\<exists>u sp r. Request u sp (RQ_Approve r) \<in> set steps \<and> mu_superuser u \<and> ar_status r = Approved \<and>
        ar_operation r = operation \<and> effective_id sp r = approval_id)"

text \<open>An order drawn up by the supplier graph.\<close>

definition drawn :: "workspace_step list \<Rightarrow> string \<Rightarrow> bool" where
  "drawn steps po_id \<longleftrightarrow> (\<exists>event_type g d. Graph event_type g \<in> set steps \<and> gs_po g = Some d \<and> od_po_id d = po_id)"

definition order_backed :: "workspace_step list \<Rightarrow> stored_order \<Rightarrow> bool" where
  "order_backed steps s \<longleftrightarrow> \<not> od_executed (so_draft s) \<and> \<not> od_payment_allowed (so_draft s) \<and>
     (\<forall>a. so_approval s = Some a \<and> a \<noteq> [] \<longrightarrow> granted steps ''create_supplier_order'' a) \<and>
     (od_approved (so_draft s) \<longrightarrow> truthy (so_approval s) \<or> drawn steps (od_po_id (so_draft s)))"

definition recommendation_backed :: "workspace_step list \<Rightarrow> recommendation_record \<Rightarrow> bool" where
  "recommendation_backed steps r \<longleftrightarrow> (rc_approved r \<longrightarrow>
     (\<exists>a b. rc_supplier_approval r = Some a \<and> granted steps ''select_supplier'' a \<and>
        rc_price_approval r = Some b \<and> granted steps ''approve_price'' b))"

definition backed :: "workspace_step list \<Rightarrow> mworkspace \<Rightarrow> bool" where
  "backed steps ws \<longleftrightarrow>
     (\<forall>a \<in> set (list_approvals ws). av_status a = Approved \<longrightarrow> granted steps (av_operation a) (av_id a)) \<and>
     (\<forall>s \<in> set (dict_values (ws_orders ws)). order_backed steps s) \<and>
     (\<forall>r \<in> set (dict_values (ws_audit ws)). recommendation_backed steps r) \<and>
     (ws_shipments ws \<noteq> [] \<longrightarrow> (\<exists>a. granted steps ''record_shipment'' a))"

lemma granted_mono: "granted steps operation a \<Longrightarrow> set steps \<subseteq> set steps1 \<Longrightarrow> granted steps1 operation a"
  by (fastforce simp: granted_def)

lemma drawn_mono: "drawn steps p \<Longrightarrow> set steps \<subseteq> set steps1 \<Longrightarrow> drawn steps1 p"
  by (fastforce simp: drawn_def)

lemma order_backed_mono: "order_backed steps s \<Longrightarrow> set steps \<subseteq> set steps1 \<Longrightarrow> order_backed steps1 s"
  using granted_mono drawn_mono unfolding order_backed_def by meson

lemma recommendation_backed_mono:
  "recommendation_backed steps r \<Longrightarrow> set steps \<subseteq> set steps1 \<Longrightarrow> recommendation_backed steps1 r"
  using granted_mono unfolding recommendation_backed_def by meson

lemma backed_mono: "backed steps ws \<Longrightarrow> set steps \<subseteq> set steps1 \<Longrightarrow> backed steps1 ws"
  unfolding backed_def using granted_mono order_backed_mono recommendation_backed_mono by meson

lemma find_Some_in: "find p xs = Some x \<Longrightarrow> x \<in> set xs \<and> p x"
  by (auto simp: find_Some_iff)

lemma authorizeE:
  assumes "authorize operation x approvals = Inr a"
  shows "a \<in> set approvals" "x = Some (av_id a)" "av_operation a = operation" "av_status a = Approved" "operation \<in> set ALLOWED_OPERATIONS"
  using assms by (auto simp: authorize_def find_Some_iff split: if_splits option.splits)

lemma authorized_ifE:
  assumes "authorized_if operation x ws = Inr ok" "backed steps ws"
  shows "ok \<longleftrightarrow> truthy x" "truthy x \<Longrightarrow> granted steps operation (the x)"
proof -
  have "ok = truthy x \<and> (truthy x \<longrightarrow> granted steps operation (the x))"
  proof (cases "truthy x")
    case True
    with assms(1) obtain a where a: "authorize operation x (list_approvals ws) = Inr a" "ok"
      by (cases "authorize operation x (list_approvals ws)") (auto simp: authorized_if_def)
    from authorizeE [OF a(1)] assms(2) True a(2) show ?thesis by (auto simp: backed_def)
  next
    case False
    then show ?thesis using assms(1) by (auto simp: authorized_if_def)
  qed
  then show "ok \<longleftrightarrow> truthy x" "truthy x \<Longrightarrow> granted steps operation (the x)" by auto
qed

lemma update_first_sub: "set (update_first p x ys) \<subseteq> insert x (set ys)"
  by (induction ys) auto

lemma put_sub: "set (put_first p x ys) \<subseteq> insert x (set ys)" "set (put_last p x ys) \<subseteq> insert x (set ys)"
  using update_first_sub [of p x ys] update_first_sub [of p x "rev ys"] by (auto simp: put_first_def put_last_def)

lemma add_event_frame [simp]:
  "mc_workspace (add_event t k c) = mc_workspace c" "mc_status (add_event t k c) = mc_status c"
  "mc_control_point (add_event t k c) = mc_control_point c" "mc_lines (add_event t k c) = mc_lines c"
  by (simp_all add: add_event_def)

lemma sync_frame [simp]:
  "ws_orders (sync_line_amounts_from_po_drafts ws) = ws_orders ws" "ws_audit (sync_line_amounts_from_po_drafts ws) = ws_audit ws"
  "ws_approvals (sync_line_amounts_from_po_drafts ws) = ws_approvals ws"
  "ws_shipments (sync_line_amounts_from_po_drafts ws) = ws_shipments ws"
  "ws_rfqs (sync_line_amounts_from_po_drafts ws) = ws_rfqs ws" "ws_quotes (sync_line_amounts_from_po_drafts ws) = ws_quotes ws"
  "ws_nonconformities (sync_line_amounts_from_po_drafts ws) = ws_nonconformities ws"
  "ws_operations (sync_line_amounts_from_po_drafts ws) = ws_operations ws"
  by (simp_all add: sync_line_amounts_from_po_drafts_def)

lemma order_keeps_backed:
  assumes "create_purchase_order_draft sp rq x c = Inr (d, c1)" "backed steps (mc_workspace c)"
  shows "backed steps (mc_workspace c1)"
proof (cases "dict_get (ws_orders (mc_workspace c)) (oq_key rq)")
  case None
  with assms(1) obtain ok where ok: "authorized_if ''create_supplier_order'' x (mc_workspace c) = Inr ok"
    by (auto simp: create_purchase_order_draft_def Let_def map_sum_def split: sum.splits)
  note g = authorized_ifE [OF ok assms(2)]
  show ?thesis using None assms ok g
    by (cases x)
       (auto simp: create_purchase_order_draft_def Let_def backed_def append_entry_def order_backed_def
         render_purchase_order_draft_def list_approvals_def)
qed (use assms in \<open>auto simp: create_purchase_order_draft_def Let_def\<close>)

lemma recommendation_ofE:
  assumes "recommendation_of sp rq c = Inr (r, c1)" "dict_get (ws_audit (mc_workspace c)) (re_key rq) = None"
  obtains q cmp a b where
    "authorized_if ''select_supplier'' (re_supplier_approval rq) (mc_workspace c) = Inr a"
    "authorized_if ''approve_price'' (re_price_approval rq) (mc_workspace c) = Inr b"
    "r = render_recommendation sp rq q (score_of_quote cmp (re_quote_id rq)) (a \<and> b)"
    "find (\<lambda>q. qt_id q = re_quote_id rq) (list_quotes (mc_workspace c)) = Some q"
    "cmp = compare_quotes (list_quotes (mc_workspace c)) None (sp_now sp)"
    "mc_workspace c1 = (mc_workspace c)\<lparr>ws_recommendation := Some r,
      ws_audit := append_entry (re_key rq) r (ws_audit (mc_workspace c)),
      ws_lifecycle := Some (if rc_approved r then ''approved'' else ''approval_required'')\<rparr>"
proof -
  obtain cmp c0 where cmp: "run_comparison (sp_now sp) None c = (cmp, c0)" by fastforce
  from assms obtain q where q: "find (\<lambda>q. qt_id q = re_quote_id rq) (list_quotes (mc_workspace c)) = Some q"
      "qt_supplier_id q = re_supplier_id rq"
    by (auto simp: recommendation_of_def Let_def split: option.splits if_splits)
  from assms cmp q obtain a where a: "authorized_if ''select_supplier'' (re_supplier_approval rq) (mc_workspace c) = Inr a"
    by (auto simp: recommendation_of_def Let_def split: sum.splits)
  from assms cmp q a obtain b where b: "authorized_if ''approve_price'' (re_price_approval rq) (mc_workspace c) = Inr b"
    by (cases "authorized_if ''approve_price'' (re_price_approval rq) (mc_workspace c)") (auto simp: recommendation_of_def Let_def)
  have r: "r = render_recommendation sp rq q (score_of_quote cmp (re_quote_id rq)) (a \<and> b)"
    using assms cmp q a b by (simp add: recommendation_of_def Let_def)
  have "mc_workspace c1 = (mc_workspace c)\<lparr>ws_recommendation := Some r,
      ws_audit := append_entry (re_key rq) r (ws_audit (mc_workspace c)),
      ws_lifecycle := Some (if rc_approved r then ''approved'' else ''approval_required'')\<rparr>"
    using assms cmp q a b unfolding r by (auto simp: recommendation_of_def Let_def)
  then show ?thesis using that a b q r cmp by (auto simp: run_comparison_def Let_def)
qed

lemma recommendation_keeps_backed:
  assumes "recommendation_of sp rq c = Inr (r, c1)" "backed steps (mc_workspace c)"
  shows "backed steps (mc_workspace c1)"
proof (cases "dict_get (ws_audit (mc_workspace c)) (re_key rq)")
  case None
  from recommendation_ofE [OF assms(1) None] obtain q cmp a b where
    s: "authorized_if ''select_supplier'' (re_supplier_approval rq) (mc_workspace c) = Inr a"
       "authorized_if ''approve_price'' (re_price_approval rq) (mc_workspace c) = Inr b" and
    r: "r = render_recommendation sp rq q (score_of_quote cmp (re_quote_id rq)) (a \<and> b)" and
    ws: "mc_workspace c1 = (mc_workspace c)\<lparr>ws_recommendation := Some r,
      ws_audit := append_entry (re_key rq) r (ws_audit (mc_workspace c)),
      ws_lifecycle := Some (if rc_approved r then ''approved'' else ''approval_required'')\<rparr>" by metis
  note ga = authorized_ifE [OF s(1) assms(2)] and gb = authorized_ifE [OF s(2) assms(2)]
  have "recommendation_backed steps r" using ga gb
    by (cases "re_supplier_approval rq"; cases "re_price_approval rq")
       (auto simp: r render_recommendation_def recommendation_backed_def)
  with assms(2) show ?thesis by (auto simp: ws backed_def append_entry_def list_approvals_def)
qed (use assms in \<open>auto simp: recommendation_of_def Let_def\<close>)

lemma approval_keeps_backed:
  assumes "record_approval actor sp rq c = (a, c1)" "backed steps (mc_workspace c)"
    "ar_status rq = Approved \<Longrightarrow> granted steps (ar_operation rq) (effective_id sp rq)"
  shows "backed steps (mc_workspace c1)"
proof (cases "dict_get (ws_approvals (mc_workspace c)) (ar_key rq)")
  case None
  let ?a = "\<lparr>av_id = effective_id sp rq, av_operation = ar_operation rq, av_status = ar_status rq, av_actor = Some actor, av_at = sp_now sp\<rparr>"
  have "set (ws_approvals (mc_workspace c1)) \<subseteq> insert (ar_key rq, ?a) (set (ws_approvals (mc_workspace c)))"
    using None assms(1) put_sub(2) by (fastforce simp: record_approval_def Let_def)
  moreover have "ws_orders (mc_workspace c1) = ws_orders (mc_workspace c)" "ws_audit (mc_workspace c1) = ws_audit (mc_workspace c)"
    "ws_shipments (mc_workspace c1) = ws_shipments (mc_workspace c)"
    using None assms(1) by (auto simp: record_approval_def Let_def)
  ultimately show ?thesis using assms(2,3) by (fastforce simp: backed_def list_approvals_def)
qed (use assms in \<open>auto simp: record_approval_def Let_def\<close>)

lemma shipment_keeps_backed:
  assumes "record_shipment rq c = Inr (e, c1)" "backed steps (mc_workspace c)"
  shows "backed steps (mc_workspace c1)"
proof -
  from assms(1) obtain a where a: "authorize ''record_shipment'' (Some (sq_approval rq)) (list_approvals (mc_workspace c)) = Inr a"
    by (auto simp: record_shipment_def Let_def split: sum.splits)
  from authorizeE [OF a] assms(2) have "granted steps ''record_shipment'' (av_id a)" by (auto simp: backed_def)
  then show ?thesis using assms a
    by (auto simp: record_shipment_def Let_def backed_def list_approvals_def split: option.splits)
qed

lemma graph_order_backed:
  assumes "\<forall>s \<in> set (dict_values orders). order_backed steps s" "drawn steps (od_po_id d)"
  shows "\<forall>s \<in> set (dict_values (put_graph_order approved d orders)). order_backed steps s"
proof -
  let ?same = "\<lambda>(_, x). od_po_id (so_draft x) = od_po_id d"
  let ?k = "Option.bind (find ?same orders) (\<lambda>(_, x). so_approval x)"
  let ?s = "\<lparr>so_draft = d\<lparr>od_payment_allowed := False, od_executed := False, od_approved := approved \<or> od_approved d\<rparr>, so_approval = ?k\<rparr>"
  have "granted steps ''create_supplier_order'' a" if "?k = Some a" "a \<noteq> []" for a
  proof -
    from that(1) obtain e where "find ?same orders = Some e" "so_approval (snd e) = Some a"
      by (auto simp: bind_eq_Some_conv split: prod.splits)
    then have "snd e \<in> set (dict_values orders)" using find_Some_in [of ?same orders e] by auto
    with assms(1) \<open>so_approval (snd e) = Some a\<close> that(2) show ?thesis by (auto simp: order_backed_def)
  qed
  then have "order_backed steps ?s" using assms(2) by (auto simp: order_backed_def)
  moreover have "set (put_graph_order approved d orders) \<subseteq> insert (''agent-po:'' @ od_po_id d, ?s) (set orders)"
    unfolding put_graph_order_def Let_def by (rule put_sub)
  ultimately show ?thesis using assms(1) by fastforce
qed

lemma graph_keeps_backed:
  assumes "Graph event_type g \<in> set steps" "backed steps ws"
  shows "backed steps (graph_workspace g ws)"
proof -
  have "\<forall>s \<in> set (dict_values (ws_orders (graph_workspace g ws))). order_backed steps s"
  proof (cases "gs_po g")
    case (Some d)
    then have "drawn steps (od_po_id d)" using assms(1) by (auto simp: drawn_def)
    from graph_order_backed [OF _ this] Some assms(2) show ?thesis by (auto simp: graph_workspace_def Let_def backed_def)
  qed (use assms(2) in \<open>auto simp: graph_workspace_def Let_def backed_def\<close>)
  moreover have "ws_approvals (graph_workspace g ws) = ws_approvals ws" "ws_audit (graph_workspace g ws) = ws_audit ws"
    "ws_shipments (graph_workspace g ws) = ws_shipments ws"
    by (auto simp: graph_workspace_def Let_def split: option.splits)
  ultimately show ?thesis using assms(2) by (auto simp: backed_def list_approvals_def)
qed

text \<open>The requests that touch none of the four lists.\<close>

lemma backed_cong:
  "ws_orders v = ws_orders w \<Longrightarrow> ws_audit v = ws_audit w \<Longrightarrow> ws_approvals v = ws_approvals w \<Longrightarrow>
   ws_shipments v = ws_shipments w \<Longrightarrow> backed steps v = backed steps w"
  by (simp add: backed_def list_approvals_def)

lemma other_requests_keep_backed:
  assumes "backed steps (mc_workspace c)"
  shows "create_rfq_draft sp r c = (d, c1) \<Longrightarrow> backed steps (mc_workspace c1)"
    "submit_quote key q c = (q1, c1) \<Longrightarrow> backed steps (mc_workspace c1)"
    "run_comparison now w c = (cmp, c1) \<Longrightarrow> backed steps (mc_workspace c1)"
    "handoff_to_quality key item c = (item1, c1) \<Longrightarrow> backed steps (mc_workspace c1)"
    "backed steps (mc_workspace (save_line_amounts entries k c))"
    "update_fulfillment_status status k c = Inr c1 \<Longrightarrow> backed steps (mc_workspace c1)"
  using assms
  by (auto simp: create_rfq_draft_def submit_quote_def run_comparison_def handoff_to_quality_def save_line_amounts_def
        update_fulfillment_status_def Let_def backed_def list_approvals_def split: option.splits if_splits)

lemma handle_keeps_backed:
  assumes "handle u sp rq c = Inr (ans, c1)" "backed steps (mc_workspace c)" "Request u sp rq \<in> set steps"
  shows "backed steps (mc_workspace c1)"
proof (cases rq)
  case (RQ_Approve r)
  have "granted steps (ar_operation r) (effective_id sp r)" if "ar_status r = Approved"
    using that assms(1,3) RQ_Approve by (auto simp: handle_def granted_def split: if_splits)
  moreover obtain a c2 where "record_approval (mu_id u) sp r c = (a, c2)" by fastforce
  ultimately show ?thesis using assms(1,2) RQ_Approve approval_keeps_backed
    by (fastforce simp: handle_def split: if_splits)
next
  case (RQ_Order r x)
  with assms(1) obtain d where "create_purchase_order_draft sp r x c = Inr (d, c1)"
    by (cases "create_purchase_order_draft sp r x c") (auto simp: handle_def)
  then show ?thesis using assms(2) by (rule order_keeps_backed)
next
  case (RQ_Recommend r)
  with assms(1) obtain d where "recommendation_of sp r c = Inr (d, c1)"
    by (cases "recommendation_of sp r c") (auto simp: handle_def)
  then show ?thesis using assms(2) by (rule recommendation_keeps_backed)
next
  case (RQ_Ship r)
  with assms(1) obtain e where "record_shipment r c = Inr (e, c1)" by (cases "record_shipment r c") (auto simp: handle_def)
  then show ?thesis using assms(2) by (rule shipment_keeps_backed)
next
  case (RQ_Fulfillment status k)
  with assms(1) have "update_fulfillment_status status k c = Inr c1"
    by (cases "update_fulfillment_status status k c") (auto simp: handle_def)
  then show ?thesis by (rule other_requests_keep_backed(6) [OF assms(2)])
next
  case (RQ_Rfq r)
  with assms(1) obtain d where "create_rfq_draft sp r c = (d, c1)"
    by (cases "create_rfq_draft sp r c") (auto simp: handle_def)
  then show ?thesis by (rule other_requests_keep_backed(1) [OF assms(2)])
next
  case (RQ_Quote key q)
  with assms(1) obtain d where "submit_quote key q c = (d, c1)" by (cases "submit_quote key q c") (auto simp: handle_def)
  then show ?thesis by (rule other_requests_keep_backed(2) [OF assms(2)])
next
  case (RQ_Compare w)
  with assms(1) obtain d where "run_comparison (sp_now sp) w c = (d, c1)"
    by (cases "run_comparison (sp_now sp) w c") (auto simp: handle_def)
  then show ?thesis by (rule other_requests_keep_backed(3) [OF assms(2)])
next
  case (RQ_Nonconformity key item)
  with assms(1) obtain d where "handoff_to_quality key item c = (d, c1)"
    by (cases "handoff_to_quality key item c") (auto simp: handle_def)
  then show ?thesis by (rule other_requests_keep_backed(4) [OF assms(2)])
next
  case (RQ_Amounts entries k)
  with assms(1) have "c1 = save_line_amounts entries k c" by (simp add: handle_def)
  then show ?thesis using other_requests_keep_backed(5) [OF assms(2)] by simp
qed

lemma history_snoc: "history (steps @ [s]) c = step s (history steps c)"
  by (simp add: history_def)

lemma history_backed:
  assumes "backed [] (mc_workspace c)"
  shows "backed steps (mc_workspace (history steps c))"
proof (induction steps rule: rev_induct)
  case Nil
  then show ?case using assms by (simp add: history_def)
next
  case (snoc s steps)
  have b: "backed (steps @ [s]) (mc_workspace (history steps c))" using snoc by (rule backed_mono) auto
  show ?case
  proof (cases s)
    case (Request u sp rq)
    then show ?thesis using b handle_keeps_backed [OF _ b] by (auto simp: history_snoc step_def split: sum.splits)
  next
    case (Graph event_type g)
    then show ?thesis using graph_keeps_backed [OF _ b] by (auto simp: history_snoc step_def persist_graph_state_def Let_def)
  qed
qed

section \<open>Repeated requests\<close>

text \<open>A workspace extends another when it keeps every entry stored under an idempotency key.\<close>

definition extends :: "mworkspace \<Rightarrow> mworkspace \<Rightarrow> bool" where
  "extends v w \<longleftrightarrow> dict_get (ws_orders v) \<subseteq>\<^sub>m dict_get (ws_orders w) \<and> dict_get (ws_rfqs v) \<subseteq>\<^sub>m dict_get (ws_rfqs w) \<and>
     dict_get (ws_quotes v) \<subseteq>\<^sub>m dict_get (ws_quotes w) \<and> dict_get (ws_audit v) \<subseteq>\<^sub>m dict_get (ws_audit w) \<and>
     dict_get (ws_shipments v) \<subseteq>\<^sub>m dict_get (ws_shipments w) \<and>
     dict_get (ws_nonconformities v) \<subseteq>\<^sub>m dict_get (ws_nonconformities w)"

lemma extends_refl [simp]: "extends w w"
  by (simp add: extends_def)

lemma extends_trans: "extends u v \<Longrightarrow> extends v w \<Longrightarrow> extends u w"
  unfolding extends_def by (blast intro: map_le_trans)

lemma dict_get_append_entry:
  "dict_get (append_entry k v d) j = (case dict_get d j of Some x \<Rightarrow> Some x | None \<Rightarrow> if j = k then Some v else None)"
  by (auto simp: append_entry_def dict_get_def map_add_def split: option.splits)

lemma append_entry_le [simp]: "dict_get d \<subseteq>\<^sub>m dict_get (append_entry k v d)"
  by (auto simp: map_le_def dict_get_append_entry)

lemma order_extends: "create_purchase_order_draft sp rq x c = Inr (d, c1) \<Longrightarrow> extends (mc_workspace c) (mc_workspace c1)"
  by (auto simp: create_purchase_order_draft_def Let_def map_sum_def extends_def split: option.splits sum.splits)

lemma recommendation_extends:
  assumes "recommendation_of sp rq c = Inr (r, c1)"
  shows "extends (mc_workspace c) (mc_workspace c1)"
proof (cases "dict_get (ws_audit (mc_workspace c)) (re_key rq)")
  case None
  from recommendation_ofE [OF assms None] have "mc_workspace c1 = (mc_workspace c)\<lparr>ws_recommendation := Some r,
      ws_audit := append_entry (re_key rq) r (ws_audit (mc_workspace c)),
      ws_lifecycle := Some (if rc_approved r then ''approved'' else ''approval_required'')\<rparr>" by metis
  then show ?thesis by (simp add: extends_def)
qed (use assms in \<open>auto simp: recommendation_of_def Let_def\<close>)

lemma other_requests_extend:
  "create_rfq_draft sp r c = (d, c1) \<Longrightarrow> extends (mc_workspace c) (mc_workspace c1)"
  "submit_quote key q c = (q1, c1) \<Longrightarrow> extends (mc_workspace c) (mc_workspace c1)"
  "run_comparison now w c = (cmp, c1) \<Longrightarrow> extends (mc_workspace c) (mc_workspace c1)"
  "handoff_to_quality key item c = (item1, c1) \<Longrightarrow> extends (mc_workspace c) (mc_workspace c1)"
  "extends (mc_workspace c) (mc_workspace (save_line_amounts entries k c))"
  "update_fulfillment_status status k c = Inr c1 \<Longrightarrow> extends (mc_workspace c) (mc_workspace c1)"
  "record_approval actor sp ar c = (a, c1) \<Longrightarrow> extends (mc_workspace c) (mc_workspace c1)"
  "record_shipment sr c = Inr (e, c1) \<Longrightarrow> extends (mc_workspace c) (mc_workspace c1)"
  by (auto simp: create_rfq_draft_def submit_quote_def run_comparison_def handoff_to_quality_def save_line_amounts_def
        update_fulfillment_status_def record_approval_def record_shipment_def Let_def extends_def
      split: option.splits if_splits sum.splits)

text \<open>Each accepted request is an operation on the case.\<close>

lemma handleE:
  assumes "handle u sp rq c = Inr (ans, c1)"
  obtains
    (order) r x d where "rq = RQ_Order r x" "ans = AN_Order d" "create_purchase_order_draft sp r x c = Inr (d, c1)"
  | (rfq) r d where "rq = RQ_Rfq r" "ans = AN_Rfq d" "create_rfq_draft sp r c = (d, c1)"
  | (quote) k q d where "rq = RQ_Quote k q" "ans = AN_Quote d" "submit_quote k q c = (d, c1)"
  | (compare) w d where "rq = RQ_Compare w" "ans = AN_Comparison d" "run_comparison (sp_now sp) w c = (d, c1)"
  | (recommend) r d where "rq = RQ_Recommend r" "ans = AN_Recommendation d" "recommendation_of sp r c = Inr (d, c1)"
  | (approve) r d where "rq = RQ_Approve r" "ans = AN_Approval d" "record_approval (mu_id u) sp r c = (d, c1)"
  | (ship) r d where "rq = RQ_Ship r" "ans = AN_Shipment d" "record_shipment r c = Inr (d, c1)"
  | (nonconformity) k i d where "rq = RQ_Nonconformity k i" "ans = AN_Nonconformity d" "handoff_to_quality k i c = (d, c1)"
  | (amounts) es k where "rq = RQ_Amounts es k" "c1 = save_line_amounts es k c"
  | (fulfilment) s k where "rq = RQ_Fulfillment s k" "update_fulfillment_status s k c = Inr c1"
proof (cases rq)
  case (RQ_Order r x)
  with assms show thesis by (cases "create_purchase_order_draft sp r x c") (auto simp: handle_def intro: order)
next
  case (RQ_Rfq r)
  with assms show thesis by (cases "create_rfq_draft sp r c") (auto simp: handle_def intro: rfq)
next
  case (RQ_Quote k q)
  with assms show thesis by (cases "submit_quote k q c") (auto simp: handle_def intro: quote)
next
  case (RQ_Compare w)
  with assms show thesis by (cases "run_comparison (sp_now sp) w c") (auto simp: handle_def intro: compare)
next
  case (RQ_Recommend r)
  with assms show thesis by (cases "recommendation_of sp r c") (auto simp: handle_def intro: recommend)
next
  case (RQ_Approve r)
  with assms show thesis
    by (cases "record_approval (mu_id u) sp r c") (auto simp: handle_def intro: approve split: if_splits)
next
  case (RQ_Ship r)
  with assms show thesis by (cases "record_shipment r c") (auto simp: handle_def intro: ship)
next
  case (RQ_Nonconformity k i)
  with assms show thesis by (cases "handoff_to_quality k i c") (auto simp: handle_def intro: nonconformity)
next
  case (RQ_Amounts es k)
  with assms show thesis by (auto simp: handle_def intro: amounts)
next
  case (RQ_Fulfillment s k)
  with assms show thesis by (cases "update_fulfillment_status s k c") (auto simp: handle_def intro: fulfilment)
qed

lemma handle_extends: "handle u sp rq c = Inr (ans, c1) \<Longrightarrow> extends (mc_workspace c) (mc_workspace c1)"
  by (erule handleE) (simp_all add: order_extends recommendation_extends other_requests_extend)

definition only_requests :: "workspace_step list \<Rightarrow> bool" where
  "only_requests steps \<longleftrightarrow> (\<forall>event_type g. Graph event_type g \<notin> set steps)"

lemma history_extends: "only_requests steps \<Longrightarrow> extends (mc_workspace c) (mc_workspace (history steps c))"
proof (induction steps rule: rev_induct)
  case Nil
  then show ?case by (simp add: history_def)
next
  case (snoc s steps)
  then have ih: "extends (mc_workspace c) (mc_workspace (history steps c))" by (simp add: only_requests_def)
  from snoc.prems obtain u sp rq where s: "s = Request u sp rq" by (cases s) (auto simp: only_requests_def)
  show ?case
  proof (cases "handle u sp rq (history steps c)")
    case (Inl e)
    then show ?thesis using ih by (simp add: history_snoc step_def s)
  next
    case (Inr r)
    then obtain ans c1 where "handle u sp rq (history steps c) = Inr (ans, c1)" by (cases r) auto
    from this handle_extends [OF this] ih show ?thesis by (auto simp: history_snoc step_def s intro: extends_trans)
  qed
qed

definition keyed_request :: "manager_request \<Rightarrow> bool" where
  "keyed_request rq \<longleftrightarrow> (case rq of RQ_Compare _ \<Rightarrow> False | RQ_Approve _ \<Rightarrow> False | RQ_Amounts _ _ \<Rightarrow> False | RQ_Fulfillment _ _ \<Rightarrow> False | _ \<Rightarrow> True)"

lemma map_le_get: "f \<subseteq>\<^sub>m g \<Longrightarrow> f k = Some v \<Longrightarrow> g k = Some v"
  unfolding map_le_def by (metis domI)

lemma accepted_order:
  assumes "create_purchase_order_draft sp r x c = Inr (d, c1)"
  shows "\<exists>s. dict_get (ws_orders (mc_workspace c1)) (oq_key r) = Some s \<and> so_draft s = d"
proof (cases "dict_get (ws_orders (mc_workspace c)) (oq_key r)")
  case None
  with assms obtain ok where "authorized_if ''create_supplier_order'' x (mc_workspace c) = Inr ok"
    by (cases "authorized_if ''create_supplier_order'' x (mc_workspace c)") (auto simp: create_purchase_order_draft_def Let_def)
  with None assms show ?thesis by (auto simp: create_purchase_order_draft_def Let_def dict_get_append_entry)
qed (use assms in \<open>auto simp: create_purchase_order_draft_def Let_def\<close>)

lemma accepted_rfq: "create_rfq_draft sp q c = (d, c1) \<Longrightarrow> dict_get (ws_rfqs (mc_workspace c1)) (rr_key q) = Some d"
  by (auto simp: create_rfq_draft_def Let_def dict_get_append_entry split: option.splits)

lemma accepted_quote: "submit_quote key q c = (d, c1) \<Longrightarrow> dict_get (ws_quotes (mc_workspace c1)) key = Some d"
  by (auto simp: submit_quote_def Let_def dict_get_append_entry split: option.splits)

lemma accepted_shipment:
  "record_shipment t c = Inr (d, c1) \<Longrightarrow> dict_get (ws_shipments (mc_workspace c1)) (sq_key t) = Some d"
  by (auto simp: record_shipment_def Let_def dict_get_append_entry split: option.splits sum.splits)

lemma accepted_nonconformity:
  "handoff_to_quality key item c = (d, c1) \<Longrightarrow> dict_get (ws_nonconformities (mc_workspace c1)) key = Some d"
  by (auto simp: handoff_to_quality_def Let_def dict_get_append_entry split: option.splits)

lemma accepted_recommendation:
  assumes "recommendation_of sp rq c = Inr (r, c1)"
  shows "dict_get (ws_audit (mc_workspace c1)) (re_key rq) = Some r"
proof (cases "dict_get (ws_audit (mc_workspace c)) (re_key rq)")
  case None
  have "ws_audit (mc_workspace c1) = append_entry (re_key rq) r (ws_audit (mc_workspace c))"
    by (rule recommendation_ofE [OF assms None]) simp
  then show ?thesis by (simp add: dict_get_append_entry None)
qed (use assms in \<open>auto simp: recommendation_of_def Let_def\<close>)

lemma replay:
  assumes "handle u sp rq c = Inr (ans, c1)" "extends (mc_workspace c1) (mc_workspace c2)" "keyed_request rq"
  shows "handle u1 sp1 rq c2 = Inr (ans, c2) \<or> (\<exists>r e. rq = RQ_Ship r \<and> handle u1 sp1 rq c2 = Inl e)"
  using assms(1)
proof (cases rule: handleE)
  case (order r x d)
  from accepted_order [OF order(3)] obtain s where "dict_get (ws_orders (mc_workspace c1)) (oq_key r) = Some s" "so_draft s = d" by blast
  moreover from this assms(2) have "dict_get (ws_orders (mc_workspace c2)) (oq_key r) = Some s"
    unfolding extends_def by (blast intro: map_le_get)
  ultimately show ?thesis by (simp add: order handle_def create_purchase_order_draft_def Let_def)
next
  case (rfq r d)
  from accepted_rfq [OF rfq(3)] assms(2) have "dict_get (ws_rfqs (mc_workspace c2)) (rr_key r) = Some d"
    unfolding extends_def by (blast intro: map_le_get)
  then show ?thesis by (simp add: rfq handle_def create_rfq_draft_def Let_def)
next
  case (quote k q d)
  from accepted_quote [OF quote(3)] assms(2) have "dict_get (ws_quotes (mc_workspace c2)) k = Some d"
    unfolding extends_def by (blast intro: map_le_get)
  then show ?thesis by (simp add: quote handle_def submit_quote_def Let_def)
next
  case (recommend r d)
  from accepted_recommendation [OF recommend(3)] assms(2) have "dict_get (ws_audit (mc_workspace c2)) (re_key r) = Some d"
    unfolding extends_def by (blast intro: map_le_get)
  then show ?thesis by (simp add: recommend handle_def recommendation_of_def Let_def)
next
  case (nonconformity k i d)
  from accepted_nonconformity [OF nonconformity(3)] assms(2) have "dict_get (ws_nonconformities (mc_workspace c2)) k = Some d"
    unfolding extends_def by (blast intro: map_le_get)
  then show ?thesis by (simp add: nonconformity handle_def handoff_to_quality_def Let_def)
next
  case (ship r d)
  from accepted_shipment [OF ship(3)] assms(2) have "dict_get (ws_shipments (mc_workspace c2)) (sq_key r) = Some d"
    unfolding extends_def by (blast intro: map_le_get)
  then show ?thesis
    by (cases "authorize ''record_shipment'' (Some (sq_approval r)) (list_approvals (mc_workspace c2))")
       (auto simp: ship handle_def record_shipment_def Let_def)
qed (use assms(3) in \<open>simp_all add: keyed_request_def\<close>)

section \<open>One decision per approval\<close>

definition one_decision :: "mworkspace \<Rightarrow> bool" where
  "one_decision ws \<longleftrightarrow> distinct (map (\<lambda>(_, a). (av_id a, av_operation a)) (ws_approvals ws)) \<and>
     distinct (map op_id (ws_operations ws))"

lemma update_first_keys:
  assumes "\<And>y. p y \<longleftrightarrow> f y = f x"
  shows "map f (update_first p x ys) = map f ys"
  using assms by (induction ys) auto

lemma put_distinct:
  assumes "\<And>y. p y \<longleftrightarrow> f y = f x" "distinct (map f ys)"
  shows "distinct (map f (put_first p x ys))" "distinct (map f (put_last p x ys))"
proof -
  have "\<forall>y \<in> set ys. \<not> p y \<Longrightarrow> f x \<notin> f ` set ys" using assms(1) by (metis imageE)
  then show "distinct (map f (put_first p x ys))" "distinct (map f (put_last p x ys))"
    using assms(2) update_first_keys [of p f x ys, OF assms(1)] update_first_keys [of p f x "rev ys", OF assms(1)]
    by (auto simp: put_first_def put_last_def rev_map [symmetric])
qed

lemma approval_one_decision:
  assumes "record_approval actor sp rq c = (a, c1)" "one_decision (mc_workspace c)"
  shows "one_decision (mc_workspace c1)"
proof (cases "dict_get (ws_approvals (mc_workspace c)) (ar_key rq)")
  case None
  then show ?thesis using assms unfolding record_approval_def Let_def one_decision_def
    by (auto intro!: put_distinct)
qed (use assms in \<open>auto simp: record_approval_def Let_def\<close>)

lemma handle_one_decision:
  assumes "handle u sp rq c = Inr (ans, c1)" "one_decision (mc_workspace c)"
  shows "one_decision (mc_workspace c1)"
  using assms(1)
proof (cases rule: handleE)
  case (approve r d)
  then show ?thesis using assms(2) by (auto intro: approval_one_decision)
next
  case (order r x d)
  then show ?thesis using assms(2)
    by (auto simp: create_purchase_order_draft_def Let_def map_sum_def one_decision_def split: option.splits sum.splits)
next
  case (recommend r d)
  show ?thesis
  proof (cases "dict_get (ws_audit (mc_workspace c)) (re_key r)")
    case None
    show ?thesis by (rule recommendation_ofE [OF recommend(3) None]) (use assms(2) in \<open>simp add: one_decision_def\<close>)
  qed (use recommend assms(2) in \<open>auto simp: recommendation_of_def Let_def\<close>)
next
  case (ship r d)
  then show ?thesis using assms(2) by (auto simp: record_shipment_def Let_def one_decision_def split: option.splits sum.splits)
next
  case (fulfilment s k)
  then show ?thesis using assms(2) by (auto simp: update_fulfillment_status_def one_decision_def split: if_splits)
qed (use assms(2) in \<open>auto simp: create_rfq_draft_def submit_quote_def run_comparison_def handoff_to_quality_def
      save_line_amounts_def one_decision_def Let_def split: option.splits if_splits\<close>)

lemma graph_one_decision: "one_decision (graph_workspace g ws) = one_decision ws"
proof -
  have "ws_approvals (graph_workspace g ws) = ws_approvals ws" "ws_operations (graph_workspace g ws) = ws_operations ws"
    by (auto simp: graph_workspace_def Let_def split: option.splits)
  then show ?thesis by (simp add: one_decision_def)
qed

lemma history_one_decision: "one_decision (mc_workspace c) \<Longrightarrow> one_decision (mc_workspace (history steps c))"
proof (induction steps rule: rev_induct)
  case (snoc s steps)
  note ih = snoc.IH [OF snoc.prems]
  show ?case
  proof (cases s)
    case (Request u sp rq)
    show ?thesis
    proof (cases "handle u sp rq (history steps c)")
      case (Inr r)
      then show ?thesis using ih handle_one_decision by (cases r) (auto simp: history_snoc step_def Request)
    qed (use ih in \<open>simp add: history_snoc step_def Request\<close>)
  qed (use ih in \<open>simp add: history_snoc step_def persist_graph_state_def Let_def graph_one_decision\<close>)
qed (simp add: history_def)

lemma authorize_iff:
  assumes "one_decision ws" "operation \<in> set ALLOWED_OPERATIONS" "\<not> is_substring ''payment'' (casefold operation)"
    "\<not> is_substring PAYMENT_STEM (casefold operation)" "x \<noteq> []"
  shows "(\<exists>a. authorize operation (Some x) (list_approvals ws) = Inr a) \<longleftrightarrow>
    (\<exists>a \<in> set (list_approvals ws). av_id a = x \<and> av_operation a = operation \<and> av_status a = Approved)"
proof -
  let ?p = "\<lambda>a. av_id a = x \<and> av_operation a = operation"
  have "distinct (map (\<lambda>a. (av_id a, av_operation a)) (list_approvals ws))"
    using assms(1) by (simp add: one_decision_def list_approvals_def comp_def case_prod_unfold)
  then have uniq: "a = b" if "a \<in> set (list_approvals ws)" "b \<in> set (list_approvals ws)" "?p a" "?p b" for a b
    using that by (auto simp: distinct_map inj_on_def)
  show ?thesis
  proof (cases "find ?p (list_approvals ws)")
    case None
    then have "authorize operation (Some x) (list_approvals ws) = Inl Approval_Not_Granted"
      using assms(2-5) by (simp add: authorize_def)
    moreover have "\<not> (\<exists>a \<in> set (list_approvals ws). ?p a)" using None by (simp add: find_None_iff)
    ultimately show ?thesis by auto
  next
    case (Some b)
    from find_Some_in [OF this] uniq show ?thesis using assms Some by (auto simp: authorize_def)
  qed
qed

section \<open>Findings\<close>

definition new_workspace :: mworkspace where
  "new_workspace = \<lparr>ws_lifecycle = None, ws_suppliers = [], ws_orders = [], ws_rfqs = [], ws_quotes = [], ws_comparison = None,
     ws_recommendation = None, ws_audit = [], ws_approvals = [], ws_operations = [], ws_shipments = [], ws_nonconformities = [],
     ws_line_amounts = [], ws_fulfillment = None, ws_fulfillment_manual = False, ws_agent_stage = None, ws_paused = False\<rparr>"

text \<open>A recommendation is scored by a comparison that it does not keep.\<close>

lemma comparison_lost:
  assumes "recommendation_of sp rq c = Inr (r, c1)"
  shows "ws_comparison (mc_workspace c1) = ws_comparison (mc_workspace c)"
proof (cases "dict_get (ws_audit (mc_workspace c)) (re_key rq)")
  case None
  show ?thesis by (rule recommendation_ofE [OF assms None]) simp
qed (use assms in \<open>auto simp: recommendation_of_def Let_def\<close>)

text \<open>Any new entry about an approval, whatever the case has reached, puts it back.\<close>

lemma approval_reopens:
  assumes "dict_get (ws_approvals (mc_workspace c)) (ar_key rq) = None" "ar_operation rq \<noteq> ''create_supplier_order''"
  shows "mc_status (snd (record_approval actor sp rq c)) = ''approval_required''"
  using assms by (simp add: record_approval_def Let_def)

lemma graph_replaces_quotes: "gs_quotes g \<noteq> [] \<Longrightarrow> list_quotes (graph_workspace g ws) = gs_quotes g"
  by (auto simp: graph_workspace_def Let_def list_quotes_def comp_def split: option.splits)

lemma graph_reopens:
  "mc_status c \<notin> {''ordered'', ''in_transit'', ''receiving''} \<Longrightarrow> mc_status (persist_graph_state event_type g c) = ''purchase_draft''"
  by (simp add: persist_graph_state_def Let_def)

text \<open>One key on two kinds of requests: the second event is not written.\<close>

lemma shared_key_loses_event:
  assumes "dict_get (ws_quotes (mc_workspace c)) key = None" "dict_get (mc_events c) key = Some e"
  shows "mc_events (snd (submit_quote key q c)) = mc_events c"
  using assms by (simp add: submit_quote_def Let_def add_event_def)

definition demo_mcase :: mcase where
  "demo_mcase = \<lparr>mc_id = ''c1'', mc_status = ''purchase_draft'', mc_control_point = None, mc_agent = None, mc_task = None,
     mc_completed_tasks = [], mc_lines = [\<lparr>cl_line_id = ''1'', cl_quantity = 10, cl_cancelled = False\<rparr>],
     mc_next_quality_agent = None, mc_quality_stage = None, mc_nonconformity = None, mc_workspace = new_workspace, mc_events = []\<rparr>"

definition demo_stamp :: "string \<Rightarrow> stamp" where
  "demo_stamp uuid = \<lparr>sp_now = 0, sp_uuid = uuid\<rparr>"

definition demo_decision :: "string \<Rightarrow> decision \<Rightarrow> workspace_step" where
  "demo_decision key d = Request \<lparr>mu_id = ''boss'', mu_superuser = d \<noteq> Requested\<rparr> (demo_stamp ''u'')
     (RQ_Approve \<lparr>ar_id = Some ''a1'', ar_operation = ''create_supplier_order'', ar_status = d, ar_key = key\<rparr>)"

definition demo_order_of :: "string \<Rightarrow> string \<Rightarrow> order_request" where
  "demo_order_of sid key = \<lparr>oq_supplier_id = sid,
     oq_lines = [\<lparr>ol_line_id = ''1'', ol_nomenclature_id = ''n'', ol_quantity = 10, ol_unit_price = 5, ol_delivery_days = 7\<rparr>],
     oq_source_quote = None, oq_key = key\<rparr>"

definition demo_draft_step :: "string \<Rightarrow> string \<Rightarrow> workspace_step" where
  "demo_draft_step sid key =
     Request \<lparr>mu_id = ''m'', mu_superuser = False\<rparr> (demo_stamp key) (RQ_Order (demo_order_of sid key) (Some ''a1''))"

text \<open>
  The decision overwrites the entry of the request together with its key: when the first request is delivered
  once more it counts as new and takes the approval back.
\<close>

lemma late_request_revokes:
  "map av_status (list_approvals (mc_workspace (history [demo_decision ''k1'' Requested, demo_decision ''k2'' Approved] demo_mcase))) =
     [Approved] \<and>
   map av_status (list_approvals (mc_workspace (history
     [demo_decision ''k1'' Requested, demo_decision ''k2'' Approved, demo_decision ''k1'' Requested] demo_mcase))) = [Requested]"
  by code_simp

text \<open>One approval covers any number of orders, of any supplier.\<close>

lemma approval_covers_many_orders:
  "map (\<lambda>s. (od_supplier_id (so_draft s), od_approved (so_draft s))) (dict_values (ws_orders (mc_workspace
     (history [demo_decision ''k2'' Approved, demo_draft_step ''s1'' ''o1'', demo_draft_step ''s2'' ''o2''] demo_mcase)))) =
   [(''s1'', True), (''s2'', True)]"
  by code_simp

section \<open>Properties\<close>





text \<open>
  C15: The gate reads one decision.  Along every life of a workspace there is one entry per approval id and operation and
  one status record per operation id, so the gate opens for an operation and an id exactly when the entry about them is
  an approval.
\<close>

lemma gate_reads_one_decision:
  assumes "mc_workspace c0 = new_workspace" "ws = mc_workspace (history steps c0)"
  shows "distinct (map (\<lambda>a. (av_id a, av_operation a)) (list_approvals ws)) \<and> distinct (map op_id (ws_operations ws)) \<and>
    (\<forall>operation \<in> set ALLOWED_OPERATIONS. \<forall>x. x \<noteq> [] \<longrightarrow>
      ((\<exists>a. authorize operation (Some x) (list_approvals ws) = Inr a) \<longleftrightarrow>
       (\<exists>a \<in> set (list_approvals ws). av_id a = x \<and> av_operation a = operation \<and> av_status a = Approved)))"
proof -
  have "one_decision (mc_workspace c0)" by (simp add: assms(1) one_decision_def new_workspace_def)
  then have o: "one_decision ws" unfolding assms(2) by (rule history_one_decision)
  have "\<forall>operation \<in> set ALLOWED_OPERATIONS. \<not> is_substring ''payment'' (casefold operation) \<and>
      \<not> is_substring PAYMENT_STEM (casefold operation)"
    by code_simp
  then have "(\<exists>a. authorize operation (Some x) (list_approvals ws) = Inr a) \<longleftrightarrow>
      (\<exists>a \<in> set (list_approvals ws). av_id a = x \<and> av_operation a = operation \<and> av_status a = Approved)"
    if "operation \<in> set ALLOWED_OPERATIONS" "x \<noteq> []" for operation x
    using that by (intro authorize_iff [OF o]) auto
  moreover have "distinct (map (\<lambda>a. (av_id a, av_operation a)) (list_approvals ws)) \<and> distinct (map op_id (ws_operations ws))"
    using o by (simp add: one_decision_def list_approvals_def comp_def case_prod_unfold)
  ultimately show ?thesis by blast
qed

lemma gate_reads_one_decision_witness:
  "distinct (map op_id (ws_operations (mc_workspace (history [demo_decision ''k1'' Requested, demo_decision ''k2'' Approved] demo_mcase)))) \<and>
   ''create_supplier_order'' \<in> set ALLOWED_OPERATIONS"
proof -
  have "mc_workspace demo_mcase = new_workspace" by (simp add: demo_mcase_def)
  from gate_reads_one_decision [OF this refl, of "[demo_decision ''k1'' Requested, demo_decision ''k2'' Approved]"]
  show ?thesis by (simp add: ALLOWED_OPERATIONS_def)
qed

end
