(* ===== verification/Quote_Facts.thy ===== *)
theory Quote_Facts
  imports Manager_Service
begin

text \<open>
  The comparison of quotes: every eligible quote is scored once between 0 and 100, a quote that is at least
  as good in price, delivery, quality and risk never scores less.
\<close>

section \<open>Totals, minimum and maximum\<close>

lemma quote_totals_list:
  "distinct (dict_keys d @ map qt_id qs) \<Longrightarrow>
    fold (\<lambda>q. dict_set (qt_id q) (quote_total q)) qs d = d @ map (\<lambda>q. (qt_id q, quote_total q)) qs"
  by (induction qs arbitrary: d) (auto simp: dict_set_absent)

lemma quote_totals_get:
  assumes "distinct (map qt_id qs)" "q \<in> set qs"
  shows "dict_get_or (quote_totals qs) (qt_id q) 0 = quote_total q"
proof -
  have t: "quote_totals qs = map (\<lambda>q. (qt_id q, quote_total q)) qs"
    unfolding quote_totals_def using quote_totals_list [of "[]" qs] assms(1) by simp
  have "distinct (dict_keys (quote_totals qs))" using assms(1) by (simp add: t comp_def)
  then have "dict_get (quote_totals qs) (qt_id q) = Some (quote_total q)"
    using assms(2) by (auto simp: dict_get_iff t)
  then show ?thesis by (simp add: dict_get_or_def dict_get_def)
qed

lemma quote_totals_values: "distinct (map qt_id qs) \<Longrightarrow> dict_values (quote_totals qs) = map quote_total qs"
  unfolding quote_totals_def using quote_totals_list [of "[]" qs] by (simp add: comp_def)

lemma min_of_le:
  assumes "x \<in> set ps"
  shows "min_of ps \<le> x" "min_of ps \<in> set ps"
proof -
  obtain p qs where ps: "ps = p # qs" using assms by (cases ps) auto
  have m: "min_of ps = Min (set ps)" unfolding min_of_def ps by (simp only: list.sel Min.set_eq_fold)
  show "min_of ps \<le> x" "min_of ps \<in> set ps" using assms by (auto simp: m intro!: Min_in)
qed

lemma fold_max_ge: "x \<in> set xs \<Longrightarrow> x \<le> fold max xs (0 :: nat)"
  by (simp only: Max.set_eq_fold [symmetric]) simp

section \<open>The criteria\<close>

definition price_of :: "rat \<Rightarrow> rat \<Rightarrow> rat" where
  "price_of lowest t = (if t = 0 then 100 else 100 * lowest / t)"

definition delivery_of :: "nat \<Rightarrow> nat \<Rightarrow> rat" where
  "delivery_of longest k = (if longest = 0 then 100 else 100 * of_nat (longest - k) / of_nat longest)"

definition utility :: "weights \<Rightarrow> rat \<Rightarrow> rat \<Rightarrow> rat \<Rightarrow> rat \<Rightarrow> rat" where
  "utility w p d q r = (p * wt_price w + d * wt_delivery w + q * wt_quality w + r * wt_risk w) /
     (wt_price w + wt_delivery w + wt_quality w + wt_risk w)"

lemma price_of_bounds: "0 \<le> lowest \<Longrightarrow> lowest \<le> t \<Longrightarrow> 0 \<le> price_of lowest t \<and> price_of lowest t \<le> 100"
  by (auto simp: price_of_def divide_le_eq_1 divide_le_eq)

lemma price_of_antimono:
  assumes "0 \<le> lowest" "lowest \<le> t" "t \<le> u"
  shows "price_of lowest u \<le> price_of lowest t"
proof (cases "t = 0")
  case True
  then show ?thesis using assms price_of_bounds [of lowest u] by (simp add: price_of_def)
next
  case False
  then have "0 < t" using assms by linarith
  then show ?thesis using assms by (auto simp: price_of_def intro!: divide_left_mono)
qed

lemma delivery_of_bounds: "k \<le> longest \<Longrightarrow> 0 \<le> delivery_of longest k \<and> delivery_of longest k \<le> 100"
  by (auto simp: delivery_of_def divide_le_eq)

lemma delivery_of_antimono: "k \<le> l \<Longrightarrow> l \<le> longest \<Longrightarrow> delivery_of longest l \<le> delivery_of longest k"
  by (auto simp: delivery_of_def intro!: divide_right_mono)

lemma utility_mono:
  assumes "valid_weights w" "p \<le> p1" "d \<le> d1" "q \<le> q1" "r \<le> r1"
  shows "utility w p d q r \<le> utility w p1 d1 q1 r1"
  unfolding utility_def using assms
  by (intro divide_right_mono add_mono mult_right_mono) (auto simp: valid_weights_def)

lemma utility_bounds:
  assumes "valid_weights w" "0 \<le> p \<and> p \<le> 100" "0 \<le> d \<and> d \<le> 100" "0 \<le> q \<and> q \<le> 100" "0 \<le> r \<and> r \<le> 100"
  shows "0 \<le> utility w p d q r \<and> utility w p d q r \<le> 100"
proof -
  have s: "0 < wt_price w + wt_delivery w + wt_quality w + wt_risk w" using assms(1) by (simp add: valid_weights_def)
  have "utility w 100 100 100 100 = 100" using s
    by (simp add: utility_def distrib_left [symmetric] del: distrib_left_numeral)
  moreover have "utility w 0 0 0 0 = 0" by (simp add: utility_def)
  ultimately show ?thesis using utility_mono [OF assms(1), of 0 p 0 d 0 q 0 r] utility_mono [OF assms(1), of p 100 d 100 q 100 r 100] assms
    by simp
qed

lemma score_final:
  assumes "dict_get_or totals (qt_id q) 0 = quote_total q"
  shows "qs_final (score_quote w lowest longest totals q) =
    quantize_half_up SCORE_Q (utility w (price_of lowest (quote_total q)) (delivery_of longest (quote_days q)) (qt_quality q) (100 - qt_risk q))"
  by (simp add: score_quote_def Let_def assms utility_def price_of_def delivery_of_def)

lemma score_id [simp]: "qs_quote_id (score_quote w lowest longest totals q) = qt_id q"
  by (simp add: score_quote_def Let_def)

lemma quote_total_nonneg: "valid_quote q \<Longrightarrow> 0 \<le> quote_total q"
  unfolding quote_total_def valid_quote_def by (intro sum_list_map_nonneg mult_nonneg_nonneg) (auto intro: less_imp_le)

lemma rounded_bounds: "0 \<le> x \<and> x \<le> 100 \<Longrightarrow> 0 \<le> quantize_half_up SCORE_Q x \<and> quantize_half_up SCORE_Q x \<le> 100"
proof -
  assume x: "0 \<le> x \<and> x \<le> 100"
  have "quantize_half_up SCORE_Q (of_int 10000 * SCORE_Q) = of_int 10000 * SCORE_Q"
    unfolding rnd_unfold by (rule half_up.rnd_multiple) (simp add: SCORE_Q_def)
  then have "quantize_half_up SCORE_Q 100 = 100" by (simp add: SCORE_Q_def)
  then show ?thesis
    using x half_up.rnd_mono [of SCORE_Q x 100] half_up.rnd_nonneg [of SCORE_Q x] by (simp add: rnd_unfold SCORE_Q_def)
qed

lemma rounded_mono: "x \<le> y \<Longrightarrow> quantize_half_up SCORE_Q x \<le> quantize_half_up SCORE_Q y"
  unfolding rnd_unfold by (rule half_up.rnd_mono) (simp add: SCORE_Q_def)

section \<open>The list of scores\<close>

lemma sorted_key_scores: "sorted (map score_key (number_rows (\<lambda>rank s. s\<lparr>qs_rank := rank\<rparr>) i (sort_key score_key xs)))"
proof -
  have "map score_key (number_rows (\<lambda>rank s. s\<lparr>qs_rank := rank\<rparr>) i (sort_key score_key xs)) = map score_key (sort_key score_key xs)"
    by (rule map_number_rows) (simp add: score_key_def)
  then show ?thesis by simp
qed

lemma set_scores:
  assumes "s \<in> set (number_rows (\<lambda>rank s. s\<lparr>qs_rank := rank\<rparr>) i (sort_key score_key xs))"
  obtains x rank where "x \<in> set xs" "s = x\<lparr>qs_rank := rank\<rparr>"
proof -
  from assms obtain k where "k < length (sort_key score_key xs)" "s = (sort_key score_key xs ! k)\<lparr>qs_rank := i + k\<rparr>"
    unfolding set_number_rows by blast
  moreover from this have "sort_key score_key xs ! k \<in> set xs" by (metis nth_mem set_sort)
  ultimately show ?thesis using that by blast
qed

lemma compare_scores:
  assumes "distinct (map qt_id quotes)" "\<forall>q \<in> set quotes. valid_quote q" "es = filter quote_eligible quotes" "es \<noteq> []"
  obtains lowest longest where
    "cm_scores (compare_quotes quotes (Some w) now) = number_rows (\<lambda>rank s. s\<lparr>qs_rank := rank\<rparr>) 1
       (sort_key score_key (map (score_quote w lowest longest (quote_totals es)) es))"
    "0 \<le> lowest" "\<forall>q \<in> set es. lowest \<le> quote_total q \<and> quote_days q \<le> longest \<and>
       dict_get_or (quote_totals es) (qt_id q) 0 = quote_total q"
proof
  let ?lowest = "min_of (dict_values (quote_totals es))" and ?longest = "fold max (map quote_days es) 0"
  have d: "distinct (map qt_id es)" using assms(1,3) by (simp add: distinct_map_filter)
  have vs: "dict_values (quote_totals es) = map quote_total es" by (rule quote_totals_values [OF d])
  show "cm_scores (compare_quotes quotes (Some w) now) = number_rows (\<lambda>rank s. s\<lparr>qs_rank := rank\<rparr>) 1
       (sort_key score_key (map (score_quote w ?lowest ?longest (quote_totals es)) es))"
    using assms(3,4) by (simp add: compare_quotes_def Let_def)
  have "?lowest \<in> quote_total ` set es" using min_of_le(2) [of _ "map quote_total es"] assms(4) vs by (cases es) auto
  then show "0 \<le> ?lowest" using assms(2,3) quote_total_nonneg by auto
  show "\<forall>q \<in> set es. ?lowest \<le> quote_total q \<and> quote_days q \<le> ?longest \<and>
      dict_get_or (quote_totals es) (qt_id q) 0 = quote_total q"
    using min_of_le(1) [of _ "map quote_total es"] vs fold_max_ge [of _ "map quote_days es"] quote_totals_get [OF d] by auto
qed

lemma compare_final:
  assumes "valid_weights w" "\<forall>q \<in> set quotes. valid_quote q" "distinct (map qt_id quotes)"
  obtains u where "\<forall>q. quote_eligible q \<and> q \<in> set quotes \<longrightarrow> 0 \<le> u q \<and> u q \<le> 100"
    "\<forall>s \<in> set (cm_scores (compare_quotes quotes (Some w) now)).
       \<exists>q \<in> set quotes. quote_eligible q \<and> qs_quote_id s = qt_id q \<and> qs_final s = u q"
    "\<forall>p q. p \<in> set quotes \<and> q \<in> set quotes \<and> quote_eligible p \<and> quote_eligible q \<and> quote_total p \<le> quote_total q \<and>
       quote_days p \<le> quote_days q \<and> qt_quality q \<le> qt_quality p \<and> qt_risk p \<le> qt_risk q \<longrightarrow> u q \<le> (u p :: rat)"
proof (cases "filter quote_eligible quotes = []")
  case True
  then show ?thesis using that [of "\<lambda>_. 0"] by (simp add: compare_quotes_def Let_def filter_empty_conv)
next
  case False
  let ?es = "filter quote_eligible quotes"
  obtain lowest longest where scores: "cm_scores (compare_quotes quotes (Some w) now) = number_rows (\<lambda>rank s. s\<lparr>qs_rank := rank\<rparr>) 1
       (sort_key score_key (map (score_quote w lowest longest (quote_totals ?es)) ?es))"
    and lo: "0 \<le> lowest" and es: "\<forall>q \<in> set ?es. lowest \<le> quote_total q \<and> quote_days q \<le> longest \<and>
       dict_get_or (quote_totals ?es) (qt_id q) 0 = quote_total q"
    using compare_scores [OF assms(3,2) refl False] by metis
  let ?u = "\<lambda>q. quantize_half_up SCORE_Q
    (utility w (price_of lowest (quote_total q)) (delivery_of longest (quote_days q)) (qt_quality q) (100 - qt_risk q))"
  have es1: "lowest \<le> quote_total q" "quote_days q \<le> longest" "valid_quote q" if "quote_eligible q" "q \<in> set quotes" for q
    using es that assms(2) by auto
  show ?thesis
  proof (rule that [of ?u])
    show "\<forall>q. quote_eligible q \<and> q \<in> set quotes \<longrightarrow> 0 \<le> ?u q \<and> ?u q \<le> 100"
      using es1 lo by (intro allI impI rounded_bounds utility_bounds assms(1) price_of_bounds delivery_of_bounds) (auto simp: valid_quote_def)
    show "\<forall>s \<in> set (cm_scores (compare_quotes quotes (Some w) now)).
        \<exists>q \<in> set quotes. quote_eligible q \<and> qs_quote_id s = qt_id q \<and> qs_final s = ?u q"
    proof
      fix s assume "s \<in> set (cm_scores (compare_quotes quotes (Some w) now))"
      then obtain x rank where "x \<in> set (map (score_quote w lowest longest (quote_totals ?es)) ?es)" "s = x\<lparr>qs_rank := rank\<rparr>"
        unfolding scores by (rule set_scores)
      then obtain q where "q \<in> set ?es" "s = (score_quote w lowest longest (quote_totals ?es) q)\<lparr>qs_rank := rank\<rparr>" by auto
      then show "\<exists>q \<in> set quotes. quote_eligible q \<and> qs_quote_id s = qt_id q \<and> qs_final s = ?u q"
        using es score_final by (intro bexI [of _ q]) auto
    qed
    show "\<forall>p q. p \<in> set quotes \<and> q \<in> set quotes \<and> quote_eligible p \<and> quote_eligible q \<and> quote_total p \<le> quote_total q \<and>
        quote_days p \<le> quote_days q \<and> qt_quality q \<le> qt_quality p \<and> qt_risk p \<le> qt_risk q \<longrightarrow> ?u q \<le> ?u p"
      using es1 lo by (intro allI impI rounded_mono utility_mono assms(1) price_of_antimono delivery_of_antimono) auto
  qed
qed

lemma compare_list:
  assumes "\<forall>q \<in> set quotes. valid_quote q" "distinct (map qt_id quotes)"
    "scores = cm_scores (compare_quotes quotes (Some w) now)"
  shows "mset (map qs_quote_id scores) = mset (map qt_id (filter quote_eligible quotes))"
    "map qs_rank scores = [1..<Suc (length scores)]" "sorted (map score_key scores)"
proof -
  have "mset (map qs_quote_id scores) = mset (map qt_id (filter quote_eligible quotes)) \<and>
    map qs_rank scores = [1..<Suc (length scores)] \<and> sorted (map score_key scores)"
  proof (cases "filter quote_eligible quotes = []")
    case True
    then show ?thesis by (simp add: assms(3) compare_quotes_def Let_def)
  next
    case False
    let ?es = "filter quote_eligible quotes"
    obtain lowest longest where s: "scores = number_rows (\<lambda>rank s. s\<lparr>qs_rank := rank\<rparr>) 1
       (sort_key score_key (map (score_quote w lowest longest (quote_totals ?es)) ?es))"
      using compare_scores [OF assms(2,1) refl False] unfolding assms(3) by metis
    have "map qs_quote_id scores = map qs_quote_id (sort_key score_key (map (score_quote w lowest longest (quote_totals ?es)) ?es))"
      unfolding s by (rule map_number_rows) simp
    then have "mset (map qs_quote_id scores) = mset (map qs_quote_id (map (score_quote w lowest longest (quote_totals ?es)) ?es))"
      by (simp only: mset_map mset_sort)
    moreover have "map qs_rank scores = [1..<Suc (length scores)]" unfolding s by (subst number_rows_index) simp_all
    ultimately show ?thesis unfolding s by (simp add: comp_def sorted_key_scores)
  qed
  then show "mset (map qs_quote_id scores) = mset (map qt_id (filter quote_eligible quotes))"
    "map qs_rank scores = [1..<Suc (length scores)]" "sorted (map score_key scores)" by auto
qed

lemma compare_recommended:
  "cm_recommended (compare_quotes quotes w now) = map_option qs_quote_id (first_of (cm_scores (compare_quotes quotes w now)))"
  by (simp add: compare_quotes_def Let_def first_of_def)

section \<open>Findings\<close>

text \<open>The currency of a quote plays no part: totals in different currencies are compared as they stand.\<close>

lemma currency_ignored: "compare_quotes (map (\<lambda>q. q\<lparr>qt_currency := f q\<rparr>) quotes) w now = compare_quotes quotes w now"
proof -
  let ?g = "\<lambda>q. q\<lparr>qt_currency := f q\<rparr>"
  have f: "quote_eligible (?g q) = quote_eligible q" "quote_total (?g q) = quote_total q" "quote_days (?g q) = quote_days q" for q
    by (simp_all add: quote_eligible_def quote_total_def quote_days_def)
  then have e: "filter quote_eligible (map ?g quotes) = map ?g (filter quote_eligible quotes)" by (simp add: filter_map comp_def)
  have t: "quote_totals (map ?g qs) = quote_totals qs" for qs by (simp add: quote_totals_def fold_map comp_def f)
  have s: "score_quote w1 lo hi totals (?g q) = score_quote w1 lo hi totals q" for w1 lo hi totals q
    by (simp add: score_quote_def f)
  show ?thesis unfolding compare_quotes_def Let_def e t by (simp add: comp_def f s)
qed

definition demo_quote :: "string \<Rightarrow> string \<Rightarrow> rat \<Rightarrow> nat \<Rightarrow> quote" where
  "demo_quote qid sid price days = \<lparr>qt_id = qid, qt_supplier_id = sid, qt_currency = ''RUB'',
     qt_lines = [\<lparr>qo_line_id = ''1'', qo_unit_price = price, qo_quantity = 10, qo_delivery_days = days, qo_compliant = True\<rparr>],
     qt_quality = 50, qt_risk = 0\<rparr>"

text \<open>Two quotes under one id: both are scored with the total of the second.\<close>

lemma duplicate_id_total:
  "map qs_total (cm_scores (compare_quotes [demo_quote ''q'' ''s1'' 100 3, demo_quote ''q'' ''s2'' 1 3] None 0)) = [10, 10]"
  by code_simp

section \<open>Properties\<close>

text \<open>
  C14: The comparison is a fair ranking.  Of quotes with different ids every eligible one (all lines compliant) is
  scored once, between 0 and 100, the list is numbered from 1 in the order of the final score, then of the total, and its
  first entry is recommended, none exactly when no quote is eligible; and a quote that is no dearer, no slower, of no less
  quality and no riskier than another never has a lower score.
\<close>

lemma quotes_ranked:
  assumes "valid_weights w" "\<forall>q \<in> set quotes. valid_quote q" "distinct (map qt_id quotes)"
    "cmp = compare_quotes quotes (Some w) now"
  shows "mset (map qs_quote_id (cm_scores cmp)) = mset (map qt_id (filter quote_eligible quotes)) \<and>
    map qs_rank (cm_scores cmp) = [1..<Suc (length (cm_scores cmp))] \<and>
    sorted (map (\<lambda>s. (- qs_final s, qs_total s, qs_quote_id s)) (cm_scores cmp)) \<and>
    (\<forall>s \<in> set (cm_scores cmp). 0 \<le> qs_final s \<and> qs_final s \<le> 100 \<and> (qs_rank s = 1 \<longrightarrow> cm_recommended cmp = Some (qs_quote_id s))) \<and>
    (cm_recommended cmp = None \<longleftrightarrow> (\<forall>q \<in> set quotes. \<not> quote_eligible q)) \<and>
    (\<forall>p \<in> set quotes. \<forall>q \<in> set quotes. \<forall>s \<in> set (cm_scores cmp). \<forall>t \<in> set (cm_scores cmp).
       qs_quote_id s = qt_id p \<and> qs_quote_id t = qt_id q \<and> quote_total p \<le> quote_total q \<and> quote_days p \<le> quote_days q \<and>
       qt_quality q \<le> qt_quality p \<and> qt_risk p \<le> qt_risk q \<longrightarrow> qs_final t \<le> qs_final s)"
proof -
  let ?ss = "cm_scores cmp"
  have eq: "?ss = cm_scores (compare_quotes quotes (Some w) now)" by (simp add: assms(4))
  note list = compare_list [OF assms(2,3) eq]
  obtain u where u: "\<forall>q. quote_eligible q \<and> q \<in> set quotes \<longrightarrow> 0 \<le> u q \<and> u q \<le> 100"
      "\<forall>s \<in> set ?ss. \<exists>q \<in> set quotes. quote_eligible q \<and> qs_quote_id s = qt_id q \<and> qs_final s = u q"
      "\<forall>p q. p \<in> set quotes \<and> q \<in> set quotes \<and> quote_eligible p \<and> quote_eligible q \<and> quote_total p \<le> quote_total q \<and>
         quote_days p \<le> quote_days q \<and> qt_quality q \<le> qt_quality p \<and> qt_risk p \<le> qt_risk q \<longrightarrow> u q \<le> (u p :: rat)"
    unfolding eq by (rule compare_final [OF assms(1-3)]) blast
  have uniq: "p = q" if "p \<in> set quotes" "q \<in> set quotes" "qt_id p = qt_id q" for p q
    using that assms(3) by (auto simp: distinct_map inj_on_def)
  have "cm_recommended cmp = Some (qs_quote_id s)" if s: "s \<in> set ?ss" "qs_rank s = 1" for s
  proof -
    obtain k where k: "k < length ?ss" "?ss ! k = s" using s(1) by (auto simp: in_set_conv_nth)
    then have "map qs_rank ?ss ! k = 1" using s(2) by simp
    then have "k = 0" using k(1) unfolding list(2) by (simp del: upt_Suc)
    then show ?thesis using k compare_recommended [of quotes "Some w" now] by (cases ?ss) (auto simp: first_of_def assms(4))
  qed
  moreover have "cm_recommended cmp = None \<longleftrightarrow> (\<forall>q \<in> set quotes. \<not> quote_eligible q)"
  proof -
    have "?ss = [] \<longleftrightarrow> filter quote_eligible quotes = []" using list(1) by (metis mset_map image_mset_is_empty_iff mset_zero_iff)
    then show ?thesis using compare_recommended [of quotes "Some w" now]
      by (cases ?ss) (auto simp: first_of_def assms(4) filter_empty_conv)
  qed
  moreover have "\<forall>s \<in> set ?ss. 0 \<le> qs_final s \<and> qs_final s \<le> 100" using u(1,2) by metis
  moreover have "\<forall>p \<in> set quotes. \<forall>q \<in> set quotes. \<forall>s \<in> set ?ss. \<forall>t \<in> set ?ss.
       qs_quote_id s = qt_id p \<and> qs_quote_id t = qt_id q \<and> quote_total p \<le> quote_total q \<and> quote_days p \<le> quote_days q \<and>
       qt_quality q \<le> qt_quality p \<and> qt_risk p \<le> qt_risk q \<longrightarrow> qs_final t \<le> qs_final s"
    using u(2,3) uniq by metis
  ultimately show ?thesis using list unfolding score_key_def by blast
qed

lemma quotes_ranked_witness:
  "cm_recommended (compare_quotes [demo_quote ''q1'' ''s1'' 100 3, demo_quote ''q2'' ''s2'' 90 2] (Some DEFAULT_WEIGHTS) 0) = Some ''q2'' \<and>
   list_all (\<lambda>s. 0 \<le> qs_final s \<and> qs_final s \<le> 100)
     (cm_scores (compare_quotes [demo_quote ''q1'' ''s1'' 100 3, demo_quote ''q2'' ''s2'' 90 2] (Some DEFAULT_WEIGHTS) 0))"
proof -
  let ?qs = "[demo_quote ''q1'' ''s1'' 100 3, demo_quote ''q2'' ''s2'' 90 2]"
  have "cm_recommended (compare_quotes ?qs (Some DEFAULT_WEIGHTS) 0) = Some ''q2''" by code_simp
  moreover have "valid_weights DEFAULT_WEIGHTS" "\<forall>q \<in> set ?qs. valid_quote q" "distinct (map qt_id ?qs)"
    by (simp_all add: valid_weights_def DEFAULT_WEIGHTS_def valid_quote_def demo_quote_def)
  note quotes_ranked [OF this refl]
  ultimately show ?thesis unfolding list_all_iff by blast
qed

end
