(* ===== verification/Fulfillment.thy ===== *)
theory Fulfillment
  imports Manager_Service
begin

text \<open>
  The state of the fulfilment of an order as the manager sees it
  (\<open>app/agents/procurement_manager_agent/fulfillment.py\<close>).  The workspace is the JSON object that is shown, with the
  orders of 1C and the coverage beside the stored keys; lists are lists or missing and \<open>order_coverage\<close> is an object or
  missing.  Labels and tones, which are looked up by the status, are left out.
\<close>

definition CASE_STATUS_MAP :: "(string, string) dict" where
  "CASE_STATUS_MAP = [(''payment_pending'', ''payment''), (''ordered'', ''delivery''), (''in_transit'', ''delivery''),
     (''receiving'', ''otk_presentation''), (''posting_required'', ''posting''), (''posted'', ''completed'')]"

definition order_coverage_of :: "jdict \<Rightarrow> jdict" where
  "order_coverage_of ws = (case jget ws ''order_coverage'' of JObj d \<Rightarrow> d | _ \<Rightarrow> [])"

definition definite_order :: "jdict \<Rightarrow> bool" where
  "definite_order item \<longleftrightarrow> jtruthy (get_first item [''supplier_order_1c_ref'', ''supplier_order_number'', ''is_definite''])"

definition covered_by_order :: "jdict \<Rightarrow> bool" where
  "covered_by_order line \<longleftrightarrow>
     casefold (jstring (jget line ''coverage_source'')) \<in> {''supplier'', ''supplier_order'', ''mixed'', ''transfer_order''} \<or>
     jtruthy (jget line ''supplier_orders'')"

definition has_1c_supplier_orders :: "jdict \<Rightarrow> bool" where
  "has_1c_supplier_orders ws \<longleftrightarrow>
     (let coverage = order_coverage_of ws; orders = jor (jget ws ''supplier_orders'') (jget coverage ''supplier_orders'')
      in (\<exists>item \<in> set (jobjects (jlist orders)). definite_order item) \<or>
         casefold (jstring (jget coverage ''orchestrator_coverage_status'')) \<in> {''partial'', ''full''} \<or>
         (\<exists>line \<in> set (jobjects (jlist (jget coverage ''lines''))). covered_by_order line))"

text \<open>\<open>item["draft"] if "draft" in item else item\<close>\<close>

definition draft_of_entry :: "jdict \<Rightarrow> jdict option" where
  "draft_of_entry item =
     (if ''draft'' \<in> set (dict_keys item) then (case jget item ''draft'' of JObj d \<Rightarrow> Some d | _ \<Rightarrow> None) else Some item)"

definition names_supplier :: "jdict \<Rightarrow> bool" where
  "names_supplier draft \<longleftrightarrow> jtruthy (get_first draft [''supplier_id'', ''supplier_name'']) \<or>
     (\<exists>line \<in> set (jobjects (jlist (jget draft ''lines''))). jtruthy (get_first line [''supplier_id'', ''unit_price'']))"

definition has_supplier_selection :: "jdict \<Rightarrow> bool" where
  "has_supplier_selection ws \<longleftrightarrow> has_1c_supplier_orders ws \<or>
     (\<exists>draft \<in> set (List.map_filter draft_of_entry (jobjects (jlist (jget ws ''purchase_order_drafts'')))). names_supplier draft) \<or>
     (case jget ws ''recommendation'' of JObj rec \<Rightarrow> jtruthy (get_first rec [''supplier_id'', ''selected_supplier_id'']) | _ \<Rightarrow> False) \<or>
     (\<exists>a \<in> set (jobjects (jlist (jget ws ''approvals''))).
        jget a ''operation'' = JStr ''select_supplier'' \<and> jget a ''status'' = JStr ''approved'')"

definition stored_status :: "jdict \<Rightarrow> string option" where
  "stored_status ws =
     (let stored = jget ws ''fulfillment_status''
      in if jtruthy stored \<and> jstr stored \<in> set FULFILLMENT_STATUSES then Some (jstr stored) else None)"

definition status_from_orders :: "string \<Rightarrow> string" where
  "status_from_orders lifecycle =
     (if is_substring ''payment'' lifecycle then ''payment''
      else if lifecycle \<in> {''received'', ''receiving''} then ''otk_presentation''
      else if is_substring ''post'' lifecycle then ''posting'' else ''delivery'')"

definition status_from_lifecycle :: "string \<Rightarrow> string" where
  "status_from_lifecycle lifecycle =
     (if lifecycle \<in> {''purchase_order_draft'', ''approval_required'', ''rfq_draft'', ''quotes_received''} then ''no_supplier''
      else if is_substring ''payment'' lifecycle then ''payment''
      else if lifecycle \<in> {''ordered'', ''dispatched'', ''in_transit'', ''delayed''} then ''delivery''
      else if lifecycle \<in> {''received'', ''receiving''} then ''otk_presentation''
      else if is_substring ''post'' lifecycle then ''posting'' else ''payment'')"

definition derive_fulfillment_status :: "string \<Rightarrow> jdict \<Rightarrow> string option \<Rightarrow> string" where
  "derive_fulfillment_status case_status ws manual =
     (let lifecycle = casefold (jstring (jget ws ''lifecycle_state''))
      in if truthy manual \<and> opt_str manual \<in> set FULFILLMENT_STATUSES then opt_str manual
         else if stored_status ws \<noteq> None \<and> jtruthy (jget ws ''fulfillment_status_manual'') then opt_str (stored_status ws)
         else (case dict_get CASE_STATUS_MAP (casefold (py_strip case_status)) of
                 Some mapped \<Rightarrow> mapped
               | None \<Rightarrow>
                   (case stored_status ws of
                      Some s \<Rightarrow> s
                    | None \<Rightarrow>
                        if has_1c_supplier_orders ws then status_from_orders lifecycle
                        else if \<not> has_supplier_selection ws then ''no_supplier'' else status_from_lifecycle lifecycle)))"

lemma status_known: "derive_fulfillment_status case_status ws manual \<in> set FULFILLMENT_STATUSES"
proof -
  have s: "status_from_orders l \<in> set FULFILLMENT_STATUSES" "status_from_lifecycle l \<in> set FULFILLMENT_STATUSES"
    "''no_supplier'' \<in> set FULFILLMENT_STATUSES" for l
    by (simp_all add: status_from_orders_def status_from_lifecycle_def FULFILLMENT_STATUSES_def)
  have m: "dict_get CASE_STATUS_MAP k = Some v \<Longrightarrow> v \<in> set FULFILLMENT_STATUSES" for k v
    by (auto simp: CASE_STATUS_MAP_def FULFILLMENT_STATUSES_def dict_get_def split: if_splits)
  have "stored_status ws = Some v \<Longrightarrow> v \<in> set FULFILLMENT_STATUSES" for v
    by (auto simp: stored_status_def Let_def split: if_splits)
  then show ?thesis using s m by (auto simp: derive_fulfillment_status_def Let_def split: option.splits)
qed

text \<open>
  The approvals are stored as \<open>{idempotency_key, approval}\<close> (\<open>record_approval\<close>), but read here as the approval itself:
  an approved choice of a supplier never counts.
\<close>

lemma approved_selection_ignored:
  assumes "\<forall>a \<in> set (jobjects (jlist (jget ws ''approvals''))). dict_keys a = [''idempotency_key'', ''approval'']"
  shows "\<not> (\<exists>a \<in> set (jobjects (jlist (jget ws ''approvals''))).
    jget a ''operation'' = JStr ''select_supplier'' \<and> jget a ''status'' = JStr ''approved'')"
proof -
  have "jget a ''operation'' = JNull" if k: "dict_keys a = [''idempotency_key'', ''approval'']" for a
  proof -
    have "''operation'' \<notin> set (dict_keys a)" by (simp add: k)
    then show ?thesis by (simp add: jget_def dict_get_or_absent dict_get_absent)
  qed
  then show ?thesis using assms by auto
qed

end
