(* ===== verification/Batches.thy ===== *)
theory Batches
  imports Manager_Service
begin

text \<open>
  The purchase batches of a case (\<open>app/agents/procurement_manager_agent/batches.py\<close>): the sources of a line, from the
  stock, from the lines of order drafts or from the suppliers of its coverage, each cut into lengths when the unit is a
  metre.  The positions are the ORM objects; \<open>line_hash\<close> is Python's \<open>hash\<close> of the line id, which differs
  between processes; a float is its number.  The label of a piece, which only shows its index, is left out.
\<close>

section \<open>Lengths\<close>

definition METER_Q :: rat where "METER_Q = 1 / 10"

definition UNIT_M :: string where
  "UNIT_M =
    [CHR 0xD0, CHR 0xBC]"

definition UNIT_M_DOT :: string where
  "UNIT_M_DOT =
    [CHR 0xD0, CHR 0xBC, CHR 0x2E]"

definition UNIT_PM :: string where
  "UNIT_PM =
    [CHR 0xD0, CHR 0xBF, CHR 0xD0, CHR 0xBC]"

definition UNIT_P_M :: string where
  "UNIT_P_M =
    [CHR 0xD0, CHR 0xBF, CHR 0x2E, CHR 0xD0, CHR 0xBC]"

definition UNIT_P_M_DOT :: string where
  "UNIT_P_M_DOT =
    [CHR 0xD0, CHR 0xBF, CHR 0x2E, CHR 0xD0, CHR 0xBC, CHR 0x2E]"

definition UNIT_M_P :: string where
  "UNIT_M_P =
    [CHR 0xD0, CHR 0xBC, CHR 0x2E, CHR 0xD0, CHR 0xBF]"

definition UNIT_M_P_DOT :: string where
  "UNIT_M_P_DOT =
    [CHR 0xD0, CHR 0xBC, CHR 0x2E, CHR 0xD0, CHR 0xBF, CHR 0x2E]"

definition STOREHOUSE :: string where
  "STOREHOUSE =
    [CHR 0xD0, CHR 0xA1, CHR 0xD0, CHR 0xBA, CHR 0xD0, CHR 0xBB, CHR 0xD0, CHR 0xB0, CHR 0xD0, CHR
     0xB4]"
definition METER_UNITS :: "string list" where
  "METER_UNITS = [UNIT_M, ''m'', UNIT_M_DOT, UNIT_PM, UNIT_P_M, UNIT_P_M_DOT, UNIT_M_P, UNIT_M_P_DOT, ''meter'', ''meters'',
     ''metre'', ''metres'']"

text \<open>\<open>text.replace(yo, ye)\<close> on the two bytes of the Cyrillic letters.\<close>

fun yo_to_ye :: "string \<Rightarrow> string" where
  "yo_to_ye (a # b # cs) =
     (if a = CHR 0xD1 \<and> b = CHR 0x91 then CHR 0xD0 # CHR 0xB5 # yo_to_ye cs else a # yo_to_ye (b # cs))"
| "yo_to_ye cs = cs"

definition is_meter_unit :: "string option \<Rightarrow> bool" where
  "is_meter_unit unit \<longleftrightarrow> yo_to_ye (casefold (py_strip (opt_str unit))) \<in> set METER_UNITS"

definition quantity_dec :: "json \<Rightarrow> rat" where
  "quantity_dec v = (if jtruthy v then (case jdecimal v of Some x \<Rightarrow> x | None \<Rightarrow> 0) else 0)"

definition quantize_m :: "rat \<Rightarrow> rat" where
  "quantize_m x = quantize_half_up METER_Q x"

definition PIECE_BASES :: "rat list" where
  "PIECE_BASES = [51 / 10, 63 / 10, 48 / 10, 72 / 10, 56 / 10, 6, 45 / 10, 68 / 10]"

text \<open>The length at an index of the cycle, with the jitter of the next index.\<close>

definition piece_length :: "nat \<Rightarrow> rat" where
  "piece_length idx =
     (let candidate = quantize_m (PIECE_BASES ! (idx mod 8) + of_int (int ((idx + 1) mod 5) - 2) / 10)
      in if candidate < 3 then 45 / 10 else candidate)"

text \<open>The loop, with its own bound on the number of cuts: the pieces and what remains.\<close>

fun cut_pieces :: "nat \<Rightarrow> nat \<Rightarrow> rat \<Rightarrow> rat list \<times> rat" where
  "cut_pieces 0 idx remaining = ([], remaining)"
| "cut_pieces (Suc n) idx remaining =
     (let candidate = piece_length idx
      in if remaining \<le> 3 \<or> remaining \<le> candidate \<or> remaining - candidate < 2 then ([], remaining)
         else (case cut_pieces n (idx + 1) (quantize_m (remaining - candidate)) of
                 (pieces, rest) \<Rightarrow> (candidate # pieces, rest)))"

definition generated_pieces :: "int \<Rightarrow> rat \<Rightarrow> rat list" where
  "generated_pieces seed need =
     (if need \<le> 3 then [quantize_m need]
      else (case cut_pieces 40 (nat (\<bar>seed\<bar> mod 8)) need of
        (cuts, remaining) \<Rightarrow>
          (let pieces = cuts @ (if 0 < remaining then [quantize_m remaining] else []);
               drift = quantize_m (need - sum_list pieces)
           in if pieces = [] then [quantize_m need]
              else filter (\<lambda>p. 0 < p)
                (if drift \<noteq> 0 then butlast pieces @ [quantize_m (last pieces + drift)] else pieces))))"

definition explicit_pieces :: "json list \<Rightarrow> rat list" where
  "explicit_pieces explicit = map quantize_m (filter (\<lambda>x. 0 < x) (map quantity_dec explicit))"

definition split_meter_pieces :: "rat \<Rightarrow> int \<Rightarrow> json list \<Rightarrow> rat list" where
  "split_meter_pieces need seed explicit =
     (let pieces = explicit_pieces explicit; total_explicit = sum_list pieces
      in if need \<le> 0 then []
         else if pieces \<noteq> [] \<and> \<bar>total_explicit - need\<bar> \<le> 5 / 100 then
           (let tail_piece = quantize_m (need - sum_list (butlast pieces))
            in if 0 < tail_piece then butlast pieces @ [tail_piece] else pieces)
         else if pieces \<noteq> [] \<and> total_explicit < need \<and> 0 < quantize_m (need - total_explicit) then
           pieces @ [quantize_m (need - total_explicit)]
         else generated_pieces seed need)"

section \<open>Batches\<close>

record batch_position =
  bp_line_id :: string
  bp_unit :: "string option"
  bp_quantity :: rat
  bp_required :: "string option"
  bp_cancelled :: bool
  bp_meter_pieces :: json

record batch =
  bt_no :: nat
  bt_line_id :: string
  bt_quantity :: rat
  bt_required :: json
  bt_supplier_id :: json
  bt_supplier_name :: json
  bt_source :: string
  bt_arrival :: json
  bt_lead_days :: json
  bt_ship_date :: json
  bt_meets_deadline :: json
  bt_unit :: "string option"
  bt_unit_price :: json
  bt_piece_index :: "nat option"
  bt_is_piece :: bool

definition setdefault :: "string \<Rightarrow> json \<Rightarrow> jdict \<Rightarrow> jdict" where
  "setdefault k v d = (if k \<in> set (dict_keys d) then d else d @ [(k, v)])"

definition po_draft_body :: "jdict \<Rightarrow> jdict option" where
  "po_draft_body item =
     (if ''draft'' \<in> set (dict_keys item) then (case jget item ''draft'' of JObj d \<Rightarrow> Some d | _ \<Rightarrow> None) else Some item)"

definition po_rows_of :: "jdict \<Rightarrow> (string \<times> jdict) list" where
  "po_rows_of draft =
     List.map_filter (\<lambda>line. let line_id = jtext (jget line ''line_id'')
       in if line_id = [] then None
          else Some (line_id, setdefault ''supplier_name'' (jor (jget draft ''supplier_name'') (jget draft ''supplier''))
            (setdefault ''supplier_id'' (jget draft ''supplier_id'') line)))
       (jobjects (jlist (jget draft ''lines'')))"

definition po_lines_by_line_id :: "jdict \<Rightarrow> (string, jdict list) dict" where
  "po_lines_by_line_id ws =
     fold (\<lambda>(line_id, row) d. dict_set line_id (dict_get_or d line_id [] @ [row]) d)
       (concat (map po_rows_of (List.map_filter po_draft_body (jobjects (jlist (jget ws ''purchase_order_drafts'')))))) []"

text \<open>\<open>list(workspace["meter_pieces"][line_id])\<close>, or what the document of the position gives.\<close>

definition explicit_meter_pieces :: "jdict \<Rightarrow> batch_position \<Rightarrow> json list" where
  "explicit_meter_pieces ws p =
     (let stored = (case jget ws ''meter_pieces'' of JObj d \<Rightarrow> jget d (bp_line_id p) | _ \<Rightarrow> JNull)
      in if jtruthy stored then jlist stored else jlist (bp_meter_pieces p))"

definition expand_qty :: "jdict \<Rightarrow> batch_position \<Rightarrow> int \<Rightarrow> rat \<Rightarrow> rat list" where
  "expand_qty ws p seed qty =
     (if \<not> is_meter_unit (bp_unit p) then (if 0 < qty then [qty] else [])
      else split_meter_pieces qty seed (explicit_meter_pieces ws p))"

text \<open>One source of a line: its quantity, its kind, the supplier and the price.\<close>

record batch_source =
  bs_quantity :: rat
  bs_source :: string
  bs_supplier_id :: json
  bs_supplier_name :: json
  bs_unit_price :: json

definition first_used :: "jdict \<Rightarrow> json \<times> json" where
  "first_used cov =
     (case jlist (jget cov ''used_suppliers'') of
        [] \<Rightarrow> (JNull, JNull)
      | JObj s # _ \<Rightarrow> (get_first s [''supplier_id'', ''id''], get_first s [''name'', ''supplier_name''])
      | v # _ \<Rightarrow> (JNull, JStr (jstr v)))"

definition po_source :: "rat \<Rightarrow> rat \<Rightarrow> jdict \<Rightarrow> batch_source option" where
  "po_source from_sup need row =
     (let given = jget row ''quantity'';
          qty = (if jtruthy given then quantity_dec given else if from_sup \<noteq> 0 then from_sup else need)
      in if qty \<le> 0 then None
         else Some \<lparr>bs_quantity = qty, bs_source = ''supplier'', bs_supplier_id = jget row ''supplier_id'',
           bs_supplier_name = jget row ''supplier_name'', bs_unit_price = jget row ''unit_price''\<rparr>)"

definition line_sources :: "(string, jdict list) dict \<Rightarrow> jdict \<Rightarrow> batch_position \<Rightarrow> batch_source list" where
  "line_sources po_by_line cov p =
     (let need = bp_quantity p;
          from_wh = quantity_dec (get_first cov [''from_warehouse'', ''warehouse_qty'']);
          from_sup = quantity_dec (get_first cov [''from_supplier'', ''supplier_qty'']);
          source = (if jtruthy (jget cov ''coverage_source'') then jstr (jget cov ''coverage_source'') else ''none'');
          rows = dict_get_or po_by_line (bp_line_id p) []
      in (if 0 < from_wh then [\<lparr>bs_quantity = from_wh, bs_source = ''warehouse'', bs_supplier_id = JNull,
            bs_supplier_name = JStr STOREHOUSE, bs_unit_price = JNull\<rparr>] else []) @
         (if rows \<noteq> [] then List.map_filter (po_source from_sup need) rows
          else if 0 < from_sup \<or> source \<in> {''supplier'', ''mixed''} then
            [\<lparr>bs_quantity = (if 0 < from_sup then from_sup else need), bs_source = ''supplier'',
              bs_supplier_id = fst (first_used cov), bs_supplier_name = snd (first_used cov), bs_unit_price = JNull\<rparr>]
          else if from_wh \<le> 0 then
            [\<lparr>bs_quantity = need, bs_source = ''none'', bs_supplier_id = JNull, bs_supplier_name = JNull, bs_unit_price = JNull\<rparr>]
          else []))"

definition batch_of :: "jdict \<Rightarrow> batch_position \<Rightarrow> batch_source \<Rightarrow> nat \<Rightarrow> nat \<Rightarrow> nat \<Rightarrow> rat \<Rightarrow> batch" where
  "batch_of schedule p s pieces no index qty =
     \<lparr>bt_no = no, bt_line_id = bp_line_id p, bt_quantity = qty,
      bt_required = jor (jget schedule ''required_date'') (case bp_required p of Some d \<Rightarrow> JStr d | None \<Rightarrow> JNull),
      bt_supplier_id = bs_supplier_id s, bt_supplier_name = bs_supplier_name s, bt_source = bs_source s,
      bt_arrival = jget schedule ''planned_arrival'', bt_lead_days = jget schedule ''supplier_lead_days'',
      bt_ship_date = jget schedule ''supplier_ship_date'', bt_meets_deadline = jget schedule ''meets_deadline'',
      bt_unit = (if truthy (bp_unit p) then bp_unit p else None), bt_unit_price = bs_unit_price s,
      bt_piece_index = (if is_meter_unit (bp_unit p) \<and> 1 < pieces then Some index else None),
      bt_is_piece = (is_meter_unit (bp_unit p) \<and> 1 < pieces)\<rparr>"

type_synonym batch_state = "batch list \<times> (string, json) dict"

definition emit_pieces :: "jdict \<Rightarrow> jdict \<Rightarrow> batch_position \<Rightarrow> int \<Rightarrow> batch_source \<Rightarrow> batch_state \<Rightarrow> batch_state" where
  "emit_pieces ws schedule p seed s st =
     (let pieces = expand_qty ws p seed (bs_quantity s);
          first_no = length (fst st) + 1;
          rows = map (\<lambda>(i, qty). batch_of schedule p s (length pieces) (first_no + i) (i + 1) qty) (enumerate 0 pieces)
      in (fst st @ rows,
          if is_meter_unit (bp_unit p) \<and> pieces \<noteq> [] then dict_set (bp_line_id p) (JArr (map JDec pieces)) (snd st) else snd st))"

definition coverage_by_line :: "jdict list \<Rightarrow> (string, jdict) dict" where
  "coverage_by_line lines =
     fold (\<lambda>l d. if jtruthy (jget l ''line_id'') then dict_set (jstring (jget l ''line_id'')) l d else d) lines []"

definition batch_position_step ::
  "(string \<Rightarrow> int) \<Rightarrow> jdict \<Rightarrow> (string, jdict) dict \<Rightarrow> nat \<times> batch_position \<Rightarrow> batch_state \<Rightarrow> batch_state" where
  "batch_position_step line_hash ws cov_by_line entry st =
     (case entry of (idx, p) \<Rightarrow>
        if bp_cancelled p \<or> bp_line_id p = [] then st
        else (let schedule = (case jget ws ''line_schedules'' of
                    JObj d \<Rightarrow> (case jget d (bp_line_id p) of JObj s \<Rightarrow> s | _ \<Rightarrow> []) | _ \<Rightarrow> []);
                  seed = \<bar>line_hash (bp_line_id p)\<bar> + int (idx * 17)
              in fold (emit_pieces ws schedule p seed)
                   (line_sources (po_lines_by_line_id ws) (dict_get_or cov_by_line (bp_line_id p) []) p) st))"

definition build_batches_from_coverage ::
  "(string \<Rightarrow> int) \<Rightarrow> batch_position list \<Rightarrow> jdict list \<Rightarrow> jdict \<Rightarrow> batch_state" where
  "build_batches_from_coverage line_hash positions coverage_lines ws =
     fold (batch_position_step line_hash ws (coverage_by_line coverage_lines)) (enumerate 0 positions)
       ([], (case jget ws ''meter_pieces'' of JObj d \<Rightarrow> d | _ \<Rightarrow> []))"

text \<open>The workspace keeps the lengths; the batches are the answer (the code also stores them under \<open>batches\<close>).\<close>

definition sync_batches_workspace ::
  "(string \<Rightarrow> int) \<Rightarrow> batch_position list \<Rightarrow> jdict list \<Rightarrow> jdict \<Rightarrow> batch list \<times> jdict" where
  "sync_batches_workspace line_hash positions coverage_lines ws =
     (let given = (if coverage_lines \<noteq> [] then coverage_lines
            else (case jget ws ''order_coverage'' of JObj d \<Rightarrow> jobjects (jlist (jget d ''lines'')) | _ \<Rightarrow> []))
      in case build_batches_from_coverage line_hash positions given ws of
           (batches, lengths) \<Rightarrow> (batches, if lengths \<noteq> [] then dict_set ''meter_pieces'' (JObj lengths) ws else ws))"

section \<open>Lengths add up\<close>

definition on_grid :: "rat \<Rightarrow> bool" where
  "on_grid x \<longleftrightarrow> (\<exists>n :: int. x = of_int n * METER_Q)"

lemma meter_q: "0 < METER_Q" by (simp add: METER_Q_def)

lemma quantize_m_near: "\<bar>quantize_m x - x\<bar> \<le> 1 / 20"
proof -
  have "quantize_m x - x = (of_int (half_up (x / METER_Q)) - x / METER_Q) * METER_Q"
    by (simp add: quantize_m_def quantize_half_up_def METER_Q_def algebra_simps)
  then have "\<bar>quantize_m x - x\<bar> = \<bar>of_int (half_up (x / METER_Q)) - x / METER_Q\<bar> * METER_Q"
    by (simp only: abs_mult) (simp add: METER_Q_def)
  also have "\<dots> \<le> 1 / 2 * METER_Q" by (intro mult_right_mono half_up_half) (simp add: METER_Q_def)
  finally show ?thesis by (simp add: METER_Q_def)
qed

lemma quantize_m_grid: "on_grid (quantize_m x)"
  by (auto simp: on_grid_def quantize_m_def quantize_half_up_def)

lemma quantize_m_id: "on_grid x \<Longrightarrow> quantize_m x = x"
  unfolding on_grid_def quantize_m_def rnd_unfold using half_up.rnd_multiple [OF meter_q] by auto

lemma grid_add: "on_grid x \<Longrightarrow> on_grid y \<Longrightarrow> on_grid (x + y)"
  unfolding on_grid_def by (metis distrib_right of_int_add)

lemma grid_sum: "\<forall>x \<in> set xs. on_grid x \<Longrightarrow> on_grid (sum_list xs)"
proof (induction xs)
  case Nil
  have "(0 :: rat) = of_int 0 * METER_Q" by simp
  then show ?case unfolding on_grid_def by (metis sum_list.Nil)
qed (simp add: grid_add)

lemma piece_length_bounds: "3 \<le> piece_length idx" "on_grid (piece_length idx)"
proof -
  show "3 \<le> piece_length idx" by (simp add: piece_length_def Let_def)
  have "(45 / 10 :: rat) = of_int 45 * METER_Q" by (simp add: METER_Q_def)
  then have "on_grid (45 / 10)" unfolding on_grid_def by metis
  then show "on_grid (piece_length idx)" by (simp add: piece_length_def Let_def quantize_m_grid)
qed

lemma cut_pieces_grid:
  assumes "cut_pieces n idx remaining = (ps, rest)"
  shows "\<forall>p \<in> set ps. on_grid p \<and> 3 \<le> p"
  using assms
proof (induction n arbitrary: idx remaining ps rest)
  case (Suc n)
  then show ?case using piece_length_bounds by (auto simp: Let_def split: if_splits prod.splits)
qed simp

lemma cut_pieces_rest: "cut_pieces n idx remaining = (ps, rest) \<Longrightarrow> 2 \<le> remaining \<Longrightarrow> 19 / 10 < rest"
proof (induction n arbitrary: idx remaining ps rest)
  case (Suc n)
  show ?case
  proof (cases "remaining \<le> 3 \<or> remaining \<le> piece_length idx \<or> remaining - piece_length idx < 2")
    case True
    then show ?thesis using Suc.prems by (auto simp: Let_def)
  next
    case False
    have "quantize_m 2 = 2"
    proof (rule quantize_m_id)
      have "(2 :: rat) = of_int 20 * METER_Q" by (simp add: METER_Q_def)
      then show "on_grid 2" unfolding on_grid_def by metis
    qed
    moreover have "quantize_m 2 \<le> quantize_m (remaining - piece_length idx)"
      unfolding quantize_m_def rnd_unfold by (rule half_up.rnd_mono [OF meter_q]) (use False in simp)
    ultimately have "2 \<le> quantize_m (remaining - piece_length idx)" by simp
    then show ?thesis using Suc.IH Suc.prems(1) False by (fastforce simp: Let_def split: prod.splits)
  qed
qed auto

lemma cut_pieces_sum:
  assumes "cut_pieces n idx remaining = (ps, rest)"
  shows "on_grid remaining \<Longrightarrow> on_grid rest \<and> sum_list ps + rest = remaining"
    "\<bar>sum_list ps + quantize_m rest - remaining\<bar> \<le> 1 / 20"
proof -
  have grid: "on_grid rest \<and> sum_list ps + rest = remaining" if "cut_pieces n idx remaining = (ps, rest)" "on_grid remaining"
    for n idx remaining ps rest
    using that
  proof (induction n arbitrary: idx remaining ps rest)
    case (Suc n)
    have "on_grid (remaining - piece_length idx)"
      using Suc.prems(2) piece_length_bounds(2) [of idx] unfolding on_grid_def by (metis left_diff_distrib of_int_diff)
    then have "on_grid (quantize_m (remaining - piece_length idx))" "quantize_m (remaining - piece_length idx) = remaining - piece_length idx"
      by (simp_all add: quantize_m_id)
    then show ?case using Suc.IH Suc.prems by (fastforce simp: Let_def split: if_splits prod.splits)
  qed simp
  show "on_grid remaining \<Longrightarrow> on_grid rest \<and> sum_list ps + rest = remaining" by (rule grid [OF assms])
  show "\<bar>sum_list ps + quantize_m rest - remaining\<bar> \<le> 1 / 20"
  proof (cases "ps = []")
    case True
    then have "rest = remaining" using assms by (cases n) (auto simp: Let_def split: if_splits prod.splits)
    then show ?thesis using True quantize_m_near by simp
  next
    case False
    then obtain m qs where m: "cut_pieces m (idx + 1) (quantize_m (remaining - piece_length idx)) = (qs, rest)" "ps = piece_length idx # qs"
      using assms by (cases n) (auto simp: Let_def split: if_splits prod.splits)
    from grid [OF m(1) quantize_m_grid] have "sum_list ps + quantize_m rest - remaining =
        quantize_m (remaining - piece_length idx) - (remaining - piece_length idx)"
      by (simp add: m(2) quantize_m_id)
    then show ?thesis using quantize_m_near by metis
  qed
qed

lemma generated_sum:
  assumes "0 < need"
  shows "\<bar>sum_list (generated_pieces seed need) - need\<bar> \<le> 1 / 20 \<and> (1 / 20 \<le> need \<longrightarrow> (\<forall>p \<in> set (generated_pieces seed need). 0 < p))"
proof (cases "need \<le> 3")
  case True
  have "0 < quantize_m need" if "1 / 20 \<le> need"
  proof -
    have "quantize_m (1 / 20) \<le> quantize_m need" unfolding quantize_m_def rnd_unfold by (rule half_up.rnd_mono [OF meter_q that])
    moreover have "quantize_m (1 / 20) = 1 / 10" by code_simp
    ultimately show ?thesis by simp
  qed
  then show ?thesis using True quantize_m_near by (simp add: generated_pieces_def)
next
  case False
  obtain cuts rest where c: "cut_pieces 40 (nat (\<bar>seed\<bar> mod 8)) need = (cuts, rest)" by fastforce
  have r: "19 / 10 < rest" using cut_pieces_rest [OF c] False by simp
  let ?drift = "quantize_m (need - (sum_list cuts + quantize_m rest))"
  have near: "\<bar>sum_list cuts + quantize_m rest - need\<bar> \<le> 1 / 20" by (rule cut_pieces_sum(2) [OF c])
  have d: "\<bar>?drift - (need - (sum_list cuts + quantize_m rest))\<bar> \<le> 1 / 20" by (rule quantize_m_near)
  have pos: "\<forall>p \<in> set cuts. 0 < p" using cut_pieces_grid [OF c] by fastforce
  have q: "quantize_m (quantize_m rest + ?drift) = quantize_m rest + ?drift" by (intro quantize_m_id grid_add quantize_m_grid)
  have lastpos: "0 < quantize_m rest + ?drift" "0 < quantize_m rest"
    using near d r quantize_m_near [of rest] unfolding abs_le_iff by linarith+
  have g: "generated_pieces seed need = cuts @ [quantize_m rest + ?drift]"
    using False r pos q lastpos by (simp add: generated_pieces_def c Let_def filter_id_conv)
  have "sum_list (generated_pieces seed need) - need = ?drift - (need - (sum_list cuts + quantize_m rest))" by (simp add: g)
  then have "\<bar>sum_list (generated_pieces seed need) - need\<bar> \<le> 1 / 20" using d by presburger
  moreover have "\<forall>p \<in> set (generated_pieces seed need). 0 < p" using pos lastpos by (auto simp: g)
  ultimately show ?thesis by blast
qed

lemma generated_grid: "p \<in> set (generated_pieces seed need) \<Longrightarrow> on_grid p"
proof -
  assume p: "p \<in> set (generated_pieces seed need)"
  obtain cuts rest where c: "cut_pieces 40 (nat (\<bar>seed\<bar> mod 8)) need = (cuts, rest)" by fastforce
  have "\<forall>p \<in> set (cuts @ (if 0 < rest then [quantize_m rest] else [])). on_grid p"
    using cut_pieces_grid [OF c] by (auto simp: quantize_m_grid)
  then show ?thesis using p
    by (auto simp: generated_pieces_def c Let_def quantize_m_grid split: if_splits dest: in_set_butlastD)
qed

lemma explicit_grid: "\<forall>p \<in> set (explicit_pieces explicit). on_grid p \<and> 0 \<le> p"
proof
  fix p assume "p \<in> set (explicit_pieces explicit)"
  then obtain x where "p = quantize_m x" "0 < x" unfolding explicit_pieces_def by auto
  moreover from this have "0 \<le> quantize_m x" unfolding quantize_m_def rnd_unfold by (intro half_up.rnd_nonneg meter_q) simp
  ultimately show "on_grid p \<and> 0 \<le> p" by (simp add: quantize_m_grid)
qed

lemma replaced_tail: "\<bar>sum_list (xs @ [quantize_m (need - sum_list xs)]) - need\<bar> \<le> 1 / 20"
proof -
  have "sum_list (xs @ [quantize_m (need - sum_list xs)]) - need = quantize_m (need - sum_list xs) - (need - sum_list xs)" by simp
  then show ?thesis using quantize_m_near by presburger
qed

definition fair_cut :: "rat \<Rightarrow> bool \<Rightarrow> rat list \<Rightarrow> bool" where
  "fair_cut need made ps \<longleftrightarrow> \<bar>sum_list ps - need\<bar> \<le> 1 / 20 \<and> (\<forall>p \<in> set ps. on_grid p) \<and>
     (\<forall>p \<in> set ps. 0 \<le> p) \<and> (made \<and> 1 / 20 \<le> need \<longrightarrow> (\<forall>p \<in> set ps. 0 < p))"

lemma fair_generated: "0 < need \<Longrightarrow> fair_cut need made (generated_pieces seed need)"
proof -
  assume n: "0 < need"
  have "\<forall>p \<in> set (generated_pieces seed need). 0 \<le> p"
  proof (cases "1 / 20 \<le> need")
    case True
    then show ?thesis using generated_sum [OF n, of seed] by (blast intro: less_imp_le)
  next
    case False
    have "0 \<le> quantize_m need" using half_up.rnd_nonneg [OF meter_q, of need] n by (simp add: quantize_m_def rnd_unfold)
    then show ?thesis using False by (simp add: generated_pieces_def)
  qed
  then show ?thesis using generated_sum [OF n, of seed] generated_grid unfolding fair_cut_def by blast
qed

lemma fair_kept: "\<bar>sum_list (explicit_pieces explicit) - need\<bar> \<le> 5 / 100 \<Longrightarrow> fair_cut need False (explicit_pieces explicit)"
  using explicit_grid unfolding fair_cut_def by simp

lemma fair_extended:
  assumes "set xs \<subseteq> set (explicit_pieces explicit)" "0 < quantize_m (need - sum_list xs)"
  shows "fair_cut need False (xs @ [quantize_m (need - sum_list xs)])"
  unfolding fair_cut_def using assms explicit_grid [of explicit] replaced_tail [of xs need] quantize_m_grid by (auto simp del: sum_list.append)

lemma fair_split: "0 < need \<Longrightarrow> fair_cut need (explicit = []) (split_meter_pieces need seed explicit)"
proof (cases "explicit = []")
  case True
  then show "0 < need \<Longrightarrow> ?thesis" using fair_generated by (simp add: split_meter_pieces_def explicit_pieces_def)
next
  case False
  assume "0 < need"
  moreover have "fair_cut need False (butlast (explicit_pieces explicit) @ [quantize_m (need - sum_list (butlast (explicit_pieces explicit)))])"
    if "0 < quantize_m (need - sum_list (butlast (explicit_pieces explicit)))"
    using that by (intro fair_extended) (auto dest: in_set_butlastD)
  ultimately show ?thesis
    using False fair_generated [of need False seed] fair_kept [of explicit need] fair_extended [of "explicit_pieces explicit" explicit need]
    unfolding split_meter_pieces_def Let_def by (simp del: sum_list.append)
qed

section \<open>Findings\<close>

text \<open>The pieces of 4.04 metres are 4 metres, a cut of 4 centimetres is a piece of no length.\<close>

lemma pieces_not_exact: "sum_list (split_meter_pieces (404 / 100) 0 []) = 4" "split_meter_pieces (4 / 100) 0 [] = [0]"
  by code_simp+

text \<open>Every line of an order draft without a quantity takes all that comes from suppliers.\<close>

lemma order_lines_take_all:
  assumes "jget row ''quantity'' = JNull" "0 < from_sup"
  shows "map_option bs_quantity (po_source from_sup need row) = Some from_sup"
  using assms by (simp add: po_source_def)

section \<open>Properties\<close>



end
